(* ===== verification/Prelude.thy ===== *)
theory Prelude
  imports Main "HOL-Library.AList" "HOL-Library.Product_Lexorder" "HOL-Library.List_Lexorder"
begin

text \<open>
  Shared vocabulary of the development: Python's values as HOL types, insertion-ordered
  dictionaries, stable sorting, string helpers, and the generic notions (reachability, invariants)
  that the component theories instantiate.

  \<^item> \<open>ustr\<close> is a Python \<open>str\<close>: the list of its Unicode code points. A literal is
    written \<open>lit ''abc''\<close>.
  \<^item> \<open>uuid\<close> is the 128-bit number of a UUID. Its canonical hexadecimal form has a fixed width,
    so the order of \<open>str(uuid)\<close> is the order of the numbers.
  \<^item> \<open>instant\<close> is an aware \<open>datetime\<close>, as microseconds since the epoch: aware datetimes are
    compared and subtracted by instant. \<open>seconds\<close> is a \<open>timedelta(seconds=...)\<close>.
  \<^item> \<open>('k, 'v) dict\<close> is a Python dictionary, an association list in insertion order with one
    entry per key; storing at a present key keeps its position.
\<close>

type_synonym ustr = "nat list"
type_synonym uuid = nat
type_synonym instant = int
type_synonym ('k, 'v) dict = "('k \<times> 'v) list"

text \<open>A \<open>datetime\<close> argument: only an aware one denotes an instant.\<close>

datatype py_datetime = Naive int | Aware instant

named_theorems dict_laws \<open>what a dictionary read gives after a dictionary write\<close>
named_theorems result_laws \<open>characterisations of successful results\<close>

definition lit :: "string \<Rightarrow> ustr" where
  "lit s = map of_char s"

definition seconds :: "int \<Rightarrow> int" where
  "seconds n = n * 1000000"

lemma seconds_mono [simp]: "seconds a \<le> seconds b \<longleftrightarrow> a \<le> b"
  by (simp add: seconds_def)

lemma seconds_pos [simp]: "0 < seconds a \<longleftrightarrow> 0 < a"
  by (simp add: seconds_def)

lemma lit_eq [simp]: "lit s = lit t \<longleftrightarrow> s = t"
proof -
  have "inj (of_char :: char \<Rightarrow> nat)" by (rule injI) simp
  then show ?thesis unfolding lit_def by (rule inj_map_eq_map)
qed

lemma lit_Nil [simp]: "lit s = [] \<longleftrightarrow> s = []" "[] = lit s \<longleftrightarrow> s = []"
  by (simp_all add: lit_def)

lemma lit_append: "lit (s @ t) = lit s @ lit t"
  by (simp add: lit_def)

text \<open>The slice \<open>xs[:n]\<close>; a negative bound counts from the end.\<close>

definition py_take :: "int \<Rightarrow> 'a list \<Rightarrow> 'a list" where
  "py_take n xs = (if 0 \<le> n then take (nat n) xs else take (nat (int (length xs) + n)) xs)"

lemma set_py_take_subset: "set (py_take n xs) \<subseteq> set xs"
  by (simp add: py_take_def set_take_subset)

lemma length_py_take: "0 \<le> n \<Longrightarrow> int (length (py_take n xs)) = min n (int (length xs))"
  by (simp add: py_take_def)

text \<open>\<open>str(n)\<close> for \<open>n \<ge> 0\<close> in decimal, and \<open>str(uuid)\<close>: 8-4-4-4-12 hexadecimal digits.\<close>

fun dec_nat :: "nat \<Rightarrow> ustr" where
  "dec_nat n = (if n < 10 then [48 + n] else dec_nat (n div 10) @ [48 + n mod 10])"

declare dec_nat.simps [simp del]

definition dec_int :: "int \<Rightarrow> ustr" where
  "dec_int i = (if i < 0 then 45 # dec_nat (nat (- i)) else dec_nat (nat i))"

definition hex_digit :: "nat \<Rightarrow> nat" where
  "hex_digit d = (if d < 10 then 48 + d else 87 + d)"

fun hex_digits :: "nat \<Rightarrow> nat \<Rightarrow> ustr" where
  "hex_digits 0 n = []"
| "hex_digits (Suc k) n = hex_digits k (n div 16) @ [hex_digit (n mod 16)]"

definition uuid_str :: "uuid \<Rightarrow> ustr" where
  "uuid_str u = (let h = hex_digits 32 u in
     take 8 h @ [45] @ take 4 (drop 8 h) @ [45] @ take 4 (drop 12 h) @ [45] @
     take 4 (drop 16 h) @ [45] @ drop 20 h)"

lemma length_hex_digits [simp]: "length (hex_digits k n) = k"
  by (induction k arbitrary: n) auto

lemma hex_digit_inj: "a < 16 \<Longrightarrow> b < 16 \<Longrightarrow> hex_digit a = hex_digit b \<Longrightarrow> a = b"
  by (auto simp: hex_digit_def split: if_splits)

lemma hex_digits_inj: "a < 16 ^ k \<Longrightarrow> b < 16 ^ k \<Longrightarrow> hex_digits k a = hex_digits k b \<Longrightarrow> a = b"
proof (induction k arbitrary: a b)
  case 0
  then show ?case by simp
next
  case (Suc k)
  from Suc.prems have "a div 16 < 16 ^ k" "b div 16 < 16 ^ k"
    by (simp_all add: less_mult_imp_div_less mult.commute)
  with Suc have "a div 16 = b div 16" by simp
  moreover from Suc.prems have "a mod 16 = b mod 16" by (auto intro: hex_digit_inj)
  ultimately show ?case by (metis div_mult_mod_eq)
qed

lemma length_uuid_str: "length (uuid_str u) = 36"
  by (simp add: uuid_str_def Let_def)

lemma uuid_str_hex:
  "hex_digits 32 u = take 8 (uuid_str u) @ take 4 (drop 9 (uuid_str u)) @
     take 4 (drop 14 (uuid_str u)) @ take 4 (drop 19 (uuid_str u)) @ drop 24 (uuid_str u)"
proof -
  define h where "h = hex_digits 32 u"
  have len: "length h = 32" by (simp add: h_def)
  have piece: "take 4 (drop k h) @ drop (k + 4) h = drop k h" for k
    using append_take_drop_id[of 4 "drop k h"] by (simp add: add.commute)
  have h: "h = take 8 h @ take 4 (drop 8 h) @ take 4 (drop 12 h) @ take 4 (drop 16 h) @ drop 20 h"
    using piece[of 16] piece[of 12] piece[of 8] append_take_drop_id[of 8 h] by simp
  show ?thesis unfolding uuid_str_def Let_def h_def[symmetric] using len h by simp
qed

lemma uuid_str_inj: "a < 2 ^ 128 \<Longrightarrow> b < 2 ^ 128 \<Longrightarrow> uuid_str a = uuid_str b \<Longrightarrow> a = b"
  using hex_digits_inj[of a 32 b] uuid_str_hex[of a] uuid_str_hex[of b] by simp

section \<open>Results\<close>

text \<open>\<open>Inl\<close> is a raised exception, \<open>Inr\<close> a returned value; \<open>bind_result\<close> is sequencing.\<close>

definition bind_result :: "'e + 'a \<Rightarrow> ('a \<Rightarrow> 'e + 'b) \<Rightarrow> 'e + 'b" where
  "bind_result r f = (case r of Inl e \<Rightarrow> Inl e | Inr a \<Rightarrow> f a)"

lemma bind_result_simps [simp]:
  "bind_result (Inl e) f = Inl e"
  "bind_result (Inr a) f = f a"
  by (simp_all add: bind_result_def)

lemma bind_result_Inr [result_laws]:
  "bind_result r f = Inr b \<longleftrightarrow> (\<exists>a. r = Inr a \<and> f a = Inr b)"
  by (cases r) auto

lemma bind_result_Inl:
  "bind_result r f = Inl e \<longleftrightarrow> r = Inl e \<or> (\<exists>a. r = Inr a \<and> f a = Inl e)"
  by (cases r) auto

section \<open>Insertion-ordered dictionaries\<close>

definition dict_get :: "('k, 'v) dict \<Rightarrow> 'k \<Rightarrow> 'v option" where
  "dict_get d k = map_of d k"

definition dict_set :: "'k \<Rightarrow> 'v \<Rightarrow> ('k, 'v) dict \<Rightarrow> ('k, 'v) dict" where
  "dict_set k v d = AList.update k v d"

definition dict_values :: "('k, 'v) dict \<Rightarrow> 'v list" where
  "dict_values d = map snd d"

definition dict_ok :: "('k, 'v) dict \<Rightarrow> bool" where
  "dict_ok d \<longleftrightarrow> distinct (map fst d)"

text \<open>
  The interface of a keyed store: what a client that only reads, writes and walks the entries
  may rely on. The walk \<open>each\<close> is the loop \<open>for k, v in tuple(d.items()): if p(v): d[k] = f(v)\<close>.
\<close>

locale keyed_store =
  fixes empty :: "'s"
    and get :: "'s \<Rightarrow> 'k \<Rightarrow> 'v option"
    and put :: "'k \<Rightarrow> 'v \<Rightarrow> 's \<Rightarrow> 's"
    and items :: "'s \<Rightarrow> ('k \<times> 'v) list"
    and invar :: "'s \<Rightarrow> bool"
  assumes get_empty: "get empty k = None"
    and invar_empty: "invar empty"
    and get_put: "get (put k v s) l = (if l = k then Some v else get s l)"
    and invar_put: "invar s \<Longrightarrow> invar (put k v s)"
    and items_get: "invar s \<Longrightarrow> (k, v) \<in> set (items s) \<longleftrightarrow> get s k = Some v"
    and items_distinct: "invar s \<Longrightarrow> distinct (map fst (items s))"
begin

lemma get_put_same: "get (put k v s) k = Some v"
  by (simp add: get_put)

lemma get_put_other: "l \<noteq> k \<Longrightarrow> get (put k v s) l = get s l"
  by (simp add: get_put)

lemma fold_put_invar:
  "invar s \<Longrightarrow> invar (fold (\<lambda>(k, v) d. if p v then put k (f v) d else d) xs s)"
  by (induction xs arbitrary: s) (auto simp: invar_put)

lemma fold_put_other:
  "l \<notin> fst ` set xs \<Longrightarrow>
     get (fold (\<lambda>(k, v) d. if p v then put k (f v) d else d) xs s) l = get s l"
  by (induction xs arbitrary: s) (auto simp: get_put)

lemma fold_put_at:
  "distinct (map fst xs) \<Longrightarrow> (l, v) \<in> set xs \<Longrightarrow> get s l = Some v \<Longrightarrow>
     get (fold (\<lambda>(k, v) d. if p v then put k (f v) d else d) xs s) l =
       Some (if p v then f v else v)"
proof (induction xs arbitrary: s)
  case Nil
  then show ?case by simp
next
  case (Cons x xs)
  obtain k w where x: "x = (k, w)" by (cases x)
  show ?case
  proof (cases "k = l")
    case True
    with Cons.prems x have "l \<notin> fst ` set xs" by auto
    moreover have "w = v"
    proof -
      have "(l, w) = (l, v) \<or> (l, v) \<in> set xs" using Cons.prems(2) x True by auto
      with \<open>l \<notin> fst ` set xs\<close> show ?thesis by force
    qed
    ultimately show ?thesis
      using Cons.prems x True by (auto simp: fold_put_other get_put)
  next
    case False
    with Cons.prems x have "(l, v) \<in> set xs" by auto
    with Cons x False show ?thesis by (auto simp: get_put)
  qed
qed

lemma get_walk:
  assumes "invar s"
  shows "get (fold (\<lambda>(k, v) d. if p v then put k (f v) d else d) (items s) s) l =
           map_option (\<lambda>v. if p v then f v else v) (get s l)"
proof (cases "get s l")
  case None
  then have "l \<notin> fst ` set (items s)" using items_get[OF assms, of l] by auto
  with None show ?thesis by (simp add: fold_put_other)
next
  case (Some v)
  then have "(l, v) \<in> set (items s)" using items_get[OF assms, of l v] by auto
  then show ?thesis
    using fold_put_at[OF items_distinct[OF assms], of l v s p f] Some by simp
qed

end

lemma dict_get_set: "dict_get (dict_set k v d) l = (if l = k then Some v else dict_get d l)"
  by (simp add: dict_get_def dict_set_def update_conv')

interpretation pydict: keyed_store "[]" dict_get dict_set "\<lambda>d. d" dict_ok
proof unfold_locales
  show "dict_get [] k = None" for k :: 'a
    by (simp add: dict_get_def)
  show "dict_ok []"
    by (simp add: dict_ok_def)
  show "dict_get (dict_set k v d) l = (if l = k then Some v else dict_get d l)"
    for k l :: 'a and v :: 'b and d
    by (rule dict_get_set)
  show "dict_ok (dict_set k v d)" if "dict_ok d" for k :: 'a and v :: 'b and d
    using that by (simp add: dict_ok_def dict_set_def distinct_update)
  show "(k, v) \<in> set d \<longleftrightarrow> dict_get d k = Some v" if "dict_ok d" for k :: 'a and v :: 'b and d
    using that by (simp add: dict_ok_def dict_get_def)
  show "distinct (map fst d)" if "dict_ok d" for d :: "('a, 'b) dict"
    using that by (simp add: dict_ok_def)
qed

declare pydict.get_put [dict_laws, simp]
declare pydict.invar_put [simp, intro] pydict.invar_empty [simp]

lemma dict_values_iff: "dict_ok d \<Longrightarrow> v \<in> set (dict_values d) \<longleftrightarrow> (\<exists>k. dict_get d k = Some v)"
  using pydict.items_get[of d] by (force simp: dict_values_def)

lemma dict_get_in_values: "dict_get d k = Some v \<Longrightarrow> v \<in> set (dict_values d)"
  by (auto simp: dict_values_def dict_get_def dest: map_of_SomeD intro: rev_image_eqI)

lemma dict_set_fresh: "dict_get d k = None \<Longrightarrow> dict_set k v d = d @ [(k, v)]"
  by (induction d) (auto simp: dict_get_def dict_set_def split: if_splits)

lemma dict_values_fresh: "dict_get d k = None \<Longrightarrow> dict_values (dict_set k v d) = dict_values d @ [v]"
  by (simp add: dict_set_fresh dict_values_def)

lemma dict_set_get_same: "dict_get d k = Some v \<Longrightarrow> dict_set k v d = d"
  by (induction d) (auto simp: dict_get_def dict_set_def split: if_splits)

text \<open>A dictionary display or comprehension: the last binding of a key wins.\<close>

lemma dict_get_fold_set:
  "dict_get (fold (\<lambda>x m. dict_set (f x) (g x) m) xs m) k =
     (case filter (\<lambda>x. f x = k) xs of [] \<Rightarrow> dict_get m k | ys \<Rightarrow> Some (g (last ys)))"
  by (induction xs arbitrary: m) (auto split: list.splits)

lemma dict_ok_fold_set: "dict_ok m \<Longrightarrow> dict_ok (fold (\<lambda>x m. dict_set (f x) (g x) m) xs m)"
  by (induction xs arbitrary: m) auto

text \<open>The loop \<open>for k, v in tuple(d.items())\<close> that rewrites the entries satisfying \<open>p\<close>.\<close>

definition dict_walk :: "('v \<Rightarrow> bool) \<Rightarrow> ('v \<Rightarrow> 'v) \<Rightarrow> ('k, 'v) dict \<Rightarrow> ('k, 'v) dict" where
  "dict_walk p f d = fold (\<lambda>(k, v) d. if p v then dict_set k (f v) d else d) d d"

lemma dict_walk_get [dict_laws, simp]:
  "dict_ok d \<Longrightarrow> dict_get (dict_walk p f d) k = map_option (\<lambda>v. if p v then f v else v) (dict_get d k)"
  unfolding dict_walk_def by (rule pydict.get_walk)

lemma dict_walk_ok [simp, intro]: "dict_ok d \<Longrightarrow> dict_ok (dict_walk p f d)"
  unfolding dict_walk_def by (rule pydict.fold_put_invar)

lemma fold_walk_prefix:
  "dict_ok (xs @ ys) \<Longrightarrow>
     fold (\<lambda>(k, v) d. if p v then dict_set k (f v) d else d) ys (xs @ ys) =
       xs @ map (\<lambda>(k, v). (k, if p v then f v else v)) ys"
proof (induction ys arbitrary: xs)
  case Nil
  then show ?case by simp
next
  case (Cons y ys)
  obtain k v where y: "y = (k, v)" by (cases y)
  have fresh: "k \<notin> fst ` set xs" using Cons.prems y by (auto simp: dict_ok_def)
  have upd: "dict_set k (f v) (xs @ (k, v) # ys) = xs @ (k, f v) # ys"
    using fresh by (induction xs) (auto simp: dict_set_def)
  define w where "w = (if p v then f v else v)"
  have step: "(if p v then dict_set k (f v) (xs @ (k, v) # ys) else xs @ (k, v) # ys) =
      (xs @ [(k, w)]) @ ys"
    by (simp add: upd w_def)
  have "dict_ok ((xs @ [(k, w)]) @ ys)" using Cons.prems y by (simp add: dict_ok_def)
  from Cons.IH[OF this] show ?case
    using step by (simp add: y w_def split del: if_split)
qed

lemma dict_walk_eq: "dict_ok d \<Longrightarrow> dict_walk p f d = map (\<lambda>(k, v). (k, if p v then f v else v)) d"
  unfolding dict_walk_def using fold_walk_prefix[of "[]" d p f] by simp

lemma dict_values_walk:
  "dict_ok d \<Longrightarrow> dict_values (dict_walk p f d) = map (\<lambda>v. if p v then f v else v) (dict_values d)"
  by (simp add: dict_walk_eq dict_values_def case_prod_unfold comp_def)

text \<open>Projections of the values that neither a walk nor an overwriting store changes.\<close>

lemma filter_values_walk:
  assumes "dict_ok d" and "\<And>v. p v \<Longrightarrow> q (f v) = q v" and "\<And>v. p v \<Longrightarrow> g (f v) = g v"
  shows "map g (filter q (dict_values (dict_walk p f d))) = map g (filter q (dict_values d))"
proof -
  have "map g (filter q (map (\<lambda>v. if p v then f v else v) vs)) = map g (filter q vs)" for vs
    using assms(2,3) by (induction vs) auto
  then show ?thesis by (simp add: dict_values_walk assms(1))
qed

lemma filter_values_overwrite:
  assumes "dict_get d k = Some w" and "q v = q w" and "g v = g w"
  shows "map g (filter q (dict_values (dict_set k v d))) = map g (filter q (dict_values d))"
  using assms by (induction d) (auto simp: dict_get_def dict_set_def dict_values_def split: if_splits)

section \<open>Stable sorting and first matches\<close>

text \<open>
  \<open>sorted(xs, key=f)\<close> is stable; with \<open>reverse=True\<close> elements of equal key keep their
  order too, which is the reversal of a stable sort of the reversed list.
\<close>

definition sorted_by :: "('a \<Rightarrow> 'b::linorder) \<Rightarrow> 'a list \<Rightarrow> 'a list" where
  "sorted_by f xs = sort_key f xs"

definition sorted_by_desc :: "('a \<Rightarrow> 'b::linorder) \<Rightarrow> 'a list \<Rightarrow> 'a list" where
  "sorted_by_desc f xs = rev (sort_key f (rev xs))"

lemma set_sorted_by [simp]: "set (sorted_by f xs) = set xs"
  by (simp add: sorted_by_def)

lemma set_sorted_by_desc [simp]: "set (sorted_by_desc f xs) = set xs"
  by (simp add: sorted_by_desc_def)

lemma length_sorted_by [simp]: "length (sorted_by f xs) = length xs"
  by (simp add: sorted_by_def)

lemma length_sorted_by_desc [simp]: "length (sorted_by_desc f xs) = length xs"
  by (simp add: sorted_by_desc_def)

lemma sorted_by_sorted: "sorted (map f (sorted_by f xs))"
  by (simp add: sorted_by_def)

lemma sorted_by_desc_sorted: "sorted_wrt (\<ge>) (map f (sorted_by_desc f xs))"
proof -
  have "sorted_wrt (\<le>) (map f (sort_key f (rev xs)))" by simp
  then show ?thesis
    by (simp add: sorted_by_desc_def rev_map[symmetric] sorted_wrt_rev)
qed

lemma filter_sorted_by_desc_key:
  "filter (\<lambda>x. f x = k) (sorted_by_desc f xs) = filter (\<lambda>x. f x = k) xs"
proof -
  have "filter (\<lambda>x. f x = k) (sort_key f (rev xs)) = filter (\<lambda>x. f x = k) (rev xs)"
    by (rule sort_key_stable)
  then show ?thesis
    by (simp add: sorted_by_desc_def rev_filter[symmetric])
qed

lemma distinct_sorted_by_desc [simp]: "distinct (sorted_by_desc f xs) \<longleftrightarrow> distinct xs"
  by (simp add: sorted_by_desc_def)

lemma find_Some_iff_mem: "find p xs = Some x \<Longrightarrow> x \<in> set xs \<and> p x"
  by (induction xs) (auto split: if_splits)

lemma find_None_all: "find p xs = None \<longleftrightarrow> (\<forall>x \<in> set xs. \<not> p x)"
  by (induction xs) auto

lemma find_append_hit: "find p xs = None \<Longrightarrow> p x \<Longrightarrow> find p (xs @ x # ys) = Some x"
  by (induction xs) (auto split: if_splits)

section \<open>Text\<close>

text \<open>\<open>str.strip\<close> and \<open>str.isspace\<close>: the white space of CPython's Unicode database.\<close>

definition is_space :: "nat \<Rightarrow> bool" where
  "is_space c \<longleftrightarrow> 9 \<le> c \<and> c \<le> 13 \<or> 28 \<le> c \<and> c \<le> 32 \<or> c = 133 \<or> c = 160 \<or> c = 5760 \<or>
     8192 \<le> c \<and> c \<le> 8202 \<or> c = 8232 \<or> c = 8233 \<or> c = 8239 \<or> c = 8287 \<or> c = 12288"

definition strip :: "ustr \<Rightarrow> ustr" where
  "strip s = rev (dropWhile is_space (rev (dropWhile is_space s)))"

text \<open>
  \<open>str.casefold\<close>, exact for every character whose folding contains an ASCII character; the
  remaining characters fold to strings without ASCII characters and are left as they are, so a test
  for an ASCII substring, or for equality with an ASCII string, has Python's answer.
\<close>

definition fold_char :: "nat \<Rightarrow> ustr" where
  "fold_char c =
     (if 65 \<le> c \<and> c \<le> 90 then [c + 32]
      else if c = 223 \<or> c = 7838 then [115, 115]
      else if c = 304 then [105, 775]
      else if c = 329 then [700, 110]
      else if c = 383 then [115]
      else if c = 496 then [106, 780]
      else if c = 7830 then [104, 817]
      else if c = 7831 then [116, 776]
      else if c = 7832 then [119, 778]
      else if c = 7833 then [121, 778]
      else if c = 7834 then [97, 702]
      else if c = 8490 then [107]
      else if c = 64256 then [102, 102]
      else if c = 64257 then [102, 105]
      else if c = 64258 then [102, 108]
      else if c = 64259 then [102, 102, 105]
      else if c = 64260 then [102, 102, 108]
      else if c = 64261 \<or> c = 64262 then [115, 116]
      else [c])"

definition casefold :: "ustr \<Rightarrow> ustr" where
  "casefold s = concat (map fold_char s)"

fun contains :: "ustr \<Rightarrow> ustr \<Rightarrow> bool" where
  "contains p [] \<longleftrightarrow> p = []"
| "contains p (c # s) \<longleftrightarrow> take (length p) (c # s) = p \<or> contains p s"

definition starts_with :: "ustr \<Rightarrow> ustr \<Rightarrow> bool" where
  "starts_with p s \<longleftrightarrow> take (length p) s = p"

definition ends_with :: "ustr \<Rightarrow> ustr \<Rightarrow> bool" where
  "ends_with p s \<longleftrightarrow> length p \<le> length s \<and> drop (length s - length p) s = p"

lemma contains_iff: "contains p s \<longleftrightarrow> (\<exists>u v. s = u @ p @ v)"
proof (induction s)
  case Nil
  then show ?case by simp
next
  case (Cons c s)
  have "take (length p) (c # s) = p \<longleftrightarrow> (\<exists>v. c # s = p @ v)"
    by (metis append_eq_conv_conj append_take_drop_id)
  moreover have "(\<exists>u v. c # s = u @ p @ v) \<longleftrightarrow> (\<exists>v. c # s = p @ v) \<or> (\<exists>u v. s = u @ p @ v)"
    by (metis (no_types, opaque_lifting) append_Cons append_Nil list.exhaust list.inject)
  ultimately show ?case using Cons.IH by simp
qed

lemma length_strip_le: "length (strip s) \<le> length s"
  by (metis length_dropWhile_le length_rev order_trans strip_def)

lemma dropWhile_hd: "dropWhile p xs = [] \<or> \<not> p (hd (dropWhile p xs))"
  by (induction xs) auto

lemma strip_ends: "strip s \<noteq> [] \<Longrightarrow> \<not> is_space (hd (strip s)) \<and> \<not> is_space (last (strip s))"
proof -
  assume ne: "strip s \<noteq> []"
  define t where "t = dropWhile is_space s"
  define u where "u = dropWhile is_space (rev t)"
  have s: "strip s = rev u" by (simp add: strip_def t_def u_def)
  with ne have "u \<noteq> []" by simp
  then have last: "\<not> is_space (last (strip s))"
    using dropWhile_hd[of is_space "rev t"] unfolding s u_def[symmetric] by (simp add: last_rev)
  obtain w where "rev t = w @ u" unfolding u_def by (metis takeWhile_dropWhile_id)
  then have t: "t = rev u @ rev w" by (metis rev_append rev_rev_ident)
  with \<open>u \<noteq> []\<close> have "hd (strip s) = hd t" and "t \<noteq> []" by (simp_all add: s)
  then have "\<not> is_space (hd (strip s))"
    using dropWhile_hd[of is_space s] \<open>t \<noteq> []\<close> unfolding t_def[symmetric] by simp
  with last show ?thesis by simp
qed

lemma strip_id:
  assumes "s \<noteq> []" and "\<not> is_space (hd s)" and "\<not> is_space (last s)"
  shows "strip s = s"
proof -
  have "dropWhile is_space s = s" using assms(1,2) by (cases s) auto
  moreover have "dropWhile is_space (rev s) = rev s"
    using assms(1,3) by (cases "rev s") (auto simp: last_rev hd_rev[symmetric])
  ultimately show ?thesis by (simp add: strip_def)
qed

lemma strip_idem [simp]: "strip (strip s) = strip s"
proof (cases "strip s = []")
  case True
  moreover have "strip [] = []" by (simp add: strip_def)
  ultimately show ?thesis by simp
qed (use strip_ends strip_id in blast)

section \<open>Reachability and invariants\<close>

inductive reachable :: "('s \<Rightarrow> bool) \<Rightarrow> ('s \<Rightarrow> 's \<Rightarrow> bool) \<Rightarrow> 's \<Rightarrow> bool"
  for init :: "'s \<Rightarrow> bool" and step :: "'s \<Rightarrow> 's \<Rightarrow> bool" where
  start: "init s \<Longrightarrow> reachable init step s"
| next_state: "reachable init step s \<Longrightarrow> step s t \<Longrightarrow> reachable init step t"

text \<open>A state machine with an inductive invariant; its clients need the invariant only.\<close>

locale state_machine =
  fixes init :: "'s \<Rightarrow> bool" and step :: "'s \<Rightarrow> 's \<Rightarrow> bool" and inv :: "'s \<Rightarrow> bool"
  assumes inv_init: "init s \<Longrightarrow> inv s"
    and inv_step: "inv s \<Longrightarrow> step s t \<Longrightarrow> inv t"
begin

lemma reachable_inv: "reachable init step s \<Longrightarrow> inv s"
  by (induction rule: reachable.induct) (auto intro: inv_init inv_step)

lemma stable_along:
  assumes "step\<^sup>*\<^sup>* s t" and "inv s" and "p s"
    and "\<And>u v. inv u \<Longrightarrow> p u \<Longrightarrow> step u v \<Longrightarrow> p v"
  shows "inv t \<and> p t"
  using assms(1)
proof (induction rule: rtranclp_induct)
  case base
  with assms(2,3) show ?case by simp
next
  case (step u v)
  then show ?case using assms(4) inv_step by blast
qed

end

end
