(* ===== verification/Json.thy ===== *)
theory Json
  imports Complex_Main Prelude
begin

text \<open>
  The JSON values of \<open>cnb_domain.configuration\<close> (\<open>JsonValue\<close>) and their compact rendering by
  \<open>json.dumps(..., ensure_ascii=False)\<close>, which the program uses to bound payloads. A float is
  kept by its value; its decimal rendering \<open>float.__repr__\<close> is the parameter \<open>fr\<close>.
\<close>

datatype json =
    JNull
  | JBool bool
  | JInt int
  | JFloat rat
  | JStr ustr
  | JList "json list"
  | JDict "(ustr \<times> json) list"

type_synonym json_dict = "(ustr, json) dict"

definition json_get :: "json_dict \<Rightarrow> ustr \<Rightarrow> json option" where
  "json_get d k = dict_get d k"

definition as_str :: "json option \<Rightarrow> ustr option" where
  "as_str v = (case v of Some (JStr s) \<Rightarrow> Some s | _ \<Rightarrow> None)"

definition as_dict :: "json option \<Rightarrow> json_dict option" where
  "as_dict v = (case v of Some (JDict d) \<Rightarrow> Some d | _ \<Rightarrow> None)"

lemma as_str_Some [simp]: "as_str v = Some s \<longleftrightarrow> v = Some (JStr s)"
  by (auto simp: as_str_def split: option.splits json.splits)

lemma as_dict_Some [simp]: "as_dict v = Some d \<longleftrightarrow> v = Some (JDict d)"
  by (auto simp: as_dict_def split: option.splits json.splits)

section \<open>Rendering and encoded size\<close>

definition escape_char :: "nat \<Rightarrow> ustr" where
  "escape_char c =
     (if c = 34 \<or> c = 92 then [92, c]
      else if c = 10 then [92, 110]
      else if c = 13 then [92, 114]
      else if c = 9 then [92, 116]
      else if c = 8 then [92, 98]
      else if c = 12 then [92, 102]
      else if c < 32 then [92, 117, 48, 48, hex_digit (c div 16), hex_digit (c mod 16)]
      else [c])"

definition quote_str :: "ustr \<Rightarrow> ustr" where
  "quote_str s = 34 # concat (map escape_char s) @ [34]"

fun join :: "ustr \<Rightarrow> ustr list \<Rightarrow> ustr" where
  "join sep [] = []"
| "join sep [x] = x"
| "join sep (x # y # ys) = x @ sep @ join sep (y # ys)"

fun dumps :: "(rat \<Rightarrow> ustr) \<Rightarrow> ustr \<Rightarrow> ustr \<Rightarrow> json \<Rightarrow> ustr" where
  "dumps fr isep ksep JNull = lit ''null''"
| "dumps fr isep ksep (JBool b) = (if b then lit ''true'' else lit ''false'')"
| "dumps fr isep ksep (JInt i) = dec_int i"
| "dumps fr isep ksep (JFloat q) = fr q"
| "dumps fr isep ksep (JStr s) = quote_str s"
| "dumps fr isep ksep (JList vs) = 91 # join isep (map (dumps fr isep ksep) vs) @ [93]"
| "dumps fr isep ksep (JDict kvs) =
     123 # join isep (map (\<lambda>(k, v). quote_str k @ ksep @ dumps fr isep ksep v) kvs) @ [125]"

definition utf8_width :: "nat \<Rightarrow> nat" where
  "utf8_width c = (if c < 128 then 1 else if c < 2048 then 2 else if c < 65536 then 3 else 4)"

definition utf8_length :: "ustr \<Rightarrow> nat" where
  "utf8_length s = sum_list (map utf8_width s)"

text \<open>\<open>json.dumps(v, ensure_ascii=False, separators=(",", ":"))\<close> and with default separators.\<close>

definition dumps_compact :: "(rat \<Rightarrow> ustr) \<Rightarrow> json \<Rightarrow> ustr" where
  "dumps_compact fr = dumps fr (lit '','') (lit '':'')"

definition dumps_default :: "(rat \<Rightarrow> ustr) \<Rightarrow> json \<Rightarrow> ustr" where
  "dumps_default fr = dumps fr (lit '', '') (lit '': '')"

lemma utf8_length_append [simp]: "utf8_length (s @ t) = utf8_length s + utf8_length t"
  by (simp add: utf8_length_def)

lemma length_le_utf8_length: "length s \<le> utf8_length s"
  by (induction s) (auto simp: utf8_length_def utf8_width_def)

section \<open>Key paths of a value\<close>

text \<open>
  The objects reached from an object through nested objects and through the object elements of
  nested lists: the objects whose keys \<open>_reject_sensitive_keys\<close> inspects (a list directly
  inside a list is not entered).
\<close>

fun dict_elems :: "json list \<Rightarrow> json_dict list" where
  "dict_elems [] = []"
| "dict_elems (JDict d # vs) = d # dict_elems vs"
| "dict_elems (_ # vs) = dict_elems vs"

definition child_dicts :: "json \<Rightarrow> json_dict list" where
  "child_dicts v = (case v of JDict d \<Rightarrow> [d] | JList vs \<Rightarrow> dict_elems vs | _ \<Rightarrow> [])"

lemma dict_elems_iff: "d \<in> set (dict_elems vs) \<longleftrightarrow> JDict d \<in> set vs"
  by (induction vs rule: dict_elems.induct) auto

inductive inspected :: "json_dict \<Rightarrow> json_dict \<Rightarrow> bool" for root :: json_dict where
  root: "inspected root root"
| child: "inspected root d \<Longrightarrow> (k, v) \<in> set d \<Longrightarrow> d' \<in> set (child_dicts v) \<Longrightarrow> inspected root d'"

definition json_dict_size :: "json_dict \<Rightarrow> nat" where
  "json_dict_size d = size (JDict d)"

lemma child_dicts_size: "d' \<in> set (child_dicts v) \<Longrightarrow> size (JDict d') \<le> size v"
proof (cases v)
  case (JList vs)
  assume "d' \<in> set (child_dicts v)"
  with JList have "JDict d' \<in> set vs" by (simp add: child_dicts_def dict_elems_iff)
  then show ?thesis using JList size_list_estimation'[of "JDict d'" vs "size (JDict d')" size]
    by simp
qed (auto simp: child_dicts_def)

end
