(* ===== verification/Task_Domain.thy ===== *)
theory Task_Domain
  imports Json
begin

text \<open>
  The data of the task subsystem (\<open>packages/domain/.../tasks.py\<close>): the enumerations of kinds and
  life cycles, and the frozen dataclasses of jobs, attempts, inbox and outbox events, scheduled
  actions, budget usages and worker heartbeats. A constructor carries the enumeration's name as
  prefix, a field a short prefix of its class.
\<close>

section \<open>Enumerations\<close>

datatype job_kind =
    REFLECTION | EPISODE_CONSOLIDATION | MEMORY_EXTRACTION | EMBEDDING_REBUILD
  | RELATIONSHIP_UPDATE | SCHEDULED_ACTION | INBOUND_MESSAGE | NOTIFICATION_DELIVERY
  | CHANNEL_CONNECTION_TEST

datatype job_status =
    JOB_PENDING | JOB_RUNNING | JOB_RETRYING | JOB_SUCCEEDED | JOB_FAILED | JOB_DEAD_LETTER
  | JOB_CANCELED

datatype inbox_status =
    INBOX_PENDING | INBOX_PROCESSING | INBOX_COMPLETED | INBOX_DEAD_LETTER | INBOX_CANCELED

datatype outbox_status =
    OUTBOX_PENDING | OUTBOX_PUBLISHING | OUTBOX_PUBLISHED | OUTBOX_RETRYING | OUTBOX_DEAD_LETTER
  | OUTBOX_CANCELED

datatype attempt_status =
    ATTEMPT_RUNNING | ATTEMPT_SUCCEEDED | ATTEMPT_FAILED | ATTEMPT_TIMED_OUT | ATTEMPT_CANCELED

datatype action_kind = FOLLOW_UP | PROACTIVE_MESSAGE | ACTION_REFLECTION

datatype action_status =
    ACTION_PENDING | ACTION_DISPATCHED | ACTION_COMPLETED | ACTION_SUPPRESSED | ACTION_CANCELED
  | ACTION_EXPIRED | ACTION_FAILED

section \<open>Records\<close>

record inbox_event =
  ie_id :: uuid
  ie_tenant_id :: uuid
  ie_event_key :: ustr
  ie_event_type :: ustr
  ie_payload :: json_dict
  ie_status :: inbox_status
  ie_job_id :: uuid
  ie_received_at :: instant
  ie_processed_at :: "instant option"
  ie_last_error_code :: "ustr option"
  ie_agent_id :: "uuid option"
  ie_channel_id :: "uuid option"
  ie_schema_version :: "ustr option"
  ie_platform :: "ustr option"
  ie_external_event_digest :: "ustr option"
  ie_external_subject_digest :: "ustr option"
  ie_external_conversation_digest :: "ustr option"
  ie_external_thread_digest :: "ustr option"
  ie_external_message_digest :: "ustr option"
  ie_user_id :: "uuid option"
  ie_conversation_id :: "uuid option"
  ie_content_kinds :: "ustr list"
  ie_content_block_count :: int

record background_job =
  bj_id :: uuid
  bj_tenant_id :: uuid
  bj_kind :: job_kind
  bj_queue :: ustr
  bj_status :: job_status
  bj_payload :: json_dict
  bj_deduplication_key :: ustr
  bj_source_inbox_id :: "uuid option"
  bj_correlation_id :: "ustr option"
  bj_attempt_count :: int
  bj_max_attempts :: int
  bj_lease_seconds :: int
  bj_retry_base_seconds :: int
  bj_available_at :: instant
  bj_lease_owner :: "ustr option"
  bj_lease_expires_at :: "instant option"
  bj_cancel_requested_at :: "instant option"
  bj_last_error_code :: "ustr option"
  bj_last_error_summary :: "ustr option"
  bj_result_summary :: json_dict
  bj_replayed_from_id :: "uuid option"
  bj_created_by :: "uuid option"
  bj_created_at :: instant
  bj_started_at :: "instant option"
  bj_completed_at :: "instant option"
  bj_updated_at :: instant
  bj_agent_id :: "uuid option"

record outbox_event =
  oe_id :: uuid
  oe_tenant_id :: uuid
  oe_job_id :: uuid
  oe_event_type :: ustr
  oe_payload :: json_dict
  oe_status :: outbox_status
  oe_attempt_count :: int
  oe_max_attempts :: int
  oe_available_at :: instant
  oe_lease_owner :: "ustr option"
  oe_lease_expires_at :: "instant option"
  oe_last_error_code :: "ustr option"
  oe_created_at :: instant
  oe_published_at :: "instant option"
  oe_updated_at :: instant

record job_attempt =
  ja_id :: uuid
  ja_tenant_id :: uuid
  ja_job_id :: uuid
  ja_attempt_number :: int
  ja_status :: attempt_status
  ja_worker_id :: ustr
  ja_started_at :: instant
  ja_completed_at :: "instant option"
  ja_error_code :: "ustr option"
  ja_error_summary :: "ustr option"

record job_claim =
  jc_job :: background_job
  jc_attempt :: job_attempt

text \<open>A \<open>date\<close> is its day number; a score is a finite double, given by its value.\<close>

type_synonym date = int

record scheduled_action =
  sa_id :: uuid
  sa_tenant_id :: uuid
  sa_agent_id :: uuid
  sa_user_id :: uuid
  sa_conversation_id :: "uuid option"
  sa_kind :: action_kind
  sa_status :: action_status
  sa_scheduled_for :: instant
  sa_expires_at :: "instant option"
  sa_idempotency_key :: ustr
  sa_reason :: ustr
  sa_payload :: json_dict
  sa_score :: "rat option"
  sa_social_cost :: int
  sa_decision_reasons :: "ustr list"
  sa_job_id :: "uuid option"
  sa_created_by :: uuid
  sa_created_at :: instant
  sa_updated_at :: instant
  sa_completed_at :: "instant option"

record budget_usage =
  bu_id :: uuid
  bu_tenant_id :: uuid
  bu_agent_id :: uuid
  bu_user_id :: uuid
  bu_budget_date :: date
  bu_scheduled_action_id :: uuid
  bu_cost :: int
  bu_created_at :: instant

record worker_heartbeat =
  wh_worker_id :: ustr
  wh_queues :: "ustr list"
  wh_current_job_id :: "uuid option"
  wh_started_at :: instant
  wh_last_seen_at :: instant

record task_counts =
  tc_pending :: nat
  tc_running :: nat
  tc_retrying :: nat
  tc_dead_letters :: nat
  tc_scheduled :: nat

text \<open>The result of the proactive policy (\<open>ProactiveDecision\<close> of \<open>cnb_cognition.proactive\<close>).\<close>

record proactive_decision =
  pd_approved :: bool
  pd_score :: rat
  pd_reasons :: "ustr list"

section \<open>Fixed texts\<close>

definition lease_expired :: ustr where
  "lease_expired = lit ''LeaseExpired''"

definition lease_recovered_summary :: ustr where
  "lease_recovered_summary = [87, 111, 114, 107, 101, 114, 32, 31199, 32422, 36807, 26399,
     65292, 20219, 21153, 24050, 30001, 24674, 22797, 22120, 25509, 31649, 12290]"

definition lease_expired_summary :: ustr where
  "lease_expired_summary = [87, 111, 114, 107, 101, 114, 32, 31199, 32422, 36807, 26399, 12290]"

definition execution_failed_summary :: ustr where
  "execution_failed_summary = [20219, 21153, 25191, 34892, 22833, 36133, 65307, 35814, 32454,
     24322, 24120, 20165, 20445, 30041, 22312, 21463, 25511, 26085, 24535, 20013, 12290]"

section \<open>Classes of states\<close>

definition job_terminal :: "job_status \<Rightarrow> bool" where
  "job_terminal st \<longleftrightarrow> st = JOB_SUCCEEDED \<or> st = JOB_FAILED \<or> st = JOB_DEAD_LETTER \<or> st = JOB_CANCELED"

definition job_claimable :: "job_status \<Rightarrow> bool" where
  "job_claimable st \<longleftrightarrow> st = JOB_PENDING \<or> st = JOB_RETRYING"

definition outbox_claimable :: "outbox_status \<Rightarrow> bool" where
  "outbox_claimable st \<longleftrightarrow> st = OUTBOX_PENDING \<or> st = OUTBOX_RETRYING"

definition inbox_processed :: "inbox_status \<Rightarrow> bool" where
  "inbox_processed st \<longleftrightarrow> st = INBOX_COMPLETED \<or> st = INBOX_DEAD_LETTER \<or> st = INBOX_CANCELED"

text \<open>Every job status is terminal, claimable or running, and only one of the three.\<close>

lemma job_status_classes [simp]:
  "job_terminal JOB_SUCCEEDED" "job_terminal JOB_FAILED" "job_terminal JOB_DEAD_LETTER"
  "job_terminal JOB_CANCELED" "\<not> job_terminal JOB_PENDING" "\<not> job_terminal JOB_RUNNING"
  "\<not> job_terminal JOB_RETRYING"
  "job_claimable JOB_PENDING" "job_claimable JOB_RETRYING" "\<not> job_claimable JOB_RUNNING"
  "\<not> job_claimable JOB_SUCCEEDED" "\<not> job_claimable JOB_FAILED" "\<not> job_claimable JOB_DEAD_LETTER"
  "\<not> job_claimable JOB_CANCELED"
  by (simp_all add: job_terminal_def job_claimable_def)

lemma job_status_partition:
  "job_terminal st \<or> job_claimable st \<or> st = JOB_RUNNING"
  by (cases st) simp_all

lemma terminal_not_claimable: "job_terminal st \<Longrightarrow> \<not> job_claimable st \<and> st \<noteq> JOB_RUNNING"
  by (cases st) simp_all

lemma outbox_status_classes [simp]:
  "outbox_claimable OUTBOX_PENDING" "outbox_claimable OUTBOX_RETRYING"
  "\<not> outbox_claimable OUTBOX_PUBLISHING" "\<not> outbox_claimable OUTBOX_PUBLISHED"
  "\<not> outbox_claimable OUTBOX_DEAD_LETTER" "\<not> outbox_claimable OUTBOX_CANCELED"
  by (simp_all add: outbox_claimable_def)

end
