(* ===== verification/Task_Store.thy ===== *)
theory Task_Store
  imports Task_Domain
begin

text \<open>
  \<open>InMemoryTaskRepository\<close> (\<open>packages/infrastructure/.../task_repository.py\<close>): the state is the
  record of its dictionaries, and each method, which holds the repository's lock for its whole
  body, is one state transformer \<open>mem_...\<close>. Identifiers drawn with \<open>uuid4()\<close> inside a method are
  arguments. Methods that the code cannot leave by an exception return their value and the new
  state; \<open>mem_enqueue\<close> can raise \<open>KeyError\<close> and returns a sum.
\<close>

record task_store =
  inbox_events :: "(uuid, inbox_event) dict"
  jobs :: "(uuid, background_job) dict"
  outbox_events :: "(uuid, outbox_event) dict"
  attempts :: "(uuid, job_attempt) dict"
  scheduled_actions :: "(uuid, scheduled_action) dict"
  budget_usages :: "(uuid, budget_usage) dict"
  heartbeats :: "(ustr, worker_heartbeat) dict"

definition empty_store :: task_store where
  "empty_store = \<lparr>inbox_events = [], jobs = [], outbox_events = [], attempts = [],
     scheduled_actions = [], budget_usages = [], heartbeats = []\<rparr>"

datatype store_error = KeyError uuid

section \<open>Helpers of the repository\<close>

definition job_by_deduplication :: "task_store \<Rightarrow> uuid \<Rightarrow> ustr \<Rightarrow> background_job option" where
  "job_by_deduplication s tenant_id key =
     find (\<lambda>item. bj_tenant_id item = tenant_id \<and> bj_deduplication_key item = key)
       (dict_values (jobs s))"

definition cancel_outbox_event :: "instant \<Rightarrow> outbox_event \<Rightarrow> outbox_event" where
  "cancel_outbox_event now e = e\<lparr>oe_status := OUTBOX_CANCELED, oe_lease_owner := None,
     oe_lease_expires_at := None, oe_updated_at := now\<rparr>"

definition cancel_outbox :: "uuid \<Rightarrow> instant \<Rightarrow> task_store \<Rightarrow> task_store" where
  "cancel_outbox job_id now s = s\<lparr>outbox_events :=
     dict_walk (\<lambda>e. oe_job_id e = job_id \<and> outbox_claimable (oe_status e))
       (cancel_outbox_event now) (outbox_events s)\<rparr>"

definition set_inbox_status ::
    "background_job \<Rightarrow> inbox_status \<Rightarrow> instant \<Rightarrow> ustr option \<Rightarrow> task_store \<Rightarrow> task_store" where
  "set_inbox_status job st now error_code s =
     (case bj_source_inbox_id job of
        None \<Rightarrow> s
      | Some inbox_id \<Rightarrow>
          (case dict_get (inbox_events s) inbox_id of
             None \<Rightarrow> s
           | Some inbox \<Rightarrow> s\<lparr>inbox_events := dict_set (ie_id inbox)
               (inbox\<lparr>ie_status := st,
                      ie_processed_at := (if inbox_processed st then Some now else None),
                      ie_last_error_code := error_code\<rparr>) (inbox_events s)\<rparr>))"

definition retry_outbox :: "uuid \<Rightarrow> background_job \<Rightarrow> instant \<Rightarrow> outbox_event" where
  "retry_outbox new_id job now =
     \<lparr>oe_id = new_id, oe_tenant_id = bj_tenant_id job, oe_job_id = bj_id job,
      oe_event_type = lit ''background_job.recovered'',
      oe_payload = [(lit ''job_id'', JStr (uuid_str (bj_id job))), (lit ''queue'', JStr (bj_queue job))],
      oe_status = OUTBOX_PENDING, oe_attempt_count = 0, oe_max_attempts = max 5 (bj_max_attempts job),
      oe_available_at = now, oe_lease_owner = None, oe_lease_expires_at = None,
      oe_last_error_code = None, oe_created_at = now, oe_published_at = None, oe_updated_at = now\<rparr>"

section \<open>Creating and reading\<close>

definition mem_enqueue ::
    "background_job \<Rightarrow> outbox_event \<Rightarrow> inbox_event option \<Rightarrow> task_store \<Rightarrow>
       store_error + ((background_job \<times> bool) \<times> task_store)" where
  "mem_enqueue job outbox inbox s =
     (case job_by_deduplication s (bj_tenant_id job) (bj_deduplication_key job) of
        Some existing \<Rightarrow> Inr ((existing, False), s)
      | None \<Rightarrow>
          (let insert_all = (\<lambda>s. Inr ((job, True),
                 s\<lparr>jobs := dict_set (bj_id job) job (jobs s),
                   outbox_events := dict_set (oe_id outbox) outbox (outbox_events s)\<rparr>))
           in case inbox of
                None \<Rightarrow> insert_all s
              | Some ib \<Rightarrow>
                  (case find (\<lambda>item. ie_tenant_id item = ie_tenant_id ib \<and>
                                ie_event_key item = ie_event_key ib) (dict_values (inbox_events s)) of
                     Some duplicate \<Rightarrow>
                       (case dict_get (jobs s) (ie_job_id duplicate) of
                          Some existing \<Rightarrow> Inr ((existing, False), s)
                        | None \<Rightarrow> Inl (KeyError (ie_job_id duplicate)))
                   | None \<Rightarrow> insert_all (s\<lparr>inbox_events := dict_set (ie_id ib) ib (inbox_events s)\<rparr>))))"

definition mem_get_job :: "uuid \<Rightarrow> uuid \<Rightarrow> task_store \<Rightarrow> background_job option" where
  "mem_get_job tenant_id job_id s =
     (case dict_get (jobs s) job_id of
        Some item \<Rightarrow> (if bj_tenant_id item = tenant_id then Some item else None)
      | None \<Rightarrow> None)"

definition mem_get_inbox_event :: "uuid \<Rightarrow> uuid \<Rightarrow> task_store \<Rightarrow> inbox_event option" where
  "mem_get_inbox_event tenant_id inbox_id s =
     (case dict_get (inbox_events s) inbox_id of
        Some item \<Rightarrow> (if ie_tenant_id item = tenant_id then Some item else None)
      | None \<Rightarrow> None)"

definition mem_list_inbox_events ::
    "uuid \<Rightarrow> uuid \<Rightarrow> inbox_status option \<Rightarrow> uuid option \<Rightarrow> int \<Rightarrow> task_store \<Rightarrow> inbox_event list" where
  "mem_list_inbox_events tenant_id agent_id st channel_id limit s =
     py_take limit (sorted_by_desc (\<lambda>item. (ie_received_at item, ie_id item))
       (filter (\<lambda>item. ie_tenant_id item = tenant_id \<and> ie_agent_id item = Some agent_id \<and>
           (st = None \<or> st = Some (ie_status item)) \<and>
           (channel_id = None \<or> ie_channel_id item = channel_id)) (dict_values (inbox_events s))))"

definition mem_list_jobs ::
    "uuid \<Rightarrow> job_status option \<Rightarrow> job_kind option \<Rightarrow> int \<Rightarrow> task_store \<Rightarrow> background_job list" where
  "mem_list_jobs tenant_id st kind limit s =
     py_take limit (sorted_by_desc (\<lambda>item. (bj_created_at item, bj_id item))
       (filter (\<lambda>item. bj_tenant_id item = tenant_id \<and> (st = None \<or> st = Some (bj_status item)) \<and>
           (kind = None \<or> kind = Some (bj_kind item))) (dict_values (jobs s))))"

definition mem_list_notification_jobs ::
    "uuid \<Rightarrow> uuid \<Rightarrow> int \<Rightarrow> task_store \<Rightarrow> background_job list" where
  "mem_list_notification_jobs tenant_id agent_id limit s =
     py_take limit (sorted_by_desc (\<lambda>item. (bj_created_at item, bj_id item))
       (filter (\<lambda>item. bj_tenant_id item = tenant_id \<and> bj_kind item = NOTIFICATION_DELIVERY \<and>
           bj_agent_id item = Some agent_id) (dict_values (jobs s))))"

definition mem_list_attempts :: "uuid \<Rightarrow> uuid \<Rightarrow> task_store \<Rightarrow> job_attempt list" where
  "mem_list_attempts tenant_id job_id s =
     sorted_by ja_attempt_number
       (filter (\<lambda>item. ja_tenant_id item = tenant_id \<and> ja_job_id item = job_id)
          (dict_values (attempts s)))"

definition count_if :: "('a \<Rightarrow> bool) \<Rightarrow> 'a list \<Rightarrow> nat" where
  "count_if p xs = length (filter p xs)"

definition mem_get_counts :: "uuid \<Rightarrow> task_store \<Rightarrow> task_counts" where
  "mem_get_counts tenant_id s =
     (let js = filter (\<lambda>item. bj_tenant_id item = tenant_id) (dict_values (jobs s)) in
      \<lparr>tc_pending = count_if (\<lambda>item. bj_status item = JOB_PENDING) js,
       tc_running = count_if (\<lambda>item. bj_status item = JOB_RUNNING) js,
       tc_retrying = count_if (\<lambda>item. bj_status item = JOB_RETRYING) js,
       tc_dead_letters = count_if (\<lambda>item. bj_status item = JOB_DEAD_LETTER) js,
       tc_scheduled = count_if (\<lambda>item. sa_tenant_id item = tenant_id \<and> sa_status item = ACTION_PENDING)
         (dict_values (scheduled_actions s))\<rparr>)"

section \<open>Cancellation and replay\<close>

definition cancel_requested_job :: "instant \<Rightarrow> background_job \<Rightarrow> background_job" where
  "cancel_requested_job now item =
     (let st = (if bj_status item = JOB_RUNNING then JOB_RUNNING else JOB_CANCELED)
      in item\<lparr>bj_status := st, bj_cancel_requested_at := Some now,
           bj_completed_at := (if st = JOB_CANCELED then Some now else None),
           bj_updated_at := now\<rparr>)"

definition mem_request_cancel ::
    "uuid \<Rightarrow> uuid \<Rightarrow> instant \<Rightarrow> task_store \<Rightarrow> background_job option \<times> task_store" where
  "mem_request_cancel tenant_id job_id now s =
     (case dict_get (jobs s) job_id of
        None \<Rightarrow> (None, s)
      | Some item \<Rightarrow>
          if bj_tenant_id item \<noteq> tenant_id then (None, s)
          else if job_terminal (bj_status item) then (Some item, s)
          else
            let updated = cancel_requested_job now item;
                s1 = s\<lparr>jobs := dict_set job_id updated (jobs s)\<rparr>
            in (Some updated,
                if bj_status updated = JOB_CANCELED
                then set_inbox_status updated INBOX_CANCELED now None (cancel_outbox job_id now s1)
                else s1))"

definition mem_replay ::
    "uuid \<Rightarrow> uuid \<Rightarrow> background_job \<Rightarrow> outbox_event \<Rightarrow> task_store \<Rightarrow>
       background_job option \<times> task_store" where
  "mem_replay tenant_id source_job_id job outbox s =
     (case dict_get (jobs s) source_job_id of
        None \<Rightarrow> (None, s)
      | Some source \<Rightarrow>
          if bj_tenant_id source \<noteq> tenant_id then (None, s)
          else (Some job, s\<lparr>jobs := dict_set (bj_id job) job (jobs s),
                            outbox_events := dict_set (oe_id outbox) outbox (outbox_events s)\<rparr>))"

section \<open>Scheduled actions, budget, heartbeats\<close>

text \<open>
  Scheduled actions, the daily social budget and worker heartbeats of \<open>InMemoryTaskRepository\<close>.
\<close>

definition mem_create_scheduled_action ::
    "scheduled_action \<Rightarrow> background_job \<Rightarrow> outbox_event \<Rightarrow> task_store \<Rightarrow>
       (scheduled_action \<times> bool) \<times> task_store" where
  "mem_create_scheduled_action action job outbox s =
     (case find (\<lambda>item. sa_tenant_id item = sa_tenant_id action \<and>
                    sa_idempotency_key item = sa_idempotency_key action)
             (dict_values (scheduled_actions s)) of
        Some existing \<Rightarrow> ((existing, False), s)
      | None \<Rightarrow> ((action, True),
          s\<lparr>scheduled_actions := dict_set (sa_id action) action (scheduled_actions s),
            jobs := dict_set (bj_id job) job (jobs s),
            outbox_events := dict_set (oe_id outbox) outbox (outbox_events s)\<rparr>))"

definition mem_get_scheduled_action :: "uuid \<Rightarrow> uuid \<Rightarrow> task_store \<Rightarrow> scheduled_action option" where
  "mem_get_scheduled_action tenant_id action_id s =
     (case dict_get (scheduled_actions s) action_id of
        Some item \<Rightarrow> (if sa_tenant_id item = tenant_id then Some item else None)
      | None \<Rightarrow> None)"

definition mem_list_scheduled_actions ::
    "uuid \<Rightarrow> uuid \<Rightarrow> action_status option \<Rightarrow> int \<Rightarrow> task_store \<Rightarrow> scheduled_action list" where
  "mem_list_scheduled_actions tenant_id agent_id st limit s =
     py_take limit (sorted_by_desc (\<lambda>item. (sa_scheduled_for item, sa_id item))
       (filter (\<lambda>item. sa_tenant_id item = tenant_id \<and> sa_agent_id item = agent_id \<and>
           (st = None \<or> st = Some (sa_status item))) (dict_values (scheduled_actions s))))"

definition mem_cancel_scheduled_action ::
    "uuid \<Rightarrow> uuid \<Rightarrow> instant \<Rightarrow> task_store \<Rightarrow> scheduled_action option \<times> task_store" where
  "mem_cancel_scheduled_action tenant_id action_id now s =
     (case dict_get (scheduled_actions s) action_id of
        None \<Rightarrow> (None, s)
      | Some item \<Rightarrow>
          if sa_tenant_id item \<noteq> tenant_id then (None, s)
          else if sa_status item \<noteq> ACTION_PENDING then (Some item, s)
          else
            let updated = item\<lparr>sa_status := ACTION_CANCELED, sa_updated_at := now,
                  sa_completed_at := Some now\<rparr>;
                s1 = s\<lparr>scheduled_actions := dict_set action_id updated (scheduled_actions s)\<rparr>
            in (Some updated,
                case Option.bind (sa_job_id item) (dict_get (jobs s1)) of
                  None \<Rightarrow> s1
                | Some job \<Rightarrow> cancel_outbox (bj_id job) now
                    (s1\<lparr>jobs := dict_set (bj_id job)
                       (job\<lparr>bj_status := JOB_CANCELED, bj_cancel_requested_at := Some now,
                            bj_completed_at := Some now, bj_updated_at := now\<rparr>) (jobs s1)\<rparr>)))"

text \<open>The usages of one agent and user on one day, in the order they were recorded.\<close>

definition usages_of :: "uuid \<Rightarrow> uuid \<Rightarrow> uuid \<Rightarrow> date \<Rightarrow> task_store \<Rightarrow> budget_usage list" where
  "usages_of tenant_id agent_id user_id budget_date s =
     filter (\<lambda>item. bu_tenant_id item = tenant_id \<and> bu_agent_id item = agent_id \<and>
         bu_user_id item = user_id \<and> bu_budget_date item = budget_date)
       (dict_values (budget_usages s))"

definition mem_social_budget_used :: "uuid \<Rightarrow> uuid \<Rightarrow> uuid \<Rightarrow> date \<Rightarrow> task_store \<Rightarrow> int" where
  "mem_social_budget_used tenant_id agent_id user_id budget_date s =
     sum_list (map bu_cost (usages_of tenant_id agent_id user_id budget_date s))"

definition budget_exhausted :: "rat \<Rightarrow> proactive_decision" where
  "budget_exhausted score =
     \<lparr>pd_approved = False, pd_score = score, pd_reasons = [lit ''daily_social_budget_exhausted'']\<rparr>"

definition action_status_of :: "proactive_decision \<Rightarrow> action_status" where
  "action_status_of d =
     (if lit ''action_expired'' \<in> set (pd_reasons d) then ACTION_EXPIRED
      else if pd_approved d then ACTION_DISPATCHED else ACTION_SUPPRESSED)"

text \<open>The budget check made again under the lock: the decision that counts, and the usages.\<close>

definition charge_budget ::
    "proactive_decision \<Rightarrow> budget_usage option \<Rightarrow> int \<Rightarrow> task_store \<Rightarrow> proactive_decision \<times> task_store" where
  "charge_budget decision usage daily_budget s =
     (case usage of
        None \<Rightarrow> (decision, s)
      | Some u \<Rightarrow>
          if mem_social_budget_used (bu_tenant_id u) (bu_agent_id u) (bu_user_id u) (bu_budget_date u) s
               + bu_cost u > daily_budget
          then (budget_exhausted (pd_score decision), s)
          else if bu_scheduled_action_id u \<notin> bu_scheduled_action_id ` set (dict_values (budget_usages s))
          then (decision, s\<lparr>budget_usages := dict_set (bu_id u) u (budget_usages s)\<rparr>)
          else (decision, s))"

definition mem_decide_scheduled_action ::
    "uuid \<Rightarrow> uuid \<Rightarrow> proactive_decision \<Rightarrow> budget_usage option \<Rightarrow> int \<Rightarrow> instant \<Rightarrow> task_store \<Rightarrow>
       scheduled_action option \<times> task_store" where
  "mem_decide_scheduled_action tenant_id action_id decision usage daily_budget now s =
     (case dict_get (scheduled_actions s) action_id of
        None \<Rightarrow> (None, s)
      | Some item \<Rightarrow>
          if sa_tenant_id item \<noteq> tenant_id then (None, s)
          else if sa_status item \<noteq> ACTION_PENDING then (Some item, s)
          else (case charge_budget decision usage daily_budget s of (effective, s1) \<Rightarrow>
            let updated = item\<lparr>sa_status := action_status_of effective,
                  sa_score := Some (pd_score effective), sa_decision_reasons := pd_reasons effective,
                  sa_updated_at := now, sa_completed_at := Some now\<rparr>
            in (Some updated,
                s1\<lparr>scheduled_actions := dict_set action_id updated (scheduled_actions s1)\<rparr>)))"

section \<open>Worker heartbeats\<close>

definition mem_upsert_worker_heartbeat ::
    "worker_heartbeat \<Rightarrow> task_store \<Rightarrow> worker_heartbeat \<times> task_store" where
  "mem_upsert_worker_heartbeat hb s =
     (let stored = (case dict_get (heartbeats s) (wh_worker_id hb) of
                      Some existing \<Rightarrow> hb\<lparr>wh_started_at := wh_started_at existing\<rparr>
                    | None \<Rightarrow> hb)
      in (stored, s\<lparr>heartbeats := dict_set (wh_worker_id hb) stored (heartbeats s)\<rparr>))"

definition mem_list_worker_heartbeats :: "instant \<Rightarrow> task_store \<Rightarrow> worker_heartbeat list" where
  "mem_list_worker_heartbeats since s =
     sorted_by_desc wh_last_seen_at
       (filter (\<lambda>item. wh_last_seen_at item \<ge> since) (dict_values (heartbeats s)))"

end
