(* ===== verification/Task_Lease.thy ===== *)
theory Task_Lease
  imports Task_Store
begin

text \<open>
  The leases of \<open>InMemoryTaskRepository\<close>: claiming a job, renewing, completing and failing an
  attempt, publishing outbox events, and recovering the leases that expired.
\<close>

section \<open>Claiming a job\<close>

definition start_job :: "ustr \<Rightarrow> instant \<Rightarrow> background_job \<Rightarrow> background_job" where
  "start_job worker_id now item = item\<lparr>bj_status := JOB_RUNNING,
     bj_attempt_count := bj_attempt_count item + 1, bj_lease_owner := Some worker_id,
     bj_lease_expires_at := Some (now + seconds (bj_lease_seconds item)),
     bj_started_at := (case bj_started_at item of None \<Rightarrow> Some now | Some t \<Rightarrow> Some t),
     bj_updated_at := now\<rparr>"

definition new_attempt :: "uuid \<Rightarrow> ustr \<Rightarrow> instant \<Rightarrow> background_job \<Rightarrow> job_attempt" where
  "new_attempt attempt_id worker_id now item =
     \<lparr>ja_id = attempt_id, ja_tenant_id = bj_tenant_id item, ja_job_id = bj_id item,
      ja_attempt_number = bj_attempt_count item + 1, ja_status = ATTEMPT_RUNNING,
      ja_worker_id = worker_id, ja_started_at = now, ja_completed_at = None,
      ja_error_code = None, ja_error_summary = None\<rparr>"

definition job_due :: "instant \<Rightarrow> background_job \<Rightarrow> bool" where
  "job_due now item \<longleftrightarrow> job_claimable (bj_status item) \<and> bj_available_at item \<le> now \<and>
     bj_attempt_count item < bj_max_attempts item"

definition cancel_job :: "instant \<Rightarrow> background_job \<Rightarrow> background_job" where
  "cancel_job now item = item\<lparr>bj_status := JOB_CANCELED, bj_completed_at := Some now,
     bj_updated_at := now\<rparr>"

definition mem_claim_job ::
    "uuid \<Rightarrow> ustr \<Rightarrow> instant \<Rightarrow> uuid \<Rightarrow> task_store \<Rightarrow> job_claim option \<times> task_store" where
  "mem_claim_job job_id worker_id now attempt_id s =
     (case dict_get (jobs s) job_id of
        None \<Rightarrow> (None, s)
      | Some item \<Rightarrow>
          if \<not> job_due now item then (None, s)
          else if bj_cancel_requested_at item \<noteq> None then
            let canceled = cancel_job now item
            in (None, set_inbox_status canceled INBOX_CANCELED now None
                        (s\<lparr>jobs := dict_set job_id canceled (jobs s)\<rparr>))
          else
            let running = start_job worker_id now item;
                attempt = new_attempt attempt_id worker_id now item
            in (Some \<lparr>jc_job = running, jc_attempt = attempt\<rparr>,
                set_inbox_status running INBOX_PROCESSING now None
                  (s\<lparr>jobs := dict_set job_id running (jobs s),
                     attempts := dict_set (ja_id attempt) attempt (attempts s)\<rparr>)))"

section \<open>Renewing, completing and failing\<close>

definition mem_renew_job_lease ::
    "uuid \<Rightarrow> uuid \<Rightarrow> ustr \<Rightarrow> instant \<Rightarrow> task_store \<Rightarrow> bool \<times> task_store" where
  "mem_renew_job_lease job_id attempt_id worker_id now s =
     (case (dict_get (jobs s) job_id, dict_get (attempts s) attempt_id) of
        (Some job, Some attempt) \<Rightarrow>
          if bj_status job \<noteq> JOB_RUNNING \<or> bj_lease_owner job \<noteq> Some worker_id \<or>
             ja_status attempt \<noteq> ATTEMPT_RUNNING \<or> ja_worker_id attempt \<noteq> worker_id
          then (False, s)
          else (True, s\<lparr>jobs := dict_set job_id
                  (job\<lparr>bj_lease_expires_at := Some (now + seconds (bj_lease_seconds job)),
                       bj_updated_at := now\<rparr>) (jobs s)\<rparr>)
      | _ \<Rightarrow> (False, s))"

text \<open>
  The guard shared by \<open>complete_job\<close> and \<open>fail_job\<close>: the job runs under this worker's lease and
  the attempt is running.
\<close>

definition execution_held ::
    "uuid \<Rightarrow> uuid \<Rightarrow> ustr \<Rightarrow> task_store \<Rightarrow> (background_job \<times> job_attempt) option" where
  "execution_held job_id attempt_id worker_id s =
     (case (dict_get (jobs s) job_id, dict_get (attempts s) attempt_id) of
        (Some item, Some attempt) \<Rightarrow>
          if bj_status item \<noteq> JOB_RUNNING \<or> bj_lease_owner item \<noteq> Some worker_id \<or>
             ja_status attempt \<noteq> ATTEMPT_RUNNING
          then None else Some (item, attempt)
      | _ \<Rightarrow> None)"

definition completed_job :: "instant \<Rightarrow> json_dict \<Rightarrow> background_job \<Rightarrow> background_job" where
  "completed_job now result_summary item =
     (let canceled = (bj_cancel_requested_at item \<noteq> None)
      in item\<lparr>bj_status := (if canceled then JOB_CANCELED else JOB_SUCCEEDED),
           bj_result_summary := (if \<not> canceled then result_summary else []),
           bj_lease_owner := None, bj_lease_expires_at := None,
           bj_completed_at := Some now, bj_updated_at := now\<rparr>)"

definition completed_attempt :: "instant \<Rightarrow> background_job \<Rightarrow> job_attempt \<Rightarrow> job_attempt" where
  "completed_attempt now item attempt = attempt\<lparr>
     ja_status := (if bj_cancel_requested_at item \<noteq> None then ATTEMPT_CANCELED else ATTEMPT_SUCCEEDED),
     ja_completed_at := Some now\<rparr>"

definition mem_complete_job ::
    "uuid \<Rightarrow> uuid \<Rightarrow> ustr \<Rightarrow> json_dict \<Rightarrow> instant \<Rightarrow> task_store \<Rightarrow>
       background_job option \<times> task_store" where
  "mem_complete_job job_id attempt_id worker_id result_summary now s =
     (case execution_held job_id attempt_id worker_id s of
        None \<Rightarrow> (None, s)
      | Some (item, attempt) \<Rightarrow>
          let updated = completed_job now result_summary item
          in (Some updated,
              set_inbox_status updated
                (if bj_cancel_requested_at item \<noteq> None then INBOX_CANCELED else INBOX_COMPLETED) now None
                (s\<lparr>jobs := dict_set job_id updated (jobs s),
                   attempts := dict_set attempt_id (completed_attempt now item attempt) (attempts s)\<rparr>)))"

definition failure_status :: "bool \<Rightarrow> background_job \<Rightarrow> job_status" where
  "failure_status permanent item =
     (if bj_cancel_requested_at item \<noteq> None then JOB_CANCELED
      else if permanent then JOB_FAILED
      else if bj_attempt_count item \<ge> bj_max_attempts item then JOB_DEAD_LETTER
      else JOB_RETRYING)"

definition failed_job ::
    "ustr \<Rightarrow> ustr \<Rightarrow> bool \<Rightarrow> instant \<Rightarrow> instant \<Rightarrow> background_job \<Rightarrow> background_job" where
  "failed_job error_code error_summary permanent retry_at now item =
     (let st = failure_status permanent item
      in item\<lparr>bj_status := st,
           bj_available_at := (if st = JOB_RETRYING then retry_at else bj_available_at item),
           bj_lease_owner := None, bj_lease_expires_at := None,
           bj_last_error_code := Some error_code, bj_last_error_summary := Some error_summary,
           bj_completed_at := (if job_terminal st then Some now else None),
           bj_updated_at := now\<rparr>)"

definition failed_attempt ::
    "ustr \<Rightarrow> ustr \<Rightarrow> job_status \<Rightarrow> bool \<Rightarrow> instant \<Rightarrow> job_attempt \<Rightarrow> job_attempt" where
  "failed_attempt error_code error_summary st timed_out now attempt = attempt\<lparr>
     ja_status := (if st = JOB_CANCELED then ATTEMPT_CANCELED
                   else if timed_out then ATTEMPT_TIMED_OUT else ATTEMPT_FAILED),
     ja_completed_at := Some now, ja_error_code := Some error_code,
     ja_error_summary := Some error_summary\<rparr>"

definition mem_fail_job ::
    "uuid \<Rightarrow> uuid \<Rightarrow> ustr \<Rightarrow> ustr \<Rightarrow> ustr \<Rightarrow> bool \<Rightarrow> bool \<Rightarrow> instant \<Rightarrow> outbox_event \<Rightarrow> instant \<Rightarrow>
       task_store \<Rightarrow> background_job option \<times> task_store" where
  "mem_fail_job job_id attempt_id worker_id error_code error_summary permanent timed_out
       retry_at retry_event now s =
     (case execution_held job_id attempt_id worker_id s of
        None \<Rightarrow> (None, s)
      | Some (item, attempt) \<Rightarrow>
          let st = failure_status permanent item;
              updated = failed_job error_code error_summary permanent retry_at now item;
              s1 = s\<lparr>jobs := dict_set job_id updated (jobs s),
                     attempts := dict_set attempt_id
                       (failed_attempt error_code error_summary st timed_out now attempt) (attempts s)\<rparr>
          in (Some updated,
              if st = JOB_RETRYING then
                set_inbox_status updated INBOX_PENDING now None
                  (s1\<lparr>outbox_events := dict_set (oe_id retry_event) retry_event (outbox_events s1)\<rparr>)
              else if st = JOB_FAILED \<or> st = JOB_DEAD_LETTER then
                set_inbox_status updated INBOX_DEAD_LETTER now (Some error_code) s1
              else set_inbox_status updated INBOX_CANCELED now None s1))"

section \<open>The outbox\<close>

definition outbox_due :: "instant \<Rightarrow> outbox_event \<Rightarrow> bool" where
  "outbox_due now e \<longleftrightarrow> outbox_claimable (oe_status e) \<and> oe_available_at e \<le> now \<and>
     oe_attempt_count e < oe_max_attempts e"

definition publish_event :: "ustr \<Rightarrow> instant \<Rightarrow> instant \<Rightarrow> outbox_event \<Rightarrow> outbox_event" where
  "publish_event worker_id now lease_expires_at e = e\<lparr>oe_status := OUTBOX_PUBLISHING,
     oe_attempt_count := oe_attempt_count e + 1, oe_lease_owner := Some worker_id,
     oe_lease_expires_at := Some lease_expires_at, oe_updated_at := now\<rparr>"

definition mem_claim_outbox ::
    "ustr \<Rightarrow> instant \<Rightarrow> instant \<Rightarrow> int \<Rightarrow> task_store \<Rightarrow> outbox_event list \<times> task_store" where
  "mem_claim_outbox worker_id now lease_expires_at limit s =
     (let rows = py_take limit (sorted_by (\<lambda>e. (oe_available_at e, oe_created_at e, oe_id e))
            (filter (outbox_due now) (dict_values (outbox_events s))));
          claimed = map (publish_event worker_id now lease_expires_at) rows
      in (claimed, s\<lparr>outbox_events := fold (\<lambda>e. dict_set (oe_id e) e) claimed (outbox_events s)\<rparr>))"

definition publishing_event :: "uuid \<Rightarrow> ustr \<Rightarrow> task_store \<Rightarrow> outbox_event option" where
  "publishing_event event_id worker_id s =
     (case dict_get (outbox_events s) event_id of
        None \<Rightarrow> None
      | Some e \<Rightarrow> if oe_status e \<noteq> OUTBOX_PUBLISHING \<or> oe_lease_owner e \<noteq> Some worker_id
                  then None else Some e)"

definition mem_mark_outbox_published :: "uuid \<Rightarrow> ustr \<Rightarrow> instant \<Rightarrow> task_store \<Rightarrow> task_store" where
  "mem_mark_outbox_published event_id worker_id now s =
     (case publishing_event event_id worker_id s of
        None \<Rightarrow> s
      | Some e \<Rightarrow> s\<lparr>outbox_events := dict_set event_id
          (e\<lparr>oe_status := OUTBOX_PUBLISHED, oe_lease_owner := None, oe_lease_expires_at := None,
             oe_published_at := Some now, oe_updated_at := now\<rparr>) (outbox_events s)\<rparr>)"

definition release_event :: "ustr \<Rightarrow> instant \<Rightarrow> instant \<Rightarrow> outbox_event \<Rightarrow> outbox_event" where
  "release_event error_code retry_at now e = e\<lparr>
     oe_status := (if oe_attempt_count e \<ge> oe_max_attempts e then OUTBOX_DEAD_LETTER else OUTBOX_RETRYING),
     oe_available_at := retry_at, oe_lease_owner := None, oe_lease_expires_at := None,
     oe_last_error_code := Some error_code, oe_updated_at := now\<rparr>"

definition mem_mark_outbox_failed ::
    "uuid \<Rightarrow> ustr \<Rightarrow> ustr \<Rightarrow> instant \<Rightarrow> instant \<Rightarrow> task_store \<Rightarrow> task_store" where
  "mem_mark_outbox_failed event_id worker_id error_code retry_at now s =
     (case publishing_event event_id worker_id s of
        None \<Rightarrow> s
      | Some e \<Rightarrow> s\<lparr>outbox_events :=
          dict_set event_id (release_event error_code retry_at now e) (outbox_events s)\<rparr>)"

section \<open>Recovery of expired leases\<close>

definition job_lease_expired :: "instant \<Rightarrow> background_job \<Rightarrow> bool" where
  "job_lease_expired now item \<longleftrightarrow> bj_status item = JOB_RUNNING \<and>
     (case bj_lease_expires_at item of None \<Rightarrow> False | Some t \<Rightarrow> t \<le> now)"

definition recovered_job :: "instant \<Rightarrow> background_job \<Rightarrow> background_job" where
  "recovered_job now item =
     (let st = (if bj_attempt_count item \<ge> bj_max_attempts item then JOB_DEAD_LETTER else JOB_RETRYING)
      in item\<lparr>bj_status := st, bj_available_at := now, bj_lease_owner := None,
           bj_lease_expires_at := None, bj_last_error_code := Some lease_expired,
           bj_last_error_summary := Some lease_recovered_summary,
           bj_completed_at := (if st = JOB_DEAD_LETTER then Some now else None),
           bj_updated_at := now\<rparr>)"

definition timed_out_attempt :: "instant \<Rightarrow> job_attempt \<Rightarrow> job_attempt" where
  "timed_out_attempt now a = a\<lparr>ja_status := ATTEMPT_TIMED_OUT, ja_completed_at := Some now,
     ja_error_code := Some lease_expired, ja_error_summary := Some lease_expired_summary\<rparr>"

definition recover_job :: "instant \<Rightarrow> (uuid \<Rightarrow> uuid) \<Rightarrow> uuid \<Rightarrow> background_job \<Rightarrow> task_store \<Rightarrow> task_store" where
  "recover_job now fresh job_id item s =
     (let updated = recovered_job now item;
          s1 = s\<lparr>jobs := dict_set job_id updated (jobs s),
                 attempts := dict_walk (\<lambda>a. ja_job_id a = job_id \<and> ja_status a = ATTEMPT_RUNNING)
                   (timed_out_attempt now) (attempts s)\<rparr>
      in if bj_status updated = JOB_RETRYING then
           let outbox = retry_outbox (fresh job_id) updated now
           in set_inbox_status updated INBOX_PENDING now None
                (s1\<lparr>outbox_events := dict_set (oe_id outbox) outbox (outbox_events s1)\<rparr>)
         else set_inbox_status updated INBOX_DEAD_LETTER now (Some lease_expired) s1)"

definition outbox_lease_expired :: "instant \<Rightarrow> outbox_event \<Rightarrow> bool" where
  "outbox_lease_expired now e \<longleftrightarrow> oe_status e = OUTBOX_PUBLISHING \<and>
     (case oe_lease_expires_at e of None \<Rightarrow> False | Some t \<Rightarrow> t \<le> now)"

text \<open>\<open>fresh j\<close> is the identifier \<open>uuid4()\<close> gives to the retry event of job \<open>j\<close>.\<close>

definition recover_jobs :: "instant \<Rightarrow> (uuid \<Rightarrow> uuid) \<Rightarrow> task_store \<Rightarrow> int \<times> task_store" where
  "recover_jobs now fresh s =
     fold (\<lambda>(job_id, item) (n, s). if job_lease_expired now item
             then (n + 1, recover_job now fresh job_id item s) else (n, s))
       (jobs s) (0, s)"

definition mem_recover_expired_leases ::
    "instant \<Rightarrow> (uuid \<Rightarrow> uuid) \<Rightarrow> task_store \<Rightarrow> int \<times> task_store" where
  "mem_recover_expired_leases now fresh s =
     (case recover_jobs now fresh s of (n, s1) \<Rightarrow>
        (n + int (count_if (outbox_lease_expired now) (dict_values (outbox_events s1))),
         s1\<lparr>outbox_events := dict_walk (outbox_lease_expired now)
              (release_event lease_expired now now) (outbox_events s1)\<rparr>))"

end
