(* ===== verification/Task_Invariant.thy ===== *)
theory Task_Invariant
  imports Task_Lease Task_Store
begin

text \<open>
  The consistency of the task repository, and that every operation keeps it. \<open>store_ok\<close> says how
  the dictionaries agree: identities, life-cycle fields of a job, the numbered attempts of a job,
  who holds a running job, the outbox event that will dispatch a waiting job, and the inbox event
  that follows its job. Operations that move one job from a state to the next are instances of
  one lemma, \<open>job_transition_ok\<close>.
\<close>

section \<open>The invariant\<close>

definition keys_ok :: "task_store \<Rightarrow> bool" where
  "keys_ok s \<longleftrightarrow> dict_ok (jobs s) \<and> dict_ok (attempts s) \<and> dict_ok (outbox_events s) \<and>
     dict_ok (inbox_events s) \<and> dict_ok (scheduled_actions s) \<and>
     (\<forall>k v. dict_get (jobs s) k = Some v \<longrightarrow> bj_id v = k) \<and>
     (\<forall>k v. dict_get (attempts s) k = Some v \<longrightarrow> ja_id v = k) \<and>
     (\<forall>k v. dict_get (outbox_events s) k = Some v \<longrightarrow> oe_id v = k) \<and>
     (\<forall>k v. dict_get (inbox_events s) k = Some v \<longrightarrow> ie_id v = k) \<and>
     (\<forall>k v. dict_get (scheduled_actions s) k = Some v \<longrightarrow> sa_id v = k)"

definition job_ok :: "background_job \<Rightarrow> bool" where
  "job_ok j \<longleftrightarrow> 0 \<le> bj_attempt_count j \<and> bj_attempt_count j \<le> bj_max_attempts j \<and>
     (job_terminal (bj_status j) \<longleftrightarrow> bj_completed_at j \<noteq> None) \<and>
     (bj_status j = JOB_RUNNING \<longrightarrow>
        bj_lease_owner j \<noteq> None \<and> bj_lease_expires_at j \<noteq> None \<and> 1 \<le> bj_attempt_count j) \<and>
     (job_claimable (bj_status j) \<longrightarrow> bj_lease_owner j = None \<and> bj_lease_expires_at j = None)"

definition attempt_of :: "background_job \<Rightarrow> job_attempt \<Rightarrow> bool" where
  "attempt_of j a \<longleftrightarrow> ja_tenant_id a = bj_tenant_id j \<and>
     (ja_status a = ATTEMPT_RUNNING \<longleftrightarrow> ja_completed_at a = None) \<and>
     (ja_status a = ATTEMPT_RUNNING \<longrightarrow> job_terminal (bj_status j) \<or>
        bj_status j = JOB_RUNNING \<and> ja_attempt_number a = bj_attempt_count j \<and>
        bj_lease_owner j = Some (ja_worker_id a))"

definition attempt_numbers :: "task_store \<Rightarrow> uuid \<Rightarrow> int list" where
  "attempt_numbers s k =
     map ja_attempt_number (filter (\<lambda>a. ja_job_id a = k) (dict_values (attempts s)))"

definition attempts_ok :: "task_store \<Rightarrow> bool" where
  "attempts_ok s \<longleftrightarrow>
     (\<forall>i a. dict_get (attempts s) i = Some a \<longrightarrow>
        (\<exists>j. dict_get (jobs s) (ja_job_id a) = Some j \<and> attempt_of j a)) \<and>
     (\<forall>k j. dict_get (jobs s) k = Some j \<longrightarrow> attempt_numbers s k = [1..bj_attempt_count j]) \<and>
     (\<forall>k j. dict_get (jobs s) k = Some j \<and> bj_status j = JOB_RUNNING \<longrightarrow>
        (\<exists>i a. dict_get (attempts s) i = Some a \<and> ja_job_id a = k \<and> ja_status a = ATTEMPT_RUNNING))"

definition event_of :: "background_job \<Rightarrow> outbox_event \<Rightarrow> bool" where
  "event_of j e \<longleftrightarrow> oe_tenant_id e = bj_tenant_id j \<and>
     0 \<le> oe_attempt_count e \<and> oe_attempt_count e \<le> oe_max_attempts e \<and>
     (oe_status e = OUTBOX_PUBLISHING \<longleftrightarrow> oe_lease_owner e \<noteq> None) \<and>
     (oe_status e = OUTBOX_PUBLISHED \<longleftrightarrow> oe_published_at e \<noteq> None)"

definition events_ok :: "task_store \<Rightarrow> bool" where
  "events_ok s \<longleftrightarrow>
     (\<forall>i e. dict_get (outbox_events s) i = Some e \<longrightarrow>
        (\<exists>j. dict_get (jobs s) (oe_job_id e) = Some j \<and> event_of j e)) \<and>
     (\<forall>k j. dict_get (jobs s) k = Some j \<and> job_claimable (bj_status j) \<longrightarrow>
        (\<exists>i e. dict_get (outbox_events s) i = Some e \<and> oe_job_id e = k \<and>
               oe_status e \<noteq> OUTBOX_CANCELED))"

fun inbox_of_status :: "job_status \<Rightarrow> inbox_status" where
  "inbox_of_status JOB_PENDING = INBOX_PENDING"
| "inbox_of_status JOB_RETRYING = INBOX_PENDING"
| "inbox_of_status JOB_RUNNING = INBOX_PROCESSING"
| "inbox_of_status JOB_SUCCEEDED = INBOX_COMPLETED"
| "inbox_of_status JOB_FAILED = INBOX_DEAD_LETTER"
| "inbox_of_status JOB_DEAD_LETTER = INBOX_DEAD_LETTER"
| "inbox_of_status JOB_CANCELED = INBOX_CANCELED"

definition inbox_follows :: "background_job \<Rightarrow> inbox_event \<Rightarrow> bool" where
  "inbox_follows j ib \<longleftrightarrow> ie_job_id ib = bj_id j \<and> ie_tenant_id ib = bj_tenant_id j \<and>
     ie_status ib = inbox_of_status (bj_status j)"

definition inbox_ok :: "task_store \<Rightarrow> bool" where
  "inbox_ok s \<longleftrightarrow>
     (\<forall>k j i ib. dict_get (jobs s) k = Some j \<and> bj_source_inbox_id j = Some i \<and>
        dict_get (inbox_events s) i = Some ib \<longrightarrow> inbox_follows j ib) \<and>
     (\<forall>i ib. dict_get (inbox_events s) i = Some ib \<longrightarrow>
        (\<exists>j. dict_get (jobs s) (ie_job_id ib) = Some j \<and> bj_source_inbox_id j = Some i)) \<and>
     (\<forall>k j i. dict_get (jobs s) k = Some j \<and> bj_source_inbox_id j = Some i \<longrightarrow>
        dict_get (inbox_events s) i \<noteq> None)"

definition actions_ok :: "task_store \<Rightarrow> bool" where
  "actions_ok s \<longleftrightarrow>
     (\<forall>i a. dict_get (scheduled_actions s) i = Some a \<longrightarrow>
        (sa_status a = ACTION_PENDING \<longleftrightarrow> sa_completed_at a = None) \<and>
        (\<exists>k j. sa_job_id a = Some k \<and> dict_get (jobs s) k = Some j \<and> bj_source_inbox_id j = None))"

definition store_ok :: "task_store \<Rightarrow> bool" where
  "store_ok s \<longleftrightarrow> keys_ok s \<and> (\<forall>k j. dict_get (jobs s) k = Some j \<longrightarrow> job_ok j) \<and>
     attempts_ok s \<and> events_ok s \<and> inbox_ok s \<and> actions_ok s"

lemma store_ok_empty: "store_ok empty_store"
  by (simp add: store_ok_def keys_ok_def attempts_ok_def events_ok_def inbox_ok_def actions_ok_def
      empty_store_def dict_get_def dict_ok_def)

named_theorems store_okD \<open>facts read off the invariant\<close>

lemma store_ok_dicts [store_okD]:
  assumes "store_ok s"
  shows "dict_ok (jobs s)" "dict_ok (attempts s)" "dict_ok (outbox_events s)"
    "dict_ok (inbox_events s)" "dict_ok (scheduled_actions s)"
  using assms by (simp_all add: store_ok_def keys_ok_def)

lemma store_ok_ids [store_okD]:
  assumes "store_ok s"
  shows "dict_get (jobs s) k = Some j \<Longrightarrow> bj_id j = k"
    "dict_get (attempts s) k = Some a \<Longrightarrow> ja_id a = k"
    "dict_get (outbox_events s) k = Some e \<Longrightarrow> oe_id e = k"
    "dict_get (inbox_events s) k = Some ib \<Longrightarrow> ie_id ib = k"
    "dict_get (scheduled_actions s) k = Some act \<Longrightarrow> sa_id act = k"
  using assms by (simp_all add: store_ok_def keys_ok_def)

lemma store_ok_job: "store_ok s \<Longrightarrow> dict_get (jobs s) k = Some j \<Longrightarrow> job_ok j"
  by (simp add: store_ok_def)

lemma store_ok_attempt:
  "store_ok s \<Longrightarrow> dict_get (attempts s) i = Some a \<Longrightarrow>
     \<exists>j. dict_get (jobs s) (ja_job_id a) = Some j \<and> attempt_of j a"
  by (simp add: store_ok_def attempts_ok_def)

lemma store_ok_numbers:
  "store_ok s \<Longrightarrow> dict_get (jobs s) k = Some j \<Longrightarrow> attempt_numbers s k = [1..bj_attempt_count j]"
  by (simp add: store_ok_def attempts_ok_def)

lemma store_ok_running:
  "store_ok s \<Longrightarrow> dict_get (jobs s) k = Some j \<Longrightarrow> bj_status j = JOB_RUNNING \<Longrightarrow>
     \<exists>i a. dict_get (attempts s) i = Some a \<and> ja_job_id a = k \<and> ja_status a = ATTEMPT_RUNNING"
  by (simp add: store_ok_def attempts_ok_def)

lemma store_ok_event:
  "store_ok s \<Longrightarrow> dict_get (outbox_events s) i = Some e \<Longrightarrow>
     \<exists>j. dict_get (jobs s) (oe_job_id e) = Some j \<and> event_of j e"
  by (simp add: store_ok_def events_ok_def)

lemma store_ok_dispatch:
  "store_ok s \<Longrightarrow> dict_get (jobs s) k = Some j \<Longrightarrow> job_claimable (bj_status j) \<Longrightarrow>
     \<exists>i e. dict_get (outbox_events s) i = Some e \<and> oe_job_id e = k \<and> oe_status e \<noteq> OUTBOX_CANCELED"
  by (simp add: store_ok_def events_ok_def)

lemma store_ok_inbox:
  "store_ok s \<Longrightarrow> dict_get (jobs s) k = Some j \<Longrightarrow> bj_source_inbox_id j = Some i \<Longrightarrow>
     dict_get (inbox_events s) i = Some ib \<Longrightarrow> inbox_follows j ib"
  by (simp add: store_ok_def inbox_ok_def)

lemma store_ok_inbox_job:
  "store_ok s \<Longrightarrow> dict_get (inbox_events s) i = Some ib \<Longrightarrow>
     \<exists>j. dict_get (jobs s) (ie_job_id ib) = Some j \<and> bj_source_inbox_id j = Some i"
  by (simp add: store_ok_def inbox_ok_def)

lemma store_ok_source:
  "store_ok s \<Longrightarrow> dict_get (jobs s) k = Some j \<Longrightarrow> bj_source_inbox_id j = Some i \<Longrightarrow>
     \<exists>ib. dict_get (inbox_events s) i = Some ib"
  by (simp add: store_ok_def inbox_ok_def)

lemma store_ok_action:
  "store_ok s \<Longrightarrow> dict_get (scheduled_actions s) i = Some a \<Longrightarrow>
     (sa_status a = ACTION_PENDING \<longleftrightarrow> sa_completed_at a = None) \<and>
     (\<exists>k j. sa_job_id a = Some k \<and> dict_get (jobs s) k = Some j \<and> bj_source_inbox_id j = None)"
  by (simp add: store_ok_def actions_ok_def)

section \<open>Moving one job\<close>

text \<open>Fields of a job that no operation changes.\<close>

definition same_job :: "background_job \<Rightarrow> background_job \<Rightarrow> bool" where
  "same_job j j' \<longleftrightarrow> bj_id j' = bj_id j \<and> bj_tenant_id j' = bj_tenant_id j \<and>
     bj_source_inbox_id j' = bj_source_inbox_id j"

text \<open>The inbox of the new state follows the moved job; every other event is unchanged.\<close>

definition inbox_moved :: "background_job \<Rightarrow> task_store \<Rightarrow> task_store \<Rightarrow> bool" where
  "inbox_moved j s t \<longleftrightarrow> dict_ok (inbox_events t) \<and>
     (\<forall>i. case dict_get (inbox_events s) i of
        None \<Rightarrow> dict_get (inbox_events t) i = None
      | Some ib \<Rightarrow> \<exists>ib'. dict_get (inbox_events t) i = Some ib' \<and> ie_id ib' = ie_id ib \<and>
          ie_job_id ib' = ie_job_id ib \<and> ie_tenant_id ib' = ie_tenant_id ib \<and>
          (if bj_source_inbox_id j = Some i then ie_status ib' = inbox_of_status (bj_status j)
           else ib' = ib))"

lemma set_inbox_status_frame [simp]:
  "jobs (set_inbox_status j st now ec s) = jobs s"
  "attempts (set_inbox_status j st now ec s) = attempts s"
  "outbox_events (set_inbox_status j st now ec s) = outbox_events s"
  "scheduled_actions (set_inbox_status j st now ec s) = scheduled_actions s"
  "budget_usages (set_inbox_status j st now ec s) = budget_usages s"
  "heartbeats (set_inbox_status j st now ec s) = heartbeats s"
  by (auto simp: set_inbox_status_def split: option.splits)

lemma set_inbox_status_moved:
  assumes "store_ok s" and "inbox_events s' = inbox_events s"
    and "st = inbox_of_status (bj_status j)"
  shows "inbox_moved j s (set_inbox_status j st now ec s')"
proof -
  have ids: "ie_id ib = i" if "dict_get (inbox_events s) i = Some ib" for i ib
    using assms(1) that by (rule store_ok_ids(4))
  have "dict_ok (inbox_events s)" using assms(1) by (rule store_okD)
  then show ?thesis
    using assms(2,3) ids
    by (auto simp: inbox_moved_def set_inbox_status_def split: option.splits)
qed

text \<open>The outbox and attempt dictionaries of the new state differ only in entries of the job.\<close>

definition attempts_moved :: "uuid \<Rightarrow> background_job \<Rightarrow> task_store \<Rightarrow> task_store \<Rightarrow> bool" where
  "attempts_moved k j s t \<longleftrightarrow> dict_ok (attempts t) \<and>
     (\<forall>i a. dict_get (attempts t) i = Some a \<longrightarrow> ja_id a = i) \<and>
     (\<forall>i a. dict_get (attempts t) i = Some a \<and> ja_job_id a = k \<longrightarrow> attempt_of j a) \<and>
     (\<forall>i a. ja_job_id a \<noteq> k \<longrightarrow>
        (dict_get (attempts t) i = Some a \<longleftrightarrow> dict_get (attempts s) i = Some a)) \<and>
     attempt_numbers t k = [1..bj_attempt_count j] \<and>
     (\<forall>l. l \<noteq> k \<longrightarrow> attempt_numbers t l = attempt_numbers s l) \<and>
     (bj_status j = JOB_RUNNING \<longrightarrow>
        (\<exists>i a. dict_get (attempts t) i = Some a \<and> ja_job_id a = k \<and> ja_status a = ATTEMPT_RUNNING))"

definition outbox_moved :: "uuid \<Rightarrow> background_job \<Rightarrow> task_store \<Rightarrow> task_store \<Rightarrow> bool" where
  "outbox_moved k j s t \<longleftrightarrow> dict_ok (outbox_events t) \<and>
     (\<forall>i e. dict_get (outbox_events t) i = Some e \<longrightarrow> oe_id e = i) \<and>
     (\<forall>i e. dict_get (outbox_events t) i = Some e \<and> oe_job_id e = k \<longrightarrow> event_of j e) \<and>
     (\<forall>i e. oe_job_id e \<noteq> k \<longrightarrow>
        (dict_get (outbox_events t) i = Some e \<longleftrightarrow> dict_get (outbox_events s) i = Some e)) \<and>
     (job_claimable (bj_status j) \<longrightarrow>
        (\<exists>i e. dict_get (outbox_events t) i = Some e \<and> oe_job_id e = k \<and>
           oe_status e \<noteq> OUTBOX_CANCELED))"

definition actions_moved :: "task_store \<Rightarrow> task_store \<Rightarrow> bool" where
  "actions_moved s t \<longleftrightarrow> dict_ok (scheduled_actions t) \<and>
     (\<forall>i a'. dict_get (scheduled_actions t) i = Some a' \<longrightarrow>
        (\<exists>a. dict_get (scheduled_actions s) i = Some a \<and> sa_id a' = sa_id a \<and>
           sa_job_id a' = sa_job_id a) \<and>
        (sa_status a' = ACTION_PENDING \<longleftrightarrow> sa_completed_at a' = None))"

lemma actions_moved_same: "store_ok s \<Longrightarrow> scheduled_actions t = scheduled_actions s \<Longrightarrow> actions_moved s t"
  using store_ok_action by (auto simp: actions_moved_def store_okD)

lemma job_transition_ok:
  assumes ok: "store_ok s" and j: "dict_get (jobs s) k = Some j"
    and same: "same_job j j'" and jok: "job_ok j'"
    and jobs: "jobs t = dict_set k j' (jobs s)"
    and att: "attempts_moved k j' s t" and out: "outbox_moved k j' s t"
    and inb: "inbox_moved j' s t" and act: "actions_moved s t"
  shows "store_ok t"
proof -
  have id: "bj_id j = k" using ok j by (rule store_ok_ids)
  have get: "dict_get (jobs t) l = (if l = k then Some j' else dict_get (jobs s) l)" for l
    by (simp add: jobs)
  have inbox_at: "\<exists>ib. dict_get (inbox_events s) i = Some ib \<and> ie_id ib' = ie_id ib \<and>
      ie_job_id ib' = ie_job_id ib \<and> ie_tenant_id ib' = ie_tenant_id ib \<and>
      (if bj_source_inbox_id j' = Some i then ie_status ib' = inbox_of_status (bj_status j')
       else ib' = ib)" if "dict_get (inbox_events t) i = Some ib'" for i ib'
    using inb that unfolding inbox_moved_def
    by (cases "dict_get (inbox_events s) i") (auto dest: spec[where x = i])
  have "keys_ok t"
    unfolding keys_ok_def
  proof (intro conjI allI impI)
    show "dict_ok (jobs t)" using store_ok_dicts(1)[OF ok] by (simp add: jobs)
    show "dict_ok (attempts t)" using att by (simp add: attempts_moved_def)
    show "dict_ok (outbox_events t)" using out by (simp add: outbox_moved_def)
    show "dict_ok (inbox_events t)" using inb by (simp add: inbox_moved_def)
    show "dict_ok (scheduled_actions t)" using act by (simp add: actions_moved_def)
    show "bj_id v = l" if "dict_get (jobs t) l = Some v" for l v
      using that id same store_ok_ids(1)[OF ok, of l] by (auto simp: get same_job_def split: if_splits)
    show "ja_id v = l" if "dict_get (attempts t) l = Some v" for l v
      using that att by (simp add: attempts_moved_def)
    show "oe_id v = l" if "dict_get (outbox_events t) l = Some v" for l v
      using that out by (simp add: outbox_moved_def)
    show "ie_id v = l" if "dict_get (inbox_events t) l = Some v" for l v
      using inbox_at[OF that] store_ok_ids(4)[OF ok, of l] by auto
    show "sa_id v = l" if "dict_get (scheduled_actions t) l = Some v" for l v
    proof -
      have "\<exists>a. dict_get (scheduled_actions s) l = Some a \<and> sa_id v = sa_id a"
        using that act unfolding actions_moved_def by blast
      then show ?thesis using store_ok_ids(5)[OF ok] by auto
    qed
  qed
  moreover have "\<forall>l i. dict_get (jobs t) l = Some i \<longrightarrow> job_ok i"
    using ok jok by (auto simp: get store_ok_job split: if_splits)
  moreover have "attempts_ok t"
    unfolding attempts_ok_def
  proof (intro conjI allI impI)
    fix i a assume a: "dict_get (attempts t) i = Some a"
    show "\<exists>j. dict_get (jobs t) (ja_job_id a) = Some j \<and> attempt_of j a"
      using att a store_ok_attempt[OF ok, of i a] by (auto simp: get attempts_moved_def)
  next
    fix l i assume "dict_get (jobs t) l = Some i"
    then show "attempt_numbers t l = [1..bj_attempt_count i]"
      using att store_ok_numbers[OF ok] by (auto simp: get attempts_moved_def split: if_splits)
  next
    fix l i assume h: "dict_get (jobs t) l = Some i \<and> bj_status i = JOB_RUNNING"
    show "\<exists>n a. dict_get (attempts t) n = Some a \<and> ja_job_id a = l \<and> ja_status a = ATTEMPT_RUNNING"
    proof (cases "l = k")
      case True
      with h att show ?thesis by (auto simp: get attempts_moved_def)
    next
      case False
      with h obtain n a where "dict_get (attempts s) n = Some a" "ja_job_id a = l"
        "ja_status a = ATTEMPT_RUNNING"
        using store_ok_running[OF ok, of l i] by (auto simp: get)
      with False att show ?thesis unfolding attempts_moved_def by metis
    qed
  qed
  moreover have "events_ok t"
    unfolding events_ok_def
  proof (intro conjI allI impI)
    fix i e assume e: "dict_get (outbox_events t) i = Some e"
    show "\<exists>j. dict_get (jobs t) (oe_job_id e) = Some j \<and> event_of j e"
      using out e store_ok_event[OF ok, of i e] by (auto simp: get outbox_moved_def)
  next
    fix l i assume h: "dict_get (jobs t) l = Some i \<and> job_claimable (bj_status i)"
    show "\<exists>n e. dict_get (outbox_events t) n = Some e \<and> oe_job_id e = l \<and> oe_status e \<noteq> OUTBOX_CANCELED"
    proof (cases "l = k")
      case True
      with h out show ?thesis by (auto simp: get outbox_moved_def)
    next
      case False
      with h obtain n e where "dict_get (outbox_events s) n = Some e" "oe_job_id e = l"
        "oe_status e \<noteq> OUTBOX_CANCELED"
        using store_ok_dispatch[OF ok, of l i] by (auto simp: get)
      with False out show ?thesis unfolding outbox_moved_def by metis
    qed
  qed
  moreover have "inbox_ok t"
    unfolding inbox_ok_def
  proof (intro conjI allI impI)
    fix l i n ib'
    assume h: "dict_get (jobs t) l = Some i \<and> bj_source_inbox_id i = Some n \<and>
      dict_get (inbox_events t) n = Some ib'"
    then obtain ib where ib: "dict_get (inbox_events s) n = Some ib" and
      ib': "ie_job_id ib' = ie_job_id ib" "ie_tenant_id ib' = ie_tenant_id ib"
      "if bj_source_inbox_id j' = Some n then ie_status ib' = inbox_of_status (bj_status j') else ib' = ib"
      using inbox_at by blast
    show "inbox_follows i ib'"
    proof (cases "l = k")
      case True
      with h same have "bj_source_inbox_id j = Some n" by (auto simp: get same_job_def)
      then have "inbox_follows j ib" by (rule store_ok_inbox[OF ok j _ ib])
      with True h ib' same show ?thesis by (auto simp: get inbox_follows_def same_job_def)
    next
      case False
      with h have "dict_get (jobs s) l = Some i" "bj_source_inbox_id i = Some n"
        by (auto simp: get)
      then have l: "dict_get (jobs s) l = Some i" "inbox_follows i ib"
        using store_ok_inbox[OF ok _ _ ib] by auto
      have "bj_source_inbox_id j' \<noteq> Some n"
      proof
        assume "bj_source_inbox_id j' = Some n"
        with same have "bj_source_inbox_id j = Some n" by (simp add: same_job_def)
        then have "inbox_follows j ib" by (rule store_ok_inbox[OF ok j _ ib])
        with l have "bj_id i = bj_id j" by (simp add: inbox_follows_def)
        with False id store_ok_ids(1)[OF ok l(1)] show False by simp
      qed
      with ib' l(2) show ?thesis by simp
    qed
  next
    fix n ib' assume "dict_get (inbox_events t) n = Some ib'"
    then obtain ib where "dict_get (inbox_events s) n = Some ib" "ie_job_id ib' = ie_job_id ib"
      using inbox_at by blast
    then show "\<exists>i. dict_get (jobs t) (ie_job_id ib') = Some i \<and> bj_source_inbox_id i = Some n"
      using store_ok_inbox_job[OF ok, of n ib] same j by (auto simp: get same_job_def)
  next
    fix l i n assume h: "dict_get (jobs t) l = Some i \<and> bj_source_inbox_id i = Some n"
    have "\<exists>i. dict_get (jobs s) l = Some i \<and> bj_source_inbox_id i = Some n"
      using h same j by (auto simp: get same_job_def split: if_splits)
    then obtain ib where "dict_get (inbox_events s) n = Some ib"
      using store_ok_source[OF ok] by blast
    with inb show "dict_get (inbox_events t) n \<noteq> None"
      unfolding inbox_moved_def by (auto dest!: spec[where x = n])
  qed
  moreover have "actions_ok t"
    unfolding actions_ok_def
  proof (intro allI impI conjI)
    fix i a' assume a': "dict_get (scheduled_actions t) i = Some a'"
    then show "sa_status a' = ACTION_PENDING \<longleftrightarrow> sa_completed_at a' = None"
      using act unfolding actions_moved_def by blast
    obtain a where "dict_get (scheduled_actions s) i = Some a" "sa_job_id a' = sa_job_id a"
      using a' act unfolding actions_moved_def by blast
    then show "\<exists>k j. sa_job_id a' = Some k \<and> dict_get (jobs t) k = Some j \<and> bj_source_inbox_id j = None"
      using store_ok_action[OF ok, of i a] same j by (auto simp: get same_job_def)
  qed
  ultimately show ?thesis by (simp add: store_ok_def)
qed

end
