(* ===== verification/Task_Preserve.thy ===== *)
theory Task_Preserve
  imports Task_Invariant
begin

text \<open>
  Every operation of the repository keeps \<open>store_ok\<close>. The first section says how a single job's
  attempts and outbox events may change; each operation then names the change it makes.
\<close>

section \<open>Changes of attempts and outbox events\<close>

lemma running_attempt_unique:
  assumes ok: "store_ok s" and j: "dict_get (jobs s) k = Some j" and run: "bj_status j = JOB_RUNNING"
    and a: "dict_get (attempts s) i = Some a" "ja_job_id a = k" "ja_status a = ATTEMPT_RUNNING"
    and b: "dict_get (attempts s) n = Some b" "ja_job_id b = k" "ja_status b = ATTEMPT_RUNNING"
  shows "a = b"
proof -
  have num: "ja_attempt_number c = bj_attempt_count j"
    if "dict_get (attempts s) m = Some c" "ja_job_id c = k" "ja_status c = ATTEMPT_RUNNING" for m c
    using store_ok_attempt[OF ok that(1)] that j run by (auto simp: attempt_of_def)
  let ?as = "filter (\<lambda>a. ja_job_id a = k) (dict_values (attempts s))"
  have "distinct (map ja_attempt_number ?as)"
    using store_ok_numbers[OF ok j] by (simp add: attempt_numbers_def)
  then have inj: "inj_on ja_attempt_number (set ?as)" by (simp only: distinct_map)
  have "a \<in> set ?as" "b \<in> set ?as"
    using a b by (auto dest: dict_get_in_values)
  moreover have "ja_attempt_number a = ja_attempt_number b" using num[OF a] num[OF b] by simp
  ultimately show ?thesis using inj_onD[OF inj] by blast
qed

lemma attempts_moved_keep:
  assumes ok: "store_ok s" and j: "dict_get (jobs s) k = Some j"
    and att: "attempts t = attempts s" and same: "bj_attempt_count j' = bj_attempt_count j"
    "bj_tenant_id j' = bj_tenant_id j"
    and st: "job_terminal (bj_status j') \<or>
      bj_status j = JOB_RUNNING \<and> bj_status j' = JOB_RUNNING \<and> bj_lease_owner j' = bj_lease_owner j"
  shows "attempts_moved k j' s t"
proof -
  have "attempt_of j' a" if "dict_get (attempts s) i = Some a" "ja_job_id a = k" for i a
    using store_ok_attempt[OF ok that(1)] that(2) j st same
    by (auto simp: attempt_of_def dest: terminal_not_claimable)
  moreover have "\<exists>i a. dict_get (attempts s) i = Some a \<and> ja_job_id a = k \<and> ja_status a = ATTEMPT_RUNNING"
    if "bj_status j' = JOB_RUNNING"
    using that st store_ok_running[OF ok j] by (auto dest: terminal_not_claimable)
  ultimately show ?thesis
    using store_ok_numbers[OF ok j] same(1) store_ok_ids(2)[OF ok] store_ok_dicts(2)[OF ok]
    by (auto simp: attempts_moved_def att attempt_numbers_def)
qed

lemma attempts_moved_add:
  assumes ok: "store_ok s" and j: "dict_get (jobs s) k = Some j" and cl: "job_claimable (bj_status j)"
    and fresh: "dict_get (attempts s) (ja_id a) = None"
    and att: "attempts t = dict_set (ja_id a) a (attempts s)"
    and j': "bj_attempt_count j' = bj_attempt_count j + 1" "bj_tenant_id j' = bj_tenant_id j"
      "bj_status j' = JOB_RUNNING" "bj_lease_owner j' = Some (ja_worker_id a)"
    and a: "ja_job_id a = k" "ja_tenant_id a = bj_tenant_id j" "ja_status a = ATTEMPT_RUNNING"
      "ja_completed_at a = None" "ja_attempt_number a = bj_attempt_count j + 1"
  shows "attempts_moved k j' s t"
proof -
  have old: "attempt_of j' b" if "dict_get (attempts s) i = Some b" "ja_job_id b = k" for i b
    using store_ok_attempt[OF ok that(1)] that(2) j cl j'
    by (auto simp: attempt_of_def dest: terminal_not_claimable)
  have "0 \<le> bj_attempt_count j" using store_ok_job[OF ok j] by (simp add: job_ok_def)
  then have nums: "[1..bj_attempt_count j'] = [1..bj_attempt_count j] @ [bj_attempt_count j + 1]"
    using upto_rec2[of 1 "bj_attempt_count j + 1"] by (simp add: j')
  have "attempt_numbers t l = attempt_numbers s l @ (if l = k then [bj_attempt_count j + 1] else [])" for l
    using fresh a by (simp add: attempt_numbers_def att dict_values_fresh)
  then show ?thesis
    using old a j' fresh store_ok_numbers[OF ok j] nums store_ok_ids(2)[OF ok] store_ok_dicts(2)[OF ok]
    by (auto simp: attempts_moved_def att attempt_of_def)
qed

lemma attempts_moved_finish:
  assumes ok: "store_ok s" and j: "dict_get (jobs s) k = Some j" and run: "bj_status j = JOB_RUNNING"
    and a: "dict_get (attempts s) i = Some a" "ja_job_id a = k" "ja_status a = ATTEMPT_RUNNING"
    and att: "attempts t = dict_set i a' (attempts s)"
    and j': "bj_attempt_count j' = bj_attempt_count j" "bj_tenant_id j' = bj_tenant_id j"
      "bj_status j' \<noteq> JOB_RUNNING"
    and a': "ja_id a' = ja_id a" "ja_job_id a' = k" "ja_tenant_id a' = ja_tenant_id a"
      "ja_attempt_number a' = ja_attempt_number a" "ja_status a' \<noteq> ATTEMPT_RUNNING"
      "ja_completed_at a' \<noteq> None"
  shows "attempts_moved k j' s t"
proof -
  have ten: "ja_tenant_id a' = bj_tenant_id j'"
    using store_ok_attempt[OF ok a(1)] a j j' a' by (auto simp: attempt_of_def)
  have old: "attempt_of j' b" if "dict_get (attempts s) n = Some b" "ja_job_id b = k" "n \<noteq> i" for n b
  proof -
    have "ja_status b \<noteq> ATTEMPT_RUNNING"
    proof
      assume "ja_status b = ATTEMPT_RUNNING"
      then have "a = b" using running_attempt_unique[OF ok j run a that(1,2)] by simp
      then show False using that(1,3) a(1) store_ok_ids(2)[OF ok] by auto
    qed
    then show ?thesis
      using store_ok_attempt[OF ok that(1)] that(2) j j' by (auto simp: attempt_of_def)
  qed
  have nums: "attempt_numbers t l = attempt_numbers s l" for l
    unfolding attempt_numbers_def att using a(1) by (rule filter_values_overwrite) (simp_all add: a a')
  show ?thesis
    using old ten a a' j' nums store_ok_numbers[OF ok j] store_ok_ids(2)[OF ok] store_ok_dicts(2)[OF ok]
    by (auto simp: attempts_moved_def att attempt_of_def)
qed

lemma attempts_moved_timeout:
  assumes ok: "store_ok s" and j: "dict_get (jobs s) k = Some j"
    and att: "attempts t = dict_walk (\<lambda>a. ja_job_id a = k \<and> ja_status a = ATTEMPT_RUNNING)
        (timed_out_attempt now) (attempts s)"
    and j': "bj_attempt_count j' = bj_attempt_count j" "bj_tenant_id j' = bj_tenant_id j"
      "bj_status j' \<noteq> JOB_RUNNING"
  shows "attempts_moved k j' s t"
proof -
  note d = store_ok_dicts(2)[OF ok]
  have nums: "attempt_numbers t l = attempt_numbers s l" for l
    unfolding attempt_numbers_def att using d
    by (rule filter_values_walk) (simp_all add: timed_out_attempt_def)
  define g where "g = (\<lambda>a. if ja_job_id a = k \<and> ja_status a = ATTEMPT_RUNNING
      then timed_out_attempt now a else a)"
  have get: "dict_get (attempts t) i = map_option g (dict_get (attempts s) i)" for i
    using d by (simp add: att g_def)
  have g: "ja_job_id (g a) = ja_job_id a" "ja_id (g a) = ja_id a" "ja_job_id a \<noteq> k \<Longrightarrow> g a = a" for a
    by (simp_all add: g_def timed_out_attempt_def)
  have here: "attempt_of j' (g a)" if "dict_get (attempts s) i = Some a" "ja_job_id a = k" for i a
    using store_ok_attempt[OF ok that(1)] that(2) j j'
    by (auto simp: attempt_of_def timed_out_attempt_def g_def)
  show ?thesis
    unfolding attempts_moved_def
  proof (intro conjI allI impI)
    show "dict_ok (attempts t)" using d by (simp add: att)
    show "ja_id a = i" if "dict_get (attempts t) i = Some a" for i a
      using that store_ok_ids(2)[OF ok, of i] by (auto simp: get g)
    show "attempt_of j' a" if "dict_get (attempts t) i = Some a \<and> ja_job_id a = k" for i a
      using that here by (auto simp: get g)
    show "(dict_get (attempts t) i = Some a) = (dict_get (attempts s) i = Some a)"
      if "ja_job_id a \<noteq> k" for i a
      using that g by (cases "dict_get (attempts s) i") (auto simp: get)
    show "attempt_numbers t k = [1..bj_attempt_count j']"
      using store_ok_numbers[OF ok j] by (simp add: nums j')
    show "attempt_numbers t l = attempt_numbers s l" for l by (rule nums)
    show "\<exists>i a. dict_get (attempts t) i = Some a \<and> ja_job_id a = k \<and> ja_status a = ATTEMPT_RUNNING"
      if "bj_status j' = JOB_RUNNING" using that j'(3) by simp
  qed
qed

lemma outbox_moved_keep:
  assumes ok: "store_ok s" and j: "dict_get (jobs s) k = Some j"
    and out: "outbox_events t = outbox_events s" and same: "bj_tenant_id j' = bj_tenant_id j"
    and st: "job_claimable (bj_status j') \<Longrightarrow> job_claimable (bj_status j)"
  shows "outbox_moved k j' s t"
proof -
  have "event_of j' e" if "dict_get (outbox_events s) i = Some e" "oe_job_id e = k" for i e
    using store_ok_event[OF ok that(1)] that(2) j same by (auto simp: event_of_def)
  then show ?thesis
    using store_ok_dispatch[OF ok j] st store_ok_ids(3)[OF ok] store_ok_dicts(3)[OF ok]
    by (auto simp: outbox_moved_def out)
qed

lemma outbox_moved_cancel:
  assumes ok: "store_ok s" and j: "dict_get (jobs s) k = Some j"
    and out: "outbox_events t = dict_walk (\<lambda>e. oe_job_id e = k \<and> outbox_claimable (oe_status e))
        (cancel_outbox_event now) (outbox_events s)"
    and same: "bj_tenant_id j' = bj_tenant_id j" and st: "\<not> job_claimable (bj_status j')"
  shows "outbox_moved k j' s t"
proof -
  note d = store_ok_dicts(3)[OF ok]
  define g where "g = (\<lambda>e. if oe_job_id e = k \<and> outbox_claimable (oe_status e)
      then cancel_outbox_event now e else e)"
  have get: "dict_get (outbox_events t) i = map_option g (dict_get (outbox_events s) i)" for i
    using d by (simp add: out g_def)
  have g: "oe_job_id (g e) = oe_job_id e" "oe_id (g e) = oe_id e" "oe_job_id e \<noteq> k \<Longrightarrow> g e = e" for e
    by (simp_all add: g_def cancel_outbox_event_def)
  have here: "event_of j' (g e)" if "dict_get (outbox_events s) i = Some e" "oe_job_id e = k" for i e
    using store_ok_event[OF ok that(1)] that(2) j same
    by (auto simp: event_of_def cancel_outbox_event_def g_def outbox_claimable_def)
  show ?thesis
    unfolding outbox_moved_def
  proof (intro conjI allI impI)
    show "dict_ok (outbox_events t)" using d by (simp add: out)
    show "oe_id e = i" if "dict_get (outbox_events t) i = Some e" for i e
      using that store_ok_ids(3)[OF ok, of i] by (auto simp: get g)
    show "event_of j' e" if "dict_get (outbox_events t) i = Some e \<and> oe_job_id e = k" for i e
      using that here by (auto simp: get g)
    show "(dict_get (outbox_events t) i = Some e) = (dict_get (outbox_events s) i = Some e)"
      if "oe_job_id e \<noteq> k" for i e
      using that g by (cases "dict_get (outbox_events s) i") (auto simp: get)
    show "\<exists>i e. dict_get (outbox_events t) i = Some e \<and> oe_job_id e = k \<and> oe_status e \<noteq> OUTBOX_CANCELED"
      if "job_claimable (bj_status j')" using that st by simp
  qed
qed

lemma outbox_moved_add:
  assumes ok: "store_ok s" and j: "dict_get (jobs s) k = Some j"
    and fresh: "dict_get (outbox_events s) (oe_id e) = None"
    and out: "outbox_events t = dict_set (oe_id e) e (outbox_events s)"
    and same: "bj_tenant_id j' = bj_tenant_id j"
    and e: "oe_job_id e = k" "event_of j' e" "oe_status e \<noteq> OUTBOX_CANCELED"
  shows "outbox_moved k j' s t"
proof -
  have "event_of j' b" if "dict_get (outbox_events s) i = Some b" "oe_job_id b = k" for i b
    using store_ok_event[OF ok that(1)] that(2) j same by (auto simp: event_of_def)
  then show ?thesis
    using e fresh store_ok_ids(3)[OF ok] store_ok_dicts(3)[OF ok]
    by (auto simp: outbox_moved_def out)
qed

lemma inbox_moved_keep:
  assumes ok: "store_ok s" and j: "dict_get (jobs s) k = Some j"
    and inb: "inbox_events t = inbox_events s"
    and same: "bj_source_inbox_id j' = bj_source_inbox_id j"
    and st: "bj_source_inbox_id j = None \<or> bj_status j' = bj_status j"
  shows "inbox_moved j' s t"
  using store_ok_dicts(4)[OF ok] store_ok_inbox[OF ok j] st
  by (auto simp: inbox_moved_def inb same inbox_follows_def split: option.splits)

section \<open>Operations that move a job\<close>

lemma cancel_outbox_frame [simp]:
  "jobs (cancel_outbox k now s) = jobs s"
  "attempts (cancel_outbox k now s) = attempts s"
  "inbox_events (cancel_outbox k now s) = inbox_events s"
  "scheduled_actions (cancel_outbox k now s) = scheduled_actions s"
  "budget_usages (cancel_outbox k now s) = budget_usages s"
  "heartbeats (cancel_outbox k now s) = heartbeats s"
  by (simp_all add: cancel_outbox_def)

lemma outbox_events_cancel:
  "outbox_events (cancel_outbox k now s) =
     dict_walk (\<lambda>e. oe_job_id e = k \<and> outbox_claimable (oe_status e)) (cancel_outbox_event now)
       (outbox_events s)"
  by (simp add: cancel_outbox_def)

lemma request_cancel_ok:
  assumes ok: "store_ok s"
  shows "store_ok (snd (mem_request_cancel tenant_id job_id now s))"
proof (cases "dict_get (jobs s) job_id")
  case None
  then show ?thesis using ok by (simp add: mem_request_cancel_def)
next
  case (Some j)
  note jok = store_ok_job[OF ok Some]
  let ?j = "cancel_requested_job now j"
  have same: "same_job j ?j" "bj_attempt_count ?j = bj_attempt_count j"
    by (simp_all add: same_job_def cancel_requested_job_def Let_def)
  consider (same) "bj_tenant_id j \<noteq> tenant_id \<or> job_terminal (bj_status j)"
    | (run) "bj_tenant_id j = tenant_id" "bj_status j = JOB_RUNNING"
    | (wait) "bj_tenant_id j = tenant_id" "job_claimable (bj_status j)"
    using job_status_partition by blast
  then show ?thesis
  proof cases
    case same
    then show ?thesis using ok Some by (auto simp: mem_request_cancel_def)
  next
    case run
    let ?t = "s\<lparr>jobs := dict_set job_id ?j (jobs s)\<rparr>"
    have st: "bj_status ?j = JOB_RUNNING" "bj_lease_owner ?j = bj_lease_owner j" "bj_tenant_id ?j = bj_tenant_id j"
      using run by (simp_all add: cancel_requested_job_def)
    have "store_ok ?t"
    proof (rule job_transition_ok[OF ok Some same(1)])
      show "job_ok ?j" using jok run by (simp add: job_ok_def cancel_requested_job_def)
      show "attempts_moved job_id ?j s ?t"
        by (rule attempts_moved_keep[OF ok Some]) (simp_all add: st same run)
      show "outbox_moved job_id ?j s ?t"
        by (rule outbox_moved_keep[OF ok Some]) (simp_all add: st)
      show "inbox_moved ?j s ?t"
        by (rule inbox_moved_keep[OF ok Some]) (use same in \<open>simp_all add: st run same_job_def\<close>)
      show "actions_moved s ?t" by (rule actions_moved_same[OF ok]) simp
    qed simp
    then show ?thesis using Some run st by (simp add: mem_request_cancel_def Let_def)
  next
    case wait
    let ?t = "set_inbox_status ?j INBOX_CANCELED now None
      (cancel_outbox job_id now (s\<lparr>jobs := dict_set job_id ?j (jobs s)\<rparr>))"
    have st: "bj_status ?j = JOB_CANCELED" "bj_tenant_id ?j = bj_tenant_id j"
      using wait by (auto simp: cancel_requested_job_def)
    have "store_ok ?t"
    proof (rule job_transition_ok[OF ok Some same(1)])
      show "job_ok ?j" using jok wait by (auto simp: job_ok_def cancel_requested_job_def)
      show "attempts_moved job_id ?j s ?t"
        by (rule attempts_moved_keep[OF ok Some]) (simp_all add: st same)
      show "outbox_moved job_id ?j s ?t"
        by (rule outbox_moved_cancel[OF ok Some]) (simp_all add: st outbox_events_cancel)
      show "inbox_moved ?j s ?t" by (rule set_inbox_status_moved[OF ok]) (simp_all add: st)
      show "actions_moved s ?t" by (rule actions_moved_same[OF ok]) simp
    qed simp
    then show ?thesis
      using Some wait st by (auto simp: mem_request_cancel_def Let_def dest: terminal_not_claimable)
  qed
qed

lemma claim_cancel_ok:
  assumes ok: "store_ok s" and j: "dict_get (jobs s) k = Some j" and cl: "job_claimable (bj_status j)"
  shows "store_ok (set_inbox_status (cancel_job now j) INBOX_CANCELED now None
           (s\<lparr>jobs := dict_set k (cancel_job now j) (jobs s)\<rparr>))" (is "store_ok ?t")
proof (rule job_transition_ok[OF ok j])
  show "same_job j (cancel_job now j)" by (simp add: same_job_def cancel_job_def)
  show "job_ok (cancel_job now j)"
    using store_ok_job[OF ok j] by (simp add: job_ok_def cancel_job_def)
  show "attempts_moved k (cancel_job now j) s ?t"
    by (rule attempts_moved_keep[OF ok j]) (simp_all add: cancel_job_def)
  show "outbox_moved k (cancel_job now j) s ?t"
    by (rule outbox_moved_keep[OF ok j]) (simp_all add: cancel_job_def)
  show "inbox_moved (cancel_job now j) s ?t"
    by (rule set_inbox_status_moved[OF ok]) (simp_all add: cancel_job_def)
  show "actions_moved s ?t" by (rule actions_moved_same[OF ok]) simp
qed simp

lemma claim_run_ok:
  assumes ok: "store_ok s" and j: "dict_get (jobs s) k = Some j" and due: "job_due now j"
    and fresh: "dict_get (attempts s) attempt_id = None"
  shows "store_ok (set_inbox_status (start_job w now j) INBOX_PROCESSING now None
           (s\<lparr>jobs := dict_set k (start_job w now j) (jobs s),
              attempts := dict_set attempt_id (new_attempt attempt_id w now j) (attempts s)\<rparr>))"
    (is "store_ok ?t")
proof (rule job_transition_ok[OF ok j])
  note jok = store_ok_job[OF ok j]
  have cl: "job_claimable (bj_status j)" using due by (simp add: job_due_def)
  show "same_job j (start_job w now j)" by (simp add: same_job_def start_job_def)
  show "job_ok (start_job w now j)"
    using jok due cl by (auto simp: job_ok_def start_job_def job_due_def dest: terminal_not_claimable)
  show "attempts_moved k (start_job w now j) s ?t"
    by (rule attempts_moved_add[OF ok j cl, where a = "new_attempt attempt_id w now j"])
      (use fresh store_ok_ids(1)[OF ok j] in \<open>simp_all add: new_attempt_def start_job_def\<close>)
  show "outbox_moved k (start_job w now j) s ?t"
    by (rule outbox_moved_keep[OF ok j]) (simp_all add: start_job_def)
  show "inbox_moved (start_job w now j) s ?t"
    by (rule set_inbox_status_moved[OF ok]) (simp_all add: start_job_def)
  show "actions_moved s ?t" by (rule actions_moved_same[OF ok]) simp
qed simp

lemma claim_job_ok:
  assumes ok: "store_ok s" and fresh: "dict_get (attempts s) attempt_id = None"
  shows "store_ok (snd (mem_claim_job job_id w now attempt_id s))"
proof (cases "dict_get (jobs s) job_id")
  case None
  then show ?thesis using ok by (simp add: mem_claim_job_def)
next
  case (Some j)
  show ?thesis
    using ok claim_cancel_ok[OF ok Some] claim_run_ok[OF ok Some _ fresh]
    by (auto simp: mem_claim_job_def Some Let_def job_due_def new_attempt_def)
qed

lemma renew_ok:
  assumes ok: "store_ok s"
  shows "store_ok (snd (mem_renew_job_lease job_id attempt_id w now s))"
proof (cases "fst (mem_renew_job_lease job_id attempt_id w now s)")
  case False
  then show ?thesis using ok by (auto simp: mem_renew_job_lease_def split: option.splits if_splits)
next
  case True
  then obtain j a where j: "dict_get (jobs s) job_id = Some j" and run: "bj_status j = JOB_RUNNING"
    and t: "snd (mem_renew_job_lease job_id attempt_id w now s) = s\<lparr>jobs := dict_set job_id
      (j\<lparr>bj_lease_expires_at := Some (now + seconds (bj_lease_seconds j)), bj_updated_at := now\<rparr>) (jobs s)\<rparr>"
    by (auto simp: mem_renew_job_lease_def split: option.splits if_splits)
  show ?thesis
    unfolding t
  proof (rule job_transition_ok[OF ok j])
    let ?j = "j\<lparr>bj_lease_expires_at := Some (now + seconds (bj_lease_seconds j)), bj_updated_at := now\<rparr>"
    let ?t = "s\<lparr>jobs := dict_set job_id ?j (jobs s)\<rparr>"
    show "same_job j ?j" by (simp add: same_job_def)
    show "job_ok ?j" using store_ok_job[OF ok j] run by (simp add: job_ok_def)
    show "attempts_moved job_id ?j s ?t" by (rule attempts_moved_keep[OF ok j]) (simp_all add: run)
    show "outbox_moved job_id ?j s ?t" by (rule outbox_moved_keep[OF ok j]) simp_all
    show "inbox_moved ?j s ?t" by (rule inbox_moved_keep[OF ok j]) simp_all
    show "actions_moved s ?t" by (rule actions_moved_same[OF ok]) simp
  qed simp
qed

lemma execution_held_iff:
  "execution_held job_id attempt_id w s = Some (j, a) \<longleftrightarrow>
     dict_get (jobs s) job_id = Some j \<and> dict_get (attempts s) attempt_id = Some a \<and>
     bj_status j = JOB_RUNNING \<and> bj_lease_owner j = Some w \<and> ja_status a = ATTEMPT_RUNNING"
  by (auto simp: execution_held_def split: option.splits)

lemma finish_transition_ok:
  assumes ok: "store_ok s" and held: "execution_held k i w s = Some (j, a)" and own: "ja_job_id a = k"
    and j': "same_job j j'" "job_ok j'" "bj_attempt_count j' = bj_attempt_count j" "bj_status j' \<noteq> JOB_RUNNING"
    and a': "ja_id a' = ja_id a" "ja_job_id a' = k" "ja_tenant_id a' = ja_tenant_id a"
      "ja_attempt_number a' = ja_attempt_number a" "ja_status a' \<noteq> ATTEMPT_RUNNING" "ja_completed_at a' \<noteq> None"
    and t: "jobs t = dict_set k j' (jobs s)" "attempts t = dict_set i a' (attempts s)"
      "scheduled_actions t = scheduled_actions s" "inbox_moved j' s t" "outbox_moved k j' s t"
  shows "store_ok t"
proof -
  from held have j: "dict_get (jobs s) k = Some j" and a: "dict_get (attempts s) i = Some a"
    and run: "bj_status j = JOB_RUNNING" "ja_status a = ATTEMPT_RUNNING"
    by (simp_all add: execution_held_iff)
  have "attempts_moved k j' s t"
    by (rule attempts_moved_finish[OF ok j run(1) a own run(2) t(2)])
      (use j' a' in \<open>simp_all add: same_job_def\<close>)
  then show ?thesis
    using job_transition_ok[OF ok j j'(1,2) t(1)] t(4,5) actions_moved_same[OF ok t(3)] by simp
qed

lemma complete_job_ok:
  assumes ok: "store_ok s"
    and own: "\<And>a. dict_get (attempts s) attempt_id = Some a \<Longrightarrow> ja_job_id a = job_id"
  shows "store_ok (snd (mem_complete_job job_id attempt_id w r now s))"
proof (cases "execution_held job_id attempt_id w s")
  case None
  then show ?thesis using ok by (simp add: mem_complete_job_def)
next
  case (Some ja)
  then obtain j a where held: "execution_held job_id attempt_id w s = Some (j, a)" by (cases ja) auto
  then have j: "dict_get (jobs s) job_id = Some j" and a: "ja_job_id a = job_id"
    using own by (simp_all add: execution_held_iff)
  let ?j = "completed_job now r j" and ?a = "completed_attempt now j a"
  let ?t = "set_inbox_status ?j
    (if bj_cancel_requested_at j \<noteq> None then INBOX_CANCELED else INBOX_COMPLETED) now None
    (s\<lparr>jobs := dict_set job_id ?j (jobs s), attempts := dict_set attempt_id ?a (attempts s)\<rparr>)"
  have "store_ok ?t"
  proof (rule finish_transition_ok[OF ok held a])
    show "same_job j ?j" "bj_attempt_count ?j = bj_attempt_count j" "bj_status ?j \<noteq> JOB_RUNNING"
      by (simp_all add: same_job_def completed_job_def Let_def)
    show "job_ok ?j"
      using store_ok_job[OF ok j] by (simp add: job_ok_def completed_job_def Let_def)
    show "outbox_moved job_id ?j s ?t"
      by (rule outbox_moved_keep[OF ok j]) (auto simp: completed_job_def Let_def split: if_splits)
    show "inbox_moved ?j s ?t"
      by (rule set_inbox_status_moved[OF ok]) (simp_all add: completed_job_def Let_def)
  qed (simp_all add: completed_attempt_def a)
  then show ?thesis by (simp add: mem_complete_job_def held Let_def)
qed

text \<open>The retry event handed to \<open>fail_job\<close>: a new pending event of the job.\<close>

definition fresh_event :: "outbox_event \<Rightarrow> uuid \<Rightarrow> uuid \<Rightarrow> task_store \<Rightarrow> bool" where
  "fresh_event e job_id tenant_id s \<longleftrightarrow> dict_get (outbox_events s) (oe_id e) = None \<and>
     oe_job_id e = job_id \<and> oe_tenant_id e = tenant_id \<and> oe_status e = OUTBOX_PENDING \<and>
     oe_attempt_count e = 0 \<and> 0 \<le> oe_max_attempts e \<and> oe_lease_owner e = None \<and>
     oe_published_at e = None"

lemma fresh_event_of: "fresh_event e k (bj_tenant_id j) s \<Longrightarrow> event_of j e"
  by (simp add: fresh_event_def event_of_def)

lemma fail_job_ok:
  assumes ok: "store_ok s"
    and own: "\<And>a. dict_get (attempts s) attempt_id = Some a \<Longrightarrow> ja_job_id a = job_id"
    and fresh: "\<And>j. dict_get (jobs s) job_id = Some j \<Longrightarrow> fresh_event e job_id (bj_tenant_id j) s"
  shows "store_ok (snd (mem_fail_job job_id attempt_id w code summary perm timed retry_at e now s))"
proof (cases "execution_held job_id attempt_id w s")
  case None
  then show ?thesis using ok by (simp add: mem_fail_job_def)
next
  case (Some ja)
  then obtain j a where held: "execution_held job_id attempt_id w s = Some (j, a)" by (cases ja) auto
  then have j: "dict_get (jobs s) job_id = Some j" and a: "ja_job_id a = job_id"
    using own by (simp_all add: execution_held_iff)
  note e = fresh[OF j]
  let ?st = "failure_status perm j"
  let ?j = "failed_job code summary perm retry_at now j"
  let ?a = "failed_attempt code summary ?st timed now a"
  let ?s1 = "s\<lparr>jobs := dict_set job_id ?j (jobs s), attempts := dict_set attempt_id ?a (attempts s)\<rparr>"
  have st: "?st \<in> {JOB_CANCELED, JOB_FAILED, JOB_DEAD_LETTER, JOB_RETRYING}"
    by (simp add: failure_status_def)
  have same: "same_job j ?j" "bj_attempt_count ?j = bj_attempt_count j" "bj_status ?j = ?st"
    "bj_tenant_id ?j = bj_tenant_id j"
    by (simp_all add: same_job_def failed_job_def Let_def)
  have jok: "job_ok ?j"
    using store_ok_job[OF ok j] st by (auto simp: job_ok_def failed_job_def Let_def)
  have step: "store_ok t"
    if "jobs t = jobs ?s1" "attempts t = attempts ?s1" "scheduled_actions t = scheduled_actions s"
      "inbox_moved ?j s t" "outbox_moved job_id ?j s t" for t
    by (rule finish_transition_ok[OF ok held a same(1) jok same(2)])
      (use that st same in \<open>auto simp: failed_attempt_def a\<close>)
  have ev: "event_of ?j e" using fresh_event_of[of e job_id ?j s] e same by simp
  have "store_ok (snd (mem_fail_job job_id attempt_id w code summary perm timed retry_at e now s))"
    if retry: "?st = JOB_RETRYING"
  proof -
    let ?t = "set_inbox_status ?j INBOX_PENDING now None
      (?s1\<lparr>outbox_events := dict_set (oe_id e) e (outbox_events ?s1)\<rparr>)"
    have "store_ok ?t"
    proof (rule step)
      show "inbox_moved ?j s ?t"
        by (rule set_inbox_status_moved[OF ok]) (simp_all add: same retry)
      show "outbox_moved job_id ?j s ?t"
        by (rule outbox_moved_add[OF ok j, where e = e]) (use e ev same in \<open>simp_all add: fresh_event_def\<close>)
    qed simp_all
    then show ?thesis using retry by (simp add: mem_fail_job_def held Let_def)
  qed
  moreover have "store_ok (snd (mem_fail_job job_id attempt_id w code summary perm timed retry_at e now s))"
    if "?st = JOB_FAILED \<or> ?st = JOB_DEAD_LETTER"
  proof -
    have "store_ok (set_inbox_status ?j INBOX_DEAD_LETTER now (Some code) ?s1)"
      by (rule step)
        (use that same in \<open>auto intro!: set_inbox_status_moved[OF ok] outbox_moved_keep[OF ok j]\<close>)
    then show ?thesis using that by (auto simp: mem_fail_job_def held Let_def)
  qed
  moreover have "store_ok (snd (mem_fail_job job_id attempt_id w code summary perm timed retry_at e now s))"
    if "?st = JOB_CANCELED"
  proof -
    have "store_ok (set_inbox_status ?j INBOX_CANCELED now None ?s1)"
      by (rule step)
        (use that same in \<open>auto intro!: set_inbox_status_moved[OF ok] outbox_moved_keep[OF ok j]\<close>)
    then show ?thesis using that by (simp add: mem_fail_job_def held Let_def)
  qed
  ultimately show ?thesis using st by blast
qed

end
