(* ===== verification/Task_Recovery.thy ===== *)
theory Task_Recovery
  imports Task_Preserve
begin

text \<open>
  The operations that touch outbox events and expired leases keep \<open>store_ok\<close>: claiming and
  publishing events, failing them, and \<open>recover_expired_leases\<close>, whose loop over the jobs is
  followed with its intermediate states. The second part says what recovery achieves: afterwards
  no job runs on an expired lease, and the returned number counts what was recovered.
\<close>

section \<open>Operations on outbox events only\<close>

definition event_step :: "outbox_event \<Rightarrow> outbox_event \<Rightarrow> bool" where
  "event_step e e' \<longleftrightarrow> oe_id e' = oe_id e \<and> oe_job_id e' = oe_job_id e \<and>
     oe_tenant_id e' = oe_tenant_id e \<and> oe_max_attempts e' = oe_max_attempts e \<and>
     oe_status e' \<noteq> OUTBOX_CANCELED \<and>
     0 \<le> oe_attempt_count e' \<and> oe_attempt_count e' \<le> oe_max_attempts e' \<and>
     (oe_status e' = OUTBOX_PUBLISHING \<longleftrightarrow> oe_lease_owner e' \<noteq> None) \<and>
     (oe_status e' = OUTBOX_PUBLISHED \<longleftrightarrow> oe_published_at e' \<noteq> None)"

lemma outbox_only_ok:
  assumes ok: "store_ok s"
    and frame: "jobs t = jobs s" "attempts t = attempts s" "inbox_events t = inbox_events s"
      "scheduled_actions t = scheduled_actions s"
    and d: "dict_ok (outbox_events t)"
    and get: "\<And>i. dict_get (outbox_events t) i = map_option (\<lambda>e. if p e then f e else e) (dict_get (outbox_events s) i)"
    and step: "\<And>i e. dict_get (outbox_events s) i = Some e \<Longrightarrow> p e \<Longrightarrow> event_step e (f e)"
  shows "store_ok t"
proof -
  define g where "g = (\<lambda>e. if p e then f e else e)"
  have get: "dict_get (outbox_events t) i = map_option g (dict_get (outbox_events s) i)" for i
    using get by (simp add: g_def)
  have g: "oe_id (g e) = oe_id e" "oe_job_id (g e) = oe_job_id e"
    "oe_status e \<noteq> OUTBOX_CANCELED \<Longrightarrow> oe_status (g e) \<noteq> OUTBOX_CANCELED"
    "event_of j e \<Longrightarrow> event_of j (g e)"
    if "dict_get (outbox_events s) i = Some e" for i e j
    using step[OF that] by (auto simp: g_def event_step_def event_of_def)
  have "keys_ok t"
    unfolding keys_ok_def frame
    using ok d g(1) store_ok_ids[OF ok] by (auto simp: get store_okD)
  moreover have "events_ok t"
    unfolding events_ok_def frame
  proof (intro conjI allI impI)
    fix i e assume "dict_get (outbox_events t) i = Some e"
    then obtain e0 where e0: "dict_get (outbox_events s) i = Some e0" "e = g e0" by (auto simp: get)
    then show "\<exists>j. dict_get (jobs s) (oe_job_id e) = Some j \<and> event_of j e"
      using store_ok_event[OF ok e0(1)] g[OF e0(1)] by auto
  next
    fix k j assume "dict_get (jobs s) k = Some j \<and> job_claimable (bj_status j)"
    then obtain i e where "dict_get (outbox_events s) i = Some e" "oe_job_id e = k"
      "oe_status e \<noteq> OUTBOX_CANCELED"
      using store_ok_dispatch[OF ok, of k j] by auto
    with g[OF this(1)] show "\<exists>i e. dict_get (outbox_events t) i = Some e \<and> oe_job_id e = k \<and>
        oe_status e \<noteq> OUTBOX_CANCELED"
      by (intro exI[of _ i] exI[of _ "g e"]) (simp add: get)
  qed
  moreover have "attempts_ok t" "inbox_ok t" "actions_ok t"
    using ok unfolding store_ok_def attempts_ok_def attempt_numbers_def inbox_ok_def
      actions_ok_def frame by blast+
  ultimately show ?thesis
    using ok by (simp add: store_ok_def frame)
qed

lemma outbox_put_ok:
  assumes ok: "store_ok s" and e: "dict_get (outbox_events s) k = Some e" and step: "event_step e e'"
  shows "store_ok (s\<lparr>outbox_events := dict_set k e' (outbox_events s)\<rparr>)"
proof (rule outbox_only_ok[OF ok, where p = "\<lambda>x. oe_id x = k" and f = "\<lambda>_. e'"])
  show "dict_get (outbox_events (s\<lparr>outbox_events := dict_set k e' (outbox_events s)\<rparr>)) i =
      map_option (\<lambda>e. if oe_id e = k then e' else e) (dict_get (outbox_events s) i)" for i
    using store_ok_ids(3)[OF ok, of i] e by (cases "dict_get (outbox_events s) i") auto
  show "event_step x e'" if "dict_get (outbox_events s) i = Some x" "oe_id x = k" for i x
    using that e step store_ok_ids(3)[OF ok that(1)] by simp
qed (use store_ok_dicts(3)[OF ok] in simp_all)

lemma publishing_event_iff:
  "publishing_event k w s = Some e \<longleftrightarrow> dict_get (outbox_events s) k = Some e \<and>
     oe_status e = OUTBOX_PUBLISHING \<and> oe_lease_owner e = Some w"
  by (auto simp: publishing_event_def split: option.splits)

lemma published_event_step:
  "store_ok s \<Longrightarrow> dict_get (outbox_events s) k = Some e \<Longrightarrow>
     event_step e (e\<lparr>oe_status := OUTBOX_PUBLISHED, oe_lease_owner := None, oe_lease_expires_at := None,
       oe_published_at := Some now, oe_updated_at := now\<rparr>)"
  by (auto simp: event_step_def event_of_def dest!: store_ok_event)

lemma mark_published_ok: "store_ok s \<Longrightarrow> store_ok (mem_mark_outbox_published k w now s)"
  by (auto simp: mem_mark_outbox_published_def publishing_event_iff split: option.split
      intro!: outbox_put_ok published_event_step)

lemma release_event_step:
  "store_ok s \<Longrightarrow> dict_get (outbox_events s) k = Some e \<Longrightarrow> oe_status e = OUTBOX_PUBLISHING \<Longrightarrow>
     event_step e (release_event code until now e)"
  by (auto simp: event_step_def event_of_def release_event_def dest!: store_ok_event)

lemma mark_failed_ok: "store_ok s \<Longrightarrow> store_ok (mem_mark_outbox_failed k w code until now s)"
  by (auto simp: mem_mark_outbox_failed_def publishing_event_iff split: option.split
      intro!: outbox_put_ok release_event_step)

lemma publish_event_step:
  "store_ok s \<Longrightarrow> dict_get (outbox_events s) k = Some e \<Longrightarrow> outbox_due now e \<Longrightarrow>
     event_step e (publish_event w now until e)"
  by (auto simp: event_step_def event_of_def publish_event_def outbox_due_def outbox_claimable_def
      dest!: store_ok_event)

lemma fold_claim_ok:
  assumes "store_ok s" and "distinct (map oe_id es)"
    and "\<And>e. e \<in> set es \<Longrightarrow> dict_get (outbox_events s) (oe_id e) = Some e \<and> outbox_due now e"
  shows "store_ok (s\<lparr>outbox_events := fold (\<lambda>e. dict_set (oe_id e) e)
           (map (publish_event w now until) es) (outbox_events s)\<rparr>)"
  using assms
proof (induction es arbitrary: s)
  case Nil
  then show ?case by simp
next
  case (Cons e es)
  let ?e = "publish_event w now until e"
  have id: "oe_id ?e = oe_id e" by (simp add: publish_event_def)
  have e: "dict_get (outbox_events s) (oe_id e) = Some e" "outbox_due now e" using Cons.prems(3) by simp_all
  let ?s = "s\<lparr>outbox_events := dict_set (oe_id e) ?e (outbox_events s)\<rparr>"
  have ok: "store_ok ?s"
    by (rule outbox_put_ok[OF Cons.prems(1) e(1) publish_event_step[OF Cons.prems(1) e]])
  have "store_ok (?s\<lparr>outbox_events := fold (\<lambda>e. dict_set (oe_id e) e)
      (map (publish_event w now until) es) (outbox_events ?s)\<rparr>)"
  proof (rule Cons.IH[OF ok])
    show "distinct (map oe_id es)" using Cons.prems(2) by simp
    show "dict_get (outbox_events ?s) (oe_id x) = Some x \<and> outbox_due now x" if "x \<in> set es" for x
    proof -
      have "oe_id x \<noteq> oe_id e" using Cons.prems(2) that by (metis distinct.simps(2) imageI list.simps(9) set_map)
      then show ?thesis using Cons.prems(3)[of x] that by simp
    qed
  qed
  then show ?case by (simp add: id)
qed

lemma dict_values_ids:
  assumes ok: "store_ok s"
  shows "map oe_id (dict_values (outbox_events s)) = map fst (outbox_events s)"
  using store_ok_ids(3)[OF ok] store_ok_dicts(3)[OF ok]
  by (auto simp: dict_values_def dict_get_def dict_ok_def)

lemma distinct_py_take: "distinct xs \<Longrightarrow> distinct (py_take n xs)"
  by (simp add: py_take_def)

lemma map_py_take: "map f (py_take n xs) = py_take n (map f xs)"
  by (simp add: py_take_def take_map)

lemma distinct_map_sorted_by: "distinct (map f xs) \<Longrightarrow> distinct (map f (sorted_by g xs))"
  by (simp add: sorted_by_def distinct_map)

definition claimable_rows :: "instant \<Rightarrow> int \<Rightarrow> task_store \<Rightarrow> outbox_event list" where
  "claimable_rows now limit s =
     py_take limit (sorted_by (\<lambda>e. (oe_available_at e, oe_created_at e, oe_id e))
       (filter (outbox_due now) (dict_values (outbox_events s))))"

lemma claimable_rows_mem:
  assumes ok: "store_ok s" and e: "e \<in> set (claimable_rows now limit s)"
  shows "dict_get (outbox_events s) (oe_id e) = Some e \<and> outbox_due now e"
proof -
  from e have "e \<in> set (dict_values (outbox_events s))" "outbox_due now e"
    using set_py_take_subset unfolding claimable_rows_def by fastforce+
  then show ?thesis
    using dict_values_iff[OF store_ok_dicts(3)[OF ok]] store_ok_ids(3)[OF ok] by auto
qed

lemma claimable_rows_distinct:
  assumes ok: "store_ok s"
  shows "distinct (map oe_id (claimable_rows now limit s))"
proof -
  have "distinct (map oe_id (dict_values (outbox_events s)))"
    using dict_values_ids[OF ok] store_ok_dicts(3)[OF ok] by (simp add: dict_ok_def)
  then show ?thesis
    unfolding claimable_rows_def map_py_take
    by (intro distinct_py_take distinct_map_sorted_by distinct_map_filter)
qed

lemma claim_outbox_eq:
  "mem_claim_outbox w now until limit s =
     (let claimed = map (publish_event w now until) (claimable_rows now limit s)
      in (claimed, s\<lparr>outbox_events := fold (\<lambda>e. dict_set (oe_id e) e) claimed (outbox_events s)\<rparr>))"
  by (simp add: mem_claim_outbox_def claimable_rows_def Let_def)

lemma claim_outbox_ok: "store_ok s \<Longrightarrow> store_ok (snd (mem_claim_outbox w now until limit s))"
  unfolding claim_outbox_eq Let_def snd_conv
  by (rule fold_claim_ok) (auto simp: claimable_rows_distinct claimable_rows_mem)

section \<open>Recovering one job\<close>

lemma job_lease_expired_iff:
  "job_lease_expired now j \<longleftrightarrow> bj_status j = JOB_RUNNING \<and>
     (\<exists>u. bj_lease_expires_at j = Some u \<and> u \<le> now)"
  by (auto simp: job_lease_expired_def split: option.splits)

lemma recover_job_frame:
  "jobs (recover_job now fresh k j s) = dict_set k (recovered_job now j) (jobs s)"
  "l \<noteq> fresh k \<Longrightarrow> dict_get (outbox_events (recover_job now fresh k j s)) l = dict_get (outbox_events s) l"
  by (simp_all add: recover_job_def retry_outbox_def Let_def)

lemma recover_job_ok:
  assumes ok: "store_ok s" and j: "dict_get (jobs s) k = Some j" and exp: "job_lease_expired now j"
    and fresh: "dict_get (outbox_events s) (fresh k) = None"
  shows "store_ok (recover_job now fresh k j s)"
proof -
  let ?j = "recovered_job now j" and ?o = "retry_outbox (fresh k) (recovered_job now j) now"
  let ?s1 = "s\<lparr>jobs := dict_set k ?j (jobs s),
    attempts := dict_walk (\<lambda>a. ja_job_id a = k \<and> ja_status a = ATTEMPT_RUNNING)
      (timed_out_attempt now) (attempts s)\<rparr>"
  have run: "bj_status j = JOB_RUNNING" using exp by (simp add: job_lease_expired_def)
  have id: "bj_id j = k" using store_ok_ids(1)[OF ok j] .
  have same: "same_job j ?j" "bj_attempt_count ?j = bj_attempt_count j" "bj_tenant_id ?j = bj_tenant_id j"
    by (simp_all add: same_job_def recovered_job_def Let_def)
  have st: "bj_status ?j = JOB_RETRYING \<or> bj_status ?j = JOB_DEAD_LETTER"
    by (simp add: recovered_job_def)
  have jok: "job_ok ?j"
    using store_ok_job[OF ok j] by (auto simp: job_ok_def recovered_job_def Let_def)
  have step: "store_ok t"
    if "jobs t = jobs ?s1" "attempts t = attempts ?s1" "scheduled_actions t = scheduled_actions s"
      "inbox_moved ?j s t" "outbox_moved k ?j s t" for t
  proof (rule job_transition_ok[OF ok j same(1) jok _ _ that(5) that(4)])
    show "attempts_moved k ?j s t"
      by (rule attempts_moved_timeout[OF ok j, where now = now]) (use st same that in auto)
  qed (use that actions_moved_same[OF ok] in simp_all)
  show ?thesis
  proof (cases "bj_status ?j = JOB_RETRYING")
    case True
    let ?t = "set_inbox_status ?j INBOX_PENDING now None
      (?s1\<lparr>outbox_events := dict_set (oe_id ?o) ?o (outbox_events ?s1)\<rparr>)"
    have "store_ok ?t"
    proof (rule step)
      show "inbox_moved ?j s ?t" by (rule set_inbox_status_moved[OF ok]) (simp_all add: True)
      show "outbox_moved k ?j s ?t"
        by (rule outbox_moved_add[OF ok j, where e = ?o])
          (use fresh same id in \<open>simp_all add: retry_outbox_def event_of_def same_job_def\<close>)
    qed simp_all
    then show ?thesis using True by (simp add: recover_job_def Let_def)
  next
    case False
    let ?t = "set_inbox_status ?j INBOX_DEAD_LETTER now (Some lease_expired) ?s1"
    have "store_ok ?t"
    proof (rule step)
      show "inbox_moved ?j s ?t"
        by (rule set_inbox_status_moved[OF ok]) (use False st in auto)
      show "outbox_moved k ?j s ?t"
        by (rule outbox_moved_keep[OF ok j]) (use False st same in auto)
    qed simp_all
    then show ?thesis using False by (simp add: recover_job_def Let_def)
  qed
qed

section \<open>The recovery loop\<close>

text \<open>The identifiers drawn for the retry events are new and different.\<close>

definition fresh_ids :: "(uuid \<Rightarrow> uuid) \<Rightarrow> task_store \<Rightarrow> bool" where
  "fresh_ids fresh s \<longleftrightarrow> inj fresh \<and> (\<forall>k. dict_get (outbox_events s) (fresh k) = None)"

definition recover_entry :: "instant \<Rightarrow> (uuid \<Rightarrow> uuid) \<Rightarrow> uuid \<times> background_job \<Rightarrow>
    int \<times> task_store \<Rightarrow> int \<times> task_store" where
  "recover_entry now fresh = (\<lambda>(k, item) (n, s). if job_lease_expired now item
     then (n + 1, recover_job now fresh k item s) else (n, s))"

lemma recover_jobs_fold: "recover_jobs now fresh s = fold (recover_entry now fresh) (jobs s) (0, s)"
proof -
  have "recover_entry now fresh = (\<lambda>(k, item) (n, s). if job_lease_expired now item
     then (n + 1, recover_job now fresh k item s) else (n, s))"
    by (simp add: recover_entry_def)
  then show ?thesis by (simp add: recover_jobs_def)
qed

lemma recover_fold:
  assumes "store_ok s" and "distinct (map fst xs)" and "inj fresh"
    and "\<And>k v. (k, v) \<in> set xs \<Longrightarrow> dict_get (jobs s) k = Some v"
    and "\<And>k v. (k, v) \<in> set xs \<Longrightarrow> dict_get (outbox_events s) (fresh k) = None"
    and "fold (recover_entry now fresh) xs (n, s) = (m, t)"
  shows "store_ok t \<and> m = n + int (count_if (job_lease_expired now) (map snd xs)) \<and>
    jobs t = fold (\<lambda>(k, v) d. if job_lease_expired now v then dict_set k (recovered_job now v) d else d)
      xs (jobs s)"
  using assms
proof (induction xs arbitrary: s n)
  case Nil
  then show ?case by (simp add: count_if_def)
next
  case (Cons x xs)
  obtain k j where x: "x = (k, j)" by (cases x)
  have j: "dict_get (jobs s) k = Some j" using Cons.prems(4) x by simp
  have new: "l \<noteq> k" if "(l, v) \<in> set xs" for l v
    using Cons.prems(2) x that by (metis distinct.simps(2) fst_conv imageI list.simps(9) set_map)
  show ?case
  proof (cases "job_lease_expired now j")
    case False
    then have "fold (recover_entry now fresh) xs (n, s) = (m, t)"
      using Cons.prems(6) by (simp add: x recover_entry_def)
    moreover have "distinct (map fst xs)" using Cons.prems(2) by simp
    moreover have "dict_get (jobs s) l = Some v" "dict_get (outbox_events s) (fresh l) = None"
      if "(l, v) \<in> set xs" for l v
      using that Cons.prems(4,5)[of l v] by simp_all
    ultimately have "store_ok t \<and> m = n + int (count_if (job_lease_expired now) (map snd xs)) \<and>
      jobs t = fold (\<lambda>(k, v) d. if job_lease_expired now v then dict_set k (recovered_job now v) d else d)
        xs (jobs s)"
      using Cons.IH[OF Cons.prems(1) _ Cons.prems(3)] by blast
    then show ?thesis using x False by (simp add: count_if_def)
  next
    case True
    let ?s = "recover_job now fresh k j s"
    have ok: "store_ok ?s"
      by (rule recover_job_ok[OF Cons.prems(1) j True]) (use Cons.prems(5)[of k j] x in simp)
    have "fold (recover_entry now fresh) xs (n + 1, ?s) = (m, t)"
      using Cons.prems(6) True by (simp add: x recover_entry_def)
    moreover have "dict_get (jobs ?s) l = Some v" if "(l, v) \<in> set xs" for l v
      using new[OF that] Cons.prems(4)[of l v] that by (simp add: recover_job_frame)
    moreover have "dict_get (outbox_events ?s) (fresh l) = None" if "(l, v) \<in> set xs" for l v
      using new[OF that] Cons.prems(3) Cons.prems(5)[of l v] that by (simp add: recover_job_frame inj_eq)
    moreover have "distinct (map fst xs)" using Cons.prems(2) by simp
    ultimately have "store_ok t \<and> m = (n + 1) + int (count_if (job_lease_expired now) (map snd xs)) \<and>
      jobs t = fold (\<lambda>(k, v) d. if job_lease_expired now v then dict_set k (recovered_job now v) d else d)
        xs (jobs ?s)"
      using Cons.IH[OF ok _ Cons.prems(3)] by blast
    then show ?thesis using x True by (simp add: count_if_def recover_job_frame)
  qed
qed

lemma recover_jobs_result:
  assumes ok: "store_ok s" and fresh: "fresh_ids fresh s" and r: "recover_jobs now fresh s = (m, t)"
  shows "store_ok t" "m = int (count_if (job_lease_expired now) (dict_values (jobs s)))"
    "jobs t = dict_walk (job_lease_expired now) (recovered_job now) (jobs s)"
proof -
  note d = store_ok_dicts(1)[OF ok]
  have "store_ok t \<and> m = 0 + int (count_if (job_lease_expired now) (map snd (jobs s))) \<and>
    jobs t = fold (\<lambda>(k, v) d. if job_lease_expired now v then dict_set k (recovered_job now v) d else d)
      (jobs s) (jobs s)"
  proof (rule recover_fold[OF ok])
    show "dict_get (jobs s) k = Some v" if "(k, v) \<in> set (jobs s)" for k v
      using that d by (simp add: dict_get_def dict_ok_def)
  qed (use d fresh r in \<open>auto simp: dict_ok_def fresh_ids_def recover_jobs_fold\<close>)
  then show "store_ok t" "m = int (count_if (job_lease_expired now) (dict_values (jobs s)))"
    "jobs t = dict_walk (job_lease_expired now) (recovered_job now) (jobs s)"
    by (simp_all add: dict_values_def dict_walk_def)
qed

lemma recover_ok:
  assumes ok: "store_ok s" and fresh: "fresh_ids fresh s"
  shows "store_ok (snd (mem_recover_expired_leases now fresh s))"
proof -
  obtain m t where r: "recover_jobs now fresh s = (m, t)" by (cases "recover_jobs now fresh s")
  have t: "store_ok t" by (rule recover_jobs_result[OF ok fresh r])
  have "store_ok (t\<lparr>outbox_events := dict_walk (outbox_lease_expired now)
      (release_event lease_expired now now) (outbox_events t)\<rparr>)"
    by (rule outbox_only_ok[OF t, where p = "outbox_lease_expired now" and f = "release_event lease_expired now now"])
      (use store_ok_dicts(3)[OF t] in \<open>auto simp: outbox_lease_expired_def intro: release_event_step[OF t]\<close>)
  then show ?thesis by (simp add: mem_recover_expired_leases_def r)
qed

text \<open>What recovery achieves.\<close>

lemma recovered_not_expired [simp]:
  "\<not> job_lease_expired now (recovered_job now j)"
  "\<not> outbox_lease_expired now (release_event code until now e)"
  by (simp_all add: job_lease_expired_def recovered_job_def outbox_lease_expired_def release_event_def Let_def)

lemma recover_result:
  assumes ok: "store_ok s" and fresh: "fresh_ids fresh s"
    and r: "mem_recover_expired_leases now fresh s = (n, t)"
  shows "jobs t = dict_walk (job_lease_expired now) (recovered_job now) (jobs s)"
    "int (count_if (job_lease_expired now) (dict_values (jobs s))) \<le> n"
    "dict_get (jobs t) k = Some j \<Longrightarrow> \<not> job_lease_expired now j"
    "dict_get (outbox_events t) i = Some e \<Longrightarrow> \<not> outbox_lease_expired now e"
proof -
  obtain m u where r1: "recover_jobs now fresh s = (m, u)" by (cases "recover_jobs now fresh s")
  note u = recover_jobs_result[OF ok fresh r1]
  show jobs: "jobs t = dict_walk (job_lease_expired now) (recovered_job now) (jobs s)"
    and "int (count_if (job_lease_expired now) (dict_values (jobs s))) \<le> n"
    using r r1 u by (auto simp: mem_recover_expired_leases_def)
  show "\<not> job_lease_expired now j" if "dict_get (jobs t) k = Some j"
    using that store_ok_dicts(1)[OF ok] by (auto simp: jobs split: if_splits) (metis recovered_not_expired(1))
  show "\<not> outbox_lease_expired now e" if "dict_get (outbox_events t) i = Some e"
    using that r r1 store_ok_dicts(3)[OF u(1)]
    by (auto simp: mem_recover_expired_leases_def split: if_splits) (metis recovered_not_expired(2))
qed

section \<open>Operations that add records\<close>

text \<open>
  The operations that add records keep \<open>store_ok\<close>: \<open>enqueue\<close> with or without an inbox event,
  \<open>replay\<close>, \<open>create_scheduled_action\<close>; and the operations on scheduled actions, budget usages and
  heartbeats. What a caller must provide is \<open>new_job\<close>, \<open>fresh_event\<close> and \<open>fresh_inbox\<close>, which is
  what \<open>BackgroundTaskService\<close> builds.
\<close>

definition new_job :: "background_job \<Rightarrow> task_store \<Rightarrow> bool" where
  "new_job j s \<longleftrightarrow> dict_get (jobs s) (bj_id j) = None \<and> bj_status j = JOB_PENDING \<and>
     bj_attempt_count j = 0 \<and> 0 \<le> bj_max_attempts j \<and> bj_completed_at j = None \<and>
     bj_lease_owner j = None \<and> bj_lease_expires_at j = None"

definition fresh_inbox :: "inbox_event option \<Rightarrow> background_job \<Rightarrow> task_store \<Rightarrow> bool" where
  "fresh_inbox inbox j s \<longleftrightarrow> bj_source_inbox_id j = map_option ie_id inbox \<and>
     (case inbox of None \<Rightarrow> True
      | Some ib \<Rightarrow> dict_get (inbox_events s) (ie_id ib) = None \<and> ie_job_id ib = bj_id j \<and>
          ie_tenant_id ib = bj_tenant_id j \<and> ie_status ib = INBOX_PENDING)"

definition put_inbox :: "inbox_event option \<Rightarrow> (uuid, inbox_event) dict \<Rightarrow> (uuid, inbox_event) dict" where
  "put_inbox inbox d = (case inbox of None \<Rightarrow> d | Some ib \<Rightarrow> dict_set (ie_id ib) ib d)"

definition put_action ::
    "scheduled_action option \<Rightarrow> (uuid, scheduled_action) dict \<Rightarrow> (uuid, scheduled_action) dict" where
  "put_action act d = (case act of None \<Rightarrow> d | Some a \<Rightarrow> dict_set (sa_id a) a d)"

definition fresh_action :: "scheduled_action option \<Rightarrow> background_job \<Rightarrow> task_store \<Rightarrow> bool" where
  "fresh_action act j s \<longleftrightarrow> (case act of None \<Rightarrow> True
     | Some a \<Rightarrow> dict_get (scheduled_actions s) (sa_id a) = None \<and> sa_status a = ACTION_PENDING \<and>
         sa_completed_at a = None \<and> sa_job_id a = Some (bj_id j) \<and> bj_source_inbox_id j = None)"

lemma put_inbox_get:
  "fresh_inbox inbox j s \<Longrightarrow> dict_get (put_inbox inbox (inbox_events s)) i =
     (case inbox of Some ib \<Rightarrow> if i = ie_id ib then Some ib else dict_get (inbox_events s) i
      | None \<Rightarrow> dict_get (inbox_events s) i)"
  by (simp add: put_inbox_def split: option.split)

lemma put_action_get:
  "dict_get (put_action act (scheduled_actions s)) i =
     (case act of Some a \<Rightarrow> if i = sa_id a then Some a else dict_get (scheduled_actions s) i
      | None \<Rightarrow> dict_get (scheduled_actions s) i)"
  by (simp add: put_action_def split: option.split)

lemma job_insert_ok:
  assumes ok: "store_ok s" and new: "new_job j s" and e: "fresh_event e (bj_id j) (bj_tenant_id j) s"
    and inb: "fresh_inbox inbox j s" and act: "fresh_action act j s"
    and t: "jobs t = dict_set (bj_id j) j (jobs s)" "attempts t = attempts s"
      "outbox_events t = dict_set (oe_id e) e (outbox_events s)"
      "inbox_events t = put_inbox inbox (inbox_events s)"
      "scheduled_actions t = put_action act (scheduled_actions s)"
  shows "store_ok t"
proof -
  note none = new[unfolded new_job_def]
  note igets = put_inbox_get[OF inb]
  have keep: "dict_get (jobs t) l = Some i" if "dict_get (jobs s) l = Some i" for l i
    using that none by (auto simp: t)
  have "keys_ok t"
    unfolding keys_ok_def
  proof (intro conjI allI impI)
    show "dict_ok (jobs t)" "dict_ok (attempts t)" "dict_ok (outbox_events t)"
      "dict_ok (inbox_events t)" "dict_ok (scheduled_actions t)"
      using store_ok_dicts[OF ok] by (auto simp: t put_inbox_def put_action_def split: option.splits)
  qed (use store_ok_ids[OF ok] in \<open>auto simp: t igets put_action_get split: if_splits option.splits\<close>)
  moreover have "\<forall>k v. dict_get (jobs t) k = Some v \<longrightarrow> job_ok v"
    using store_ok_job[OF ok] none by (auto simp: t job_ok_def)
  moreover have "attempts_ok t"
  proof -
    have no: "ja_job_id a \<noteq> bj_id j" if "dict_get (attempts s) i = Some a" for i a
      using store_ok_attempt[OF ok that] none by auto
    then have "ja_job_id a \<noteq> bj_id j" if "a \<in> set (dict_values (attempts s))" for a
      using that dict_values_iff[OF store_ok_dicts(2)[OF ok]] by blast
    then have "attempt_numbers t (bj_id j) = []"
      by (simp add: attempt_numbers_def t filter_empty_conv)
    moreover have "attempt_numbers t l = attempt_numbers s l" for l
      by (simp add: attempt_numbers_def t)
    ultimately show ?thesis
      using ok none no unfolding store_ok_def attempts_ok_def by (auto simp: t)
  qed
  moreover have "events_ok t"
    unfolding events_ok_def
  proof (intro conjI allI impI)
    fix i v assume v: "dict_get (outbox_events t) i = Some v"
    then have "v = e \<or> dict_get (outbox_events s) i = Some v" by (auto simp: t split: if_splits)
    then show "\<exists>j. dict_get (jobs t) (oe_job_id v) = Some j \<and> event_of j v"
    proof
      assume "v = e"
      then show ?thesis
        using fresh_event_of[OF e] e by (auto simp: t fresh_event_def)
    next
      assume "dict_get (outbox_events s) i = Some v"
      then show ?thesis using store_ok_event[OF ok] keep by blast
    qed
  next
    fix k v assume k: "dict_get (jobs t) k = Some v \<and> job_claimable (bj_status v)"
    show "\<exists>i x. dict_get (outbox_events t) i = Some x \<and> oe_job_id x = k \<and> oe_status x \<noteq> OUTBOX_CANCELED"
    proof (cases "k = bj_id j")
      case True
      then show ?thesis using e by (intro exI[of _ "oe_id e"] exI[of _ e]) (simp add: t fresh_event_def)
    next
      case False
      then obtain i x where x: "dict_get (outbox_events s) i = Some x" "oe_job_id x = k"
          "oe_status x \<noteq> OUTBOX_CANCELED"
        using k store_ok_dispatch[OF ok, of k v] by (auto simp: t)
      then show ?thesis using e by (intro exI[of _ i] exI[of _ x]) (auto simp: t fresh_event_def)
    qed
  qed
  moreover have "inbox_ok t"
    unfolding inbox_ok_def
  proof (intro conjI allI impI)
    fix l v i ib assume h: "dict_get (jobs t) l = Some v \<and> bj_source_inbox_id v = Some i \<and>
      dict_get (inbox_events t) i = Some ib"
    show "inbox_follows v ib"
    proof (cases "l = bj_id j")
      case True
      with h inb none show ?thesis
        by (auto simp: t igets fresh_inbox_def inbox_follows_def split: option.splits)
    next
      case False
      with h have l: "dict_get (jobs s) l = Some v" "bj_source_inbox_id v = Some i" by (auto simp: t)
      with store_ok_source[OF ok] obtain ib0 where "dict_get (inbox_events s) i = Some ib0" by blast
      with h inb have "dict_get (inbox_events s) i = Some ib"
        by (auto simp: t igets fresh_inbox_def split: option.splits if_splits)
      then show ?thesis by (rule store_ok_inbox[OF ok l])
    qed
  next
    fix i ib assume h: "dict_get (inbox_events t) i = Some ib"
    show "\<exists>v. dict_get (jobs t) (ie_job_id ib) = Some v \<and> bj_source_inbox_id v = Some i"
    proof (cases "dict_get (inbox_events s) i = Some ib")
      case True
      then show ?thesis using store_ok_inbox_job[OF ok] keep by blast
    next
      case False
      with h inb show ?thesis by (auto simp: t igets fresh_inbox_def split: option.splits if_splits)
    qed
  next
    fix l v i assume h: "dict_get (jobs t) l = Some v \<and> bj_source_inbox_id v = Some i"
    show "dict_get (inbox_events t) i \<noteq> None"
    proof (cases "l = bj_id j")
      case True
      with h inb show ?thesis by (auto simp: t igets fresh_inbox_def split: option.splits)
    next
      case False
      with h have l: "dict_get (jobs s) l = Some v" "bj_source_inbox_id v = Some i" by (auto simp: t)
      from store_ok_source[OF ok this] show ?thesis by (auto simp: t igets split: option.splits)
    qed
  qed
  moreover have "actions_ok t"
    unfolding actions_ok_def
  proof (intro allI impI)
    fix i a assume h: "dict_get (scheduled_actions t) i = Some a"
    show "(sa_status a = ACTION_PENDING \<longleftrightarrow> sa_completed_at a = None) \<and>
      (\<exists>k j. sa_job_id a = Some k \<and> dict_get (jobs t) k = Some j \<and> bj_source_inbox_id j = None)"
    proof (cases "dict_get (scheduled_actions s) i = Some a")
      case True
      then show ?thesis using store_ok_action[OF ok] keep by blast
    next
      case False
      with h act show ?thesis
        by (auto simp: t put_action_get fresh_action_def split: option.splits if_splits)
    qed
  qed
  ultimately show ?thesis by (simp add: store_ok_def)
qed

section \<open>Enqueue\<close>

lemma enqueue_cases:
  assumes ok: "store_ok s"
  obtains (dup) e where "mem_enqueue j ev inbox s = Inr ((e, False), s)" "e \<in> set (dict_values (jobs s))"
      "job_by_deduplication s (bj_tenant_id j) (bj_deduplication_key j) = Some e \<or>
       (\<exists>ib dup. inbox = Some ib \<and> dup \<in> set (dict_values (inbox_events s)) \<and>
          ie_tenant_id dup = ie_tenant_id ib \<and> ie_event_key dup = ie_event_key ib \<and> ie_job_id dup = bj_id e)"
  | (new) "mem_enqueue j ev inbox s = Inr ((j, True), s\<lparr>jobs := dict_set (bj_id j) j (jobs s),
      outbox_events := dict_set (oe_id ev) ev (outbox_events s),
      inbox_events := put_inbox inbox (inbox_events s)\<rparr>)"
    "job_by_deduplication s (bj_tenant_id j) (bj_deduplication_key j) = None"
proof (cases "job_by_deduplication s (bj_tenant_id j) (bj_deduplication_key j)")
  case (Some e)
  then have "e \<in> set (dict_values (jobs s))"
    by (auto simp: job_by_deduplication_def dest: find_Some_iff_mem)
  with Some show ?thesis by (intro dup) (auto simp: mem_enqueue_def)
next
  case None
  note nokey = None
  show ?thesis
  proof (cases inbox)
    case None
    with nokey show ?thesis by (intro new) (auto simp: mem_enqueue_def put_inbox_def Let_def)
  next
    case (Some ib)
    let ?d = "find (\<lambda>item. ie_tenant_id item = ie_tenant_id ib \<and> ie_event_key item = ie_event_key ib)
      (dict_values (inbox_events s))"
    show ?thesis
    proof (cases ?d)
      case None
      with nokey Some show ?thesis by (intro new) (auto simp: mem_enqueue_def put_inbox_def Let_def)
    next
      case (Some d)
      then have d: "d \<in> set (dict_values (inbox_events s))"
        "ie_tenant_id d = ie_tenant_id ib" "ie_event_key d = ie_event_key ib"
        using find_Some_iff_mem[OF Some] by auto
      then obtain i where "dict_get (inbox_events s) i = Some d"
        using dict_values_iff[OF store_ok_dicts(4)[OF ok]] by blast
      then obtain e where e: "dict_get (jobs s) (ie_job_id d) = Some e"
        using store_ok_inbox_job[OF ok] by blast
      show ?thesis
        by (rule dup[of e])
          (use nokey \<open>inbox = Some ib\<close> Some d e store_ok_ids(1)[OF ok e] in
            \<open>auto simp: mem_enqueue_def dest: dict_get_in_values\<close>)
    qed
  qed
qed

lemma enqueue_ok:
  assumes ok: "store_ok s" and new: "new_job j s" and e: "fresh_event ev (bj_id j) (bj_tenant_id j) s"
    and inb: "fresh_inbox inbox j s" and r: "mem_enqueue j ev inbox s = Inr (b, t)"
  shows "store_ok t"
  using ok
proof (cases rule: enqueue_cases[where j = j and ev = ev and inbox = inbox])
  case dup
  with r ok show ?thesis by simp
next
  case new
  then show ?thesis
    using r job_insert_ok[OF ok \<open>new_job j s\<close> e inb, where act = None]
    by (auto simp: fresh_action_def put_action_def)
qed

lemma replay_ok:
  assumes ok: "store_ok s" and new: "new_job j s" and e: "fresh_event ev (bj_id j) (bj_tenant_id j) s"
    and inb: "bj_source_inbox_id j = None"
  shows "store_ok (snd (mem_replay tenant_id src j ev s))"
proof -
  have "store_ok (s\<lparr>jobs := dict_set (bj_id j) j (jobs s), outbox_events := dict_set (oe_id ev) ev (outbox_events s)\<rparr>)"
    by (rule job_insert_ok[OF ok new e, where inbox = None and act = None])
      (simp_all add: fresh_inbox_def fresh_action_def inb put_inbox_def put_action_def)
  then show ?thesis using ok by (simp add: mem_replay_def split: option.split)
qed

lemma create_action_ok:
  assumes ok: "store_ok s" and new: "new_job j s" and e: "fresh_event ev (bj_id j) (bj_tenant_id j) s"
    and act: "fresh_action (Some a) j s"
  shows "store_ok (snd (mem_create_scheduled_action a j ev s))"
proof -
  have "store_ok (s\<lparr>scheduled_actions := dict_set (sa_id a) a (scheduled_actions s),
      jobs := dict_set (bj_id j) j (jobs s), outbox_events := dict_set (oe_id ev) ev (outbox_events s)\<rparr>)"
    by (rule job_insert_ok[OF ok new e _ act, where inbox = None])
      (use act in \<open>simp_all add: fresh_inbox_def fresh_action_def put_inbox_def put_action_def\<close>)
  then show ?thesis using ok by (simp add: mem_create_scheduled_action_def split: option.split)
qed

end
