(* ===== verification/Task_Machine.thy ===== *)
theory Task_Machine
  imports Task_Recovery
begin

text \<open>
  The repository as a state machine: \<open>task_step\<close> has one rule per method of
  \<open>InMemoryTaskRepository\<close>, with the freshness of drawn identifiers as premises. \<open>store_ok\<close> is its
  inductive invariant, and the stability facts (terminal jobs, finished attempts, the budget)
  are proved once over its steps.
\<close>

section \<open>Scheduled actions, budget and heartbeats\<close>

lemma actions_only_ok:
  assumes ok: "store_ok s"
    and frame: "jobs t = jobs s" "attempts t = attempts s" "inbox_events t = inbox_events s"
      "outbox_events t = outbox_events s"
    and act: "actions_moved s t"
  shows "store_ok t"
proof -
  have a: "\<exists>a. dict_get (scheduled_actions s) i = Some a \<and> sa_id a' = sa_id a \<and> sa_job_id a' = sa_job_id a"
    "sa_status a' = ACTION_PENDING \<longleftrightarrow> sa_completed_at a' = None"
    if "dict_get (scheduled_actions t) i = Some a'" for i a'
    using act that unfolding actions_moved_def by blast+
  have "sa_id v = k" if v: "dict_get (scheduled_actions t) k = Some v" for k v
    using a(1)[OF v] store_ok_ids(5)[OF ok] by auto
  moreover have "dict_ok (scheduled_actions t)" using act by (simp add: actions_moved_def)
  ultimately have "keys_ok t"
    using ok unfolding store_ok_def keys_ok_def frame by blast
  moreover have "actions_ok t"
    unfolding actions_ok_def frame
  proof (intro allI impI conjI)
    fix i a' assume a': "dict_get (scheduled_actions t) i = Some a'"
    show "sa_status a' = ACTION_PENDING \<longleftrightarrow> sa_completed_at a' = None" by (rule a(2)[OF a'])
    obtain b where "dict_get (scheduled_actions s) i = Some b" "sa_job_id a' = sa_job_id b"
      using a(1)[OF a'] by blast
    then show "\<exists>k j. sa_job_id a' = Some k \<and> dict_get (jobs s) k = Some j \<and> bj_source_inbox_id j = None"
      using store_ok_action[OF ok] by simp
  qed
  moreover have "attempts_ok t" "inbox_ok t" "events_ok t"
    using ok unfolding store_ok_def attempts_ok_def attempt_numbers_def inbox_ok_def events_ok_def frame
    by blast+
  ultimately show ?thesis
    using ok by (simp add: store_ok_def frame)
qed

lemma actions_moved_put:
  assumes ok: "store_ok s" and a: "dict_get (scheduled_actions s) i = Some a"
    and t: "scheduled_actions t = dict_set i a' (scheduled_actions s)"
    and a': "sa_id a' = sa_id a" "sa_job_id a' = sa_job_id a"
      "sa_status a' = ACTION_PENDING \<longleftrightarrow> sa_completed_at a' = None"
  shows "actions_moved s t"
  using a a' store_ok_action[OF ok] store_ok_dicts(5)[OF ok] by (auto simp: actions_moved_def t)

lemma charge_budget_frame:
  assumes "charge_budget d u b s = (eff, s1)"
  shows "jobs s1 = jobs s" "attempts s1 = attempts s" "inbox_events s1 = inbox_events s"
    "outbox_events s1 = outbox_events s" "heartbeats s1 = heartbeats s"
    "scheduled_actions s1 = scheduled_actions s"
  using assms by (auto simp: charge_budget_def split: option.splits if_splits)

lemma decide_cases:
  assumes "mem_decide_scheduled_action tn i d u b now s = (r, t)"
  obtains (same) "t = s"
  | (decided) a eff s1 where "dict_get (scheduled_actions s) i = Some a" "sa_tenant_id a = tn"
      "sa_status a = ACTION_PENDING" "charge_budget d u b s = (eff, s1)"
      "t = s1\<lparr>scheduled_actions := dict_set i (the r) (scheduled_actions s1)\<rparr>"
      "r = Some (a\<lparr>sa_status := action_status_of eff, sa_score := Some (pd_score eff),
         sa_decision_reasons := pd_reasons eff, sa_updated_at := now, sa_completed_at := Some now\<rparr>)"
proof -
  obtain eff s1 where c: "charge_budget d u b s = (eff, s1)" by (cases "charge_budget d u b s")
  show ?thesis
  proof (cases "dict_get (scheduled_actions s) i")
    case None
    with assms show ?thesis by (intro same) (simp add: mem_decide_scheduled_action_def)
  next
    case (Some a)
    show ?thesis
    proof (cases "sa_tenant_id a = tn \<and> sa_status a = ACTION_PENDING")
      case True
      with assms Some c show ?thesis
        by (intro decided[of a eff s1]) (auto simp: mem_decide_scheduled_action_def Let_def)
    next
      case False
      with assms Some show ?thesis
        by (intro same) (auto simp: mem_decide_scheduled_action_def split: if_splits)
    qed
  qed
qed

lemma decide_frame:
  assumes "mem_decide_scheduled_action tn i d u b now s = (r, t)"
  shows "jobs t = jobs s" "attempts t = attempts s" "inbox_events t = inbox_events s"
    "outbox_events t = outbox_events s" "heartbeats t = heartbeats s"
  using assms by (cases rule: decide_cases; simp add: charge_budget_frame)+

lemma action_status_not_pending: "action_status_of d \<noteq> ACTION_PENDING"
  by (simp add: action_status_of_def)

lemma decide_ok:
  assumes ok: "store_ok s"
  shows "store_ok (snd (mem_decide_scheduled_action tn i d u b now s))"
proof -
  obtain r t where r: "mem_decide_scheduled_action tn i d u b now s = (r, t)"
    by (cases "mem_decide_scheduled_action tn i d u b now s")
  from r have "actions_moved s t"
  proof (cases rule: decide_cases)
    case same
    then show ?thesis using actions_moved_same[OF ok] by simp
  next
    case (decided a eff s1)
    show ?thesis
      by (rule actions_moved_put[OF ok decided(1), where a' = "the r"])
        (simp_all add: decided charge_budget_frame[OF decided(4)] action_status_not_pending)
  qed
  then show ?thesis
    using actions_only_ok[OF ok] decide_frame[OF r] r by simp
qed

lemma heartbeat_ok: "store_ok s \<Longrightarrow> store_ok (snd (mem_upsert_worker_heartbeat hb s))"
  by (rule actions_only_ok[where s = s])
    (auto simp: mem_upsert_worker_heartbeat_def Let_def intro: actions_moved_same)

lemma cancel_action_ok:
  assumes ok: "store_ok s"
  shows "store_ok (snd (mem_cancel_scheduled_action tn i now s))"
proof (cases "dict_get (scheduled_actions s) i")
  case None
  then show ?thesis using ok by (simp add: mem_cancel_scheduled_action_def)
next
  case (Some a)
  show ?thesis
  proof (cases "sa_tenant_id a = tn \<and> sa_status a = ACTION_PENDING")
    case False
    then show ?thesis using Some ok by (auto simp: mem_cancel_scheduled_action_def)
  next
    case True
    let ?a = "a\<lparr>sa_status := ACTION_CANCELED, sa_updated_at := now, sa_completed_at := Some now\<rparr>"
    obtain k j where k: "sa_job_id a = Some k" and j: "dict_get (jobs s) k = Some j"
      and src: "bj_source_inbox_id j = None"
      using store_ok_action[OF ok Some] by auto
    have id: "bj_id j = k" using store_ok_ids(1)[OF ok j] .
    let ?j = "j\<lparr>bj_status := JOB_CANCELED, bj_cancel_requested_at := Some now,
      bj_completed_at := Some now, bj_updated_at := now\<rparr>"
    let ?t = "cancel_outbox k now (s\<lparr>scheduled_actions := dict_set i ?a (scheduled_actions s),
      jobs := dict_set k ?j (jobs s)\<rparr>)"
    have "store_ok ?t"
    proof (rule job_transition_ok[OF ok j])
      show "same_job j ?j" by (simp add: same_job_def)
      show "job_ok ?j" using store_ok_job[OF ok j] by (simp add: job_ok_def)
      show "attempts_moved k ?j s ?t" by (rule attempts_moved_keep[OF ok j]) simp_all
      show "outbox_moved k ?j s ?t"
        by (rule outbox_moved_cancel[OF ok j]) (simp_all add: outbox_events_cancel)
      show "inbox_moved ?j s ?t" by (rule inbox_moved_keep[OF ok j]) (simp_all add: src)
      show "actions_moved s ?t"
        by (rule actions_moved_put[OF ok Some, where a' = ?a]) simp_all
    qed simp
    then show ?thesis using Some True k j id by (simp add: mem_cancel_scheduled_action_def Let_def)
  qed
qed

section \<open>The steps\<close>

definition own_attempt :: "uuid \<Rightarrow> uuid \<Rightarrow> task_store \<Rightarrow> bool" where
  "own_attempt job_id attempt_id s \<longleftrightarrow>
     (\<forall>a. dict_get (attempts s) attempt_id = Some a \<longrightarrow> ja_job_id a = job_id)"

inductive task_step :: "task_store \<Rightarrow> task_store \<Rightarrow> bool" where
  enqueue: "new_job j s \<Longrightarrow> fresh_event ev (bj_id j) (bj_tenant_id j) s \<Longrightarrow> fresh_inbox inbox j s \<Longrightarrow>
    mem_enqueue j ev inbox s = Inr (b, t) \<Longrightarrow> task_step s t"
| request_cancel: "mem_request_cancel tn k now s = (r, t) \<Longrightarrow> task_step s t"
| replay: "new_job j s \<Longrightarrow> fresh_event ev (bj_id j) (bj_tenant_id j) s \<Longrightarrow>
    bj_source_inbox_id j = None \<Longrightarrow> mem_replay tn src j ev s = (r, t) \<Longrightarrow> task_step s t"
| claim: "dict_get (attempts s) attempt_id = None \<Longrightarrow>
    mem_claim_job k w now attempt_id s = (r, t) \<Longrightarrow> task_step s t"
| renew: "mem_renew_job_lease k i w now s = (b, t) \<Longrightarrow> task_step s t"
| complete: "own_attempt k i s \<Longrightarrow> mem_complete_job k i w res now s = (r, t) \<Longrightarrow> task_step s t"
| fail: "own_attempt k i s \<Longrightarrow>
    (\<And>j. dict_get (jobs s) k = Some j \<Longrightarrow> fresh_event ev k (bj_tenant_id j) s) \<Longrightarrow>
    mem_fail_job k i w code summary perm timed retry_at ev now s = (r, t) \<Longrightarrow> task_step s t"
| claim_outbox: "mem_claim_outbox w now until limit s = (es, t) \<Longrightarrow> task_step s t"
| mark_published: "mem_mark_outbox_published i w now s = t \<Longrightarrow> task_step s t"
| mark_failed: "mem_mark_outbox_failed i w code until now s = t \<Longrightarrow> task_step s t"
| recover: "fresh_ids fresh s \<Longrightarrow> mem_recover_expired_leases now fresh s = (n, t) \<Longrightarrow> task_step s t"
| create_action: "new_job j s \<Longrightarrow> fresh_event ev (bj_id j) (bj_tenant_id j) s \<Longrightarrow>
    fresh_action (Some a) j s \<Longrightarrow> mem_create_scheduled_action a j ev s = (ab, t) \<Longrightarrow> task_step s t"
| cancel_action: "mem_cancel_scheduled_action tn i now s = (ao, t) \<Longrightarrow> task_step s t"
| decide: "mem_decide_scheduled_action tn i d u budget now s = (ao, t) \<Longrightarrow> task_step s t"
| heartbeat: "mem_upsert_worker_heartbeat hb s = (hb', t) \<Longrightarrow> task_step s t"

lemmas task_ops_ok = enqueue_ok request_cancel_ok replay_ok claim_job_ok renew_ok complete_job_ok
  fail_job_ok claim_outbox_ok mark_published_ok mark_failed_ok recover_ok create_action_ok
  cancel_action_ok decide_ok heartbeat_ok

lemma task_step_ok: "task_step s t \<Longrightarrow> store_ok s \<Longrightarrow> store_ok t"
proof (induction rule: task_step.induct)
  case (enqueue j s ev inbox b t)
  then show ?case by (auto intro: enqueue_ok)
next
  case (request_cancel tn k now s r t)
  then show ?case using request_cancel_ok[of s tn k now] by simp
next
  case (replay j s ev tn src r t)
  then show ?case using replay_ok[of s j ev tn src] by simp
next
  case (claim s attempt_id k w now r t)
  then show ?case using claim_job_ok[of s attempt_id k w now] by simp
next
  case (renew k i w now s b t)
  then show ?case using renew_ok[of s k i w now] by simp
next
  case (complete k i s w res now r t)
  then show ?case using complete_job_ok[of s i k w res now] by (simp add: own_attempt_def)
next
  case (fail k i s ev w code summary perm timed retry_at now r t)
  then show ?case
    using fail_job_ok[of s i k ev w code summary perm timed retry_at now] by (simp add: own_attempt_def)
next
  case (claim_outbox w now until limit s es t)
  then show ?case using claim_outbox_ok[of s w now until limit] by simp
next
  case (recover fresh s now n t)
  then show ?case using recover_ok[of s fresh now] by simp
next
  case (create_action j s ev a ab t)
  then show ?case using create_action_ok[of s j ev a] by simp
next
  case (cancel_action tn i now s ao t)
  then show ?case using cancel_action_ok[of s tn i now] by simp
next
  case (decide tn i d u budget now s ao t)
  then show ?case using decide_ok[of s tn i d u budget now] by simp
next
  case (heartbeat hb s hb' t)
  then show ?case using heartbeat_ok[of s hb] by simp
qed (auto intro: mark_published_ok mark_failed_ok)

interpretation tasks: state_machine "\<lambda>s. s = empty_store" task_step store_ok
  by unfold_locales (auto intro: task_step_ok store_ok_empty)

end
