(* ===== verification/Task_Guarantees.thy ===== *)
theory Task_Guarantees
  imports Task_Machine
begin

text \<open>
  What the task repository promises its callers. The locale \<open>leased_queue\<close> is the contract of a
  queue whose entries are worked on under a lease; \<open>InMemoryTaskRepository\<close> is two instances of
  it, one per way of ending an attempt. The stability lemmas are proved by cases over
  \<open>task_step\<close>. The properties of the theory follow, each with an instance on the sample run of
  the last section but one.
\<close>

section \<open>Leases\<close>

text \<open>
  \<open>holds k i w s\<close>: worker \<open>w\<close> works on entry \<open>k\<close> in attempt \<open>i\<close>; \<open>owned k i s\<close>: the identifier
  \<open>i\<close>, if it is in use, belongs to an attempt of \<open>k\<close>.
\<close>

locale leased_queue =
  fixes claim :: "'k \<Rightarrow> 'w \<Rightarrow> 'time \<Rightarrow> 'i \<Rightarrow> 's \<Rightarrow> 'c option \<times> 's"
    and finish :: "'k \<Rightarrow> 'i \<Rightarrow> 'w \<Rightarrow> 'arg \<Rightarrow> 's \<Rightarrow> 'r option \<times> 's"
    and holds :: "'k \<Rightarrow> 'i \<Rightarrow> 'w \<Rightarrow> 's \<Rightarrow> bool"
    and owned :: "'k \<Rightarrow> 'i \<Rightarrow> 's \<Rightarrow> bool"
    and inv :: "'s \<Rightarrow> bool"
  assumes claim_grants: "inv s \<Longrightarrow> claim k w now i s = (Some c, t) \<Longrightarrow> holds k i w t"
    and claim_excluded: "holds k i w s \<Longrightarrow> claim k w' now i' s = (None, s)"
    and holds_unique: "inv s \<Longrightarrow> holds k i w s \<Longrightarrow> holds k i' w' s \<Longrightarrow> i' = i \<and> w' = w"
    and finish_held: "inv s \<Longrightarrow> holds k i w s \<Longrightarrow> finish k i w x s = (r, t) \<Longrightarrow>
      r \<noteq> None \<and> \<not> holds k i' w' t"
    and finish_fenced: "owned k i s \<Longrightarrow> \<not> holds k i w s \<Longrightarrow> finish k i w x s = (None, s)"
begin

lemma second_claim_fails:
  "inv s \<Longrightarrow> claim k w now i s = (Some c, t) \<Longrightarrow> claim k w' now' i' t = (None, t)"
  using claim_grants claim_excluded by blast

lemma stranger_cannot_finish:
  "inv s \<Longrightarrow> holds k i w s \<Longrightarrow> owned k i' s \<Longrightarrow> i' \<noteq> i \<or> w' \<noteq> w \<Longrightarrow> finish k i' w' x s = (None, s)"
  using holds_unique finish_fenced by blast

lemma finish_once:
  "inv s \<Longrightarrow> holds k i w s \<Longrightarrow> finish k i w x s = (r, t) \<Longrightarrow> owned k i t \<Longrightarrow>
     finish k i w y t = (None, t)"
  using finish_held finish_fenced by blast

end

definition holds_lease :: "uuid \<Rightarrow> uuid \<Rightarrow> ustr \<Rightarrow> task_store \<Rightarrow> bool" where
  "holds_lease k i w s \<longleftrightarrow> (case execution_held k i w s of
     None \<Rightarrow> False | Some (j, a) \<Rightarrow> ja_job_id a = k)"

lemma holds_lease_iff:
  "holds_lease k i w s \<longleftrightarrow> (\<exists>j a. dict_get (jobs s) k = Some j \<and> dict_get (attempts s) i = Some a \<and>
     bj_status j = JOB_RUNNING \<and> bj_lease_owner j = Some w \<and> ja_status a = ATTEMPT_RUNNING \<and>
     ja_job_id a = k)"
  by (auto simp: holds_lease_def execution_held_def split: option.splits)

lemma holds_lease_unique:
  assumes ok: "store_ok s" and h: "holds_lease k i w s" "holds_lease k i' w' s"
  shows "i' = i \<and> w' = w"
proof -
  from h(1) obtain j a where j: "dict_get (jobs s) k = Some j" "bj_status j = JOB_RUNNING"
    "bj_lease_owner j = Some w"
    and a: "dict_get (attempts s) i = Some a" "ja_job_id a = k" "ja_status a = ATTEMPT_RUNNING"
    unfolding holds_lease_iff by blast
  from h(2) j obtain b where "bj_lease_owner j = Some w'"
    and b: "dict_get (attempts s) i' = Some b" "ja_job_id b = k" "ja_status b = ATTEMPT_RUNNING"
    unfolding holds_lease_iff by auto
  with j have "w' = w" by simp
  moreover have "a = b" by (rule running_attempt_unique[OF ok j(1,2) a b])
  ultimately show ?thesis using a(1) b(1) store_ok_ids(2)[OF ok] by blast
qed

lemma not_due_running: "bj_status j = JOB_RUNNING \<Longrightarrow> \<not> job_due now j"
  by (simp add: job_due_def)

lemma claim_held: "holds_lease k i w s \<Longrightarrow> mem_claim_job k w' now i' s = (None, s)"
  by (auto simp: holds_lease_iff mem_claim_job_def not_due_running)

lemma claim_job_grants:
  assumes ok: "store_ok s" and c: "mem_claim_job k w now i s = (Some c, t)"
  shows "holds_lease k i w t"
  using c store_ok_ids(1)[OF ok]
  by (auto simp: mem_claim_job_def holds_lease_iff start_job_def new_attempt_def Let_def
      split: option.splits if_splits)

lemma not_held_after_put:
  "bj_status j \<noteq> JOB_RUNNING \<Longrightarrow> dict_get (jobs t) k = Some j \<Longrightarrow> \<not> holds_lease k i w t"
  by (simp add: holds_lease_iff)

lemma execution_held_of: "holds_lease k i w s \<Longrightarrow> \<exists>j a. execution_held k i w s = Some (j, a)"
  by (auto simp: holds_lease_def split: option.splits)

lemma execution_not_held:
  "own_attempt k i s \<Longrightarrow> \<not> holds_lease k i w s \<Longrightarrow> execution_held k i w s = None"
  by (auto simp: holds_lease_iff execution_held_def own_attempt_def split: option.splits)

lemma complete_job_after:
  assumes "execution_held k i w s = Some (j, a)" and "mem_complete_job k i w res now s = (r, t)"
  shows "r = Some (completed_job now res j)" "dict_get (jobs t) k = Some (completed_job now res j)"
    "dict_get (attempts t) i = Some (completed_attempt now j a)"
  using assms by (auto simp: mem_complete_job_def Let_def)

lemma fail_job_after:
  assumes "execution_held k i w s = Some (j, a)"
    and "mem_fail_job k i w code summary perm timed retry_at ev now s = (r, t)"
  shows "r = Some (failed_job code summary perm retry_at now j)"
    "dict_get (jobs t) k = Some (failed_job code summary perm retry_at now j)"
    "dict_get (attempts t) i = Some (failed_attempt code summary (failure_status perm j) timed now a)"
  using assms by (auto simp: mem_fail_job_def Let_def)

lemma finished_not_running:
  "bj_status (completed_job now res j) \<noteq> JOB_RUNNING"
  "bj_status (failed_job code summary perm retry_at now j) \<noteq> JOB_RUNNING"
  by (simp_all add: completed_job_def failed_job_def failure_status_def Let_def)

lemma complete_released:
  assumes "holds_lease k i w s" and "mem_complete_job k i w res now s = (r, t)"
  shows "r \<noteq> None \<and> \<not> holds_lease k i' w' t"
proof -
  obtain j a where h: "execution_held k i w s = Some (j, a)" using execution_held_of[OF assms(1)] by blast
  from complete_job_after[OF h assms(2)] show ?thesis
    using not_held_after_put[OF finished_not_running(1)] by simp
qed

lemma fail_released:
  assumes "holds_lease k i w s"
    and "mem_fail_job k i w code summary perm timed retry_at ev now s = (r, t)"
  shows "r \<noteq> None \<and> \<not> holds_lease k i' w' t"
proof -
  obtain j a where h: "execution_held k i w s = Some (j, a)" using execution_held_of[OF assms(1)] by blast
  from fail_job_after[OF h assms(2)] show ?thesis
    using not_held_after_put[OF finished_not_running(2)] by simp
qed

lemma finish_not_held:
  assumes "own_attempt k i s" and "\<not> holds_lease k i w s"
  shows "mem_complete_job k i w res now s = (None, s)"
    "mem_fail_job k i w code summary perm timed retry_at ev now s = (None, s)"
  using execution_not_held[OF assms] by (simp_all add: mem_complete_job_def mem_fail_job_def)

interpretation completing: leased_queue mem_claim_job
  "\<lambda>k i w (res, now). mem_complete_job k i w res now" holds_lease own_attempt store_ok
  by unfold_locales (auto intro: claim_job_grants claim_held finish_not_held
      dest: holds_lease_unique complete_released split: prod.splits)

interpretation failing: leased_queue mem_claim_job
  "\<lambda>k i w (code, summary, perm, timed, retry_at, ev, now).
     mem_fail_job k i w code summary perm timed retry_at ev now" holds_lease own_attempt store_ok
  by unfold_locales (auto intro: claim_job_grants claim_held finish_not_held
      dest: holds_lease_unique fail_released split: prod.splits)

section \<open>What no step undoes\<close>

text \<open>
  How one step changes the attempts: none, a new one, one running attempt that finishes, or
  running attempts that time out. Finished attempts are therefore final.
\<close>

definition attempt_final :: "uuid \<Rightarrow> job_attempt \<Rightarrow> task_store \<Rightarrow> bool" where
  "attempt_final i a s \<longleftrightarrow> dict_get (attempts s) i = Some a \<and> ja_status a \<noteq> ATTEMPT_RUNNING"

lemma enqueue_result:
  assumes ok: "store_ok s" and r: "mem_enqueue j ev inbox s = Inr (b, t)"
  shows "t = s \<or> t = s\<lparr>jobs := dict_set (bj_id j) j (jobs s),
    outbox_events := dict_set (oe_id ev) ev (outbox_events s),
    inbox_events := put_inbox inbox (inbox_events s)\<rparr>"
  using ok by (cases rule: enqueue_cases[where j = j and ev = ev and inbox = inbox]) (use r in auto)

lemma recover_job_attempts:
  "attempts (recover_job now fresh k j s) =
     dict_walk (\<lambda>a. ja_job_id a = k \<and> ja_status a = ATTEMPT_RUNNING) (timed_out_attempt now) (attempts s)"
  by (simp add: recover_job_def Let_def)

lemma recover_fold_final:
  assumes "dict_ok (attempts s)" and "attempt_final i a s"
    and "fold (recover_entry now fresh) xs (n, s) = (m, t)"
  shows "attempt_final i a t"
  using assms
proof (induction xs arbitrary: s n)
  case Nil
  then show ?case by simp
next
  case (Cons x xs)
  obtain k j where x: "x = (k, j)" by (cases x)
  show ?case
  proof (cases "job_lease_expired now j")
    case True
    let ?s = "recover_job now fresh k j s"
    have "dict_ok (attempts ?s)" "attempt_final i a ?s"
      using Cons.prems(1,2) by (auto simp: recover_job_attempts attempt_final_def)
    then show ?thesis using Cons.IH[of ?s "n + 1"] Cons.prems(3) x True by (simp add: recover_entry_def)
  next
    case False
    then show ?thesis using Cons.IH[of s n] Cons.prems x by (simp add: recover_entry_def)
  qed
qed

lemma recover_final:
  assumes ok: "store_ok s" and f: "attempt_final i a s"
    and r: "mem_recover_expired_leases now fresh s = (n, t)"
  shows "attempt_final i a t"
proof -
  obtain m u where u: "fold (recover_entry now fresh) (jobs s) (0, s) = (m, u)"
    by (cases "fold (recover_entry now fresh) (jobs s) (0, s)")
  have "attempt_final i a u" by (rule recover_fold_final[OF store_ok_dicts(2)[OF ok] f u])
  then show ?thesis
    using r u by (auto simp: mem_recover_expired_leases_def recover_jobs_fold attempt_final_def)
qed

lemma task_step_final:
  assumes ok: "store_ok s" and f: "attempt_final i a s" and step: "task_step s t"
  shows "attempt_final i a t"
  using step
proof cases
  case (enqueue j ev inbox b)
  from enqueue_result[OF ok enqueue(4)] show ?thesis
  proof
    assume "t = s"
    then show ?thesis using f by simp
  qed (use f in \<open>simp add: attempt_final_def\<close>)
next
  case recover
  then show ?thesis using recover_final[OF ok f] by simp
qed (use f in \<open>auto simp: attempt_final_def mem_request_cancel_def mem_replay_def mem_claim_job_def
      mem_renew_job_lease_def mem_complete_job_def mem_fail_job_def execution_held_def
      mem_claim_outbox_def mem_mark_outbox_published_def mem_mark_outbox_failed_def
      mem_create_scheduled_action_def mem_cancel_scheduled_action_def
      mem_upsert_worker_heartbeat_def new_attempt_def Let_def decide_frame
      split: option.splits if_splits bind_splits\<close>)

text \<open>A terminal job is never run again: it stays terminal with the same attempts.\<close>

definition job_done :: "uuid \<Rightarrow> int \<Rightarrow> task_store \<Rightarrow> bool" where
  "job_done k n s \<longleftrightarrow> (case dict_get (jobs s) k of
     None \<Rightarrow> False | Some j \<Rightarrow> job_terminal (bj_status j) \<and> bj_attempt_count j = n)"

lemma job_done_iff:
  "job_done k n s \<longleftrightarrow> (\<exists>j. dict_get (jobs s) k = Some j \<and> job_terminal (bj_status j) \<and> bj_attempt_count j = n)"
  by (auto simp: job_done_def split: option.splits)

lemma terminal_not_due: "job_terminal (bj_status j) \<Longrightarrow> \<not> job_due now j \<and> bj_status j \<noteq> JOB_RUNNING"
  by (auto simp: job_due_def dest: terminal_not_claimable)

lemma task_step_done:
  assumes ok: "store_ok s" and d: "job_done k n s" and step: "task_step s t"
  shows "job_done k n t"
proof -
  from d obtain j where j: "dict_get (jobs s) k = Some j" "job_terminal (bj_status j)" "bj_attempt_count j = n"
    by (auto simp: job_done_iff)
  have put: "job_done k n t" if "jobs t = dict_set l i (jobs s)" "l = k \<Longrightarrow> bj_attempt_count i = n \<and> job_terminal (bj_status i)" for l i
    using that j by (auto simp: job_done_iff)
  have keep: "job_done k n t" if "jobs t = jobs s" using that j by (auto simp: job_done_iff)
  note live = terminal_not_due[OF j(2)]
  show ?thesis
    using step
  proof cases
    case (enqueue i ev inbox b)
    then show ?thesis using enqueue_result[OF ok enqueue(4)] j by (auto simp: job_done_iff new_job_def)
  next
    case (recover fresh now m)
    have "\<not> job_lease_expired now j" using live by (simp add: job_lease_expired_def)
    then show ?thesis
      using recover_result(1)[OF ok recover] j store_ok_dicts(1)[OF ok] by (auto simp: job_done_iff)
  next
    case (cancel_action tn i now ao)
    then show ?thesis
      using j store_ok_ids(1)[OF ok]
      by (auto simp: mem_cancel_scheduled_action_def Let_def job_done_iff bind_eq_Some_conv
          split: option.splits if_splits)
  qed (use j live in \<open>auto simp: job_done_iff mem_request_cancel_def mem_replay_def mem_claim_job_def
      mem_renew_job_lease_def mem_complete_job_def mem_fail_job_def execution_held_def
      mem_claim_outbox_def mem_mark_outbox_published_def mem_mark_outbox_failed_def
      mem_create_scheduled_action_def mem_upsert_worker_heartbeat_def new_job_def
      decide_frame Let_def split: option.splits if_splits\<close>)
qed

end
