(* ===== verification/Task_Properties.thy ===== *)
theory Task_Properties
  imports Task_Guarantees
begin

text \<open>
  The properties of the task repository, over every state that its methods can reach from the
  empty repository, and their instances on a sample run: a job is enqueued, claimed by a worker,
  and recovered after the lease expired.
\<close>

abbreviation reachable_store :: "task_store \<Rightarrow> bool" where
  "reachable_store s \<equiv> reachable (\<lambda>s. s = empty_store) task_step s"

lemmas reachable_ok = tasks.reachable_inv

section \<open>A sample run\<close>

definition sample_job :: "uuid \<Rightarrow> int \<Rightarrow> background_job" where
  "sample_job k attempts_allowed =
     \<lparr>bj_id = k, bj_tenant_id = 1, bj_kind = REFLECTION, bj_queue = lit ''reflection'',
      bj_status = JOB_PENDING, bj_payload = [], bj_deduplication_key = lit ''key'',
      bj_source_inbox_id = None, bj_correlation_id = None, bj_attempt_count = 0,
      bj_max_attempts = attempts_allowed, bj_lease_seconds = 60, bj_retry_base_seconds = 5,
      bj_available_at = 0, bj_lease_owner = None, bj_lease_expires_at = None,
      bj_cancel_requested_at = None, bj_last_error_code = None, bj_last_error_summary = None,
      bj_result_summary = [], bj_replayed_from_id = None, bj_created_by = None, bj_created_at = 0,
      bj_started_at = None, bj_completed_at = None, bj_updated_at = 0, bj_agent_id = None\<rparr>"

definition sample_event :: "uuid \<Rightarrow> uuid \<Rightarrow> outbox_event" where
  "sample_event i k =
     \<lparr>oe_id = i, oe_tenant_id = 1, oe_job_id = k, oe_event_type = lit ''e'', oe_payload = [],
      oe_status = OUTBOX_PENDING, oe_attempt_count = 0, oe_max_attempts = 5, oe_available_at = 0,
      oe_lease_owner = None, oe_lease_expires_at = None, oe_last_error_code = None,
      oe_created_at = 0, oe_published_at = None, oe_updated_at = 0\<rparr>"

definition enqueued :: task_store where
  "enqueued = snd (projr (mem_enqueue (sample_job 10 2) (sample_event 100 10) None empty_store))"

definition running :: task_store where
  "running = snd (mem_claim_job 10 (lit ''w'') 5 200 enqueued)"

definition completed :: task_store where
  "completed = snd (mem_complete_job 10 200 (lit ''w'') [] 6 running)"

lemma new_job_exec:
  "new_job j s \<longleftrightarrow> dict_get (jobs s) (bj_id j) = None \<and> bj_status j = JOB_PENDING \<and>
     bj_attempt_count j = 0 \<and> 0 \<le> bj_max_attempts j \<and> bj_completed_at j = None \<and>
     bj_lease_owner j = None \<and> bj_lease_expires_at j = None"
  by (rule new_job_def)

lemma reachable_empty: "reachable_store empty_store"
  by (rule start) simp

lemma reachable_enqueued: "reachable_store enqueued"
proof (rule next_state[OF reachable_empty], rule task_step.enqueue)
  show "new_job (sample_job 10 2) empty_store" by code_simp
  show "fresh_event (sample_event 100 10) (bj_id (sample_job 10 2)) (bj_tenant_id (sample_job 10 2)) empty_store"
    by code_simp
  show "fresh_inbox None (sample_job 10 2) empty_store" by code_simp
  show "mem_enqueue (sample_job 10 2) (sample_event 100 10) None empty_store =
      Inr ((sample_job 10 2, True), enqueued)"
    by code_simp
qed

lemma reachable_running: "reachable_store running"
proof (rule next_state[OF reachable_enqueued], rule task_step.claim)
  show "dict_get (attempts enqueued) 200 = None" by code_simp
  show "mem_claim_job 10 (lit ''w'') 5 200 enqueued = (fst (mem_claim_job 10 (lit ''w'') 5 200 enqueued), running)"
    by (simp add: running_def)
qed

lemma running_own: "own_attempt 10 200 running"
proof -
  have "dict_get (attempts running) 200 = Some (the (dict_get (attempts running) 200))" by code_simp
  moreover have "ja_job_id (the (dict_get (attempts running) 200)) = 10" by code_simp
  ultimately show ?thesis by (metis option.inject own_attempt_def)
qed

lemma running_completed: "task_step running completed"
proof (rule task_step.complete)
  show "own_attempt 10 200 running" by (rule running_own)
  show "mem_complete_job 10 200 (lit ''w'') [] 6 running =
      (fst (mem_complete_job 10 200 (lit ''w'') [] 6 running), completed)"
    by (simp add: completed_def)
qed

lemma reachable_completed: "reachable_store completed"
  by (rule next_state[OF reachable_running running_completed])

section \<open>Properties\<close>

text \<open>
  C1: In every state the repository can reach by calls of clients that keep two rules (the identifiers
  they draw are new, and they report a completion or a failure with an attempt of the job they name),
  its dictionaries are consistent: jobs, attempts,
  outbox events, inbox events and scheduled actions carry their own keys, a terminal job has a
  completion time, a running job has a lease holder and a running attempt, the attempts of a job are
  numbered from one, a waiting job has an outbox event, and an inbox event follows its job. The second
  rule is needed: \<open>foreign_attempt_breaks_store\<close> below.
\<close>

theorem reachable_store_ok:
  assumes "reachable_store s"
  shows "store_ok s"
  using assms by (rule reachable_ok)

theorem reachable_store_ok_witness: "store_ok running \<and> bj_status (the (dict_get (jobs running) 10)) = JOB_RUNNING"
proof
  show "store_ok running" by (rule reachable_store_ok[OF reachable_running])
  show "bj_status (the (dict_get (jobs running) 10)) = JOB_RUNNING" by code_simp
qed

text \<open>
  The attempts listed for a job of the tenant are numbered 1, 2, ... without gaps up to the
  job's attempt count, which never exceeds its maximum.
\<close>

lemma attempts_numbered:
  assumes "reachable_store s" and "mem_get_job tenant_id k s = Some j"
  shows "map ja_attempt_number (mem_list_attempts tenant_id k s) = [1..bj_attempt_count j] \<and>
    bj_attempt_count j \<le> bj_max_attempts j"
proof
  have ok: "store_ok s" using assms(1) by (rule reachable_ok)
  have j: "dict_get (jobs s) k = Some j" "bj_tenant_id j = tenant_id"
    using assms(2) by (auto simp: mem_get_job_def split: option.splits if_splits)
  show "bj_attempt_count j \<le> bj_max_attempts j" using store_ok_job[OF ok j(1)] by (simp add: job_ok_def)
  have same: "ja_tenant_id a = tenant_id \<and> ja_job_id a = k \<longleftrightarrow> ja_job_id a = k"
    if a: "a \<in> set (dict_values (attempts s))" for a
  proof -
    obtain i where "dict_get (attempts s) i = Some a"
      using a dict_values_iff[OF store_ok_dicts(2)[OF ok]] by blast
    from store_ok_attempt[OF ok this] show ?thesis using j by (auto simp: attempt_of_def)
  qed
  let ?as = "filter (\<lambda>a. ja_job_id a = k) (dict_values (attempts s))"
  have "mem_list_attempts tenant_id k s = sorted_by ja_attempt_number ?as"
    by (simp add: mem_list_attempts_def same cong: filter_cong)
  moreover have nums: "map ja_attempt_number ?as = [1..bj_attempt_count j]"
    using store_ok_numbers[OF ok j(1)] by (simp add: attempt_numbers_def)
  ultimately show "map ja_attempt_number (mem_list_attempts tenant_id k s) = [1..bj_attempt_count j]"
    by (simp add: sorted_by_def sort_key_id_if_sorted)
qed

lemma attempts_numbered_instance:
  "map ja_attempt_number (mem_list_attempts 1 10 running) = [1..1]"
proof -
  have "mem_get_job 1 10 running = Some (the (dict_get (jobs running) 10))" by code_simp
  moreover have "bj_attempt_count (the (dict_get (jobs running) 10)) = 1" by code_simp
  ultimately show ?thesis using attempts_numbered[OF reachable_running] by metis
qed

lemma execution_other_worker: "holds_lease k i w s \<Longrightarrow> w' \<noteq> w \<Longrightarrow> execution_held k i' w' s = None"
  by (auto simp: holds_lease_iff execution_held_def split: option.splits)

text \<open>
  C2: While a worker holds the lease of a job with an attempt, no claim of the job succeeds or changes
  anything; no other worker can complete or fail it, whatever attempt he names; and nobody can with
  another attempt of the job.
\<close>

theorem lease_is_exclusive:
  assumes "reachable_store s" and "holds_lease k i w s"
  shows "mem_claim_job k w' now i' s = (None, s) \<and>
    (w' \<noteq> w \<or> i' \<noteq> i \<and> own_attempt k i' s \<longrightarrow>
      mem_complete_job k i' w' res now s = (None, s) \<and>
      mem_fail_job k i' w' code summary perm timed retry_at ev now s = (None, s))"
proof (intro conjI impI)
  show "mem_claim_job k w' now i' s = (None, s)" by (rule completing.claim_excluded[OF assms(2)])
  assume "w' \<noteq> w \<or> i' \<noteq> i \<and> own_attempt k i' s"
  then have "mem_complete_job k i' w' res now s = (None, s) \<and>
    mem_fail_job k i' w' code summary perm timed retry_at ev now s = (None, s)"
  proof (elim disjE conjE)
    assume "w' \<noteq> w"
    then show ?thesis
      using execution_other_worker[OF assms(2)] by (simp add: mem_complete_job_def mem_fail_job_def)
  next
    assume other: "i' \<noteq> i" "own_attempt k i' s"
    then show ?thesis
      using completing.stranger_cannot_finish[OF reachable_ok[OF assms(1)] assms(2) other(2) disjI1[OF other(1), of "w' \<noteq> w"], of "(res, now)"]
        failing.stranger_cannot_finish[OF reachable_ok[OF assms(1)] assms(2) other(2) disjI1[OF other(1), of "w' \<noteq> w"],
          of "(code, summary, perm, timed, retry_at, ev, now)"]
      by simp
  qed
  then show "mem_complete_job k i' w' res now s = (None, s)"
    "mem_fail_job k i' w' code summary perm timed retry_at ev now s = (None, s)" by simp_all
qed

theorem lease_is_exclusive_witness:
  "mem_claim_job 10 (lit ''other'') 7 201 running = (None, running) \<and>
   mem_complete_job 10 200 (lit ''other'') [] 7 running = (None, running)"
proof -
  have h: "holds_lease 10 200 (lit ''w'') running" by code_simp
  have "lit ''other'' \<noteq> lit ''w''" by simp
  then show ?thesis using lease_is_exclusive[OF reachable_running h] by blast
qed

text \<open>
  The repository in memory does not compare the job of the attempt with the job it is reported for, as
  the SQL repository does: a worker with two jobs that reports one of them with the attempt of the
  other completes it, and leaves its own attempt running.
\<close>

definition running_two :: task_store where
  "running_two = snd (mem_claim_job 11 (lit ''w'') 5 201
     (snd (projr (mem_enqueue ((sample_job 11 2)\<lparr>bj_deduplication_key := lit ''other''\<rparr>) (sample_event 101 11) None running))))"

lemma foreign_attempt_breaks_store:
  "let t = snd (mem_complete_job 10 201 (lit ''w'') [] 6 running_two) in
     bj_status (the (dict_get (jobs t) 10)) = JOB_SUCCEEDED \<and> ja_job_id (the (dict_get (attempts t) 200)) = 10 \<and>
     ja_status (the (dict_get (attempts t) 200)) = ATTEMPT_RUNNING \<and>
     bj_status (the (dict_get (jobs t) 11)) = JOB_RUNNING \<and> ja_status (the (dict_get (attempts t) 201)) = ATTEMPT_SUCCEEDED"
  by code_simp

text \<open>
  C3: An attempt that is no longer running is final: whatever happens afterwards its record stays
  as it is, and its worker can neither complete nor fail the job, nor renew the lease, with it.
\<close>

theorem finished_attempt_is_fenced:
  assumes "reachable_store s" and "dict_get (attempts s) i = Some a"
    and "ja_status a \<noteq> ATTEMPT_RUNNING" and "task_step\<^sup>*\<^sup>* s t"
  shows "dict_get (attempts t) i = Some a \<and> mem_complete_job k i w res now t = (None, t) \<and>
    mem_fail_job k i w code summary perm timed retry_at ev now t = (None, t) \<and>
    mem_renew_job_lease k i w now t = (False, t)"
proof -
  have "attempt_final i a s" using assms(2,3) by (simp add: attempt_final_def)
  then have "store_ok t \<and> attempt_final i a t"
    by (rule tasks.stable_along[where p = "attempt_final i a", OF assms(4) reachable_ok[OF assms(1)]])
      (rule task_step_final)
  then show ?thesis
    by (auto simp: attempt_final_def mem_complete_job_def mem_fail_job_def execution_held_def
        mem_renew_job_lease_def split: option.splits)
qed

theorem finished_attempt_is_fenced_witness:
  "mem_complete_job 10 200 (lit ''w'') [] 9 completed = (None, completed)"
proof -
  have "dict_get (attempts completed) 200 = Some (the (dict_get (attempts completed) 200))" by code_simp
  moreover have "ja_status (the (dict_get (attempts completed) 200)) \<noteq> ATTEMPT_RUNNING" by code_simp
  ultimately show ?thesis
    using finished_attempt_is_fenced[OF reachable_completed _ _ rtranclp.rtrancl_refl] by blast
qed

text \<open>
  A job that reached a terminal state is never run again: it stays in a terminal state with
  the same number of attempts, and no later claim of it succeeds.
\<close>

lemma terminal_job_stays_done:
  assumes "reachable_store s" and "dict_get (jobs s) k = Some j" and "job_terminal (bj_status j)"
    and "task_step\<^sup>*\<^sup>* s t"
  shows "(\<exists>j'. dict_get (jobs t) k = Some j' \<and> job_terminal (bj_status j') \<and>
      bj_attempt_count j' = bj_attempt_count j) \<and> mem_claim_job k w now i t = (None, t)"
proof -
  have "job_done k (bj_attempt_count j) s" using assms(2,3) by (simp add: job_done_iff)
  then have "store_ok t \<and> job_done k (bj_attempt_count j) t"
    by (rule tasks.stable_along[where p = "job_done k (bj_attempt_count j)", OF assms(4) reachable_ok[OF assms(1)]])
      (rule task_step_done)
  then show ?thesis
    by (auto simp: job_done_iff mem_claim_job_def dest: terminal_not_due)
qed

lemma terminal_job_stays_done_instance:
  "mem_claim_job 10 (lit ''v'') 50 201 completed = (None, completed)"
proof -
  have "dict_get (jobs completed) 10 = Some (the (dict_get (jobs completed) 10))" by code_simp
  moreover have "job_terminal (bj_status (the (dict_get (jobs completed) 10)))" by code_simp
  ultimately show ?thesis
    using terminal_job_stays_done[OF reachable_completed _ _ rtranclp.rtrancl_refl] by blast
qed

text \<open>
  C4: Recovery leaves no job running on an expired lease and counts at least the jobs it recovered. A
  recovered job with attempts left can be claimed at once by any worker, as the next attempt, unless its
  cancellation was requested: then the claim gives nothing and ends it as cancelled. One without attempts
  left is a dead letter.
\<close>

theorem recovery_frees_expired_jobs:
  assumes "reachable_store s" and "fresh_ids fresh s"
    and "mem_recover_expired_leases now fresh s = (n, t)"
  shows "(\<forall>l v. dict_get (jobs t) l = Some v \<longrightarrow> \<not> job_lease_expired now v) \<and>
    int (length (filter (job_lease_expired now) (dict_values (jobs s)))) \<le> n \<and>
    (\<forall>k j. dict_get (jobs s) k = Some j \<longrightarrow> job_lease_expired now j \<longrightarrow>
      (if bj_attempt_count j \<ge> bj_max_attempts j
       then \<exists>v. dict_get (jobs t) k = Some v \<and> bj_status v = JOB_DEAD_LETTER
       else if bj_cancel_requested_at j = None
       then \<exists>c u. mem_claim_job k w now i t = (Some c, u) \<and> ja_attempt_number (jc_attempt c) = bj_attempt_count j + 1
       else \<exists>u v. mem_claim_job k w now i t = (None, u) \<and> dict_get (jobs u) k = Some v \<and> bj_status v = JOB_CANCELED))"
proof (intro conjI allI impI)
  have ok: "store_ok s" using assms(1) by (rule reachable_ok)
  note r = recover_result[OF ok assms(2,3)]
  show "\<not> job_lease_expired now v" if "dict_get (jobs t) l = Some v" for l v using r(3)[OF that] .
  show "int (length (filter (job_lease_expired now) (dict_values (jobs s)))) \<le> n"
    using r(2) by (simp add: count_if_def)
  fix k j
  assume j: "dict_get (jobs s) k = Some j" "job_lease_expired now j"
  have t: "dict_get (jobs t) k = Some (recovered_job now j)" using r(1) j store_ok_dicts(1)[OF ok] by simp
  show "if bj_attempt_count j \<ge> bj_max_attempts j
       then \<exists>v. dict_get (jobs t) k = Some v \<and> bj_status v = JOB_DEAD_LETTER
       else if bj_cancel_requested_at j = None
       then \<exists>c u. mem_claim_job k w now i t = (Some c, u) \<and> ja_attempt_number (jc_attempt c) = bj_attempt_count j + 1
       else \<exists>u v. mem_claim_job k w now i t = (None, u) \<and> dict_get (jobs u) k = Some v \<and> bj_status v = JOB_CANCELED"
    using t by (simp add: recovered_job_def job_due_def mem_claim_job_def new_attempt_def cancel_job_def Let_def)
qed

theorem recovery_frees_expired_jobs_witness:
  "\<exists>c u. mem_claim_job 10 (lit ''v'') 99000000 201 (snd (mem_recover_expired_leases 99000000 (\<lambda>k. k + 1000) running)) =
     (Some c, u) \<and> ja_attempt_number (jc_attempt c) = 1 + 1"
proof -
  let ?j = "the (dict_get (jobs running) 10)"
  let ?r = "mem_recover_expired_leases 99000000 (\<lambda>k. k + 1000) running"
  have evs: "outbox_events running = [(100, sample_event 100 10)]" by code_simp
  have fresh: "fresh_ids (\<lambda>k. k + 1000) running"
    unfolding fresh_ids_def by (auto simp: inj_on_def evs dict_get_def)
  have j: "dict_get (jobs running) 10 = Some ?j" "job_lease_expired 99000000 ?j"
    "\<not> 1 \<ge> bj_max_attempts ?j" "bj_cancel_requested_at ?j = None" "bj_attempt_count ?j = 1"
    by code_simp+
  have r: "?r = (fst ?r, snd ?r)" by simp
  from recovery_frees_expired_jobs[OF reachable_running fresh r, where w = "lit ''v''" and i = 201, THEN conjunct2, THEN conjunct2,
      rule_format, OF j(1,2)]
  show ?thesis by (simp only: j(3) j(4) j(5) if_False if_True simp_thms)
qed

end
