(* ===== verification/Task_Contracts.thy ===== *)
theory Task_Contracts
  imports Task_Properties
begin

text \<open>
  The functional contracts of single operations of the task repository: enqueueing is idempotent,
  a failure retries or gives up, an inbox event shows the state of its job, two publishers never
  claim the same outbox event, the daily social budget is not exceeded, and another tenant sees
  and changes nothing.
\<close>

section \<open>Failing an attempt\<close>

text \<open>
  Failing the running attempt of a job decides its fate by exactly this order: a
  requested cancellation cancels it, a permanent error fails it, an exhausted attempt count dead-letters
  it, and otherwise it waits for the retry time with the retry event in the outbox. The attempt ends
  in each case, and the lease is released.
\<close>

lemma failure_decides_fate:
  assumes "execution_held k i w s = Some (j, a)"
    and "mem_fail_job k i w code summary perm timed retry_at ev now s = (r, t)"
  shows "\<exists>j' a'. r = Some j' \<and> dict_get (jobs t) k = Some j' \<and> dict_get (attempts t) i = Some a' \<and>
    bj_lease_owner j' = None \<and> bj_lease_expires_at j' = None \<and> ja_status a' \<noteq> ATTEMPT_RUNNING \<and>
    (if bj_cancel_requested_at j \<noteq> None then bj_status j' = JOB_CANCELED \<and> ja_status a' = ATTEMPT_CANCELED
     else ja_status a' = (if timed then ATTEMPT_TIMED_OUT else ATTEMPT_FAILED) \<and>
       (if perm then bj_status j' = JOB_FAILED \<and> bj_completed_at j' = Some now
        else if bj_max_attempts j \<le> bj_attempt_count j
        then bj_status j' = JOB_DEAD_LETTER \<and> bj_completed_at j' = Some now
        else bj_status j' = JOB_RETRYING \<and> bj_available_at j' = retry_at \<and>
          dict_get (outbox_events t) (oe_id ev) = Some ev))"
proof -
  note after = fail_job_after[OF assms]
  have "dict_get (outbox_events t) (oe_id ev) = Some ev" if "failure_status perm j = JOB_RETRYING"
    using assms that by (auto simp: mem_fail_job_def Let_def)
  then show ?thesis
    by (intro exI[of _ "failed_job code summary perm retry_at now j"]
        exI[of _ "failed_attempt code summary (failure_status perm j) timed now a"])
      (auto simp: after failed_job_def failed_attempt_def failure_status_def Let_def)
qed

lemma failure_decides_fate_instance:
  "\<exists>j'. fst (mem_fail_job 10 200 (lit ''w'') (lit ''E'') (lit ''x'') False True 77 (sample_event 101 10) 6 running) =
     Some j' \<and> bj_status j' = JOB_RETRYING \<and> bj_available_at j' = 77"
proof -
  let ?f = "mem_fail_job 10 200 (lit ''w'') (lit ''E'') (lit ''x'') False True 77 (sample_event 101 10) 6 running"
  let ?j = "the (dict_get (jobs running) 10)" and ?a = "the (dict_get (attempts running) 200)"
  have "execution_held 10 200 (lit ''w'') running = Some (?j, ?a)" by code_simp
  moreover have "bj_cancel_requested_at ?j = None" "\<not> bj_max_attempts ?j \<le> bj_attempt_count ?j" by code_simp+
  moreover have "?f = (fst ?f, snd ?f)" by simp
  ultimately show ?thesis using failure_decides_fate[of 10 200 "lit ''w''" running ?j ?a] by fastforce
qed

section \<open>Enqueueing\<close>

text \<open>
  C5: Enqueueing in a reachable state never raises; offering the same job again returns the
  job that is stored, reports that nothing was created, and leaves the repository as it is.
\<close>

theorem enqueue_idempotent:
  assumes "reachable_store s" and "dict_get (jobs s) (bj_id j) = None"
  shows "\<exists>e created t. mem_enqueue j ev inbox s = Inr ((e, created), t) \<and>
    dict_get (jobs t) (bj_id e) = Some e \<and>
    mem_enqueue j ev inbox t = Inr ((e, False), t)"
proof -
  have ok: "store_ok s" using assms(1) by (rule reachable_ok)
  from ok show ?thesis
  proof (cases rule: enqueue_cases[where j = j and ev = ev and inbox = inbox])
    case (dup e)
    obtain k where k: "dict_get (jobs s) k = Some e"
      using dup(2) dict_values_iff[OF store_ok_dicts(1)[OF ok]] by blast
    then have "dict_get (jobs s) (bj_id e) = Some e" using store_ok_ids(1)[OF ok k] by simp
    with dup(1) show ?thesis by blast
  next
    case new
    let ?t = "s\<lparr>jobs := dict_set (bj_id j) j (jobs s),
      outbox_events := dict_set (oe_id ev) ev (outbox_events s),
      inbox_events := put_inbox inbox (inbox_events s)\<rparr>"
    have "job_by_deduplication ?t (bj_tenant_id j) (bj_deduplication_key j) = Some j"
      using new(2) by (simp add: job_by_deduplication_def dict_values_fresh[OF assms(2)] find_append_hit)
    then have "mem_enqueue j ev inbox ?t = Inr ((j, False), ?t)" by (simp add: mem_enqueue_def)
    with new(1) show ?thesis by (intro exI[of _ j] exI[of _ True] exI[of _ ?t]) simp
  qed
qed

theorem enqueue_idempotent_witness:
  "\<exists>e created t. mem_enqueue (sample_job 10 2) (sample_event 100 10) None empty_store = Inr ((e, created), t) \<and>
    dict_get (jobs t) (bj_id e) = Some e \<and>
    mem_enqueue (sample_job 10 2) (sample_event 100 10) None t = Inr ((e, False), t)"
  by (rule enqueue_idempotent[OF reachable_empty]) code_simp

section \<open>Inbox and outbox\<close>

text \<open>
  The inbox event a job came from exists, belongs to the job and its tenant, and its
  status is the image of the job's: pending while the job waits, processing while it runs, and
  completed, dead-lettered or canceled when the job ended that way.
\<close>

lemma inbox_follows_job:
  assumes "reachable_store s" and "mem_get_job tenant_id k s = Some j"
    and "bj_source_inbox_id j = Some i"
  shows "\<exists>ib. mem_get_inbox_event tenant_id i s = Some ib \<and> ie_job_id ib = k \<and>
    ie_status ib = inbox_of_status (bj_status j)"
proof -
  have ok: "store_ok s" using assms(1) by (rule reachable_ok)
  have j: "dict_get (jobs s) k = Some j" "bj_tenant_id j = tenant_id"
    using assms(2) by (auto simp: mem_get_job_def split: option.splits if_splits)
  obtain ib where ib: "dict_get (inbox_events s) i = Some ib"
    using store_ok_source[OF ok j(1) assms(3)] by blast
  have "inbox_follows j ib" by (rule store_ok_inbox[OF ok j(1) assms(3) ib])
  then show ?thesis
    using ib j store_ok_ids(1)[OF ok j(1)] by (simp add: inbox_follows_def mem_get_inbox_event_def)
qed

definition sample_inbox :: "uuid \<Rightarrow> uuid \<Rightarrow> inbox_event" where
  "sample_inbox i k =
     \<lparr>ie_id = i, ie_tenant_id = 1, ie_event_key = lit ''evt'', ie_event_type = lit ''t'', ie_payload = [],
      ie_status = INBOX_PENDING, ie_job_id = k, ie_received_at = 0, ie_processed_at = None,
      ie_last_error_code = None, ie_agent_id = None, ie_channel_id = None, ie_schema_version = None,
      ie_platform = None, ie_external_event_digest = None, ie_external_subject_digest = None,
      ie_external_conversation_digest = None, ie_external_thread_digest = None,
      ie_external_message_digest = None, ie_user_id = None, ie_conversation_id = None,
      ie_content_kinds = [], ie_content_block_count = 0\<rparr>"

definition inbox_job :: background_job where
  "inbox_job = (sample_job 11 3)\<lparr>bj_source_inbox_id := Some 300\<rparr>"

definition accepted :: task_store where
  "accepted = snd (projr (mem_enqueue inbox_job (sample_event 110 11) (Some (sample_inbox 300 11)) empty_store))"

lemma reachable_accepted: "reachable_store accepted"
proof (rule next_state[OF reachable_empty], rule task_step.enqueue)
  show "new_job inbox_job empty_store" by code_simp
  show "fresh_event (sample_event 110 11) (bj_id inbox_job) (bj_tenant_id inbox_job) empty_store" by code_simp
  show "fresh_inbox (Some (sample_inbox 300 11)) inbox_job empty_store" by code_simp
  show "mem_enqueue inbox_job (sample_event 110 11) (Some (sample_inbox 300 11)) empty_store =
      Inr ((inbox_job, True), accepted)" by code_simp
qed

lemma inbox_follows_job_instance:
  "\<exists>ib. mem_get_inbox_event 1 300 accepted = Some ib \<and> ie_job_id ib = 11 \<and> ie_status ib = INBOX_PENDING"
proof -
  have "mem_get_job 1 11 accepted = Some inbox_job" "bj_source_inbox_id inbox_job = Some 300"
    "inbox_of_status (bj_status inbox_job) = INBOX_PENDING" by code_simp+
  then show ?thesis using inbox_follows_job[OF reachable_accepted] by metis
qed

text \<open>
  A job that waits to be run has an outbox event that was not canceled, so that it is
  dispatched or was dispatched.
\<close>

lemma waiting_job_is_dispatched:
  assumes "reachable_store s" and "dict_get (jobs s) k = Some j" and "job_claimable (bj_status j)"
  shows "\<exists>e \<in> set (dict_values (outbox_events s)). oe_job_id e = k \<and> oe_status e \<noteq> OUTBOX_CANCELED"
proof -
  obtain i e where "dict_get (outbox_events s) i = Some e" "oe_job_id e = k" "oe_status e \<noteq> OUTBOX_CANCELED"
    using store_ok_dispatch[OF reachable_ok[OF assms(1)] assms(2,3)] by blast
  then show ?thesis by (intro bexI[of _ e] dict_get_in_values[of _ i]) simp_all
qed

lemma waiting_job_is_dispatched_instance:
  "\<exists>e \<in> set (dict_values (outbox_events enqueued)). oe_job_id e = 10 \<and> oe_status e \<noteq> OUTBOX_CANCELED"
proof (rule waiting_job_is_dispatched[OF reachable_enqueued])
  show "dict_get (jobs enqueued) 10 = Some (sample_job 10 2)" by code_simp
  show "job_claimable (bj_status (sample_job 10 2))" by code_simp
qed

lemma get_fold_put:
  "distinct (map oe_id es) \<Longrightarrow> dict_get (fold (\<lambda>e. dict_set (oe_id e) e) es d) i =
     (case find (\<lambda>e. oe_id e = i) es of Some e \<Rightarrow> Some e | None \<Rightarrow> dict_get d i)"
proof (induction es arbitrary: d)
  case Nil
  then show ?case by simp
next
  case (Cons e es)
  show ?case
  proof (cases "oe_id e = i")
    case True
    then have "find (\<lambda>e. oe_id e = i) es = None"
      using Cons.prems unfolding find_None_all by (metis distinct.simps(2) imageI list.simps(9) set_map)
    then show ?thesis using Cons True by simp
  next
    case False
    then show ?thesis using Cons by (simp split: option.split)
  qed
qed

lemma claim_outbox_result:
  assumes ok: "store_ok s" and c: "mem_claim_outbox w now until limit s = (es, t)" and e: "e \<in> set es"
  shows "dict_get (outbox_events t) (oe_id e) = Some e" "oe_status e = OUTBOX_PUBLISHING"
    "oe_lease_owner e = Some w" "oe_lease_expires_at e = Some until"
    "\<exists>e0. dict_get (outbox_events s) (oe_id e) = Some e0 \<and> outbox_due now e0 \<and>
       e = publish_event w now until e0"
proof -
  have es: "es = map (publish_event w now until) (claimable_rows now limit s)"
    and t: "outbox_events t = fold (\<lambda>e. dict_set (oe_id e) e) es (outbox_events s)"
    using c unfolding claim_outbox_eq Let_def by auto
  have "oe_id \<circ> publish_event w now until = oe_id" by (simp add: publish_event_def comp_def)
  then have dist: "distinct (map oe_id es)"
    using claimable_rows_distinct[OF ok] unfolding es map_map by simp
  have "find (\<lambda>x. oe_id x = oe_id e) es = Some e"
  proof (cases "find (\<lambda>x. oe_id x = oe_id e) es")
    case None
    then show ?thesis using e unfolding find_None_all by blast
  next
    case (Some x)
    then have "x \<in> set es" "oe_id x = oe_id e" using find_Some_iff_mem[OF Some] by simp_all
    then have "x = e" using dist e by (metis distinct_map inj_onD)
    with Some show ?thesis by simp
  qed
  then show "dict_get (outbox_events t) (oe_id e) = Some e" by (simp add: t get_fold_put[OF dist])
  obtain e0 where e0: "e0 \<in> set (claimable_rows now limit s)" "e = publish_event w now until e0"
    using e by (auto simp: es)
  then show "oe_status e = OUTBOX_PUBLISHING" "oe_lease_owner e = Some w" "oe_lease_expires_at e = Some until"
    by (simp_all add: publish_event_def)
  have "oe_id e = oe_id e0" by (simp add: e0 publish_event_def)
  then show "\<exists>e0. dict_get (outbox_events s) (oe_id e) = Some e0 \<and> outbox_due now e0 \<and>
      e = publish_event w now until e0"
    using claimable_rows_mem[OF ok e0(1)] e0(2) by auto
qed

text \<open>
  C6: A publisher gets at most as many events as it asked for, each of them due, and now leased to it
  with one more attempt counted, within the attempts allowed. The next claim of the outbox, whoever makes
  it and at whatever time, gets none of them; and after any further steps no claim gets an event that is
  still being published (only a failed publication or the recovery of its lease frees it again).
\<close>

theorem publishers_never_collide:
  assumes "reachable_store s" and "0 \<le> limit"
    and "mem_claim_outbox w now until limit s = (es, t)" and "task_step\<^sup>*\<^sup>* t u"
  shows "int (length es) \<le> limit \<and>
    (\<forall>e \<in> set es. \<exists>e0. dict_get (outbox_events s) (oe_id e) = Some e0 \<and> outbox_due now e0 \<and>
       dict_get (outbox_events t) (oe_id e) = Some e \<and>
       oe_status e = OUTBOX_PUBLISHING \<and> oe_lease_owner e = Some w \<and> oe_lease_expires_at e = Some until \<and>
       oe_attempt_count e = oe_attempt_count e0 + 1 \<and> oe_attempt_count e \<le> oe_max_attempts e) \<and>
    oe_id ` set es \<inter> oe_id ` set (fst (mem_claim_outbox w' now' until' limit' t)) = {} \<and>
    (\<forall>i v. dict_get (outbox_events u) i = Some v \<longrightarrow> oe_status v = OUTBOX_PUBLISHING \<longrightarrow>
       i \<notin> oe_id ` set (fst (mem_claim_outbox w' now' until' limit' u)))"
proof (intro conjI ballI allI impI)
  have ok: "store_ok s" using assms(1) by (rule reachable_ok)
  have okt: "store_ok t" using claim_outbox_ok[OF ok, of w now until limit] assms(3) by simp
  have "store_ok u \<and> True" by (rule tasks.stable_along[where p = "\<lambda>_. True", OF assms(4) okt]) simp_all
  then have oku: "store_ok u" by simp
  have "length es = length (claimable_rows now limit s)"
    using assms(3) unfolding claim_outbox_eq Let_def by auto
  then show "int (length es) \<le> limit"
    using assms(2) by (simp add: claimable_rows_def length_py_take)
  note result = claim_outbox_result[OF ok assms(3)]
  show "\<exists>e0. dict_get (outbox_events s) (oe_id e) = Some e0 \<and> outbox_due now e0 \<and>
       dict_get (outbox_events t) (oe_id e) = Some e \<and>
       oe_status e = OUTBOX_PUBLISHING \<and> oe_lease_owner e = Some w \<and> oe_lease_expires_at e = Some until \<and>
       oe_attempt_count e = oe_attempt_count e0 + 1 \<and> oe_attempt_count e \<le> oe_max_attempts e"
    if "e \<in> set es" for e
    using result(1-4)[OF that] result(5)[OF that] by (auto simp: outbox_due_def publish_event_def)
  have free: "oe_status v \<noteq> OUTBOX_PUBLISHING"
    if "store_ok x" "i \<in> oe_id ` set (fst (mem_claim_outbox w' now' until' limit' x))" "dict_get (outbox_events x) i = Some v"
    for x i v
    using that claim_outbox_result(5)[OF that(1) surjective_pairing] by (fastforce simp: outbox_due_def)
  show "oe_id ` set es \<inter> oe_id ` set (fst (mem_claim_outbox w' now' until' limit' t)) = {}"
    using free[OF okt] result(1,2) by fastforce
  show "i \<notin> oe_id ` set (fst (mem_claim_outbox w' now' until' limit' u))"
    if "dict_get (outbox_events u) i = Some v" "oe_status v = OUTBOX_PUBLISHING" for i v
    using free[OF oku _ that(1)] that(2) by blast
qed

theorem publishers_never_collide_witness:
  "fst (mem_claim_outbox (lit ''p'') 5 35 100 enqueued) \<noteq> [] \<and>
   oe_id ` set (fst (mem_claim_outbox (lit ''p'') 5 35 100 enqueued)) \<inter>
     oe_id ` set (fst (mem_claim_outbox (lit ''q'') 6 36 100 (snd (mem_claim_outbox (lit ''p'') 5 35 100 enqueued)))) = {}"
proof
  show "fst (mem_claim_outbox (lit ''p'') 5 35 100 enqueued) \<noteq> []" by code_simp
  show "oe_id ` set (fst (mem_claim_outbox (lit ''p'') 5 35 100 enqueued)) \<inter>
     oe_id ` set (fst (mem_claim_outbox (lit ''q'') 6 36 100 (snd (mem_claim_outbox (lit ''p'') 5 35 100 enqueued)))) = {}"
    using publishers_never_collide[OF reachable_enqueued, of 100, OF _ surjective_pairing rtranclp.rtrancl_refl]
    by simp
qed

section \<open>Tenants\<close>

text \<open>
  Only the owning tenant sees and changes a job: for every other tenant it is not found,
  its attempts are an empty list, it is in no listing, and cancelling or replaying it changes
  nothing.
\<close>

lemma tenants_are_isolated:
  assumes "reachable_store s" and "dict_get (jobs s) k = Some j" and "bj_tenant_id j \<noteq> tenant_id"
  shows "mem_get_job tenant_id k s = None \<and> mem_list_attempts tenant_id k s = [] \<and>
    j \<notin> set (mem_list_jobs tenant_id st kind limit s) \<and>
    j \<notin> set (mem_list_notification_jobs tenant_id agent_id limit s) \<and>
    mem_request_cancel tenant_id k now s = (None, s) \<and>
    mem_replay tenant_id k job ev s = (None, s)"
proof -
  have ok: "store_ok s" using assms(1) by (rule reachable_ok)
  have "ja_tenant_id a \<noteq> tenant_id" if a: "a \<in> set (dict_values (attempts s))" "ja_job_id a = k" for a
  proof -
    obtain i where "dict_get (attempts s) i = Some a"
      using a dict_values_iff[OF store_ok_dicts(2)[OF ok]] by blast
    from store_ok_attempt[OF ok this] show ?thesis using a assms(2,3) by (auto simp: attempt_of_def)
  qed
  then have "filter (\<lambda>a. ja_tenant_id a = tenant_id \<and> ja_job_id a = k) (dict_values (attempts s)) = []"
    by (auto simp: filter_empty_conv)
  then have "mem_list_attempts tenant_id k s = []"
    by (simp add: mem_list_attempts_def sorted_by_def)
  moreover have "j \<notin> set (mem_list_jobs tenant_id st kind limit s)"
    using assms(3) set_py_take_subset unfolding mem_list_jobs_def by fastforce
  moreover have "j \<notin> set (mem_list_notification_jobs tenant_id agent_id limit s)"
    using assms(3) set_py_take_subset unfolding mem_list_notification_jobs_def by fastforce
  ultimately show ?thesis
    using assms(2,3) by (simp add: mem_get_job_def mem_request_cancel_def mem_replay_def)
qed

lemma tenants_are_isolated_instance: "mem_get_job 2 10 enqueued = None"
proof -
  have "dict_get (jobs enqueued) 10 = Some (sample_job 10 2)" by code_simp
  moreover have "bj_tenant_id (sample_job 10 2) \<noteq> 2" by code_simp
  ultimately show ?thesis using tenants_are_isolated[OF reachable_enqueued] by blast
qed

section \<open>The daily social budget\<close>

lemma sum_usages_put:
  assumes "dict_get (budget_usages s) (bu_id u) = None"
  shows "mem_social_budget_used tn ag us d (s\<lparr>budget_usages := dict_set (bu_id u) u (budget_usages s)\<rparr>) =
    mem_social_budget_used tn ag us d s +
    (if bu_tenant_id u = tn \<and> bu_agent_id u = ag \<and> bu_user_id u = us \<and> bu_budget_date u = d
     then bu_cost u else 0)"
  using assms by (simp add: mem_social_budget_used_def usages_of_def dict_values_fresh)

lemma budget_used_cong:
  "budget_usages t = budget_usages s \<Longrightarrow>
     mem_social_budget_used tn ag us d t = mem_social_budget_used tn ag us d s"
  by (simp add: mem_social_budget_used_def usages_of_def)

text \<open>
  C7: Deciding a scheduled action with a usage never takes the day's spending of an agent and
  user above the larger of the budget and what was spent before; when the budget does not cover the cost
  the pending action is suppressed for that reason and nothing is spent.
\<close>

theorem budget_never_exceeded:
  assumes "mem_decide_scheduled_action tn i d (Some u) daily_budget now s = (r, t)"
    and "dict_get (budget_usages s) (bu_id u) = None"
  shows "mem_social_budget_used (bu_tenant_id u) (bu_agent_id u) (bu_user_id u) (bu_budget_date u) t \<le>
      max daily_budget
        (mem_social_budget_used (bu_tenant_id u) (bu_agent_id u) (bu_user_id u) (bu_budget_date u) s) \<and>
    (mem_social_budget_used (bu_tenant_id u) (bu_agent_id u) (bu_user_id u) (bu_budget_date u) s + bu_cost u
        > daily_budget \<longrightarrow>
      budget_usages t = budget_usages s \<and>
      (\<forall>a. dict_get (scheduled_actions s) i = Some a \<and> sa_tenant_id a = tn \<and> sa_status a = ACTION_PENDING \<longrightarrow>
        r = Some (a\<lparr>sa_status := ACTION_SUPPRESSED, sa_score := Some (pd_score d),
          sa_decision_reasons := [lit ''daily_social_budget_exhausted''],
          sa_updated_at := now, sa_completed_at := Some now\<rparr>)))"
  (is "?used t \<le> max daily_budget (?used s) \<and> (?over \<longrightarrow> ?kept)")
proof (cases "\<exists>a. dict_get (scheduled_actions s) i = Some a \<and> sa_tenant_id a = tn \<and> sa_status a = ACTION_PENDING")
  case False
  have "t = s" using assms(1)
  proof (cases rule: decide_cases)
    case (decided a eff s1)
    with False show ?thesis by blast
  qed simp
  then show ?thesis using False by auto
next
  case True
  then obtain a where a: "dict_get (scheduled_actions s) i = Some a" "sa_tenant_id a = tn"
    "sa_status a = ACTION_PENDING" by blast
  show ?thesis
  proof (cases ?over)
    case True
    then have "charge_budget d (Some u) daily_budget s = (budget_exhausted (pd_score d), s)"
      by (simp add: charge_budget_def)
    then have "budget_usages t = budget_usages s \<and> r = Some (a\<lparr>sa_status := ACTION_SUPPRESSED,
        sa_score := Some (pd_score d), sa_decision_reasons := [lit ''daily_social_budget_exhausted''],
        sa_updated_at := now, sa_completed_at := Some now\<rparr>)"
      using assms(1) a
      by (auto simp: mem_decide_scheduled_action_def Let_def budget_exhausted_def action_status_of_def)
    then show ?thesis using a budget_used_cong[of t s] by simp
  next
    case False
    then have "?used s + bu_cost u \<le> daily_budget" by simp
    moreover have "budget_usages t = budget_usages s \<or>
        budget_usages t = dict_set (bu_id u) u (budget_usages s)"
      using assms(1) a False
      by (auto simp: mem_decide_scheduled_action_def Let_def charge_budget_def split: if_splits)
    then have "?used t = ?used s \<or> ?used t = ?used s + bu_cost u"
    proof
      assume "budget_usages t = budget_usages s"
      then show ?thesis by (intro disjI1 budget_used_cong)
    next
      assume "budget_usages t = dict_set (bu_id u) u (budget_usages s)"
      then have "?used t = ?used (s\<lparr>budget_usages := dict_set (bu_id u) u (budget_usages s)\<rparr>)"
        by (intro budget_used_cong) simp
      then show ?thesis by (simp add: sum_usages_put[OF assms(2)])
    qed
    ultimately show ?thesis using False by auto
  qed
qed

definition sample_action :: scheduled_action where
  "sample_action = \<lparr>sa_id = 400, sa_tenant_id = 1, sa_agent_id = 2, sa_user_id = 3,
     sa_conversation_id = None, sa_kind = FOLLOW_UP, sa_status = ACTION_PENDING, sa_scheduled_for = 5,
     sa_expires_at = None, sa_idempotency_key = lit ''a'', sa_reason = lit ''r'', sa_payload = [],
     sa_score = None, sa_social_cost = 4, sa_decision_reasons = [], sa_job_id = Some 10,
     sa_created_by = 3, sa_created_at = 0, sa_updated_at = 0, sa_completed_at = None\<rparr>"

definition sample_usage :: "uuid \<Rightarrow> int \<Rightarrow> budget_usage" where
  "sample_usage i cost = \<lparr>bu_id = i, bu_tenant_id = 1, bu_agent_id = 2, bu_user_id = 3,
     bu_budget_date = 7, bu_scheduled_action_id = 400, bu_cost = cost, bu_created_at = 0\<rparr>"

definition with_action :: task_store where
  "with_action = snd (mem_create_scheduled_action sample_action (sample_job 10 2) (sample_event 100 10) empty_store)"

definition approval :: proactive_decision where
  "approval = \<lparr>pd_approved = True, pd_score = 1, pd_reasons = []\<rparr>"

theorem budget_never_exceeded_witness:
  "(\<exists>a. fst (mem_decide_scheduled_action 1 400 approval (Some (sample_usage 500 4)) 3 9 with_action) = Some a \<and>
     sa_status a = ACTION_SUPPRESSED) \<and>
   mem_social_budget_used 1 2 3 7 (snd (mem_decide_scheduled_action 1 400 approval (Some (sample_usage 500 4)) 3 9 with_action)) \<le> 3"
proof -
  let ?d = "mem_decide_scheduled_action 1 400 approval (Some (sample_usage 500 4)) 3 9 with_action"
  have u: "bu_tenant_id (sample_usage 500 4) = 1" "bu_agent_id (sample_usage 500 4) = 2"
    "bu_user_id (sample_usage 500 4) = 3" "bu_budget_date (sample_usage 500 4) = 7" "bu_cost (sample_usage 500 4) = 4"
    by (simp_all add: sample_usage_def)
  have used: "mem_social_budget_used 1 2 3 7 with_action = 0" by code_simp
  have new: "dict_get (budget_usages with_action) (bu_id (sample_usage 500 4)) = None" by code_simp
  have a: "dict_get (scheduled_actions with_action) 400 = Some sample_action" by code_simp
  have st: "sa_tenant_id sample_action = 1" "sa_status sample_action = ACTION_PENDING"
    by (simp_all add: sample_action_def)
  show ?thesis
    using budget_never_exceeded[OF surjective_pairing[of ?d] new] a st unfolding u used by fastforce
qed

end
