(* ===== verification/Sql_Base.thy ===== *)
theory Sql_Base
  imports Json
begin

text \<open>
  What the SQLAlchemy repositories share: enumerations stored as text, the widths of columns, the
  outcome of a statement and of a query. A value that does not fit its column is a \<open>DataError\<close>; a
  violated check, unique, primary or foreign key is an \<open>IntegrityError\<close>; a stored text that is no
  member of its enumeration is a \<open>RowValueError\<close>. The rows of tables outside a modelled subsystem
  (tenants, agents, users, ...) are the parameter \<open>known\<close>: whether a table has a row of that
  identifier.
\<close>

section \<open>Enumerations as text\<close>

definition parse_enum :: "('a \<Rightarrow> ustr) \<Rightarrow> 'a list \<Rightarrow> ustr \<Rightarrow> 'a option" where
  "parse_enum val members v = find (\<lambda>m. val m = v) members"

text \<open>What a \<open>StrEnum\<close> promises: every member is listed and no two members have the same value.\<close>

locale str_enum =
  fixes val :: "'a \<Rightarrow> ustr" and members :: "'a list"
  assumes all_members: "m \<in> set members"
    and distinct_values: "distinct (map val members)"
begin

lemma value_inj: "val a = val b \<Longrightarrow> a = b"
  using distinct_values all_members by (metis distinct_map inj_onD)

lemma value_eq: "val a = val b \<longleftrightarrow> a = b"
  using value_inj by blast

lemma parse_value: "parse_enum val members (val m) = Some m"
proof (cases "parse_enum val members (val m)")
  case None
  then show ?thesis using all_members[of m] by (auto simp: parse_enum_def find_None_iff)
next
  case (Some n)
  then have "val n = val m" by (auto simp: parse_enum_def find_Some_iff)
  then show ?thesis using Some value_inj by blast
qed

lemma parse_Some: "parse_enum val members v = Some m \<longleftrightarrow> v = val m"
proof
  assume "parse_enum val members v = Some m"
  then show "v = val m" unfolding parse_enum_def by (auto simp: find_Some_iff)
qed (simp add: parse_value)

lemma parse_defined: "parse_enum val members v \<noteq> None \<longleftrightarrow> v \<in> set (map val members)"
  by (auto simp: parse_enum_def find_None_iff)

end

section \<open>Widths of columns\<close>

definition wide :: "nat \<Rightarrow> ustr \<Rightarrow> bool" where
  "wide n s \<longleftrightarrow> length s \<le> n"

definition wide_opt :: "nat \<Rightarrow> ustr option \<Rightarrow> bool" where
  "wide_opt n v = (case v of None \<Rightarrow> True | Some s \<Rightarrow> wide n s)"

definition int4 :: "int \<Rightarrow> bool" where
  "int4 i \<longleftrightarrow> - 2147483648 \<le> i \<and> i \<le> 2147483647"

definition one_of :: "ustr \<Rightarrow> string list \<Rightarrow> bool" where
  "one_of v ws = (v \<in> set (map lit ws))"

section \<open>Statements\<close>

text \<open>\<open>RepositoryValueError\<close> is a \<open>ValueError\<close> that a repository raises itself.\<close>

datatype sql_error = IntegrityError | DataError | RowValueError | RepositoryValueError

type_synonym 'a sql = "sql_error + 'a"

type_synonym known_rows = "ustr \<Rightarrow> uuid \<Rightarrow> bool"

definition fk :: "known_rows \<Rightarrow> string \<Rightarrow> uuid option \<Rightarrow> bool" where
  "fk known t v = (case v of None \<Rightarrow> True | Some u \<Rightarrow> known (lit t) u)"

definition present :: "('k, 'v) dict \<Rightarrow> 'k option \<Rightarrow> bool" where
  "present d v = (case v of None \<Rightarrow> True | Some k \<Rightarrow> dict_get d k \<noteq> None)"

text \<open>A unique constraint: no row of the table has the same key; null keys never clash.\<close>

definition unique :: "('r \<Rightarrow> 'u) \<Rightarrow> 'r \<Rightarrow> ('k, 'r) dict \<Rightarrow> bool" where
  "unique key r d \<longleftrightarrow> (\<forall>x \<in> set (dict_values d). key x \<noteq> key r)"

definition unique_opt :: "('r \<Rightarrow> 'u option) \<Rightarrow> 'r \<Rightarrow> ('k, 'r) dict \<Rightarrow> bool" where
  "unique_opt key r d \<longleftrightarrow> key r = None \<or> unique key r d"

text \<open>The outcome of a statement: width errors come first, then the constraints.\<close>

definition statement :: "bool \<Rightarrow> bool \<Rightarrow> 'a \<Rightarrow> 'a sql" where
  "statement fits allowed result =
     (if \<not> fits then Inl DataError else if \<not> allowed then Inl IntegrityError else Inr result)"

lemma statement_Inr [result_laws]: "statement fits allowed x = Inr y \<longleftrightarrow> fits \<and> allowed \<and> x = y"
  by (simp add: statement_def)

section \<open>Queries and the audit log\<close>

text \<open>\<open>session.scalar(select(...).where(p))\<close> and the conversions of what a query found.\<close>

definition scalar :: "('r \<Rightarrow> bool) \<Rightarrow> ('k, 'r) dict \<Rightarrow> 'r option" where
  "scalar p d = find p (dict_values d)"

definition converted :: "('r \<Rightarrow> 'a option) \<Rightarrow> 'r \<Rightarrow> 'a sql" where
  "converted conv r = (case conv r of None \<Rightarrow> Inl RowValueError | Some x \<Rightarrow> Inr x)"

definition converted_opt :: "('r \<Rightarrow> 'a option) \<Rightarrow> 'r option \<Rightarrow> 'a option sql" where
  "converted_opt conv row = (case row of
     None \<Rightarrow> Inr None
   | Some r \<Rightarrow> bind_result (converted conv r) (\<lambda>x. Inr (Some x)))"

fun converted_all :: "('r \<Rightarrow> 'a option) \<Rightarrow> 'r list \<Rightarrow> 'a list sql" where
  "converted_all conv [] = Inr []"
| "converted_all conv (r # rs) =
     bind_result (converted conv r) (\<lambda>x. bind_result (converted_all conv rs) (\<lambda>xs. Inr (x # xs)))"

record audit_row =
  au_tenant_id :: uuid
  au_actor_id :: uuid
  au_action :: ustr
  au_resource_type :: ustr
  au_resource_id :: ustr
  au_detail :: json_dict

end
