(* ===== verification/Task_Rows.thy ===== *)
theory Task_Rows
  imports Task_Domain Sql_Base
begin

text \<open>
  The rows of the task tables (\<open>packages/infrastructure/.../models.py\<close>) and the conversions of
  \<open>SqlAlchemyTaskRepository\<close> between domain objects and rows. A column of an enumeration holds
  the member's \<open>value\<close>; reading it back is the call of the \<open>StrEnum\<close> class, which raises
  \<open>ValueError\<close> (here \<open>None\<close>) for any other text. \<open>..._checks\<close> are a table's \<open>CheckConstraint\<close>s
  and \<open>..._fits\<close> the widths of its columns.
\<close>

section \<open>Enumerations as text\<close>

fun job_kind_value :: "job_kind \<Rightarrow> ustr" where
  "job_kind_value REFLECTION = lit ''reflection''"
| "job_kind_value EPISODE_CONSOLIDATION = lit ''episode_consolidation''"
| "job_kind_value MEMORY_EXTRACTION = lit ''memory_extraction''"
| "job_kind_value EMBEDDING_REBUILD = lit ''embedding_rebuild''"
| "job_kind_value RELATIONSHIP_UPDATE = lit ''relationship_update''"
| "job_kind_value SCHEDULED_ACTION = lit ''scheduled_action''"
| "job_kind_value INBOUND_MESSAGE = lit ''inbound_message''"
| "job_kind_value NOTIFICATION_DELIVERY = lit ''notification_delivery''"
| "job_kind_value CHANNEL_CONNECTION_TEST = lit ''channel_connection_test''"

definition job_kind_members :: "job_kind list" where
  "job_kind_members = [REFLECTION, EPISODE_CONSOLIDATION, MEMORY_EXTRACTION, EMBEDDING_REBUILD,
     RELATIONSHIP_UPDATE, SCHEDULED_ACTION, INBOUND_MESSAGE, NOTIFICATION_DELIVERY,
     CHANNEL_CONNECTION_TEST]"

definition parse_job_kind :: "ustr \<Rightarrow> job_kind option" where
  "parse_job_kind = parse_enum job_kind_value job_kind_members"

fun job_status_value :: "job_status \<Rightarrow> ustr" where
  "job_status_value JOB_PENDING = lit ''pending''"
| "job_status_value JOB_RUNNING = lit ''running''"
| "job_status_value JOB_RETRYING = lit ''retrying''"
| "job_status_value JOB_SUCCEEDED = lit ''succeeded''"
| "job_status_value JOB_FAILED = lit ''failed''"
| "job_status_value JOB_DEAD_LETTER = lit ''dead_letter''"
| "job_status_value JOB_CANCELED = lit ''canceled''"

definition job_status_members :: "job_status list" where
  "job_status_members = [JOB_PENDING, JOB_RUNNING, JOB_RETRYING, JOB_SUCCEEDED, JOB_FAILED,
     JOB_DEAD_LETTER, JOB_CANCELED]"

definition parse_job_status :: "ustr \<Rightarrow> job_status option" where
  "parse_job_status = parse_enum job_status_value job_status_members"

fun inbox_status_value :: "inbox_status \<Rightarrow> ustr" where
  "inbox_status_value INBOX_PENDING = lit ''pending''"
| "inbox_status_value INBOX_PROCESSING = lit ''processing''"
| "inbox_status_value INBOX_COMPLETED = lit ''completed''"
| "inbox_status_value INBOX_DEAD_LETTER = lit ''dead_letter''"
| "inbox_status_value INBOX_CANCELED = lit ''canceled''"

definition inbox_status_members :: "inbox_status list" where
  "inbox_status_members = [INBOX_PENDING, INBOX_PROCESSING, INBOX_COMPLETED, INBOX_DEAD_LETTER, INBOX_CANCELED]"

definition parse_inbox_status :: "ustr \<Rightarrow> inbox_status option" where
  "parse_inbox_status = parse_enum inbox_status_value inbox_status_members"

fun outbox_status_value :: "outbox_status \<Rightarrow> ustr" where
  "outbox_status_value OUTBOX_PENDING = lit ''pending''"
| "outbox_status_value OUTBOX_PUBLISHING = lit ''publishing''"
| "outbox_status_value OUTBOX_PUBLISHED = lit ''published''"
| "outbox_status_value OUTBOX_RETRYING = lit ''retrying''"
| "outbox_status_value OUTBOX_DEAD_LETTER = lit ''dead_letter''"
| "outbox_status_value OUTBOX_CANCELED = lit ''canceled''"

definition outbox_status_members :: "outbox_status list" where
  "outbox_status_members = [OUTBOX_PENDING, OUTBOX_PUBLISHING, OUTBOX_PUBLISHED, OUTBOX_RETRYING,
     OUTBOX_DEAD_LETTER, OUTBOX_CANCELED]"

definition parse_outbox_status :: "ustr \<Rightarrow> outbox_status option" where
  "parse_outbox_status = parse_enum outbox_status_value outbox_status_members"

fun attempt_status_value :: "attempt_status \<Rightarrow> ustr" where
  "attempt_status_value ATTEMPT_RUNNING = lit ''running''"
| "attempt_status_value ATTEMPT_SUCCEEDED = lit ''succeeded''"
| "attempt_status_value ATTEMPT_FAILED = lit ''failed''"
| "attempt_status_value ATTEMPT_TIMED_OUT = lit ''timed_out''"
| "attempt_status_value ATTEMPT_CANCELED = lit ''canceled''"

definition attempt_status_members :: "attempt_status list" where
  "attempt_status_members = [ATTEMPT_RUNNING, ATTEMPT_SUCCEEDED, ATTEMPT_FAILED, ATTEMPT_TIMED_OUT, ATTEMPT_CANCELED]"

definition parse_attempt_status :: "ustr \<Rightarrow> attempt_status option" where
  "parse_attempt_status = parse_enum attempt_status_value attempt_status_members"

fun action_kind_value :: "action_kind \<Rightarrow> ustr" where
  "action_kind_value FOLLOW_UP = lit ''follow_up''"
| "action_kind_value PROACTIVE_MESSAGE = lit ''proactive_message''"
| "action_kind_value ACTION_REFLECTION = lit ''reflection''"

definition action_kind_members :: "action_kind list" where
  "action_kind_members = [FOLLOW_UP, PROACTIVE_MESSAGE, ACTION_REFLECTION]"

definition parse_action_kind :: "ustr \<Rightarrow> action_kind option" where
  "parse_action_kind = parse_enum action_kind_value action_kind_members"

fun action_status_value :: "action_status \<Rightarrow> ustr" where
  "action_status_value ACTION_PENDING = lit ''pending''"
| "action_status_value ACTION_DISPATCHED = lit ''dispatched''"
| "action_status_value ACTION_COMPLETED = lit ''completed''"
| "action_status_value ACTION_SUPPRESSED = lit ''suppressed''"
| "action_status_value ACTION_CANCELED = lit ''canceled''"
| "action_status_value ACTION_EXPIRED = lit ''expired''"
| "action_status_value ACTION_FAILED = lit ''failed''"

definition action_status_members :: "action_status list" where
  "action_status_members = [ACTION_PENDING, ACTION_DISPATCHED, ACTION_COMPLETED, ACTION_SUPPRESSED, ACTION_CANCELED,
     ACTION_EXPIRED, ACTION_FAILED]"

definition parse_action_status :: "ustr \<Rightarrow> action_status option" where
  "parse_action_status = parse_enum action_status_value action_status_members"

text \<open>Every enumeration of the task domain keeps that promise.\<close>

interpretation job_kind_enum: str_enum job_kind_value job_kind_members
proof
  show "m \<in> set job_kind_members" for m by (cases m) (simp_all add: job_kind_members_def)
  show "distinct (map job_kind_value job_kind_members)" by (simp add: job_kind_members_def)
qed

interpretation job_status_enum: str_enum job_status_value job_status_members
proof
  show "m \<in> set job_status_members" for m by (cases m) (simp_all add: job_status_members_def)
  show "distinct (map job_status_value job_status_members)" by (simp add: job_status_members_def)
qed

interpretation inbox_status_enum: str_enum inbox_status_value inbox_status_members
proof
  show "m \<in> set inbox_status_members" for m by (cases m) (simp_all add: inbox_status_members_def)
  show "distinct (map inbox_status_value inbox_status_members)" by (simp add: inbox_status_members_def)
qed

interpretation outbox_status_enum: str_enum outbox_status_value outbox_status_members
proof
  show "m \<in> set outbox_status_members" for m by (cases m) (simp_all add: outbox_status_members_def)
  show "distinct (map outbox_status_value outbox_status_members)" by (simp add: outbox_status_members_def)
qed

interpretation attempt_status_enum: str_enum attempt_status_value attempt_status_members
proof
  show "m \<in> set attempt_status_members" for m by (cases m) (simp_all add: attempt_status_members_def)
  show "distinct (map attempt_status_value attempt_status_members)" by (simp add: attempt_status_members_def)
qed

interpretation action_kind_enum: str_enum action_kind_value action_kind_members
proof
  show "m \<in> set action_kind_members" for m by (cases m) (simp_all add: action_kind_members_def)
  show "distinct (map action_kind_value action_kind_members)" by (simp add: action_kind_members_def)
qed

interpretation action_status_enum: str_enum action_status_value action_status_members
proof
  show "m \<in> set action_status_members" for m by (cases m) (simp_all add: action_status_members_def)
  show "distinct (map action_status_value action_status_members)" by (simp add: action_status_members_def)
qed

lemmas parse_values [simp] =
  job_kind_enum.parse_value[folded parse_job_kind_def]
  job_status_enum.parse_value[folded parse_job_status_def]
  inbox_status_enum.parse_value[folded parse_inbox_status_def]
  outbox_status_enum.parse_value[folded parse_outbox_status_def]
  attempt_status_enum.parse_value[folded parse_attempt_status_def]
  action_kind_enum.parse_value[folded parse_action_kind_def]
  action_status_enum.parse_value[folded parse_action_status_def]

lemmas value_eqs [simp] =
  job_kind_enum.value_eq
  job_status_enum.value_eq
  inbox_status_enum.value_eq
  outbox_status_enum.value_eq
  attempt_status_enum.value_eq
  action_kind_enum.value_eq
  action_status_enum.value_eq

section \<open>Inbox events\<close>

record inbox_row =
  ir_id :: uuid
  ir_tenant_id :: uuid
  ir_event_key :: ustr
  ir_event_type :: ustr
  ir_payload :: json_dict
  ir_status :: ustr
  ir_job_id :: uuid
  ir_received_at :: instant
  ir_processed_at :: "instant option"
  ir_last_error_code :: "ustr option"
  ir_agent_id :: "uuid option"
  ir_channel_id :: "uuid option"
  ir_schema_version :: "ustr option"
  ir_platform :: "ustr option"
  ir_external_event_digest :: "ustr option"
  ir_external_subject_digest :: "ustr option"
  ir_external_conversation_digest :: "ustr option"
  ir_external_thread_digest :: "ustr option"
  ir_external_message_digest :: "ustr option"
  ir_user_id :: "uuid option"
  ir_conversation_id :: "uuid option"
  ir_content_kinds :: "ustr list"
  ir_content_block_count :: int

definition inbox_model :: "inbox_event \<Rightarrow> inbox_row" where
  "inbox_model item = \<lparr>
     ir_id = ie_id item, ir_tenant_id = ie_tenant_id item, ir_event_key = ie_event_key item,
     ir_event_type = ie_event_type item, ir_payload = ie_payload item,
     ir_status = inbox_status_value (ie_status item), ir_job_id = ie_job_id item,
     ir_received_at = ie_received_at item, ir_processed_at = ie_processed_at item,
     ir_last_error_code = ie_last_error_code item, ir_agent_id = ie_agent_id item,
     ir_channel_id = ie_channel_id item, ir_schema_version = ie_schema_version item,
     ir_platform = ie_platform item, ir_external_event_digest = ie_external_event_digest item,
     ir_external_subject_digest = ie_external_subject_digest item,
     ir_external_conversation_digest = ie_external_conversation_digest item,
     ir_external_thread_digest = ie_external_thread_digest item,
     ir_external_message_digest = ie_external_message_digest item, ir_user_id = ie_user_id item,
     ir_conversation_id = ie_conversation_id item, ir_content_kinds = ie_content_kinds item,
     ir_content_block_count = ie_content_block_count item\<rparr>"

definition row_inbox :: "inbox_row \<Rightarrow> inbox_event option" where
  "row_inbox row =
     Option.bind (parse_inbox_status (ir_status row)) (\<lambda>status_v. Some \<lparr>
       ie_id = ir_id row, ie_tenant_id = ir_tenant_id row, ie_event_key = ir_event_key row,
       ie_event_type = ir_event_type row, ie_payload = ir_payload row, ie_status = status_v,
       ie_job_id = ir_job_id row, ie_received_at = ir_received_at row,
       ie_processed_at = ir_processed_at row, ie_last_error_code = ir_last_error_code row,
       ie_agent_id = ir_agent_id row, ie_channel_id = ir_channel_id row,
       ie_schema_version = ir_schema_version row, ie_platform = ir_platform row,
       ie_external_event_digest = ir_external_event_digest row,
       ie_external_subject_digest = ir_external_subject_digest row,
       ie_external_conversation_digest = ir_external_conversation_digest row,
       ie_external_thread_digest = ir_external_thread_digest row,
       ie_external_message_digest = ir_external_message_digest row, ie_user_id = ir_user_id row,
       ie_conversation_id = ir_conversation_id row, ie_content_kinds = ir_content_kinds row,
       ie_content_block_count = ir_content_block_count row\<rparr>)"

section \<open>Jobs\<close>

record job_row =
  jr_id :: uuid
  jr_tenant_id :: uuid
  jr_kind :: ustr
  jr_queue :: ustr
  jr_status :: ustr
  jr_payload :: json_dict
  jr_deduplication_key :: ustr
  jr_source_inbox_id :: "uuid option"
  jr_correlation_id :: "ustr option"
  jr_attempt_count :: int
  jr_max_attempts :: int
  jr_lease_seconds :: int
  jr_retry_base_seconds :: int
  jr_available_at :: instant
  jr_lease_owner :: "ustr option"
  jr_lease_expires_at :: "instant option"
  jr_cancel_requested_at :: "instant option"
  jr_last_error_code :: "ustr option"
  jr_last_error_summary :: "ustr option"
  jr_result_summary :: json_dict
  jr_replayed_from_id :: "uuid option"
  jr_created_by :: "uuid option"
  jr_created_at :: instant
  jr_started_at :: "instant option"
  jr_completed_at :: "instant option"
  jr_updated_at :: instant
  jr_agent_id :: "uuid option"

definition job_model :: "background_job \<Rightarrow> job_row" where
  "job_model item = \<lparr>
     jr_id = bj_id item, jr_tenant_id = bj_tenant_id item, jr_kind = job_kind_value (bj_kind item),
     jr_queue = bj_queue item, jr_status = job_status_value (bj_status item),
     jr_payload = bj_payload item, jr_deduplication_key = bj_deduplication_key item,
     jr_source_inbox_id = bj_source_inbox_id item, jr_correlation_id = bj_correlation_id item,
     jr_attempt_count = bj_attempt_count item, jr_max_attempts = bj_max_attempts item,
     jr_lease_seconds = bj_lease_seconds item, jr_retry_base_seconds = bj_retry_base_seconds item,
     jr_available_at = bj_available_at item, jr_lease_owner = bj_lease_owner item,
     jr_lease_expires_at = bj_lease_expires_at item,
     jr_cancel_requested_at = bj_cancel_requested_at item,
     jr_last_error_code = bj_last_error_code item,
     jr_last_error_summary = bj_last_error_summary item, jr_result_summary = bj_result_summary item,
     jr_replayed_from_id = bj_replayed_from_id item, jr_created_by = bj_created_by item,
     jr_created_at = bj_created_at item, jr_started_at = bj_started_at item,
     jr_completed_at = bj_completed_at item, jr_updated_at = bj_updated_at item,
     jr_agent_id = bj_agent_id item\<rparr>"

definition row_job :: "job_row \<Rightarrow> background_job option" where
  "row_job row =
     Option.bind (parse_job_kind (jr_kind row)) (\<lambda>kind_v.
     Option.bind (parse_job_status (jr_status row)) (\<lambda>status_v. Some \<lparr>
       bj_id = jr_id row, bj_tenant_id = jr_tenant_id row, bj_kind = kind_v,
       bj_queue = jr_queue row, bj_status = status_v, bj_payload = jr_payload row,
       bj_deduplication_key = jr_deduplication_key row, bj_source_inbox_id = jr_source_inbox_id row,
       bj_correlation_id = jr_correlation_id row, bj_attempt_count = jr_attempt_count row,
       bj_max_attempts = jr_max_attempts row, bj_lease_seconds = jr_lease_seconds row,
       bj_retry_base_seconds = jr_retry_base_seconds row, bj_available_at = jr_available_at row,
       bj_lease_owner = jr_lease_owner row, bj_lease_expires_at = jr_lease_expires_at row,
       bj_cancel_requested_at = jr_cancel_requested_at row,
       bj_last_error_code = jr_last_error_code row,
       bj_last_error_summary = jr_last_error_summary row, bj_result_summary = jr_result_summary row,
       bj_replayed_from_id = jr_replayed_from_id row, bj_created_by = jr_created_by row,
       bj_created_at = jr_created_at row, bj_started_at = jr_started_at row,
       bj_completed_at = jr_completed_at row, bj_updated_at = jr_updated_at row,
       bj_agent_id = jr_agent_id row\<rparr>))"

section \<open>Outbox events\<close>

record outbox_row =
  or_id :: uuid
  or_tenant_id :: uuid
  or_job_id :: uuid
  or_event_type :: ustr
  or_payload :: json_dict
  or_status :: ustr
  or_attempt_count :: int
  or_max_attempts :: int
  or_available_at :: instant
  or_lease_owner :: "ustr option"
  or_lease_expires_at :: "instant option"
  or_last_error_code :: "ustr option"
  or_created_at :: instant
  or_published_at :: "instant option"
  or_updated_at :: instant

definition outbox_model :: "outbox_event \<Rightarrow> outbox_row" where
  "outbox_model item = \<lparr>
     or_id = oe_id item, or_tenant_id = oe_tenant_id item, or_job_id = oe_job_id item,
     or_event_type = oe_event_type item, or_payload = oe_payload item,
     or_status = outbox_status_value (oe_status item), or_attempt_count = oe_attempt_count item,
     or_max_attempts = oe_max_attempts item, or_available_at = oe_available_at item,
     or_lease_owner = oe_lease_owner item, or_lease_expires_at = oe_lease_expires_at item,
     or_last_error_code = oe_last_error_code item, or_created_at = oe_created_at item,
     or_published_at = oe_published_at item, or_updated_at = oe_updated_at item\<rparr>"

definition row_outbox :: "outbox_row \<Rightarrow> outbox_event option" where
  "row_outbox row =
     Option.bind (parse_outbox_status (or_status row)) (\<lambda>status_v. Some \<lparr>
       oe_id = or_id row, oe_tenant_id = or_tenant_id row, oe_job_id = or_job_id row,
       oe_event_type = or_event_type row, oe_payload = or_payload row, oe_status = status_v,
       oe_attempt_count = or_attempt_count row, oe_max_attempts = or_max_attempts row,
       oe_available_at = or_available_at row, oe_lease_owner = or_lease_owner row,
       oe_lease_expires_at = or_lease_expires_at row, oe_last_error_code = or_last_error_code row,
       oe_created_at = or_created_at row, oe_published_at = or_published_at row,
       oe_updated_at = or_updated_at row\<rparr>)"

section \<open>Attempts\<close>

record attempt_row =
  ar_id :: uuid
  ar_tenant_id :: uuid
  ar_job_id :: uuid
  ar_attempt_number :: int
  ar_status :: ustr
  ar_worker_id :: ustr
  ar_started_at :: instant
  ar_completed_at :: "instant option"
  ar_error_code :: "ustr option"
  ar_error_summary :: "ustr option"

definition attempt_model :: "job_attempt \<Rightarrow> attempt_row" where
  "attempt_model item = \<lparr>
     ar_id = ja_id item, ar_tenant_id = ja_tenant_id item, ar_job_id = ja_job_id item,
     ar_attempt_number = ja_attempt_number item, ar_status = attempt_status_value (ja_status item),
     ar_worker_id = ja_worker_id item, ar_started_at = ja_started_at item,
     ar_completed_at = ja_completed_at item, ar_error_code = ja_error_code item,
     ar_error_summary = ja_error_summary item\<rparr>"

definition row_attempt :: "attempt_row \<Rightarrow> job_attempt option" where
  "row_attempt row =
     Option.bind (parse_attempt_status (ar_status row)) (\<lambda>status_v. Some \<lparr>
       ja_id = ar_id row, ja_tenant_id = ar_tenant_id row, ja_job_id = ar_job_id row,
       ja_attempt_number = ar_attempt_number row, ja_status = status_v,
       ja_worker_id = ar_worker_id row, ja_started_at = ar_started_at row,
       ja_completed_at = ar_completed_at row, ja_error_code = ar_error_code row,
       ja_error_summary = ar_error_summary row\<rparr>)"

section \<open>Scheduled actions\<close>

record action_row =
  sr_id :: uuid
  sr_tenant_id :: uuid
  sr_agent_id :: uuid
  sr_user_id :: uuid
  sr_conversation_id :: "uuid option"
  sr_kind :: ustr
  sr_status :: ustr
  sr_scheduled_for :: instant
  sr_expires_at :: "instant option"
  sr_idempotency_key :: ustr
  sr_reason :: ustr
  sr_payload :: json_dict
  sr_score :: "rat option"
  sr_social_cost :: int
  sr_decision_reasons :: "ustr list"
  sr_job_id :: uuid
  sr_created_by :: uuid
  sr_created_at :: instant
  sr_updated_at :: instant
  sr_completed_at :: "instant option"

definition scheduled_row :: "uuid \<Rightarrow> scheduled_action \<Rightarrow> action_row" where
  "scheduled_row job_id item = \<lparr>
     sr_id = sa_id item, sr_tenant_id = sa_tenant_id item, sr_agent_id = sa_agent_id item,
     sr_user_id = sa_user_id item, sr_conversation_id = sa_conversation_id item,
     sr_kind = action_kind_value (sa_kind item), sr_status = action_status_value (sa_status item),
     sr_scheduled_for = sa_scheduled_for item, sr_expires_at = sa_expires_at item,
     sr_idempotency_key = sa_idempotency_key item, sr_reason = sa_reason item,
     sr_payload = sa_payload item, sr_score = sa_score item, sr_social_cost = sa_social_cost item,
     sr_decision_reasons = sa_decision_reasons item, sr_job_id = job_id,
     sr_created_by = sa_created_by item, sr_created_at = sa_created_at item,
     sr_updated_at = sa_updated_at item, sr_completed_at = sa_completed_at item\<rparr>"

definition row_scheduled :: "action_row \<Rightarrow> scheduled_action option" where
  "row_scheduled row =
     Option.bind (parse_action_kind (sr_kind row)) (\<lambda>kind_v.
     Option.bind (parse_action_status (sr_status row)) (\<lambda>status_v. Some \<lparr>
       sa_id = sr_id row, sa_tenant_id = sr_tenant_id row, sa_agent_id = sr_agent_id row,
       sa_user_id = sr_user_id row, sa_conversation_id = sr_conversation_id row, sa_kind = kind_v,
       sa_status = status_v, sa_scheduled_for = sr_scheduled_for row,
       sa_expires_at = sr_expires_at row, sa_idempotency_key = sr_idempotency_key row,
       sa_reason = sr_reason row, sa_payload = sr_payload row, sa_score = sr_score row,
       sa_social_cost = sr_social_cost row, sa_decision_reasons = sr_decision_reasons row,
       sa_job_id = Some (sr_job_id row), sa_created_by = sr_created_by row,
       sa_created_at = sr_created_at row, sa_updated_at = sr_updated_at row,
       sa_completed_at = sr_completed_at row\<rparr>))"

text \<open>
  \<open>_scheduled_model\<close> raises \<open>ValueError\<close> for an action without a job; budget usages and heartbeats
  have rows with the same fields.
\<close>

definition scheduled_model :: "scheduled_action \<Rightarrow> action_row option" where
  "scheduled_model item = map_option (\<lambda>job_id. scheduled_row job_id item) (sa_job_id item)"

type_synonym budget_row = budget_usage
type_synonym heartbeat_row = worker_heartbeat

definition budget_model :: "budget_usage \<Rightarrow> budget_row" where
  "budget_model item = \<lparr>bu_id = bu_id item, bu_tenant_id = bu_tenant_id item,
     bu_agent_id = bu_agent_id item, bu_user_id = bu_user_id item,
     bu_budget_date = bu_budget_date item, bu_scheduled_action_id = bu_scheduled_action_id item,
     bu_cost = bu_cost item, bu_created_at = bu_created_at item\<rparr>"

definition heartbeat_model :: "worker_heartbeat \<Rightarrow> heartbeat_row" where
  "heartbeat_model item = \<lparr>wh_worker_id = wh_worker_id item, wh_queues = wh_queues item,
     wh_current_job_id = wh_current_job_id item, wh_started_at = wh_started_at item,
     wh_last_seen_at = wh_last_seen_at item\<rparr>"

definition row_heartbeat :: "heartbeat_row \<Rightarrow> worker_heartbeat" where
  "row_heartbeat row = \<lparr>wh_worker_id = wh_worker_id row, wh_queues = wh_queues row,
     wh_current_job_id = wh_current_job_id row, wh_started_at = wh_started_at row,
     wh_last_seen_at = wh_last_seen_at row\<rparr>"

lemma model_ids [simp]: "budget_model u = u" "heartbeat_model hb = hb" "row_heartbeat hb = hb"
  by (simp_all add: budget_model_def heartbeat_model_def row_heartbeat_def)

section \<open>Column widths and check constraints\<close>

definition inbox_fits :: "inbox_row \<Rightarrow> bool" where
  "inbox_fits r \<longleftrightarrow> wide 255 (ir_event_key r) \<and> wide 120 (ir_event_type r) \<and> wide 24 (ir_status r) \<and>
     wide_opt 120 (ir_last_error_code r) \<and> wide_opt 16 (ir_schema_version r) \<and>
     wide_opt 32 (ir_platform r) \<and> wide_opt 64 (ir_external_event_digest r) \<and>
     wide_opt 64 (ir_external_subject_digest r) \<and> wide_opt 64 (ir_external_conversation_digest r) \<and>
     wide_opt 64 (ir_external_thread_digest r) \<and> wide_opt 64 (ir_external_message_digest r) \<and>
     int4 (ir_content_block_count r)"

definition inbox_checks :: "inbox_row \<Rightarrow> bool" where
  "inbox_checks r \<longleftrightarrow>
     one_of (ir_status r) [''pending'', ''processing'', ''completed'', ''dead_letter'', ''canceled''] \<and>
     0 \<le> ir_content_block_count r"

definition job_fits :: "job_row \<Rightarrow> bool" where
  "job_fits r \<longleftrightarrow> wide 40 (jr_kind r) \<and> wide 80 (jr_queue r) \<and> wide 24 (jr_status r) \<and>
     wide 255 (jr_deduplication_key r) \<and> wide_opt 255 (jr_correlation_id r) \<and>
     wide_opt 160 (jr_lease_owner r) \<and> wide_opt 120 (jr_last_error_code r) \<and>
     wide_opt 500 (jr_last_error_summary r) \<and> int4 (jr_attempt_count r) \<and> int4 (jr_max_attempts r) \<and>
     int4 (jr_lease_seconds r) \<and> int4 (jr_retry_base_seconds r)"

definition job_checks :: "job_row \<Rightarrow> bool" where
  "job_checks r \<longleftrightarrow>
     one_of (jr_kind r) [''reflection'', ''episode_consolidation'', ''memory_extraction'',
       ''embedding_rebuild'', ''relationship_update'', ''scheduled_action'', ''inbound_message'',
       ''notification_delivery'', ''channel_connection_test''] \<and>
     one_of (jr_status r) [''pending'', ''running'', ''retrying'', ''succeeded'', ''failed'',
       ''dead_letter'', ''canceled''] \<and>
     0 \<le> jr_attempt_count r \<and> 1 \<le> jr_max_attempts r \<and> jr_max_attempts r \<le> 20 \<and>
     jr_attempt_count r \<le> jr_max_attempts r \<and>
     1 \<le> jr_lease_seconds r \<and> jr_lease_seconds r \<le> 86400 \<and>
     1 \<le> jr_retry_base_seconds r \<and> jr_retry_base_seconds r \<le> 86400 \<and>
     (jr_lease_owner r = None) = (jr_lease_expires_at r = None)"

definition outbox_fits :: "outbox_row \<Rightarrow> bool" where
  "outbox_fits r \<longleftrightarrow> wide 120 (or_event_type r) \<and> wide 24 (or_status r) \<and>
     wide_opt 160 (or_lease_owner r) \<and> wide_opt 120 (or_last_error_code r) \<and>
     int4 (or_attempt_count r) \<and> int4 (or_max_attempts r)"

definition outbox_checks :: "outbox_row \<Rightarrow> bool" where
  "outbox_checks r \<longleftrightarrow>
     one_of (or_status r) [''pending'', ''publishing'', ''published'', ''retrying'', ''dead_letter'',
       ''canceled''] \<and>
     0 \<le> or_attempt_count r \<and> 1 \<le> or_max_attempts r \<and> or_attempt_count r \<le> or_max_attempts r \<and>
     (or_lease_owner r = None) = (or_lease_expires_at r = None)"

definition attempt_fits :: "attempt_row \<Rightarrow> bool" where
  "attempt_fits r \<longleftrightarrow> wide 24 (ar_status r) \<and> wide 160 (ar_worker_id r) \<and>
     wide_opt 120 (ar_error_code r) \<and> wide_opt 500 (ar_error_summary r) \<and> int4 (ar_attempt_number r)"

definition attempt_checks :: "attempt_row \<Rightarrow> bool" where
  "attempt_checks r \<longleftrightarrow>
     one_of (ar_status r) [''running'', ''succeeded'', ''failed'', ''timed_out'', ''canceled''] \<and>
     1 \<le> ar_attempt_number r"

definition action_fits :: "action_row \<Rightarrow> bool" where
  "action_fits r \<longleftrightarrow> wide 40 (sr_kind r) \<and> wide 24 (sr_status r) \<and> wide 255 (sr_idempotency_key r) \<and>
     wide 500 (sr_reason r) \<and> int4 (sr_social_cost r)"

definition action_checks :: "action_row \<Rightarrow> bool" where
  "action_checks r \<longleftrightarrow>
     one_of (sr_kind r) [''follow_up'', ''proactive_message'', ''reflection''] \<and>
     one_of (sr_status r) [''pending'', ''dispatched'', ''completed'', ''suppressed'', ''canceled'',
       ''expired'', ''failed''] \<and>
     (case sr_score r of None \<Rightarrow> True | Some x \<Rightarrow> 0 \<le> x \<and> x \<le> 1) \<and>
     0 \<le> sr_social_cost r \<and> sr_social_cost r \<le> 20"

definition budget_checks :: "budget_row \<Rightarrow> bool" where
  "budget_checks r \<longleftrightarrow> 0 \<le> bu_cost r \<and> bu_cost r \<le> 20"

section \<open>Round trips\<close>

lemma row_conversions:
  "row_inbox (inbox_model ib) = Some ib" "row_job (job_model j) = Some j"
  "row_outbox (outbox_model e) = Some e" "row_attempt (attempt_model a) = Some a"
  "row_scheduled (scheduled_row k act) = Some (act\<lparr>sa_job_id := Some k\<rparr>)"
  by (simp_all add: row_inbox_def inbox_model_def row_job_def job_model_def row_outbox_def
      outbox_model_def row_attempt_def attempt_model_def row_scheduled_def scheduled_row_def)

lemma parsed_value:
  "parse_job_kind v = Some k \<longleftrightarrow> v = job_kind_value k"
  "parse_job_status v = Some js \<longleftrightarrow> v = job_status_value js"
  "parse_inbox_status v = Some i \<longleftrightarrow> v = inbox_status_value i"
  "parse_outbox_status v = Some os \<longleftrightarrow> v = outbox_status_value os"
  "parse_attempt_status v = Some ats \<longleftrightarrow> v = attempt_status_value ats"
  "parse_action_kind v = Some ak \<longleftrightarrow> v = action_kind_value ak"
  "parse_action_status v = Some acs \<longleftrightarrow> v = action_status_value acs"
  by (simp_all add: parse_job_kind_def parse_job_status_def parse_inbox_status_def
      parse_outbox_status_def parse_attempt_status_def parse_action_kind_def parse_action_status_def
      job_kind_enum.parse_Some job_status_enum.parse_Some inbox_status_enum.parse_Some
      outbox_status_enum.parse_Some attempt_status_enum.parse_Some action_kind_enum.parse_Some
      action_status_enum.parse_Some)

lemma row_conversions_back:
  "row_inbox ri = Some ib \<Longrightarrow> inbox_model ib = ri" "row_job rj = Some j \<Longrightarrow> job_model j = rj"
  "row_outbox ro = Some e \<Longrightarrow> outbox_model e = ro" "row_attempt ra = Some a \<Longrightarrow> attempt_model a = ra"
  "row_scheduled rs = Some act \<Longrightarrow> scheduled_model act = Some rs"
  by (auto simp: row_inbox_def inbox_model_def row_job_def job_model_def row_outbox_def
      outbox_model_def row_attempt_def attempt_model_def row_scheduled_def scheduled_row_def
      scheduled_model_def parsed_value bind_eq_Some_conv)

text \<open>The enumerations of the columns' check constraints are exactly the members' values.\<close>

lemma checked_enums:
  "one_of v [''pending'', ''processing'', ''completed'', ''dead_letter'', ''canceled''] \<longleftrightarrow>
     (\<exists>m. v = inbox_status_value m)"
  "one_of v [''reflection'', ''episode_consolidation'', ''memory_extraction'', ''embedding_rebuild'',
     ''relationship_update'', ''scheduled_action'', ''inbound_message'', ''notification_delivery'',
     ''channel_connection_test''] \<longleftrightarrow> (\<exists>m. v = job_kind_value m)"
  "one_of v [''pending'', ''running'', ''retrying'', ''succeeded'', ''failed'', ''dead_letter'',
     ''canceled''] \<longleftrightarrow> (\<exists>m. v = job_status_value m)"
  "one_of v [''pending'', ''publishing'', ''published'', ''retrying'', ''dead_letter'', ''canceled''] \<longleftrightarrow>
     (\<exists>m. v = outbox_status_value m)"
  "one_of v [''running'', ''succeeded'', ''failed'', ''timed_out'', ''canceled''] \<longleftrightarrow>
     (\<exists>m. v = attempt_status_value m)"
  "one_of v [''follow_up'', ''proactive_message'', ''reflection''] \<longleftrightarrow> (\<exists>m. v = action_kind_value m)"
  "one_of v [''pending'', ''dispatched'', ''completed'', ''suppressed'', ''canceled'', ''expired'',
     ''failed''] \<longleftrightarrow> (\<exists>m. v = action_status_value m)"
proof -
  show "one_of v [''pending'', ''processing'', ''completed'', ''dead_letter'', ''canceled''] \<longleftrightarrow>
      (\<exists>m. v = inbox_status_value m)"
    using inbox_status_enum.parse_defined[of v] inbox_status_enum.parse_Some[of v]
    by (simp add: one_of_def inbox_status_members_def)
  show "one_of v [''reflection'', ''episode_consolidation'', ''memory_extraction'', ''embedding_rebuild'',
      ''relationship_update'', ''scheduled_action'', ''inbound_message'', ''notification_delivery'',
      ''channel_connection_test''] \<longleftrightarrow> (\<exists>m. v = job_kind_value m)"
    using job_kind_enum.parse_defined[of v] job_kind_enum.parse_Some[of v]
    by (simp add: one_of_def job_kind_members_def)
  show "one_of v [''pending'', ''running'', ''retrying'', ''succeeded'', ''failed'', ''dead_letter'',
      ''canceled''] \<longleftrightarrow> (\<exists>m. v = job_status_value m)"
    using job_status_enum.parse_defined[of v] job_status_enum.parse_Some[of v]
    by (simp add: one_of_def job_status_members_def)
  show "one_of v [''pending'', ''publishing'', ''published'', ''retrying'', ''dead_letter'', ''canceled''] \<longleftrightarrow>
      (\<exists>m. v = outbox_status_value m)"
    using outbox_status_enum.parse_defined[of v] outbox_status_enum.parse_Some[of v]
    by (simp add: one_of_def outbox_status_members_def)
  show "one_of v [''running'', ''succeeded'', ''failed'', ''timed_out'', ''canceled''] \<longleftrightarrow>
      (\<exists>m. v = attempt_status_value m)"
    using attempt_status_enum.parse_defined[of v] attempt_status_enum.parse_Some[of v]
    by (simp add: one_of_def attempt_status_members_def)
  show "one_of v [''follow_up'', ''proactive_message'', ''reflection''] \<longleftrightarrow> (\<exists>m. v = action_kind_value m)"
    using action_kind_enum.parse_defined[of v] action_kind_enum.parse_Some[of v]
    by (simp add: one_of_def action_kind_members_def)
  show "one_of v [''pending'', ''dispatched'', ''completed'', ''suppressed'', ''canceled'', ''expired'',
      ''failed''] \<longleftrightarrow> (\<exists>m. v = action_status_value m)"
    using action_status_enum.parse_defined[of v] action_status_enum.parse_Some[of v]
    by (simp add: one_of_def action_status_members_def)
qed

lemma checked_rows_parse:
  "inbox_checks ri \<Longrightarrow> row_inbox ri \<noteq> None" "job_checks rj \<Longrightarrow> row_job rj \<noteq> None"
  "outbox_checks ro \<Longrightarrow> row_outbox ro \<noteq> None" "attempt_checks ra \<Longrightarrow> row_attempt ra \<noteq> None"
  "action_checks rs \<Longrightarrow> row_scheduled rs \<noteq> None"
  by (auto simp: inbox_checks_def job_checks_def outbox_checks_def attempt_checks_def action_checks_def
      checked_enums row_inbox_def row_job_def row_outbox_def row_attempt_def row_scheduled_def)

declare job_kind_value.simps [simp del] job_status_value.simps [simp del]
declare inbox_status_value.simps [simp del] outbox_status_value.simps [simp del]
declare attempt_status_value.simps [simp del] action_kind_value.simps [simp del]
declare action_status_value.simps [simp del]

lemma read_back:
  assumes "conv r \<noteq> None" and "\<And>x. conv r = Some x \<Longrightarrow> model x = s"
  shows "\<exists>!x. model x = s \<and> conv r = Some x"
proof -
  obtain x where "conv r = Some x" using assms(1) by blast
  then show ?thesis using assms(2) by auto
qed

section \<open>Properties\<close>

text \<open>
  Writing an object of the task domain to its row and reading the row back gives the object
  again, field by field, for inbox events, jobs, outbox events, attempts and scheduled actions; only
  an action without a job cannot be written.
\<close>

lemma rows_round_trip:
  "row_inbox (inbox_model ib) = Some ib \<and> row_job (job_model j) = Some j \<and>
   row_outbox (outbox_model e) = Some e \<and> row_attempt (attempt_model a) = Some a \<and>
   (case scheduled_model act of
      None \<Rightarrow> sa_job_id act = None
    | Some r \<Rightarrow> row_scheduled r = Some act)"
  by (cases "sa_job_id act") (simp_all add: row_conversions scheduled_model_def)

text \<open>
  Every row that meets the check constraints of its table is the row of exactly one object: the
  constraints admit no status or kind that the enumerations do not know, so that reading a stored
  row never raises \<open>ValueError\<close>.
\<close>

lemma checked_rows_are_objects:
  "(inbox_checks ri \<longrightarrow> (\<exists>!ib. inbox_model ib = ri \<and> row_inbox ri = Some ib)) \<and>
   (job_checks rj \<longrightarrow> (\<exists>!j. job_model j = rj \<and> row_job rj = Some j)) \<and>
   (outbox_checks ro \<longrightarrow> (\<exists>!e. outbox_model e = ro \<and> row_outbox ro = Some e)) \<and>
   (attempt_checks ra \<longrightarrow> (\<exists>!a. attempt_model a = ra \<and> row_attempt ra = Some a)) \<and>
   (action_checks rs \<longrightarrow> (\<exists>!act. scheduled_model act = Some rs \<and> row_scheduled rs = Some act))"
  by (intro conjI impI read_back checked_rows_parse row_conversions_back)

definition sample_attempt_row :: attempt_row where
  "sample_attempt_row = \<lparr>ar_id = 200, ar_tenant_id = 1, ar_job_id = 10, ar_attempt_number = 1,
     ar_status = lit ''timed_out'', ar_worker_id = lit ''w'', ar_started_at = 5,
     ar_completed_at = Some 9, ar_error_code = None, ar_error_summary = None\<rparr>"

lemma checked_rows_are_objects_instance:
  "\<exists>!a. attempt_model a = sample_attempt_row \<and> row_attempt sample_attempt_row = Some a"
proof -
  have "attempt_checks sample_attempt_row" by code_simp
  then show ?thesis
    by (rule checked_rows_are_objects[THEN conjunct2, THEN conjunct2, THEN conjunct2, THEN conjunct1,
          THEN mp])
qed

end
