(* ===== verification/Task_Sql.thy ===== *)
theory Task_Sql
  imports Task_Rows Task_Store Task_Lease
begin

text \<open>
  The task tables as a database sees them: the rows by primary key, the audit log, and what an
  \<open>INSERT\<close> or \<open>UPDATE\<close> statement checks. A value that does not fit its column is a \<open>DataError\<close>; a
  violated check, unique, primary or foreign key is an \<open>IntegrityError\<close>. The rows of the tables
  outside the task subsystem (tenants, agents, users, ...) are the parameter \<open>known\<close>: whether a
  table has a row of that identifier. Text encodings (NUL characters) and the size limits of
  \<open>jsonb\<close> are not modelled.
\<close>

record task_db =
  inbox_table :: "(uuid, inbox_row) dict"
  job_table :: "(uuid, job_row) dict"
  outbox_table :: "(uuid, outbox_row) dict"
  attempt_table :: "(uuid, attempt_row) dict"
  action_table :: "(uuid, action_row) dict"
  budget_table :: "(uuid, budget_row) dict"
  heartbeat_table :: "(ustr, heartbeat_row) dict"
  audit_table :: "audit_row list"

section \<open>Insertions\<close>

definition insert_inbox :: "known_rows \<Rightarrow> inbox_row \<Rightarrow> task_db \<Rightarrow> task_db sql" where
  "insert_inbox known r db =
     statement (inbox_fits r)
       (inbox_checks r \<and> dict_get (inbox_table db) (ir_id r) = None \<and>
        unique (\<lambda>x. (ir_tenant_id x, ir_event_key x)) r (inbox_table db) \<and>
        unique ir_job_id r (inbox_table db) \<and>
        fk known ''tenants'' (Some (ir_tenant_id r)) \<and> fk known ''agents'' (ir_agent_id r) \<and>
        fk known ''channel_instances'' (ir_channel_id r) \<and> fk known ''users'' (ir_user_id r) \<and>
        fk known ''conversations'' (ir_conversation_id r))
       (db\<lparr>inbox_table := dict_set (ir_id r) r (inbox_table db)\<rparr>)"

definition insert_job :: "known_rows \<Rightarrow> job_row \<Rightarrow> task_db \<Rightarrow> task_db sql" where
  "insert_job known r db =
     statement (job_fits r)
       (job_checks r \<and> dict_get (job_table db) (jr_id r) = None \<and>
        unique (\<lambda>x. (jr_tenant_id x, jr_deduplication_key x)) r (job_table db) \<and>
        unique_opt jr_source_inbox_id r (job_table db) \<and>
        fk known ''tenants'' (Some (jr_tenant_id r)) \<and> fk known ''agents'' (jr_agent_id r) \<and>
        fk known ''users'' (jr_created_by r) \<and> present (inbox_table db) (jr_source_inbox_id r) \<and>
        (jr_replayed_from_id r = Some (jr_id r) \<or> present (job_table db) (jr_replayed_from_id r)))
       (db\<lparr>job_table := dict_set (jr_id r) r (job_table db)\<rparr>)"

definition insert_outbox :: "known_rows \<Rightarrow> outbox_row \<Rightarrow> task_db \<Rightarrow> task_db sql" where
  "insert_outbox known r db =
     statement (outbox_fits r)
       (outbox_checks r \<and> dict_get (outbox_table db) (or_id r) = None \<and>
        fk known ''tenants'' (Some (or_tenant_id r)) \<and> present (job_table db) (Some (or_job_id r)))
       (db\<lparr>outbox_table := dict_set (or_id r) r (outbox_table db)\<rparr>)"

definition insert_attempt :: "known_rows \<Rightarrow> attempt_row \<Rightarrow> task_db \<Rightarrow> task_db sql" where
  "insert_attempt known r db =
     statement (attempt_fits r)
       (attempt_checks r \<and> dict_get (attempt_table db) (ar_id r) = None \<and>
        unique (\<lambda>x. (ar_job_id x, ar_attempt_number x)) r (attempt_table db) \<and>
        fk known ''tenants'' (Some (ar_tenant_id r)) \<and> present (job_table db) (Some (ar_job_id r)))
       (db\<lparr>attempt_table := dict_set (ar_id r) r (attempt_table db)\<rparr>)"

definition insert_action :: "known_rows \<Rightarrow> action_row \<Rightarrow> task_db \<Rightarrow> task_db sql" where
  "insert_action known r db =
     statement (action_fits r)
       (action_checks r \<and> dict_get (action_table db) (sr_id r) = None \<and>
        unique (\<lambda>x. (sr_tenant_id x, sr_idempotency_key x)) r (action_table db) \<and>
        unique sr_job_id r (action_table db) \<and>
        fk known ''tenants'' (Some (sr_tenant_id r)) \<and> fk known ''agents'' (Some (sr_agent_id r)) \<and>
        fk known ''users'' (Some (sr_user_id r)) \<and> fk known ''users'' (Some (sr_created_by r)) \<and>
        fk known ''conversations'' (sr_conversation_id r) \<and>
        present (job_table db) (Some (sr_job_id r)))
       (db\<lparr>action_table := dict_set (sr_id r) r (action_table db)\<rparr>)"

definition insert_budget :: "known_rows \<Rightarrow> budget_row \<Rightarrow> task_db \<Rightarrow> task_db sql" where
  "insert_budget known r db =
     statement (int4 (bu_cost r))
       (budget_checks r \<and> dict_get (budget_table db) (bu_id r) = None \<and>
        unique bu_scheduled_action_id r (budget_table db) \<and>
        fk known ''tenants'' (Some (bu_tenant_id r)) \<and> fk known ''agents'' (Some (bu_agent_id r)) \<and>
        fk known ''users'' (Some (bu_user_id r)) \<and>
        present (action_table db) (Some (bu_scheduled_action_id r)))
       (db\<lparr>budget_table := dict_set (bu_id r) r (budget_table db)\<rparr>)"

definition insert_heartbeat :: "heartbeat_row \<Rightarrow> task_db \<Rightarrow> task_db sql" where
  "insert_heartbeat r db =
     statement (wide 160 (wh_worker_id r))
       (dict_get (heartbeat_table db) (wh_worker_id r) = None \<and>
        present (job_table db) (wh_current_job_id r))
       (db\<lparr>heartbeat_table := dict_set (wh_worker_id r) r (heartbeat_table db)\<rparr>)"

text \<open>\<open>_audit\<close>: the log only grows; its texts are constants that fit their columns.\<close>

definition audit :: "uuid \<Rightarrow> uuid \<Rightarrow> string \<Rightarrow> string \<Rightarrow> uuid \<Rightarrow> json_dict \<Rightarrow> task_db \<Rightarrow> task_db" where
  "audit tenant_id actor_id action resource_type resource_id detail db =
     db\<lparr>audit_table := audit_table db @
       [\<lparr>au_tenant_id = tenant_id, au_actor_id = actor_id, au_action = lit action,
         au_resource_type = lit resource_type, au_resource_id = uuid_str resource_id,
         au_detail = detail\<rparr>]\<rparr>"

section \<open>Updates\<close>

text \<open>
  An update never changes a key: it is checked against the widths and the check constraints.
\<close>

definition update_job :: "job_row \<Rightarrow> task_db \<Rightarrow> task_db sql" where
  "update_job r db = statement (job_fits r) (job_checks r)
     (db\<lparr>job_table := dict_set (jr_id r) r (job_table db)\<rparr>)"

definition update_attempt :: "attempt_row \<Rightarrow> task_db \<Rightarrow> task_db sql" where
  "update_attempt r db = statement (attempt_fits r) (attempt_checks r)
     (db\<lparr>attempt_table := dict_set (ar_id r) r (attempt_table db)\<rparr>)"

definition update_outbox :: "outbox_row \<Rightarrow> task_db \<Rightarrow> task_db sql" where
  "update_outbox r db = statement (outbox_fits r) (outbox_checks r)
     (db\<lparr>outbox_table := dict_set (or_id r) r (outbox_table db)\<rparr>)"

definition update_action :: "action_row \<Rightarrow> task_db \<Rightarrow> task_db sql" where
  "update_action r db = statement (action_fits r) (action_checks r)
     (db\<lparr>action_table := dict_set (sr_id r) r (action_table db)\<rparr>)"

definition update_heartbeat :: "heartbeat_row \<Rightarrow> task_db \<Rightarrow> task_db sql" where
  "update_heartbeat r db = statement (wide 160 (wh_worker_id r))
     (present (job_table db) (wh_current_job_id r))
     (db\<lparr>heartbeat_table := dict_set (wh_worker_id r) r (heartbeat_table db)\<rparr>)"

text \<open>
  \<open>_cancel_outbox_rows\<close> and \<open>_set_inbox_row\<close>: \<open>UPDATE ... WHERE\<close> statements. The values they
  write are constants, nulls, times, and an error code that the same transaction wrote to the
  job row of the same width before.
\<close>

definition cancel_outbox_row :: "instant \<Rightarrow> outbox_row \<Rightarrow> outbox_row" where
  "cancel_outbox_row now r = r\<lparr>or_status := lit ''canceled'', or_lease_owner := None,
     or_lease_expires_at := None, or_updated_at := now\<rparr>"

definition cancel_outbox_rows :: "uuid \<Rightarrow> instant \<Rightarrow> task_db \<Rightarrow> task_db" where
  "cancel_outbox_rows job_id now db = db\<lparr>outbox_table :=
     dict_walk (\<lambda>r. or_job_id r = job_id \<and> one_of (or_status r) [''pending'', ''retrying''])
       (cancel_outbox_row now) (outbox_table db)\<rparr>"

definition follow_inbox_row :: "inbox_status \<Rightarrow> instant \<Rightarrow> ustr option \<Rightarrow> inbox_row \<Rightarrow> inbox_row" where
  "follow_inbox_row st now error_code r = r\<lparr>ir_status := inbox_status_value st,
     ir_processed_at := (if inbox_processed st then Some now else None),
     ir_last_error_code := error_code\<rparr>"

definition set_inbox_row ::
    "job_row \<Rightarrow> inbox_status \<Rightarrow> instant \<Rightarrow> ustr option \<Rightarrow> task_db \<Rightarrow> task_db" where
  "set_inbox_row job st now error_code db =
     (case jr_source_inbox_id job of
        None \<Rightarrow> db
      | Some inbox_id \<Rightarrow> db\<lparr>inbox_table :=
          dict_walk (\<lambda>r. ir_id r = inbox_id) (follow_inbox_row st now error_code) (inbox_table db)\<rparr>)"

section \<open>Transactions and queries\<close>

text \<open>
  \<open>session_factory.begin()\<close>: an error rolls the transaction back, so an \<open>Inl\<close> leaves the database
  as it was; at the commit the deferred key from an inbox event to its job is checked.
\<close>

definition deferred_ok :: "task_db \<Rightarrow> bool" where
  "deferred_ok db \<longleftrightarrow>
     (\<forall>r \<in> set (dict_values (inbox_table db)). dict_get (job_table db) (ir_job_id r) \<noteq> None)"

definition commit :: "('a \<times> task_db) sql \<Rightarrow> ('a \<times> task_db) sql" where
  "commit r = bind_result r (\<lambda>(a, db). statement True (deferred_ok db) (a, db))"

section \<open>The repository\<close>

text \<open>
  \<open>SqlAlchemyTaskRepository\<close> (\<open>packages/infrastructure/.../task_repository.py\<close>): every method as one
  transaction over \<open>task_db\<close>. \<open>locked\<close> are the rows other transactions hold, which \<open>FOR UPDATE
  SKIP LOCKED\<close> leaves out; \<open>scan\<close> is the order in which the database visits the rows of a table
  when the query leaves it open; \<open>isoformat\<close> renders a \<open>datetime\<close> for the audit log. Locks that wait and
  the advisory lock of the budget only order the transactions.
\<close>

section \<open>Queries\<close>

definition sql_get_job :: "uuid \<Rightarrow> uuid \<Rightarrow> task_db \<Rightarrow> background_job option sql" where
  "sql_get_job tenant_id job_id db = converted_opt row_job
     (scalar (\<lambda>r. jr_id r = job_id \<and> jr_tenant_id r = tenant_id) (job_table db))"

definition sql_get_inbox_event :: "uuid \<Rightarrow> uuid \<Rightarrow> task_db \<Rightarrow> inbox_event option sql" where
  "sql_get_inbox_event tenant_id inbox_id db = converted_opt row_inbox
     (scalar (\<lambda>r. ir_tenant_id r = tenant_id \<and> ir_id r = inbox_id) (inbox_table db))"

definition sql_list_inbox_events ::
    "(inbox_row list \<Rightarrow> inbox_row list) \<Rightarrow> uuid \<Rightarrow> uuid \<Rightarrow> inbox_status option \<Rightarrow> uuid option \<Rightarrow> nat \<Rightarrow>
       task_db \<Rightarrow> inbox_event list sql" where
  "sql_list_inbox_events scan tenant_id agent_id st channel_id limit db = converted_all row_inbox
     (take limit (sorted_by_desc (\<lambda>r. (ir_received_at r, ir_id r))
       (filter (\<lambda>r. ir_tenant_id r = tenant_id \<and> ir_agent_id r = Some agent_id \<and>
           (st = None \<or> Some (ir_status r) = map_option inbox_status_value st) \<and>
           (channel_id = None \<or> ir_channel_id r = channel_id)) (scan (dict_values (inbox_table db))))))"

definition sql_list_jobs ::
    "(job_row list \<Rightarrow> job_row list) \<Rightarrow> uuid \<Rightarrow> job_status option \<Rightarrow> job_kind option \<Rightarrow> nat \<Rightarrow>
       task_db \<Rightarrow> background_job list sql" where
  "sql_list_jobs scan tenant_id st kind limit db = converted_all row_job
     (take limit (sorted_by_desc jr_created_at
       (filter (\<lambda>r. jr_tenant_id r = tenant_id \<and>
           (st = None \<or> Some (jr_status r) = map_option job_status_value st) \<and>
           (kind = None \<or> Some (jr_kind r) = map_option job_kind_value kind))
         (scan (dict_values (job_table db))))))"

definition sql_list_notification_jobs ::
    "(job_row list \<Rightarrow> job_row list) \<Rightarrow> uuid \<Rightarrow> uuid \<Rightarrow> nat \<Rightarrow> task_db \<Rightarrow> background_job list sql" where
  "sql_list_notification_jobs scan tenant_id agent_id limit db = converted_all row_job
     (take limit (sorted_by_desc (\<lambda>r. (jr_created_at r, jr_id r))
       (filter (\<lambda>r. jr_tenant_id r = tenant_id \<and> jr_kind r = job_kind_value NOTIFICATION_DELIVERY \<and>
           jr_agent_id r = Some agent_id) (scan (dict_values (job_table db))))))"

definition sql_list_attempts ::
    "(attempt_row list \<Rightarrow> attempt_row list) \<Rightarrow> uuid \<Rightarrow> uuid \<Rightarrow> task_db \<Rightarrow> job_attempt list sql" where
  "sql_list_attempts scan tenant_id job_id db = converted_all row_attempt
     (sorted_by ar_attempt_number
       (filter (\<lambda>r. ar_tenant_id r = tenant_id \<and> ar_job_id r = job_id)
         (scan (dict_values (attempt_table db)))))"

definition sql_get_counts :: "uuid \<Rightarrow> task_db \<Rightarrow> task_counts" where
  "sql_get_counts tenant_id db =
     (let count = (\<lambda>st. count_if (\<lambda>r. jr_tenant_id r = tenant_id \<and> jr_status r = job_status_value st)
            (dict_values (job_table db)))
      in \<lparr>tc_pending = count JOB_PENDING, tc_running = count JOB_RUNNING,
          tc_retrying = count JOB_RETRYING, tc_dead_letters = count JOB_DEAD_LETTER,
          tc_scheduled = count_if (\<lambda>r. sr_tenant_id r = tenant_id \<and>
            sr_status r = action_status_value ACTION_PENDING) (dict_values (action_table db))\<rparr>)"

definition sql_get_scheduled_action :: "uuid \<Rightarrow> uuid \<Rightarrow> task_db \<Rightarrow> scheduled_action option sql" where
  "sql_get_scheduled_action tenant_id action_id db = converted_opt row_scheduled
     (scalar (\<lambda>r. sr_id r = action_id \<and> sr_tenant_id r = tenant_id) (action_table db))"

definition sql_list_scheduled_actions ::
    "(action_row list \<Rightarrow> action_row list) \<Rightarrow> uuid \<Rightarrow> uuid \<Rightarrow> action_status option \<Rightarrow> nat \<Rightarrow>
       task_db \<Rightarrow> scheduled_action list sql" where
  "sql_list_scheduled_actions scan tenant_id agent_id st limit db = converted_all row_scheduled
     (take limit (sorted_by_desc sr_scheduled_for
       (filter (\<lambda>r. sr_tenant_id r = tenant_id \<and> sr_agent_id r = agent_id \<and>
           (st = None \<or> Some (sr_status r) = map_option action_status_value st))
         (scan (dict_values (action_table db))))))"

definition usage_rows :: "uuid \<Rightarrow> uuid \<Rightarrow> uuid \<Rightarrow> date \<Rightarrow> task_db \<Rightarrow> budget_row list" where
  "usage_rows tenant_id agent_id user_id budget_date db =
     filter (\<lambda>r. bu_tenant_id r = tenant_id \<and> bu_agent_id r = agent_id \<and> bu_user_id r = user_id \<and>
         bu_budget_date r = budget_date) (dict_values (budget_table db))"

definition sql_social_budget_used :: "uuid \<Rightarrow> uuid \<Rightarrow> uuid \<Rightarrow> date \<Rightarrow> task_db \<Rightarrow> int" where
  "sql_social_budget_used tenant_id agent_id user_id budget_date db =
     sum_list (map bu_cost (usage_rows tenant_id agent_id user_id budget_date db))"

definition sql_list_worker_heartbeats ::
    "(heartbeat_row list \<Rightarrow> heartbeat_row list) \<Rightarrow> instant \<Rightarrow> task_db \<Rightarrow> worker_heartbeat list" where
  "sql_list_worker_heartbeats scan since db = map row_heartbeat
     (sorted_by_desc wh_last_seen_at
       (filter (\<lambda>r. since \<le> wh_last_seen_at r) (scan (dict_values (heartbeat_table db)))))"

section \<open>Enqueueing, replay and cancellation\<close>

definition sql_enqueue ::
    "known_rows \<Rightarrow> background_job \<Rightarrow> outbox_event \<Rightarrow> inbox_event option \<Rightarrow> task_db \<Rightarrow>
       ((background_job \<times> bool) \<times> task_db) sql" where
  "sql_enqueue known job outbox inbox db =
     (let insert_all =
        bind_result (case inbox of None \<Rightarrow> Inr db | Some ib \<Rightarrow> insert_inbox known (inbox_model ib) db) (\<lambda>db1.
        bind_result (insert_job known (job_model job) db1) (\<lambda>db2.
        bind_result (insert_outbox known (outbox_model outbox) db2) (\<lambda>db3. Inr ((), db3))))
      in case commit insert_all of
           Inr (u, db') \<Rightarrow> Inr ((job, True), db')
         | Inl IntegrityError \<Rightarrow>
             (let same_job = scalar (\<lambda>r. jr_tenant_id r = bj_tenant_id job \<and>
                    jr_deduplication_key r = bj_deduplication_key job) (job_table db);
                  existing = (case (same_job, inbox) of
                      (None, Some ib) \<Rightarrow> Option.bind
                        (scalar (\<lambda>r. ir_tenant_id r = ie_tenant_id ib \<and> ir_event_key r = ie_event_key ib)
                          (inbox_table db)) (\<lambda>dup. dict_get (job_table db) (ir_job_id dup))
                    | _ \<Rightarrow> same_job)
              in case existing of
                   None \<Rightarrow> Inl IntegrityError
                 | Some r \<Rightarrow> bind_result (converted row_job r) (\<lambda>j. Inr ((j, False), db)))
         | Inl e \<Rightarrow> Inl e)"

definition cancel_requested_row :: "instant \<Rightarrow> job_row \<Rightarrow> job_row" where
  "cancel_requested_row now r =
     (let r1 = r\<lparr>jr_cancel_requested_at := Some now, jr_updated_at := now\<rparr>
      in if jr_status r \<noteq> job_status_value JOB_RUNNING
         then r1\<lparr>jr_status := job_status_value JOB_CANCELED, jr_completed_at := Some now\<rparr> else r1)"

definition sql_request_cancel ::
    "uuid \<Rightarrow> uuid \<Rightarrow> uuid \<Rightarrow> instant \<Rightarrow> task_db \<Rightarrow> (background_job option \<times> task_db) sql" where
  "sql_request_cancel tenant_id job_id actor_id now db =
     (case scalar (\<lambda>r. jr_id r = job_id \<and> jr_tenant_id r = tenant_id) (job_table db) of
        None \<Rightarrow> Inr (None, db)
      | Some row \<Rightarrow> bind_result (converted (\<lambda>r. parse_job_status (jr_status r)) row) (\<lambda>st.
          if job_terminal st then bind_result (converted row_job row) (\<lambda>j. Inr (Some j, db))
          else
            (let row' = cancel_requested_row now row in
             bind_result (update_job row' db) (\<lambda>db1.
             let db2 = (if jr_status row \<noteq> job_status_value JOB_RUNNING
                   then set_inbox_row row' INBOX_CANCELED now None (cancel_outbox_rows job_id now db1)
                   else db1);
                 db3 = audit tenant_id actor_id ''background_job.cancel_requested'' ''background_job''
                   job_id [(lit ''status'', JStr (jr_status row'))] db2
             in bind_result (converted row_job row') (\<lambda>j. commit (Inr (Some j, db3)))))))"

definition sql_replay ::
    "known_rows \<Rightarrow> uuid \<Rightarrow> uuid \<Rightarrow> background_job \<Rightarrow> outbox_event \<Rightarrow> uuid \<Rightarrow> ustr \<Rightarrow> task_db \<Rightarrow>
       (background_job option \<times> task_db) sql" where
  "sql_replay known tenant_id source_job_id job outbox actor_id reason db =
     (case scalar (\<lambda>r. jr_id r = source_job_id \<and> jr_tenant_id r = tenant_id) (job_table db) of
        None \<Rightarrow> Inr (None, db)
      | Some source \<Rightarrow>
          bind_result (insert_job known (job_model job) db) (\<lambda>db1.
          bind_result (insert_outbox known (outbox_model outbox) db1) (\<lambda>db2.
          commit (Inr (Some job, audit tenant_id actor_id ''background_job.replayed'' ''background_job''
            (bj_id job) [(lit ''source_job_id'', JStr (uuid_str source_job_id)), (lit ''reason'', JStr reason)]
            db2)))))"

section \<open>Claiming, renewing, completing and failing\<close>

definition row_claimable :: "instant \<Rightarrow> job_row \<Rightarrow> bool" where
  "row_claimable now r \<longleftrightarrow> one_of (jr_status r) [''pending'', ''retrying''] \<and> jr_available_at r \<le> now \<and>
     jr_attempt_count r < jr_max_attempts r"

definition canceled_row :: "instant \<Rightarrow> job_row \<Rightarrow> job_row" where
  "canceled_row now r = r\<lparr>jr_status := job_status_value JOB_CANCELED, jr_completed_at := Some now,
     jr_updated_at := now\<rparr>"

definition started_row :: "ustr \<Rightarrow> instant \<Rightarrow> job_row \<Rightarrow> job_row" where
  "started_row worker_id now r = r\<lparr>jr_status := job_status_value JOB_RUNNING,
     jr_attempt_count := jr_attempt_count r + 1, jr_lease_owner := Some worker_id,
     jr_lease_expires_at := Some (now + seconds (jr_lease_seconds r)),
     jr_started_at := (case jr_started_at r of None \<Rightarrow> Some now | Some t \<Rightarrow> Some t),
     jr_updated_at := now\<rparr>"

definition attempt_for_row :: "uuid \<Rightarrow> ustr \<Rightarrow> instant \<Rightarrow> job_row \<Rightarrow> job_attempt" where
  "attempt_for_row attempt_id worker_id now r =
     \<lparr>ja_id = attempt_id, ja_tenant_id = jr_tenant_id r, ja_job_id = jr_id r,
      ja_attempt_number = jr_attempt_count r, ja_status = ATTEMPT_RUNNING, ja_worker_id = worker_id,
      ja_started_at = now, ja_completed_at = None, ja_error_code = None, ja_error_summary = None\<rparr>"

definition sql_claim_job ::
    "known_rows \<Rightarrow> (uuid \<Rightarrow> bool) \<Rightarrow> uuid \<Rightarrow> ustr \<Rightarrow> instant \<Rightarrow> uuid \<Rightarrow> task_db \<Rightarrow>
       (job_claim option \<times> task_db) sql" where
  "sql_claim_job known locked job_id worker_id now attempt_id db =
     (case scalar (\<lambda>r. jr_id r = job_id \<and> \<not> locked (jr_id r)) (job_table db) of
        None \<Rightarrow> Inr (None, db)
      | Some row \<Rightarrow>
          if \<not> row_claimable now row then Inr (None, db)
          else if jr_cancel_requested_at row \<noteq> None then
            bind_result (update_job (canceled_row now row) db) (\<lambda>db1.
            commit (Inr (None, set_inbox_row (canceled_row now row) INBOX_CANCELED now None db1)))
          else
            (let row' = started_row worker_id now row;
                 attempt = attempt_for_row attempt_id worker_id now row'
             in bind_result (update_job row' db) (\<lambda>db1.
                bind_result (insert_attempt known (attempt_model attempt) db1) (\<lambda>db2.
                bind_result (converted row_job row') (\<lambda>j.
                commit (Inr (Some \<lparr>jc_job = j, jc_attempt = attempt\<rparr>,
                  set_inbox_row row' INBOX_PROCESSING now None db2)))))))"

definition renewed_row :: "instant \<Rightarrow> job_row \<Rightarrow> job_row" where
  "renewed_row now r = r\<lparr>jr_lease_expires_at := Some (now + seconds (jr_lease_seconds r)),
     jr_updated_at := now\<rparr>"

definition sql_renew_job_lease ::
    "uuid \<Rightarrow> uuid \<Rightarrow> ustr \<Rightarrow> instant \<Rightarrow> task_db \<Rightarrow> (bool \<times> task_db) sql" where
  "sql_renew_job_lease job_id attempt_id worker_id now db =
     (case (scalar (\<lambda>r. jr_id r = job_id) (job_table db), dict_get (attempt_table db) attempt_id) of
        (Some row, Some attempt) \<Rightarrow>
          if jr_status row \<noteq> job_status_value JOB_RUNNING \<or> jr_lease_owner row \<noteq> Some worker_id \<or>
             ar_status attempt \<noteq> attempt_status_value ATTEMPT_RUNNING \<or> ar_worker_id attempt \<noteq> worker_id
          then Inr (False, db)
          else bind_result (update_job (renewed_row now row) db) (\<lambda>db1. commit (Inr (True, db1)))
      | _ \<Rightarrow> Inr (False, db))"

definition locked_execution ::
    "uuid \<Rightarrow> uuid \<Rightarrow> ustr \<Rightarrow> task_db \<Rightarrow> job_row option \<times> attempt_row option" where
  "locked_execution job_id attempt_id worker_id db =
     (scalar (\<lambda>r. jr_id r = job_id \<and> jr_status r = job_status_value JOB_RUNNING \<and>
        jr_lease_owner r = Some worker_id) (job_table db),
      scalar (\<lambda>a. ar_id a = attempt_id \<and> ar_job_id a = job_id \<and>
        ar_status a = attempt_status_value ATTEMPT_RUNNING) (attempt_table db))"

definition completed_row :: "instant \<Rightarrow> json_dict \<Rightarrow> job_row \<Rightarrow> job_row" where
  "completed_row now result_summary r =
     (let canceled = (jr_cancel_requested_at r \<noteq> None)
      in r\<lparr>jr_status := job_status_value (if canceled then JOB_CANCELED else JOB_SUCCEEDED),
           jr_result_summary := (if canceled then [] else result_summary),
           jr_lease_owner := None, jr_lease_expires_at := None,
           jr_completed_at := Some now, jr_updated_at := now\<rparr>)"

definition completed_attempt_row :: "bool \<Rightarrow> instant \<Rightarrow> attempt_row \<Rightarrow> attempt_row" where
  "completed_attempt_row canceled now a = a\<lparr>ar_status := attempt_status_value
     (if canceled then ATTEMPT_CANCELED else ATTEMPT_SUCCEEDED), ar_completed_at := Some now\<rparr>"

definition sql_complete_job ::
    "uuid \<Rightarrow> uuid \<Rightarrow> ustr \<Rightarrow> json_dict \<Rightarrow> instant \<Rightarrow> task_db \<Rightarrow> (background_job option \<times> task_db) sql" where
  "sql_complete_job job_id attempt_id worker_id result_summary now db =
     (case locked_execution job_id attempt_id worker_id db of
        (Some row, Some attempt) \<Rightarrow>
          (let canceled = (jr_cancel_requested_at row \<noteq> None);
               row' = completed_row now result_summary row
           in bind_result (update_job row' db) (\<lambda>db1.
              bind_result (update_attempt (completed_attempt_row canceled now attempt) db1) (\<lambda>db2.
              bind_result (converted row_job row') (\<lambda>j.
              commit (Inr (Some j, set_inbox_row row'
                (if canceled then INBOX_CANCELED else INBOX_COMPLETED) now None db2))))))
      | _ \<Rightarrow> Inr (None, db))"

definition row_failure_status :: "bool \<Rightarrow> job_row \<Rightarrow> job_status" where
  "row_failure_status permanent r =
     (if jr_cancel_requested_at r \<noteq> None then JOB_CANCELED
      else if permanent then JOB_FAILED
      else if jr_attempt_count r \<ge> jr_max_attempts r then JOB_DEAD_LETTER
      else JOB_RETRYING)"

definition failed_row ::
    "ustr \<Rightarrow> ustr \<Rightarrow> job_status \<Rightarrow> instant \<Rightarrow> instant \<Rightarrow> job_row \<Rightarrow> job_row" where
  "failed_row error_code error_summary st retry_at now r = r\<lparr>jr_status := job_status_value st,
     jr_available_at := (if st = JOB_RETRYING then retry_at else jr_available_at r),
     jr_lease_owner := None, jr_lease_expires_at := None, jr_last_error_code := Some error_code,
     jr_last_error_summary := Some error_summary,
     jr_completed_at := (if job_terminal st then Some now else None), jr_updated_at := now\<rparr>"

definition failed_attempt_row ::
    "ustr \<Rightarrow> ustr \<Rightarrow> job_status \<Rightarrow> bool \<Rightarrow> instant \<Rightarrow> attempt_row \<Rightarrow> attempt_row" where
  "failed_attempt_row error_code error_summary st timed_out now a = a\<lparr>ar_status := attempt_status_value
       (if st = JOB_CANCELED then ATTEMPT_CANCELED else if timed_out then ATTEMPT_TIMED_OUT else ATTEMPT_FAILED),
     ar_completed_at := Some now, ar_error_code := Some error_code, ar_error_summary := Some error_summary\<rparr>"

definition sql_fail_job ::
    "known_rows \<Rightarrow> uuid \<Rightarrow> uuid \<Rightarrow> ustr \<Rightarrow> ustr \<Rightarrow> ustr \<Rightarrow> bool \<Rightarrow> bool \<Rightarrow> instant \<Rightarrow> outbox_event \<Rightarrow>
       instant \<Rightarrow> task_db \<Rightarrow> (background_job option \<times> task_db) sql" where
  "sql_fail_job known job_id attempt_id worker_id error_code error_summary permanent timed_out retry_at
       retry_event now db =
     (case locked_execution job_id attempt_id worker_id db of
        (Some row, Some attempt) \<Rightarrow>
          (let st = row_failure_status permanent row;
               row' = failed_row error_code error_summary st retry_at now row
           in bind_result (update_job row' db) (\<lambda>db1.
              bind_result (update_attempt
                (failed_attempt_row error_code error_summary st timed_out now attempt) db1) (\<lambda>db2.
              bind_result
                (if st = JOB_RETRYING then
                   bind_result (insert_outbox known (outbox_model retry_event) db2) (\<lambda>db3.
                   Inr (set_inbox_row row' INBOX_PENDING now None db3))
                 else if st = JOB_FAILED \<or> st = JOB_DEAD_LETTER then
                   Inr (set_inbox_row row' INBOX_DEAD_LETTER now (Some error_code) db2)
                 else Inr (set_inbox_row row' INBOX_CANCELED now None db2)) (\<lambda>db3.
              bind_result (converted row_job row') (\<lambda>j. commit (Inr (Some j, db3)))))))
      | _ \<Rightarrow> Inr (None, db))"

text \<open>
  \<open>SqlAlchemyTaskRepository\<close>, continued: publishing outbox events, recovering expired leases,
  scheduled actions with the social budget, and worker heartbeats.
\<close>

text \<open>The loop over fetched rows, one \<open>UPDATE\<close> per row at the flush.\<close>

fun update_all :: "('r \<Rightarrow> task_db \<Rightarrow> task_db sql) \<Rightarrow> 'r list \<Rightarrow> task_db \<Rightarrow> task_db sql" where
  "update_all upd [] db = Inr db"
| "update_all upd (r # rs) db = bind_result (upd r db) (update_all upd rs)"

section \<open>The outbox\<close>

definition outbox_row_due :: "instant \<Rightarrow> outbox_row \<Rightarrow> bool" where
  "outbox_row_due now r \<longleftrightarrow> one_of (or_status r) [''pending'', ''retrying''] \<and> or_available_at r \<le> now \<and>
     or_attempt_count r < or_max_attempts r"

definition publishing_row :: "ustr \<Rightarrow> instant \<Rightarrow> instant \<Rightarrow> outbox_row \<Rightarrow> outbox_row" where
  "publishing_row worker_id now lease_expires_at r = r\<lparr>or_status := outbox_status_value OUTBOX_PUBLISHING,
     or_attempt_count := or_attempt_count r + 1, or_lease_owner := Some worker_id,
     or_lease_expires_at := Some lease_expires_at, or_updated_at := now\<rparr>"

definition sql_claim_outbox ::
    "(outbox_row list \<Rightarrow> outbox_row list) \<Rightarrow> (uuid \<Rightarrow> bool) \<Rightarrow> ustr \<Rightarrow> instant \<Rightarrow> instant \<Rightarrow> nat \<Rightarrow> task_db \<Rightarrow>
       (outbox_event list \<times> task_db) sql" where
  "sql_claim_outbox scan locked worker_id now lease_expires_at limit db =
     (let rows = take limit (sorted_by (\<lambda>r. (or_available_at r, or_created_at r))
            (filter (\<lambda>r. outbox_row_due now r \<and> \<not> locked (or_id r)) (scan (dict_values (outbox_table db)))));
          claimed = map (publishing_row worker_id now lease_expires_at) rows
      in bind_result (update_all update_outbox claimed db) (\<lambda>db1.
         bind_result (converted_all row_outbox claimed) (\<lambda>events. commit (Inr (events, db1)))))"

definition leased_event_row :: "uuid \<Rightarrow> ustr \<Rightarrow> outbox_row \<Rightarrow> bool" where
  "leased_event_row event_id worker_id r \<longleftrightarrow> or_id r = event_id \<and>
     or_status r = outbox_status_value OUTBOX_PUBLISHING \<and> or_lease_owner r = Some worker_id"

definition published_row :: "instant \<Rightarrow> outbox_row \<Rightarrow> outbox_row" where
  "published_row now r = r\<lparr>or_status := outbox_status_value OUTBOX_PUBLISHED, or_lease_owner := None,
     or_lease_expires_at := None, or_published_at := Some now, or_updated_at := now\<rparr>"

definition sql_mark_outbox_published :: "uuid \<Rightarrow> ustr \<Rightarrow> instant \<Rightarrow> task_db \<Rightarrow> task_db" where
  "sql_mark_outbox_published event_id worker_id now db = db\<lparr>outbox_table :=
     dict_walk (leased_event_row event_id worker_id) (published_row now) (outbox_table db)\<rparr>"

definition released_row :: "ustr \<Rightarrow> instant \<Rightarrow> instant \<Rightarrow> outbox_row \<Rightarrow> outbox_row" where
  "released_row error_code retry_at now r = r\<lparr>or_status := outbox_status_value
       (if or_attempt_count r \<ge> or_max_attempts r then OUTBOX_DEAD_LETTER else OUTBOX_RETRYING),
     or_available_at := retry_at, or_lease_owner := None, or_lease_expires_at := None,
     or_last_error_code := Some error_code, or_updated_at := now\<rparr>"

definition sql_mark_outbox_failed ::
    "uuid \<Rightarrow> ustr \<Rightarrow> ustr \<Rightarrow> instant \<Rightarrow> instant \<Rightarrow> task_db \<Rightarrow> task_db sql" where
  "sql_mark_outbox_failed event_id worker_id error_code retry_at now db =
     (case scalar (leased_event_row event_id worker_id) (outbox_table db) of
        None \<Rightarrow> Inr db
      | Some row \<Rightarrow> update_outbox (released_row error_code retry_at now row) db)"

section \<open>Recovery of expired leases\<close>

definition expired_job_row :: "instant \<Rightarrow> job_row \<Rightarrow> bool" where
  "expired_job_row now r \<longleftrightarrow> jr_status r = job_status_value JOB_RUNNING \<and>
     (case jr_lease_expires_at r of None \<Rightarrow> False | Some t \<Rightarrow> t \<le> now)"

definition recovery_status :: "job_row \<Rightarrow> job_status" where
  "recovery_status r = (if jr_attempt_count r \<ge> jr_max_attempts r then JOB_DEAD_LETTER else JOB_RETRYING)"

definition recovered_row :: "instant \<Rightarrow> job_row \<Rightarrow> job_row" where
  "recovered_row now r = r\<lparr>jr_status := job_status_value (recovery_status r), jr_available_at := now,
     jr_lease_owner := None, jr_lease_expires_at := None, jr_last_error_code := Some lease_expired,
     jr_last_error_summary := Some lease_recovered_summary,
     jr_completed_at := (if recovery_status r = JOB_DEAD_LETTER then Some now else None),
     jr_updated_at := now\<rparr>"

definition timed_out_row :: "instant \<Rightarrow> attempt_row \<Rightarrow> attempt_row" where
  "timed_out_row now a = a\<lparr>ar_status := attempt_status_value ATTEMPT_TIMED_OUT,
     ar_completed_at := Some now, ar_error_code := Some lease_expired,
     ar_error_summary := Some lease_expired_summary\<rparr>"

definition sql_recover_job ::
    "known_rows \<Rightarrow> instant \<Rightarrow> (uuid \<Rightarrow> uuid) \<Rightarrow> job_row \<Rightarrow> task_db \<Rightarrow> task_db sql" where
  "sql_recover_job known now fresh row db =
     (let row' = recovered_row now row in
      bind_result (update_job row' db) (\<lambda>db1.
      bind_result (update_all update_attempt (map (timed_out_row now)
          (filter (\<lambda>a. ar_job_id a = jr_id row' \<and> ar_status a = attempt_status_value ATTEMPT_RUNNING)
            (dict_values (attempt_table db1)))) db1) (\<lambda>db2.
      if recovery_status row = JOB_RETRYING then
        bind_result (converted row_job row') (\<lambda>j.
        bind_result (insert_outbox known (outbox_model (retry_outbox (fresh (jr_id row)) j now)) db2) (\<lambda>db3.
        Inr (set_inbox_row row' INBOX_PENDING now None db3)))
      else Inr (set_inbox_row row' INBOX_DEAD_LETTER now (Some lease_expired) db2))))"

definition expired_outbox_row :: "instant \<Rightarrow> outbox_row \<Rightarrow> bool" where
  "expired_outbox_row now r \<longleftrightarrow> or_status r = outbox_status_value OUTBOX_PUBLISHING \<and>
     (case or_lease_expires_at r of None \<Rightarrow> False | Some t \<Rightarrow> t \<le> now)"

definition sql_recover_expired_leases ::
    "known_rows \<Rightarrow> (uuid \<Rightarrow> bool) \<Rightarrow> instant \<Rightarrow> (uuid \<Rightarrow> uuid) \<Rightarrow> task_db \<Rightarrow> (int \<times> task_db) sql" where
  "sql_recover_expired_leases known locked now fresh db =
     (let expired = filter (\<lambda>r. expired_job_row now r \<and> \<not> locked (jr_id r)) (dict_values (job_table db)) in
      bind_result (update_all (sql_recover_job known now fresh) expired db) (\<lambda>db1.
      let events = filter (\<lambda>r. expired_outbox_row now r \<and> \<not> locked (or_id r)) (dict_values (outbox_table db1)) in
      bind_result (update_all update_outbox (map (released_row lease_expired now now) events) db1) (\<lambda>db2.
      commit (Inr (int (length expired) + int (length events), db2)))))"

section \<open>Scheduled actions\<close>

definition sql_create_scheduled_action ::
    "known_rows \<Rightarrow> (instant \<Rightarrow> ustr) \<Rightarrow> scheduled_action \<Rightarrow> background_job \<Rightarrow> outbox_event \<Rightarrow> task_db \<Rightarrow>
       ((scheduled_action \<times> bool) \<times> task_db) sql" where
  "sql_create_scheduled_action known isoformat action job outbox db =
     (case scheduled_model action of
        None \<Rightarrow> Inl RowValueError
      | Some action_row \<Rightarrow>
          (let insert_all =
             bind_result (insert_job known (job_model job) db) (\<lambda>db1.
             bind_result (insert_action known action_row db1) (\<lambda>db2.
             bind_result (insert_outbox known (outbox_model outbox) db2) (\<lambda>db3.
             Inr ((), audit (sa_tenant_id action) (sa_created_by action) ''scheduled_action.created''
               ''scheduled_action'' (sa_id action)
               [(lit ''kind'', JStr (action_kind_value (sa_kind action))),
                (lit ''scheduled_for'', JStr (isoformat (sa_scheduled_for action)))] db3))))
           in case commit insert_all of
                Inr (u, db') \<Rightarrow> Inr ((action, True), db')
              | Inl IntegrityError \<Rightarrow>
                  (case scalar (\<lambda>r. sr_tenant_id r = sa_tenant_id action \<and>
                          sr_idempotency_key r = sa_idempotency_key action) (action_table db) of
                     None \<Rightarrow> Inl IntegrityError
                   | Some r \<Rightarrow> bind_result (converted row_scheduled r) (\<lambda>a. Inr ((a, False), db)))
              | Inl e \<Rightarrow> Inl e))"

definition canceled_job_row :: "instant \<Rightarrow> job_row \<Rightarrow> job_row" where
  "canceled_job_row now r = r\<lparr>jr_status := job_status_value JOB_CANCELED,
     jr_cancel_requested_at := Some now, jr_completed_at := Some now, jr_updated_at := now\<rparr>"

definition canceled_action_row :: "instant \<Rightarrow> action_row \<Rightarrow> action_row" where
  "canceled_action_row now r = r\<lparr>sr_status := action_status_value ACTION_CANCELED,
     sr_updated_at := now, sr_completed_at := Some now\<rparr>"

text \<open>The job of a canceled action is canceled too, unless it is already terminal.\<close>

definition cancel_linked_job :: "instant \<Rightarrow> uuid \<Rightarrow> task_db \<Rightarrow> task_db sql" where
  "cancel_linked_job now job_id db =
     (case dict_get (job_table db) job_id of
        None \<Rightarrow> Inr db
      | Some job \<Rightarrow> bind_result (converted (\<lambda>r. parse_job_status (jr_status r)) job) (\<lambda>st.
          if job_terminal st then Inr db
          else bind_result (update_job (canceled_job_row now job) db) (\<lambda>db1.
            Inr (cancel_outbox_rows (jr_id job) now db1))))"

definition sql_cancel_scheduled_action ::
    "uuid \<Rightarrow> uuid \<Rightarrow> uuid \<Rightarrow> instant \<Rightarrow> task_db \<Rightarrow> (scheduled_action option \<times> task_db) sql" where
  "sql_cancel_scheduled_action tenant_id action_id actor_id now db =
     (case scalar (\<lambda>r. sr_id r = action_id \<and> sr_tenant_id r = tenant_id) (action_table db) of
        None \<Rightarrow> Inr (None, db)
      | Some row \<Rightarrow>
          if sr_status row \<noteq> action_status_value ACTION_PENDING
          then bind_result (converted row_scheduled row) (\<lambda>a. Inr (Some a, db))
          else
            (let row' = canceled_action_row now row in
             bind_result (update_action row' db) (\<lambda>db1.
             bind_result (cancel_linked_job now (sr_job_id row) db1) (\<lambda>db2.
             let db3 = audit tenant_id actor_id ''scheduled_action.canceled'' ''scheduled_action'' action_id
                   [] db2
             in bind_result (converted row_scheduled row') (\<lambda>a. commit (Inr (Some a, db3)))))))"

text \<open>The budget is checked again inside the transaction; the decision that counts and the usage.\<close>

definition sql_charge_budget ::
    "known_rows \<Rightarrow> proactive_decision \<Rightarrow> budget_usage option \<Rightarrow> int \<Rightarrow> task_db \<Rightarrow>
       (proactive_decision \<times> task_db) sql" where
  "sql_charge_budget known decision usage daily_budget db =
     (case usage of
        None \<Rightarrow> Inr (decision, db)
      | Some u \<Rightarrow>
          (let usages = usage_rows (bu_tenant_id u) (bu_agent_id u) (bu_user_id u) (bu_budget_date u) db in
           if sum_list (map bu_cost usages) + bu_cost u > daily_budget
           then Inr (budget_exhausted (pd_score decision), db)
           else if \<forall>x \<in> set usages. bu_scheduled_action_id x \<noteq> bu_scheduled_action_id u
           then bind_result (insert_budget known (budget_model u) db) (\<lambda>db1. Inr (decision, db1))
           else Inr (decision, db)))"

definition decided_row :: "proactive_decision \<Rightarrow> instant \<Rightarrow> action_row \<Rightarrow> action_row" where
  "decided_row effective now r = r\<lparr>sr_status := action_status_value (action_status_of effective),
     sr_score := Some (pd_score effective), sr_decision_reasons := pd_reasons effective,
     sr_updated_at := now, sr_completed_at := Some now\<rparr>"

definition sql_decide_scheduled_action ::
    "known_rows \<Rightarrow> uuid \<Rightarrow> uuid \<Rightarrow> proactive_decision \<Rightarrow> budget_usage option \<Rightarrow> int \<Rightarrow> instant \<Rightarrow> task_db \<Rightarrow>
       (scheduled_action option \<times> task_db) sql" where
  "sql_decide_scheduled_action known tenant_id action_id decision usage daily_budget now db =
     (case scalar (\<lambda>r. sr_id r = action_id \<and> sr_tenant_id r = tenant_id) (action_table db) of
        None \<Rightarrow> Inr (None, db)
      | Some row \<Rightarrow>
          if sr_status row \<noteq> action_status_value ACTION_PENDING
          then bind_result (converted row_scheduled row) (\<lambda>a. Inr (Some a, db))
          else
            bind_result (sql_charge_budget known decision usage daily_budget db) (\<lambda>(effective, db1).
            bind_result (update_action (decided_row effective now row) db1) (\<lambda>db2.
            bind_result (converted row_scheduled (decided_row effective now row)) (\<lambda>a.
            commit (Inr (Some a, db2))))))"

section \<open>Worker heartbeats\<close>

definition sql_upsert_worker_heartbeat ::
    "worker_heartbeat \<Rightarrow> task_db \<Rightarrow> (worker_heartbeat \<times> task_db) sql" where
  "sql_upsert_worker_heartbeat hb db =
     (case dict_get (heartbeat_table db) (wh_worker_id hb) of
        None \<Rightarrow> bind_result (insert_heartbeat (heartbeat_model hb) db) (\<lambda>db1. Inr (hb, db1))
      | Some row \<Rightarrow> bind_result (update_heartbeat (row\<lparr>wh_queues := wh_queues hb,
            wh_current_job_id := wh_current_job_id hb, wh_last_seen_at := wh_last_seen_at hb\<rparr>) db)
          (\<lambda>db1. Inr (hb\<lparr>wh_started_at := wh_started_at row\<rparr>, db1)))"

end
