(* ===== verification/Task_Tables.thy ===== *)
theory Task_Tables
  imports Task_Sql Task_Invariant
begin

text \<open>
  The tables that stand for a state of the in-memory repository, and how the statements of the SQL
  repository act on them: reading a row by its key, writing a row, and the two bulk updates are the
  dictionary operations of \<open>InMemoryTaskRepository\<close> on the rows.
\<close>

section \<open>Tables as images of dictionaries\<close>

definition map_dict :: "('a \<Rightarrow> 'b) \<Rightarrow> ('k, 'a) dict \<Rightarrow> ('k, 'b) dict" where
  "map_dict f d = map (\<lambda>(k, v). (k, f v)) d"

lemma map_dict_get [simp]: "dict_get (map_dict f d) k = map_option f (dict_get d k)"
  by (simp add: map_dict_def dict_get_def map_of_map)

lemma map_dict_values [simp]: "dict_values (map_dict f d) = map f (dict_values d)"
  by (simp add: map_dict_def dict_values_def case_prod_unfold)

lemma map_dict_set: "dict_set k (f v) (map_dict f d) = map_dict f (dict_set k v d)"
  by (induction d) (auto simp: map_dict_def dict_set_def)

lemma map_dict_ok [simp]: "dict_ok (map_dict f d) = dict_ok d"
  by (simp add: map_dict_def dict_ok_def case_prod_unfold comp_def)

lemma map_dict_walk:
  assumes "dict_ok d" and "\<And>v. p (f v) = q v" and "\<And>v. q v \<Longrightarrow> g (f v) = f (h v)"
  shows "dict_walk p g (map_dict f d) = map_dict f (dict_walk q h d)"
  using assms(1) by (simp add: dict_walk_eq) (auto simp: map_dict_def assms(2,3))

lemma find_map_model: "find p (map f xs) = map_option f (find (\<lambda>v. p (f v)) xs)"
  by (induction xs) auto

definition keyed :: "('v \<Rightarrow> 'k) \<Rightarrow> ('k, 'v) dict \<Rightarrow> bool" where
  "keyed key d \<longleftrightarrow> dict_ok d \<and> (\<forall>k v. dict_get d k = Some v \<longrightarrow> key v = k)"

lemma find_by_key:
  assumes "keyed key d"
  shows "find (\<lambda>v. key v = k \<and> p v) (dict_values d) =
    (case dict_get d k of None \<Rightarrow> None | Some v \<Rightarrow> if p v then Some v else None)"
proof (cases "find (\<lambda>v. key v = k \<and> p v) (dict_values d)")
  case None
  then have "\<not> (key v = k \<and> p v)" if "v \<in> set (dict_values d)" for v
    using that by (simp add: find_None_all)
  then show ?thesis
    using None assms by (auto simp: keyed_def split: option.split dest: dict_get_in_values)
next
  case (Some v)
  then have v: "v \<in> set (dict_values d)" "key v = k" "p v"
    using find_Some_iff_mem[OF Some] by simp_all
  have "dict_ok d" using assms by (simp add: keyed_def)
  then obtain l where "dict_get d l = Some v" using v(1) dict_values_iff by metis
  with v assms have "dict_get d k = Some v" by (auto simp: keyed_def)
  with Some v show ?thesis by simp
qed

lemma scalar_by_key:
  assumes "keyed key d" and "\<And>v. rowkey (f v) = key v"
  shows "scalar (\<lambda>r. rowkey r = k \<and> p r) (map_dict f d) =
    (case dict_get d k of None \<Rightarrow> None | Some v \<Rightarrow> if p (f v) then Some (f v) else None)"
  using find_by_key[OF assms(1), of k "\<lambda>v. p (f v)"]
  by (simp add: scalar_def find_map_model assms(2) split: option.split)

lemma walk_by_key:
  assumes "keyed key d"
  shows "dict_walk (\<lambda>v. key v = k) h d =
    (case dict_get d k of None \<Rightarrow> d | Some v \<Rightarrow> dict_set k (h v) d)"
proof -
  have ok: "dict_ok d" using assms by (simp add: keyed_def)
  have key: "key v = l" if "(l, v) \<in> set d" for l v
    using that assms pydict.items_get[OF ok] by (auto simp: keyed_def)
  have "map (\<lambda>(l, v). (l, if key v = k then h v else v)) d =
      (case dict_get d k of None \<Rightarrow> d | Some v \<Rightarrow> dict_set k (h v) d)"
    using ok key
  proof (induction d)
    case Nil
    then show ?case by (simp add: dict_get_def)
  next
    case (Cons x d)
    obtain l v where x: "x = (l, v)" by (cases x)
    have l: "key v = l" using Cons.prems(2)[of l v] by (simp add: x)
    have IH: "map (\<lambda>(l, v). (l, if key v = k then h v else v)) d =
        (case dict_get d k of None \<Rightarrow> d | Some v \<Rightarrow> dict_set k (h v) d)"
      using Cons.prems by (intro Cons.IH) (auto simp: dict_ok_def)
    show ?case
    proof (cases "l = k")
      case True
      then have "dict_get d k = None"
        using Cons.prems(1) by (simp add: x dict_ok_def dict_get_def map_of_eq_None_iff)
      then show ?thesis using True l IH by (simp add: x dict_get_def dict_set_def)
    next
      case False
      then show ?thesis using l IH by (simp add: x dict_get_def dict_set_def split: option.splits)
    qed
  qed
  then show ?thesis by (simp add: dict_walk_eq[OF ok])
qed

section \<open>The tables of a store\<close>

definition action_model :: "scheduled_action \<Rightarrow> action_row" where
  "action_model a = scheduled_row (the (sa_job_id a)) a"

definition db_of :: "task_store \<Rightarrow> audit_row list \<Rightarrow> task_db" where
  "db_of s trail = \<lparr>inbox_table = map_dict inbox_model (inbox_events s),
     job_table = map_dict job_model (jobs s), outbox_table = map_dict outbox_model (outbox_events s),
     attempt_table = map_dict attempt_model (attempts s),
     action_table = map_dict action_model (scheduled_actions s),
     budget_table = map_dict budget_model (budget_usages s),
     heartbeat_table = map_dict heartbeat_model (heartbeats s), audit_table = trail\<rparr>"

lemma db_of_tables [simp]:
  "inbox_table (db_of s trail) = map_dict inbox_model (inbox_events s)"
  "job_table (db_of s trail) = map_dict job_model (jobs s)"
  "outbox_table (db_of s trail) = map_dict outbox_model (outbox_events s)"
  "attempt_table (db_of s trail) = map_dict attempt_model (attempts s)"
  "action_table (db_of s trail) = map_dict action_model (scheduled_actions s)"
  "budget_table (db_of s trail) = map_dict budget_model (budget_usages s)"
  "heartbeat_table (db_of s trail) = map_dict heartbeat_model (heartbeats s)"
  "audit_table (db_of s trail) = trail"
  by (simp_all add: db_of_def)

lemma model_keys [simp]:
  "jr_id (job_model j) = bj_id j" "ir_id (inbox_model ib) = ie_id ib" "or_id (outbox_model e) = oe_id e"
  "ar_id (attempt_model a) = ja_id a" "sr_id (action_model act) = sa_id act"
  by (simp_all add: job_model_def inbox_model_def outbox_model_def attempt_model_def action_model_def
      scheduled_row_def)

lemma store_keyed:
  assumes "store_ok s"
  shows "keyed bj_id (jobs s)" "keyed ja_id (attempts s)" "keyed oe_id (outbox_events s)"
    "keyed ie_id (inbox_events s)" "keyed sa_id (scheduled_actions s)"
  using store_ok_dicts[OF assms] store_ok_ids[OF assms] by (auto simp: keyed_def)

lemmas jobs_scalar = scalar_by_key[where rowkey = jr_id and f = job_model, OF _ model_keys(1)]
lemmas inbox_scalar = scalar_by_key[where rowkey = ir_id and f = inbox_model, OF _ model_keys(2)]
lemmas outbox_scalar = scalar_by_key[where rowkey = or_id and f = outbox_model, OF _ model_keys(3)]
lemmas attempts_scalar = scalar_by_key[where rowkey = ar_id and f = attempt_model, OF _ model_keys(4)]
lemmas actions_scalar = scalar_by_key[where rowkey = sr_id and f = action_model, OF _ model_keys(5)]

section \<open>Statements on the tables of a store\<close>

lemma commit_Inr [result_laws]: "commit r = Inr y \<longleftrightarrow> r = Inr y \<and> deferred_ok (snd y)"
  by (cases r; cases y) (auto simp: commit_def statement_def split: if_splits)

lemma update_job_db:
  "update_job (job_model j) (db_of s trail) = Inr db \<Longrightarrow>
     db = db_of (s\<lparr>jobs := dict_set (bj_id j) j (jobs s)\<rparr>) trail"
  by (simp add: update_job_def statement_Inr db_of_def map_dict_set)

lemma update_attempt_db:
  "update_attempt (attempt_model a) (db_of s trail) = Inr db \<Longrightarrow>
     db = db_of (s\<lparr>attempts := dict_set (ja_id a) a (attempts s)\<rparr>) trail"
  by (simp add: update_attempt_def statement_Inr db_of_def map_dict_set)

lemma update_outbox_db:
  "update_outbox (outbox_model e) (db_of s trail) = Inr db \<Longrightarrow>
     db = db_of (s\<lparr>outbox_events := dict_set (oe_id e) e (outbox_events s)\<rparr>) trail"
  by (simp add: update_outbox_def statement_Inr db_of_def map_dict_set)

lemma update_action_db:
  "update_action (action_model a) (db_of s trail) = Inr db \<Longrightarrow>
     db = db_of (s\<lparr>scheduled_actions := dict_set (sa_id a) a (scheduled_actions s)\<rparr>) trail"
  by (simp add: update_action_def statement_Inr db_of_def map_dict_set)

lemma insert_job_db:
  "insert_job known (job_model j) (db_of s trail) = Inr db \<Longrightarrow>
     db = db_of (s\<lparr>jobs := dict_set (bj_id j) j (jobs s)\<rparr>) trail \<and> dict_get (jobs s) (bj_id j) = None"
  by (simp add: insert_job_def statement_Inr db_of_def map_dict_set)

lemma insert_inbox_db:
  "insert_inbox known (inbox_model ib) (db_of s trail) = Inr db \<Longrightarrow>
     db = db_of (s\<lparr>inbox_events := dict_set (ie_id ib) ib (inbox_events s)\<rparr>) trail \<and>
     dict_get (inbox_events s) (ie_id ib) = None"
  by (simp add: insert_inbox_def statement_Inr db_of_def map_dict_set)

lemma insert_outbox_db:
  "insert_outbox known (outbox_model e) (db_of s trail) = Inr db \<Longrightarrow>
     db = db_of (s\<lparr>outbox_events := dict_set (oe_id e) e (outbox_events s)\<rparr>) trail \<and>
     dict_get (outbox_events s) (oe_id e) = None"
  by (simp add: insert_outbox_def statement_Inr db_of_def map_dict_set)

lemma insert_attempt_db:
  "insert_attempt known (attempt_model a) (db_of s trail) = Inr db \<Longrightarrow>
     db = db_of (s\<lparr>attempts := dict_set (ja_id a) a (attempts s)\<rparr>) trail \<and>
     dict_get (attempts s) (ja_id a) = None"
  by (simp add: insert_attempt_def statement_Inr db_of_def map_dict_set)

lemma insert_action_db:
  "insert_action known (action_model a) (db_of s trail) = Inr db \<Longrightarrow>
     db = db_of (s\<lparr>scheduled_actions := dict_set (sa_id a) a (scheduled_actions s)\<rparr>) trail"
  by (simp add: insert_action_def statement_Inr db_of_def map_dict_set)

lemma set_inbox_db:
  assumes "keyed ie_id (inbox_events s)"
  shows "set_inbox_row (job_model j) st now code (db_of s trail) = db_of (set_inbox_status j st now code s) trail"
proof (cases "bj_source_inbox_id j")
  case None
  then show ?thesis by (simp add: set_inbox_row_def set_inbox_status_def job_model_def)
next
  case (Some i)
  have ok: "dict_ok (inbox_events s)" using assms by (simp add: keyed_def)
  let ?h = "\<lambda>ib. ib\<lparr>ie_status := st, ie_processed_at := (if inbox_processed st then Some now else None),
    ie_last_error_code := code\<rparr>"
  have "dict_walk (\<lambda>r. ir_id r = i) (follow_inbox_row st now code) (map_dict inbox_model (inbox_events s)) =
      map_dict inbox_model (dict_walk (\<lambda>ib. ie_id ib = i) ?h (inbox_events s))"
    by (rule map_dict_walk[OF ok]) (simp_all add: inbox_model_def follow_inbox_row_def)
  also have "dict_walk (\<lambda>ib. ie_id ib = i) ?h (inbox_events s) =
      (case dict_get (inbox_events s) i of None \<Rightarrow> inbox_events s
       | Some ib \<Rightarrow> dict_set (ie_id ib) (?h ib) (inbox_events s))"
    using assms by (simp add: walk_by_key[OF assms] keyed_def split: option.split)
  finally show ?thesis
    using Some by (simp add: set_inbox_row_def set_inbox_status_def job_model_def db_of_def split: option.split)
qed

lemma cancel_outbox_db:
  assumes "dict_ok (outbox_events s)"
  shows "cancel_outbox_rows k now (db_of s trail) = db_of (cancel_outbox k now s) trail"
proof -
  have "one_of (outbox_status_value st) [''pending'', ''retrying''] = outbox_claimable st" for st
    by (cases st) (simp_all add: one_of_def outbox_status_value.simps)
  then have "dict_walk (\<lambda>r. or_job_id r = k \<and> one_of (or_status r) [''pending'', ''retrying''])
      (cancel_outbox_row now) (map_dict outbox_model (outbox_events s)) =
      map_dict outbox_model (dict_walk (\<lambda>e. oe_job_id e = k \<and> outbox_claimable (oe_status e))
        (cancel_outbox_event now) (outbox_events s))"
    by (intro map_dict_walk[OF assms])
      (simp_all add: outbox_model_def cancel_outbox_row_def cancel_outbox_event_def outbox_status_value.simps)
  then show ?thesis by (simp add: cancel_outbox_rows_def cancel_outbox_def db_of_def)
qed

end
