(* ===== verification/Task_Refinement.thy ===== *)
theory Task_Refinement
  imports Task_Tables Task_Machine "HOL-Library.Multiset"
begin

text \<open>
  The SQL repository refines the in-memory one: run on the tables of a consistent store, an
  operation that commits returns what the in-memory operation returns and leaves the tables of its
  new store; an operation that raises leaves the tables as they are.
\<close>

section \<open>Row updates are the updates of the objects\<close>

lemma job_model_fields [simp]:
  "jr_status (job_model j) = job_status_value (bj_status j)" "jr_tenant_id (job_model j) = bj_tenant_id j"
  "jr_cancel_requested_at (job_model j) = bj_cancel_requested_at j"
  "jr_lease_owner (job_model j) = bj_lease_owner j" "jr_lease_expires_at (job_model j) = bj_lease_expires_at j"
  "jr_attempt_count (job_model j) = bj_attempt_count j" "jr_max_attempts (job_model j) = bj_max_attempts j"
  "jr_available_at (job_model j) = bj_available_at j" "jr_kind (job_model j) = job_kind_value (bj_kind j)"
  "jr_agent_id (job_model j) = bj_agent_id j" "jr_created_at (job_model j) = bj_created_at j"
  "jr_deduplication_key (job_model j) = bj_deduplication_key j"
  "jr_source_inbox_id (job_model j) = bj_source_inbox_id j"
  by (simp_all add: job_model_def)

lemma attempt_model_fields [simp]:
  "ar_status (attempt_model a) = attempt_status_value (ja_status a)" "ar_job_id (attempt_model a) = ja_job_id a"
  "ar_worker_id (attempt_model a) = ja_worker_id a" "ar_tenant_id (attempt_model a) = ja_tenant_id a"
  "ar_attempt_number (attempt_model a) = ja_attempt_number a"
  by (simp_all add: attempt_model_def)

lemma outbox_model_fields [simp]:
  "or_status (outbox_model e) = outbox_status_value (oe_status e)" "or_job_id (outbox_model e) = oe_job_id e"
  "or_lease_owner (outbox_model e) = oe_lease_owner e" "or_lease_expires_at (outbox_model e) = oe_lease_expires_at e"
  "or_attempt_count (outbox_model e) = oe_attempt_count e" "or_max_attempts (outbox_model e) = oe_max_attempts e"
  "or_available_at (outbox_model e) = oe_available_at e" "or_created_at (outbox_model e) = oe_created_at e"
  by (simp_all add: outbox_model_def)

lemma action_model_fields [simp]:
  "sr_status (action_model a) = action_status_value (sa_status a)" "sr_tenant_id (action_model a) = sa_tenant_id a"
  "sr_job_id (action_model a) = the (sa_job_id a)" "sr_idempotency_key (action_model a) = sa_idempotency_key a"
  by (simp_all add: action_model_def scheduled_row_def)

lemma claimable_values [simp]:
  "one_of (job_status_value st) [''pending'', ''retrying''] = job_claimable st"
  "one_of (outbox_status_value os) [''pending'', ''retrying''] = outbox_claimable os"
  by (cases st; simp add: one_of_def job_status_value.simps)
    (cases os; simp add: one_of_def outbox_status_value.simps)

lemma converted_models [simp]:
  "converted row_job (job_model j) = Inr j" "converted row_inbox (inbox_model ib) = Inr ib"
  "converted row_outbox (outbox_model e) = Inr e" "converted row_attempt (attempt_model a) = Inr a"
  "sa_job_id act \<noteq> None \<Longrightarrow> converted row_scheduled (action_model act) = Inr act"
  "converted (\<lambda>r. parse_job_status (jr_status r)) (job_model j) = Inr (bj_status j)"
  by (auto simp: converted_def row_conversions action_model_def)

lemma job_row_updates:
  "canceled_row now (job_model j) = job_model (cancel_job now j)"
  "started_row w now (job_model j) = job_model (start_job w now j)"
  "attempt_for_row i w now (job_model (start_job w now j)) = new_attempt i w now j"
  "renewed_row now (job_model j) = job_model (j\<lparr>bj_lease_expires_at := Some (now + seconds (bj_lease_seconds j)),
     bj_updated_at := now\<rparr>)"
  "completed_row now res (job_model j) = job_model (completed_job now res j)"
  "row_failure_status perm (job_model j) = failure_status perm j"
  "failed_row code summary (failure_status perm j) retry_at now (job_model j) =
     job_model (failed_job code summary perm retry_at now j)"
  "recovered_row now (job_model j) = job_model (recovered_job now j)"
  "canceled_job_row now (job_model j) = job_model (j\<lparr>bj_status := JOB_CANCELED,
     bj_cancel_requested_at := Some now, bj_completed_at := Some now, bj_updated_at := now\<rparr>)"
  by (simp_all add: job_model_def canceled_row_def cancel_job_def started_row_def start_job_def
      attempt_for_row_def new_attempt_def renewed_row_def completed_row_def completed_job_def Let_def
      row_failure_status_def failure_status_def failed_row_def failed_job_def recovered_row_def
      recovered_job_def recovery_status_def canceled_job_row_def)

lemma attempt_row_updates:
  "completed_attempt_row (bj_cancel_requested_at j \<noteq> None) now (attempt_model a) =
     attempt_model (completed_attempt now j a)"
  "failed_attempt_row code summary st timed now (attempt_model a) =
     attempt_model (failed_attempt code summary st timed now a)"
  "timed_out_row now (attempt_model a) = attempt_model (timed_out_attempt now a)"
  by (simp_all add: attempt_model_def completed_attempt_row_def completed_attempt_def failed_attempt_row_def
      failed_attempt_def timed_out_row_def timed_out_attempt_def)

lemma outbox_row_updates:
  "publishing_row w now until (outbox_model e) = outbox_model (publish_event w now until e)"
  "published_row now (outbox_model e) = outbox_model (e\<lparr>oe_status := OUTBOX_PUBLISHED,
     oe_lease_owner := None, oe_lease_expires_at := None, oe_published_at := Some now, oe_updated_at := now\<rparr>)"
  "released_row code retry_at now (outbox_model e) = outbox_model (release_event code retry_at now e)"
  by (simp_all add: outbox_model_def publishing_row_def publish_event_def published_row_def
      released_row_def release_event_def)

lemma action_row_updates:
  "canceled_action_row now (action_model a) = action_model (a\<lparr>sa_status := ACTION_CANCELED,
     sa_updated_at := now, sa_completed_at := Some now\<rparr>)"
  "decided_row eff now (action_model a) = action_model (a\<lparr>sa_status := action_status_of eff,
     sa_score := Some (pd_score eff), sa_decision_reasons := pd_reasons eff, sa_updated_at := now,
     sa_completed_at := Some now\<rparr>)"
  by (simp_all add: action_model_def scheduled_row_def canceled_action_row_def decided_row_def)

section \<open>Execution under a lease\<close>

lemma row_claimable_model [simp]: "row_claimable now (job_model j) = job_due now j"
  by (simp add: row_claimable_def job_due_def)

lemma set_inbox_trail:
  "keyed ie_id (inbox_events s) \<Longrightarrow> set_inbox_row (job_model j) st now code (db_of s trail) =
     db_of (set_inbox_status j st now code s) trail"
  by (rule set_inbox_db)

lemma job_ids_kept [simp]:
  "bj_id (cancel_job now j) = bj_id j" "bj_id (start_job w now j) = bj_id j"
  "bj_id (completed_job now res j) = bj_id j" "bj_id (failed_job code summary perm retry_at now j) = bj_id j"
  "bj_id (recovered_job now j) = bj_id j" "ja_id (completed_attempt now j a) = ja_id a"
  "ja_id (failed_attempt code summary st timed now a) = ja_id a" "ja_id (timed_out_attempt now a) = ja_id a"
  "oe_id (publish_event w now until e) = oe_id e" "oe_id (release_event code retry_at now e) = oe_id e"
  by (simp_all add: cancel_job_def start_job_def completed_job_def failed_job_def recovered_job_def Let_def
      completed_attempt_def failed_attempt_def timed_out_attempt_def publish_event_def release_event_def)

lemma sql_claim_refines:
  assumes ok: "store_ok s"
    and run: "sql_claim_job known (\<lambda>_. False) k w now i (db_of s trail) = Inr (r, db)"
  shows "\<exists>t. mem_claim_job k w now i s = (r, t) \<and> db = db_of t trail"
proof (cases "dict_get (jobs s) k")
  case None
  then show ?thesis
    using run jobs_scalar[OF store_keyed(1)[OF ok], of k "\<lambda>_. True"]
    by (simp add: sql_claim_job_def mem_claim_job_def)
next
  case (Some j)
  have id: "bj_id j = k" using store_ok_ids(1)[OF ok Some] .
  have row: "scalar (\<lambda>r. jr_id r = k) (map_dict job_model (jobs s)) = Some (job_model j)"
    using jobs_scalar[OF store_keyed(1)[OF ok], of k "\<lambda>_. True"] Some by simp
  have inbox: "keyed ie_id (inbox_events s)" by (rule store_keyed(4)[OF ok])
  consider (idle) "\<not> job_due now j" | (canceled) "job_due now j" "bj_cancel_requested_at j \<noteq> None"
    | (start) "job_due now j" "bj_cancel_requested_at j = None" by blast
  then show ?thesis
  proof cases
    case idle
    then show ?thesis using run row Some by (simp add: sql_claim_job_def mem_claim_job_def)
  next
    case canceled
    then obtain db1 where
      "update_job (job_model (cancel_job now j)) (db_of s trail) = Inr db1" "r = None"
      "db = set_inbox_row (job_model (cancel_job now j)) INBOX_CANCELED now None db1"
      using run row by (auto simp: sql_claim_job_def result_laws job_row_updates)
    then show ?thesis
      using canceled Some id inbox
      by (auto simp: mem_claim_job_def set_inbox_db Let_def dest!: update_job_db)
  next
    case start
    then obtain db1 db2 where
      "update_job (job_model (start_job w now j)) (db_of s trail) = Inr db1"
      "insert_attempt known (attempt_model (new_attempt i w now j)) db1 = Inr db2"
      "r = Some \<lparr>jc_job = start_job w now j, jc_attempt = new_attempt i w now j\<rparr>"
      "db = set_inbox_row (job_model (start_job w now j)) INBOX_PROCESSING now None db2"
      using run row by (auto simp: sql_claim_job_def result_laws job_row_updates Let_def)
    then show ?thesis
      using start Some id inbox
      by (auto simp: mem_claim_job_def set_inbox_db Let_def dest!: update_job_db insert_attempt_db)
  qed
qed

lemma sql_renew_refines:
  assumes ok: "store_ok s"
    and run: "sql_renew_job_lease k i w now (db_of s trail) = Inr (b, db)"
  shows "\<exists>t. mem_renew_job_lease k i w now s = (b, t) \<and> db = db_of t trail"
proof -
  have row: "scalar (\<lambda>r. jr_id r = k) (map_dict job_model (jobs s)) = map_option job_model (dict_get (jobs s) k)"
    using jobs_scalar[OF store_keyed(1)[OF ok], of k "\<lambda>_. True"] by (simp split: option.split)
  show ?thesis
  proof (cases "dict_get (jobs s) k")
    case None
    then show ?thesis using run row by (simp add: sql_renew_job_lease_def mem_renew_job_lease_def)
  next
    case (Some j)
    have id: "bj_id j = k" using store_ok_ids(1)[OF ok Some] .
    show ?thesis
    proof (cases "dict_get (attempts s) i")
      case None
      then show ?thesis using run row Some by (simp add: sql_renew_job_lease_def mem_renew_job_lease_def)
    next
      case a: (Some a)
      show ?thesis
        using run row Some a id
        by (auto simp: sql_renew_job_lease_def mem_renew_job_lease_def result_laws job_row_updates
            split: if_splits dest!: update_job_db)
    qed
  qed
qed

text \<open>
  The SQL guard of \<open>complete_job\<close> and \<open>fail_job\<close> also asks that the attempt belongs to the job; the
  in-memory guard does not, so the two agree on the job's own attempts.
\<close>

lemma locked_execution_db:
  assumes ok: "store_ok s" and own: "own_attempt k i s"
  shows "(case locked_execution k i w (db_of s trail) of
      (Some row, Some attempt) \<Rightarrow>
        \<exists>j a. execution_held k i w s = Some (j, a) \<and> row = job_model j \<and> attempt = attempt_model a \<and>
          bj_id j = k \<and> ja_id a = i
    | _ \<Rightarrow> execution_held k i w s = None)"
proof -
  have row: "fst (locked_execution k i w (db_of s trail)) = (case dict_get (jobs s) k of None \<Rightarrow> None
      | Some j \<Rightarrow> if bj_status j = JOB_RUNNING \<and> bj_lease_owner j = Some w then Some (job_model j) else None)"
    using jobs_scalar[OF store_keyed(1)[OF ok], of k
        "\<lambda>r. jr_status r = job_status_value JOB_RUNNING \<and> jr_lease_owner r = Some w"]
    by (simp add: locked_execution_def cong: option.case_cong)
  have attempt: "snd (locked_execution k i w (db_of s trail)) = (case dict_get (attempts s) i of None \<Rightarrow> None
      | Some a \<Rightarrow> if ja_status a = ATTEMPT_RUNNING then Some (attempt_model a) else None)"
    using attempts_scalar[OF store_keyed(2)[OF ok], of i
        "\<lambda>r. ar_job_id r = k \<and> ar_status r = attempt_status_value ATTEMPT_RUNNING"] own
    by (simp add: locked_execution_def own_attempt_def split: option.split)
  show ?thesis
    using row attempt store_ok_ids(1,2)[OF ok]
    by (cases "locked_execution k i w (db_of s trail)")
      (auto simp: execution_held_def split: option.splits if_splits)
qed

lemma sql_complete_refines:
  assumes ok: "store_ok s" and own: "own_attempt k i s"
    and run: "sql_complete_job k i w res now (db_of s trail) = Inr (r, db)"
  shows "\<exists>t. mem_complete_job k i w res now s = (r, t) \<and> db = db_of t trail"
proof (cases "execution_held k i w s")
  case None
  then show ?thesis
    using run locked_execution_db[OF ok own, of w trail]
    by (auto simp: sql_complete_job_def mem_complete_job_def split: prod.splits option.splits)
next
  case (Some p)
  obtain j a where p: "p = (j, a)" by (cases p)
  have held: "locked_execution k i w (db_of s trail) = (Some (job_model j), Some (attempt_model a))"
    and ids: "bj_id j = k" "ja_id a = i"
    using locked_execution_db[OF ok own, of w trail] Some by (auto simp: p split: prod.splits option.splits)
  obtain db1 db2 where
    "update_job (job_model (completed_job now res j)) (db_of s trail) = Inr db1"
    "update_attempt (attempt_model (completed_attempt now j a)) db1 = Inr db2"
    "r = Some (completed_job now res j)"
    "db = set_inbox_row (job_model (completed_job now res j))
      (if bj_cancel_requested_at j \<noteq> None then INBOX_CANCELED else INBOX_COMPLETED) now None db2"
    using run held
    by (auto simp: sql_complete_job_def result_laws job_row_updates attempt_row_updates Let_def
        simp del: not_None_eq)
  then show ?thesis
    using Some ids store_keyed(4)[OF ok]
    by (auto simp: p mem_complete_job_def set_inbox_db Let_def dest!: update_job_db update_attempt_db)
qed

lemma sql_fail_refines:
  assumes ok: "store_ok s" and own: "own_attempt k i s"
    and run: "sql_fail_job known k i w code summary perm timed retry_at ev now (db_of s trail) = Inr (r, db)"
  shows "\<exists>t. mem_fail_job k i w code summary perm timed retry_at ev now s = (r, t) \<and> db = db_of t trail"
proof (cases "execution_held k i w s")
  case None
  then show ?thesis
    using run locked_execution_db[OF ok own, of w trail]
    by (auto simp: sql_fail_job_def mem_fail_job_def split: prod.splits option.splits)
next
  case (Some p)
  obtain j a where p: "p = (j, a)" by (cases p)
  have held: "locked_execution k i w (db_of s trail) = (Some (job_model j), Some (attempt_model a))"
    and ids: "bj_id j = k" "ja_id a = i"
    using locked_execution_db[OF ok own, of w trail] Some by (auto simp: p split: prod.splits option.splits)
  let ?st = "failure_status perm j" and ?j = "failed_job code summary perm retry_at now j"
  obtain db1 db2 db3 where w:
    "update_job (job_model ?j) (db_of s trail) = Inr db1"
    "update_attempt (attempt_model (failed_attempt code summary ?st timed now a)) db1 = Inr db2"
    and rest: "(if ?st = JOB_RETRYING then
        bind_result (insert_outbox known (outbox_model ev) db2) (\<lambda>db3.
          Inr (set_inbox_row (job_model ?j) INBOX_PENDING now None db3))
      else if ?st = JOB_FAILED \<or> ?st = JOB_DEAD_LETTER then
        Inr (set_inbox_row (job_model ?j) INBOX_DEAD_LETTER now (Some code) db2)
      else Inr (set_inbox_row (job_model ?j) INBOX_CANCELED now None db2)) = Inr db3"
    "r = Some ?j" "db = db3"
    using run
    unfolding sql_fail_job_def held prod.case option.case Let_def job_row_updates attempt_row_updates
    by (auto simp: bind_result_Inr commit_Inr simp del: if_split)
  define s1 where "s1 = s\<lparr>jobs := dict_set k ?j (jobs s),
    attempts := dict_set i (failed_attempt code summary ?st timed now a) (attempts s)\<rparr>"
  have db2: "db2 = db_of s1 trail"
    using w ids by (auto simp: s1_def dest!: update_job_db update_attempt_db)
  have inbox: "keyed ie_id (inbox_events s1)" using store_keyed(4)[OF ok] by (simp add: s1_def)
  have mem: "mem_fail_job k i w code summary perm timed retry_at ev now s = (Some ?j,
      if ?st = JOB_RETRYING then set_inbox_status ?j INBOX_PENDING now None
        (s1\<lparr>outbox_events := dict_set (oe_id ev) ev (outbox_events s1)\<rparr>)
      else if ?st = JOB_FAILED \<or> ?st = JOB_DEAD_LETTER then
        set_inbox_status ?j INBOX_DEAD_LETTER now (Some code) s1
      else set_inbox_status ?j INBOX_CANCELED now None s1)"
    using Some by (simp add: p mem_fail_job_def Let_def s1_def)
  show ?thesis
    using rest inbox unfolding mem db2
    by (auto simp: bind_result_Inr set_inbox_db split: if_splits dest!: insert_outbox_db)
qed

text \<open>
  The refinement of the remaining operations: enqueueing and replay, cancellation, the outbox, the
  recovery of expired leases, scheduled actions with their budget, and heartbeats.
\<close>

section \<open>Keyed dictionaries\<close>

lemma keyed_set [intro]: "keyed key d \<Longrightarrow> key v = k \<Longrightarrow> keyed key (dict_set k v d)"
  by (auto simp: keyed_def)

lemma keyed_walk [intro]: "keyed key d \<Longrightarrow> (\<And>v. key (f v) = key v) \<Longrightarrow> keyed key (dict_walk p f d)"
  by (auto simp: keyed_def)

lemma keyed_ok: "keyed key d \<Longrightarrow> dict_ok d"
  by (simp add: keyed_def)

lemma keyed_distinct:
  assumes "keyed key d"
  shows "distinct (dict_values d)"
proof -
  have "map key (dict_values d) = map fst d"
    using assms pydict.items_get[of d] by (auto simp: keyed_def dict_values_def)
  then have "distinct (map key (dict_values d))" using assms by (simp add: keyed_def dict_ok_def)
  then show ?thesis by (simp add: distinct_map)
qed

lemma fold_rows_walk:
  assumes "keyed key d" and "\<And>v. key (f v) = key v"
  shows "fold (\<lambda>v. dict_set (key v) v) (map f (filter p (dict_values d))) d = dict_walk p f d"
proof -
  have "fold (\<lambda>v. dict_set (key v) v) (map f (filter p (map snd xs))) acc =
      fold (\<lambda>(k, v) d. if p v then dict_set k (f v) d else d) xs acc"
    if "\<And>k v. (k, v) \<in> set xs \<Longrightarrow> key v = k" for xs acc
    using that
  proof (induction xs arbitrary: acc)
    case (Cons x xs)
    obtain k v where x: "x = (k, v)" by (cases x)
    have k: "key v = k" using Cons.prems[of k v] by (simp add: x)
    have IH: "fold (\<lambda>v. dict_set (key v) v) (map f (filter p (map snd xs))) acc =
        fold (\<lambda>(k, v) d. if p v then dict_set k (f v) d else d) xs acc" for acc
      using Cons.prems by (intro Cons.IH) auto
    show ?case by (simp add: x assms(2) IH k)
  qed simp
  moreover have "key v = k" if "(k, v) \<in> set d" for k v
    using that assms(1) pydict.items_get[of d] by (simp add: keyed_def)
  ultimately show ?thesis by (simp add: dict_values_def dict_walk_def)
qed

section \<open>Loops of updates\<close>

lemma update_outbox_all:
  "update_all update_outbox (map outbox_model es) (db_of s trail) = Inr db \<Longrightarrow>
     db = db_of (s\<lparr>outbox_events := fold (\<lambda>e. dict_set (oe_id e) e) es (outbox_events s)\<rparr>) trail"
proof (induction es arbitrary: s)
  case Nil
  then show ?case by (simp add: db_of_def)
next
  case (Cons e es)
  then obtain db1 where u: "update_outbox (outbox_model e) (db_of s trail) = Inr db1"
    "update_all update_outbox (map outbox_model es) db1 = Inr db" by (auto simp: bind_result_Inr)
  from update_outbox_db[OF u(1)] u(2) show ?case using Cons.IH by fastforce
qed

lemma update_attempt_all:
  "update_all update_attempt (map attempt_model ats) (db_of s trail) = Inr db \<Longrightarrow>
     db = db_of (s\<lparr>attempts := fold (\<lambda>a. dict_set (ja_id a) a) ats (attempts s)\<rparr>) trail"
proof (induction ats arbitrary: s)
  case Nil
  then show ?case by (simp add: db_of_def)
next
  case (Cons a ats)
  then obtain db1 where u: "update_attempt (attempt_model a) (db_of s trail) = Inr db1"
    "update_all update_attempt (map attempt_model ats) db1 = Inr db" by (auto simp: bind_result_Inr)
  from update_attempt_db[OF u(1)] u(2) show ?case using Cons.IH by fastforce
qed

lemma converted_all_map:
  "(\<And>x. x \<in> set xs \<Longrightarrow> converted conv (model x) = Inr x) \<Longrightarrow> converted_all conv (map model xs) = Inr xs"
  by (induction xs) auto

text \<open>A sort key that separates the rows leaves nothing open about the order of the result.\<close>

lemma sorted_by_perm:
  assumes "set ys = set xs" and "distinct xs" and "distinct ys" and "inj_on f (set xs)"
    and "sorted (map f zs)" and "set zs = set xs" and "distinct zs"
  shows "sorted_by f ys = zs"
proof (rule map_sorted_distinct_set_unique)
  show "inj_on f (set (sorted_by f ys) \<union> set zs)" using assms by simp
  show "sorted (map f (sorted_by f ys))" by (rule sorted_by_sorted)
  show "distinct (map f (sorted_by f ys))"
    using assms by (simp add: distinct_map sorted_by_def)
  show "distinct (map f zs)" using assms by (simp add: distinct_map)
qed (use assms in simp_all)

section \<open>The outbox\<close>

lemma outbox_row_due_model [simp]: "outbox_row_due now (outbox_model e) = outbox_due now e"
  by (simp add: outbox_row_due_def outbox_due_def)

lemma inj_outbox_model [simp]: "inj_on outbox_model A"
  by (rule inj_onI) (metis option.inject row_conversions(3))

lemma scanned_rows:
  assumes ok: "store_ok s" and scan: "\<And>rs. mset (scan rs) = mset rs"
    and inj: "inj_on (\<lambda>e. (oe_available_at e, oe_created_at e))
      {e \<in> set (dict_values (outbox_events s)). outbox_due now e}"
  shows "sorted_by (\<lambda>r. (or_available_at r, or_created_at r))
      (filter (outbox_row_due now) (scan (map outbox_model (dict_values (outbox_events s))))) =
    map outbox_model (sorted_by (\<lambda>e. (oe_available_at e, oe_created_at e, oe_id e))
      (filter (outbox_due now) (dict_values (outbox_events s))))"
    (is "sorted_by ?f (filter _ (scan (map _ ?vs))) = map _ (sorted_by ?g ?due)")
proof (rule sorted_by_perm[where xs = "map outbox_model ?due"])
  have dist: "distinct ?vs"
    by (rule keyed_distinct[OF store_keyed(3)[OF ok]])
  have scan_set: "set (scan rs) = set rs" and scan_dist: "distinct (scan rs) = distinct rs" for rs
    using mset_eq_setD[OF scan] mset_eq_imp_distinct_iff[OF scan] by simp_all
  show "set (filter (outbox_row_due now) (scan (map outbox_model ?vs))) = set (map outbox_model ?due)"
    by (auto simp: scan_set)
  show "distinct (map outbox_model ?due)"
    using dist by (simp add: distinct_map)
  show "distinct (filter (outbox_row_due now) (scan (map outbox_model ?vs)))"
    using dist by (simp add: scan_dist distinct_map)
  have "inj_on (\<lambda>e. (oe_available_at e, oe_created_at e)) (set ?due)"
    using inj by (simp add: Collect_conj_eq Int_commute)
  then show "inj_on ?f (set (map outbox_model ?due))" by (auto simp: inj_on_def)
  have "sorted (map ?g (sorted_by ?g ?due))" by (rule sorted_by_sorted)
  then have "sorted (map (\<lambda>e. (oe_available_at e, oe_created_at e)) (sorted_by ?g ?due))"
    unfolding sorted_map by (rule sorted_wrt_mono_rel[rotated]) (auto simp: less_eq_prod_def)
  then show "sorted (map ?f (map outbox_model (sorted_by ?g ?due)))" by (simp add: comp_def)
  show "distinct (map outbox_model (sorted_by ?g ?due))"
    using dist by (simp add: distinct_map sorted_by_def)
qed simp

lemma sql_claim_outbox_refines:
  assumes ok: "store_ok s" and scan: "\<And>rs. mset (scan rs) = mset rs"
    and inj: "inj_on (\<lambda>e. (oe_available_at e, oe_created_at e))
      {e \<in> set (dict_values (outbox_events s)). outbox_due now e}"
    and run: "sql_claim_outbox scan (\<lambda>_. False) w now until limit (db_of s trail) = Inr (es, db)"
  shows "\<exists>t. mem_claim_outbox w now until (int limit) s = (es, t) \<and> db = db_of t trail"
proof -
  define rows where "rows = take limit (sorted_by (\<lambda>e. (oe_available_at e, oe_created_at e, oe_id e))
      (filter (outbox_due now) (dict_values (outbox_events s))))"
  define claimed where "claimed = map (publish_event w now until) rows"
  have "take limit (sorted_by (\<lambda>r. (or_available_at r, or_created_at r))
      (filter (outbox_row_due now) (scan (map outbox_model (dict_values (outbox_events s)))))) =
      map outbox_model rows"
    unfolding scanned_rows[OF ok scan inj] by (simp add: rows_def take_map)
  then have rows: "map (publishing_row w now until) (take limit (sorted_by (\<lambda>r. (or_available_at r, or_created_at r))
      (filter (\<lambda>r. outbox_row_due now r \<and> \<not> False)
        (scan (map outbox_model (dict_values (outbox_events s))))))) = map outbox_model claimed"
    by (simp add: claimed_def outbox_row_updates)
  have conv: "converted_all row_outbox (map outbox_model claimed) = Inr claimed"
    by (rule converted_all_map) simp
  have "\<exists>db1. update_all update_outbox (map outbox_model claimed) (db_of s trail) = Inr db1 \<and>
      es = claimed \<and> db = db1"
    using run unfolding sql_claim_outbox_def Let_def db_of_tables map_dict_values rows
    by (auto simp: bind_result_Inr commit_Inr conv)
  then have "es = claimed" "db = db_of (s\<lparr>outbox_events :=
      fold (\<lambda>e. dict_set (oe_id e) e) claimed (outbox_events s)\<rparr>) trail"
    using update_outbox_all by blast+
  then show ?thesis
    by (simp add: mem_claim_outbox_def Let_def py_take_def claimed_def rows_def)
qed

lemma leased_event_model [simp]:
  "leased_event_row i w (outbox_model e) \<longleftrightarrow>
     oe_id e = i \<and> oe_status e = OUTBOX_PUBLISHING \<and> oe_lease_owner e = Some w"
  by (simp add: leased_event_row_def)

lemma scalar_leased_event:
  assumes ok: "store_ok s"
  shows "scalar (leased_event_row i w) (map_dict outbox_model (outbox_events s)) =
    map_option outbox_model (publishing_event i w s)"
proof -
  have "leased_event_row i w = (\<lambda>r. or_id r = i \<and> (or_status r = outbox_status_value OUTBOX_PUBLISHING \<and>
      or_lease_owner r = Some w))"
    by (simp add: leased_event_row_def fun_eq_iff)
  then show ?thesis
    using outbox_scalar[OF store_keyed(3)[OF ok], of i
        "\<lambda>r. or_status r = outbox_status_value OUTBOX_PUBLISHING \<and> or_lease_owner r = Some w"]
    by (auto simp: publishing_event_def split: option.split)
qed

lemma sql_mark_published_refines:
  assumes ok: "store_ok s"
  shows "sql_mark_outbox_published i w now (db_of s trail) =
    db_of (mem_mark_outbox_published i w now s) trail"
proof -
  let ?h = "\<lambda>e. e\<lparr>oe_status := OUTBOX_PUBLISHED, oe_lease_owner := None, oe_lease_expires_at := None,
    oe_published_at := Some now, oe_updated_at := now\<rparr>"
  let ?p = "\<lambda>e. oe_status e = OUTBOX_PUBLISHING \<and> oe_lease_owner e = Some w"
  let ?h' = "\<lambda>e. if ?p e then ?h e else e"
  have dok: "dict_ok (outbox_events s)" using store_ok_dicts[OF ok] by simp
  have "dict_walk (leased_event_row i w) (published_row now) (map_dict outbox_model (outbox_events s)) =
      map_dict outbox_model (dict_walk (\<lambda>e. oe_id e = i \<and> ?p e) ?h (outbox_events s))"
    by (rule map_dict_walk[OF dok]) (simp_all add: outbox_row_updates)
  also have "dict_walk (\<lambda>e. oe_id e = i \<and> ?p e) ?h (outbox_events s) =
      dict_walk (\<lambda>e. oe_id e = i) ?h' (outbox_events s)"
    by (simp add: dict_walk_eq[OF dok]) (auto split: if_split)
  also have "\<dots> = outbox_events (mem_mark_outbox_published i w now s)"
    using store_ok_ids(3)[OF ok]
    by (auto simp: walk_by_key[OF store_keyed(3)[OF ok]] mem_mark_outbox_published_def publishing_event_def
        dict_set_get_same split: option.split)
  finally show ?thesis
    by (simp add: sql_mark_outbox_published_def db_of_def mem_mark_outbox_published_def split: option.split)
qed

lemma sql_mark_failed_refines:
  assumes ok: "store_ok s"
    and run: "sql_mark_outbox_failed i w code retry_at now (db_of s trail) = Inr db"
  shows "db = db_of (mem_mark_outbox_failed i w code retry_at now s) trail"
proof (cases "publishing_event i w s")
  case None
  then show ?thesis
    using run scalar_leased_event[OF ok, of i w]
    by (simp add: sql_mark_outbox_failed_def mem_mark_outbox_failed_def)
next
  case (Some e)
  then have "oe_id e = i" using store_ok_ids(3)[OF ok] by (auto simp: publishing_event_iff)
  then show ?thesis
    using run scalar_leased_event[OF ok, of i w] Some
    by (auto simp: sql_mark_outbox_failed_def mem_mark_outbox_failed_def outbox_row_updates
        dest!: update_outbox_db)
qed

end
