(* ===== verification/Task_Refinement_Commands.thy ===== *)
theory Task_Refinement_Commands
  imports Task_Refinement
begin

text \<open>
  The refinement of recovery, enqueueing, replay, cancellation, scheduled actions and heartbeats.
\<close>

section \<open>Recovery of expired leases\<close>

definition store_keyed_ok :: "task_store \<Rightarrow> bool" where
  "store_keyed_ok s \<longleftrightarrow> keyed ja_id (attempts s) \<and> keyed ie_id (inbox_events s) \<and>
     keyed oe_id (outbox_events s)"

lemma recover_job_keyed:
  assumes "store_keyed_ok s"
  shows "store_keyed_ok (recover_job now fresh k j s)"
proof -
  have "keyed ie_id (inbox_events (set_inbox_status j st now code s))" if "keyed ie_id (inbox_events s)"
    for j st code and s :: task_store
    using that by (auto simp: set_inbox_status_def keyed_def split: option.split)
  moreover have "outbox_events (set_inbox_status j st now code s) = outbox_events s"
    "attempts (set_inbox_status j st now code s) = attempts s" for j st code and s :: task_store
    by (simp_all add: set_inbox_status_def split: option.split)
  ultimately show ?thesis
    using assms by (auto simp: recover_job_def store_keyed_ok_def Let_def)
qed

lemma expired_job_model [simp]: "expired_job_row now (job_model j) = job_lease_expired now j"
  by (simp add: expired_job_row_def job_lease_expired_def)

lemma expired_outbox_model [simp]: "expired_outbox_row now (outbox_model e) = outbox_lease_expired now e"
  by (simp add: expired_outbox_row_def outbox_lease_expired_def)

lemma sql_recover_job_refines:
  assumes keyed: "store_keyed_ok s" and id: "bj_id j = k"
    and run: "sql_recover_job known now fresh (job_model j) (db_of s trail) = Inr db"
  shows "db = db_of (recover_job now fresh k j s) trail"
proof -
  let ?j = "recovered_job now j"
  let ?running = "\<lambda>a. ja_job_id a = k \<and> ja_status a = ATTEMPT_RUNNING"
  define s1 where "s1 = s\<lparr>jobs := dict_set k ?j (jobs s)\<rparr>"
  define s2 where "s2 = s1\<lparr>attempts := dict_walk ?running (timed_out_attempt now) (attempts s)\<rparr>"
  have st: "recovery_status (job_model j) = bj_status ?j"
    by (simp add: recovery_status_def recovered_job_def Let_def)
  have dead: "bj_status ?j = JOB_RETRYING \<or> bj_status ?j = JOB_DEAD_LETTER"
    by (simp add: recovered_job_def Let_def)
  have attempts1: "attempts s1 = attempts s" by (simp add: s1_def)
  have rows: "map (timed_out_row now) (filter (\<lambda>a. ar_job_id a = jr_id (job_model ?j) \<and>
      ar_status a = attempt_status_value ATTEMPT_RUNNING) (dict_values (attempt_table (db_of s1 trail)))) =
      map attempt_model (map (timed_out_attempt now) (filter ?running (dict_values (attempts s))))"
    by (simp add: attempts1 id filter_map comp_def attempt_row_updates)
  obtain db1 db2 where u: "update_job (job_model ?j) (db_of s trail) = Inr db1"
    "update_all update_attempt (map (timed_out_row now) (filter (\<lambda>a. ar_job_id a = jr_id (job_model ?j) \<and>
      ar_status a = attempt_status_value ATTEMPT_RUNNING) (dict_values (attempt_table db1)))) db1 = Inr db2"
    and rest: "(if bj_status ?j = JOB_RETRYING then
        bind_result (insert_outbox known (outbox_model (retry_outbox (fresh k) ?j now)) db2)
          (\<lambda>db3. Inr (set_inbox_row (job_model ?j) INBOX_PENDING now None db3))
      else Inr (set_inbox_row (job_model ?j) INBOX_DEAD_LETTER now (Some lease_expired) db2)) = Inr db"
    using run
    unfolding sql_recover_job_def Let_def st job_row_updates converted_models(1) bind_result_simps
      model_keys job_ids_kept id
    by (auto simp: bind_result_Inr id simp del: if_split)
  have "db1 = db_of s1 trail" using update_job_db[OF u(1)] id by (simp add: s1_def)
  with u(2) rows have "db2 = db_of (s1\<lparr>attempts := fold (\<lambda>a. dict_set (ja_id a) a)
      (map (timed_out_attempt now) (filter ?running (dict_values (attempts s)))) (attempts s1)\<rparr>) trail"
    by (intro update_attempt_all) simp
  moreover have "fold (\<lambda>a. dict_set (ja_id a) a) (map (timed_out_attempt now)
      (filter ?running (dict_values (attempts s)))) (attempts s1) = attempts s2"
    unfolding attempts1 s2_def using keyed
    by (simp add: fold_rows_walk[where key = ja_id] store_keyed_ok_def del: fold_map)
  ultimately have db2: "db2 = db_of s2 trail" by (simp add: s2_def)
  have inbox: "keyed ie_id (inbox_events s2)" using keyed by (simp add: s2_def s1_def store_keyed_ok_def)
  have mem: "recover_job now fresh k j s = (if bj_status ?j = JOB_RETRYING
      then set_inbox_status ?j INBOX_PENDING now None (s2\<lparr>outbox_events :=
        dict_set (oe_id (retry_outbox (fresh k) ?j now)) (retry_outbox (fresh k) ?j now) (outbox_events s2)\<rparr>)
      else set_inbox_status ?j INBOX_DEAD_LETTER now (Some lease_expired) s2)"
    by (simp add: recover_job_def Let_def s2_def s1_def)
  show ?thesis
    using rest inbox unfolding mem db2
    by (auto simp: bind_result_Inr set_inbox_db split: if_splits dest!: insert_outbox_db)
qed

lemma sql_recover_jobs_refines:
  assumes "store_keyed_ok s" and "\<And>k j. (k, j) \<in> set xs \<Longrightarrow> bj_id j = k"
    and "update_all (sql_recover_job known now fresh)
      (map job_model (filter (job_lease_expired now) (map snd xs))) (db_of s trail) = Inr db"
  shows "\<exists>t. fold (\<lambda>(job_id, item) (n, s). if job_lease_expired now item
             then (n + 1, recover_job now fresh job_id item s) else (n, s)) xs (m, s) =
      (m + int (length (filter (job_lease_expired now) (map snd xs))), t) \<and>
    db = db_of t trail \<and> store_keyed_ok t"
  using assms
proof (induction xs arbitrary: s m)
  case Nil
  then show ?case by simp
next
  case (Cons x xs)
  obtain k j where x: "x = (k, j)" by (cases x)
  have id: "bj_id j = k" using Cons.prems(2)[of k j] by (simp add: x)
  have ids: "\<And>k j. (k, j) \<in> set xs \<Longrightarrow> bj_id j = k" using Cons.prems(2) by simp
  show ?case
  proof (cases "job_lease_expired now j")
    case False
    then show ?thesis using Cons.IH[OF Cons.prems(1) ids, of m] Cons.prems(3) by (simp add: x)
  next
    case True
    then obtain db1 where db1: "sql_recover_job known now fresh (job_model j) (db_of s trail) = Inr db1"
      "update_all (sql_recover_job known now fresh)
        (map job_model (filter (job_lease_expired now) (map snd xs))) db1 = Inr db"
      using Cons.prems(3) by (auto simp: x bind_result_Inr)
    note sql_recover_job_refines[OF Cons.prems(1) id db1(1)]
    then show ?thesis
      using Cons.IH[OF recover_job_keyed[OF Cons.prems(1)] ids, of now fresh k j "m + 1"] db1(2) True
      by (simp add: x add.assoc)
  qed
qed

lemma sql_recover_refines:
  assumes ok: "store_ok s"
    and run: "sql_recover_expired_leases known (\<lambda>_. False) now fresh (db_of s trail) = Inr (n, db)"
  shows "\<exists>t. mem_recover_expired_leases now fresh s = (n, t) \<and> db = db_of t trail"
proof -
  let ?expired = "filter (job_lease_expired now) (map snd (jobs s))"
  have rows: "filter (\<lambda>r. expired_job_row now r \<and> \<not> False) (map job_model (dict_values (jobs s))) =
      map job_model ?expired"
    by (simp add: filter_map comp_def dict_values_def)
  have events: "filter (\<lambda>r. expired_outbox_row now r \<and> \<not> False) (dict_values (outbox_table (db_of t trail))) =
      map outbox_model (filter (outbox_lease_expired now) (dict_values (outbox_events t)))" for t
    by (simp add: filter_map comp_def)
  obtain db1 db2 where u: "update_all (sql_recover_job known now fresh) (map job_model ?expired) (db_of s trail) = Inr db1"
    "update_all update_outbox (map (released_row lease_expired now now)
      (filter (\<lambda>r. expired_outbox_row now r \<and> \<not> False) (dict_values (outbox_table db1)))) db1 = Inr db2"
    "db = db2" "n = int (length ?expired) +
      int (length (filter (\<lambda>r. expired_outbox_row now r \<and> \<not> False) (dict_values (outbox_table db1))))"
    using run unfolding sql_recover_expired_leases_def Let_def db_of_tables map_dict_values rows
    by (auto simp: bind_result_Inr commit_Inr)
  have ids: "bj_id j = k" if "(k, j) \<in> set (jobs s)" for k j
    using that store_ok_ids(1)[OF ok] pydict.items_get[OF store_ok_dicts(1)[OF ok]] by simp
  have "store_keyed_ok s" using store_keyed[OF ok] by (simp add: store_keyed_ok_def)
  from sql_recover_jobs_refines[OF this ids u(1), of 0]
  obtain t where t: "recover_jobs now fresh s = (int (length ?expired), t)" "db1 = db_of t trail"
    "store_keyed_ok t" by (auto simp: recover_jobs_def)
  define ev where "ev = filter (outbox_lease_expired now) (dict_values (outbox_events t))"
  have ev: "filter (\<lambda>r. expired_outbox_row now r \<and> \<not> False) (dict_values (outbox_table db1)) =
      map outbox_model ev" unfolding t(2) events by (simp add: ev_def)
  have "update_all update_outbox (map outbox_model (map (release_event lease_expired now now) ev))
      (db_of t trail) = Inr db2"
    using u(2) unfolding ev by (simp add: t(2) comp_def outbox_row_updates)
  from update_outbox_all[OF this]
  have "db2 = db_of (t\<lparr>outbox_events := fold (\<lambda>e. dict_set (oe_id e) e)
      (map (release_event lease_expired now now) ev) (outbox_events t)\<rparr>) trail" .
  also have "fold (\<lambda>e. dict_set (oe_id e) e) (map (release_event lease_expired now now) ev) (outbox_events t) =
      dict_walk (outbox_lease_expired now) (release_event lease_expired now now) (outbox_events t)"
    unfolding ev_def using t(3)
    by (intro fold_rows_walk[where key = oe_id]) (simp_all add: store_keyed_ok_def)
  finally show ?thesis
    using u(3,4) unfolding ev by (simp add: mem_recover_expired_leases_def t(1) count_if_def ev_def)
qed

section \<open>Enqueueing, replay and cancellation\<close>

definition audit_entry :: "uuid \<Rightarrow> uuid \<Rightarrow> string \<Rightarrow> string \<Rightarrow> uuid \<Rightarrow> json_dict \<Rightarrow> audit_row" where
  "audit_entry tenant_id actor_id action resource_type resource_id detail =
     \<lparr>au_tenant_id = tenant_id, au_actor_id = actor_id, au_action = lit action,
      au_resource_type = lit resource_type, au_resource_id = uuid_str resource_id, au_detail = detail\<rparr>"

lemma audit_db [simp]:
  "audit tn actor action kind rid detail (db_of s trail) =
     db_of s (trail @ [audit_entry tn actor action kind rid detail])"
  by (simp add: audit_def db_of_def audit_entry_def)

lemma inbox_model_fields [simp]:
  "ir_tenant_id (inbox_model ib) = ie_tenant_id ib" "ir_event_key (inbox_model ib) = ie_event_key ib"
  "ir_job_id (inbox_model ib) = ie_job_id ib"
  by (simp_all add: inbox_model_def)

lemma same_job_row:
  "scalar (\<lambda>r. jr_tenant_id r = tn \<and> jr_deduplication_key r = key) (map_dict job_model (jobs s)) =
     map_option job_model (job_by_deduplication s tn key)"
  by (simp add: scalar_def find_map_model job_by_deduplication_def)

lemma unique_jobs:
  "unique (\<lambda>x. (jr_tenant_id x, jr_deduplication_key x)) (job_model j) (map_dict job_model (jobs s)) \<longleftrightarrow>
     job_by_deduplication s (bj_tenant_id j) (bj_deduplication_key j) = None"
  by (auto simp: unique_def job_by_deduplication_def find_None_all)

definition same_event :: "inbox_event \<Rightarrow> task_store \<Rightarrow> inbox_event option" where
  "same_event ib s = find (\<lambda>item. ie_tenant_id item = ie_tenant_id ib \<and> ie_event_key item = ie_event_key ib)
     (dict_values (inbox_events s))"

lemma same_event_row:
  "scalar (\<lambda>r. ir_tenant_id r = ie_tenant_id ib \<and> ir_event_key r = ie_event_key ib)
     (map_dict inbox_model (inbox_events s)) = map_option inbox_model (same_event ib s)"
  by (simp add: scalar_def find_map_model same_event_def)

lemma unique_events:
  "unique (\<lambda>x. (ir_tenant_id x, ir_event_key x)) (inbox_model ib) (map_dict inbox_model (inbox_events s)) \<longleftrightarrow>
     same_event ib s = None"
  by (auto simp: unique_def same_event_def find_None_all)

lemma sql_enqueue_refines:
  assumes run: "sql_enqueue known j ev inbox (db_of s trail) = Inr (b, db)"
  shows "\<exists>t. mem_enqueue j ev inbox s = Inr (b, t) \<and> db = db_of t trail"
proof -
  let ?insert = "bind_result (case inbox of None \<Rightarrow> Inr (db_of s trail)
        | Some ib \<Rightarrow> insert_inbox known (inbox_model ib) (db_of s trail)) (\<lambda>db1.
      bind_result (insert_job known (job_model j) db1) (\<lambda>db2.
      bind_result (insert_outbox known (outbox_model ev) db2) (\<lambda>db3. Inr ((), db3))))"
  let ?same = "job_by_deduplication s (bj_tenant_id j) (bj_deduplication_key j)"
  show ?thesis
  proof (cases "commit ?insert")
    case (Inr p)
    then obtain u db' where p: "commit ?insert = Inr (u, db')" by (cases p) auto
    then have b: "b = (j, True)" "db = db'"
      using run unfolding sql_enqueue_def Let_def by auto
    from p obtain db1 db2 db3 where i: "(case inbox of None \<Rightarrow> Inr (db_of s trail)
        | Some ib \<Rightarrow> insert_inbox known (inbox_model ib) (db_of s trail)) = Inr db1"
      "insert_job known (job_model j) db1 = Inr db2" "insert_outbox known (outbox_model ev) db2 = Inr db3"
      "db' = db3" by (auto simp: commit_Inr bind_result_Inr)
    define s1 where "s1 = (case inbox of None \<Rightarrow> s
      | Some ib \<Rightarrow> s\<lparr>inbox_events := dict_set (ie_id ib) ib (inbox_events s)\<rparr>)"
    have db1: "db1 = db_of s1 trail"
      using i(1) by (auto simp: s1_def split: option.splits dest: insert_inbox_db)
    have jobs1: "jobs s1 = jobs s" by (simp add: s1_def split: option.split)
    have "?same = None"
      using i(2) unfolding db1
      by (auto simp: insert_job_def statement_Inr jobs1 unique_jobs job_by_deduplication_def)
    moreover have "same_event ib s = None" if "inbox = Some ib" for ib
      using i(1) that by (simp add: insert_inbox_def statement_Inr unique_events)
    moreover have "db = db_of (s1\<lparr>jobs := dict_set (bj_id j) j (jobs s1),
        outbox_events := dict_set (oe_id ev) ev (outbox_events s1)\<rparr>) trail"
      using i(2-4) b unfolding db1 by (auto dest!: insert_job_db insert_outbox_db)
    ultimately show ?thesis
      using b by (auto simp: mem_enqueue_def same_event_def s1_def Let_def split: option.split)
  next
    case (Inl e)
    then have "e = IntegrityError" using run unfolding sql_enqueue_def Let_def by (cases e) auto
    with Inl have c: "commit ?insert = Inl IntegrityError" by simp
    show ?thesis
    proof (cases ?same)
      case (Some old)
      then show ?thesis
        using run c unfolding sql_enqueue_def Let_def
        by (auto simp: same_job_row mem_enqueue_def split: option.splits)
    next
      case None
      then obtain ib where ib: "inbox = Some ib"
        using run c unfolding sql_enqueue_def Let_def by (auto simp: same_job_row split: option.splits)
      then obtain dup old where "same_event ib s = Some dup" "dict_get (jobs s) (ie_job_id dup) = Some old"
          "b = (old, False)" "db = db_of s trail"
        using run c None unfolding sql_enqueue_def Let_def
        by (cases "same_event ib s"; cases "dict_get (jobs s) (ie_job_id (the (same_event ib s)))")
          (auto simp: same_job_row same_event_row)
      with None ib show ?thesis by (simp add: mem_enqueue_def same_event_def)
    qed
  qed
qed

lemma sql_replay_refines:
  assumes ok: "store_ok s"
    and run: "sql_replay known tn src j ev actor reason (db_of s trail) = Inr (r, db)"
  shows "\<exists>t trail'. mem_replay tn src j ev s = (r, t) \<and> db = db_of t trail'"
proof -
  have row: "scalar (\<lambda>r. jr_id r = src \<and> jr_tenant_id r = tn) (map_dict job_model (jobs s)) =
      (case dict_get (jobs s) src of None \<Rightarrow> None
       | Some v \<Rightarrow> if bj_tenant_id v = tn then Some (job_model v) else None)"
    using jobs_scalar[OF store_keyed(1)[OF ok], of src "\<lambda>r. jr_tenant_id r = tn"]
    by (simp cong: option.case_cong)
  show ?thesis
    using run row
    by (auto simp: sql_replay_def mem_replay_def bind_result_Inr commit_Inr split: option.splits if_splits
        dest!: insert_job_db insert_outbox_db)
qed

lemma sql_request_cancel_refines:
  assumes ok: "store_ok s"
    and run: "sql_request_cancel tn k actor now (db_of s trail) = Inr (r, db)"
  shows "\<exists>t trail'. mem_request_cancel tn k now s = (r, t) \<and> db = db_of t trail'"
proof -
  have row: "scalar (\<lambda>r. jr_id r = k \<and> jr_tenant_id r = tn) (map_dict job_model (jobs s)) =
      (case dict_get (jobs s) k of None \<Rightarrow> None
       | Some v \<Rightarrow> if bj_tenant_id v = tn then Some (job_model v) else None)"
    using jobs_scalar[OF store_keyed(1)[OF ok], of k "\<lambda>r. jr_tenant_id r = tn"]
    by (simp cong: option.case_cong)
  show ?thesis
  proof (cases "dict_get (jobs s) k")
    case None
    then show ?thesis using run row by (auto simp: sql_request_cancel_def mem_request_cancel_def)
  next
    case (Some j)
    have id: "bj_id j = k" using store_ok_ids(1)[OF ok Some] .
    consider (other) "bj_tenant_id j \<noteq> tn" | (finished) "bj_tenant_id j = tn" "job_terminal (bj_status j)"
      | (live) "bj_tenant_id j = tn" "\<not> job_terminal (bj_status j)" by blast
    then show ?thesis
    proof cases
      case live
      have "bj_completed_at j = None" using store_ok_job[OF ok Some] live by (simp add: job_ok_def)
      then have upd: "cancel_requested_row now (job_model j) = job_model (cancel_requested_job now j)"
        by (cases j) (simp add: cancel_requested_row_def cancel_requested_job_def job_model_def Let_def)
      have st: "bj_status (cancel_requested_job now j) =
          (if bj_status j = JOB_RUNNING then JOB_RUNNING else JOB_CANCELED)" "bj_id (cancel_requested_job now j) = k"
        using id by (simp_all add: cancel_requested_job_def Let_def)
      let ?s1 = "s\<lparr>jobs := dict_set k (cancel_requested_job now j) (jobs s)\<rparr>"
      obtain db1 where u: "update_job (job_model (cancel_requested_job now j)) (db_of s trail) = Inr db1"
        "r = Some (cancel_requested_job now j)"
        "\<exists>entry. db = audit tn actor ''background_job.cancel_requested'' ''background_job'' k entry
          (if bj_status j \<noteq> JOB_RUNNING then set_inbox_row (job_model (cancel_requested_job now j)) INBOX_CANCELED
            now None (cancel_outbox_rows k now db1) else db1)"
        using run row Some live upd
        by (auto simp: sql_request_cancel_def bind_result_Inr commit_Inr Let_def simp del: audit_db)
      have db1: "db1 = db_of ?s1 trail" using update_job_db[OF u(1)] st(2) by simp
      have oks: "dict_ok (outbox_events ?s1)" "keyed ie_id (inbox_events (cancel_outbox k now ?s1))"
        using store_keyed(3,4)[OF ok] by (simp_all add: keyed_ok cancel_outbox_def)
      show ?thesis
        using u(2,3) Some live st unfolding db1
        by (auto simp: mem_request_cancel_def Let_def cancel_outbox_db[OF oks(1)] set_inbox_db[OF oks(2)]
            split: if_splits)
    next
      case finished
      then have "r = Some j \<and> db = db_of s trail"
        using run row Some by (simp add: sql_request_cancel_def)
      then show ?thesis using Some finished by (auto simp: mem_request_cancel_def)
    next
      case other
      then show ?thesis using run row Some by (auto simp: sql_request_cancel_def mem_request_cancel_def)
    qed
  qed
qed

section \<open>Scheduled actions and heartbeats\<close>

definition same_action :: "scheduled_action \<Rightarrow> task_store \<Rightarrow> scheduled_action option" where
  "same_action a s = find (\<lambda>item. sa_tenant_id item = sa_tenant_id a \<and>
     sa_idempotency_key item = sa_idempotency_key a) (dict_values (scheduled_actions s))"

lemma same_action_row:
  "scalar (\<lambda>r. sr_tenant_id r = sa_tenant_id a \<and> sr_idempotency_key r = sa_idempotency_key a)
     (map_dict action_model (scheduled_actions s)) = map_option action_model (same_action a s)"
  by (simp add: scalar_def find_map_model same_action_def)

lemma unique_actions:
  "unique (\<lambda>x. (sr_tenant_id x, sr_idempotency_key x)) (action_model a) (map_dict action_model (scheduled_actions s)) \<longleftrightarrow>
     same_action a s = None"
  by (auto simp: unique_def same_action_def find_None_all)

lemma same_action_job:
  assumes "store_ok s" and "same_action a s = Some b"
  shows "sa_job_id b \<noteq> None"
proof -
  have "b \<in> set (dict_values (scheduled_actions s))"
    using assms(2) find_Some_iff_mem by (fastforce simp: same_action_def)
  then obtain i where "dict_get (scheduled_actions s) i = Some b"
    using dict_values_iff[OF store_ok_dicts(5)[OF assms(1)]] by blast
  then show ?thesis using store_ok_action[OF assms(1)] by blast
qed

lemma sql_create_action_refines:
  assumes ok: "store_ok s"
    and run: "sql_create_scheduled_action known isoformat a j ev (db_of s trail) = Inr (b, db)"
  shows "\<exists>t trail'. mem_create_scheduled_action a j ev s = (b, t) \<and> db = db_of t trail'"
proof (cases "scheduled_model a")
  case None
  then show ?thesis using run by (simp add: sql_create_scheduled_action_def)
next
  case (Some row)
  then have row: "row = action_model a" by (auto simp: scheduled_model_def action_model_def)
  let ?log = "\<lambda>db. audit (sa_tenant_id a) (sa_created_by a) ''scheduled_action.created''
    ''scheduled_action'' (sa_id a) [(lit ''kind'', JStr (action_kind_value (sa_kind a))),
      (lit ''scheduled_for'', JStr (isoformat (sa_scheduled_for a)))] db"
  let ?insert = "bind_result (insert_job known (job_model j) (db_of s trail)) (\<lambda>db1.
      bind_result (insert_action known row db1) (\<lambda>db2.
      bind_result (insert_outbox known (outbox_model ev) db2) (\<lambda>db3. Inr ((), ?log db3))))"
  show ?thesis
  proof (cases "commit ?insert")
    case (Inr p)
    then obtain u db' where p: "commit ?insert = Inr (u, db')" by (cases p) auto
    then have b: "b = (a, True)" "db = db'"
      using run Some unfolding sql_create_scheduled_action_def Let_def by auto
    from p obtain db1 db2 db3 where i: "insert_job known (job_model j) (db_of s trail) = Inr db1"
      "insert_action known (action_model a) db1 = Inr db2"
      "insert_outbox known (outbox_model ev) db2 = Inr db3" "db' = ?log db3"
      by (auto simp: commit_Inr bind_result_Inr row simp del: audit_db)
    have "same_action a s = None"
      using i(2) insert_job_db[OF i(1)]
      by (auto simp: insert_action_def statement_Inr unique_actions same_action_def)
    moreover have "\<exists>trail'. db = db_of (s\<lparr>jobs := dict_set (bj_id j) j (jobs s),
        scheduled_actions := dict_set (sa_id a) a (scheduled_actions s),
        outbox_events := dict_set (oe_id ev) ev (outbox_events s)\<rparr>) trail'"
      using i b by (auto dest!: insert_job_db insert_action_db insert_outbox_db)
    moreover have "s\<lparr>jobs := js, scheduled_actions := acts, outbox_events := evs\<rparr> =
        s\<lparr>scheduled_actions := acts, jobs := js, outbox_events := evs\<rparr>" for js acts evs by simp
    ultimately show ?thesis using b by (simp add: mem_create_scheduled_action_def same_action_def)
  next
    case (Inl e)
    then have "e = IntegrityError"
      using run Some unfolding sql_create_scheduled_action_def Let_def by (cases e) auto
    with Inl have c: "commit ?insert = Inl IntegrityError" by simp
    then obtain old where old: "same_action a s = Some old"
      using run Some unfolding sql_create_scheduled_action_def Let_def
      by (auto simp: same_action_row split: option.splits)
    then show ?thesis
      using run Some c same_action_job[OF ok old] unfolding sql_create_scheduled_action_def Let_def
      by (auto simp: same_action_row mem_create_scheduled_action_def same_action_def)
  qed
qed

text \<open>The action that a transition of a scheduled action locks, when it is still pending.\<close>

lemma action_row_found:
  assumes ok: "store_ok s"
  shows "scalar (\<lambda>r. sr_id r = i \<and> sr_tenant_id r = tn) (map_dict action_model (scheduled_actions s)) =
      (case dict_get (scheduled_actions s) i of None \<Rightarrow> None
       | Some v \<Rightarrow> if sa_tenant_id v = tn then Some (action_model v) else None)"
  using actions_scalar[OF store_keyed(5)[OF ok], of i "\<lambda>r. sr_tenant_id r = tn"]
  by (simp cong: option.case_cong)

text \<open>
  The two repositories differ on one point: the SQL repository leaves a terminal job of a canceled
  action alone, the in-memory one overwrites it. They agree while the job is not terminal.
\<close>

definition job_alive :: "uuid \<Rightarrow> task_store \<Rightarrow> bool" where
  "job_alive i s \<longleftrightarrow> (\<forall>a k j. dict_get (scheduled_actions s) i = Some a \<and> sa_status a = ACTION_PENDING \<and>
     sa_job_id a = Some k \<and> dict_get (jobs s) k = Some j \<longrightarrow> \<not> job_terminal (bj_status j))"

lemma sql_cancel_action_refines:
  assumes ok: "store_ok s"
    and alive: "job_alive i s"
    and run: "sql_cancel_scheduled_action tn i actor now (db_of s trail) = Inr (r, db)"
  shows "\<exists>t trail'. mem_cancel_scheduled_action tn i now s = (r, t) \<and> db = db_of t trail'"
proof (cases "dict_get (scheduled_actions s) i")
  case None
  then show ?thesis
    using run action_row_found[OF ok, of i tn]
    by (auto simp: sql_cancel_scheduled_action_def mem_cancel_scheduled_action_def)
next
  case (Some a)
  obtain k j where k: "sa_job_id a = Some k" and j: "dict_get (jobs s) k = Some j"
    using store_ok_action[OF ok Some] by blast
  have ids: "sa_id a = i" "bj_id j = k" using store_ok_ids(1,5)[OF ok] Some j by auto
  consider (other) "sa_tenant_id a \<noteq> tn" | (settled) "sa_tenant_id a = tn" "sa_status a \<noteq> ACTION_PENDING"
    | (pending) "sa_tenant_id a = tn" "sa_status a = ACTION_PENDING" by blast
  then show ?thesis
  proof cases
    case pending
    let ?a = "a\<lparr>sa_status := ACTION_CANCELED, sa_updated_at := now, sa_completed_at := Some now\<rparr>"
    let ?j = "j\<lparr>bj_status := JOB_CANCELED, bj_cancel_requested_at := Some now,
      bj_completed_at := Some now, bj_updated_at := now\<rparr>"
    have nt: "\<not> job_terminal (bj_status j)" using alive Some pending(2) k j by (auto simp: job_alive_def)
    let ?s1 = "s\<lparr>scheduled_actions := dict_set i ?a (scheduled_actions s)\<rparr>"
    let ?s2 = "?s1\<lparr>jobs := dict_set k ?j (jobs s)\<rparr>"
    obtain db1 db2 where u: "update_action (action_model ?a) (db_of s trail) = Inr db1"
      "cancel_linked_job now k db1 = Inr db2" "r = Some ?a"
      "db = audit tn actor ''scheduled_action.canceled'' ''scheduled_action'' i [] db2"
      using run action_row_found[OF ok, of i tn] Some pending k
      by (auto simp: sql_cancel_scheduled_action_def bind_result_Inr commit_Inr Let_def action_row_updates
          simp del: audit_db)
    have db1: "db1 = db_of ?s1 trail" using update_action_db[OF u(1)] ids by simp
    obtain db3 where db3: "update_job (job_model ?j) (db_of ?s1 trail) = Inr db3" "db2 = cancel_outbox_rows k now db3"
      using u(2) j nt ids unfolding db1
      by (auto simp: cancel_linked_job_def bind_result_Inr job_row_updates)
    have "db3 = db_of ?s2 trail" using update_job_db[OF db3(1)] ids by simp
    moreover have "dict_ok (outbox_events ?s2)" using store_ok_dicts(3)[OF ok] by simp
    ultimately have "db2 = db_of (cancel_outbox k now ?s2) trail" using db3(2) cancel_outbox_db by simp
    then show ?thesis
      using u(3,4) Some pending k j ids by (auto simp: mem_cancel_scheduled_action_def Let_def)
  next
    case settled
    then have "r = Some a \<and> db = db_of s trail"
      using run action_row_found[OF ok, of i tn] Some k by (simp add: sql_cancel_scheduled_action_def)
    then show ?thesis using Some settled by (auto simp: mem_cancel_scheduled_action_def)
  next
    case other
    then show ?thesis
      using run action_row_found[OF ok, of i tn] Some
      by (auto simp: sql_cancel_scheduled_action_def mem_cancel_scheduled_action_def)
  qed
qed

lemma map_dict_id [simp]: "map_dict budget_model d = d" "map_dict heartbeat_model e = e"
  by (simp_all add: map_dict_def)

lemma usage_rows_db [simp]: "usage_rows tn agent user day (db_of s trail) = usages_of tn agent user day s"
  by (simp add: usage_rows_def usages_of_def)

lemma sql_charge_budget_refines:
  assumes "sql_charge_budget known d u b (db_of s trail) = Inr (eff, db)"
  shows "\<exists>t. charge_budget d u b s = (eff, t) \<and> db = db_of t trail"
proof (cases u)
  case None
  then show ?thesis using assms by (simp add: sql_charge_budget_def charge_budget_def)
next
  case (Some x)
  let ?day = "usages_of (bu_tenant_id x) (bu_agent_id x) (bu_user_id x) (bu_budget_date x) s"
  have sub: "set ?day \<subseteq> set (dict_values (budget_usages s))" by (auto simp: usages_of_def)
  consider (over) "sum_list (map bu_cost ?day) + bu_cost x > b"
    | (fresh) "\<not> sum_list (map bu_cost ?day) + bu_cost x > b"
        "\<forall>y \<in> set ?day. bu_scheduled_action_id y \<noteq> bu_scheduled_action_id x"
    | (charged) "\<not> sum_list (map bu_cost ?day) + bu_cost x > b"
        "\<exists>y \<in> set ?day. bu_scheduled_action_id y = bu_scheduled_action_id x" by blast
  then show ?thesis
  proof cases
    case over
    then show ?thesis
      using assms Some by (simp add: sql_charge_budget_def charge_budget_def mem_social_budget_used_def Let_def)
  next
    case fresh
    then have ins: "insert_budget known x (db_of s trail) = Inr db" "eff = d"
      using assms Some by (auto simp: sql_charge_budget_def bind_result_Inr Let_def)
    then have "bu_scheduled_action_id x \<notin> bu_scheduled_action_id ` set (dict_values (budget_usages s))"
      by (auto simp: insert_budget_def statement_Inr unique_def)
    moreover have "db = db_of (s\<lparr>budget_usages := dict_set (bu_id x) x (budget_usages s)\<rparr>) trail"
      using ins by (auto simp: insert_budget_def statement_Inr db_of_def)
    ultimately show ?thesis
      using fresh(1) Some ins(2) by (simp add: charge_budget_def mem_social_budget_used_def)
  next
    case charged
    then have "bu_scheduled_action_id x \<in> bu_scheduled_action_id ` set (dict_values (budget_usages s))"
      using sub by (metis image_eqI subsetD)
    moreover have "eff = d" "db = db_of s trail"
      using assms Some charged by (auto simp: sql_charge_budget_def Let_def split: if_splits)
    ultimately show ?thesis
      using charged(1) Some by (simp add: charge_budget_def mem_social_budget_used_def)
  qed
qed

lemma sql_decide_refines:
  assumes ok: "store_ok s"
    and run: "sql_decide_scheduled_action known tn i d u b now (db_of s trail) = Inr (r, db)"
  shows "\<exists>t. mem_decide_scheduled_action tn i d u b now s = (r, t) \<and> db = db_of t trail"
proof (cases "dict_get (scheduled_actions s) i")
  case None
  then show ?thesis
    using run action_row_found[OF ok, of i tn]
    by (auto simp: sql_decide_scheduled_action_def mem_decide_scheduled_action_def)
next
  case (Some a)
  obtain k where k: "sa_job_id a = Some k" using store_ok_action[OF ok Some] by blast
  have id: "sa_id a = i" using store_ok_ids(5)[OF ok Some] .
  consider (other) "sa_tenant_id a \<noteq> tn" | (settled) "sa_tenant_id a = tn" "sa_status a \<noteq> ACTION_PENDING"
    | (pending) "sa_tenant_id a = tn" "sa_status a = ACTION_PENDING" by blast
  then show ?thesis
  proof cases
    case pending
    obtain eff db1 db2 where u: "sql_charge_budget known d u b (db_of s trail) = Inr (eff, db1)"
      "update_action (decided_row eff now (action_model a)) db1 = Inr db2"
      "converted row_scheduled (decided_row eff now (action_model a)) = Inr (the r)" "r = Some (the r)" "db = db2"
      using run action_row_found[OF ok, of i tn] Some pending
      by (auto simp: sql_decide_scheduled_action_def bind_result_Inr commit_Inr)
    obtain s1 where s1: "charge_budget d u b s = (eff, s1)" "db1 = db_of s1 trail"
      using sql_charge_budget_refines[OF u(1)] by blast
    let ?a = "a\<lparr>sa_status := action_status_of eff, sa_score := Some (pd_score eff),
      sa_decision_reasons := pd_reasons eff, sa_updated_at := now, sa_completed_at := Some now\<rparr>"
    have "the r = ?a" using u(3) k by (simp add: action_row_updates)
    moreover have "db2 = db_of (s1\<lparr>scheduled_actions := dict_set i ?a (scheduled_actions s1)\<rparr>) trail"
      using update_action_db[of ?a s1 trail db2] u(2) s1(2) id by (simp add: action_row_updates)
    ultimately show ?thesis
      using u(4,5) s1(1) Some pending by (simp add: mem_decide_scheduled_action_def Let_def)
  next
    case settled
    then have "r = Some a \<and> db = db_of s trail"
      using run action_row_found[OF ok, of i tn] Some k by (simp add: sql_decide_scheduled_action_def)
    then show ?thesis using Some settled by (auto simp: mem_decide_scheduled_action_def)
  next
    case other
    then show ?thesis
      using run action_row_found[OF ok, of i tn] Some
      by (auto simp: sql_decide_scheduled_action_def mem_decide_scheduled_action_def)
  qed
qed

lemma sql_heartbeat_refines:
  assumes key: "keyed wh_worker_id (heartbeats s)"
    and run: "sql_upsert_worker_heartbeat hb (db_of s trail) = Inr (r, db)"
  shows "\<exists>t. mem_upsert_worker_heartbeat hb s = (r, t) \<and> db = db_of t trail"
proof (cases "dict_get (heartbeats s) (wh_worker_id hb)")
  case None
  then show ?thesis
    using run by (auto simp: sql_upsert_worker_heartbeat_def mem_upsert_worker_heartbeat_def Let_def
        bind_result_Inr insert_heartbeat_def statement_Inr db_of_def)
next
  case (Some row)
  have "wh_worker_id row = wh_worker_id hb" using key Some by (simp add: keyed_def)
  then have "row\<lparr>wh_queues := wh_queues hb, wh_current_job_id := wh_current_job_id hb,
      wh_last_seen_at := wh_last_seen_at hb\<rparr> = hb\<lparr>wh_started_at := wh_started_at row\<rparr>"
    by simp
  then show ?thesis
    using run Some by (auto simp: sql_upsert_worker_heartbeat_def mem_upsert_worker_heartbeat_def Let_def
        bind_result_Inr update_heartbeat_def statement_Inr db_of_def)
qed

end
