(* ===== verification/Task_Calls.thy ===== *)
theory Task_Calls
  imports Task_Refinement_Commands Task_Properties
begin

text \<open>
  The protocol \<open>TaskRepository\<close> of the task services as a datatype of its state-changing calls, run
  by the in-memory and by the SQL repository, and the theorem that the second refines the first.
\<close>

datatype task_call =
    Enqueue background_job outbox_event "inbox_event option"
  | Request_Cancel uuid uuid uuid instant
  | Replay uuid uuid background_job outbox_event uuid ustr
  | Claim_Job uuid ustr instant uuid
  | Renew_Job_Lease uuid uuid ustr instant
  | Complete_Job uuid uuid ustr json_dict instant
  | Fail_Job uuid uuid ustr ustr ustr bool bool instant outbox_event instant
  | Claim_Outbox ustr instant instant nat
  | Mark_Outbox_Published uuid ustr instant
  | Mark_Outbox_Failed uuid ustr ustr instant instant
  | Recover_Expired_Leases instant "uuid \<Rightarrow> uuid"
  | Create_Scheduled_Action scheduled_action background_job outbox_event
  | Cancel_Scheduled_Action uuid uuid uuid instant
  | Decide_Scheduled_Action uuid uuid proactive_decision "budget_usage option" int instant
  | Upsert_Worker_Heartbeat worker_heartbeat

datatype task_reply =
    Job_Created "background_job \<times> bool"
  | Job_Found "background_job option"
  | Claimed "job_claim option"
  | Renewed bool
  | Events "outbox_event list"
  | Recovered int
  | Action_Created "scheduled_action \<times> bool"
  | Action_Found "scheduled_action option"
  | Heartbeat worker_heartbeat
  | No_Reply

definition replied :: "('a \<Rightarrow> task_reply) \<Rightarrow> 'a \<times> 's \<Rightarrow> 'e + task_reply \<times> 's" where
  "replied f p = Inr (f (fst p), snd p)"

fun mem_call :: "task_call \<Rightarrow> task_store \<Rightarrow> store_error + task_reply \<times> task_store" where
  "mem_call (Enqueue j ev inbox) s = bind_result (mem_enqueue j ev inbox s) (replied Job_Created)"
| "mem_call (Request_Cancel tn k actor now) s = replied Job_Found (mem_request_cancel tn k now s)"
| "mem_call (Replay tn src j ev actor reason) s = replied Job_Found (mem_replay tn src j ev s)"
| "mem_call (Claim_Job k w now i) s = replied Claimed (mem_claim_job k w now i s)"
| "mem_call (Renew_Job_Lease k i w now) s = replied Renewed (mem_renew_job_lease k i w now s)"
| "mem_call (Complete_Job k i w res now) s = replied Job_Found (mem_complete_job k i w res now s)"
| "mem_call (Fail_Job k i w code summary perm timed retry_at ev now) s =
     replied Job_Found (mem_fail_job k i w code summary perm timed retry_at ev now s)"
| "mem_call (Claim_Outbox w now until limit) s = replied Events (mem_claim_outbox w now until (int limit) s)"
| "mem_call (Mark_Outbox_Published i w now) s = Inr (No_Reply, mem_mark_outbox_published i w now s)"
| "mem_call (Mark_Outbox_Failed i w code retry_at now) s =
     Inr (No_Reply, mem_mark_outbox_failed i w code retry_at now s)"
| "mem_call (Recover_Expired_Leases now fresh) s = replied Recovered (mem_recover_expired_leases now fresh s)"
| "mem_call (Create_Scheduled_Action a j ev) s = replied Action_Created (mem_create_scheduled_action a j ev s)"
| "mem_call (Cancel_Scheduled_Action tn i actor now) s =
     replied Action_Found (mem_cancel_scheduled_action tn i now s)"
| "mem_call (Decide_Scheduled_Action tn i d u b now) s =
     replied Action_Found (mem_decide_scheduled_action tn i d u b now s)"
| "mem_call (Upsert_Worker_Heartbeat hb) s = replied Heartbeat (mem_upsert_worker_heartbeat hb s)"

fun sql_call ::
    "known_rows \<Rightarrow> (outbox_row list \<Rightarrow> outbox_row list) \<Rightarrow> (instant \<Rightarrow> ustr) \<Rightarrow> task_call \<Rightarrow> task_db \<Rightarrow>
       (task_reply \<times> task_db) sql" where
  "sql_call known scan isoformat (Enqueue j ev inbox) db =
     bind_result (sql_enqueue known j ev inbox db) (replied Job_Created)"
| "sql_call known scan isoformat (Request_Cancel tn k actor now) db =
     bind_result (sql_request_cancel tn k actor now db) (replied Job_Found)"
| "sql_call known scan isoformat (Replay tn src j ev actor reason) db =
     bind_result (sql_replay known tn src j ev actor reason db) (replied Job_Found)"
| "sql_call known scan isoformat (Claim_Job k w now i) db =
     bind_result (sql_claim_job known (\<lambda>_. False) k w now i db) (replied Claimed)"
| "sql_call known scan isoformat (Renew_Job_Lease k i w now) db =
     bind_result (sql_renew_job_lease k i w now db) (replied Renewed)"
| "sql_call known scan isoformat (Complete_Job k i w res now) db =
     bind_result (sql_complete_job k i w res now db) (replied Job_Found)"
| "sql_call known scan isoformat (Fail_Job k i w code summary perm timed retry_at ev now) db =
     bind_result (sql_fail_job known k i w code summary perm timed retry_at ev now db) (replied Job_Found)"
| "sql_call known scan isoformat (Claim_Outbox w now until limit) db =
     bind_result (sql_claim_outbox scan (\<lambda>_. False) w now until limit db) (replied Events)"
| "sql_call known scan isoformat (Mark_Outbox_Published i w now) db =
     Inr (No_Reply, sql_mark_outbox_published i w now db)"
| "sql_call known scan isoformat (Mark_Outbox_Failed i w code retry_at now) db =
     bind_result (sql_mark_outbox_failed i w code retry_at now db) (\<lambda>db1. Inr (No_Reply, db1))"
| "sql_call known scan isoformat (Recover_Expired_Leases now fresh) db =
     bind_result (sql_recover_expired_leases known (\<lambda>_. False) now fresh db) (replied Recovered)"
| "sql_call known scan isoformat (Create_Scheduled_Action a j ev) db =
     bind_result (sql_create_scheduled_action known isoformat a j ev db) (replied Action_Created)"
| "sql_call known scan isoformat (Cancel_Scheduled_Action tn i actor now) db =
     bind_result (sql_cancel_scheduled_action tn i actor now db) (replied Action_Found)"
| "sql_call known scan isoformat (Decide_Scheduled_Action tn i d u b now) db =
     bind_result (sql_decide_scheduled_action known tn i d u b now db) (replied Action_Found)"
| "sql_call known scan isoformat (Upsert_Worker_Heartbeat hb) db =
     bind_result (sql_upsert_worker_heartbeat hb db) (replied Heartbeat)"

text \<open>
  What the services observe when they call: drawn identifiers are new, an attempt is reported with
  its own job. Two restrictions are where the repositories may differ: due events that tie in their
  times may be claimed in another order, and the job of a canceled action may be terminal.
\<close>

definition no_ties :: "instant \<Rightarrow> task_store \<Rightarrow> bool" where
  "no_ties now s \<longleftrightarrow> inj_on (\<lambda>e. (oe_available_at e, oe_created_at e))
     {e \<in> set (dict_values (outbox_events s)). outbox_due now e}"

fun call_ok :: "task_call \<Rightarrow> task_store \<Rightarrow> bool" where
  "call_ok (Enqueue j ev inbox) s \<longleftrightarrow> new_job j s \<and> fresh_event ev (bj_id j) (bj_tenant_id j) s \<and>
     fresh_inbox inbox j s"
| "call_ok (Replay tn src j ev actor reason) s \<longleftrightarrow> new_job j s \<and>
     fresh_event ev (bj_id j) (bj_tenant_id j) s \<and> bj_source_inbox_id j = None"
| "call_ok (Claim_Job k w now i) s \<longleftrightarrow> dict_get (attempts s) i = None"
| "call_ok (Complete_Job k i w res now) s \<longleftrightarrow> own_attempt k i s"
| "call_ok (Fail_Job k i w code summary perm timed retry_at ev now) s \<longleftrightarrow> own_attempt k i s \<and>
     (\<forall>j. dict_get (jobs s) k = Some j \<longrightarrow> fresh_event ev k (bj_tenant_id j) s)"
| "call_ok (Claim_Outbox w now until limit) s \<longleftrightarrow> no_ties now s"
| "call_ok (Recover_Expired_Leases now fresh) s \<longleftrightarrow> fresh_ids fresh s"
| "call_ok (Create_Scheduled_Action a j ev) s \<longleftrightarrow> new_job j s \<and>
     fresh_event ev (bj_id j) (bj_tenant_id j) s \<and> fresh_action (Some a) j s"
| "call_ok (Cancel_Scheduled_Action tn i actor now) s \<longleftrightarrow> job_alive i s"
| "call_ok _ s \<longleftrightarrow> True"

lemma mem_call_step:
  assumes "call_ok c s" and "mem_call c s = Inr (reply, t)"
  shows "task_step s t"
  using assms
proof (cases c)
  case (Enqueue j ev inbox)
  with assms show ?thesis
    by (auto simp: bind_result_Inr replied_def intro: task_step.enqueue)
next
  case (Fail_Job k i w code summary perm timed retry_at ev now)
  with assms have c: "own_attempt k i s" "\<And>j. dict_get (jobs s) k = Some j \<Longrightarrow> fresh_event ev k (bj_tenant_id j) s"
    "t = snd (mem_fail_job k i w code summary perm timed retry_at ev now s)"
    by (auto simp: replied_def)
  show ?thesis unfolding c(3) by (rule task_step.fail[OF c(1,2) surjective_pairing])
next
  case (Recover_Expired_Leases now fresh)
  with assms have c: "fresh_ids fresh s" "t = snd (mem_recover_expired_leases now fresh s)"
    by (auto simp: replied_def)
  show ?thesis unfolding c(2) by (rule task_step.recover[OF c(1) surjective_pairing])
qed (auto simp: replied_def intro: task_step.intros surjective_pairing)

text \<open>Heartbeats carry their own key in every reachable state.\<close>

lemma set_inbox_heartbeats [simp]: "heartbeats (set_inbox_status j st now code s) = heartbeats s"
  by (simp add: set_inbox_status_def split: option.split)

lemma cancel_outbox_heartbeats [simp]: "heartbeats (cancel_outbox k now s) = heartbeats s"
  by (simp add: cancel_outbox_def)

lemma recover_heartbeats: "heartbeats (snd (mem_recover_expired_leases now fresh s)) = heartbeats s"
proof -
  have "heartbeats (snd (fold (\<lambda>(job_id, item) (n, s). if job_lease_expired now item
      then (n + 1, recover_job now fresh job_id item s) else (n, s)) xs (m, s))) = heartbeats s" for xs m s
  proof (induction xs arbitrary: m s)
    case (Cons x xs)
    then show ?case by (cases x) (simp add: recover_job_def Let_def)
  qed simp
  then show ?thesis
    by (simp add: mem_recover_expired_leases_def recover_jobs_def case_prod_unfold)
qed

lemma task_step_heartbeats:
  "task_step s t \<Longrightarrow> keyed wh_worker_id (heartbeats s) \<Longrightarrow> keyed wh_worker_id (heartbeats t)"
proof (induction rule: task_step.induct)
  case (enqueue j s ev inbox b t)
  then have "heartbeats t = heartbeats s"
    by (auto simp: mem_enqueue_def Let_def split: option.splits)
  with enqueue show ?case by simp
next
  case (recover fresh s now n t)
  then show ?case using recover_heartbeats[of now fresh s] by simp
next
  case (heartbeat hb s hb' t)
  then show ?case
    by (auto simp: mem_upsert_worker_heartbeat_def Let_def split: option.splits intro!: keyed_set)
next
  case (decide tn i d u budget now s ao t)
  then show ?case using decide_frame(5) by simp
qed (auto simp: mem_request_cancel_def mem_replay_def mem_claim_job_def mem_renew_job_lease_def
    mem_complete_job_def mem_fail_job_def mem_claim_outbox_def mem_mark_outbox_published_def
    mem_mark_outbox_failed_def mem_create_scheduled_action_def mem_cancel_scheduled_action_def Let_def
    split: option.splits prod.splits if_splits)

lemma reachable_heartbeats: "reachable_store s \<Longrightarrow> keyed wh_worker_id (heartbeats s)"
  by (induction rule: reachable.induct)
    (auto simp: empty_store_def keyed_def dict_get_def dest: task_step_heartbeats)

section \<open>Properties\<close>

lemma mem_called:
  "bind_result r (replied f) = Inr (reply, t) \<longleftrightarrow> (\<exists>a. r = Inr (a, t) \<and> reply = f a)"
  "replied f p = Inr (reply, t) \<longleftrightarrow> (\<exists>a. p = (a, t) \<and> reply = f a)"
  by (auto simp: bind_result_Inr replied_def) (metis prod.collapse)

lemma sql_call_mem:
  assumes ok: "store_ok s" and hb: "keyed wh_worker_id (heartbeats s)" and call: "call_ok c s"
    and scan: "\<And>rs. mset (scan rs) = mset rs"
    and run: "sql_call known scan isoformat c (db_of s trail) = Inr (reply, db)"
  shows "\<exists>t trail'. mem_call c s = Inr (reply, t) \<and> db = db_of t trail'"
proof (cases c)
  case (Enqueue j ev inbox)
  with run obtain b where b: "sql_enqueue known j ev inbox (db_of s trail) = Inr (b, db)"
    "reply = Job_Created b" by (auto simp: mem_called)
  show ?thesis using sql_enqueue_refines[OF b(1)] b(2) Enqueue by (auto simp: replied_def)
next
  case (Request_Cancel tn k actor now)
  with run obtain b where b: "sql_request_cancel tn k actor now (db_of s trail) = Inr (b, db)"
    "reply = Job_Found b" by (auto simp: mem_called)
  show ?thesis using sql_request_cancel_refines[OF ok b(1)] b(2) Request_Cancel by (auto simp: replied_def)
next
  case (Replay tn src j ev actor reason)
  with run obtain b where b: "sql_replay known tn src j ev actor reason (db_of s trail) = Inr (b, db)"
    "reply = Job_Found b" by (auto simp: mem_called)
  show ?thesis using sql_replay_refines[OF ok b(1)] b(2) Replay by (auto simp: replied_def)
next
  case (Claim_Job k w now i)
  with run obtain b where b: "sql_claim_job known (\<lambda>_. False) k w now i (db_of s trail) = Inr (b, db)"
    "reply = Claimed b" by (auto simp: mem_called)
  show ?thesis using sql_claim_refines[OF ok b(1)] b(2) Claim_Job by (auto simp: replied_def)
next
  case (Renew_Job_Lease k i w now)
  with run obtain b where b: "sql_renew_job_lease k i w now (db_of s trail) = Inr (b, db)"
    "reply = Renewed b" by (auto simp: mem_called)
  show ?thesis using sql_renew_refines[OF ok b(1)] b(2) Renew_Job_Lease by (auto simp: replied_def)
next
  case (Complete_Job k i w res now)
  with run obtain b where b: "sql_complete_job k i w res now (db_of s trail) = Inr (b, db)"
    "reply = Job_Found b" by (auto simp: mem_called)
  have own: "own_attempt k i s" using call Complete_Job by simp
  show ?thesis using sql_complete_refines[OF ok own b(1)] b(2) Complete_Job by (auto simp: replied_def)
next
  case (Fail_Job k i w code summary perm timed retry_at ev now)
  with run obtain b where b: "sql_fail_job known k i w code summary perm timed retry_at ev now (db_of s trail) =
      Inr (b, db)" "reply = Job_Found b" by (auto simp: mem_called)
  have own: "own_attempt k i s" using call Fail_Job by simp
  show ?thesis using sql_fail_refines[OF ok own b(1)] b(2) Fail_Job by (auto simp: replied_def)
next
  case (Claim_Outbox w now until limit)
  with run obtain b where b: "sql_claim_outbox scan (\<lambda>_. False) w now until limit (db_of s trail) = Inr (b, db)"
    "reply = Events b" by (auto simp: mem_called)
  have ties: "inj_on (\<lambda>e. (oe_available_at e, oe_created_at e))
      {e \<in> set (dict_values (outbox_events s)). outbox_due now e}"
    using call Claim_Outbox by (simp add: no_ties_def)
  show ?thesis using sql_claim_outbox_refines[OF ok scan ties b(1)] b(2) Claim_Outbox by (auto simp: replied_def)
next
  case (Mark_Outbox_Published i w now)
  then show ?thesis using run sql_mark_published_refines[OF ok] by auto
next
  case (Mark_Outbox_Failed i w code retry_at now)
  with run have b: "sql_mark_outbox_failed i w code retry_at now (db_of s trail) = Inr db" "reply = No_Reply"
    by (auto simp: bind_result_Inr)
  show ?thesis using sql_mark_failed_refines[OF ok b(1)] b(2) Mark_Outbox_Failed by auto
next
  case (Recover_Expired_Leases now fresh)
  with run obtain b where b: "sql_recover_expired_leases known (\<lambda>_. False) now fresh (db_of s trail) = Inr (b, db)"
    "reply = Recovered b" by (auto simp: mem_called)
  show ?thesis using sql_recover_refines[OF ok b(1)] b(2) Recover_Expired_Leases by (auto simp: replied_def)
next
  case (Create_Scheduled_Action a j ev)
  with run obtain b where b: "sql_create_scheduled_action known isoformat a j ev (db_of s trail) = Inr (b, db)"
    "reply = Action_Created b" by (auto simp: mem_called)
  show ?thesis using sql_create_action_refines[OF ok b(1)] b(2) Create_Scheduled_Action by (auto simp: replied_def)
next
  case (Cancel_Scheduled_Action tn i actor now)
  with run obtain b where b: "sql_cancel_scheduled_action tn i actor now (db_of s trail) = Inr (b, db)"
    "reply = Action_Found b" by (auto simp: mem_called)
  have alive: "job_alive i s" using call Cancel_Scheduled_Action by simp
  from sql_cancel_action_refines[OF ok alive b(1)] show ?thesis
    using b(2) Cancel_Scheduled_Action by (auto simp: replied_def)
next
  case (Decide_Scheduled_Action tn i d u m now)
  with run obtain b where b: "sql_decide_scheduled_action known tn i d u m now (db_of s trail) = Inr (b, db)"
    "reply = Action_Found b" by (auto simp: mem_called)
  show ?thesis using sql_decide_refines[OF ok b(1)] b(2) Decide_Scheduled_Action by (auto simp: replied_def)
next
  case (Upsert_Worker_Heartbeat h)
  with run obtain b where b: "sql_upsert_worker_heartbeat h (db_of s trail) = Inr (b, db)"
    "reply = Heartbeat b" by (auto simp: mem_called)
  show ?thesis using sql_heartbeat_refines[OF hb b(1)] b(2) Upsert_Worker_Heartbeat by (auto simp: replied_def)
qed

text \<open>
  C8: The SQL repository refines the in-memory one, for callers that keep \<open>call_ok\<close>, while no other
  transaction holds a lock on a row. On the tables of any state the repository can
  reach, such a call that commits gives the reply of the in-memory call and leaves the tables of its new
  state, which is reachable again. \<open>call_ok\<close> asks that drawn identifiers are new, that an attempt is
  reported with its own job, that due events do not tie in their times, and that the job of an action to
  cancel has not ended: where one of the last three fails the two repositories can differ
  (\<open>canceling_action_spares_job_only_in_sql\<close>, \<open>foreign_attempt_breaks_store\<close>).
\<close>

theorem sql_refines_memory:
  assumes "reachable_store s" and "call_ok c s" and "\<forall>rs. mset (scan rs) = mset rs"
    and "sql_call known scan isoformat c (db_of s trail) = Inr (reply, db)"
  shows "\<exists>t trail'. mem_call c s = Inr (reply, t) \<and> db = db_of t trail' \<and> reachable_store t"
proof -
  obtain t trail' where t: "mem_call c s = Inr (reply, t)" "db = db_of t trail'"
    using sql_call_mem[OF reachable_ok[OF assms(1)] reachable_heartbeats[OF assms(1)] assms(2) _ assms(4)]
      assms(3) by blast
  have "reachable_store t" by (rule next_state[OF assms(1) mem_call_step[OF assms(2) t(1)]])
  with t show ?thesis by blast
qed

theorem sql_refines_memory_witness:
  "\<exists>db t trail'. sql_call (\<lambda>t u. True) (\<lambda>rs. rs) (\<lambda>_. []) (Complete_Job 10 200 (lit ''w'') [] 6) (db_of running []) =
     Inr (Job_Found (fst (mem_complete_job 10 200 (lit ''w'') [] 6 running)), db) \<and>
   mem_call (Complete_Job 10 200 (lit ''w'') [] 6) running =
     Inr (Job_Found (fst (mem_complete_job 10 200 (lit ''w'') [] 6 running)), t) \<and>
   db = db_of t trail' \<and> reachable_store t"
proof -
  let ?c = "Complete_Job 10 200 (lit ''w'') [] 6"
  let ?r = "sql_call (\<lambda>t u. True) (\<lambda>rs. rs) (\<lambda>_. []) ?c (db_of running [])"
  have own: "call_ok ?c running" using running_own by simp
  have "case ?r of Inr p \<Rightarrow> fst p = Job_Found (fst (mem_complete_job 10 200 (lit ''w'') [] 6 running)) | Inl e \<Rightarrow> False"
    by code_simp
  then obtain db where db: "?r = Inr (Job_Found (fst (mem_complete_job 10 200 (lit ''w'') [] 6 running)), db)"
    by (cases ?r) auto
  have "\<forall>rs. mset ((\<lambda>rs. rs) rs) = mset rs" by simp
  from sql_refines_memory[OF reachable_running own this db] db show ?thesis by blast
qed

text \<open>
  The repositories differ when a pending action is canceled whose job is already terminal: the
  in-memory repository overwrites the job's outcome with a cancellation at the current time, the SQL
  repository leaves the job as it ended.
\<close>

lemma canceling_action_spares_job_only_in_sql:
  assumes "reachable_store s" and "dict_get (scheduled_actions s) i = Some a"
    and "sa_tenant_id a = tn" and "sa_status a = ACTION_PENDING" and "sa_job_id a = Some k"
    and "dict_get (jobs s) k = Some j" and "job_terminal (bj_status j)"
    and "sql_cancel_scheduled_action tn i actor now (db_of s trail) = Inr (r, db)"
  shows "dict_get (job_table db) k = Some (job_model j) \<and>
    (\<exists>j'. dict_get (jobs (snd (mem_cancel_scheduled_action tn i now s))) k = Some j' \<and>
      bj_status j' = JOB_CANCELED \<and> bj_completed_at j' = Some now)"
proof
  have ok: "store_ok s" using assms(1) by (rule reachable_ok)
  have ids: "bj_id j = k" using store_ok_ids(1)[OF ok assms(6)] .
  let ?a = "a\<lparr>sa_status := ACTION_CANCELED, sa_updated_at := now, sa_completed_at := Some now\<rparr>"
  obtain db1 db2 where u: "update_action (action_model ?a) (db_of s trail) = Inr db1"
    "cancel_linked_job now k db1 = Inr db2"
    "db = audit tn actor ''scheduled_action.canceled'' ''scheduled_action'' i [] db2"
    using assms(8) action_row_found[OF ok, of i tn] assms(2-5)
    by (auto simp: sql_cancel_scheduled_action_def bind_result_Inr commit_Inr Let_def action_row_updates
        simp del: audit_db)
  have job: "dict_get (job_table db1) k = Some (job_model j)"
    using assms(6) by (simp add: update_action_db[OF u(1)])
  then have "db2 = db1" using u(2) assms(7) by (simp add: cancel_linked_job_def)
  with job show "dict_get (job_table db) k = Some (job_model j)" by (simp add: u(3) audit_def)
  show "\<exists>j'. dict_get (jobs (snd (mem_cancel_scheduled_action tn i now s))) k = Some j' \<and>
      bj_status j' = JOB_CANCELED \<and> bj_completed_at j' = Some now"
    using assms(2-6) ids by (simp add: mem_cancel_scheduled_action_def Let_def cancel_outbox_def)
qed

definition sample_action :: scheduled_action where
  "sample_action = \<lparr>sa_id = 400, sa_tenant_id = 1, sa_agent_id = 2, sa_user_id = 3,
     sa_conversation_id = None, sa_kind = FOLLOW_UP, sa_status = ACTION_PENDING, sa_scheduled_for = 0,
     sa_expires_at = None, sa_idempotency_key = lit ''k'', sa_reason = lit ''r'', sa_payload = [],
     sa_score = None, sa_social_cost = 1, sa_decision_reasons = [], sa_job_id = Some 10,
     sa_created_by = 3, sa_created_at = 0, sa_updated_at = 0, sa_completed_at = None\<rparr>"

definition scheduled :: task_store where
  "scheduled = snd (mem_create_scheduled_action sample_action (sample_job 10 2) (sample_event 100 10) empty_store)"

definition scheduled_canceled :: task_store where
  "scheduled_canceled = snd (mem_request_cancel 1 10 5 scheduled)"

lemma reachable_scheduled: "reachable_store scheduled"
proof (rule next_state[OF reachable_empty], rule task_step.create_action)
  show "new_job (sample_job 10 2) empty_store" by code_simp
  show "fresh_event (sample_event 100 10) (bj_id (sample_job 10 2)) (bj_tenant_id (sample_job 10 2)) empty_store"
    by code_simp
  show "fresh_action (Some sample_action) (sample_job 10 2) empty_store" by code_simp
  show "mem_create_scheduled_action sample_action (sample_job 10 2) (sample_event 100 10) empty_store =
      (fst (mem_create_scheduled_action sample_action (sample_job 10 2) (sample_event 100 10) empty_store), scheduled)"
    by (simp add: scheduled_def)
qed

lemma reachable_scheduled_canceled: "reachable_store scheduled_canceled"
  by (rule next_state[OF reachable_scheduled], rule task_step.request_cancel[of 1 10 5 _
        "fst (mem_request_cancel 1 10 5 scheduled)"]) (simp add: scheduled_canceled_def)

lemma canceling_action_spares_job_only_in_sql_instance:
  "\<exists>r db. sql_cancel_scheduled_action 1 400 9 50 (db_of scheduled_canceled []) = Inr (r, db) \<and>
     dict_get (job_table db) 10 = Some (job_model (the (dict_get (jobs scheduled_canceled) 10)))"
proof -
  let ?r = "sql_cancel_scheduled_action 1 400 9 50 (db_of scheduled_canceled [])"
  let ?j = "the (dict_get (jobs scheduled_canceled) 10)"
  have "case ?r of Inr p \<Rightarrow> True | Inl e \<Rightarrow> False" by code_simp
  then obtain r db where db: "?r = Inr (r, db)" by (cases ?r) auto
  have "dict_get (scheduled_actions scheduled_canceled) 400 = Some sample_action"
    "sa_tenant_id sample_action = 1" "sa_status sample_action = ACTION_PENDING"
    "sa_job_id sample_action = Some 10" "dict_get (jobs scheduled_canceled) 10 = Some ?j"
    "job_terminal (bj_status ?j)" by code_simp+
  from canceling_action_spares_job_only_in_sql[OF reachable_scheduled_canceled this db] db
  show ?thesis by blast
qed

end
