(* ===== verification/Task_Service.thy ===== *)
theory Task_Service
  imports Task_Machine
begin

text \<open>
  \<open>BackgroundTaskService\<close> and \<open>ScheduledActionService\<close>
  (\<open>packages/application/.../task_service.py\<close>) over the in-memory repository. A method is a
  function of its arguments, of what it draws from outside (\<open>now\<close> for \<open>datetime.now(UTC)\<close>,
  identifiers for \<open>uuid4()\<close>), and of the store; it returns an error or a value with the new store.
  An exception carries its class and what its message varies in; the label that a message names
  is a \<open>text_label\<close>.
\<close>

section \<open>Errors and argument checks\<close>

datatype text_label =
    DeduplicationKey | EventKey | EventType | ReplayReason | PublisherId | WorkerId | QueueName
  | IdempotencyKey | ActionReason | PlainText

datatype number_label = LeaseSecondsLabel | RetryBaseLabel | PublishLeaseLabel | StaleLabel

datatype time_label = AvailableAtLabel | StartedAtLabel | ScheduledForLabel | ExpiresAtLabel

datatype validation =
    EmptyText text_label
  | TextTooLong text_label int
  | SensitiveKey ustr
  | PayloadTooLarge
  | ResultTooLarge
  | AttemptsOutOfRange
  | NotPositive number_label
  | LimitOutOfRange
  | NaiveTime time_label
  | NotConfirmed
  | DepthOutOfRange
  | NoQueues
  | ExpiresTooEarly
  | CostOutOfRange

datatype conflict = AlreadyEnded | NotReplayable | ReplayBlocked ustr

datatype service_error =
    TaskValidationError validation
  | TaskNotFoundError uuid
  | TaskConflictError conflict
  | PermanentTaskError uuid
  | StoreError store_error
  | UnicodeEncodeError

definition queue_by_kind :: "job_kind \<Rightarrow> ustr" where
  "queue_by_kind kind = (case kind of
     REFLECTION \<Rightarrow> lit ''reflection''
   | EPISODE_CONSOLIDATION \<Rightarrow> lit ''memory''
   | MEMORY_EXTRACTION \<Rightarrow> lit ''memory''
   | EMBEDDING_REBUILD \<Rightarrow> lit ''memory''
   | RELATIONSHIP_UPDATE \<Rightarrow> lit ''memory''
   | SCHEDULED_ACTION \<Rightarrow> lit ''proactive''
   | INBOUND_MESSAGE \<Rightarrow> lit ''inbound''
   | NOTIFICATION_DELIVERY \<Rightarrow> lit ''notification''
   | CHANNEL_CONNECTION_TEST \<Rightarrow> lit ''channel'')"

definition known_queues :: "ustr list" where
  "known_queues = map queue_by_kind [REFLECTION, EPISODE_CONSOLIDATION, MEMORY_EXTRACTION,
     EMBEDDING_REBUILD, RELATIONSHIP_UPDATE, SCHEDULED_ACTION, INBOUND_MESSAGE,
     NOTIFICATION_DELIVERY, CHANNEL_CONNECTION_TEST]"

definition terminal_replayable :: "job_status \<Rightarrow> bool" where
  "terminal_replayable st \<longleftrightarrow> st = JOB_FAILED \<or> st = JOB_DEAD_LETTER \<or> st = JOB_CANCELED"

definition sensitive_key_parts :: "ustr list" where
  "sensitive_key_parts =
     [lit ''password'', lit ''secret'', lit ''token'', lit ''api_key'', lit ''credential'']"

definition required_text :: "ustr \<Rightarrow> text_label \<Rightarrow> int \<Rightarrow> service_error + ustr" where
  "required_text value label maximum =
     (let normalized = strip value
      in if normalized = [] then Inl (TaskValidationError (EmptyText label))
         else if int (length normalized) > maximum
         then Inl (TaskValidationError (TextTooLong label maximum))
         else Inr normalized)"

definition optional_text :: "ustr option \<Rightarrow> int \<Rightarrow> service_error + ustr option" where
  "optional_text value maximum =
     (case value of
        None \<Rightarrow> Inr None
      | Some v \<Rightarrow>
          if strip v = [] then Inr None
          else bind_result (required_text v PlainText maximum) (\<lambda>t. Inr (Some t)))"

definition require_aware :: "py_datetime \<Rightarrow> time_label \<Rightarrow> service_error + instant" where
  "require_aware value label =
     (case value of Naive _ \<Rightarrow> Inl (TaskValidationError (NaiveTime label)) | Aware t \<Rightarrow> Inr t)"

definition require_positive :: "int \<Rightarrow> number_label \<Rightarrow> service_error + int" where
  "require_positive value label =
     (if \<not> (1 \<le> value \<and> value \<le> 86400) then Inl (TaskValidationError (NotPositive label)) else Inr value)"

definition require_limit :: "int \<Rightarrow> service_error + int" where
  "require_limit value =
     (if \<not> (1 \<le> value \<and> value \<le> 500) then Inl (TaskValidationError LimitOutOfRange) else Inr value)"

definition check_attempts :: "int \<Rightarrow> service_error + unit" where
  "check_attempts n =
     (if \<not> (1 \<le> n \<and> n \<le> 20) then Inl (TaskValidationError AttemptsOutOfRange) else Inr ())"

section \<open>Payloads\<close>

definition sensitive_key :: "ustr \<Rightarrow> bool" where
  "sensitive_key key \<longleftrightarrow> (\<exists>part \<in> set sensitive_key_parts. contains part (casefold key))"

definition bad_key :: "json_dict \<Rightarrow> ustr option" where
  "bad_key d = map_option fst (find (\<lambda>(key, _). sensitive_key key) d)"

definition nested_dicts :: "json_dict \<Rightarrow> json_dict list" where
  "nested_dicts d = concat (map (\<lambda>(_, v). child_dicts v) d)"

lemma nested_size:
  "sum_list (map (\<lambda>d. size (JDict d)) (nested_dicts d)) < size (JDict d)"
proof -
  have elems: "sum_list (map (\<lambda>d. size (JDict d)) (dict_elems vs)) \<le> size_list size vs" for vs
    by (induction vs rule: dict_elems.induct) auto
  have child: "sum_list (map (\<lambda>d. size (JDict d)) (child_dicts v)) \<le> size v" for v
    using elems[of "case v of JList vs \<Rightarrow> vs | _ \<Rightarrow> []"] by (cases v) (simp_all add: child_dicts_def)
  show ?thesis
  proof (induction d)
    case Nil
    then show ?case by (simp add: nested_dicts_def)
  next
    case (Cons p d)
    then show ?case using child[of "snd p"] by (cases p) (auto simp: nested_dicts_def)
  qed
qed

text \<open>
  \<open>_reject_sensitive_keys\<close>: the list \<open>pending\<close> is a stack, its top is the head here. The first
  sensitive key that the loop meets is returned, \<open>None\<close> when the loop ends.
\<close>

function reject_sensitive_keys :: "json_dict list \<Rightarrow> ustr option" where
  "reject_sensitive_keys [] = None"
| "reject_sensitive_keys (current # pending) =
     (case bad_key current of
        Some key \<Rightarrow> Some key
      | None \<Rightarrow> reject_sensitive_keys (rev (nested_dicts current) @ pending))"
  by pat_completeness auto
termination
proof (relation "measure (\<lambda>ds. sum_list (map (\<lambda>d. size (JDict d)) ds))")
  fix current :: json_dict and pending
  have "sum_list (map (\<lambda>d. size (JDict d)) (rev (nested_dicts current))) < size (JDict current)"
    using nested_size[of current] by (simp add: rev_map[symmetric])
  then show "(rev (nested_dicts current) @ pending, current # pending)
      \<in> measure (\<lambda>ds. sum_list (map (\<lambda>d. size (JDict d)) ds))"
    by simp
qed simp

definition surrogate :: "nat \<Rightarrow> bool" where
  "surrogate c \<longleftrightarrow> 55296 \<le> c \<and> c \<le> 57343"

text \<open>\<open>len(s.encode("utf-8"))\<close>, which raises on a lone surrogate.\<close>

definition encoded_size :: "ustr \<Rightarrow> service_error + nat" where
  "encoded_size s = (if \<exists>c \<in> set s. surrogate c then Inl UnicodeEncodeError else Inr (utf8_length s))"

definition normalize_payload :: "(rat \<Rightarrow> ustr) \<Rightarrow> json_dict \<Rightarrow> service_error + json_dict" where
  "normalize_payload fr value =
     (case reject_sensitive_keys [value] of
        Some key \<Rightarrow> Inl (TaskValidationError (SensitiveKey key))
      | None \<Rightarrow> bind_result (encoded_size (dumps_compact fr (JDict value))) (\<lambda>n.
          if n > 64 * 1024 then Inl (TaskValidationError PayloadTooLarge) else Inr value))"

definition normalize_result :: "(rat \<Rightarrow> ustr) \<Rightarrow> json_dict \<Rightarrow> service_error + json_dict" where
  "normalize_result fr value =
     (case reject_sensitive_keys [value] of
        Some key \<Rightarrow> Inl (TaskValidationError (SensitiveKey key))
      | None \<Rightarrow> bind_result (encoded_size (dumps_default fr (JDict value))) (\<lambda>n.
          if n > 8 * 1024 then Inl (TaskValidationError ResultTooLarge) else Inr value))"

section \<open>Enqueueing\<close>

definition make_outbox :: "uuid \<Rightarrow> background_job \<Rightarrow> instant \<Rightarrow> instant \<Rightarrow> outbox_event" where
  "make_outbox new_id job now available_at =
     \<lparr>oe_id = new_id, oe_tenant_id = bj_tenant_id job, oe_job_id = bj_id job,
      oe_event_type = lit ''background_job.dispatch_requested'',
      oe_payload = [(lit ''job_id'', JStr (uuid_str (bj_id job))), (lit ''queue'', JStr (bj_queue job))],
      oe_status = OUTBOX_PENDING, oe_attempt_count = 0, oe_max_attempts = max 5 (bj_max_attempts job),
      oe_available_at = available_at, oe_lease_owner = None, oe_lease_expires_at = None,
      oe_last_error_code = None, oe_created_at = now, oe_published_at = None, oe_updated_at = now\<rparr>"

text \<open>The arguments of \<open>BackgroundTaskService.enqueue\<close>.\<close>

record enqueue_args =
  ea_tenant_id :: uuid
  ea_kind :: job_kind
  ea_payload :: json_dict
  ea_deduplication_key :: ustr
  ea_created_by :: "uuid option"
  ea_agent_id :: "uuid option"
  ea_max_attempts :: int
  ea_lease_seconds :: int
  ea_retry_base_seconds :: int
  ea_available_at :: "py_datetime option"
  ea_correlation_id :: "ustr option"
  ea_source_inbox :: "inbox_event option"
  ea_job_id :: "uuid option"

definition or_else :: "'a option \<Rightarrow> 'a option \<Rightarrow> 'a option" where
  "or_else a b = (case a of None \<Rightarrow> b | Some x \<Rightarrow> Some x)"

definition pending_job ::
    "enqueue_args \<Rightarrow> uuid \<Rightarrow> json_dict \<Rightarrow> ustr \<Rightarrow> ustr option \<Rightarrow> instant \<Rightarrow> instant \<Rightarrow> background_job" where
  "pending_job args job_id payload key correlation_id due_at now =
     \<lparr>bj_id = job_id, bj_tenant_id = ea_tenant_id args, bj_kind = ea_kind args,
      bj_queue = queue_by_kind (ea_kind args), bj_status = JOB_PENDING, bj_payload = payload,
      bj_deduplication_key = key, bj_source_inbox_id = map_option ie_id (ea_source_inbox args),
      bj_correlation_id = correlation_id, bj_attempt_count = 0,
      bj_max_attempts = ea_max_attempts args, bj_lease_seconds = ea_lease_seconds args,
      bj_retry_base_seconds = ea_retry_base_seconds args, bj_available_at = due_at,
      bj_lease_owner = None, bj_lease_expires_at = None, bj_cancel_requested_at = None,
      bj_last_error_code = None, bj_last_error_summary = None, bj_result_summary = [],
      bj_replayed_from_id = None, bj_created_by = ea_created_by args, bj_created_at = now,
      bj_started_at = None, bj_completed_at = None, bj_updated_at = now,
      bj_agent_id = or_else (ea_agent_id args) (Option.bind (ea_source_inbox args) ie_agent_id)\<rparr>"

text \<open>The checks of \<open>enqueue\<close> in their order; \<open>new_id\<close> is the identifier drawn without \<open>job_id\<close>.\<close>

definition enqueue_job :: "(rat \<Rightarrow> ustr) \<Rightarrow> enqueue_args \<Rightarrow> instant \<Rightarrow> uuid \<Rightarrow> service_error + background_job" where
  "enqueue_job fr args now new_id =
     bind_result (normalize_payload fr (ea_payload args)) (\<lambda>payload.
     bind_result (required_text (ea_deduplication_key args) DeduplicationKey 255) (\<lambda>key.
     bind_result (check_attempts (ea_max_attempts args)) (\<lambda>_.
     bind_result (require_positive (ea_lease_seconds args) LeaseSecondsLabel) (\<lambda>_.
     bind_result (require_positive (ea_retry_base_seconds args) RetryBaseLabel) (\<lambda>_.
     bind_result (case ea_available_at args of None \<Rightarrow> Inr now | Some t \<Rightarrow> require_aware t AvailableAtLabel) (\<lambda>due_at.
     bind_result (optional_text (ea_correlation_id args) 255) (\<lambda>correlation_id.
       Inr (pending_job args (case ea_job_id args of None \<Rightarrow> new_id | Some k \<Rightarrow> k) payload key
              correlation_id due_at now))))))))"

definition task_enqueue ::
    "(rat \<Rightarrow> ustr) \<Rightarrow> enqueue_args \<Rightarrow> instant \<Rightarrow> uuid \<Rightarrow> uuid \<Rightarrow> task_store \<Rightarrow>
       service_error + ((background_job \<times> bool) \<times> task_store)" where
  "task_enqueue fr args now new_id outbox_id s =
     bind_result (enqueue_job fr args now new_id) (\<lambda>job.
       (case mem_enqueue job (make_outbox outbox_id job now (bj_available_at job))
               (ea_source_inbox args) s of
          Inl e \<Rightarrow> Inl (StoreError e)
        | Inr r \<Rightarrow> Inr r))"

definition inbox_record ::
    "uuid \<Rightarrow> uuid \<Rightarrow> ustr \<Rightarrow> ustr \<Rightarrow> json_dict \<Rightarrow> uuid \<Rightarrow> instant \<Rightarrow> inbox_event" where
  "inbox_record new_id tenant_id event_key event_type payload job_id now =
     \<lparr>ie_id = new_id, ie_tenant_id = tenant_id, ie_event_key = event_key, ie_event_type = event_type,
      ie_payload = payload, ie_status = INBOX_PENDING, ie_job_id = job_id, ie_received_at = now,
      ie_processed_at = None, ie_last_error_code = None, ie_agent_id = None, ie_channel_id = None,
      ie_schema_version = None, ie_platform = None, ie_external_event_digest = None,
      ie_external_subject_digest = None, ie_external_conversation_digest = None,
      ie_external_thread_digest = None, ie_external_message_digest = None, ie_user_id = None,
      ie_conversation_id = None, ie_content_kinds = [], ie_content_block_count = 0\<rparr>"

definition accept_inbox_event ::
    "(rat \<Rightarrow> ustr) \<Rightarrow> uuid \<Rightarrow> ustr \<Rightarrow> ustr \<Rightarrow> json_dict \<Rightarrow> job_kind \<Rightarrow> uuid option \<Rightarrow> int \<Rightarrow> int \<Rightarrow> int \<Rightarrow>
       instant \<Rightarrow> instant \<Rightarrow> uuid \<Rightarrow> uuid \<Rightarrow> uuid \<Rightarrow> task_store \<Rightarrow>
       service_error + ((background_job \<times> bool) \<times> task_store)" where
  "accept_inbox_event fr tenant_id event_key event_type payload job_kind created_by max_attempts
       lease_seconds retry_base_seconds now now' job_id inbox_id outbox_id s =
     bind_result (required_text event_key EventKey 255) (\<lambda>key.
     bind_result (required_text event_type EventType 120) (\<lambda>typ.
     bind_result (normalize_payload fr payload) (\<lambda>body.
       task_enqueue fr
         \<lparr>ea_tenant_id = tenant_id, ea_kind = job_kind, ea_payload = body,
          ea_deduplication_key = lit ''inbox:'' @ key, ea_created_by = created_by,
          ea_agent_id = None, ea_max_attempts = max_attempts, ea_lease_seconds = lease_seconds,
          ea_retry_base_seconds = retry_base_seconds, ea_available_at = None,
          ea_correlation_id = Some key,
          ea_source_inbox = Some (inbox_record inbox_id tenant_id key typ body job_id now),
          ea_job_id = Some job_id\<rparr> now' job_id outbox_id s)))"

section \<open>Reading, cancelling and replaying\<close>

definition task_get_job :: "uuid \<Rightarrow> uuid \<Rightarrow> task_store \<Rightarrow> service_error + background_job" where
  "task_get_job tenant_id job_id s =
     (case mem_get_job tenant_id job_id s of
        None \<Rightarrow> Inl (TaskNotFoundError job_id) | Some item \<Rightarrow> Inr item)"

text \<open>
  The loop of \<open>replay_chain\<close> with \<open>room\<close> places left under \<open>max_depth\<close>: the chain so far, latest
  job last, \<open>current\<close> its last element.
\<close>

fun follow_replays ::
    "nat \<Rightarrow> uuid \<Rightarrow> task_store \<Rightarrow> uuid list \<Rightarrow> background_job \<Rightarrow> background_job list \<Rightarrow> background_job list" where
  "follow_replays 0 tenant_id s seen current chain = chain"
| "follow_replays (Suc room) tenant_id s seen current chain =
     (case bj_replayed_from_id current of
        None \<Rightarrow> chain
      | Some source_id \<Rightarrow>
          if source_id \<in> set seen then chain
          else (case mem_get_job tenant_id source_id s of
                  None \<Rightarrow> chain
                | Some source \<Rightarrow>
                    follow_replays room tenant_id s (bj_id source # seen) source (chain @ [source])))"

definition replay_chain :: "uuid \<Rightarrow> uuid \<Rightarrow> int \<Rightarrow> task_store \<Rightarrow> service_error + background_job list" where
  "replay_chain tenant_id job_id max_depth s =
     (if \<not> (1 \<le> max_depth \<and> max_depth \<le> 20) then Inl (TaskValidationError DepthOutOfRange)
      else bind_result (task_get_job tenant_id job_id s) (\<lambda>current.
        Inr (rev (follow_replays (nat (max_depth - 1)) tenant_id s [bj_id current] current [current]))))"

definition get_inbox_by_id :: "uuid \<Rightarrow> uuid \<Rightarrow> task_store \<Rightarrow> service_error + inbox_event" where
  "get_inbox_by_id tenant_id inbox_id s =
     (case mem_get_inbox_event tenant_id inbox_id s of
        None \<Rightarrow> Inl (TaskNotFoundError inbox_id) | Some item \<Rightarrow> Inr item)"

definition get_inbox :: "uuid \<Rightarrow> uuid \<Rightarrow> uuid \<Rightarrow> task_store \<Rightarrow> service_error + inbox_event" where
  "get_inbox tenant_id agent_id inbox_id s =
     bind_result (get_inbox_by_id tenant_id inbox_id s) (\<lambda>item.
       if ie_agent_id item \<noteq> Some agent_id then Inl (TaskNotFoundError inbox_id) else Inr item)"

definition list_inbox ::
    "uuid \<Rightarrow> uuid \<Rightarrow> inbox_status option \<Rightarrow> uuid option \<Rightarrow> int \<Rightarrow> task_store \<Rightarrow> service_error + inbox_event list" where
  "list_inbox tenant_id agent_id st channel_id limit s =
     bind_result (require_limit limit) (\<lambda>n. Inr (mem_list_inbox_events tenant_id agent_id st channel_id n s))"

definition task_list_jobs ::
    "uuid \<Rightarrow> job_status option \<Rightarrow> job_kind option \<Rightarrow> int \<Rightarrow> task_store \<Rightarrow> service_error + background_job list" where
  "task_list_jobs tenant_id st kind limit s =
     bind_result (require_limit limit) (\<lambda>n. Inr (mem_list_jobs tenant_id st kind n s))"

definition task_list_notification_jobs ::
    "uuid \<Rightarrow> uuid \<Rightarrow> int \<Rightarrow> task_store \<Rightarrow> service_error + background_job list" where
  "task_list_notification_jobs tenant_id agent_id limit s =
     bind_result (require_limit limit) (\<lambda>n. Inr (mem_list_notification_jobs tenant_id agent_id n s))"

definition task_list_attempts :: "uuid \<Rightarrow> uuid \<Rightarrow> task_store \<Rightarrow> service_error + job_attempt list" where
  "task_list_attempts tenant_id job_id s =
     bind_result (task_get_job tenant_id job_id s) (\<lambda>_. Inr (mem_list_attempts tenant_id job_id s))"

definition task_cancel ::
    "uuid \<Rightarrow> uuid \<Rightarrow> bool \<Rightarrow> instant \<Rightarrow> task_store \<Rightarrow> (service_error + background_job) \<times> task_store" where
  "task_cancel tenant_id job_id confirmed now s =
     (if \<not> confirmed then (Inl (TaskValidationError NotConfirmed), s)
      else (case mem_request_cancel tenant_id job_id now s of
              (None, t) \<Rightarrow> (Inl (TaskNotFoundError job_id), t)
            | (Some item, t) \<Rightarrow>
                if bj_status item = JOB_SUCCEEDED \<or> bj_status item = JOB_FAILED
                then (Inl (TaskConflictError AlreadyEnded), t) else (Inr item, t)))"

definition replay_job :: "uuid \<Rightarrow> uuid \<Rightarrow> instant \<Rightarrow> background_job \<Rightarrow> background_job" where
  "replay_job replay_id actor_id now source =
     \<lparr>bj_id = replay_id, bj_tenant_id = bj_tenant_id source, bj_kind = bj_kind source,
      bj_queue = bj_queue source, bj_status = JOB_PENDING, bj_payload = bj_payload source,
      bj_deduplication_key =
        lit ''replay:'' @ uuid_str (bj_id source) @ lit '':'' @ uuid_str replay_id,
      bj_source_inbox_id = None, bj_correlation_id = bj_correlation_id source, bj_attempt_count = 0,
      bj_max_attempts = bj_max_attempts source, bj_lease_seconds = bj_lease_seconds source,
      bj_retry_base_seconds = bj_retry_base_seconds source, bj_available_at = now,
      bj_lease_owner = None, bj_lease_expires_at = None, bj_cancel_requested_at = None,
      bj_last_error_code = None, bj_last_error_summary = None, bj_result_summary = [],
      bj_replayed_from_id = Some (bj_id source), bj_created_by = Some actor_id,
      bj_created_at = now, bj_started_at = None, bj_completed_at = None, bj_updated_at = now,
      bj_agent_id = bj_agent_id source\<rparr>"

text \<open>The replay guard, when there is one, answers with the error it raises or \<open>None\<close>.\<close>

definition task_replay ::
    "(background_job \<Rightarrow> uuid \<Rightarrow> instant \<Rightarrow> service_error option) option \<Rightarrow> uuid \<Rightarrow> uuid \<Rightarrow> uuid \<Rightarrow> bool \<Rightarrow>
       ustr \<Rightarrow> instant \<Rightarrow> uuid \<Rightarrow> uuid \<Rightarrow> task_store \<Rightarrow> (service_error + background_job) \<times> task_store" where
  "task_replay guard tenant_id job_id actor_id confirmed reason now replay_id outbox_id s =
     (if \<not> confirmed then (Inl (TaskValidationError NotConfirmed), s)
      else case required_text reason ReplayReason 500 of
        Inl e \<Rightarrow> (Inl e, s)
      | Inr _ \<Rightarrow>
        (case task_get_job tenant_id job_id s of
           Inl e \<Rightarrow> (Inl e, s)
         | Inr source \<Rightarrow>
             if \<not> terminal_replayable (bj_status source) then (Inl (TaskConflictError NotReplayable), s)
             else (case Option.bind guard (\<lambda>check. check source actor_id now) of
                     Some e \<Rightarrow> (Inl e, s)
                   | None \<Rightarrow>
                       (let replayed = replay_job replay_id actor_id now source
                        in case mem_replay tenant_id job_id replayed (make_outbox outbox_id replayed now now) s of
                             (None, t) \<Rightarrow> (Inl (TaskNotFoundError job_id), t)
                           | (Some r, t) \<Rightarrow> (Inr r, t)))))"

section \<open>Publishing and executing\<close>

text \<open>
  \<open>dispatch\<close> is the message broker: the class name of the exception it raises, or \<open>None\<close>.
  \<open>clock e\<close> is the time read while event \<open>e\<close> is processed.
\<close>

definition publish_event_out ::
    "(uuid \<Rightarrow> ustr \<Rightarrow> ustr option) \<Rightarrow> ustr \<Rightarrow> int \<Rightarrow> instant \<Rightarrow> (uuid \<Rightarrow> instant) \<Rightarrow> outbox_event \<Rightarrow>
       nat \<times> task_store \<Rightarrow> nat \<times> task_store" where
  "publish_event_out dispatch worker_id retry_base_seconds now clock event = (\<lambda>(published, s).
     case as_str (json_get (oe_payload event) (lit ''queue'')) of
       None \<Rightarrow> (published, mem_mark_outbox_failed (oe_id event) worker_id (lit ''InvalidQueue'') now (clock (oe_id event)) s)
     | Some queue \<Rightarrow>
         if queue \<notin> set known_queues
         then (published, mem_mark_outbox_failed (oe_id event) worker_id (lit ''InvalidQueue'') now (clock (oe_id event)) s)
         else (case dispatch (oe_job_id event) queue of
                 Some error \<Rightarrow>
                   let base = (case mem_get_job (oe_tenant_id event) (oe_job_id event) s of
                                 Some job \<Rightarrow> bj_retry_base_seconds job | None \<Rightarrow> retry_base_seconds);
                       delay = base * 2 ^ nat (min (oe_attempt_count event) 8)
                   in (published, mem_mark_outbox_failed (oe_id event) worker_id (take 120 error)
                         (clock (oe_id event) + seconds delay) (clock (oe_id event)) s)
               | None \<Rightarrow> (published + 1, mem_mark_outbox_published (oe_id event) worker_id (clock (oe_id event)) s)))"

definition publish_due ::
    "(uuid \<Rightarrow> ustr \<Rightarrow> ustr option) \<Rightarrow> ustr \<Rightarrow> int \<Rightarrow> int \<Rightarrow> int \<Rightarrow> instant \<Rightarrow> (uuid \<Rightarrow> instant) \<Rightarrow> task_store \<Rightarrow>
       service_error + (nat \<times> task_store)" where
  "publish_due dispatch worker_id lease_seconds retry_base_seconds limit now clock s =
     bind_result (required_text worker_id PublisherId 160) (\<lambda>publisher.
     bind_result (require_positive lease_seconds PublishLeaseLabel) (\<lambda>lease.
     bind_result (require_limit limit) (\<lambda>n.
       (case mem_claim_outbox publisher now (now + seconds lease) n s of
          (events, s1) \<Rightarrow>
            Inr (fold (publish_event_out dispatch worker_id retry_base_seconds now clock) events (0, s1))))))"

datatype handler_outcome = Returned json_dict | Raised ustr bool bool

text \<open>
  One run of \<open>execute\<close> after the claim. \<open>handler\<close> is the registered handler of the job's kind, with
  everything that happens to the store while it runs (its own writes, lease renewals, other
  workers): the outcome and the store it leaves. \<open>Raised name permanent timed_out\<close> is an
  exception of class \<open>name\<close>. The clock is read once per use.
\<close>

definition handler_error :: "(rat \<Rightarrow> ustr) \<Rightarrow> handler_outcome \<Rightarrow> (ustr \<times> bool \<times> bool) + json_dict" where
  "handler_error fr outcome =
     (case outcome of
        Raised name permanent timed_out \<Rightarrow> Inl (name, permanent, timed_out)
      | Returned value \<Rightarrow>
          (case normalize_result fr value of
             Inr result \<Rightarrow> Inr result
           | Inl UnicodeEncodeError \<Rightarrow> Inl (lit ''UnicodeEncodeError'', False, False)
           | Inl _ \<Rightarrow> Inl (lit ''TaskValidationError'', False, False)))"

definition retry_delay :: "background_job \<Rightarrow> int" where
  "retry_delay job = bj_retry_base_seconds job * 2 ^ nat (min (max 0 (bj_attempt_count job - 1)) 8)"

definition run_handler ::
    "(rat \<Rightarrow> ustr) \<Rightarrow> (background_job \<Rightarrow> task_store \<Rightarrow> handler_outcome \<times> task_store) option \<Rightarrow>
       background_job \<Rightarrow> task_store \<Rightarrow> ((ustr \<times> bool \<times> bool) + json_dict) \<times> task_store" where
  "run_handler fr handler job s =
     (case handler of
        None \<Rightarrow> (Inl (lit ''PermanentTaskError'', True, False), s)
      | Some run \<Rightarrow> (case run job s of (outcome, t) \<Rightarrow> (handler_error fr outcome, t)))"

definition task_execute ::
    "(rat \<Rightarrow> ustr) \<Rightarrow> (job_kind \<Rightarrow> (background_job \<Rightarrow> task_store \<Rightarrow> handler_outcome \<times> task_store) option) \<Rightarrow>
       uuid \<Rightarrow> ustr \<Rightarrow> instant \<Rightarrow> instant \<Rightarrow> instant \<Rightarrow> uuid \<Rightarrow> uuid \<Rightarrow> task_store \<Rightarrow>
       (service_error + background_job option) \<times> task_store" where
  "task_execute fr handlers job_id worker_id now ended ended' attempt_id outbox_id s =
     (case required_text worker_id WorkerId 160 of
        Inl e \<Rightarrow> (Inl e, s)
      | Inr worker \<Rightarrow>
        (case mem_claim_job job_id worker now attempt_id s of
           (None, t) \<Rightarrow> (Inr None, t)
         | (Some claim, t) \<Rightarrow>
             (let job = jc_job claim; aid = ja_id (jc_attempt claim) in
              case run_handler fr (handlers (bj_kind job)) job t of
                (Inr result, u) \<Rightarrow>
                  (case mem_complete_job (bj_id job) aid worker_id result ended u of
                     (r, v) \<Rightarrow> (Inr r, v))
              | (Inl (name, permanent, timed_out), u) \<Rightarrow>
                  (let delay = retry_delay job
                   in case mem_fail_job (bj_id job) aid worker_id (take 120 name)
                          execution_failed_summary permanent timed_out (ended + seconds delay)
                          (make_outbox outbox_id job ended (ended + seconds delay)) ended' u of
                        (r, v) \<Rightarrow> (Inr r, v)))))"

section \<open>Workers\<close>

text \<open>\<open>dict.fromkeys\<close> keeps the first of equal entries.\<close>

definition dedup :: "'a list \<Rightarrow> 'a list" where
  "dedup xs = rev (remdups (rev xs))"

fun all_texts :: "ustr list \<Rightarrow> service_error + ustr list" where
  "all_texts [] = Inr []"
| "all_texts (q # qs) =
     bind_result (required_text q QueueName 80) (\<lambda>x.
     bind_result (all_texts qs) (\<lambda>xs. Inr (x # xs)))"

definition task_heartbeat ::
    "ustr \<Rightarrow> ustr list \<Rightarrow> py_datetime \<Rightarrow> uuid option \<Rightarrow> instant \<Rightarrow> task_store \<Rightarrow>
       service_error + (worker_heartbeat \<times> task_store)" where
  "task_heartbeat worker_id queues started_at current_job_id now s =
     bind_result (require_aware started_at StartedAtLabel) (\<lambda>start.
     if queues = [] then Inl (TaskValidationError NoQueues)
     else bind_result (required_text worker_id WorkerId 160) (\<lambda>worker.
     bind_result (all_texts queues) (\<lambda>names.
       Inr (mem_upsert_worker_heartbeat
         \<lparr>wh_worker_id = worker, wh_queues = dedup names, wh_current_job_id = current_job_id,
          wh_started_at = start, wh_last_seen_at = now\<rparr> s))))"

definition active_workers :: "int \<Rightarrow> instant \<Rightarrow> task_store \<Rightarrow> service_error + worker_heartbeat list" where
  "active_workers stale_after_seconds now s =
     bind_result (require_positive stale_after_seconds StaleLabel) (\<lambda>n.
       Inr (mem_list_worker_heartbeats (now - seconds n) s))"

end
