(* ===== verification/Binary64.thy ===== *)
theory Binary64
  imports Complex_Main
begin

text \<open>
  Python's \<open>float\<close> as the rational numbers it can hold: every operation is the exact result
  rounded by \<open>rnd\<close>, IEEE 754 round-to-nearest-even for binary64 (53 significant bits, least exponent
  -1074). The values the program computes are far from the largest finite double, so overflow to
  infinity does not occur and is not part of the model. \<open>round_digits\<close> is the built-in
  \<open>round(x, n)\<close>, which rounds the exact value half-even to a decimal and converts it back.
\<close>

section \<open>Rounding to integers\<close>

definition round_even :: "rat \<Rightarrow> int" where
  "round_even x = (let f = \<lfloor>x\<rfloor>; r = x - of_int f in
     if r < 1 / 2 then f else if r > 1 / 2 then f + 1 else if even f then f else f + 1)"

lemma round_even_floor: "\<lfloor>x\<rfloor> \<le> round_even x" "round_even x \<le> \<lfloor>x\<rfloor> + 1"
  by (simp_all add: round_even_def Let_def)

lemma round_even_int [simp]: "round_even (of_int n) = n"
  by (simp add: round_even_def)

lemma round_even_mono: "x \<le> y \<Longrightarrow> round_even x \<le> round_even y"
proof (cases "\<lfloor>x\<rfloor> = \<lfloor>y\<rfloor>")
  case True
  assume "x \<le> y"
  then have "x - of_int \<lfloor>y\<rfloor> \<le> y - of_int \<lfloor>y\<rfloor>" by simp
  then show ?thesis by (auto simp: round_even_def Let_def True)
next
  case False
  assume "x \<le> y"
  with False have "\<lfloor>x\<rfloor> + 1 \<le> \<lfloor>y\<rfloor>" using floor_mono by fastforce
  then show ?thesis using round_even_floor[of x] round_even_floor[of y] by linarith
qed

lemma round_even_le: "x \<le> of_int n \<Longrightarrow> round_even x \<le> n"
  using round_even_mono[of x "of_int n"] by simp

lemma round_even_ge: "of_int n \<le> x \<Longrightarrow> n \<le> round_even x"
  using round_even_mono[of "of_int n" x] by simp

section \<open>The exponent of a positive rational\<close>

text \<open>The greatest \<open>k\<close> with \<open>2 powi k \<le> x\<close>, found from the bit lengths of the fraction.\<close>

function bits :: "int \<Rightarrow> nat" where
  "bits n = (if n \<le> 0 then 0 else Suc (bits (n div 2)))"
  by pat_completeness auto
termination by (relation "measure nat") auto

declare bits.simps [simp del]

definition expo :: "rat \<Rightarrow> int" where
  "expo x = (case quotient_of x of (n, d) \<Rightarrow>
     (let k = int (bits n) - int (bits d) in if 2 powi k \<le> x then k else k - 1))"

lemma bits_1: "bits 1 = 1"
  by (subst bits.simps) (simp add: bits.simps[of 0])

lemma bits_bounds: "0 < n \<Longrightarrow> 2 ^ (bits n - 1) \<le> n \<and> n < 2 ^ bits n"
proof (induction n rule: bits.induct)
  case (1 n)
  show ?case
  proof (cases "n = 1")
    case True
    then show ?thesis using bits_1 by simp
  next
    case False
    with 1 have IH: "2 ^ (bits (n div 2) - 1) \<le> n div 2" "n div 2 < 2 ^ bits (n div 2)" by auto
    have b: "bits n = Suc (bits (n div 2))" using 1 by (simp add: bits.simps[of n])
    have "0 < bits (n div 2)" using False 1 by (subst bits.simps) auto
    then have p: "(2::int) ^ bits (n div 2) = 2 * 2 ^ (bits (n div 2) - 1)"
      by (cases "bits (n div 2)") simp_all
    have "n div 2 * 2 \<le> n" "n < n div 2 * 2 + 2" by linarith+
    with IH p b show ?thesis by simp
  qed
qed

lemma powi_Suc: "(2::rat) powi (k + 1) = 2 * 2 powi k"
  by (simp add: power_int_add)

lemma powi_diff_nat: "(2::rat) powi (int a - int b) = 2 ^ a / 2 ^ b"
  by (simp add: power_int_diff)

lemma powi_mono: "a \<le> b \<Longrightarrow> (2::rat) powi a \<le> 2 powi b"
  by (rule power_int_increasing) simp_all

lemma expo_bounds:
  assumes "0 < x"
  shows "2 powi expo x \<le> x" "x < 2 powi (expo x + 1)"
proof -
  obtain n d where q: "quotient_of x = (n, d)" by (cases "quotient_of x")
  have x: "x = of_int n / of_int d" and d: "0 < d"
    using quotient_of_div[OF q] quotient_of_denom_pos[OF q] by auto
  then have n: "0 < n" using assms by (simp add: zero_less_divide_iff)
  let ?a = "bits n" and ?b = "bits d"
  have bn: "2 ^ (?a - 1) \<le> n" "n < 2 ^ ?a" using bits_bounds[of n] n by auto
  have bd: "2 ^ (?b - 1) \<le> d" "d < 2 ^ ?b" using bits_bounds[of d] d by auto
  have pos: "0 < ?a" "0 < ?b" using n d by (subst bits.simps; simp)+
  have rn: "(2::rat) ^ (?a - 1) \<le> of_int n" "(of_int n :: rat) < 2 ^ ?a"
    using bn by (metis of_int_le_iff of_int_less_iff of_int_numeral of_int_power)+
  have rd: "(2::rat) ^ (?b - 1) \<le> of_int d" "(of_int d :: rat) < 2 ^ ?b"
    using bd by (metis of_int_le_iff of_int_less_iff of_int_numeral of_int_power)+
  have rdp: "(0::rat) < of_int d" using d by simp
  have p2: "(2::rat) ^ ?a = 2 * 2 ^ (?a - 1)" "(2::rat) ^ ?b = 2 * 2 ^ (?b - 1)"
    using pos by (simp_all add: power_eq_if)
  let ?k = "int ?a - int ?b"
  have k: "(2::rat) powi ?k = 2 ^ ?a / 2 ^ ?b" by (rule powi_diff_nat)
  have lo: "2 powi (?k - 1) \<le> x"
  proof -
    have "2 powi ?k = 2 * (2::rat) powi (?k - 1)" using powi_Suc[of "?k - 1"] by simp
    then have "2 powi (?k - 1) = 2 ^ (?a - 1) / (2::rat) ^ ?b" using k p2(1) by simp
    also have "\<dots> \<le> of_int n / of_int d"
      using rn(1) rd(2) rdp n by (intro frac_le) auto
    finally show ?thesis by (simp add: x)
  qed
  have hi: "x < 2 powi (?k + 1)"
  proof -
    have "x < 2 ^ ?a / 2 ^ (?b - 1)"
      unfolding x using rn(2) rd(1) n rdp by (intro frac_less) auto
    also have "\<dots> = 2 powi (?k + 1)" using k powi_Suc[of ?k] p2(2) by simp
    finally show ?thesis .
  qed
  show "2 powi expo x \<le> x" "x < 2 powi (expo x + 1)"
    using lo hi by (auto simp: expo_def q Let_def)
qed

section \<open>Rounding to binary64\<close>

definition ulp :: "rat \<Rightarrow> rat" where
  "ulp x = 2 powi (max (expo x - 52) (-1074))"

definition rnd_pos :: "rat \<Rightarrow> rat" where
  "rnd_pos x = of_int (round_even (x / ulp x)) * ulp x"

definition rnd :: "rat \<Rightarrow> rat" where
  "rnd x = (if x = 0 then 0 else if x < 0 then - rnd_pos (- x) else rnd_pos x)"

lemma ulp_pos: "0 < ulp x"
  by (simp add: ulp_def)

text \<open>Powers of two that are multiples of the unit in the last place are kept on their side.\<close>

lemma powi_nat_multiple: "a \<le> b \<Longrightarrow> \<exists>n. (2::rat) powi b = of_int n * 2 powi a"
proof -
  assume "a \<le> b"
  then have "(2::rat) powi b = 2 powi (b - a) * 2 powi a" by (simp add: power_int_add[symmetric])
  moreover have "(2::rat) powi (b - a) = of_int (2 ^ nat (b - a))"
    using \<open>a \<le> b\<close> by (simp add: power_int_def)
  ultimately show ?thesis by metis
qed

lemma rnd_pos_le_pow:
  assumes "0 < x" and "x \<le> 2 powi k" and "max (expo x - 52) (-1074) \<le> k"
  shows "rnd_pos x \<le> 2 powi k"
proof -
  obtain n where n: "(2::rat) powi k = of_int n * ulp x"
    using powi_nat_multiple[OF assms(3)] by (auto simp: ulp_def)
  then have "x / ulp x \<le> of_int n" using assms(2) ulp_pos[of x] by (simp add: divide_le_eq)
  then have "round_even (x / ulp x) \<le> n" by (rule round_even_le)
  then show ?thesis using ulp_pos[of x] by (simp add: rnd_pos_def n mult_right_mono)
qed

lemma rnd_pos_ge_pow:
  assumes "0 < x" and "2 powi k \<le> x" and "max (expo x - 52) (-1074) \<le> k"
  shows "2 powi k \<le> rnd_pos x"
proof -
  obtain n where n: "(2::rat) powi k = of_int n * ulp x"
    using powi_nat_multiple[OF assms(3)] by (auto simp: ulp_def)
  then have "of_int n \<le> x / ulp x" using assms(2) ulp_pos[of x] by (simp add: le_divide_eq)
  then have "n \<le> round_even (x / ulp x)" by (rule round_even_ge)
  then show ?thesis using ulp_pos[of x] by (simp add: rnd_pos_def n mult_right_mono)
qed

lemma rnd_pos_nonneg: "0 < x \<Longrightarrow> 0 \<le> rnd_pos x"
proof -
  assume "0 < x"
  then have "of_int 0 \<le> x / ulp x" using ulp_pos[of x] by simp
  then have "0 \<le> round_even (x / ulp x)" by (rule round_even_ge)
  then show ?thesis using ulp_pos[of x] by (simp add: rnd_pos_def)
qed

lemma expo_mono: "0 < x \<Longrightarrow> x \<le> y \<Longrightarrow> expo x \<le> expo y"
proof (rule ccontr)
  assume xy: "0 < x" "x \<le> y" and "\<not> expo x \<le> expo y"
  then have "expo y + 1 \<le> expo x" by simp
  then have "(2::rat) powi (expo y + 1) \<le> 2 powi expo x" by (rule powi_mono)
  also have "\<dots> \<le> x" using expo_bounds(1)[OF xy(1)] .
  finally show False using expo_bounds(2)[of y] xy by simp
qed

lemma rnd_pos_mono:
  assumes "0 < x" and "x \<le> y"
  shows "rnd_pos x \<le> rnd_pos y"
proof (cases "ulp x = ulp y")
  case True
  have "x / ulp y \<le> y / ulp y" using assms ulp_pos[of y] by (simp add: divide_right_mono)
  then show ?thesis
    using round_even_mono ulp_pos[of y] by (simp add: rnd_pos_def True mult_right_mono)
next
  case False
  then have ne: "expo x \<noteq> expo y" "\<not> (expo y - 52 \<le> -1074)"
    using expo_mono[OF assms] by (auto simp: ulp_def max_def split: if_splits)
  then have lt: "expo x + 1 \<le> expo y" using expo_mono[OF assms] by simp
  have "rnd_pos x \<le> 2 powi (expo y)"
  proof (rule rnd_pos_le_pow[OF assms(1)])
    show "x \<le> 2 powi expo y"
      using expo_bounds(2)[OF assms(1)] powi_mono[OF lt] by simp
    show "max (expo x - 52) (-1074) \<le> expo y" using lt ne by simp
  qed
  also have "\<dots> \<le> rnd_pos y"
    by (rule rnd_pos_ge_pow) (use assms expo_bounds(1)[of y] ne in auto)
  finally show ?thesis .
qed

lemma rnd_mono: "x \<le> y \<Longrightarrow> rnd x \<le> rnd y"
  using rnd_pos_mono[of x y] rnd_pos_mono[of "- y" "- x"] rnd_pos_nonneg[of y] rnd_pos_nonneg[of "- x"]
  by (auto simp: rnd_def)

lemma rnd_0 [simp]: "rnd 0 = 0"
  by (simp add: rnd_def)

lemma rnd_1 [simp]: "rnd 1 = 1"
  by code_simp

lemma rnd_nonneg: "0 \<le> x \<Longrightarrow> 0 \<le> rnd x"
  using rnd_mono[of 0 x] by simp

lemma rnd_le_1: "x \<le> 1 \<Longrightarrow> rnd x \<le> 1"
  using rnd_mono[of x 1] by simp

text \<open>Integers below 2 to the 53 are exact.\<close>

lemma rnd_of_nat: "m < 2 ^ 53 \<Longrightarrow> rnd (of_nat m) = of_nat m"
proof (cases "m = 0")
  case False
  assume m: "m < 2 ^ 53"
  let ?x = "of_nat m :: rat"
  have pos: "0 < ?x" using False by simp
  have "?x < 2 powi 53" using m by (simp add: power_int_def of_nat_less_numeral_power_cancel_iff)
  then have "(2::rat) powi expo ?x < 2 powi 53" using expo_bounds(1)[OF pos] by simp
  then have "expo ?x < 53" using powi_mono[of 53 "expo ?x"] by (meson linorder_not_less)
  then have "max (expo ?x - 52) (- 1074) \<le> 0" by simp
  then obtain n where n: "(2::rat) powi 0 = of_int n * ulp ?x"
    using powi_nat_multiple unfolding ulp_def by blast
  then have u: "1 = of_int n * ulp ?x" by simp
  have "?x / ulp ?x = of_int (int m * n)"
    using u ulp_pos[of ?x] by (simp add: field_simps)
  then have "rnd_pos ?x = of_int (int m * n) * ulp ?x" by (simp only: rnd_pos_def round_even_int)
  also have "\<dots> = ?x" using u by (simp add: mult.assoc)
  finally show ?thesis using False by (simp add: rnd_def)
qed simp

section \<open>Arithmetic and decimal rounding\<close>

definition fadd :: "rat \<Rightarrow> rat \<Rightarrow> rat" where "fadd x y = rnd (x + y)"
definition fsub :: "rat \<Rightarrow> rat \<Rightarrow> rat" where "fsub x y = rnd (x - y)"
definition fmul :: "rat \<Rightarrow> rat \<Rightarrow> rat" where "fmul x y = rnd (x * y)"
definition fdiv :: "rat \<Rightarrow> rat \<Rightarrow> rat" where "fdiv x y = rnd (x / y)"

definition round_digits :: "nat \<Rightarrow> rat \<Rightarrow> rat" where
  "round_digits n x = rnd (of_int (round_even (x * 10 ^ n)) / 10 ^ n)"

lemma fadd_mono: "a \<le> b \<Longrightarrow> c \<le> d \<Longrightarrow> fadd a c \<le> fadd b d"
  by (simp add: fadd_def rnd_mono add_mono)

lemma fmul_mono: "a \<le> b \<Longrightarrow> 0 \<le> c \<Longrightarrow> fmul a c \<le> fmul b c"
  by (simp add: fmul_def rnd_mono mult_right_mono)

lemma fsub_anti: "a \<le> b \<Longrightarrow> fsub c b \<le> fsub c a"
  by (simp add: fsub_def rnd_mono)

lemma fdiv_mono: "a \<le> b \<Longrightarrow> 0 < c \<Longrightarrow> fdiv a c \<le> fdiv b c"
  by (simp add: fdiv_def rnd_mono divide_right_mono)

lemma round_digits_mono: "x \<le> y \<Longrightarrow> round_digits n x \<le> round_digits n y"
  unfolding round_digits_def
  by (intro rnd_mono divide_right_mono of_int_le_iff[THEN iffD2] round_even_mono mult_right_mono) auto

lemma round_digits_0 [simp]: "round_digits n 0 = 0"
  using round_even_int[of 0] by (simp add: round_digits_def)

lemma round_digits_1 [simp]: "round_digits n 1 = 1"
proof -
  have "round_even (10 ^ n) = 10 ^ n" using round_even_int[of "10 ^ n"] by simp
  then show ?thesis by (simp add: round_digits_def)
qed

lemma round_digits_unit: "0 \<le> x \<Longrightarrow> x \<le> 1 \<Longrightarrow> 0 \<le> round_digits n x \<and> round_digits n x \<le> 1"
  using round_digits_mono[of 0 x n] round_digits_mono[of x 1 n] by simp

end
