(* ===== verification/Proactive.thy ===== *)
theory Proactive
  imports Task_Domain Binary64
begin

text \<open>
  \<open>ProactivePolicyEvaluator\<close> (\<open>packages/cognition/.../proactive.py\<close>): the hard limits of a
  proactive message and its score. Floating-point signals are finite doubles, computed with
  \<open>Binary64\<close>; a \<open>ValueError\<close> is \<open>BadHour\<close>.
\<close>

record proactive_policy =
  pp_enabled :: bool
  pp_minimum_score :: rat
  pp_daily_budget :: int
  pp_quiet_hours_start :: int
  pp_quiet_hours_end :: int
  pp_require_recent_user_days :: int

record proactive_context =
  pc_local_hour :: int
  pc_days_since_user_activity :: rat
  pc_importance :: rat
  pc_confidence :: rat
  pc_affinity :: rat
  pc_trust :: rat
  pc_familiarity :: rat
  pc_used_budget :: int
  pc_social_cost :: int
  pc_has_boundary_block :: bool

datatype hour_error = BadLocalHour | BadQuietHours

definition weight_15 :: rat where
  "weight_15 = rnd (15 / 100)"

definition recency :: "rat \<Rightarrow> rat" where
  "recency days = max 0 (fsub 1 (fdiv days 30))"

definition raw_score :: "proactive_context \<Rightarrow> rat" where
  "raw_score c =
     fadd (fadd (fadd (fadd (fadd (fmul (pc_importance c) (1 / 4))
       (fmul (pc_confidence c) weight_15)) (fmul (pc_affinity c) weight_15))
       (fmul (pc_trust c) weight_15)) (fmul (pc_familiarity c) weight_15))
       (fmul (recency (pc_days_since_user_activity c)) weight_15)"

definition proactive_score :: "proactive_context \<Rightarrow> rat" where
  "proactive_score c = round_digits 6 (max 0 (min 1 (raw_score c)))"

definition in_quiet_hours :: "int \<Rightarrow> int \<Rightarrow> int \<Rightarrow> hour_error + bool" where
  "in_quiet_hours hour start end_hour =
     (if \<not> (0 \<le> hour \<and> hour \<le> 23) then Inl BadLocalHour
      else if \<not> (0 \<le> start \<and> start \<le> 23) \<or> \<not> (0 \<le> end_hour \<and> end_hour \<le> 23) then Inl BadQuietHours
      else if start = end_hour then Inr False
      else if start < end_hour then Inr (start \<le> hour \<and> hour < end_hour)
      else Inr (start \<le> hour \<or> hour < end_hour))"

text \<open>The reasons collected by \<open>evaluate\<close>, in the order of its tests.\<close>

definition proactive_reasons :: "proactive_policy \<Rightarrow> proactive_context \<Rightarrow> bool \<Rightarrow> rat \<Rightarrow> ustr list" where
  "proactive_reasons p c quiet score =
     (if \<not> pp_enabled p then [lit ''proactive_disabled''] else []) @
     (if pc_has_boundary_block c then [lit ''relationship_boundary_blocked''] else []) @
     (if quiet then [lit ''quiet_hours''] else []) @
     (if pc_days_since_user_activity c > of_int (pp_require_recent_user_days p)
      then [lit ''user_inactive_too_long''] else []) @
     (if pc_used_budget c + pc_social_cost c > pp_daily_budget p
      then [lit ''daily_social_budget_exhausted''] else []) @
     (if score < pp_minimum_score p then [lit ''score_below_threshold''] else [])"

definition policy_approved :: ustr where
  "policy_approved = lit ''policy_approved''"

definition proactive_evaluate ::
    "proactive_policy \<Rightarrow> proactive_context \<Rightarrow> hour_error + proactive_decision" where
  "proactive_evaluate p c =
     (let score = proactive_score c in
      bind_result (in_quiet_hours (pc_local_hour c) (pp_quiet_hours_start p) (pp_quiet_hours_end p))
        (\<lambda>quiet.
          let found = proactive_reasons p c quiet score;
              reasons = (if found = [] then [policy_approved] else found)
          in Inr \<lparr>pd_approved = (reasons = [policy_approved]), pd_score = score, pd_reasons = reasons\<rparr>))"

section \<open>Scores\<close>

lemma weight_15_nonneg: "0 \<le> weight_15"
  by (simp add: weight_15_def rnd_nonneg)

lemma recency_anti: "a \<le> b \<Longrightarrow> recency b \<le> recency a"
  unfolding recency_def by (intro max.mono fsub_anti fdiv_mono) auto

definition signals_le :: "proactive_context \<Rightarrow> proactive_context \<Rightarrow> bool" where
  "signals_le c d \<longleftrightarrow> pc_importance c \<le> pc_importance d \<and> pc_confidence c \<le> pc_confidence d \<and>
     pc_affinity c \<le> pc_affinity d \<and> pc_trust c \<le> pc_trust d \<and> pc_familiarity c \<le> pc_familiarity d \<and>
     pc_days_since_user_activity d \<le> pc_days_since_user_activity c"

lemma raw_score_mono: "signals_le c d \<Longrightarrow> raw_score c \<le> raw_score d"
  unfolding raw_score_def signals_le_def
  by (intro fadd_mono fmul_mono recency_anti weight_15_nonneg) auto

text \<open>
  The score of a proactive message lies between 0 and 1, and stronger signals (and a more
  recent activity of the user) never lower it, in the floating-point arithmetic the code uses.
\<close>

lemma score_bounded_and_monotone:
  assumes "signals_le c d"
  shows "0 \<le> proactive_score c \<and> proactive_score c \<le> proactive_score d \<and> proactive_score d \<le> 1"
proof -
  have "max 0 (min 1 (raw_score c)) \<le> max 0 (min 1 (raw_score d))"
    using raw_score_mono[OF assms] by (simp add: max_def min_def)
  then show ?thesis
    unfolding proactive_score_def
    using round_digits_mono round_digits_unit[of "max 0 (min 1 (raw_score c))" 6]
      round_digits_unit[of "max 0 (min 1 (raw_score d))" 6] by simp
qed

definition sample_signals :: "rat \<Rightarrow> proactive_context" where
  "sample_signals x = \<lparr>pc_local_hour = 12, pc_days_since_user_activity = 30, pc_importance = x,
     pc_confidence = 0, pc_affinity = 0, pc_trust = 0, pc_familiarity = 0,
     pc_used_budget = 0, pc_social_cost = 1, pc_has_boundary_block = False\<rparr>"

lemma score_bounded_and_monotone_instance:
  "proactive_score (sample_signals (1 / 2)) \<le> proactive_score (sample_signals (3 / 4))"
  using score_bounded_and_monotone[of "sample_signals (1 / 2)" "sample_signals (3 / 4)"]
  by (simp add: signals_le_def sample_signals_def)

section \<open>Quiet hours\<close>

lemma bounded_mod_24:
  fixes x :: int
  assumes "- 24 < x" and "x < 24"
  shows "x mod 24 = (if x < 0 then x + 24 else x)"
proof (cases "x < 0")
  case True
  then have "(x + 24) mod 24 = x + 24" using assms by (intro mod_pos_pos_trivial) auto
  with True show ?thesis by simp
next
  case False
  with assms show ?thesis by simp
qed

text \<open>
  Quiet hours are the cyclic interval from the start hour up to, not including, the end
  hour, also when it passes midnight; equal hours mean no quiet time; and an hour outside 0..23 is
  the only error.
\<close>

lemma quiet_hours_are_cyclic:
  "in_quiet_hours hour start end_hour =
     (if hour \<in> {0..23} \<and> start \<in> {0..23} \<and> end_hour \<in> {0..23}
      then Inr ((hour - start) mod 24 < (end_hour - start) mod 24)
      else if hour \<in> {0..23} then Inl BadQuietHours else Inl BadLocalHour)"
  using bounded_mod_24[of "hour - start"] bounded_mod_24[of "end_hour - start"]
  by (auto simp: in_quiet_hours_def)

section \<open>The decision\<close>

lemma policy_approved_not_reason: "policy_approved \<notin> set (proactive_reasons p c quiet score)"
  by (auto simp: proactive_reasons_def policy_approved_def split: if_splits)

lemma proactive_reasons_empty:
  "proactive_reasons p c quiet score = [] \<longleftrightarrow> pp_enabled p \<and> \<not> pc_has_boundary_block c \<and> \<not> quiet \<and>
     pc_days_since_user_activity c \<le> of_int (pp_require_recent_user_days p) \<and>
     pc_used_budget c + pc_social_cost c \<le> pp_daily_budget p \<and> pp_minimum_score p \<le> score"
  by (auto simp: proactive_reasons_def)

lemma evaluate_Inr:
  assumes "proactive_evaluate p c = Inr d"
  obtains quiet where "in_quiet_hours (pc_local_hour c) (pp_quiet_hours_start p) (pp_quiet_hours_end p) = Inr quiet"
    "pd_score d = proactive_score c"
    "pd_reasons d = (if proactive_reasons p c quiet (proactive_score c) = [] then [policy_approved]
       else proactive_reasons p c quiet (proactive_score c))"
    "pd_approved d \<longleftrightarrow> pd_reasons d = [policy_approved]"
  using assms unfolding proactive_evaluate_def Let_def bind_result_Inr by auto

lemma reason_iff:
  "lit ''proactive_disabled'' \<in> set (proactive_reasons p c quiet score) \<longleftrightarrow> \<not> pp_enabled p"
  "lit ''relationship_boundary_blocked'' \<in> set (proactive_reasons p c quiet score) \<longleftrightarrow> pc_has_boundary_block c"
  "lit ''quiet_hours'' \<in> set (proactive_reasons p c quiet score) \<longleftrightarrow> quiet"
  "lit ''user_inactive_too_long'' \<in> set (proactive_reasons p c quiet score) \<longleftrightarrow>
     of_int (pp_require_recent_user_days p) < pc_days_since_user_activity c"
  "lit ''daily_social_budget_exhausted'' \<in> set (proactive_reasons p c quiet score) \<longleftrightarrow>
     pp_daily_budget p < pc_used_budget c + pc_social_cost c"
  "lit ''score_below_threshold'' \<in> set (proactive_reasons p c quiet score) \<longleftrightarrow> score < pp_minimum_score p"
  by (auto simp: proactive_reasons_def)

definition refusal_reasons :: "ustr list" where
  "refusal_reasons = [lit ''proactive_disabled'', lit ''relationship_boundary_blocked'', lit ''quiet_hours'',
     lit ''user_inactive_too_long'', lit ''daily_social_budget_exhausted'', lit ''score_below_threshold'']"

lemma reasons_known: "set (proactive_reasons p c quiet score) \<subseteq> set refusal_reasons"
  by (auto simp: proactive_reasons_def refusal_reasons_def)

lemma policy_approved_fresh: "policy_approved \<notin> set refusal_reasons"
  by (simp add: policy_approved_def refusal_reasons_def)

text \<open>
  C12: A proactive message is approved exactly when the policy is enabled, the relationship has
  no boundary block, the hour is not quiet, the user was active recently enough, the budget covers its
  cost and the score reaches the threshold. An approval has the one reason that says so; a refusal has
  only reasons of refusal, at least one, and each of the six exactly when the limit it names is violated.
\<close>

theorem approval_is_exact:
  assumes "proactive_evaluate p c = Inr d"
  shows "(pd_approved d \<longleftrightarrow> pp_enabled p \<and> \<not> pc_has_boundary_block c \<and>
      in_quiet_hours (pc_local_hour c) (pp_quiet_hours_start p) (pp_quiet_hours_end p) = Inr False \<and>
      pc_days_since_user_activity c \<le> of_int (pp_require_recent_user_days p) \<and>
      pc_used_budget c + pc_social_cost c \<le> pp_daily_budget p \<and>
      pp_minimum_score p \<le> proactive_score c) \<and>
    (pd_approved d \<longrightarrow> pd_reasons d = [lit ''policy_approved'']) \<and>
    (\<not> pd_approved d \<longrightarrow> pd_reasons d \<noteq> [] \<and> set (pd_reasons d) \<subseteq>
      {lit ''proactive_disabled'', lit ''relationship_boundary_blocked'', lit ''quiet_hours'',
       lit ''user_inactive_too_long'', lit ''daily_social_budget_exhausted'', lit ''score_below_threshold''}) \<and>
    (lit ''proactive_disabled'' \<in> set (pd_reasons d) \<longleftrightarrow> \<not> pp_enabled p) \<and>
    (lit ''relationship_boundary_blocked'' \<in> set (pd_reasons d) \<longleftrightarrow> pc_has_boundary_block c) \<and>
    (lit ''quiet_hours'' \<in> set (pd_reasons d) \<longleftrightarrow>
      in_quiet_hours (pc_local_hour c) (pp_quiet_hours_start p) (pp_quiet_hours_end p) = Inr True) \<and>
    (lit ''user_inactive_too_long'' \<in> set (pd_reasons d) \<longleftrightarrow>
      of_int (pp_require_recent_user_days p) < pc_days_since_user_activity c) \<and>
    (lit ''daily_social_budget_exhausted'' \<in> set (pd_reasons d) \<longleftrightarrow>
      pp_daily_budget p < pc_used_budget c + pc_social_cost c) \<and>
    (lit ''score_below_threshold'' \<in> set (pd_reasons d) \<longleftrightarrow> proactive_score c < pp_minimum_score p)"
proof -
  obtain quiet where q: "in_quiet_hours (pc_local_hour c) (pp_quiet_hours_start p) (pp_quiet_hours_end p) = Inr quiet"
    and r: "pd_reasons d = (if proactive_reasons p c quiet (proactive_score c) = [] then [policy_approved]
       else proactive_reasons p c quiet (proactive_score c))"
    and a: "pd_approved d \<longleftrightarrow> pd_reasons d = [policy_approved]"
    using assms by (rule evaluate_Inr)
  let ?r = "proactive_reasons p c quiet (proactive_score c)"
  have iff: "pd_approved d \<longleftrightarrow> ?r = []"
    using policy_approved_not_reason[of p c quiet "proactive_score c"] by (auto simp: a r)
  have mem: "x \<in> set (pd_reasons d) \<longleftrightarrow> x \<in> set ?r" if "x \<in> set refusal_reasons" for x
    using that policy_approved_fresh by (auto simp: r)
  have "\<not> pd_approved d \<longrightarrow> pd_reasons d \<noteq> [] \<and> set (pd_reasons d) \<subseteq>
      {lit ''proactive_disabled'', lit ''relationship_boundary_blocked'', lit ''quiet_hours'',
       lit ''user_inactive_too_long'', lit ''daily_social_budget_exhausted'', lit ''score_below_threshold''}"
    using reasons_known[of p c quiet "proactive_score c"] by (simp add: iff r refusal_reasons_def)
  moreover have "lit ''proactive_disabled'' \<in> set (pd_reasons d) \<longleftrightarrow> \<not> pp_enabled p"
    "lit ''relationship_boundary_blocked'' \<in> set (pd_reasons d) \<longleftrightarrow> pc_has_boundary_block c"
    "lit ''quiet_hours'' \<in> set (pd_reasons d) \<longleftrightarrow> quiet"
    "lit ''user_inactive_too_long'' \<in> set (pd_reasons d) \<longleftrightarrow>
      of_int (pp_require_recent_user_days p) < pc_days_since_user_activity c"
    "lit ''daily_social_budget_exhausted'' \<in> set (pd_reasons d) \<longleftrightarrow>
      pp_daily_budget p < pc_used_budget c + pc_social_cost c"
    "lit ''score_below_threshold'' \<in> set (pd_reasons d) \<longleftrightarrow> proactive_score c < pp_minimum_score p"
    by (subst mem; simp add: refusal_reasons_def reason_iff)+
  moreover have "pd_approved d \<longrightarrow> pd_reasons d = [lit ''policy_approved'']"
    using a by (simp add: policy_approved_def)
  moreover have "pd_approved d \<longleftrightarrow> pp_enabled p \<and> \<not> pc_has_boundary_block c \<and> quiet = False \<and>
      pc_days_since_user_activity c \<le> of_int (pp_require_recent_user_days p) \<and>
      pc_used_budget c + pc_social_cost c \<le> pp_daily_budget p \<and> pp_minimum_score p \<le> proactive_score c"
    by (simp add: iff proactive_reasons_empty)
  ultimately show ?thesis unfolding q by (simp only: sum.inject simp_thms)
qed

theorem approval_is_exact_witness:
  "\<exists>d. proactive_evaluate \<lparr>pp_enabled = True, pp_minimum_score = 1 / 10, pp_daily_budget = 3,
      pp_quiet_hours_start = 22, pp_quiet_hours_end = 7, pp_require_recent_user_days = 30\<rparr>
      (sample_signals (1 / 2)) = Inr d \<and> pd_approved d"
proof -
  let ?p = "\<lparr>pp_enabled = True, pp_minimum_score = 1 / 10, pp_daily_budget = 3,
      pp_quiet_hours_start = 22, pp_quiet_hours_end = 7, pp_require_recent_user_days = 30\<rparr>"
  have q: "in_quiet_hours 12 22 7 = Inr False" by (simp add: in_quiet_hours_def)
  then obtain d where d: "proactive_evaluate ?p (sample_signals (1 / 2)) = Inr d"
    by (auto simp: proactive_evaluate_def Let_def sample_signals_def)
  have "1 / 10 \<le> proactive_score (sample_signals (1 / 2))" by code_simp
  then have "pd_approved d"
    using approval_is_exact[OF d] q by (simp add: sample_signals_def)
  with d show ?thesis by blast
qed

end
