(* ===== verification/Task_Scheduling.thy ===== *)
theory Task_Scheduling
  imports Task_Service Proactive
begin

text \<open>
  \<open>ScheduledActionService\<close> (\<open>packages/application/.../task_service.py\<close>): creating, listing and
  cancelling a scheduled action, and deciding it by the proactive policy when it is due.
\<close>

record create_args =
  ca_tenant_id :: uuid
  ca_agent_id :: uuid
  ca_user_id :: uuid
  ca_conversation_id :: "uuid option"
  ca_kind :: action_kind
  ca_scheduled_for :: py_datetime
  ca_expires_at :: "py_datetime option"
  ca_idempotency_key :: ustr
  ca_reason :: ustr
  ca_payload :: json_dict
  ca_social_cost :: int
  ca_created_by :: uuid
  ca_max_attempts :: int
  ca_lease_seconds :: int
  ca_retry_base_seconds :: int

definition check_expiry :: "py_datetime option \<Rightarrow> instant \<Rightarrow> service_error + instant option" where
  "check_expiry expires_at scheduled_for =
     (case expires_at of
        None \<Rightarrow> Inr None
      | Some e \<Rightarrow> bind_result (require_aware e ExpiresAtLabel) (\<lambda>t.
          if t \<le> scheduled_for then Inl (TaskValidationError ExpiresTooEarly) else Inr (Some t)))"

definition check_cost :: "int \<Rightarrow> service_error + unit" where
  "check_cost n = (if \<not> (0 \<le> n \<and> n \<le> 20) then Inl (TaskValidationError CostOutOfRange) else Inr ())"

definition pending_action ::
    "create_args \<Rightarrow> uuid \<Rightarrow> uuid \<Rightarrow> instant \<Rightarrow> instant option \<Rightarrow> ustr \<Rightarrow> ustr \<Rightarrow> json_dict \<Rightarrow> instant \<Rightarrow> scheduled_action" where
  "pending_action args action_id job_id scheduled_for expires_at key reason payload now =
     \<lparr>sa_id = action_id, sa_tenant_id = ca_tenant_id args, sa_agent_id = ca_agent_id args,
      sa_user_id = ca_user_id args, sa_conversation_id = ca_conversation_id args,
      sa_kind = ca_kind args, sa_status = ACTION_PENDING, sa_scheduled_for = scheduled_for,
      sa_expires_at = expires_at, sa_idempotency_key = key, sa_reason = reason,
      sa_payload = payload, sa_score = None, sa_social_cost = ca_social_cost args,
      sa_decision_reasons = [], sa_job_id = Some job_id, sa_created_by = ca_created_by args,
      sa_created_at = now, sa_updated_at = now, sa_completed_at = None\<rparr>"

definition action_job :: "create_args \<Rightarrow> uuid \<Rightarrow> uuid \<Rightarrow> instant \<Rightarrow> ustr \<Rightarrow> instant \<Rightarrow> background_job" where
  "action_job args action_id job_id scheduled_for key now =
     \<lparr>bj_id = job_id, bj_tenant_id = ca_tenant_id args, bj_kind = SCHEDULED_ACTION,
      bj_queue = queue_by_kind SCHEDULED_ACTION, bj_status = JOB_PENDING,
      bj_payload = [(lit ''scheduled_action_id'', JStr (uuid_str action_id))],
      bj_deduplication_key = lit ''scheduled-action:'' @ key, bj_source_inbox_id = None,
      bj_correlation_id = Some (uuid_str action_id), bj_attempt_count = 0,
      bj_max_attempts = ca_max_attempts args, bj_lease_seconds = ca_lease_seconds args,
      bj_retry_base_seconds = ca_retry_base_seconds args, bj_available_at = scheduled_for,
      bj_lease_owner = None, bj_lease_expires_at = None, bj_cancel_requested_at = None,
      bj_last_error_code = None, bj_last_error_summary = None, bj_result_summary = [],
      bj_replayed_from_id = None, bj_created_by = Some (ca_created_by args), bj_created_at = now,
      bj_started_at = None, bj_completed_at = None, bj_updated_at = now,
      bj_agent_id = Some (ca_agent_id args)\<rparr>"

definition action_create ::
    "(rat \<Rightarrow> ustr) \<Rightarrow> create_args \<Rightarrow> instant \<Rightarrow> uuid \<Rightarrow> uuid \<Rightarrow> uuid \<Rightarrow> task_store \<Rightarrow>
       service_error + ((scheduled_action \<times> bool) \<times> task_store)" where
  "action_create fr args now action_id job_id outbox_id s =
     bind_result (require_aware (ca_scheduled_for args) ScheduledForLabel) (\<lambda>scheduled_for.
     bind_result (check_expiry (ca_expires_at args) scheduled_for) (\<lambda>expires_at.
     bind_result (check_cost (ca_social_cost args)) (\<lambda>_.
     bind_result (check_attempts (ca_max_attempts args)) (\<lambda>_.
     bind_result (require_positive (ca_lease_seconds args) LeaseSecondsLabel) (\<lambda>_.
     bind_result (require_positive (ca_retry_base_seconds args) RetryBaseLabel) (\<lambda>_.
     bind_result (normalize_payload fr (ca_payload args)) (\<lambda>payload.
     bind_result (required_text (ca_idempotency_key args) IdempotencyKey 255) (\<lambda>key.
     bind_result (required_text (ca_reason args) ActionReason 500) (\<lambda>reason.
       let action = pending_action args action_id job_id scheduled_for expires_at key reason payload now;
           job = action_job args action_id job_id scheduled_for key now
       in Inr (mem_create_scheduled_action action job (make_outbox outbox_id job now scheduled_for) s))))))))))"

definition action_list ::
    "uuid \<Rightarrow> uuid \<Rightarrow> action_status option \<Rightarrow> int \<Rightarrow> task_store \<Rightarrow> service_error + scheduled_action list" where
  "action_list tenant_id agent_id st limit s =
     bind_result (require_limit limit) (\<lambda>n. Inr (mem_list_scheduled_actions tenant_id agent_id st n s))"

definition action_cancel ::
    "uuid \<Rightarrow> uuid \<Rightarrow> uuid \<Rightarrow> bool \<Rightarrow> instant \<Rightarrow> task_store \<Rightarrow>
       (service_error + scheduled_action) \<times> task_store" where
  "action_cancel tenant_id agent_id action_id confirmed now s =
     (if \<not> confirmed then (Inl (TaskValidationError NotConfirmed), s)
      else (case mem_get_scheduled_action tenant_id action_id s of
              None \<Rightarrow> (Inl (TaskNotFoundError action_id), s)
            | Some current \<Rightarrow>
                if sa_agent_id current \<noteq> agent_id then (Inl (TaskNotFoundError action_id), s)
                else (case mem_cancel_scheduled_action tenant_id action_id now s of
                        (None, t) \<Rightarrow> (Inl (TaskNotFoundError action_id), t)
                      | (Some item, t) \<Rightarrow> (Inr item, t))))"

datatype evaluate_error = ServiceFailure service_error | ValueError hour_error

definition expired_decision :: proactive_decision where
  "expired_decision = \<lparr>pd_approved = False, pd_score = 0, pd_reasons = [lit ''action_expired'']\<rparr>"

definition action_usage :: "uuid \<Rightarrow> uuid \<Rightarrow> scheduled_action \<Rightarrow> date \<Rightarrow> instant \<Rightarrow> budget_usage" where
  "action_usage usage_id tenant_id action budget_date now =
     \<lparr>bu_id = usage_id, bu_tenant_id = tenant_id, bu_agent_id = sa_agent_id action,
      bu_user_id = sa_user_id action, bu_budget_date = budget_date,
      bu_scheduled_action_id = sa_id action, bu_cost = sa_social_cost action, bu_created_at = now\<rparr>"

definition finish_evaluation ::
    "uuid \<Rightarrow> scheduled_action option \<times> task_store \<Rightarrow> (evaluate_error + scheduled_action) \<times> task_store" where
  "finish_evaluation action_id r =
     (case r of
        (None, t) \<Rightarrow> (Inl (ServiceFailure (TaskNotFoundError action_id)), t)
      | (Some updated, t) \<Rightarrow> (Inr updated, t))"

definition action_evaluate ::
    "uuid \<Rightarrow> uuid \<Rightarrow> proactive_policy \<Rightarrow> proactive_context \<Rightarrow> date \<Rightarrow> instant \<Rightarrow> uuid \<Rightarrow> task_store \<Rightarrow>
       (evaluate_error + scheduled_action) \<times> task_store" where
  "action_evaluate tenant_id action_id policy context budget_date now usage_id s =
     (case mem_get_scheduled_action tenant_id action_id s of
        None \<Rightarrow> (Inl (ServiceFailure (PermanentTaskError action_id)), s)
      | Some action \<Rightarrow>
          if sa_status action \<noteq> ACTION_PENDING then (Inr action, s)
          else if (case sa_expires_at action of None \<Rightarrow> False | Some e \<Rightarrow> e \<le> now) then
            finish_evaluation action_id (mem_decide_scheduled_action tenant_id action_id expired_decision
              None (pp_daily_budget policy) now s)
          else
            (let used = mem_social_budget_used tenant_id (sa_agent_id action) (sa_user_id action) budget_date s;
                 effective = context\<lparr>pc_used_budget := used, pc_social_cost := sa_social_cost action\<rparr>
             in case proactive_evaluate policy effective of
                  Inl e \<Rightarrow> (Inl (ValueError e), s)
                | Inr decision \<Rightarrow>
                    finish_evaluation action_id (mem_decide_scheduled_action tenant_id action_id decision
                      (if pd_approved decision \<and> sa_social_cost action \<noteq> 0
                       then Some (action_usage usage_id tenant_id action budget_date now) else None)
                      (pp_daily_budget policy) now s)))"

section \<open>What evaluation does\<close>

lemma get_action_iff:
  "mem_get_scheduled_action tn i s = Some a \<longleftrightarrow> dict_get (scheduled_actions s) i = Some a \<and> sa_tenant_id a = tn"
  by (auto simp: mem_get_scheduled_action_def split: option.splits)

lemma decide_pending:
  assumes "dict_get (scheduled_actions s) i = Some a" "sa_tenant_id a = tn" "sa_status a = ACTION_PENDING"
    and "charge_budget d u b s = (eff, s1)"
  shows "mem_decide_scheduled_action tn i d u b now s =
    (Some (a\<lparr>sa_status := action_status_of eff, sa_score := Some (pd_score eff),
       sa_decision_reasons := pd_reasons eff, sa_updated_at := now, sa_completed_at := Some now\<rparr>),
     s1\<lparr>scheduled_actions := dict_set i (a\<lparr>sa_status := action_status_of eff, sa_score := Some (pd_score eff),
       sa_decision_reasons := pd_reasons eff, sa_updated_at := now, sa_completed_at := Some now\<rparr>)
       (scheduled_actions s1)\<rparr>)"
  using assms by (simp add: mem_decide_scheduled_action_def Let_def)

lemma approved_within_budget:
  assumes "proactive_evaluate p c = Inr d" and "pd_approved d"
  shows "pc_used_budget c + pc_social_cost c \<le> pp_daily_budget p \<and> pd_reasons d = [policy_approved]"
proof -
  obtain quiet where r: "pd_reasons d = (if proactive_reasons p c quiet (proactive_score c) = []
      then [policy_approved] else proactive_reasons p c quiet (proactive_score c))"
    and a: "pd_approved d \<longleftrightarrow> pd_reasons d = [policy_approved]"
    using assms(1) by (rule evaluate_Inr)
  have "policy_approved \<notin> set (proactive_reasons p c quiet (proactive_score c))"
    by (rule policy_approved_not_reason)
  then have "proactive_reasons p c quiet (proactive_score c) = []"
    using assms(2) a r by (auto split: if_splits)
  then show ?thesis using assms(2) a by (simp add: proactive_reasons_empty)
qed

lemma policy_never_expires:
  assumes "proactive_evaluate p c = Inr d"
  shows "lit ''action_expired'' \<notin> set (pd_reasons d)"
proof -
  obtain quiet where r: "pd_reasons d = (if proactive_reasons p c quiet (proactive_score c) = []
      then [policy_approved] else proactive_reasons p c quiet (proactive_score c))"
    using assms by (rule evaluate_Inr)
  have "lit ''action_expired'' \<notin> set (proactive_reasons p c q x)" for q x
    by (simp add: proactive_reasons_def)
  then show ?thesis by (simp add: r policy_approved_def)
qed

text \<open>
  Evaluating a pending action settles it: an expired action is marked expired and spends
  nothing; otherwise it is dispatched exactly when the policy approves it with the budget spent so far
  and its own cost, and an approved action never brings the day's spending above the daily
  budget.
\<close>

lemma evaluation_settles_action:
  assumes "mem_get_scheduled_action tenant_id action_id s = Some a" and "sa_status a = ACTION_PENDING"
    and "dict_get (budget_usages s) usage_id = None"
    and "proactive_evaluate policy (context\<lparr>pc_used_budget := mem_social_budget_used tenant_id
           (sa_agent_id a) (sa_user_id a) budget_date s, pc_social_cost := sa_social_cost a\<rparr>) = Inr d"
    and "action_evaluate tenant_id action_id policy context budget_date now usage_id s = (r, t)"
  shows "\<exists>b. r = Inr b \<and> mem_get_scheduled_action tenant_id action_id t = Some b \<and>
    sa_completed_at b = Some now \<and>
    (if \<exists>e. sa_expires_at a = Some e \<and> e \<le> now
     then sa_status b = ACTION_EXPIRED \<and> budget_usages t = budget_usages s
     else sa_status b = (if pd_approved d then ACTION_DISPATCHED else ACTION_SUPPRESSED) \<and>
       (pd_approved d \<longrightarrow> mem_social_budget_used tenant_id (sa_agent_id a) (sa_user_id a) budget_date s +
          sa_social_cost a \<le> pp_daily_budget policy) \<and>
       (\<not> pd_approved d \<longrightarrow> budget_usages t = budget_usages s))"
proof -
  let ?exp = "\<exists>e. sa_expires_at a = Some e \<and> e \<le> now"
  let ?used = "mem_social_budget_used tenant_id (sa_agent_id a) (sa_user_id a) budget_date s"
  have a: "dict_get (scheduled_actions s) action_id = Some a" "sa_tenant_id a = tenant_id"
    using assms(1) by (auto simp: get_action_iff)
  have exp: "(case sa_expires_at a of None \<Rightarrow> False | Some e \<Rightarrow> e \<le> now) \<longleftrightarrow> ?exp"
    by (auto split: option.splits)
  show ?thesis
  proof (cases ?exp)
    case True
    have c: "charge_budget expired_decision None (pp_daily_budget policy) s = (expired_decision, s)"
      by (simp add: charge_budget_def)
    have "action_status_of expired_decision = ACTION_EXPIRED"
      by (simp add: action_status_of_def expired_decision_def)
    moreover have "(r, t) = finish_evaluation action_id (mem_decide_scheduled_action tenant_id action_id
        expired_decision None (pp_daily_budget policy) now s)"
      using assms(1,2,5) True exp by (simp add: action_evaluate_def)
    ultimately show ?thesis
      unfolding decide_pending[OF a assms(2) c] finish_evaluation_def using True a(2)
      by (simp add: get_action_iff)
  next
    case False
    define u where "u = (if pd_approved d \<and> sa_social_cost a \<noteq> 0
      then Some (action_usage usage_id tenant_id a budget_date now) else None)"
    have budget: "?used + sa_social_cost a \<le> pp_daily_budget policy \<and> pd_reasons d = [policy_approved]" if "pd_approved d"
      using approved_within_budget[OF assms(4) that] by simp
    obtain eff s1 where c: "charge_budget d u (pp_daily_budget policy) s = (eff, s1)"
      by (cases "charge_budget d u (pp_daily_budget policy) s")
    have eff: "eff = d" "\<not> pd_approved d \<Longrightarrow> s1 = s"
      using c budget by (auto simp: charge_budget_def u_def action_usage_def split: if_splits)
    have st: "action_status_of d = (if pd_approved d then ACTION_DISPATCHED else ACTION_SUPPRESSED)"
    proof -
      have "lit ''action_expired'' \<notin> set (pd_reasons d)" by (rule policy_never_expires[OF assms(4)])
      then show ?thesis by (simp add: action_status_of_def)
    qed
    have "(r, t) = finish_evaluation action_id
        (mem_decide_scheduled_action tenant_id action_id d u (pp_daily_budget policy) now s)"
      using assms(1,2,4,5) False exp by (simp add: action_evaluate_def u_def Let_def)
    then show ?thesis
      unfolding decide_pending[OF a assms(2) c] finish_evaluation_def using False eff st budget a(2)
      by (simp add: get_action_iff)
  qed
qed

definition due_action :: scheduled_action where
  "due_action = \<lparr>sa_id = 400, sa_tenant_id = 1, sa_agent_id = 2, sa_user_id = 3,
     sa_conversation_id = None, sa_kind = FOLLOW_UP, sa_status = ACTION_PENDING, sa_scheduled_for = 5,
     sa_expires_at = Some 8, sa_idempotency_key = [], sa_reason = [], sa_payload = [],
     sa_score = None, sa_social_cost = 4, sa_decision_reasons = [], sa_job_id = Some 10,
     sa_created_by = 3, sa_created_at = 0, sa_updated_at = 0, sa_completed_at = None\<rparr>"

definition due_store :: task_store where
  "due_store = empty_store\<lparr>scheduled_actions := [(400, due_action)]\<rparr>"

definition open_policy :: proactive_policy where
  "open_policy = \<lparr>pp_enabled = True, pp_minimum_score = 0, pp_daily_budget = 9,
     pp_quiet_hours_start = 0, pp_quiet_hours_end = 0, pp_require_recent_user_days = 30\<rparr>"

lemma evaluation_settles_action_instance:
  "\<exists>b. fst (action_evaluate 1 400 open_policy (sample_signals 1) 7 6 500 due_store) = Inr b \<and>
     sa_completed_at b = Some 6 \<and> sa_status b \<in> {ACTION_DISPATCHED, ACTION_SUPPRESSED}"
proof -
  let ?c = "(sample_signals 1)\<lparr>pc_used_budget := mem_social_budget_used 1 (sa_agent_id due_action)
    (sa_user_id due_action) 7 due_store, pc_social_cost := sa_social_cost due_action\<rparr>"
  let ?r = "action_evaluate 1 400 open_policy (sample_signals 1) 7 6 500 due_store"
  have a: "mem_get_scheduled_action 1 400 due_store = Some due_action" "sa_status due_action = ACTION_PENDING"
    "dict_get (budget_usages due_store) 500 = None" "sa_expires_at due_action = Some 8"
    by (simp_all add: mem_get_scheduled_action_def due_store_def due_action_def dict_get_def empty_store_def)
  have "in_quiet_hours 12 0 0 = Inr False" by (simp add: in_quiet_hours_def)
  then obtain d where d: "proactive_evaluate open_policy ?c = Inr d"
    by (auto simp: proactive_evaluate_def Let_def sample_signals_def open_policy_def)
  obtain b where "fst ?r = Inr b" "sa_completed_at b = Some 6"
    "sa_status b = (if pd_approved d then ACTION_DISPATCHED else ACTION_SUPPRESSED)"
    using evaluation_settles_action[OF a(1-3) d surjective_pairing[of ?r]] a(4) by auto
  then show ?thesis by (intro exI[of _ b]) simp
qed

end
