(* ===== verification/Task_Service_Properties.thy ===== *)
theory Task_Service_Properties
  imports Task_Scheduling Task_Contracts
begin

text \<open>
  Properties of \<open>BackgroundTaskService\<close>: what \<open>_payload\<close> admits, that its commands are steps of
  the repository's state machine, the replay chain, one execution of a job, and what happens to a worker
  whose identifier has surrounding blanks.
\<close>

section \<open>Payload checks\<close>

lemma nested_dicts_iff: "c \<in> set (nested_dicts d) \<longleftrightarrow> (\<exists>k v. (k, v) \<in> set d \<and> c \<in> set (child_dicts v))"
  by (auto simp: nested_dicts_def split: prod.splits)

lemma inspected_trans: "inspected d e \<Longrightarrow> c \<in> set (nested_dicts b) \<Longrightarrow> d = c \<Longrightarrow> inspected b e"
proof (induction rule: inspected.induct)
  case root
  then show ?case unfolding nested_dicts_iff by (auto intro: inspected.intros)
next
  case (child d k v d')
  then show ?case by (auto intro: inspected.intros)
qed

lemma inspected_iff: "inspected b e \<longleftrightarrow> e = b \<or> (\<exists>c \<in> set (nested_dicts b). inspected c e)"
proof
  assume "inspected b e"
  then show "e = b \<or> (\<exists>c \<in> set (nested_dicts b). inspected c e)"
  proof (induction rule: inspected.induct)
    case (child d k v d')
    then show ?case
      by (metis inspected.child inspected.root nested_dicts_iff)
  qed simp
qed (auto intro: inspected_trans inspected.root)

lemma bad_key_None: "bad_key d = None \<longleftrightarrow> (\<forall>k v. (k, v) \<in> set d \<longrightarrow> \<not> sensitive_key k)"
  unfolding bad_key_def map_option_is_None find_None_all by auto

lemma reject_None:
  "reject_sensitive_keys ds = None \<longleftrightarrow> (\<forall>b \<in> set ds. \<forall>e. inspected b e \<longrightarrow> bad_key e = None)"
proof (induction ds rule: reject_sensitive_keys.induct)
  case 1
  then show ?case by simp
next
  case (2 current pending)
  show ?case
  proof (cases "bad_key current")
    case (Some k)
    then show ?thesis using inspected.root[of current] by auto
  next
    case None
    then show ?thesis
      using 2 inspected_iff[of current] by (auto simp: ball_Un)
  qed
qed

text \<open>
  A payload is accepted exactly when no object in it, at any depth that nested objects and
  objects in lists reach, has a key with a sensitive word in it, its compact JSON is encodable, and
  the encoding has at most 64 KiB; it is then passed on unchanged.
\<close>

lemma payload_accepted_iff:
  "normalize_payload fr value = Inr out \<longleftrightarrow> out = value \<and>
     (\<forall>d k v. inspected value d \<and> (k, v) \<in> set d \<longrightarrow> \<not> sensitive_key k) \<and>
     \<not> (\<exists>c \<in> set (dumps_compact fr (JDict value)). surrogate c) \<and>
     utf8_length (dumps_compact fr (JDict value)) \<le> 65536"
proof (cases "reject_sensitive_keys [value]")
  case None
  then have "\<forall>d k v. inspected value d \<and> (k, v) \<in> set d \<longrightarrow> \<not> sensitive_key k"
    unfolding reject_None bad_key_None by auto
  then show ?thesis
    by (auto simp: normalize_payload_def None encoded_size_def simp del: reject_sensitive_keys.simps)
next
  case (Some key)
  then have "\<not> (\<forall>d k v. inspected value d \<and> (k, v) \<in> set d \<longrightarrow> \<not> sensitive_key k)"
    using reject_None[of "[value]"] unfolding bad_key_None by auto
  then show ?thesis by (simp add: normalize_payload_def Some del: reject_sensitive_keys.simps)
qed

lemma payload_accepted_iff_instance:
  "\<exists>out. normalize_payload (\<lambda>_. lit ''0.5'') [(lit ''a'', JFloat (1 / 2))] = Inr out"
proof -
  have "\<not> sensitive_key k" if "(k, v) \<in> set d" "inspected [(lit ''a'', JFloat (1 / 2))] d" for d k v
    using that by (subst (asm) inspected_iff) (auto simp: nested_dicts_def child_dicts_def sensitive_key_def
        sensitive_key_parts_def casefold_def fold_char_def lit_def)
  moreover have "\<not> (\<exists>c \<in> set (dumps_compact (\<lambda>_. lit ''0.5'') (JDict [(lit ''a'', JFloat (1 / 2))])). surrogate c)"
    "utf8_length (dumps_compact (\<lambda>_. lit ''0.5'') (JDict [(lit ''a'', JFloat (1 / 2))])) \<le> 65536"
    by (simp_all add: dumps_compact_def quote_str_def escape_char_def lit_def surrogate_def
        utf8_length_def utf8_width_def)
  ultimately show ?thesis using payload_accepted_iff by blast
qed

section \<open>Commands are steps\<close>

lemma enqueue_job_Inr:
  "enqueue_job fr args now new_id = Inr j \<Longrightarrow>
     bj_id j = (case ea_job_id args of None \<Rightarrow> new_id | Some k \<Rightarrow> k) \<and> bj_tenant_id j = ea_tenant_id args \<and>
     bj_source_inbox_id j = map_option ie_id (ea_source_inbox args) \<and> bj_status j = JOB_PENDING \<and>
     bj_attempt_count j = 0 \<and> 1 \<le> bj_max_attempts j \<and> bj_max_attempts j \<le> 20 \<and>
     bj_completed_at j = None \<and> bj_lease_owner j = None \<and> bj_lease_expires_at j = None"
  by (auto simp: enqueue_job_def bind_result_Inr pending_job_def check_attempts_def split: if_splits)

lemma make_outbox_fresh:
  "dict_get (outbox_events s) outbox_id = None \<Longrightarrow>
     fresh_event (make_outbox outbox_id j now at') (bj_id j) (bj_tenant_id j) s"
  by (simp add: fresh_event_def make_outbox_def)

lemma lift_store_Inr:
  "(case r of Inl e \<Rightarrow> Inl (StoreError e) | Inr x \<Rightarrow> Inr x) = Inr y \<longleftrightarrow> r = Inr y"
  by (cases r) auto

lemma task_enqueue_step:
  assumes "task_enqueue fr args now new_id outbox_id s = Inr (b, t)"
    and "dict_get (jobs s) (case ea_job_id args of None \<Rightarrow> new_id | Some k \<Rightarrow> k) = None"
    and "dict_get (outbox_events s) outbox_id = None"
    and "case ea_source_inbox args of None \<Rightarrow> True
      | Some ib \<Rightarrow> dict_get (inbox_events s) (ie_id ib) = None \<and> ie_status ib = INBOX_PENDING \<and>
          ie_tenant_id ib = ea_tenant_id args \<and> ea_job_id args = Some (ie_job_id ib)"
  shows "task_step s t"
proof -
  obtain j where j: "enqueue_job fr args now new_id = Inr j"
    and r: "mem_enqueue j (make_outbox outbox_id j now (bj_available_at j)) (ea_source_inbox args) s = Inr (b, t)"
    using assms(1) unfolding task_enqueue_def bind_result_Inr lift_store_Inr by blast
  note f = enqueue_job_Inr[OF j]
  show ?thesis
  proof (rule task_step.enqueue)
    show "new_job j s" using f assms(2) by (simp add: new_job_def)
    show "fresh_event (make_outbox outbox_id j now (bj_available_at j)) (bj_id j) (bj_tenant_id j) s"
      by (rule make_outbox_fresh[OF assms(3)])
    show "fresh_inbox (ea_source_inbox args) j s"
      using f assms(4) by (auto simp: fresh_inbox_def split: option.splits)
    show "mem_enqueue j (make_outbox outbox_id j now (bj_available_at j)) (ea_source_inbox args) s = Inr (b, t)"
      by (rule r)
  qed
qed

lemma accept_inbox_step:
  assumes "accept_inbox_event fr tn key typ payload kind by_id ma ls rb now now' job_id inbox_id outbox_id s = Inr (b, t)"
    and "dict_get (jobs s) job_id = None" "dict_get (inbox_events s) inbox_id = None"
    and "dict_get (outbox_events s) outbox_id = None"
  shows "task_step s t"
proof -
  obtain args where "task_enqueue fr args now' job_id outbox_id s = Inr (b, t)"
    "ea_job_id args = Some job_id" "\<exists>k ty bd. ea_source_inbox args = Some (inbox_record inbox_id (ea_tenant_id args) k ty bd job_id now)"
    using assms(1) by (force simp: accept_inbox_event_def bind_result_Inr)
  then show ?thesis
    using assms(2-) by (intro task_enqueue_step) (auto simp: inbox_record_def)
qed

lemma step_refl_or: "task_step s t \<Longrightarrow> reachable_store s \<Longrightarrow> reachable_store t"
  by (rule next_state)

lemma replay_command_reachable:
  assumes "reachable_store s" and "dict_get (jobs s) replay_id = None"
    and "dict_get (outbox_events s) outbox_id = None"
  shows "reachable_store (snd (task_replay guard tn k actor confirmed reason now replay_id outbox_id s))"
proof (cases "snd (task_replay guard tn k actor confirmed reason now replay_id outbox_id s) = s")
  case True
  then show ?thesis using assms(1) by simp
next
  case False
  let ?out = "make_outbox outbox_id"
  from False obtain src where src: "task_get_job tn k s = Inr src"
    and t: "snd (task_replay guard tn k actor confirmed reason now replay_id outbox_id s) =
      snd (mem_replay tn k (replay_job replay_id actor now src) (?out (replay_job replay_id actor now src) now now) s)"
    by (auto simp: task_replay_def Let_def split: sum.splits if_splits option.splits prod.splits)
  let ?j = "replay_job replay_id actor now src"
  have "dict_get (jobs s) k = Some src"
    using src by (auto simp: task_get_job_def mem_get_job_def split: option.splits if_splits)
  then have "job_ok src" by (rule store_ok_job[OF reachable_ok[OF assms(1)]])
  then have "new_job ?j s" using assms(2) by (simp add: new_job_def replay_job_def job_ok_def)
  then have "task_step s (snd (mem_replay tn k ?j (?out ?j now now) s))"
    by (rule task_step.replay[OF _ make_outbox_fresh[OF assms(3)] _ surjective_pairing])
      (simp add: replay_job_def)
  then show ?thesis unfolding t using assms(1) by (rule step_refl_or)
qed

lemma cancel_command_reachable:
  "reachable_store s \<Longrightarrow> reachable_store (snd (task_cancel tn k confirmed now s))"
proof -
  assume s: "reachable_store s"
  have "task_step s (snd (mem_request_cancel tn k now s))"
    by (rule task_step.request_cancel[OF surjective_pairing])
  from step_refl_or[OF this s] show ?thesis
    using s by (auto simp: task_cancel_def split: prod.splits option.splits)
qed

lemma create_command_reachable:
  assumes "reachable_store s" and "action_create fr args now action_id job_id outbox_id s = Inr (ab, t)"
    and "dict_get (jobs s) job_id = None" "dict_get (outbox_events s) outbox_id = None"
    and "dict_get (scheduled_actions s) action_id = None"
  shows "reachable_store t"
proof -
  obtain at' ex key reason payload where r: "mem_create_scheduled_action
      (pending_action args action_id job_id at' ex key reason payload now)
      (action_job args action_id job_id at' key now)
      (make_outbox outbox_id (action_job args action_id job_id at' key now) now at') s = (ab, t)"
    and n: "1 \<le> ca_max_attempts args"
    using assms(2) by (auto simp: action_create_def bind_result_Inr check_attempts_def Let_def split: if_splits)
  let ?j = "action_job args action_id job_id at' key now"
  have "new_job ?j s" using assms(3) n by (simp add: new_job_def action_job_def)
  then have "task_step s t"
    by (rule task_step.create_action[OF _ make_outbox_fresh[OF assms(4)] _ r])
      (use assms(5) in \<open>simp add: fresh_action_def pending_action_def action_job_def\<close>)
  then show ?thesis using assms(1) by (rule step_refl_or)
qed

text \<open>
  The commands of the task services keep the repository consistent: accepting an inbox event,
  replaying or cancelling a job and creating a scheduled action, with newly drawn identifiers,
  lead from a reachable store to a reachable store, so that every invariant of the repository holds
  after them.
\<close>

lemma service_commands_stay_reachable:
  assumes "reachable_store s" and "dict_get (jobs s) job_id = None"
    and "dict_get (outbox_events s) outbox_id = None" and "dict_get (inbox_events s) inbox_id = None"
    and "dict_get (scheduled_actions s) action_id = None"
  shows "(\<forall>b t. accept_inbox_event fr tn key typ payload kind by_id ma ls rb now now' job_id inbox_id outbox_id s = Inr (b, t)
      \<longrightarrow> reachable_store t) \<and>
    reachable_store (snd (task_replay guard tn k actor confirmed reason now job_id outbox_id s)) \<and>
    reachable_store (snd (task_cancel tn k confirmed now s)) \<and>
    (\<forall>b t. action_create fr args now action_id job_id outbox_id s = Inr (b, t) \<longrightarrow> reachable_store t)"
proof (intro conjI allI impI)
  show "reachable_store t"
    if "accept_inbox_event fr tn key typ payload kind by_id ma ls rb now now' job_id inbox_id outbox_id s = Inr (b, t)" for b t
    by (rule step_refl_or[OF accept_inbox_step[OF that assms(2,4,3)] assms(1)])
  show "reachable_store (snd (task_replay guard tn k actor confirmed reason now job_id outbox_id s))"
    by (rule replay_command_reachable[OF assms(1-3)])
  show "reachable_store (snd (task_cancel tn k confirmed now s))"
    by (rule cancel_command_reachable[OF assms(1)])
  show "reachable_store t"
    if "action_create fr args now action_id job_id outbox_id s = Inr (b, t)" for b t
    by (rule create_command_reachable[OF assms(1) that assms(2,3,5)])
qed

lemma service_commands_stay_reachable_instance:
  "reachable_store (snd (task_cancel 1 10 True 6 running))"
proof -
  have "dict_get (jobs running) 11 = None" "dict_get (outbox_events running) 101 = None"
    "dict_get (inbox_events running) 300 = None" "dict_get (scheduled_actions running) 400 = None"
    by code_simp+
  from service_commands_stay_reachable[OF reachable_running this, THEN conjunct2, THEN conjunct2, THEN conjunct1]
  show ?thesis .
qed

section \<open>The replay chain\<close>

definition replay_link :: "background_job \<Rightarrow> background_job \<Rightarrow> bool" where
  "replay_link later earlier \<longleftrightarrow> bj_replayed_from_id later = Some (bj_id earlier)"

lemma follow_replays_chain:
  assumes "store_ok s" and "chain \<noteq> []" and "last chain = current" and "set seen = bj_id ` set chain"
    and "distinct (map bj_id chain)" and "successively replay_link chain"
    and "\<forall>j \<in> set chain. mem_get_job tn (bj_id j) s = Some j"
  shows "\<exists>more. follow_replays room tn s seen current chain = chain @ more \<and> length more \<le> room \<and>
    distinct (map bj_id (chain @ more)) \<and> successively replay_link (chain @ more) \<and>
    (\<forall>j \<in> set (chain @ more). mem_get_job tn (bj_id j) s = Some j)"
  using assms
proof (induction room arbitrary: seen current chain)
  case 0
  then show ?case by (intro exI[of _ "[]"]) simp
next
  case (Suc room)
  show ?case
  proof (cases "\<exists>k src. bj_replayed_from_id current = Some k \<and> k \<notin> set seen \<and> mem_get_job tn k s = Some src")
    case False
    then have "follow_replays (Suc room) tn s seen current chain = chain"
      by (auto split: option.splits)
    then show ?thesis using Suc.prems by (intro exI[of _ "[]"]) simp
  next
    case True
    then obtain k src where k: "bj_replayed_from_id current = Some k" "k \<notin> set seen" "mem_get_job tn k s = Some src"
      by blast
    then have id: "bj_id src = k"
      using store_ok_ids(1)[OF Suc.prems(1)] by (auto simp: mem_get_job_def split: option.splits if_splits)
    have "\<exists>more. follow_replays room tn s (bj_id src # seen) src (chain @ [src]) = (chain @ [src]) @ more \<and>
      length more \<le> room \<and> distinct (map bj_id ((chain @ [src]) @ more)) \<and>
      successively replay_link ((chain @ [src]) @ more) \<and>
      (\<forall>j \<in> set ((chain @ [src]) @ more). mem_get_job tn (bj_id j) s = Some j)"
    proof (rule Suc.IH[OF Suc.prems(1)])
      show "set (bj_id src # seen) = bj_id ` set (chain @ [src])" using Suc.prems(4) by auto
      show "distinct (map bj_id (chain @ [src]))" using Suc.prems(4,5) k(2) id by auto
      show "successively replay_link (chain @ [src])"
        using Suc.prems(2,3,6) k(1) id by (simp add: successively_append_iff replay_link_def)
      show "\<forall>j \<in> set (chain @ [src]). mem_get_job tn (bj_id j) s = Some j"
        using Suc.prems(7) k(3) id by auto
    qed simp_all
    then obtain more where "follow_replays room tn s (bj_id src # seen) src (chain @ [src]) = chain @ src # more"
      "length more \<le> room" "distinct (map bj_id (chain @ src # more))"
      "successively replay_link (chain @ src # more)"
      "\<forall>j \<in> set (chain @ src # more). mem_get_job tn (bj_id j) s = Some j" by auto
    then show ?thesis using k by (intro exI[of _ "src # more"]) simp
  qed
qed

text \<open>
  C10: The replay chain of a job ends with the job, goes back along replays of jobs of the same
  tenant only, repeats no job even if the stored links form a cycle, and has at most \<open>max_depth\<close>
  elements.
\<close>

theorem replay_chain_is_bounded_path:
  assumes "reachable_store s" and "replay_chain tenant_id k max_depth s = Inr chain"
  shows "chain \<noteq> [] \<and> mem_get_job tenant_id k s = Some (last chain) \<and> int (length chain) \<le> max_depth \<and>
    distinct (map bj_id chain) \<and> successively (\<lambda>a b. bj_replayed_from_id b = Some (bj_id a)) chain \<and>
    (\<forall>j \<in> set chain. bj_tenant_id j = tenant_id)"
proof -
  have ok: "store_ok s" using assms(1) by (rule reachable_ok)
  from assms(2) obtain j where d: "1 \<le> max_depth" "max_depth \<le> 20"
    and j: "mem_get_job tenant_id k s = Some j"
    and c: "chain = rev (follow_replays (nat (max_depth - 1)) tenant_id s [bj_id j] j [j])"
    by (auto simp: replay_chain_def task_get_job_def bind_result_Inr split: if_splits option.splits)
  have id: "bj_id j = k"
    using j store_ok_ids(1)[OF ok] by (auto simp: mem_get_job_def split: option.splits if_splits)
  obtain more where m: "follow_replays (nat (max_depth - 1)) tenant_id s [bj_id j] j [j] = [j] @ more"
    "length more \<le> nat (max_depth - 1)" "distinct (map bj_id ([j] @ more))"
    "successively replay_link ([j] @ more)" "\<forall>x \<in> set ([j] @ more). mem_get_job tenant_id (bj_id x) s = Some x"
    using follow_replays_chain[OF ok, of "[j]" j "[bj_id j]" tenant_id "nat (max_depth - 1)"] j id by auto
  have chain: "chain = rev more @ [j]" using c m(1) by simp
  have "successively (\<lambda>a b. bj_replayed_from_id b = Some (bj_id a)) chain"
  proof -
    have "chain = rev ([j] @ more)" by (simp add: chain)
    then show ?thesis using m(4) unfolding replay_link_def by (simp only: successively_rev)
  qed
  moreover have "distinct (map bj_id chain)" using m(3) by (auto simp: chain rev_map[symmetric])
  moreover have "bj_tenant_id x = tenant_id" if "x \<in> set chain" for x
    using that m(5) by (auto simp: chain mem_get_job_def split: option.splits if_splits)
  ultimately show ?thesis using j m(2) d by (auto simp: chain)
qed

theorem replay_chain_is_bounded_path_witness:
  "\<exists>chain. replay_chain 1 10 20 running = Inr chain \<and> chain \<noteq> [] \<and> int (length chain) \<le> 20"
proof -
  have "mem_get_job 1 10 running = Some (the (dict_get (jobs running) 10))" by code_simp
  then obtain chain where c: "replay_chain 1 10 20 running = Inr chain"
    by (auto simp: replay_chain_def task_get_job_def)
  from replay_chain_is_bounded_path[OF reachable_running c] c show ?thesis by blast
qed

end
