(* ===== verification/Task_Execution.thy ===== *)
theory Task_Execution
  imports Task_Service_Properties
begin

text \<open>
  One execution of a job by \<open>BackgroundTaskService.execute\<close> and one round of \<open>publish_due\<close>: the
  outcome that the repository records for each outcome of the handler, and the two places where
  the service passes a worker identifier on as it was given after claiming with the stripped one.
\<close>

section \<open>Executing a job\<close>

lemma strip_required: "required_text w l m = Inr v \<Longrightarrow> v = strip w"
  by (auto simp: required_text_def Let_def split: if_splits)

text \<open>The store the claim leaves holds the lease under the stripped identifier.\<close>

lemma claim_execution_held:
  assumes "store_ok s" and "mem_claim_job k w now aid s = (Some c, t)"
  shows "execution_held k aid w t = Some (jc_job c, jc_attempt c)" "bj_id (jc_job c) = k"
    "ja_id (jc_attempt c) = aid" "bj_cancel_requested_at (jc_job c) = None"
    "bj_attempt_count (jc_job c) \<le> bj_max_attempts (jc_job c)" "bj_lease_owner (jc_job c) = Some w"
    "1 \<le> bj_attempt_count (jc_job c)"
  using assms(2) store_ok_ids(1)[OF assms(1)] store_ok_job[OF assms(1)]
  by (auto simp: job_ok_def mem_claim_job_def execution_held_def start_job_def new_attempt_def job_due_def Let_def
      split: option.splits if_splits)

text \<open>
  C9: Whatever the handler of a claimed job does and whatever others do to the repository meanwhile (\<open>v\<close> is
  the store it leaves): if the job still runs under the lease, held under the worker identifier as it was
  given, the outcome is recorded exactly. A requested cancellation cancels the job; else a valid result
  completes the job with it, a permanent error fails it, any other error retries it after an exponential
  delay of the retry base, or dead-letters it when it was the last attempt; the lease is released in every
  case. Otherwise nothing is recorded. When nobody else acts, the lease is still held, unless the worker
  identifier has blanks around it.
\<close>

theorem execution_records_outcome:
  assumes "reachable_store s" and "required_text worker_id WorkerId 160 = Inr w"
    and "mem_claim_job k w now aid s = (Some c, u)"
    and "run_handler fr (handlers (bj_kind (jc_job c))) (jc_job c) u = (outcome, v)"
    and "task_execute fr handlers k worker_id now ended ended' aid outbox_id s = (r, t)"
  shows "(case execution_held k aid worker_id v of
      None \<Rightarrow> r = Inr None \<and> t = v
    | Some (j0, a0) \<Rightarrow> \<exists>j. r = Inr (Some j) \<and> dict_get (jobs t) k = Some j \<and> bj_lease_owner j = None \<and>
        \<not> holds_lease k aid worker_id t \<and>
        (if bj_cancel_requested_at j0 \<noteq> None then bj_status j = JOB_CANCELED
         else case outcome of
           Inr result \<Rightarrow> bj_status j = JOB_SUCCEEDED \<and> bj_result_summary j = result
         | Inl (name, permanent, timed_out) \<Rightarrow> bj_last_error_code j = Some (take 120 name) \<and>
             (if permanent then bj_status j = JOB_FAILED
              else if bj_max_attempts j0 \<le> bj_attempt_count j0 then bj_status j = JOB_DEAD_LETTER
              else bj_status j = JOB_RETRYING \<and> bj_available_at j = ended +
                seconds (bj_retry_base_seconds (jc_job c) * 2 ^ nat (min (bj_attempt_count (jc_job c) - 1) 8))))) \<and>
    (v = u \<longrightarrow> execution_held k aid worker_id v = (if worker_id = w then Some (jc_job c, jc_attempt c) else None) \<and>
      bj_cancel_requested_at (jc_job c) = None)"
proof (intro conjI)
  have ok: "store_ok s" using assms(1) by (rule reachable_ok)
  note h = claim_execution_held[OF ok assms(3)]
  show "v = u \<longrightarrow> execution_held k aid worker_id v = (if worker_id = w then Some (jc_job c, jc_attempt c) else None) \<and>
      bj_cancel_requested_at (jc_job c) = None"
    using h(1,4,6) by (auto simp: execution_held_def split: option.splits if_splits)
  show "case execution_held k aid worker_id v of
      None \<Rightarrow> r = Inr None \<and> t = v
    | Some (j0, a0) \<Rightarrow> \<exists>j. r = Inr (Some j) \<and> dict_get (jobs t) k = Some j \<and> bj_lease_owner j = None \<and>
        \<not> holds_lease k aid worker_id t \<and>
        (if bj_cancel_requested_at j0 \<noteq> None then bj_status j = JOB_CANCELED
         else case outcome of
           Inr result \<Rightarrow> bj_status j = JOB_SUCCEEDED \<and> bj_result_summary j = result
         | Inl (name, permanent, timed_out) \<Rightarrow> bj_last_error_code j = Some (take 120 name) \<and>
             (if permanent then bj_status j = JOB_FAILED
              else if bj_max_attempts j0 \<le> bj_attempt_count j0 then bj_status j = JOB_DEAD_LETTER
              else bj_status j = JOB_RETRYING \<and> bj_available_at j = ended +
                seconds (bj_retry_base_seconds (jc_job c) * 2 ^ nat (min (bj_attempt_count (jc_job c) - 1) 8))))"
  proof (cases outcome)
    case (Inr result)
    obtain r' t' where f: "mem_complete_job k aid worker_id result ended v = (r', t')" by fastforce
    then have rt: "r = Inr r'" "t = t'"
      using assms(5) by (auto simp: task_execute_def assms(2-4) Let_def Inr h)
    show ?thesis
    proof (cases "execution_held k aid worker_id v")
      case None
      then show ?thesis using f rt by (simp add: mem_complete_job_def)
    next
      case (Some p)
      then obtain j0 a0 where p: "execution_held k aid worker_id v = Some (j0, a0)" by (cases p) simp
      note after = complete_job_after[OF p f]
      have "\<not> holds_lease k aid worker_id t'"
        by (rule not_held_after_put[OF finished_not_running(1) after(2)])
      then show ?thesis using after Inr rt by (simp add: p completed_job_def Let_def)
    qed
  next
    case (Inl e)
    obtain name perm timed where e: "e = (name, perm, timed)" by (cases e)
    let ?delay = "retry_delay (jc_job c)"
    let ?ev = "make_outbox outbox_id (jc_job c) ended (ended + seconds ?delay)"
    obtain r' t' where f: "mem_fail_job k aid worker_id (take 120 name) execution_failed_summary perm timed
        (ended + seconds ?delay) ?ev ended' v = (r', t')" by fastforce
    then have rt: "r = Inr r'" "t = t'"
      using assms(5) by (auto simp: task_execute_def assms(2-4) Let_def Inl e h)
    show ?thesis
    proof (cases "execution_held k aid worker_id v")
      case None
      then show ?thesis using f rt by (simp add: mem_fail_job_def)
    next
      case (Some p)
      then obtain j0 a0 where p: "execution_held k aid worker_id v = Some (j0, a0)" by (cases p) simp
      note after = fail_job_after[OF p f]
      have "\<not> holds_lease k aid worker_id t'"
        by (rule not_held_after_put[OF finished_not_running(2) after(2)])
      moreover have "max 0 (bj_attempt_count (jc_job c) - 1) = bj_attempt_count (jc_job c) - 1" using h(7) by simp
      ultimately show ?thesis
        using after Inl e rt by (auto simp: p failed_job_def failure_status_def retry_delay_def Let_def)
    qed
  qed
qed

definition quiet_handlers :: "job_kind \<Rightarrow> (background_job \<Rightarrow> task_store \<Rightarrow> handler_outcome \<times> task_store) option" where
  "quiet_handlers kind = Some (\<lambda>_ s. (Returned [], s))"

lemma sample_worker: "required_text (lit ''w'') WorkerId 160 = Inr (lit ''w'')"
  by (simp add: required_text_def strip_def lit_def is_space_def)

lemma sample_claim: "\<exists>c. mem_claim_job 10 (lit ''w'') 5 200 enqueued = (Some c, running)"
proof -
  have "fst (mem_claim_job 10 (lit ''w'') 5 200 enqueued) \<noteq> None" by code_simp
  then show ?thesis by (auto simp: running_def prod_eq_iff)
qed

lemma empty_result: "normalize_result (\<lambda>_. []) [] = Inr []"
  by (simp add: normalize_result_def bad_key_def nested_dicts_def dumps_default_def encoded_size_def
      surrogate_def utf8_length_def utf8_width_def)

theorem execution_records_outcome_witness:
  "\<exists>j. fst (task_execute (\<lambda>_. []) quiet_handlers 10 (lit ''w'') 5 6 6 200 101 enqueued) = Inr (Some j) \<and>
     bj_status j = JOB_SUCCEEDED"
proof -
  let ?r = "task_execute (\<lambda>_. []) quiet_handlers 10 (lit ''w'') 5 6 6 200 101 enqueued"
  obtain c where c: "mem_claim_job 10 (lit ''w'') 5 200 enqueued = (Some c, running)"
    using sample_claim by blast
  have h: "quiet_handlers (bj_kind (jc_job c)) = Some (\<lambda>_ s. (Returned [], s))"
    by (simp add: quiet_handlers_def)
  have "handler_error (\<lambda>_. []) (Returned []) = Inr []" by (simp add: handler_error_def empty_result)
  then have run: "run_handler (\<lambda>_. []) (quiet_handlers (bj_kind (jc_job c))) (jc_job c) running = (Inr [], running)"
    by (simp add: run_handler_def h)
  show ?thesis
    using execution_records_outcome[OF reachable_enqueued sample_worker c run surjective_pairing[of ?r]] by auto
qed

section \<open>Worker identifiers with blanks\<close>

lemma publish_foreign_event:
  assumes "dict_get (outbox_events s) (oe_id e) = Some e'" and "oe_lease_owner e' \<noteq> Some w"
  shows "snd (publish_event_out dispatch w rb now clock e (n, s)) = s"
proof -
  have "publishing_event (oe_id e) w s = None"
    using assms publishing_event_iff by (cases "publishing_event (oe_id e) w s") auto
  then show ?thesis
    by (auto simp: publish_event_out_def mem_mark_outbox_failed_def mem_mark_outbox_published_def Let_def
        split: option.splits)
qed

lemma publish_foreign_events:
  assumes "\<And>e. e \<in> set es \<Longrightarrow> \<exists>e'. dict_get (outbox_events s) (oe_id e) = Some e' \<and> oe_lease_owner e' \<noteq> Some w"
  shows "snd (fold (publish_event_out dispatch w rb now clock) es (n, s)) = s"
  using assms
proof (induction es arbitrary: n)
  case Nil
  then show ?case by simp
next
  case (Cons e es)
  obtain e' where "dict_get (outbox_events s) (oe_id e) = Some e'" "oe_lease_owner e' \<noteq> Some w"
    using Cons.prems[of e] by auto
  then have "snd (publish_event_out dispatch w rb now clock e (n, s)) = s" by (rule publish_foreign_event)
  then obtain m where "publish_event_out dispatch w rb now clock e (n, s) = (m, s)"
    by (cases "publish_event_out dispatch w rb now clock e (n, s)") simp
  then show ?case using Cons by simp
qed

text \<open>
  A worker identifier with blanks around it is accepted, but never finishes anything: the
  claims are made under the stripped identifier and the results are reported under the other, so
  an executed job keeps running until its lease expires, and published outbox events keep their
  publishing state.
\<close>

lemma padded_worker_never_finishes:
  assumes "reachable_store s" and "strip worker_id \<noteq> worker_id"
    and "required_text worker_id WorkerId 160 = Inr (strip worker_id)"
    and "mem_claim_job k (strip worker_id) now aid s = (Some c, u)"
    and "handlers (bj_kind (jc_job c)) = Some run" and "run (jc_job c) u = (outcome, u)"
    and "publish_due dispatch worker_id lease_seconds rb limit now clock s = Inr (published, t)"
  shows "task_execute fr handlers k worker_id now ended ended' aid outbox_id s = (Inr None, u) \<and>
    holds_lease k aid (strip worker_id) u \<and>
    t = snd (mem_claim_outbox (strip worker_id) now (now + seconds lease_seconds) limit s)"
proof (intro conjI)
  have ok: "store_ok s" using assms(1) by (rule reachable_ok)
  note h = claim_execution_held[OF ok assms(4)]
  show "holds_lease k aid (strip worker_id) u" by (rule claim_job_grants[OF ok assms(4)])
  have none: "execution_held k aid worker_id u = None"
    using h(1,6) assms(2) by (auto simp: execution_held_def split: option.splits if_splits)
  then show "task_execute fr handlers k worker_id now ended ended' aid outbox_id s = (Inr None, u)"
    by (auto simp: task_execute_def assms(3-6) Let_def run_handler_def h mem_complete_job_def mem_fail_job_def
        split: sum.split prod.split)
  obtain es s1 where c: "mem_claim_outbox (strip worker_id) now (now + seconds lease_seconds) limit s = (es, s1)"
    by (cases "mem_claim_outbox (strip worker_id) now (now + seconds lease_seconds) limit s")
  have "required_text worker_id PublisherId 160 = Inr (strip worker_id)"
    using assms(3) by (auto simp: required_text_def Let_def split: if_splits)
  then have "t = snd (fold (publish_event_out dispatch worker_id rb now clock) es (0, s1))"
    using assms(7) c by (auto simp: publish_due_def require_positive_def require_limit_def split: if_splits)
  also have "\<dots> = s1"
    by (rule publish_foreign_events) (use claim_outbox_result[OF ok c] assms(2) in force)
  finally show "t = snd (mem_claim_outbox (strip worker_id) now (now + seconds lease_seconds) limit s)"
    by (simp add: c)
qed

lemma padded_strip: "strip (lit '' w'') = lit ''w''"
  by (simp add: strip_def lit_def is_space_def)

lemma padded_worker_never_finishes_instance:
  "task_execute (\<lambda>_. []) quiet_handlers 10 (lit '' w'') 5 6 6 200 101 enqueued = (Inr None, running)"
proof -
  obtain c where c: "mem_claim_job 10 (strip (lit '' w'')) 5 200 enqueued = (Some c, running)"
    using sample_claim unfolding padded_strip by blast
  have ne: "strip (lit '' w'') \<noteq> lit '' w''" by (simp add: padded_strip)
  have req: "required_text (lit '' w'') WorkerId 160 = Inr (strip (lit '' w''))"
    by (simp add: required_text_def padded_strip Let_def) (simp add: lit_def)
  have h: "quiet_handlers (bj_kind (jc_job c)) = Some (\<lambda>_ s. (Returned [], s))"
    by (simp add: quiet_handlers_def)
  have "required_text (lit '' w'') PublisherId 160 = Inr (lit ''w'')"
    by (simp add: required_text_def padded_strip Let_def) (simp add: lit_def)
  then have "\<exists>n t. publish_due (\<lambda>_ _. None) (lit '' w'') 30 5 100 5 (\<lambda>_. 5) enqueued = Inr (n, t)"
    by (simp add: publish_due_def require_positive_def require_limit_def split: prod.splits)
  then obtain n t where p: "publish_due (\<lambda>_ _. None) (lit '' w'') 30 5 100 5 (\<lambda>_. 5) enqueued = Inr (n, t)"
    by blast
  show ?thesis
    by (rule padded_worker_never_finishes[where handlers = quiet_handlers
          and run = "\<lambda>_ s. (Returned [], s)" and outcome = "Returned []" and c = c and published = n and t = t
          and dispatch = "\<lambda>_ _. None" and clock = "\<lambda>_. 5" and limit = 100 and rb = 5 and lease_seconds = 30,
          OF reachable_enqueued ne req c h _ p, THEN conjunct1]) simp
qed

section \<open>The length of an inbox event key\<close>

text \<open>
  An inbox event key of 250 to 255 characters passes the check of the event key and is then
  refused, as a deduplication key that is too long, because the key is prefixed before the same
  limit is applied again.
\<close>

lemma long_event_key_refused:
  assumes "length (strip key) \<in> {250..255}" and "normalize_payload fr payload = Inr body"
    and "normalize_payload fr body = Inr body" and "required_text typ EventType 120 = Inr typ'"
  shows "required_text key EventKey 255 = Inr (strip key) \<and>
    accept_inbox_event fr tn key typ payload kind by_id ma ls rb now now' job_id inbox_id outbox_id s =
      Inl (TaskValidationError (TextTooLong DeduplicationKey 255))"
proof -
  have ne: "strip key \<noteq> []" using assms(1) by auto
  then have key: "required_text key EventKey 255 = Inr (strip key)"
    using assms(1) by (simp add: required_text_def)
  let ?d = "lit ''inbox:'' @ strip key"
  have i: "lit ''inbox:'' = [105, 110, 98, 111, 120, 58]" by (simp add: lit_def)
  have "strip ?d = ?d"
    by (rule strip_id) (use strip_ends[OF ne] ne in \<open>simp_all add: i is_space_def\<close>)
  moreover have "int (length ?d) > 255" using assms(1) by (simp add: i)
  ultimately have "required_text ?d DeduplicationKey 255 = Inl (TaskValidationError (TextTooLong DeduplicationKey 255))"
    by (simp add: required_text_def i)
  then show ?thesis
    using key by (simp add: accept_inbox_event_def assms(2-4) task_enqueue_def enqueue_job_def)
qed

lemma strip_letters: "strip (replicate n 97) = replicate n 97"
proof (cases "n = 0")
  case True
  then show ?thesis by (simp add: strip_def)
qed (simp add: strip_id is_space_def)

lemma long_event_key_refused_instance:
  "accept_inbox_event (\<lambda>_. []) 1 (replicate 250 97) (lit ''t'') [] REFLECTION None 5 120 5 0 0 11 300 110 empty_store =
     Inl (TaskValidationError (TextTooLong DeduplicationKey 255))"
proof -
  have "normalize_payload (\<lambda>_. []) [] = Inr []"
    by (simp add: normalize_payload_def bad_key_def nested_dicts_def dumps_compact_def encoded_size_def
        surrogate_def utf8_length_def utf8_width_def)
  moreover have "length (strip (replicate 250 (97::nat))) \<in> {250..255}" by (simp add: strip_letters)
  moreover have "required_text (lit ''t'') EventType 120 = Inr (lit ''t'')"
    by (simp add: required_text_def strip_def lit_def is_space_def)
  ultimately show ?thesis using long_event_key_refused by blast
qed

end
