(* ===== verification/Policy_Gate.thy ===== *)
theory Policy_Gate
  imports Json
begin

text \<open>
  \<open>DeterministicPolicyGate\<close> (\<open>packages/cognition/.../policy.py\<close>): it orders the candidate actions of
  a run by confidence and selects the first that no rule denies. A refusal is the datatype \<open>denial\<close>,
  one constructor per message, with the tool name that the message quotes.
\<close>

datatype cognitive_action = REPLY | ASK | WAIT | NO_REPLY | TOOL

datatype tool_risk = RISK_NONE | RISK_LOW | RISK_MEDIUM | RISK_HIGH

text \<open>\<open>_RISK_ORDER\<close>, which makes the risk levels a linear order.\<close>

fun risk_order :: "tool_risk \<Rightarrow> nat" where
  "risk_order RISK_NONE = 0"
| "risk_order RISK_LOW = 1"
| "risk_order RISK_MEDIUM = 2"
| "risk_order RISK_HIGH = 3"

instantiation tool_risk :: linorder
begin

definition less_eq_tool_risk :: "tool_risk \<Rightarrow> tool_risk \<Rightarrow> bool" where
  "less_eq_tool_risk a b \<longleftrightarrow> risk_order a \<le> risk_order b"

definition less_tool_risk :: "tool_risk \<Rightarrow> tool_risk \<Rightarrow> bool" where
  "less_tool_risk a b \<longleftrightarrow> risk_order a < risk_order b"

instance
proof
  show "a = b" if "a \<le> b" "b \<le> a" for a b :: tool_risk
    using that by (cases a; cases b) (simp_all add: less_eq_tool_risk_def)
qed (auto simp: less_eq_tool_risk_def less_tool_risk_def)

end

record action_candidate =
  ac_action :: cognitive_action
  ac_confidence :: rat
  ac_reason_summary :: ustr
  ac_parameters :: "(ustr, ustr) dict"
  ac_tool_name :: "ustr option"
  ac_risk_level :: tool_risk
  ac_has_external_side_effect :: bool
  ac_required_permission :: "ustr option"
  ac_network_host :: "ustr option"
  ac_estimated_cost_units :: int

datatype candidate_error = BadConfidence | ToolWithoutName | NegativeCost

text \<open>\<open>__post_init__\<close>: the candidates that can be constructed.\<close>

definition check_candidate :: "action_candidate \<Rightarrow> candidate_error + action_candidate" where
  "check_candidate c =
     (if \<not> (0 \<le> ac_confidence c \<and> ac_confidence c \<le> 1) then Inl BadConfidence
      else if ac_action c = TOOL \<and> (ac_tool_name c = None \<or> ac_tool_name c = Some []) then Inl ToolWithoutName
      else if ac_estimated_cost_units c < 0 then Inl NegativeCost
      else Inr c)"

record policy_rules =
  pr_version :: int
  pr_allowed_tools :: "ustr list"
  pr_maximum_tool_risk :: tool_risk
  pr_allow_external_side_effects :: bool
  pr_allow_no_reply :: bool
  pr_network_allowlist :: "ustr list"
  pr_maximum_tool_calls_per_run :: int
  pr_maximum_cost_units_per_run :: int
  pr_approval_required_at_or_above :: tool_risk

record tool_policy_context =
  tp_permissions :: "ustr list"
  tp_approved_tools :: "ustr list"
  tp_tool_calls_used :: int
  tp_cost_units_used :: int

datatype denial =
    NoReplyForbidden
  | ToolNotAllowed "ustr option"
  | RiskTooHigh "ustr option"
  | SideEffectForbidden "ustr option"
  | PermissionMissing "ustr option"
  | HostNotAllowed "ustr option"
  | CallBudgetExceeded "ustr option"
  | CostBudgetExceeded "ustr option"
  | ApprovalMissing "ustr option"

record policy_evaluation =
  pe_selected :: action_candidate
  pe_rejected_reasons :: "denial list"
  pe_policy_version :: int

definition empty_context :: tool_policy_context where
  "empty_context = \<lparr>tp_permissions = [], tp_approved_tools = [], tp_tool_calls_used = 0,
     tp_cost_units_used = 0\<rparr>"

text \<open>\<open>name in names\<close> for a name that may be \<open>None\<close>.\<close>

definition named_in :: "ustr option \<Rightarrow> ustr list \<Rightarrow> bool" where
  "named_in name names = (case name of None \<Rightarrow> False | Some n \<Rightarrow> n \<in> set names)"

definition denial_reason ::
    "action_candidate \<Rightarrow> policy_rules \<Rightarrow> tool_policy_context \<Rightarrow> denial option" where
  "denial_reason c rules context =
     (if ac_action c = NO_REPLY \<and> \<not> pr_allow_no_reply rules then Some NoReplyForbidden
      else if ac_action c \<noteq> TOOL then None
      else if \<not> named_in (ac_tool_name c) (pr_allowed_tools rules) then Some (ToolNotAllowed (ac_tool_name c))
      else if ac_risk_level c > pr_maximum_tool_risk rules then Some (RiskTooHigh (ac_tool_name c))
      else if ac_has_external_side_effect c \<and> \<not> pr_allow_external_side_effects rules
      then Some (SideEffectForbidden (ac_tool_name c))
      else if ac_required_permission c \<noteq> None \<and>
              \<not> named_in (ac_required_permission c) (tp_permissions context)
      then Some (PermissionMissing (ac_tool_name c))
      else if ac_network_host c \<noteq> None \<and> ac_network_host c \<noteq> Some [] \<and>
              \<not> named_in (ac_network_host c) (pr_network_allowlist rules)
      then Some (HostNotAllowed (ac_tool_name c))
      else if tp_tool_calls_used context \<ge> pr_maximum_tool_calls_per_run rules
      then Some (CallBudgetExceeded (ac_tool_name c))
      else if tp_cost_units_used context + ac_estimated_cost_units c > pr_maximum_cost_units_per_run rules
      then Some (CostBudgetExceeded (ac_tool_name c))
      else if ac_risk_level c \<ge> pr_approval_required_at_or_above rules \<and>
              \<not> named_in (ac_tool_name c) (tp_approved_tools context)
      then Some (ApprovalMissing (ac_tool_name c))
      else None)"

definition fallback_summary :: ustr where
  "fallback_summary = [27809, 26377, 20505, 36873, 34892, 21160, 36890, 36807, 24403, 21069, 31574,
     30053, 65292, 20445, 25345, 31561, 24453, 12290]"

definition fallback_candidate :: action_candidate where
  "fallback_candidate = \<lparr>ac_action = WAIT, ac_confidence = 1, ac_reason_summary = fallback_summary,
     ac_parameters = [], ac_tool_name = None, ac_risk_level = RISK_NONE,
     ac_has_external_side_effect = False, ac_required_permission = None, ac_network_host = None,
     ac_estimated_cost_units = 0\<rparr>"

text \<open>The loop of \<open>evaluate\<close> over the sorted candidates, with the reasons collected so far.\<close>

fun first_allowed ::
    "policy_rules \<Rightarrow> tool_policy_context \<Rightarrow> action_candidate list \<Rightarrow> denial list \<Rightarrow> policy_evaluation" where
  "first_allowed rules context [] rejected =
     \<lparr>pe_selected = fallback_candidate, pe_rejected_reasons = rejected,
      pe_policy_version = pr_version rules\<rparr>"
| "first_allowed rules context (c # cs) rejected =
     (case denial_reason c rules context of
        None \<Rightarrow> \<lparr>pe_selected = c, pe_rejected_reasons = rejected, pe_policy_version = pr_version rules\<rparr>
      | Some d \<Rightarrow> first_allowed rules context cs (rejected @ [d]))"

datatype gate_error = NoCandidates

definition gate_evaluate ::
    "action_candidate list \<Rightarrow> policy_rules \<Rightarrow> tool_policy_context option \<Rightarrow> gate_error + policy_evaluation" where
  "gate_evaluate candidates rules context =
     (if candidates = [] then Inl NoCandidates
      else Inr (first_allowed rules (case context of None \<Rightarrow> empty_context | Some c \<Rightarrow> c)
             (sorted_by_desc ac_confidence candidates) []))"

section \<open>What the loop selects\<close>

fun_cases first_allowed_consE: "first_allowed rules context (c # cs) rejected = e"

lemma first_allowed_split:
  "(\<exists>pre c post. cs = pre @ c # post \<and> denial_reason c rules ctx = None \<and>
      (\<forall>x \<in> set pre. denial_reason x rules ctx \<noteq> None) \<and>
      pe_selected (first_allowed rules ctx cs rej) = c \<and>
      pe_rejected_reasons (first_allowed rules ctx cs rej) =
        rej @ map (\<lambda>x. the (denial_reason x rules ctx)) pre) \<or>
   (\<forall>x \<in> set cs. denial_reason x rules ctx \<noteq> None) \<and>
      pe_selected (first_allowed rules ctx cs rej) = fallback_candidate \<and>
      pe_rejected_reasons (first_allowed rules ctx cs rej) =
        rej @ map (\<lambda>x. the (denial_reason x rules ctx)) cs"
proof (induction cs arbitrary: rej)
  case Nil
  then show ?case by simp
next
  case (Cons c cs)
  show ?case
  proof (cases "denial_reason c rules ctx")
    case None
    then show ?thesis by (intro disjI1 exI[of _ "[]"] exI[of _ c] exI[of _ cs]) simp
  next
    case (Some d)
    from Cons.IH[of "rej @ [d]"] show ?thesis
    proof
      assume "\<exists>pre x post. cs = pre @ x # post \<and> denial_reason x rules ctx = None \<and>
        (\<forall>x \<in> set pre. denial_reason x rules ctx \<noteq> None) \<and>
        pe_selected (first_allowed rules ctx cs (rej @ [d])) = x \<and>
        pe_rejected_reasons (first_allowed rules ctx cs (rej @ [d])) =
          (rej @ [d]) @ map (\<lambda>x. the (denial_reason x rules ctx)) pre"
      then obtain pre x post where "cs = pre @ x # post" "denial_reason x rules ctx = None"
        "\<forall>x \<in> set pre. denial_reason x rules ctx \<noteq> None"
        "pe_selected (first_allowed rules ctx cs (rej @ [d])) = x"
        "pe_rejected_reasons (first_allowed rules ctx cs (rej @ [d])) =
          (rej @ [d]) @ map (\<lambda>x. the (denial_reason x rules ctx)) pre" by blast
      with Some show ?thesis
        by (intro disjI1 exI[of _ "c # pre"] exI[of _ x] exI[of _ post]) simp
    next
      assume "(\<forall>x \<in> set cs. denial_reason x rules ctx \<noteq> None) \<and>
        pe_selected (first_allowed rules ctx cs (rej @ [d])) = fallback_candidate \<and>
        pe_rejected_reasons (first_allowed rules ctx cs (rej @ [d])) =
          (rej @ [d]) @ map (\<lambda>x. the (denial_reason x rules ctx)) cs"
      with Some show ?thesis by (intro disjI2) simp
    qed
  qed
qed

lemma gate_evaluate_Inr:
  "gate_evaluate candidates rules ctx = Inr e \<longleftrightarrow> candidates \<noteq> [] \<and>
     e = first_allowed rules (case ctx of None \<Rightarrow> empty_context | Some c \<Rightarrow> c)
       (sorted_by_desc ac_confidence candidates) []"
  by (auto simp: gate_evaluate_def)

lemma sorted_prefix_dominates:
  assumes "sorted_wrt (\<ge>) (map ac_confidence (pre @ c # post))" and "x \<in> set (pre @ c # post)"
    and "ac_confidence x > ac_confidence c"
  shows "x \<in> set pre"
  using assms by (auto simp: sorted_wrt_append)

text \<open>
  C11: The gate selects a candidate that no rule denies if there is one, and among those it
  selects one of highest confidence: every candidate of higher confidence was denied. Without an
  allowed candidate it waits. One reason is recorded for each candidate tried before.
\<close>

theorem gate_selects_best_allowed:
  assumes "gate_evaluate candidates rules (Some ctx) = Inr e"
  shows "(\<exists>c \<in> set candidates. denial_reason c rules ctx = None) \<longrightarrow>
      pe_selected e \<in> set candidates \<and> denial_reason (pe_selected e) rules ctx = None \<and>
      (\<forall>x \<in> set candidates. ac_confidence x > ac_confidence (pe_selected e) \<longrightarrow>
         denial_reason x rules ctx \<noteq> None \<and> the (denial_reason x rules ctx) \<in> set (pe_rejected_reasons e))"
    (is "?allowed \<longrightarrow> ?best")
proof
  assume allowed: ?allowed
  let ?cs = "sorted_by_desc ac_confidence candidates"
  have e: "e = first_allowed rules ctx ?cs []" using assms by (simp add: gate_evaluate_Inr)
  from first_allowed_split[of ?cs rules ctx "[]"] show ?best
  proof
    assume "\<exists>pre c post. ?cs = pre @ c # post \<and> denial_reason c rules ctx = None \<and>
      (\<forall>x \<in> set pre. denial_reason x rules ctx \<noteq> None) \<and> pe_selected (first_allowed rules ctx ?cs []) = c \<and>
      pe_rejected_reasons (first_allowed rules ctx ?cs []) = [] @ map (\<lambda>x. the (denial_reason x rules ctx)) pre"
    then obtain pre c post where cs: "?cs = pre @ c # post" and c: "denial_reason c rules ctx = None"
      and pre: "\<forall>x \<in> set pre. denial_reason x rules ctx \<noteq> None"
      and sel: "pe_selected e = c" "pe_rejected_reasons e = map (\<lambda>x. the (denial_reason x rules ctx)) pre"
      unfolding e by auto
    have mem: "x \<in> set candidates \<longleftrightarrow> x \<in> set (pre @ c # post)" for x
      using set_sorted_by_desc[of ac_confidence candidates] cs by simp
    have "x \<in> set pre" if "x \<in> set candidates" "ac_confidence x > ac_confidence c" for x
      using sorted_prefix_dominates[of pre c post x] sorted_by_desc_sorted[of ac_confidence candidates]
        that mem cs by simp
    then show ?best using c pre sel mem by auto
  next
    assume "(\<forall>x \<in> set ?cs. denial_reason x rules ctx \<noteq> None) \<and>
      pe_selected (first_allowed rules ctx ?cs []) = fallback_candidate \<and>
      pe_rejected_reasons (first_allowed rules ctx ?cs []) = [] @ map (\<lambda>x. the (denial_reason x rules ctx)) ?cs"
    with allowed show ?best by simp
  qed
qed

definition sample_tool :: "rat \<Rightarrow> action_candidate" where
  "sample_tool q = \<lparr>ac_action = TOOL, ac_confidence = q, ac_reason_summary = [],
     ac_parameters = [], ac_tool_name = Some (lit ''search''), ac_risk_level = RISK_HIGH,
     ac_has_external_side_effect = True, ac_required_permission = None, ac_network_host = None,
     ac_estimated_cost_units = 2\<rparr>"

definition sample_reply :: "rat \<Rightarrow> action_candidate" where
  "sample_reply q = fallback_candidate\<lparr>ac_action := REPLY, ac_confidence := q\<rparr>"

definition sample_rules :: policy_rules where
  "sample_rules = \<lparr>pr_version = 3, pr_allowed_tools = [lit ''search''], pr_maximum_tool_risk = RISK_LOW,
     pr_allow_external_side_effects = False, pr_allow_no_reply = True, pr_network_allowlist = [],
     pr_maximum_tool_calls_per_run = 1, pr_maximum_cost_units_per_run = 5,
     pr_approval_required_at_or_above = RISK_MEDIUM\<rparr>"

theorem gate_selects_best_allowed_witness:
  "\<exists>e. gate_evaluate [sample_reply (1 / 4), sample_tool (1 / 2)] sample_rules (Some empty_context) = Inr e \<and>
     pe_selected e \<in> {sample_reply (1 / 4), sample_tool (1 / 2)} \<and>
     denial_reason (pe_selected e) sample_rules empty_context = None"
proof -
  let ?cs = "[sample_reply (1 / 4), sample_tool (1 / 2)]"
  obtain e where e: "gate_evaluate ?cs sample_rules (Some empty_context) = Inr e"
    by (auto simp: gate_evaluate_def)
  have "denial_reason (sample_reply (1 / 4)) sample_rules empty_context = None"
    by (simp add: denial_reason_def sample_reply_def fallback_candidate_def)
  then have "\<exists>c \<in> set ?cs. denial_reason c sample_rules empty_context = None"
    by (intro bexI[of _ "sample_reply (1 / 4)"]) simp_all
  from gate_selects_best_allowed[OF e, THEN mp, OF this]
  have "pe_selected e \<in> set ?cs" "denial_reason (pe_selected e) sample_rules empty_context = None"
    by blast+
  with e show ?thesis by (intro exI[of _ e]) simp
qed

text \<open>
  A tool is only ever selected when the rules allow it by name, its risk is within the
  maximum, an external side effect is permitted, its permission is granted, its host is on the
  list, the run has calls and cost units left, and it is approved where its risk requires that.
\<close>

lemma selected_tool_is_authorised:
  assumes "gate_evaluate candidates rules (Some ctx) = Inr e" and "ac_action (pe_selected e) = TOOL"
  shows "pe_selected e \<in> set candidates \<and>
    named_in (ac_tool_name (pe_selected e)) (pr_allowed_tools rules) \<and>
    ac_risk_level (pe_selected e) \<le> pr_maximum_tool_risk rules \<and>
    (ac_has_external_side_effect (pe_selected e) \<longrightarrow> pr_allow_external_side_effects rules) \<and>
    (\<forall>p. ac_required_permission (pe_selected e) = Some p \<longrightarrow> p \<in> set (tp_permissions ctx)) \<and>
    (\<forall>h. ac_network_host (pe_selected e) = Some h \<and> h \<noteq> [] \<longrightarrow> h \<in> set (pr_network_allowlist rules)) \<and>
    tp_tool_calls_used ctx < pr_maximum_tool_calls_per_run rules \<and>
    tp_cost_units_used ctx + ac_estimated_cost_units (pe_selected e) \<le> pr_maximum_cost_units_per_run rules \<and>
    (pr_approval_required_at_or_above rules \<le> ac_risk_level (pe_selected e) \<longrightarrow>
       named_in (ac_tool_name (pe_selected e)) (tp_approved_tools ctx))"
proof -
  let ?cs = "sorted_by_desc ac_confidence candidates"
  have e: "e = first_allowed rules ctx ?cs []" using assms(1) by (simp add: gate_evaluate_Inr)
  have "pe_selected e \<noteq> fallback_candidate" using assms(2) by (auto simp: fallback_candidate_def)
  then have s: "pe_selected e \<in> set ?cs" "denial_reason (pe_selected e) rules ctx = None"
    using first_allowed_split[of ?cs rules ctx "[]"] unfolding e by (metis in_set_conv_decomp)+
  from s(2) assms(2) have "named_in (ac_tool_name (pe_selected e)) (pr_allowed_tools rules)"
    "ac_risk_level (pe_selected e) \<le> pr_maximum_tool_risk rules"
    "ac_has_external_side_effect (pe_selected e) \<longrightarrow> pr_allow_external_side_effects rules"
    "ac_required_permission (pe_selected e) = None \<or> named_in (ac_required_permission (pe_selected e)) (tp_permissions ctx)"
    "ac_network_host (pe_selected e) = None \<or> ac_network_host (pe_selected e) = Some [] \<or>
       named_in (ac_network_host (pe_selected e)) (pr_network_allowlist rules)"
    "tp_tool_calls_used ctx < pr_maximum_tool_calls_per_run rules"
    "tp_cost_units_used ctx + ac_estimated_cost_units (pe_selected e) \<le> pr_maximum_cost_units_per_run rules"
    "pr_approval_required_at_or_above rules \<le> ac_risk_level (pe_selected e) \<longrightarrow>
       named_in (ac_tool_name (pe_selected e)) (tp_approved_tools ctx)"
    unfolding denial_reason_def by (simp_all split: if_splits)
  then show ?thesis using s(1) by (auto simp: named_in_def)
qed

lemma selected_tool_is_authorised_instance:
  "\<exists>e. gate_evaluate [sample_tool (1 / 2)] (sample_rules\<lparr>pr_maximum_tool_risk := RISK_HIGH,
        pr_allow_external_side_effects := True\<rparr>)
      (Some (empty_context\<lparr>tp_approved_tools := [lit ''search'']\<rparr>)) = Inr e \<and>
     named_in (ac_tool_name (pe_selected e)) [lit ''search'']"
proof -
  let ?rules = "sample_rules\<lparr>pr_maximum_tool_risk := RISK_HIGH, pr_allow_external_side_effects := True\<rparr>"
  let ?ctx = "empty_context\<lparr>tp_approved_tools := [lit ''search'']\<rparr>"
  obtain e where e: "gate_evaluate [sample_tool (1 / 2)] ?rules (Some ?ctx) = Inr e"
    by (auto simp: gate_evaluate_def)
  have "gate_evaluate [sample_tool (1 / 2)] ?rules (Some ?ctx) =
      Inr \<lparr>pe_selected = sample_tool (1 / 2), pe_rejected_reasons = [], pe_policy_version = 3\<rparr>" by code_simp
  with e have "pe_selected e = sample_tool (1 / 2)" by auto
  then have "ac_action (pe_selected e) = TOOL" by (simp add: sample_tool_def)
  from selected_tool_is_authorised[OF e this] e show ?thesis by (auto simp: sample_rules_def)
qed

section \<open>Stricter rules\<close>

text \<open>Rules and context that grant at least as much.\<close>

definition grants_more ::
    "policy_rules \<Rightarrow> tool_policy_context \<Rightarrow> policy_rules \<Rightarrow> tool_policy_context \<Rightarrow> bool" where
  "grants_more r c r' c' \<longleftrightarrow> set (pr_allowed_tools r) \<subseteq> set (pr_allowed_tools r') \<and>
     pr_maximum_tool_risk r \<le> pr_maximum_tool_risk r' \<and>
     (pr_allow_external_side_effects r \<longrightarrow> pr_allow_external_side_effects r') \<and>
     (pr_allow_no_reply r \<longrightarrow> pr_allow_no_reply r') \<and>
     set (pr_network_allowlist r) \<subseteq> set (pr_network_allowlist r') \<and>
     pr_maximum_tool_calls_per_run r \<le> pr_maximum_tool_calls_per_run r' \<and>
     pr_maximum_cost_units_per_run r \<le> pr_maximum_cost_units_per_run r' \<and>
     pr_approval_required_at_or_above r \<le> pr_approval_required_at_or_above r' \<and>
     set (tp_permissions c) \<subseteq> set (tp_permissions c') \<and>
     set (tp_approved_tools c) \<subseteq> set (tp_approved_tools c') \<and>
     tp_tool_calls_used c' \<le> tp_tool_calls_used c \<and> tp_cost_units_used c' \<le> tp_cost_units_used c"

lemma named_in_mono: "named_in n xs \<Longrightarrow> set xs \<subseteq> set ys \<Longrightarrow> named_in n ys"
  by (auto simp: named_in_def split: option.splits)

text \<open>
  Granting more never denies more: a candidate allowed under some rules and context is allowed
  under every wider pair, so restricting a tool's list, limits or approvals can only remove
  candidates.
\<close>

lemma granting_more_denies_less:
  assumes "grants_more r ctx r' ctx'" and "denial_reason c r ctx = None"
  shows "denial_reason c r' ctx' = None"
proof (cases "ac_action c = TOOL")
  case False
  then show ?thesis using assms by (auto simp: denial_reason_def grants_more_def split: if_splits)
next
  case True
  from assms(2) True have
    "named_in (ac_tool_name c) (pr_allowed_tools r)" "ac_risk_level c \<le> pr_maximum_tool_risk r"
    "ac_has_external_side_effect c \<longrightarrow> pr_allow_external_side_effects r"
    "ac_required_permission c = None \<or> named_in (ac_required_permission c) (tp_permissions ctx)"
    "ac_network_host c = None \<or> ac_network_host c = Some [] \<or> named_in (ac_network_host c) (pr_network_allowlist r)"
    "tp_tool_calls_used ctx < pr_maximum_tool_calls_per_run r"
    "tp_cost_units_used ctx + ac_estimated_cost_units c \<le> pr_maximum_cost_units_per_run r"
    "pr_approval_required_at_or_above r \<le> ac_risk_level c \<longrightarrow> named_in (ac_tool_name c) (tp_approved_tools ctx)"
    unfolding denial_reason_def by (simp_all split: if_splits)
  moreover note m = assms(1)[unfolded grants_more_def]
  ultimately have
    "named_in (ac_tool_name c) (pr_allowed_tools r')" "ac_risk_level c \<le> pr_maximum_tool_risk r'"
    "ac_has_external_side_effect c \<longrightarrow> pr_allow_external_side_effects r'"
    "ac_required_permission c = None \<or> named_in (ac_required_permission c) (tp_permissions ctx')"
    "ac_network_host c = None \<or> ac_network_host c = Some [] \<or> named_in (ac_network_host c) (pr_network_allowlist r')"
    "tp_tool_calls_used ctx' < pr_maximum_tool_calls_per_run r'"
    "tp_cost_units_used ctx' + ac_estimated_cost_units c \<le> pr_maximum_cost_units_per_run r'"
    "pr_approval_required_at_or_above r' \<le> ac_risk_level c \<longrightarrow> named_in (ac_tool_name c) (tp_approved_tools ctx')"
    by (auto intro: named_in_mono order_trans)
  then show ?thesis using True by (auto simp: denial_reason_def)
qed

lemma granting_more_denies_less_instance:
  "denial_reason (sample_reply 1) sample_rules empty_context = None"
proof (rule granting_more_denies_less)
  show "grants_more (sample_rules\<lparr>pr_allow_no_reply := False\<rparr>) empty_context sample_rules empty_context"
    by (simp add: grants_more_def sample_rules_def)
  show "denial_reason (sample_reply 1) (sample_rules\<lparr>pr_allow_no_reply := False\<rparr>) empty_context = None"
    by (simp add: denial_reason_def sample_reply_def fallback_candidate_def)
qed

end
