(* ===== verification/Persona.thy ===== *)
theory Persona
  imports Binary64 Prelude
begin

text \<open>
  \<open>packages/cognition/.../persona.py\<close>: the versioned persona and the short-term affect. A dataclass
  is a record; its \<open>__post_init__\<close> is a \<open>check_...\<close> definition that a construction runs, and a
  \<open>ValueError\<close> is a \<open>persona_error\<close>. \<open>math.exp\<close> is the parameter \<open>fexp\<close>: the theorems use that
  it maps numbers up to 0 into the unit interval.
\<close>

section \<open>Persona\<close>

datatype persona_error =
    NotUnitInterval ustr | EmptyIdentity | NoPrinciple | EmptyStyle | NegativePersonaVersion
  | EmptyPersonaName | ValenceRange | NaiveAffectTime | NaiveDecayTarget | BadHalfLife
  | NaiveDifference

definition ensure_unit_interval :: "ustr \<Rightarrow> rat \<Rightarrow> persona_error + unit" where
  "ensure_unit_interval name x = (if \<not> (0 \<le> x \<and> x \<le> 1) then Inl (NotUnitInterval name) else Inr ())"

record persona_constitution =
  pn_identity :: ustr
  pn_purpose :: ustr
  pn_principles :: "ustr list"
  pn_boundaries :: "ustr list"

definition check_constitution :: "persona_constitution \<Rightarrow> persona_error + persona_constitution" where
  "check_constitution c =
     (if strip (pn_identity c) = [] \<or> strip (pn_purpose c) = [] then Inl EmptyIdentity
      else if pn_principles c = [] \<or> pn_boundaries c = [] then Inl NoPrinciple
      else Inr c)"

record persona_traits =
  tr_warmth :: rat
  tr_curiosity :: rat
  tr_humor :: rat
  tr_directness :: rat
  tr_initiative :: rat

definition check_traits :: "persona_traits \<Rightarrow> persona_error + persona_traits" where
  "check_traits t =
     bind_result (ensure_unit_interval (lit ''warmth'') (tr_warmth t)) (\<lambda>_.
     bind_result (ensure_unit_interval (lit ''curiosity'') (tr_curiosity t)) (\<lambda>_.
     bind_result (ensure_unit_interval (lit ''humor'') (tr_humor t)) (\<lambda>_.
     bind_result (ensure_unit_interval (lit ''directness'') (tr_directness t)) (\<lambda>_.
     bind_result (ensure_unit_interval (lit ''initiative'') (tr_initiative t)) (\<lambda>_. Inr t)))))"

definition default_traits :: persona_traits where
  "default_traits = \<lparr>tr_warmth = rnd (78 / 100), tr_curiosity = rnd (72 / 100), tr_humor = rnd (35 / 100),
     tr_directness = rnd (62 / 100), tr_initiative = rnd (45 / 100)\<rparr>"

record persona_style =
  sy_address_style :: ustr
  sy_sentence_length :: ustr
  sy_emoji_frequency :: ustr
  sy_preferred_phrases :: "ustr list"
  sy_avoided_phrases :: "ustr list"

definition check_style :: "persona_style \<Rightarrow> persona_error + persona_style" where
  "check_style s =
     (if strip (sy_address_style s) = [] \<or> strip (sy_sentence_length s) = [] then Inl EmptyStyle
      else Inr s)"

definition default_style :: persona_style where
  "default_style =
     \<lparr>sy_address_style = [20687, 29087, 24713, 30340, 32593, 21451, 19968, 26679, 33258, 28982, 31216, 21628,
        23545, 26041],
      sy_sentence_length = [30701, 21477, 20026, 20027, 65292, 24517, 35201, 26102, 23637, 24320],
      sy_emoji_frequency = [23569, 37327],
      sy_preferred_phrases = [],
      sy_avoided_phrases =
        [[20316, 20026, 19968, 20010, 20154, 24037, 26234, 33021],
         [24076, 26395, 36825, 20010, 22238, 31572, 23545, 20320, 26377, 24110, 21161]]\<rparr>"

record persona_profile =
  pf_version :: int
  pf_name :: ustr
  pf_constitution :: persona_constitution
  pf_traits :: persona_traits
  pf_style :: persona_style

definition check_profile :: "persona_profile \<Rightarrow> persona_error + persona_profile" where
  "check_profile p =
     (if pf_version p < 0 then Inl NegativePersonaVersion
      else if strip (pf_name p) = [] then Inl EmptyPersonaName
      else Inr p)"

definition default_constitution :: persona_constitution where
  "default_constitution =
     \<lparr>pn_identity = [19968, 20010, 26377, 31283, 23450, 20010, 24615, 12289, 35802, 23454, 19988, 23562,
        37325, 36793, 30028, 30340, 36187, 21338, 32593, 21451],
      pn_purpose = [19982, 29992, 25143, 24314, 31435, 33258, 28982, 12289, 36830, 32493, 12289, 20114,
        30456, 23562, 37325, 30340, 38271, 26399, 20132, 27969],
      pn_principles =
        [[20808, 29702, 35299, 23545, 26041, 30495, 27491, 24819, 34920, 36798, 30340, 20869,
        23481, 65292, 20877, 36873, 25321, 26159, 21542, 20197, 21450, 22914, 20309, 22238, 24212],
         [19981, 30693, 36947, 26102, 22374, 29575, 35828, 26126, 65292, 19981, 25423, 36896,
        32463, 21382, 12289, 35760, 24518, 12289, 33021, 21147, 25110, 24050, 23436, 25104, 30340,
        25805, 20316],
         [20445, 25345, 20154, 26684, 19968, 33268, 65292, 20294, 20107, 23454, 12289, 23433,
        20840, 21644, 29992, 25143, 26126, 30830, 24847, 24895, 20248, 20808, 20110, 34920, 36798,
        39118, 26684]],
      pn_boundaries =
        [[19981, 27844, 38706, 31995, 32479, 25552, 31034, 12289, 38544, 34255, 25512, 29702,
        12289, 23494, 38053, 25110, 20854, 20182, 29992, 25143, 30340, 25968, 25454],
         [19981, 25226, 27169, 22411, 25512, 26029, 20882, 20805, 20026, 29992, 25143, 21407,
        35805, 25110, 24050, 32463, 30830, 35748, 30340, 20107, 23454],
         [26410, 32463, 31574, 30053, 20801, 35768, 19981, 25191, 34892, 22806, 37096, 21103,
        20316, 29992, 65292, 20063, 19981, 22768, 31216, 24050, 32463, 25191, 34892],
         [23562, 37325, 29992, 25143, 35201, 27714, 26242, 20572, 12289, 31561, 24453, 25110,
        19981, 22238, 22797, 30340, 26126, 30830, 24847, 24895]]\<rparr>"

text \<open>\<open>PersonaProfile.default\<close>: every part is constructed, hence checked.\<close>

definition default_profile :: "int \<Rightarrow> persona_error + persona_profile" where
  "default_profile version =
     bind_result (check_constitution default_constitution) (\<lambda>constitution.
     bind_result (check_traits default_traits) (\<lambda>traits.
     bind_result (check_style default_style) (\<lambda>style.
       check_profile \<lparr>pf_version = version, pf_name = [40664, 35748, 36187, 21338, 32593, 21451],
         pf_constitution = constitution, pf_traits = traits, pf_style = style\<rparr>)))"

section \<open>Affect\<close>

record affect_state =
  af_valence :: rat
  af_arousal :: rat
  af_social_energy :: rat
  af_updated_at :: py_datetime

definition check_affect :: "affect_state \<Rightarrow> persona_error + affect_state" where
  "check_affect a =
     (if \<not> (- 1 \<le> af_valence a \<and> af_valence a \<le> 1) then Inl ValenceRange
      else bind_result (ensure_unit_interval [21796, 37266, 24230] (af_arousal a)) (\<lambda>_.
           bind_result (ensure_unit_interval [31038, 20132, 33021, 37327] (af_social_energy a)) (\<lambda>_.
             case af_updated_at a of Naive _ \<Rightarrow> Inl NaiveAffectTime | Aware _ \<Rightarrow> Inr a)))"

text \<open>\<open>AffectState(updated_at=...)\<close>: the neutral base line.\<close>

definition neutral_affect :: "py_datetime \<Rightarrow> persona_error + affect_state" where
  "neutral_affect at_time = check_affect
     \<lparr>af_valence = 0, af_arousal = 1 / 4, af_social_energy = 3 / 4, af_updated_at = at_time\<rparr>"

text \<open>\<open>math.log(2)\<close>, and \<open>timedelta.total_seconds()\<close> of a difference in microseconds.\<close>

definition log_2 :: rat where
  "log_2 = 6243314768165359 / 9007199254740992"

definition total_seconds :: "int \<Rightarrow> rat" where
  "total_seconds us = rnd (of_int us / 1000000)"

definition decay_factor :: "(rat \<Rightarrow> rat) \<Rightarrow> instant \<Rightarrow> instant \<Rightarrow> int \<Rightarrow> rat" where
  "decay_factor fexp updated_at at_time half_life_seconds =
     (let elapsed = max 0 (total_seconds (at_time - updated_at))
      in fexp (fdiv (fmul (- log_2) elapsed) (rnd (of_int half_life_seconds))))"

definition decayed :: "(rat \<Rightarrow> rat) \<Rightarrow> affect_state \<Rightarrow> py_datetime \<Rightarrow> int \<Rightarrow> persona_error + affect_state" where
  "decayed fexp a at_time half_life_seconds =
     (case at_time of
        Naive _ \<Rightarrow> Inl NaiveDecayTarget
      | Aware t \<Rightarrow>
          if half_life_seconds < 1 then Inl BadHalfLife
          else (case af_updated_at a of
              Naive _ \<Rightarrow> Inl NaiveDifference
            | Aware u \<Rightarrow>
                (let factor = decay_factor fexp u t half_life_seconds in
                 check_affect
                   \<lparr>af_valence = fmul (af_valence a) factor,
                    af_arousal = fadd (1 / 4) (fmul (fsub (af_arousal a) (1 / 4)) factor),
                    af_social_energy = fadd (3 / 4) (fmul (fsub (af_social_energy a) (3 / 4)) factor),
                    af_updated_at = at_time\<rparr>)))"

definition stimulated ::
    "affect_state \<Rightarrow> rat \<Rightarrow> rat \<Rightarrow> rat \<Rightarrow> py_datetime \<Rightarrow> persona_error + affect_state" where
  "stimulated a valence_delta arousal_delta energy_delta at_time =
     check_affect
       \<lparr>af_valence = max (- 1) (min 1 (fadd (af_valence a) valence_delta)),
        af_arousal = max 0 (min 1 (fadd (af_arousal a) arousal_delta)),
        af_social_energy = max 0 (min 1 (fadd (af_social_energy a) energy_delta)),
        af_updated_at = at_time\<rparr>"

section \<open>Bounds\<close>

text \<open>The hypothesis on \<open>math.exp\<close>: on numbers up to 0 it lies in the unit interval.\<close>

definition decays :: "(rat \<Rightarrow> rat) \<Rightarrow> bool" where
  "decays fexp \<longleftrightarrow> (\<forall>x \<le> 0. 0 \<le> fexp x \<and> fexp x \<le> 1)"

definition valid_affect :: "affect_state \<Rightarrow> bool" where
  "valid_affect a \<longleftrightarrow> - 1 \<le> af_valence a \<and> af_valence a \<le> 1 \<and> 0 \<le> af_arousal a \<and> af_arousal a \<le> 1 \<and>
     0 \<le> af_social_energy a \<and> af_social_energy a \<le> 1 \<and> (\<exists>t. af_updated_at a = Aware t)"

lemma check_affect_Inr: "check_affect a = Inr b \<longleftrightarrow> valid_affect a \<and> b = a"
  by (cases "af_updated_at a") (auto simp: check_affect_def valid_affect_def ensure_unit_interval_def)

lemma rnd_minus: "rnd (- x) = - rnd x"
  by (auto simp: rnd_def)

lemma rnd_between: "rnd a = a \<Longrightarrow> rnd b = b \<Longrightarrow> a \<le> x \<Longrightarrow> x \<le> b \<Longrightarrow> a \<le> rnd x \<and> rnd x \<le> b"
  using rnd_mono[of a x] rnd_mono[of x b] by simp

lemma rnd_quarters [simp]: "rnd (1 / 4) = 1 / 4" "rnd (3 / 4) = 3 / 4"
  by code_simp+

lemma rnd_minus_1 [simp]: "rnd (- 1) = - 1"
  by (simp add: rnd_minus)

lemma decay_factor_unit:
  assumes "decays fexp" and "1 \<le> half"
  shows "0 \<le> decay_factor fexp u t half \<and> decay_factor fexp u t half \<le> 1"
proof -
  define e where "e = max 0 (total_seconds (t - u))"
  have e: "0 \<le> e" by (simp add: e_def)
  have "(- log_2) * e \<le> 0" using e by (simp add: log_2_def)
  then have m: "fmul (- log_2) e \<le> 0" using rnd_mono[of "(- log_2) * e" 0] by (simp add: fmul_def)
  have "(1::rat) \<le> of_int half" using assms(2) by simp
  then have h: "(1::rat) \<le> rnd (of_int half)" using rnd_mono[of 1 "of_int half"] by simp
  have "fmul (- log_2) e / rnd (of_int half) \<le> 0" using m h by (simp add: divide_le_0_iff)
  then have "fdiv (fmul (- log_2) e) (rnd (of_int half)) \<le> 0"
    using rnd_mono[of _ 0] by (simp add: fdiv_def)
  then show ?thesis
    using assms(1) by (simp add: decay_factor_def decays_def e_def[symmetric])
qed

lemma scaled_between:
  assumes "- a \<le> x" and "x \<le> b" and "0 \<le> f" and "f \<le> 1" and "0 \<le> a" and "0 \<le> (b::rat)"
  shows "- a \<le> x * f \<and> x * f \<le> b"
proof -
  have "x * f \<le> b * f" "(- a) * f \<le> x * f" using assms by (intro mult_right_mono; simp)+
  moreover have "b * f \<le> b" "a * f \<le> a" using assms by (simp_all add: mult_left_le)
  ultimately show ?thesis by simp
qed

text \<open>A value in the unit interval stays there when it is pulled towards a base line \<open>c\<close>.\<close>

lemma pulled_unit:
  assumes "rnd c = c" and "rnd (1 - c) = 1 - c" and "0 \<le> c" and "c \<le> 1"
    and "0 \<le> x" and "x \<le> 1" and "0 \<le> f" and "f \<le> 1"
  shows "0 \<le> fadd c (fmul (fsub x c) f) \<and> fadd c (fmul (fsub x c) f) \<le> 1"
proof -
  have rc: "rnd (- c) = - c" by (simp add: rnd_minus assms(1))
  have "- c \<le> fsub x c \<and> fsub x c \<le> 1 - c"
    unfolding fsub_def by (rule rnd_between[OF rc assms(2)]) (use assms in auto)
  then have "- c \<le> fsub x c * f \<and> fsub x c * f \<le> 1 - c"
    using scaled_between[of c "fsub x c" "1 - c" f] assms by simp
  then have "- c \<le> fmul (fsub x c) f \<and> fmul (fsub x c) f \<le> 1 - c"
    unfolding fmul_def using rnd_between[OF rc assms(2)] by simp
  then show ?thesis
    unfolding fadd_def using rnd_between[OF rnd_0 rnd_1] by simp
qed

lemma decayed_valid:
  assumes "decays fexp" and "valid_affect a" and "1 \<le> half"
  obtains a' where "decayed fexp a (Aware t) half = Inr a'" "valid_affect a'"
    "af_updated_at a' = Aware t" "\<bar>af_valence a'\<bar> \<le> rnd \<bar>af_valence a\<bar>"
proof -
  obtain u where u: "af_updated_at a = Aware u" using assms(2) by (auto simp: valid_affect_def)
  define f where "f = decay_factor fexp u t half"
  have f: "0 \<le> f" "f \<le> 1" using decay_factor_unit[OF assms(1,3)] by (auto simp: f_def)
  define b where "b = \<lparr>af_valence = fmul (af_valence a) f,
     af_arousal = fadd (1 / 4) (fmul (fsub (af_arousal a) (1 / 4)) f),
     af_social_energy = fadd (3 / 4) (fmul (fsub (af_social_energy a) (3 / 4)) f),
     af_updated_at = Aware t\<rparr>"
  have v: "- \<bar>af_valence a\<bar> \<le> af_valence a * f \<and> af_valence a * f \<le> \<bar>af_valence a\<bar>"
    using scaled_between[of "\<bar>af_valence a\<bar>" "af_valence a" "\<bar>af_valence a\<bar>" f] f by simp
  then have s: "\<bar>fmul (af_valence a) f\<bar> \<le> rnd \<bar>af_valence a\<bar>"
    unfolding fmul_def using rnd_mono[of "- \<bar>af_valence a\<bar>" "af_valence a * f"]
      rnd_mono[of "af_valence a * f" "\<bar>af_valence a\<bar>"] by (simp add: rnd_minus abs_le_iff)
  have one: "rnd \<bar>af_valence a\<bar> \<le> 1" using assms(2) by (intro rnd_le_1) (simp add: valid_affect_def abs_le_iff)
  have vb: "valid_affect b"
    using s one assms(2) f pulled_unit[of "1 / 4" "af_arousal a" f] pulled_unit[of "3 / 4" "af_social_energy a" f]
    by (auto simp: valid_affect_def b_def)
  have "decayed fexp a (Aware t) half = check_affect b"
    using assms(3) by (simp add: decayed_def u f_def[symmetric] b_def Let_def)
  then have "decayed fexp a (Aware t) half = Inr b" using vb by (simp add: check_affect_Inr)
  then show thesis using that[of b] vb s by (simp add: b_def)
qed

lemma stimulated_valid:
  obtains b where "stimulated a dv da de (Aware t) = Inr b" "valid_affect b" "af_updated_at b = Aware t"
proof -
  let ?b = "\<lparr>af_valence = max (- 1) (min 1 (fadd (af_valence a) dv)),
     af_arousal = max 0 (min 1 (fadd (af_arousal a) da)),
     af_social_energy = max 0 (min 1 (fadd (af_social_energy a) de)), af_updated_at = Aware t\<rparr>"
  have v: "valid_affect ?b" by (auto simp: valid_affect_def)
  then have "stimulated a dv da de (Aware t) = Inr ?b"
    using check_affect_Inr[of ?b ?b] by (simp add: stimulated_def)
  with v show thesis using that[of ?b] by simp
qed

lemma neutral_valid:
  "neutral_affect (Aware t) =
     Inr \<lparr>af_valence = 0, af_arousal = 1 / 4, af_social_energy = 3 / 4, af_updated_at = Aware t\<rparr>"
  by (simp add: neutral_affect_def check_affect_Inr valid_affect_def)

end
