(* ===== verification/Context_Assembly.thy ===== *)
theory Context_Assembly
  imports Json Binary64
begin

text \<open>
  The context of a model call (\<open>packages/cognition/.../context.py\<close>): the token estimate, the
  truncation to a budget by binary search, the hierarchical compression of older messages and the
  greedy assembly under the budget. \<open>digest\<close> is \<open>sha256(...).hexdigest()[:20]\<close> and \<open>redact\<close>
  the regular-expression substitutions of \<open>_redact_credentials\<close>: both are parameters.
  \<open>ValueError\<close>s are the datatype \<open>context_error\<close>.
\<close>

datatype fragment_kind =
    SYSTEM_KIND | PERSONA_KIND | WORKING_MEMORY | LONG_TERM_MEMORY | CONVERSATION_SUMMARY
  | RECENT_MESSAGE | USER_CONTEXT

datatype context_role = SYSTEM_ROLE | USER_ROLE | ASSISTANT_ROLE

datatype context_error =
    EmptyFragment | BadPriority | BadTokenEstimate | BadSourceCount | BadSummaryLevel
  | UnexpectedSummaryLevel | BadRecentLimit | BadChunkSize | BadMaxLevels | BadSummaryBudget
  | BadTokenBudget

section \<open>Tokens and truncation\<close>

definition estimate_tokens :: "ustr \<Rightarrow> int" where
  "estimate_tokens content =
     (if content = [] then 0
      else (let ascii_count = int (length (filter (\<lambda>c. c < 128) content));
                non_ascii_count = int (length content) - ascii_count
            in max 1 ((ascii_count + 3) div 4 + non_ascii_count)))"

definition truncation_marker :: ustr where
  "truncation_marker = [10, 91, 8230, 20869, 23481, 22240, 19978, 19979, 25991, 39044, 31639, 25130, 26029,
     8230, 93, 10]"

text \<open>The candidate that keeps \<open>kept\<close> characters, three fifths of them at the head.\<close>

definition truncated_at :: "ustr \<Rightarrow> int \<Rightarrow> ustr" where
  "truncated_at content kept =
     (let head = max 1 (kept * 3 div 5); tail = max 1 (kept - head)
      in take (nat head) content @ truncation_marker @ drop (length content - nat tail) content)"

function truncate_loop :: "ustr \<Rightarrow> int \<Rightarrow> int \<Rightarrow> int \<Rightarrow> ustr \<Rightarrow> ustr" where
  "truncate_loop content token_budget low high best =
     (if low \<le> high then
        (let kept = (low + high) div 2; candidate = truncated_at content kept in
         if estimate_tokens candidate \<le> token_budget
         then truncate_loop content token_budget (kept + 1) high candidate
         else truncate_loop content token_budget low (kept - 1) best)
      else best)"
  by pat_completeness auto
termination
  by (relation "measure (\<lambda>(content, token_budget, low, high, best). nat (high + 1 - low))") auto

declare truncate_loop.simps [simp del]

definition truncate_to_token_budget :: "ustr \<Rightarrow> int \<Rightarrow> ustr" where
  "truncate_to_token_budget content token_budget =
     (if token_budget < estimate_tokens truncation_marker + 2 then []
      else truncate_loop content token_budget 1 (int (length content)) [])"

section \<open>Fragments\<close>

record context_fragment =
  cf_fragment_id :: ustr
  cf_kind :: fragment_kind
  cf_role :: context_role
  cf_content :: ustr
  cf_priority :: int
  cf_required :: bool
  cf_ordinal :: int
  cf_source_id :: "ustr option"
  cf_token_estimate :: "int option"
  cf_summary_level :: int
  cf_source_count :: int

definition check_fragment :: "context_fragment \<Rightarrow> context_error + context_fragment" where
  "check_fragment f =
     (if strip (cf_fragment_id f) = [] \<or> strip (cf_content f) = [] then Inl EmptyFragment
      else if \<not> (0 \<le> cf_priority f \<and> cf_priority f \<le> 100) then Inl BadPriority
      else if (case cf_token_estimate f of None \<Rightarrow> False | Some n \<Rightarrow> n < 1) then Inl BadTokenEstimate
      else if cf_source_count f < 1 then Inl BadSourceCount
      else if cf_kind f = CONVERSATION_SUMMARY then
        (if cf_summary_level f < 1 then Inl BadSummaryLevel else Inr f)
      else if cf_summary_level f \<noteq> 0 then Inl UnexpectedSummaryLevel
      else Inr f)"

text \<open>\<open>tokens\<close>: a \<open>token_estimate\<close> of 0 counts as absent.\<close>

definition tokens :: "context_fragment \<Rightarrow> int" where
  "tokens f = (case cf_token_estimate f of
     None \<Rightarrow> estimate_tokens (cf_content f)
   | Some n \<Rightarrow> if n = 0 then estimate_tokens (cf_content f) else n)"

record compression_report =
  cr_applied :: bool
  cr_source_message_count :: nat
  cr_recent_message_count :: nat
  cr_summarized_message_count :: nat
  cr_summary_covered_message_count :: int
  cr_summary_fragment_count :: nat
  cr_summary_levels :: int
  cr_estimated_summary_tokens :: int
  cr_omitted_summary_fragment_count :: int

record context_assembly =
  as_fragments :: "context_fragment list"
  as_omitted_fragment_ids :: "ustr list"
  as_truncated_fragment_ids :: "ustr list"
  as_estimated_tokens :: int
  as_token_budget :: int
  as_compression :: "compression_report option"

definition clipped :: "context_assembly \<Rightarrow> bool" where
  "clipped a \<longleftrightarrow> as_omitted_fragment_ids a \<noteq> [] \<or> as_truncated_fragment_ids a \<noteq> []"

record summary_node =
  sn_fragment :: context_fragment
  sn_source_fragment_ids :: "ustr list"
  sn_highlights :: "ustr list"

section \<open>Hierarchical compression\<close>

definition excerpt :: "ustr \<Rightarrow> nat \<Rightarrow> ustr" where
  "excerpt value maximum =
     (if length value \<le> maximum then value
      else let head = maximum * 3 div 4; tail = maximum - head - 1
           in take head value @ [8230] @ drop (length value - tail) value)"

text \<open>\<open>str.split()\<close>: the maximal runs without white space.\<close>

function split_words :: "ustr \<Rightarrow> ustr list" where
  "split_words s =
     (case dropWhile is_space s of
        [] \<Rightarrow> []
      | c # t \<Rightarrow> (c # takeWhile (\<lambda>x. \<not> is_space x) t) # split_words (dropWhile (\<lambda>x. \<not> is_space x) t))"
  by pat_completeness auto
termination
proof (relation "measure length")
  fix s c t assume "dropWhile is_space s = c # t"
  then have "length (c # t) \<le> length s" by (metis length_dropWhile_le)
  then show "(dropWhile (\<lambda>x. \<not> is_space x) t, s) \<in> measure length"
    using length_dropWhile_le[of "\<lambda>x. \<not> is_space x" t] by simp
qed simp

declare split_words.simps [simp del]

definition message_highlight :: "(ustr \<Rightarrow> ustr) \<Rightarrow> context_fragment \<Rightarrow> ustr" where
  "message_highlight redact f =
     (let speaker = (if cf_role f = ASSISTANT_ROLE then lit ''Agent'' else [29992, 25143]);
          normalized = join (lit '' '') (split_words (strip (cf_content f)))
      in speaker @ [65306] @ excerpt (redact normalized) 120)"

definition evenly_sample :: "'a list \<Rightarrow> nat \<Rightarrow> 'a list" where
  "evenly_sample values limit =
     (if length values \<le> limit then values
      else if limit = 1 then [last values]
      else map (\<lambda>index. values ! nat (round_even (rnd
             (of_nat (index * (length values - 1)) / of_nat (limit - 1))))) [0..<limit])"

definition summary_content :: "int \<Rightarrow> ustr list \<Rightarrow> ustr list \<Rightarrow> ustr" where
  "summary_content level source_ids highlights =
     [36739, 26089, 23545, 35805, 20998, 23618, 25688, 35201, 65288, 31532, 32] @
     dec_int level @
     [32, 23618, 65292, 35206, 30422, 32] @
     dec_nat (length source_ids) @
     [32, 26465, 28040, 24687, 65289, 12290, 36825, 26159, 19981, 21487, 20449, 30340,
     21382, 21490, 32972, 26223, 65292, 19981, 33021, 35206, 30422, 31995, 32479, 31574,
     30053, 25110, 24403, 21069, 29992, 25143, 24847, 22270, 65306, 10] @
     join [10] highlights"

definition make_node :: "(ustr \<Rightarrow> ustr) \<Rightarrow> int \<Rightarrow> ustr list \<Rightarrow> ustr list \<Rightarrow> int \<Rightarrow> summary_node" where
  "make_node digest level source_ids highlights ordinal =
     (let d = digest (dec_int level @ lit '':'' @ join [31] source_ids) in
      \<lparr>sn_fragment = \<lparr>cf_fragment_id = lit ''conversation-summary-l'' @ dec_int level @ lit ''-'' @ d,
         cf_kind = CONVERSATION_SUMMARY, cf_role = USER_ROLE,
         cf_content = summary_content level source_ids highlights,
         cf_priority = min 84 (70 + level * 2), cf_required = False, cf_ordinal = ordinal,
         cf_source_id = Some d, cf_token_estimate = None, cf_summary_level = level,
         cf_source_count = int (length source_ids)\<rparr>,
       sn_source_fragment_ids = source_ids, sn_highlights = highlights\<rparr>)"

text \<open>The groups \<open>xs[offset : offset + n]\<close> for \<open>offset\<close> in \<open>range(0, len(xs), n)\<close>.\<close>

function chunks :: "nat \<Rightarrow> 'a list \<Rightarrow> 'a list list" where
  "chunks n xs = (if n = 0 \<or> xs = [] then [] else take n xs # chunks n (drop n xs))"
  by pat_completeness auto
termination by (relation "measure (\<lambda>(n, xs). length xs)") auto

declare chunks.simps [simp del]

definition leaf_nodes ::
    "(ustr \<Rightarrow> ustr) \<Rightarrow> (ustr \<Rightarrow> ustr) \<Rightarrow> nat \<Rightarrow> context_fragment list \<Rightarrow> summary_node list" where
  "leaf_nodes digest redact chunk_size fragments =
     map (\<lambda>group. make_node digest 1 (map cf_fragment_id group) (map (message_highlight redact) group)
            (Min (set (map cf_ordinal group)))) (chunks chunk_size fragments)"

definition parent_nodes :: "(ustr \<Rightarrow> ustr) \<Rightarrow> int \<Rightarrow> nat \<Rightarrow> summary_node list \<Rightarrow> summary_node list" where
  "parent_nodes digest level chunk_size nodes =
     map (\<lambda>group. make_node digest level (concat (map sn_source_fragment_ids group))
            (evenly_sample (concat (map sn_highlights group)) chunk_size)
            (Min (set (map (cf_ordinal \<circ> sn_fragment) group)))) (chunks chunk_size nodes)"

definition node_tokens :: "summary_node list \<Rightarrow> int" where
  "node_tokens nodes = sum_list (map (tokens \<circ> sn_fragment) nodes)"

text \<open>The loop over the levels; \<open>room\<close> levels are left below \<open>max_levels\<close>.\<close>

fun climb_levels ::
    "(ustr \<Rightarrow> ustr) \<Rightarrow> nat \<Rightarrow> int \<Rightarrow> nat \<Rightarrow> int \<Rightarrow> summary_node list \<Rightarrow> int \<times> summary_node list" where
  "climb_levels digest chunk_size budget 0 level nodes = (level, nodes)"
| "climb_levels digest chunk_size budget (Suc room) level nodes =
     (if 1 < length nodes \<and> node_tokens nodes > budget
      then climb_levels digest chunk_size budget room (level + 1)
             (parent_nodes digest (level + 1) chunk_size nodes)
      else (level, nodes))"

text \<open>The newest nodes that fit, walking backwards; what does not fit is skipped.\<close>

fun select_nodes :: "int \<Rightarrow> int \<Rightarrow> summary_node list \<Rightarrow> summary_node list" where
  "select_nodes budget consumed [] = []"
| "select_nodes budget consumed (n # ns) =
     (if consumed + tokens (sn_fragment n) \<le> budget
      then n # select_nodes budget (consumed + tokens (sn_fragment n)) ns
      else select_nodes budget consumed ns)"

definition fit_nodes :: "summary_node list \<Rightarrow> int \<Rightarrow> summary_node list \<times> int" where
  "fit_nodes nodes token_budget =
     (let selected = rev (select_nodes token_budget 0 (rev nodes)) in
      if selected \<noteq> [] \<or> nodes = [] then (selected, int (length nodes) - int (length selected))
      else (let latest = last nodes;
                content = truncate_to_token_budget (cf_content (sn_fragment latest)) token_budget
            in if content = [] then ([], int (length nodes))
               else ([latest\<lparr>sn_fragment := (sn_fragment latest)\<lparr>cf_content := content,
                        cf_token_estimate := Some (estimate_tokens content)\<rparr>\<rparr>],
                     int (length nodes) - 1)))"

definition unchanged_report :: "nat \<Rightarrow> compression_report" where
  "unchanged_report n =
     \<lparr>cr_applied = False, cr_source_message_count = n, cr_recent_message_count = n,
      cr_summarized_message_count = 0, cr_summary_covered_message_count = 0,
      cr_summary_fragment_count = 0, cr_summary_levels = 0, cr_estimated_summary_tokens = 0,
      cr_omitted_summary_fragment_count = 0\<rparr>"

definition is_message :: "context_fragment \<Rightarrow> bool" where
  "is_message f \<longleftrightarrow> cf_kind f = RECENT_MESSAGE"

definition compress ::
    "(ustr \<Rightarrow> ustr) \<Rightarrow> (ustr \<Rightarrow> ustr) \<Rightarrow> context_fragment list \<Rightarrow> bool \<Rightarrow> int \<Rightarrow> int \<Rightarrow> int \<Rightarrow> int \<Rightarrow>
       context_error + (context_fragment list \<times> compression_report)" where
  "compress digest redact fragments enabled recent_message_limit chunk_size max_levels summary_token_budget =
     (if recent_message_limit < 1 then Inl BadRecentLimit
      else if \<not> (2 \<le> chunk_size \<and> chunk_size \<le> 64) then Inl BadChunkSize
      else if \<not> (1 \<le> max_levels \<and> max_levels \<le> 8) then Inl BadMaxLevels
      else if summary_token_budget < 1 then Inl BadSummaryBudget
      else
        (let messages = filter is_message fragments in
         if \<not> enabled \<or> int (length messages) \<le> recent_message_limit
         then Inr (fragments, unchanged_report (length messages))
         else
           (let cut = length messages - nat recent_message_limit;
                historical = take cut messages;
                recent = drop cut messages;
                leaves = leaf_nodes digest redact (nat chunk_size) historical
            in case climb_levels digest (nat chunk_size) summary_token_budget (nat (max_levels - 1)) 1 leaves of
                 (level, nodes) \<Rightarrow>
                   (case fit_nodes nodes summary_token_budget of
                      (selected, omitted_count) \<Rightarrow>
                        let recent_ids = map cf_fragment_id recent;
                            passthrough = filter (\<lambda>f. \<not> is_message f \<or> cf_fragment_id f \<in> set recent_ids) fragments
                        in Inr (sorted_by (\<lambda>f. (cf_ordinal f, cf_fragment_id f))
                                  (passthrough @ map sn_fragment selected),
                                \<lparr>cr_applied = True, cr_source_message_count = length messages,
                                 cr_recent_message_count = length recent,
                                 cr_summarized_message_count = length historical,
                                 cr_summary_covered_message_count =
                                   sum_list (map (cf_source_count \<circ> sn_fragment) selected),
                                 cr_summary_fragment_count = length selected,
                                 cr_summary_levels = level,
                                 cr_estimated_summary_tokens = node_tokens selected,
                                 cr_omitted_summary_fragment_count = omitted_count\<rparr>)))))"

section \<open>Assembly\<close>

text \<open>The loop over the ranked fragments: selected (newest last), omitted, truncated, consumed.\<close>

fun assemble_loop ::
    "int \<Rightarrow> context_fragment list \<Rightarrow> context_fragment list \<Rightarrow> ustr list \<Rightarrow> ustr list \<Rightarrow> int \<Rightarrow>
       context_fragment list \<times> ustr list \<times> ustr list \<times> int" where
  "assemble_loop budget [] selected omitted truncated consumed = (selected, omitted, truncated, consumed)"
| "assemble_loop budget (f # fs) selected omitted truncated consumed =
     (if consumed + tokens f \<le> budget
      then assemble_loop budget fs (selected @ [f]) omitted truncated (consumed + tokens f)
      else
        (let content = (if cf_required f \<and> consumed < budget
               then truncate_to_token_budget (cf_content f) (budget - consumed) else []);
             cut = f\<lparr>cf_content := content, cf_token_estimate := Some (estimate_tokens content)\<rparr>
         in if content \<noteq> []
            then assemble_loop budget fs (selected @ [cut]) omitted (truncated @ [cf_fragment_id f])
                   (consumed + tokens cut)
            else assemble_loop budget fs selected (omitted @ [cf_fragment_id f]) truncated consumed))"

definition assemble ::
    "context_fragment list \<Rightarrow> int \<Rightarrow> compression_report option \<Rightarrow> context_error + context_assembly" where
  "assemble fragments token_budget compression =
     (if token_budget < 1 then Inl BadTokenBudget
      else
        (case assemble_loop token_budget
                (sorted_by_desc (\<lambda>f. (cf_required f, cf_priority f, cf_ordinal f)) fragments) [] [] [] 0 of
           (selected, omitted, truncated, consumed) \<Rightarrow>
             Inr \<lparr>as_fragments = sorted_by cf_ordinal selected,
                  as_omitted_fragment_ids =
                    map cf_fragment_id (filter (\<lambda>f. cf_fragment_id f \<in> set omitted) fragments),
                  as_truncated_fragment_ids = truncated, as_estimated_tokens = consumed,
                  as_token_budget = token_budget, as_compression = compression\<rparr>))"

end
