(* ===== verification/Cognitive_Runtime.thy ===== *)
theory Cognitive_Runtime
  imports Persona Policy_Gate Context_Assembly
begin

text \<open>
  \<open>AnthropomorphicCognitiveRuntime\<close> (\<open>packages/cognition/.../runtime.py\<close>): perception, affect,
  context, social mind, deliberation, policy gate and expression of one run, composed as \<open>run\<close>
  composes them. The phrases and texts of the code are lists of code points; \<open>digest\<close> and
  \<open>redact\<close> are the parameters of the context compressor, \<open>fexp\<close> is \<open>math.exp\<close>. A constructor that
  validates its arguments is run where the code constructs the value, so every \<open>ValueError\<close> of a
  run is a value of \<open>cognitive_error\<close>. The phrases of the code are Chinese: no other character folds
  to theirs, so \<open>casefold\<close> gives Python's answer for them.
\<close>

section \<open>Data\<close>

datatype cognitive_stage =
    PERCEPTION | CONTEXT_ASSEMBLY | MEMORY_RECALL | SOCIAL_MIND | DELIBERATION | POLICY_GATE | REALIZER

datatype cognitive_error =
    PersonaFailure persona_error | FragmentFailure context_error | CandidateFailure candidate_error
  | NoCandidate

definition lift_error :: "('e \<Rightarrow> cognitive_error) \<Rightarrow> 'e + 'a \<Rightarrow> cognitive_error + 'a" where
  "lift_error f r = (case r of Inl e \<Rightarrow> Inl (f e) | Inr a \<Rightarrow> Inr a)"

record agent_event =
  ev_event_id :: uuid
  ev_tenant_id :: uuid
  ev_agent_id :: uuid
  ev_conversation_id :: uuid
  ev_actor_id :: uuid
  ev_occurred_at :: py_datetime
  ev_event_type :: ustr
  ev_text :: "ustr option"

record memory_trace_item =
  mt_memory_id :: uuid
  mt_score :: rat
  mt_version :: int

record cognitive_context =
  cc_run_id :: uuid
  cc_configuration_version :: int
  cc_persona_version :: int
  cc_prompt_version :: int
  cc_context_fragments :: "(ustr + context_fragment) list"
  cc_persona :: persona_profile
  cc_prior_affect :: "affect_state option"
  cc_policy :: policy_rules
  cc_context_token_budget :: int
  cc_context_summary_enabled :: bool
  cc_context_recent_message_limit :: int
  cc_context_summary_chunk_size :: int
  cc_context_summary_max_levels :: int
  cc_context_summary_token_budget :: int
  cc_affect_half_life_seconds :: int
  cc_memory_recall_trace :: "memory_trace_item list"
  cc_relationship_version :: "int option"

record perception =
  px_intent :: ustr
  px_confidence :: rat
  px_sentiment :: rat
  px_urgency :: rat
  px_asks_for_silence :: bool
  px_requests_external_action :: bool
  px_prompt_injection_signal :: bool

record social_mind_state =
  so_tone :: ustr
  so_conversational_distance :: ustr
  so_response_energy :: ustr
  so_boundary_reminder :: bool

record cognitive_step =
  cs_sequence :: nat
  cs_stage :: cognitive_stage
  cs_summary :: ustr
  cs_detail :: json_dict

record agent_decision =
  ad_action :: cognitive_action
  ad_rationale_summary :: ustr
  ad_parameters :: "(ustr, ustr) dict"
  ad_instructions :: ustr
  ad_context :: "context_assembly option"
  ad_perception :: "perception option"
  ad_social_mind :: "social_mind_state option"
  ad_affect :: "affect_state option"
  ad_candidates :: "action_candidate list"
  ad_policy_evaluation :: "policy_evaluation option"
  ad_steps :: "cognitive_step list"

section \<open>Perception\<close>

definition positive_words :: "ustr list" where
  "positive_words = [[24320, 24515], [39640, 20852], [22826, 22909], [35874, 35874], [21916, 27426], [21704,
     21704], [39034, 21033]]"

definition negative_words :: "ustr list" where
  "negative_words = [[38590, 36807], [28966, 34385], [29983, 27668], [28902], [30171, 33510], [31967, 31957],
     [23849, 28291]]"

definition silence_phrases :: "ustr list" where
  "silence_phrases = [[19981, 29992, 22238, 22797], [26080, 38656, 22238, 22797], [21035, 22238, 22797], [19981,
     35201, 22238], [20808, 21035, 35828, 35805]]"

definition external_action_phrases :: "ustr list" where
  "external_action_phrases = [[24110, 25105, 21457], [26367, 25105, 21457], [24110, 25105, 21024, 38500], [24110, 25105,
     36716, 36134], [26367, 25105, 30331, 24405]]"

definition injection_phrases :: "ustr list" where
  "injection_phrases = [[24573, 30053, 20043, 21069], [31995, 32479, 25552, 31034], [24320, 21457, 32773, 25351,
     20196], [24605, 32500, 38142], [38544, 34255, 25552, 31034]]"

definition ambiguous_help :: "ustr list" where
  "ambiguous_help = [[24110, 24110, 25105], [24590, 20040, 21150], [20320, 35828, 21602], [36825, 20010, 24590,
     20040, 24324], [25937, 21629]]"

definition urgent_words :: "ustr list" where
  "urgent_words = [[32039, 24613], [39532, 19978], [31435, 21051], [25937, 21629]]"

definition mentions :: "ustr list \<Rightarrow> ustr \<Rightarrow> bool" where
  "mentions phrases s \<longleftrightarrow> list_ex (\<lambda>p. contains p s) phrases"

definition message_received :: ustr where
  "message_received = lit ''message.received''"

text \<open>\<open>(event.text or "").strip()\<close>.\<close>

definition event_text :: "agent_event \<Rightarrow> ustr" where
  "event_text e = strip (case ev_text e of None \<Rightarrow> [] | Some s \<Rightarrow> s)"

definition sentiment_of :: "ustr \<Rightarrow> rat" where
  "sentiment_of s =
     (let positive = int (length (filter (\<lambda>w. contains w s) positive_words));
          negative = int (length (filter (\<lambda>w. contains w s) negative_words))
      in max (- 1) (min 1 (fmul (of_int (positive - negative)) (rnd (35 / 100)))))"

definition intent_of :: "agent_event \<Rightarrow> ustr \<Rightarrow> ustr \<times> rat" where
  "intent_of e s =
     (if ev_event_type e \<noteq> message_received \<or> s = [] then (lit ''observe'', 1)
      else if mentions silence_phrases s then (lit ''request_silence'', rnd (99 / 100))
      else if mentions external_action_phrases s then (lit ''external_action'', rnd (9 / 10))
      else if s \<in> set ambiguous_help then (lit ''ambiguous_help'', rnd (82 / 100))
      else if mentions [[63], [65311]] s then (lit ''question'', rnd (86 / 100))
      else (lit ''conversation'', rnd (76 / 100)))"

definition perceive :: "agent_event \<Rightarrow> perception" where
  "perceive e =
     (let s = event_text e; lowered = casefold s in
      \<lparr>px_intent = fst (intent_of e s), px_confidence = snd (intent_of e s),
       px_sentiment = sentiment_of s,
       px_urgency = (if mentions urgent_words s then rnd (85 / 100) else rnd (2 / 10)),
       px_asks_for_silence = mentions silence_phrases s,
       px_requests_external_action = mentions external_action_phrases s,
       px_prompt_injection_signal = mentions injection_phrases lowered\<rparr>)"

section \<open>Affect\<close>

definition update_affect ::
    "(rat \<Rightarrow> rat) \<Rightarrow> agent_event \<Rightarrow> cognitive_context \<Rightarrow> perception \<Rightarrow> persona_error + affect_state" where
  "update_affect fexp e c p =
     bind_result (case cc_prior_affect c of
         None \<Rightarrow> neutral_affect (ev_occurred_at e) | Some prior \<Rightarrow> Inr prior) (\<lambda>prior.
     bind_result (decayed fexp prior (ev_occurred_at e) (cc_affect_half_life_seconds c)) (\<lambda>after.
       stimulated after (fmul (px_sentiment p) (rnd (22 / 100)))
         (fmul (fsub (px_urgency p) (rnd (2 / 10))) (rnd (12 / 100)))
         (if ev_event_type e = message_received then - rnd (15 / 1000) else 0)
         (ev_occurred_at e)))"

section \<open>Context fragments\<close>

definition legacy_fragment :: "nat \<Rightarrow> ustr \<Rightarrow> context_fragment" where
  "legacy_fragment index content =
     \<lparr>cf_fragment_id = lit ''legacy-'' @ dec_nat index, cf_kind = RECENT_MESSAGE, cf_role = USER_ROLE,
      cf_content = content, cf_priority = 60, cf_required = False, cf_ordinal = int index,
      cf_source_id = None, cf_token_estimate = None, cf_summary_level = 0, cf_source_count = 1\<rparr>"

fun normalize_loop ::
    "nat \<Rightarrow> (ustr + context_fragment) list \<Rightarrow> context_fragment list \<Rightarrow> context_error + context_fragment list" where
  "normalize_loop index [] normalized = Inr normalized"
| "normalize_loop index (Inr f # fs) normalized = normalize_loop (Suc index) fs (normalized @ [f])"
| "normalize_loop index (Inl s # fs) normalized =
     (if strip s \<noteq> []
      then bind_result (check_fragment (legacy_fragment index s)) (\<lambda>f.
             normalize_loop (Suc index) fs (normalized @ [f]))
      else normalize_loop (Suc index) fs normalized)"

definition event_fragment :: "agent_event \<Rightarrow> ustr \<Rightarrow> nat \<Rightarrow> context_fragment" where
  "event_fragment e content n =
     \<lparr>cf_fragment_id = lit ''event-'' @ uuid_str (ev_event_id e), cf_kind = RECENT_MESSAGE,
      cf_role = USER_ROLE, cf_content = content, cf_priority = 100, cf_required = True,
      cf_ordinal = int n, cf_source_id = Some (uuid_str (ev_event_id e)), cf_token_estimate = None,
      cf_summary_level = 0, cf_source_count = 1\<rparr>"

definition from_event :: "agent_event \<Rightarrow> context_fragment \<Rightarrow> bool" where
  "from_event e f \<longleftrightarrow> cf_source_id f = Some (uuid_str (ev_event_id e))"

definition normalize_fragments ::
    "agent_event \<Rightarrow> cognitive_context \<Rightarrow> context_error + context_fragment list" where
  "normalize_fragments e c =
     bind_result (normalize_loop 0 (cc_context_fragments c) []) (\<lambda>normalized.
       case ev_text e of
         None \<Rightarrow> Inr normalized
       | Some content \<Rightarrow>
           if content \<noteq> [] \<and> \<not> list_ex (from_event e) normalized
           then bind_result (check_fragment (event_fragment e content (length normalized)))
                  (\<lambda>f. Inr (normalized @ [f]))
           else Inr normalized)"

section \<open>Social mind\<close>

definition tone_calm :: ustr where "tone_calm = [27785, 31283, 12289, 20849, 24773, 65292, 19981, 24613, 30528, 32473, 32467, 35770]"
definition tone_light :: ustr where "tone_light = [36731, 26494, 12289, 28201, 26262, 65292, 21487, 20197, 26377, 19968, 28857, 24189,
        40664]"
definition tone_concise :: ustr where "tone_concise = [31616, 27905, 12289, 21487, 38752, 65292, 20808, 22788, 29702, 26368, 35201, 32039,
        30340, 37096, 20998]"
definition tone_natural :: ustr where "tone_natural = [33258, 28982, 12289, 28201, 21644, 12289, 30452, 25509]"

definition social_mind :: "persona_profile \<Rightarrow> affect_state \<Rightarrow> perception \<Rightarrow> social_mind_state" where
  "social_mind persona affect p =
     \<lparr>so_tone =
        (if px_sentiment p < - rnd (2 / 10) then tone_calm
         else if af_valence affect > rnd (15 / 100) \<and> tr_humor (pf_traits persona) \<ge> 1 / 2 then tone_light
         else if px_urgency p > rnd (7 / 10) then tone_concise
         else tone_natural),
      so_conversational_distance =
        (if tr_warmth (pf_traits persona) \<ge> rnd (6 / 10)
         then [23562, 37325, 36793, 30028, 30340, 29087, 24713, 32593, 21451]
         else [21451, 21892, 30340, 26222, 36890, 32593, 21451]),
      so_response_energy =
        (if af_social_energy affect < rnd (3 / 10) then [20302]
         else if af_arousal affect < rnd (65 / 100) then [20013] else [39640]),
      so_boundary_reminder = (px_requests_external_action p \<or> px_prompt_injection_signal p)\<rparr>"

section \<open>Deliberation\<close>

text \<open>\<open>ActionCandidate(action, confidence, reason)\<close> with the defaults of its other fields.\<close>

definition candidate :: "cognitive_action \<Rightarrow> rat \<Rightarrow> ustr \<Rightarrow> action_candidate" where
  "candidate action confidence reason =
     \<lparr>ac_action = action, ac_confidence = confidence, ac_reason_summary = reason, ac_parameters = [],
      ac_tool_name = None, ac_risk_level = RISK_NONE, ac_has_external_side_effect = False,
      ac_required_permission = None, ac_network_host = None, ac_estimated_cost_units = 0\<rparr>"

definition external_tool :: action_candidate where
  "external_tool = (candidate TOOL (rnd (86 / 100)) [29992, 25143, 35831, 27714, 20102, 21487, 33021, 20135, 29983, 22806, 37096, 21103,
        20316, 29992, 30340, 25805, 20316, 12290])
     \<lparr>ac_tool_name := Some (lit ''external_action''), ac_risk_level := RISK_HIGH,
      ac_has_external_side_effect := True\<rparr>"

definition deliberate :: "agent_event \<Rightarrow> perception \<Rightarrow> action_candidate list" where
  "deliberate e p =
     (if ev_event_type e \<noteq> message_received \<or> event_text e = []
      then [candidate WAIT 1 [24403, 21069, 20107, 20214, 19981, 35201, 27714, 29983, 25104, 22238, 22797, 12290]]
      else if px_asks_for_silence p
      then [candidate NO_REPLY (rnd (99 / 100)) [29992, 25143, 26126, 30830, 35201, 27714, 26242, 19981, 22238, 22797, 65292, 23562,
        37325, 20854, 20132, 27969, 36793, 30028, 12290],
            candidate WAIT (rnd (7 / 10)) [20445, 25345, 31561, 24453, 12290]]
      else if px_requests_external_action p
      then [external_tool,
            (candidate REPLY (3 / 4) [24403, 21069, 27809, 26377, 33719, 20934, 25191, 34892, 22806, 37096, 25805, 20316,
        65292, 24212, 35802, 23454, 35828, 26126, 38480, 21046, 24182, 32487, 32493, 25552,
        20379, 24110, 21161, 12290])
              \<lparr>ac_parameters := [(lit ''mode'', lit ''boundary'')]\<rparr>]
      else if px_intent p = lit ''ambiguous_help''
      then [(candidate ASK (rnd (84 / 100)) [29992, 25143, 34920, 36798, 20102, 27714, 21161, 20294, 32570, 23569, 24517, 35201,
        19978, 19979, 25991, 65292, 20808, 33258, 28982, 36861, 38382, 12290])
              \<lparr>ac_parameters := [(lit ''mode'', lit ''clarify'')]\<rparr>,
            candidate REPLY (rnd (55 / 100)) [20808, 32473, 20104, 31616, 30701, 25903, 25345, 12290]]
      else [candidate REPLY (max (rnd (72 / 100)) (px_confidence p)) [29992, 25143, 21457, 26469, 20102, 21487, 30452, 25509, 22238, 24212, 30340, 20869,
        23481, 12290],
            candidate ASK (rnd (35 / 100)) [24517, 35201, 26102, 36861, 38382, 19968, 20010, 30456, 20851, 32454, 33410, 12290]])"

text \<open>Each candidate is constructed, hence checked.\<close>

fun check_candidates :: "action_candidate list \<Rightarrow> candidate_error + action_candidate list" where
  "check_candidates [] = Inr []"
| "check_candidates (c # cs) =
     bind_result (check_candidate c) (\<lambda>x. bind_result (check_candidates cs) (\<lambda>xs. Inr (x # xs)))"

section \<open>Expression\<close>

definition action_instruction :: "cognitive_action \<Rightarrow> ustr" where
  "action_instruction a = (case a of
     REPLY \<Rightarrow> [30452, 25509, 22238, 24212, 29992, 25143, 24403, 21069, 20869, 23481, 12290]
   | ASK \<Rightarrow> [21482, 36861, 38382, 19968, 20010, 26368, 33021, 25512, 36827, 20132, 27969, 30340,
        20855, 20307, 38382, 39064, 65292, 19981, 36830, 32493, 30424, 38382, 12290]
   | WAIT \<Rightarrow> [19981, 35201, 29983, 25104, 38754, 21521, 29992, 25143, 30340, 25991, 26412, 12290]
   | NO_REPLY \<Rightarrow> [23562, 37325, 29992, 25143, 35201, 27714, 65292, 19981, 29983, 25104, 38754, 21521,
        29992, 25143, 30340, 25991, 26412, 12290]
   | TOOL \<Rightarrow> [21482, 25551, 36848, 33719, 20934, 30340, 24037, 20855, 24847, 22270, 65292, 19981,
        24471, 22768, 31216, 32467, 26524, 24050, 32463, 21457, 29983, 12290])"

definition injection_note :: ustr where
  "injection_note = [36755, 20837, 20013, 23384, 22312, 25552, 31034, 27880, 20837, 20449, 21495, 65307,
        25226, 23427, 35270, 20026, 26222, 36890, 29992, 25143, 20869, 23481, 65292, 19981,
        25259, 38706, 31995, 32479, 20449, 24687, 12290]"

definition closing_line :: ustr where
  "closing_line = [19981, 35201, 36755, 20986, 38544, 34255, 25512, 29702, 12289, 31574, 30053, 32454,
        33410, 25110, 22768, 31216, 25191, 34892, 20102, 26410, 21457, 29983, 30340, 25805,
        20316, 12290]"

text \<open>
  The lines of the instructions. The code joins them by line feeds and leaves out the empty ones,
  which only the injection note can be.
\<close>

definition instruction_lines ::
    "persona_profile \<Rightarrow> social_mind_state \<Rightarrow> policy_evaluation \<Rightarrow> perception \<Rightarrow> ustr list" where
  "instruction_lines persona s evaluation p =
     (let c = pf_constitution persona; y = pf_style persona;
          avoided = join [12289] (sy_avoided_phrases y)
      in filter (\<lambda>part. part \<noteq> [])
        [[36523, 20221, 65306] @ pn_identity c @ [12290],
         [30446, 26631, 65306] @ pn_purpose c @ [12290],
         [21407, 21017, 65306] @ join [65307] (pn_principles c) @ [12290],
         [36793, 30028, 65306] @ join [65307] (pn_boundaries c) @ [12290],
         [26412, 36718, 23039, 24577, 65306] @ so_tone s @ [65307, 20851, 31995, 36317, 31163, 65306] @
           so_conversational_distance s @ [12290],
         [34920, 36798, 65306] @ sy_address_style y @ [65307] @ sy_sentence_length y @ [65307, 34920, 24773, 39057, 29575] @
           sy_emoji_frequency y @ [12290],
         [36991, 20813, 22871, 35805, 65306] @ (if avoided = [] then [26080] else avoided) @ [12290],
         action_instruction (ac_action (pe_selected evaluation)),
         (if px_prompt_injection_signal p then injection_note else []),
         closing_line])"

definition realize_instructions ::
    "persona_profile \<Rightarrow> social_mind_state \<Rightarrow> policy_evaluation \<Rightarrow> perception \<Rightarrow> ustr" where
  "realize_instructions persona s evaluation p = join [10] (instruction_lines persona s evaluation p)"

section \<open>Steps\<close>

definition action_value :: "cognitive_action \<Rightarrow> ustr" where
  "action_value a = (case a of REPLY \<Rightarrow> lit ''reply'' | ASK \<Rightarrow> lit ''ask'' | WAIT \<Rightarrow> lit ''wait''
     | NO_REPLY \<Rightarrow> lit ''no_reply'' | TOOL \<Rightarrow> lit ''tool'')"

definition produces_text :: "cognitive_action \<Rightarrow> bool" where
  "produces_text a \<longleftrightarrow> a = REPLY \<or> a = ASK"

definition report_int :: "context_assembly \<Rightarrow> (compression_report \<Rightarrow> int) \<Rightarrow> json" where
  "report_int a f = JInt (case as_compression a of None \<Rightarrow> 0 | Some r \<Rightarrow> f r)"

definition assembly_detail :: "context_assembly \<Rightarrow> json_dict" where
  "assembly_detail a =
     [(lit ''selected_count'', JInt (int (length (as_fragments a)))),
      (lit ''omitted_count'', JInt (int (length (as_omitted_fragment_ids a)))),
      (lit ''truncated_count'', JInt (int (length (as_truncated_fragment_ids a)))),
      (lit ''estimated_tokens'', JInt (as_estimated_tokens a)),
      (lit ''token_budget'', JInt (as_token_budget a)),
      (lit ''compression_applied'', JBool (case as_compression a of None \<Rightarrow> False | Some r \<Rightarrow> cr_applied r)),
      (lit ''source_message_count'', report_int a (int \<circ> cr_source_message_count)),
      (lit ''recent_message_count'', report_int a (int \<circ> cr_recent_message_count)),
      (lit ''summarized_message_count'', report_int a (int \<circ> cr_summarized_message_count)),
      (lit ''summary_covered_message_count'', report_int a cr_summary_covered_message_count),
      (lit ''summary_fragment_count'', report_int a (int \<circ> cr_summary_fragment_count)),
      (lit ''summary_levels'', report_int a cr_summary_levels),
      (lit ''estimated_summary_tokens'', report_int a cr_estimated_summary_tokens),
      (lit ''omitted_summary_fragment_count'', report_int a cr_omitted_summary_fragment_count)]"

definition cognitive_steps ::
    "perception \<Rightarrow> context_assembly \<Rightarrow> memory_trace_item list \<Rightarrow> int option \<Rightarrow> social_mind_state \<Rightarrow>
       action_candidate list \<Rightarrow> policy_evaluation \<Rightarrow> cognitive_step list" where
  "cognitive_steps p a trace relationship_version s candidates evaluation =
     [\<lparr>cs_sequence = 1, cs_stage = PERCEPTION, cs_summary = [24050, 25552, 21462, 26412, 36718, 24847, 22270, 12289, 24773, 32490, 21644, 36793,
        30028, 20449, 21495, 12290],
       cs_detail = [(lit ''intent'', JStr (px_intent p)), (lit ''confidence'', JFloat (px_confidence p)),
         (lit ''sentiment'', JFloat (px_sentiment p)), (lit ''urgency'', JFloat (px_urgency p)),
         (lit ''prompt_injection_signal'', JBool (px_prompt_injection_signal p))]\<rparr>,
      \<lparr>cs_sequence = 2, cs_stage = CONTEXT_ASSEMBLY, cs_summary = [24050, 25353, 26469, 28304, 12289, 20998, 23618, 25688, 35201, 12289, 20248, 20808,
        32423, 21644, 32, 84, 111, 107, 101, 110, 32, 39044, 31639, 36873, 25321, 19978, 19979,
        25991, 12290],
       cs_detail = assembly_detail a\<rparr>,
      \<lparr>cs_sequence = 3, cs_stage = MEMORY_RECALL, cs_summary = [24050, 25353, 20923, 32467, 37197, 32622, 21484, 22238, 38271, 26399, 35760, 24518,
        24182, 24212, 29992, 29992, 25143, 12289, 31199, 25143, 21644, 25935, 24863, 32423,
        21035, 36793, 30028, 12290],
       cs_detail = [(lit ''memory_ids'', JList (map (JStr \<circ> uuid_str \<circ> mt_memory_id) trace)),
         (lit ''scores'', JList (map (JFloat \<circ> round_digits 6 \<circ> mt_score) trace)),
         (lit ''versions'', JList (map (JInt \<circ> mt_version) trace)),
         (lit ''recalled_count'', JInt (int (length trace))),
         (lit ''relationship_version'',
            case relationship_version of None \<Rightarrow> JNull | Some v \<Rightarrow> JInt v)]\<rparr>,
      \<lparr>cs_sequence = 4, cs_stage = SOCIAL_MIND, cs_summary = [24050, 32467, 21512, 20154, 26684, 19982, 30701, 26399, 24773, 32490, 30830, 23450,
        26412, 36718, 31038, 20132, 23039, 24577, 12290],
       cs_detail = [(lit ''tone'', JStr (so_tone s)), (lit ''distance'', JStr (so_conversational_distance s)),
         (lit ''response_energy'', JStr (so_response_energy s))]\<rparr>,
      \<lparr>cs_sequence = 5, cs_stage = DELIBERATION, cs_summary = [24050, 29983, 25104, 32467, 26500, 21270, 34892, 21160, 20505, 36873, 12290],
       cs_detail = [(lit ''candidate_actions'', JList (map (JStr \<circ> action_value \<circ> ac_action) candidates))]\<rparr>,
      \<lparr>cs_sequence = 6, cs_stage = POLICY_GATE, cs_summary = [24050, 30001, 30830, 23450, 24615, 31574, 30053, 38376, 36873, 25321, 20801, 35768,
        30340, 34892, 21160, 12290],
       cs_detail = [(lit ''selected_action'', JStr (action_value (ac_action (pe_selected evaluation)))),
         (lit ''rejected_count'', JInt (int (length (pe_rejected_reasons evaluation)))),
         (lit ''policy_version'', JInt (pe_policy_version evaluation))]\<rparr>,
      \<lparr>cs_sequence = 7, cs_stage = REALIZER, cs_summary = [24050, 29983, 25104, 19981, 21253, 21547, 38544, 34255, 25512, 29702, 30340, 34920,
        36798, 32422, 26463, 12290],
       cs_detail = [(lit ''produces_text'', JBool (produces_text (ac_action (pe_selected evaluation))))]\<rparr>]"

section \<open>The run\<close>

definition assemble_context ::
    "(ustr \<Rightarrow> ustr) \<Rightarrow> (ustr \<Rightarrow> ustr) \<Rightarrow> cognitive_context \<Rightarrow> context_fragment list \<Rightarrow>
       context_error + context_assembly" where
  "assemble_context digest redact c fragments =
     bind_result (compress digest redact fragments (cc_context_summary_enabled c)
         (cc_context_recent_message_limit c) (cc_context_summary_chunk_size c)
         (cc_context_summary_max_levels c) (cc_context_summary_token_budget c)) (\<lambda>(kept, report).
       assemble kept (cc_context_token_budget c) (Some report))"

definition decide ::
    "cognitive_context \<Rightarrow> perception \<Rightarrow> affect_state \<Rightarrow> context_assembly \<Rightarrow> action_candidate list \<Rightarrow>
       policy_evaluation \<Rightarrow> agent_decision" where
  "decide c p affect assembly candidates evaluation =
     (let s = social_mind (cc_persona c) affect p in
      \<lparr>ad_action = ac_action (pe_selected evaluation),
       ad_rationale_summary = ac_reason_summary (pe_selected evaluation),
       ad_parameters = dict_set (lit ''distance'') (so_conversational_distance s)
         (dict_set (lit ''tone'') (so_tone s) (ac_parameters (pe_selected evaluation))),
       ad_instructions = realize_instructions (cc_persona c) s evaluation p,
       ad_context = Some assembly, ad_perception = Some p, ad_social_mind = Some s,
       ad_affect = Some affect, ad_candidates = candidates, ad_policy_evaluation = Some evaluation,
       ad_steps = cognitive_steps p assembly (cc_memory_recall_trace c) (cc_relationship_version c) s
         candidates evaluation\<rparr>)"

definition run ::
    "(rat \<Rightarrow> rat) \<Rightarrow> (ustr \<Rightarrow> ustr) \<Rightarrow> (ustr \<Rightarrow> ustr) \<Rightarrow> agent_event \<Rightarrow> cognitive_context \<Rightarrow>
       cognitive_error + agent_decision" where
  "run fexp digest redact e c =
     (let p = perceive e in
      bind_result (lift_error PersonaFailure (update_affect fexp e c p)) (\<lambda>affect.
      bind_result (lift_error FragmentFailure (normalize_fragments e c)) (\<lambda>fragments.
      bind_result (lift_error FragmentFailure (assemble_context digest redact c fragments)) (\<lambda>assembly.
      bind_result (lift_error CandidateFailure (check_candidates (deliberate e p))) (\<lambda>candidates.
      bind_result (lift_error (\<lambda>_. NoCandidate) (gate_evaluate candidates (cc_policy c) None)) (\<lambda>evaluation.
        Inr (decide c p affect assembly candidates evaluation)))))))"

section \<open>The minimal runtime\<close>

definition plain_decision :: "cognitive_action \<Rightarrow> ustr \<Rightarrow> agent_decision" where
  "plain_decision action rationale =
     \<lparr>ad_action = action, ad_rationale_summary = rationale, ad_parameters = [], ad_instructions = [],
      ad_context = None, ad_perception = None, ad_social_mind = None, ad_affect = None,
      ad_candidates = [], ad_policy_evaluation = None, ad_steps = []\<rparr>"

definition minimal_run :: "agent_event \<Rightarrow> cognitive_context \<Rightarrow> agent_decision" where
  "minimal_run e c =
     (if ev_event_type e \<noteq> message_received \<or> ev_text e = None \<or> ev_text e = Some []
      then plain_decision WAIT [24403, 21069, 20107, 20214, 19981, 38656, 35201, 29983, 25104, 25991, 26412, 22238,
        22797, 12290]
      else plain_decision REPLY [29992, 25143, 21457, 36865, 20102, 21487, 22788, 29702, 30340, 25991, 26412, 28040,
        24687, 12290])"

end
