(* ===== verification/Context_Properties.thy ===== *)
theory Context_Properties
  imports Context_Assembly "HOL-Library.Multiset"
begin

text \<open>
  Properties of the context assembler: the binary search of the truncation finds the longest
  candidate that fits, the assembly stays within its budget and leaves nothing out that would
  still fit, and the compression accounts for every message.
\<close>

section \<open>Token estimates\<close>

definition ascii_count :: "ustr \<Rightarrow> nat" where
  "ascii_count s = length (filter (\<lambda>c. c < 128) s)"

definition wide_count :: "ustr \<Rightarrow> nat" where
  "wide_count s = length (filter (\<lambda>c. \<not> c < 128) s)"

lemma counts_length: "length s = ascii_count s + wide_count s"
  by (induction s) (auto simp: ascii_count_def wide_count_def)

lemma counts_append [simp]:
  "ascii_count (s @ t) = ascii_count s + ascii_count t" "wide_count (s @ t) = wide_count s + wide_count t"
  by (simp_all add: ascii_count_def wide_count_def)

lemma estimate_counts:
  "estimate_tokens s = (if ascii_count s + wide_count s = 0 then 0
     else max 1 ((int (ascii_count s) + 3) div 4 + int (wide_count s)))"
proof -
  have "s = [] \<longleftrightarrow> ascii_count s + wide_count s = 0" using counts_length[of s] by auto
  then show ?thesis
    using counts_length[of s] by (auto simp: estimate_tokens_def ascii_count_def[symmetric] Let_def)
qed

lemma estimate_mono:
  "ascii_count s \<le> ascii_count t \<Longrightarrow> wide_count s \<le> wide_count t \<Longrightarrow> estimate_tokens s \<le> estimate_tokens t"
  by (auto simp: estimate_counts zdiv_mono1 intro!: max.mono add_mono)

lemma estimate_nonneg [simp]: "0 \<le> estimate_tokens s"
  by (auto simp: estimate_counts)

lemma estimate_pos: "s \<noteq> [] \<Longrightarrow> 1 \<le> estimate_tokens s"
  by (simp add: estimate_tokens_def Let_def)

lemma counts_take_mono: "m \<le> n \<Longrightarrow> ascii_count (take m s) \<le> ascii_count (take n s) \<and>
    wide_count (take m s) \<le> wide_count (take n s)"
proof -
  assume "m \<le> n"
  then have "take n s = take m s @ take (n - m) (drop m s)" by (metis le_add_diff_inverse take_add)
  then show ?thesis by simp
qed

lemma counts_drop_mono: "m \<le> n \<Longrightarrow> ascii_count (drop n s) \<le> ascii_count (drop m s) \<and>
    wide_count (drop n s) \<le> wide_count (drop m s)"
proof -
  assume "m \<le> n"
  then have "drop m s = take (n - m) (drop m s) @ drop n s"
    by (metis append_take_drop_id drop_drop le_add_diff_inverse2)
  then show ?thesis by (metis counts_append le_add2)
qed

section \<open>Truncation\<close>

lemma head_mono: "(a::int) \<le> b \<Longrightarrow> max 1 (a * 3 div 5) \<le> max 1 (b * 3 div 5)"
  by (intro max.mono zdiv_mono1) simp_all

lemma tail_mono: "(a::int) \<le> b \<Longrightarrow> max 1 (a - max 1 (a * 3 div 5)) \<le> max 1 (b - max 1 (b * 3 div 5))"
proof -
  assume ab: "a \<le> b"
  define x y where "x = a * 3 div 5" and "y = b * 3 div 5"
  have "5 * y \<le> b * 3" "a * 3 < 5 * x + 5" unfolding x_def y_def by linarith+
  with ab have "y - x \<le> b - a" by linarith
  moreover have "x \<le> y" unfolding x_def y_def using ab by (intro zdiv_mono1) simp_all
  ultimately have "max 1 y - max 1 x \<le> b - a"
    using ab by (cases "1 \<le> x"; cases "1 \<le> y") (simp_all add: max_def)
  then have "a - max 1 x \<le> b - max 1 y" by (simp add: algebra_simps)
  then show ?thesis unfolding x_def y_def by (rule max.mono[OF order_refl])
qed

lemma pieces_mono:
  assumes "m \<le> m'" and "n' \<le> n"
  shows "estimate_tokens (take m s @ c @ drop n s) \<le> estimate_tokens (take m' s @ c @ drop n' s)"
  using counts_take_mono[OF assms(1), of s] counts_drop_mono[OF assms(2), of s]
  by (intro estimate_mono) simp_all

lemma truncated_mono:
  assumes "a \<le> b"
  shows "estimate_tokens (truncated_at s a) \<le> estimate_tokens (truncated_at s b)"
  unfolding truncated_at_def Let_def
  by (intro pieces_mono nat_mono diff_le_mono2 head_mono tail_mono assms)

definition fits :: "ustr \<Rightarrow> int \<Rightarrow> int \<Rightarrow> bool" where
  "fits s budget k \<longleftrightarrow> estimate_tokens (truncated_at s k) \<le> budget"

lemma fits_anti: "j \<le> k \<Longrightarrow> fits s budget k \<Longrightarrow> fits s budget j"
  using truncated_mono[of j k s] by (simp add: fits_def)

lemma truncate_loop_spec:
  "(\<exists>k. low \<le> k \<and> k \<le> high \<and> fits s budget k \<and> (\<forall>j. k < j \<and> j \<le> high \<longrightarrow> \<not> fits s budget j) \<and>
      truncate_loop s budget low high best = truncated_at s k) \<or>
   ((\<forall>k. low \<le> k \<and> k \<le> high \<longrightarrow> \<not> fits s budget k) \<and> truncate_loop s budget low high best = best)"
proof (induction s budget low high best rule: truncate_loop.induct)
  case (1 s budget low high best)
  let ?k = "(low + high) div 2"
  show ?case
  proof (cases "low \<le> high")
    case False
    then have "truncate_loop s budget low high best = best" by (simp add: truncate_loop.simps[of s budget low high best])
    with False show ?thesis by (intro disjI2) auto
  next
    case True
    then have k: "low \<le> ?k" "?k \<le> high" by auto
    show ?thesis
    proof (cases "fits s budget ?k")
      case fit: True
      then have eq: "truncate_loop s budget low high best =
          truncate_loop s budget (?k + 1) high (truncated_at s ?k)"
        using True by (simp add: truncate_loop.simps[of s budget low high best] fits_def Let_def)
      have "(\<exists>k. ?k + 1 \<le> k \<and> k \<le> high \<and> fits s budget k \<and> (\<forall>j. k < j \<and> j \<le> high \<longrightarrow> \<not> fits s budget j) \<and>
          truncate_loop s budget (?k + 1) high (truncated_at s ?k) = truncated_at s k) \<or>
        ((\<forall>k. ?k + 1 \<le> k \<and> k \<le> high \<longrightarrow> \<not> fits s budget k) \<and>
          truncate_loop s budget (?k + 1) high (truncated_at s ?k) = truncated_at s ?k)"
        using 1(1)[OF True refl refl] fit by (simp add: fits_def)
      then show ?thesis
      proof
        assume "\<exists>k. ?k + 1 \<le> k \<and> k \<le> high \<and> fits s budget k \<and> (\<forall>j. k < j \<and> j \<le> high \<longrightarrow> \<not> fits s budget j) \<and>
          truncate_loop s budget (?k + 1) high (truncated_at s ?k) = truncated_at s k"
        then obtain k where "?k + 1 \<le> k" "k \<le> high" "fits s budget k"
          "\<forall>j. k < j \<and> j \<le> high \<longrightarrow> \<not> fits s budget j"
          "truncate_loop s budget low high best = truncated_at s k" using eq by auto
        then show ?thesis using \<open>low \<le> ?k\<close> by (intro disjI1 exI[of _ k]) auto
      next
        assume "(\<forall>k. ?k + 1 \<le> k \<and> k \<le> high \<longrightarrow> \<not> fits s budget k) \<and>
          truncate_loop s budget (?k + 1) high (truncated_at s ?k) = truncated_at s ?k"
        then show ?thesis using k fit eq by (intro disjI1 exI[of _ ?k]) auto
      qed
    next
      case nofit: False
      then have eq: "truncate_loop s budget low high best = truncate_loop s budget low (?k - 1) best"
        using True by (simp add: truncate_loop.simps[of s budget low high best] fits_def Let_def)
      have no: "\<not> fits s budget j" if "?k \<le> j" for j using nofit fits_anti that by blast
      have "(\<exists>k. low \<le> k \<and> k \<le> ?k - 1 \<and> fits s budget k \<and> (\<forall>j. k < j \<and> j \<le> ?k - 1 \<longrightarrow> \<not> fits s budget j) \<and>
          truncate_loop s budget low (?k - 1) best = truncated_at s k) \<or>
        ((\<forall>k. low \<le> k \<and> k \<le> ?k - 1 \<longrightarrow> \<not> fits s budget k) \<and> truncate_loop s budget low (?k - 1) best = best)"
        using 1(2)[OF True refl refl] nofit by (simp add: fits_def)
      then show ?thesis
      proof
        assume "\<exists>k. low \<le> k \<and> k \<le> ?k - 1 \<and> fits s budget k \<and> (\<forall>j. k < j \<and> j \<le> ?k - 1 \<longrightarrow> \<not> fits s budget j) \<and>
          truncate_loop s budget low (?k - 1) best = truncated_at s k"
        then obtain k where "low \<le> k" "k \<le> ?k - 1" "fits s budget k"
          "\<forall>j. k < j \<and> j \<le> ?k - 1 \<longrightarrow> \<not> fits s budget j"
          "truncate_loop s budget low high best = truncated_at s k" using eq by auto
        moreover from this(4) have "\<forall>j. k < j \<and> j \<le> high \<longrightarrow> \<not> fits s budget j"
          using no by (metis linorder_not_le zle_diff1_eq)
        ultimately show ?thesis using \<open>?k \<le> high\<close> by (intro disjI1 exI[of _ k]) simp
      next
        assume a: "(\<forall>k. low \<le> k \<and> k \<le> ?k - 1 \<longrightarrow> \<not> fits s budget k) \<and> truncate_loop s budget low (?k - 1) best = best"
        have "\<not> fits s budget j" if "low \<le> j" for j using a no[of j] that by (cases "?k \<le> j") auto
        then show ?thesis using a eq by auto
      qed
    qed
  qed
qed

lemma truncate_fits: "truncate_to_token_budget s b \<noteq> [] \<Longrightarrow> estimate_tokens (truncate_to_token_budget s b) \<le> b"
proof -
  assume ne: "truncate_to_token_budget s b \<noteq> []"
  then have "truncate_to_token_budget s b = truncate_loop s b 1 (int (length s)) []"
    by (auto simp: truncate_to_token_budget_def split: if_splits)
  with ne truncate_loop_spec[of 1 "int (length s)" s b "[]"] show ?thesis by (auto simp: fits_def)
qed

text \<open>
  C13: Truncation keeps as much as the budget allows: the result is empty when the budget cannot hold
  the marker and two tokens, or when not even one character at each end fits; otherwise it is the
  candidate for the largest number of kept characters whose estimate is within the budget.
\<close>

theorem truncation_is_longest_fit:
  "truncate_to_token_budget content budget =
     (if budget < estimate_tokens truncation_marker + 2 then []
      else case find (fits content budget) (rev [1..int (length content)]) of
        None \<Rightarrow> [] | Some k \<Rightarrow> truncated_at content k)"
proof (cases "budget < estimate_tokens truncation_marker + 2")
  case True
  then show ?thesis by (simp add: truncate_to_token_budget_def)
next
  case False
  let ?n = "int (length content)"
  have find_last: "find p (rev [a..b]) = Some k"
    if "a \<le> k" "k \<le> b" "p k" "\<forall>j. k < j \<and> j \<le> b \<longrightarrow> \<not> p j" for p and a b k :: int
  proof -
    have "[a..b] = [a..k] @ [k + 1..b]" using that(1,2) by (metis upto_split2)
    moreover have "[a..k] = [a..k - 1] @ [k]" using that(1) by (rule upto_rec2)
    ultimately have "rev [a..b] = rev [k + 1..b] @ k # rev [a..k - 1]" by simp
    moreover have "find p (rev [k + 1..b]) = None" using that(4) by (auto simp: find_None_all)
    ultimately show ?thesis using that(3) find_append_hit[of p "rev [k + 1..b]" k] by simp
  qed
  have none: "find p (rev [a..b]) = None" if "\<forall>k. a \<le> k \<and> k \<le> b \<longrightarrow> \<not> p k" for p and a b :: int
    using that by (auto simp: find_None_all)
  from truncate_loop_spec[of 1 ?n content budget "[]"] show ?thesis
    using False find_last[of 1 _ ?n "fits content budget"] none[of 1 ?n "fits content budget"]
    by (auto simp: truncate_to_token_budget_def)
qed

section \<open>Assembly\<close>

definition valid_fragment :: "context_fragment \<Rightarrow> bool" where
  "valid_fragment f \<longleftrightarrow> check_fragment f = Inr f"

lemma valid_tokens: "valid_fragment f \<Longrightarrow> 1 \<le> tokens f"
proof -
  assume v: "valid_fragment f"
  then have "strip (cf_content f) \<noteq> []" by (auto simp: valid_fragment_def check_fragment_def split: if_splits)
  then have "cf_content f \<noteq> []" by (auto simp: strip_def)
  then show ?thesis
    using v estimate_pos[of "cf_content f"]
    by (auto simp: valid_fragment_def check_fragment_def tokens_def split: if_splits option.splits)
qed

text \<open>A selected fragment is the given one, or a required one cut to the room that was left.\<close>

definition taken_from :: "context_fragment \<Rightarrow> context_fragment \<Rightarrow> bool" where
  "taken_from f g \<longleftrightarrow> g = f \<or> cf_required f \<and> (\<exists>content. content \<noteq> [] \<and>
     g = f\<lparr>cf_content := content, cf_token_estimate := Some (estimate_tokens content)\<rparr>)"

lemma cut_tokens [simp]:
  "content \<noteq> [] \<Longrightarrow> tokens (f\<lparr>cf_content := content, cf_token_estimate := Some (estimate_tokens content)\<rparr>) =
     estimate_tokens content"
  using estimate_pos[of content] by (simp add: tokens_def)

lemma assemble_loop_spec:
  assumes "assemble_loop budget fs sel om tr c = (sel', om', tr', c')"
    and "c \<le> budget" and "\<forall>f \<in> set fs. 0 \<le> tokens f" and "sum_list (map tokens sel) = c"
  shows "sum_list (map tokens sel') = c' \<and> c \<le> c' \<and> c' \<le> budget \<and>
    mset (map cf_fragment_id sel') + mset om' = mset (map cf_fragment_id sel) + mset om + mset (map cf_fragment_id fs) \<and>
    (\<forall>g \<in> set sel'. g \<in> set sel \<or> (\<exists>f \<in> set fs. taken_from f g)) \<and>
    (\<forall>k \<in> set om'. k \<in> set om \<or> (\<exists>f \<in> set fs. cf_fragment_id f = k \<and> c' + tokens f > budget))"
  using assms
proof (induction fs arbitrary: sel om tr c)
  case Nil
  then show ?case by simp
next
  case (Cons f fs)
  let ?content = "if cf_required f \<and> c < budget then truncate_to_token_budget (cf_content f) (budget - c) else []"
  let ?cut = "f\<lparr>cf_content := ?content, cf_token_estimate := Some (estimate_tokens ?content)\<rparr>"
  consider (fit) "c + tokens f \<le> budget"
    | (cut) "\<not> c + tokens f \<le> budget" "?content \<noteq> []"
    | (skip) "\<not> c + tokens f \<le> budget" "?content = []" by blast
  then show ?case
  proof cases
    case fit
    have "assemble_loop budget fs (sel @ [f]) om tr (c + tokens f) = (sel', om', tr', c')"
      using Cons.prems(1) fit by simp
    from Cons.IH[OF this] show ?thesis
      using Cons.prems(2-4) fit by (auto simp: taken_from_def)
  next
    case cut
    then have req: "cf_required f" "c < budget" by (auto split: if_splits)
    have est: "estimate_tokens ?content \<le> budget - c" "1 \<le> estimate_tokens ?content"
      using cut(2) truncate_fits[of "cf_content f" "budget - c"] estimate_pos[OF cut(2)] by (simp_all add: req)
    have "assemble_loop budget fs (sel @ [?cut]) om (tr @ [cf_fragment_id f]) (c + tokens ?cut) = (sel', om', tr', c')"
      using Cons.prems(1) cut by (simp only: assemble_loop.simps Let_def if_False if_True not_False_eq_True)
    note IH = Cons.IH[OF this]
    have tok: "tokens ?cut = estimate_tokens ?content" by (rule cut_tokens[OF cut(2)])
    have took: "taken_from f ?cut" using req cut(2) unfolding taken_from_def by blast
    have id: "cf_fragment_id ?cut = cf_fragment_id f" by simp
    define g where "g = ?cut"
    have "sum_list (map tokens sel') = c' \<and> c + tokens g \<le> c' \<and> c' \<le> budget \<and>
      mset (map cf_fragment_id sel') + mset om' = mset (map cf_fragment_id (sel @ [g])) + mset om + mset (map cf_fragment_id fs) \<and>
      (\<forall>x \<in> set sel'. x \<in> set (sel @ [g]) \<or> (\<exists>f \<in> set fs. taken_from f x)) \<and>
      (\<forall>k \<in> set om'. k \<in> set om \<or> (\<exists>f \<in> set fs. cf_fragment_id f = k \<and> c' + tokens f > budget))"
      unfolding g_def
    proof (rule IH)
      show "c + tokens ?cut \<le> budget" using est(1) unfolding tok by linarith
      show "\<forall>f \<in> set fs. 0 \<le> tokens f" using Cons.prems(3) by simp
      show "sum_list (map tokens (sel @ [?cut])) = c + tokens ?cut"
        using Cons.prems(4) by (simp only: map_append sum_list.append list.simps sum_list.Cons sum_list.Nil add_0_right)
    qed
    moreover have "0 \<le> tokens g" "cf_fragment_id g = cf_fragment_id f" "taken_from f g"
      unfolding g_def using tok est took id by simp_all
    ultimately show ?thesis by auto
  next
    case skip
    have "assemble_loop budget fs sel (om @ [cf_fragment_id f]) tr c = (sel', om', tr', c')"
      using Cons.prems(1) skip by (simp only: assemble_loop.simps Let_def if_False not_not simp_thms)
    from Cons.IH[OF this] show ?thesis
      using Cons.prems(2-4) skip(1) by force
  qed
qed

text \<open>Every selected fragment that is not one of the given ones is listed as truncated, and only required ones are.\<close>

lemma assemble_loop_truncated:
  assumes "assemble_loop budget fs sel om tr c = (sel', om', tr', c')"
  shows "(\<forall>g \<in> set sel'. g \<in> set sel \<or> g \<in> set fs \<or> cf_fragment_id g \<in> set tr') \<and> set sel \<subseteq> set sel' \<and> set tr \<subseteq> set tr' \<and>
    (\<forall>k \<in> set tr'. k \<in> set tr \<or> (\<exists>f \<in> set fs. cf_fragment_id f = k \<and> cf_required f) \<and> k \<in> cf_fragment_id ` set sel')"
  using assms
proof (induction fs arbitrary: sel om tr c)
  case (Cons f fs)
  let ?content = "if cf_required f \<and> c < budget then truncate_to_token_budget (cf_content f) (budget - c) else []"
  define g where "g = f\<lparr>cf_content := ?content, cf_token_estimate := Some (estimate_tokens ?content)\<rparr>"
  consider (fit) "c + tokens f \<le> budget"
    | (cut) "\<not> c + tokens f \<le> budget" "?content \<noteq> []"
    | (skip) "\<not> c + tokens f \<le> budget" "?content = []" by blast
  then show ?case
  proof cases
    case fit
    have "assemble_loop budget fs (sel @ [f]) om tr (c + tokens f) = (sel', om', tr', c')"
      using Cons.prems fit by simp
    from Cons.IH[OF this] show ?thesis by auto
  next
    case cut
    have "assemble_loop budget fs (sel @ [g]) om (tr @ [cf_fragment_id f]) (c + tokens g) = (sel', om', tr', c')"
      using Cons.prems cut unfolding g_def
      by (simp only: assemble_loop.simps Let_def if_False if_True not_False_eq_True)
    note IH = Cons.IH[OF this]
    have "cf_required f" using cut(2) by (auto split: if_splits)
    moreover have "cf_fragment_id g = cf_fragment_id f" by (simp add: g_def)
    moreover have "cf_fragment_id g \<in> cf_fragment_id ` set sel'" using IH by auto
    ultimately show ?thesis using IH by auto
  next
    case skip
    have "assemble_loop budget fs sel (om @ [cf_fragment_id f]) tr c = (sel', om', tr', c')"
      using Cons.prems skip by (simp only: assemble_loop.simps Let_def if_False not_not simp_thms)
    from Cons.IH[OF this] show ?thesis by auto
  qed
qed simp

lemma mset_filter_rest:
  assumes "distinct xs" and "mset ys + mset zs = mset xs"
  shows "mset (filter (\<lambda>k. k \<in> set zs) xs) = mset zs"
proof -
  have "distinct (ys @ zs)" using assms by (metis mset_append mset_eq_imp_distinct_iff)
  moreover have "set zs \<subseteq> set xs" using assms(2) by (metis mset_append set_append set_mset_mset sup_ge2)
  ultimately show ?thesis
    using assms(1) by (intro iffD1[OF set_eq_iff_mset_eq_distinct]) auto
qed

lemma sorted_by_sum: "sum_list (map f (sorted_by g xs)) = (sum_list (map f xs) :: int)"
proof -
  have "mset (sorted_by g xs) = mset xs" by (simp add: sorted_by_def)
  then have "mset (map f (sorted_by g xs)) = mset (map f xs)" by simp
  then show ?thesis by (metis sum_mset_sum_list)
qed

lemma mset_sorted_by [simp]: "mset (sorted_by f xs) = mset xs"
  by (simp add: sorted_by_def)

lemma mset_sorted_by_desc [simp]: "mset (sorted_by_desc f xs) = mset xs"
  by (simp add: sorted_by_desc_def)

text \<open>
  C14: The assembled context never exceeds its token budget, its total is the sum of its fragments, and
  it keeps the order of the conversation. Every fragment is either selected, unchanged or, if
  required, cut to what was left, or reported as omitted, and, as their identifiers differ, never both; the
  fragments that were cut are selected ones, required, and listed as truncated; and no omitted fragment
  would have fitted in the room that remained.
\<close>

theorem assembly_within_budget:
  assumes "assemble fragments budget report = Inr a" and "\<forall>f \<in> set fragments. valid_fragment f"
  shows "as_estimated_tokens a = sum_list (map tokens (as_fragments a)) \<and> as_estimated_tokens a \<le> budget \<and>
    sorted (map cf_ordinal (as_fragments a)) \<and>
    (\<forall>g \<in> set (as_fragments a). \<exists>f \<in> set fragments. taken_from f g) \<and>
    (\<forall>f \<in> set fragments. cf_fragment_id f \<in> cf_fragment_id ` set (as_fragments a) \<or>
       cf_fragment_id f \<in> set (as_omitted_fragment_ids a)) \<and>
    (distinct (map cf_fragment_id fragments) \<longrightarrow>
       mset (map cf_fragment_id (as_fragments a)) + mset (as_omitted_fragment_ids a) = mset (map cf_fragment_id fragments)) \<and>
    (\<forall>g \<in> set (as_fragments a). g \<in> set fragments \<or> cf_fragment_id g \<in> set (as_truncated_fragment_ids a)) \<and>
    (\<forall>k \<in> set (as_truncated_fragment_ids a). k \<in> cf_fragment_id ` set (as_fragments a) \<and>
       (\<exists>f \<in> set fragments. cf_fragment_id f = k \<and> cf_required f)) \<and>
    (\<forall>k \<in> set (as_omitted_fragment_ids a). \<exists>f \<in> set fragments. cf_fragment_id f = k \<and>
       as_estimated_tokens a + tokens f > budget)"
proof -
  let ?ranked = "sorted_by_desc (\<lambda>f. (cf_required f, cf_priority f, cf_ordinal f)) fragments"
  obtain sel om tr c where loop: "assemble_loop budget ?ranked [] [] [] 0 = (sel, om, tr, c)"
    by (metis prod_cases4)
  have b: "1 \<le> budget" using assms(1) by (auto simp: assemble_def split: if_splits)
  have a: "a = \<lparr>as_fragments = sorted_by cf_ordinal sel,
      as_omitted_fragment_ids = map cf_fragment_id (filter (\<lambda>f. cf_fragment_id f \<in> set om) fragments),
      as_truncated_fragment_ids = tr, as_estimated_tokens = c, as_token_budget = budget, as_compression = report\<rparr>"
    using assms(1) b by (simp add: assemble_def loop)
  have "\<forall>f \<in> set ?ranked. 0 \<le> tokens f"
    using assms(2) valid_tokens by (fastforce dest: order_trans)
  from assemble_loop_spec[OF loop _ this] b
  have spec: "sum_list (map tokens sel) = c" "c \<le> budget"
    "mset (map cf_fragment_id sel) + mset om = mset (map cf_fragment_id ?ranked)"
    "\<forall>g \<in> set sel. \<exists>f \<in> set fragments. taken_from f g"
    "\<forall>k \<in> set om. \<exists>f \<in> set fragments. cf_fragment_id f = k \<and> c + tokens f > budget" by auto
  have ids: "cf_fragment_id f \<in> cf_fragment_id ` set sel \<or> cf_fragment_id f \<in> set om" if "f \<in> set fragments" for f
  proof -
    have "cf_fragment_id f \<in># mset (map cf_fragment_id ?ranked)" using that by simp
    then show ?thesis unfolding spec(3)[symmetric] by auto
  qed
  have ids': "cf_fragment_id f \<in> cf_fragment_id ` set sel \<or>
      cf_fragment_id f \<in> cf_fragment_id ` {x \<in> set fragments. cf_fragment_id x \<in> set om}"
    if "f \<in> set fragments" for f using ids[OF that] that by blast
  have "mset (map cf_fragment_id sel) + mset (map cf_fragment_id (filter (\<lambda>f. cf_fragment_id f \<in> set om) fragments)) =
      mset (map cf_fragment_id fragments)" if "distinct (map cf_fragment_id fragments)"
  proof -
    have all: "mset (map cf_fragment_id sel) + mset om = mset (map cf_fragment_id fragments)" using spec(3) by simp
    from mset_filter_rest[OF that all] show ?thesis using all by (simp add: filter_map comp_def)
  qed
  moreover have "mset (map cf_fragment_id (sorted_by cf_ordinal sel)) = mset (map cf_fragment_id sel)" by simp
  moreover note assemble_loop_truncated[OF loop]
  ultimately show ?thesis
    unfolding a using spec ids' by (simp add: sorted_by_sum sorted_by_sorted)
qed

definition sample_fragment :: "nat \<Rightarrow> bool \<Rightarrow> context_fragment" where
  "sample_fragment n req = \<lparr>cf_fragment_id = [97 + n], cf_kind = RECENT_MESSAGE, cf_role = USER_ROLE,
     cf_content = lit ''hello world'', cf_priority = 50, cf_required = req, cf_ordinal = int n,
     cf_source_id = None, cf_token_estimate = None, cf_summary_level = 0, cf_source_count = 1\<rparr>"

lemma sample_fragment_valid: "n < 26 \<Longrightarrow> valid_fragment (sample_fragment n req)"
proof -
  assume "n < 26"
  then have "strip [97 + n] \<noteq> []" by (simp add: strip_def is_space_def)
  moreover have "strip (lit ''hello world'') \<noteq> []" by (simp add: strip_def is_space_def lit_def)
  ultimately show ?thesis by (simp add: valid_fragment_def check_fragment_def sample_fragment_def)
qed

theorem assembly_within_budget_witness:
  "\<exists>a. assemble [sample_fragment 0 False, sample_fragment 1 True] 4 None = Inr a \<and>
     as_estimated_tokens a \<le> 4"
proof -
  obtain a where a: "assemble [sample_fragment 0 False, sample_fragment 1 True] 4 None = Inr a"
    by (cases "assemble [sample_fragment 0 False, sample_fragment 1 True] 4 None")
      (auto simp: assemble_def split: prod.splits)
  have "\<forall>f \<in> set [sample_fragment 0 False, sample_fragment 1 True]. valid_fragment f"
    by (simp add: sample_fragment_valid)
  from assembly_within_budget[OF a this] a show ?thesis by blast
qed

end
