(* ===== verification/Cognitive_Properties.thy ===== *)
theory Cognitive_Properties
  imports Cognitive_Runtime Context_Properties
begin

text \<open>
  What a cognitive run decides and when it succeeds: the action is a function of the event and of
  one policy switch, never an external tool; a run fails exactly on the listed inputs; its context
  fits the token budget and its affect stays within bounds.
\<close>

section \<open>Candidates\<close>

lemma lift_error_simps [simp]:
  "lift_error f (Inl x) = Inl (f x)" "lift_error f (Inr y) = Inr y"
  by (simp_all add: lift_error_def)

lemma lift_error_Inr [result_laws]: "lift_error f r = Inr y \<longleftrightarrow> r = Inr y"
  by (cases r) auto

lemma rnd_unit: "0 \<le> x \<Longrightarrow> x \<le> 1 \<Longrightarrow> 0 \<le> rnd x \<and> rnd x \<le> 1"
  by (simp add: rnd_nonneg rnd_le_1)

lemma candidate_fields [simp]:
  "ac_action (candidate a q r) = a" "ac_confidence (candidate a q r) = q"
  "ac_risk_level (candidate a q r) = RISK_NONE" "ac_estimated_cost_units (candidate a q r) = 0"
  "ac_parameters (candidate a q r) = []" "ac_reason_summary (candidate a q r) = r"
  by (simp_all add: candidate_def)

lemma external_tool_fields [simp]:
  "ac_action external_tool = TOOL" "ac_confidence external_tool = rnd (86 / 100)"
  "ac_risk_level external_tool = RISK_HIGH" "ac_tool_name external_tool = Some (lit ''external_action'')"
  "ac_estimated_cost_units external_tool = 0"
  by (simp_all add: external_tool_def)

lemma intent_confidence: "0 \<le> snd (intent_of e s) \<and> snd (intent_of e s) \<le> 1"
  using rnd_unit[of "99 / 100"] rnd_unit[of "9 / 10"] rnd_unit[of "82 / 100"] rnd_unit[of "86 / 100"]
    rnd_unit[of "76 / 100"]
  by (simp add: intent_of_def split del: if_split) (simp split: if_split)

lemma max_unit: "0 \<le> a \<Longrightarrow> a \<le> 1 \<Longrightarrow> 0 \<le> b \<Longrightarrow> b \<le> 1 \<Longrightarrow> 0 \<le> max a b \<and> max a b \<le> (1::rat)"
  by (simp add: max_def)

lemma check_candidate_ok:
  "0 \<le> ac_confidence c \<Longrightarrow> ac_confidence c \<le> 1 \<Longrightarrow> 0 \<le> ac_estimated_cost_units c \<Longrightarrow>
     (ac_action c = TOOL \<longrightarrow> (\<exists>n. n \<noteq> [] \<and> ac_tool_name c = Some n)) \<Longrightarrow> check_candidate c = Inr c"
  by (auto simp: check_candidate_def)

lemma check_candidates_ok: "\<forall>c \<in> set cs. check_candidate c = Inr c \<Longrightarrow> check_candidates cs = Inr cs"
  by (induction cs) auto

lemma deliberate_checked: "check_candidates (deliberate e (perceive e)) = Inr (deliberate e (perceive e))"
proof (rule check_candidates_ok, rule ballI)
  fix c assume c: "c \<in> set (deliberate e (perceive e))"
  have conf: "0 \<le> px_confidence (perceive e) \<and> px_confidence (perceive e) \<le> 1"
    using intent_confidence by (simp add: perceive_def Let_def)
  have units: "0 \<le> rnd q \<and> rnd q \<le> 1"
    if "q \<in> {99 / 100, 7 / 10, 86 / 100, 84 / 100, 55 / 100, 72 / 100, 35 / 100}" for q
    using that by (intro rnd_unit) auto
  have m: "0 \<le> max (rnd (72 / 100)) (px_confidence (perceive e)) \<and>
      max (rnd (72 / 100)) (px_confidence (perceive e)) \<le> 1"
    using conf units[of "72 / 100"] by (intro max_unit) simp_all
  have "0 \<le> ac_confidence c \<and> ac_confidence c \<le> 1"
    using c m units by (auto simp: deliberate_def split: if_splits)
  moreover have "ac_estimated_cost_units c = 0" using c by (auto simp: deliberate_def split: if_splits)
  moreover have "ac_action c = TOOL \<longrightarrow> ac_tool_name c = Some (lit ''external_action'')"
    using c by (auto simp: deliberate_def split: if_splits)
  ultimately show "check_candidate c = Inr c" by (intro check_candidate_ok) auto
qed

section \<open>The decision\<close>

lemma sorted_pair: "f b \<le> f a \<Longrightarrow> sorted_by_desc f [a, b] = [a, b]"
  by (simp add: sorted_by_desc_def)

lemma sorted_single: "sorted_by_desc f [a] = [a]"
  by (simp add: sorted_by_desc_def)

lemma plain_allowed:
  "ac_action c \<noteq> TOOL \<Longrightarrow> ac_action c \<noteq> NO_REPLY \<Longrightarrow> denial_reason c rules ctx = None"
  by (simp add: denial_reason_def)

text \<open>A high-risk tool without approval is denied whatever the rules are.\<close>

lemma high_risk_unapproved:
  assumes "ac_action c = TOOL" and "ac_risk_level c = RISK_HIGH" and "\<not> named_in (ac_tool_name c) (tp_approved_tools ctx)"
  shows "denial_reason c rules ctx \<noteq> None"
proof -
  have "pr_approval_required_at_or_above rules \<le> RISK_HIGH"
    by (cases "pr_approval_required_at_or_above rules") (simp_all add: less_eq_tool_risk_def)
  then show ?thesis using assms by (simp add: denial_reason_def)
qed

definition expected_action :: "agent_event \<Rightarrow> policy_rules \<Rightarrow> cognitive_action" where
  "expected_action e rules =
     (if ev_event_type e \<noteq> message_received \<or> event_text e = [] then WAIT
      else if mentions silence_phrases (event_text e) then (if pr_allow_no_reply rules then NO_REPLY else WAIT)
      else if mentions external_action_phrases (event_text e) then REPLY
      else if event_text e \<in> set ambiguous_help then ASK
      else REPLY)"

lemma perceive_fields [simp]:
  "px_asks_for_silence (perceive e) = mentions silence_phrases (event_text e)"
  "px_requests_external_action (perceive e) = mentions external_action_phrases (event_text e)"
  "px_intent (perceive e) = fst (intent_of e (event_text e))"
  by (simp_all add: perceive_def Let_def)

lemma ambiguous_intent:
  assumes "ev_event_type e = message_received" and "s \<noteq> []"
    and "\<not> mentions silence_phrases s" and "\<not> mentions external_action_phrases s"
  shows "fst (intent_of e s) = lit ''ambiguous_help'' \<longleftrightarrow> s \<in> set ambiguous_help"
  using assms by (simp add: intent_of_def)

lemma gate_first:
  "f = ac_confidence \<Longrightarrow> f b \<le> f a \<Longrightarrow> denial_reason a rules empty_context = None \<Longrightarrow>
     gate_evaluate [a, b] rules None = Inr \<lparr>pe_selected = a, pe_rejected_reasons = [], pe_policy_version = pr_version rules\<rparr>"
  by (simp add: gate_evaluate_def sorted_pair)

lemma gate_second:
  "ac_confidence b \<le> ac_confidence a \<Longrightarrow> denial_reason a rules empty_context = Some d \<Longrightarrow>
     denial_reason b rules empty_context = None \<Longrightarrow>
     gate_evaluate [a, b] rules None = Inr \<lparr>pe_selected = b, pe_rejected_reasons = [d], pe_policy_version = pr_version rules\<rparr>"
  by (simp add: gate_evaluate_def sorted_pair)

lemma gate_single:
  "denial_reason a rules empty_context = None \<Longrightarrow>
     gate_evaluate [a] rules None = Inr \<lparr>pe_selected = a, pe_rejected_reasons = [], pe_policy_version = pr_version rules\<rparr>"
  by (simp add: gate_evaluate_def sorted_single)

lemma gate_decides:
  assumes "gate_evaluate (deliberate e (perceive e)) rules None = Inr evaluation"
  shows "ac_action (pe_selected evaluation) = expected_action e rules \<and>
    (mentions external_action_phrases (event_text e) \<and> produces_text (expected_action e rules) \<longrightarrow>
       ac_parameters (pe_selected evaluation) = [(lit ''mode'', lit ''boundary'')])"
proof -
  let ?t = "event_text e"
  consider (idle) "ev_event_type e \<noteq> message_received \<or> ?t = []"
    | (silence) "ev_event_type e = message_received" "?t \<noteq> []" "mentions silence_phrases ?t"
    | (external) "ev_event_type e = message_received" "?t \<noteq> []" "\<not> mentions silence_phrases ?t"
        "mentions external_action_phrases ?t"
    | (plain) "ev_event_type e = message_received" "?t \<noteq> []" "\<not> mentions silence_phrases ?t"
        "\<not> mentions external_action_phrases ?t" by blast
  then show ?thesis
  proof cases
    case idle
    then show ?thesis
      using assms gate_single[OF plain_allowed] by (auto simp: deliberate_def expected_action_def produces_text_def)
  next
    case silence
    have le: "rnd (7 / 10) \<le> rnd (99 / 100)" by (intro rnd_mono) simp
    show ?thesis
    proof (cases "pr_allow_no_reply rules")
      case True
      then show ?thesis
        using assms silence gate_first[OF refl, of "candidate WAIT (rnd (7 / 10)) _" "candidate NO_REPLY (rnd (99 / 100)) _" rules] le
        by (auto simp: deliberate_def expected_action_def denial_reason_def produces_text_def)
    next
      case False
      then show ?thesis
        using assms silence gate_second[of "candidate WAIT (rnd (7 / 10)) _" "candidate NO_REPLY (rnd (99 / 100)) _" rules NoReplyForbidden] le
        by (auto simp: deliberate_def expected_action_def denial_reason_def produces_text_def)
    qed
  next
    case external
    have le: "3 / 4 \<le> rnd (86 / 100)" using rnd_mono[of "3 / 4" "86 / 100"] by simp
    obtain d where "denial_reason external_tool rules empty_context = Some d"
      using high_risk_unapproved[of external_tool empty_context rules]
      by (auto simp: named_in_def empty_context_def)
    then show ?thesis
      using assms external gate_second[of _ external_tool rules d] le
      by (auto simp: deliberate_def expected_action_def plain_allowed)
  next
    case plain
    have ge: "rnd (55 / 100) \<le> rnd (84 / 100)" "rnd (35 / 100) \<le> rnd (72 / 100)" by (intro rnd_mono; simp)+
    have mx: "rnd (35 / 100) \<le> max (rnd (72 / 100)) (px_confidence (perceive e))" using ge(2) by simp
    show ?thesis
      using assms plain ge mx gate_first[OF refl, of _ _ rules] ambiguous_intent[OF plain]
      by (auto simp: deliberate_def expected_action_def plain_allowed)
  qed
qed

section \<open>Success\<close>

lemma strip_nonblank: "\<not> is_space c \<Longrightarrow> strip (c # s) \<noteq> []"
proof
  assume c: "\<not> is_space c" and "strip (c # s) = []"
  then have "dropWhile is_space (rev (c # s)) = []" by (simp add: strip_def)
  then show False using c by (simp add: dropWhile_eq_Nil_conv)
qed

lemma legacy_checked: "strip s \<noteq> [] \<Longrightarrow> check_fragment (legacy_fragment i s) = Inr (legacy_fragment i s)"
  using strip_nonblank[of 108] by (simp add: check_fragment_def legacy_fragment_def lit_def is_space_def)

lemma event_fragment_checked:
  "check_fragment (event_fragment e s n) = (if strip s = [] then Inl EmptyFragment else Inr (event_fragment e s n))"
  using strip_nonblank[of 101] by (simp add: check_fragment_def event_fragment_def lit_def is_space_def)

text \<open>The fragments that normalisation yields, by position.\<close>

fun normal_form :: "nat \<Rightarrow> (ustr + context_fragment) list \<Rightarrow> context_fragment list" where
  "normal_form i [] = []"
| "normal_form i (Inr f # fs) = f # normal_form (Suc i) fs"
| "normal_form i (Inl s # fs) = (if strip s \<noteq> [] then [legacy_fragment i s] else []) @ normal_form (Suc i) fs"

lemma normalize_loop_eq: "normalize_loop i fs acc = Inr (acc @ normal_form i fs)"
  by (induction i fs acc rule: normalize_loop.induct) (auto simp: legacy_checked)

lemma normal_form_mem:
  "f \<in> set (normal_form i fs) \<Longrightarrow> Inr f \<in> set fs \<or> (\<exists>j s. strip s \<noteq> [] \<and> f = legacy_fragment j s)"
  by (induction i fs rule: normal_form.induct) (auto split: if_splits)

lemma normal_form_given: "Inr f \<in> set fs \<Longrightarrow> f \<in> set (normal_form i fs)"
  by (induction i fs rule: normal_form.induct) auto

definition carries_event :: "agent_event \<Rightarrow> (ustr + context_fragment) list \<Rightarrow> bool" where
  "carries_event e fs \<longleftrightarrow> (\<exists>f. Inr f \<in> set fs \<and> from_event e f)"

lemma normal_form_carries: "list_ex (from_event e) (normal_form i fs) \<longleftrightarrow> carries_event e fs"
  unfolding carries_event_def list_ex_iff
  by (metis (no_types, lifting) context_fragment.select_convs(8) from_event_def legacy_fragment_def
      normal_form_given normal_form_mem option.distinct(1))

text \<open>The message of the event that no given fragment carries.\<close>

definition new_message :: "agent_event \<Rightarrow> cognitive_context \<Rightarrow> ustr" where
  "new_message e c =
     (if carries_event e (cc_context_fragments c) then [] else case ev_text e of None \<Rightarrow> [] | Some s \<Rightarrow> s)"

lemma normalize_fragments_eq:
  "normalize_fragments e c =
     (let fs = normal_form 0 (cc_context_fragments c); s = new_message e c in
      if s = [] then Inr fs
      else if strip s = [] then Inl EmptyFragment
      else Inr (fs @ [event_fragment e s (length fs)]))"
  by (auto simp: normalize_fragments_def normalize_loop_eq normal_form_carries event_fragment_checked
      new_message_def Let_def split: option.splits)

definition limits_ok :: "cognitive_context \<Rightarrow> bool" where
  "limits_ok c \<longleftrightarrow> 1 \<le> cc_context_recent_message_limit c \<and> 2 \<le> cc_context_summary_chunk_size c \<and>
     cc_context_summary_chunk_size c \<le> 64 \<and> 1 \<le> cc_context_summary_max_levels c \<and>
     cc_context_summary_max_levels c \<le> 8 \<and> 1 \<le> cc_context_summary_token_budget c \<and>
     1 \<le> cc_context_token_budget c"

lemma compress_succeeds:
  "(\<exists>r. compress digest redact fs en recent chunk levels budget = Inr r) \<longleftrightarrow>
     1 \<le> recent \<and> 2 \<le> chunk \<and> chunk \<le> 64 \<and> 1 \<le> levels \<and> levels \<le> 8 \<and> 1 \<le> budget"
  by (auto simp: compress_def Let_def case_prod_unfold)

lemma assemble_succeeds: "(\<exists>a. assemble fs budget r = Inr a) \<longleftrightarrow> 1 \<le> budget"
  by (auto simp: assemble_def case_prod_unfold)

lemma assemble_context_succeeds:
  "(\<exists>a. assemble_context digest redact c fs = Inr a) \<longleftrightarrow> limits_ok c"
proof
  assume "\<exists>a. assemble_context digest redact c fs = Inr a"
  then obtain a r where
    c: "compress digest redact fs (cc_context_summary_enabled c) (cc_context_recent_message_limit c)
      (cc_context_summary_chunk_size c) (cc_context_summary_max_levels c)
      (cc_context_summary_token_budget c) = Inr r"
    and a: "assemble (fst r) (cc_context_token_budget c) (Some (snd r)) = Inr a"
    by (auto simp: assemble_context_def bind_result_Inr)
  show "limits_ok c"
    using iffD1[OF compress_succeeds, OF exI, OF c] iffD1[OF assemble_succeeds, OF exI, OF a]
    by (simp add: limits_ok_def)
next
  assume ok: "limits_ok c"
  then obtain kept report where k: "compress digest redact fs (cc_context_summary_enabled c)
      (cc_context_recent_message_limit c) (cc_context_summary_chunk_size c)
      (cc_context_summary_max_levels c) (cc_context_summary_token_budget c) = Inr (kept, report)"
    using compress_succeeds unfolding limits_ok_def by (metis surj_pair)
  obtain a where "assemble kept (cc_context_token_budget c) (Some report) = Inr a"
    using assemble_succeeds ok unfolding limits_ok_def by metis
  with k show "\<exists>a. assemble_context digest redact c fs = Inr a" by (simp add: assemble_context_def)
qed

lemma update_affect_succeeds:
  assumes "decays fexp" and "\<And>a. cc_prior_affect c = Some a \<Longrightarrow> valid_affect a"
  shows "(\<exists>a. update_affect fexp e c p = Inr a) \<longleftrightarrow>
     (\<exists>t. ev_occurred_at e = Aware t) \<and> 1 \<le> cc_affect_half_life_seconds c"
    and "update_affect fexp e c p = Inr a \<Longrightarrow> valid_affect a \<and> af_updated_at a = ev_occurred_at e"
proof -
  define prior where "prior = (case cc_prior_affect c of
      None \<Rightarrow> neutral_affect (ev_occurred_at e) | Some prior \<Rightarrow> Inr prior)"
  have fails: "\<not> (\<exists>a. update_affect fexp e c p = Inr a)"
    if "\<not> ((\<exists>t. ev_occurred_at e = Aware t) \<and> 1 \<le> cc_affect_half_life_seconds c)"
    using that by (cases "ev_occurred_at e")
      (auto simp: update_affect_def result_laws decayed_def split: py_datetime.splits if_splits)
  have works: "\<exists>a. update_affect fexp e c p = Inr a \<and> valid_affect a \<and> af_updated_at a = ev_occurred_at e"
    if t: "ev_occurred_at e = Aware t" and h: "1 \<le> cc_affect_half_life_seconds c" for t
  proof -
    obtain a where a: "prior = Inr a" "valid_affect a"
      using assms(2) neutral_valid[of t] t
      by (cases "cc_prior_affect c") (auto simp: prior_def valid_affect_def)
    obtain a' where a': "decayed fexp a (Aware t) (cc_affect_half_life_seconds c) = Inr a'"
      using decayed_valid[OF assms(1) a(2) h] by metis
    obtain b where b: "stimulated a' (fmul (px_sentiment p) (rnd (22 / 100)))
        (fmul (fsub (px_urgency p) (rnd (2 / 10))) (rnd (12 / 100)))
        (if ev_event_type e = message_received then - rnd (15 / 1000) else 0) (Aware t) = Inr b"
      "valid_affect b" "af_updated_at b = Aware t" by (rule stimulated_valid)
    have "update_affect fexp e c p = Inr b"
      unfolding update_affect_def t by (simp only: a(1)[unfolded prior_def t] a' b bind_result_simps)
    with b t show ?thesis by simp
  qed
  show "(\<exists>a. update_affect fexp e c p = Inr a) \<longleftrightarrow>
     (\<exists>t. ev_occurred_at e = Aware t) \<and> 1 \<le> cc_affect_half_life_seconds c"
    using fails works by blast
  show "valid_affect a \<and> af_updated_at a = ev_occurred_at e" if "update_affect fexp e c p = Inr a"
    using that fails works by (metis sum.inject(2))
qed

lemma gate_succeeds: "(\<exists>v. gate_evaluate (deliberate e p) rules None = Inr v)"
  by (auto simp: gate_evaluate_def deliberate_def)

lemma run_Inr:
  "run fexp digest redact e c = Inr d \<longleftrightarrow>
     (\<exists>affect fragments assembly evaluation.
        update_affect fexp e c (perceive e) = Inr affect \<and> normalize_fragments e c = Inr fragments \<and>
        assemble_context digest redact c fragments = Inr assembly \<and>
        gate_evaluate (deliberate e (perceive e)) (cc_policy c) None = Inr evaluation \<and>
        d = decide c (perceive e) affect assembly (deliberate e (perceive e)) evaluation)"
  by (auto simp: run_def Let_def result_laws deliberate_checked)

end
