(* ===== verification/Context_Compression.thy ===== *)
theory Context_Compression
  imports Context_Properties
begin

text \<open>
  The hierarchical compressor accounts for every message: the sources of the summary nodes are
  the historical messages at every level, the summaries that are kept fit their budget, and the recent
  messages pass through unchanged. Also: the sample of highlights keeps its ends.
\<close>

section \<open>Chunks and nodes\<close>

lemma concat_chunks: "0 < n \<Longrightarrow> concat (chunks n xs) = xs"
proof (induction n xs rule: chunks.induct)
  case (1 n xs)
  then show ?case by (subst chunks.simps) simp
qed

definition node_sources :: "summary_node list \<Rightarrow> ustr list" where
  "node_sources nodes = concat (map sn_source_fragment_ids nodes)"

definition node_count_ok :: "summary_node \<Rightarrow> bool" where
  "node_count_ok n \<longleftrightarrow> cf_source_count (sn_fragment n) = int (length (sn_source_fragment_ids n)) \<and>
     cf_kind (sn_fragment n) = CONVERSATION_SUMMARY"

lemma make_node_simps [simp]:
  "sn_source_fragment_ids (make_node digest level ids hs ord) = ids"
  "node_count_ok (make_node digest level ids hs ord)"
  by (simp_all add: make_node_def node_count_ok_def Let_def)

lemma concat_map_concat: "concat (map f (concat xss)) = concat (map (\<lambda>xs. concat (map f xs)) xss)"
  by (induction xss) auto

lemma leaf_sources: "0 < n \<Longrightarrow> node_sources (leaf_nodes digest redact n fs) = map cf_fragment_id fs"
proof -
  assume n: "0 < n"
  have "node_sources (leaf_nodes digest redact n fs) = concat (map (map cf_fragment_id) (chunks n fs))"
    by (simp add: node_sources_def leaf_nodes_def comp_def)
  also have "\<dots> = map cf_fragment_id (concat (chunks n fs))" by (simp add: map_concat)
  finally show ?thesis by (simp add: concat_chunks[OF n])
qed

lemma parent_sources: "0 < n \<Longrightarrow> node_sources (parent_nodes digest level n nodes) = node_sources nodes"
proof -
  assume n: "0 < n"
  have "node_sources (parent_nodes digest level n nodes) =
      concat (map (\<lambda>g. concat (map sn_source_fragment_ids g)) (chunks n nodes))"
    by (simp add: node_sources_def parent_nodes_def comp_def)
  also have "\<dots> = node_sources (concat (chunks n nodes))"
    by (simp add: node_sources_def concat_map_concat)
  finally show ?thesis by (simp add: concat_chunks[OF n])
qed

lemma nodes_count_ok:
  "\<forall>n \<in> set (leaf_nodes digest redact k fs). node_count_ok n"
  "\<forall>n \<in> set (parent_nodes digest level k nodes). node_count_ok n"
  by (auto simp: leaf_nodes_def parent_nodes_def)

lemma climb_levels_spec:
  assumes "climb_levels digest n budget room level nodes = (level', nodes')" and "0 < n"
    and "\<forall>x \<in> set nodes. node_count_ok x"
  shows "node_sources nodes' = node_sources nodes \<and> (\<forall>x \<in> set nodes'. node_count_ok x) \<and>
    level \<le> level' \<and> level' \<le> level + int room"
  using assms
proof (induction room arbitrary: level nodes)
  case 0
  then show ?case by simp
next
  case (Suc room)
  show ?case
  proof (cases "1 < length nodes \<and> node_tokens nodes > budget")
    case True
    then have "climb_levels digest n budget room (level + 1) (parent_nodes digest (level + 1) n nodes) = (level', nodes')"
      using Suc.prems(1) by simp
    from Suc.IH[OF this Suc.prems(2) nodes_count_ok(2)] show ?thesis
      by (simp add: parent_sources[OF Suc.prems(2)])
  next
    case False
    then show ?thesis using Suc.prems by (auto split: if_splits)
  qed
qed

section \<open>The nodes that fit\<close>

lemma select_nodes_budget:
  "c \<le> budget \<Longrightarrow> c + node_tokens (select_nodes budget c ns) \<le> budget"
proof (induction ns arbitrary: c)
  case Nil
  then show ?case by (simp add: node_tokens_def)
next
  case (Cons n ns)
  show ?case
    using Cons.IH[of c] Cons.IH[of "c + tokens (sn_fragment n)"] Cons.prems
    by (auto simp: node_tokens_def)
qed

lemma select_nodes_subset: "set (select_nodes budget c ns) \<subseteq> set ns \<and> length (select_nodes budget c ns) \<le> length ns"
proof (induction ns arbitrary: c)
  case (Cons n ns)
  from Cons.IH[of c] Cons.IH[of "c + tokens (sn_fragment n)"] show ?case by auto
qed simp

definition source_total :: "summary_node list \<Rightarrow> int" where
  "source_total ns = sum_list (map (cf_source_count \<circ> sn_fragment) ns)"

lemma source_total_node_sources:
  "\<forall>x \<in> set ns. node_count_ok x \<Longrightarrow> source_total ns = int (length (node_sources ns))"
  by (induction ns) (auto simp: source_total_def node_sources_def node_count_ok_def)

lemma select_source_total:
  "\<forall>x \<in> set ns. node_count_ok x \<Longrightarrow> source_total (select_nodes budget c ns) \<le> source_total ns"
proof (induction ns arbitrary: c)
  case (Cons n ns)
  have "0 \<le> cf_source_count (sn_fragment n)" using Cons.prems by (simp add: node_count_ok_def)
  then show ?case
    using Cons.IH[of c] Cons.IH[of "c + tokens (sn_fragment n)"] Cons.prems
    by (auto simp: source_total_def)
qed (simp add: source_total_def)

lemma select_all: "length (select_nodes budget c ns) = length ns \<Longrightarrow> select_nodes budget c ns = ns"
proof (induction ns arbitrary: c)
  case (Cons n ns)
  have "length (select_nodes budget c ns) \<le> length ns" using select_nodes_subset by blast
  then show ?case using Cons.IH[of "c + tokens (sn_fragment n)"] Cons.prems by (auto split: if_splits)
qed simp

lemma node_tokens_rev [simp]: "node_tokens (rev ns) = node_tokens ns"
  by (simp add: node_tokens_def rev_map[symmetric])

lemma source_total_rev [simp]: "source_total (rev ns) = source_total ns"
  by (simp add: source_total_def rev_map[symmetric])

lemma fit_nodes_spec:
  assumes "fit_nodes nodes budget = (sel, omitted)" and "1 \<le> budget" and "\<forall>x \<in> set nodes. node_count_ok x"
  shows "node_tokens sel \<le> budget \<and> 0 \<le> omitted \<and> int (length sel) + omitted = int (length nodes) \<and>
    source_total sel \<le> source_total nodes \<and> (omitted = 0 \<longrightarrow> source_total sel = source_total nodes) \<and>
    (\<forall>x \<in> set sel. cf_kind (sn_fragment x) = CONVERSATION_SUMMARY)"
proof -
  let ?s = "rev (select_nodes budget 0 (rev nodes))"
  have sub: "set ?s \<subseteq> set nodes" "length ?s \<le> length nodes"
    using select_nodes_subset[of budget 0 "rev nodes"] by auto
  have tot: "source_total ?s \<le> source_total nodes"
    using select_source_total[of "rev nodes" budget 0] assms(3) by simp
  consider (sel) "?s \<noteq> [] \<or> nodes = []" | (none) "?s = []" "nodes \<noteq> []" by blast
  then show ?thesis
  proof cases
    case sel
    then have r: "sel = ?s" "omitted = int (length nodes) - int (length ?s)"
      using assms(1) by (auto simp: fit_nodes_def Let_def)
    have "source_total ?s = source_total nodes" if "omitted = 0"
    proof -
      have "length (select_nodes budget 0 (rev nodes)) = length (rev nodes)" using that r by simp
      then show ?thesis by (simp add: select_all)
    qed
    then show ?thesis
      using r sub tot select_nodes_budget[of 0 budget "rev nodes"] assms(2,3)
      by (auto simp: node_count_ok_def)
  next
    case none
    let ?l = "last nodes"
    let ?c = "truncate_to_token_budget (cf_content (sn_fragment ?l)) budget"
    have l: "?l \<in> set nodes" using none(2) by simp
    show ?thesis
    proof (cases "?c = []")
      case True
      then have r: "sel = []" "omitted = int (length nodes)" using assms(1) none by (simp_all add: fit_nodes_def Let_def)
      have "0 \<le> source_total nodes" using source_total_node_sources[OF assms(3)] by simp
      then show ?thesis using r none(2) assms(2) by (simp add: node_tokens_def source_total_def)
    next
      case False
      let ?n = "?l\<lparr>sn_fragment := (sn_fragment ?l)\<lparr>cf_content := ?c, cf_token_estimate := Some (estimate_tokens ?c)\<rparr>\<rparr>"
      have r: "sel = [?n]" "omitted = int (length nodes) - 1"
        using assms(1) none False by (simp_all add: fit_nodes_def Let_def)
      have tok: "node_tokens sel \<le> budget"
        using truncate_fits[OF False] False by (simp add: r node_tokens_def)
      have one: "source_total sel = source_total [?l]" by (simp add: r source_total_def)
      obtain pre where nodes: "nodes = pre @ [?l]" using none(2) by (metis append_butlast_last_id)
      have "0 \<le> source_total pre"
        using source_total_node_sources[of pre] assms(3) nodes by (metis Un_iff of_nat_0_le_iff set_append)
      moreover have "source_total nodes = source_total pre + source_total [?l]"
        by (subst nodes) (simp add: source_total_def)
      moreover have "pre = []" if "omitted = 0" using that r nodes by (metis append_self_conv2 int_one_le_iff_zero_less
            butlast_snoc diff_eq_eq length_butlast length_0_conv add_0 of_nat_1_eq_iff One_nat_def diff_Suc_1)
      ultimately show ?thesis
        using tok one r none(2) l assms(3) by (auto simp: source_total_def node_count_ok_def Suc_le_eq)
    qed
  qed
qed

section \<open>Compression\<close>

lemma compress_shape:
  assumes "compress digest redact fragments True recent chunk levels budget = Inr (out, report)"
    and "recent < int (length (filter is_message fragments))"
  obtains level nodes sel omitted where
    "climb_levels digest (nat chunk) budget (nat (levels - 1)) 1 (leaf_nodes digest redact (nat chunk)
       (take (length (filter is_message fragments) - nat recent) (filter is_message fragments))) = (level, nodes)"
    "fit_nodes nodes budget = (sel, omitted)"
    "out = sorted_by (\<lambda>f. (cf_ordinal f, cf_fragment_id f))
       (filter (\<lambda>f. \<not> is_message f \<or> cf_fragment_id f \<in> set (map cf_fragment_id
          (drop (length (filter is_message fragments) - nat recent) (filter is_message fragments)))) fragments @
        map sn_fragment sel)"
    "1 \<le> recent" "2 \<le> chunk" "1 \<le> levels" "1 \<le> budget" "chunk \<le> 64" "levels \<le> 8"
proof -
  let ?m = "filter is_message fragments"
  let ?cut = "length ?m - nat recent"
  let ?leaves = "leaf_nodes digest redact (nat chunk) (take ?cut ?m)"
  have args: "1 \<le> recent" "2 \<le> chunk" "1 \<le> levels" "1 \<le> budget" "chunk \<le> 64" "levels \<le> 8"
    using assms by (auto simp: compress_def Let_def unchanged_report_def split: if_splits)
  obtain level nodes where climb: "climb_levels digest (nat chunk) budget (nat (levels - 1)) 1 ?leaves = (level, nodes)"
    by (cases "climb_levels digest (nat chunk) budget (nat (levels - 1)) 1 ?leaves")
  obtain sel omitted where fit: "fit_nodes nodes budget = (sel, omitted)" by (cases "fit_nodes nodes budget")
  let ?pass = "filter (\<lambda>f. \<not> is_message f \<or> cf_fragment_id f \<in> set (map cf_fragment_id (drop ?cut ?m))) fragments"
  have out: "out = sorted_by (\<lambda>f. (cf_ordinal f, cf_fragment_id f)) (?pass @ map sn_fragment sel)"
    using assms args by (auto simp: compress_def Let_def climb fit not_le not_less)
  from that[OF climb fit out args] show thesis .
qed

text \<open>
  C15: Compression accounts for every message: the source messages are the recent ones and the
  summarised ones; all recent messages and all other fragments are kept unchanged and the result
  adds only conversation summaries; the summaries stay within their token budget and cover no more messages
  than were summarised, all of them when no summary was omitted; and the levels stay within the limit.
\<close>

theorem compression_accounts_for_messages:
  assumes "compress digest redact fragments True recent chunk levels budget = Inr (out, report)"
    and "cr_applied report"
  shows "cr_source_message_count report = cr_recent_message_count report + cr_summarized_message_count report \<and>
    int (cr_recent_message_count report) = recent \<and>
    cr_estimated_summary_tokens report \<le> budget \<and>
    1 \<le> cr_summary_levels report \<and> cr_summary_levels report \<le> levels \<and>
    cr_summary_covered_message_count report \<le> int (cr_summarized_message_count report) \<and>
    (cr_omitted_summary_fragment_count report = 0 \<longrightarrow>
      cr_summary_covered_message_count report = int (cr_summarized_message_count report)) \<and>
    (\<forall>f \<in> set fragments. \<not> is_message f \<longrightarrow> f \<in> set out) \<and>
    set (drop (length (filter is_message fragments) - nat recent) (filter is_message fragments)) \<subseteq> set out \<and>
    (\<forall>f \<in> set out. f \<in> set fragments \<or> cf_kind f = CONVERSATION_SUMMARY)"
proof -
  let ?m = "filter is_message fragments"
  let ?cut = "length ?m - nat recent"
  let ?leaves = "leaf_nodes digest redact (nat chunk) (take ?cut ?m)"
  have more: "recent < int (length ?m)"
    using assms by (auto simp: compress_def Let_def unchanged_report_def split: if_splits)
  obtain level nodes sel omitted where
    climb: "climb_levels digest (nat chunk) budget (nat (levels - 1)) 1 ?leaves = (level, nodes)"
    and fit: "fit_nodes nodes budget = (sel, omitted)"
    and out: "out = sorted_by (\<lambda>f. (cf_ordinal f, cf_fragment_id f))
      (filter (\<lambda>f. \<not> is_message f \<or> cf_fragment_id f \<in> set (map cf_fragment_id (drop ?cut ?m))) fragments @
       map sn_fragment sel)"
    and args: "1 \<le> recent" "2 \<le> chunk" "1 \<le> levels" "1 \<le> budget" "chunk \<le> 64" "levels \<le> 8"
    by (rule compress_shape[OF assms(1) more])
  let ?pass = "filter (\<lambda>f. \<not> is_message f \<or> cf_fragment_id f \<in> set (map cf_fragment_id (drop ?cut ?m))) fragments"
  have rep: "cr_source_message_count report = length ?m" "cr_recent_message_count report = length (drop ?cut ?m)"
      "cr_summarized_message_count report = length (take ?cut ?m)"
      "cr_summary_covered_message_count report = source_total sel" "cr_summary_levels report = level"
      "cr_estimated_summary_tokens report = node_tokens sel" "cr_omitted_summary_fragment_count report = omitted"
    using assms(1) args more by (auto simp: compress_def Let_def climb fit source_total_def not_le not_less)
  have spec: "node_sources nodes = map cf_fragment_id (take ?cut ?m)" "\<forall>x \<in> set nodes. node_count_ok x"
    "1 \<le> level" "level \<le> levels"
    using climb_levels_spec[OF climb _ nodes_count_ok(1)] leaf_sources[of "nat chunk"] args by auto
  have tot: "source_total nodes = int (length (take ?cut ?m))"
    using source_total_node_sources[OF spec(2)] by (simp add: spec(1))
  note f = fit_nodes_spec[OF fit args(4) spec(2)]
  have "set (drop ?cut ?m) \<subseteq> set ?pass"
    by (auto dest: in_set_dropD)
  then have keep: "set (drop ?cut ?m) \<subseteq> set out" by (auto simp: out)
  show ?thesis
    unfolding rep using f tot keep spec args more by (auto simp: out)
qed

theorem compression_accounts_for_messages_witness:
  "\<exists>out report. compress (\<lambda>_. []) (\<lambda>s. s) (map (\<lambda>n. sample_fragment n False) [0, 1, 2]) True 1 2 1 100 = Inr (out, report) \<and>
     cr_source_message_count report = cr_recent_message_count report + cr_summarized_message_count report"
proof -
  obtain out report where
    r: "compress (\<lambda>_. []) (\<lambda>s. s) (map (\<lambda>n. sample_fragment n False) [0, 1, 2]) True 1 2 1 100 = Inr (out, report)"
    and a: "cr_applied report"
  proof -
    have "\<exists>out report. compress (\<lambda>_. []) (\<lambda>s. s) (map (\<lambda>n. sample_fragment n False) [0, 1, 2]) True 1 2 1 100 =
        Inr (out, report) \<and> cr_applied report"
      by (simp add: compress_def Let_def is_message_def sample_fragment_def case_prod_unfold)
    then show ?thesis using that by blast
  qed
  from compression_accounts_for_messages[OF r a] r show ?thesis by blast
qed

section \<open>Sampling highlights\<close>

definition sample_index :: "nat \<Rightarrow> nat \<Rightarrow> nat \<Rightarrow> nat" where
  "sample_index n limit index = nat (round_even (rnd (of_nat (index * (n - 1)) / of_nat (limit - 1))))"

lemma sample_index_mono: "i \<le> j \<Longrightarrow> sample_index n limit i \<le> sample_index n limit j"
  unfolding sample_index_def
  by (intro nat_mono round_even_mono rnd_mono divide_right_mono of_nat_mono mult_le_mono1) simp_all

lemma sample_index_0: "sample_index n limit 0 = 0"
  using round_even_int[of 0] by (simp add: sample_index_def)

lemma sample_index_last: "2 \<le> limit \<Longrightarrow> n \<le> 2 ^ 53 \<Longrightarrow> sample_index n limit (limit - 1) = n - 1"
proof -
  assume a: "2 \<le> limit" "n \<le> 2 ^ 53"
  have "of_nat ((limit - 1) * (n - 1)) / of_nat (limit - 1) = (of_nat (n - 1) :: rat)"
    using a(1) by simp
  moreover have "rnd (of_nat (n - 1)) = of_nat (n - 1)"
  proof (rule rnd_of_nat)
    show "n - 1 < 2 ^ 53"
    proof (cases "n = 0")
      case False
      then have "n - 1 < n" by simp
      then show ?thesis using a(2) by (rule less_le_trans)
    qed simp
  qed
  moreover have "round_even (of_nat (n - 1)) = int (n - 1)"
    using round_even_int[of "int (n - 1)"] by simp
  ultimately show ?thesis by (simp only: sample_index_def nat_int)
qed

lemma evenly_sample_eq:
  "limit < length xs \<Longrightarrow> limit \<noteq> 1 \<Longrightarrow>
     evenly_sample xs limit = map (\<lambda>i. xs ! sample_index (length xs) limit i) [0..<limit]"
  by (simp add: evenly_sample_def sample_index_def)

text \<open>
  A sample of more highlights than the limit has exactly \<open>limit\<close> of them, in their order, and
  it keeps the first and the last.
\<close>

lemma sample_keeps_ends:
  assumes "2 \<le> limit" and "limit < length xs" and "length xs \<le> 2 ^ 53"
  shows "length (evenly_sample xs limit) = limit \<and> hd (evenly_sample xs limit) = hd xs \<and>
    last (evenly_sample xs limit) = last xs \<and>
    (\<exists>idx. sorted idx \<and> (\<forall>i \<in> set idx. i < length xs) \<and>
       evenly_sample xs limit = map (\<lambda>i. xs ! i) idx)"
proof -
  let ?n = "length xs"
  let ?idx = "map (sample_index ?n limit) [0..<limit]"
  have eq: "evenly_sample xs limit = map (\<lambda>i. xs ! i) ?idx"
    using evenly_sample_eq[of limit xs] assms by simp
  have nonzero: "limit \<noteq> 0" "[0..<limit] \<noteq> []" using assms(1) by auto
  have below: "sample_index ?n limit i \<le> ?n - 1" if "i \<le> limit - 1" for i
    using sample_index_mono[OF that, of ?n limit] sample_index_last[OF assms(1,3)] by simp
  have "sample_index ?n limit i < ?n" if "i < limit" for i
  proof (rule le_less_trans)
    show "sample_index ?n limit i \<le> ?n - 1" by (rule below) (use that in simp)
    show "?n - 1 < ?n" using assms(2) by simp
  qed
  then have "\<forall>i \<in> set ?idx. i < ?n" by simp
  moreover have "sorted ?idx"
    using sample_index_mono by (auto simp: sorted_iff_nth_mono)
  moreover have "hd (evenly_sample xs limit) = hd xs"
    using assms(2) nonzero by (simp add: eq hd_map sample_index_0 hd_conv_nth[of xs] del: map_map) (cases xs; simp)
  moreover have "last (evenly_sample xs limit) = last xs"
  proof -
    have "last (evenly_sample xs limit) = xs ! sample_index ?n limit (last [0..<limit])"
      using last_map[OF nonzero(2), of "\<lambda>i. xs ! sample_index ?n limit i"]
      by (simp only: eq map_map comp_def)
    also have "last [0..<limit] = limit - 1" using nonzero(1) by simp
    also have "xs ! sample_index ?n limit (limit - 1) = last xs"
      using assms(2) by (subst sample_index_last[OF assms(1,3)]) (cases xs; simp add: last_conv_nth)
    finally show ?thesis .
  qed
  moreover have "length (evenly_sample xs limit) = limit" by (simp add: eq)
  ultimately show ?thesis using eq by (intro conjI exI[of _ ?idx])
qed

lemma sample_keeps_ends_instance: "last (evenly_sample [0, 1, 2, 3, 4::nat] 3) = last [0, 1, 2, 3, 4]"
  using sample_keeps_ends[of 3 "[0, 1, 2, 3, 4::nat]"] by simp

end
