(* ===== verification/Cognitive_Context.thy ===== *)
theory Cognitive_Context
  imports Cognitive_Properties Context_Compression
begin

text \<open>
  The composition of normalisation, compression and assembly in a cognitive run: the context fits
  its budget, and the message that triggered the run is in it. Compression never drops the newest
  message, and assembly ranks a required fragment of the highest priority first.
\<close>

section \<open>Summaries are optional\<close>

definition summary_fragment :: "context_fragment \<Rightarrow> bool" where
  "summary_fragment f \<longleftrightarrow> \<not> cf_required f \<and> 0 \<le> tokens f"

lemma make_node_summary: "summary_fragment (sn_fragment (make_node digest level ids hs ord))"
  by (simp add: summary_fragment_def make_node_def Let_def tokens_def)

lemma nodes_summary:
  "\<forall>n \<in> set (leaf_nodes digest redact k fs). summary_fragment (sn_fragment n)"
  "\<forall>n \<in> set (parent_nodes digest level k nodes). summary_fragment (sn_fragment n)"
  by (auto simp: leaf_nodes_def parent_nodes_def make_node_summary)

lemma climb_levels_summary:
  "\<forall>n \<in> set nodes. summary_fragment (sn_fragment n) \<Longrightarrow>
     \<forall>n \<in> set (snd (climb_levels digest k budget room level nodes)). summary_fragment (sn_fragment n)"
proof (induction room arbitrary: level nodes)
  case (Suc room)
  then show ?case using Suc.IH[OF nodes_summary(2)] by simp
qed simp

lemma fit_nodes_summary:
  assumes "\<forall>n \<in> set nodes. summary_fragment (sn_fragment n)"
  shows "\<forall>n \<in> set (fst (fit_nodes nodes budget)). summary_fragment (sn_fragment n)"
proof -
  have "set (select_nodes budget 0 (rev nodes)) \<subseteq> set nodes"
    using select_nodes_subset[of budget 0 "rev nodes"] by simp
  moreover have "nodes \<noteq> [] \<Longrightarrow> last nodes \<in> set nodes" by simp
  ultimately show ?thesis
    using assms by (auto simp: fit_nodes_def Let_def summary_fragment_def)
qed

lemma compress_keeps:
  assumes "compress digest redact (fs @ [m]) en recent chunk levels budget = Inr (kept, report)"
    and "is_message m"
  shows "m \<in> set kept" and "\<forall>f \<in> set kept. f \<in> set (fs @ [m]) \<or> summary_fragment f"
proof -
  let ?fs = "fs @ [m]"
  let ?msgs = "filter is_message ?fs"
  let ?cut = "length ?msgs - nat recent"
  have "m \<in> set kept \<and> (\<forall>f \<in> set kept. f \<in> set ?fs \<or> summary_fragment f)"
  proof (cases "en \<and> recent < int (length ?msgs)")
    case False
    then have "kept = ?fs"
      using assms(1) by (auto simp: compress_def Let_def simp del: filter_append split: if_splits)
    then show ?thesis by simp
  next
    case True
    then have c: "compress digest redact ?fs True recent chunk levels budget = Inr (kept, report)"
      using assms(1) by simp
    obtain level nodes sel omitted where
      climb: "climb_levels digest (nat chunk) budget (nat (levels - 1)) 1
        (leaf_nodes digest redact (nat chunk) (take ?cut ?msgs)) = (level, nodes)"
      and fit: "fit_nodes nodes budget = (sel, omitted)"
      and kept: "kept = sorted_by (\<lambda>f. (cf_ordinal f, cf_fragment_id f))
        (filter (\<lambda>f. \<not> is_message f \<or> cf_fragment_id f \<in> set (map cf_fragment_id (drop ?cut ?msgs))) ?fs @
         map sn_fragment sel)"
      and recent: "1 \<le> recent"
      by (rule compress_shape[OF c conjunct2[OF True]], rule that)
    have "\<forall>n \<in> set nodes. summary_fragment (sn_fragment n)"
      using climb_levels_summary[OF nodes_summary(1)] climb by (metis snd_conv)
    then have sel: "\<forall>n \<in> set sel. summary_fragment (sn_fragment n)"
      using fit_nodes_summary[of nodes budget] fit by simp
    have "?cut < length ?msgs" using recent True assms(2) by simp
    then have "last ?msgs \<in> set (drop ?cut ?msgs)" by (metis drop_eq_Nil last_drop last_in_set not_le)
    then have "m \<in> set (drop ?cut ?msgs)" by (simp add: assms(2))
    then have "m \<in> set kept" by (auto simp: kept)
    moreover have "\<forall>f \<in> set kept. f \<in> set ?fs \<or> summary_fragment f"
      using sel by (auto simp: kept simp del: filter_append)
    ultimately show ?thesis by simp
  qed
  then show "m \<in> set kept" and "\<forall>f \<in> set kept. f \<in> set ?fs \<or> summary_fragment f" by auto
qed

section \<open>The first ranked fragment\<close>

lemma sorted_desc_hd:
  assumes "x \<in> set fs" and "\<And>y. y \<in> set fs \<Longrightarrow> y \<noteq> x \<Longrightarrow> key y < key x"
  obtains rest where "sorted_by_desc key fs = x # rest"
proof -
  obtain y rest where r: "sorted_by_desc key fs = y # rest"
    using assms(1) set_sorted_by_desc[of key fs] by (cases "sorted_by_desc key fs") auto
  have "x \<in> set (y # rest)" using set_sorted_by_desc[of key fs] assms(1) r by simp
  moreover have "sorted_wrt (\<ge>) (map key (y # rest))" using sorted_by_desc_sorted[of key fs] r by simp
  ultimately have "key x \<le> key y" by auto
  moreover have "y \<in> set fs" using set_sorted_by_desc[of key fs] r by (metis list.set_intros(1))
  ultimately have "y = x" using assms(2)[of y] by (meson not_le)
  then show thesis using that r by simp
qed

lemma assemble_loop_keeps:
  "x \<in> set sel \<Longrightarrow> x \<in> set (fst (assemble_loop budget fs sel om tr c))"
  by (induction fs arbitrary: sel om tr c) (auto simp: Let_def)

text \<open>A budget of 15 tokens has room for the truncation marker and a character at each end.\<close>

lemma marker_counts: "ascii_count truncation_marker = 4" "wide_count truncation_marker = 12"
  by (simp_all add: truncation_marker_def ascii_count_def wide_count_def)

lemma marker_tokens: "estimate_tokens truncation_marker = 13"
  by (simp add: estimate_counts marker_counts)

lemma single_counts: "ascii_count [a] + wide_count [a] = 1"
  using counts_length[of "[a]"] by simp

lemma truncated_1: "truncated_at (a # t) 1 = [a] @ truncation_marker @ [last (a # t)]"
proof -
  have "drop (length t) (a # t) = [last (a # t)]"
    by (metis append_butlast_last_id append_eq_conv_conj diff_Suc_1 length_Cons length_butlast list.distinct(1))
  then show ?thesis by (simp add: truncated_at_def Let_def)
qed

lemma truncated_at_nonempty: "truncated_at s k \<noteq> []"
  by (simp add: truncated_at_def Let_def truncation_marker_def)

lemma truncation_possible:
  assumes "s \<noteq> []" and "15 \<le> budget"
  shows "truncate_to_token_budget s budget \<noteq> []"
proof -
  obtain a t where s: "s = a # t" using assms(1) by (cases s) auto
  have one: "truncated_at s 1 = [a] @ truncation_marker @ [last s]" by (simp only: s truncated_1)
  have "estimate_tokens (truncated_at s 1) \<le> 15"
    using single_counts[of a] single_counts[of "last s"]
    unfolding one estimate_counts counts_append marker_counts
    by (cases "ascii_count [a]"; cases "ascii_count [last s]") simp_all
  then have fits1: "fits s budget 1" using assms(2) by (simp add: fits_def)
  have "1 \<le> int (length s)" using s by simp
  then have "\<not> (\<forall>k. 1 \<le> k \<and> k \<le> int (length s) \<longrightarrow> \<not> fits s budget k)" using fits1 by auto
  then obtain k where "truncate_loop s budget 1 (int (length s)) [] = truncated_at s k"
    using truncate_loop_spec[of 1 "int (length s)" s budget "[]"] by blast
  then show ?thesis
    using assms(2) truncated_at_nonempty[of s k] by (simp add: truncate_to_token_budget_def marker_tokens)
qed

definition rank_key :: "context_fragment \<Rightarrow> bool \<times> int \<times> int" where
  "rank_key f = (cf_required f, cf_priority f, cf_ordinal f)"

text \<open>A required fragment that outranks all others is selected, whole or cut.\<close>

lemma assemble_selects_first:
  assumes "assemble fs budget report = Inr a" and "x \<in> set fs" and "cf_required x" and "cf_content x \<noteq> []"
    and "\<And>y. y \<in> set fs \<Longrightarrow> y \<noteq> x \<Longrightarrow> rank_key y < rank_key x" and "15 \<le> budget"
  shows "\<exists>g \<in> set (as_fragments a). g = x \<or>
    g = x\<lparr>cf_content := truncate_to_token_budget (cf_content x) budget,
       cf_token_estimate := Some (estimate_tokens (truncate_to_token_budget (cf_content x) budget))\<rparr>"
proof -
  let ?cut = "truncate_to_token_budget (cf_content x) budget"
  let ?x = "x\<lparr>cf_content := ?cut, cf_token_estimate := Some (estimate_tokens ?cut)\<rparr>"
  obtain rest where r: "sorted_by_desc rank_key fs = x # rest"
    using sorted_desc_hd[OF assms(2), of rank_key] assms(5) by blast
  then have ranked: "sorted_by_desc (\<lambda>f. (cf_required f, cf_priority f, cf_ordinal f)) fs = x # rest"
    by (simp add: rank_key_def[abs_def])
  have ne: "?cut \<noteq> []" by (rule truncation_possible[OF assms(4,6)])
  define out where "out = assemble_loop budget (x # rest) [] [] [] 0"
  have "out = assemble_loop budget rest [x] [] [] (tokens x) \<or>
      out = assemble_loop budget rest [?x] [] [cf_fragment_id x] (tokens ?x)"
    using ne assms(3,6) by (simp add: out_def Let_def)
  then have "x \<in> set (fst out) \<or> ?x \<in> set (fst out)"
    using assemble_loop_keeps[of x "[x]"] assemble_loop_keeps[of ?x "[?x]"] by auto
  moreover have "as_fragments a = sorted_by cf_ordinal (fst out)"
    using assms(1,6) by (auto simp: assemble_def ranked out_def[symmetric] case_prod_unfold simp del: assemble_loop.simps)
  ultimately show ?thesis by auto
qed

lemma assemble_budget:
  assumes "assemble fs budget report = Inr a" and "\<forall>f \<in> set fs. 0 \<le> tokens f"
  shows "as_estimated_tokens a \<le> budget \<and> as_estimated_tokens a = sum_list (map tokens (as_fragments a))"
proof -
  let ?ranked = "sorted_by_desc (\<lambda>f. (cf_required f, cf_priority f, cf_ordinal f)) fs"
  obtain sel om tr c where loop: "assemble_loop budget ?ranked [] [] [] 0 = (sel, om, tr, c)"
    by (metis prod_cases4)
  have b: "1 \<le> budget" using assms(1) by (auto simp: assemble_def split: if_splits)
  have a: "as_estimated_tokens a = c" "as_fragments a = sorted_by cf_ordinal sel"
    using assms(1) b by (auto simp: assemble_def loop)
  have "\<forall>f \<in> set ?ranked. 0 \<le> tokens f" using assms(2) by simp
  from assemble_loop_spec[OF loop _ this] b show ?thesis by (simp add: a sorted_by_sum)
qed

section \<open>The context of a run\<close>

definition given_ok :: "(ustr + context_fragment) \<Rightarrow> bool" where
  "given_ok x = (case x of Inl _ \<Rightarrow> True | Inr f \<Rightarrow> valid_fragment f \<and> (cf_required f \<longrightarrow> cf_priority f < 100))"

lemma normal_form_ok:
  assumes "list_all given_ok fs" and "f \<in> set (normal_form i fs)"
  shows "0 \<le> tokens f \<and> (cf_required f \<longrightarrow> cf_priority f < 100)"
  using normal_form_mem[OF assms(2)]
proof
  assume "Inr f \<in> set fs"
  then have "given_ok (Inr f)" using assms(1) by (auto simp: list_all_iff)
  then show ?thesis using valid_tokens[of f] by (simp add: given_ok_def)
qed (auto simp: legacy_fragment_def tokens_def)

text \<open>
  A run's context never exceeds its token budget, and the message that triggered the run is in
  it: whatever the history, the summaries and the other fragments are, the message that no given
  fragment carries is selected, whole or cut to the budget, as long as the budget has room for the
  truncation marker and no given fragment is required at the highest priority.
\<close>

lemma triggering_message_reaches_context:
  assumes "run fexp digest redact e c = Inr d" and "list_all given_ok (cc_context_fragments c)"
    and "new_message e c \<noteq> []" and "15 \<le> cc_context_token_budget c"
  shows "\<exists>a. ad_context d = Some a \<and> as_estimated_tokens a \<le> cc_context_token_budget c \<and>
    as_estimated_tokens a = sum_list (map tokens (as_fragments a)) \<and>
    (\<exists>f \<in> set (as_fragments a). from_event e f \<and>
      (cf_content f = new_message e c \<or>
       cf_content f = truncate_to_token_budget (new_message e c) (cc_context_token_budget c)))"
proof -
  let ?fs = "normal_form 0 (cc_context_fragments c)"
  let ?m = "event_fragment e (new_message e c) (length ?fs)"
  obtain affect fragments a evaluation where
    n: "normalize_fragments e c = Inr fragments"
    and a: "assemble_context digest redact c fragments = Inr a"
    and d: "d = decide c (perceive e) affect a (deliberate e (perceive e)) evaluation"
    using assms(1) unfolding run_Inr by blast
  have fragments: "fragments = ?fs @ [?m]"
    using n assms(3) by (simp add: normalize_fragments_eq Let_def split: if_splits)
  obtain kept report where
    k: "compress digest redact (?fs @ [?m]) (cc_context_summary_enabled c) (cc_context_recent_message_limit c)
      (cc_context_summary_chunk_size c) (cc_context_summary_max_levels c)
      (cc_context_summary_token_budget c) = Inr (kept, report)"
    and asm: "assemble kept (cc_context_token_budget c) (Some report) = Inr a"
    using a unfolding assemble_context_def bind_result_Inr fragments by auto
  have "is_message ?m" by (simp add: is_message_def event_fragment_def)
  note keeps = compress_keeps[OF k this]
  have m: "cf_required ?m" "cf_priority ?m = 100" "cf_content ?m = new_message e c" "0 \<le> tokens ?m" "from_event e ?m"
    by (simp_all add: event_fragment_def tokens_def from_event_def)
  have others: "0 \<le> tokens y \<and> (y \<noteq> ?m \<longrightarrow> cf_required y \<longrightarrow> cf_priority y < 100)" if "y \<in> set kept" for y
  proof -
    have "y \<in> set ?fs \<or> y = ?m \<or> summary_fragment y" using keeps(2) that by auto
    then show ?thesis
      using normal_form_ok[OF assms(2), of y 0] m(4) by (auto simp: summary_fragment_def)
  qed
  then have lower: "rank_key y < rank_key ?m" if "y \<in> set kept" "y \<noteq> ?m" for y
    using that m(1,2) by (auto simp: rank_key_def)
  have "cf_content ?m \<noteq> []" using m(3) assms(3) by simp
  then have "\<exists>g \<in> set (as_fragments a). g = ?m \<or>
      g = ?m\<lparr>cf_content := truncate_to_token_budget (cf_content ?m) (cc_context_token_budget c),
        cf_token_estimate := Some (estimate_tokens (truncate_to_token_budget (cf_content ?m) (cc_context_token_budget c)))\<rparr>"
    by (rule assemble_selects_first[OF asm keeps(1) m(1) _ lower assms(4)])
  then obtain g where "g \<in> set (as_fragments a)"
    "g = ?m \<or> g = ?m\<lparr>cf_content := truncate_to_token_budget (cf_content ?m) (cc_context_token_budget c),
        cf_token_estimate := Some (estimate_tokens (truncate_to_token_budget (cf_content ?m) (cc_context_token_budget c)))\<rparr>"
    by blast
  then have g: "g \<in> set (as_fragments a)" "cf_source_id g = cf_source_id ?m"
    "cf_content g = new_message e c \<or>
     cf_content g = truncate_to_token_budget (new_message e c) (cc_context_token_budget c)"
    using m(3) by auto
  then have "\<exists>f \<in> set (as_fragments a). from_event e f \<and>
      (cf_content f = new_message e c \<or>
       cf_content f = truncate_to_token_budget (new_message e c) (cc_context_token_budget c))"
    using m(5) by (intro bexI[of _ g]) (simp_all add: from_event_def)
  moreover have "ad_context d = Some a" by (simp add: d decide_def Let_def)
  ultimately show ?thesis using assemble_budget[OF asm] others by blast
qed

section \<open>Decisions and failures\<close>

text \<open>
  C16: What a run decides is a function of the event's type and text and of one policy switch: it
  waits on anything but a message with content, respects a request for silence, never selects an external tool
  (a high-risk tool needs an approval that a run does not carry), asks back on an ambiguous call for
  help and replies otherwise. A request for silence never produces text.
\<close>

theorem decision_follows_event:
  assumes "run fexp digest redact e c = Inr d"
  shows "ad_action d = expected_action e (cc_policy c) \<and> ad_action d \<noteq> TOOL \<and>
    (mentions silence_phrases (event_text e) \<longrightarrow> \<not> produces_text (ad_action d)) \<and>
    (mentions external_action_phrases (event_text e) \<and> produces_text (ad_action d) \<longrightarrow>
       dict_get (ad_parameters d) (lit ''mode'') = Some (lit ''boundary''))"
proof -
  obtain evaluation where
    g: "gate_evaluate (deliberate e (perceive e)) (cc_policy c) None = Inr evaluation"
    and d: "ad_action d = ac_action (pe_selected evaluation)"
      "\<And>k. k \<noteq> lit ''tone'' \<Longrightarrow> k \<noteq> lit ''distance'' \<Longrightarrow>
        dict_get (ad_parameters d) k = dict_get (ac_parameters (pe_selected evaluation)) k"
    using assms unfolding run_Inr by (auto simp: decide_def Let_def)
  have action: "ad_action d = expected_action e (cc_policy c)" using gate_decides[OF g] d(1) by simp
  moreover have "expected_action e (cc_policy c) \<noteq> TOOL" by (simp add: expected_action_def)
  moreover have "mentions silence_phrases (event_text e) \<longrightarrow> \<not> produces_text (expected_action e (cc_policy c))"
    by (simp add: expected_action_def produces_text_def)
  moreover have "dict_get (ad_parameters d) (lit ''mode'') = Some (lit ''boundary'')"
    if "mentions external_action_phrases (event_text e)" "produces_text (ad_action d)"
    using that gate_decides[OF g] d(2)[of "lit ''mode''"] unfolding action by (simp add: dict_get_def)
  ultimately show ?thesis by simp
qed

text \<open>
  C17: A run fails exactly when the event's time is naive, the half life of the affect is not
  positive, a context limit is out of range, or the message is non-empty but blank and no given
  fragment carries it; the candidates, the policy gate and the affect can never make it fail. The
  affect it returns lies within its bounds, at the time of the event.
\<close>

theorem run_fails_exactly:
  assumes "decays fexp" and "list_all valid_affect (case cc_prior_affect c of None \<Rightarrow> [] | Some a \<Rightarrow> [a])"
  shows "((\<exists>d. run fexp digest redact e c = Inr d) \<longleftrightarrow>
      (\<exists>t. ev_occurred_at e = Aware t) \<and> 1 \<le> cc_affect_half_life_seconds c \<and> limits_ok c \<and>
      (new_message e c = [] \<or> strip (new_message e c) \<noteq> [])) \<and>
    (run fexp digest redact e c = Inr d \<longrightarrow>
      (\<exists>a. ad_affect d = Some a \<and> valid_affect a \<and> af_updated_at a = ev_occurred_at e))"
proof -
  have prior: "valid_affect a" if "cc_prior_affect c = Some a" for a using assms(2) that by simp
  note affect = update_affect_succeeds[OF assms(1) prior, of c e "perceive e"]
  have "(\<exists>fs. normalize_fragments e c = Inr fs) \<longleftrightarrow> new_message e c = [] \<or> strip (new_message e c) \<noteq> []"
    by (auto simp: normalize_fragments_eq Let_def)
  moreover have "(\<exists>d. run fexp digest redact e c = Inr d) \<longleftrightarrow>
      (\<exists>a. update_affect fexp e c (perceive e) = Inr a) \<and> (\<exists>fs. normalize_fragments e c = Inr fs) \<and> limits_ok c"
    unfolding run_Inr using assemble_context_succeeds[of digest redact c]
      gate_succeeds[of e "perceive e" "cc_policy c"] by blast
  moreover have "\<exists>a. ad_affect d = Some a \<and> valid_affect a \<and> af_updated_at a = ev_occurred_at e"
    if "run fexp digest redact e c = Inr d"
    using that affect(2) unfolding run_Inr by (auto simp: decide_def Let_def)
  ultimately show ?thesis using affect(1) by blast
qed

section \<open>A concrete run\<close>

definition sample_persona :: persona_profile where
  "sample_persona = \<lparr>pf_version = 0, pf_name = [65], pf_constitution = default_constitution,
     pf_traits = default_traits, pf_style = default_style\<rparr>"

definition sample_heard :: "ustr \<Rightarrow> agent_event" where
  "sample_heard s = \<lparr>ev_event_id = 7, ev_tenant_id = 1, ev_agent_id = 2, ev_conversation_id = 3,
     ev_actor_id = 4, ev_occurred_at = Aware 1000, ev_event_type = message_received, ev_text = Some s\<rparr>"

definition sample_run_context :: cognitive_context where
  "sample_run_context = \<lparr>cc_run_id = 9, cc_configuration_version = 1, cc_persona_version = 0,
     cc_prompt_version = 0, cc_context_fragments = [Inl (lit ''hi'')], cc_persona = sample_persona,
     cc_prior_affect = None, cc_policy = sample_rules, cc_context_token_budget = 24000,
     cc_context_summary_enabled = True, cc_context_recent_message_limit = 24,
     cc_context_summary_chunk_size = 8, cc_context_summary_max_levels = 4,
     cc_context_summary_token_budget = 4096, cc_affect_half_life_seconds = 21600,
     cc_memory_recall_trace = [], cc_relationship_version = None\<rparr>"

lemma sample_message: "new_message (sample_heard s) sample_run_context = s"
  by (simp add: new_message_def carries_event_def sample_run_context_def sample_heard_def)

lemma sample_decays: "decays (\<lambda>_. 1 / 2)"
  by (simp add: decays_def)

lemma sample_run_exists:
  assumes "strip s \<noteq> []"
  obtains d where "run (\<lambda>_. 1 / 2) digest redact (sample_heard s) sample_run_context = Inr d"
proof -
  have valid: "valid_affect a" if "cc_prior_affect sample_run_context = Some a" for a
    using that by (simp add: sample_run_context_def)
  obtain affect where affect:
    "update_affect (\<lambda>_. 1 / 2) (sample_heard s) sample_run_context (perceive (sample_heard s)) = Inr affect"
    using update_affect_succeeds(1)[OF sample_decays valid, of sample_run_context "sample_heard s" "perceive (sample_heard s)"]
    by (auto simp: sample_run_context_def sample_heard_def)
  obtain fs where "normalize_fragments (sample_heard s) sample_run_context = Inr fs"
    using assms by (cases "s = []") (auto simp: normalize_fragments_eq sample_message Let_def)
  moreover have "limits_ok sample_run_context" by (simp add: limits_ok_def sample_run_context_def)
  ultimately show thesis
    using that affect assemble_context_succeeds gate_succeeds unfolding run_Inr by metis
qed

lemma strip_hi: "strip (lit ''hi'') \<noteq> []"
  by (simp add: lit_def strip_nonblank is_space_def)

lemma triggering_message_reaches_context_instance:
  "\<exists>d a f. run (\<lambda>_. 1 / 2) (\<lambda>s. s) (\<lambda>s. s) (sample_heard (lit ''hi'')) sample_run_context = Inr d \<and>
     ad_context d = Some a \<and> as_estimated_tokens a \<le> 24000 \<and> f \<in> set (as_fragments a) \<and>
     from_event (sample_heard (lit ''hi'')) f"
proof -
  obtain d where d: "run (\<lambda>_. 1 / 2) (\<lambda>s. s) (\<lambda>s. s) (sample_heard (lit ''hi'')) sample_run_context = Inr d"
    using strip_hi by (rule sample_run_exists)
  have given: "list_all given_ok (cc_context_fragments sample_run_context)"
    and budget: "15 \<le> cc_context_token_budget sample_run_context" "cc_context_token_budget sample_run_context = 24000"
    by (simp_all add: sample_run_context_def given_ok_def)
  have "new_message (sample_heard (lit ''hi'')) sample_run_context \<noteq> []" by (simp add: sample_message)
  from triggering_message_reaches_context[OF d given this budget(1)] d show ?thesis
    unfolding budget(2) by blast
qed

theorem decision_follows_event_witness:
  "\<exists>d. run (\<lambda>_. 1 / 2) (\<lambda>s. s) (\<lambda>s. s) (sample_heard (lit ''hi'')) sample_run_context = Inr d \<and>
     ad_action d = expected_action (sample_heard (lit ''hi'')) sample_rules"
proof -
  obtain d where d: "run (\<lambda>_. 1 / 2) (\<lambda>s. s) (\<lambda>s. s) (sample_heard (lit ''hi'')) sample_run_context = Inr d"
    using strip_hi by (rule sample_run_exists)
  have "cc_policy sample_run_context = sample_rules" by (simp add: sample_run_context_def)
  with decision_follows_event[OF d] d show ?thesis by simp
qed

theorem run_fails_exactly_witness:
  "\<not> (\<exists>d. run (\<lambda>_. 1 / 2) (\<lambda>s. s) (\<lambda>s. s) (sample_heard [32]) sample_run_context = Inr d)"
proof -
  have "list_all valid_affect (case cc_prior_affect sample_run_context of None \<Rightarrow> [] | Some a \<Rightarrow> [a])"
    by (simp add: sample_run_context_def)
  moreover have "strip [32] = []" by (simp add: strip_def is_space_def)
  ultimately show ?thesis
    using run_fails_exactly[OF sample_decays, of sample_run_context "\<lambda>s. s" "\<lambda>s. s" "sample_heard [32]"]
    by (simp add: sample_message)
qed

end
