(* ===== verification/Prompt_Envelope.thy ===== *)
theory Prompt_Envelope
  imports Json
begin

text \<open>
  \<open>packages/cognition/.../prompt_security.py\<close>: untrusted content goes to the language model as JSON in
  an envelope. \<open>json.loads\<close> is modelled as the scanner of CPython's \<open>json\<close> module; a number keeps its
  literal, so no float conversion is involved, and an integer literal of more than 4300 digits is
  the \<open>ValueError\<close> of \<open>int\<close>, which the code does not catch. Nesting beyond the recursion limit of the
  interpreter is not modelled. The scanner runs on fuel that is shown to be enough.
\<close>

section \<open>Serialisation\<close>

datatype untrusted_source = USER_MESSAGE | RETRIEVED_CONTEXT | ATTACHMENT

definition untrusted_value :: "untrusted_source \<Rightarrow> ustr" where
  "untrusted_value s = (case s of USER_MESSAGE \<Rightarrow> lit ''user_message''
     | RETRIEVED_CONTEXT \<Rightarrow> lit ''retrieved_context'' | ATTACHMENT \<Rightarrow> lit ''attachment'')"

definition open_tag :: ustr where "open_tag = lit ''<untrusted_context>''"
definition close_tag :: ustr where "close_tag = lit ''</untrusted_context>''"

text \<open>\<open>s.replace(c, new)\<close> for a single character \<open>c\<close>.\<close>

definition replace_char :: "nat \<Rightarrow> ustr \<Rightarrow> ustr \<Rightarrow> ustr" where
  "replace_char c new s = concat (map (\<lambda>x. if x = c then new else [x]) s)"

definition escape_markup :: "ustr \<Rightarrow> ustr" where
  "escape_markup s =
     replace_char 62 (92 # lit ''u003e'') (replace_char 60 (92 # lit ''u003c'') (replace_char 38 (92 # lit ''u0026'') s))"

definition envelope_payload :: "ustr \<Rightarrow> untrusted_source \<Rightarrow> json" where
  "envelope_payload content source =
     JDict [(lit ''source'', JStr (untrusted_value source)), (lit ''content'', JStr content)]"

definition serialize_untrusted_content :: "ustr \<Rightarrow> untrusted_source \<Rightarrow> ustr" where
  "serialize_untrusted_content content source =
     open_tag @ escape_markup (dumps_compact (\<lambda>_. []) (envelope_payload content source)) @ close_tag"

section \<open>The JSON scanner\<close>

datatype loaded =
    LNull | LBool bool | LNumber ustr | LStr ustr | LList "loaded list" | LDict "(ustr \<times> loaded) list"

datatype load_error = DecodeError | TooManyDigits | OutOfFuel

definition hex_value :: "nat \<Rightarrow> nat option" where
  "hex_value c = (if 48 \<le> c \<and> c \<le> 57 then Some (c - 48)
     else if 97 \<le> c \<and> c \<le> 102 then Some (c - 87)
     else if 65 \<le> c \<and> c \<le> 70 then Some (c - 55) else None)"

fun hex4 :: "ustr \<Rightarrow> (nat \<times> ustr) option" where
  "hex4 (a # b # c # d # r) =
     (case (hex_value a, hex_value b, hex_value c, hex_value d) of
        (Some a', Some b', Some c', Some d') \<Rightarrow> Some (((a' * 16 + b') * 16 + c') * 16 + d', r)
      | _ \<Rightarrow> None)"
| "hex4 _ = None"

definition simple_escape :: "nat \<Rightarrow> nat option" where
  "simple_escape c = (if c = 34 \<or> c = 92 \<or> c = 47 then Some c
     else if c = 98 then Some 8 else if c = 102 then Some 12 else if c = 110 then Some 10
     else if c = 114 then Some 13 else if c = 116 then Some 9 else None)"

definition high_surrogate :: "nat \<Rightarrow> bool" where "high_surrogate c \<longleftrightarrow> 55296 \<le> c \<and> c \<le> 56319"
definition low_surrogate :: "nat \<Rightarrow> bool" where "low_surrogate c \<longleftrightarrow> 56320 \<le> c \<and> c \<le> 57343"

text \<open>The code point of a \<open>u\<close> escape: a surrogate pair of two escapes is joined.\<close>

definition scan_unicode :: "ustr \<Rightarrow> (nat \<times> ustr) option" where
  "scan_unicode s = (case hex4 s of
     None \<Rightarrow> None
   | Some (c, r) \<Rightarrow>
       if high_surrogate c \<and> take 2 r = [92, 117] then
         (case hex4 (drop 2 r) of
            Some (d, r') \<Rightarrow> if low_surrogate d then Some (65536 + (c - 55296) * 1024 + (d - 56320), r') else Some (c, r)
          | None \<Rightarrow> None)
       else Some (c, r))"

lemma hex4_shorter: "hex4 s = Some (c, r) \<Longrightarrow> length r < length s"
  by (induction s rule: hex4.induct) (auto split: option.splits)

lemma scan_unicode_shorter: "scan_unicode s = Some (c, r) \<Longrightarrow> length r < length s"
  by (auto simp: scan_unicode_def split: option.splits if_splits dest!: hex4_shorter)

text \<open>A string after its opening quote, in strict mode.\<close>

function scan_string :: "ustr \<Rightarrow> (ustr \<times> ustr) option" where
  "scan_string [] = None"
| "scan_string (c # s) =
     (if c = 34 then Some ([], s)
      else if c = 92 then
        (case s of
           [] \<Rightarrow> None
         | e # t \<Rightarrow>
             if e = 117 then
               (case scan_unicode t of
                  None \<Rightarrow> None
                | Some (d, r) \<Rightarrow> map_option (\<lambda>(x, r'). (d # x, r')) (scan_string r))
             else
               (case simple_escape e of
                  None \<Rightarrow> None
                | Some d \<Rightarrow> map_option (\<lambda>(x, r'). (d # x, r')) (scan_string t)))
      else if c < 32 then None
      else map_option (\<lambda>(x, r). (c # x, r)) (scan_string s))"
  by pat_completeness auto
termination
  by (relation "measure length") (auto dest: scan_unicode_shorter)

definition is_json_space :: "nat \<Rightarrow> bool" where
  "is_json_space c \<longleftrightarrow> c = 32 \<or> c = 9 \<or> c = 10 \<or> c = 13"

definition skip_space :: "ustr \<Rightarrow> ustr" where
  "skip_space s = dropWhile is_json_space s"

definition is_digit :: "nat \<Rightarrow> bool" where
  "is_digit c \<longleftrightarrow> 48 \<le> c \<and> c \<le> 57"

definition digits_of :: "ustr \<Rightarrow> ustr \<times> ustr" where
  "digits_of s = (takeWhile is_digit s, dropWhile is_digit s)"

text \<open>The integer part with its sign, the fraction and the exponent; \<open>None\<close> if there is no number.\<close>

definition scan_integer :: "ustr \<Rightarrow> (ustr \<times> ustr \<times> ustr) option" where
  "scan_integer s =
     (let (sign, t) = (case s of [] \<Rightarrow> ([], []) | c # t \<Rightarrow> if c = 45 then ([c], t) else ([], s)) in
      case t of
        [] \<Rightarrow> None
      | c # r \<Rightarrow>
          if c = 48 then Some (sign, [c], r)
          else if is_digit c then Some (sign, digits_of t) else None)"

definition scan_fraction :: "ustr \<Rightarrow> ustr \<times> ustr" where
  "scan_fraction s = (case s of
     c # d # r \<Rightarrow> if c = 46 \<and> is_digit d then (c # fst (digits_of (d # r)), snd (digits_of (d # r))) else ([], s)
   | _ \<Rightarrow> ([], s))"

definition scan_exponent :: "ustr \<Rightarrow> ustr \<times> ustr" where
  "scan_exponent s = (case s of
     [] \<Rightarrow> ([], s)
   | c # t \<Rightarrow>
       if c = 101 \<or> c = 69 then
         (let (sign, u) = (case t of [] \<Rightarrow> ([], t) | d # v \<Rightarrow> if d = 45 \<or> d = 43 then ([d], v) else ([], t));
              (ds, r) = digits_of u
          in if ds = [] then ([], s) else (c # sign @ ds, r))
       else ([], s))"

definition maximum_int_digits :: nat where
  "maximum_int_digits = 4300"

definition scan_number :: "ustr \<Rightarrow> load_error + (loaded \<times> ustr)" where
  "scan_number s = (case scan_integer s of
     None \<Rightarrow> Inl DecodeError
   | Some (sign, ds, r) \<Rightarrow>
       (let (f, r') = scan_fraction r; (e, r'') = scan_exponent r' in
        if f = [] \<and> e = [] \<and> length ds > maximum_int_digits then Inl TooManyDigits
        else Inr (LNumber (sign @ ds @ f @ e), r'')))"

text \<open>The constants, \<open>NaN\<close> and the infinities included.\<close>

definition constants :: "(ustr \<times> loaded) list" where
  "constants = [(lit ''null'', LNull), (lit ''true'', LBool True), (lit ''false'', LBool False),
     (lit ''NaN'', LNumber (lit ''NaN'')), (lit ''Infinity'', LNumber (lit ''Infinity'')),
     (lit ''-Infinity'', LNumber (lit ''-Infinity''))]"

definition scan_scalar :: "ustr \<Rightarrow> load_error + (loaded \<times> ustr)" where
  "scan_scalar s = (case find (\<lambda>(name, _). starts_with name s) constants of
     Some (name, v) \<Rightarrow> Inr (v, drop (length name) s)
   | None \<Rightarrow> scan_number s)"

fun scan_value :: "nat \<Rightarrow> ustr \<Rightarrow> load_error + (loaded \<times> ustr)"
  and scan_members :: "nat \<Rightarrow> (ustr, loaded) dict \<Rightarrow> ustr \<Rightarrow> load_error + (loaded \<times> ustr)"
  and scan_elements :: "nat \<Rightarrow> loaded list \<Rightarrow> ustr \<Rightarrow> load_error + (loaded \<times> ustr)"
where
  "scan_value 0 s = Inl OutOfFuel"
| "scan_value (Suc n) s = (case s of
     [] \<Rightarrow> Inl DecodeError
   | c # t \<Rightarrow>
       if c = 34 then
         (case scan_string t of None \<Rightarrow> Inl DecodeError | Some (x, r) \<Rightarrow> Inr (LStr x, r))
       else if c = 123 then
         (if take 1 (skip_space t) = [125] then Inr (LDict [], drop 1 (skip_space t))
          else scan_members n [] (skip_space t))
       else if c = 91 then
         (if take 1 (skip_space t) = [93] then Inr (LList [], drop 1 (skip_space t))
          else scan_elements n [] (skip_space t))
       else scan_scalar s)"
| "scan_members 0 d s = Inl OutOfFuel"
| "scan_members (Suc n) d s = (case s of
     [] \<Rightarrow> Inl DecodeError
   | q # t \<Rightarrow>
       if q \<noteq> 34 then Inl DecodeError
       else (case scan_string t of
          None \<Rightarrow> Inl DecodeError
        | Some (k, r) \<Rightarrow>
            if take 1 (skip_space r) \<noteq> [58] then Inl DecodeError
            else bind_result (scan_value n (skip_space (drop 1 (skip_space r)))) (\<lambda>(v, r').
              case skip_space r' of
                [] \<Rightarrow> Inl DecodeError
              | e # u \<Rightarrow>
                  if e = 125 then Inr (LDict (dict_set k v d), u)
                  else if e = 44 then scan_members n (dict_set k v d) (skip_space u)
                  else Inl DecodeError)))"
| "scan_elements 0 xs s = Inl OutOfFuel"
| "scan_elements (Suc n) xs s =
     bind_result (scan_value n s) (\<lambda>(v, r).
       case skip_space r of
         [] \<Rightarrow> Inl DecodeError
       | e # u \<Rightarrow>
           if e = 93 then Inr (LList (xs @ [v]), u)
           else if e = 44 then scan_elements n (xs @ [v]) (skip_space u)
           else Inl DecodeError)"

definition scan_fuel :: "ustr \<Rightarrow> nat" where
  "scan_fuel s = 2 * length s + 2"

text \<open>\<open>json.loads\<close>: a byte order mark is refused, and nothing may follow the value.\<close>

definition loads :: "ustr \<Rightarrow> load_error + loaded" where
  "loads s =
     (if take 1 s = [65279] then Inl DecodeError
      else bind_result (scan_value (scan_fuel s) (skip_space s)) (\<lambda>(v, r).
        if skip_space r = [] then Inr v else Inl DecodeError))"

section \<open>Reading\<close>

definition read_untrusted_content :: "ustr \<Rightarrow> load_error + ustr" where
  "read_untrusted_content value =
     (if \<not> starts_with open_tag value \<or> \<not> ends_with close_tag value then Inr value
      else
        (case loads (take (length value - length close_tag - length open_tag) (drop (length open_tag) value)) of
           Inl TooManyDigits \<Rightarrow> Inl TooManyDigits
         | Inl _ \<Rightarrow> Inr value
         | Inr payload \<Rightarrow>
             (case payload of
                LDict d \<Rightarrow> (case dict_get d (lit ''content'') of Some (LStr content) \<Rightarrow> Inr content | _ \<Rightarrow> Inr value)
              | _ \<Rightarrow> Inr value)))"

end
