(* ===== verification/Prompt_Properties.thy ===== *)
theory Prompt_Properties
  imports Prompt_Envelope
begin

text \<open>
  The envelope cannot be forged and loses nothing: whatever the untrusted content is, its tags occur
  at the two ends only and the reader restores the content; the scanner always has enough fuel.
\<close>

section \<open>The scanner consumes its input\<close>

lemma skip_space_le: "length (skip_space s) \<le> length s"
  by (simp add: skip_space_def length_dropWhile_le)

lemma scan_string_shorter: "scan_string s = Some (x, r) \<Longrightarrow> length r < length s"
proof (induction s arbitrary: x r rule: scan_string.induct)
  case (2 c s)
  show ?case
  proof (cases "c = 34 \<or> c < 32 \<and> c \<noteq> 92")
    case True
    then show ?thesis using "2.prems" by (auto split: if_splits)
  next
    case False
    show ?thesis
    proof (cases "c = 92")
      case True
      then obtain e t where s: "s = e # t" using "2.prems" by (cases s) auto
      show ?thesis
      proof (cases "e = 117")
        case u: True
        then obtain d r1 where h: "scan_unicode t = Some (d, r1)"
          using "2.prems" True s by (auto split: option.splits)
        then obtain x1 where "scan_string r1 = Some (x1, r)"
          using "2.prems" True s u by auto
        from "2.IH"(1)[OF _ True s u h refl this] False True
        have "length r < length r1" by simp
        then show ?thesis using scan_unicode_shorter[OF h] s by simp
      next
        case u: False
        then obtain d x1 where d: "simple_escape e = Some d" and x1: "scan_string t = Some (x1, r)"
          using "2.prems" True s by (auto split: option.splits)
        from "2.IH"(2)[OF _ True s u d x1] True s show ?thesis by simp
      qed
    next
      case n: False
      then obtain x1 where x1: "scan_string s = Some (x1, r)" using "2.prems" False by auto
      from "2.IH"(3)[OF _ n _ x1] n False show ?thesis by auto
    qed
  qed
qed simp

lemma digits_of_le: "length (snd (digits_of s)) \<le> length s"
  by (simp add: digits_of_def length_dropWhile_le)

lemma digits_of_shorter: "digits_of (c # t) = (ds, r) \<Longrightarrow> is_digit c \<Longrightarrow> length r < length (c # t)"
  using digits_of_le[of t] by (auto simp: digits_of_def)

lemma scan_integer_shorter: "scan_integer s = Some (sg, ds, r) \<Longrightarrow> length r < length s"
proof -
  define u where "u = (case s of [] \<Rightarrow> ([], []) | c # t \<Rightarrow> if c = 45 then ([c], t) else ([], s))"
  have le: "length (snd u) \<le> length s" by (simp add: u_def split: list.split)
  assume a: "scan_integer s = Some (sg, ds, r)"
  then obtain c t where t: "snd u = c # t"
    by (cases "snd u") (auto simp: scan_integer_def u_def[symmetric] case_prod_unfold)
  have "length r < length (snd u)"
    using a unfolding scan_integer_def u_def[symmetric] case_prod_unfold Let_def t
    by (auto split: if_splits dest: digits_of_shorter)
  with le show ?thesis by simp
qed

lemma scan_fraction_le: "length (snd (scan_fraction s)) \<le> length s"
  by (auto simp: scan_fraction_def intro!: order_trans[OF digits_of_le] split: list.split)

lemma scan_exponent_le: "length (snd (scan_exponent s)) \<le> length s"
  using digits_of_le
  by (fastforce simp: scan_exponent_def Let_def digits_of_def le_SucI length_dropWhile_le split: list.split)

lemma scan_number_shorter: "scan_number s = Inr (v, r) \<Longrightarrow> length r < length s"
proof -
  assume a: "scan_number s = Inr (v, r)"
  then obtain sg ds r0 where i: "scan_integer s = Some (sg, ds, r0)"
    by (auto simp: scan_number_def split: option.splits)
  have "r = snd (scan_exponent (snd (scan_fraction r0)))"
    using a i by (auto simp: scan_number_def Let_def case_prod_unfold split: if_splits)
  then show ?thesis
    using scan_integer_shorter[OF i] scan_fraction_le[of r0] scan_exponent_le[of "snd (scan_fraction r0)"] by simp
qed

lemma starts_with_length: "starts_with p s \<Longrightarrow> length p \<le> length s"
  unfolding starts_with_def by (metis length_take min.cobounded1)

lemma scan_scalar_shorter: "scan_scalar s = Inr (v, r) \<Longrightarrow> length r < length s"
proof (cases "find (\<lambda>(name, _). starts_with name s) constants")
  case None
  assume "scan_scalar s = Inr (v, r)"
  with None show ?thesis by (simp add: scan_scalar_def scan_number_shorter)
next
  case (Some nv)
  assume a: "scan_scalar s = Inr (v, r)"
  obtain name w where nv: "nv = (name, w)" by (cases nv)
  have m: "(name, w) \<in> set constants" "starts_with name s"
    using find_Some_iff_mem[OF Some] nv by auto
  then have "name \<noteq> []" by (auto simp: constants_def)
  moreover have "r = drop (length name) s" using a Some nv by (simp add: scan_scalar_def)
  ultimately show ?thesis using starts_with_length[OF m(2)] by (cases name) auto
qed

lemma drop1_skip: "take 1 (skip_space t) = [c] \<Longrightarrow> length (drop 1 (skip_space t)) < length t"
  using skip_space_le[of t] by (cases "skip_space t") auto

lemma scan_shorter:
  "scan_value n s = Inr (v, r) \<Longrightarrow> length r < length s"
  "scan_members n d s = Inr (v, r) \<Longrightarrow> length r < length s"
  "scan_elements n xs s = Inr (v, r) \<Longrightarrow> length r < length s"
proof (induction n arbitrary: s v r d xs)
  case (Suc n)
  {
    case 1
    then obtain c t where s: "s = c # t" by (auto split: list.splits)
    consider "c = 34" | "c = 123" | "c = 91" | "c \<notin> {34, 123, 91}" by blast
    then show ?case
    proof cases
      case 1
      then show ?thesis using "1.prems" s by (auto dest: scan_string_shorter split: option.splits)
    next
      case 2
      then show ?thesis
        using "1.prems" s Suc.IH(2)[of "[]" "skip_space t" v r] skip_space_le[of t] drop1_skip[of t 125]
        by (auto split: if_splits)
    next
      case 3
      then show ?thesis
        using "1.prems" s Suc.IH(3)[of "[]" "skip_space t" v r] skip_space_le[of t] drop1_skip[of t 93]
        by (auto split: if_splits)
    next
      case 4
      then show ?thesis using "1.prems" s by (auto dest: scan_scalar_shorter)
    qed
  next
    case 2
    then obtain t k r0 where s: "s = 34 # t" and k: "scan_string t = Some (k, r0)"
      and colon: "take 1 (skip_space r0) = [58]"
      by (auto split: list.splits if_splits option.splits)
    then obtain w r1 where w: "scan_value n (skip_space (drop 1 (skip_space r0))) = Inr (w, r1)"
      and rest: "(case skip_space r1 of [] \<Rightarrow> Inl DecodeError
              | e # u \<Rightarrow> if e = 125 then Inr (LDict (dict_set k w d), u)
                  else if e = 44 then scan_members n (dict_set k w d) (skip_space u)
                  else Inl DecodeError) = Inr (v, r)"
      using "2.prems" by (auto simp: bind_result_Inr)
    from rest obtain e u where u: "skip_space r1 = e # u" by (auto split: list.splits)
    have len: "length u < length s"
      using Suc.IH(1)[OF w] skip_space_le[of "drop 1 (skip_space r0)"] skip_space_le[of r0]
        scan_string_shorter[OF k] skip_space_le[of r1] u s by simp
    have "r = u \<or> scan_members n (dict_set k w d) (skip_space u) = Inr (v, r)"
      using rest u by (auto split: if_splits)
    then show ?case
      using Suc.IH(2)[of "dict_set k w d" "skip_space u" v r] len skip_space_le[of u] by auto
  next
    case 3
    then obtain w r1 where w: "scan_value n s = Inr (w, r1)"
      and rest: "(case skip_space r1 of [] \<Rightarrow> Inl DecodeError
              | e # u \<Rightarrow> if e = 93 then Inr (LList (xs @ [w]), u)
                  else if e = 44 then scan_elements n (xs @ [w]) (skip_space u)
                  else Inl DecodeError) = Inr (v, r)"
      by (auto simp: bind_result_Inr)
    from rest obtain e u where u: "skip_space r1 = e # u" by (auto split: list.splits)
    have len: "length u < length s" using Suc.IH(1)[OF w] skip_space_le[of r1] u by simp
    have "r = u \<or> scan_elements n (xs @ [w]) (skip_space u) = Inr (v, r)"
      using rest u by (auto split: if_splits)
    then show ?case
      using Suc.IH(3)[of "xs @ [w]" "skip_space u" v r] len skip_space_le[of u] by auto
  }
qed simp_all

section \<open>The fuel is enough\<close>

lemma scan_number_fuel: "scan_number s \<noteq> Inl OutOfFuel"
  by (auto simp: scan_number_def Let_def case_prod_unfold split: option.splits)

lemma scan_scalar_fuel: "scan_scalar s \<noteq> Inl OutOfFuel"
  by (auto simp: scan_scalar_def scan_number_fuel split: option.splits)

lemma scan_fuel_enough:
  "2 * length s + 1 \<le> n \<Longrightarrow> scan_value n s \<noteq> Inl OutOfFuel"
  "2 * length s + 2 \<le> n \<Longrightarrow> scan_members n d s \<noteq> Inl OutOfFuel"
  "2 * length s + 2 \<le> n \<Longrightarrow> scan_elements n xs s \<noteq> Inl OutOfFuel"
proof (induction n arbitrary: s d xs)
  case (Suc n)
  {
    case 1
    show ?case
    proof (cases s)
      case (Cons c t)
      have "scan_members n [] (skip_space t) \<noteq> Inl OutOfFuel" "scan_elements n [] (skip_space t) \<noteq> Inl OutOfFuel"
        using Suc.IH(2,3)[of "skip_space t"] "1.prems" Cons skip_space_le[of t] by simp_all
      then show ?thesis using Cons scan_scalar_fuel by (auto split: option.splits)
    qed simp
  next
    case 2
    show ?case
    proof
      assume out: "scan_members (Suc n) d s = Inl OutOfFuel"
      then obtain t k r0 where s: "s = 34 # t" and k: "scan_string t = Some (k, r0)"
        by (auto split: list.splits if_splits option.splits)
      let ?v = "skip_space (drop 1 (skip_space r0))"
      have v: "length ?v + 2 \<le> length s" "scan_value n ?v \<noteq> Inl OutOfFuel"
        using skip_space_le[of "drop 1 (skip_space r0)"] skip_space_le[of r0] scan_string_shorter[OF k] s
          Suc.IH(1)[of ?v] "2.prems" by auto
      then obtain w r1 where w: "scan_value n ?v = Inr (w, r1)"
        and rest: "(case skip_space r1 of [] \<Rightarrow> Inl DecodeError
              | e # u \<Rightarrow> if e = 125 then Inr (LDict (dict_set k w d), u)
                  else if e = 44 then scan_members n (dict_set k w d) (skip_space u)
                  else Inl DecodeError) = Inl OutOfFuel"
        using out s k by (auto simp: bind_result_Inl split: if_splits)
      then obtain e u where u: "skip_space r1 = e # u" "scan_members n (dict_set k w d) (skip_space u) = Inl OutOfFuel"
        by (auto split: list.splits if_splits)
      have "length (skip_space u) + 3 \<le> length s"
        using scan_shorter(1)[OF w] v(1) skip_space_le[of r1] skip_space_le[of u] u(1) by simp
      then show False using Suc.IH(2)[of "skip_space u" "dict_set k w d"] u(2) "2.prems" by simp
    qed
  next
    case 3
    show ?case
    proof
      assume out: "scan_elements (Suc n) xs s = Inl OutOfFuel"
      have "scan_value n s \<noteq> Inl OutOfFuel" using Suc.IH(1)[of s] "3.prems" by simp
      with out obtain w r1 where w: "scan_value n s = Inr (w, r1)"
        and rest: "(case skip_space r1 of [] \<Rightarrow> Inl DecodeError
              | e # u \<Rightarrow> if e = 93 then Inr (LList (xs @ [w]), u)
                  else if e = 44 then scan_elements n (xs @ [w]) (skip_space u)
                  else Inl DecodeError) = Inl OutOfFuel"
        by (auto simp: bind_result_Inl)
      then obtain e u where u: "skip_space r1 = e # u" "scan_elements n (xs @ [w]) (skip_space u) = Inl OutOfFuel"
        by (auto split: list.splits if_splits)
      have "length (skip_space u) + 2 \<le> length s"
        using scan_shorter(1)[OF w] skip_space_le[of r1] skip_space_le[of u] u(1) by simp
      then show False using Suc.IH(3)[of "skip_space u" "xs @ [w]"] u(2) "3.prems" by simp
    qed
  }
qed simp_all

lemma loads_has_fuel: "loads s \<noteq> Inl OutOfFuel"
proof -
  have "2 * length (skip_space s) + 1 \<le> scan_fuel s" using skip_space_le[of s] by (simp add: scan_fuel_def)
  then have "scan_value (scan_fuel s) (skip_space s) \<noteq> Inl OutOfFuel" by (rule scan_fuel_enough(1))
  then show ?thesis by (auto simp: loads_def bind_result_Inl)
qed

section \<open>Escaped strings\<close>

lemma replace_char_append [simp]: "replace_char c n (s @ t) = replace_char c n s @ replace_char c n t"
  by (simp add: replace_char_def)

lemma replace_char_Nil [simp]: "replace_char c n [] = []"
  by (simp add: replace_char_def)

lemma replace_char_Cons [simp]:
  "replace_char c n (x # s) = (if x = c then n else [x]) @ replace_char c n s"
  by (simp add: replace_char_def)

lemma escape_markup_append [simp]: "escape_markup (s @ t) = escape_markup s @ escape_markup t"
  by (simp add: escape_markup_def)

lemma escape_markup_Nil [simp]: "escape_markup [] = []"
  by (simp add: escape_markup_def)

lemma escape_markup_plain [simp]:
  "c \<notin> {38, 60, 62} \<Longrightarrow> escape_markup (c # s) = c # escape_markup s"
  by (simp add: escape_markup_def)

lemma escape_markup_special:
  "escape_markup [38] = 92 # lit ''u0026''" "escape_markup [60] = 92 # lit ''u003c''"
  "escape_markup [62] = 92 # lit ''u003e''"
  by (simp_all add: escape_markup_def lit_def)

lemma replace_char_set: "x \<in> set (replace_char c n s) \<Longrightarrow> x \<in> set s \<and> x \<noteq> c \<or> x \<in> set n"
  by (auto simp: replace_char_def split: if_splits)

lemma escape_markup_free: "x \<in> set (escape_markup s) \<Longrightarrow> x \<notin> {38, 60, 62}"
  unfolding escape_markup_def
  by (drule replace_char_set, elim disjE conjE, drule replace_char_set, elim disjE conjE, drule replace_char_set)
    (auto simp: lit_def)

definition quoted_body :: "ustr \<Rightarrow> ustr" where
  "quoted_body s = escape_markup (concat (map escape_char s))"

lemma hex_value_digit: "d < 16 \<Longrightarrow> hex_value (hex_digit d) = Some d"
  by (auto simp: hex_value_def hex_digit_def)

lemma hex_digit_plain: "d < 16 \<Longrightarrow> hex_digit d \<notin> {38, 60, 62}"
  by (auto simp: hex_digit_def)

lemma scan_escaped_char:
  assumes "scan_string r = Some (x, r')"
  shows "scan_string (escape_markup (escape_char c) @ r) = Some (c # x, r')"
proof -
  consider (markup) "c \<in> {38, 60, 62}" | (short) "c \<in> {34, 92, 10, 13, 9, 8, 12}"
    | (control) "c < 32" "c \<notin> {10, 13, 9, 8, 12}" | (plain) "32 \<le> c" "c \<notin> {38, 60, 62, 34, 92}"
    by fastforce
  then show ?thesis
  proof cases
    case markup
    then show ?thesis
      using assms by (auto simp: escape_char_def escape_markup_special lit_def scan_unicode_def hex_value_def high_surrogate_def)
  next
    case short
    then show ?thesis using assms by (auto simp: escape_char_def simple_escape_def)
  next
    case control
    then have h: "c div 16 < 16" "c mod 16 < 16" by auto
    have e: "escape_char c = [92, 117, 48, 48, hex_digit (c div 16), hex_digit (c mod 16)]"
      using control by (simp add: escape_char_def)
    have v: "(c div 16) * 16 + c mod 16 = c" by simp
    have "hex4 (48 # 48 # hex_digit (c div 16) # hex_digit (c mod 16) # r) = Some (c, r)"
      using hex_value_digit[OF h(1)] hex_value_digit[OF h(2)] v by (simp add: hex_value_def)
    then have "scan_unicode (48 # 48 # hex_digit (c div 16) # hex_digit (c mod 16) # r) = Some (c, r)"
      using control(1) by (simp add: scan_unicode_def high_surrogate_def)
    then show ?thesis using assms hex_digit_plain[OF h(1)] hex_digit_plain[OF h(2)] by (simp add: e)
  next
    case plain
    then show ?thesis using assms by (simp add: escape_char_def)
  qed
qed

lemma scan_quoted_body: "scan_string (quoted_body s @ 34 # r) = Some (s, r)"
proof (induction s)
  case Nil
  then show ?case by (simp add: quoted_body_def)
next
  case (Cons c s)
  then show ?case using scan_escaped_char[of "quoted_body s @ 34 # r" s r c] by (simp add: quoted_body_def)
qed

section \<open>The envelope\<close>

definition envelope_body :: "ustr \<Rightarrow> untrusted_source \<Rightarrow> ustr" where
  "envelope_body content source =
     123 # 34 # quoted_body (lit ''source'') @ 34 # 58 # 34 # quoted_body (untrusted_value source) @ 34 # 44 #
       34 # quoted_body (lit ''content'') @ 34 # 58 # 34 # quoted_body content @ [34, 125]"

lemma lit_single: "lit [c] = [of_char c]"
  by (simp add: lit_def)

lemma serialize_body: "serialize_untrusted_content content source = open_tag @ envelope_body content source @ close_tag"
  by (simp add: serialize_untrusted_content_def envelope_payload_def dumps_compact_def quote_str_def
      envelope_body_def quoted_body_def lit_single)

lemma body_free: "60 \<notin> set (envelope_body content source)"
  using escape_markup_free[of 60] by (auto simp: envelope_body_def quoted_body_def)

text \<open>A marker that does not occur before or after its only occurrence is found there.\<close>

lemma unique_split:
  "a @ c # b = u @ c # w \<Longrightarrow> c \<notin> set a \<Longrightarrow> c \<notin> set b \<Longrightarrow> u = a \<and> w = b"
proof (induction a arbitrary: u)
  case Nil
  then show ?case by (cases u) auto
next
  case (Cons x a)
  then show ?case by (cases u) auto
qed

lemma tags: "open_tag = 60 # lit ''untrusted_context>''" "close_tag = 60 # lit ''/untrusted_context>''"
  by (simp_all add: open_tag_def close_tag_def lit_def)

lemma tags_free: "60 \<notin> set (lit ''untrusted_context>'')" "60 \<notin> set (lit ''/untrusted_context>'')"
  by (simp_all add: lit_def)

text \<open>
  C18: The envelope cannot be forged: in the serialisation of any untrusted content the opening tag
  occurs only at the start and the closing tag only at the end, so content that contains the tags
  cannot close the envelope early or open another.
\<close>

theorem envelope_is_unforgeable:
  "(serialize_untrusted_content content source = u @ close_tag @ v \<longrightarrow> v = []) \<and>
   (serialize_untrusted_content content source = u @ open_tag @ v \<longrightarrow> u = [])"
proof -
  let ?a = "lit ''untrusted_context>'' @ envelope_body content source"
  let ?b = "lit ''/untrusted_context>''"
  have s: "serialize_untrusted_content content source = 60 # ?a @ 60 # ?b"
    by (simp add: serialize_body tags)
  have free: "60 \<notin> set ?a" "60 \<notin> set ?b" using body_free tags_free by auto
  have at: "u = [] \<and> w = ?a @ 60 # ?b \<or> (\<exists>u'. u = 60 # u' \<and> u' = ?a \<and> w = ?b)"
    if "60 # ?a @ 60 # ?b = u @ 60 # w" for u w
  proof (cases u)
    case (Cons x u')
    then show ?thesis using that unique_split[of ?a 60 ?b u' w] free by auto
  qed (use that in auto)
  have split: "lit (c # s) = of_char c # lit s" for c s by (simp add: lit_def)
  show ?thesis
    using at[of u "?b @ v"] at[of u "lit ''untrusted_context>'' @ v"] unfolding s tags by (auto simp: split)
qed

theorem envelope_is_unforgeable_witness:
  "\<not> (\<exists>u. serialize_untrusted_content close_tag ATTACHMENT = u @ close_tag @ [33])"
  using envelope_is_unforgeable[of close_tag ATTACHMENT _ "[33]"] by blast

lemma skip_plain: "c \<notin> {32, 9, 10, 13} \<Longrightarrow> skip_space (c # s) = c # s"
  by (simp add: skip_space_def is_json_space_def)

lemma loads_body:
  "loads (envelope_body content source) =
     Inr (LDict [(lit ''source'', LStr (untrusted_value source)), (lit ''content'', LStr content)])"
proof -
  define n where "n = scan_fuel (envelope_body content source) - 5"
  have fuel: "scan_fuel (envelope_body content source) = Suc (Suc (Suc (Suc (Suc n))))"
    by (simp add: n_def scan_fuel_def envelope_body_def)
  have set2: "dict_set (lit ''content'') v [(lit ''source'', w)] = [(lit ''source'', w), (lit ''content'', v)]" for v w :: loaded
    by (simp add: dict_set_def)
  have set1: "dict_set (lit ''source'') w [] = [(lit ''source'', w)]" for w :: loaded
    by (simp add: dict_set_def)
  have "scan_members (Suc (Suc (Suc n))) [(lit ''source'', LStr (untrusted_value source))]
      (34 # quoted_body (lit ''content'') @ 34 # 58 # 34 # quoted_body content @ [34, 125]) =
      Inr (LDict [(lit ''source'', LStr (untrusted_value source)), (lit ''content'', LStr content)], [])"
    by (simp add: scan_quoted_body skip_plain set2)
  then have "scan_value (Suc (Suc (Suc (Suc (Suc n))))) (envelope_body content source) =
      Inr (LDict [(lit ''source'', LStr (untrusted_value source)), (lit ''content'', LStr content)], [])"
    by (simp add: envelope_body_def scan_quoted_body skip_plain set1)
  moreover have "skip_space (envelope_body content source) = envelope_body content source"
    "take 1 (envelope_body content source) = [123]" "skip_space [] = []"
    by (simp_all add: envelope_body_def skip_plain skip_space_def is_json_space_def)
  ultimately show ?thesis by (simp add: loads_def fuel)
qed

text \<open>
  The envelope loses nothing: the reader restores every content from its serialisation,
  control characters, quotes and tags included; and the scanner behind it never runs out of fuel.
\<close>

lemma envelope_round_trip:
  "read_untrusted_content (serialize_untrusted_content content source) = Inr content \<and>
   loads s \<noteq> Inl OutOfFuel"
proof -
  let ?s = "serialize_untrusted_content content source"
  have "starts_with open_tag ?s" "ends_with close_tag ?s"
    by (simp_all add: serialize_body starts_with_def ends_with_def)
  moreover have "take (length ?s - length close_tag - length open_tag) (drop (length open_tag) ?s) =
      envelope_body content source"
    by (simp add: serialize_body)
  ultimately show ?thesis
    by (simp add: read_untrusted_content_def loads_body dict_get_def loads_has_fuel)
qed

end
