(* ===== verification/Memory_Domain.thy ===== *)
theory Memory_Domain
  imports Json Binary64
begin

text \<open>
  The long-term memory types of \<open>packages/domain/.../memory.py\<close>: a memory with its isolation scope,
  confidence and life cycle, its sources, links and embeddings, the relationship of an agent with a
  user, and the jobs that rebuild the index. Every stored time is aware, hence an \<open>instant\<close>; a
  score is a binary64 number.
\<close>

datatype memory_kind = WORKING | EPISODIC | SEMANTIC | RELATIONAL | AUTOBIOGRAPHICAL | PROCEDURAL

datatype memory_visibility = VISIBLE_USER | VISIBLE_AGENT | VISIBLE_TENANT

datatype memory_sensitivity = NORMAL | PERSONAL | SENSITIVE | RESTRICTED

datatype memory_confirmation = UNCONFIRMED | CONFIRMED | DISPUTED

datatype memory_status = MEMORY_ACTIVE | MEMORY_SUPERSEDED | MEMORY_FORGOTTEN

datatype source_kind =
    SOURCE_MESSAGE | SOURCE_EPISODE | SOURCE_USER_STATEMENT | SOURCE_ADMIN_CORRECTION | SOURCE_REFLECTION | SOURCE_IMPORT

datatype link_kind = RELATED_TO | CONFLICTS_WITH | SUPERSEDES | DERIVED_FROM

datatype episode_status = EPISODE_OPEN | EPISODE_CLOSED | EPISODE_CONSOLIDATED

datatype relationship_stage = STRANGER | ACQUAINTANCE | FAMILIAR | TRUSTED

datatype index_status = INDEX_PENDING | INDEX_RUNNING | INDEX_COMPLETED | INDEX_FAILED

record episode =
  ep_id :: uuid
  ep_tenant_id :: uuid
  ep_agent_id :: uuid
  ep_user_id :: uuid
  ep_conversation_id :: uuid
  ep_title :: ustr
  ep_summary :: ustr
  ep_status :: episode_status
  ep_started_at :: instant
  ep_ended_at :: "instant option"
  ep_source_message_ids :: "uuid list"
  ep_created_by :: uuid
  ep_created_at :: instant
  ep_updated_at :: instant

record memory =
  mm_id :: uuid
  mm_lineage_id :: uuid
  mm_tenant_id :: uuid
  mm_agent_id :: uuid
  mm_user_id :: "uuid option"
  mm_conversation_id :: "uuid option"
  mm_episode_id :: "uuid option"
  mm_kind :: memory_kind
  mm_visibility :: memory_visibility
  mm_content :: "ustr option"
  mm_event_at :: instant
  mm_confidence :: rat
  mm_importance :: rat
  mm_emotional_weight :: rat
  mm_sensitivity :: memory_sensitivity
  mm_confirmation :: memory_confirmation
  mm_status :: memory_status
  mm_version :: int
  mm_embedding_version :: "ustr option"
  mm_created_by :: uuid
  mm_created_at :: instant
  mm_updated_at :: instant

record memory_source =
  ms_id :: uuid
  ms_tenant_id :: uuid
  ms_memory_id :: uuid
  ms_kind :: source_kind
  ms_source_id :: ustr
  ms_excerpt :: "ustr option"
  ms_is_verbatim :: bool
  ms_occurred_at :: instant
  ms_created_at :: instant

record memory_link =
  ml_id :: uuid
  ml_tenant_id :: uuid
  ml_source_memory_id :: uuid
  ml_target_memory_id :: uuid
  ml_kind :: link_kind
  ml_note :: "ustr option"
  ml_created_by :: uuid
  ml_created_at :: instant

record memory_embedding =
  mb_id :: uuid
  mb_tenant_id :: uuid
  mb_memory_id :: uuid
  mb_embedding_version :: ustr
  mb_dimensions :: int
  mb_vector :: "rat list"
  mb_active :: bool
  mb_created_at :: instant

record relationship =
  rl_id :: uuid
  rl_tenant_id :: uuid
  rl_agent_id :: uuid
  rl_user_id :: uuid
  rl_stage :: relationship_stage
  rl_affinity :: rat
  rl_trust :: rat
  rl_familiarity :: rat
  rl_interaction_count :: int
  rl_summary :: ustr
  rl_boundaries :: "ustr list"
  rl_version :: int
  rl_created_at :: instant
  rl_updated_at :: instant

record relationship_event =
  re_id :: uuid
  re_tenant_id :: uuid
  re_relationship_id :: uuid
  re_event_type :: ustr
  re_affinity_delta :: rat
  re_trust_delta :: rat
  re_familiarity_delta :: rat
  re_evidence_memory_id :: "uuid option"
  re_summary :: ustr
  re_created_by :: uuid
  re_created_at :: instant

record index_job =
  ix_id :: uuid
  ix_tenant_id :: uuid
  ix_agent_id :: uuid
  ix_user_id :: "uuid option"
  ix_target_embedding_version :: ustr
  ix_status :: index_status
  ix_total_items :: int
  ix_processed_items :: int
  ix_error_code :: "ustr option"
  ix_created_by :: uuid
  ix_created_at :: instant
  ix_started_at :: "instant option"
  ix_completed_at :: "instant option"

record raw_candidate =
  rm_memory :: memory
  rm_full_text_score :: rat
  rm_semantic_score :: rat
  rm_relationship_score :: rat

record memory_recall =
  rk_memory :: memory
  rk_score :: rat
  rk_components :: json_dict

record memory_detail =
  md_memory :: memory
  md_sources :: "memory_source list"
  md_links :: "memory_link list"

record relationship_detail =
  rd_relationship :: relationship
  rd_events :: "relationship_event list"

text \<open>\<open>_SENSITIVITY_ORDER\<close> of the repositories, which makes the levels a linear order.\<close>

fun sensitivity_order :: "memory_sensitivity \<Rightarrow> nat" where
  "sensitivity_order NORMAL = 0"
| "sensitivity_order PERSONAL = 1"
| "sensitivity_order SENSITIVE = 2"
| "sensitivity_order RESTRICTED = 3"

instantiation memory_sensitivity :: linorder
begin

definition less_eq_memory_sensitivity :: "memory_sensitivity \<Rightarrow> memory_sensitivity \<Rightarrow> bool" where
  "less_eq_memory_sensitivity a b \<longleftrightarrow> sensitivity_order a \<le> sensitivity_order b"

definition less_memory_sensitivity :: "memory_sensitivity \<Rightarrow> memory_sensitivity \<Rightarrow> bool" where
  "less_memory_sensitivity a b \<longleftrightarrow> sensitivity_order a < sensitivity_order b"

instance
proof
  show "a = b" if "a \<le> b" "b \<le> a" for a b :: memory_sensitivity
    using that by (cases a; cases b) (simp_all add: less_eq_memory_sensitivity_def)
qed (auto simp: less_eq_memory_sensitivity_def less_memory_sensitivity_def)

end

end
