(* ===== verification/Memory_Ranker.thy ===== *)
theory Memory_Ranker
  imports Memory_Domain Persona Context_Assembly
begin

text \<open>
  \<open>packages/cognition/.../memory.py\<close>: the deterministic n-gram embedding and the hybrid ranker of
  recalled memories, with the two scores the in-memory repository computes. Parameters, all of the
  standard library: \<open>fexp\<close> is \<open>math.exp\<close>, \<open>fsqrt\<close> is \<open>math.sqrt\<close>, \<open>fold_case\<close> is \<open>str.casefold\<close> and
  \<open>blake\<close> the number read from an 8-byte BLAKE2b digest. \<open>float_sum\<close> is the built-in \<open>sum\<close> over
  floats, which compensates rounding errors since Python 3.12.
\<close>

section \<open>Sums of floats\<close>

definition sum_step :: "rat \<Rightarrow> rat \<times> rat \<Rightarrow> rat \<times> rat" where
  "sum_step x rc = (let (r, c) = rc; t = fadd r x in
     (t, fadd c (if \<bar>x\<bar> \<le> \<bar>r\<bar> then fadd (fsub r t) x else fadd (fsub x t) r)))"

definition float_sum :: "rat list \<Rightarrow> rat" where
  "float_sum xs = (case xs of
     [] \<Rightarrow> 0
   | x # ys \<Rightarrow> (let (r, c) = fold sum_step ys (x, 0) in if c \<noteq> 0 then fadd r c else r))"

section \<open>The hash embedding\<close>

datatype encoder_error = SmallDimensions | EmptyVersion

record hash_embedding =
  he_dimensions :: nat
  he_version :: ustr

definition check_embedding :: "hash_embedding \<Rightarrow> encoder_error + hash_embedding" where
  "check_embedding e =
     (if he_dimensions e < 16 then Inl SmallDimensions
      else if strip (he_version e) = [] then Inl EmptyVersion else Inr e)"

definition is_surrogate :: "nat \<Rightarrow> bool" where
  "is_surrogate c \<longleftrightarrow> 55296 \<le> c \<and> c \<le> 57343"

text \<open>The text without case and white space, and its characters followed by its pairs of neighbours.\<close>

definition squeeze :: "(ustr \<Rightarrow> ustr) \<Rightarrow> ustr \<Rightarrow> ustr" where
  "squeeze fold_case s = join [] (split_words (fold_case s))"

definition grams :: "ustr \<Rightarrow> ustr list" where
  "grams s = map (\<lambda>c. [c]) s @ map (\<lambda>i. take 2 (drop i s)) [0..<length s - 1]"

definition add_gram :: "(ustr \<Rightarrow> nat) \<Rightarrow> nat \<Rightarrow> ustr \<Rightarrow> rat list \<Rightarrow> rat list" where
  "add_gram blake dimensions token vector =
     (let number = blake token; index = number mod dimensions in
      vector[index := fadd (vector ! index) (if odd number then - 1 else 1)])"

definition dot_self :: "rat list \<Rightarrow> rat" where
  "dot_self v = float_sum (map (\<lambda>x. fmul x x) v)"

text \<open>\<open>encode\<close>; a token with a lone surrogate is the \<open>UnicodeEncodeError\<close>, here \<open>None\<close>.\<close>

definition encode ::
    "(ustr \<Rightarrow> ustr) \<Rightarrow> (ustr \<Rightarrow> nat) \<Rightarrow> (rat \<Rightarrow> rat) \<Rightarrow> hash_embedding \<Rightarrow> ustr \<Rightarrow> rat list option" where
  "encode fold_case blake fsqrt e content =
     (let normalized = squeeze fold_case content in
      if normalized = [] then Some (replicate (he_dimensions e) 0)
      else if list_ex is_surrogate normalized then None
      else
        (let vector = fold (add_gram blake (he_dimensions e)) (grams normalized) (replicate (he_dimensions e) 0);
             norm = fsqrt (dot_self vector)
         in Some (if norm = 0 then vector else map (\<lambda>x. fdiv x norm) vector)))"

section \<open>Scores of the in-memory repository\<close>

definition text_score :: "(ustr \<Rightarrow> ustr) \<Rightarrow> ustr \<Rightarrow> ustr \<Rightarrow> rat" where
  "text_score fold_case query content =
     (let q = set (grams (squeeze fold_case query)) in
      if q = {} then 0
      else fdiv (of_nat (card (q \<inter> set (grams (squeeze fold_case content))))) (of_nat (card q)))"

definition cosine :: "(rat \<Rightarrow> rat) \<Rightarrow> rat list \<Rightarrow> rat list \<Rightarrow> rat" where
  "cosine fsqrt left right =
     (if length left \<noteq> length right then 0
      else
        (let denominator = fmul (fsqrt (dot_self left)) (fsqrt (dot_self right)) in
         if denominator = 0 then 0
         else fdiv (float_sum (map (\<lambda>(a, b). fmul a b) (zip left right))) denominator))"

section \<open>The ranker\<close>

record recall_weights =
  rw_full_text :: rat
  rw_semantic :: rat
  rw_recency :: rat
  rw_importance :: rat
  rw_relationship :: rat

datatype rank_error = BadWeights | BadRecallLimit | BadRecencyHalfLife

definition weight_values :: "recall_weights \<Rightarrow> rat list" where
  "weight_values w = [rw_full_text w, rw_semantic w, rw_recency w, rw_importance w, rw_relationship w]"

definition check_weights :: "recall_weights \<Rightarrow> rank_error + recall_weights" where
  "check_weights w =
     (if list_ex (\<lambda>v. v < 0) (weight_values w) \<or> float_sum (weight_values w) \<le> 0 then Inl BadWeights else Inr w)"

definition unit :: "rat \<Rightarrow> rat" where
  "unit x = max 0 (min 1 x)"

definition total_weight :: "recall_weights \<Rightarrow> rat" where
  "total_weight w = fadd (fadd (fadd (fadd (rw_full_text w) (rw_semantic w)) (rw_recency w))
     (rw_importance w)) (rw_relationship w)"

definition recency_of :: "(rat \<Rightarrow> rat) \<Rightarrow> instant \<Rightarrow> rat \<Rightarrow> memory \<Rightarrow> rat" where
  "recency_of fexp evaluated_at half_life_days m =
     (let age_days = max 0 (fdiv (total_seconds (evaluated_at - mm_event_at m)) 86400) in
      fexp (fdiv (fmul (- log_2) age_days) half_life_days))"

definition weighted_score :: "recall_weights \<Rightarrow> rat \<Rightarrow> rat \<Rightarrow> rat \<Rightarrow> rat \<Rightarrow> rat \<Rightarrow> rat" where
  "weighted_score w full_text semantic recency importance relationship =
     fdiv (fadd (fadd (fadd (fadd (fmul full_text (rw_full_text w)) (fmul semantic (rw_semantic w)))
         (fmul recency (rw_recency w))) (fmul importance (rw_importance w)))
         (fmul relationship (rw_relationship w))) (total_weight w)"

definition confidence_factor :: "rat \<Rightarrow> rat" where
  "confidence_factor c = fadd (rnd (45 / 100)) (fmul c (rnd (55 / 100)))"

definition confirmation_bonus :: "memory_confirmation \<Rightarrow> rat" where
  "confirmation_bonus c = (if c = CONFIRMED then rnd (5 / 100) else 0)"

definition recall_score :: "(rat \<Rightarrow> rat) \<Rightarrow> instant \<Rightarrow> rat \<Rightarrow> recall_weights \<Rightarrow> raw_candidate \<Rightarrow> rat" where
  "recall_score fexp evaluated_at half_life_days w c =
     (let m = rm_memory c in
      min 1 (fadd (fmul (weighted_score w (unit (rm_full_text_score c)) (unit (rm_semantic_score c))
            (recency_of fexp evaluated_at half_life_days m) (mm_importance m) (unit (rm_relationship_score c)))
          (confidence_factor (mm_confidence m)))
        (confirmation_bonus (mm_confirmation m))))"

definition score_components :: "(rat \<Rightarrow> rat) \<Rightarrow> instant \<Rightarrow> rat \<Rightarrow> raw_candidate \<Rightarrow> json_dict" where
  "score_components fexp evaluated_at half_life_days c =
     (let m = rm_memory c; r = \<lambda>x. JFloat (round_digits 6 x) in
      [(lit ''full_text'', r (unit (rm_full_text_score c))), (lit ''semantic'', r (unit (rm_semantic_score c))),
       (lit ''recency'', r (recency_of fexp evaluated_at half_life_days m)),
       (lit ''importance'', r (mm_importance m)), (lit ''relationship'', r (unit (rm_relationship_score c))),
       (lit ''confidence'', r (mm_confidence m)), (lit ''ranker_version'', JStr (lit ''hybrid-v1''))])"

definition recall_of :: "(rat \<Rightarrow> rat) \<Rightarrow> instant \<Rightarrow> rat \<Rightarrow> recall_weights \<Rightarrow> raw_candidate \<Rightarrow> memory_recall" where
  "recall_of fexp evaluated_at half_life_days w c =
     \<lparr>rk_memory = rm_memory c, rk_score = recall_score fexp evaluated_at half_life_days w c,
      rk_components = score_components fexp evaluated_at half_life_days c\<rparr>"

definition recall_key :: "memory_recall \<Rightarrow> rat \<times> instant \<times> uuid" where
  "recall_key r = (rk_score r, mm_event_at (rk_memory r), mm_id (rk_memory r))"

definition rank ::
    "(rat \<Rightarrow> rat) \<Rightarrow> raw_candidate list \<Rightarrow> instant \<Rightarrow> int \<Rightarrow> rat \<Rightarrow> recall_weights \<Rightarrow>
       rank_error + memory_recall list" where
  "rank fexp candidates evaluated_at limit half_life_days w =
     (if limit < 1 then Inl BadRecallLimit
      else if half_life_days \<le> 0 then Inl BadRecencyHalfLife
      else Inr (take (nat limit)
        (sorted_by_desc recall_key (map (recall_of fexp evaluated_at half_life_days w) candidates))))"

section \<open>Scores are bounded and monotone\<close>

lemma unit_bounds: "0 \<le> unit x \<and> unit x \<le> 1"
  by (simp add: unit_def)

lemma unit_mono: "x \<le> y \<Longrightarrow> unit x \<le> unit y"
  by (simp add: unit_def max_def min_def)

lemma fadd_nonneg: "0 \<le> a \<Longrightarrow> 0 \<le> b \<Longrightarrow> 0 \<le> fadd a b"
  by (simp add: fadd_def rnd_nonneg)

lemma fmul_nonneg: "0 \<le> a \<Longrightarrow> 0 \<le> b \<Longrightarrow> 0 \<le> fmul a b"
  by (simp add: fmul_def rnd_nonneg)

lemma fdiv_nonneg: "0 \<le> a \<Longrightarrow> 0 \<le> b \<Longrightarrow> 0 \<le> fdiv a b"
  by (simp add: fdiv_def rnd_nonneg)

definition weights_ok :: "recall_weights \<Rightarrow> bool" where
  "weights_ok w \<longleftrightarrow> check_weights w = Inr w"

lemma weights_nonneg:
  "weights_ok w \<Longrightarrow> 0 \<le> rw_full_text w \<and> 0 \<le> rw_semantic w \<and> 0 \<le> rw_recency w \<and>
     0 \<le> rw_importance w \<and> 0 \<le> rw_relationship w"
  by (auto simp: weights_ok_def check_weights_def weight_values_def split: if_splits)

lemma total_weight_nonneg: "weights_ok w \<Longrightarrow> 0 \<le> total_weight w"
  using weights_nonneg[of w] by (simp add: total_weight_def fadd_nonneg)

lemma recency_unit:
  assumes "decays fexp" and "0 < half"
  shows "0 \<le> recency_of fexp now half m \<and> recency_of fexp now half m \<le> 1"
proof -
  define age where "age = max 0 (fdiv (total_seconds (now - mm_event_at m)) 86400)"
  have a: "0 \<le> age" by (simp add: age_def)
  then have "fmul (- log_2) age \<le> 0"
    using rnd_mono[of "(- log_2) * age" 0] by (simp add: fmul_def log_2_def)
  then have "fdiv (fmul (- log_2) age) half \<le> 0"
    using assms(2) rnd_mono[of "fmul (- log_2) age / half" 0] by (simp add: fdiv_def divide_le_0_iff)
  then show ?thesis using assms(1) by (simp add: recency_of_def decays_def age_def[symmetric])
qed

lemma weighted_mono:
  assumes "weights_ok w" and "a \<le> a'" and "b \<le> b'" and "c \<le> c'" and "d \<le> d'" and "e \<le> e'"
  shows "weighted_score w a b c d e \<le> weighted_score w a' b' c' d' e'"
proof (cases "total_weight w = 0")
  case True
  then show ?thesis by (simp add: weighted_score_def fdiv_def)
next
  case False
  then have "0 < total_weight w" using total_weight_nonneg[OF assms(1)] by simp
  then show ?thesis
    unfolding weighted_score_def
    by (intro fdiv_mono fadd_mono fmul_mono assms) (use weights_nonneg[OF assms(1)] in auto)
qed

lemma weighted_nonneg:
  assumes "weights_ok w" and "0 \<le> a" "0 \<le> b" "0 \<le> c" "0 \<le> d" "0 \<le> e"
  shows "0 \<le> weighted_score w a b c d e"
  using weights_nonneg[OF assms(1)] total_weight_nonneg[OF assms(1)] assms(2-)
  unfolding weighted_score_def by (intro fdiv_nonneg fadd_nonneg fmul_nonneg) auto

lemma confidence_factor_nonneg: "0 \<le> c \<Longrightarrow> 0 \<le> confidence_factor c"
  by (simp add: confidence_factor_def fadd_nonneg fmul_nonneg rnd_nonneg)

lemma recall_score_unit:
  assumes "weights_ok w" and "decays fexp" and "0 < half" and "0 \<le> mm_importance (rm_memory c)"
    and "0 \<le> mm_confidence (rm_memory c)"
  shows "0 \<le> recall_score fexp now half w c \<and> recall_score fexp now half w c \<le> 1"
proof -
  have "0 \<le> weighted_score w (unit (rm_full_text_score c)) (unit (rm_semantic_score c))
      (recency_of fexp now half (rm_memory c)) (mm_importance (rm_memory c)) (unit (rm_relationship_score c))"
    using assms unit_bounds recency_unit[OF assms(2,3)] by (intro weighted_nonneg) auto
  moreover have "0 \<le> confirmation_bonus (mm_confirmation (rm_memory c))"
    by (simp add: confirmation_bonus_def rnd_nonneg)
  ultimately show ?thesis
    using confidence_factor_nonneg[OF assms(5)]
    by (simp add: recall_score_def Let_def fadd_nonneg fmul_nonneg)
qed

text \<open>A candidate for the same memory with scores at least as high ranks at least as high.\<close>

lemma recall_score_mono:
  assumes "weights_ok w" and "0 \<le> mm_confidence (rm_memory c)" and "rm_memory c = rm_memory d"
    and "rm_full_text_score c \<le> rm_full_text_score d" and "rm_semantic_score c \<le> rm_semantic_score d"
    and "rm_relationship_score c \<le> rm_relationship_score d"
  shows "recall_score fexp now half w c \<le> recall_score fexp now half w d"
proof -
  have "weighted_score w (unit (rm_full_text_score c)) (unit (rm_semantic_score c))
      (recency_of fexp now half (rm_memory c)) (mm_importance (rm_memory c)) (unit (rm_relationship_score c)) \<le>
    weighted_score w (unit (rm_full_text_score d)) (unit (rm_semantic_score d))
      (recency_of fexp now half (rm_memory d)) (mm_importance (rm_memory d)) (unit (rm_relationship_score d))"
    unfolding assms(3) by (intro weighted_mono assms(1) unit_mono assms(4-6)) auto
  then have "fadd (fmul (weighted_score w (unit (rm_full_text_score c)) (unit (rm_semantic_score c))
      (recency_of fexp now half (rm_memory c)) (mm_importance (rm_memory c)) (unit (rm_relationship_score c)))
      (confidence_factor (mm_confidence (rm_memory c)))) (confirmation_bonus (mm_confirmation (rm_memory c))) \<le>
    fadd (fmul (weighted_score w (unit (rm_full_text_score d)) (unit (rm_semantic_score d))
      (recency_of fexp now half (rm_memory d)) (mm_importance (rm_memory d)) (unit (rm_relationship_score d)))
      (confidence_factor (mm_confidence (rm_memory d)))) (confirmation_bonus (mm_confirmation (rm_memory d)))"
    unfolding assms(3) using confidence_factor_nonneg[OF assms(2)]
    by (intro fadd_mono fmul_mono) (simp_all add: assms(3))
  then show ?thesis by (simp add: recall_score_def Let_def min_le_iff_disj min.coboundedI2)
qed

end
