(* ===== verification/Memory_Store.thy ===== *)
theory Memory_Store
  imports Memory_Ranker
begin

text \<open>
  \<open>InMemoryMemoryRepository\<close> (\<open>packages/infrastructure/.../memory_repository.py\<close>): its eight
  dictionaries as a record, and every method as a function of the state. A method holds the lock of
  the repository while it runs, so it is one atomic step. No method raises.
\<close>

record memory_store =
  episode_map :: "(uuid, episode) dict"
  memory_map :: "(uuid, memory) dict"
  source_map :: "(uuid, memory_source list) dict"
  link_map :: "(uuid, memory_link) dict"
  embedding_map :: "(uuid, memory_embedding list) dict"
  relationship_map :: "(uuid \<times> uuid \<times> uuid, relationship) dict"
  relationship_event_map :: "(uuid, relationship_event list) dict"
  index_job_map :: "(uuid, index_job) dict"

definition empty_memory_store :: memory_store where
  "empty_memory_store = \<lparr>episode_map = [], memory_map = [], source_map = [], link_map = [],
     embedding_map = [], relationship_map = [], relationship_event_map = [], index_job_map = []\<rparr>"

text \<open>\<open>dict.get(key, ())\<close> for a dictionary of lists, and \<open>rows[:limit]\<close> of the sorted rows.\<close>

definition get_list :: "('k, 'v list) dict \<Rightarrow> 'k \<Rightarrow> 'v list" where
  "get_list d k = (case dict_get d k of None \<Rightarrow> [] | Some vs \<Rightarrow> vs)"

definition dict_pop :: "'k \<Rightarrow> ('k, 'v) dict \<Rightarrow> ('k, 'v) dict" where
  "dict_pop k d = filter (\<lambda>(l, _). l \<noteq> k) d"

section \<open>Episodes\<close>

definition mem_list_episodes :: "uuid \<Rightarrow> uuid \<Rightarrow> uuid option \<Rightarrow> int \<Rightarrow> memory_store \<Rightarrow> episode list" where
  "mem_list_episodes tenant_id agent_id user_id limit s =
     py_take limit (sorted_by_desc (\<lambda>e. (ep_started_at e, ep_id e))
       (filter (\<lambda>e. ep_tenant_id e = tenant_id \<and> ep_agent_id e = agent_id \<and>
           (user_id = None \<or> user_id = Some (ep_user_id e))) (dict_values (episode_map s))))"

definition mem_create_episode :: "episode \<Rightarrow> memory_store \<Rightarrow> episode \<times> memory_store" where
  "mem_create_episode e s = (e, s\<lparr>episode_map := dict_set (ep_id e) e (episode_map s)\<rparr>)"

definition first_of :: "'a option \<Rightarrow> 'a option \<Rightarrow> 'a option" where
  "first_of a b = (case a of None \<Rightarrow> b | Some x \<Rightarrow> Some x)"

definition ended_episode :: "episode_status \<Rightarrow> instant option \<Rightarrow> episode \<Rightarrow> episode" where
  "ended_episode status ended_at e =
     e\<lparr>ep_status := status, ep_ended_at := first_of ended_at (ep_ended_at e),
       ep_updated_at := (case ended_at of None \<Rightarrow> ep_updated_at e | Some t \<Rightarrow> t)\<rparr>"

definition mem_set_episode_status ::
    "uuid \<Rightarrow> uuid \<Rightarrow> uuid \<Rightarrow> episode_status \<Rightarrow> instant option \<Rightarrow> memory_store \<Rightarrow> episode option \<times> memory_store" where
  "mem_set_episode_status episode_id tenant_id agent_id status ended_at s =
     (case dict_get (episode_map s) episode_id of
        None \<Rightarrow> (None, s)
      | Some e \<Rightarrow>
          if ep_tenant_id e \<noteq> tenant_id \<or> ep_agent_id e \<noteq> agent_id then (None, s)
          else (let e' = ended_episode status ended_at e
                in (Some e', s\<lparr>episode_map := dict_set episode_id e' (episode_map s)\<rparr>)))"

section \<open>Memories\<close>

definition mem_list_memories ::
    "(ustr \<Rightarrow> ustr) \<Rightarrow> uuid \<Rightarrow> uuid \<Rightarrow> uuid option \<Rightarrow> memory_status option \<Rightarrow> memory_kind option \<Rightarrow>
       ustr option \<Rightarrow> int \<Rightarrow> memory_store \<Rightarrow> memory list" where
  "mem_list_memories fold_case tenant_id agent_id user_id status kind query limit s =
     (let needle = (case query of None \<Rightarrow> None | Some q \<Rightarrow> if q = [] then None else Some (fold_case q)) in
      py_take limit (sorted_by_desc (\<lambda>m. (mm_updated_at m, mm_id m))
        (filter (\<lambda>m. mm_tenant_id m = tenant_id \<and> mm_agent_id m = agent_id \<and>
            (user_id = None \<or> mm_user_id m = None \<or> mm_user_id m = user_id) \<and>
            (status = None \<or> status = Some (mm_status m)) \<and> (kind = None \<or> kind = Some (mm_kind m)) \<and>
            (case needle of None \<Rightarrow> True
             | Some n \<Rightarrow> contains n (fold_case (case mm_content m of None \<Rightarrow> [] | Some c \<Rightarrow> c))))
          (dict_values (memory_map s)))))"

definition in_scope :: "uuid \<Rightarrow> uuid \<Rightarrow> memory \<Rightarrow> bool" where
  "in_scope tenant_id agent_id m \<longleftrightarrow> mm_tenant_id m = tenant_id \<and> mm_agent_id m = agent_id"

definition mem_get_memory_detail :: "uuid \<Rightarrow> uuid \<Rightarrow> uuid \<Rightarrow> memory_store \<Rightarrow> memory_detail option" where
  "mem_get_memory_detail memory_id tenant_id agent_id s =
     (case dict_get (memory_map s) memory_id of
        None \<Rightarrow> None
      | Some m \<Rightarrow>
          if \<not> in_scope tenant_id agent_id m then None
          else Some \<lparr>md_memory = m, md_sources = get_list (source_map s) memory_id,
            md_links = filter (\<lambda>l. ml_tenant_id l = tenant_id \<and>
              (ml_source_memory_id l = memory_id \<or> ml_target_memory_id l = memory_id))
              (dict_values (link_map s))\<rparr>)"

definition mem_create_memory ::
    "memory \<Rightarrow> memory_source list \<Rightarrow> memory_embedding \<Rightarrow> memory_store \<Rightarrow> memory_detail \<times> memory_store" where
  "mem_create_memory m sources embedding s =
     (\<lparr>md_memory = m, md_sources = sources, md_links = []\<rparr>,
      s\<lparr>memory_map := dict_set (mm_id m) m (memory_map s),
        source_map := dict_set (mm_id m) sources (source_map s),
        embedding_map := dict_set (mm_id m) [embedding] (embedding_map s)\<rparr>)"

definition confirmed_memory :: "memory_confirmation \<Rightarrow> rat \<Rightarrow> instant \<Rightarrow> memory \<Rightarrow> memory" where
  "confirmed_memory confirmation confidence updated_at m =
     m\<lparr>mm_confirmation := confirmation, mm_confidence := confidence, mm_updated_at := updated_at\<rparr>"

definition mem_set_confirmation ::
    "uuid \<Rightarrow> uuid \<Rightarrow> uuid \<Rightarrow> memory_confirmation \<Rightarrow> rat \<Rightarrow> instant \<Rightarrow> memory_store \<Rightarrow>
       memory option \<times> memory_store" where
  "mem_set_confirmation memory_id tenant_id agent_id confirmation confidence updated_at s =
     (case dict_get (memory_map s) memory_id of
        None \<Rightarrow> (None, s)
      | Some m \<Rightarrow>
          if \<not> in_scope tenant_id agent_id m \<or> mm_status m \<noteq> MEMORY_ACTIVE then (None, s)
          else (let m' = confirmed_memory confirmation confidence updated_at m
                in (Some m', s\<lparr>memory_map := dict_set memory_id m' (memory_map s)\<rparr>)))"

definition superseded_memory :: "instant \<Rightarrow> memory \<Rightarrow> memory" where
  "superseded_memory updated_at m = m\<lparr>mm_status := MEMORY_SUPERSEDED, mm_updated_at := updated_at\<rparr>"

definition mem_correct_memory ::
    "uuid \<Rightarrow> memory \<Rightarrow> memory_source \<Rightarrow> memory_embedding \<Rightarrow> memory_link \<Rightarrow> memory_store \<Rightarrow>
       memory_detail option \<times> memory_store" where
  "mem_correct_memory source_id replacement correction_source embedding link s =
     (case dict_get (memory_map s) source_id of
        None \<Rightarrow> (None, s)
      | Some source \<Rightarrow>
          if mm_status source \<noteq> MEMORY_ACTIVE then (None, s)
          else
            (Some \<lparr>md_memory = replacement, md_sources = [correction_source], md_links = [link]\<rparr>,
             s\<lparr>memory_map := dict_set (mm_id replacement) replacement
                 (dict_set source_id (superseded_memory (mm_updated_at replacement) source) (memory_map s)),
               source_map := dict_set (mm_id replacement) [correction_source] (source_map s),
               embedding_map := dict_set (mm_id replacement) [embedding] (embedding_map s),
               link_map := dict_set (ml_id link) link (link_map s)\<rparr>))"

definition forgotten_memory :: "instant \<Rightarrow> memory \<Rightarrow> memory" where
  "forgotten_memory updated_at m =
     m\<lparr>mm_content := None, mm_status := MEMORY_FORGOTTEN, mm_embedding_version := None,
       mm_updated_at := updated_at\<rparr>"

definition anonymous_source :: "memory_source \<Rightarrow> memory_source" where
  "anonymous_source x = x\<lparr>ms_excerpt := None, ms_is_verbatim := False\<rparr>"

definition mem_forget_memory ::
    "uuid \<Rightarrow> uuid \<Rightarrow> uuid \<Rightarrow> instant \<Rightarrow> memory_store \<Rightarrow> memory option \<times> memory_store" where
  "mem_forget_memory memory_id tenant_id agent_id updated_at s =
     (case dict_get (memory_map s) memory_id of
        None \<Rightarrow> (None, s)
      | Some m \<Rightarrow>
          if \<not> in_scope tenant_id agent_id m then (None, s)
          else
            (Some (forgotten_memory updated_at m),
             s\<lparr>memory_map := dict_set memory_id (forgotten_memory updated_at m) (memory_map s),
               source_map := dict_set memory_id (map anonymous_source (get_list (source_map s) memory_id))
                 (source_map s),
               embedding_map := dict_pop memory_id (embedding_map s)\<rparr>))"

definition mem_create_memory_link :: "memory_link \<Rightarrow> memory_store \<Rightarrow> memory_link \<times> memory_store" where
  "mem_create_memory_link l s = (l, s\<lparr>link_map := dict_set (ml_id l) l (link_map s)\<rparr>)"

section \<open>Recall\<close>

definition visible :: "uuid \<Rightarrow> uuid \<Rightarrow> uuid \<Rightarrow> memory \<Rightarrow> bool" where
  "visible tenant_id agent_id user_id m \<longleftrightarrow>
     (if mm_tenant_id m \<noteq> tenant_id then False
      else if mm_visibility m = VISIBLE_TENANT then True
      else if mm_agent_id m \<noteq> agent_id then False
      else if mm_visibility m = VISIBLE_AGENT then True
      else mm_user_id m = Some user_id)"

definition recallable :: "uuid \<Rightarrow> uuid \<Rightarrow> uuid \<Rightarrow> memory_sensitivity \<Rightarrow> memory \<Rightarrow> bool" where
  "recallable tenant_id agent_id user_id maximum_sensitivity m \<longleftrightarrow>
     visible tenant_id agent_id user_id m \<and> mm_status m = MEMORY_ACTIVE \<and> mm_content m \<noteq> None \<and>
     \<not> mm_sensitivity m > maximum_sensitivity"

definition active_embedding :: "ustr \<Rightarrow> memory_embedding list \<Rightarrow> memory_embedding option" where
  "active_embedding version es = find (\<lambda>b. mb_active b \<and> mb_embedding_version b = version) es"

definition candidate_of ::
    "(ustr \<Rightarrow> ustr) \<Rightarrow> (rat \<Rightarrow> rat) \<Rightarrow> ustr \<Rightarrow> rat list \<Rightarrow> ustr \<Rightarrow> relationship option \<Rightarrow> uuid \<Rightarrow>
       memory_store \<Rightarrow> memory \<Rightarrow> raw_candidate" where
  "candidate_of fold_case fsqrt query query_embedding version relation user_id s m =
     \<lparr>rm_memory = m,
      rm_full_text_score = text_score fold_case query (case mm_content m of None \<Rightarrow> [] | Some c \<Rightarrow> c),
      rm_semantic_score = max 0
        (case active_embedding version (get_list (embedding_map s) (mm_id m)) of
           None \<Rightarrow> 0 | Some b \<Rightarrow> cosine fsqrt query_embedding (mb_vector b)),
      rm_relationship_score =
        (case relation of None \<Rightarrow> 0 | Some r \<Rightarrow> if mm_user_id m = Some user_id then rl_familiarity r else 0)\<rparr>"

definition candidate_key :: "raw_candidate \<Rightarrow> rat \<times> rat \<times> instant" where
  "candidate_key c = (max (rm_full_text_score c) (rm_semantic_score c), mm_importance (rm_memory c),
     mm_event_at (rm_memory c))"

definition mem_search_candidates ::
    "(ustr \<Rightarrow> ustr) \<Rightarrow> (rat \<Rightarrow> rat) \<Rightarrow> uuid \<Rightarrow> uuid \<Rightarrow> uuid \<Rightarrow> ustr \<Rightarrow> rat list \<Rightarrow> ustr \<Rightarrow>
       memory_sensitivity \<Rightarrow> int \<Rightarrow> memory_store \<Rightarrow> raw_candidate list" where
  "mem_search_candidates fold_case fsqrt tenant_id agent_id user_id query query_embedding version
       maximum_sensitivity limit s =
     (let relation = dict_get (relationship_map s) (tenant_id, agent_id, user_id) in
      py_take limit (sorted_by_desc candidate_key
        (map (candidate_of fold_case fsqrt query query_embedding version relation user_id s)
          (filter (recallable tenant_id agent_id user_id maximum_sensitivity) (dict_values (memory_map s))))))"

section \<open>Relationships\<close>

definition mem_get_relationship_detail ::
    "uuid \<Rightarrow> uuid \<Rightarrow> uuid \<Rightarrow> memory_store \<Rightarrow> relationship_detail option" where
  "mem_get_relationship_detail tenant_id agent_id user_id s =
     (case dict_get (relationship_map s) (tenant_id, agent_id, user_id) of
        None \<Rightarrow> None
      | Some r \<Rightarrow> Some \<lparr>rd_relationship = r, rd_events = get_list (relationship_event_map s) (rl_id r)\<rparr>)"

definition scope_of :: "relationship \<Rightarrow> uuid \<times> uuid \<times> uuid" where
  "scope_of r = (rl_tenant_id r, rl_agent_id r, rl_user_id r)"

definition event_recorded :: "uuid \<Rightarrow> memory_store \<Rightarrow> bool" where
  "event_recorded event_id s \<longleftrightarrow>
     list_ex (list_ex (\<lambda>e. re_id e = event_id)) (dict_values (relationship_event_map s))"

definition store_relationship_event ::
    "relationship \<Rightarrow> relationship_event \<Rightarrow> memory_store \<Rightarrow> relationship_detail \<times> memory_store" where
  "store_relationship_event r e s =
     (let events = get_list (relationship_event_map s) (rl_id r) @ [e] in
      (\<lparr>rd_relationship = r, rd_events = events\<rparr>,
       s\<lparr>relationship_map := dict_set (scope_of r) r (relationship_map s),
         relationship_event_map := dict_set (rl_id r) events (relationship_event_map s)\<rparr>))"

definition mem_apply_relationship_event ::
    "relationship \<Rightarrow> relationship_event \<Rightarrow> memory_store \<Rightarrow> relationship_detail \<times> memory_store" where
  "mem_apply_relationship_event r e s =
     (if event_recorded (re_id e) s then
        (case dict_get (relationship_map s) (scope_of r) of
           None \<Rightarrow> store_relationship_event r e s
         | Some current \<Rightarrow>
             (\<lparr>rd_relationship = current, rd_events = get_list (relationship_event_map s) (rl_id current)\<rparr>, s))
      else store_relationship_event r e s)"

section \<open>Index jobs and embeddings\<close>

definition indexable :: "uuid \<Rightarrow> uuid \<Rightarrow> uuid option \<Rightarrow> memory \<Rightarrow> bool" where
  "indexable tenant_id agent_id user_id m \<longleftrightarrow> in_scope tenant_id agent_id m \<and>
     mm_status m = MEMORY_ACTIVE \<and> mm_content m \<noteq> None \<and> (user_id = None \<or> mm_user_id m = user_id)"

definition mem_list_memories_for_embedding :: "uuid \<Rightarrow> uuid \<Rightarrow> uuid option \<Rightarrow> memory_store \<Rightarrow> memory list" where
  "mem_list_memories_for_embedding tenant_id agent_id user_id s =
     filter (indexable tenant_id agent_id user_id) (dict_values (memory_map s))"

definition mem_put_index_job :: "index_job \<Rightarrow> memory_store \<Rightarrow> index_job \<times> memory_store" where
  "mem_put_index_job j s = (j, s\<lparr>index_job_map := dict_set (ix_id j) j (index_job_map s)\<rparr>)"

definition mem_get_index_job :: "uuid \<Rightarrow> uuid \<Rightarrow> uuid \<Rightarrow> memory_store \<Rightarrow> index_job option" where
  "mem_get_index_job tenant_id agent_id job_id s =
     (case dict_get (index_job_map s) job_id of
        None \<Rightarrow> None
      | Some j \<Rightarrow> if ix_tenant_id j \<noteq> tenant_id \<or> ix_agent_id j \<noteq> agent_id then None else Some j)"

definition mem_list_index_jobs :: "uuid \<Rightarrow> uuid \<Rightarrow> int \<Rightarrow> memory_store \<Rightarrow> index_job list" where
  "mem_list_index_jobs tenant_id agent_id limit s =
     py_take limit (sorted_by_desc (\<lambda>j. (ix_created_at j, ix_id j))
       (filter (\<lambda>j. ix_tenant_id j = tenant_id \<and> ix_agent_id j = agent_id) (dict_values (index_job_map s))))"

text \<open>The embeddings that stay beside a new one: the inactive ones of other versions.\<close>

definition replaced_embeddings :: "memory_embedding \<Rightarrow> memory_embedding list \<Rightarrow> memory_embedding list" where
  "replaced_embeddings b es =
     filter (\<lambda>x. mb_embedding_version x \<noteq> mb_embedding_version b) (map (\<lambda>x. x\<lparr>mb_active := False\<rparr>) es) @ [b]"

definition indexed_memory :: "ustr \<Rightarrow> instant \<Rightarrow> memory \<Rightarrow> memory" where
  "indexed_memory version updated_at m = m\<lparr>mm_embedding_version := Some version, mm_updated_at := updated_at\<rparr>"

definition mem_replace_embedding ::
    "uuid \<Rightarrow> uuid \<Rightarrow> memory_embedding \<Rightarrow> instant \<Rightarrow> memory_store \<Rightarrow> memory_store" where
  "mem_replace_embedding memory_id tenant_id b updated_at s =
     (case dict_get (memory_map s) memory_id of
        None \<Rightarrow> s
      | Some m \<Rightarrow>
          if mm_tenant_id m \<noteq> tenant_id then s
          else s\<lparr>embedding_map := dict_set memory_id
                   (replaced_embeddings b (get_list (embedding_map s) memory_id)) (embedding_map s),
                 memory_map := dict_set memory_id
                   (indexed_memory (mb_embedding_version b) updated_at m) (memory_map s)\<rparr>)"

section \<open>Laws of the small operations\<close>

lemma dict_pop_get [dict_laws, simp]: "dict_get (dict_pop k d) l = (if l = k then None else dict_get d l)"
  by (induction d) (auto simp: dict_pop_def dict_get_def)

lemma dict_pop_ok [simp, intro]: "dict_ok d \<Longrightarrow> dict_ok (dict_pop k d)"
  by (induction d) (auto simp: dict_pop_def dict_ok_def)

lemma get_list_set [simp]: "get_list (dict_set k v d) l = (if l = k then v else get_list d l)"
  by (simp add: get_list_def)

lemma get_list_pop [simp]: "get_list (dict_pop k d) l = (if l = k then [] else get_list d l)"
  by (simp add: get_list_def)

lemma get_list_Nil [simp]: "get_list [] k = []"
  by (simp add: get_list_def dict_get_def)

end
