(* ===== verification/Memory_Service.thy ===== *)
theory Memory_Service
  imports Memory_Store
begin

text \<open>
  \<open>MemoryService\<close> (\<open>packages/application/.../memory_service.py\<close>) over its port \<open>MemoryRepository\<close>.
  The port is the record \<open>memory_repository\<close> of the methods the service calls: a method takes the
  state and returns an exception or a result with the new state, so a raising method changes
  nothing. What the service draws from outside is an argument: \<open>now\<close> for \<open>datetime.now(UTC)\<close>,
  \<open>new_id\<close> for \<open>uuid4()\<close>, \<open>uuid5\<close> for the hash of names. The embedding encoder is the record
  \<open>text_encoder\<close>; an encoding of a lone surrogate is the \<open>UnicodeEncodeError\<close>.
\<close>

section \<open>The ports\<close>

record text_encoder =
  te_version :: ustr
  te_dimensions :: nat
  te_encode :: "ustr \<Rightarrow> rat list option"

definition hash_encoder :: "(ustr \<Rightarrow> ustr) \<Rightarrow> (ustr \<Rightarrow> nat) \<Rightarrow> (rat \<Rightarrow> rat) \<Rightarrow> hash_embedding \<Rightarrow> text_encoder" where
  "hash_encoder fold_case blake fsqrt e = \<lparr>te_version = he_version e, te_dimensions = he_dimensions e,
     te_encode = encode fold_case blake fsqrt e\<rparr>"

record ('s, 'e) memory_repository =
  mr_list_episodes :: "uuid \<Rightarrow> uuid \<Rightarrow> uuid option \<Rightarrow> int \<Rightarrow> 's \<Rightarrow> 'e + episode list"
  mr_create_episode :: "episode \<Rightarrow> 's \<Rightarrow> 'e + (episode \<times> 's)"
  mr_set_episode_status ::
    "uuid \<Rightarrow> uuid \<Rightarrow> uuid \<Rightarrow> episode_status \<Rightarrow> instant option \<Rightarrow> uuid \<Rightarrow> 's \<Rightarrow> 'e + (episode option \<times> 's)"
  mr_list_memories :: "uuid \<Rightarrow> uuid \<Rightarrow> uuid option \<Rightarrow> memory_status option \<Rightarrow> memory_kind option \<Rightarrow>
    ustr option \<Rightarrow> int \<Rightarrow> 's \<Rightarrow> 'e + memory list"
  mr_get_memory_detail :: "uuid \<Rightarrow> uuid \<Rightarrow> uuid \<Rightarrow> 's \<Rightarrow> 'e + memory_detail option"
  mr_create_memory :: "memory \<Rightarrow> memory_source list \<Rightarrow> memory_embedding \<Rightarrow> 's \<Rightarrow> 'e + (memory_detail \<times> 's)"
  mr_set_confirmation :: "uuid \<Rightarrow> uuid \<Rightarrow> uuid \<Rightarrow> memory_confirmation \<Rightarrow> rat \<Rightarrow> instant \<Rightarrow> uuid \<Rightarrow> 's \<Rightarrow>
    'e + (memory option \<times> 's)"
  mr_correct_memory :: "uuid \<Rightarrow> memory \<Rightarrow> memory_source \<Rightarrow> memory_embedding \<Rightarrow> memory_link \<Rightarrow> 's \<Rightarrow>
    'e + (memory_detail option \<times> 's)"
  mr_forget_memory :: "uuid \<Rightarrow> uuid \<Rightarrow> uuid \<Rightarrow> instant \<Rightarrow> uuid \<Rightarrow> 's \<Rightarrow> 'e + (memory option \<times> 's)"
  mr_create_memory_link :: "memory_link \<Rightarrow> 's \<Rightarrow> 'e + (memory_link \<times> 's)"
  mr_search_candidates :: "uuid \<Rightarrow> uuid \<Rightarrow> uuid \<Rightarrow> ustr \<Rightarrow> rat list \<Rightarrow> ustr \<Rightarrow> memory_sensitivity \<Rightarrow> int \<Rightarrow>
    's \<Rightarrow> 'e + raw_candidate list"
  mr_get_relationship_detail :: "uuid \<Rightarrow> uuid \<Rightarrow> uuid \<Rightarrow> 's \<Rightarrow> 'e + relationship_detail option"
  mr_apply_relationship_event :: "relationship \<Rightarrow> relationship_event \<Rightarrow> 's \<Rightarrow> 'e + (relationship_detail \<times> 's)"
  mr_list_memories_for_embedding :: "uuid \<Rightarrow> uuid \<Rightarrow> uuid option \<Rightarrow> 's \<Rightarrow> 'e + memory list"
  mr_create_index_job :: "index_job \<Rightarrow> 's \<Rightarrow> 'e + (index_job \<times> 's)"
  mr_get_index_job :: "uuid \<Rightarrow> uuid \<Rightarrow> uuid \<Rightarrow> 's \<Rightarrow> 'e + index_job option"
  mr_update_index_job :: "index_job \<Rightarrow> 's \<Rightarrow> 'e + (index_job \<times> 's)"
  mr_replace_embedding :: "uuid \<Rightarrow> uuid \<Rightarrow> memory_embedding \<Rightarrow> instant \<Rightarrow> 's \<Rightarrow> 'e + (unit \<times> 's)"
  mr_list_index_jobs :: "uuid \<Rightarrow> uuid \<Rightarrow> int \<Rightarrow> 's \<Rightarrow> 'e + index_job list"

text \<open>The in-memory repository as this port; no method of it raises.\<close>

definition mem_repository ::
    "(ustr \<Rightarrow> ustr) \<Rightarrow> (rat \<Rightarrow> rat) \<Rightarrow> (memory_store, 'e) memory_repository" where
  "mem_repository fold_case fsqrt = \<lparr>
     mr_list_episodes = (\<lambda>t a u n s. Inr (mem_list_episodes t a u n s)),
     mr_create_episode = (\<lambda>e s. Inr (mem_create_episode e s)),
     mr_set_episode_status = (\<lambda>i t a st en actor s. Inr (mem_set_episode_status i t a st en s)),
     mr_list_memories = (\<lambda>t a u st k q n s. Inr (mem_list_memories fold_case t a u st k q n s)),
     mr_get_memory_detail = (\<lambda>i t a s. Inr (mem_get_memory_detail i t a s)),
     mr_create_memory = (\<lambda>m xs b s. Inr (mem_create_memory m xs b s)),
     mr_set_confirmation = (\<lambda>i t a c q now actor s. Inr (mem_set_confirmation i t a c q now s)),
     mr_correct_memory = (\<lambda>i m x b l s. Inr (mem_correct_memory i m x b l s)),
     mr_forget_memory = (\<lambda>i t a now actor s. Inr (mem_forget_memory i t a now s)),
     mr_create_memory_link = (\<lambda>l s. Inr (mem_create_memory_link l s)),
     mr_search_candidates = (\<lambda>t a u q v ver sens n s. Inr (mem_search_candidates fold_case fsqrt t a u q v ver sens n s)),
     mr_get_relationship_detail = (\<lambda>t a u s. Inr (mem_get_relationship_detail t a u s)),
     mr_apply_relationship_event = (\<lambda>r e s. Inr (mem_apply_relationship_event r e s)),
     mr_list_memories_for_embedding = (\<lambda>t a u s. Inr (mem_list_memories_for_embedding t a u s)),
     mr_create_index_job = (\<lambda>j s. Inr (mem_put_index_job j s)),
     mr_get_index_job = (\<lambda>t a j s. Inr (mem_get_index_job t a j s)),
     mr_update_index_job = (\<lambda>j s. Inr (mem_put_index_job j s)),
     mr_replace_embedding = (\<lambda>i t b now s. Inr ((), mem_replace_embedding i t b now s)),
     mr_list_index_jobs = (\<lambda>t a n s. Inr (mem_list_index_jobs t a n s))\<rparr>"

section \<open>Errors and checks\<close>

datatype memory_text =
    EpisodeTitle | EpisodeSummary | MemoryContent | CorrectedContent | RecallQuery | EventType
  | EventSummary | BoundaryText | SourceIdText

datatype memory_validation =
    EmptyText memory_text | LongText memory_text | LongOptionalText | NaiveMemoryTime | EndsBeforeStart
  | NoSourceMessage | UserlessPrivate | ConfidenceRange | ImportanceRange | EmotionRange | NoSource
  | VerbatimWithoutExcerpt | SelfConflict | LimitRange | CandidatePool | DeltaRange

datatype memory_conflict = NotConfirmable | NotCorrectable | ModifiedMeanwhile

datatype 'e memory_error =
    MemoryValidationError memory_validation
  | MemoryNotFoundError uuid
  | MemoryConflictError memory_conflict
  | RankingError rank_error
  | EncodingError
  | RepositoryError 'e

definition lift_repo :: "'e + 'a \<Rightarrow> 'e memory_error + 'a" where
  "lift_repo r = (case r of Inl e \<Rightarrow> Inl (RepositoryError e) | Inr x \<Rightarrow> Inr x)"

definition required_memory_text :: "ustr \<Rightarrow> memory_text \<Rightarrow> nat \<Rightarrow> 'e memory_error + ustr" where
  "required_memory_text value label maximum =
     (if strip value = [] then Inl (MemoryValidationError (EmptyText label))
      else if length (strip value) > maximum then Inl (MemoryValidationError (LongText label))
      else Inr (strip value))"

definition optional_memory_text :: "ustr option \<Rightarrow> nat \<Rightarrow> 'e memory_error + ustr option" where
  "optional_memory_text value maximum = (case value of
     None \<Rightarrow> Inr None
   | Some v \<Rightarrow>
       if strip v = [] then Inr None
       else if length (strip v) > maximum then Inl (MemoryValidationError LongOptionalText)
       else Inr (Some (strip v)))"

definition aware :: "py_datetime \<Rightarrow> 'e memory_error + instant" where
  "aware value = (case value of Naive _ \<Rightarrow> Inl (MemoryValidationError NaiveMemoryTime) | Aware t \<Rightarrow> Inr t)"

definition checked_limit :: "int \<Rightarrow> 'e memory_error + int" where
  "checked_limit value = (if \<not> (1 \<le> value \<and> value \<le> 200) then Inl (MemoryValidationError LimitRange) else Inr value)"

definition encoded :: "text_encoder \<Rightarrow> ustr \<Rightarrow> 'e memory_error + rat list" where
  "encoded enc content = (case te_encode enc content of None \<Rightarrow> Inl EncodingError | Some v \<Rightarrow> Inr v)"

definition ensure :: "bool \<Rightarrow> 'e memory_error \<Rightarrow> 'e memory_error + unit" where
  "ensure b e = (if b then Inr () else Inl e)"

lemma lift_repo_Inr [result_laws]: "lift_repo r = Inr x \<longleftrightarrow> r = Inr x"
  by (cases r) (auto simp: lift_repo_def)

lemma lift_repo_simps [simp]: "lift_repo (Inr x) = Inr x" "lift_repo (Inl e) = Inl (RepositoryError e)"
  by (simp_all add: lift_repo_def)

lemma ensure_Inr [result_laws]: "ensure b e = Inr u \<longleftrightarrow> b"
  by (simp add: ensure_def)

lemma required_memory_text_Inr [result_laws]:
  "required_memory_text value label maximum = Inr t \<longleftrightarrow> strip value \<noteq> [] \<and> length (strip value) \<le> maximum \<and> t = strip value"
  by (auto simp: required_memory_text_def)

lemma aware_Inr [result_laws]: "aware value = Inr t \<longleftrightarrow> value = Aware t"
  by (cases "value") (auto simp: aware_def)

lemma checked_limit_Inr [result_laws]: "checked_limit n = Inr m \<longleftrightarrow> 1 \<le> n \<and> n \<le> 200 \<and> m = n"
  by (auto simp: checked_limit_def)

lemma encoded_Inr [result_laws]: "encoded enc content = Inr v \<longleftrightarrow> te_encode enc content = Some v"
  by (auto simp: encoded_def split: option.splits)

lemma optional_memory_text_Inr [result_laws]:
  "optional_memory_text value maximum = Inr t \<longleftrightarrow>
     (case value of None \<Rightarrow> t = None
      | Some v \<Rightarrow> if strip v = [] then t = None else length (strip v) \<le> maximum \<and> t = Some (strip v))"
  by (auto simp: optional_memory_text_def split: option.splits)

section \<open>Episodes\<close>

record episode_args =
  ee_tenant_id :: uuid
  ee_agent_id :: uuid
  ee_user_id :: uuid
  ee_conversation_id :: uuid
  ee_title :: ustr
  ee_summary :: ustr
  ee_started_at :: py_datetime
  ee_ended_at :: "py_datetime option"
  ee_source_message_ids :: "uuid list"
  ee_actor_id :: uuid

definition aware_option :: "py_datetime option \<Rightarrow> 'e memory_error + instant option" where
  "aware_option value = (case value of None \<Rightarrow> Inr None | Some v \<Rightarrow> bind_result (aware v) (\<lambda>t. Inr (Some t)))"

definition create_episode ::
    "('s, 'e) memory_repository \<Rightarrow> episode_args \<Rightarrow> uuid \<Rightarrow> instant \<Rightarrow> 's \<Rightarrow> 'e memory_error + (episode \<times> 's)" where
  "create_episode repo args entity_id now s =
     bind_result (required_memory_text (ee_title args) EpisodeTitle 200) (\<lambda>title.
     bind_result (required_memory_text (ee_summary args) EpisodeSummary 4000) (\<lambda>summary.
     bind_result (aware (ee_started_at args)) (\<lambda>started_at.
     bind_result (aware_option (ee_ended_at args)) (\<lambda>ended_at.
     bind_result (ensure (case ended_at of None \<Rightarrow> True | Some t \<Rightarrow> \<not> t < started_at)
       (MemoryValidationError EndsBeforeStart)) (\<lambda>_.
     bind_result (ensure (ee_source_message_ids args \<noteq> []) (MemoryValidationError NoSourceMessage)) (\<lambda>_.
     lift_repo (mr_create_episode repo
       \<lparr>ep_id = entity_id, ep_tenant_id = ee_tenant_id args, ep_agent_id = ee_agent_id args,
        ep_user_id = ee_user_id args, ep_conversation_id = ee_conversation_id args, ep_title = title,
        ep_summary = summary, ep_status = (if ended_at = None then EPISODE_OPEN else EPISODE_CLOSED),
        ep_started_at = started_at, ep_ended_at = ended_at,
        ep_source_message_ids = ee_source_message_ids args, ep_created_by = ee_actor_id args,
        ep_created_at = now, ep_updated_at = now\<rparr> s)))))))"

definition list_episodes ::
    "('s, 'e) memory_repository \<Rightarrow> uuid \<Rightarrow> uuid \<Rightarrow> uuid option \<Rightarrow> int \<Rightarrow> 's \<Rightarrow> 'e memory_error + episode list" where
  "list_episodes repo tenant_id agent_id user_id limit s =
     bind_result (checked_limit limit) (\<lambda>n. lift_repo (mr_list_episodes repo tenant_id agent_id user_id n s))"

definition found :: "uuid \<Rightarrow> 'a option \<times> 's \<Rightarrow> 'e memory_error + ('a \<times> 's)" where
  "found i r = (case fst r of None \<Rightarrow> Inl (MemoryNotFoundError i) | Some x \<Rightarrow> Inr (x, snd r))"

lemma found_Inr [result_laws]: "found i r = Inr (x, s) \<longleftrightarrow> r = (Some x, s)"
  by (cases r) (auto simp: found_def split: option.splits)

definition close_episode ::
    "('s, 'e) memory_repository \<Rightarrow> uuid \<Rightarrow> uuid \<Rightarrow> uuid \<Rightarrow> bool \<Rightarrow> uuid \<Rightarrow> instant \<Rightarrow> 's \<Rightarrow>
       'e memory_error + (episode \<times> 's)" where
  "close_episode repo episode_id tenant_id agent_id consolidate actor_id now s =
     bind_result (lift_repo (mr_set_episode_status repo episode_id tenant_id agent_id
         (if consolidate then EPISODE_CONSOLIDATED else EPISODE_CLOSED) (Some now) actor_id s))
       (found episode_id)"

section \<open>Creating and reading memories\<close>

record source_draft =
  sd_kind :: source_kind
  sd_source_id :: ustr
  sd_excerpt :: "ustr option"
  sd_is_verbatim :: bool
  sd_occurred_at :: py_datetime

record memory_args =
  cm_tenant_id :: uuid
  cm_agent_id :: uuid
  cm_user_id :: "uuid option"
  cm_conversation_id :: "uuid option"
  cm_episode_id :: "uuid option"
  cm_kind :: memory_kind
  cm_visibility :: memory_visibility
  cm_content :: ustr
  cm_event_at :: py_datetime
  cm_confidence :: rat
  cm_importance :: rat
  cm_emotional_weight :: rat
  cm_sensitivity :: memory_sensitivity
  cm_confirmation :: memory_confirmation
  cm_sources :: "source_draft list"
  cm_actor_id :: uuid

definition validate_memory_values :: "memory_args \<Rightarrow> 'e memory_error + instant" where
  "validate_memory_values a =
     bind_result (ensure (\<not> (cm_visibility a = VISIBLE_USER \<and> cm_user_id a = None))
       (MemoryValidationError UserlessPrivate)) (\<lambda>_.
     bind_result (aware (cm_event_at a)) (\<lambda>event_at.
     bind_result (ensure (0 \<le> cm_confidence a \<and> cm_confidence a \<le> 1) (MemoryValidationError ConfidenceRange)) (\<lambda>_.
     bind_result (ensure (0 \<le> cm_importance a \<and> cm_importance a \<le> 1) (MemoryValidationError ImportanceRange)) (\<lambda>_.
     bind_result (ensure (- 1 \<le> cm_emotional_weight a \<and> cm_emotional_weight a \<le> 1)
       (MemoryValidationError EmotionRange)) (\<lambda>_.
     bind_result (ensure (cm_sources a \<noteq> []) (MemoryValidationError NoSource)) (\<lambda>_. Inr event_at))))))"

definition source_record ::
    "source_draft \<Rightarrow> uuid \<Rightarrow> uuid \<Rightarrow> instant \<Rightarrow> uuid \<Rightarrow> 'e memory_error + memory_source" where
  "source_record d tenant_id memory_id created_at record_id =
     bind_result (required_memory_text (sd_source_id d) SourceIdText 255) (\<lambda>source_id.
     bind_result (aware (sd_occurred_at d)) (\<lambda>occurred_at.
     bind_result (optional_memory_text (sd_excerpt d) 2000) (\<lambda>excerpt.
     bind_result (ensure (\<not> (sd_is_verbatim d \<and> excerpt = None)) (MemoryValidationError VerbatimWithoutExcerpt)) (\<lambda>_.
       Inr \<lparr>ms_id = record_id, ms_tenant_id = tenant_id, ms_memory_id = memory_id, ms_kind = sd_kind d,
         ms_source_id = source_id, ms_excerpt = excerpt, ms_is_verbatim = sd_is_verbatim d,
         ms_occurred_at = occurred_at, ms_created_at = created_at\<rparr>))))"

text \<open>The records of the drafts, numbered from \<open>index\<close>; the first failure is raised.\<close>

fun source_records ::
    "(uuid \<Rightarrow> ustr \<Rightarrow> uuid) \<Rightarrow> uuid \<Rightarrow> uuid \<Rightarrow> instant \<Rightarrow> nat \<Rightarrow> source_draft list \<Rightarrow>
       'e memory_error + memory_source list" where
  "source_records uuid5 tenant_id memory_id now index [] = Inr []"
| "source_records uuid5 tenant_id memory_id now index (d # ds) =
     bind_result (source_record d tenant_id memory_id now (uuid5 memory_id (lit ''source:'' @ dec_nat index))) (\<lambda>x.
     bind_result (source_records uuid5 tenant_id memory_id now (Suc index) ds) (\<lambda>xs. Inr (x # xs)))"

definition memory_embedding_of ::
    "(uuid \<Rightarrow> ustr \<Rightarrow> uuid) \<Rightarrow> text_encoder \<Rightarrow> memory \<Rightarrow> ustr \<Rightarrow> instant \<Rightarrow> 'e memory_error + memory_embedding" where
  "memory_embedding_of uuid5 enc m content now =
     bind_result (encoded enc content) (\<lambda>vector.
       Inr \<lparr>mb_id = uuid5 (mm_id m) (lit ''embedding:'' @ te_version enc), mb_tenant_id = mm_tenant_id m,
         mb_memory_id = mm_id m, mb_embedding_version = te_version enc, mb_dimensions = int (te_dimensions enc),
         mb_vector = vector, mb_active = True, mb_created_at = now\<rparr>)"

definition fresh_memory :: "text_encoder \<Rightarrow> memory_args \<Rightarrow> ustr \<Rightarrow> instant \<Rightarrow> uuid \<Rightarrow> instant \<Rightarrow> memory" where
  "fresh_memory enc a content event_at memory_id now =
     \<lparr>mm_id = memory_id, mm_lineage_id = memory_id, mm_tenant_id = cm_tenant_id a, mm_agent_id = cm_agent_id a,
      mm_user_id = cm_user_id a, mm_conversation_id = cm_conversation_id a, mm_episode_id = cm_episode_id a,
      mm_kind = cm_kind a, mm_visibility = cm_visibility a, mm_content = Some content, mm_event_at = event_at,
      mm_confidence = cm_confidence a, mm_importance = cm_importance a,
      mm_emotional_weight = cm_emotional_weight a, mm_sensitivity = cm_sensitivity a,
      mm_confirmation = cm_confirmation a, mm_status = MEMORY_ACTIVE, mm_version = 1,
      mm_embedding_version = Some (te_version enc), mm_created_by = cm_actor_id a, mm_created_at = now,
      mm_updated_at = now\<rparr>"

definition create_memory ::
    "('s, 'e) memory_repository \<Rightarrow> (uuid \<Rightarrow> ustr \<Rightarrow> uuid) \<Rightarrow> text_encoder \<Rightarrow> memory_args \<Rightarrow> uuid \<Rightarrow> instant \<Rightarrow>
       's \<Rightarrow> 'e memory_error + (memory_detail \<times> 's)" where
  "create_memory repo uuid5 enc a memory_id now s =
     bind_result (required_memory_text (cm_content a) MemoryContent 8000) (\<lambda>content.
     bind_result (validate_memory_values a) (\<lambda>event_at.
     let m = fresh_memory enc a content event_at memory_id now in
     bind_result (source_records uuid5 (cm_tenant_id a) memory_id now 0 (cm_sources a)) (\<lambda>sources.
     bind_result (memory_embedding_of uuid5 enc m content now) (\<lambda>embedding.
       lift_repo (mr_create_memory repo m sources embedding s)))))"

definition list_memories ::
    "('s, 'e) memory_repository \<Rightarrow> uuid \<Rightarrow> uuid \<Rightarrow> uuid option \<Rightarrow> memory_status option \<Rightarrow> memory_kind option \<Rightarrow>
       ustr option \<Rightarrow> int \<Rightarrow> 's \<Rightarrow> 'e memory_error + memory list" where
  "list_memories repo tenant_id agent_id user_id status kind query limit s =
     bind_result (checked_limit limit) (\<lambda>n.
       lift_repo (mr_list_memories repo tenant_id agent_id user_id status kind
         (case query of None \<Rightarrow> None | Some q \<Rightarrow> if strip q = [] then None else Some (strip q)) n s))"

definition get_memory_detail ::
    "('s, 'e) memory_repository \<Rightarrow> uuid \<Rightarrow> uuid \<Rightarrow> uuid \<Rightarrow> 's \<Rightarrow> 'e memory_error + memory_detail" where
  "get_memory_detail repo memory_id tenant_id agent_id s =
     bind_result (lift_repo (mr_get_memory_detail repo memory_id tenant_id agent_id s)) (\<lambda>d.
       case d of None \<Rightarrow> Inl (MemoryNotFoundError memory_id) | Some x \<Rightarrow> Inr x)"

section \<open>Governance\<close>

definition confirmed_confidence :: "memory_confirmation \<Rightarrow> rat \<Rightarrow> rat" where
  "confirmed_confidence confirmation confidence =
     (if confirmation = CONFIRMED then max (rnd (85 / 100)) confidence
      else if confirmation = DISPUTED then min (rnd (35 / 100)) confidence else confidence)"

definition set_confirmation ::
    "('s, 'e) memory_repository \<Rightarrow> uuid \<Rightarrow> uuid \<Rightarrow> uuid \<Rightarrow> memory_confirmation \<Rightarrow> uuid \<Rightarrow> instant \<Rightarrow> 's \<Rightarrow>
       'e memory_error + (memory \<times> 's)" where
  "set_confirmation repo memory_id tenant_id agent_id confirmation actor_id now s =
     bind_result (get_memory_detail repo memory_id tenant_id agent_id s) (\<lambda>d.
     bind_result (ensure (mm_status (md_memory d) = MEMORY_ACTIVE) (MemoryConflictError NotConfirmable)) (\<lambda>_.
     bind_result (lift_repo (mr_set_confirmation repo memory_id tenant_id agent_id confirmation
         (confirmed_confidence confirmation (mm_confidence (md_memory d))) now actor_id s))
       (found memory_id)))"

definition replacement_memory ::
    "text_encoder \<Rightarrow> memory \<Rightarrow> uuid \<Rightarrow> ustr \<Rightarrow> instant \<Rightarrow> uuid \<Rightarrow> instant \<Rightarrow> memory" where
  "replacement_memory enc m replacement_id content event_at actor_id now =
     m\<lparr>mm_id := replacement_id, mm_content := Some content, mm_event_at := event_at,
       mm_confirmation := CONFIRMED, mm_status := MEMORY_ACTIVE, mm_version := mm_version m + 1,
       mm_embedding_version := Some (te_version enc), mm_created_by := actor_id, mm_created_at := now,
       mm_updated_at := now\<rparr>"

definition correction_source :: "uuid \<Rightarrow> uuid \<Rightarrow> uuid \<Rightarrow> uuid \<Rightarrow> instant \<Rightarrow> memory_source" where
  "correction_source record_id tenant_id replacement_id memory_id now =
     \<lparr>ms_id = record_id, ms_tenant_id = tenant_id, ms_memory_id = replacement_id,
      ms_kind = SOURCE_ADMIN_CORRECTION, ms_source_id = uuid_str memory_id, ms_excerpt = None,
      ms_is_verbatim = False, ms_occurred_at = now, ms_created_at = now\<rparr>"

definition memory_link_of ::
    "uuid \<Rightarrow> uuid \<Rightarrow> uuid \<Rightarrow> uuid \<Rightarrow> link_kind \<Rightarrow> ustr option \<Rightarrow> uuid \<Rightarrow> instant \<Rightarrow> memory_link" where
  "memory_link_of link_id tenant_id source_id target_id kind note actor_id now =
     \<lparr>ml_id = link_id, ml_tenant_id = tenant_id, ml_source_memory_id = source_id,
      ml_target_memory_id = target_id, ml_kind = kind, ml_note = note, ml_created_by = actor_id,
      ml_created_at = now\<rparr>"

text \<open>The three identifiers are the \<open>uuid4()\<close> of the replacement, of its source and of the link.\<close>

definition correct_memory ::
    "('s, 'e) memory_repository \<Rightarrow> (uuid \<Rightarrow> ustr \<Rightarrow> uuid) \<Rightarrow> text_encoder \<Rightarrow> uuid \<Rightarrow> uuid \<Rightarrow> uuid \<Rightarrow> ustr \<Rightarrow>
       py_datetime \<Rightarrow> uuid \<Rightarrow> ustr option \<Rightarrow> uuid \<Rightarrow> uuid \<Rightarrow> uuid \<Rightarrow> instant \<Rightarrow> 's \<Rightarrow>
       'e memory_error + (memory_detail \<times> 's)" where
  "correct_memory repo uuid5 enc memory_id tenant_id agent_id content event_at actor_id note_text
       replacement_id source_id link_id now s =
     bind_result (get_memory_detail repo memory_id tenant_id agent_id s) (\<lambda>d.
     bind_result (ensure (mm_status (md_memory d) = MEMORY_ACTIVE) (MemoryConflictError NotCorrectable)) (\<lambda>_.
     bind_result (required_memory_text content CorrectedContent 8000) (\<lambda>normalized.
     bind_result (aware event_at) (\<lambda>event_time.
     bind_result (optional_memory_text note_text 1000) (\<lambda>checked_note.
     let replacement = replacement_memory enc (md_memory d) replacement_id normalized event_time actor_id now in
     bind_result (memory_embedding_of uuid5 enc replacement normalized now) (\<lambda>embedding.
     bind_result (lift_repo (mr_correct_memory repo memory_id replacement
         (correction_source source_id tenant_id replacement_id memory_id now) embedding
         (memory_link_of link_id tenant_id replacement_id memory_id SUPERSEDES checked_note actor_id now) s)) (\<lambda>r.
       case fst r of
         None \<Rightarrow> Inl (MemoryConflictError ModifiedMeanwhile)
       | Some detail \<Rightarrow> Inr (detail, snd r))))))))"

definition forget_memory ::
    "('s, 'e) memory_repository \<Rightarrow> uuid \<Rightarrow> uuid \<Rightarrow> uuid \<Rightarrow> uuid \<Rightarrow> instant \<Rightarrow> 's \<Rightarrow> 'e memory_error + (memory \<times> 's)" where
  "forget_memory repo memory_id tenant_id agent_id actor_id now s =
     bind_result (lift_repo (mr_forget_memory repo memory_id tenant_id agent_id now actor_id s)) (found memory_id)"

definition link_conflict ::
    "('s, 'e) memory_repository \<Rightarrow> uuid \<Rightarrow> uuid \<Rightarrow> uuid \<Rightarrow> uuid \<Rightarrow> uuid \<Rightarrow> ustr option \<Rightarrow> uuid \<Rightarrow> instant \<Rightarrow> 's \<Rightarrow>
       'e memory_error + (memory_link \<times> 's)" where
  "link_conflict repo source_id target_id tenant_id agent_id actor_id note_text link_id now s =
     bind_result (ensure (source_id \<noteq> target_id) (MemoryValidationError SelfConflict)) (\<lambda>_.
     bind_result (get_memory_detail repo source_id tenant_id agent_id s) (\<lambda>_.
     bind_result (get_memory_detail repo target_id tenant_id agent_id s) (\<lambda>_.
     bind_result (optional_memory_text note_text 1000) (\<lambda>checked_note.
       lift_repo (mr_create_memory_link repo
         (memory_link_of link_id tenant_id source_id target_id CONFLICTS_WITH checked_note actor_id now) s)))))"

section \<open>Recall\<close>

definition recall ::
    "('s, 'e) memory_repository \<Rightarrow> text_encoder \<Rightarrow> (rat \<Rightarrow> rat) \<Rightarrow> uuid \<Rightarrow> uuid \<Rightarrow> uuid \<Rightarrow> ustr \<Rightarrow> int \<Rightarrow> int \<Rightarrow>
       memory_sensitivity \<Rightarrow> rat \<Rightarrow> recall_weights \<Rightarrow> instant \<Rightarrow> 's \<Rightarrow> 'e memory_error + memory_recall list" where
  "recall repo enc fexp tenant_id agent_id user_id query limit candidate_pool maximum_sensitivity
       recency_half_life_days weights now s =
     bind_result (required_memory_text query RecallQuery 8000) (\<lambda>normalized.
     bind_result (checked_limit limit) (\<lambda>maximum.
     bind_result (ensure (\<not> (candidate_pool < maximum \<or> candidate_pool > 500))
       (MemoryValidationError CandidatePool)) (\<lambda>_.
     bind_result (encoded enc normalized) (\<lambda>query_embedding.
     bind_result (lift_repo (mr_search_candidates repo tenant_id agent_id user_id normalized query_embedding
         (te_version enc) maximum_sensitivity candidate_pool s)) (\<lambda>candidates.
       case rank fexp candidates now maximum recency_half_life_days weights of
         Inl e \<Rightarrow> Inl (RankingError e)
       | Inr rs \<Rightarrow> Inr rs)))))"

section \<open>Relationships\<close>

definition relationship_stage_of :: "rat \<Rightarrow> rat \<Rightarrow> relationship_stage" where
  "relationship_stage_of trust familiarity =
     (if trust \<ge> 3 / 4 \<and> familiarity \<ge> 3 / 4 then TRUSTED
      else if familiarity \<ge> 1 / 2 then FAMILIAR
      else if familiarity \<ge> rnd (15 / 100) then ACQUAINTANCE
      else STRANGER)"

record relationship_args =
  ra_tenant_id :: uuid
  ra_agent_id :: uuid
  ra_user_id :: uuid
  ra_event_type :: ustr
  ra_affinity_delta :: rat
  ra_trust_delta :: rat
  ra_familiarity_delta :: rat
  ra_summary :: ustr
  ra_boundaries :: "ustr list option"
  ra_evidence_memory_id :: "uuid option"
  ra_actor_id :: uuid

definition delta_ok :: "rat \<Rightarrow> bool" where
  "delta_ok x \<longleftrightarrow> - 1 \<le> x \<and> x \<le> 1"

definition no_summary :: ustr where
  "no_summary = [23578, 26410, 24418, 25104, 31283, 23450, 20851, 31995, 25688, 35201, 12290]"

definition first_relationship :: "(uuid \<Rightarrow> ustr \<Rightarrow> uuid) \<Rightarrow> relationship_args \<Rightarrow> instant \<Rightarrow> relationship" where
  "first_relationship uuid5 a now =
     \<lparr>rl_id = uuid5 (ra_agent_id a) (uuid_str (ra_user_id a)), rl_tenant_id = ra_tenant_id a,
      rl_agent_id = ra_agent_id a, rl_user_id = ra_user_id a, rl_stage = STRANGER, rl_affinity = 0,
      rl_trust = 0, rl_familiarity = 0, rl_interaction_count = 0, rl_summary = no_summary,
      rl_boundaries = [], rl_version = 0, rl_created_at = now, rl_updated_at = now\<rparr>"

fun required_texts :: "ustr list \<Rightarrow> memory_text \<Rightarrow> nat \<Rightarrow> 'e memory_error + ustr list" where
  "required_texts [] label maximum = Inr []"
| "required_texts (x # xs) label maximum =
     bind_result (required_memory_text x label maximum) (\<lambda>y.
     bind_result (required_texts xs label maximum) (\<lambda>ys. Inr (y # ys)))"

definition updated_relationship ::
    "relationship_args \<Rightarrow> ustr \<Rightarrow> ustr list \<Rightarrow> instant \<Rightarrow> relationship \<Rightarrow> relationship" where
  "updated_relationship a summary boundaries now r =
     (let affinity = unit (fadd (rl_affinity r) (ra_affinity_delta a));
          trust = unit (fadd (rl_trust r) (ra_trust_delta a));
          familiarity = unit (fadd (rl_familiarity r) (ra_familiarity_delta a))
      in r\<lparr>rl_stage := relationship_stage_of trust familiarity, rl_affinity := affinity, rl_trust := trust,
           rl_familiarity := familiarity, rl_interaction_count := rl_interaction_count r + 1,
           rl_summary := summary, rl_boundaries := boundaries, rl_version := rl_version r + 1,
           rl_updated_at := now\<rparr>)"

definition relationship_event_of ::
    "relationship_args \<Rightarrow> uuid \<Rightarrow> uuid \<Rightarrow> ustr \<Rightarrow> ustr \<Rightarrow> instant \<Rightarrow> relationship_event" where
  "relationship_event_of a event_id relationship_id event_type summary now =
     \<lparr>re_id = event_id, re_tenant_id = ra_tenant_id a, re_relationship_id = relationship_id,
      re_event_type = event_type, re_affinity_delta = ra_affinity_delta a, re_trust_delta = ra_trust_delta a,
      re_familiarity_delta = ra_familiarity_delta a, re_evidence_memory_id = ra_evidence_memory_id a,
      re_summary = summary, re_created_by = ra_actor_id a, re_created_at = now\<rparr>"

definition get_relationship ::
    "('s, 'e) memory_repository \<Rightarrow> uuid \<Rightarrow> uuid \<Rightarrow> uuid \<Rightarrow> 's \<Rightarrow> 'e memory_error + relationship_detail option" where
  "get_relationship repo tenant_id agent_id user_id s =
     lift_repo (mr_get_relationship_detail repo tenant_id agent_id user_id s)"

definition record_relationship_event ::
    "('s, 'e) memory_repository \<Rightarrow> (uuid \<Rightarrow> ustr \<Rightarrow> uuid) \<Rightarrow> relationship_args \<Rightarrow> uuid \<Rightarrow> instant \<Rightarrow> 's \<Rightarrow>
       'e memory_error + (relationship_detail \<times> 's)" where
  "record_relationship_event repo uuid5 a event_id now s =
     bind_result (ensure (delta_ok (ra_affinity_delta a) \<and> delta_ok (ra_trust_delta a) \<and>
         delta_ok (ra_familiarity_delta a)) (MemoryValidationError DeltaRange)) (\<lambda>_.
     bind_result (required_memory_text (ra_event_type a) EventType 80) (\<lambda>event_type.
     bind_result (required_memory_text (ra_summary a) EventSummary 1000) (\<lambda>summary.
     bind_result (case ra_evidence_memory_id a of
         None \<Rightarrow> Inr None
       | Some i \<Rightarrow> map_sum id Some (get_memory_detail repo i (ra_tenant_id a) (ra_agent_id a) s)) (\<lambda>_.
     bind_result (get_relationship repo (ra_tenant_id a) (ra_agent_id a) (ra_user_id a) s) (\<lambda>existing.
     let current = (case existing of Some d \<Rightarrow> rd_relationship d | None \<Rightarrow> first_relationship uuid5 a now) in
     bind_result (case ra_boundaries a of
         None \<Rightarrow> Inr (rl_boundaries current)
       | Some bs \<Rightarrow> required_texts bs BoundaryText 300) (\<lambda>boundaries.
     let updated = updated_relationship a summary boundaries now current in
       lift_repo (mr_apply_relationship_event repo updated
         (relationship_event_of a event_id (rl_id updated) event_type summary now) s)))))))"

section \<open>Rebuilding the index\<close>

definition pending_index_job ::
    "text_encoder \<Rightarrow> uuid \<Rightarrow> uuid \<Rightarrow> uuid option \<Rightarrow> uuid \<Rightarrow> uuid \<Rightarrow> nat \<Rightarrow> instant \<Rightarrow> index_job" where
  "pending_index_job enc tenant_id agent_id user_id actor_id job_id count now =
     \<lparr>ix_id = job_id, ix_tenant_id = tenant_id, ix_agent_id = agent_id, ix_user_id = user_id,
      ix_target_embedding_version = te_version enc, ix_status = INDEX_PENDING, ix_total_items = int count,
      ix_processed_items = 0, ix_error_code = None, ix_created_by = actor_id, ix_created_at = now,
      ix_started_at = None, ix_completed_at = None\<rparr>"

definition request_embedding_rebuild ::
    "('s, 'e) memory_repository \<Rightarrow> text_encoder \<Rightarrow> uuid \<Rightarrow> uuid \<Rightarrow> uuid option \<Rightarrow> uuid \<Rightarrow> uuid \<Rightarrow> instant \<Rightarrow>
       's \<Rightarrow> 'e memory_error + (index_job \<times> 's)" where
  "request_embedding_rebuild repo enc tenant_id agent_id user_id actor_id job_id now s =
     bind_result (lift_repo (mr_list_memories_for_embedding repo tenant_id agent_id user_id s)) (\<lambda>memories.
       lift_repo (mr_create_index_job repo
         (pending_index_job enc tenant_id agent_id user_id actor_id job_id (length memories) now) s))"

text \<open>
  The loop over the memories: the exception that stopped it, if any, the latest job record and the
  state. \<open>clock k\<close> is the reading of the clock for the memory at position \<open>k\<close>.
\<close>

fun rebuild_loop ::
    "('s, 'e) memory_repository \<Rightarrow> (uuid \<Rightarrow> ustr \<Rightarrow> uuid) \<Rightarrow> text_encoder \<Rightarrow> uuid \<Rightarrow> (nat \<Rightarrow> instant) \<Rightarrow> nat \<Rightarrow>
       memory list \<Rightarrow> index_job \<Rightarrow> 's \<Rightarrow> 'e memory_error option \<times> index_job \<times> 's" where
  "rebuild_loop repo uuid5 enc tenant_id clock k [] running s = (None, running, s)"
| "rebuild_loop repo uuid5 enc tenant_id clock k (m # ms) running s =
     (case mm_content m of
        None \<Rightarrow> rebuild_loop repo uuid5 enc tenant_id clock (Suc k) ms running s
      | Some content \<Rightarrow>
          (case memory_embedding_of uuid5 enc m content (clock k) of
             Inl e \<Rightarrow> (Some e, running, s)
           | Inr b \<Rightarrow>
               (case lift_repo (mr_replace_embedding repo (mm_id m) tenant_id b (clock k) s) of
                  Inl e \<Rightarrow> (Some e, running, s)
                | Inr (_, s1) \<Rightarrow>
                    (let running' = running\<lparr>ix_processed_items := ix_processed_items running + 1\<rparr> in
                     case lift_repo (mr_update_index_job repo running' s1) of
                       Inl e \<Rightarrow> (Some e, running', s1)
                     | Inr (_, s2) \<Rightarrow> rebuild_loop repo uuid5 enc tenant_id clock (Suc k) ms running' s2))))"

definition running_job :: "nat \<Rightarrow> instant \<Rightarrow> index_job \<Rightarrow> index_job" where
  "running_job count now j = j\<lparr>ix_status := INDEX_RUNNING, ix_total_items := int count, ix_processed_items := 0,
     ix_error_code := None, ix_started_at := Some now, ix_completed_at := None\<rparr>"

definition failed_index :: "ustr \<Rightarrow> instant \<Rightarrow> index_job \<Rightarrow> index_job" where
  "failed_index code now j = j\<lparr>ix_status := INDEX_FAILED, ix_error_code := Some code, ix_completed_at := Some now\<rparr>"

definition completed_index :: "instant \<Rightarrow> index_job \<Rightarrow> index_job" where
  "completed_index now j = j\<lparr>ix_status := INDEX_COMPLETED, ix_completed_at := Some now\<rparr>"

text \<open>\<open>error_name\<close> is \<open>type(error).__name__\<close>; \<open>started\<close> and \<open>ended\<close> are readings of the clock.\<close>

definition run_embedding_rebuild ::
    "('s, 'e) memory_repository \<Rightarrow> (uuid \<Rightarrow> ustr \<Rightarrow> uuid) \<Rightarrow> text_encoder \<Rightarrow> ('e memory_error \<Rightarrow> ustr) \<Rightarrow> uuid \<Rightarrow>
       uuid \<Rightarrow> uuid \<Rightarrow> instant \<Rightarrow> (nat \<Rightarrow> instant) \<Rightarrow> instant \<Rightarrow> 's \<Rightarrow> ('e memory_error + index_job) \<times> 's" where
  "run_embedding_rebuild repo uuid5 enc error_name tenant_id agent_id job_id started clock ended s =
     (case mr_get_index_job repo tenant_id agent_id job_id s of
        Inl e \<Rightarrow> (Inl (RepositoryError e), s)
      | Inr None \<Rightarrow> (Inl (MemoryNotFoundError job_id), s)
      | Inr (Some job) \<Rightarrow>
          if ix_status job = INDEX_COMPLETED then (Inr job, s)
          else
            (case mr_list_memories_for_embedding repo tenant_id agent_id (ix_user_id job) s of
               Inl e \<Rightarrow> (Inl (RepositoryError e), s)
             | Inr memories \<Rightarrow>
                 (let running = running_job (length memories) started job in
                  case mr_update_index_job repo running s of
                    Inl e \<Rightarrow> (Inl (RepositoryError e), s)
                  | Inr (_, s1) \<Rightarrow>
                      (case rebuild_loop repo uuid5 enc tenant_id clock 0 memories running s1 of
                         (Some e, latest, s2) \<Rightarrow>
                           (case mr_update_index_job repo (failed_index (error_name e) ended latest) s2 of
                              Inl e' \<Rightarrow> (Inl (RepositoryError e'), s2)
                            | Inr (_, s3) \<Rightarrow> (Inl e, s3))
                       | (None, latest, s2) \<Rightarrow>
                           (case mr_update_index_job repo (completed_index ended latest) s2 of
                              Inl e' \<Rightarrow> (Inl (RepositoryError e'), s2)
                            | Inr (j, s3) \<Rightarrow> (Inr j, s3))))))"

definition rebuild_embeddings ::
    "('s, 'e) memory_repository \<Rightarrow> (uuid \<Rightarrow> ustr \<Rightarrow> uuid) \<Rightarrow> text_encoder \<Rightarrow> ('e memory_error \<Rightarrow> ustr) \<Rightarrow> uuid \<Rightarrow>
       uuid \<Rightarrow> uuid option \<Rightarrow> uuid \<Rightarrow> uuid \<Rightarrow> instant \<Rightarrow> instant \<Rightarrow> (nat \<Rightarrow> instant) \<Rightarrow> instant \<Rightarrow> 's \<Rightarrow>
       ('e memory_error + index_job) \<times> 's" where
  "rebuild_embeddings repo uuid5 enc error_name tenant_id agent_id user_id actor_id job_id now started clock
       ended s =
     (case request_embedding_rebuild repo enc tenant_id agent_id user_id actor_id job_id now s of
        Inl e \<Rightarrow> (Inl e, s)
      | Inr (job, s1) \<Rightarrow>
          run_embedding_rebuild repo uuid5 enc error_name tenant_id agent_id (ix_id job) started clock ended s1)"

definition list_index_jobs ::
    "('s, 'e) memory_repository \<Rightarrow> uuid \<Rightarrow> uuid \<Rightarrow> int \<Rightarrow> 's \<Rightarrow> 'e memory_error + index_job list" where
  "list_index_jobs repo tenant_id agent_id limit s =
     bind_result (checked_limit limit) (\<lambda>n. lift_repo (mr_list_index_jobs repo tenant_id agent_id n s))"

end
