(* ===== verification/Memory_Machine.thy ===== *)
theory Memory_Machine
  imports Memory_Service
begin

text \<open>
  The long-term memory as a state machine over any repository: \<open>memory_step\<close> has one rule per
  operation of \<open>MemoryService\<close> that changes the state. A rebuild of the index is not one transaction,
  so its two writes are steps of their own and anything may happen between them. The locale
  \<open>memory_port\<close> says what the service relies on when it lists memories; \<open>memory_invariant\<close> extends it by
  the operations' preservation of a predicate, each under what the service guarantees of the
  arguments it passes.
\<close>

section \<open>What the service passes to its repository\<close>

definition unit_scores :: "memory \<Rightarrow> bool" where
  "unit_scores m \<longleftrightarrow> 0 \<le> mm_confidence m \<and> mm_confidence m \<le> 1 \<and> 0 \<le> mm_importance m \<and>
     mm_importance m \<le> 1 \<and> - 1 \<le> mm_emotional_weight m \<and> mm_emotional_weight m \<le> 1"

text \<open>What the checks of the table \<open>memories\<close> demand, said of the domain record.\<close>

definition memory_sound :: "memory \<Rightarrow> bool" where
  "memory_sound m \<longleftrightarrow> unit_scores m \<and> (mm_visibility m = VISIBLE_USER \<longrightarrow> mm_user_id m \<noteq> None) \<and>
     (mm_status m = MEMORY_FORGOTTEN \<longleftrightarrow> mm_content m = None)"

definition newborn :: "memory \<Rightarrow> bool" where
  "newborn m \<longleftrightarrow> mm_lineage_id m = mm_id m \<and> mm_status m = MEMORY_ACTIVE \<and> mm_version m = 1 \<and> memory_sound m"

definition successor :: "memory \<Rightarrow> memory \<Rightarrow> bool" where
  "successor m r \<longleftrightarrow> mm_lineage_id r = mm_lineage_id m \<and> mm_tenant_id r = mm_tenant_id m \<and>
     mm_agent_id r = mm_agent_id m \<and> mm_status r = MEMORY_ACTIVE \<and> mm_version r = mm_version m + 1 \<and>
     (memory_sound m \<longrightarrow> memory_sound r)"

definition belongs :: "memory \<Rightarrow> memory_source list \<Rightarrow> memory_embedding \<Rightarrow> bool" where
  "belongs m xs b \<longleftrightarrow> (\<forall>x \<in> set xs. ms_memory_id x = mm_id m \<and> ms_tenant_id x = mm_tenant_id m) \<and>
     mb_memory_id b = mm_id m \<and> mb_tenant_id b = mm_tenant_id m"

definition well_scored :: "relationship \<Rightarrow> bool" where
  "well_scored r \<longleftrightarrow> 0 \<le> rl_affinity r \<and> rl_affinity r \<le> 1 \<and> 0 \<le> rl_trust r \<and> rl_trust r \<le> 1 \<and>
     0 \<le> rl_familiarity r \<and> rl_familiarity r \<le> 1 \<and>
     rl_stage r = relationship_stage_of (rl_trust r) (rl_familiarity r)"

named_theorems memory_shape \<open>the shape of what the service passes to its repository\<close>

lemmas shape_defs = unit_scores_def memory_sound_def newborn_def successor_def belongs_def well_scored_def

lemma source_record_owner:
  "source_record d t i now j = Inr x \<Longrightarrow> ms_memory_id x = i \<and> ms_tenant_id x = t"
  by (auto simp: source_record_def result_laws)

lemma source_records_owner:
  "source_records uuid5 t i now k ds = Inr xs \<Longrightarrow> x \<in> set xs \<Longrightarrow> ms_memory_id x = i \<and> ms_tenant_id x = t"
  by (induction ds arbitrary: k xs) (auto simp: result_laws dest: source_record_owner)

lemma memory_embedding_owner:
  "memory_embedding_of uuid5 enc m c now = Inr b \<Longrightarrow>
     mb_memory_id b = mm_id m \<and> mb_tenant_id b = mm_tenant_id m \<and> mb_embedding_version b = te_version enc \<and>
     mb_active b"
  by (auto simp: memory_embedding_of_def result_laws)

lemma create_memory_passes:
  fixes repo :: "('s, 'e) memory_repository"
  assumes "create_memory repo uuid5 enc a i now s = Inr (d, s')"
  obtains m xs b where "mr_create_memory repo m xs b s = Inr (d, s')" "newborn m" "belongs m xs b" "mm_id m = i"
    "mm_content m \<noteq> None"
proof -
  from assms obtain content event_at sources b where
    c: "strip (cm_content a) \<noteq> []" "content = strip (cm_content a)"
    and v: "(validate_memory_values a :: 'e memory_error + instant) = Inr event_at"
    and x: "(source_records uuid5 (cm_tenant_id a) i now 0 (cm_sources a) :: 'e memory_error + _) = Inr sources"
    and b: "(memory_embedding_of uuid5 enc (fresh_memory enc a content event_at i now) content now
        :: 'e memory_error + _) = Inr b"
    and r: "mr_create_memory repo (fresh_memory enc a content event_at i now) sources b s = Inr (d, s')"
    by (auto simp: create_memory_def result_laws Let_def)
  let ?m = "fresh_memory enc a content event_at i now"
  have "newborn ?m"
    using v by (auto simp: shape_defs fresh_memory_def validate_memory_values_def result_laws)
  moreover have "belongs ?m sources b"
    using source_records_owner[OF x] memory_embedding_owner[OF b]
    by (simp add: belongs_def) (simp add: fresh_memory_def)
  ultimately show thesis
    using that[OF r] by (simp add: fresh_memory_def)
qed

lemma get_memory_detail_Inr [result_laws]:
  "get_memory_detail repo i t a s = Inr d \<longleftrightarrow> mr_get_memory_detail repo i t a s = Inr (Some d)"
  by (auto simp: get_memory_detail_def result_laws split: option.splits)

lemma replacement_successor:
  "mm_status m = MEMORY_ACTIVE \<Longrightarrow> successor m (replacement_memory enc m i c at_time actor now)"
  by (auto simp: shape_defs replacement_memory_def)

lemma correct_memory_passes:
  fixes repo :: "('s, 'e) memory_repository"
  assumes "correct_memory repo uuid5 enc i t a content event_at actor note_text rid sid lid now s = Inr (d, s')"
  obtains d0 m x b l where "mr_get_memory_detail repo i t a s = Inr (Some d0)"
    "mm_status (md_memory d0) = MEMORY_ACTIVE" "successor (md_memory d0) m"
    "mr_correct_memory repo i m x b l s = Inr (Some d, s')" "mm_tenant_id (md_memory d0) = t \<Longrightarrow> belongs m [x] b"
proof -
  from assms obtain d0 c e n b where
    g: "mr_get_memory_detail repo i t a s = Inr (Some d0)"
    and act: "mm_status (md_memory d0) = MEMORY_ACTIVE"
    and b: "(memory_embedding_of uuid5 enc (replacement_memory enc (md_memory d0) rid c e actor now) c now
        :: 'e memory_error + _) = Inr b"
    and r: "mr_correct_memory repo i (replacement_memory enc (md_memory d0) rid c e actor now)
        (correction_source sid t rid i now) b (memory_link_of lid t rid i SUPERSEDES n actor now) s = Inr (Some d, s')"
    by (auto simp: correct_memory_def result_laws Let_def split: option.splits)
  show thesis
  proof (rule that[OF g act replacement_successor[OF act] r])
    assume "mm_tenant_id (md_memory d0) = t"
    then show "belongs (replacement_memory enc (md_memory d0) rid c e actor now) [correction_source sid t rid i now] b"
      using memory_embedding_owner[OF b]
      by (simp add: belongs_def) (simp add: correction_source_def replacement_memory_def)
  qed
qed

lemma updated_relationship_scored: "well_scored (updated_relationship a summary boundaries now r)"
  by (simp add: well_scored_def updated_relationship_def Let_def unit_bounds)

lemma relationship_event_passes:
  assumes "record_relationship_event repo uuid5 a i now s = Inr (d, s')"
  obtains existing summary boundaries e where
    "mr_get_relationship_detail repo (ra_tenant_id a) (ra_agent_id a) (ra_user_id a) s = Inr existing"
    "mr_apply_relationship_event repo (updated_relationship a summary boundaries now
       (case existing of Some d0 \<Rightarrow> rd_relationship d0 | None \<Rightarrow> first_relationship uuid5 a now)) e s = Inr (d, s')"
    "re_id e = i"
    "re_relationship_id e = rl_id (case existing of Some d0 \<Rightarrow> rd_relationship d0 | None \<Rightarrow> first_relationship uuid5 a now)"
proof -
  from assms obtain existing summary boundaries e where
    x: "mr_get_relationship_detail repo (ra_tenant_id a) (ra_agent_id a) (ra_user_id a) s = Inr existing"
    and r: "mr_apply_relationship_event repo (updated_relationship a summary boundaries now
       (case existing of Some d0 \<Rightarrow> rd_relationship d0 | None \<Rightarrow> first_relationship uuid5 a now))
       (relationship_event_of a i (rl_id (updated_relationship a summary boundaries now
         (case existing of Some d0 \<Rightarrow> rd_relationship d0 | None \<Rightarrow> first_relationship uuid5 a now))) e summary now) s
      = Inr (d, s')"
    by (auto simp: record_relationship_event_def get_relationship_def result_laws Let_def)
  show thesis
    by (rule that[OF x r]) (simp_all add: relationship_event_of_def updated_relationship_def Let_def)
qed

section \<open>The steps\<close>

inductive memory_step ::
    "('s, 'e) memory_repository \<Rightarrow> (uuid \<Rightarrow> ustr \<Rightarrow> uuid) \<Rightarrow> text_encoder \<Rightarrow> 's \<Rightarrow> 's \<Rightarrow> bool"
  for repo uuid5 enc where
  opened: "create_episode repo args i now s = Inr (e, s') \<Longrightarrow> memory_step repo uuid5 enc s s'"
| closed: "close_episode repo i t a consolidate actor now s = Inr (e, s') \<Longrightarrow> memory_step repo uuid5 enc s s'"
| created: "create_memory repo uuid5 enc args i now s = Inr (d, s') \<Longrightarrow> memory_step repo uuid5 enc s s'"
| confirmed: "set_confirmation repo i t a c actor now s = Inr (m, s') \<Longrightarrow> memory_step repo uuid5 enc s s'"
| corrected: "correct_memory repo uuid5 enc i t a content event_at actor note_text rid sid lid now s = Inr (d, s') \<Longrightarrow>
    memory_step repo uuid5 enc s s'"
| forgotten: "forget_memory repo i t a actor now s = Inr (m, s') \<Longrightarrow> memory_step repo uuid5 enc s s'"
| linked: "link_conflict repo i j t a actor note_text lid now s = Inr (l, s') \<Longrightarrow> memory_step repo uuid5 enc s s'"
| related: "record_relationship_event repo uuid5 rargs i now s = Inr (rd, s') \<Longrightarrow> memory_step repo uuid5 enc s s'"
| requested: "request_embedding_rebuild repo enc t a u actor i now s = Inr (j, s') \<Longrightarrow> memory_step repo uuid5 enc s s'"
| indexed: "mr_replace_embedding repo i t b now s = Inr ((), s') \<Longrightarrow> mb_memory_id b = i \<Longrightarrow> mb_tenant_id b = t \<Longrightarrow>
    memory_step repo uuid5 enc s s'"
| progressed: "mr_update_index_job repo j s = Inr (j', s') \<Longrightarrow> memory_step repo uuid5 enc s s'"

section \<open>Invariants of a repository\<close>

locale memory_port =
  fixes repo :: "('s, 'e) memory_repository"
  assumes listed: "mr_list_memories_for_embedding repo t a u s = Inr ms \<Longrightarrow>
      \<forall>m \<in> set ms. mm_tenant_id m = t \<and> mm_content m \<noteq> None"
begin

lemma rebuild_loop_steps:
  "\<forall>m \<in> set ms. mm_tenant_id m = t \<Longrightarrow>
     (memory_step repo uuid5 enc)\<^sup>*\<^sup>* s (snd (snd (rebuild_loop repo uuid5 enc t clock k ms j s)))"
proof (induction ms arbitrary: k j s)
  case (Cons m ms)
  show ?case
  proof (cases "mm_content m")
    case None
    with Cons show ?thesis by simp
  next
    case (Some c)
    show ?thesis
    proof (cases "memory_embedding_of uuid5 enc m c (clock k) :: 'e memory_error + memory_embedding")
      case (Inl e)
      with Some show ?thesis by simp
    next
      case (Inr b)
      show ?thesis
      proof (cases "mr_replace_embedding repo (mm_id m) t b (clock k) s")
        case Inl': (Inl e)
        with Some Inr show ?thesis by simp
      next
        case Inr': (Inr us)
        obtain s1 where us: "us = ((), s1)" by (cases us) auto
        have one: "memory_step repo uuid5 enc s s1"
          using indexed[OF Inr'[unfolded us]] memory_embedding_owner[OF Inr] Cons.prems by auto
        let ?j = "j\<lparr>ix_processed_items := ix_processed_items j + 1\<rparr>"
        show ?thesis
        proof (cases "mr_update_index_job repo ?j s1")
          case Inl'': (Inl e)
          with Some Inr Inr' us one show ?thesis by (auto simp: Let_def)
        next
          case Inr'': (Inr js)
          obtain j' s2 where js: "js = (j', s2)" by (cases js)
          have two: "memory_step repo uuid5 enc s1 s2" by (rule progressed[OF Inr''[unfolded js]])
          have "(memory_step repo uuid5 enc)\<^sup>*\<^sup>* s2
              (snd (snd (rebuild_loop repo uuid5 enc t clock (Suc k) ms ?j s2)))"
            using Cons by simp
          then show ?thesis
            using Some Inr Inr' us Inr'' js one two by (simp add: Let_def converse_rtranclp_into_rtranclp)
        qed
      qed
    qed
  qed
qed simp

lemma rebuild_steps:
  "(memory_step repo uuid5 enc)\<^sup>*\<^sup>* s
     (snd (run_embedding_rebuild repo uuid5 enc error_name t a i started clock ended s))"
proof (cases "mr_get_index_job repo t a i s")
  case (Inr found_job)
  show ?thesis
  proof (cases found_job)
    case (Some job)
    show ?thesis
    proof (cases "ix_status job = INDEX_COMPLETED")
      case False
      note job = Inr Some False
      show ?thesis
      proof (cases "mr_list_memories_for_embedding repo t a (ix_user_id job) s")
        case ms: (Inr ms)
        let ?j = "running_job (length ms) started job"
        show ?thesis
        proof (cases "mr_update_index_job repo ?j s")
          case upd: (Inr r)
          obtain j' s1 where r: "r = (j', s1)" by (cases r)
          obtain e latest s2 where l: "rebuild_loop repo uuid5 enc t clock 0 ms ?j s1 = (e, latest, s2)"
            by (cases "rebuild_loop repo uuid5 enc t clock 0 ms ?j s1")
          have "memory_step repo uuid5 enc s s1" by (rule progressed[OF upd[unfolded r]])
          moreover have "(memory_step repo uuid5 enc)\<^sup>*\<^sup>* s1 s2"
            using rebuild_loop_steps[of ms t uuid5 enc s1 clock 0 ?j] listed[OF ms] l by simp
          ultimately have "(memory_step repo uuid5 enc)\<^sup>*\<^sup>* s s2" by (rule converse_rtranclp_into_rtranclp)
          then show ?thesis
            using job ms upd r l
            by (auto simp: run_embedding_rebuild_def Let_def split: option.split sum.split
                intro: rtranclp.rtrancl_into_rtrancl progressed)
        qed (use job ms in \<open>simp add: run_embedding_rebuild_def Let_def\<close>)
      qed (use job in \<open>simp add: run_embedding_rebuild_def\<close>)
    qed (use Inr Some in \<open>simp add: run_embedding_rebuild_def\<close>)
  qed (use Inr in \<open>simp add: run_embedding_rebuild_def\<close>)
qed (simp add: run_embedding_rebuild_def)

end

text \<open>A predicate of the state that every write of the repository keeps.\<close>

locale memory_invariant = memory_port repo for repo :: "('s, 'e) memory_repository" +
  fixes J :: "'s \<Rightarrow> bool"
  assumes detail_scope: "J s \<Longrightarrow> mr_get_memory_detail repo i t a s = Inr (Some d) \<Longrightarrow>
      mm_tenant_id (md_memory d) = t"
    and keeps_episode: "J s \<Longrightarrow> mr_create_episode repo e s = Inr (e', s') \<Longrightarrow> J s'"
    and keeps_status: "J s \<Longrightarrow> mr_set_episode_status repo i t a st en actor s = Inr (ep, s') \<Longrightarrow> J s'"
    and keeps_memory: "J s \<Longrightarrow> mr_create_memory repo m xs b s = Inr (d, s') \<Longrightarrow> newborn m \<Longrightarrow> belongs m xs b \<Longrightarrow> J s'"
    and keeps_confirmation: "J s \<Longrightarrow> mr_get_memory_detail repo i t a s = Inr (Some d) \<Longrightarrow>
      mr_set_confirmation repo i t a c (confirmed_confidence c (mm_confidence (md_memory d))) now actor s
        = Inr (om, s') \<Longrightarrow> J s'"
    and keeps_correction: "J s \<Longrightarrow> mr_get_memory_detail repo i t a s = Inr (Some d) \<Longrightarrow>
      mm_status (md_memory d) = MEMORY_ACTIVE \<Longrightarrow> successor (md_memory d) m \<Longrightarrow> belongs m [x] b \<Longrightarrow>
      mr_correct_memory repo i m x b l s = Inr (Some d', s') \<Longrightarrow> J s'"
    and keeps_forgetting: "J s \<Longrightarrow> mr_forget_memory repo i t a now actor s = Inr (om, s') \<Longrightarrow> J s'"
    and keeps_link: "J s \<Longrightarrow> mr_create_memory_link repo l s = Inr (l', s') \<Longrightarrow> J s'"
    and keeps_relationship: "J s \<Longrightarrow> mr_apply_relationship_event repo r re s = Inr (rd, s') \<Longrightarrow> well_scored r \<Longrightarrow> J s'"
    and keeps_request: "J s \<Longrightarrow> mr_create_index_job repo j s = Inr (j', s') \<Longrightarrow> J s'"
    and keeps_progress: "J s \<Longrightarrow> mr_update_index_job repo j s = Inr (j', s') \<Longrightarrow> J s'"
    and keeps_embedding: "J s \<Longrightarrow> mr_replace_embedding repo i t b now s = Inr ((), s') \<Longrightarrow>
      mb_memory_id b = i \<Longrightarrow> mb_tenant_id b = t \<Longrightarrow> J s'"
begin

lemma step_keeps: "memory_step repo uuid5 enc s s' \<Longrightarrow> J s \<Longrightarrow> J s'"
proof (induction rule: memory_step.induct)
  case (opened args i now s e s')
  then show ?case by (auto simp: create_episode_def result_laws intro: keeps_episode)
next
  case (closed i t a consolidate actor now s e s')
  then show ?case by (auto simp: close_episode_def result_laws intro: keeps_status)
next
  case (created args i now s d s')
  then show ?case by (auto elim!: create_memory_passes intro: keeps_memory)
next
  case (confirmed i t a c actor now s m s')
  then show ?case by (auto simp: set_confirmation_def result_laws intro: keeps_confirmation)
next
  case (corrected i t a content event_at actor note_text rid sid lid now s d s')
  from corrected.hyps show ?case
  proof (rule correct_memory_passes)
    fix d0 m x b l
    assume g: "mr_get_memory_detail repo i t a s = Inr (Some d0)"
      and act: "mm_status (md_memory d0) = MEMORY_ACTIVE" and suc: "successor (md_memory d0) m"
      and r: "mr_correct_memory repo i m x b l s = Inr (Some d, s')"
      and own: "mm_tenant_id (md_memory d0) = t \<Longrightarrow> belongs m [x] b"
    show "J s'"
      by (rule keeps_correction[OF corrected.prems g act suc own r]) (rule detail_scope[OF corrected.prems g])
  qed
next
  case (forgotten i t a actor now s m s')
  then show ?case by (auto simp: forget_memory_def result_laws intro: keeps_forgetting)
next
  case (linked i j t a actor note_text lid now s l s')
  then show ?case by (auto simp: link_conflict_def result_laws intro: keeps_link)
next
  case (related rargs i now s rd s')
  then show ?case
    by (auto elim!: relationship_event_passes intro: keeps_relationship updated_relationship_scored)
next
  case (requested t a u actor i now s j s')
  then show ?case by (auto simp: request_embedding_rebuild_def result_laws intro: keeps_request)
qed (auto intro: keeps_embedding keeps_progress)

lemma steps_keep: "(memory_step repo uuid5 enc)\<^sup>*\<^sup>* s s' \<Longrightarrow> J s \<Longrightarrow> J s'"
  by (induction rule: rtranclp_induct) (auto intro: step_keeps)

lemma reachable_keep: "J s0 \<Longrightarrow> reachable (\<lambda>s. s = s0) (memory_step repo uuid5 enc) s \<Longrightarrow> J s"
  by (rotate_tac, induction rule: reachable.induct) (auto intro: step_keeps)

end

end
