(* ===== verification/Memory_Rows.thy ===== *)
theory Memory_Rows
  imports Memory_Domain Sql_Base
begin

text \<open>
  The rows of the long-term memory tables (\<open>packages/infrastructure/.../models.py\<close>) and the
  conversions of \<open>SqlAlchemyMemoryRepository\<close>. A row of \<open>memory_embeddings\<close> or of
  \<open>relationship_events\<close> has no enumeration and is the domain record itself; the \<open>jsonb\<close> list of source
  messages is kept as identifiers, whose text form is injective. \<open>..._checks\<close> are the tables'
  \<open>CheckConstraint\<close>s and \<open>..._fits\<close> the widths of their columns.
\<close>

section \<open>Enumerations as text\<close>

fun memory_kind_value :: "memory_kind \<Rightarrow> ustr" where
  "memory_kind_value WORKING = lit ''working''"
| "memory_kind_value EPISODIC = lit ''episodic''"
| "memory_kind_value SEMANTIC = lit ''semantic''"
| "memory_kind_value RELATIONAL = lit ''relational''"
| "memory_kind_value AUTOBIOGRAPHICAL = lit ''autobiographical''"
| "memory_kind_value PROCEDURAL = lit ''procedural''"

definition memory_kind_members :: "memory_kind list" where
  "memory_kind_members = [WORKING, EPISODIC, SEMANTIC, RELATIONAL, AUTOBIOGRAPHICAL, PROCEDURAL]"

definition parse_memory_kind :: "ustr \<Rightarrow> memory_kind option" where
  "parse_memory_kind = parse_enum memory_kind_value memory_kind_members"

fun memory_visibility_value :: "memory_visibility \<Rightarrow> ustr" where
  "memory_visibility_value VISIBLE_USER = lit ''user''"
| "memory_visibility_value VISIBLE_AGENT = lit ''agent''"
| "memory_visibility_value VISIBLE_TENANT = lit ''tenant''"

definition memory_visibility_members :: "memory_visibility list" where
  "memory_visibility_members = [VISIBLE_USER, VISIBLE_AGENT, VISIBLE_TENANT]"

definition parse_memory_visibility :: "ustr \<Rightarrow> memory_visibility option" where
  "parse_memory_visibility = parse_enum memory_visibility_value memory_visibility_members"

fun memory_sensitivity_value :: "memory_sensitivity \<Rightarrow> ustr" where
  "memory_sensitivity_value NORMAL = lit ''normal''"
| "memory_sensitivity_value PERSONAL = lit ''personal''"
| "memory_sensitivity_value SENSITIVE = lit ''sensitive''"
| "memory_sensitivity_value RESTRICTED = lit ''restricted''"

definition memory_sensitivity_members :: "memory_sensitivity list" where
  "memory_sensitivity_members = [NORMAL, PERSONAL, SENSITIVE, RESTRICTED]"

definition parse_memory_sensitivity :: "ustr \<Rightarrow> memory_sensitivity option" where
  "parse_memory_sensitivity = parse_enum memory_sensitivity_value memory_sensitivity_members"

fun memory_confirmation_value :: "memory_confirmation \<Rightarrow> ustr" where
  "memory_confirmation_value UNCONFIRMED = lit ''unconfirmed''"
| "memory_confirmation_value CONFIRMED = lit ''confirmed''"
| "memory_confirmation_value DISPUTED = lit ''disputed''"

definition memory_confirmation_members :: "memory_confirmation list" where
  "memory_confirmation_members = [UNCONFIRMED, CONFIRMED, DISPUTED]"

definition parse_memory_confirmation :: "ustr \<Rightarrow> memory_confirmation option" where
  "parse_memory_confirmation = parse_enum memory_confirmation_value memory_confirmation_members"

fun memory_status_value :: "memory_status \<Rightarrow> ustr" where
  "memory_status_value MEMORY_ACTIVE = lit ''active''"
| "memory_status_value MEMORY_SUPERSEDED = lit ''superseded''"
| "memory_status_value MEMORY_FORGOTTEN = lit ''forgotten''"

definition memory_status_members :: "memory_status list" where
  "memory_status_members = [MEMORY_ACTIVE, MEMORY_SUPERSEDED, MEMORY_FORGOTTEN]"

definition parse_memory_status :: "ustr \<Rightarrow> memory_status option" where
  "parse_memory_status = parse_enum memory_status_value memory_status_members"

fun source_kind_value :: "source_kind \<Rightarrow> ustr" where
  "source_kind_value SOURCE_MESSAGE = lit ''message''"
| "source_kind_value SOURCE_EPISODE = lit ''episode''"
| "source_kind_value SOURCE_USER_STATEMENT = lit ''user_statement''"
| "source_kind_value SOURCE_ADMIN_CORRECTION = lit ''admin_correction''"
| "source_kind_value SOURCE_REFLECTION = lit ''reflection''"
| "source_kind_value SOURCE_IMPORT = lit ''import''"

definition source_kind_members :: "source_kind list" where
  "source_kind_members = [SOURCE_MESSAGE, SOURCE_EPISODE, SOURCE_USER_STATEMENT, SOURCE_ADMIN_CORRECTION,
     SOURCE_REFLECTION, SOURCE_IMPORT]"

definition parse_source_kind :: "ustr \<Rightarrow> source_kind option" where
  "parse_source_kind = parse_enum source_kind_value source_kind_members"

fun link_kind_value :: "link_kind \<Rightarrow> ustr" where
  "link_kind_value RELATED_TO = lit ''related_to''"
| "link_kind_value CONFLICTS_WITH = lit ''conflicts_with''"
| "link_kind_value SUPERSEDES = lit ''supersedes''"
| "link_kind_value DERIVED_FROM = lit ''derived_from''"

definition link_kind_members :: "link_kind list" where
  "link_kind_members = [RELATED_TO, CONFLICTS_WITH, SUPERSEDES, DERIVED_FROM]"

definition parse_link_kind :: "ustr \<Rightarrow> link_kind option" where
  "parse_link_kind = parse_enum link_kind_value link_kind_members"

fun episode_status_value :: "episode_status \<Rightarrow> ustr" where
  "episode_status_value EPISODE_OPEN = lit ''open''"
| "episode_status_value EPISODE_CLOSED = lit ''closed''"
| "episode_status_value EPISODE_CONSOLIDATED = lit ''consolidated''"

definition episode_status_members :: "episode_status list" where
  "episode_status_members = [EPISODE_OPEN, EPISODE_CLOSED, EPISODE_CONSOLIDATED]"

definition parse_episode_status :: "ustr \<Rightarrow> episode_status option" where
  "parse_episode_status = parse_enum episode_status_value episode_status_members"

fun relationship_stage_value :: "relationship_stage \<Rightarrow> ustr" where
  "relationship_stage_value STRANGER = lit ''stranger''"
| "relationship_stage_value ACQUAINTANCE = lit ''acquaintance''"
| "relationship_stage_value FAMILIAR = lit ''familiar''"
| "relationship_stage_value TRUSTED = lit ''trusted''"

definition relationship_stage_members :: "relationship_stage list" where
  "relationship_stage_members = [STRANGER, ACQUAINTANCE, FAMILIAR, TRUSTED]"

definition parse_relationship_stage :: "ustr \<Rightarrow> relationship_stage option" where
  "parse_relationship_stage = parse_enum relationship_stage_value relationship_stage_members"

fun index_status_value :: "index_status \<Rightarrow> ustr" where
  "index_status_value INDEX_PENDING = lit ''pending''"
| "index_status_value INDEX_RUNNING = lit ''running''"
| "index_status_value INDEX_COMPLETED = lit ''completed''"
| "index_status_value INDEX_FAILED = lit ''failed''"

definition index_status_members :: "index_status list" where
  "index_status_members = [INDEX_PENDING, INDEX_RUNNING, INDEX_COMPLETED, INDEX_FAILED]"

definition parse_index_status :: "ustr \<Rightarrow> index_status option" where
  "parse_index_status = parse_enum index_status_value index_status_members"

interpretation memory_kind_enum: str_enum memory_kind_value memory_kind_members
proof
  show "m \<in> set memory_kind_members" for m by (cases m) (simp_all add: memory_kind_members_def)
  show "distinct (map memory_kind_value memory_kind_members)" by (simp add: memory_kind_members_def)
qed

interpretation memory_visibility_enum: str_enum memory_visibility_value memory_visibility_members
proof
  show "m \<in> set memory_visibility_members" for m by (cases m) (simp_all add: memory_visibility_members_def)
  show "distinct (map memory_visibility_value memory_visibility_members)" by (simp add: memory_visibility_members_def)
qed

interpretation memory_sensitivity_enum: str_enum memory_sensitivity_value memory_sensitivity_members
proof
  show "m \<in> set memory_sensitivity_members" for m by (cases m) (simp_all add: memory_sensitivity_members_def)
  show "distinct (map memory_sensitivity_value memory_sensitivity_members)" by (simp add: memory_sensitivity_members_def)
qed

interpretation memory_confirmation_enum: str_enum memory_confirmation_value memory_confirmation_members
proof
  show "m \<in> set memory_confirmation_members" for m by (cases m) (simp_all add: memory_confirmation_members_def)
  show "distinct (map memory_confirmation_value memory_confirmation_members)" by (simp add: memory_confirmation_members_def)
qed

interpretation memory_status_enum: str_enum memory_status_value memory_status_members
proof
  show "m \<in> set memory_status_members" for m by (cases m) (simp_all add: memory_status_members_def)
  show "distinct (map memory_status_value memory_status_members)" by (simp add: memory_status_members_def)
qed

interpretation source_kind_enum: str_enum source_kind_value source_kind_members
proof
  show "m \<in> set source_kind_members" for m by (cases m) (simp_all add: source_kind_members_def)
  show "distinct (map source_kind_value source_kind_members)" by (simp add: source_kind_members_def)
qed

interpretation link_kind_enum: str_enum link_kind_value link_kind_members
proof
  show "m \<in> set link_kind_members" for m by (cases m) (simp_all add: link_kind_members_def)
  show "distinct (map link_kind_value link_kind_members)" by (simp add: link_kind_members_def)
qed

interpretation episode_status_enum: str_enum episode_status_value episode_status_members
proof
  show "m \<in> set episode_status_members" for m by (cases m) (simp_all add: episode_status_members_def)
  show "distinct (map episode_status_value episode_status_members)" by (simp add: episode_status_members_def)
qed

interpretation relationship_stage_enum: str_enum relationship_stage_value relationship_stage_members
proof
  show "m \<in> set relationship_stage_members" for m by (cases m) (simp_all add: relationship_stage_members_def)
  show "distinct (map relationship_stage_value relationship_stage_members)" by (simp add: relationship_stage_members_def)
qed

interpretation index_status_enum: str_enum index_status_value index_status_members
proof
  show "m \<in> set index_status_members" for m by (cases m) (simp_all add: index_status_members_def)
  show "distinct (map index_status_value index_status_members)" by (simp add: index_status_members_def)
qed

lemmas memory_parse_values [simp] =
  memory_kind_enum.parse_value[folded parse_memory_kind_def]
  memory_visibility_enum.parse_value[folded parse_memory_visibility_def]
  memory_sensitivity_enum.parse_value[folded parse_memory_sensitivity_def]
  memory_confirmation_enum.parse_value[folded parse_memory_confirmation_def]
  memory_status_enum.parse_value[folded parse_memory_status_def]
  source_kind_enum.parse_value[folded parse_source_kind_def]
  link_kind_enum.parse_value[folded parse_link_kind_def]
  episode_status_enum.parse_value[folded parse_episode_status_def]
  relationship_stage_enum.parse_value[folded parse_relationship_stage_def]
  index_status_enum.parse_value[folded parse_index_status_def]

lemmas memory_value_eqs [simp] =
  memory_kind_enum.value_eq
  memory_visibility_enum.value_eq
  memory_sensitivity_enum.value_eq
  memory_confirmation_enum.value_eq
  memory_status_enum.value_eq
  source_kind_enum.value_eq
  link_kind_enum.value_eq
  episode_status_enum.value_eq
  relationship_stage_enum.value_eq
  index_status_enum.value_eq

section \<open>Episodes\<close>

record episode_row =
  ew_id :: uuid
  ew_tenant_id :: uuid
  ew_agent_id :: uuid
  ew_user_id :: uuid
  ew_conversation_id :: uuid
  ew_title :: ustr
  ew_summary :: ustr
  ew_status :: ustr
  ew_started_at :: instant
  ew_ended_at :: "instant option"
  ew_source_message_ids :: "uuid list"
  ew_created_by :: uuid
  ew_created_at :: instant
  ew_updated_at :: instant

definition episode_model :: "episode \<Rightarrow> episode_row" where
  "episode_model item = \<lparr>
     ew_id = ep_id item, ew_tenant_id = ep_tenant_id item, ew_agent_id = ep_agent_id item,
     ew_user_id = ep_user_id item, ew_conversation_id = ep_conversation_id item,
     ew_title = ep_title item, ew_summary = ep_summary item,
     ew_status = episode_status_value (ep_status item), ew_started_at = ep_started_at item,
     ew_ended_at = ep_ended_at item, ew_source_message_ids = ep_source_message_ids item,
     ew_created_by = ep_created_by item, ew_created_at = ep_created_at item,
     ew_updated_at = ep_updated_at item\<rparr>"

definition row_episode :: "episode_row \<Rightarrow> episode option" where
  "row_episode row =
     Option.bind (parse_episode_status (ew_status row)) (\<lambda>status_v.
     Some \<lparr>
       ep_id = ew_id row, ep_tenant_id = ew_tenant_id row, ep_agent_id = ew_agent_id row,
       ep_user_id = ew_user_id row, ep_conversation_id = ew_conversation_id row,
       ep_title = ew_title row, ep_summary = ew_summary row, ep_status = status_v,
       ep_started_at = ew_started_at row, ep_ended_at = ew_ended_at row,
       ep_source_message_ids = ew_source_message_ids row, ep_created_by = ew_created_by row,
       ep_created_at = ew_created_at row, ep_updated_at = ew_updated_at row\<rparr>)"

lemma row_episode_model [simp]: "row_episode (episode_model x) = Some x"
  by (cases x) (simp add: row_episode_def episode_model_def)

section \<open>Memories\<close>

record memory_row =
  mw_id :: uuid
  mw_lineage_id :: uuid
  mw_tenant_id :: uuid
  mw_agent_id :: uuid
  mw_user_id :: "uuid option"
  mw_conversation_id :: "uuid option"
  mw_episode_id :: "uuid option"
  mw_kind :: ustr
  mw_visibility :: ustr
  mw_content :: "ustr option"
  mw_event_at :: instant
  mw_confidence :: rat
  mw_importance :: rat
  mw_emotional_weight :: rat
  mw_sensitivity :: ustr
  mw_confirmation :: ustr
  mw_status :: ustr
  mw_version :: int
  mw_embedding_version :: "ustr option"
  mw_created_by :: uuid
  mw_created_at :: instant
  mw_updated_at :: instant

definition memory_model :: "memory \<Rightarrow> memory_row" where
  "memory_model item = \<lparr>
     mw_id = mm_id item, mw_lineage_id = mm_lineage_id item, mw_tenant_id = mm_tenant_id item,
     mw_agent_id = mm_agent_id item, mw_user_id = mm_user_id item,
     mw_conversation_id = mm_conversation_id item, mw_episode_id = mm_episode_id item,
     mw_kind = memory_kind_value (mm_kind item),
     mw_visibility = memory_visibility_value (mm_visibility item), mw_content = mm_content item,
     mw_event_at = mm_event_at item, mw_confidence = mm_confidence item,
     mw_importance = mm_importance item, mw_emotional_weight = mm_emotional_weight item,
     mw_sensitivity = memory_sensitivity_value (mm_sensitivity item),
     mw_confirmation = memory_confirmation_value (mm_confirmation item),
     mw_status = memory_status_value (mm_status item), mw_version = mm_version item,
     mw_embedding_version = mm_embedding_version item, mw_created_by = mm_created_by item,
     mw_created_at = mm_created_at item, mw_updated_at = mm_updated_at item\<rparr>"

definition row_memory :: "memory_row \<Rightarrow> memory option" where
  "row_memory row =
     Option.bind (parse_memory_kind (mw_kind row)) (\<lambda>kind_v.
     Option.bind (parse_memory_visibility (mw_visibility row)) (\<lambda>visibility_v.
     Option.bind (parse_memory_sensitivity (mw_sensitivity row)) (\<lambda>sensitivity_v.
     Option.bind (parse_memory_confirmation (mw_confirmation row)) (\<lambda>confirmation_v.
     Option.bind (parse_memory_status (mw_status row)) (\<lambda>status_v.
     Some \<lparr>
       mm_id = mw_id row, mm_lineage_id = mw_lineage_id row, mm_tenant_id = mw_tenant_id row,
       mm_agent_id = mw_agent_id row, mm_user_id = mw_user_id row,
       mm_conversation_id = mw_conversation_id row, mm_episode_id = mw_episode_id row,
       mm_kind = kind_v, mm_visibility = visibility_v, mm_content = mw_content row,
       mm_event_at = mw_event_at row, mm_confidence = mw_confidence row,
       mm_importance = mw_importance row, mm_emotional_weight = mw_emotional_weight row,
       mm_sensitivity = sensitivity_v, mm_confirmation = confirmation_v, mm_status = status_v,
       mm_version = mw_version row, mm_embedding_version = mw_embedding_version row,
       mm_created_by = mw_created_by row, mm_created_at = mw_created_at row,
       mm_updated_at = mw_updated_at row\<rparr>)))))"

lemma row_memory_model [simp]: "row_memory (memory_model x) = Some x"
  by (cases x) (simp add: row_memory_def memory_model_def)

section \<open>Sources\<close>

record memory_source_row =
  sw_id :: uuid
  sw_tenant_id :: uuid
  sw_memory_id :: uuid
  sw_kind :: ustr
  sw_source_id :: ustr
  sw_excerpt :: "ustr option"
  sw_is_verbatim :: bool
  sw_occurred_at :: instant
  sw_created_at :: instant

definition source_model :: "memory_source \<Rightarrow> memory_source_row" where
  "source_model item = \<lparr>
     sw_id = ms_id item, sw_tenant_id = ms_tenant_id item, sw_memory_id = ms_memory_id item,
     sw_kind = source_kind_value (ms_kind item), sw_source_id = ms_source_id item,
     sw_excerpt = ms_excerpt item, sw_is_verbatim = ms_is_verbatim item,
     sw_occurred_at = ms_occurred_at item, sw_created_at = ms_created_at item\<rparr>"

definition row_source :: "memory_source_row \<Rightarrow> memory_source option" where
  "row_source row =
     Option.bind (parse_source_kind (sw_kind row)) (\<lambda>kind_v.
     Some \<lparr>
       ms_id = sw_id row, ms_tenant_id = sw_tenant_id row, ms_memory_id = sw_memory_id row,
       ms_kind = kind_v, ms_source_id = sw_source_id row, ms_excerpt = sw_excerpt row,
       ms_is_verbatim = sw_is_verbatim row, ms_occurred_at = sw_occurred_at row,
       ms_created_at = sw_created_at row\<rparr>)"

lemma row_source_model [simp]: "row_source (source_model x) = Some x"
  by (cases x) (simp add: row_source_def source_model_def)

section \<open>Links\<close>

record memory_link_row =
  lw_id :: uuid
  lw_tenant_id :: uuid
  lw_source_memory_id :: uuid
  lw_target_memory_id :: uuid
  lw_kind :: ustr
  lw_note :: "ustr option"
  lw_created_by :: uuid
  lw_created_at :: instant

definition link_model :: "memory_link \<Rightarrow> memory_link_row" where
  "link_model item = \<lparr>
     lw_id = ml_id item, lw_tenant_id = ml_tenant_id item,
     lw_source_memory_id = ml_source_memory_id item, lw_target_memory_id = ml_target_memory_id item,
     lw_kind = link_kind_value (ml_kind item), lw_note = ml_note item,
     lw_created_by = ml_created_by item, lw_created_at = ml_created_at item\<rparr>"

definition row_link :: "memory_link_row \<Rightarrow> memory_link option" where
  "row_link row =
     Option.bind (parse_link_kind (lw_kind row)) (\<lambda>kind_v.
     Some \<lparr>
       ml_id = lw_id row, ml_tenant_id = lw_tenant_id row,
       ml_source_memory_id = lw_source_memory_id row, ml_target_memory_id = lw_target_memory_id row,
       ml_kind = kind_v, ml_note = lw_note row, ml_created_by = lw_created_by row,
       ml_created_at = lw_created_at row\<rparr>)"

lemma row_link_model [simp]: "row_link (link_model x) = Some x"
  by (cases x) (simp add: row_link_def link_model_def)

section \<open>Relationships\<close>

record relationship_row =
  hw_id :: uuid
  hw_tenant_id :: uuid
  hw_agent_id :: uuid
  hw_user_id :: uuid
  hw_stage :: ustr
  hw_affinity :: rat
  hw_trust :: rat
  hw_familiarity :: rat
  hw_interaction_count :: int
  hw_summary :: ustr
  hw_boundaries :: "ustr list"
  hw_version :: int
  hw_created_at :: instant
  hw_updated_at :: instant

definition relationship_model :: "relationship \<Rightarrow> relationship_row" where
  "relationship_model item = \<lparr>
     hw_id = rl_id item, hw_tenant_id = rl_tenant_id item, hw_agent_id = rl_agent_id item,
     hw_user_id = rl_user_id item, hw_stage = relationship_stage_value (rl_stage item),
     hw_affinity = rl_affinity item, hw_trust = rl_trust item, hw_familiarity = rl_familiarity item,
     hw_interaction_count = rl_interaction_count item, hw_summary = rl_summary item,
     hw_boundaries = rl_boundaries item, hw_version = rl_version item,
     hw_created_at = rl_created_at item, hw_updated_at = rl_updated_at item\<rparr>"

definition row_relationship :: "relationship_row \<Rightarrow> relationship option" where
  "row_relationship row =
     Option.bind (parse_relationship_stage (hw_stage row)) (\<lambda>stage_v.
     Some \<lparr>
       rl_id = hw_id row, rl_tenant_id = hw_tenant_id row, rl_agent_id = hw_agent_id row,
       rl_user_id = hw_user_id row, rl_stage = stage_v, rl_affinity = hw_affinity row,
       rl_trust = hw_trust row, rl_familiarity = hw_familiarity row,
       rl_interaction_count = hw_interaction_count row, rl_summary = hw_summary row,
       rl_boundaries = hw_boundaries row, rl_version = hw_version row,
       rl_created_at = hw_created_at row, rl_updated_at = hw_updated_at row\<rparr>)"

lemma row_relationship_model [simp]: "row_relationship (relationship_model x) = Some x"
  by (cases x) (simp add: row_relationship_def relationship_model_def)

section \<open>Index jobs\<close>

record index_job_row =
  iw_id :: uuid
  iw_tenant_id :: uuid
  iw_agent_id :: uuid
  iw_user_id :: "uuid option"
  iw_target_embedding_version :: ustr
  iw_status :: ustr
  iw_total_items :: int
  iw_processed_items :: int
  iw_error_code :: "ustr option"
  iw_created_by :: uuid
  iw_created_at :: instant
  iw_started_at :: "instant option"
  iw_completed_at :: "instant option"

definition index_job_model :: "index_job \<Rightarrow> index_job_row" where
  "index_job_model item = \<lparr>
     iw_id = ix_id item, iw_tenant_id = ix_tenant_id item, iw_agent_id = ix_agent_id item,
     iw_user_id = ix_user_id item, iw_target_embedding_version = ix_target_embedding_version item,
     iw_status = index_status_value (ix_status item), iw_total_items = ix_total_items item,
     iw_processed_items = ix_processed_items item, iw_error_code = ix_error_code item,
     iw_created_by = ix_created_by item, iw_created_at = ix_created_at item,
     iw_started_at = ix_started_at item, iw_completed_at = ix_completed_at item\<rparr>"

definition row_index_job :: "index_job_row \<Rightarrow> index_job option" where
  "row_index_job row =
     Option.bind (parse_index_status (iw_status row)) (\<lambda>status_v.
     Some \<lparr>
       ix_id = iw_id row, ix_tenant_id = iw_tenant_id row, ix_agent_id = iw_agent_id row,
       ix_user_id = iw_user_id row, ix_target_embedding_version = iw_target_embedding_version row,
       ix_status = status_v, ix_total_items = iw_total_items row,
       ix_processed_items = iw_processed_items row, ix_error_code = iw_error_code row,
       ix_created_by = iw_created_by row, ix_created_at = iw_created_at row,
       ix_started_at = iw_started_at row, ix_completed_at = iw_completed_at row\<rparr>)"

lemma row_index_job_model [simp]: "row_index_job (index_job_model x) = Some x"
  by (cases x) (simp add: row_index_job_def index_job_model_def)

section \<open>Widths and checks\<close>

definition episode_fits :: "episode_row \<Rightarrow> bool" where
  "episode_fits r \<longleftrightarrow> wide 200 (ew_title r) \<and> wide 24 (ew_status r)"

definition episode_checks :: "episode_row \<Rightarrow> bool" where
  "episode_checks r \<longleftrightarrow> one_of (ew_status r) [''open'', ''closed'', ''consolidated'']"

definition memory_fits :: "memory_row \<Rightarrow> bool" where
  "memory_fits r \<longleftrightarrow> wide 32 (mw_kind r) \<and> wide 24 (mw_visibility r) \<and> wide 24 (mw_sensitivity r) \<and>
     wide 24 (mw_confirmation r) \<and> wide 24 (mw_status r) \<and> int4 (mw_version r) \<and>
     wide_opt 120 (mw_embedding_version r)"

definition memory_checks :: "memory_row \<Rightarrow> bool" where
  "memory_checks r \<longleftrightarrow>
     one_of (mw_kind r) [''working'', ''episodic'', ''semantic'', ''relational'', ''autobiographical'', ''procedural''] \<and>
     one_of (mw_visibility r) [''user'', ''agent'', ''tenant''] \<and>
     one_of (mw_sensitivity r) [''normal'', ''personal'', ''sensitive'', ''restricted''] \<and>
     one_of (mw_confirmation r) [''unconfirmed'', ''confirmed'', ''disputed''] \<and>
     one_of (mw_status r) [''active'', ''superseded'', ''forgotten''] \<and>
     0 \<le> mw_confidence r \<and> mw_confidence r \<le> 1 \<and> 0 \<le> mw_importance r \<and> mw_importance r \<le> 1 \<and>
     - 1 \<le> mw_emotional_weight r \<and> mw_emotional_weight r \<le> 1 \<and>
     (mw_visibility r \<noteq> lit ''user'' \<or> mw_user_id r \<noteq> None) \<and>
     (mw_status r = lit ''forgotten'' \<and> mw_content r = None \<or>
      mw_status r \<noteq> lit ''forgotten'' \<and> mw_content r \<noteq> None)"

definition source_fits :: "memory_source_row \<Rightarrow> bool" where
  "source_fits r \<longleftrightarrow> wide 32 (sw_kind r) \<and> wide 255 (sw_source_id r)"

definition source_checks :: "memory_source_row \<Rightarrow> bool" where
  "source_checks r \<longleftrightarrow>
     one_of (sw_kind r) [''message'', ''episode'', ''user_statement'', ''admin_correction'', ''reflection'', ''import''] \<and>
     (\<not> sw_is_verbatim r \<or> sw_excerpt r \<noteq> None)"

definition link_fits :: "memory_link_row \<Rightarrow> bool" where
  "link_fits r \<longleftrightarrow> wide 32 (lw_kind r)"

definition link_checks :: "memory_link_row \<Rightarrow> bool" where
  "link_checks r \<longleftrightarrow> one_of (lw_kind r) [''related_to'', ''conflicts_with'', ''supersedes'', ''derived_from''] \<and>
     lw_source_memory_id r \<noteq> lw_target_memory_id r"

text \<open>A \<open>Vector(256)\<close> column takes vectors of 256 dimensions only.\<close>

definition embedding_fits :: "memory_embedding \<Rightarrow> bool" where
  "embedding_fits r \<longleftrightarrow> wide 120 (mb_embedding_version r) \<and> int4 (mb_dimensions r) \<and> length (mb_vector r) = 256"

definition embedding_checks :: "memory_embedding \<Rightarrow> bool" where
  "embedding_checks r \<longleftrightarrow> mb_dimensions r = 256"

definition relationship_fits :: "relationship_row \<Rightarrow> bool" where
  "relationship_fits r \<longleftrightarrow> wide 24 (hw_stage r) \<and> int4 (hw_interaction_count r) \<and> int4 (hw_version r)"

definition unit_range :: "rat \<Rightarrow> bool" where
  "unit_range x \<longleftrightarrow> 0 \<le> x \<and> x \<le> 1"

definition relationship_checks :: "relationship_row \<Rightarrow> bool" where
  "relationship_checks r \<longleftrightarrow> one_of (hw_stage r) [''stranger'', ''acquaintance'', ''familiar'', ''trusted''] \<and>
     unit_range (hw_affinity r) \<and> unit_range (hw_trust r) \<and> unit_range (hw_familiarity r) \<and>
     0 \<le> hw_interaction_count r"

definition relationship_event_fits :: "relationship_event \<Rightarrow> bool" where
  "relationship_event_fits r \<longleftrightarrow> wide 80 (re_event_type r)"

definition symmetric_range :: "rat \<Rightarrow> bool" where
  "symmetric_range x \<longleftrightarrow> - 1 \<le> x \<and> x \<le> 1"

definition relationship_event_checks :: "relationship_event \<Rightarrow> bool" where
  "relationship_event_checks r \<longleftrightarrow> symmetric_range (re_affinity_delta r) \<and> symmetric_range (re_trust_delta r) \<and>
     symmetric_range (re_familiarity_delta r)"

definition index_job_fits :: "index_job_row \<Rightarrow> bool" where
  "index_job_fits r \<longleftrightarrow> wide 120 (iw_target_embedding_version r) \<and> wide 24 (iw_status r) \<and>
     int4 (iw_total_items r) \<and> int4 (iw_processed_items r) \<and> wide_opt 120 (iw_error_code r)"

definition index_job_checks :: "index_job_row \<Rightarrow> bool" where
  "index_job_checks r \<longleftrightarrow> one_of (iw_status r) [''pending'', ''running'', ''completed'', ''failed''] \<and>
     0 \<le> iw_total_items r \<and> 0 \<le> iw_processed_items r \<and> iw_processed_items r \<le> iw_total_items r"

end
