(* ===== verification/Memory_Sql.thy ===== *)
theory Memory_Sql
  imports Memory_Rows Memory_Service
begin

text \<open>
  \<open>SqlAlchemyMemoryRepository\<close> (\<open>packages/infrastructure/.../memory_repository.py\<close>): every method as
  one transaction over the memory tables, with the statements' widths, checks and keys. Ranking
  functions of PostgreSQL and of pgvector are the parameters \<open>text_rank\<close> (the greater of
  \<open>ts_rank_cd\<close> and \<open>similarity\<close>), \<open>trigram\<close> and \<open>vector_score\<close>; \<open>scan\<close> is the order in which the
  database visits rows that a query leaves tied. Row locks only order transactions. Every update
  writes \<open>updated_at\<close>, so the column's \<open>onupdate\<close> clock plays no part.
\<close>

section \<open>The database\<close>

record memory_db =
  episode_table :: "(uuid, episode_row) dict"
  memory_table :: "(uuid, memory_row) dict"
  source_table :: "(uuid, memory_source_row) dict"
  link_table :: "(uuid, memory_link_row) dict"
  embedding_table :: "(uuid, memory_embedding) dict"
  relationship_table :: "(uuid, relationship_row) dict"
  relationship_event_table :: "(uuid, relationship_event) dict"
  index_job_table :: "(uuid, index_job_row) dict"
  memory_audit :: "audit_row list"

definition memory_audited ::
    "uuid \<Rightarrow> uuid \<Rightarrow> string \<Rightarrow> string \<Rightarrow> uuid \<Rightarrow> json_dict \<Rightarrow> memory_db \<Rightarrow> memory_db" where
  "memory_audited tenant_id actor_id action resource_type resource_id detail db =
     db\<lparr>memory_audit := memory_audit db @
       [\<lparr>au_tenant_id = tenant_id, au_actor_id = actor_id, au_action = lit action,
         au_resource_type = lit resource_type, au_resource_id = uuid_str resource_id,
         au_detail = detail\<rparr>]\<rparr>"

definition insert_episode :: "known_rows \<Rightarrow> episode_row \<Rightarrow> memory_db \<Rightarrow> memory_db sql" where
  "insert_episode known r db =
     statement (episode_fits r)
       (episode_checks r \<and> dict_get (episode_table db) (ew_id r) = None \<and>
        fk known ''tenants'' (Some (ew_tenant_id r)) \<and> fk known ''agents'' (Some (ew_agent_id r)) \<and>
        fk known ''users'' (Some (ew_user_id r)) \<and> fk known ''conversations'' (Some (ew_conversation_id r)) \<and>
        fk known ''users'' (Some (ew_created_by r)))
       (db\<lparr>episode_table := dict_set (ew_id r) r (episode_table db)\<rparr>)"

definition insert_memory :: "known_rows \<Rightarrow> memory_row \<Rightarrow> memory_db \<Rightarrow> memory_db sql" where
  "insert_memory known r db =
     statement (memory_fits r)
       (memory_checks r \<and> dict_get (memory_table db) (mw_id r) = None \<and>
        unique (\<lambda>x. (mw_tenant_id x, mw_lineage_id x, mw_version x)) r (memory_table db) \<and>
        fk known ''tenants'' (Some (mw_tenant_id r)) \<and> fk known ''agents'' (Some (mw_agent_id r)) \<and>
        fk known ''users'' (mw_user_id r) \<and> fk known ''conversations'' (mw_conversation_id r) \<and>
        present (episode_table db) (mw_episode_id r) \<and> fk known ''users'' (Some (mw_created_by r)))
       (db\<lparr>memory_table := dict_set (mw_id r) r (memory_table db)\<rparr>)"

definition insert_source :: "known_rows \<Rightarrow> memory_source_row \<Rightarrow> memory_db \<Rightarrow> memory_db sql" where
  "insert_source known r db =
     statement (source_fits r)
       (source_checks r \<and> dict_get (source_table db) (sw_id r) = None \<and>
        fk known ''tenants'' (Some (sw_tenant_id r)) \<and> present (memory_table db) (Some (sw_memory_id r)))
       (db\<lparr>source_table := dict_set (sw_id r) r (source_table db)\<rparr>)"

fun insert_sources :: "known_rows \<Rightarrow> memory_source_row list \<Rightarrow> memory_db \<Rightarrow> memory_db sql" where
  "insert_sources known [] db = Inr db"
| "insert_sources known (r # rs) db = bind_result (insert_source known r db) (insert_sources known rs)"

definition insert_link :: "known_rows \<Rightarrow> memory_link_row \<Rightarrow> memory_db \<Rightarrow> memory_db sql" where
  "insert_link known r db =
     statement (link_fits r)
       (link_checks r \<and> dict_get (link_table db) (lw_id r) = None \<and>
        unique (\<lambda>x. (lw_source_memory_id x, lw_target_memory_id x, lw_kind x)) r (link_table db) \<and>
        fk known ''tenants'' (Some (lw_tenant_id r)) \<and> present (memory_table db) (Some (lw_source_memory_id r)) \<and>
        present (memory_table db) (Some (lw_target_memory_id r)) \<and> fk known ''users'' (Some (lw_created_by r)))
       (db\<lparr>link_table := dict_set (lw_id r) r (link_table db)\<rparr>)"

text \<open>The partial unique index allows one active embedding of a memory.\<close>

definition insert_embedding :: "known_rows \<Rightarrow> memory_embedding \<Rightarrow> memory_db \<Rightarrow> memory_db sql" where
  "insert_embedding known r db =
     statement (embedding_fits r)
       (embedding_checks r \<and> dict_get (embedding_table db) (mb_id r) = None \<and>
        unique (\<lambda>x. (mb_memory_id x, mb_embedding_version x)) r (embedding_table db) \<and>
        unique_opt (\<lambda>x. if mb_active x then Some (mb_memory_id x) else None) r (embedding_table db) \<and>
        fk known ''tenants'' (Some (mb_tenant_id r)) \<and> present (memory_table db) (Some (mb_memory_id r)))
       (db\<lparr>embedding_table := dict_set (mb_id r) r (embedding_table db)\<rparr>)"

definition insert_relationship :: "known_rows \<Rightarrow> relationship_row \<Rightarrow> memory_db \<Rightarrow> memory_db sql" where
  "insert_relationship known r db =
     statement (relationship_fits r)
       (relationship_checks r \<and> dict_get (relationship_table db) (hw_id r) = None \<and>
        unique (\<lambda>x. (hw_tenant_id x, hw_agent_id x, hw_user_id x)) r (relationship_table db) \<and>
        fk known ''tenants'' (Some (hw_tenant_id r)) \<and> fk known ''agents'' (Some (hw_agent_id r)) \<and>
        fk known ''users'' (Some (hw_user_id r)))
       (db\<lparr>relationship_table := dict_set (hw_id r) r (relationship_table db)\<rparr>)"

definition insert_relationship_event :: "known_rows \<Rightarrow> relationship_event \<Rightarrow> memory_db \<Rightarrow> memory_db sql" where
  "insert_relationship_event known r db =
     statement (relationship_event_fits r)
       (relationship_event_checks r \<and> dict_get (relationship_event_table db) (re_id r) = None \<and>
        fk known ''tenants'' (Some (re_tenant_id r)) \<and> fk known ''users'' (Some (re_created_by r)) \<and>
        present (relationship_table db) (Some (re_relationship_id r)) \<and>
        present (memory_table db) (re_evidence_memory_id r))
       (db\<lparr>relationship_event_table := dict_set (re_id r) r (relationship_event_table db)\<rparr>)"

definition insert_index_job :: "known_rows \<Rightarrow> index_job_row \<Rightarrow> memory_db \<Rightarrow> memory_db sql" where
  "insert_index_job known r db =
     statement (index_job_fits r)
       (index_job_checks r \<and> dict_get (index_job_table db) (iw_id r) = None \<and>
        fk known ''tenants'' (Some (iw_tenant_id r)) \<and> fk known ''agents'' (Some (iw_agent_id r)) \<and>
        fk known ''users'' (iw_user_id r) \<and> fk known ''users'' (Some (iw_created_by r)))
       (db\<lparr>index_job_table := dict_set (iw_id r) r (index_job_table db)\<rparr>)"

definition update_memory :: "memory_row \<Rightarrow> memory_db \<Rightarrow> memory_db sql" where
  "update_memory r db = statement (memory_fits r) (memory_checks r)
     (db\<lparr>memory_table := dict_set (mw_id r) r (memory_table db)\<rparr>)"

definition update_relationship :: "relationship_row \<Rightarrow> memory_db \<Rightarrow> memory_db sql" where
  "update_relationship r db = statement (relationship_fits r) (relationship_checks r)
     (db\<lparr>relationship_table := dict_set (hw_id r) r (relationship_table db)\<rparr>)"

definition update_episode :: "episode_row \<Rightarrow> memory_db \<Rightarrow> memory_db sql" where
  "update_episode r db = statement (episode_fits r) (episode_checks r)
     (db\<lparr>episode_table := dict_set (ew_id r) r (episode_table db)\<rparr>)"

definition update_index_row :: "index_job_row \<Rightarrow> memory_db \<Rightarrow> memory_db sql" where
  "update_index_row r db = statement (index_job_fits r) (index_job_checks r)
     (db\<lparr>index_job_table := dict_set (iw_id r) r (index_job_table db)\<rparr>)"

section \<open>Episodes\<close>

definition sql_list_episodes :: "uuid \<Rightarrow> uuid \<Rightarrow> uuid option \<Rightarrow> int \<Rightarrow> memory_db \<Rightarrow> episode list sql" where
  "sql_list_episodes tenant_id agent_id user_id limit db = converted_all row_episode
     (take (nat limit) (sorted_by (\<lambda>r. (- ew_started_at r, ew_id r))
       (filter (\<lambda>r. ew_tenant_id r = tenant_id \<and> ew_agent_id r = agent_id \<and>
           (user_id = None \<or> user_id = Some (ew_user_id r))) (dict_values (episode_table db)))))"

definition sql_create_episode :: "known_rows \<Rightarrow> episode \<Rightarrow> memory_db \<Rightarrow> (episode \<times> memory_db) sql" where
  "sql_create_episode known e db =
     (case dict_get (episode_table db) (ep_id e) of
        Some r \<Rightarrow>
          if ew_tenant_id r \<noteq> ep_tenant_id e \<or> ew_agent_id r \<noteq> ep_agent_id e then Inl RepositoryValueError
          else bind_result (converted row_episode r) (\<lambda>x. Inr (x, db))
      | None \<Rightarrow> bind_result (insert_episode known (episode_model e) db) (\<lambda>db1.
          Inr (e, memory_audited (ep_tenant_id e) (ep_created_by e) ''episode.created'' ''episode'' (ep_id e)
            [(lit ''status'', JStr (episode_status_value (ep_status e)))] db1)))"

definition sql_set_episode_status ::
    "uuid \<Rightarrow> uuid \<Rightarrow> uuid \<Rightarrow> episode_status \<Rightarrow> instant option \<Rightarrow> uuid \<Rightarrow> memory_db \<Rightarrow>
       (episode option \<times> memory_db) sql" where
  "sql_set_episode_status episode_id tenant_id agent_id status ended_at actor_id db =
     (case scalar (\<lambda>r. ew_id r = episode_id \<and> ew_tenant_id r = tenant_id \<and> ew_agent_id r = agent_id)
         (episode_table db) of
        None \<Rightarrow> Inr (None, db)
      | Some r \<Rightarrow>
          (let r' = r\<lparr>ew_status := episode_status_value status, ew_ended_at := first_of ended_at (ew_ended_at r),
                 ew_updated_at := (case ended_at of None \<Rightarrow> ew_updated_at r | Some t \<Rightarrow> t)\<rparr> in
           bind_result (update_episode r' db) (\<lambda>db1.
           bind_result (converted row_episode r') (\<lambda>e.
             Inr (Some e, memory_audited tenant_id actor_id ''episode.status_updated'' ''episode'' episode_id
               [(lit ''status'', JStr (episode_status_value status))] db1)))))"

section \<open>Memories\<close>

definition row_in_scope :: "uuid \<Rightarrow> uuid \<Rightarrow> uuid \<Rightarrow> memory_row \<Rightarrow> bool" where
  "row_in_scope memory_id tenant_id agent_id r \<longleftrightarrow>
     mw_id r = memory_id \<and> mw_tenant_id r = tenant_id \<and> mw_agent_id r = agent_id"

definition locked_memory :: "uuid \<Rightarrow> uuid \<Rightarrow> uuid \<Rightarrow> memory_db \<Rightarrow> memory_row option" where
  "locked_memory memory_id tenant_id agent_id db =
     scalar (row_in_scope memory_id tenant_id agent_id) (memory_table db)"

definition sql_list_memories ::
    "(ustr \<Rightarrow> ustr \<Rightarrow> rat) \<Rightarrow> uuid \<Rightarrow> uuid \<Rightarrow> uuid option \<Rightarrow> memory_status option \<Rightarrow> memory_kind option \<Rightarrow>
       ustr option \<Rightarrow> int \<Rightarrow> memory_db \<Rightarrow> memory list sql" where
  "sql_list_memories trigram tenant_id agent_id user_id status kind query limit db = converted_all row_memory
     (take (nat limit) (sorted_by (\<lambda>r. (- mw_updated_at r, mw_id r))
       (filter (\<lambda>r. mw_tenant_id r = tenant_id \<and> mw_agent_id r = agent_id \<and>
           (user_id = None \<or> mw_user_id r = None \<or> mw_user_id r = user_id) \<and>
           (status = None \<or> Some (mw_status r) = map_option memory_status_value status) \<and>
           (kind = None \<or> Some (mw_kind r) = map_option memory_kind_value kind) \<and>
           (case query of None \<Rightarrow> True
            | Some q \<Rightarrow> q = [] \<or> trigram (case mw_content r of None \<Rightarrow> [] | Some c \<Rightarrow> c) q > 5 / 100))
         (dict_values (memory_table db)))))"

definition rows_of_memory :: "uuid \<Rightarrow> memory_db \<Rightarrow> memory_source_row list" where
  "rows_of_memory memory_id db = filter (\<lambda>r. sw_memory_id r = memory_id) (dict_values (source_table db))"

definition sql_get_memory_detail :: "uuid \<Rightarrow> uuid \<Rightarrow> uuid \<Rightarrow> memory_db \<Rightarrow> memory_detail option sql" where
  "sql_get_memory_detail memory_id tenant_id agent_id db =
     (case locked_memory memory_id tenant_id agent_id db of
        None \<Rightarrow> Inr None
      | Some r \<Rightarrow>
          bind_result (converted row_memory r) (\<lambda>m.
          bind_result (converted_all row_source (sorted_by (\<lambda>x. (sw_created_at x, sw_id x))
            (filter (\<lambda>x. sw_tenant_id x = tenant_id) (rows_of_memory memory_id db)))) (\<lambda>sources.
          bind_result (converted_all row_link (sorted_by (\<lambda>x. (lw_created_at x, lw_id x))
            (filter (\<lambda>x. lw_tenant_id x = tenant_id \<and>
                (lw_source_memory_id x = memory_id \<or> lw_target_memory_id x = memory_id))
              (dict_values (link_table db))))) (\<lambda>links.
            Inr (Some \<lparr>md_memory = m, md_sources = sources, md_links = links\<rparr>)))))"

definition sql_create_memory ::
    "known_rows \<Rightarrow> memory \<Rightarrow> memory_source list \<Rightarrow> memory_embedding \<Rightarrow> memory_db \<Rightarrow>
       (memory_detail \<times> memory_db) sql" where
  "sql_create_memory known m sources b db =
     (case dict_get (memory_table db) (mm_id m) of
        Some r \<Rightarrow>
          if mw_tenant_id r \<noteq> mm_tenant_id m \<or> mw_agent_id r \<noteq> mm_agent_id m then Inl RepositoryValueError
          else bind_result (converted row_memory r) (\<lambda>x.
            bind_result (converted_all row_source (rows_of_memory (mm_id m) db)) (\<lambda>xs.
              Inr (\<lparr>md_memory = x, md_sources = xs, md_links = []\<rparr>, db)))
      | None \<Rightarrow>
          bind_result (insert_memory known (memory_model m) db) (\<lambda>db1.
          bind_result (insert_sources known (map source_model sources) db1) (\<lambda>db2.
          bind_result (insert_embedding known b db2) (\<lambda>db3.
            Inr (\<lparr>md_memory = m, md_sources = sources, md_links = []\<rparr>,
              memory_audited (mm_tenant_id m) (mm_created_by m) ''memory.created'' ''memory'' (mm_id m)
                [(lit ''kind'', JStr (memory_kind_value (mm_kind m))),
                 (lit ''visibility'', JStr (memory_visibility_value (mm_visibility m))),
                 (lit ''source_count'', JInt (int (length sources)))] db3)))))"

definition sql_set_confirmation ::
    "uuid \<Rightarrow> uuid \<Rightarrow> uuid \<Rightarrow> memory_confirmation \<Rightarrow> rat \<Rightarrow> instant \<Rightarrow> uuid \<Rightarrow> memory_db \<Rightarrow>
       (memory option \<times> memory_db) sql" where
  "sql_set_confirmation memory_id tenant_id agent_id confirmation confidence updated_at actor_id db =
     (case locked_memory memory_id tenant_id agent_id db of
        None \<Rightarrow> Inr (None, db)
      | Some r \<Rightarrow>
          if mw_status r \<noteq> memory_status_value MEMORY_ACTIVE then Inr (None, db)
          else
            (let r' = r\<lparr>mw_confirmation := memory_confirmation_value confirmation, mw_confidence := confidence,
                   mw_updated_at := updated_at\<rparr> in
             bind_result (update_memory r' db) (\<lambda>db1.
             bind_result (converted row_memory r') (\<lambda>m.
               Inr (Some m, memory_audited tenant_id actor_id ''memory.confirmation_updated'' ''memory'' memory_id
                 [(lit ''confirmation'', JStr (memory_confirmation_value confirmation))] db1)))))"

definition sql_correct_memory ::
    "known_rows \<Rightarrow> uuid \<Rightarrow> memory \<Rightarrow> memory_source \<Rightarrow> memory_embedding \<Rightarrow> memory_link \<Rightarrow> memory_db \<Rightarrow>
       (memory_detail option \<times> memory_db) sql" where
  "sql_correct_memory known source_id replacement x b link db =
     (case locked_memory source_id (mm_tenant_id replacement) (mm_agent_id replacement) db of
        None \<Rightarrow> Inr (None, db)
      | Some r \<Rightarrow>
          if mw_status r \<noteq> memory_status_value MEMORY_ACTIVE then Inr (None, db)
          else
            bind_result (update_memory (r\<lparr>mw_status := memory_status_value MEMORY_SUPERSEDED,
                mw_updated_at := mm_updated_at replacement\<rparr>) db) (\<lambda>db1.
            bind_result (insert_memory known (memory_model replacement) db1) (\<lambda>db2.
            bind_result (insert_source known (source_model x) db2) (\<lambda>db3.
            bind_result (insert_embedding known b db3) (\<lambda>db4.
            bind_result (insert_link known (link_model link) db4) (\<lambda>db5.
              Inr (Some \<lparr>md_memory = replacement, md_sources = [x], md_links = [link]\<rparr>,
                memory_audited (mm_tenant_id replacement) (mm_created_by replacement) ''memory.corrected'' ''memory''
                  (mm_id replacement) [(lit ''supersedes'', JStr (uuid_str source_id)),
                    (lit ''version'', JInt (mm_version replacement))] db5)))))))"

definition sql_forget_memory ::
    "uuid \<Rightarrow> uuid \<Rightarrow> uuid \<Rightarrow> instant \<Rightarrow> uuid \<Rightarrow> memory_db \<Rightarrow> (memory option \<times> memory_db) sql" where
  "sql_forget_memory memory_id tenant_id agent_id updated_at actor_id db =
     (case locked_memory memory_id tenant_id agent_id db of
        None \<Rightarrow> Inr (None, db)
      | Some r \<Rightarrow>
          (let r' = r\<lparr>mw_content := None, mw_status := memory_status_value MEMORY_FORGOTTEN,
                 mw_embedding_version := None, mw_updated_at := updated_at\<rparr> in
           bind_result (update_memory r' db) (\<lambda>db1.
           bind_result (converted row_memory r') (\<lambda>m.
             Inr (Some m, memory_audited tenant_id actor_id ''memory.forgotten'' ''memory'' memory_id
               [(lit ''content_removed'', JBool True), (lit ''embedding_removed'', JBool True)]
               (db1\<lparr>source_table :=
                    dict_walk (\<lambda>x. sw_memory_id x = memory_id \<and> sw_tenant_id x = tenant_id)
                      (\<lambda>x. x\<lparr>sw_excerpt := None, sw_is_verbatim := False\<rparr>) (source_table db1),
                  embedding_table :=
                    filter (\<lambda>(k, x). \<not> (mb_memory_id x = memory_id \<and> mb_tenant_id x = tenant_id))
                      (embedding_table db1)\<rparr>))))))"

definition sql_create_memory_link :: "known_rows \<Rightarrow> memory_link \<Rightarrow> memory_db \<Rightarrow> (memory_link \<times> memory_db) sql" where
  "sql_create_memory_link known l db =
     (if length (filter (\<lambda>r. mw_tenant_id r = ml_tenant_id l \<and>
            (mw_id r = ml_source_memory_id l \<or> mw_id r = ml_target_memory_id l)) (dict_values (memory_table db))) \<noteq> 2
      then Inl RepositoryValueError
      else bind_result (insert_link known (link_model l) db) (\<lambda>db1.
        Inr (l, memory_audited (ml_tenant_id l) (ml_created_by l) ''memory.conflict_linked'' ''memory_link'' (ml_id l)
          [(lit ''source_memory_id'', JStr (uuid_str (ml_source_memory_id l))),
           (lit ''target_memory_id'', JStr (uuid_str (ml_target_memory_id l)))] db1)))"

section \<open>Recall\<close>

definition row_visible :: "uuid \<Rightarrow> uuid \<Rightarrow> memory_row \<Rightarrow> bool" where
  "row_visible agent_id user_id r \<longleftrightarrow> mw_visibility r = memory_visibility_value VISIBLE_TENANT \<or>
     mw_agent_id r = agent_id \<and> mw_visibility r = memory_visibility_value VISIBLE_AGENT \<or>
     mw_agent_id r = agent_id \<and> mw_visibility r = memory_visibility_value VISIBLE_USER \<and>
       mw_user_id r = Some user_id"

definition allowed_sensitivity :: "memory_sensitivity \<Rightarrow> ustr list" where
  "allowed_sensitivity maximum =
     map memory_sensitivity_value (filter (\<lambda>x. x \<le> maximum) memory_sensitivity_members)"

definition row_recallable :: "uuid \<Rightarrow> uuid \<Rightarrow> uuid \<Rightarrow> memory_sensitivity \<Rightarrow> memory_row \<Rightarrow> bool" where
  "row_recallable tenant_id agent_id user_id maximum_sensitivity r \<longleftrightarrow>
     mw_tenant_id r = tenant_id \<and> mw_status r = memory_status_value MEMORY_ACTIVE \<and>
     mw_content r \<noteq> None \<and> mw_sensitivity r \<in> set (allowed_sensitivity maximum_sensitivity) \<and>
     row_visible agent_id user_id r"

text \<open>
  A row of the outer join: the memory, the rank of its text and the greater of zero and of the
  score of its active embedding; \<open>GREATEST\<close> ignores the null of a memory without one. The unique
  key of a memory and a version leaves at most one row to join.
\<close>

definition joined_embedding :: "uuid \<Rightarrow> ustr \<Rightarrow> memory_db \<Rightarrow> memory_row \<Rightarrow> memory_embedding option" where
  "joined_embedding tenant_id version db r =
     scalar (\<lambda>b. mb_memory_id b = mw_id r \<and> mb_tenant_id b = tenant_id \<and> mb_active b \<and>
       mb_embedding_version b = version) (embedding_table db)"

definition scored_row ::
    "(ustr \<Rightarrow> ustr \<Rightarrow> rat) \<Rightarrow> (rat list \<Rightarrow> rat list \<Rightarrow> rat) \<Rightarrow> uuid \<Rightarrow> ustr \<Rightarrow> rat list \<Rightarrow> ustr \<Rightarrow> memory_db \<Rightarrow>
       memory_row \<Rightarrow> memory_row \<times> rat \<times> rat" where
  "scored_row text_rank vector_score tenant_id query query_embedding version db r =
     (r, text_rank (case mw_content r of None \<Rightarrow> [] | Some c \<Rightarrow> c) query,
      case joined_embedding tenant_id version db r of
        None \<Rightarrow> 0 | Some b \<Rightarrow> max 0 (vector_score (mb_vector b) query_embedding))"

definition known_familiarity :: "uuid \<Rightarrow> uuid \<Rightarrow> uuid \<Rightarrow> memory_db \<Rightarrow> rat" where
  "known_familiarity tenant_id agent_id user_id db =
     (case scalar (\<lambda>r. hw_tenant_id r = tenant_id \<and> hw_agent_id r = agent_id \<and> hw_user_id r = user_id)
         (relationship_table db) of
        None \<Rightarrow> 0 | Some r \<Rightarrow> hw_familiarity r)"

definition scored_candidate :: "rat \<Rightarrow> uuid \<Rightarrow> memory_row \<times> rat \<times> rat \<Rightarrow> raw_candidate option" where
  "scored_candidate familiarity user_id x = (case x of (r, text_value, semantic_value) \<Rightarrow>
     map_option (\<lambda>m. \<lparr>rm_memory = m, rm_full_text_score = text_value, rm_semantic_score = semantic_value,
       rm_relationship_score = (if mw_user_id r = Some user_id then familiarity else 0)\<rparr>) (row_memory r))"

definition sql_search_candidates ::
    "(ustr \<Rightarrow> ustr \<Rightarrow> rat) \<Rightarrow> (rat list \<Rightarrow> rat list \<Rightarrow> rat) \<Rightarrow> (memory_row list \<Rightarrow> memory_row list) \<Rightarrow> uuid \<Rightarrow>
       uuid \<Rightarrow> uuid \<Rightarrow> ustr \<Rightarrow> rat list \<Rightarrow> ustr \<Rightarrow> memory_sensitivity \<Rightarrow> int \<Rightarrow> memory_db \<Rightarrow>
       raw_candidate list sql" where
  "sql_search_candidates text_rank vector_score scan tenant_id agent_id user_id query query_embedding version
       maximum_sensitivity limit db =
     converted_all (scored_candidate (known_familiarity tenant_id agent_id user_id db) user_id)
       (take (nat limit) (sorted_by (\<lambda>(r, t, v). (- max t v, - mw_importance r, - mw_event_at r))
         (map (scored_row text_rank vector_score tenant_id query query_embedding version db)
           (filter (row_recallable tenant_id agent_id user_id maximum_sensitivity)
             (scan (dict_values (memory_table db)))))))"

section \<open>Relationships\<close>

definition locked_relationship :: "uuid \<Rightarrow> uuid \<Rightarrow> uuid \<Rightarrow> memory_db \<Rightarrow> relationship_row option" where
  "locked_relationship tenant_id agent_id user_id db =
     scalar (\<lambda>r. hw_tenant_id r = tenant_id \<and> hw_agent_id r = agent_id \<and> hw_user_id r = user_id)
       (relationship_table db)"

definition sql_get_relationship_detail ::
    "uuid \<Rightarrow> uuid \<Rightarrow> uuid \<Rightarrow> memory_db \<Rightarrow> relationship_detail option sql" where
  "sql_get_relationship_detail tenant_id agent_id user_id db =
     (case locked_relationship tenant_id agent_id user_id db of
        None \<Rightarrow> Inr None
      | Some r \<Rightarrow> bind_result (converted row_relationship r) (\<lambda>x.
          Inr (Some \<lparr>rd_relationship = x,
            rd_events = sorted_by (\<lambda>e. (re_created_at e, re_id e))
              (filter (\<lambda>e. re_tenant_id e = tenant_id \<and> re_relationship_id e = hw_id r)
                (dict_values (relationship_event_table db)))\<rparr>)))"

definition changed_relationship :: "relationship \<Rightarrow> relationship_row \<Rightarrow> relationship_row" where
  "changed_relationship x r =
     r\<lparr>hw_stage := relationship_stage_value (rl_stage x), hw_affinity := rl_affinity x, hw_trust := rl_trust x,
       hw_familiarity := rl_familiarity x, hw_interaction_count := rl_interaction_count x,
       hw_summary := rl_summary x, hw_boundaries := rl_boundaries x, hw_version := rl_version x,
       hw_updated_at := rl_updated_at x\<rparr>"

definition store_relationship ::
    "known_rows \<Rightarrow> relationship \<Rightarrow> relationship_event \<Rightarrow> memory_db \<Rightarrow> memory_db sql" where
  "store_relationship known x e db =
     bind_result (case locked_relationship (rl_tenant_id x) (rl_agent_id x) (rl_user_id x) db of
         None \<Rightarrow> insert_relationship known (relationship_model x) db
       | Some r \<Rightarrow> update_relationship (changed_relationship x r) db) (\<lambda>db1.
     bind_result (insert_relationship_event known e db1) (\<lambda>db2.
       Inr (memory_audited (rl_tenant_id x) (re_created_by e) ''relationship.updated'' ''relationship'' (rl_id x)
         [(lit ''stage'', JStr (relationship_stage_value (rl_stage x))), (lit ''version'', JInt (rl_version x))]
         db2)))"

text \<open>The last read is a transaction of its own, after the update has been committed.\<close>

definition sql_apply_relationship_event ::
    "known_rows \<Rightarrow> relationship \<Rightarrow> relationship_event \<Rightarrow> memory_db \<Rightarrow> (relationship_detail \<times> memory_db) sql" where
  "sql_apply_relationship_event known x e db =
     (let reread = sql_get_relationship_detail (rl_tenant_id x) (rl_agent_id x) (rl_user_id x);
          applied = bind_result (store_relationship known x e db) (\<lambda>db1.
            bind_result (reread db1) (\<lambda>d.
              Inr (case d of Some detail \<Rightarrow> detail | None \<Rightarrow> \<lparr>rd_relationship = x, rd_events = [e]\<rparr>, db1)))
      in if dict_get (relationship_event_table db) (re_id e) = None then applied
         else bind_result (reread db) (\<lambda>d. case d of Some detail \<Rightarrow> Inr (detail, db) | None \<Rightarrow> applied))"

section \<open>Index jobs and embeddings\<close>

definition sql_list_memories_for_embedding :: "uuid \<Rightarrow> uuid \<Rightarrow> uuid option \<Rightarrow> memory_db \<Rightarrow> memory list sql" where
  "sql_list_memories_for_embedding tenant_id agent_id user_id db = converted_all row_memory
     (sorted_by mw_id (filter (\<lambda>r. mw_tenant_id r = tenant_id \<and> mw_agent_id r = agent_id \<and>
         mw_status r = memory_status_value MEMORY_ACTIVE \<and> mw_content r \<noteq> None \<and>
         (user_id = None \<or> mw_user_id r = user_id)) (dict_values (memory_table db))))"

definition sql_create_index_job :: "known_rows \<Rightarrow> index_job \<Rightarrow> memory_db \<Rightarrow> (index_job \<times> memory_db) sql" where
  "sql_create_index_job known j db =
     bind_result (insert_index_job known (index_job_model j) db) (\<lambda>db1.
       Inr (j, memory_audited (ix_tenant_id j) (ix_created_by j) ''memory.index_rebuild_created''
         ''memory_index_job'' (ix_id j)
         [(lit ''target_embedding_version'', JStr (ix_target_embedding_version j)),
          (lit ''total_items'', JInt (ix_total_items j))] db1))"

definition sql_get_index_job :: "uuid \<Rightarrow> uuid \<Rightarrow> uuid \<Rightarrow> memory_db \<Rightarrow> index_job option sql" where
  "sql_get_index_job tenant_id agent_id job_id db = converted_opt row_index_job
     (scalar (\<lambda>r. iw_id r = job_id \<and> iw_tenant_id r = tenant_id \<and> iw_agent_id r = agent_id) (index_job_table db))"

definition sql_update_index_job :: "index_job \<Rightarrow> memory_db \<Rightarrow> (index_job \<times> memory_db) sql" where
  "sql_update_index_job j db =
     (case dict_get (index_job_table db) (ix_id j) of
        None \<Rightarrow> Inl RepositoryValueError
      | Some r \<Rightarrow>
          if iw_tenant_id r \<noteq> ix_tenant_id j then Inl RepositoryValueError
          else bind_result (update_index_row
            (r\<lparr>iw_status := index_status_value (ix_status j), iw_total_items := ix_total_items j,
               iw_processed_items := ix_processed_items j, iw_error_code := ix_error_code j,
               iw_started_at := ix_started_at j, iw_completed_at := ix_completed_at j\<rparr>) db)
            (\<lambda>db1. Inr (j, db1)))"

definition deactivated :: "uuid \<Rightarrow> memory_db \<Rightarrow> memory_db" where
  "deactivated memory_id db = db\<lparr>embedding_table :=
     dict_walk (\<lambda>b. mb_memory_id b = memory_id \<and> mb_active b) (\<lambda>b. b\<lparr>mb_active := False\<rparr>)
       (embedding_table db)\<rparr>"

definition update_embedding :: "memory_embedding \<Rightarrow> memory_db \<Rightarrow> memory_db sql" where
  "update_embedding b db = statement (embedding_fits b) (embedding_checks b)
     (db\<lparr>embedding_table := dict_set (mb_id b) b (embedding_table db)\<rparr>)"

definition store_embedding :: "known_rows \<Rightarrow> uuid \<Rightarrow> memory_embedding \<Rightarrow> memory_db \<Rightarrow> memory_db sql" where
  "store_embedding known memory_id b db =
     (case scalar (\<lambda>x. mb_memory_id x = memory_id \<and> mb_embedding_version x = mb_embedding_version b)
         (embedding_table db) of
        None \<Rightarrow> insert_embedding known b db
      | Some x \<Rightarrow> update_embedding (x\<lparr>mb_vector := mb_vector b, mb_dimensions := mb_dimensions b,
          mb_active := True, mb_created_at := mb_created_at b\<rparr>) db)"

definition sql_replace_embedding ::
    "known_rows \<Rightarrow> uuid \<Rightarrow> uuid \<Rightarrow> memory_embedding \<Rightarrow> instant \<Rightarrow> memory_db \<Rightarrow> (unit \<times> memory_db) sql" where
  "sql_replace_embedding known memory_id tenant_id b updated_at db =
     (case scalar (\<lambda>r. mw_id r = memory_id \<and> mw_tenant_id r = tenant_id \<and>
           mw_status r = memory_status_value MEMORY_ACTIVE) (memory_table db) of
        None \<Rightarrow> Inr ((), db)
      | Some r \<Rightarrow>
          bind_result (store_embedding known memory_id b (deactivated memory_id db)) (\<lambda>db1.
          bind_result (update_memory (r\<lparr>mw_embedding_version := Some (mb_embedding_version b),
              mw_updated_at := updated_at\<rparr>) db1) (\<lambda>db2. Inr ((), db2))))"

definition sql_list_index_jobs :: "uuid \<Rightarrow> uuid \<Rightarrow> int \<Rightarrow> memory_db \<Rightarrow> index_job list sql" where
  "sql_list_index_jobs tenant_id agent_id limit db = converted_all row_index_job
     (take (nat limit) (sorted_by (\<lambda>r. (- iw_created_at r, iw_id r))
       (filter (\<lambda>r. iw_tenant_id r = tenant_id \<and> iw_agent_id r = agent_id) (dict_values (index_job_table db)))))"

section \<open>The repository as the port of the service\<close>

definition sql_repository ::
    "(ustr \<Rightarrow> ustr \<Rightarrow> rat) \<Rightarrow> (ustr \<Rightarrow> ustr \<Rightarrow> rat) \<Rightarrow> (rat list \<Rightarrow> rat list \<Rightarrow> rat) \<Rightarrow>
       (memory_row list \<Rightarrow> memory_row list) \<Rightarrow> known_rows \<Rightarrow> (memory_db, sql_error) memory_repository" where
  "sql_repository trigram text_rank vector_score scan known = \<lparr>
     mr_list_episodes = sql_list_episodes,
     mr_create_episode = sql_create_episode known,
     mr_set_episode_status = sql_set_episode_status,
     mr_list_memories = sql_list_memories trigram,
     mr_get_memory_detail = sql_get_memory_detail,
     mr_create_memory = sql_create_memory known,
     mr_set_confirmation = sql_set_confirmation,
     mr_correct_memory = sql_correct_memory known,
     mr_forget_memory = sql_forget_memory,
     mr_create_memory_link = sql_create_memory_link known,
     mr_search_candidates = sql_search_candidates text_rank vector_score scan,
     mr_get_relationship_detail = sql_get_relationship_detail,
     mr_apply_relationship_event = sql_apply_relationship_event known,
     mr_list_memories_for_embedding = sql_list_memories_for_embedding,
     mr_create_index_job = sql_create_index_job known,
     mr_get_index_job = sql_get_index_job,
     mr_update_index_job = sql_update_index_job,
     mr_replace_embedding = sql_replace_embedding known,
     mr_list_index_jobs = sql_list_index_jobs\<rparr>"

end
