(* ===== verification/Memory_Integrity.thy ===== *)
theory Memory_Integrity
  imports Memory_Machine Memory_Sql
begin

text \<open>
  The invariant \<open>memory_db_ok\<close> of the memory tables, which every write of \<open>SqlAlchemyMemoryRepository\<close>
  keeps: rows satisfy their checks, a lineage has one active version, which is its latest, sources
  and embeddings belong to a memory of their tenant, and relationships are scored as the service
  scores them. \<open>erased\<close> is what forgetting promises of a memory, and is kept from then on.
\<close>

section \<open>Tables and their rows\<close>

lemma values_dict_set: "set (dict_values (dict_set k v d)) \<subseteq> insert v (set (dict_values d))"
  by (induction d) (auto simp: dict_set_def dict_values_def)

lemma values_dict_setD: "x \<in> set (dict_values (dict_set k v d)) \<Longrightarrow> x = v \<or> x \<in> set (dict_values d)"
  using values_dict_set[of k v d] by blast

lemma scalar_get: "dict_ok d \<Longrightarrow> scalar p d = Some r \<Longrightarrow> p r \<and> (\<exists>k. dict_get d k = Some r)"
  using dict_values_iff[of d r] by (auto simp: scalar_def dest: find_Some_iff_mem)

definition row_active :: "memory_row \<Rightarrow> bool" where
  "row_active r \<longleftrightarrow> mw_status r = memory_status_value MEMORY_ACTIVE"

definition memories_ok :: "(uuid, memory_row) dict \<Rightarrow> bool" where
  "memories_ok M \<longleftrightarrow> dict_ok M \<and> (\<forall>k r. dict_get M k = Some r \<longrightarrow> mw_id r = k \<and> memory_checks r)"

definition lineages_ok :: "(uuid, memory_row) dict \<Rightarrow> bool" where
  "lineages_ok M \<longleftrightarrow>
     (\<forall>k r. dict_get M k = Some r \<longrightarrow> dict_get M (mw_lineage_id r) \<noteq> None) \<and>
     (\<forall>k r k' r'. dict_get M k = Some r \<longrightarrow> dict_get M k' = Some r' \<longrightarrow> row_active r \<longrightarrow>
        mw_lineage_id r' = mw_lineage_id r \<longrightarrow> mw_version r' \<le> mw_version r \<and> (row_active r' \<longrightarrow> k' = k))"

definition of_tenant :: "(uuid, memory_row) dict \<Rightarrow> uuid \<Rightarrow> uuid \<Rightarrow> bool" where
  "of_tenant M i t \<longleftrightarrow> (\<exists>r. dict_get M i = Some r \<and> mw_tenant_id r = t)"

definition owned_ok ::
    "(uuid, memory_row) dict \<Rightarrow> (uuid, memory_source_row) dict \<Rightarrow> (uuid, memory_embedding) dict \<Rightarrow> bool" where
  "owned_ok M S E \<longleftrightarrow> dict_ok S \<and> dict_ok E \<and>
     (\<forall>x \<in> set (dict_values S). of_tenant M (sw_memory_id x) (sw_tenant_id x)) \<and>
     (\<forall>b \<in> set (dict_values E). of_tenant M (mb_memory_id b) (mb_tenant_id b))"

definition relationship_scored :: "relationship_row \<Rightarrow> bool" where
  "relationship_scored r \<longleftrightarrow> (\<exists>x. well_scored x \<and> hw_stage r = relationship_stage_value (rl_stage x) \<and>
     hw_affinity r = rl_affinity x \<and> hw_trust r = rl_trust x \<and> hw_familiarity r = rl_familiarity x)"

definition memory_db_ok :: "memory_db \<Rightarrow> bool" where
  "memory_db_ok db \<longleftrightarrow> memories_ok (memory_table db) \<and> lineages_ok (memory_table db) \<and>
     owned_ok (memory_table db) (source_table db) (embedding_table db) \<and>
     list_all relationship_scored (dict_values (relationship_table db))"

definition erased :: "uuid \<Rightarrow> memory_db \<Rightarrow> bool" where
  "erased i db \<longleftrightarrow>
     (\<exists>r. dict_get (memory_table db) i = Some r \<and> mw_status r = memory_status_value MEMORY_FORGOTTEN \<and>
        mw_content r = None) \<and>
     list_all (\<lambda>x. sw_memory_id x = i \<longrightarrow> sw_excerpt x = None) (dict_values (source_table db)) \<and>
     list_all (\<lambda>b. mb_memory_id b \<noteq> i) (dict_values (embedding_table db))"

section \<open>Changing the memory table\<close>

lemma status_values [simp]:
  "memory_status_value a = memory_status_value b \<longleftrightarrow> a = b"
  by (cases a; cases b) simp_all

lemma row_active_model [simp]: "row_active (memory_model m) \<longleftrightarrow> mm_status m = MEMORY_ACTIVE"
  by (cases "mm_status m") (simp_all add: row_active_def memory_model_def)

lemma memory_model_sel [simp]:
  "mw_id (memory_model m) = mm_id m" "mw_lineage_id (memory_model m) = mm_lineage_id m"
  "mw_tenant_id (memory_model m) = mm_tenant_id m" "mw_version (memory_model m) = mm_version m"
  "mw_status (memory_model m) = memory_status_value (mm_status m)"
  by (simp_all add: memory_model_def)

lemma memories_put:
  "memories_ok M \<Longrightarrow> mw_id r = k \<Longrightarrow> memory_checks r \<Longrightarrow> memories_ok (dict_set k r M)"
  by (auto simp: memories_ok_def)

lemma lineages_put_new:
  assumes M: "lineages_ok M" and k: "dict_get M k = None"
    and lin: "mw_lineage_id r = k \<or> dict_get M (mw_lineage_id r) \<noteq> None"
    and top: "\<And>k' r'. dict_get M k' = Some r' \<Longrightarrow> mw_lineage_id r' = mw_lineage_id r \<Longrightarrow>
      \<not> row_active r' \<and> mw_version r' \<le> mw_version r"
  shows "lineages_ok (dict_set k r M)"
proof -
  have 1: "dict_get (dict_set k r M) (mw_lineage_id r') \<noteq> None" if "dict_get (dict_set k r M) k' = Some r'" for k' r'
    using M lin that by (auto simp: lineages_ok_def split: if_splits)
  have 2: "mw_version r2 \<le> mw_version r1 \<and> (row_active r2 \<longrightarrow> k2 = k1)"
    if a: "dict_get (dict_set k r M) k1 = Some r1" and b: "dict_get (dict_set k r M) k2 = Some r2"
      and act: "row_active r1" and l: "mw_lineage_id r2 = mw_lineage_id r1" for k1 r1 k2 r2
  proof (cases "k1 = k")
    case True
    then have r1: "r1 = r" using a by simp
    show ?thesis
    proof (cases "k2 = k")
      case True
      then show ?thesis using b r1 \<open>k1 = k\<close> by simp
    next
      case False
      then show ?thesis using top[of k2 r2] b l r1 by simp
    qed
  next
    case False
    then have a': "dict_get M k1 = Some r1" using a by simp
    show ?thesis
    proof (cases "k2 = k")
      case True
      then show ?thesis using top[OF a'] b l act by simp
    next
      case False
      then show ?thesis using M a' b act l by (simp add: lineages_ok_def)
    qed
  qed
  show ?thesis unfolding lineages_ok_def using 1 2 by blast
qed

text \<open>A row that keeps its identity and its version, and does not become active again.\<close>

definition row_evolves :: "memory_row \<Rightarrow> memory_row \<Rightarrow> bool" where
  "row_evolves r r' \<longleftrightarrow> mw_id r' = mw_id r \<and> mw_lineage_id r' = mw_lineage_id r \<and>
     mw_tenant_id r' = mw_tenant_id r \<and> mw_version r' = mw_version r \<and> (row_active r' \<longrightarrow> row_active r)"

lemma lineages_put_evolved:
  assumes M: "lineages_ok M" and r: "dict_get M k = Some r" and e: "row_evolves r r'"
  shows "lineages_ok (dict_set k r' M)"
proof -
  have old: "\<exists>r0. dict_get M j = Some r0 \<and> mw_lineage_id r0 = mw_lineage_id x \<and> mw_version r0 = mw_version x \<and>
      (row_active x \<longrightarrow> row_active r0)" if "dict_get (dict_set k r' M) j = Some x" for j x
    using that r e by (cases "j = k") (auto simp: row_evolves_def)
  have 1: "dict_get (dict_set k r' M) (mw_lineage_id x) \<noteq> None" if "dict_get (dict_set k r' M) j = Some x" for j x
  proof -
    from old[OF that] obtain r0 where "dict_get M j = Some r0" "mw_lineage_id r0 = mw_lineage_id x" by blast
    then have "dict_get M (mw_lineage_id x) \<noteq> None" using M unfolding lineages_ok_def by metis
    then show ?thesis by auto
  qed
  have 2: "mw_version x2 \<le> mw_version x1 \<and> (row_active x2 \<longrightarrow> j2 = j1)"
    if a: "dict_get (dict_set k r' M) j1 = Some x1" and b: "dict_get (dict_set k r' M) j2 = Some x2"
      and act: "row_active x1" and l: "mw_lineage_id x2 = mw_lineage_id x1" for j1 x1 j2 x2
  proof -
    obtain r1 where r1: "dict_get M j1 = Some r1" "mw_lineage_id r1 = mw_lineage_id x1"
      "mw_version r1 = mw_version x1" "row_active r1" using old[OF a] act by blast
    obtain r2 where r2: "dict_get M j2 = Some r2" "mw_lineage_id r2 = mw_lineage_id x2"
      "mw_version r2 = mw_version x2" "row_active x2 \<longrightarrow> row_active r2" using old[OF b] by blast
    have "mw_version r2 \<le> mw_version r1 \<and> (row_active r2 \<longrightarrow> j2 = j1)"
      using M[unfolded lineages_ok_def, THEN conjunct2, rule_format, OF r1(1) r2(1) r1(4)] r1(2) r2(2) l by simp
    then show ?thesis using r1 r2 by auto
  qed
  show ?thesis unfolding lineages_ok_def using 1 2 by blast
qed

lemma of_tenant_put:
  "of_tenant M i t \<Longrightarrow> (\<And>r0. dict_get M k = Some r0 \<Longrightarrow> mw_tenant_id r = mw_tenant_id r0) \<Longrightarrow>
     of_tenant (dict_set k r M) i t"
  by (auto simp: of_tenant_def)

lemma owned_put:
  "owned_ok M S E \<Longrightarrow> (\<And>r0. dict_get M k = Some r0 \<Longrightarrow> mw_tenant_id r = mw_tenant_id r0) \<Longrightarrow>
     owned_ok (dict_set k r M) S E"
  by (auto simp: owned_ok_def intro!: of_tenant_put)

lemma owned_sourceD:
  "owned_ok M S E \<Longrightarrow> x \<in> set (dict_values S) \<Longrightarrow> sw_memory_id x = i \<Longrightarrow> of_tenant M i (sw_tenant_id x)"
  by (auto simp: owned_ok_def)

lemma owned_embeddingD:
  "owned_ok M S E \<Longrightarrow> b \<in> set (dict_values E) \<Longrightarrow> mb_memory_id b = i \<Longrightarrow> of_tenant M i (mb_tenant_id b)"
  by (auto simp: owned_ok_def)

lemma lineage_present:
  "memory_db_ok db \<Longrightarrow> dict_get (memory_table db) k = Some r \<Longrightarrow> dict_get (memory_table db) (mw_lineage_id r) \<noteq> None"
  unfolding memory_db_ok_def lineages_ok_def by blast

lemma lineage_latest:
  "memory_db_ok db \<Longrightarrow> dict_get (memory_table db) k = Some r \<Longrightarrow> dict_get (memory_table db) k' = Some r' \<Longrightarrow>
     row_active r \<Longrightarrow> mw_lineage_id r' = mw_lineage_id r \<Longrightarrow> mw_version r' \<le> mw_version r \<and> (row_active r' \<longrightarrow> k' = k)"
  unfolding memory_db_ok_def lineages_ok_def by blast

lemma memory_put_evolved:
  assumes ok: "memory_db_ok db" and r: "dict_get (memory_table db) k = Some r" and e: "row_evolves r r'"
    and c: "memory_checks r'"
  shows "memory_db_ok (db\<lparr>memory_table := dict_set k r' (memory_table db)\<rparr>)"
proof -
  have "mw_id r' = k" using ok r e by (simp add: memory_db_ok_def memories_ok_def row_evolves_def)
  then show ?thesis
    using ok r e c lineages_put_evolved[of "memory_table db" k r r']
    by (auto simp: memory_db_ok_def row_evolves_def intro!: memories_put owned_put)
qed

lemma locked_memory_get:
  assumes "memory_db_ok db" and "locked_memory i t a db = Some r"
  shows "dict_get (memory_table db) i = Some r \<and> mw_tenant_id r = t \<and> mw_agent_id r = a \<and> mw_id r = i"
proof -
  have ok: "dict_ok (memory_table db)" using assms(1) by (simp add: memory_db_ok_def memories_ok_def)
  obtain k where "row_in_scope i t a r" "dict_get (memory_table db) k = Some r"
    using scalar_get[OF ok assms(2)[unfolded locked_memory_def]] by blast
  then show ?thesis using assms(1) by (auto simp: row_in_scope_def memory_db_ok_def memories_ok_def)
qed

section \<open>Every write keeps the invariant\<close>

lemma stored_kind:
  "one_of (memory_kind_value k) [''working'', ''episodic'', ''semantic'', ''relational'', ''autobiographical'', ''procedural'']"
  by (cases k) (simp_all add: one_of_def)

lemma stored_visibility: "one_of (memory_visibility_value v) [''user'', ''agent'', ''tenant'']"
  by (cases v) (simp_all add: one_of_def)

lemma stored_sensitivity:
  "one_of (memory_sensitivity_value e) [''normal'', ''personal'', ''sensitive'', ''restricted'']"
  by (cases e) (simp_all add: one_of_def)

lemma stored_confirmation: "one_of (memory_confirmation_value c) [''unconfirmed'', ''confirmed'', ''disputed'']"
  by (cases c) (simp_all add: one_of_def)

lemma stored_status: "one_of (memory_status_value st) [''active'', ''superseded'', ''forgotten'']"
  by (cases st) (simp_all add: one_of_def)

lemma stored_user: "memory_visibility_value v = lit ''user'' \<longleftrightarrow> v = VISIBLE_USER"
  by (cases v) simp_all

lemma stored_forgotten: "memory_status_value st = lit ''forgotten'' \<longleftrightarrow> st = MEMORY_FORGOTTEN"
  by (cases st) simp_all

lemmas stored_values = stored_kind stored_visibility stored_sensitivity stored_confirmation stored_status
  stored_user stored_forgotten

text \<open>The checks of the table are exactly the soundness of the memory.\<close>

lemma checks_iff_sound: "memory_checks (memory_model m) \<longleftrightarrow> memory_sound m"
  by (auto simp: memory_checks_def memory_model_def stored_values memory_sound_def unit_scores_def)

lemma relationship_scored_model: "well_scored x \<Longrightarrow> relationship_scored (relationship_model x)"
  by (auto simp: relationship_scored_def relationship_model_def)

lemma relationship_scored_changed: "well_scored x \<Longrightarrow> relationship_scored (changed_relationship x r)"
  by (auto simp: relationship_scored_def changed_relationship_def)

text \<open>Only the tables of the invariant matter to it.\<close>

lemma memory_db_ok_cong:
  "memory_table db' = memory_table db \<Longrightarrow> source_table db' = source_table db \<Longrightarrow>
   embedding_table db' = embedding_table db \<Longrightarrow> relationship_table db' = relationship_table db \<Longrightarrow>
   memory_db_ok db' = memory_db_ok db"
  by (simp add: memory_db_ok_def)

lemma memory_audited_sel [simp]:
  "memory_table (memory_audited t a x y i d db) = memory_table db"
  "source_table (memory_audited t a x y i d db) = source_table db"
  "embedding_table (memory_audited t a x y i d db) = embedding_table db"
  "relationship_table (memory_audited t a x y i d db) = relationship_table db"
  "relationship_event_table (memory_audited t a x y i d db) = relationship_event_table db"
  by (simp_all add: memory_audited_def)

lemma memory_audited_ok [simp]: "memory_db_ok (memory_audited t a x y i d db) = memory_db_ok db"
  by (rule memory_db_ok_cong) simp_all

lemma erased_cong:
  "memory_table db' = memory_table db \<Longrightarrow> source_table db' = source_table db \<Longrightarrow>
   embedding_table db' = embedding_table db \<Longrightarrow> erased i db' = erased i db"
  by (simp add: erased_def)

lemma memory_audited_erased [simp]: "erased j (memory_audited t a x y i d db) = erased j db"
  by (rule erased_cong) simp_all

text \<open>A source or an embedding of a stored memory of its tenant may be added.\<close>

lemma owned_source:
  "owned_ok M S E \<Longrightarrow> of_tenant M (sw_memory_id x) (sw_tenant_id x) \<Longrightarrow> owned_ok M (dict_set k x S) E"
  by (auto simp: owned_ok_def dest!: values_dict_setD)

lemma owned_embedding:
  "owned_ok M S E \<Longrightarrow> of_tenant M (mb_memory_id b) (mb_tenant_id b) \<Longrightarrow> owned_ok M S (dict_set k b E)"
  by (auto simp: owned_ok_def dest!: values_dict_setD)

lemma insert_sources_keeps:
  assumes "insert_sources known rs db = Inr db'"
    and "\<forall>x \<in> set rs. of_tenant (memory_table db) (sw_memory_id x) (sw_tenant_id x)"
    and "memory_db_ok db"
  shows "memory_db_ok db' \<and> memory_table db' = memory_table db \<and> embedding_table db' = embedding_table db"
  using assms
proof (induction rs arbitrary: db)
  case (Cons x rs)
  then obtain db1 where i: "insert_source known x db = Inr db1" and r: "insert_sources known rs db1 = Inr db'"
    by (auto simp: result_laws)
  have db1: "db1 = db\<lparr>source_table := dict_set (sw_id x) x (source_table db)\<rparr>"
    using i by (auto simp: insert_source_def result_laws)
  have "memory_db_ok db1"
    using Cons.prems by (auto simp: db1 memory_db_ok_def intro: owned_source)
  then show ?case using Cons.IH[OF r] Cons.prems(2) by (simp add: db1)
qed simp

lemma insert_sources_erased:
  assumes "insert_sources known rs db = Inr db'" and "\<forall>x \<in> set rs. sw_memory_id x \<noteq> i" and "erased i db"
  shows "erased i db'"
  using assms
proof (induction rs arbitrary: db)
  case (Cons x rs)
  then obtain db1 where ins: "insert_source known x db = Inr db1" and r: "insert_sources known rs db1 = Inr db'"
    by (auto simp: result_laws)
  have db1: "db1 = db\<lparr>source_table := dict_set (sw_id x) x (source_table db)\<rparr>"
    using ins by (auto simp: insert_source_def result_laws)
  have "erased i db1"
    using Cons.prems by (auto simp: db1 erased_def list_all_iff dest!: values_dict_setD)
  then show ?case using Cons.IH[OF r] Cons.prems(2) by simp
qed simp

lemma memory_put_new:
  assumes ok: "memory_db_ok db" and k: "dict_get (memory_table db) (mw_id r) = None" and c: "memory_checks r"
    and lin: "mw_lineage_id r = mw_id r \<or> dict_get (memory_table db) (mw_lineage_id r) \<noteq> None"
    and top: "\<And>k' r'. dict_get (memory_table db) k' = Some r' \<Longrightarrow> mw_lineage_id r' = mw_lineage_id r \<Longrightarrow>
      \<not> row_active r' \<and> mw_version r' \<le> mw_version r"
  shows "memory_db_ok (db\<lparr>memory_table := dict_set (mw_id r) r (memory_table db)\<rparr>)"
  using ok k c lineages_put_new[OF _ k lin top]
  by (auto simp: memory_db_ok_def intro!: memories_put owned_put)

lemma newborn_lineage_empty:
  assumes "memory_db_ok db" and "dict_get (memory_table db) i = None"
    and "dict_get (memory_table db) k = Some r" and "mw_lineage_id r = i"
  shows False
  using assms unfolding memory_db_ok_def lineages_ok_def by metis

end
