(* ===== verification/Memory_Preserve.thy ===== *)
theory Memory_Preserve
  imports Memory_Integrity
begin

text \<open>
  Every write of \<open>SqlAlchemyMemoryRepository\<close> keeps the invariant of the tables and keeps erased what
  is erased; hence the repository interprets \<open>memory_invariant\<close>.
\<close>

definition kept :: "memory_db \<Rightarrow> memory_db \<Rightarrow> bool" where
  "kept db db' \<longleftrightarrow> memory_db_ok db' \<and> (\<forall>i. erased i db \<longrightarrow> erased i db')"

lemma kept_same [intro, simp]: "memory_db_ok db \<Longrightarrow> kept db db"
  by (simp add: kept_def)

lemma kept_audited [simp]: "kept db (memory_audited t a x y i d db') = kept db db'"
  by (simp add: kept_def)

lemma kept_cong:
  assumes "memory_db_ok db" and "memory_table db' = memory_table db" and "source_table db' = source_table db"
    and "embedding_table db' = embedding_table db" and "relationship_table db' = relationship_table db"
  shows "kept db db'"
  using assms memory_db_ok_cong[OF assms(2-5)] erased_cong[OF assms(2-4)] by (simp add: kept_def)

lemma kept_trans: "kept db db1 \<Longrightarrow> kept db1 db2 \<Longrightarrow> kept db db2"
  by (simp add: kept_def)

lemma kept_ok: "kept db db' \<Longrightarrow> memory_db_ok db'"
  by (simp add: kept_def)

section \<open>Parts of the writes\<close>

lemma insert_memory_kept:
  assumes ok: "memory_db_ok db" and ins: "insert_memory known (memory_model m) db = Inr db'"
    and lin: "mm_lineage_id m = mm_id m \<or> dict_get (memory_table db) (mm_lineage_id m) \<noteq> None"
    and top: "\<And>k' r'. dict_get (memory_table db) k' = Some r' \<Longrightarrow> mw_lineage_id r' = mm_lineage_id m \<Longrightarrow>
      \<not> row_active r' \<and> mw_version r' \<le> mm_version m"
  shows "kept db db' \<and> dict_get (memory_table db) (mm_id m) = None \<and>
     memory_table db' = dict_set (mm_id m) (memory_model m) (memory_table db) \<and>
     source_table db' = source_table db \<and> embedding_table db' = embedding_table db"
proof -
  have db': "db' = db\<lparr>memory_table := dict_set (mm_id m) (memory_model m) (memory_table db)\<rparr>"
    and new: "dict_get (memory_table db) (mm_id m) = None" and c: "memory_checks (memory_model m)"
    using ins by (auto simp: insert_memory_def result_laws)
  have "memory_db_ok db'"
    using memory_put_new[OF ok, of "memory_model m"] new c lin top by (simp add: db')
  moreover have "erased i db'" if "erased i db" for i
    using that new by (auto simp: erased_def db')
  ultimately show ?thesis using new by (simp add: kept_def db')
qed

lemma insert_sources_kept:
  assumes ok: "memory_db_ok db" and ins: "insert_sources known (map source_model xs) db = Inr db'"
    and own: "\<forall>x \<in> set xs. of_tenant (memory_table db) (ms_memory_id x) (ms_tenant_id x)"
    and live: "\<forall>x \<in> set xs. \<not> erased (ms_memory_id x) db"
  shows "kept db db' \<and> memory_table db' = memory_table db \<and> embedding_table db' = embedding_table db"
proof -
  have m: "sw_memory_id (source_model x) = ms_memory_id x" "sw_tenant_id (source_model x) = ms_tenant_id x" for x
    by (simp_all add: source_model_def)
  have "erased i db'" if e: "erased i db" for i
    by (rule insert_sources_erased[OF ins _ e]) (use live e in \<open>auto simp: m\<close>)
  then show ?thesis
    using insert_sources_keeps[OF ins] own ok by (simp add: kept_def m)
qed

lemma put_embedding_kept:
  assumes "memory_db_ok db" and "of_tenant (memory_table db) (mb_memory_id b) (mb_tenant_id b)"
    and "\<not> erased (mb_memory_id b) db"
  shows "kept db (db\<lparr>embedding_table := dict_set k b (embedding_table db)\<rparr>)"
  using assms unfolding kept_def
  by (auto simp: memory_db_ok_def owned_embedding) (auto simp: erased_def list_all_iff dest!: values_dict_setD)

lemma row_update_kept:
  assumes ok: "memory_db_ok db" and r: "dict_get (memory_table db) k = Some r" and e: "row_evolves r r'"
    and c: "memory_checks r'" and f: "mw_status r = memory_status_value MEMORY_FORGOTTEN \<Longrightarrow>
      mw_status r' = memory_status_value MEMORY_FORGOTTEN \<and> mw_content r' = None"
  shows "kept db (db\<lparr>memory_table := dict_set k r' (memory_table db)\<rparr>)"
  using memory_put_evolved[OF ok r e c] r f by (auto simp: kept_def erased_def)

lemma update_memory_kept:
  assumes ok: "memory_db_ok db" and r: "dict_get (memory_table db) k = Some r" and e: "row_evolves r r'"
    and f: "mw_status r = memory_status_value MEMORY_FORGOTTEN \<Longrightarrow>
      mw_status r' = memory_status_value MEMORY_FORGOTTEN \<and> mw_content r' = None"
    and u: "update_memory r' db = Inr db'"
  shows "kept db db'"
proof -
  have "mw_id r = k" using ok r by (simp add: memory_db_ok_def memories_ok_def)
  then have id: "mw_id r' = k" using e by (simp add: row_evolves_def)
  have db': "db' = db\<lparr>memory_table := dict_set k r' (memory_table db)\<rparr>" and c: "memory_checks r'"
    using u id by (auto simp: update_memory_def result_laws)
  show ?thesis using row_update_kept[OF ok r e c f] by (simp add: db')
qed

lemma present_not_erased:
  "dict_get (memory_table db) i = Some r \<Longrightarrow> mw_status r \<noteq> memory_status_value MEMORY_FORGOTTEN \<Longrightarrow> \<not> erased i db"
  by (auto simp: erased_def)

section \<open>The writes\<close>

lemma sql_create_memory_kept:
  assumes ok: "memory_db_ok db" and run: "sql_create_memory known m xs b db = Inr (d, db')"
    and new: "newborn m" and own: "belongs m xs b"
  shows "kept db db'"
proof (cases "dict_get (memory_table db) (mm_id m)")
  case (Some r)
  with run ok show ?thesis by (auto simp: sql_create_memory_def result_laws split: if_splits)
next
  case None
  then obtain db1 db2 db3 where 1: "insert_memory known (memory_model m) db = Inr db1"
    and 2: "insert_sources known (map source_model xs) db1 = Inr db2"
    and 3: "insert_embedding known b db2 = Inr db3"
    and db': "kept db db' = kept db db3"
    using run by (auto simp: sql_create_memory_def result_laws)
  note n = new[unfolded newborn_def] and o = own[unfolded belongs_def]
  have a: "kept db db1 \<and> memory_table db1 = dict_set (mm_id m) (memory_model m) (memory_table db)"
    using insert_memory_kept[OF ok 1] n newborn_lineage_empty[OF ok None] by metis
  then have t: "of_tenant (memory_table db1) (mm_id m) (mm_tenant_id m)" and live: "\<not> erased (mm_id m) db1"
    using n by (auto simp: of_tenant_def erased_def)
  have c: "kept db1 db2 \<and> memory_table db2 = memory_table db1"
    using insert_sources_kept[OF kept_ok 2] a o t live by auto
  have live2: "\<not> erased (mm_id m) db2"
    using c a n by (auto simp: erased_def)
  have "db3 = db2\<lparr>embedding_table := dict_set (mb_id b) b (embedding_table db2)\<rparr>"
    using 3 by (auto simp: insert_embedding_def result_laws)
  then have "kept db2 db3"
    using put_embedding_kept[OF kept_ok, of db1 db2 b "mb_id b"] c o t live2 by simp
  then show ?thesis using a c db' kept_trans by blast
qed

lemma sql_set_confirmation_kept:
  assumes ok: "memory_db_ok db" and run: "sql_set_confirmation i t a c q now actor db = Inr (om, db')"
  shows "kept db db'"
proof (cases "locked_memory i t a db")
  case None
  with run ok show ?thesis by (simp add: sql_set_confirmation_def)
next
  case (Some r)
  note r = locked_memory_get[OF ok Some]
  let ?r = "r\<lparr>mw_confirmation := memory_confirmation_value c, mw_confidence := q, mw_updated_at := now\<rparr>"
  show ?thesis
  proof (cases "mw_status r = memory_status_value MEMORY_ACTIVE")
    case False
    with run ok Some show ?thesis by (simp add: sql_set_confirmation_def)
  next
    case True
    then obtain db1 where u: "update_memory ?r db = Inr db1" and db': "kept db db' = kept db db1"
      using run Some by (auto simp: sql_set_confirmation_def Let_def result_laws)
    have "kept db db1"
      using update_memory_kept[OF ok r[THEN conjunct1] _ _ u] True by (simp add: row_evolves_def row_active_def)
    then show ?thesis using db' by simp
  qed
qed

lemma row_memory_model_of: "row_memory r = Some m \<Longrightarrow> r = memory_model m"
  by (cases r) (auto simp: row_memory_def memory_model_def bind_eq_Some_conv parse_memory_kind_def
      parse_memory_visibility_def parse_memory_sensitivity_def parse_memory_confirmation_def
      parse_memory_status_def memory_kind_enum.parse_Some memory_visibility_enum.parse_Some
      memory_sensitivity_enum.parse_Some memory_confirmation_enum.parse_Some memory_status_enum.parse_Some)

lemma sql_get_memory_detail_row:
  assumes "sql_get_memory_detail i t a db = Inr (Some d)"
  shows "locked_memory i t a db = Some (memory_model (md_memory d))"
  using assms
  by (auto simp: sql_get_memory_detail_def converted_def result_laws split: option.splits
      dest: row_memory_model_of)

text \<open>The rows of a memory that forgetting rewrites and deletes.\<close>

definition without_rows :: "uuid \<Rightarrow> uuid \<Rightarrow> memory_db \<Rightarrow> memory_db" where
  "without_rows i t db =
     db\<lparr>source_table := dict_walk (\<lambda>x. sw_memory_id x = i \<and> sw_tenant_id x = t)
          (\<lambda>x. x\<lparr>sw_excerpt := None, sw_is_verbatim := False\<rparr>) (source_table db),
        embedding_table := filter (\<lambda>(k, x). \<not> (mb_memory_id x = i \<and> mb_tenant_id x = t)) (embedding_table db)\<rparr>"

lemma without_rows_sel [simp]:
  "memory_table (without_rows i t db) = memory_table db"
  "relationship_table (without_rows i t db) = relationship_table db"
  by (simp_all add: without_rows_def)

lemma without_rows_sources:
  assumes "dict_ok (source_table db)" and "x \<in> set (dict_values (source_table (without_rows i t db)))"
  obtains y where "y \<in> set (dict_values (source_table db))" "sw_memory_id x = sw_memory_id y"
    "sw_tenant_id x = sw_tenant_id y" "sw_excerpt x = sw_excerpt y \<or> sw_excerpt x = None"
    "sw_memory_id y = i \<Longrightarrow> sw_tenant_id y = t \<Longrightarrow> sw_excerpt x = None"
  using assms by (auto simp: without_rows_def dict_values_walk)

lemma without_rows_embeddings:
  "b \<in> set (dict_values (embedding_table (without_rows i t db))) \<longleftrightarrow>
     b \<in> set (dict_values (embedding_table db)) \<and> \<not> (mb_memory_id b = i \<and> mb_tenant_id b = t)"
  by (auto simp: without_rows_def dict_values_def)

lemma without_rows_kept:
  assumes ok: "memory_db_ok db"
  shows "kept db (without_rows i t db)"
proof -
  have own: "owned_ok (memory_table db) (source_table db) (embedding_table db)" using ok by (simp add: memory_db_ok_def)
  then have s: "dict_ok (source_table db)" by (simp add: owned_ok_def)
  have "of_tenant (memory_table db) (sw_memory_id x) (sw_tenant_id x)"
    if "x \<in> set (dict_values (source_table (without_rows i t db)))" for x
    using that by (rule without_rows_sources[OF s]) (use owned_sourceD[OF own] in auto)
  moreover have "dict_ok (source_table (without_rows i t db))" "dict_ok (embedding_table (without_rows i t db))"
    using own by (auto simp: owned_ok_def without_rows_def dict_ok_def[of "filter _ _"] distinct_map_filter)
      (simp add: dict_ok_def distinct_map_filter)
  ultimately have "owned_ok (memory_table db) (source_table (without_rows i t db)) (embedding_table (without_rows i t db))"
    using owned_embeddingD[OF own] by (auto simp: owned_ok_def without_rows_embeddings)
  then have "memory_db_ok (without_rows i t db)" using ok by (simp add: memory_db_ok_def)
  moreover have "erased j (without_rows i t db)" if e: "erased j db" for j
  proof -
    have "sw_excerpt x = None" if "x \<in> set (dict_values (source_table (without_rows i t db)))" "sw_memory_id x = j" for x
      using that(1) by (rule without_rows_sources[OF s]) (use e that(2) in \<open>auto simp: erased_def list_all_iff\<close>)
    then show ?thesis using e by (auto simp: erased_def list_all_iff without_rows_embeddings)
  qed
  ultimately show ?thesis by (simp add: kept_def)
qed

lemma without_rows_erased:
  assumes ok: "memory_db_ok db" and r: "dict_get (memory_table db) i = Some r" "mw_tenant_id r = t"
      "mw_status r = memory_status_value MEMORY_FORGOTTEN" "mw_content r = None"
  shows "erased i (without_rows i t db)"
proof -
  have own: "owned_ok (memory_table db) (source_table db) (embedding_table db)" using ok by (simp add: memory_db_ok_def)
  then have s: "dict_ok (source_table db)" by (simp add: owned_ok_def)
  have same: "t' = t" if "of_tenant (memory_table db) i t'" for t'
    using that r by (auto simp: of_tenant_def)
  have "sw_excerpt x = None" if x: "x \<in> set (dict_values (source_table (without_rows i t db)))" "sw_memory_id x = i" for x
    using x(1) by (rule without_rows_sources[OF s]) (use owned_sourceD[OF own] same x(2) in force)
  moreover have "mb_memory_id b \<noteq> i" if "b \<in> set (dict_values (embedding_table (without_rows i t db)))" for b
    using that owned_embeddingD[OF own] same by (auto simp: without_rows_embeddings)
  ultimately show ?thesis using r by (auto simp: erased_def list_all_iff)
qed

lemma sql_forget_memory_kept:
  assumes ok: "memory_db_ok db" and run: "sql_forget_memory i t a now actor db = Inr (om, db')"
  shows "kept db db' \<and> (om \<noteq> None \<longrightarrow> erased i db')"
proof (cases "locked_memory i t a db")
  case None
  with run ok show ?thesis by (simp add: sql_forget_memory_def)
next
  case (Some r)
  note r = locked_memory_get[OF ok Some]
  let ?r = "r\<lparr>mw_content := None, mw_status := memory_status_value MEMORY_FORGOTTEN,
      mw_embedding_version := None, mw_updated_at := now\<rparr>"
  obtain db1 where u: "update_memory ?r db = Inr db1"
    and db': "kept db db' = kept db (without_rows i t db1)" "erased i db' = erased i (without_rows i t db1)"
    using run Some by (auto simp: sql_forget_memory_def without_rows_def Let_def result_laws)
  have db1: "db1 = db\<lparr>memory_table := dict_set i ?r (memory_table db)\<rparr>"
    using u r by (auto simp: update_memory_def result_laws)
  have k1: "kept db db1"
    using update_memory_kept[OF ok r[THEN conjunct1] _ _ u] by (simp add: row_evolves_def row_active_def)
  have k2: "kept db1 (without_rows i t db1)" by (rule without_rows_kept[OF kept_ok[OF k1]])
  have "erased i (without_rows i t db1)"
    by (rule without_rows_erased[OF kept_ok[OF k1], where r = ?r]) (use r in \<open>simp_all add: db1\<close>)
  then show ?thesis using kept_trans[OF k1 k2] db' by simp
qed

lemma sql_correct_memory_kept:
  assumes ok: "memory_db_ok db" and detail: "sql_get_memory_detail i t a db = Inr (Some d)"
    and act: "mm_status (md_memory d) = MEMORY_ACTIVE" and suc: "successor (md_memory d) m"
    and own: "belongs m [x] b" and run: "sql_correct_memory known i m x b l db = Inr (om, db')"
  shows "kept db db'"
proof -
  let ?m0 = "md_memory d"
  note s = suc[unfolded successor_def]
  have loc: "locked_memory i t a db = Some (memory_model ?m0)" by (rule sql_get_memory_detail_row[OF detail])
  note r = locked_memory_get[OF ok loc]
  have "locked_memory i (mm_tenant_id m) (mm_agent_id m) db = Some (memory_model ?m0)"
    using loc r s by (simp add: memory_model_def)
  then obtain db1 db2 db3 db4 where
    1: "update_memory ((memory_model ?m0)\<lparr>mw_status := memory_status_value MEMORY_SUPERSEDED,
        mw_updated_at := mm_updated_at m\<rparr>) db = Inr db1"
    and 2: "insert_memory known (memory_model m) db1 = Inr db2"
    and 3: "insert_source known (source_model x) db2 = Inr db3"
    and 4: "insert_embedding known b db3 = Inr db4" and 5: "kept db db' = kept db db4"
    using run act by (auto simp: sql_correct_memory_def result_laws insert_link_def kept_def memory_db_ok_def erased_def)
  let ?r = "(memory_model ?m0)\<lparr>mw_status := memory_status_value MEMORY_SUPERSEDED, mw_updated_at := mm_updated_at m\<rparr>"
  have k1: "kept db db1"
    using update_memory_kept[OF ok r[THEN conjunct1] _ _ 1] act by (simp add: row_evolves_def row_active_def)
  have t1: "memory_table db1 = dict_set i ?r (memory_table db)"
    using 1 r by (auto simp: update_memory_def result_laws)
  have lin: "dict_get (memory_table db1) (mm_lineage_id m) \<noteq> None"
    using lineage_present[OF ok r[THEN conjunct1]] s by (simp add: t1)
  have top: "\<not> row_active r' \<and> mw_version r' \<le> mm_version m"
    if g: "dict_get (memory_table db1) k' = Some r'" and l: "mw_lineage_id r' = mm_lineage_id m" for k' r'
  proof (cases "k' = i")
    case True
    then show ?thesis using g s by (auto simp: t1 row_active_def)
  next
    case False
    then have "dict_get (memory_table db) k' = Some r'" using g by (simp add: t1)
    then have "mw_version r' \<le> mm_version ?m0 \<and> (row_active r' \<longrightarrow> k' = i)"
      using lineage_latest[OF ok r[THEN conjunct1], of k' r'] act l s by simp
    then show ?thesis using False s by simp
  qed
  have k2: "kept db1 db2 \<and> memory_table db2 = dict_set (mm_id m) (memory_model m) (memory_table db1)"
    using insert_memory_kept[OF kept_ok[OF k1] 2 disjI2[OF lin]] top by metis
  then have t: "of_tenant (memory_table db2) (mm_id m) (mm_tenant_id m)" and live: "\<not> erased (mm_id m) db2"
    using s by (auto simp: of_tenant_def erased_def)
  have k3: "kept db2 db3 \<and> memory_table db3 = memory_table db2"
    using insert_sources_kept[of db2 known "[x]" db3] 3 own t live k2[THEN conjunct1, THEN kept_ok]
    by (simp add: belongs_def)
  then have live3: "\<not> erased (mm_id m) db3" using k2 s by (auto simp: erased_def)
  have "db4 = db3\<lparr>embedding_table := dict_set (mb_id b) b (embedding_table db3)\<rparr>"
    using 4 by (auto simp: insert_embedding_def result_laws)
  then have "kept db3 db4"
    using put_embedding_kept[OF kept_ok, of db2 db3 b "mb_id b"] k3 own t live3 by (simp add: belongs_def)
  then show ?thesis using k1 k2 k3 5 kept_trans by blast
qed

lemma sql_replace_embedding_kept:
  assumes ok: "memory_db_ok db" and run: "sql_replace_embedding known i t b now db = Inr (u, db')"
    and own: "mb_memory_id b = i" "mb_tenant_id b = t"
  shows "kept db db'"
proof (cases "scalar (\<lambda>r. mw_id r = i \<and> mw_tenant_id r = t \<and> mw_status r = memory_status_value MEMORY_ACTIVE)
    (memory_table db)")
  case None
  with run ok show ?thesis by (simp add: sql_replace_embedding_def)
next
  case (Some r)
  have dict: "dict_ok (memory_table db)" using ok by (simp add: memory_db_ok_def memories_ok_def)
  obtain k where "mw_id r = i \<and> mw_tenant_id r = t \<and> mw_status r = memory_status_value MEMORY_ACTIVE"
    and "dict_get (memory_table db) k = Some r"
    using scalar_get[OF dict Some] by blast
  then have r: "mw_tenant_id r = t" "mw_status r = memory_status_value MEMORY_ACTIVE"
      "dict_get (memory_table db) i = Some r"
    using ok by (auto simp: memory_db_ok_def memories_ok_def)
  let ?d = "deactivated i db"
  obtain db1 where 1: "store_embedding known i b ?d = Inr db1"
    and 2: "update_memory (r\<lparr>mw_embedding_version := Some (mb_embedding_version b), mw_updated_at := now\<rparr>) db1 = Inr db'"
    using run Some by (auto simp: sql_replace_embedding_def result_laws)
  have ev: "dict_values (embedding_table ?d) = map (\<lambda>b. if mb_memory_id b = i \<and> mb_active b then b\<lparr>mb_active := False\<rparr> else b)
      (dict_values (embedding_table db))" and eok: "dict_ok (embedding_table ?d)"
    using ok by (simp_all add: deactivated_def dict_values_walk memory_db_ok_def owned_ok_def)
  have same: "memory_table ?d = memory_table db" "source_table ?d = source_table db"
      "relationship_table ?d = relationship_table db"
    by (simp_all add: deactivated_def)
  have k0: "kept db ?d"
    using ok ev eok by (auto simp: kept_def memory_db_ok_def owned_ok_def erased_def same list_all_iff)
  have live: "\<not> erased i ?d" by (rule present_not_erased[of _ _ r]) (use r in \<open>simp_all add: same\<close>)
  have t: "of_tenant (memory_table ?d) i t" using r by (auto simp: of_tenant_def same)
  obtain k b' where db1: "db1 = ?d\<lparr>embedding_table := dict_set k b' (embedding_table ?d)\<rparr>"
    and b': "mb_memory_id b' = i" "of_tenant (memory_table ?d) i (mb_tenant_id b')"
  proof (cases "scalar (\<lambda>x. mb_memory_id x = i \<and> mb_embedding_version x = mb_embedding_version b) (embedding_table ?d)")
    case None
    then show thesis using 1 own t that[of "mb_id b" b] by (auto simp: store_embedding_def insert_embedding_def result_laws)
  next
    case (Some x)
    then have x: "mb_memory_id x = i" "x \<in> set (dict_values (embedding_table ?d))"
      by (auto simp: scalar_def dest: find_Some_iff_mem)
    then have "of_tenant (memory_table ?d) i (mb_tenant_id x)"
      using kept_ok[OF k0] by (auto simp: memory_db_ok_def owned_ok_def)
    then show thesis
      using 1 Some x that[of "mb_id x" "x\<lparr>mb_vector := mb_vector b, mb_dimensions := mb_dimensions b,
          mb_active := True, mb_created_at := mb_created_at b\<rparr>"]
      by (auto simp: store_embedding_def update_embedding_def result_laws)
  qed
  have k1: "kept ?d db1"
    using put_embedding_kept[OF kept_ok[OF k0], of b' k] b' live by (simp add: db1)
  have "dict_get (memory_table db1) i = Some r" using r by (simp add: db1 same)
  then have "kept db1 db'"
    using update_memory_kept[OF kept_ok[OF k1] _ _ _ 2] r by (simp add: row_evolves_def row_active_def)
  then show ?thesis using k0 k1 kept_trans by blast
qed

lemma sql_apply_relationship_event_kept:
  assumes ok: "memory_db_ok db" and run: "sql_apply_relationship_event known x e db = Inr (d, db')"
    and x: "well_scored x"
  shows "kept db db'"
proof -
  have stored: "kept db db1" if st: "store_relationship known x e db = Inr db1" for db1
  proof -
    obtain dbr where r: "(case locked_relationship (rl_tenant_id x) (rl_agent_id x) (rl_user_id x) db of
         None \<Rightarrow> insert_relationship known (relationship_model x) db
       | Some r \<Rightarrow> update_relationship (changed_relationship x r) db) = Inr dbr"
      and same: "kept db db1 = kept db dbr"
      using st by (auto simp: store_relationship_def insert_relationship_event_def kept_def memory_db_ok_def erased_def
          memory_audited_def result_laws)
    obtain k v where dbr: "dbr = db\<lparr>relationship_table := dict_set k v (relationship_table db)\<rparr>"
      and v: "relationship_scored v"
      using r x relationship_scored_model relationship_scored_changed
      by (auto simp: insert_relationship_def update_relationship_def result_laws split: option.splits)
    have "kept db dbr"
      using ok v by (auto simp: dbr kept_def memory_db_ok_def erased_def list_all_iff dest!: values_dict_setD)
    then show ?thesis using same by simp
  qed
  then show ?thesis
    using run ok by (auto simp: sql_apply_relationship_event_def Let_def result_laws split: if_splits option.splits)
qed

lemma small_writes_kept:
  assumes ok: "memory_db_ok db"
  shows "sql_create_episode known e db = Inr (e', db') \<Longrightarrow> kept db db'"
    and "sql_set_episode_status i t a st en actor db = Inr (oe, db') \<Longrightarrow> kept db db'"
    and "sql_create_memory_link known l db = Inr (l', db') \<Longrightarrow> kept db db'"
    and "sql_create_index_job known j db = Inr (j', db') \<Longrightarrow> kept db db'"
    and "sql_update_index_job j db = Inr (j', db') \<Longrightarrow> kept db db'"
  using ok
  by (auto simp: sql_create_episode_def sql_set_episode_status_def sql_create_memory_link_def
      sql_create_index_job_def sql_update_index_job_def insert_episode_def insert_link_def insert_index_job_def
      update_episode_def update_index_row_def Let_def result_laws
      split: option.splits if_splits intro!: kept_cong)

section \<open>The repository interprets the contract\<close>

lemma sql_listed:
  "sql_list_memories_for_embedding t a u db = Inr ms \<Longrightarrow> m \<in> set ms \<Longrightarrow> mm_tenant_id m = t \<and> mm_content m \<noteq> None"
proof -
  have conv: "\<exists>r \<in> set rs. row_memory r = Some m" if "converted_all row_memory rs = Inr ms" "m \<in> set ms" for rs ms
    using that by (induction rs arbitrary: ms) (auto simp: result_laws converted_def split: option.splits)
  assume "sql_list_memories_for_embedding t a u db = Inr ms" "m \<in> set ms"
  then obtain r where "row_memory r = Some m" "mw_tenant_id r = t" "mw_content r \<noteq> None"
    unfolding sql_list_memories_for_embedding_def by (auto dest!: conv)
  then show ?thesis using row_memory_model_of[of r m] by (simp add: memory_model_def)
qed

definition keeps_erased :: "uuid set \<Rightarrow> memory_db \<Rightarrow> bool" where
  "keeps_erased X db \<longleftrightarrow> memory_db_ok db \<and> (\<forall>i \<in> X. erased i db)"

lemma kept_keeps: "keeps_erased X db \<Longrightarrow> (memory_db_ok db \<Longrightarrow> kept db db') \<Longrightarrow> keeps_erased X db'"
  by (simp add: keeps_erased_def kept_def)

interpretation sql_memory: memory_invariant "sql_repository trigram text_rank vector_score scan known" "keeps_erased X"
  for trigram text_rank vector_score scan known X
proof unfold_locales
  let ?repo = "sql_repository trigram text_rank vector_score scan known"
  note repo = sql_repository_def memory_repository.select_convs
  show "\<forall>m \<in> set ms. mm_tenant_id m = t \<and> mm_content m \<noteq> None"
    if "mr_list_memories_for_embedding ?repo t a u s = Inr ms" for t a u s ms
    using that by (auto simp: repo dest: sql_listed)
  show "mm_tenant_id (md_memory d) = t"
    if "keeps_erased X s" "mr_get_memory_detail ?repo i t a s = Inr (Some d)" for s i t a d
    using that sql_get_memory_detail_row[of i t a s d] locked_memory_get[of s i t a]
    by (simp add: repo keeps_erased_def)
  show "keeps_erased X s'" if "keeps_erased X s" "mr_create_episode ?repo e s = Inr (e', s')" for s e e' s'
    using that by (auto simp: repo intro: kept_keeps small_writes_kept)
  show "keeps_erased X s'" if "keeps_erased X s" "mr_set_episode_status ?repo i t a st en actor s = Inr (ep, s')"
    for s i t a st en actor ep s'
    using that by (auto simp: repo intro: kept_keeps small_writes_kept)
  show "keeps_erased X s'" if "keeps_erased X s" "mr_create_memory ?repo m xs b s = Inr (d, s')" "newborn m"
      "belongs m xs b" for s m xs b d s'
    using that by (auto simp: repo intro: kept_keeps sql_create_memory_kept)
  show "keeps_erased X s'"
    if "keeps_erased X s" "mr_set_confirmation ?repo i t a c (confirmed_confidence c (mm_confidence (md_memory d)))
      now actor s = Inr (om, s')" for s i t a c d now actor om s'
    using that by (auto simp: repo intro: kept_keeps sql_set_confirmation_kept)
  show "keeps_erased X s'"
    if "keeps_erased X s" "mr_get_memory_detail ?repo i t a s = Inr (Some d)"
      "mm_status (md_memory d) = MEMORY_ACTIVE" "successor (md_memory d) m" "belongs m [x] b"
      "mr_correct_memory ?repo i m x b l s = Inr (Some d', s')" for s i t a d m x b l d' s'
    using that by (auto simp: repo intro: kept_keeps sql_correct_memory_kept)
  show "keeps_erased X s'" if "keeps_erased X s" "mr_forget_memory ?repo i t a now actor s = Inr (om, s')"
    for s i t a now actor om s'
    using that by (auto simp: repo intro: kept_keeps sql_forget_memory_kept[THEN conjunct1])
  show "keeps_erased X s'" if "keeps_erased X s" "mr_create_memory_link ?repo l s = Inr (l', s')" for s l l' s'
    using that by (auto simp: repo intro: kept_keeps small_writes_kept)
  show "keeps_erased X s'" if "keeps_erased X s" "mr_apply_relationship_event ?repo r re s = Inr (rd, s')"
      "well_scored r" for s r re rd s'
    using that by (auto simp: repo intro: kept_keeps sql_apply_relationship_event_kept)
  show "keeps_erased X s'" if "keeps_erased X s" "mr_create_index_job ?repo j s = Inr (j', s')" for s j j' s'
    using that by (auto simp: repo intro: kept_keeps small_writes_kept)
  show "keeps_erased X s'" if "keeps_erased X s" "mr_update_index_job ?repo j s = Inr (j', s')" for s j j' s'
    using that by (auto simp: repo intro: kept_keeps small_writes_kept)
  show "keeps_erased X s'" if "keeps_erased X s" "mr_replace_embedding ?repo i t b now s = Inr ((), s')"
      "mb_memory_id b = i" "mb_tenant_id b = t" for s i t b now s'
    using that by (auto simp: repo intro: kept_keeps sql_replace_embedding_kept)
qed

end
