(* ===== verification/Memory_Guarantees.thy ===== *)
theory Memory_Guarantees
  imports Memory_Preserve
begin

text \<open>
  The in-memory repository interprets the same contract with the invariant \<open>memory_store_ok\<close>, the
  checks of the tables said of its dictionaries. Then what both repositories give to a recall, and
  the life of a job that rebuilds the index.
\<close>

section \<open>The in-memory repository\<close>

definition memory_store_ok :: "memory_store \<Rightarrow> bool" where
  "memory_store_ok s \<longleftrightarrow> dict_ok (memory_map s) \<and>
     (\<forall>k m. dict_get (memory_map s) k = Some m \<longrightarrow> mm_id m = k \<and> memory_sound m) \<and>
     (\<forall>k r. dict_get (relationship_map s) k = Some r \<longrightarrow> scope_of r = k \<and> well_scored r)"

lemma memory_store_ok_same:
  "memory_store_ok s \<Longrightarrow> memory_map s' = memory_map s \<Longrightarrow> relationship_map s' = relationship_map s \<Longrightarrow>
     memory_store_ok s'"
  by (simp add: memory_store_ok_def)

lemma memory_store_ok_put:
  "memory_store_ok s \<Longrightarrow> memory_map s' = dict_set k m (memory_map s) \<Longrightarrow> relationship_map s' = relationship_map s \<Longrightarrow>
     mm_id m = k \<Longrightarrow> memory_sound m \<Longrightarrow> memory_store_ok s'"
  by (auto simp: memory_store_ok_def)

lemma rnd_confidences: "0 \<le> rnd (85 / 100) \<and> rnd (85 / 100) \<le> 1 \<and> 0 \<le> rnd (35 / 100)"
  by (simp add: rnd_nonneg rnd_le_1)

lemma confirmed_confidence_unit:
  "0 \<le> q \<Longrightarrow> q \<le> 1 \<Longrightarrow> 0 \<le> confirmed_confidence c q \<and> confirmed_confidence c q \<le> 1"
  using rnd_confidences by (auto simp: confirmed_confidence_def)

lemma sound_changes:
  assumes "memory_sound m"
  shows "0 \<le> q \<Longrightarrow> q \<le> 1 \<Longrightarrow> memory_sound (confirmed_memory c q now m)"
    and "mm_status m = MEMORY_ACTIVE \<Longrightarrow> memory_sound (superseded_memory now m)"
    and "memory_sound (forgotten_memory now m)"
    and "memory_sound (indexed_memory v now m)"
  using assms
  by (auto simp: memory_sound_def unit_scores_def confirmed_memory_def superseded_memory_def
      forgotten_memory_def indexed_memory_def)

lemma changes_id [simp]:
  "mm_id (confirmed_memory c q now m) = mm_id m" "mm_id (superseded_memory now m) = mm_id m"
  "mm_id (forgotten_memory now m) = mm_id m" "mm_id (indexed_memory v now m) = mm_id m"
  by (simp_all add: confirmed_memory_def superseded_memory_def forgotten_memory_def indexed_memory_def)

lemma mem_detail_get:
  "mem_get_memory_detail i t a s = Some d \<Longrightarrow> dict_get (memory_map s) i = Some (md_memory d) \<and>
     mm_tenant_id (md_memory d) = t \<and> mm_agent_id (md_memory d) = a"
  by (auto simp: mem_get_memory_detail_def in_scope_def split: option.splits if_splits)

lemma mem_correct_ok:
  assumes ok: "memory_store_ok s" and d: "mem_get_memory_detail i t a s = Some d"
    and act: "mm_status (md_memory d) = MEMORY_ACTIVE" and suc: "successor (md_memory d) m"
    and run: "mem_correct_memory i m x b l s = (od, s')"
  shows "memory_store_ok s'"
proof -
  let ?m0 = "md_memory d"
  have g: "dict_get (memory_map s) i = Some ?m0" using mem_detail_get[OF d] by simp
  then have sound: "memory_sound ?m0" and id: "mm_id ?m0 = i" using ok by (auto simp: memory_store_ok_def)
  let ?s = "s\<lparr>memory_map := dict_set i (superseded_memory (mm_updated_at m) ?m0) (memory_map s)\<rparr>"
  have "memory_store_ok ?s"
    by (rule memory_store_ok_put[OF ok, where k = i and m = "superseded_memory (mm_updated_at m) ?m0"])
      (use sound_changes(2)[OF sound act] id in simp_all)
  then show ?thesis
  proof (rule memory_store_ok_put)
    show "memory_map s' = dict_set (mm_id m) m (memory_map ?s)" "relationship_map s' = relationship_map ?s"
      using run g act by (auto simp: mem_correct_memory_def)
    show "memory_sound m" using suc sound by (simp add: successor_def)
  qed simp
qed

lemma mem_relationship_ok:
  assumes ok: "memory_store_ok s" and x: "well_scored r" and run: "mem_apply_relationship_event r e s = (d, s')"
  shows "memory_store_ok s'"
proof -
  have "memory_store_ok (snd (store_relationship_event r e s))"
    using ok x by (auto simp: store_relationship_event_def Let_def memory_store_ok_def)
  then show ?thesis
    using run ok by (auto simp: mem_apply_relationship_event_def split: if_splits option.splits)
qed

lemma mem_confirm_ok:
  assumes ok: "memory_store_ok s" and d: "mem_get_memory_detail i t a s = Some d"
    and run: "mem_set_confirmation i t a c (confirmed_confidence c (mm_confidence (md_memory d))) now s = (om, s')"
  shows "memory_store_ok s'"
proof -
  let ?m = "md_memory d" and ?q = "confirmed_confidence c (mm_confidence (md_memory d))"
  have g: "dict_get (memory_map s) i = Some ?m" using mem_detail_get[OF d] by simp
  then have m: "memory_sound ?m" "mm_id ?m = i" using ok by (auto simp: memory_store_ok_def)
  then have "0 \<le> ?q \<and> ?q \<le> 1"
    using confirmed_confidence_unit by (simp add: memory_sound_def unit_scores_def)
  then have "memory_sound (confirmed_memory c ?q now ?m)" using sound_changes(1)[OF m(1)] by blast
  then have put: "memory_store_ok (s\<lparr>memory_map := dict_set i (confirmed_memory c ?q now ?m) (memory_map s)\<rparr>)"
    using memory_store_ok_put[OF ok, where k = i] m by simp
  show ?thesis
    using run g ok put by (auto simp: mem_set_confirmation_def Let_def split: if_splits)
qed

lemma mem_forget_ok:
  assumes ok: "memory_store_ok s" and run: "mem_forget_memory i t a now s = (om, s')"
  shows "memory_store_ok s'"
  using run ok sound_changes(3)
  by (auto simp: mem_forget_memory_def memory_store_ok_def split: option.splits if_splits)

lemma mem_replace_ok:
  assumes ok: "memory_store_ok s"
  shows "memory_store_ok (mem_replace_embedding i t b now s)"
  using ok sound_changes(4)
  by (auto simp: mem_replace_embedding_def memory_store_ok_def split: option.splits)

lemma mem_status_ok:
  assumes ok: "memory_store_ok s" and run: "mem_set_episode_status i t a st en s = (ep, s')"
  shows "memory_store_ok s'"
  using run ok
  by (auto simp: mem_set_episode_status_def Let_def split: option.splits if_splits intro: memory_store_ok_same)

interpretation mem_memory: memory_invariant "mem_repository fold_case fsqrt" memory_store_ok for fold_case fsqrt
proof unfold_locales
  let ?repo = "mem_repository fold_case fsqrt :: (memory_store, 'e) memory_repository"
  note repo = mem_repository_def memory_repository.select_convs
  show "\<forall>m \<in> set ms. mm_tenant_id m = t \<and> mm_content m \<noteq> None"
    if "mr_list_memories_for_embedding ?repo t a u s = Inr ms" for t a u s ms
    using that by (auto simp: repo mem_list_memories_for_embedding_def indexable_def in_scope_def)
  show "mm_tenant_id (md_memory d) = t" if "mr_get_memory_detail ?repo i t a s = Inr (Some d)" for s i t a d
    using that mem_detail_get by (simp add: repo)
  show "memory_store_ok s'" if "memory_store_ok s" "mr_create_episode ?repo e s = Inr (e', s')" for s e e' s'
    using that by (auto simp: repo mem_create_episode_def intro: memory_store_ok_same)
  show "memory_store_ok s'" if "memory_store_ok s" "mr_set_episode_status ?repo i t a st en actor s = Inr (ep, s')"
    for s i t a st en actor ep s'
    using that by (auto simp: repo intro: mem_status_ok)
  show "memory_store_ok s'" if "memory_store_ok s" "mr_create_memory ?repo m xs b s = Inr (d, s')" "newborn m"
    for s m xs b d s'
    using that by (auto simp: repo mem_create_memory_def newborn_def intro: memory_store_ok_put)
  show "memory_store_ok s'"
    if "memory_store_ok s" "mr_get_memory_detail ?repo i t a s = Inr (Some d)"
      "mr_set_confirmation ?repo i t a c (confirmed_confidence c (mm_confidence (md_memory d))) now actor s
        = Inr (om, s')" for s i t a c d now actor om s'
    using that by (auto simp: repo intro: mem_confirm_ok)
  show "memory_store_ok s'"
    if "memory_store_ok s" "mr_get_memory_detail ?repo i t a s = Inr (Some d)"
      "mm_status (md_memory d) = MEMORY_ACTIVE" "successor (md_memory d) m"
      "mr_correct_memory ?repo i m x b l s = Inr (Some d', s')" for s i t a d m x b l d' s'
    using that by (auto simp: repo intro: mem_correct_ok)
  show "memory_store_ok s'" if "memory_store_ok s" "mr_forget_memory ?repo i t a now actor s = Inr (om, s')"
    for s i t a now actor om s'
    using that by (auto simp: repo intro: mem_forget_ok)
  show "memory_store_ok s'" if "memory_store_ok s" "mr_create_memory_link ?repo l s = Inr (l', s')" for s l l' s'
    using that by (auto simp: repo mem_create_memory_link_def intro: memory_store_ok_same)
  show "memory_store_ok s'" if "memory_store_ok s" "mr_apply_relationship_event ?repo r re s = Inr (rd, s')"
      "well_scored r" for s r re rd s'
    using that by (auto simp: repo intro: mem_relationship_ok)
  show "memory_store_ok s'" if "memory_store_ok s" "mr_create_index_job ?repo j s = Inr (j', s')" for s j j' s'
    using that by (auto simp: repo mem_put_index_job_def intro: memory_store_ok_same)
  show "memory_store_ok s'" if "memory_store_ok s" "mr_update_index_job ?repo j s = Inr (j', s')" for s j j' s'
    using that by (auto simp: repo mem_put_index_job_def intro: memory_store_ok_same)
  show "memory_store_ok s'" if "memory_store_ok s" "mr_replace_embedding ?repo i t b now s = Inr ((), s')"
    for s i t b now s'
    using that by (auto simp: repo intro: mem_replace_ok)
qed

section \<open>Recall\<close>

lemma lifted_Inr [result_laws]: "(case r of Inl e \<Rightarrow> Inl (f e) | Inr x \<Rightarrow> Inr x) = Inr y \<longleftrightarrow> r = Inr y"
  by (cases r) auto

text \<open>What a recall relies on: its candidates are stored and may be recalled.\<close>

locale recall_source =
  fixes repo :: "('s, 'e) memory_repository" and ok :: "'s \<Rightarrow> bool" and stored :: "'s \<Rightarrow> memory \<Rightarrow> bool"
  assumes candidates: "ok s \<Longrightarrow> mr_search_candidates repo t a u q v version sens n s = Inr cs \<Longrightarrow> c \<in> set cs \<Longrightarrow>
      stored s (rm_memory c) \<and> recallable t a u sens (rm_memory c)"
begin

lemma recalled:
  assumes "ok s" and "recall repo enc fexp t a u query limit pool sens half w now s = Inr rs"
  obtains cs where "\<And>c. c \<in> set cs \<Longrightarrow> stored s (rm_memory c) \<and> recallable t a u sens (rm_memory c)"
    "rs = take (nat limit) (sorted_by_desc recall_key (map (recall_of fexp now half w) cs))" "0 < half"
proof -
  obtain cs v version q n where c: "mr_search_candidates repo t a u q v version sens n s = Inr cs"
    and r: "rank fexp cs now limit half w = Inr rs"
    using assms(2) by (auto simp: recall_def result_laws)
  have "rs = take (nat limit) (sorted_by_desc recall_key (map (recall_of fexp now half w) cs))" "0 < half"
    using r by (auto simp: rank_def split: if_splits)
  then show thesis using that candidates[OF assms(1) c] by blast
qed

lemma recalled_members:
  assumes "ok s" and "recall repo enc fexp t a u query limit pool sens half w now s = Inr rs" and "r \<in> set rs"
  obtains c where "r = recall_of fexp now half w c" "stored s (rm_memory c)" "recallable t a u sens (rm_memory c)"
    "0 < half"
proof -
  obtain cs where cs: "\<And>c. c \<in> set cs \<Longrightarrow> stored s (rm_memory c) \<and> recallable t a u sens (rm_memory c)"
    "rs = take (nat limit) (sorted_by_desc recall_key (map (recall_of fexp now half w) cs))" "0 < half"
    by (rule recalled[OF assms(1,2)], rule that)
  then obtain c where "c \<in> set cs" "r = recall_of fexp now half w c"
    using assms(3) by (auto dest!: in_set_takeD)
  then show thesis using that cs by blast
qed

lemma recalled_order:
  assumes "ok s" and "recall repo enc fexp t a u query limit pool sens half w now s = Inr rs"
  shows "length rs \<le> nat limit \<and> sorted_wrt (\<lambda>x y. recall_key y \<le> recall_key x) rs"
proof -
  obtain cs where rs: "rs = take (nat limit) (sorted_by_desc recall_key (map (recall_of fexp now half w) cs))"
    by (rule recalled[OF assms], rule that)
  have "sorted_wrt (\<lambda>x y. recall_key y \<le> recall_key x) (sorted_by_desc recall_key (map (recall_of fexp now half w) cs))"
    using sorted_by_desc_sorted[of recall_key] by (simp add: sorted_wrt_map)
  then show ?thesis by (simp add: rs sorted_wrt_take)
qed

end

interpretation mem_recall: recall_source "mem_repository fold_case fsqrt" "\<lambda>_. True" "\<lambda>s m. m \<in> set (dict_values (memory_map s))"
  for fold_case fsqrt
proof unfold_locales
  show "rm_memory c \<in> set (dict_values (memory_map s)) \<and> recallable t a u sens (rm_memory c)"
    if "mr_search_candidates (mem_repository fold_case fsqrt) t a u q v version sens n s = Inr cs" "c \<in> set cs"
    for t a u q v version sens n s cs c
    using that set_py_take_subset
    by (fastforce simp: mem_repository_def mem_search_candidates_def Let_def candidate_of_def)
qed

lemma converted_all_Inr: "converted_all conv rs = Inr xs \<Longrightarrow> x \<in> set xs \<Longrightarrow> \<exists>r \<in> set rs. conv r = Some x"
  by (induction rs arbitrary: xs) (auto simp: result_laws converted_def split: option.splits)

lemma stored_active: "memory_status_value st = lit ''active'' \<longleftrightarrow> st = MEMORY_ACTIVE"
  by (cases st) simp_all

lemma allowed_sensitivity_value [simp]:
  "memory_sensitivity_value x \<in> set (allowed_sensitivity maximum) \<longleftrightarrow> x \<le> maximum"
  by (auto simp: allowed_sensitivity_def memory_sensitivity_enum.value_eq memory_sensitivity_enum.all_members)

text \<open>The query's conditions on a row are those of the in-memory repository on its memory.\<close>

lemma row_recallable_model [simp]:
  "row_recallable t a u sens (memory_model m) \<longleftrightarrow> recallable t a u sens m"
  by (cases "mm_visibility m")
    (auto simp: row_recallable_def row_visible_def recallable_def visible_def memory_model_def not_less stored_active)

lemma sql_candidates:
  assumes "sql_search_candidates text_rank vector_score scan t a u q v version sens n db = Inr cs" and "c \<in> set cs"
    and scan: "\<And>rows. set (scan rows) \<subseteq> set rows" and ok: "memory_db_ok db"
  shows "dict_get (memory_table db) (mm_id (rm_memory c)) = Some (memory_model (rm_memory c)) \<and>
    recallable t a u sens (rm_memory c)"
proof -
  obtain x where x: "x \<in> set (map (scored_row text_rank vector_score t q v version db)
        (filter (row_recallable t a u sens) (scan (dict_values (memory_table db)))))"
    and c: "scored_candidate (known_familiarity t a u db) u x = Some c"
    using converted_all_Inr[OF assms(1)[unfolded sql_search_candidates_def] assms(2)]
    by (auto dest!: in_set_takeD)
  then obtain r where rx: "x = scored_row text_rank vector_score t q v version db r"
    and r: "r \<in> set (scan (dict_values (memory_table db)))" "row_recallable t a u sens r" by auto
  have "row_memory r = Some (rm_memory c)"
    using c by (auto simp: rx scored_row_def scored_candidate_def)
  then have m: "r = memory_model (rm_memory c)" by (auto dest: row_memory_model_of)
  obtain k where "dict_get (memory_table db) k = Some r"
    using subsetD[OF scan r(1)] ok by (auto simp: dict_values_iff memory_db_ok_def memories_ok_def)
  moreover from this have "mw_id r = k" using ok by (simp add: memory_db_ok_def memories_ok_def)
  ultimately show ?thesis using m r(2) by simp
qed

definition sql_stored :: "memory_db \<Rightarrow> memory \<Rightarrow> bool" where
  "sql_stored db m \<longleftrightarrow> dict_get (memory_table db) (mm_id m) = Some (memory_model m)"

interpretation sql_recall: recall_source "sql_repository trigram text_rank vector_score scan known"
    "\<lambda>db. memory_db_ok db \<and> (\<forall>rows. set (scan rows) \<subseteq> set rows)" sql_stored
  for trigram text_rank vector_score scan known
proof unfold_locales
  show "sql_stored db (rm_memory c) \<and> recallable t a u sens (rm_memory c)"
    if "memory_db_ok db \<and> (\<forall>rows. set (scan rows) \<subseteq> set rows)" "c \<in> set cs"
      "mr_search_candidates (sql_repository trigram text_rank vector_score scan known) t a u q v version sens n db = Inr cs"
    for db t a u q v version sens n cs c
    using that sql_candidates[of text_rank vector_score scan t a u q v version sens n db cs c]
    by (simp add: sql_repository_def sql_stored_def)
qed

lemma sql_stored_sound: "memory_db_ok db \<Longrightarrow> sql_stored db m \<Longrightarrow> memory_sound m"
  by (simp add: memory_db_ok_def memories_ok_def sql_stored_def flip: checks_iff_sound)

section \<open>Rebuilding the index\<close>

text \<open>A port that returns the job it has stored.\<close>

locale index_port = memory_port repo for repo :: "('s, 'e) memory_repository" +
  assumes updated: "mr_update_index_job repo j s = Inr (j', s') \<Longrightarrow> j' = j"
begin

lemma rebuild_loop_counts:
  "rebuild_loop repo uuid5 enc t clock k ms j s = (None, j', s') \<Longrightarrow> \<forall>m \<in> set ms. mm_content m \<noteq> None \<Longrightarrow>
     j' = j\<lparr>ix_processed_items := ix_processed_items j + int (length ms)\<rparr>"
proof (induction ms arbitrary: k j s)
  case (Cons m ms)
  obtain c where c: "mm_content m = Some c" using Cons.prems(2) by auto
  let ?j = "j\<lparr>ix_processed_items := ix_processed_items j + 1\<rparr>"
  obtain s2 where "rebuild_loop repo uuid5 enc t clock (Suc k) ms ?j s2 = (None, j', s')"
    using Cons.prems(1) c by (auto simp: Let_def split: sum.splits prod.splits)
  then have "j' = ?j\<lparr>ix_processed_items := ix_processed_items ?j + int (length ms)\<rparr>"
    using Cons.prems(2) by (intro Cons.IH) auto
  then show ?case by simp
qed simp

lemma rebuild_run_completes:
  assumes "mr_get_index_job repo t a i s = Inr (Some job)" and "ix_status job \<noteq> INDEX_COMPLETED"
    and "run_embedding_rebuild repo uuid5 enc error_name t a i started clock ended s = (Inr j, s')"
  shows "ix_status j = INDEX_COMPLETED \<and> ix_processed_items j = ix_total_items j \<and> ix_error_code j = None \<and>
    ix_completed_at j = Some ended"
proof -
  obtain ms latest s1 s2 where ms: "mr_list_memories_for_embedding repo t a (ix_user_id job) s = Inr ms"
    and l: "rebuild_loop repo uuid5 enc t clock 0 ms (running_job (length ms) started job) s1 = (None, latest, s2)"
    and u: "mr_update_index_job repo (completed_index ended latest) s2 = Inr (j, s')"
    using assms by (auto simp: run_embedding_rebuild_def Let_def split: sum.splits option.splits prod.splits)
  have "j = completed_index ended latest" by (rule updated[OF u])
  then show ?thesis
    using rebuild_loop_counts[OF l] listed[OF ms] by (simp add: completed_index_def running_job_def)
qed

end

interpretation sql_index: index_port "sql_repository trigram text_rank vector_score scan known"
  for trigram text_rank vector_score scan known
  by unfold_locales (auto simp: sql_repository_def sql_update_index_job_def result_laws split: option.splits if_splits)

interpretation mem_index: index_port "mem_repository fold_case fsqrt" for fold_case fsqrt
  by unfold_locales (auto simp: mem_repository_def mem_put_index_job_def)

section \<open>Relationship events\<close>

lemma scalar_present: "x \<in> set (dict_values d) \<Longrightarrow> p x \<Longrightarrow> \<exists>y. scalar p d = Some y"
  by (cases "scalar p d") (auto simp: scalar_def find_None_all)

lemma sql_relationship_event_recorded:
  assumes run: "sql_apply_relationship_event known x e db = Inr (d, db')"
  shows "dict_get (relationship_event_table db') (re_id e) \<noteq> None \<and>
    locked_relationship (rl_tenant_id x) (rl_agent_id x) (rl_user_id x) db' \<noteq> None"
proof -
  let ?p = "\<lambda>r. hw_tenant_id r = rl_tenant_id x \<and> hw_agent_id r = rl_agent_id x \<and> hw_user_id r = rl_user_id x"
  have stored: "dict_get (relationship_event_table db1) (re_id e) \<noteq> None \<and>
      locked_relationship (rl_tenant_id x) (rl_agent_id x) (rl_user_id x) db1 \<noteq> None"
    if st: "store_relationship known x e db = Inr db1" for db1
  proof -
    obtain k v where r: "relationship_table db1 = dict_set k v (relationship_table db)" and v: "?p v"
      and e: "dict_get (relationship_event_table db1) (re_id e) = Some e"
      using st
      by (auto simp: store_relationship_def insert_relationship_event_def insert_relationship_def
          update_relationship_def relationship_model_def changed_relationship_def locked_relationship_def
          memory_audited_def scalar_def result_laws split: option.splits dest!: find_Some_iff_mem)
    have "v \<in> set (dict_values (relationship_table db1))"
      by (rule dict_get_in_values[where k = k]) (simp add: r)
    then show ?thesis using v e by (auto simp: locked_relationship_def intro: scalar_present)
  qed
  have "locked_relationship t a u db \<noteq> None" if "sql_get_relationship_detail t a u db = Inr (Some dd)" for t a u dd
    using that by (auto simp: sql_get_relationship_detail_def split: option.splits)
  then show ?thesis
    using run stored
    by (auto simp: sql_apply_relationship_event_def Let_def result_laws split: if_splits option.splits)
qed

end
