(* ===== verification/Memory_Properties.thy ===== *)
theory Memory_Properties
  imports Memory_Guarantees
begin

text \<open>What the long-term memory promises, with a small example database for the witnesses.\<close>

section \<open>An example\<close>

definition empty_memory_db :: memory_db where
  "empty_memory_db = \<lparr>episode_table = [], memory_table = [], source_table = [], link_table = [],
     embedding_table = [], relationship_table = [], relationship_event_table = [], index_job_table = [],
     memory_audit = []\<rparr>"

lemma empty_memory_db_ok: "keeps_erased {} empty_memory_db"
  by (simp add: keeps_erased_def memory_db_ok_def empty_memory_db_def memories_ok_def lineages_ok_def
      owned_ok_def dict_values_def dict_get_def)

abbreviation sample_repository :: "(memory_db, sql_error) memory_repository" where
  "sample_repository \<equiv> sql_repository (\<lambda>_ _. 0) (\<lambda>_ _. 1) (\<lambda>_ _. 0) (\<lambda>rows. rows) (\<lambda>_ _. True)"

definition sample_uuid5 :: "uuid \<Rightarrow> ustr \<Rightarrow> uuid" where
  "sample_uuid5 u s = 100 * u + length s"

definition sample_encoder :: text_encoder where
  "sample_encoder = \<lparr>te_version = lit ''v1'', te_dimensions = 256, te_encode = (\<lambda>_. Some (replicate 256 1))\<rparr>"

definition sample_memory_args :: memory_args where
  "sample_memory_args = \<lparr>cm_tenant_id = 1, cm_agent_id = 2, cm_user_id = Some 3, cm_conversation_id = None,
     cm_episode_id = None, cm_kind = SEMANTIC, cm_visibility = VISIBLE_USER, cm_content = lit ''tea'',
     cm_event_at = Aware 0, cm_confidence = 1 / 2, cm_importance = 1 / 2, cm_emotional_weight = 0,
     cm_sensitivity = NORMAL, cm_confirmation = UNCONFIRMED,
     cm_sources = [\<lparr>sd_kind = SOURCE_MESSAGE, sd_source_id = lit ''m1'', sd_excerpt = Some (lit ''tea''),
       sd_is_verbatim = True, sd_occurred_at = Aware 0\<rparr>], cm_actor_id = 3\<rparr>"

definition sample_memory_db :: memory_db where
  "sample_memory_db =
     (case create_memory sample_repository sample_uuid5 sample_encoder sample_memory_args 7 0 empty_memory_db of
        Inl e \<Rightarrow> empty_memory_db | Inr r \<Rightarrow> snd r)"

lemmas create_simps = create_memory_def sample_memory_args_def required_memory_text_def validate_memory_values_def aware_def
    ensure_def source_record_def optional_memory_text_def memory_embedding_of_def encoded_def sample_encoder_def
    sql_repository_def sql_create_memory_def empty_memory_db_def fresh_memory_def insert_memory_def statement_def
    insert_source_def insert_embedding_def memory_model_def source_model_def memory_fits_def memory_checks_def
    source_fits_def source_checks_def embedding_fits_def embedding_checks_def dict_get_def Let_def unique_def
    unique_opt_def dict_values_def fk_def present_def one_of_def wide_def wide_opt_def int4_def dict_set_def
    strip_def lit_def is_space_def

lemma sample_created:
  obtains d where
    "create_memory sample_repository sample_uuid5 sample_encoder sample_memory_args 7 0 empty_memory_db =
       Inr (d, sample_memory_db)"
proof -
  have "\<exists>d db. create_memory sample_repository sample_uuid5 sample_encoder sample_memory_args 7 0 empty_memory_db =
      Inr (d, db)"
    by (simp add: create_simps)
  then show thesis using that by (auto simp: sample_memory_db_def)
qed

abbreviation sample_reachable :: "memory_db \<Rightarrow> bool" where
  "sample_reachable \<equiv> reachable (\<lambda>db. db = empty_memory_db)
     (memory_step sample_repository sample_uuid5 sample_encoder)"

lemma sample_memory_reachable: "sample_reachable sample_memory_db"
proof (rule sample_created)
  fix d
  assume "create_memory sample_repository sample_uuid5 sample_encoder sample_memory_args 7 0 empty_memory_db =
    Inr (d, sample_memory_db)"
  then have "memory_step sample_repository sample_uuid5 sample_encoder empty_memory_db sample_memory_db"
    by (rule memory_step.created)
  then show ?thesis by (rule reachable.next_state[rotated]) (rule reachable.start, simp)
qed

definition sample_memory :: memory where
  "sample_memory = fresh_memory sample_encoder sample_memory_args (lit ''tea'') 0 7 0"

lemma sample_memory_table: "memory_table sample_memory_db = [(7, memory_model sample_memory)]"
  by (simp add: sample_memory_db_def sample_memory_def create_simps memory_audited_def)

lemma sample_memory_sound: "memory_sound sample_memory" "memory_fits (memory_model (forgotten_memory 5 sample_memory))"
  by (simp_all add: sample_memory_def fresh_memory_def sample_memory_args_def sample_encoder_def memory_sound_def
      unit_scores_def memory_fits_def memory_model_def forgotten_memory_def wide_def wide_opt_def int4_def lit_def)

lemma sql_reachable_ok:
  "reachable (\<lambda>db. db = empty_memory_db)
     (memory_step (sql_repository trigram text_rank vector_score scan known) uuid5 enc) db \<Longrightarrow> memory_db_ok db"
  using sql_memory.reachable_keep[OF empty_memory_db_ok] by (auto simp: keeps_erased_def)

section \<open>Forgetting\<close>

lemma forgotten_for_good:
  assumes "reachable (\<lambda>db. db = empty_memory_db)
      (memory_step (sql_repository trigram text_rank vector_score scan known) uuid5 enc) db"
    and "forget_memory (sql_repository trigram text_rank vector_score scan known) i t a actor now db = Inr (m, db1)"
    and "(memory_step (sql_repository trigram text_rank vector_score scan known) uuid5 enc)\<^sup>*\<^sup>* db1 db2"
  shows "erased i db2"
proof -
  have ok: "memory_db_ok db" by (rule sql_reachable_ok[OF assms(1)])
  have "sql_forget_memory i t a now actor db = Inr (Some m, db1)"
    using assms(2) by (simp add: forget_memory_def sql_repository_def result_laws)
  then have "keeps_erased {i} db1"
    using sql_forget_memory_kept[OF ok] by (auto simp: keeps_erased_def kept_def)
  then show ?thesis using sql_memory.steps_keep[OF assms(3)] by (auto simp: keeps_erased_def)
qed

lemma sample_forgotten:
  "\<exists>m db1. forget_memory sample_repository 7 1 2 3 5 sample_memory_db = Inr (m, db1)"
proof -
  have loc: "locked_memory 7 1 2 sample_memory_db = Some (memory_model sample_memory)"
    by (simp add: locked_memory_def scalar_def sample_memory_table dict_values_def row_in_scope_def)
      (simp add: memory_model_def sample_memory_def fresh_memory_def sample_memory_args_def)
  have row: "(memory_model sample_memory)\<lparr>mw_content := None, mw_status := memory_status_value MEMORY_FORGOTTEN,
      mw_embedding_version := None, mw_updated_at := 5\<rparr> = memory_model (forgotten_memory 5 sample_memory)"
    by (simp add: memory_model_def forgotten_memory_def)
  show ?thesis
    using sample_memory_sound sound_changes(3)[OF sample_memory_sound(1)]
    by (simp add: forget_memory_def sql_repository_def sql_forget_memory_def loc[simplified] Let_def row update_memory_def
        statement_def checks_iff_sound converted_def found_def del: memory_status_value.simps)
qed

section \<open>Lineages\<close>

text \<open>C21: of the versions of a memory (one lineage) at most one is active, and no other version of the
  lineage is numbered higher: a correction is superseded exactly when its successor is stored.\<close>

theorem one_active_version:
  assumes "reachable (\<lambda>db. db = empty_memory_db)
      (memory_step (sql_repository trigram text_rank vector_score scan known) uuid5 enc) db"
    and "dict_get (memory_table db) k = Some r" and "row_active r"
    and "dict_get (memory_table db) k' = Some r'" and "mw_lineage_id r' = mw_lineage_id r"
  shows "mw_version r' \<le> mw_version r \<and> (row_active r' \<longrightarrow> k' = k)"
  by (rule lineage_latest[OF sql_reachable_ok[OF assms(1)] assms(2,4,3,5)])

theorem one_active_version_witness:
  "\<exists>r. dict_get (memory_table sample_memory_db) 7 = Some r \<and> row_active r \<and> mw_version r \<le> mw_version r"
proof -
  have "dict_get (memory_table sample_memory_db) 7 = Some (memory_model sample_memory)"
    by (simp add: sample_memory_table dict_get_def)
  moreover have "row_active (memory_model sample_memory)"
    by (simp add: sample_memory_def fresh_memory_def)
  ultimately show ?thesis
    using one_active_version[OF sample_memory_reachable] by blast
qed

section \<open>Recall\<close>

text \<open>C20: every memory that a recall returns is a stored, active memory with content that the agent and
  the user may see and that is no more sensitive than asked for; its score lies between zero and
  one; at most \<open>limit\<close> are returned, in the order of their keys.\<close>

theorem recall_is_isolated:
  assumes "reachable (\<lambda>db. db = empty_memory_db)
      (memory_step (sql_repository trigram text_rank vector_score scan known) uuid5 enc) db"
    and "\<forall>rows. set (scan rows) \<subseteq> set rows" and "weights_ok w" and "decays fexp"
    and "recall (sql_repository trigram text_rank vector_score scan known) enc fexp t a u query limit pool sens half w
      now db = Inr rs"
  shows "list_all (\<lambda>r. sql_stored db (rk_memory r) \<and> recallable t a u sens (rk_memory r) \<and> 0 \<le> rk_score r \<and>
      rk_score r \<le> 1) rs \<and> length rs \<le> nat limit \<and> sorted_wrt (\<lambda>x y. recall_key y \<le> recall_key x) rs"
proof -
  have dbok: "memory_db_ok db" by (rule sql_reachable_ok[OF assms(1)])
  then have ok: "memory_db_ok db \<and> (\<forall>rows. set (scan rows) \<subseteq> set rows)" using assms(2) by blast
  have "sql_stored db (rk_memory r) \<and> recallable t a u sens (rk_memory r) \<and> 0 \<le> rk_score r \<and> rk_score r \<le> 1"
    if "r \<in> set rs" for r
    using ok assms(5) that
  proof (rule sql_recall.recalled_members)
    fix c
    assume r: "r = recall_of fexp now half w c" and c: "sql_stored db (rm_memory c)" "recallable t a u sens (rm_memory c)"
      and half: "0 < half"
    have "unit_scores (rm_memory c)" using sql_stored_sound[OF dbok c(1)] by (simp add: memory_sound_def)
    then show ?thesis
      using c recall_score_unit[OF assms(3,4) half, of c now] by (simp add: r recall_of_def unit_scores_def)
  qed
  then show ?thesis using sql_recall.recalled_order[OF ok assms(5)] by (simp add: list_all_iff)
qed

definition sample_weights :: recall_weights where
  "sample_weights = \<lparr>rw_full_text = 1, rw_semantic = 0, rw_recency = 0, rw_importance = 0, rw_relationship = 0\<rparr>"

lemma sample_weights_ok: "weights_ok sample_weights"
  by (simp add: weights_ok_def check_weights_def sample_weights_def weight_values_def float_sum_def sum_step_def
      fadd_def fsub_def Let_def)

theorem recall_is_isolated_witness:
  "\<exists>rs. recall sample_repository sample_encoder (\<lambda>_. 1) 1 2 3 (lit ''tea'') 5 10 NORMAL 30 sample_weights 0
      sample_memory_db = Inr rs \<and> length rs = 1 \<and>
    list_all (\<lambda>r. sql_stored sample_memory_db (rk_memory r) \<and> recallable 1 2 3 NORMAL (rk_memory r) \<and>
      0 \<le> rk_score r \<and> rk_score r \<le> 1) rs"
proof -
  let ?row = "memory_model sample_memory"
  have "row_recallable 1 2 3 NORMAL ?row"
    by (simp add: recallable_def visible_def)
      (simp add: sample_memory_def fresh_memory_def sample_memory_args_def)
  then have s: "\<exists>c. sql_search_candidates (\<lambda>_ _. 1) (\<lambda>_ _. 0) (\<lambda>rows. rows) 1 2 3 q v (lit ''v1'') NORMAL 10
      sample_memory_db = Inr [c]" for q v
    by (simp add: sql_search_candidates_def sample_memory_table dict_values_def scored_row_def sorted_by_def
        scored_candidate_def converted_def del: row_recallable_model)
  obtain rs where rs: "recall sample_repository sample_encoder (\<lambda>_. 1) 1 2 3 (lit ''tea'') 5 10 NORMAL 30 sample_weights 0
      sample_memory_db = Inr rs" "length rs = 1"
  proof -
    have t: "strip (lit ''tea'') = lit ''tea''" by (simp add: strip_def lit_def is_space_def)
    obtain c where c: "sql_search_candidates (\<lambda>_ _. 1) (\<lambda>_ _. 0) (\<lambda>rows. rows) 1 2 3 (lit ''tea'') (replicate 256 1)
        (lit ''v1'') NORMAL 10 sample_memory_db = Inr [c]" using s by blast
    have "recall sample_repository sample_encoder (\<lambda>_. 1) 1 2 3 (lit ''tea'') 5 10 NORMAL 30 sample_weights 0
      sample_memory_db = Inr (take 5 (sorted_by_desc recall_key [recall_of (\<lambda>_. 1) 0 30 sample_weights c]))"
      using c by (simp add: recall_def t required_memory_text_def checked_limit_def ensure_def encoded_def sample_encoder_def
          sql_repository_def rank_def) (simp add: lit_def)
    then show thesis using that by simp
  qed
  have "decays (\<lambda>_. 1)" by (simp add: decays_def)
  from recall_is_isolated[OF sample_memory_reachable _ sample_weights_ok this rs(1)] rs show ?thesis by auto
qed

section \<open>Relationships\<close>

lemma row_relationship_scope:
  "row_relationship r = Some x \<Longrightarrow>
     rl_tenant_id x = hw_tenant_id r \<and> rl_agent_id x = hw_agent_id r \<and> rl_user_id x = hw_user_id r"
  by (auto simp: row_relationship_def bind_eq_Some_conv)

lemma sql_detail_scope:
  assumes "sql_get_relationship_detail t a u db = Inr (Some d)"
  shows "rl_tenant_id (rd_relationship d) = t \<and> rl_agent_id (rd_relationship d) = a \<and> rl_user_id (rd_relationship d) = u"
proof -
  obtain r where "locked_relationship t a u db = Some r" "row_relationship r = Some (rd_relationship d)"
    using assms by (auto simp: sql_get_relationship_detail_def converted_def result_laws split: option.splits)
  then show ?thesis
    by (auto simp: locked_relationship_def scalar_def dest!: find_Some_iff_mem row_relationship_scope)
qed

lemma sql_apply_replayed:
  assumes "dict_get (relationship_event_table db) (re_id e) \<noteq> None"
    and "sql_get_relationship_detail (rl_tenant_id x) (rl_agent_id x) (rl_user_id x) db = Inr (Some d)"
  shows "sql_apply_relationship_event known x e db = Inr (d, db)"
  using assms by (auto simp: sql_apply_relationship_event_def Let_def)

lemma sql_apply_reread:
  assumes "sql_apply_relationship_event known x e db = Inr (d, db')"
  shows "sql_get_relationship_detail (rl_tenant_id x) (rl_agent_id x) (rl_user_id x) db' = Inr (Some d)"
proof -
  have "locked_relationship (rl_tenant_id x) (rl_agent_id x) (rl_user_id x) db' \<noteq> None"
    using sql_relationship_event_recorded[OF assms] by simp
  then have "sql_get_relationship_detail (rl_tenant_id x) (rl_agent_id x) (rl_user_id x) db' \<noteq> Inr None"
    by (auto simp: sql_get_relationship_detail_def bind_result_def split: sum.splits)
  then show ?thesis
    using assms
    by (auto simp: sql_apply_relationship_event_def Let_def result_laws split: if_splits option.splits)
qed

text \<open>The relationship that the service hands to the repository is of the scope it was asked for.\<close>

lemma sql_record_passes:
  assumes "record_relationship_event (sql_repository trigram text_rank vector_score scan known) uuid5 a i now db = Inr (d, db')"
  obtains x e where "sql_apply_relationship_event known x e db = Inr (d, db')" "re_id e = i"
    "rl_tenant_id x = ra_tenant_id a" "rl_agent_id x = ra_agent_id a" "rl_user_id x = ra_user_id a" "well_scored x"
    "rl_version x = (case sql_get_relationship_detail (ra_tenant_id a) (ra_agent_id a) (ra_user_id a) db of
        Inr (Some d0) \<Rightarrow> rl_version (rd_relationship d0) | _ \<Rightarrow> 0) + 1"
  using assms
proof (rule relationship_event_passes)
  fix existing summary boundaries e
  assume x: "mr_get_relationship_detail (sql_repository trigram text_rank vector_score scan known)
      (ra_tenant_id a) (ra_agent_id a) (ra_user_id a) db = Inr existing"
    and run: "mr_apply_relationship_event (sql_repository trigram text_rank vector_score scan known)
      (updated_relationship a summary boundaries now
         (case existing of Some d0 \<Rightarrow> rd_relationship d0 | None \<Rightarrow> first_relationship uuid5 a now)) e db = Inr (d, db')"
    and i: "re_id e = i"
  let ?r = "case existing of Some d0 \<Rightarrow> rd_relationship d0 | None \<Rightarrow> first_relationship uuid5 a now"
  have x': "sql_get_relationship_detail (ra_tenant_id a) (ra_agent_id a) (ra_user_id a) db = Inr existing"
    using x by (simp add: sql_repository_def)
  have "rl_tenant_id ?r = ra_tenant_id a \<and> rl_agent_id ?r = ra_agent_id a \<and> rl_user_id ?r = ra_user_id a"
    using x' by (auto simp: first_relationship_def dest: sql_detail_scope split: option.split)
  then show thesis
    using that[of "updated_relationship a summary boundaries now ?r" e] run i x'
    by (simp add: sql_repository_def updated_relationship_scored)
      (auto simp: updated_relationship_def Let_def first_relationship_def split: option.splits)
qed

text \<open>an event of a relationship counts once: recording another event under an identifier that has
  been recorded before, as the replay of a reflection does, returns the same detail and changes
  nothing.\<close>

lemma relationship_event_counts_once:
  assumes "record_relationship_event (sql_repository trigram text_rank vector_score scan known) uuid5 a i now db
      = Inr (d, db1)"
    and "record_relationship_event (sql_repository trigram text_rank vector_score scan known) uuid5 a' i now' db1
      = Inr (d', db2)"
    and "ra_tenant_id a' = ra_tenant_id a" and "ra_agent_id a' = ra_agent_id a" and "ra_user_id a' = ra_user_id a"
  shows "d' = d \<and> db2 = db1"
  using assms(1)
proof (rule sql_record_passes)
  fix x e
  assume x: "sql_apply_relationship_event known x e db = Inr (d, db1)" "re_id e = i" "rl_tenant_id x = ra_tenant_id a"
    "rl_agent_id x = ra_agent_id a" "rl_user_id x = ra_user_id a"
  show ?thesis
    using assms(2)
  proof (rule sql_record_passes)
    fix x' e'
    assume x': "sql_apply_relationship_event known x' e' db1 = Inr (d', db2)" "re_id e' = i"
      "rl_tenant_id x' = ra_tenant_id a'" "rl_agent_id x' = ra_agent_id a'" "rl_user_id x' = ra_user_id a'"
    have "sql_apply_relationship_event known x' e' db1 = Inr (d, db1)"
      using sql_relationship_event_recorded[OF x(1)] sql_apply_reread[OF x(1)] x x' assms(3-5)
      by (intro sql_apply_replayed) simp_all
    then show ?thesis using x'(1) by simp
  qed
qed

definition sample_relationship_args :: relationship_args where
  "sample_relationship_args = \<lparr>ra_tenant_id = 1, ra_agent_id = 2, ra_user_id = 3, ra_event_type = lit ''chat'',
     ra_affinity_delta = 1, ra_trust_delta = 0, ra_familiarity_delta = 1, ra_summary = lit ''tea'',
     ra_boundaries = None, ra_evidence_memory_id = None, ra_actor_id = 3\<rparr>"

lemma relationship_event_counts_once_instance:
  "\<exists>d db1 d' db2. record_relationship_event sample_repository sample_uuid5 sample_relationship_args 8 0 empty_memory_db
      = Inr (d, db1) \<and>
    record_relationship_event sample_repository sample_uuid5 sample_relationship_args 8 5 db1 = Inr (d', db2) \<and> db2 = db1"
proof -
  have "\<exists>d db1 d' db2. record_relationship_event sample_repository sample_uuid5 sample_relationship_args 8 0 empty_memory_db
      = Inr (d, db1) \<and> record_relationship_event sample_repository sample_uuid5 sample_relationship_args 8 5 db1 = Inr (d', db2)"
    by (simp add: record_relationship_event_def sample_relationship_args_def ensure_def delta_ok_def required_memory_text_def
      get_relationship_def sql_repository_def sql_get_relationship_detail_def locked_relationship_def scalar_def
      empty_memory_db_def dict_values_def first_relationship_def updated_relationship_def relationship_event_of_def Let_def
      sql_apply_relationship_event_def dict_get_def store_relationship_def insert_relationship_def statement_def
      relationship_fits_def relationship_checks_def relationship_model_def insert_relationship_event_def
      relationship_event_fits_def relationship_event_checks_def unit_range_def symmetric_range_def int4_def wide_def
      one_of_def unique_def fk_def present_def dict_set_def memory_audited_def converted_def row_relationship_def
      fadd_def unit_def relationship_stage_of_def strip_def lit_def is_space_def sorted_by_def lift_repo_def
      parse_relationship_stage_def parse_enum_def relationship_stage_members_def update_relationship_def
      changed_relationship_def)
  then obtain d db1 d' db2 where
    r: "record_relationship_event sample_repository sample_uuid5 sample_relationship_args 8 0 empty_memory_db = Inr (d, db1)"
      "record_relationship_event sample_repository sample_uuid5 sample_relationship_args 8 5 db1 = Inr (d', db2)"
    by blast
  then show ?thesis using relationship_event_counts_once[OF r refl refl refl] by blast
qed

section \<open>Stored memories\<close>

text \<open>C22: every memory that the in-memory repository ever holds satisfies what the tables demand of a
  row: scores in range, a user for a private memory, and content exactly when it is not forgotten.\<close>

theorem memories_stay_sound:
  assumes "reachable (\<lambda>s. s = empty_memory_store) (memory_step (mem_repository fold_case fsqrt) uuid5 enc) s"
    and "m \<in> set (dict_values (memory_map s))"
  shows "memory_checks (memory_model m)"
proof -
  have "memory_store_ok s"
    by (rule mem_memory.reachable_keep[OF _ assms(1)]) (simp add: memory_store_ok_def empty_memory_store_def dict_get_def)
  then show ?thesis
    using assms(2) by (auto simp: dict_values_iff memory_store_ok_def checks_iff_sound)
qed

theorem memories_stay_sound_witness: "memory_checks (memory_model sample_memory)"
proof -
  let ?repo = "mem_repository id id :: (memory_store, sql_error) memory_repository"
  have "\<exists>d s. create_memory ?repo sample_uuid5 sample_encoder sample_memory_args 7 0 empty_memory_store = Inr (d, s) \<and>
      sample_memory \<in> set (dict_values (memory_map s))"
    by (simp add: mem_repository_def mem_create_memory_def empty_memory_store_def create_simps sample_memory_def)
  then obtain d s where c: "create_memory ?repo sample_uuid5 sample_encoder sample_memory_args 7 0 empty_memory_store = Inr (d, s)"
    and m: "sample_memory \<in> set (dict_values (memory_map s))" by blast
  have "reachable (\<lambda>s. s = empty_memory_store) (memory_step ?repo sample_uuid5 sample_encoder) s"
    using memory_step.created[OF c] by (rule reachable.next_state[rotated]) (rule reachable.start, simp)
  then show ?thesis by (rule memories_stay_sound[OF _ m])
qed

section \<open>The index\<close>

text \<open>a rebuild of the index that returns a job has completed it: every memory it set out to index
  has been counted, no error is left in the record and the record has its completion time. (A job
  that was already complete is returned as it is.)\<close>

lemma rebuild_completes:
  assumes "sql_get_index_job t a i db = Inr (Some job)" and "ix_status job \<noteq> INDEX_COMPLETED"
    and "run_embedding_rebuild (sql_repository trigram text_rank vector_score scan known) uuid5 enc error_name t a i
      started clock ended db = (Inr j, db')"
  shows "ix_status j = INDEX_COMPLETED \<and> ix_processed_items j = ix_total_items j \<and> ix_error_code j = None \<and>
    ix_completed_at j = Some ended"
  by (rule sql_index.rebuild_run_completes[OF _ assms(2,3)]) (use assms(1) in \<open>simp add: sql_repository_def\<close>)

lemma rebuild_completes_instance:
  "\<exists>j db1 j' db2. request_embedding_rebuild sample_repository sample_encoder 1 2 (Some 3) 3 9 1 sample_memory_db = Inr (j, db1) \<and>
     run_embedding_rebuild sample_repository sample_uuid5 sample_encoder (\<lambda>_. []) 1 2 9 2 (\<lambda>_. 3) 4 db1 = (Inr j', db2) \<and>
     ix_processed_items j' = ix_total_items j'"
proof -
  have "\<exists>j db1. request_embedding_rebuild sample_repository sample_encoder 1 2 (Some 3) 3 9 1 sample_memory_db = Inr (j, db1) \<and>
     (\<exists>j' db2. run_embedding_rebuild sample_repository sample_uuid5 sample_encoder (\<lambda>_. []) 1 2 9 2 (\<lambda>_. 3) 4 db1 = (Inr j', db2)) \<and>
     (\<exists>job. sql_get_index_job 1 2 9 db1 = Inr (Some job) \<and> ix_status job \<noteq> INDEX_COMPLETED)"
    by (simp add: request_embedding_rebuild_def run_embedding_rebuild_def sample_memory_db_def create_simps memory_audited_def
      sql_list_memories_for_embedding_def converted_def row_memory_def parse_memory_kind_def parse_memory_visibility_def
      parse_memory_sensitivity_def parse_memory_confirmation_def parse_memory_status_def parse_enum_def
      memory_kind_members_def memory_visibility_members_def memory_sensitivity_members_def
      memory_confirmation_members_def memory_status_members_def sorted_by_def lift_repo_def pending_index_job_def
      sql_create_index_job_def insert_index_job_def index_job_model_def index_job_fits_def index_job_checks_def
      sql_get_index_job_def converted_opt_def scalar_def row_index_job_def parse_index_status_def
      index_status_members_def running_job_def sql_update_index_job_def update_index_row_def
      sql_replace_embedding_def deactivated_def dict_walk_def store_embedding_def update_embedding_def update_memory_def
      completed_index_def)
  then obtain j db1 j' db2 job where
    r: "request_embedding_rebuild sample_repository sample_encoder 1 2 (Some 3) 3 9 1 sample_memory_db = Inr (j, db1)"
      "run_embedding_rebuild sample_repository sample_uuid5 sample_encoder (\<lambda>_. []) 1 2 9 2 (\<lambda>_. 3) 4 db1 = (Inr j', db2)"
      "sql_get_index_job 1 2 9 db1 = Inr (Some job)" "ix_status job \<noteq> INDEX_COMPLETED"
    by blast
  then show ?thesis using rebuild_completes[OF r(3,4,2)] by blast
qed

end
