(* ===== verification/Config_Domain.thy ===== *)
theory Config_Domain
  imports Json
begin

text \<open>
  The primitives of the versioned runtime configuration
  (\<open>packages/domain/.../configuration.py\<close>): scopes from wide to narrow, value kinds, the life cycle
  of a snapshot, definitions, entries, versions and differences, and Python's \<open>==\<close> and numeric
  order on JSON values. The fields \<open>label\<close> and \<open>description\<close> of a definition are display text that
  no code reads; they are left out of its record.
\<close>

section \<open>Enumerations\<close>

datatype config_scope = SYSTEM | TENANT | AGENT | CHANNEL | USER

datatype config_value_kind = STRING | INTEGER | NUMBER | BOOLEAN | STRING_LIST | SECRET

datatype config_status = DRAFT | PUBLISHED | SUPERSEDED

datatype config_diff_kind = ADDED | CHANGED | REMOVED

text \<open>\<open>ConfigScope.value\<close>, and the order in which \<open>for scope in ConfigScope\<close> visits the members.\<close>

fun scope_value :: "config_scope \<Rightarrow> ustr" where
  "scope_value SYSTEM = lit ''system''"
| "scope_value TENANT = lit ''tenant''"
| "scope_value AGENT = lit ''agent''"
| "scope_value CHANNEL = lit ''channel''"
| "scope_value USER = lit ''user''"

definition all_scopes :: "config_scope list" where
  "all_scopes = [SYSTEM, TENANT, AGENT, CHANNEL, USER]"

lemma all_scopes_complete: "s \<in> set all_scopes"
  by (cases s) (simp_all add: all_scopes_def)

lemma scope_value_inj [simp]: "scope_value a = scope_value b \<longleftrightarrow> a = b"
  by (cases a; cases b) simp_all

section \<open>Records\<close>

record config_definition =
  cd_key :: ustr
  cd_section :: ustr
  cd_value_kind :: config_value_kind
  cd_default :: json
  cd_scopes :: "config_scope list"
  cd_secret :: bool
  cd_hot_reload :: bool
  cd_minimum :: "rat option"
  cd_maximum :: "rat option"
  cd_options :: "ustr list"

record config_entry =
  ce_key :: ustr
  ce_scope_type :: config_scope
  ce_value :: json
  ce_scope_id :: "uuid option"

record config_version =
  cv_id :: uuid
  cv_version :: int
  cv_status :: config_status
  cv_note :: "ustr option"
  cv_created_at :: instant
  cv_published_at :: "instant option"
  cv_values :: "config_entry list"

record config_difference =
  df_key :: ustr
  df_scope_type :: config_scope
  df_scope_id :: "uuid option"
  df_kind :: config_diff_kind
  df_before :: json
  df_after :: json

record config_source =
  cs_scope_type :: "config_scope option"
  cs_scope_id :: "uuid option"
  cs_version :: int

text \<open>\<open>ConfigDefinition.__post_init__\<close>: whether the definition may be constructed.\<close>

datatype definition_error =
    Key_Not_Dotted | Secret_Kind_Mismatch | Secret_With_Default | No_Scope | Bounds_Crossed

definition check_definition :: "config_definition \<Rightarrow> definition_error + unit" where
  "check_definition d =
     (if cd_key d = [] \<or> starts_with (lit ''.'') (cd_key d) \<or> ends_with (lit ''.'') (cd_key d)
      then Inl Key_Not_Dotted
      else if cd_secret d \<noteq> (cd_value_kind d = SECRET) then Inl Secret_Kind_Mismatch
      else if cd_secret d \<and> cd_default d \<noteq> JNull then Inl Secret_With_Default
      else if cd_scopes d = [] then Inl No_Scope
      else case (cd_minimum d, cd_maximum d) of
             (Some lo, Some hi) \<Rightarrow> if hi < lo then Inl Bounds_Crossed else Inr ()
           | _ \<Rightarrow> Inr ())"

section \<open>Python's comparisons of JSON values\<close>

text \<open>The number a \<open>bool\<close>, \<open>int\<close> or \<open>float\<close> stands for; \<open>bool\<close> is a subclass of \<open>int\<close>.\<close>

fun py_number :: "json \<Rightarrow> rat option" where
  "py_number (JBool b) = Some (if b then 1 else 0)"
| "py_number (JInt i) = Some (of_int i)"
| "py_number (JFloat q) = Some q"
| "py_number _ = None"

text \<open>\<open>isinstance(v, int)\<close> and the integer.\<close>

fun py_int :: "json \<Rightarrow> int option" where
  "py_int (JBool b) = Some (if b then 1 else 0)"
| "py_int (JInt i) = Some i"
| "py_int _ = None"

text \<open>\<open>a == b\<close>: numbers by value whatever their type, lists elementwise, dictionaries by key.\<close>

fun py_eq :: "json \<Rightarrow> json \<Rightarrow> bool" where
  "py_eq JNull b \<longleftrightarrow> b = JNull"
| "py_eq (JStr s) b \<longleftrightarrow> b = JStr s"
| "py_eq (JList xs) b \<longleftrightarrow>
     (case b of JList ys \<Rightarrow> list_all2 py_eq xs ys | _ \<Rightarrow> False)"
| "py_eq (JDict d) b \<longleftrightarrow>
     (case b of JDict e \<Rightarrow>
        length d = length e \<and>
        list_all (\<lambda>(k, v). case dict_get e k of None \<Rightarrow> False | Some w \<Rightarrow> py_eq v w) d
      | _ \<Rightarrow> False)"
| "py_eq a b \<longleftrightarrow> py_number a = py_number b"

end
