(* ===== verification/Alert_Policy.thy ===== *)
theory Alert_Policy
  imports Config_Domain
begin

text \<open>
  The escalation and on-call policy of alerts (\<open>packages/application/.../alert_policy.py\<close>): the
  policy parsed from the effective configuration, the decision about one alert, and the on-call
  window. The IANA time zone database is not part of the program: \<open>zone_known\<close> says whether
  \<open>ZoneInfo(name)\<close> succeeds, \<open>local\<close> gives the weekday and hour of \<open>astimezone(ZoneInfo(name))\<close>.
  The Chinese sentence \<open>reason\<close> of a decision is a function of its \<open>reason_code\<close> and is left out.
\<close>

section \<open>Data\<close>

datatype alert_severity = WARNING | CRITICAL

datatype alert_error =
    Not_Boolean ustr | Not_In_Range ustr int int | Not_Text ustr | Unknown_Adapter ustr
  | Thresholds_Not_Increasing | Unknown_Timezone | Weekdays_Not_List | Weekdays_Invalid
  | Negative_Duration | Level_Out_Of_Range | Naive_Time | Index_Error

record local_time =
  lt_weekday :: nat
  lt_hour :: int

text \<open>A \<open>datetime\<close> argument: without a time zone, or the instant it denotes.\<close>

record policy_step =
  ps_level :: int
  ps_threshold_minutes :: int
  ps_adapter :: ustr
  ps_eligible :: bool
  ps_reached :: bool
  ps_completed :: bool

record policy_decision =
  ad_enabled :: bool
  ad_severity :: alert_severity
  ad_duration_minutes :: int
  ad_current_level :: int
  ad_maximum_level :: int
  ad_matched_level :: int
  ad_target_level :: "int option"
  ad_adapter :: "ustr option"
  ad_on_call :: bool
  ad_evaluated_at :: instant
  ad_local_time :: local_time
  ad_timezone :: ustr
  ad_reason_code :: ustr
  ad_steps :: "policy_step list"

record alert_policy =
  ap_enabled :: bool
  ap_thresholds :: "int \<times> int \<times> int"
  ap_adapters :: "ustr \<times> ustr \<times> ustr"
  ap_warning_maximum_level :: int
  ap_timezone :: ustr
  ap_weekdays :: "ustr list"
  ap_start_hour :: int
  ap_end_hour :: int
  ap_out_of_hours_adapter :: ustr

definition alert_notification_adapters :: "ustr list" where
  "alert_notification_adapters = [lit ''webhook'', lit ''feishu_webhook'', lit ''email'']"

definition on_call_weekdays :: "ustr list" where
  "on_call_weekdays =
     [lit ''mon'', lit ''tue'', lit ''wed'', lit ''thu'', lit ''fri'', lit ''sat'', lit ''sun'']"

fun triple :: "'a \<times> 'a \<times> 'a \<Rightarrow> 'a list" where
  "triple (a, b, c) = [a, b, c]"

lemma length_triple [simp]: "length (triple t) = 3"
  by (cases t) simp

section \<open>Reading one configured value\<close>

definition read_boolean :: "json_dict \<Rightarrow> ustr \<Rightarrow> alert_error + bool" where
  "read_boolean vs k =
     (case dict_get vs k of Some (JBool b) \<Rightarrow> Inr b | _ \<Rightarrow> Inl (Not_Boolean k))"

definition read_integer :: "json_dict \<Rightarrow> ustr \<Rightarrow> int \<Rightarrow> int \<Rightarrow> alert_error + int" where
  "read_integer vs k lo hi =
     (case dict_get vs k of
        Some (JInt i) \<Rightarrow> if lo \<le> i \<and> i \<le> hi then Inr i else Inl (Not_In_Range k lo hi)
      | _ \<Rightarrow> Inl (Not_In_Range k lo hi))"

definition read_string :: "json_dict \<Rightarrow> ustr \<Rightarrow> alert_error + ustr" where
  "read_string vs k =
     (case dict_get vs k of
        Some (JStr s) \<Rightarrow> if strip s = [] then Inl (Not_Text k) else Inr (strip s)
      | _ \<Rightarrow> Inl (Not_Text k))"

definition read_adapter :: "json_dict \<Rightarrow> ustr \<Rightarrow> ustr option \<Rightarrow> alert_error + ustr" where
  "read_adapter vs k inherited =
     bind_result (read_string vs k) (\<lambda>s.
       let v = casefold s in
       if v = lit ''default'' \<and> inherited \<noteq> None then Inr (the inherited)
       else if v \<notin> set alert_notification_adapters then Inl (Unknown_Adapter k)
       else Inr v)"

section \<open>\<open>AlertEscalationPolicy.from_values\<close>\<close>

fun json_strings :: "json list \<Rightarrow> ustr list option" where
  "json_strings [] = Some []"
| "json_strings (JStr s # vs) = map_option ((#) s) (json_strings vs)"
| "json_strings (_ # vs) = None"

definition read_weekdays :: "json_dict \<Rightarrow> alert_error + ustr list" where
  "read_weekdays vs =
     (case dict_get vs (lit ''alerts.notification.on_call_weekdays'') of
        Some (JList items) \<Rightarrow>
          (case json_strings items of
             None \<Rightarrow> Inl Weekdays_Not_List
           | Some ss \<Rightarrow>
               let days = map (\<lambda>s. casefold (strip s)) ss in
               if \<not> distinct days \<or> (\<exists>d \<in> set days. d \<notin> set on_call_weekdays)
               then Inl Weekdays_Invalid else Inr days)
      | _ \<Rightarrow> Inl Weekdays_Not_List)"

definition read_thresholds :: "json_dict \<Rightarrow> alert_error + int \<times> int \<times> int" where
  "read_thresholds vs =
     bind_result (read_integer vs (lit ''alerts.notification.escalation_after_minutes'') 1 10080)
       (\<lambda>a. bind_result
          (read_integer vs (lit ''alerts.notification.escalation_level_2_after_minutes'') 1 10080)
          (\<lambda>b. bind_result
             (read_integer vs (lit ''alerts.notification.escalation_level_3_after_minutes'') 1 10080)
             (\<lambda>c. if a < b \<and> b < c then Inr (a, b, c) else Inl Thresholds_Not_Increasing)))"

definition read_timezone :: "(ustr \<Rightarrow> bool) \<Rightarrow> json_dict \<Rightarrow> alert_error + ustr" where
  "read_timezone zone_known vs =
     bind_result (read_string vs (lit ''alerts.notification.on_call_timezone''))
       (\<lambda>tz. if zone_known tz then Inr tz else Inl Unknown_Timezone)"

definition read_adapters :: "json_dict \<Rightarrow> ustr \<Rightarrow> alert_error + ustr \<times> ustr \<times> ustr" where
  "read_adapters vs dflt =
     bind_result (read_adapter vs (lit ''alerts.notification.escalation_level_1_adapter'') (Some dflt))
       (\<lambda>a. bind_result
          (read_adapter vs (lit ''alerts.notification.escalation_level_2_adapter'') (Some dflt))
          (\<lambda>b. bind_result
             (read_adapter vs (lit ''alerts.notification.escalation_level_3_adapter'') (Some dflt))
             (\<lambda>c. Inr (a, b, c))))"

definition from_values :: "(ustr \<Rightarrow> bool) \<Rightarrow> json_dict \<Rightarrow> alert_error + alert_policy" where
  "from_values zone_known vs =
     bind_result (read_adapter vs (lit ''alerts.notification.adapter'') None) (\<lambda>dflt.
     bind_result (read_thresholds vs) (\<lambda>ts.
     bind_result (read_timezone zone_known vs) (\<lambda>tz.
     bind_result (read_weekdays vs) (\<lambda>days.
     bind_result (read_boolean vs (lit ''alerts.notification.escalation_enabled'')) (\<lambda>en.
     bind_result (read_adapters vs dflt) (\<lambda>ads.
     bind_result (read_integer vs (lit ''alerts.notification.warning_max_escalation_level'') 0 3)
       (\<lambda>wmax.
     bind_result (read_integer vs (lit ''alerts.notification.on_call_start_hour'') 0 23) (\<lambda>start.
     bind_result (read_integer vs (lit ''alerts.notification.on_call_end_hour'') 0 23) (\<lambda>stop.
     bind_result (read_adapter vs (lit ''alerts.notification.out_of_hours_adapter'') (Some dflt))
       (\<lambda>out.
     Inr \<lparr>ap_enabled = en, ap_thresholds = ts, ap_adapters = ads, ap_warning_maximum_level = wmax,
       ap_timezone = tz, ap_weekdays = days, ap_start_hour = start, ap_end_hour = stop,
       ap_out_of_hours_adapter = out\<rparr>))))))))))"

section \<open>\<open>AlertEscalationPolicy.evaluate\<close>\<close>

definition weekday_name :: "nat \<Rightarrow> ustr" where
  "weekday_name d = on_call_weekdays ! (d mod 7)"

definition is_on_call :: "alert_policy \<Rightarrow> local_time \<Rightarrow> bool" where
  "is_on_call p t =
     (let weekday = weekday_name (lt_weekday t) in
      if ap_start_hour p = ap_end_hour p then weekday \<in> set (ap_weekdays p)
      else if ap_start_hour p < ap_end_hour p
      then weekday \<in> set (ap_weekdays p) \<and> ap_start_hour p \<le> lt_hour t \<and> lt_hour t < ap_end_hour p
      else if ap_start_hour p \<le> lt_hour t then weekday \<in> set (ap_weekdays p)
      else lt_hour t < ap_end_hour p \<and> weekday_name (lt_weekday t + 6) \<in> set (ap_weekdays p))"

definition maximum_level :: "alert_policy \<Rightarrow> alert_severity \<Rightarrow> int" where
  "maximum_level p sev = (if sev = WARNING then ap_warning_maximum_level p else 3)"

definition matched_level :: "int \<times> int \<times> int \<Rightarrow> int \<Rightarrow> int \<Rightarrow> int" where
  "matched_level ts cap minutes =
     fold max [level. (level, threshold) \<leftarrow> zip [1, 2, 3] (triple ts), level \<le> cap \<and> threshold \<le> minutes] 0"

definition route :: "alert_policy \<Rightarrow> bool \<Rightarrow> ustr \<Rightarrow> ustr" where
  "route p on_call adapter = (if on_call then adapter else ap_out_of_hours_adapter p)"

definition policy_steps :: "alert_policy \<Rightarrow> bool \<Rightarrow> int \<Rightarrow> int \<Rightarrow> int \<Rightarrow> policy_step list" where
  "policy_steps p on_call cap minutes current =
     map (\<lambda>(level, threshold, adapter).
       \<lparr>ps_level = level, ps_threshold_minutes = threshold, ps_adapter = route p on_call adapter,
        ps_eligible = (level \<le> cap), ps_reached = (threshold \<le> minutes),
        ps_completed = (level \<le> current)\<rparr>)
       (zip [1, 2, 3] (zip (triple (ap_thresholds p)) (triple (ap_adapters p))))"

text \<open>The branch that picks the next level: target level, adapter and reason code.\<close>

definition next_escalation ::
    "alert_policy \<Rightarrow> bool \<Rightarrow> int \<Rightarrow> int \<Rightarrow> int \<Rightarrow> alert_error + int option \<times> ustr option \<times> ustr" where
  "next_escalation p on_call cap minutes current =
     (if \<not> ap_enabled p then Inr (None, None, lit ''disabled'')
      else if cap \<le> current then Inr (None, None, lit ''maximum_level_reached'')
      else if 3 \<le> current then Inl Index_Error
      else if minutes < triple (ap_thresholds p) ! nat current
      then Inr (None, None, lit ''waiting_for_threshold'')
      else Inr (Some (current + 1),
                Some (route p on_call (triple (ap_adapters p) ! nat current)),
                lit ''eligible_for_escalation''))"

definition policy_evaluate ::
    "(ustr \<Rightarrow> instant \<Rightarrow> local_time) \<Rightarrow> alert_policy \<Rightarrow> alert_severity \<Rightarrow> int \<Rightarrow> int \<Rightarrow> py_datetime \<Rightarrow>
     alert_error + policy_decision" where
  "policy_evaluate local p sev minutes current at_time =
     (if minutes < 0 then Inl Negative_Duration
      else if \<not> (0 \<le> current \<and> current \<le> 3) then Inl Level_Out_Of_Range
      else case at_time of
        Naive _ \<Rightarrow> Inl Naive_Time
      | Aware now \<Rightarrow>
          let t = local (ap_timezone p) now;
              on_call = is_on_call p t;
              cap = maximum_level p sev
          in bind_result (next_escalation p on_call cap minutes current) (\<lambda>(target, adapter, code).
               Inr \<lparr>ad_enabled = ap_enabled p, ad_severity = sev, ad_duration_minutes = minutes,
                 ad_current_level = current, ad_maximum_level = cap,
                 ad_matched_level = matched_level (ap_thresholds p) cap minutes,
                 ad_target_level = target, ad_adapter = adapter, ad_on_call = on_call,
                 ad_evaluated_at = now, ad_local_time = t, ad_timezone = ap_timezone p,
                 ad_reason_code = code, ad_steps = policy_steps p on_call cap minutes current\<rparr>))"

end
