(* ===== verification/Config_Registry.thy ===== *)
theory Config_Registry
  imports Alert_Policy
begin

text \<open>
  \<open>ConfigurationRegistry\<close> (\<open>packages/application/.../configuration_registry.py\<close>) and the webhook
  address check it calls (\<open>packages/adapters/.../alert_webhook.py\<close>). An exception of the
  configuration components is a \<open>config_error\<close>; its constructor stands for the exception class and
  the message, \<open>Invalid_Value\<close> for every \<open>ConfigurationValidationError\<close>. URL splitting and IP address
  classification are the standard library's; what the code reads of them is the record \<open>library\<close>.
\<close>

section \<open>Errors and the standard library\<close>

datatype webhook_error = Url_Empty | Url_Not_Https | Url_User_Info | Url_Blocked_Host
  | Url_Private_Address | Url_Bad_Port

datatype invalid_value =
    Unknown_Key ustr | Secret_Key ustr | Scope_Unsupported ustr config_scope | System_With_Id
  | Scope_Without_Id config_scope | Wrong_Kind ustr config_value_kind | Below_Minimum ustr rat
  | Above_Maximum ustr rat | Not_An_Option ustr | Bad_Webhook webhook_error
  | Pool_Below_Limit | Weights_All_Zero | Bad_Alert_Policy alert_error
  | Unsupported_Format ustr | Unsupported_Schema ustr
  | Not_A_Secret ustr | Secret_Empty | Bad_Key_Material

datatype config_error =
    Invalid_Value invalid_value
  | Version_Not_Found | Duplicate_Entry ustr | Not_A_Draft | Draft_As_Target
  | Base_Changed int int | Secret_Not_Found | Secret_Unreadable
  | Py_Value_Error | Py_Key_Error ustr

text \<open>
  \<open>urlsplit\<close> raises \<open>ValueError\<close> (\<open>None\<close>) on a malformed bracketed host; the attribute \<open>port\<close> raises it
  for a port that is not a number up to 65535. \<open>restricted_ip\<close> is \<open>None\<close> for a host that is not an
  IP address, else whether the address is private, loopback, link-local, reserved, unspecified or
  multicast.
\<close>

record url_parts =
  up_scheme :: ustr
  up_hostname :: "ustr option"
  up_username :: "ustr option"
  up_password :: "ustr option"
  up_port :: "int option option"

record library =
  zone_known :: "ustr \<Rightarrow> bool"
  urlsplit :: "ustr \<Rightarrow> url_parts option"
  restricted_ip :: "ustr \<Rightarrow> bool option"

section \<open>\<open>validate_webhook_url\<close>\<close>

definition blocked_hosts :: "ustr list" where
  "blocked_hosts = [lit ''localhost'', lit ''localhost.localdomain'', lit ''metadata.google.internal'',
     lit ''metadata'', lit ''instance-data.ec2.internal'']"

definition rstrip_dots :: "ustr \<Rightarrow> ustr" where
  "rstrip_dots s = rev (dropWhile (\<lambda>c. c = 46) (rev s))"

definition host_blocked :: "ustr \<Rightarrow> bool" where
  "host_blocked host \<longleftrightarrow> host \<in> set blocked_hosts \<or> ends_with (lit ''.localhost'') host \<or>
     ends_with (lit ''.local'') host"

text \<open>\<open>Inl None\<close> is a plain \<open>ValueError\<close> of the library, which the callers do not catch.\<close>

definition validate_webhook_url :: "library \<Rightarrow> ustr \<Rightarrow> webhook_error option + ustr" where
  "validate_webhook_url lib value =
     (if strip value = [] then Inl (Some Url_Empty)
      else case urlsplit lib (strip value) of
        None \<Rightarrow> Inl None
      | Some u \<Rightarrow>
          if casefold (up_scheme u) \<noteq> lit ''https'' then Inl (Some Url_Not_Https)
          else case up_hostname u of
            None \<Rightarrow> Inl (Some Url_User_Info)
          | Some h \<Rightarrow>
              if h = [] \<or> up_username u \<noteq> None \<or> up_password u \<noteq> None
              then Inl (Some Url_User_Info)
              else
                let host = casefold (rstrip_dots h) in
                if host_blocked host then Inl (Some Url_Blocked_Host)
                else if restricted_ip lib host = Some True then Inl (Some Url_Private_Address)
                else case up_port u of
                  None \<Rightarrow> Inl None
                | Some None \<Rightarrow> Inr (strip value)
                | Some (Some n) \<Rightarrow>
                    if 1 \<le> n \<and> n \<le> 65535 then Inr (strip value) else Inl (Some Url_Bad_Port))"

section \<open>The registry\<close>

type_synonym registry = "(ustr, config_definition) dict"

text \<open>\<open>ConfigurationRegistry.__init__\<close>: \<open>None\<close> is the \<open>ValueError\<close> for a repeated key.\<close>

fun build_registry :: "config_definition list \<Rightarrow> registry \<Rightarrow> registry option" where
  "build_registry [] reg = Some reg"
| "build_registry (d # ds) reg =
     (if dict_get reg (cd_key d) \<noteq> None then None
      else build_registry ds (dict_set (cd_key d) d reg))"

definition registry_all :: "registry \<Rightarrow> config_definition list" where
  "registry_all reg = sorted_by (\<lambda>d. (cd_section d, cd_key d)) (dict_values reg)"

definition registry_get :: "registry \<Rightarrow> ustr \<Rightarrow> config_definition option" where
  "registry_get reg k = dict_get reg k"

definition kind_matches :: "config_value_kind \<Rightarrow> json \<Rightarrow> bool" where
  "kind_matches kind v \<longleftrightarrow>
     (case kind of
        STRING \<Rightarrow> (case v of JStr _ \<Rightarrow> True | _ \<Rightarrow> False)
      | BOOLEAN \<Rightarrow> (case v of JBool _ \<Rightarrow> True | _ \<Rightarrow> False)
      | INTEGER \<Rightarrow> (case v of JInt _ \<Rightarrow> True | _ \<Rightarrow> False)
      | NUMBER \<Rightarrow> (case v of JInt _ \<Rightarrow> True | JFloat _ \<Rightarrow> True | _ \<Rightarrow> False)
      | STRING_LIST \<Rightarrow> (case v of JList vs \<Rightarrow> json_strings vs \<noteq> None | _ \<Rightarrow> False)
      | SECRET \<Rightarrow> False)"

definition plain_number :: "json \<Rightarrow> rat option" where
  "plain_number v = (case v of JInt i \<Rightarrow> Some (of_int i) | JFloat q \<Rightarrow> Some q | _ \<Rightarrow> None)"

definition check_range :: "config_definition \<Rightarrow> json \<Rightarrow> config_error + unit" where
  "check_range d v =
     (case plain_number v of
        None \<Rightarrow> Inr ()
      | Some q \<Rightarrow>
          (case cd_minimum d of
             Some lo \<Rightarrow> if q < lo then Inl (Invalid_Value (Below_Minimum (cd_key d) lo)) else
               (case cd_maximum d of
                  Some hi \<Rightarrow> if hi < q then Inl (Invalid_Value (Above_Maximum (cd_key d) hi)) else Inr ()
                | None \<Rightarrow> Inr ())
           | None \<Rightarrow>
               (case cd_maximum d of
                  Some hi \<Rightarrow> if hi < q then Inl (Invalid_Value (Above_Maximum (cd_key d) hi)) else Inr ()
                | None \<Rightarrow> Inr ())))"

definition webhook_keys :: "ustr list" where
  "webhook_keys = [lit ''alerts.notification.webhook_url'', lit ''alerts.notification.feishu_webhook_url'']"

definition check_webhook :: "library \<Rightarrow> config_definition \<Rightarrow> json \<Rightarrow> config_error + unit" where
  "check_webhook lib d v =
     (case v of
        JStr s \<Rightarrow>
          if cd_key d \<in> set webhook_keys \<and> s \<noteq> []
          then (case validate_webhook_url lib s of
                  Inl None \<Rightarrow> Inl Py_Value_Error
                | Inl (Some e) \<Rightarrow> Inl (Invalid_Value (Bad_Webhook e))
                | Inr _ \<Rightarrow> Inr ())
          else Inr ()
      | _ \<Rightarrow> Inr ())"

definition validate_value :: "library \<Rightarrow> config_definition \<Rightarrow> json \<Rightarrow> config_error + unit" where
  "validate_value lib d v =
     (if \<not> kind_matches (cd_value_kind d) v
      then Inl (Invalid_Value (Wrong_Kind (cd_key d) (cd_value_kind d)))
      else bind_result (check_range d v) (\<lambda>_.
        if cd_options d \<noteq> [] \<and> \<not> (\<exists>opt \<in> set (cd_options d). py_eq v (JStr opt))
        then Inl (Invalid_Value (Not_An_Option (cd_key d)))
        else check_webhook lib d v))"

text \<open>The scope rules shared by \<open>validate_entry\<close> and the secret service's \<open>_validate_target\<close>.\<close>

definition check_scope :: "config_definition \<Rightarrow> config_scope \<Rightarrow> uuid option \<Rightarrow> config_error + unit" where
  "check_scope d scope scope_id =
     (if scope \<notin> set (cd_scopes d) then Inl (Invalid_Value (Scope_Unsupported (cd_key d) scope))
      else if scope = SYSTEM \<and> scope_id \<noteq> None then Inl (Invalid_Value System_With_Id)
      else if scope \<noteq> SYSTEM \<and> scope_id = None then Inl (Invalid_Value (Scope_Without_Id scope))
      else Inr ())"

definition validate_entry :: "library \<Rightarrow> registry \<Rightarrow> config_entry \<Rightarrow> config_error + unit" where
  "validate_entry lib reg e =
     (case registry_get reg (ce_key e) of
        None \<Rightarrow> Inl (Invalid_Value (Unknown_Key (ce_key e)))
      | Some d \<Rightarrow>
          if cd_secret d then Inl (Invalid_Value (Secret_Key (ce_key e)))
          else bind_result (check_scope d (ce_scope_type e) (ce_scope_id e))
            (\<lambda>_. validate_value lib d (ce_value e)))"

section \<open>\<open>validate_secret\<close>\<close>

text \<open>
  The number of bytes \<open>base64.b64decode(s, validate=True)\<close> returns, \<open>None\<close> when it raises: groups of
  four alphabet characters, the last one possibly padded.
\<close>

definition b64_char :: "nat \<Rightarrow> bool" where
  "b64_char c \<longleftrightarrow> 65 \<le> c \<and> c \<le> 90 \<or> 97 \<le> c \<and> c \<le> 122 \<or> 48 \<le> c \<and> c \<le> 57 \<or> c = 43 \<or> c = 47"

fun b64_length :: "ustr \<Rightarrow> nat option" where
  "b64_length [] = Some 0"
| "b64_length [a, b, c, d] =
     (if b64_char a \<and> b64_char b \<and> b64_char c \<and> b64_char d then Some 3
      else if b64_char a \<and> b64_char b \<and> b64_char c \<and> d = 61 then Some 2
      else if b64_char a \<and> b64_char b \<and> c = 61 \<and> d = 61 then Some 1 else None)"
| "b64_length (a # b # c # d # e # s) =
     (if b64_char a \<and> b64_char b \<and> b64_char c \<and> b64_char d
      then map_option (\<lambda>n. n + 3) (b64_length (e # s)) else None)"
| "b64_length _ = None"

definition validate_secret :: "registry \<Rightarrow> ustr \<Rightarrow> ustr \<Rightarrow> config_error + unit" where
  "validate_secret reg k plaintext =
     (case registry_get reg k of
        None \<Rightarrow> Inl (Invalid_Value (Unknown_Key k))
      | Some d \<Rightarrow>
          if \<not> cd_secret d then Inl (Invalid_Value (Not_A_Secret k))
          else if plaintext = [] then Inl (Invalid_Value Secret_Empty)
          else if k \<noteq> lit ''evaluation.approval.ed25519_private_key'' then Inr ()
          else if b64_length plaintext \<noteq> Some 32 then Inl (Invalid_Value Bad_Key_Material)
          else Inr ())"

section \<open>Facts\<close>

lemma validate_entry_Inr:
  "validate_entry lib reg e = Inr () \<longleftrightarrow>
     (\<exists>d. registry_get reg (ce_key e) = Some d \<and> \<not> cd_secret d \<and>
        check_scope d (ce_scope_type e) (ce_scope_id e) = Inr () \<and>
        validate_value lib d (ce_value e) = Inr ())"
  by (auto simp: validate_entry_def result_laws split: option.splits)

lemma check_scope_Inr:
  "check_scope d scope scope_id = Inr () \<longleftrightarrow>
     scope \<in> set (cd_scopes d) \<and> (scope = SYSTEM \<longleftrightarrow> scope_id = None)"
  by (auto simp: check_scope_def)

definition registry_ok :: "registry \<Rightarrow> bool" where
  "registry_ok reg \<longleftrightarrow> dict_ok reg \<and> (\<forall>(k, d) \<in> set reg. cd_key d = k)"

lemma registry_ok_get: "registry_ok reg \<Longrightarrow> registry_get reg k = Some d \<Longrightarrow> cd_key d = k"
  using pydict.items_get[of reg k d] by (auto simp: registry_ok_def registry_get_def)

lemma build_registry_eq:
  "build_registry ds reg =
     (if distinct (map cd_key ds) \<and> set (map cd_key ds) \<inter> fst ` set reg = {}
      then Some (reg @ map (\<lambda>d. (cd_key d, d)) ds) else None)"
proof (induction ds arbitrary: reg)
  case (Cons d ds)
  have get: "dict_get reg (cd_key d) = None \<longleftrightarrow> cd_key d \<notin> fst ` set reg"
    by (simp add: dict_get_def map_of_eq_None_iff)
  show ?case
  proof (cases "cd_key d \<in> fst ` set reg")
    case True
    with get show ?thesis by auto
  next
    case False
    with get have "dict_set (cd_key d) d reg = reg @ [(cd_key d, d)]" by (simp add: dict_set_fresh)
    with False get Cons.IH[of "reg @ [(cd_key d, d)]"] show ?thesis by auto
  qed
qed simp

lemma build_registry_ok: "build_registry ds [] = Some reg \<Longrightarrow> registry_ok reg"
  by (auto simp: build_registry_eq registry_ok_def dict_ok_def comp_def split: if_splits)

end
