(* ===== verification/Config_Store.thy ===== *)
theory Config_Store
  imports Config_Registry
begin

text \<open>
  \<open>MemoryConfigurationRepository\<close> (\<open>packages/infrastructure/.../configuration_repository.py\<close>): the
  versions by id and the next version number. Each method runs under the repository's lock, so it
  is one function of the state; the fresh \<open>uuid4()\<close> and the clock are arguments. An error leaves the
  state as it was. The second half holds the invariant and that every operation keeps it.
\<close>

section \<open>State and operations\<close>

record config_store =
  st_versions :: "(uuid, config_version) dict"
  st_next_version :: int

definition initial_store :: config_store where
  "initial_store = \<lparr>st_versions = [], st_next_version = 1\<rparr>"

definition store_list_versions :: "config_store \<Rightarrow> config_version list" where
  "store_list_versions s = sorted_by_desc cv_version (dict_values (st_versions s))"

definition store_get_version :: "config_store \<Rightarrow> uuid \<Rightarrow> config_version option" where
  "store_get_version s vid = dict_get (st_versions s) vid"

definition store_get_version_number :: "config_store \<Rightarrow> int \<Rightarrow> config_version option" where
  "store_get_version_number s n = find (\<lambda>v. cv_version v = n) (dict_values (st_versions s))"

definition store_get_published :: "config_store \<Rightarrow> config_version option" where
  "store_get_published s = find (\<lambda>v. cv_status v = PUBLISHED) (dict_values (st_versions s))"

definition store_create_draft ::
    "uuid \<Rightarrow> instant \<Rightarrow> ustr option \<Rightarrow> config_entry list \<Rightarrow> config_store \<Rightarrow> config_version \<times> config_store" where
  "store_create_draft vid now note entries s =
     (let snapshot = \<lparr>cv_id = vid, cv_version = st_next_version s, cv_status = DRAFT, cv_note = note,
        cv_created_at = now, cv_published_at = None, cv_values = entries\<rparr>
      in (snapshot, s\<lparr>st_next_version := st_next_version s + 1,
                      st_versions := dict_set vid snapshot (st_versions s)\<rparr>))"

definition supersede :: "config_version \<Rightarrow> config_version" where
  "supersede v = v\<lparr>cv_status := SUPERSEDED\<rparr>"

definition supersede_published :: "(uuid, config_version) dict \<Rightarrow> (uuid, config_version) dict" where
  "supersede_published d = dict_walk (\<lambda>v. cv_status v = PUBLISHED) supersede d"

definition store_publish ::
    "instant \<Rightarrow> uuid \<Rightarrow> config_store \<Rightarrow> config_error + config_version \<times> config_store" where
  "store_publish now vid s =
     (case dict_get (st_versions s) vid of
        None \<Rightarrow> Inl Version_Not_Found
      | Some target \<Rightarrow>
          if cv_status target \<noteq> DRAFT then Inl Not_A_Draft
          else
            let published = target\<lparr>cv_status := PUBLISHED, cv_published_at := Some now\<rparr>
            in Inr (published, s\<lparr>st_versions :=
                 dict_set (cv_id target) published (supersede_published (st_versions s))\<rparr>))"

text \<open>The note \<open>f"\<dots> v{target.version}"\<close> of a rollback; its Chinese words are written as code points.\<close>

definition rollback_note :: "int \<Rightarrow> ustr" where
  "rollback_note n = [22238, 28378, 21040, 37197, 32622, 32, 118] @ dec_int n"

definition store_rollback ::
    "uuid \<Rightarrow> instant \<Rightarrow> instant \<Rightarrow> uuid \<Rightarrow> config_store \<Rightarrow> config_error + config_version \<times> config_store" where
  "store_rollback fresh created published vid s =
     (case dict_get (st_versions s) vid of
        None \<Rightarrow> Inl Version_Not_Found
      | Some target \<Rightarrow>
          if cv_status target = DRAFT then Inl Draft_As_Target
          else
            let rolled_back = \<lparr>cv_id = fresh, cv_version = st_next_version s, cv_status = PUBLISHED,
                  cv_note = Some (rollback_note (cv_version target)), cv_created_at = created,
                  cv_published_at = Some published, cv_values = cv_values target\<rparr>
            in Inr (rolled_back, s\<lparr>st_next_version := st_next_version s + 1,
                 st_versions := dict_set fresh rolled_back (supersede_published (st_versions s))\<rparr>))"

section \<open>Invariant\<close>

text \<open>
  Every version is stored under its id, numbers are distinct and below the next one, at most one
  version is published, and a version has a publication time unless it is a draft.
\<close>

definition version_at :: "config_store \<Rightarrow> uuid \<Rightarrow> config_version \<Rightarrow> bool" where
  "version_at s k v \<longleftrightarrow> dict_get (st_versions s) k = Some v"

definition config_store_ok :: "config_store \<Rightarrow> bool" where
  "config_store_ok s \<longleftrightarrow> dict_ok (st_versions s) \<and> 1 \<le> st_next_version s \<and>
     (\<forall>k v. version_at s k v \<longrightarrow>
        cv_id v = k \<and> 1 \<le> cv_version v \<and> cv_version v < st_next_version s \<and>
        (cv_published_at v = None \<longleftrightarrow> cv_status v = DRAFT)) \<and>
     (\<forall>k v k' v'. version_at s k v \<longrightarrow> version_at s k' v' \<longrightarrow> cv_version v = cv_version v' \<longrightarrow> k = k') \<and>
     (\<forall>k v k' v'. version_at s k v \<longrightarrow> version_at s k' v' \<longrightarrow> cv_status v = PUBLISHED \<longrightarrow>
        cv_status v' = PUBLISHED \<longrightarrow> k = k')"

lemma config_store_okI:
  assumes "dict_ok (st_versions s)" and "1 \<le> st_next_version s"
    and "\<And>k v. version_at s k v \<Longrightarrow>
        cv_id v = k \<and> 1 \<le> cv_version v \<and> cv_version v < st_next_version s \<and>
        (cv_published_at v = None \<longleftrightarrow> cv_status v = DRAFT)"
    and "\<And>k v k' v'. version_at s k v \<Longrightarrow> version_at s k' v' \<Longrightarrow> cv_version v = cv_version v' \<Longrightarrow> k = k'"
    and "\<And>k v k' v'. version_at s k v \<Longrightarrow> version_at s k' v' \<Longrightarrow> cv_status v = PUBLISHED \<Longrightarrow>
        cv_status v' = PUBLISHED \<Longrightarrow> k = k'"
  shows "config_store_ok s"
  using assms unfolding config_store_ok_def by blast

lemma config_ok_at:
  "config_store_ok s \<Longrightarrow> version_at s k v \<Longrightarrow>
     cv_id v = k \<and> 1 \<le> cv_version v \<and> cv_version v < st_next_version s \<and>
     (cv_published_at v = None \<longleftrightarrow> cv_status v = DRAFT)"
  by (simp add: config_store_ok_def)

lemma config_ok_number:
  "config_store_ok s \<Longrightarrow> version_at s k v \<Longrightarrow> version_at s k' v' \<Longrightarrow> cv_version v = cv_version v' \<Longrightarrow> k = k'"
  unfolding config_store_ok_def by blast

lemma config_ok_published:
  "config_store_ok s \<Longrightarrow> version_at s k v \<Longrightarrow> version_at s k' v' \<Longrightarrow> cv_status v = PUBLISHED \<Longrightarrow>
     cv_status v' = PUBLISHED \<Longrightarrow> k = k'"
  unfolding config_store_ok_def by blast

lemma initial_config_ok: "config_store_ok initial_store"
  by (simp add: config_store_ok_def initial_store_def version_at_def dict_get_def)

text \<open>A version after the walk that supersedes the published ones.\<close>

definition retired :: "config_version \<Rightarrow> config_version" where
  "retired w = (if cv_status w = PUBLISHED then supersede w else w)"

lemma retired_fields [simp]:
  "cv_id (retired v) = cv_id v" "cv_version (retired v) = cv_version v"
  "cv_status (retired v) \<noteq> PUBLISHED" "cv_status (retired v) = DRAFT \<longleftrightarrow> cv_status v = DRAFT"
  "cv_published_at (retired v) = cv_published_at v" "cv_values (retired v) = cv_values v"
  by (simp_all add: retired_def supersede_def)

lemma supersede_published_get:
  "dict_ok d \<Longrightarrow> dict_get (supersede_published d) k = map_option retired (dict_get d k)"
  by (simp add: supersede_published_def retired_def[abs_def])

text \<open>What each operation stores, read off with the dictionary laws.\<close>

lemma version_at_create:
  "version_at (snd (store_create_draft vid now note entries s)) k v \<longleftrightarrow>
     (if k = vid then v = fst (store_create_draft vid now note entries s) else version_at s k v)"
  by (auto simp: version_at_def store_create_draft_def Let_def)

lemma version_at_superseded:
  "dict_ok (st_versions s) \<Longrightarrow>
     dict_get (supersede_published (st_versions s)) k = Some v \<longleftrightarrow> (\<exists>w. version_at s k w \<and> v = retired w)"
  by (simp add: version_at_def supersede_published_get) blast

lemma version_at_publish:
  assumes "config_store_ok s" and "store_publish now vid s = Inr (p, s')"
  shows "\<exists>t. version_at s vid t \<and> cv_status t = DRAFT \<and>
     p = t\<lparr>cv_status := PUBLISHED, cv_published_at := Some now\<rparr> \<and>
     st_next_version s' = st_next_version s \<and> dict_ok (st_versions s') \<and>
     (\<forall>k v. version_at s' k v \<longleftrightarrow>
        (if k = vid then v = p
         else \<exists>w. version_at s k w \<and> v = retired w))"
proof -
  from assms(2) obtain t where t: "version_at s vid t" "cv_status t = DRAFT"
    and p: "p = t\<lparr>cv_status := PUBLISHED, cv_published_at := Some now\<rparr>"
    and s': "s' = s\<lparr>st_versions := dict_set (cv_id t) p (supersede_published (st_versions s))\<rparr>"
    by (auto simp: store_publish_def version_at_def Let_def split: option.splits if_splits)
  from assms(1) t have ok: "dict_ok (st_versions s)" and id: "cv_id t = vid"
    by (auto simp: config_store_ok_def)
  have "dict_ok (st_versions s')" using ok by (simp add: s' supersede_published_def)
  moreover have "version_at s' k v \<longleftrightarrow> (if k = vid then v = p
      else \<exists>w. version_at s k w \<and> v = retired w)" for k v
    using version_at_superseded[OF ok, of k v] by (auto simp: s' id version_at_def)
  ultimately show ?thesis using t p by (auto simp: s')
qed

lemma version_at_rollback:
  assumes "dict_ok (st_versions s)" and "store_rollback fresh created published vid s = Inr (p, s')"
  shows "\<exists>t. version_at s vid t \<and> cv_status t \<noteq> DRAFT \<and> cv_values p = cv_values t \<and> cv_id p = fresh \<and>
     cv_version p = st_next_version s \<and> cv_status p = PUBLISHED \<and> cv_published_at p = Some published \<and>
     st_next_version s' = st_next_version s + 1 \<and> dict_ok (st_versions s') \<and>
     (\<forall>k v. version_at s' k v \<longleftrightarrow>
        (if k = fresh then v = p
         else \<exists>w. version_at s k w \<and> v = retired w))"
proof -
  from assms(2) obtain t where t: "version_at s vid t" "cv_status t \<noteq> DRAFT"
    and p: "p = \<lparr>cv_id = fresh, cv_version = st_next_version s, cv_status = PUBLISHED,
                  cv_note = Some (rollback_note (cv_version t)), cv_created_at = created,
                  cv_published_at = Some published, cv_values = cv_values t\<rparr>"
    and s': "s' = s\<lparr>st_next_version := st_next_version s + 1,
                 st_versions := dict_set fresh p (supersede_published (st_versions s))\<rparr>"
    by (auto simp: store_rollback_def version_at_def Let_def split: option.splits if_splits)
  have "dict_ok (st_versions s')" using assms(1) by (simp add: s' supersede_published_def)
  moreover have "version_at s' k v \<longleftrightarrow> (if k = fresh then v = p
      else \<exists>w. version_at s k w \<and> v = retired w)" for k v
    using version_at_superseded[OF assms(1), of k v] by (auto simp: s' version_at_def)
  ultimately show ?thesis using t p by (auto simp: s')
qed

lemma create_draft_ok:
  assumes "config_store_ok s" and "store_get_version s vid = None"
  shows "config_store_ok (snd (store_create_draft vid now note entries s))" (is "config_store_ok ?s")
proof (rule config_store_okI)
  have new: "fst (store_create_draft vid now note entries s) =
      \<lparr>cv_id = vid, cv_version = st_next_version s, cv_status = DRAFT, cv_note = note,
        cv_created_at = now, cv_published_at = None, cv_values = entries\<rparr>"
    and nxt: "st_next_version ?s = st_next_version s + 1"
    by (simp_all add: store_create_draft_def Let_def)
  note at = config_ok_at[OF assms(1)]
  show "dict_ok (st_versions ?s)" "1 \<le> st_next_version ?s"
    using assms(1) by (simp_all add: config_store_ok_def store_create_draft_def Let_def)
  show "cv_id v = k \<and> 1 \<le> cv_version v \<and> cv_version v < st_next_version ?s \<and>
        (cv_published_at v = None \<longleftrightarrow> cv_status v = DRAFT)" if "version_at ?s k v" for k v
    using that at[of k v] assms(1) unfolding version_at_create new nxt
    by (fastforce simp: config_store_ok_def split: if_splits)
  show "k = k'" if "version_at ?s k v" "version_at ?s k' v'" "cv_version v = cv_version v'" for k v k' v'
    using that at[of k v] at[of k' v'] config_ok_number[OF assms(1), of k v k' v']
    unfolding version_at_create new by (auto split: if_splits)
  show "k = k'" if "version_at ?s k v" "version_at ?s k' v'" "cv_status v = PUBLISHED"
      "cv_status v' = PUBLISHED" for k v k' v'
    using that config_ok_published[OF assms(1), of k v k' v']
    unfolding version_at_create new by (auto split: if_splits)
qed

lemma publish_ok:
  assumes "config_store_ok s" and "store_publish now vid s = Inr (p, s')"
  shows "config_store_ok s'"
proof -
  from version_at_publish[OF assms] obtain t where t: "version_at s vid t"
    and p: "p = t\<lparr>cv_status := PUBLISHED, cv_published_at := Some now\<rparr>"
    and nxt: "st_next_version s' = st_next_version s" and ok: "dict_ok (st_versions s')"
    and vat: "\<And>k v. version_at s' k v \<longleftrightarrow> (if k = vid then v = p
         else \<exists>w. version_at s k w \<and> v = retired w)"
    by blast
  note at = config_ok_at[OF assms(1)]
  have old: "\<exists>w. version_at s k w \<and> cv_id v = cv_id w \<and> cv_version v = cv_version w \<and>
      (k \<noteq> vid \<longrightarrow> cv_status v \<noteq> PUBLISHED \<and> (cv_status v = DRAFT \<longleftrightarrow> cv_status w = DRAFT) \<and>
         cv_published_at v = cv_published_at w) \<and>
      (k = vid \<longrightarrow> v = p)" if stored: "version_at s' k v" for k v
  proof (cases "k = vid")
    case True
    then have "v = p" using stored vat by simp
    then show ?thesis using True t p by auto
  next
    case False
    then obtain w where "version_at s k w" "v = retired w" using stored vat[of k v] by auto
    then show ?thesis using False by (intro exI[of _ w]) simp
  qed
  show ?thesis
  proof (rule config_store_okI)
    show "dict_ok (st_versions s')" by (rule ok)
    show "1 \<le> st_next_version s'" using assms(1) nxt by (simp add: config_store_ok_def)
    show "cv_id v = k \<and> 1 \<le> cv_version v \<and> cv_version v < st_next_version s' \<and>
        (cv_published_at v = None \<longleftrightarrow> cv_status v = DRAFT)" if "version_at s' k v" for k v
      using old[OF that] at nxt p by (cases "k = vid") force+
    show "k = k'" if "version_at s' k v" "version_at s' k' v'" "cv_version v = cv_version v'" for k v k' v'
      using old[OF that(1)] old[OF that(2)] that(3) config_ok_number[OF assms(1)] by metis
    show "k = k'" if "version_at s' k v" "version_at s' k' v'" "cv_status v = PUBLISHED"
        "cv_status v' = PUBLISHED" for k v k' v'
      using old[OF that(1)] old[OF that(2)] that(3,4) by metis
  qed
qed

lemma rollback_ok:
  assumes "config_store_ok s" and "store_get_version s fresh = None"
    and "store_rollback fresh created published vid s = Inr (p, s')"
  shows "config_store_ok s'"
proof -
  from assms(1) have "dict_ok (st_versions s)" by (simp add: config_store_ok_def)
  from version_at_rollback[OF this assms(3)] have p: "cv_id p = fresh"
      "cv_version p = st_next_version s" "cv_status p = PUBLISHED" "cv_published_at p = Some published"
    and nxt: "st_next_version s' = st_next_version s + 1" and ok: "dict_ok (st_versions s')"
    and vat: "\<And>k v. version_at s' k v \<longleftrightarrow> (if k = fresh then v = p
         else \<exists>w. version_at s k w \<and> v = retired w)"
    by blast+
  note at = config_ok_at[OF assms(1)]
  have old: "\<exists>w. version_at s k w \<and> cv_id v = cv_id w \<and> cv_version v = cv_version w \<and>
      cv_status v \<noteq> PUBLISHED \<and> (cv_status v = DRAFT \<longleftrightarrow> cv_status w = DRAFT) \<and>
         cv_published_at v = cv_published_at w" if stored: "version_at s' k v" "k \<noteq> fresh" for k v
  proof -
    obtain w where "version_at s k w" "v = retired w" using stored vat[of k v] by auto
    then show ?thesis by (intro exI[of _ w]) simp
  qed
  have new: "v = p" if "version_at s' fresh v" for v using that unfolding vat by simp
  show ?thesis
  proof (rule config_store_okI)
    show "dict_ok (st_versions s')" by (rule ok)
    show "1 \<le> st_next_version s'" using assms(1) nxt by (simp add: config_store_ok_def)
    show fields: "cv_id v = k \<and> 1 \<le> cv_version v \<and> cv_version v < st_next_version s' \<and>
        (cv_published_at v = None \<longleftrightarrow> cv_status v = DRAFT)" if "version_at s' k v" for k v
    proof (cases "k = fresh")
      case True
      with that new p nxt assms(1) show ?thesis by (auto simp: config_store_ok_def)
    next
      case False
      with old[OF that] at nxt show ?thesis by force
    qed
    show "k = k'" if "version_at s' k v" "version_at s' k' v'" "cv_version v = cv_version v'" for k v k' v'
    proof -
      have below: "cv_version u < st_next_version s" if "version_at s' l u" "l \<noteq> fresh" for l u
        using old[OF that] at by force
      show ?thesis
        using that new p(2) below old config_ok_number[OF assms(1)] by (metis less_irrefl)
    qed
    show "k = k'" if "version_at s' k v" "version_at s' k' v'" "cv_status v = PUBLISHED"
        "cv_status v' = PUBLISHED" for k v k' v'
      using that old by metis
  qed
qed

section \<open>Reading a store that satisfies the invariant\<close>

lemma get_published_iff:
  assumes "config_store_ok s"
  shows "store_get_published s = Some v \<longleftrightarrow> (\<exists>k. version_at s k v) \<and> cv_status v = PUBLISHED"
proof -
  have mem: "w \<in> set (dict_values (st_versions s)) \<longleftrightarrow> (\<exists>k. version_at s k w)" for w
    using assms by (simp add: config_store_ok_def dict_values_iff version_at_def)
  have uniq: "w = v" if "version_at s k v" "version_at s l w" "cv_status v = PUBLISHED"
      "cv_status w = PUBLISHED" for k l w
    using config_ok_published[OF assms that] that(1,2) by (simp add: version_at_def)
  show ?thesis
  proof
    assume "store_get_published s = Some v"
    then show "(\<exists>k. version_at s k v) \<and> cv_status v = PUBLISHED"
      using mem by (auto simp: store_get_published_def dest!: find_Some_iff_mem)
  next
    assume v: "(\<exists>k. version_at s k v) \<and> cv_status v = PUBLISHED"
    show "store_get_published s = Some v"
    proof (cases "store_get_published s")
      case None
      with v mem show ?thesis by (auto simp: store_get_published_def find_None_all)
    next
      case (Some w)
      then have "(\<exists>l. version_at s l w) \<and> cv_status w = PUBLISHED"
        using mem by (auto simp: store_get_published_def dest!: find_Some_iff_mem)
      with v uniq Some show ?thesis by blast
    qed
  qed
qed

lemma get_version_number_mem:
  assumes "dict_ok (st_versions s)" and "store_get_version_number s n = Some v"
  shows "(\<exists>k. version_at s k v) \<and> cv_version v = n"
  using assms by (auto simp: store_get_version_number_def version_at_def dict_values_iff
      dest!: find_Some_iff_mem)

end
