(* ===== verification/Config_Service.thy ===== *)
theory Config_Service
  imports Config_Store
begin

text \<open>
  \<open>ConfigurationService\<close> (\<open>packages/application/.../configuration_service.py\<close>) over the in-memory
  repository: validation of a snapshot, the commands on versions, the difference of two versions and
  the resolution of the effective configuration. A command takes the state and returns it updated.
\<close>

section \<open>Snapshot validation\<close>

type_synonym config_identity = "ustr \<times> config_scope \<times> uuid option"

definition entry_identity :: "config_entry \<Rightarrow> config_identity" where
  "entry_identity e = (ce_key e, ce_scope_type e, ce_scope_id e)"

fun check_each :: "library \<Rightarrow> registry \<Rightarrow> config_identity list \<Rightarrow> config_entry list \<Rightarrow> config_error + unit" where
  "check_each lib reg seen [] = Inr ()"
| "check_each lib reg seen (e # es) =
     (if entry_identity e \<in> set seen then Inl (Duplicate_Entry (ce_key e))
      else bind_result (validate_entry lib reg e)
        (\<lambda>_. check_each lib reg (entry_identity e # seen) es))"

type_synonym groups = "(config_scope \<times> uuid option, json_dict) dict"

text \<open>\<open>grouped.setdefault((scope_type, scope_id), {})[key] = value\<close> over the selected entries.\<close>

definition add_to_group :: "config_entry \<Rightarrow> groups \<Rightarrow> groups" where
  "add_to_group e g =
     (let at_key = (ce_scope_type e, ce_scope_id e);
          old = (case dict_get g at_key of None \<Rightarrow> [] | Some d \<Rightarrow> d)
      in dict_set at_key (dict_set (ce_key e) (ce_value e) old) g)"

definition group_entries :: "config_entry list \<Rightarrow> groups" where
  "group_entries es = fold add_to_group es []"

definition registry_defaults :: "registry \<Rightarrow> json_dict" where
  "registry_defaults reg = fold (\<lambda>d m. dict_set (cd_key d) (cd_default d) m) (registry_all reg) []"

definition default_at :: "json_dict \<Rightarrow> ustr \<Rightarrow> config_error + json" where
  "default_at defaults k =
     (case dict_get defaults k of None \<Rightarrow> Inl (Py_Key_Error k) | Some v \<Rightarrow> Inr v)"

text \<open>\<open>values.get(key, defaults[key])\<close>: the default is looked up first.\<close>

definition value_or_default :: "json_dict \<Rightarrow> json_dict \<Rightarrow> ustr \<Rightarrow> config_error + json" where
  "value_or_default vals defaults k =
     bind_result (default_at defaults k)
       (\<lambda>v. Inr (case dict_get vals k of None \<Rightarrow> v | Some w \<Rightarrow> w))"

fun values_or_defaults :: "json_dict \<Rightarrow> json_dict \<Rightarrow> ustr list \<Rightarrow> config_error + json list" where
  "values_or_defaults vals defaults [] = Inr []"
| "values_or_defaults vals defaults (k # ks) =
     bind_result (value_or_default vals defaults k)
       (\<lambda>v. bind_result (values_or_defaults vals defaults ks) (\<lambda>vs. Inr (v # vs)))"

definition weight_keys :: "ustr list" where
  "weight_keys = [lit ''memory.recall.full_text_weight'', lit ''memory.recall.semantic_weight'',
     lit ''memory.recall.recency_weight'', lit ''memory.recall.importance_weight'',
     lit ''memory.recall.relationship_weight'']"

definition pool_below_limit :: "json \<Rightarrow> json \<Rightarrow> bool" where
  "pool_below_limit limit pool =
     (case (py_int limit, py_int pool) of (Some l, Some p) \<Rightarrow> p < l | _ \<Rightarrow> False)"

definition check_recall_group :: "json_dict \<Rightarrow> json_dict \<Rightarrow> config_error + unit" where
  "check_recall_group defaults vals =
     bind_result (value_or_default vals defaults (lit ''memory.recall.limit'')) (\<lambda>limit.
     bind_result (value_or_default vals defaults (lit ''memory.recall.candidate_pool'')) (\<lambda>pool.
     if pool_below_limit limit pool then Inl (Invalid_Value Pool_Below_Limit)
     else bind_result (values_or_defaults vals defaults weight_keys) (\<lambda>ws.
       if \<forall>w \<in> set ws. py_number w = Some 0 then Inl (Invalid_Value Weights_All_Zero)
       else Inr ())))"

fun check_groups :: "(json_dict \<Rightarrow> config_error + unit) \<Rightarrow> json_dict list \<Rightarrow> config_error + unit" where
  "check_groups check [] = Inr ()"
| "check_groups check (g # gs) = bind_result (check g) (\<lambda>_. check_groups check gs)"

definition validate_memory_recall_entries :: "registry \<Rightarrow> config_entry list \<Rightarrow> config_error + unit" where
  "validate_memory_recall_entries reg es =
     check_groups (check_recall_group (registry_defaults reg)) (dict_values (group_entries es))"

definition dict_merge :: "('k, 'v) dict \<Rightarrow> ('k, 'v) dict \<Rightarrow> ('k, 'v) dict" where
  "dict_merge a b = fold (\<lambda>(k, v) d. dict_set k v d) b a"

definition check_alert_group :: "library \<Rightarrow> json_dict \<Rightarrow> json_dict \<Rightarrow> config_error + unit" where
  "check_alert_group lib defaults overrides =
     (case from_values (zone_known lib) (dict_merge defaults overrides) of
        Inl e \<Rightarrow> Inl (Invalid_Value (Bad_Alert_Policy e))
      | Inr _ \<Rightarrow> Inr ())"

definition validate_alert_notification_entries ::
    "library \<Rightarrow> registry \<Rightarrow> config_entry list \<Rightarrow> config_error + unit" where
  "validate_alert_notification_entries lib reg es =
     check_groups (check_alert_group lib (registry_defaults reg))
       (dict_values (group_entries
         (filter (\<lambda>e. starts_with (lit ''alerts.notification.'') (ce_key e)) es)))"

text \<open>\<open>_validate_snapshot\<close>, and the same checks at the start of \<open>create_draft\<close>.\<close>

definition validate_snapshot :: "library \<Rightarrow> registry \<Rightarrow> config_entry list \<Rightarrow> config_error + unit" where
  "validate_snapshot lib reg es =
     bind_result (check_each lib reg [] es) (\<lambda>_.
     bind_result (validate_memory_recall_entries reg es) (\<lambda>_.
     validate_alert_notification_entries lib reg es))"

section \<open>Commands\<close>

definition service_get_version :: "config_store \<Rightarrow> uuid \<Rightarrow> config_error + config_version" where
  "service_get_version s vid =
     (case store_get_version s vid of None \<Rightarrow> Inl Version_Not_Found | Some v \<Rightarrow> Inr v)"

definition normalize_note :: "ustr option \<Rightarrow> ustr option" where
  "normalize_note note =
     (case note of None \<Rightarrow> None | Some n \<Rightarrow> if strip n = [] then None else Some (strip n))"

definition create_draft ::
    "library \<Rightarrow> registry \<Rightarrow> uuid \<Rightarrow> instant \<Rightarrow> ustr option \<Rightarrow> config_entry list \<Rightarrow> config_store \<Rightarrow>
     config_error + config_version \<times> config_store" where
  "create_draft lib reg fresh now note es s =
     bind_result (validate_snapshot lib reg es)
       (\<lambda>_. Inr (store_create_draft fresh now (normalize_note note) es s))"

definition entry_map :: "config_entry list \<Rightarrow> (config_identity, config_entry) dict" where
  "entry_map es = fold (\<lambda>e m. dict_set (entry_identity e) e m) es []"

text \<open>The sort key \<open>(key, scope_type.value, str(scope_id or ""))\<close>.\<close>

definition identity_key :: "config_identity \<Rightarrow> ustr \<times> ustr \<times> ustr" where
  "identity_key i =
     (case i of (k, scope, sid) \<Rightarrow>
        (k, scope_value scope, case sid of None \<Rightarrow> [] | Some u \<Rightarrow> uuid_str u))"

definition published_values :: "config_store \<Rightarrow> config_entry list" where
  "published_values s = (case store_get_published s of None \<Rightarrow> [] | Some v \<Rightarrow> cv_values v)"

definition published_number :: "config_store \<Rightarrow> int" where
  "published_number s = (case store_get_published s of None \<Rightarrow> 0 | Some v \<Rightarrow> cv_version v)"

definition derived_values :: "config_entry list \<Rightarrow> config_entry list \<Rightarrow> config_entry list" where
  "derived_values base overrides =
     sorted_by (\<lambda>e. identity_key (entry_identity e))
       (dict_values (fold (\<lambda>e m. dict_set (entry_identity e) e m) overrides (entry_map base)))"

definition create_derived_draft ::
    "library \<Rightarrow> registry \<Rightarrow> uuid \<Rightarrow> instant \<Rightarrow> int \<Rightarrow> ustr \<Rightarrow> config_entry list \<Rightarrow> config_store \<Rightarrow>
     config_error + config_version \<times> config_store" where
  "create_derived_draft lib reg fresh now expected note overrides s =
     (if published_number s \<noteq> expected then Inl (Base_Changed expected (published_number s))
      else create_draft lib reg fresh now (Some note) (derived_values (published_values s) overrides) s)"

definition package_format :: ustr where
  "package_format = lit ''cnb-runtime-configuration''"

definition package_schema_version :: ustr where
  "package_schema_version = lit ''1''"

text \<open>The note of an imported draft; the Chinese words and the wide colon are code points.\<close>

definition import_note :: "int \<Rightarrow> ustr option \<Rightarrow> ustr" where
  "import_note source_version source_note =
     (let note = [20174, 37197, 32622, 21253, 32, 118] @ dec_int source_version @ [32, 23548, 20837]
      in case normalize_note source_note of None \<Rightarrow> note | Some n \<Rightarrow> note @ [65306] @ n)"

definition import_draft ::
    "library \<Rightarrow> registry \<Rightarrow> uuid \<Rightarrow> instant \<Rightarrow> ustr \<Rightarrow> ustr \<Rightarrow> int \<Rightarrow> ustr option \<Rightarrow> config_entry list \<Rightarrow>
     config_store \<Rightarrow> config_error + config_version \<times> config_store" where
  "import_draft lib reg fresh now fmt schema source_version source_note es s =
     (if fmt \<noteq> package_format then Inl (Invalid_Value (Unsupported_Format fmt))
      else if schema \<noteq> package_schema_version then Inl (Invalid_Value (Unsupported_Schema schema))
      else create_draft lib reg fresh now
             (Some (py_take 1000 (import_note source_version source_note))) es s)"

definition publish ::
    "library \<Rightarrow> registry \<Rightarrow> instant \<Rightarrow> uuid \<Rightarrow> config_store \<Rightarrow> config_error + config_version \<times> config_store" where
  "publish lib reg now vid s =
     bind_result (service_get_version s vid) (\<lambda>target.
       if cv_status target \<noteq> DRAFT then Inl Not_A_Draft
       else bind_result (validate_snapshot lib reg (cv_values target)) (\<lambda>_. store_publish now vid s))"

definition rollback ::
    "library \<Rightarrow> registry \<Rightarrow> uuid \<Rightarrow> instant \<Rightarrow> instant \<Rightarrow> uuid \<Rightarrow> config_store \<Rightarrow>
     config_error + config_version \<times> config_store" where
  "rollback lib reg fresh created published vid s =
     bind_result (service_get_version s vid) (\<lambda>target.
       if cv_status target = DRAFT then Inl Draft_As_Target
       else bind_result (validate_snapshot lib reg (cv_values target))
         (\<lambda>_. store_rollback fresh created published vid s))"

section \<open>The difference of two versions\<close>

record diff_preview =
  dp_base_version :: int
  dp_target_version :: int
  dp_changes :: "config_difference list"

definition entry_value :: "config_entry option \<Rightarrow> json" where
  "entry_value e = (case e of None \<Rightarrow> JNull | Some x \<Rightarrow> ce_value x)"

text \<open>The difference at one identity, none when the values are equal.\<close>

definition difference_at ::
    "(config_identity, config_entry) dict \<Rightarrow> (config_identity, config_entry) dict \<Rightarrow> config_identity \<Rightarrow>
     config_difference list" where
  "difference_at base target i =
     (let before = dict_get base i; after = dict_get target i;
          make = (\<lambda>kind. case i of (k, scope, sid) \<Rightarrow>
            [\<lparr>df_key = k, df_scope_type = scope, df_scope_id = sid, df_kind = kind,
              df_before = entry_value before, df_after = entry_value after\<rparr>])
      in case (before, after) of
           (Some b, Some a) \<Rightarrow> if py_eq (ce_value b) (ce_value a) then [] else make CHANGED
         | (None, Some _) \<Rightarrow> make ADDED
         | (_, None) \<Rightarrow> make REMOVED)"

text \<open>The sorted union of the keys; distinct identities have distinct sort keys.\<close>

definition all_identities ::
    "(config_identity, config_entry) dict \<Rightarrow> (config_identity, config_entry) dict \<Rightarrow> config_identity list" where
  "all_identities base target =
     sorted_by identity_key (map fst base @ filter (\<lambda>i. i \<notin> set (map fst base)) (map fst target))"

definition differences :: "config_entry list \<Rightarrow> config_entry list \<Rightarrow> config_difference list" where
  "differences base target =
     concat (map (difference_at (entry_map base) (entry_map target))
       (all_identities (entry_map base) (entry_map target)))"

definition diff_base ::
    "config_store \<Rightarrow> config_version \<Rightarrow> uuid option \<Rightarrow> config_error + config_version option" where
  "diff_base s target base_id =
     (case base_id of
        None \<Rightarrow>
          (case store_get_published s of
             None \<Rightarrow> Inr None
           | Some b \<Rightarrow> if cv_id b = cv_id target then Inr None else Inr (Some b))
      | Some bid \<Rightarrow> bind_result (service_get_version s bid) (\<lambda>b. Inr (Some b)))"

definition preview_diff :: "config_store \<Rightarrow> uuid \<Rightarrow> uuid option \<Rightarrow> config_error + diff_preview" where
  "preview_diff s vid base_id =
     bind_result (service_get_version s vid) (\<lambda>target.
     bind_result (diff_base s target base_id) (\<lambda>base.
       Inr \<lparr>dp_base_version = (case base of None \<Rightarrow> 0 | Some b \<Rightarrow> cv_version b),
            dp_target_version = cv_version target,
            dp_changes =
              differences (case base of None \<Rightarrow> [] | Some b \<Rightarrow> cv_values b) (cv_values target)\<rparr>))"

section \<open>The effective configuration\<close>

record effective_snapshot =
  ef_version :: int
  ef_values :: json_dict
  ef_sources :: "(ustr, config_source) dict"

record scope_targets =
  tg_tenant_id :: uuid
  tg_agent_id :: "uuid option"
  tg_channel_id :: "uuid option"
  tg_user_id :: "uuid option"

fun target_id :: "scope_targets \<Rightarrow> config_scope \<Rightarrow> uuid option" where
  "target_id tg SYSTEM = None"
| "target_id tg TENANT = Some (tg_tenant_id tg)"
| "target_id tg AGENT = tg_agent_id tg"
| "target_id tg CHANNEL = tg_channel_id tg"
| "target_id tg USER = tg_user_id tg"

text \<open>The values and sources before any stored entry: the defaults of the non-secret definitions.\<close>

definition base_values :: "registry \<Rightarrow> json_dict" where
  "base_values reg =
     fold (\<lambda>d m. dict_set (cd_key d) (cd_default d) m) (filter (\<lambda>d. \<not> cd_secret d) (registry_all reg)) []"

definition default_source :: config_source where
  "default_source = \<lparr>cs_scope_type = None, cs_scope_id = None, cs_version = 0\<rparr>"

definition entry_applies :: "scope_targets \<Rightarrow> config_scope \<Rightarrow> config_entry \<Rightarrow> bool" where
  "entry_applies tg scope e \<longleftrightarrow> ce_scope_type e = scope \<and> ce_scope_id e = target_id tg scope"

definition entry_source :: "config_version \<Rightarrow> config_entry \<Rightarrow> config_source" where
  "entry_source v e =
     \<lparr>cs_scope_type = Some (ce_scope_type e), cs_scope_id = ce_scope_id e, cs_version = cv_version v\<rparr>"

definition apply_entry ::
    "config_version \<Rightarrow> config_entry \<Rightarrow> json_dict \<times> (ustr, config_source) dict \<Rightarrow>
     json_dict \<times> (ustr, config_source) dict" where
  "apply_entry v e acc =
     (dict_set (ce_key e) (ce_value e) (fst acc), dict_set (ce_key e) (entry_source v e) (snd acc))"

text \<open>The two nested loops: for each scope from wide to narrow, each entry of that scope's target.\<close>

definition apply_scopes ::
    "scope_targets \<Rightarrow> config_version \<Rightarrow> json_dict \<times> (ustr, config_source) dict \<Rightarrow>
     json_dict \<times> (ustr, config_source) dict" where
  "apply_scopes tg v acc =
     fold (\<lambda>scope acc.
        fold (\<lambda>e acc. if entry_applies tg scope e then apply_entry v e acc else acc) (cv_values v) acc)
       all_scopes acc"

definition stored_version :: "config_store \<Rightarrow> int option \<Rightarrow> config_error + config_version option" where
  "stored_version s version =
     (case version of
        None \<Rightarrow> Inr (store_get_published s)
      | Some n \<Rightarrow>
          if n = 0 then Inr None
          else (case store_get_version_number s n of
                  None \<Rightarrow> Inl Version_Not_Found
                | Some v \<Rightarrow> Inr (Some v)))"

definition resolve_effective ::
    "registry \<Rightarrow> scope_targets \<Rightarrow> int option \<Rightarrow> config_store \<Rightarrow> config_error + effective_snapshot" where
  "resolve_effective reg tg version s =
     bind_result (stored_version s version) (\<lambda>stored.
       let vals = base_values reg;
           sources = map (\<lambda>(k, _). (k, default_source)) vals;
           (vals', sources') =
             (case stored of None \<Rightarrow> (vals, sources) | Some v \<Rightarrow> apply_scopes tg v (vals, sources))
       in Inr \<lparr>ef_version = (case stored of None \<Rightarrow> 0 | Some v \<Rightarrow> cv_version v),
               ef_values = vals', ef_sources = sources'\<rparr>)"

end
