(* ===== verification/Config_Effective.thy ===== *)
theory Config_Effective
  imports Config_Service
begin

text \<open>
  The configuration service as a state machine: its commands in any order, from the empty repository,
  with fresh identifiers. Every stored version has passed the snapshot validation, and what is stored
  of a version never changes but its status.
\<close>

section \<open>Commands as steps\<close>

datatype config_call =
    Create_Draft "ustr option" "config_entry list"
  | Create_Derived int ustr "config_entry list"
  | Import_Draft ustr ustr int "ustr option" "config_entry list"
  | Publish uuid
  | Rollback uuid

fun run_config ::
    "library \<Rightarrow> registry \<Rightarrow> uuid \<Rightarrow> instant \<Rightarrow> instant \<Rightarrow> config_call \<Rightarrow> config_store \<Rightarrow>
     config_error + config_version \<times> config_store" where
  "run_config lib reg fresh t u (Create_Draft note es) s = create_draft lib reg fresh t note es s"
| "run_config lib reg fresh t u (Create_Derived expected note es) s =
     create_derived_draft lib reg fresh t expected note es s"
| "run_config lib reg fresh t u (Import_Draft fmt schema n note es) s =
     import_draft lib reg fresh t fmt schema n note es s"
| "run_config lib reg fresh t u (Publish vid) s = publish lib reg t vid s"
| "run_config lib reg fresh t u (Rollback vid) s = rollback lib reg fresh t u vid s"

inductive config_step :: "library \<Rightarrow> registry \<Rightarrow> config_store \<Rightarrow> config_store \<Rightarrow> bool"
  for lib reg where
  call: "run_config lib reg fresh t u c s = Inr (v, s') \<Longrightarrow> store_get_version s fresh = None \<Longrightarrow>
     config_step lib reg s s'"

section \<open>The invariant\<close>

definition all_validated :: "library \<Rightarrow> registry \<Rightarrow> config_store \<Rightarrow> bool" where
  "all_validated lib reg s \<longleftrightarrow>
     (\<forall>k v. version_at s k v \<longrightarrow> validate_snapshot lib reg (cv_values v) = Inr ())"

definition config_inv :: "library \<Rightarrow> registry \<Rightarrow> config_store \<Rightarrow> bool" where
  "config_inv lib reg s \<longleftrightarrow> config_store_ok s \<and> all_validated lib reg s"

text \<open>Every successful command is one of three repository operations.\<close>

lemma create_draft_Inr:
  "create_draft lib reg fresh t note es s = Inr (v, s') \<longleftrightarrow>
     validate_snapshot lib reg es = Inr () \<and>
     (v, s') = store_create_draft fresh t (normalize_note note) es s"
  by (auto simp: create_draft_def result_laws)

lemma run_config_cases:
  assumes "run_config lib reg fresh t u c s = Inr (v, s')"
  obtains (create) n es where "validate_snapshot lib reg es = Inr ()"
      "(v, s') = store_create_draft fresh t n es s"
  | (publish) vid where "store_publish t vid s = Inr (v, s')"
  | (rollback) vid where "store_rollback fresh t u vid s = Inr (v, s')"
  using assms
  by (cases c)
    (auto simp: create_draft_Inr create_derived_draft_def import_draft_def publish_def rollback_def
      result_laws split: if_splits)

text \<open>What a command does to a stored version: only its status and publication time may change.\<close>

definition stage :: "config_status \<Rightarrow> nat" where
  "stage st = (case st of DRAFT \<Rightarrow> 0 | PUBLISHED \<Rightarrow> 1 | SUPERSEDED \<Rightarrow> 2)"

definition same_content :: "config_version \<Rightarrow> config_version \<Rightarrow> bool" where
  "same_content v w \<longleftrightarrow> cv_id w = cv_id v \<and> cv_version w = cv_version v \<and> cv_note w = cv_note v \<and>
     cv_created_at w = cv_created_at v \<and> cv_values w = cv_values v \<and>
     stage (cv_status v) \<le> stage (cv_status w)"

lemma same_content_refl [simp]: "same_content v v"
  by (simp add: same_content_def)

lemma same_content_trans: "same_content u v \<Longrightarrow> same_content v w \<Longrightarrow> same_content u w"
  by (simp add: same_content_def)

lemma same_content_retired [simp]: "same_content v (retired v)"
  by (simp add: same_content_def retired_def supersede_def stage_def)

lemma stored_after_call:
  assumes "run_config lib reg fresh t u c s = Inr (v, s')" and "config_store_ok s"
    and "store_get_version s fresh = None" and "version_at s k w"
  shows "\<exists>w'. version_at s' k w' \<and> same_content w w'"
  using assms(1)
proof (cases rule: run_config_cases)
  case (create n es)
  from assms(3,4) have "k \<noteq> fresh" by (auto simp: store_get_version_def version_at_def)
  moreover from create(2) have "s' = snd (store_create_draft fresh t n es s)"
    by (metis snd_conv)
  ultimately show ?thesis using assms(4) by (auto simp: version_at_create)
next
  case (publish vid)
  from version_at_publish[OF assms(2) this] obtain b where b: "version_at s vid b" "cv_status b = DRAFT"
    and v: "v = b\<lparr>cv_status := PUBLISHED, cv_published_at := Some t\<rparr>"
    and vat: "\<And>k x. version_at s' k x \<longleftrightarrow> (if k = vid then x = v
         else \<exists>w. version_at s k w \<and> x = retired w)" by blast
  show ?thesis
  proof (cases "k = vid")
    case True
    with b(1) assms(4) have "w = b" by (simp add: version_at_def)
    with True vat b(2) v show ?thesis by (auto simp: same_content_def stage_def)
  next
    case False
    with vat assms(4) have "version_at s' k (retired w)" by auto
    then show ?thesis using same_content_retired by blast
  qed
next
  case (rollback vid)
  from assms(2) have "dict_ok (st_versions s)" by (simp add: config_store_ok_def)
  from version_at_rollback[OF this rollback]
  have vat: "version_at s' k x \<longleftrightarrow> (if k = fresh then x = v
         else \<exists>w. version_at s k w \<and> x = retired w)" for k x by blast
  from assms(3,4) have "k \<noteq> fresh" by (auto simp: store_get_version_def version_at_def)
  with vat assms(4) have "version_at s' k (retired w)" by auto
  then show ?thesis using same_content_retired by blast
qed

lemma call_config_ok:
  assumes "run_config lib reg fresh t u c s = Inr (v, s')" and "config_store_ok s"
    and "store_get_version s fresh = None"
  shows "config_store_ok s'"
  using assms(1)
proof (cases rule: run_config_cases)
  case (create n es)
  then have "s' = snd (store_create_draft fresh t n es s)" by (metis snd_conv)
  then show ?thesis using create_draft_ok[OF assms(2,3)] by simp
qed (use assms(2,3) publish_ok rollback_ok in blast)+

lemma call_validated:
  assumes "run_config lib reg fresh t u c s = Inr (v, s')" and "config_store_ok s"
    and "all_validated lib reg s"
  shows "all_validated lib reg s'"
  using assms(1)
proof (cases rule: run_config_cases)
  case (create n es)
  from create(2) have s': "s' = snd (store_create_draft fresh t n es s)"
    and v: "v = fst (store_create_draft fresh t n es s)" by (metis fst_conv snd_conv)+
  then have "cv_values v = es" by (simp add: store_create_draft_def Let_def)
  then show ?thesis
    using assms(3) create(1) unfolding all_validated_def s' version_at_create v[symmetric] by auto
next
  case (publish vid)
  from version_at_publish[OF assms(2) this] obtain b where b: "version_at s vid b"
    and v: "v = b\<lparr>cv_status := PUBLISHED, cv_published_at := Some t\<rparr>"
    and vat: "\<And>k x. version_at s' k x \<longleftrightarrow> (if k = vid then x = v
         else \<exists>w. version_at s k w \<and> x = retired w)" by blast
  have "cv_values v = cv_values b" by (simp add: v)
  with b assms(3) show ?thesis unfolding all_validated_def vat by auto
next
  case (rollback vid)
  from assms(2) have "dict_ok (st_versions s)" by (simp add: config_store_ok_def)
  from version_at_rollback[OF this rollback] obtain b where b: "version_at s vid b"
    and v: "cv_values v = cv_values b"
    and vat: "\<And>k x. version_at s' k x \<longleftrightarrow> (if k = fresh then x = v
         else \<exists>w. version_at s k w \<and> x = retired w)" by blast
  with assms(3) show ?thesis unfolding all_validated_def vat by auto
qed

interpretation config: state_machine "\<lambda>s. s = initial_store" "config_step lib reg" "config_inv lib reg"
  for lib reg
proof unfold_locales
  show "config_inv lib reg s" if "s = initial_store" for s
    using that initial_config_ok
    by (simp add: config_inv_def all_validated_def version_at_def initial_store_def dict_get_def)
  show "config_inv lib reg s'" if "config_inv lib reg s" "config_step lib reg s s'" for s s'
    using that(2,1) unfolding config_inv_def
    by (cases rule: config_step.cases) (blast intro: call_config_ok call_validated)
qed

lemma history_consistent:
  assumes "reachable (\<lambda>s. s = initial_store) (config_step lib reg) s"
  shows "config_store_ok s \<and> all_validated lib reg s \<and>
    (\<forall>s' k v. (config_step lib reg)\<^sup>*\<^sup>* s s' \<longrightarrow> version_at s k v \<longrightarrow>
       (\<exists>w. version_at s' k w \<and> same_content v w))"
proof -
  have inv: "config_inv lib reg s" using config.reachable_inv[OF assms] .
  have "\<exists>w. version_at s' k w \<and> same_content v w"
    if steps: "(config_step lib reg)\<^sup>*\<^sup>* s s'" and v: "version_at s k v" for s' k v
  proof -
    have "config_inv lib reg s' \<and> (\<exists>w. version_at s' k w \<and> same_content v w)"
    proof (rule config.stable_along[OF steps inv])
      show "\<exists>w. version_at s k w \<and> same_content v w" using v same_content_refl by blast
      show "\<exists>w. version_at b k w \<and> same_content v w"
        if "config_inv lib reg a" "\<exists>w. version_at a k w \<and> same_content v w" "config_step lib reg a b" for a b
        using that(3,1,2) unfolding config_inv_def
        by (cases rule: config_step.cases) (blast intro: same_content_trans dest: stored_after_call)
    qed
    then show ?thesis by simp
  qed
  with inv show ?thesis by (auto simp: config_inv_def)
qed

text \<open>
  What \<open>resolve_effective\<close> returns: for every key the last entry of the narrowest scope that has one,
  the registry's default otherwise, with the source that says so; and that all of it satisfies the
  definitions, in every state the service can reach.
\<close>

section \<open>The loops as one fold\<close>

definition applied :: "scope_targets \<Rightarrow> config_entry list \<Rightarrow> config_entry list" where
  "applied tg es = concat (map (\<lambda>scope. filter (entry_applies tg scope) es) all_scopes)"

lemma fold_filter: "fold (\<lambda>e acc. if p e then f e acc else acc) es acc = fold f (filter p es) acc"
  by (induction es arbitrary: acc) auto

lemma apply_scopes_applied: "apply_scopes tg v acc = fold (apply_entry v) (applied tg (cv_values v)) acc"
  by (simp add: apply_scopes_def applied_def fold_filter all_scopes_def)

lemma fold_apply_entry:
  "fold (apply_entry v) es acc =
     (fold (\<lambda>e m. dict_set (ce_key e) (ce_value e) m) es (fst acc),
      fold (\<lambda>e m. dict_set (ce_key e) (entry_source v e) m) es (snd acc))"
  by (induction es arbitrary: acc) (simp_all add: apply_entry_def)

section \<open>The winning entry\<close>

definition competes :: "scope_targets \<Rightarrow> config_scope \<Rightarrow> ustr \<Rightarrow> config_entry \<Rightarrow> bool" where
  "competes tg scope k e \<longleftrightarrow> ce_key e = k \<and> ce_scope_type e = scope \<and>
     ce_scope_id e = (case scope of
       SYSTEM \<Rightarrow> None | TENANT \<Rightarrow> Some (tg_tenant_id tg) | AGENT \<Rightarrow> tg_agent_id tg
     | CHANNEL \<Rightarrow> tg_channel_id tg | USER \<Rightarrow> tg_user_id tg)"

lemma competes_iff: "competes tg scope k e \<longleftrightarrow> entry_applies tg scope e \<and> ce_key e = k"
  by (cases scope) (auto simp: competes_def entry_applies_def)

text \<open>The narrowest scope with an entry of the key, and the last such entry.\<close>

definition winner :: "scope_targets \<Rightarrow> config_entry list \<Rightarrow> ustr \<Rightarrow> config_entry option" where
  "winner tg es k =
     (case find (\<lambda>scope. \<exists>e \<in> set es. competes tg scope k e) [USER, CHANNEL, AGENT, TENANT, SYSTEM] of
        None \<Rightarrow> None
      | Some scope \<Rightarrow> Some (last (filter (competes tg scope k) es)))"

lemma filter_competes: "filter (\<lambda>e. entry_applies tg scope e \<and> ce_key e = k) es =
    filter (competes tg scope k) es"
  by (simp add: competes_iff[abs_def])

lemma winner_applied:
  "winner tg es k =
     (case filter (\<lambda>e. ce_key e = k) (applied tg es) of [] \<Rightarrow> None | ys \<Rightarrow> Some (last ys))"
proof -
  define f where "f scope = filter (competes tg scope k) es" for scope
  have ex: "(\<exists>e \<in> set es. competes tg scope k e) \<longleftrightarrow> f scope \<noteq> []" for scope
    by (auto simp: f_def filter_empty_conv)
  have "filter (\<lambda>e. ce_key e = k) (applied tg es) = f SYSTEM @ f TENANT @ f AGENT @ f CHANNEL @ f USER"
    by (simp add: applied_def all_scopes_def filter_competes f_def)
  moreover have "winner tg es k =
     (case find (\<lambda>scope. f scope \<noteq> []) [USER, CHANNEL, AGENT, TENANT, SYSTEM] of
        None \<Rightarrow> None | Some scope \<Rightarrow> Some (last (f scope)))"
    by (simp add: winner_def ex f_def)
  ultimately show ?thesis by (auto split: list.splits)
qed

lemma winner_mem:
  "winner tg es k = Some e \<Longrightarrow> e \<in> set es \<and> ce_key e = k \<and> (\<exists>scope. entry_applies tg scope e)"
proof -
  assume "winner tg es k = Some e"
  then obtain y ys where ys: "filter (\<lambda>e. ce_key e = k) (applied tg es) = y # ys" and e: "e = last (y # ys)"
    by (auto simp: winner_applied split: list.splits)
  then have "e \<in> set (filter (\<lambda>e. ce_key e = k) (applied tg es))" using last_in_set[of "y # ys"] by simp
  then show ?thesis by (auto simp: applied_def)
qed

section \<open>Defaults\<close>

lemma registry_all_mem:
  assumes "registry_ok reg"
  shows "d \<in> set (registry_all reg) \<and> cd_key d = k \<longleftrightarrow> registry_get reg k = Some d"
proof -
  have ok: "dict_ok reg" using assms by (simp add: registry_ok_def)
  have "d \<in> set (registry_all reg) \<longleftrightarrow> (\<exists>l. registry_get reg l = Some d)"
    unfolding registry_all_def set_sorted_by dict_values_iff[OF ok] registry_get_def ..
  then show ?thesis using registry_ok_get[OF assms] by blast
qed

lemma base_values_get:
  assumes "registry_ok reg"
  shows "dict_get (base_values reg) k =
    (case registry_get reg k of None \<Rightarrow> None | Some d \<Rightarrow> if cd_secret d then None else Some (cd_default d))"
proof -
  define hits where
    "hits = filter (\<lambda>d. cd_key d = k) (filter (\<lambda>d. \<not> cd_secret d) (registry_all reg))"
  have mem: "d \<in> set hits \<longleftrightarrow> registry_get reg k = Some d \<and> \<not> cd_secret d" for d
    using registry_all_mem[OF assms, of d k] unfolding hits_def by (simp only: set_filter mem_Collect_eq) blast
  have get: "dict_get (base_values reg) k =
      (case hits of [] \<Rightarrow> None | ys \<Rightarrow> Some (cd_default (last ys)))"
    unfolding base_values_def dict_get_fold_set hits_def[symmetric]
    by (simp add: dict_get_def split: list.split)
  show ?thesis
  proof (cases hits)
    case Nil
    then have "\<not> (registry_get reg k = Some d \<and> \<not> cd_secret d)" for d using mem[of d] by simp
    then show ?thesis unfolding get Nil by (auto split: option.splits)
  next
    case (Cons d ds)
    then have "last hits \<in> set hits" by (metis last_in_set list.distinct(1))
    then have l: "registry_get reg k = Some (last hits)" "\<not> cd_secret (last hits)"
      by (simp_all add: mem)
    have "dict_get (base_values reg) k = Some (cd_default (last hits))" unfolding get by (simp add: Cons)
    then show ?thesis by (simp only: l option.case if_False)
  qed
qed

lemma default_sources_get:
  "dict_get (map (\<lambda>(k, _). (k, default_source)) vals) k = map_option (\<lambda>_. default_source) (dict_get vals k)"
  by (induction vals) (auto simp: dict_get_def)

section \<open>Precedence\<close>

lemma resolve_effective_Inr:
  "resolve_effective reg tg version s = Inr snap \<longleftrightarrow>
     (\<exists>stored. stored_version s version = Inr stored \<and>
        snap = (let (vals, sources) =
                  (case stored of
                     None \<Rightarrow> (base_values reg, map (\<lambda>(k, _). (k, default_source)) (base_values reg))
                   | Some v \<Rightarrow> apply_scopes tg v
                       (base_values reg, map (\<lambda>(k, _). (k, default_source)) (base_values reg)))
                in \<lparr>ef_version = (case stored of None \<Rightarrow> 0 | Some v \<Rightarrow> cv_version v),
                    ef_values = vals, ef_sources = sources\<rparr>))"
  by (auto simp: resolve_effective_def result_laws Let_def split: prod.splits)

definition stored_winner :: "scope_targets \<Rightarrow> config_version option \<Rightarrow> ustr \<Rightarrow> config_entry option" where
  "stored_winner tg stored k = (case stored of None \<Rightarrow> None | Some v \<Rightarrow> winner tg (cv_values v) k)"

lemma applied_get:
  "dict_get (fold (\<lambda>e m. dict_set (ce_key e) (f e) m) (applied tg es) m) k =
     (case winner tg es k of None \<Rightarrow> dict_get m k | Some e \<Rightarrow> Some (f e))"
  unfolding dict_get_fold_set winner_applied by (simp split: list.splits)

lemma resolved_value:
  assumes "registry_ok reg" and "stored_version s version = Inr stored"
    and "resolve_effective reg tg version s = Inr snap"
  shows "ef_version snap = (case stored of None \<Rightarrow> 0 | Some v \<Rightarrow> cv_version v) \<and>
    dict_get (ef_values snap) k =
      (case stored_winner tg stored k of
         Some e \<Rightarrow> Some (ce_value e)
       | None \<Rightarrow> (case registry_get reg k of
                    None \<Rightarrow> None | Some d \<Rightarrow> if cd_secret d then None else Some (cd_default d))) \<and>
    dict_get (ef_sources snap) k =
      (case stored_winner tg stored k of
         Some e \<Rightarrow> Some (entry_source (the stored) e)
       | None \<Rightarrow> (case registry_get reg k of
                    None \<Rightarrow> None | Some d \<Rightarrow> if cd_secret d then None else Some default_source))"
proof (cases stored)
  case None
  with assms show ?thesis
    by (auto simp: resolve_effective_Inr stored_winner_def base_values_get default_sources_get
        split: option.splits)
next
  case (Some v)
  with assms(2,3) have snap: "snap = \<lparr>ef_version = cv_version v,
      ef_values = fold (\<lambda>e m. dict_set (ce_key e) (ce_value e) m) (applied tg (cv_values v)) (base_values reg),
      ef_sources = fold (\<lambda>e m. dict_set (ce_key e) (entry_source v e) m) (applied tg (cv_values v))
        (map (\<lambda>(k, _). (k, default_source)) (base_values reg))\<rparr>"
    by (simp add: resolve_effective_Inr apply_scopes_applied fold_apply_entry)
  show ?thesis
    unfolding snap Some stored_winner_def
    by (cases "winner tg (cv_values v) k")
      (auto simp: applied_get base_values_get[OF assms(1)] default_sources_get split: option.splits)
qed

section \<open>Validity\<close>

text \<open>A registry whose own defaults satisfy their definitions.\<close>

definition registry_consistent :: "library \<Rightarrow> registry \<Rightarrow> bool" where
  "registry_consistent lib reg \<longleftrightarrow> registry_ok reg \<and>
     (\<forall>k d. registry_get reg k = Some d \<longrightarrow> \<not> cd_secret d \<longrightarrow> validate_value lib d (cd_default d) = Inr ())"

lemma check_each_Inr:
  "check_each lib reg seen es = Inr () \<longleftrightarrow>
     distinct (map entry_identity es) \<and> set (map entry_identity es) \<inter> set seen = {} \<and>
     (\<forall>e \<in> set es. validate_entry lib reg e = Inr ())"
  by (induction es arbitrary: seen) (auto simp: result_laws)

lemma validate_snapshot_each:
  "validate_snapshot lib reg es = Inr () \<Longrightarrow>
     distinct (map entry_identity es) \<and> (\<forall>e \<in> set es. validate_entry lib reg e = Inr ())"
  by (auto simp: validate_snapshot_def result_laws check_each_Inr)

lemma stored_version_mem:
  assumes "config_store_ok s" and "stored_version s version = Inr (Some v)"
  shows "\<exists>k. version_at s k v"
proof -
  from assms(1) have "dict_ok (st_versions s)" by (simp add: config_store_ok_def)
  then show ?thesis
    using assms(2) get_published_iff[OF assms(1), of v] get_version_number_mem
    by (fastforce simp: stored_version_def split: option.splits if_splits)
qed

lemma resolved_values_valid:
  assumes "registry_consistent lib reg"
    and "reachable (\<lambda>s. s = initial_store) (config_step lib reg) s"
    and "resolve_effective reg tg version s = Inr snap"
    and "dict_get (ef_values snap) k = Some x"
  shows "\<exists>d. registry_get reg k = Some d \<and> \<not> cd_secret d \<and> validate_value lib d x = Inr ()"
proof -
  from assms(1) have reg: "registry_ok reg" by (simp add: registry_consistent_def)
  from assms(2) have inv: "config_store_ok s" "all_validated lib reg s"
    using config.reachable_inv by (auto simp: config_inv_def)
  from assms(3) obtain stored where stored: "stored_version s version = Inr stored"
    by (auto simp: resolve_effective_Inr)
  note val = resolved_value[OF reg stored assms(3), of k]
  show ?thesis
  proof (cases "stored_winner tg stored k")
    case None
    with val assms(1,4) show ?thesis
      by (auto simp: registry_consistent_def split: option.splits if_splits)
  next
    case (Some e)
    then obtain v where v: "stored = Some v" and e: "winner tg (cv_values v) k = Some e"
      by (auto simp: stored_winner_def split: option.splits)
    from stored_version_mem[OF inv(1)] stored v obtain l where "version_at s l v" by blast
    with inv(2) have "validate_snapshot lib reg (cv_values v) = Inr ()" by (auto simp: all_validated_def)
    with validate_snapshot_each winner_mem[OF e] have "validate_entry lib reg e = Inr ()" "ce_key e = k"
      by blast+
    with Some val assms(4) show ?thesis by (auto simp: validate_entry_Inr)
  qed
qed

end
