(* ===== verification/Alert_Properties.thy ===== *)
theory Alert_Properties
  imports Alert_Policy
begin

text \<open>
  What the alert policy promises: a parsed policy is well formed, a decision advances at most one
  level and exactly when the next level is due, and the on-call test is membership in weekly shifts.
\<close>

section \<open>Well-formed policies\<close>

definition policy_ok :: "alert_policy \<Rightarrow> bool" where
  "policy_ok p \<longleftrightarrow>
     sorted_wrt (<) (triple (ap_thresholds p)) \<and> (\<forall>t \<in> set (triple (ap_thresholds p)). 1 \<le> t) \<and>
     set (triple (ap_adapters p)) \<subseteq> set alert_notification_adapters \<and>
     ap_out_of_hours_adapter p \<in> set alert_notification_adapters \<and>
     0 \<le> ap_warning_maximum_level p \<and> ap_warning_maximum_level p \<le> 3 \<and>
     distinct (ap_weekdays p) \<and> set (ap_weekdays p) \<subseteq> set on_call_weekdays \<and>
     0 \<le> ap_start_hour p \<and> ap_start_hour p \<le> 23 \<and> 0 \<le> ap_end_hour p \<and> ap_end_hour p \<le> 23"

lemma read_integer_bounds: "read_integer vs k lo hi = Inr i \<Longrightarrow> lo \<le> i \<and> i \<le> hi"
  by (auto simp: read_integer_def split: option.splits json.splits if_splits)

lemma read_adapter_known:
  "read_adapter vs k inh = Inr a \<Longrightarrow> (\<forall>i. inh = Some i \<longrightarrow> i \<in> set alert_notification_adapters) \<Longrightarrow>
     a \<in> set alert_notification_adapters"
  by (auto simp: read_adapter_def result_laws Let_def split: if_splits)

lemma read_weekdays_known:
  "read_weekdays vs = Inr ds \<Longrightarrow> distinct ds \<and> set ds \<subseteq> set on_call_weekdays"
  by (auto simp: read_weekdays_def Let_def split: option.splits json.splits if_splits)

lemma read_thresholds_increasing:
  "read_thresholds vs = Inr ts \<Longrightarrow>
     sorted_wrt (<) (triple ts) \<and> (\<forall>t \<in> set (triple ts). 1 \<le> t)"
  by (auto simp: read_thresholds_def result_laws dest!: read_integer_bounds split: if_splits)

lemma read_adapters_known:
  "read_adapters vs d = Inr ads \<Longrightarrow> d \<in> set alert_notification_adapters \<Longrightarrow>
     set (triple ads) \<subseteq> set alert_notification_adapters"
  by (auto simp: read_adapters_def result_laws dest!: read_adapter_known)

lemma from_values_ok:
  assumes "from_values zone_known vs = Inr p"
  shows "policy_ok p"
proof -
  from assms obtain dflt ts tz days en ads wmax start stop out where
    read: "read_adapter vs (lit ''alerts.notification.adapter'') None = Inr dflt"
      "read_thresholds vs = Inr ts" "read_weekdays vs = Inr days" "read_adapters vs dflt = Inr ads"
      "read_integer vs (lit ''alerts.notification.warning_max_escalation_level'') 0 3 = Inr wmax"
      "read_integer vs (lit ''alerts.notification.on_call_start_hour'') 0 23 = Inr start"
      "read_integer vs (lit ''alerts.notification.on_call_end_hour'') 0 23 = Inr stop"
      "read_adapter vs (lit ''alerts.notification.out_of_hours_adapter'') (Some dflt) = Inr out"
    and p: "p = \<lparr>ap_enabled = en, ap_thresholds = ts, ap_adapters = ads,
       ap_warning_maximum_level = wmax, ap_timezone = tz, ap_weekdays = days, ap_start_hour = start,
       ap_end_hour = stop, ap_out_of_hours_adapter = out\<rparr>"
    unfolding from_values_def result_laws by blast
  have dflt: "dflt \<in> set alert_notification_adapters" using read_adapter_known[OF read(1)] by simp
  then show ?thesis
    using read_thresholds_increasing[OF read(2)] read_weekdays_known[OF read(3)]
      read_adapters_known[OF read(4)] read_integer_bounds[OF read(5)]
      read_integer_bounds[OF read(6)] read_integer_bounds[OF read(7)]
      read_adapter_known[OF read(8)]
    by (simp add: policy_ok_def p)
qed

section \<open>Concrete instances\<close>

text \<open>The values the default registry gives to the keys the policy reads.\<close>

definition usual_values :: json_dict where
  "usual_values =
     [(lit ''alerts.notification.adapter'', JStr (lit ''webhook'')),
      (lit ''alerts.notification.escalation_enabled'', JBool True),
      (lit ''alerts.notification.escalation_after_minutes'', JInt 30),
      (lit ''alerts.notification.escalation_level_2_after_minutes'', JInt 120),
      (lit ''alerts.notification.escalation_level_3_after_minutes'', JInt 360),
      (lit ''alerts.notification.escalation_level_1_adapter'', JStr (lit ''default'')),
      (lit ''alerts.notification.escalation_level_2_adapter'', JStr (lit ''default'')),
      (lit ''alerts.notification.escalation_level_3_adapter'', JStr (lit ''default'')),
      (lit ''alerts.notification.warning_max_escalation_level'', JInt 1),
      (lit ''alerts.notification.on_call_timezone'', JStr (lit ''Asia/Shanghai'')),
      (lit ''alerts.notification.on_call_weekdays'',
        JList (map (\<lambda>d. JStr (lit d)) [''mon'', ''tue'', ''wed'', ''thu'', ''fri''])),
      (lit ''alerts.notification.on_call_start_hour'', JInt 9),
      (lit ''alerts.notification.on_call_end_hour'', JInt 18),
      (lit ''alerts.notification.out_of_hours_adapter'', JStr (lit ''default''))]"

definition usual_policy :: alert_policy where
  "usual_policy = \<lparr>ap_enabled = True, ap_thresholds = (30, 120, 360),
     ap_adapters = (lit ''webhook'', lit ''webhook'', lit ''webhook''), ap_warning_maximum_level = 1,
     ap_timezone = lit ''Asia/Shanghai'',
     ap_weekdays = [lit ''mon'', lit ''tue'', lit ''wed'', lit ''thu'', lit ''fri''],
     ap_start_hour = 9, ap_end_hour = 18, ap_out_of_hours_adapter = lit ''webhook''\<rparr>"

definition name_chars :: string where
  "name_chars = ''abcdefghijklmnopqrstuvwxyz_''"

lemma name_char_code: "c \<in> set name_chars \<Longrightarrow> 95 \<le> (of_char c :: nat) \<and> (of_char c :: nat) \<le> 122"
  unfolding name_chars_def by (simp, elim disjE; simp)

lemma letters_not_space: "65 \<le> c \<Longrightarrow> c \<le> 122 \<Longrightarrow> \<not> is_space c"
  by (simp add: is_space_def)

lemma strip_name:
  assumes "s \<noteq> []" and "hd s \<in> set (''A'' @ name_chars)" and "last s \<in> set name_chars"
  shows "strip (lit s) = lit s"
proof (rule strip_id)
  have "65 \<le> (of_char (hd s) :: nat) \<and> (of_char (hd s) :: nat) \<le> 122"
    using assms(2) name_char_code[of "hd s"] by auto
  then show "\<not> is_space (hd (lit s))" using assms(1) letters_not_space by (simp add: lit_def hd_map)
  show "\<not> is_space (last (lit s))"
    using assms(1) name_char_code[OF assms(3)] letters_not_space by (simp add: lit_def last_map)
qed (use assms(1) in simp)

lemma casefold_name: "set s \<subseteq> set name_chars \<Longrightarrow> casefold (lit s) = lit s"
proof (induction s)
  case (Cons c s)
  then have "fold_char (of_char c) = [of_char c]"
    using name_char_code[of c] by (simp add: fold_char_def)
  with Cons show ?case by (simp add: casefold_def lit_def)
qed (simp add: casefold_def lit_def)

lemma usual_gets:
  "dict_get usual_values (lit ''alerts.notification.adapter'') = Some (JStr (lit ''webhook''))"
  "dict_get usual_values (lit ''alerts.notification.escalation_enabled'') = Some (JBool True)"
  "dict_get usual_values (lit ''alerts.notification.escalation_after_minutes'') = Some (JInt 30)"
  "dict_get usual_values (lit ''alerts.notification.escalation_level_2_after_minutes'') = Some (JInt 120)"
  "dict_get usual_values (lit ''alerts.notification.escalation_level_3_after_minutes'') = Some (JInt 360)"
  "dict_get usual_values (lit ''alerts.notification.escalation_level_1_adapter'') = Some (JStr (lit ''default''))"
  "dict_get usual_values (lit ''alerts.notification.escalation_level_2_adapter'') = Some (JStr (lit ''default''))"
  "dict_get usual_values (lit ''alerts.notification.escalation_level_3_adapter'') = Some (JStr (lit ''default''))"
  "dict_get usual_values (lit ''alerts.notification.warning_max_escalation_level'') = Some (JInt 1)"
  "dict_get usual_values (lit ''alerts.notification.on_call_timezone'') = Some (JStr (lit ''Asia/Shanghai''))"
  "dict_get usual_values (lit ''alerts.notification.on_call_weekdays'') =
     Some (JList (map (\<lambda>d. JStr (lit d)) [''mon'', ''tue'', ''wed'', ''thu'', ''fri'']))"
  "dict_get usual_values (lit ''alerts.notification.on_call_start_hour'') = Some (JInt 9)"
  "dict_get usual_values (lit ''alerts.notification.on_call_end_hour'') = Some (JInt 18)"
  "dict_get usual_values (lit ''alerts.notification.out_of_hours_adapter'') = Some (JStr (lit ''default''))"
  by (simp_all add: usual_values_def dict_get_def)

lemma usual_reads:
  "read_adapter usual_values (lit ''alerts.notification.adapter'') None = Inr (lit ''webhook'')"
  "read_thresholds usual_values = Inr (30, 120, 360)"
  "read_timezone (\<lambda>_. True) usual_values = Inr (lit ''Asia/Shanghai'')"
  "read_weekdays usual_values = Inr [lit ''mon'', lit ''tue'', lit ''wed'', lit ''thu'', lit ''fri'']"
  "read_boolean usual_values (lit ''alerts.notification.escalation_enabled'') = Inr True"
  "read_adapters usual_values (lit ''webhook'') = Inr (lit ''webhook'', lit ''webhook'', lit ''webhook'')"
  "read_integer usual_values (lit ''alerts.notification.warning_max_escalation_level'') 0 3 = Inr 1"
  "read_integer usual_values (lit ''alerts.notification.on_call_start_hour'') 0 23 = Inr 9"
  "read_integer usual_values (lit ''alerts.notification.on_call_end_hour'') 0 23 = Inr 18"
  "read_adapter usual_values (lit ''alerts.notification.out_of_hours_adapter'') (Some (lit ''webhook'')) =
     Inr (lit ''webhook'')"
  by (simp_all add: read_thresholds_def read_timezone_def read_weekdays_def read_boolean_def
      read_adapters_def read_integer_def read_adapter_def read_string_def usual_gets
      strip_name casefold_name name_chars_def alert_notification_adapters_def on_call_weekdays_def Let_def)

lemma usual_policy_parsed: "from_values (\<lambda>_. True) usual_values = Inr usual_policy"
  by (simp add: from_values_def usual_reads usual_policy_def)

section \<open>Escalation\<close>

lemma matched_level_above:
  assumes "sorted_wrt (<) (triple ts)" and "0 \<le> current" and "current < 3" and "current < cap"
  shows "current < matched_level ts cap minutes \<longleftrightarrow> triple ts ! nat current \<le> minutes"
proof -
  obtain a b c where ts: "ts = (a, b, c)" by (cases ts)
  from assms(2,3) consider "current = 0" | "current = 1" | "current = 2" by linarith
  then show ?thesis using assms(1,4) by cases (auto simp: ts matched_level_def max_def)
qed

lemma matched_level_le: "0 \<le> cap \<Longrightarrow> matched_level ts cap minutes \<le> cap"
  by (cases ts) (auto simp: matched_level_def max_def)

lemma maximum_level_bounds: "policy_ok p \<Longrightarrow> 0 \<le> maximum_level p sev \<and> maximum_level p sev \<le> 3"
  by (simp add: policy_ok_def maximum_level_def)

text \<open>The branch of \<open>evaluate\<close> in terms of the matched level.\<close>

lemma next_escalation_matched:
  assumes "policy_ok p" and "0 \<le> current" and "cap \<le> 3"
  shows "next_escalation p on_call cap minutes current =
     Inr (if \<not> ap_enabled p then (None, None, lit ''disabled'')
          else if cap \<le> current then (None, None, lit ''maximum_level_reached'')
          else if matched_level (ap_thresholds p) cap minutes \<le> current
          then (None, None, lit ''waiting_for_threshold'')
          else (Some (current + 1), Some (route p on_call (triple (ap_adapters p) ! nat current)),
                lit ''eligible_for_escalation''))"
  using assms matched_level_above[of "ap_thresholds p" current cap minutes]
  by (auto simp: next_escalation_def policy_ok_def not_less)

lemma adapter_at_known:
  "policy_ok p \<Longrightarrow> 0 \<le> l \<Longrightarrow> l < 3 \<Longrightarrow> triple (ap_adapters p) ! nat l \<in> set alert_notification_adapters"
  by (auto simp: policy_ok_def)

lemma route_known:
  "policy_ok p \<Longrightarrow> 0 \<le> l \<Longrightarrow> l < 3 \<Longrightarrow>
     route p oc (triple (ap_adapters p) ! nat l) \<in> set alert_notification_adapters"
  by (simp add: route_def adapter_at_known) (simp add: policy_ok_def)

lemma policy_evaluate_Inr:
  "policy_evaluate local p sev minutes current at_time = Inr d \<Longrightarrow> policy_ok p \<Longrightarrow>
     0 \<le> minutes \<and> 0 \<le> current \<and> current \<le> 3 \<and>
     (\<exists>now t on_call. at_time = Aware now \<and> t = local (ap_timezone p) now \<and>
        on_call = is_on_call p t \<and> ad_on_call d = on_call \<and>
        ad_matched_level d = matched_level (ap_thresholds p) (maximum_level p sev) minutes \<and>
        ad_maximum_level d = maximum_level p sev \<and>
        (let due = ap_enabled p \<and> current < ad_matched_level d in
         ad_target_level d = (if due then Some (current + 1) else None) \<and>
         ad_adapter d =
           (if due then Some (route p on_call (triple (ap_adapters p) ! nat current)) else None)))"
  using maximum_level_bounds[of p sev]
    matched_level_le[of "maximum_level p sev" "ap_thresholds p" minutes]
  by (auto simp: policy_evaluate_def next_escalation_matched Let_def
      split: if_splits py_datetime.splits)

text \<open>
  C35: a policy parsed from the configuration advances an alert by at most one level, exactly when
  escalation is enabled and the current level is below the highest level whose waiting time has
  passed and which the severity allows; the notification then goes to a supported adapter, the
  out-of-hours one whenever nobody is on call. Only bad arguments make the evaluation fail.
\<close>
theorem alert_escalates_one_due_level:
  assumes "from_values zone_known vs = Inr p"
  shows "(\<forall>e. policy_evaluate local p sev minutes current at_time = Inl e \<longleftrightarrow>
            minutes < 0 \<and> e = Negative_Duration \<or>
            0 \<le> minutes \<and> (current < 0 \<or> 3 < current) \<and> e = Level_Out_Of_Range \<or>
            0 \<le> minutes \<and> 0 \<le> current \<and> current \<le> 3 \<and> (\<exists>n. at_time = Naive n) \<and> e = Naive_Time) \<and>
    (\<forall>d. policy_evaluate local p sev minutes current at_time = Inr d \<longrightarrow>
       ad_matched_level d \<le> ad_maximum_level d \<and> ad_maximum_level d \<le> 3 \<and>
       ad_target_level d =
         (if ap_enabled p \<and> current < ad_matched_level d then Some (current + 1) else None) \<and>
       (ad_adapter d = None \<longleftrightarrow> ad_target_level d = None) \<and>
       (\<forall>a. ad_adapter d = Some a \<longrightarrow> a \<in> set alert_notification_adapters \<and>
          (\<not> ad_on_call d \<longrightarrow> a = ap_out_of_hours_adapter p)))"
proof -
  note ok = from_values_ok[OF assms]
  note top = maximum_level_bounds[OF ok, of sev]
  note m = matched_level_le[of "maximum_level p sev" "ap_thresholds p" minutes]
  have err: "policy_evaluate local p sev minutes current at_time = Inl e \<longleftrightarrow>
            minutes < 0 \<and> e = Negative_Duration \<or>
            0 \<le> minutes \<and> (current < 0 \<or> 3 < current) \<and> e = Level_Out_Of_Range \<or>
            0 \<le> minutes \<and> 0 \<le> current \<and> current \<le> 3 \<and> (\<exists>n. at_time = Naive n) \<and> e = Naive_Time" for e
    using next_escalation_matched[OF ok, of current "maximum_level p sev"] top
    by (cases at_time) (auto simp: policy_evaluate_def Let_def)
  have "ad_matched_level d \<le> ad_maximum_level d \<and> ad_maximum_level d \<le> 3 \<and>
       ad_target_level d =
         (if ap_enabled p \<and> current < ad_matched_level d then Some (current + 1) else None) \<and>
       (ad_adapter d = None \<longleftrightarrow> ad_target_level d = None) \<and>
       (\<forall>a. ad_adapter d = Some a \<longrightarrow> a \<in> set alert_notification_adapters \<and>
          (\<not> ad_on_call d \<longrightarrow> a = ap_out_of_hours_adapter p))"
    if "policy_evaluate local p sev minutes current at_time = Inr d" for d
    using policy_evaluate_Inr[OF that ok] top m adapter_at_known[OF ok, of current] ok
    by (auto simp: Let_def route_def policy_ok_def)
  with err show ?thesis by blast
qed

theorem alert_escalates_one_due_level_witness:
  "\<exists>d. policy_evaluate (\<lambda>_ _. \<lparr>lt_weekday = 2, lt_hour = 20\<rparr>) usual_policy CRITICAL 130 0 (Aware 5) = Inr d \<and>
     ad_target_level d = Some 1"
proof -
  let ?r = "policy_evaluate (\<lambda>_ _. \<lparr>lt_weekday = 2, lt_hour = 20\<rparr>) usual_policy CRITICAL 130 0 (Aware 5)"
  obtain d where d: "?r = Inr d" and matched: "0 < ad_matched_level d"
    by (simp add: policy_evaluate_def next_escalation_def usual_policy_def maximum_level_def
        matched_level_def Let_def)
  then show ?thesis
    using alert_escalates_one_due_level[OF usual_policy_parsed,
        of "\<lambda>_ _. \<lparr>lt_weekday = 2, lt_hour = 20\<rparr>" CRITICAL 130 0 "Aware 5"]
    by (simp add: usual_policy_def)
qed

section \<open>The on-call window\<close>

text \<open>
  The shift that begins on weekday \<open>d\<close> (Monday is 0), in hours of the week: from the start hour to
  the end hour, past midnight when the end hour is not later, the whole day when they are equal.
\<close>

definition shift_start :: "alert_policy \<Rightarrow> nat \<Rightarrow> int" where
  "shift_start p d = 24 * int d + (if ap_start_hour p = ap_end_hour p then 0 else ap_start_hour p)"

definition shift_end :: "alert_policy \<Rightarrow> nat \<Rightarrow> int" where
  "shift_end p d = 24 * int d + (if ap_start_hour p < ap_end_hour p then ap_end_hour p
     else if ap_start_hour p = ap_end_hour p then 24 else 24 + ap_end_hour p)"

definition in_shift :: "alert_policy \<Rightarrow> local_time \<Rightarrow> nat \<Rightarrow> bool" where
  "in_shift p t d \<longleftrightarrow>
     (let h = 24 * int (lt_weekday t) + lt_hour t in
      shift_start p d \<le> h \<and> h < shift_end p d \<or>
      shift_start p d \<le> h + 168 \<and> h + 168 < shift_end p d)"

lemma hour_slot:
  assumes "0 \<le> s" "s \<le> 23" "e \<le> 47" "0 \<le> h" "h < (24::int)"
  shows "24 * d + s \<le> 24 * w + h \<and> 24 * w + h < 24 * d + e \<longleftrightarrow>
     w = d \<and> s \<le> h \<and> h < e \<or> w = d + 1 \<and> h + 24 < e"
proof -
  consider "w < d" | "w = d" | "w = d + 1" | "d + 2 \<le> w" by linarith
  then show ?thesis using assms by cases auto
qed

lemma in_shift_day:
  assumes "lt_weekday t < 7" and "d < 7" and "0 \<le> lt_hour t" and "lt_hour t < 24"
    and "0 \<le> ap_start_hour p" and "ap_start_hour p \<le> 23" and "0 \<le> ap_end_hour p" and "ap_end_hour p \<le> 23"
  shows "in_shift p t d \<longleftrightarrow>
     d = lt_weekday t \<and> (ap_start_hour p = ap_end_hour p \<or>
       ap_start_hour p \<le> lt_hour t \<and> (ap_start_hour p < ap_end_hour p \<longrightarrow> lt_hour t < ap_end_hour p)) \<or>
     d = (lt_weekday t + 6) mod 7 \<and> ap_end_hour p < ap_start_hour p \<and> lt_hour t < ap_end_hour p"
proof -
  define s where "s = (if ap_start_hour p = ap_end_hour p then 0 else ap_start_hour p)"
  define e where "e = (if ap_start_hour p < ap_end_hour p then ap_end_hour p
     else if ap_start_hour p = ap_end_hour p then 24 else 24 + ap_end_hour p)"
  have bounds: "0 \<le> s" "s \<le> 23" "e \<le> 47" using assms(5-8) by (auto simp: s_def e_def)
  note slot = hour_slot[OF bounds assms(3,4)]
  have "in_shift p t d \<longleftrightarrow>
     24 * int d + s \<le> 24 * int (lt_weekday t) + lt_hour t \<and>
       24 * int (lt_weekday t) + lt_hour t < 24 * int d + e \<or>
     24 * int d + s \<le> 24 * (int (lt_weekday t) + 7) + lt_hour t \<and>
       24 * (int (lt_weekday t) + 7) + lt_hour t < 24 * int d + e"
    by (simp add: in_shift_def shift_start_def shift_end_def s_def e_def Let_def algebra_simps)
  also have "\<dots> \<longleftrightarrow> d = lt_weekday t \<and> s \<le> lt_hour t \<and> lt_hour t < e \<or>
      (lt_weekday t = d + 1 \<or> lt_weekday t = 0 \<and> d = 6) \<and> lt_hour t + 24 < e"
    unfolding slot using assms(1,2) by auto
  also have "lt_weekday t = d + 1 \<or> lt_weekday t = 0 \<and> d = 6 \<longleftrightarrow> d = (lt_weekday t + 6) mod 7"
    using assms(1,2) by (cases "lt_weekday t") auto
  finally have "in_shift p t d \<longleftrightarrow> d = lt_weekday t \<and> s \<le> lt_hour t \<and> lt_hour t < e \<or>
      d = (lt_weekday t + 6) mod 7 \<and> lt_hour t + 24 < e" .
  moreover have "s \<le> lt_hour t \<and> lt_hour t < e \<longleftrightarrow> ap_start_hour p = ap_end_hour p \<or>
      ap_start_hour p \<le> lt_hour t \<and> (ap_start_hour p < ap_end_hour p \<longrightarrow> lt_hour t < ap_end_hour p)"
    using assms(3-8) by (auto simp: s_def e_def)
  moreover have "lt_hour t + 24 < e \<longleftrightarrow> ap_end_hour p < ap_start_hour p \<and> lt_hour t < ap_end_hour p"
    using assms(3-8) by (auto simp: e_def)
  ultimately show ?thesis by blast
qed

text \<open>
  the on-call test of a parsed policy holds exactly when the local time lies in the shift of
  one of the selected weekdays, with night shifts belonging to the day they begin on and the week
  wrapping round from Sunday to Monday.
\<close>
lemma on_call_iff_in_selected_shift:
  assumes "from_values zone_known vs = Inr p"
    and "lt_weekday t < 7" and "0 \<le> lt_hour t" and "lt_hour t < 24"
  shows "is_on_call p t \<longleftrightarrow> (\<exists>d < 7. weekday_name d \<in> set (ap_weekdays p) \<and> in_shift p t d)"
proof -
  from from_values_ok[OF assms(1)] have hours: "0 \<le> ap_start_hour p" "ap_start_hour p \<le> 23"
    "0 \<le> ap_end_hour p" "ap_end_hour p \<le> 23" by (simp_all add: policy_ok_def)
  define prev where "prev = (lt_weekday t + 6) mod 7"
  have prev: "prev < 7" "weekday_name (lt_weekday t + 6) = weekday_name prev"
    by (simp_all add: prev_def weekday_name_def)
  note day = in_shift_day[OF assms(2) _ assms(3,4) hours, folded prev_def]
  show ?thesis
    using assms(2) prev day unfolding is_on_call_def Let_def
    by (auto split: if_splits)
qed

lemma on_call_iff_in_selected_shift_instance:
  "\<exists>d < 7. weekday_name d \<in> set (ap_weekdays usual_policy) \<and>
     in_shift usual_policy \<lparr>lt_weekday = 4, lt_hour = 17\<rparr> d"
proof -
  have "is_on_call usual_policy \<lparr>lt_weekday = 4, lt_hour = 17\<rparr>"
    by (simp add: is_on_call_def usual_policy_def weekday_name_def on_call_weekdays_def)
  then show ?thesis
    using on_call_iff_in_selected_shift[OF usual_policy_parsed, of "\<lparr>lt_weekday = 4, lt_hour = 17\<rparr>"]
    by simp
qed

end
