(* ===== verification/Config_Defaults.thy ===== *)
theory Config_Defaults
  imports Config_Effective Alert_Properties
begin

text \<open>
  The built-in definitions of \<open>build_default_registry\<close>, in the source's order and cut into lists of
  about ten, and what they promise: keys are distinct, every definition may be constructed, every
  default satisfies its own definition, and the defaults alone form a valid alert policy. A float is
  written as the exact fraction its literal denotes; labels and descriptions are left out (see
  \<open>Config_Domain\<close>).
\<close>

section \<open>The definitions\<close>

definition system_and_tenant :: "config_scope list" where
  "system_and_tenant = [SYSTEM, TENANT]"

definition per_agent :: "config_scope list" where
  "per_agent = system_and_tenant @ [AGENT]"

definition per_channel :: "config_scope list" where
  "per_channel = per_agent @ [CHANNEL]"

text \<open>A definition with the dataclass defaults: no bounds, no options, not secret, hot reload.\<close>

definition setting ::
    "ustr \<Rightarrow> ustr \<Rightarrow> config_value_kind \<Rightarrow> json \<Rightarrow> config_scope list \<Rightarrow> config_definition" where
  "setting k sec kind dflt scopes =
     \<lparr>cd_key = k, cd_section = sec, cd_value_kind = kind, cd_default = dflt, cd_scopes = scopes,
      cd_secret = False, cd_hot_reload = True, cd_minimum = None, cd_maximum = None, cd_options = []\<rparr>"

definition settings_1 :: "config_definition list" where
  "settings_1 =
     [setting (lit ''system.default_timezone'') (lit ''system'') STRING (JStr (lit ''Asia/Shanghai''))
        [SYSTEM, TENANT, USER],
      (setting (lit ''cognition.context.max_tokens'') (lit ''cognition'') INTEGER (JInt 24000)
        per_agent)
        \<lparr>cd_minimum := Some (2048), cd_maximum := Some (200000)\<rparr>,
      setting (lit ''cognition.context.summary_enabled'') (lit ''cognition'') BOOLEAN (JBool True)
        per_agent,
      (setting (lit ''cognition.context.source_message_limit'') (lit ''cognition'') INTEGER (JInt 240)
        per_agent)
        \<lparr>cd_minimum := Some (40), cd_maximum := Some (2000)\<rparr>,
      (setting (lit ''cognition.context.recent_message_limit'') (lit ''cognition'') INTEGER (JInt 24)
        per_agent)
        \<lparr>cd_minimum := Some (4), cd_maximum := Some (200)\<rparr>,
      (setting (lit ''cognition.context.summary_chunk_size'') (lit ''cognition'') INTEGER (JInt 8)
        per_agent)
        \<lparr>cd_minimum := Some (2), cd_maximum := Some (64)\<rparr>,
      (setting (lit ''cognition.context.summary_max_levels'') (lit ''cognition'') INTEGER (JInt 4)
        per_agent)
        \<lparr>cd_minimum := Some (1), cd_maximum := Some (8)\<rparr>,
      (setting (lit ''cognition.context.summary_token_budget'') (lit ''cognition'') INTEGER (JInt 4096)
        per_agent)
        \<lparr>cd_minimum := Some (128), cd_maximum := Some (64000)\<rparr>,
      (setting (lit ''cognition.affect.half_life_seconds'') (lit ''cognition'') INTEGER (JInt 21600)
        per_agent)
        \<lparr>cd_minimum := Some (60), cd_maximum := Some (604800)\<rparr>,
      setting (lit ''cognition.reflection.enabled'') (lit ''cognition'') BOOLEAN (JBool True)
        per_agent,
      (setting (lit ''cognition.reflection.delay_seconds'') (lit ''cognition'') INTEGER (JInt 3)
        per_agent)
        \<lparr>cd_minimum := Some (0), cd_maximum := Some (3600)\<rparr>]"

definition settings_2 :: "config_definition list" where
  "settings_2 =
     [(setting (lit ''cognition.reflection.minimum_importance'') (lit ''cognition'') NUMBER (JFloat (8106479329266893 / 18014398509481984))
        per_agent)
        \<lparr>cd_minimum := Some (0), cd_maximum := Some (1)\<rparr>,
      (setting (lit ''cognition.reflection.memory_write_mode'') (lit ''cognition'') STRING (JStr (lit ''high_precision''))
        per_agent)
        \<lparr>cd_options := [lit ''high_precision'', lit ''balanced'']\<rparr>,
      (setting (lit ''cognition.reflection.relationship_positive_step'') (lit ''cognition'') NUMBER (JFloat (5764607523034235 / 288230376151711744))
        per_agent)
        \<lparr>cd_minimum := Some (0), cd_maximum := Some (3602879701896397 / 18014398509481984)\<rparr>,
      (setting (lit ''cognition.reflection.relationship_negative_step'') (lit ''cognition'') NUMBER (JFloat (5764607523034235 / 144115188075855872))
        per_agent)
        \<lparr>cd_minimum := Some (0), cd_maximum := Some (3602879701896397 / 18014398509481984)\<rparr>,
      (setting (lit ''cognition.reflection.familiarity_step'') (lit ''cognition'') NUMBER (JFloat (1080863910568919 / 72057594037927936))
        per_agent)
        \<lparr>cd_minimum := Some (0), cd_maximum := Some (3602879701896397 / 18014398509481984)\<rparr>,
      (setting (lit ''evaluation.comparison.max_candidates'') (lit ''evaluation'') INTEGER (JInt 4)
        per_agent)
        \<lparr>cd_minimum := Some (2), cd_maximum := Some (8)\<rparr>,
      (setting (lit ''tasks.max_attempts'') (lit ''tasks'') INTEGER (JInt 5)
        system_and_tenant)
        \<lparr>cd_minimum := Some (1), cd_maximum := Some (20)\<rparr>,
      (setting (lit ''tasks.lease_seconds'') (lit ''tasks'') INTEGER (JInt 120)
        system_and_tenant)
        \<lparr>cd_minimum := Some (5), cd_maximum := Some (3600)\<rparr>,
      (setting (lit ''tasks.retry_base_seconds'') (lit ''tasks'') INTEGER (JInt 5)
        system_and_tenant)
        \<lparr>cd_minimum := Some (1), cd_maximum := Some (600)\<rparr>,
      (setting (lit ''inbox.max_payload_bytes'') (lit ''inbox'') INTEGER (JInt 1048576)
        per_channel)
        \<lparr>cd_minimum := Some (1024), cd_maximum := Some (10485760)\<rparr>,
      (setting (lit ''inbox.max_event_age_seconds'') (lit ''inbox'') INTEGER (JInt 300)
        per_channel)
        \<lparr>cd_minimum := Some (1), cd_maximum := Some (86400)\<rparr>]"

definition settings_3 :: "config_definition list" where
  "settings_3 =
     [(setting (lit ''inbox.max_attempts'') (lit ''inbox'') INTEGER (JInt 5)
        per_channel)
        \<lparr>cd_minimum := Some (1), cd_maximum := Some (20)\<rparr>,
      setting (lit ''inbox.replay_enabled'') (lit ''inbox'') BOOLEAN (JBool True)
        per_channel,
      (setting (lit ''observability.window_minutes'') (lit ''observability'') INTEGER (JInt 60)
        system_and_tenant)
        \<lparr>cd_minimum := Some (5), cd_maximum := Some (10080)\<rparr>,
      (setting (lit ''alerts.baseline.window_minutes'') (lit ''observability'') INTEGER (JInt 480)
        system_and_tenant)
        \<lparr>cd_minimum := Some (60), cd_maximum := Some (10080)\<rparr>,
      (setting (lit ''alerts.baseline.periods'') (lit ''observability'') INTEGER (JInt 7)
        system_and_tenant)
        \<lparr>cd_minimum := Some (3), cd_maximum := Some (30)\<rparr>,
      (setting (lit ''alerts.baseline.sensitivity'') (lit ''observability'') NUMBER (JFloat (3))
        system_and_tenant)
        \<lparr>cd_minimum := Some (1), cd_maximum := Some (10)\<rparr>,
      (setting (lit ''alerts.baseline.minimum_current_count'') (lit ''observability'') INTEGER (JInt 3)
        system_and_tenant)
        \<lparr>cd_minimum := Some (1), cd_maximum := Some (10000)\<rparr>,
      (setting (lit ''alerts.recommendation.long_running_minutes'') (lit ''observability'') INTEGER (JInt 120)
        per_agent)
        \<lparr>cd_minimum := Some (5), cd_maximum := Some (525600)\<rparr>,
      (setting (lit ''alerts.recommendation.suppression_minutes'') (lit ''observability'') INTEGER (JInt 60)
        per_agent)
        \<lparr>cd_minimum := Some (5), cd_maximum := Some (10080)\<rparr>,
      (setting (lit ''alerts.recommendation.minimum_repeated_occurrences'') (lit ''observability'') INTEGER (JInt 3)
        per_agent)
        \<lparr>cd_minimum := Some (2), cd_maximum := Some (10000)\<rparr>,
      (setting (lit ''alerts.recommendation.calibration.window_days'') (lit ''observability'') INTEGER (JInt 30)
        per_agent)
        \<lparr>cd_minimum := Some (7), cd_maximum := Some (365)\<rparr>]"

definition settings_4 :: "config_definition list" where
  "settings_4 =
     [(setting (lit ''alerts.recommendation.calibration.minimum_samples_per_group'') (lit ''observability'') INTEGER (JInt 20)
        per_agent)
        \<lparr>cd_minimum := Some (5), cd_maximum := Some (10000)\<rparr>,
      (setting (lit ''alerts.recommendation.calibration.target_acceptance_rate_percent'') (lit ''observability'') NUMBER (JFloat (70))
        per_agent)
        \<lparr>cd_minimum := Some (50), cd_maximum := Some (3514918771674317 / 35184372088832)\<rparr>,
      (setting (lit ''slo.api.maximum_error_rate_percent'') (lit ''observability'') NUMBER (JFloat (1))
        system_and_tenant)
        \<lparr>cd_minimum := Some (0), cd_maximum := Some (100)\<rparr>,
      (setting (lit ''slo.api.maximum_p95_ms'') (lit ''observability'') INTEGER (JInt 500)
        system_and_tenant)
        \<lparr>cd_minimum := Some (1), cd_maximum := Some (600000)\<rparr>,
      (setting (lit ''slo.agent.minimum_success_rate_percent'') (lit ''observability'') NUMBER (JFloat (99))
        system_and_tenant)
        \<lparr>cd_minimum := Some (0), cd_maximum := Some (100)\<rparr>,
      (setting (lit ''slo.agent.maximum_p95_ms'') (lit ''observability'') INTEGER (JInt 15000)
        system_and_tenant)
        \<lparr>cd_minimum := Some (1), cd_maximum := Some (3600000)\<rparr>,
      (setting (lit ''alerts.queue.maximum_backlog'') (lit ''observability'') INTEGER (JInt 100)
        system_and_tenant)
        \<lparr>cd_minimum := Some (0), cd_maximum := Some (1000000)\<rparr>,
      (setting (lit ''alerts.model.maximum_failure_rate_percent'') (lit ''observability'') NUMBER (JFloat (5))
        system_and_tenant)
        \<lparr>cd_minimum := Some (0), cd_maximum := Some (100)\<rparr>,
      (setting (lit ''alerts.queue.maximum_oldest_wait_seconds'') (lit ''observability'') INTEGER (JInt 300)
        system_and_tenant)
        \<lparr>cd_minimum := Some (0), cd_maximum := Some (604800)\<rparr>,
      setting (lit ''alerts.channel.enabled'') (lit ''observability'') BOOLEAN (JBool True)
        system_and_tenant,
      setting (lit ''alerts.channel.enabled_error_codes'') (lit ''observability'') STRING_LIST (JList [JStr (lit ''*'')])
        system_and_tenant]"

definition settings_5 :: "config_definition list" where
  "settings_5 =
     [(setting (lit ''alerts.channel.minimum_severity'') (lit ''observability'') STRING (JStr (lit ''warning''))
        system_and_tenant)
        \<lparr>cd_options := [lit ''warning'', lit ''critical'']\<rparr>,
      (setting (lit ''alerts.channel.cooldown_minutes'') (lit ''observability'') INTEGER (JInt 15)
        system_and_tenant)
        \<lparr>cd_minimum := Some (1), cd_maximum := Some (1440)\<rparr>,
      (setting (lit ''alerts.channel.failure_rate_percent'') (lit ''observability'') NUMBER (JFloat (5))
        system_and_tenant)
        \<lparr>cd_minimum := Some (0), cd_maximum := Some (100)\<rparr>,
      (setting (lit ''alerts.channel.health_degraded_minutes'') (lit ''observability'') INTEGER (JInt 5)
        system_and_tenant)
        \<lparr>cd_minimum := Some (1), cd_maximum := Some (10080)\<rparr>,
      (setting (lit ''alerts.notification.adapter'') (lit ''observability'') STRING (JStr (lit ''webhook''))
        per_agent)
        \<lparr>cd_options := [lit ''webhook'', lit ''feishu_webhook'', lit ''email'']\<rparr>,
      setting (lit ''alerts.notification.enabled'') (lit ''observability'') BOOLEAN (JBool False)
        per_agent,
      setting (lit ''alerts.notification.recovery_enabled'') (lit ''observability'') BOOLEAN (JBool True)
        per_agent,
      setting (lit ''alerts.notification.escalation_enabled'') (lit ''observability'') BOOLEAN (JBool True)
        per_agent,
      (setting (lit ''alerts.notification.escalation_after_minutes'') (lit ''observability'') INTEGER (JInt 30)
        per_agent)
        \<lparr>cd_minimum := Some (1), cd_maximum := Some (10080)\<rparr>,
      (setting (lit ''alerts.notification.escalation_level_2_after_minutes'') (lit ''observability'') INTEGER (JInt 120)
        per_agent)
        \<lparr>cd_minimum := Some (1), cd_maximum := Some (10080)\<rparr>,
      (setting (lit ''alerts.notification.escalation_level_3_after_minutes'') (lit ''observability'') INTEGER (JInt 360)
        per_agent)
        \<lparr>cd_minimum := Some (1), cd_maximum := Some (10080)\<rparr>]"

definition settings_6 :: "config_definition list" where
  "settings_6 =
     [(setting (lit ''alerts.notification.escalation_level_1_adapter'') (lit ''observability'') STRING (JStr (lit ''default''))
        per_agent)
        \<lparr>cd_options := [lit ''default'', lit ''webhook'', lit ''feishu_webhook'', lit ''email'']\<rparr>,
      (setting (lit ''alerts.notification.escalation_level_2_adapter'') (lit ''observability'') STRING (JStr (lit ''default''))
        per_agent)
        \<lparr>cd_options := [lit ''default'', lit ''webhook'', lit ''feishu_webhook'', lit ''email'']\<rparr>,
      (setting (lit ''alerts.notification.escalation_level_3_adapter'') (lit ''observability'') STRING (JStr (lit ''default''))
        per_agent)
        \<lparr>cd_options := [lit ''default'', lit ''webhook'', lit ''feishu_webhook'', lit ''email'']\<rparr>,
      (setting (lit ''alerts.notification.warning_max_escalation_level'') (lit ''observability'') INTEGER (JInt 1)
        per_agent)
        \<lparr>cd_minimum := Some (0), cd_maximum := Some (3)\<rparr>,
      setting (lit ''alerts.notification.on_call_timezone'') (lit ''observability'') STRING (JStr (lit ''Asia/Shanghai''))
        per_agent,
      setting (lit ''alerts.notification.on_call_weekdays'') (lit ''observability'') STRING_LIST (JList [JStr (lit ''mon''), JStr (lit ''tue''), JStr (lit ''wed''), JStr (lit ''thu''), JStr (lit ''fri'')])
        per_agent,
      (setting (lit ''alerts.notification.on_call_start_hour'') (lit ''observability'') INTEGER (JInt 9)
        per_agent)
        \<lparr>cd_minimum := Some (0), cd_maximum := Some (23)\<rparr>,
      (setting (lit ''alerts.notification.on_call_end_hour'') (lit ''observability'') INTEGER (JInt 18)
        per_agent)
        \<lparr>cd_minimum := Some (0), cd_maximum := Some (23)\<rparr>,
      (setting (lit ''alerts.notification.out_of_hours_adapter'') (lit ''observability'') STRING (JStr (lit ''default''))
        per_agent)
        \<lparr>cd_options := [lit ''default'', lit ''webhook'', lit ''feishu_webhook'', lit ''email'']\<rparr>,
      setting (lit ''alerts.notification.feishu_webhook_url'') (lit ''observability'') STRING (JStr (lit ''''))
        per_agent,
      (setting (lit ''alerts.notification.feishu_signing_secret'') (lit ''observability'') SECRET JNull
        per_agent)
        \<lparr>cd_secret := True\<rparr>]"

definition settings_7 :: "config_definition list" where
  "settings_7 =
     [setting (lit ''alerts.notification.email.smtp_host'') (lit ''observability'') STRING (JStr (lit ''''))
        per_agent,
      (setting (lit ''alerts.notification.email.smtp_port'') (lit ''observability'') INTEGER (JInt 587)
        per_agent)
        \<lparr>cd_minimum := Some (1), cd_maximum := Some (65535)\<rparr>,
      setting (lit ''alerts.notification.email.smtp_username'') (lit ''observability'') STRING (JStr (lit ''''))
        per_agent,
      setting (lit ''alerts.notification.email.from_address'') (lit ''observability'') STRING (JStr (lit ''''))
        per_agent,
      setting (lit ''alerts.notification.email.recipient'') (lit ''observability'') STRING (JStr (lit ''''))
        per_agent,
      setting (lit ''alerts.notification.email.smtp_tls'') (lit ''observability'') BOOLEAN (JBool True)
        per_agent,
      (setting (lit ''alerts.notification.email_password'') (lit ''observability'') SECRET JNull
        per_agent)
        \<lparr>cd_secret := True\<rparr>,
      setting (lit ''alerts.notification.webhook_url'') (lit ''observability'') STRING (JStr (lit ''''))
        per_agent,
      (setting (lit ''alerts.notification.webhook_timeout_seconds'') (lit ''observability'') INTEGER (JInt 5)
        per_agent)
        \<lparr>cd_minimum := Some (1), cd_maximum := Some (30)\<rparr>,
      (setting (lit ''alerts.notification.webhook_max_retries'') (lit ''observability'') INTEGER (JInt 2)
        per_agent)
        \<lparr>cd_minimum := Some (0), cd_maximum := Some (5)\<rparr>,
      (setting (lit ''alerts.notification.webhook_signing_secret'') (lit ''observability'') SECRET JNull
        per_agent)
        \<lparr>cd_secret := True\<rparr>]"

definition settings_8 :: "config_definition list" where
  "settings_8 =
     [(setting (lit ''cost.window_budget_usd'') (lit ''observability'') NUMBER (JFloat (5))
        system_and_tenant)
        \<lparr>cd_minimum := Some (0), cd_maximum := Some (1000000)\<rparr>,
      (setting (lit ''evaluation.approval.ed25519_private_key'') (lit ''evaluation'') SECRET JNull
        [AGENT])
        \<lparr>cd_secret := True\<rparr>,
      (setting (lit ''memory.recall.limit'') (lit ''memory'') INTEGER (JInt 12)
        per_agent)
        \<lparr>cd_minimum := Some (1), cd_maximum := Some (100)\<rparr>,
      (setting (lit ''memory.embedding.version'') (lit ''memory'') STRING (JStr (lit ''local-hash-v1''))
        per_agent)
        \<lparr>cd_options := [lit ''local-hash-v1'']\<rparr>,
      (setting (lit ''memory.recall.candidate_pool'') (lit ''memory'') INTEGER (JInt 60)
        per_agent)
        \<lparr>cd_minimum := Some (1), cd_maximum := Some (500)\<rparr>,
      (setting (lit ''memory.recall.recency_half_life_days'') (lit ''memory'') NUMBER (JFloat (30))
        per_agent)
        \<lparr>cd_minimum := Some (3602879701896397 / 36028797018963968), cd_maximum := Some (3650)\<rparr>,
      (setting (lit ''memory.recall.maximum_sensitivity'') (lit ''memory'') STRING (JStr (lit ''personal''))
        per_agent)
        \<lparr>cd_options := [lit ''normal'', lit ''personal'', lit ''sensitive'', lit ''restricted'']\<rparr>,
      (setting (lit ''memory.recall.full_text_weight'') (lit ''memory'') NUMBER (JFloat (1 / 4))
        per_agent)
        \<lparr>cd_minimum := Some (0), cd_maximum := Some (1)\<rparr>,
      (setting (lit ''model.chat.max_output_tokens'') (lit ''model'') INTEGER (JInt 1024)
        all_scopes)
        \<lparr>cd_minimum := Some (64), cd_maximum := Some (32768)\<rparr>,
      (setting (lit ''model.chat.total_token_budget'') (lit ''model'') INTEGER (JInt 26000)
        all_scopes)
        \<lparr>cd_minimum := Some (2048), cd_maximum := Some (240000)\<rparr>,
      (setting (lit ''model.chat.timeout_seconds'') (lit ''model'') INTEGER (JInt 60)
        per_channel)
        \<lparr>cd_minimum := Some (5), cd_maximum := Some (600)\<rparr>]"

definition settings_9 :: "config_definition list" where
  "settings_9 =
     [(setting (lit ''model.chat.max_attempts'') (lit ''model'') INTEGER (JInt 2)
        per_channel)
        \<lparr>cd_minimum := Some (1), cd_maximum := Some (5)\<rparr>,
      (setting (lit ''model.chat.fallback_provider'') (lit ''model'') STRING (JStr (lit ''development''))
        per_channel)
        \<lparr>cd_options := [lit ''development'', lit ''openai'']\<rparr>,
      (setting (lit ''model.chat.circuit_breaker_failures'') (lit ''model'') INTEGER (JInt 3)
        per_channel)
        \<lparr>cd_minimum := Some (1), cd_maximum := Some (20)\<rparr>,
      (setting (lit ''model.chat.circuit_breaker_cooldown_seconds'') (lit ''model'') INTEGER (JInt 30)
        per_channel)
        \<lparr>cd_minimum := Some (1), cd_maximum := Some (3600)\<rparr>,
      (setting (lit ''model.chat.provider'') (lit ''model'') STRING (JStr (lit ''development''))
        per_channel)
        \<lparr>cd_options := [lit ''development'', lit ''openai'']\<rparr>,
      (setting (lit ''model.openai.api_key'') (lit ''model'') SECRET JNull
        per_agent)
        \<lparr>cd_secret := True\<rparr>,
      setting (lit ''model.openai.model'') (lit ''model'') STRING (JStr (lit ''gpt-5-mini''))
        per_channel,
      (setting (lit ''memory.recall.semantic_weight'') (lit ''memory'') NUMBER (JFloat (3152519739159347 / 9007199254740992))
        per_agent)
        \<lparr>cd_minimum := Some (0), cd_maximum := Some (1)\<rparr>,
      (setting (lit ''memory.recall.recency_weight'') (lit ''memory'') NUMBER (JFloat (5404319552844595 / 36028797018963968))
        per_agent)
        \<lparr>cd_minimum := Some (0), cd_maximum := Some (1)\<rparr>,
      (setting (lit ''memory.recall.importance_weight'') (lit ''memory'') NUMBER (JFloat (5404319552844595 / 36028797018963968))
        per_agent)
        \<lparr>cd_minimum := Some (0), cd_maximum := Some (1)\<rparr>,
      (setting (lit ''memory.recall.relationship_weight'') (lit ''memory'') NUMBER (JFloat (3602879701896397 / 36028797018963968))
        per_agent)
        \<lparr>cd_minimum := Some (0), cd_maximum := Some (1)\<rparr>]"

definition settings_10 :: "config_definition list" where
  "settings_10 =
     [setting (lit ''proactive.enabled'') (lit ''proactive'') BOOLEAN (JBool False)
        all_scopes,
      (setting (lit ''proactive.minimum_score'') (lit ''proactive'') NUMBER (JFloat (3152519739159347 / 4503599627370496))
        all_scopes)
        \<lparr>cd_minimum := Some (0), cd_maximum := Some (1)\<rparr>,
      (setting (lit ''proactive.quiet_hours_start'') (lit ''proactive'') INTEGER (JInt 22)
        all_scopes)
        \<lparr>cd_minimum := Some (0), cd_maximum := Some (23)\<rparr>,
      (setting (lit ''proactive.quiet_hours_end'') (lit ''proactive'') INTEGER (JInt 8)
        all_scopes)
        \<lparr>cd_minimum := Some (0), cd_maximum := Some (23)\<rparr>,
      (setting (lit ''proactive.require_recent_user_days'') (lit ''proactive'') INTEGER (JInt 30)
        all_scopes)
        \<lparr>cd_minimum := Some (1), cd_maximum := Some (365)\<rparr>,
      setting (lit ''persona.system_prompt'') (lit ''persona'') STRING (JStr ([20320, 26159, 19968, 20010, 33258, 28982, 12289, 21451, 21892, 19988, 23562, 37325, 36793, 30028, 30340, 36187, 21338, 32593, 21451, 12290, 35831, 30452, 25509, 22238, 24212, 29992, 25143, 65292, 19981, 35201, 22768, 31216, 25191, 34892, 20102, 26410, 21457, 29983, 30340, 25805, 20316, 12290]))
        per_agent,
      (setting (lit ''proactive.daily_message_budget'') (lit ''proactive'') INTEGER (JInt 2)
        all_scopes)
        \<lparr>cd_minimum := Some (0), cd_maximum := Some (20)\<rparr>,
      (setting (lit ''attachment.max_size_bytes'') (lit ''attachment'') INTEGER (JInt 26214400)
        per_agent)
        \<lparr>cd_minimum := Some (1), cd_maximum := Some (262144000)\<rparr>,
      setting (lit ''attachment.allowed_mime_types'') (lit ''attachment'') STRING_LIST (JList [JStr (lit ''image/png''), JStr (lit ''image/jpeg''), JStr (lit ''image/webp''), JStr (lit ''image/gif''), JStr (lit ''text/plain''), JStr (lit ''text/markdown''), JStr (lit ''text/csv''), JStr (lit ''application/json''), JStr (lit ''application/pdf''), JStr (lit ''application/vnd.openxmlformats-officedocument.wordprocessingml.document'')])
        per_agent,
      (setting (lit ''attachment.upload_expiry_seconds'') (lit ''attachment'') INTEGER (JInt 900)
        per_agent)
        \<lparr>cd_minimum := Some (60), cd_maximum := Some (3600)\<rparr>,
      (setting (lit ''model.multimodal.max_image_bytes'') (lit ''multimodal'') INTEGER (JInt 5242880)
        per_agent)
        \<lparr>cd_minimum := Some (65536), cd_maximum := Some (26214400)\<rparr>]"

definition settings_11 :: "config_definition list" where
  "settings_11 =
     [(setting (lit ''model.multimodal.max_document_bytes'') (lit ''multimodal'') INTEGER (JInt 10485760)
        per_agent)
        \<lparr>cd_minimum := Some (65536), cd_maximum := Some (26214400)\<rparr>,
      (setting (lit ''model.multimodal.max_total_bytes'') (lit ''multimodal'') INTEGER (JInt 20971520)
        per_agent)
        \<lparr>cd_minimum := Some (65536), cd_maximum := Some (52428800)\<rparr>,
      (setting (lit ''model.multimodal.max_document_characters'') (lit ''multimodal'') INTEGER (JInt 100000)
        per_agent)
        \<lparr>cd_minimum := Some (1000), cd_maximum := Some (1000000)\<rparr>,
      (setting (lit ''model.multimodal.max_pdf_pages'') (lit ''multimodal'') INTEGER (JInt 50)
        per_agent)
        \<lparr>cd_minimum := Some (1), cd_maximum := Some (500)\<rparr>,
      (setting (lit ''data.retention.deleted_agent_days'') (lit ''data_lifecycle'') INTEGER (JInt 30)
        system_and_tenant)
        \<lparr>cd_minimum := Some (1), cd_maximum := Some (3650)\<rparr>,
      (setting (lit ''data.retention.deleted_conversation_days'') (lit ''data_lifecycle'') INTEGER (JInt 30)
        all_scopes)
        \<lparr>cd_minimum := Some (1), cd_maximum := Some (3650)\<rparr>,
      (setting (lit ''data.retention.deleted_attachment_days'') (lit ''data_lifecycle'') INTEGER (JInt 7)
        all_scopes)
        \<lparr>cd_minimum := Some (1), cd_maximum := Some (3650)\<rparr>,
      (setting (lit ''data.retention.observability_disposition_event_days'') (lit ''data_lifecycle'') INTEGER (JInt 90)
        system_and_tenant)
        \<lparr>cd_minimum := Some (1), cd_maximum := Some (3650)\<rparr>,
      (setting (lit ''data.retention.observability_replay_review_days'') (lit ''data_lifecycle'') INTEGER (JInt 90)
        system_and_tenant)
        \<lparr>cd_minimum := Some (1), cd_maximum := Some (3650)\<rparr>,
      (setting (lit ''data.retention.observability_recommendation_feedback_days'') (lit ''data_lifecycle'') INTEGER (JInt 90)
        system_and_tenant)
        \<lparr>cd_minimum := Some (1), cd_maximum := Some (3650)\<rparr>,
      (setting (lit ''data.retention.orphan_grace_hours'') (lit ''data_lifecycle'') INTEGER (JInt 24)
        all_scopes)
        \<lparr>cd_minimum := Some (1), cd_maximum := Some (720)\<rparr>]"

definition settings_12 :: "config_definition list" where
  "settings_12 =
     [(setting (lit ''data.retention.batch_size'') (lit ''data_lifecycle'') INTEGER (JInt 100)
        all_scopes)
        \<lparr>cd_minimum := Some (1), cd_maximum := Some (1000)\<rparr>,
      (setting (lit ''data.export.max_records'') (lit ''data_lifecycle'') INTEGER (JInt 10000)
        all_scopes)
        \<lparr>cd_minimum := Some (100), cd_maximum := Some (100000)\<rparr>,
      (setting (lit ''data.export.max_bytes'') (lit ''data_lifecycle'') INTEGER (JInt 26214400)
        all_scopes)
        \<lparr>cd_minimum := Some (1048576), cd_maximum := Some (104857600)\<rparr>,
      (setting (lit ''data.backup.expected_interval_hours'') (lit ''data_lifecycle'') INTEGER (JInt 720)
        all_scopes)
        \<lparr>cd_minimum := Some (1), cd_maximum := Some (8760)\<rparr>,
      (setting (lit ''channel.feishu.bot_credential'') (lit ''channel'') SECRET JNull
        [CHANNEL])
        \<lparr>cd_secret := True\<rparr>,
      (setting (lit ''channel.discord.bot_token'') (lit ''channel'') SECRET JNull
        [CHANNEL])
        \<lparr>cd_secret := True\<rparr>,
      (setting (lit ''channel.telegram.bot_token'') (lit ''channel'') SECRET JNull
        [CHANNEL])
        \<lparr>cd_secret := True\<rparr>,
      (setting (lit ''channel.connection_probe_interval_minutes'') (lit ''channel'') INTEGER (JInt 15)
        [CHANNEL])
        \<lparr>cd_minimum := Some (1), cd_maximum := Some (1440)\<rparr>,
      (setting (lit ''telegram_webhook_secret'') (lit ''channel'') SECRET JNull
        [CHANNEL])
        \<lparr>cd_secret := True\<rparr>]"

definition default_definitions :: "config_definition list" where
  "default_definitions =
     settings_1 @ settings_2 @ settings_3 @ settings_4 @ settings_5 @ settings_6 @
     settings_7 @ settings_8 @ settings_9 @ settings_10 @ settings_11 @ settings_12"

section \<open>Their keys\<close>

definition default_keys :: "string list" where
  "default_keys =
     [''system.default_timezone'',
      ''cognition.context.max_tokens'',
      ''cognition.context.summary_enabled'',
      ''cognition.context.source_message_limit'',
      ''cognition.context.recent_message_limit'',
      ''cognition.context.summary_chunk_size'',
      ''cognition.context.summary_max_levels'',
      ''cognition.context.summary_token_budget'',
      ''cognition.affect.half_life_seconds'',
      ''cognition.reflection.enabled'',
      ''cognition.reflection.delay_seconds'',
      ''cognition.reflection.minimum_importance'',
      ''cognition.reflection.memory_write_mode'',
      ''cognition.reflection.relationship_positive_step'',
      ''cognition.reflection.relationship_negative_step'',
      ''cognition.reflection.familiarity_step'',
      ''evaluation.comparison.max_candidates'',
      ''tasks.max_attempts'',
      ''tasks.lease_seconds'',
      ''tasks.retry_base_seconds'',
      ''inbox.max_payload_bytes'',
      ''inbox.max_event_age_seconds'',
      ''inbox.max_attempts'',
      ''inbox.replay_enabled'',
      ''observability.window_minutes'',
      ''alerts.baseline.window_minutes'',
      ''alerts.baseline.periods'',
      ''alerts.baseline.sensitivity'',
      ''alerts.baseline.minimum_current_count'',
      ''alerts.recommendation.long_running_minutes'',
      ''alerts.recommendation.suppression_minutes'',
      ''alerts.recommendation.minimum_repeated_occurrences'',
      ''alerts.recommendation.calibration.window_days'',
      ''alerts.recommendation.calibration.minimum_samples_per_group'',
      ''alerts.recommendation.calibration.target_acceptance_rate_percent'',
      ''slo.api.maximum_error_rate_percent'',
      ''slo.api.maximum_p95_ms'',
      ''slo.agent.minimum_success_rate_percent'',
      ''slo.agent.maximum_p95_ms'',
      ''alerts.queue.maximum_backlog'',
      ''alerts.model.maximum_failure_rate_percent'',
      ''alerts.queue.maximum_oldest_wait_seconds'',
      ''alerts.channel.enabled'',
      ''alerts.channel.enabled_error_codes'',
      ''alerts.channel.minimum_severity'',
      ''alerts.channel.cooldown_minutes'',
      ''alerts.channel.failure_rate_percent'',
      ''alerts.channel.health_degraded_minutes'',
      ''alerts.notification.adapter'',
      ''alerts.notification.enabled'',
      ''alerts.notification.recovery_enabled'',
      ''alerts.notification.escalation_enabled'',
      ''alerts.notification.escalation_after_minutes'',
      ''alerts.notification.escalation_level_2_after_minutes'',
      ''alerts.notification.escalation_level_3_after_minutes'',
      ''alerts.notification.escalation_level_1_adapter'',
      ''alerts.notification.escalation_level_2_adapter'',
      ''alerts.notification.escalation_level_3_adapter'',
      ''alerts.notification.warning_max_escalation_level'',
      ''alerts.notification.on_call_timezone'',
      ''alerts.notification.on_call_weekdays'',
      ''alerts.notification.on_call_start_hour'',
      ''alerts.notification.on_call_end_hour'',
      ''alerts.notification.out_of_hours_adapter'',
      ''alerts.notification.feishu_webhook_url'',
      ''alerts.notification.feishu_signing_secret'',
      ''alerts.notification.email.smtp_host'',
      ''alerts.notification.email.smtp_port'',
      ''alerts.notification.email.smtp_username'',
      ''alerts.notification.email.from_address'',
      ''alerts.notification.email.recipient'',
      ''alerts.notification.email.smtp_tls'',
      ''alerts.notification.email_password'',
      ''alerts.notification.webhook_url'',
      ''alerts.notification.webhook_timeout_seconds'',
      ''alerts.notification.webhook_max_retries'',
      ''alerts.notification.webhook_signing_secret'',
      ''cost.window_budget_usd'',
      ''evaluation.approval.ed25519_private_key'',
      ''memory.recall.limit'',
      ''memory.embedding.version'',
      ''memory.recall.candidate_pool'',
      ''memory.recall.recency_half_life_days'',
      ''memory.recall.maximum_sensitivity'',
      ''memory.recall.full_text_weight'',
      ''model.chat.max_output_tokens'',
      ''model.chat.total_token_budget'',
      ''model.chat.timeout_seconds'',
      ''model.chat.max_attempts'',
      ''model.chat.fallback_provider'',
      ''model.chat.circuit_breaker_failures'',
      ''model.chat.circuit_breaker_cooldown_seconds'',
      ''model.chat.provider'',
      ''model.openai.api_key'',
      ''model.openai.model'',
      ''memory.recall.semantic_weight'',
      ''memory.recall.recency_weight'',
      ''memory.recall.importance_weight'',
      ''memory.recall.relationship_weight'',
      ''proactive.enabled'',
      ''proactive.minimum_score'',
      ''proactive.quiet_hours_start'',
      ''proactive.quiet_hours_end'',
      ''proactive.require_recent_user_days'',
      ''persona.system_prompt'',
      ''proactive.daily_message_budget'',
      ''attachment.max_size_bytes'',
      ''attachment.allowed_mime_types'',
      ''attachment.upload_expiry_seconds'',
      ''model.multimodal.max_image_bytes'',
      ''model.multimodal.max_document_bytes'',
      ''model.multimodal.max_total_bytes'',
      ''model.multimodal.max_document_characters'',
      ''model.multimodal.max_pdf_pages'',
      ''data.retention.deleted_agent_days'',
      ''data.retention.deleted_conversation_days'',
      ''data.retention.deleted_attachment_days'',
      ''data.retention.observability_disposition_event_days'',
      ''data.retention.observability_replay_review_days'',
      ''data.retention.observability_recommendation_feedback_days'',
      ''data.retention.orphan_grace_hours'',
      ''data.retention.batch_size'',
      ''data.export.max_records'',
      ''data.export.max_bytes'',
      ''data.backup.expected_interval_hours'',
      ''channel.feishu.bot_credential'',
      ''channel.discord.bot_token'',
      ''channel.telegram.bot_token'',
      ''channel.connection_probe_interval_minutes'',
      ''telegram_webhook_secret'']"

lemmas settings_defs = settings_1_def settings_2_def settings_3_def settings_4_def settings_5_def
  settings_6_def settings_7_def settings_8_def settings_9_def settings_10_def settings_11_def
  settings_12_def

lemma setting_fields [simp]:
  "cd_key (setting k sec kind dflt scopes) = k" "cd_section (setting k sec kind dflt scopes) = sec"
  "cd_value_kind (setting k sec kind dflt scopes) = kind"
  "cd_default (setting k sec kind dflt scopes) = dflt"
  "cd_scopes (setting k sec kind dflt scopes) = scopes"
  "\<not> cd_secret (setting k sec kind dflt scopes)" "cd_minimum (setting k sec kind dflt scopes) = None"
  "cd_maximum (setting k sec kind dflt scopes) = None" "cd_options (setting k sec kind dflt scopes) = []"
  by (simp_all add: setting_def)

lemma default_definition_keys: "map cd_key default_definitions = map lit default_keys"
  by (simp add: default_definitions_def settings_defs default_keys_def)

text \<open>
  130 keys are distinct: the reversed keys are split by bits of their characters until at most one
  is left in a part, far fewer comparisons than all pairs.
\<close>

fun split_distinct :: "(string \<Rightarrow> bool) list \<Rightarrow> string list \<Rightarrow> bool" where
  "split_distinct ps [] = True"
| "split_distinct ps [x] = True"
| "split_distinct [] (x # y # xs) = distinct (x # y # xs)"
| "split_distinct (p # ps) (x # y # xs) =
     (split_distinct ps (filter p (x # y # xs)) \<and> split_distinct ps (filter (\<lambda>s. \<not> p s) (x # y # xs)))"

lemma distinct_by_parts: "distinct (filter p xs) \<Longrightarrow> distinct (filter (\<lambda>s. \<not> p s) xs) \<Longrightarrow> distinct xs"
  by (induction xs) (auto split: if_splits)

lemma split_distinct: "split_distinct ps xs \<Longrightarrow> distinct xs"
proof (induction ps xs rule: split_distinct.induct)
  case (4 p ps x y xs)
  then have "distinct (filter p (x # y # xs))" "distinct (filter (\<lambda>s. \<not> p s) (x # y # xs))" by auto
  then show ?case by (rule distinct_by_parts)
qed auto

fun bit_of :: "(char \<Rightarrow> bool) \<Rightarrow> string \<Rightarrow> bool" where
  "bit_of b [] = False"
| "bit_of b (c # s) = b c"

definition key_bits :: "(string \<Rightarrow> bool) list" where
  "key_bits = [bit_of digit0, bit_of digit1, bit_of digit2, bit_of digit3, bit_of digit4,
     \<lambda>s. bit_of digit0 (tl s), \<lambda>s. bit_of digit1 (tl s), \<lambda>s. bit_of digit2 (tl s),
     \<lambda>s. bit_of digit0 (tl (tl (tl s))), \<lambda>s. bit_of digit1 (tl (tl (tl s))),
     \<lambda>s. bit_of digit2 (tl (tl (tl s))), \<lambda>s. bit_of digit3 (tl (tl (tl s)))]"

lemma default_keys_distinct: "distinct default_keys"
proof -
  have "split_distinct key_bits (map rev default_keys)"
    unfolding default_keys_def key_bits_def by code_simp
  then have "distinct (map rev default_keys)" by (rule split_distinct)
  then show ?thesis by (simp add: distinct_map)
qed

section \<open>The default registry\<close>

definition default_registry :: registry where
  "default_registry = map (\<lambda>d. (cd_key d, d)) default_definitions"

lemma default_registry_built: "build_registry default_definitions [] = Some default_registry"
proof -
  have "inj lit" by (rule injI) simp
  then have "distinct (map cd_key default_definitions)"
    unfolding default_definition_keys using default_keys_distinct by (simp add: distinct_map inj_on_def inj_def)
  then show ?thesis by (simp add: build_registry_eq default_registry_def)
qed

lemma default_registry_ok: "registry_ok default_registry"
  using build_registry_ok[OF default_registry_built] .

lemma default_registry_get:
  "registry_get default_registry k = Some d \<longleftrightarrow> d \<in> set default_definitions \<and> cd_key d = k"
  using pydict.items_get[of default_registry k d] default_registry_ok
  by (auto simp: registry_get_def registry_ok_def default_registry_def)

section \<open>Every definition is sound\<close>

lemma starts_with_lit: "starts_with (lit p) (lit s) \<longleftrightarrow> take (length p) s = p"
proof -
  have "take (length (lit p)) (lit s) = lit (take (length p) s)" by (simp add: lit_def take_map)
  then show ?thesis by (simp add: starts_with_def)
qed

lemma ends_with_lit: "ends_with (lit [c]) (lit s) \<longleftrightarrow> s \<noteq> [] \<and> last s = c"
proof (cases s rule: rev_cases)
  case (snoc t d)
  have "(of_char d :: nat) = of_char c \<longleftrightarrow> d = c" by simp
  with snoc show ?thesis by (simp add: ends_with_def lit_def)
qed (simp add: ends_with_def lit_def)

definition definition_sound :: "library \<Rightarrow> config_definition \<Rightarrow> bool" where
  "definition_sound lib d \<longleftrightarrow> check_definition d = Inr () \<and>
     (\<not> cd_secret d \<longrightarrow> validate_value lib d (cd_default d) = Inr ())"

lemmas sound_defs = definition_sound_def check_definition_def starts_with_lit ends_with_lit
  validate_value_def kind_matches_def check_range_def plain_number_def check_webhook_def webhook_keys_def
  system_and_tenant_def per_agent_def per_channel_def all_scopes_def

lemma settings_1_sound: "list_all (definition_sound lib) settings_1"
  by (simp add: settings_1_def sound_defs)

lemma settings_2_sound: "list_all (definition_sound lib) settings_2"
  by (simp add: settings_2_def sound_defs)

lemma settings_3_sound: "list_all (definition_sound lib) settings_3"
  by (simp add: settings_3_def sound_defs)

lemma settings_4_sound: "list_all (definition_sound lib) settings_4"
  by (simp add: settings_4_def sound_defs)

lemma settings_5_sound: "list_all (definition_sound lib) settings_5"
  by (simp add: settings_5_def sound_defs)

lemma settings_6_sound: "list_all (definition_sound lib) settings_6"
  by (simp add: settings_6_def sound_defs)

lemma settings_7_sound: "list_all (definition_sound lib) settings_7"
  by (simp add: settings_7_def sound_defs)

lemma settings_8_sound: "list_all (definition_sound lib) settings_8"
  by (simp add: settings_8_def sound_defs)

lemma settings_9_sound: "list_all (definition_sound lib) settings_9"
  by (simp add: settings_9_def sound_defs)

lemma settings_10_sound: "list_all (definition_sound lib) settings_10"
  by (simp add: settings_10_def sound_defs)

lemma settings_11_sound: "list_all (definition_sound lib) settings_11"
  by (simp add: settings_11_def sound_defs)

lemma settings_12_sound: "list_all (definition_sound lib) settings_12"
  by (simp add: settings_12_def sound_defs)

lemma default_definitions_sound: "d \<in> set default_definitions \<Longrightarrow> definition_sound lib d"
  using settings_1_sound[of lib] settings_2_sound[of lib] settings_3_sound[of lib] settings_4_sound[of lib]
    settings_5_sound[of lib] settings_6_sound[of lib] settings_7_sound[of lib] settings_8_sound[of lib]
    settings_9_sound[of lib] settings_10_sound[of lib] settings_11_sound[of lib] settings_12_sound[of lib]
  unfolding default_definitions_def list_all_iff set_append by blast

lemma default_registry_consistent: "registry_consistent lib default_registry"
  using default_definitions_sound[of _ lib] default_registry_ok
  by (auto simp: registry_consistent_def default_registry_get definition_sound_def)

section \<open>The defaults as an alert policy and a recall configuration\<close>

lemma registry_defaults_get:
  assumes "registry_ok reg"
  shows "dict_get (registry_defaults reg) k = map_option cd_default (registry_get reg k)"
proof -
  define hits where "hits = filter (\<lambda>d. cd_key d = k) (registry_all reg)"
  have mem: "d \<in> set hits \<longleftrightarrow> registry_get reg k = Some d" for d
    using registry_all_mem[OF assms, of d k] by (simp add: hits_def)
  have get: "dict_get (registry_defaults reg) k = (case hits of [] \<Rightarrow> None | ys \<Rightarrow> Some (cd_default (last ys)))"
    unfolding registry_defaults_def dict_get_fold_set hits_def[symmetric]
    by (simp add: dict_get_def split: list.split)
  show ?thesis
  proof (cases hits)
    case Nil
    then have "registry_get reg k \<noteq> Some d" for d using mem[of d] by simp
    then have "registry_get reg k = None" by (cases "registry_get reg k") blast+
    with Nil get show ?thesis by simp
  next
    case (Cons d ds)
    then have "last hits \<in> set hits" by (metis last_in_set list.distinct(1))
    with mem have "registry_get reg k = Some (last hits)" by simp
    with Cons get show ?thesis by simp
  qed
qed

text \<open>The default of a key, looked up by the position of its definition.\<close>

definition has_default :: "ustr \<Rightarrow> json \<Rightarrow> bool" where
  "has_default k v \<longleftrightarrow> dict_get (registry_defaults default_registry) k = Some v"

lemma has_defaultI: "list_ex (\<lambda>d. cd_key d = k \<and> cd_default d = v) ds \<Longrightarrow>
    set ds \<subseteq> set default_definitions \<Longrightarrow> has_default k v"
  using default_registry_get
  by (force simp: has_default_def registry_defaults_get[OF default_registry_ok] list_ex_iff)

lemma settings_parts: "set settings_4 \<subseteq> set default_definitions" "set settings_5 \<subseteq> set default_definitions"
  "set settings_6 \<subseteq> set default_definitions" "set settings_7 \<subseteq> set default_definitions"
  "set settings_8 \<subseteq> set default_definitions" "set settings_9 \<subseteq> set default_definitions"
  by (auto simp: default_definitions_def)

lemma alert_defaults:
  "has_default (lit ''alerts.notification.adapter'') (JStr (lit ''webhook''))"
  "has_default (lit ''alerts.notification.escalation_enabled'') (JBool True)"
  "has_default (lit ''alerts.notification.escalation_after_minutes'') (JInt 30)"
  "has_default (lit ''alerts.notification.escalation_level_2_after_minutes'') (JInt 120)"
  "has_default (lit ''alerts.notification.escalation_level_3_after_minutes'') (JInt 360)"
  by (rule has_defaultI[of _ _ settings_5], simp add: settings_5_def, rule settings_parts)+

lemma routing_defaults:
  "has_default (lit ''alerts.notification.escalation_level_1_adapter'') (JStr (lit ''default''))"
  "has_default (lit ''alerts.notification.escalation_level_2_adapter'') (JStr (lit ''default''))"
  "has_default (lit ''alerts.notification.escalation_level_3_adapter'') (JStr (lit ''default''))"
  "has_default (lit ''alerts.notification.warning_max_escalation_level'') (JInt 1)"
  "has_default (lit ''alerts.notification.on_call_timezone'') (JStr (lit ''Asia/Shanghai''))"
  "has_default (lit ''alerts.notification.on_call_weekdays'')
     (JList (map (\<lambda>d. JStr (lit d)) [''mon'', ''tue'', ''wed'', ''thu'', ''fri'']))"
  "has_default (lit ''alerts.notification.on_call_start_hour'') (JInt 9)"
  "has_default (lit ''alerts.notification.on_call_end_hour'') (JInt 18)"
  "has_default (lit ''alerts.notification.out_of_hours_adapter'') (JStr (lit ''default''))"
  by (rule has_defaultI[of _ _ settings_6], simp add: settings_6_def, rule settings_parts)+

lemma recall_defaults:
  "has_default (lit ''memory.recall.limit'') (JInt 12)"
  "has_default (lit ''memory.recall.candidate_pool'') (JInt 60)"
  "has_default (lit ''memory.recall.full_text_weight'') (JFloat (1 / 4))"
  by (rule has_defaultI[of _ _ settings_8], simp add: settings_8_def, rule settings_parts)+

lemma weight_defaults:
  "has_default (lit ''memory.recall.semantic_weight'') (JFloat (3152519739159347 / 9007199254740992))"
  "has_default (lit ''memory.recall.recency_weight'') (JFloat (5404319552844595 / 36028797018963968))"
  "has_default (lit ''memory.recall.importance_weight'') (JFloat (5404319552844595 / 36028797018963968))"
  "has_default (lit ''memory.recall.relationship_weight'') (JFloat (3602879701896397 / 36028797018963968))"
  by (rule has_defaultI[of _ _ settings_9], simp add: settings_9_def, rule settings_parts)+

lemmas default_gets = alert_defaults[unfolded has_default_def] routing_defaults[unfolded has_default_def]
  recall_defaults[unfolded has_default_def] weight_defaults[unfolded has_default_def]

lemma usual_policy_read:
  "from_values zk usual_values =
     (if zk (lit ''Asia/Shanghai'') then Inr usual_policy else Inl Unknown_Timezone)"
proof -
  have "read_timezone zk usual_values =
      (if zk (lit ''Asia/Shanghai'') then Inr (lit ''Asia/Shanghai'') else Inl Unknown_Timezone)"
    by (simp add: read_timezone_def read_string_def usual_gets strip_name name_chars_def)
  then show ?thesis by (simp add: from_values_def usual_reads usual_policy_def)
qed

lemma defaults_read_as_usual: "from_values zk (registry_defaults default_registry) = from_values zk usual_values"
  by (simp add: from_values_def read_adapter_def read_thresholds_def read_timezone_def read_weekdays_def
      read_boolean_def read_adapters_def read_integer_def read_string_def default_gets usual_gets)

lemma default_recall_group: "check_recall_group (registry_defaults default_registry) [] = Inr ()"
  by (simp add: check_recall_group_def value_or_default_def default_at_def default_gets weight_keys_def
      pool_below_limit_def dict_get_def[of "[]"])

end
