(* ===== verification/Config_Diff.thy ===== *)
theory Config_Diff
  imports Config_Service
begin

text \<open>
  The difference of two snapshots is exact: it names, once and in order, the identities at which the
  snapshots differ, and its \<open>after\<close> and \<open>before\<close> values turn either snapshot into the other.
\<close>

definition difference_identity :: "config_difference \<Rightarrow> config_identity" where
  "difference_identity d = (df_key d, df_scope_type d, df_scope_id d)"

definition snapshot_value :: "config_entry list \<Rightarrow> config_identity \<Rightarrow> json option" where
  "snapshot_value es i = map_option ce_value (dict_get (entry_map es) i)"

text \<open>Carrying out a difference, forwards and backwards.\<close>

definition apply_difference ::
    "config_difference \<Rightarrow> (config_identity \<Rightarrow> json option) \<Rightarrow> config_identity \<Rightarrow> json option" where
  "apply_difference d m =
     m(difference_identity d := if df_kind d = REMOVED then None else Some (df_after d))"

definition undo_difference ::
    "config_difference \<Rightarrow> (config_identity \<Rightarrow> json option) \<Rightarrow> config_identity \<Rightarrow> json option" where
  "undo_difference d m =
     m(difference_identity d := if df_kind d = ADDED then None else Some (df_before d))"

text \<open>Both absent, or both present and equal for Python.\<close>

definition values_agree :: "json option \<Rightarrow> json option \<Rightarrow> bool" where
  "values_agree a b \<longleftrightarrow>
     (case (a, b) of (None, None) \<Rightarrow> True | (Some x, Some y) \<Rightarrow> py_eq x y | _ \<Rightarrow> False)"

section \<open>One identity\<close>

lemma difference_at_identity: "d \<in> set (difference_at b t i) \<Longrightarrow> difference_identity d = i"
  by (auto simp: difference_at_def difference_identity_def Let_def
      split: prod.splits option.splits if_splits)

lemma difference_at_empty:
  "dict_get b i \<noteq> None \<or> dict_get t i \<noteq> None \<Longrightarrow>
     difference_at b t i = [] \<longleftrightarrow>
       values_agree (map_option ce_value (dict_get b i)) (map_option ce_value (dict_get t i))"
  by (auto simp: difference_at_def values_agree_def Let_def split: prod.splits option.splits)

lemma difference_at_single:
  assumes "dict_get b i \<noteq> None \<or> dict_get t i \<noteq> None"
    and "\<not> values_agree (map_option ce_value (dict_get b i)) (map_option ce_value (dict_get t i))"
  defines "d \<equiv> hd (difference_at b t i)"
  shows "difference_at b t i = [d] \<and>
     (if df_kind d = REMOVED then None else Some (df_after d)) = map_option ce_value (dict_get t i) \<and>
     (if df_kind d = ADDED then None else Some (df_before d)) = map_option ce_value (dict_get b i)"
  using assms(1,2) unfolding d_def
  by (cases "dict_get b i"; cases "dict_get t i"; cases i)
    (auto simp: difference_at_def values_agree_def entry_value_def Let_def)

section \<open>All identities\<close>

lemma entry_map_ok: "dict_ok (entry_map es)"
  by (simp add: entry_map_def dict_ok_fold_set[where g = "\<lambda>e. e"])

lemma dict_keys_iff: "i \<in> set (map fst d) \<longleftrightarrow> dict_get d i \<noteq> None"
  by (simp add: dict_get_def map_of_eq_None_iff)

lemma all_identities_iff:
  "i \<in> set (all_identities b t) \<longleftrightarrow> dict_get b i \<noteq> None \<or> dict_get t i \<noteq> None"
  unfolding all_identities_def set_sorted_by set_append set_filter Un_iff mem_Collect_eq dict_keys_iff
  by blast

lemma all_identities_distinct: "dict_ok b \<Longrightarrow> dict_ok t \<Longrightarrow> distinct (all_identities b t)"
  by (auto simp: all_identities_def sorted_by_def dict_ok_def)

text \<open>Differences at distinct identities do not disturb each other.\<close>

definition put_at :: "('d \<Rightarrow> 'i) \<Rightarrow> ('d \<Rightarrow> 'v) \<Rightarrow> 'd \<Rightarrow> ('i \<Rightarrow> 'v) \<Rightarrow> 'i \<Rightarrow> 'v" where
  "put_at ident h d m = m(ident d := h d)"

lemma fold_put_at_other: "\<forall>d \<in> set ds. ident d \<noteq> i \<Longrightarrow> fold (put_at ident h) ds m i = m i"
  by (induction ds arbitrary: m) (auto simp: put_at_def)

lemma fold_put_at_cong: "m i = m' i \<Longrightarrow> fold (put_at ident h) ds m i = fold (put_at ident h) ds m' i"
proof (induction ds arbitrary: m m')
  case (Cons d ds)
  have "put_at ident h d m i = put_at ident h d m' i" using Cons.prems by (simp add: put_at_def)
  then have "fold (put_at ident h) ds (put_at ident h d m) i = fold (put_at ident h) ds (put_at ident h d m') i"
    by (rule Cons.IH)
  then show ?case by simp
qed simp

lemma fold_at_identity:
  assumes "\<And>i d. d \<in> set (D i) \<Longrightarrow> ident d = i" and "distinct is"
  shows "fold (put_at ident h) (concat (map D is)) m i =
     (if i \<in> set is then fold (put_at ident h) (D i) m i else m i)"
  using assms(2)
proof (induction "is" arbitrary: m)
  case (Cons j js)
  show ?case
  proof (cases "i = j")
    case True
    with Cons show ?thesis by simp
  next
    case False
    then have "\<forall>d \<in> set (D j). ident d \<noteq> i" using assms(1) by blast
    then have "fold (put_at ident h) (D j) m i = m i" by (rule fold_put_at_other)
    then have "fold (put_at ident h) (D i) (fold (put_at ident h) (D j) m) i = fold (put_at ident h) (D i) m i"
      by (rule fold_put_at_cong)
    with Cons False \<open>fold (put_at ident h) (D j) m i = m i\<close> show ?thesis by simp
  qed
qed simp

lemma apply_difference_put: "apply_difference =
    put_at difference_identity (\<lambda>d. if df_kind d = REMOVED then None else Some (df_after d))"
  by (intro ext) (simp add: apply_difference_def put_at_def)

lemma undo_difference_put: "undo_difference =
    put_at difference_identity (\<lambda>d. if df_kind d = ADDED then None else Some (df_before d))"
  by (intro ext) (simp add: undo_difference_def put_at_def)

lemma concat_singletons_map:
  assumes "\<And>i d. d \<in> set (D i) \<Longrightarrow> f d = i" and "\<And>i. length (D i) \<le> 1"
  shows "map f (concat (map D is)) = filter (\<lambda>i. D i \<noteq> []) is"
proof (induction "is")
  case (Cons i js)
  have "map f (D i) = (if D i = [] then [] else [i])"
    using assms(1)[of _ i] assms(2)[of i] by (cases "D i") auto
  with Cons show ?case by simp
qed simp

lemma difference_at_length: "length (difference_at b t i) \<le> 1"
  by (auto simp: difference_at_def Let_def split: prod.splits option.splits)

text \<open>
  C39: the differences of two snapshots are sorted by key, scope and target, name each identity at
  most once and exactly those whose values differ; carrying them out turns the base into the target
  and undoing them turns the target into the base, up to Python's equality of values.
\<close>
theorem differences_are_exact:
  "sorted (map (\<lambda>d. identity_key (difference_identity d)) (differences base target)) \<and>
   distinct (map difference_identity (differences base target)) \<and>
   (\<forall>i. i \<in> set (map difference_identity (differences base target)) \<longleftrightarrow>
      \<not> values_agree (snapshot_value base i) (snapshot_value target i)) \<and>
   (\<forall>i. let patched = fold apply_difference (differences base target) (snapshot_value base) i;
            restored = fold undo_difference (differences base target) (snapshot_value target) i
        in (patched = snapshot_value target i \<or> values_agree patched (snapshot_value target i)) \<and>
           (restored = snapshot_value base i \<or> values_agree (snapshot_value base i) restored))"
proof -
  define b where "b = entry_map base"
  define t where "t = entry_map target"
  define D where "D = difference_at b t"
  define ids where "ids = all_identities b t"
  have diff: "differences base target = concat (map D ids)"
    by (simp add: differences_def D_def ids_def b_def t_def)
  have val: "snapshot_value base i = map_option ce_value (dict_get b i)"
    "snapshot_value target i = map_option ce_value (dict_get t i)" for i
    by (simp_all add: snapshot_value_def b_def t_def)
  have dist: "distinct ids" unfolding ids_def b_def t_def by (simp add: all_identities_distinct entry_map_ok)
  have ident: "difference_identity d = i" if "d \<in> set (D i)" for i d
    using that difference_at_identity by (simp add: D_def)
  have mem: "i \<in> set ids \<longleftrightarrow> dict_get b i \<noteq> None \<or> dict_get t i \<noteq> None" for i
    by (simp add: ids_def all_identities_iff del: not_None_eq)
  have empty: "D i = [] \<longleftrightarrow> values_agree (snapshot_value base i) (snapshot_value target i)"
    if "i \<in> set ids" for i
    using that difference_at_empty[of b i t] unfolding mem D_def val by (auto simp: values_agree_def)
  have absent: "values_agree (snapshot_value base i) (snapshot_value target i)" if "i \<notin> set ids" for i
    using that by (simp add: mem val values_agree_def)
  have names: "map difference_identity (differences base target) = filter (\<lambda>i. D i \<noteq> []) ids"
    unfolding diff by (rule concat_singletons_map) (use ident difference_at_length in \<open>auto simp: D_def\<close>)
  have "sorted (map identity_key (filter (\<lambda>i. D i \<noteq> []) ids))"
    unfolding ids_def all_identities_def sorted_by_def by (simp add: sorted_filter)
  then have srt: "sorted (map (\<lambda>d. identity_key (difference_identity d)) (differences base target))"
    unfolding names[symmetric] by (simp add: comp_def)
  have patched: "fold apply_difference (concat (map D ids)) m i =
      (if i \<in> set ids then fold apply_difference (D i) m i else m i)" for m i
    unfolding apply_difference_put by (rule fold_at_identity[OF ident dist])
  have restored: "fold undo_difference (concat (map D ids)) m i =
      (if i \<in> set ids then fold undo_difference (D i) m i else m i)" for m i
    unfolding undo_difference_put by (rule fold_at_identity[OF ident dist])
  have both: "(let p = fold apply_difference (differences base target) (snapshot_value base) i;
            r = fold undo_difference (differences base target) (snapshot_value target) i
        in (p = snapshot_value target i \<or> values_agree p (snapshot_value target i)) \<and>
           (r = snapshot_value base i \<or> values_agree (snapshot_value base i) r))" for i
  proof (cases "i \<in> set ids \<and> D i \<noteq> []")
    case True
    with mem difference_at_single[of b i t] empty obtain d where d: "D i = [d]"
      "(if df_kind d = REMOVED then None else Some (df_after d)) = snapshot_value target i"
      "(if df_kind d = ADDED then None else Some (df_before d)) = snapshot_value base i"
      unfolding D_def val by blast
    moreover have "difference_identity d = i" using ident[of d i] d(1) by simp
    ultimately show ?thesis
      using True unfolding diff Let_def patched restored
      by (simp add: apply_difference_def undo_difference_def)
  next
    case False
    then have "fold apply_difference (concat (map D ids)) m i = m i"
      "fold undo_difference (concat (map D ids)) m i = m i" for m
      unfolding patched restored by auto
    moreover have "values_agree (snapshot_value base i) (snapshot_value target i)"
      using False empty absent by blast
    ultimately show ?thesis unfolding diff Let_def by simp
  qed
  have "i \<in> set (map difference_identity (differences base target)) \<longleftrightarrow>
      \<not> values_agree (snapshot_value base i) (snapshot_value target i)" for i
    unfolding names set_filter mem_Collect_eq using empty[of i] absent[of i] by blast
  then show ?thesis using srt both dist unfolding names by (auto simp: distinct_filter)
qed

end
