(* ===== verification/Config_Properties.thy ===== *)
theory Config_Properties
  imports Config_Defaults Config_Diff
begin

text \<open>
  The properties of the configuration components, with their instances on the built-in registry: the
  history of versions, precedence and validity of the effective configuration, and the soundness of
  the registry itself.
\<close>

section \<open>The built-in registry\<close>

text \<open>
  the built-in registry can be built (130 distinct keys); each of its definitions may be
  constructed and every default of a non-secret key satisfies its own type, bounds and options; the
  defaults alone pass the cross-field checks of alert policies, given a time zone database that has
  Asia/Shanghai, and of memory recall.
\<close>
lemma default_registry_is_sound:
  "build_registry default_definitions [] = Some default_registry \<and> length default_registry = 130 \<and>
   list_all (\<lambda>d. check_definition d = Inr () \<and>
     (cd_secret d \<or> validate_value lib d (cd_default d) = Inr ())) default_definitions \<and>
   from_values (zone_known lib) (registry_defaults default_registry) =
     (if zone_known lib (lit ''Asia/Shanghai'') then Inr usual_policy else Inl Unknown_Timezone) \<and>
   check_recall_group (registry_defaults default_registry) [] = Inr ()"
proof -
  have "length default_definitions = 130"
    using arg_cong[OF default_definition_keys, of length] by (simp add: default_keys_def)
  then have "length default_registry = 130" by (simp add: default_registry_def)
  moreover have "list_all (\<lambda>d. check_definition d = Inr () \<and>
     (cd_secret d \<or> validate_value lib d (cd_default d) = Inr ())) default_definitions"
    using default_definitions_sound[of _ lib] by (auto simp: list_all_iff definition_sound_def)
  ultimately show ?thesis
    using default_registry_built default_recall_group
    by (simp add: defaults_read_as_usual usual_policy_read)
qed

section \<open>The history of versions\<close>

text \<open>
  C36: in every state the service can reach, the versions carry distinct numbers below the next one,
  each is stored under its id, at most one is published and every stored snapshot is valid; from
  there on no command ever removes a version or changes its number, note, creation time or values,
  and its status only moves from draft over published to superseded.
\<close>
theorem config_history_is_consistent:
  assumes "reachable (\<lambda>s. s = initial_store) (config_step lib reg) s"
  shows "config_store_ok s \<and> all_validated lib reg s \<and>
    (\<forall>s' k v. (config_step lib reg)\<^sup>*\<^sup>* s s' \<longrightarrow> version_at s k v \<longrightarrow>
       (\<exists>w. version_at s' k w \<and> same_content v w))"
  using assms by (rule history_consistent)

section \<open>The effective configuration\<close>

text \<open>
  C37: the effective value of a key is the last entry of the narrowest scope (user, channel, agent,
  tenant, system) that has an entry for that scope's target, and the registry's default for a
  non-secret key without one; the source names exactly that entry and version, or the default.
\<close>
theorem effective_value_is_narrowest:
  assumes "registry_ok reg" and "stored_version s version = Inr stored"
    and "resolve_effective reg tg version s = Inr snap"
  shows "ef_version snap = (case stored of None \<Rightarrow> 0 | Some v \<Rightarrow> cv_version v) \<and>
    dict_get (ef_values snap) k =
      (case stored_winner tg stored k of
         Some e \<Rightarrow> Some (ce_value e)
       | None \<Rightarrow> (case registry_get reg k of
                    None \<Rightarrow> None | Some d \<Rightarrow> if cd_secret d then None else Some (cd_default d))) \<and>
    dict_get (ef_sources snap) k =
      (case stored_winner tg stored k of
         Some e \<Rightarrow> Some (entry_source (the stored) e)
       | None \<Rightarrow> (case registry_get reg k of
                    None \<Rightarrow> None | Some d \<Rightarrow> if cd_secret d then None else Some default_source))"
  using assms by (rule resolved_value)

text \<open>
  C38: whatever commands the service has executed, every value of an effective configuration belongs
  to a registered, non-secret key and satisfies that key's type, bounds and options; no secret key is
  ever part of it.
\<close>
theorem effective_values_are_valid:
  assumes "registry_consistent lib reg"
    and "reachable (\<lambda>s. s = initial_store) (config_step lib reg) s"
    and "resolve_effective reg tg version s = Inr snap"
    and "dict_get (ef_values snap) k = Some x"
  shows "\<exists>d. registry_get reg k = Some d \<and> \<not> cd_secret d \<and> validate_value lib d x = Inr ()"
  using assms by (rule resolved_values_valid)

section \<open>Concrete instances\<close>

text \<open>A library that knows every time zone; one tenant override that is drafted and published.\<close>

definition plain_library :: library where
  "plain_library = \<lparr>zone_known = \<lambda>_. True, urlsplit = \<lambda>_. None, restricted_ip = \<lambda>_. None\<rparr>"

definition tokens_entry :: config_entry where
  "tokens_entry = \<lparr>ce_key = lit ''cognition.context.max_tokens'', ce_scope_type = TENANT,
     ce_value = JInt 4096, ce_scope_id = Some 7\<rparr>"

definition tokens_version :: config_version where
  "tokens_version = \<lparr>cv_id = 1, cv_version = 1, cv_status = PUBLISHED, cv_note = None,
     cv_created_at = 10, cv_published_at = Some 20, cv_values = [tokens_entry]\<rparr>"

definition drafted_store :: config_store where
  "drafted_store = \<lparr>st_versions =
     [(1, tokens_version\<lparr>cv_status := DRAFT, cv_published_at := None\<rparr>)], st_next_version = 2\<rparr>"

definition published_store :: config_store where
  "published_store = \<lparr>st_versions = [(1, tokens_version)], st_next_version = 2\<rparr>"

lemma tokens_definition:
  "registry_get default_registry (lit ''cognition.context.max_tokens'') =
     Some ((setting (lit ''cognition.context.max_tokens'') (lit ''cognition'') INTEGER (JInt 24000) per_agent)
        \<lparr>cd_minimum := Some 2048, cd_maximum := Some 200000\<rparr>)"
  unfolding default_registry_get default_definitions_def by (simp add: settings_1_def)

lemma tokens_valid: "validate_snapshot plain_library default_registry [tokens_entry] = Inr ()"
proof -
  have "validate_entry plain_library default_registry tokens_entry = Inr ()"
    by (simp add: validate_entry_def tokens_entry_def tokens_definition check_scope_def per_agent_def
        system_and_tenant_def validate_value_def kind_matches_def check_range_def plain_number_def
        check_webhook_def)
  moreover have "validate_memory_recall_entries default_registry [tokens_entry] = Inr ()"
    by (simp add: validate_memory_recall_entries_def group_entries_def add_to_group_def tokens_entry_def
        dict_values_def dict_set_def dict_get_def[of "[]"] dict_get_def[of "[_]"] check_recall_group_def value_or_default_def
        default_at_def default_gets weight_keys_def pool_below_limit_def)
  moreover have "validate_alert_notification_entries plain_library default_registry [tokens_entry] = Inr ()"
    by (simp add: validate_alert_notification_entries_def tokens_entry_def starts_with_lit
        group_entries_def dict_values_def)
  ultimately show ?thesis by (simp add: validate_snapshot_def)
qed

lemma published_store_reachable:
  "reachable (\<lambda>s. s = initial_store) (config_step plain_library default_registry) published_store"
proof -
  let ?step = "config_step plain_library default_registry"
  have "run_config plain_library default_registry 1 10 0 (Create_Draft None [tokens_entry]) initial_store =
      Inr (tokens_version\<lparr>cv_status := DRAFT, cv_published_at := None\<rparr>, drafted_store)"
    by (simp add: create_draft_def tokens_valid store_create_draft_def normalize_note_def initial_store_def Let_def
        drafted_store_def tokens_version_def dict_set_def)
  moreover have "store_get_version initial_store 1 = None"
    by (simp add: store_get_version_def initial_store_def dict_get_def)
  ultimately have 1: "?step initial_store drafted_store" by (rule config_step.call)
  have "run_config plain_library default_registry 2 20 0 (Publish 1) drafted_store =
      Inr (tokens_version, published_store)"
    by (simp add: publish_def tokens_valid service_get_version_def store_get_version_def drafted_store_def
        dict_get_def tokens_version_def store_publish_def supersede_published_def dict_walk_def Let_def
        dict_set_def published_store_def)
  moreover have "store_get_version drafted_store 2 = None"
    by (simp add: store_get_version_def drafted_store_def dict_get_def)
  ultimately have 2: "?step drafted_store published_store" by (rule config_step.call)
  have "reachable (\<lambda>s. s = initial_store) ?step initial_store" by (rule start) simp
  then have "reachable (\<lambda>s. s = initial_store) ?step drafted_store" using 1 by (rule next_state)
  then show ?thesis using 2 by (rule next_state)
qed

theorem config_history_is_consistent_witness:
  "config_store_ok published_store \<and> version_at published_store 1 tokens_version"
  using config_history_is_consistent[OF published_store_reachable]
  by (simp add: version_at_def published_store_def dict_get_def)

definition tokens_targets :: scope_targets where
  "tokens_targets = \<lparr>tg_tenant_id = 7, tg_agent_id = Some 8, tg_channel_id = None, tg_user_id = None\<rparr>"

lemma tokens_stored: "stored_version published_store None = Inr (Some tokens_version)"
  by (simp add: stored_version_def store_get_published_def published_store_def dict_values_def
      tokens_version_def)

lemma tokens_winner:
  "stored_winner tokens_targets (Some tokens_version) (lit ''cognition.context.max_tokens'') = Some tokens_entry"
  by (simp add: stored_winner_def winner_def competes_def entry_applies_def tokens_version_def
      tokens_entry_def tokens_targets_def)

theorem effective_value_is_narrowest_witness:
  "\<exists>snap. resolve_effective default_registry tokens_targets None published_store = Inr snap \<and>
     ef_version snap = 1 \<and>
     dict_get (ef_values snap) (lit ''cognition.context.max_tokens'') = Some (JInt 4096)"
proof -
  obtain snap where snap: "resolve_effective default_registry tokens_targets None published_store = Inr snap"
    using resolve_effective_Inr tokens_stored by blast
  from effective_value_is_narrowest[OF default_registry_ok tokens_stored snap]
  show ?thesis using snap tokens_winner by (auto simp: tokens_version_def tokens_entry_def)
qed

theorem effective_values_are_valid_witness:
  "\<exists>d. registry_get default_registry (lit ''cognition.context.max_tokens'') = Some d \<and>
     \<not> cd_secret d \<and> validate_value plain_library d (JInt 4096) = Inr ()"
proof -
  obtain snap where snap: "resolve_effective default_registry tokens_targets None published_store = Inr snap"
    using resolve_effective_Inr tokens_stored by blast
  have "dict_get (ef_values snap) (lit ''cognition.context.max_tokens'') = Some (JInt 4096)"
    using resolved_value[OF default_registry_ok tokens_stored snap, of "lit ''cognition.context.max_tokens''"]
      tokens_winner by (simp add: tokens_entry_def)
  from effective_values_are_valid[OF default_registry_consistent published_store_reachable snap this]
  show ?thesis .
qed

end
