(* ===== verification/Handler_Payload.thy ===== *)
theory Handler_Payload
  imports Config_Domain Binary64
begin

text \<open>
  How the handlers of background tasks read their input (\<open>packages/application/.../task_handlers.py\<close>): the
  fields of a job's payload, of an action's payload and of the effective configuration. Every
  \<open>PermanentTaskError\<close> is a \<open>permanent_error\<close>. The constructor of \<open>UUID\<close> is modelled as the standard library
  has it, \<open>int(..., 16)\<close> included; \<open>decimal\<close> gives the value of a decimal digit beyond ASCII.
\<close>

section \<open>Reading a UUID\<close>

fun remove_all :: "ustr \<Rightarrow> ustr \<Rightarrow> ustr" where
  "remove_all p [] = []"
| "remove_all p (c # s) =
     (if p \<noteq> [] \<and> starts_with p (c # s) then remove_all p (drop (length p - 1) s) else c # remove_all p s)"

definition strip_braces :: "ustr \<Rightarrow> ustr" where
  "strip_braces s = (let brace = (\<lambda>c. c = 123 \<or> c = 125) in rev (dropWhile brace (rev (dropWhile brace s))))"

definition int_space :: "nat \<Rightarrow> bool" where
  "int_space c \<longleftrightarrow> (if c < 127 then 9 \<le> c \<and> c \<le> 13 \<or> c = 32 else is_space c)"

definition base16_value :: "(nat \<Rightarrow> nat option) \<Rightarrow> nat \<Rightarrow> nat option" where
  "base16_value decimal c =
     (if 48 \<le> c \<and> c \<le> 57 then Some (c - 48)
      else if 65 \<le> c \<and> c \<le> 70 then Some (c - 55)
      else if 97 \<le> c \<and> c \<le> 102 then Some (c - 87)
      else if c < 127 then None else decimal c)"

text \<open>Digits with single underscores between them; \<open>gap\<close> says that the last character was an underscore.\<close>

fun hex_number :: "(nat \<Rightarrow> nat option) \<Rightarrow> bool \<Rightarrow> nat \<Rightarrow> ustr \<Rightarrow> nat option" where
  "hex_number decimal gap acc [] = (if gap then None else Some acc)"
| "hex_number decimal gap acc (c # s) =
     (if c = 95 then (if gap then None else hex_number decimal True acc s)
      else case base16_value decimal c of None \<Rightarrow> None | Some d \<Rightarrow> hex_number decimal False (16 * acc + d) s)"

definition without_sign :: "ustr \<Rightarrow> ustr" where
  "without_sign s = (case s of c # r \<Rightarrow> if c = 43 then r else s | [] \<Rightarrow> [])"

definition without_prefix :: "ustr \<Rightarrow> ustr" where
  "without_prefix s =
     (if starts_with (lit ''0x'') s \<or> starts_with (lit ''0X'') s
      then (case drop 2 s of c # r \<Rightarrow> if c = 95 then r else c # r | [] \<Rightarrow> []) else s)"

text \<open>\<open>int(s, 16)\<close> for a text without a minus sign.\<close>

definition parse_int16 :: "(nat \<Rightarrow> nat option) \<Rightarrow> ustr \<Rightarrow> nat option" where
  "parse_int16 decimal s =
     (let body = rev (dropWhile int_space (rev (dropWhile int_space s)));
          digits = without_prefix (without_sign body)
      in if digits = [] then None else hex_number decimal True 0 digits)"

definition parse_uuid :: "(nat \<Rightarrow> nat option) \<Rightarrow> ustr \<Rightarrow> uuid option" where
  "parse_uuid decimal s =
     (let hex = remove_all [45] (strip_braces (remove_all (lit ''uuid:'') (remove_all (lit ''urn:'') s)))
      in if length hex \<noteq> 32 then None else parse_int16 decimal hex)"

lemma remove_all_absent: "x \<in> set p \<Longrightarrow> x \<notin> set s \<Longrightarrow> remove_all p s = s"
proof (induction s)
  case (Cons c s)
  have "\<not> starts_with p (c # s)"
  proof
    assume "starts_with p (c # s)"
    then have "take (length p) (c # s) = p" by (simp add: starts_with_def)
    then have "set p \<subseteq> set (c # s)" by (metis set_take_subset)
    then show False using Cons.prems by auto
  qed
  then show ?case using Cons by simp
qed simp

lemma remove_hyphens: "remove_all [45] s = filter (\<lambda>c. c \<noteq> 45) s"
  by (induction s) (auto simp: starts_with_def)

lemma dropWhile_first: "s \<noteq> [] \<Longrightarrow> \<not> p (hd s) \<Longrightarrow> dropWhile p s = s"
  by (cases s) auto

lemma trim_id: "s \<noteq> [] \<Longrightarrow> \<not> p (hd s) \<Longrightarrow> \<not> p (last s) \<Longrightarrow> rev (dropWhile p (rev (dropWhile p s))) = s"
  by (simp add: dropWhile_first hd_rev)

lemma hex_digit_range: "d < 16 \<Longrightarrow> 48 \<le> hex_digit d \<and> hex_digit d \<le> 57 \<or> 97 \<le> hex_digit d \<and> hex_digit d \<le> 102"
  by (auto simp: hex_digit_def)

lemma hex_digits_range: "c \<in> set (hex_digits k n) \<Longrightarrow> 48 \<le> c \<and> c \<le> 57 \<or> 97 \<le> c \<and> c \<le> 102"
proof (induction k arbitrary: n)
  case (Suc k)
  then show ?case using hex_digit_range[of "n mod 16"] by auto
qed simp

lemma base16_digit: "d < 16 \<Longrightarrow> base16_value decimal (hex_digit d) = Some d"
  by (auto simp: base16_value_def hex_digit_def)

lemma hex_number_snoc:
  "c \<noteq> 95 \<Longrightarrow> base16_value decimal c = Some d \<Longrightarrow> list_all (\<lambda>x. x \<noteq> 95 \<and> base16_value decimal x \<noteq> None) s \<Longrightarrow>
     hex_number decimal gap acc (s @ [c]) =
       (case hex_number decimal False acc s of None \<Rightarrow> None | Some v \<Rightarrow> Some (16 * v + d))"
  by (induction s arbitrary: gap acc) (auto split: option.splits)

lemma hex_digits_valid: "list_all (\<lambda>x. x \<noteq> 95 \<and> base16_value decimal x \<noteq> None) (hex_digits k n)"
proof -
  have "x \<noteq> 95 \<and> base16_value decimal x \<noteq> None" if "x \<in> set (hex_digits k n)" for x
    using hex_digits_range[OF that] by (auto simp: base16_value_def)
  then show ?thesis by (simp add: list_all_iff)
qed

lemma hex_number_digits: "hex_number decimal False 0 (hex_digits k n) = Some (n mod 16 ^ k)"
proof (induction k arbitrary: n)
  case (Suc k)
  have d: "hex_digit (n mod 16) \<noteq> 95" using hex_digit_range[of "n mod 16"] by auto
  have "hex_number decimal False 0 (hex_digits (Suc k) n) = Some (16 * (n div 16 mod 16 ^ k) + n mod 16)"
    using hex_number_snoc[OF d base16_digit hex_digits_valid] Suc.IH[of "n div 16"] by simp
  also have "16 * (n div 16 mod 16 ^ k) + n mod 16 = n mod 16 ^ Suc k"
    by (simp add: mod_mult2_eq)
  finally show ?case .
qed simp

lemma hex_number_gap: "s \<noteq> [] \<Longrightarrow> hd s \<noteq> 95 \<Longrightarrow> hex_number decimal True acc s = hex_number decimal False acc s"
  by (cases s) auto

lemma parse_int16_digits:
  assumes "0 < k"
  shows "parse_int16 decimal (hex_digits k n) = Some (n mod 16 ^ k)"
proof -
  let ?h = "hex_digits k n"
  have ne: "?h \<noteq> []" using assms by (metis length_hex_digits length_greater_0_conv)
  have r: "48 \<le> c \<and> c \<le> 57 \<or> 97 \<le> c \<and> c \<le> 102" if "c \<in> set ?h" for c using hex_digits_range that by blast
  have "\<not> int_space (hd ?h)" "\<not> int_space (last ?h)"
    using r[of "hd ?h"] r[of "last ?h"] ne by (auto simp: int_space_def)
  then have t: "rev (dropWhile int_space (rev (dropWhile int_space ?h))) = ?h" by (rule trim_id[OF ne])
  have s: "without_sign ?h = ?h" using r[of "hd ?h"] ne by (cases ?h) (auto simp: without_sign_def)
  have x: "120 \<notin> set ?h" "88 \<notin> set ?h" using r[of 120] r[of 88] by auto
  have "\<not> starts_with (lit ''0x'') ?h" "\<not> starts_with (lit ''0X'') ?h"
    using x by (auto simp: starts_with_def lit_def dest: arg_cong[where f = set] in_set_takeD
      intro: in_set_takeD[of _ 2])
      (metis in_set_takeD list.set_intros(1) list.set_intros(2))+
  then have p: "without_prefix ?h = ?h" by (simp add: without_prefix_def)
  have "hd ?h \<noteq> 95" using r[of "hd ?h"] ne by auto
  then show ?thesis
    using ne t s p hex_number_gap[OF ne] hex_number_digits by (simp add: parse_int16_def Let_def)
qed

lemma filter_uuid_str: "filter (\<lambda>c. c \<noteq> 45) (uuid_str u) = hex_digits 32 u"
proof -
  let ?h = "hex_digits 32 u"
  have f: "filter (\<lambda>c. c \<noteq> 45) xs = xs" if "set xs \<subseteq> set ?h" for xs
    using that hex_digits_range[of 45 32 u] by (auto simp: filter_id_conv)
  have s: "set (take n (drop m ?h)) \<subseteq> set ?h" "set (take n ?h) \<subseteq> set ?h" "set (drop m ?h) \<subseteq> set ?h" for n m
    by (meson in_set_dropD in_set_takeD subsetI)+
  have p: "take 4 (drop m ?h) @ drop (m + 4) ?h = drop m ?h" for m
    by (metis append_take_drop_id drop_drop add.commute)
  have "filter (\<lambda>c. c \<noteq> 45) (uuid_str u) =
      take 8 ?h @ take 4 (drop 8 ?h) @ take 4 (drop 12 ?h) @ take 4 (drop 16 ?h) @ drop 20 ?h"
    by (simp add: uuid_str_def Let_def f s)
  also have "\<dots> = ?h" using p[of 16] p[of 12] p[of 8] append_take_drop_id[of 8 ?h] by simp
  finally show ?thesis .
qed

text \<open>Parsing the text of a UUID gives the UUID back.\<close>

lemma parse_uuid_str:
  assumes "u < 2 ^ 128"
  shows "parse_uuid decimal (uuid_str u) = Some u"
proof -
  let ?s = "uuid_str u"
  have chars: "c \<in> set ?s \<Longrightarrow> c = 45 \<or> c \<in> set (hex_digits 32 u)" for c
    using arg_cong[OF filter_uuid_str[of u], of set] by auto
  then have r: "c = 45 \<or> 48 \<le> c \<and> c \<le> 57 \<or> 97 \<le> c \<and> c \<le> 102" if "c \<in> set ?s" for c
    using that hex_digits_range by blast
  have ne: "?s \<noteq> []" using length_uuid_str[of u] by auto
  have "58 \<notin> set ?s" using r[of 58] by auto
  then have a: "remove_all (lit ''urn:'') ?s = ?s" "remove_all (lit ''uuid:'') ?s = ?s"
    by (auto intro!: remove_all_absent[of 58] simp: lit_def)
  have "\<not> (hd ?s = 123 \<or> hd ?s = 125)" "\<not> (last ?s = 123 \<or> last ?s = 125)"
    using r[of "hd ?s"] r[of "last ?s"] ne by auto
  then have b: "strip_braces ?s = ?s"
    unfolding strip_braces_def Let_def using trim_id[OF ne, of "\<lambda>c. c = 123 \<or> c = 125"] by simp
  show ?thesis
    using assms parse_int16_digits[of 32 decimal u]
    by (simp add: parse_uuid_def Let_def a b remove_hyphens filter_uuid_str)
qed

section \<open>Errors\<close>

datatype setting_kind = TextSetting | IntegerSetting | NumberSetting | BooleanSetting

datatype permanent_error =
    MissingField ustr | InvalidField ustr | InvalidUuidField ustr | InvalidNumberField ustr
  | InvalidIntegerField ustr | InvalidTimeField ustr | NaiveTimeField ustr
  | MissingActionField ustr | InvalidActionText ustr | InvalidActionUuid ustr | InvalidActionTime ustr
  | NaiveActionTime ustr | InvalidActionNumber ustr | InvalidStreaming
  | InvalidSetting setting_kind ustr
  | ReflectionSourceMissing | ReflectionPolicyInvalid | ActionMissing uuid | InvalidTimezone | ChannelMissing

text \<open>\<open>FloatOverflow\<close> is the \<open>OverflowError\<close> of \<open>float(n)\<close> for an integer beyond the largest float.\<close>

datatype payload_error = PermanentFailure permanent_error | FloatOverflow

definition permanent :: "permanent_error \<Rightarrow> payload_error + 'a" where
  "permanent e = Inl (PermanentFailure e)"

definition demand :: "permanent_error \<Rightarrow> 'a option \<Rightarrow> payload_error + 'a" where
  "demand e v = (case v of None \<Rightarrow> permanent e | Some x \<Rightarrow> Inr x)"

definition float_of_int :: "int \<Rightarrow> payload_error + rat" where
  "float_of_int n = (if 2 ^ 1024 - 2 ^ 970 \<le> \<bar>n\<bar> then Inl FloatOverflow else Inr (rnd (of_int n)))"

definition number_or :: "permanent_error \<Rightarrow> json \<Rightarrow> payload_error + rat" where
  "number_or e v = (case v of JInt n \<Rightarrow> float_of_int n | JFloat q \<Rightarrow> Inr q | _ \<Rightarrow> permanent e)"

lemma demand_Inr [result_laws]: "demand e v = Inr x \<longleftrightarrow> v = Some x"
  by (auto simp: demand_def permanent_def split: option.splits)

lemma permanent_Inr [simp]: "permanent e \<noteq> Inr x"
  by (simp add: permanent_def)

section \<open>Fields of a job's payload\<close>

definition field_value :: "json_dict \<Rightarrow> ustr \<Rightarrow> payload_error + json" where
  "field_value d key = demand (MissingField key) (json_get d key)"

definition field_string :: "json_dict \<Rightarrow> ustr \<Rightarrow> payload_error + ustr" where
  "field_string d key =
     bind_result (field_value d key) (\<lambda>v. case v of
       JStr s \<Rightarrow> if strip s = [] then permanent (InvalidField key) else Inr (strip s)
     | _ \<Rightarrow> permanent (InvalidField key))"

definition field_uuid :: "(nat \<Rightarrow> nat option) \<Rightarrow> json_dict \<Rightarrow> ustr \<Rightarrow> payload_error + uuid" where
  "field_uuid decimal d key =
     bind_result (field_string d key) (\<lambda>s. demand (InvalidUuidField key) (parse_uuid decimal s))"

definition optional_uuid :: "(nat \<Rightarrow> nat option) \<Rightarrow> json_dict \<Rightarrow> ustr \<Rightarrow> payload_error + uuid option" where
  "optional_uuid decimal d key =
     (case json_get d key of
        None \<Rightarrow> Inr None
      | Some JNull \<Rightarrow> Inr None
      | Some (JStr s) \<Rightarrow>
          bind_result (demand (InvalidUuidField key) (parse_uuid decimal s)) (\<lambda>u. Inr (Some u))
      | Some _ \<Rightarrow> permanent (InvalidUuidField key))"

definition field_number :: "json_dict \<Rightarrow> ustr \<Rightarrow> payload_error + rat" where
  "field_number d key = bind_result (field_value d key) (number_or (InvalidNumberField key))"

definition field_integer :: "json_dict \<Rightarrow> ustr \<Rightarrow> payload_error + int" where
  "field_integer d key =
     bind_result (field_value d key) (\<lambda>v. case v of JInt n \<Rightarrow> Inr n | _ \<Rightarrow> permanent (InvalidIntegerField key))"

text \<open>\<open>fromiso\<close> is \<open>datetime.fromisoformat\<close>, \<open>None\<close> its \<open>ValueError\<close>.\<close>

definition aware_time ::
    "(ustr \<Rightarrow> py_datetime option) \<Rightarrow> permanent_error \<Rightarrow> permanent_error \<Rightarrow> ustr \<Rightarrow> payload_error + instant" where
  "aware_time fromiso invalid naive s =
     (case fromiso s of
        None \<Rightarrow> permanent invalid
      | Some (Naive _) \<Rightarrow> permanent naive
      | Some (Aware t) \<Rightarrow> Inr t)"

definition field_time :: "(ustr \<Rightarrow> py_datetime option) \<Rightarrow> json_dict \<Rightarrow> ustr \<Rightarrow> payload_error + instant" where
  "field_time fromiso d key =
     bind_result (field_string d key) (aware_time fromiso (InvalidTimeField key) (NaiveTimeField key))"

section \<open>Fields of an action's payload\<close>

definition action_field :: "json_dict \<Rightarrow> ustr \<Rightarrow> payload_error + json" where
  "action_field d key =
     (case json_get d key of
        None \<Rightarrow> permanent (MissingActionField key)
      | Some v \<Rightarrow> if v = JNull then permanent (MissingActionField key) else Inr v)"

definition action_text :: "json_dict \<Rightarrow> ustr \<Rightarrow> nat \<Rightarrow> payload_error + ustr" where
  "action_text d key maximum =
     bind_result (action_field d key) (\<lambda>v. case v of
       JStr s \<Rightarrow> if strip s = [] \<or> length (strip s) > maximum then permanent (InvalidActionText key) else Inr (strip s)
     | _ \<Rightarrow> permanent (InvalidActionText key))"

definition action_optional_text :: "json_dict \<Rightarrow> ustr \<Rightarrow> nat \<Rightarrow> payload_error + ustr option" where
  "action_optional_text d key maximum =
     (case json_get d key of
        None \<Rightarrow> Inr None
      | Some JNull \<Rightarrow> Inr None
      | Some (JStr s) \<Rightarrow>
          if length (strip s) > maximum then permanent (InvalidActionText key)
          else Inr (if strip s = [] then None else Some (strip s))
      | Some _ \<Rightarrow> permanent (InvalidActionText key))"

definition action_uuid :: "(nat \<Rightarrow> nat option) \<Rightarrow> json_dict \<Rightarrow> ustr \<Rightarrow> payload_error + uuid" where
  "action_uuid decimal d key =
     bind_result (action_text d key 36) (\<lambda>s. demand (InvalidActionUuid key) (parse_uuid decimal s))"

definition action_time :: "(ustr \<Rightarrow> py_datetime option) \<Rightarrow> json_dict \<Rightarrow> ustr \<Rightarrow> payload_error + instant option" where
  "action_time fromiso d key =
     (case json_get d key of
        None \<Rightarrow> Inr None
      | Some JNull \<Rightarrow> Inr None
      | Some (JStr s) \<Rightarrow>
          bind_result (aware_time fromiso (InvalidActionTime key) (NaiveActionTime key) s) (\<lambda>t. Inr (Some t))
      | Some _ \<Rightarrow> permanent (InvalidActionTime key))"

definition action_number :: "json_dict \<Rightarrow> ustr \<Rightarrow> rat \<Rightarrow> payload_error + rat" where
  "action_number d key default_value =
     number_or (InvalidActionNumber key) (case json_get d key of None \<Rightarrow> JFloat default_value | Some v \<Rightarrow> v)"

section \<open>Settings\<close>

definition setting_string :: "json_dict \<Rightarrow> ustr \<Rightarrow> payload_error + ustr" where
  "setting_string d key =
     (case json_get d key of
        Some (JStr s) \<Rightarrow> if strip s = [] then permanent (InvalidSetting TextSetting key) else Inr s
      | _ \<Rightarrow> permanent (InvalidSetting TextSetting key))"

definition setting_int :: "json_dict \<Rightarrow> ustr \<Rightarrow> payload_error + int" where
  "setting_int d key =
     (case json_get d key of Some (JInt n) \<Rightarrow> Inr n | _ \<Rightarrow> permanent (InvalidSetting IntegerSetting key))"

definition setting_number :: "json_dict \<Rightarrow> ustr \<Rightarrow> payload_error + rat" where
  "setting_number d key =
     number_or (InvalidSetting NumberSetting key) (case json_get d key of None \<Rightarrow> JNull | Some v \<Rightarrow> v)"

definition setting_bool :: "json_dict \<Rightarrow> ustr \<Rightarrow> payload_error + bool" where
  "setting_bool d key =
     (case json_get d key of Some (JBool b) \<Rightarrow> Inr b | _ \<Rightarrow> permanent (InvalidSetting BooleanSetting key))"

end
