(* ===== verification/Reflection.thy ===== *)
theory Reflection
  imports Memory_Ranker
begin

text \<open>
  \<open>DeterministicReflectionEngine\<close> (\<open>packages/cognition/.../reflection.py\<close>): what an agent keeps of a
  message after a conversation. The markers are the source's, a Chinese one by its code points; the
  order of \<open>_SMALL_TALK\<close>, a set, does not matter. Case folding is \<open>casefold\<close>, exact here because every
  marker is ASCII or consists of characters that fold to themselves and are no other folding. In
  the patterns \<open>\b\<close> asks for word characters; which characters beyond ASCII are alphanumeric is the
  parameter \<open>alnum\<close>. The formatted \<open>ValueError\<close>s are \<open>reflection_error\<close>s.
\<close>

section \<open>Data\<close>

datatype write_mode = HIGH_PRECISION | BALANCED

datatype write_decision = WRITE | SKIP_CREDENTIAL | SKIP_SMALL_TALK | SKIP_QUESTION | SKIP_LOW_SIGNAL

datatype relationship_signal = NEUTRAL | WARMTH | SELF_DISCLOSURE | CORRECTION | BOUNDARY | HOSTILITY

datatype reflection_error = RelationshipRange | NegativeInteractions | StepRange | EmptyReflection

record relationship_context =
  rc_affinity :: rat
  rc_trust :: rat
  rc_familiarity :: rat
  rc_interaction_count :: int
  rc_boundaries :: "ustr list"

definition relationship_context_of :: "relationship_context \<Rightarrow> reflection_error + relationship_context" where
  "relationship_context_of c =
     (if \<not> list_all (\<lambda>v. 0 \<le> v \<and> v \<le> 1) [rc_affinity c, rc_trust c, rc_familiarity c] then Inl RelationshipRange
      else if rc_interaction_count c < 0 then Inl NegativeInteractions
      else Inr c)"

record reflection_policy =
  fp_memory_write_mode :: write_mode
  fp_positive_step :: rat
  fp_negative_step :: rat
  fp_familiarity_step :: rat

definition reflection_policy_of :: "reflection_policy \<Rightarrow> reflection_error + reflection_policy" where
  "reflection_policy_of p =
     (if \<not> list_all (\<lambda>v. 0 \<le> v \<and> v \<le> rnd (2 / 10))
         [fp_positive_step p, fp_negative_step p, fp_familiarity_step p] then Inl StepRange
      else Inr p)"

record reflection_plan =
  fl_title :: ustr
  fl_episode_summary :: ustr
  fl_memory_content :: "ustr option"
  fl_memory_kind :: "memory_kind option"
  fl_memory_sensitivity :: "memory_sensitivity option"
  fl_memory_decision :: write_decision
  fl_memory_reason_codes :: "ustr list"
  fl_importance :: rat
  fl_confidence :: rat
  fl_emotional_weight :: rat
  fl_relationship_signals :: "relationship_signal list"
  fl_affinity_delta :: rat
  fl_trust_delta :: rat
  fl_familiarity_delta :: rat
  fl_relationship_summary :: ustr
  fl_boundaries :: "ustr list"

section \<open>Markers and texts\<close>

definition credential_markers :: "ustr list" where
  "credential_markers = [[23494, 30721], [39564, 35777, 30721], [35775, 38382, 20196, 29260], [23494, 38053], [31169, 38053],
     [21161, 35760, 35789], [38134, 34892, 21345, 21495], [20449, 29992, 21345, 21495], lit ''cvv'',
     lit ''password'', lit ''api key'', lit ''access token'', lit ''private key'', lit ''secret key'']"

definition direct_markers :: "ustr list" where
  "direct_markers = [[35831, 35760, 20303], [24110, 25105, 35760, 20303], [20320, 35201, 35760, 24471],
     [21035, 24536, 20102], lit ''remember that'', lit ''please remember'']"

definition preference_markers :: "ustr list" where
  "preference_markers = [[25105, 21916, 27426], [25105, 19981, 21916, 27426], [25105, 20559, 22909], [25105, 20064, 24815],
     [25105, 35752, 21388], [25105, 26356, 21916, 27426], [21483, 25105], [31216, 21628, 25105],
     lit ''i like'', lit ''i dislike'', lit ''i prefer'']"

definition personal_markers :: "ustr list" where
  "personal_markers = [[25105, 30340, 29983, 26085], [25105, 29983, 26085], [25105, 30340, 24037, 20316],
     [25105, 22312, 24037, 20316], [25105, 20303, 22312], [25105, 26469, 33258],
     [25105, 30340, 23478, 20154], [25105, 20859, 20102], [25105, 26159, 20010],
     [25105, 26159, 19968, 20010], [25105, 19981, 33021, 21507], [25105, 36807, 25935],
     lit ''my birthday'', lit ''i live in'', lit ''i work as'']"

definition plan_markers :: "ustr list" where
  "plan_markers = [[25105, 35745, 21010], [25105, 30340, 35745, 21010], [25105, 30340, 30446, 26631],
     [25105, 25171, 31639], [25105, 35201, 22312], [25105, 20934, 22791], lit ''i plan to'',
     lit ''my goal is'']"

definition event_markers :: "ustr list" where
  "event_markers = [[25105, 27605, 19994], [25105, 20837, 32844], [25105, 31163, 32844], [25105, 25644, 23478],
     [25105, 32467, 23130], [25105, 20998, 25163], [25105, 30830, 35786], [25105, 33719, 22870],
     [25105, 30340, 38754, 35797], [25105, 30340, 32771, 35797]]"

definition boundary_markers :: "ustr list" where
  "boundary_markers = [[19981, 35201, 20027, 21160, 32852, 31995], [21035, 20027, 21160, 32852, 31995],
     [19981, 35201, 32473, 25105, 21457, 28040, 24687], [21035, 32473, 25105, 21457, 28040, 24687],
     [19981, 35201, 25552, 37266, 25105], [21035, 25552, 37266, 25105], [19981, 35201, 20877, 38382],
     [21035, 20877, 38382], [25105, 19981, 24819, 32842], [19981, 24819, 35848, 36825, 20010],
     lit ''do not contact me'',
     [100, 111, 110, 39, 116, 32, 99, 111, 110, 116, 97, 99, 116, 32, 109, 101]]"

definition warmth_markers :: "ustr list" where
  "warmth_markers = [[35874, 35874], [24863, 35874], [24456, 24320, 24515], [22826, 22909, 20102], [24456, 36148, 24515],
     [20449, 20219, 20320], [21916, 27426, 21644, 20320, 32842], lit ''thank you'', lit ''thanks'']"

definition disclosure_markers :: "ustr list" where
  "disclosure_markers = [[25105, 26377, 28857, 23475, 24597], [25105, 24456, 23475, 24597], [25105, 24456, 25285, 24515],
     [25105, 26377, 28857, 28966, 34385], [25105, 24456, 38590, 36807], [21482, 21578, 35785, 20320],
     [36319, 20320, 35828, 20010, 31192, 23494], lit ''i am afraid'',
     [105, 39, 109, 32, 119, 111, 114, 114, 105, 101, 100]]"

definition correction_markers :: "ustr list" where
  "correction_markers = [[20320, 35760, 38169], [19981, 26159, 36825, 20010], [25105, 35828, 30340, 26159],
     [20320, 29702, 35299, 38169], [21035, 35823, 20250],
     [116, 104, 97, 116, 39, 115, 32, 110, 111, 116, 32, 119, 104, 97, 116, 32, 105, 32, 115, 97, 105, 100]]"

definition hostility_markers :: "ustr list" where
  "hostility_markers = [[38381, 22068], [28378, 24320], [28902, 27515, 20102], [35752, 21388, 20320], [21035, 28902, 25105],
     [20320, 30495, 34850], lit ''shut up'', lit ''go away'']"

definition small_talk :: "ustr list" where
  "small_talk = [[20320, 22909], [21992], [21704, 21949], [26089], [26089, 19978, 22909], [20013, 21320, 22909],
     [26202, 19978, 22909], [26202, 23433], [22312, 21527], [21704, 21704], [21704, 21704, 21704],
     [21999], [21734], [22909, 30340], [25910, 21040], lit ''hello'', lit ''hi'', lit ''good morning'',
     lit ''good night'']"

definition relational_prefix :: ustr where
  "relational_prefix = [29992, 25143, 26126, 30830, 34920, 36798, 20102, 20114, 21160, 36793, 30028, 25110, 27807, 36890,
     20559, 22909, 65306]"

definition semantic_prefix :: ustr where
  "semantic_prefix = [29992, 25143, 26126, 30830, 34920, 36798, 20102, 36739, 31283, 23450, 30340, 20449, 24687, 65306]"

definition episodic_prefix :: ustr where
  "episodic_prefix = [29992, 25143, 25552, 21040, 20102, 19968, 39033, 20540, 24471, 20445, 25345, 36830, 32493, 24615,
     30340, 35745, 21010, 25110, 32463, 21382, 65306]"

definition other_prefix :: ustr where
  "other_prefix = [29992, 25143, 26126, 30830, 34920, 36798, 65306]"

definition title_boundary :: ustr where
  "title_boundary = [29992, 25143, 36793, 30028, 34920, 36798]"

definition title_preference :: ustr where
  "title_preference = [29992, 25143, 20559, 22909, 20132, 27969]"

definition title_fact :: ustr where
  "title_fact = [29992, 25143, 20449, 24687, 20132, 27969]"

definition title_plan :: ustr where
  "title_plan = [29992, 25143, 35745, 21010, 20132, 27969]"

definition title_event :: ustr where
  "title_event = [37325, 35201, 32463, 21382, 20132, 27969]"

definition title_request :: ustr where
  "title_request = [29992, 25143, 26126, 30830, 35760, 24518, 35831, 27714]"

definition title_correction :: ustr where
  "title_correction = [29992, 25143, 32416, 38169, 20114, 21160]"

definition title_hostility :: ustr where
  "title_hostility = [20851, 31995, 36793, 30028, 20114, 21160]"

definition title_plain :: ustr where
  "title_plain = [26222, 36890, 23545, 35805, 20114, 21160]"

definition label_neutral :: ustr where
  "label_neutral = [23436, 25104, 19968, 27425, 26222, 36890, 20114, 21160]"

definition label_warmth :: ustr where
  "label_warmth = [29992, 25143, 34920, 36798, 20102, 21451, 22909, 25110, 24863, 35874]"

definition label_disclosure :: ustr where
  "label_disclosure = [29992, 25143, 36827, 34892, 20102, 35880, 24910, 30340, 33258, 25105, 25259, 38706]"

definition label_correction :: ustr where
  "label_correction = [29992, 25143, 32416, 27491, 20102, 32, 65, 103, 101, 110, 116, 32, 30340, 29702, 35299]"

definition label_boundary :: ustr where
  "label_boundary = [29992, 25143, 26126, 30830, 20102, 20114, 21160, 36793, 30028]"

definition label_hostility :: ustr where
  "label_hostility = [29992, 25143, 34920, 36798, 20102, 25298, 32477, 25110, 25932, 24847]"

definition episode_summary_text :: ustr where
  "episode_summary_text = [29992, 25143, 19982, 32, 65, 103, 101, 110, 116, 32, 23436, 25104, 19968, 27425, 21487, 36861,
     28335, 20114, 21160, 65307, 21453, 24605, 20165, 20445, 30041, 23433, 20840, 20998, 31867, 19982,
     24517, 35201, 35760, 24518, 12290]"

definition label_end :: ustr where
  "label_end = [65307, 20851, 31995, 29366, 24577, 25353, 26377, 30028, 35268, 21017, 26657, 20934, 12290]"

definition no_contact :: ustr where
  "no_contact = [19981, 20027, 21160, 32852, 31995]"

definition respect_topic :: ustr where
  "respect_topic = [23562, 37325, 29992, 25143, 26242, 19981, 35752, 35770, 30340, 35805, 39064]"

definition contact_markers :: "ustr list" where
  "contact_markers = [[19981, 35201, 20027, 21160, 32852, 31995], [21035, 20027, 21160, 32852, 31995],
     [19981, 35201, 32473, 25105, 21457, 28040, 24687], [21035, 32473, 25105, 21457, 28040, 24687],
     [19981, 35201, 25552, 37266, 25105], [21035, 25552, 37266, 25105], lit ''do not contact me'',
     [100, 111, 110, 39, 116, 32, 99, 111, 110, 116, 97, 99, 116, 32, 109, 101]]"

definition topic_markers :: "ustr list" where
  "topic_markers = [[19981, 35201, 20877, 38382], [21035, 20877, 38382], [25105, 19981, 24819, 32842],
     [19981, 24819, 35848, 36825, 20010]]"

section \<open>Matching\<close>

definition has_marker :: "ustr \<Rightarrow> ustr list \<Rightarrow> bool" where
  "has_marker s markers \<longleftrightarrow> list_ex (\<lambda>m. contains m s) markers"

definition ascii_alnum :: "nat \<Rightarrow> bool" where
  "ascii_alnum c \<longleftrightarrow> 48 \<le> c \<and> c \<le> 57 \<or> 65 \<le> c \<and> c \<le> 90 \<or> 97 \<le> c \<and> c \<le> 122"

definition word_char :: "(nat \<Rightarrow> bool) \<Rightarrow> nat \<Rightarrow> bool" where
  "word_char alnum c \<longleftrightarrow> (if c < 128 then ascii_alnum c \<or> c = 95 else alnum c)"

text \<open>The position between \<open>u\<close> and \<open>v\<close> is a word boundary.\<close>

definition word_boundary :: "(nat \<Rightarrow> bool) \<Rightarrow> ustr \<Rightarrow> ustr \<Rightarrow> bool" where
  "word_boundary alnum u v \<longleftrightarrow>
     (u \<noteq> [] \<and> word_char alnum (last u)) \<noteq> (v \<noteq> [] \<and> word_char alnum (hd v))"

definition key_char :: "nat \<Rightarrow> bool" where
  "key_char c \<longleftrightarrow> ascii_alnum c \<or> c = 95 \<or> c = 45"

definition access_char :: "nat \<Rightarrow> bool" where
  "access_char c \<longleftrightarrow> 48 \<le> c \<and> c \<le> 57 \<or> 65 \<le> c \<and> c \<le> 90"

text \<open>The patterns \<open>sk-...\<close> and \<open>AKIA...\<close> at a position that splits the text into \<open>u\<close> and \<open>v\<close>.\<close>

definition secret_key_at :: "(nat \<Rightarrow> bool) \<Rightarrow> ustr \<Rightarrow> ustr \<Rightarrow> bool" where
  "secret_key_at alnum u v \<longleftrightarrow> word_boundary alnum u v \<and> starts_with (lit ''sk-'') v \<and>
     list_ex (\<lambda>n. list_all key_char (take n (drop 3 v)) \<and>
         word_boundary alnum (u @ take (3 + n) v) (drop (3 + n) v))
       [16..<Suc (length v - 3)]"

definition access_key_at :: "(nat \<Rightarrow> bool) \<Rightarrow> ustr \<Rightarrow> ustr \<Rightarrow> bool" where
  "access_key_at alnum u v \<longleftrightarrow> word_boundary alnum u v \<and> starts_with (lit ''AKIA'') v \<and> 20 \<le> length v \<and>
     list_all access_char (take 16 (drop 4 v)) \<and> word_boundary alnum (u @ take 20 v) (drop 20 v)"

definition private_key_headers :: "ustr list" where
  "private_key_headers = map (\<lambda>k. lit ''-----BEGIN '' @ lit k @ lit ''PRIVATE KEY-----'')
     ['''', ''RSA '', ''EC '', ''OPENSSH '']"

definition looks_like_credential :: "(nat \<Rightarrow> bool) \<Rightarrow> ustr \<Rightarrow> bool" where
  "looks_like_credential alnum s \<longleftrightarrow>
     list_ex (\<lambda>i. secret_key_at alnum (take i s) (drop i s)) [0..<Suc (length s)] \<or>
     list_ex (\<lambda>i. access_key_at alnum (take i s) (drop i s)) [0..<Suc (length s)] \<or>
     has_marker s private_key_headers"

definition is_question :: "ustr \<Rightarrow> bool" where
  "is_question s \<longleftrightarrow> ends_with [63] s \<or> ends_with [65311] s"

definition is_self_disclosure :: "ustr \<Rightarrow> ustr \<Rightarrow> bool" where
  "is_self_disclosure folded normalized \<longleftrightarrow>
     has_marker folded [[25105], [25105, 30340], lit ''i '', lit ''i'' @ [39] @ lit ''m '', lit ''my ''] \<and>
     12 \<le> length normalized \<and> \<not> is_question normalized"

section \<open>The decision to remember\<close>

definition selected :: "(bool \<times> 'a) list \<Rightarrow> 'a list" where
  "selected xs = map snd (filter fst xs)"

definition memory_decision ::
    "(nat \<Rightarrow> bool) \<Rightarrow> ustr \<Rightarrow> ustr \<Rightarrow> write_mode \<Rightarrow> write_decision \<times> memory_kind option \<times> ustr list" where
  "memory_decision alnum normalized folded mode =
     (if has_marker folded credential_markers \<or> looks_like_credential alnum normalized
      then (SKIP_CREDENTIAL, None, [lit ''credential_content''])
      else
        (let direct = has_marker folded direct_markers; boundary = has_marker folded boundary_markers;
             preference = has_marker folded preference_markers; personal_fact = has_marker folded personal_markers;
             plan = has_marker folded plan_markers; important_event = has_marker folded event_markers;
             reasons = selected [(direct, lit ''explicit_memory_request''), (boundary, lit ''interaction_boundary''),
               (preference, lit ''stable_preference''), (personal_fact, lit ''personal_fact''),
               (plan, lit ''future_plan''), (important_event, lit ''important_event'')]
         in
         if is_question normalized \<and> \<not> direct \<and> \<not> boundary then (SKIP_QUESTION, None, [lit ''question_only''])
         else if reasons \<noteq> [] then
           (WRITE,
            Some (if boundary then RELATIONAL else if preference \<or> personal_fact then SEMANTIC else EPISODIC),
            reasons)
         else if mode = BALANCED \<and> is_self_disclosure folded normalized then
           (WRITE, Some EPISODIC, [lit ''self_disclosure''])
         else if folded \<in> set small_talk then (SKIP_SMALL_TALK, None, [lit ''small_talk''])
         else if is_question normalized then (SKIP_QUESTION, None, [lit ''question_only''])
         else (SKIP_LOW_SIGNAL, None, [lit ''low_signal''])))"

section \<open>Relationship\<close>

definition relationship_signals :: "ustr \<Rightarrow> relationship_signal list" where
  "relationship_signals folded =
     (let signals = selected [(has_marker folded hostility_markers, HOSTILITY),
        (has_marker folded boundary_markers, BOUNDARY), (has_marker folded correction_markers, CORRECTION),
        (has_marker folded disclosure_markers, SELF_DISCLOSURE), (has_marker folded warmth_markers, WARMTH)]
      in if signals = [] then [NEUTRAL] else signals)"

definition familiarity_factor :: "relationship_signal list \<Rightarrow> write_decision \<Rightarrow> rat" where
  "familiarity_factor signals decision =
     (if decision = SKIP_SMALL_TALK then 1 / 4
      else if HOSTILITY \<in> set signals then rnd (2 / 10)
      else if decision = SKIP_QUESTION \<or> decision = SKIP_LOW_SIGNAL then 1 / 2
      else 1)"

definition affinity_change :: "relationship_context \<Rightarrow> relationship_signal list \<Rightarrow> reflection_policy \<Rightarrow> rat" where
  "affinity_change c signals p =
     (if HOSTILITY \<in> set signals then - min (rc_affinity c) (fp_negative_step p)
      else if WARMTH \<in> set signals then fmul (fp_positive_step p) (fsub 1 (rc_affinity c))
      else 0)"

definition trust_change :: "relationship_context \<Rightarrow> relationship_signal list \<Rightarrow> reflection_policy \<Rightarrow> rat" where
  "trust_change c signals p =
     (let loss = min (rc_trust c) (fdiv (fp_negative_step p) 2) in
      if HOSTILITY \<in> set signals then - loss
      else
        (let gain = (if SELF_DISCLOSURE \<in> set signals
              then fmul (fdiv (fp_positive_step p) 2) (fsub 1 (rc_trust c)) else 0)
         in if CORRECTION \<in> set signals then fsub gain loss else gain))"

definition bounded_delta :: "rat \<Rightarrow> rat" where
  "bounded_delta x = round_digits 6 (max (- rnd (2 / 10)) (min (rnd (2 / 10)) x))"

definition relationship_deltas ::
    "relationship_context \<Rightarrow> relationship_signal list \<Rightarrow> reflection_policy \<Rightarrow> write_decision \<Rightarrow> rat \<times> rat \<times> rat" where
  "relationship_deltas c signals p decision =
     (bounded_delta (affinity_change c signals p), bounded_delta (trust_change c signals p),
      bounded_delta (fmul (fmul (fp_familiarity_step p) (familiarity_factor signals decision))
        (fsub 1 (rc_familiarity c))))"

section \<open>Strength of the memory\<close>

definition reason_weight :: "ustr \<Rightarrow> rat" where
  "reason_weight code =
     (if code = lit ''explicit_memory_request'' then rnd (42 / 100)
      else if code = lit ''interaction_boundary'' then rnd (38 / 100)
      else if code = lit ''stable_preference'' then rnd (3 / 10)
      else if code = lit ''personal_fact'' then rnd (32 / 100)
      else if code = lit ''future_plan'' then rnd (28 / 100)
      else if code = lit ''important_event'' then rnd (36 / 100)
      else if code = lit ''self_disclosure'' then rnd (28 / 100)
      else 0)"

definition importance_of :: "ustr list \<Rightarrow> ustr \<Rightarrow> rat" where
  "importance_of codes normalized =
     (let signal = (case map reason_weight codes of [] \<Rightarrow> 0 | w # ws \<Rightarrow> fold max ws w) in
      round_digits 6 (min (rnd (98 / 100)) (fadd (fadd (rnd (2 / 10)) signal)
        (fmul (fdiv (of_nat (min (length normalized) 240)) 240) (rnd (1 / 10))))))"

definition confidence_of :: "ustr list \<Rightarrow> write_decision \<Rightarrow> rat" where
  "confidence_of codes decision =
     (if decision \<noteq> WRITE then rnd (9 / 10)
      else if lit ''explicit_memory_request'' \<in> set codes then rnd (95 / 100)
      else if lit ''self_disclosure'' \<in> set codes then rnd (68 / 100)
      else rnd (84 / 100))"

definition emotional_weight_of :: "relationship_signal list \<Rightarrow> rat" where
  "emotional_weight_of signals =
     (if WARMTH \<in> set signals then 1 / 4
      else if HOSTILITY \<in> set signals \<or> CORRECTION \<in> set signals then - rnd (35 / 100)
      else 0)"

definition memory_content_of :: "ustr \<Rightarrow> memory_kind \<Rightarrow> ustr" where
  "memory_content_of kept kind =
     (case kind of RELATIONAL \<Rightarrow> relational_prefix | SEMANTIC \<Rightarrow> semantic_prefix
      | EPISODIC \<Rightarrow> episodic_prefix | _ \<Rightarrow> other_prefix) @ kept"

definition memory_sensitivity_of :: "ustr list \<Rightarrow> memory_sensitivity" where
  "memory_sensitivity_of codes =
     (if lit ''self_disclosure'' \<in> set codes then SENSITIVE
      else if list_ex (\<lambda>c. c \<in> set codes)
        [lit ''interaction_boundary'', lit ''personal_fact'', lit ''future_plan'', lit ''important_event''] then PERSONAL
      else if lit ''stable_preference'' \<in> set codes then NORMAL
      else PERSONAL)"

section \<open>Descriptions\<close>

definition episode_titles :: "(ustr \<times> ustr) list" where
  "episode_titles = [(lit ''interaction_boundary'', title_boundary), (lit ''stable_preference'', title_preference),
     (lit ''personal_fact'', title_fact), (lit ''future_plan'', title_plan), (lit ''important_event'', title_event),
     (lit ''explicit_memory_request'', title_request)]"

definition episode_title :: "ustr list \<Rightarrow> relationship_signal list \<Rightarrow> ustr" where
  "episode_title codes signals =
     (case find (\<lambda>(code, _). code \<in> set codes) episode_titles of
        Some (_, title) \<Rightarrow> title
      | None \<Rightarrow>
          if CORRECTION \<in> set signals then title_correction
          else if HOSTILITY \<in> set signals then title_hostility else title_plain)"

fun signal_label :: "relationship_signal \<Rightarrow> ustr" where
  "signal_label NEUTRAL = label_neutral"
| "signal_label WARMTH = label_warmth"
| "signal_label SELF_DISCLOSURE = label_disclosure"
| "signal_label CORRECTION = label_correction"
| "signal_label BOUNDARY = label_boundary"
| "signal_label HOSTILITY = label_hostility"

definition relationship_summary :: "relationship_signal list \<Rightarrow> ustr" where
  "relationship_summary signals = join [65307] (map signal_label signals) @ label_end"

definition boundaries_of :: "ustr \<Rightarrow> ustr list" where
  "boundaries_of folded =
     (if has_marker folded contact_markers then [no_contact] else []) @
     (if has_marker folded topic_markers then [respect_topic] else [])"

section \<open>Reflection\<close>

definition normalized_text :: "ustr \<Rightarrow> ustr" where
  "normalized_text s = join [32] (split_words (strip s))"

definition reflect ::
    "(nat \<Rightarrow> bool) \<Rightarrow> ustr \<Rightarrow> relationship_context \<Rightarrow> reflection_policy \<Rightarrow> reflection_error + reflection_plan" where
  "reflect alnum s current policy =
     (let normalized = normalized_text s in
      if normalized = [] then Inl EmptyReflection
      else
        (let folded = casefold normalized;
             kept = take 360 normalized;
             (decision, kind, codes) = memory_decision alnum normalized folded (fp_memory_write_mode policy);
             signals = relationship_signals folded;
             (affinity, trust, familiarity) = relationship_deltas current signals policy decision
         in Inr \<lparr>fl_title = episode_title codes signals, fl_episode_summary = episode_summary_text,
              fl_memory_content = (case kind of Some k \<Rightarrow> if decision = WRITE then Some (memory_content_of kept k) else None
                | None \<Rightarrow> None),
              fl_memory_kind = kind,
              fl_memory_sensitivity = (if decision = WRITE then Some (memory_sensitivity_of codes) else None),
              fl_memory_decision = decision, fl_memory_reason_codes = codes,
              fl_importance = importance_of codes normalized, fl_confidence = confidence_of codes decision,
              fl_emotional_weight = emotional_weight_of signals, fl_relationship_signals = signals,
              fl_affinity_delta = affinity, fl_trust_delta = trust, fl_familiarity_delta = familiarity,
              fl_relationship_summary = relationship_summary signals, fl_boundaries = boundaries_of folded\<rparr>))"

end
