(* ===== verification/Conversation_Domain.thy ===== *)
theory Conversation_Domain
  imports Json
begin

text \<open>
  The data of conversations (\<open>packages/domain/.../conversation.py\<close>, the content blocks of \<open>channels.py\<close> and
  \<open>attachment.py\<close>) and the payloads of their events (the static methods of
  \<open>MemoryConversationRepository\<close>). A constructor carries its enumeration's name as prefix, a field a
  short prefix of its class; \<open>isof\<close> is \<open>datetime.isoformat\<close>.
\<close>

section \<open>Enumerations\<close>

datatype conversation_status = CONVERSATION_ACTIVE | CONVERSATION_ARCHIVED

datatype sender_type = SENDER_USER | SENDER_AGENT | SENDER_SYSTEM

datatype message_status =
    MESSAGE_RECEIVED | MESSAGE_PROCESSING | MESSAGE_STREAMING | MESSAGE_COMPLETED | MESSAGE_SUPPRESSED
  | MESSAGE_CANCELLED | MESSAGE_FAILED

datatype run_status = RUN_QUEUED | RUN_RUNNING | RUN_COMPLETED | RUN_CANCELLED | RUN_FAILED

datatype feedback_rating = RATING_POSITIVE | RATING_NEGATIVE

datatype block_kind = BLOCK_TEXT | BLOCK_MARKDOWN | BLOCK_IMAGE | BLOCK_FILE

datatype attachment_status =
    ATTACHMENT_PENDING | ATTACHMENT_READY | ATTACHMENT_ATTACHED | ATTACHMENT_REJECTED | ATTACHMENT_DELETED

fun conversation_status_value :: "conversation_status \<Rightarrow> ustr" where
  "conversation_status_value CONVERSATION_ACTIVE = lit ''active''"
| "conversation_status_value CONVERSATION_ARCHIVED = lit ''archived''"

fun sender_type_value :: "sender_type \<Rightarrow> ustr" where
  "sender_type_value SENDER_USER = lit ''user''"
| "sender_type_value SENDER_AGENT = lit ''agent''"
| "sender_type_value SENDER_SYSTEM = lit ''system''"

fun message_status_value :: "message_status \<Rightarrow> ustr" where
  "message_status_value MESSAGE_RECEIVED = lit ''received''"
| "message_status_value MESSAGE_PROCESSING = lit ''processing''"
| "message_status_value MESSAGE_STREAMING = lit ''streaming''"
| "message_status_value MESSAGE_COMPLETED = lit ''completed''"
| "message_status_value MESSAGE_SUPPRESSED = lit ''suppressed''"
| "message_status_value MESSAGE_CANCELLED = lit ''cancelled''"
| "message_status_value MESSAGE_FAILED = lit ''failed''"

fun run_status_value :: "run_status \<Rightarrow> ustr" where
  "run_status_value RUN_QUEUED = lit ''queued''"
| "run_status_value RUN_RUNNING = lit ''running''"
| "run_status_value RUN_COMPLETED = lit ''completed''"
| "run_status_value RUN_CANCELLED = lit ''cancelled''"
| "run_status_value RUN_FAILED = lit ''failed''"

fun feedback_rating_value :: "feedback_rating \<Rightarrow> ustr" where
  "feedback_rating_value RATING_POSITIVE = lit ''positive''"
| "feedback_rating_value RATING_NEGATIVE = lit ''negative''"

fun block_kind_value :: "block_kind \<Rightarrow> ustr" where
  "block_kind_value BLOCK_TEXT = lit ''text''"
| "block_kind_value BLOCK_MARKDOWN = lit ''markdown''"
| "block_kind_value BLOCK_IMAGE = lit ''image''"
| "block_kind_value BLOCK_FILE = lit ''file''"

section \<open>Records\<close>

record development_identity =
  di_tenant_id :: uuid
  di_user_id :: uuid
  di_agent_id :: uuid
  di_user_name :: ustr
  di_agent_name :: ustr

record conversation =
  co_id :: uuid
  co_tenant_id :: uuid
  co_agent_id :: uuid
  co_title :: ustr
  co_status :: conversation_status
  co_created_by :: uuid
  co_event_sequence :: int
  co_created_at :: instant
  co_updated_at :: instant
  co_pinned_at :: "instant option"
  co_archived_at :: "instant option"
  co_deleted_at :: "instant option"
  co_branched_from_conversation_id :: "uuid option"
  co_branched_from_message_id :: "uuid option"

record message_part =
  mp_id :: uuid
  mp_tenant_id :: uuid
  mp_message_id :: uuid
  mp_position :: int
  mp_kind :: block_kind
  mp_text :: "ustr option"
  mp_attachment_id :: "uuid option"
  mp_content_type :: "ustr option"
  mp_file_name :: "ustr option"
  mp_size_bytes :: "int option"
  mp_sha256 :: "ustr option"
  mp_alt_text :: "ustr option"
  mp_created_at :: instant
  mp_updated_at :: instant

record chat_message =
  cg_id :: uuid
  cg_tenant_id :: uuid
  cg_conversation_id :: uuid
  cg_sender_type :: sender_type
  cg_sender_id :: "uuid option"
  cg_content :: ustr
  cg_status :: message_status
  cg_client_message_id :: "uuid option"
  cg_created_at :: instant
  cg_updated_at :: instant
  cg_edited_from_id :: "uuid option"
  cg_parts :: "message_part list"

record agent_run =
  gr_id :: uuid
  gr_tenant_id :: uuid
  gr_conversation_id :: uuid
  gr_agent_id :: uuid
  gr_trigger_message_id :: uuid
  gr_response_message_id :: uuid
  gr_status :: run_status
  gr_configuration_version :: int
  gr_persona_version :: int
  gr_prompt_version :: int
  gr_policy_version :: int
  gr_model_route_version :: int
  gr_model_profile :: ustr
  gr_input_tokens :: "int option"
  gr_output_tokens :: "int option"
  gr_error_code :: "ustr option"
  gr_created_at :: instant
  gr_started_at :: "instant option"
  gr_completed_at :: "instant option"

record conversation_event =
  vn_id :: uuid
  vn_tenant_id :: uuid
  vn_conversation_id :: uuid
  vn_sequence :: int
  vn_event_type :: ustr
  vn_payload :: json_dict
  vn_run_id :: "uuid option"
  vn_message_id :: "uuid option"
  vn_created_at :: instant

record pending_run =
  pu_conversation :: conversation
  pu_trigger_message :: chat_message
  pu_response_message :: chat_message
  pu_run :: agent_run
  pu_created :: bool

record message_feedback =
  mf_id :: uuid
  mf_tenant_id :: uuid
  mf_conversation_id :: uuid
  mf_message_id :: uuid
  mf_user_id :: uuid
  mf_rating :: feedback_rating
  mf_comment :: "ustr option"
  mf_created_at :: instant
  mf_updated_at :: instant

record content_block =
  kb_kind :: block_kind
  kb_text :: "ustr option"
  kb_attachment_id :: "uuid option"
  kb_content_type :: "ustr option"
  kb_file_name :: "ustr option"
  kb_size_bytes :: "int option"
  kb_sha256 :: "ustr option"
  kb_alt_text :: "ustr option"

record attachment =
  an_id :: uuid
  an_tenant_id :: uuid
  an_owner_id :: uuid
  an_conversation_id :: uuid
  an_client_message_id :: uuid
  an_message_id :: "uuid option"
  an_original_name :: ustr
  an_content_type :: ustr
  an_size_bytes :: int
  an_sha256 :: ustr
  an_object_key :: ustr
  an_status :: attachment_status
  an_validation_error :: "ustr option"
  an_created_at :: instant
  an_expires_at :: instant
  an_uploaded_at :: "instant option"
  an_attached_at :: "instant option"
  an_deleted_at :: "instant option"

section \<open>Payloads of events\<close>

definition jstr_option :: "ustr option \<Rightarrow> json" where
  "jstr_option v = (case v of None \<Rightarrow> JNull | Some s \<Rightarrow> JStr s)"

definition jint_option :: "int option \<Rightarrow> json" where
  "jint_option v = (case v of None \<Rightarrow> JNull | Some n \<Rightarrow> JInt n)"

abbreviation juuid :: "uuid \<Rightarrow> json" where
  "juuid u \<equiv> JStr (uuid_str u)"

abbreviation juuid_option :: "uuid option \<Rightarrow> json" where
  "juuid_option u \<equiv> jstr_option (map_option uuid_str u)"

definition part_payload :: "(instant \<Rightarrow> ustr) \<Rightarrow> message_part \<Rightarrow> json_dict" where
  "part_payload isof p =
     [(lit ''id'', juuid (mp_id p)), (lit ''position'', JInt (mp_position p)),
      (lit ''kind'', JStr (block_kind_value (mp_kind p))), (lit ''text'', jstr_option (mp_text p)),
      (lit ''attachment_id'', juuid_option (mp_attachment_id p)),
      (lit ''content_type'', jstr_option (mp_content_type p)), (lit ''file_name'', jstr_option (mp_file_name p)),
      (lit ''size_bytes'', jint_option (mp_size_bytes p)), (lit ''sha256'', jstr_option (mp_sha256 p)),
      (lit ''alt_text'', jstr_option (mp_alt_text p)), (lit ''created_at'', JStr (isof (mp_created_at p))),
      (lit ''updated_at'', JStr (isof (mp_updated_at p)))]"

definition message_payload :: "(instant \<Rightarrow> ustr) \<Rightarrow> chat_message \<Rightarrow> json_dict" where
  "message_payload isof m =
     [(lit ''id'', juuid (cg_id m)), (lit ''conversation_id'', juuid (cg_conversation_id m)),
      (lit ''sender_type'', JStr (sender_type_value (cg_sender_type m))),
      (lit ''sender_id'', juuid_option (cg_sender_id m)), (lit ''content'', JStr (cg_content m)),
      (lit ''status'', JStr (message_status_value (cg_status m))),
      (lit ''client_message_id'', juuid_option (cg_client_message_id m)),
      (lit ''created_at'', JStr (isof (cg_created_at m))), (lit ''updated_at'', JStr (isof (cg_updated_at m))),
      (lit ''edited_from_id'', juuid_option (cg_edited_from_id m)),
      (lit ''parts'', JList (map (\<lambda>p. JDict (part_payload isof p)) (cg_parts m)))]"

definition conversation_payload :: "(instant \<Rightarrow> ustr) \<Rightarrow> conversation \<Rightarrow> json_dict" where
  "conversation_payload isof c =
     [(lit ''id'', juuid (co_id c)), (lit ''title'', JStr (co_title c)),
      (lit ''status'', JStr (conversation_status_value (co_status c))),
      (lit ''pinned_at'', jstr_option (map_option isof (co_pinned_at c))),
      (lit ''archived_at'', jstr_option (map_option isof (co_archived_at c))),
      (lit ''deleted_at'', jstr_option (map_option isof (co_deleted_at c))),
      (lit ''updated_at'', JStr (isof (co_updated_at c)))]"

definition feedback_payload :: "(instant \<Rightarrow> ustr) \<Rightarrow> message_feedback \<Rightarrow> json_dict" where
  "feedback_payload isof f =
     [(lit ''id'', juuid (mf_id f)), (lit ''conversation_id'', juuid (mf_conversation_id f)),
      (lit ''message_id'', juuid (mf_message_id f)), (lit ''user_id'', juuid (mf_user_id f)),
      (lit ''rating'', JStr (feedback_rating_value (mf_rating f))), (lit ''comment'', jstr_option (mf_comment f)),
      (lit ''created_at'', JStr (isof (mf_created_at f))), (lit ''updated_at'', JStr (isof (mf_updated_at f)))]"

definition run_payload :: "agent_run \<Rightarrow> json_dict" where
  "run_payload r =
     [(lit ''id'', juuid (gr_id r)), (lit ''conversation_id'', juuid (gr_conversation_id r)),
      (lit ''response_message_id'', juuid (gr_response_message_id r)),
      (lit ''status'', JStr (run_status_value (gr_status r))),
      (lit ''configuration_version'', JInt (gr_configuration_version r)),
      (lit ''persona_version'', JInt (gr_persona_version r)), (lit ''prompt_version'', JInt (gr_prompt_version r)),
      (lit ''policy_version'', JInt (gr_policy_version r)),
      (lit ''model_route_version'', JInt (gr_model_route_version r)),
      (lit ''model_profile'', JStr (gr_model_profile r)), (lit ''input_tokens'', jint_option (gr_input_tokens r)),
      (lit ''output_tokens'', jint_option (gr_output_tokens r)), (lit ''error_code'', jstr_option (gr_error_code r))]"

end
