(* ===== verification/Task_Handlers.thy ===== *)
theory Task_Handlers
  imports Handler_Payload Reflection Conversation_Domain Memory_Rows Memory_Machine Task_Scheduling Task_Rows
    Config_Service
begin

text \<open>
  The handlers of background tasks (\<open>packages/application/.../task_handlers.py\<close>) that work on the long-term
  memory and on scheduled actions. A handler is a sequence of separately committed operations, so
  it returns its result, or the exception that ends it, with the state left behind. \<open>uuid5\<close>, \<open>alnum\<close>,
  \<open>decimal\<close> and \<open>fromiso\<close> are the standard library's; \<open>clock k\<close> is the \<open>k\<close>-th reading of the clock in a
  handler.
\<close>

section \<open>Sequencing\<close>

datatype 'e task_failure =
    PayloadFailure payload_error
  | MemoryFailure "'e memory_error"
  | ConfigurationFailure config_error
  | ReflectionFailure reflection_error
  | InvalidEnumValue ustr

definition then_do :: "('s \<Rightarrow> ('e + 'a) \<times> 's) \<Rightarrow> ('a \<Rightarrow> 's \<Rightarrow> ('e + 'b) \<times> 's) \<Rightarrow> 's \<Rightarrow> ('e + 'b) \<times> 's" where
  "then_do f g s = (case f s of (Inl e, t) \<Rightarrow> (Inl e, t) | (Inr x, t) \<Rightarrow> g x t)"

definition yields :: "('x \<Rightarrow> 'e) \<Rightarrow> 'x + 'a \<Rightarrow> 's \<Rightarrow> ('e + 'a) \<times> 's" where
  "yields wrap r s = (map_sum wrap id r, s)"

text \<open>A call of the memory service: a raising call leaves the state as it was.\<close>

definition memory_call ::
    "('s \<Rightarrow> 'e memory_error + ('a \<times> 's)) \<Rightarrow> 's \<Rightarrow> ('e task_failure + 'a) \<times> 's" where
  "memory_call f s = (case f s of Inl e \<Rightarrow> (Inl (MemoryFailure e), s) | Inr (x, t) \<Rightarrow> (Inr x, t))"

definition memory_read ::
    "('s \<Rightarrow> 'e memory_error + 'a) \<Rightarrow> 's \<Rightarrow> ('e task_failure + 'a) \<times> 's" where
  "memory_read f s = (map_sum MemoryFailure id (f s), s)"

abbreviation payload_part :: "payload_error + 'a \<Rightarrow> 's \<Rightarrow> ('e task_failure + 'a) \<times> 's" where
  "payload_part \<equiv> yields PayloadFailure"

definition enum_part :: "(ustr \<Rightarrow> 'a option) \<Rightarrow> payload_error + ustr \<Rightarrow> 's \<Rightarrow> ('e task_failure + 'a) \<times> 's" where
  "enum_part parse r = then_do (payload_part r)
     (\<lambda>v. yields id (case parse v of None \<Rightarrow> Inl (InvalidEnumValue v) | Some x \<Rightarrow> Inr x))"

section \<open>Reflection\<close>

definition write_mode_of :: "ustr \<Rightarrow> write_mode option" where
  "write_mode_of v = (if v = lit ''high_precision'' then Some HIGH_PRECISION
     else if v = lit ''balanced'' then Some BALANCED else None)"

text \<open>The policy from the effective configuration; a \<open>ValueError\<close> in it is a permanent failure.\<close>

definition configured_policy :: "json_dict \<Rightarrow> payload_error + reflection_policy" where
  "configured_policy vals =
     bind_result (setting_string vals (lit ''cognition.reflection.memory_write_mode'')) (\<lambda>mode.
     bind_result (demand ReflectionPolicyInvalid (write_mode_of mode)) (\<lambda>write_mode.
     bind_result (setting_number vals (lit ''cognition.reflection.relationship_positive_step'')) (\<lambda>positive.
     bind_result (setting_number vals (lit ''cognition.reflection.relationship_negative_step'')) (\<lambda>negative.
     bind_result (setting_number vals (lit ''cognition.reflection.familiarity_step'')) (\<lambda>familiarity.
       case reflection_policy_of \<lparr>fp_memory_write_mode = write_mode, fp_positive_step = positive,
           fp_negative_step = negative, fp_familiarity_step = familiarity\<rparr> of
         Inl _ \<Rightarrow> permanent ReflectionPolicyInvalid
       | Inr p \<Rightarrow> Inr p)))))"

definition context_of :: "relationship_detail option \<Rightarrow> relationship_context" where
  "context_of detail = (case detail of
     None \<Rightarrow> \<lparr>rc_affinity = 0, rc_trust = 0, rc_familiarity = 0, rc_interaction_count = 0, rc_boundaries = []\<rparr>
   | Some d \<Rightarrow> (let r = rd_relationship d in
       \<lparr>rc_affinity = rl_affinity r, rc_trust = rl_trust r, rc_familiarity = rl_familiarity r,
        rc_interaction_count = rl_interaction_count r, rc_boundaries = rl_boundaries r\<rparr>))"

text \<open>What the handler learns before it writes: the payload's identifiers, the source and the settings.\<close>

record reflection_input =
  ri_agent_id :: uuid
  ri_user_id :: uuid
  ri_conversation_id :: uuid
  ri_trigger_message_id :: uuid
  ri_source :: pending_run
  ri_actor_id :: uuid
  ri_policy :: reflection_policy
  ri_minimum_importance :: rat

type_synonym reflection_sources =
  "uuid \<Rightarrow> uuid \<Rightarrow> uuid \<Rightarrow> uuid \<Rightarrow> uuid \<Rightarrow> uuid \<Rightarrow> uuid option \<Rightarrow> pending_run option"

definition reflection_source ::
    "(nat \<Rightarrow> nat option) \<Rightarrow> reflection_sources \<Rightarrow> background_job \<Rightarrow>
       payload_error + (uuid \<times> uuid \<times> uuid \<times> uuid \<times> pending_run \<times> uuid)" where
  "reflection_source decimal sources job =
     (let d = bj_payload job in
      bind_result (field_uuid decimal d (lit ''agent_id'')) (\<lambda>agent_id.
      bind_result (field_uuid decimal d (lit ''user_id'')) (\<lambda>user_id.
      bind_result (field_uuid decimal d (lit ''conversation_id'')) (\<lambda>conversation_id.
      bind_result (field_uuid decimal d (lit ''trigger_message_id'')) (\<lambda>trigger_id.
      bind_result (field_uuid decimal d (lit ''response_message_id'')) (\<lambda>response_id.
      bind_result (optional_uuid decimal d (lit ''run_id'')) (\<lambda>run_id.
        case sources (bj_tenant_id job) agent_id user_id conversation_id trigger_id response_id run_id of
          None \<Rightarrow> permanent ReflectionSourceMissing
        | Some src \<Rightarrow>
            (case cg_sender_id (pu_trigger_message src) of
               None \<Rightarrow> permanent ReflectionSourceMissing
             | Some sender \<Rightarrow> Inr (agent_id, user_id, conversation_id, trigger_id, src, sender)))))))))"

definition reflection_input_of ::
    "registry \<Rightarrow> config_store \<Rightarrow> (nat \<Rightarrow> nat option) \<Rightarrow> reflection_sources \<Rightarrow> background_job \<Rightarrow>
       'e task_failure + reflection_input" where
  "reflection_input_of reg config decimal sources job =
     (case reflection_source decimal sources job of
        Inl e \<Rightarrow> Inl (PayloadFailure e)
      | Inr (agent_id, user_id, conversation_id, trigger_id, src, sender) \<Rightarrow>
          (case resolve_effective reg \<lparr>tg_tenant_id = bj_tenant_id job, tg_agent_id = Some agent_id,
               tg_channel_id = None, tg_user_id = Some user_id\<rparr> (Some (gr_configuration_version (pu_run src))) config of
             Inl e \<Rightarrow> Inl (ConfigurationFailure e)
           | Inr snapshot \<Rightarrow>
               map_sum PayloadFailure id
                 (bind_result (configured_policy (ef_values snapshot)) (\<lambda>policy.
                  bind_result (setting_number (ef_values snapshot) (lit ''cognition.reflection.minimum_importance''))
                    (\<lambda>minimum.
                  Inr \<lparr>ri_agent_id = agent_id, ri_user_id = user_id, ri_conversation_id = conversation_id,
                    ri_trigger_message_id = trigger_id, ri_source = src, ri_actor_id = sender,
                    ri_policy = policy, ri_minimum_importance = minimum\<rparr>)))))"

definition reflected_episode :: "uuid \<Rightarrow> reflection_input \<Rightarrow> reflection_plan \<Rightarrow> instant \<Rightarrow> episode_args" where
  "reflected_episode tenant_id i p ended_at =
     \<lparr>ee_tenant_id = tenant_id, ee_agent_id = ri_agent_id i, ee_user_id = ri_user_id i,
      ee_conversation_id = ri_conversation_id i, ee_title = fl_title p, ee_summary = fl_episode_summary p,
      ee_started_at = Aware (cg_created_at (pu_trigger_message (ri_source i))), ee_ended_at = Some (Aware ended_at),
      ee_source_message_ids = [ri_trigger_message_id i], ee_actor_id = ri_actor_id i\<rparr>"

definition reflected_memory ::
    "uuid \<Rightarrow> reflection_input \<Rightarrow> reflection_plan \<Rightarrow> uuid \<Rightarrow> memory_kind \<Rightarrow> memory_sensitivity \<Rightarrow> ustr \<Rightarrow> memory_args" where
  "reflected_memory tenant_id i p episode_id kind sensitivity content =
     (let trigger = pu_trigger_message (ri_source i); occurred_at = Aware (cg_created_at trigger) in
      \<lparr>cm_tenant_id = tenant_id, cm_agent_id = ri_agent_id i, cm_user_id = Some (ri_user_id i),
       cm_conversation_id = Some (ri_conversation_id i), cm_episode_id = Some episode_id, cm_kind = kind,
       cm_visibility = VISIBLE_USER, cm_content = content, cm_event_at = occurred_at,
       cm_confidence = fl_confidence p, cm_importance = fl_importance p,
       cm_emotional_weight = fl_emotional_weight p, cm_sensitivity = sensitivity,
       cm_confirmation = UNCONFIRMED,
       cm_sources = [\<lparr>sd_kind = SOURCE_MESSAGE, sd_source_id = uuid_str (ri_trigger_message_id i),
         sd_excerpt = Some (take 2000 (cg_content trigger)), sd_is_verbatim = True, sd_occurred_at = occurred_at\<rparr>],
       cm_actor_id = ri_actor_id i\<rparr>)"

text \<open>What is written of the plan as a memory: nothing unless it says so and is important enough.\<close>

definition planned_memory :: "reflection_plan \<Rightarrow> rat \<Rightarrow> (memory_kind \<times> memory_sensitivity \<times> ustr) option" where
  "planned_memory p minimum =
     (case (fl_memory_kind p, fl_memory_sensitivity p, fl_memory_content p) of
        (Some kind, Some sensitivity, Some content) \<Rightarrow>
          if fl_memory_decision p = WRITE \<and> minimum \<le> fl_importance p then Some (kind, sensitivity, content) else None
      | _ \<Rightarrow> None)"

fun signal_value :: "relationship_signal \<Rightarrow> ustr" where
  "signal_value NEUTRAL = lit ''neutral''"
| "signal_value WARMTH = lit ''warmth''"
| "signal_value SELF_DISCLOSURE = lit ''self_disclosure''"
| "signal_value CORRECTION = lit ''correction''"
| "signal_value BOUNDARY = lit ''boundary''"
| "signal_value HOSTILITY = lit ''hostility''"

fun write_decision_value :: "write_decision \<Rightarrow> ustr" where
  "write_decision_value WRITE = lit ''write''"
| "write_decision_value SKIP_CREDENTIAL = lit ''skip_credential''"
| "write_decision_value SKIP_SMALL_TALK = lit ''skip_small_talk''"
| "write_decision_value SKIP_QUESTION = lit ''skip_question''"
| "write_decision_value SKIP_LOW_SIGNAL = lit ''skip_low_signal''"

text \<open>\<open>dict.fromkeys\<close> keeps the first of equal elements.\<close>

fun first_of_each :: "'a list \<Rightarrow> 'a list" where
  "first_of_each [] = []"
| "first_of_each (x # xs) = x # filter (\<lambda>y. y \<noteq> x) (first_of_each xs)"

definition reflected_relationship ::
    "uuid \<Rightarrow> reflection_input \<Rightarrow> relationship_context \<Rightarrow> reflection_plan \<Rightarrow> uuid option \<Rightarrow> relationship_args" where
  "reflected_relationship tenant_id i c p memory_id =
     \<lparr>ra_tenant_id = tenant_id, ra_agent_id = ri_agent_id i, ra_user_id = ri_user_id i,
      ra_event_type = lit ''conversation.reflected.'' @ signal_value (hd (fl_relationship_signals p)),
      ra_affinity_delta = fl_affinity_delta p, ra_trust_delta = fl_trust_delta p,
      ra_familiarity_delta = fl_familiarity_delta p, ra_summary = fl_relationship_summary p,
      ra_boundaries = (if fl_boundaries p \<noteq> [] then Some (first_of_each (rc_boundaries c @ fl_boundaries p)) else None),
      ra_evidence_memory_id = memory_id, ra_actor_id = ri_actor_id i\<rparr>"

definition reflection_result ::
    "reflection_plan \<Rightarrow> uuid \<Rightarrow> uuid option \<Rightarrow> int \<Rightarrow> json_dict" where
  "reflection_result p episode_id memory_id version =
     [(lit ''episode_id'', juuid episode_id), (lit ''memory_id'', juuid_option memory_id),
      (lit ''memory_created'', JBool (memory_id \<noteq> None)),
      (lit ''memory_decision'', JStr (write_decision_value (fl_memory_decision p))),
      (lit ''memory_kind'', jstr_option (map_option memory_kind_value (fl_memory_kind p))),
      (lit ''memory_sensitivity'', jstr_option (map_option memory_sensitivity_value (fl_memory_sensitivity p))),
      (lit ''memory_reason_codes'', JList (map JStr (fl_memory_reason_codes p))),
      (lit ''relationship_signals'', JList (map (\<lambda>s. JStr (signal_value s)) (fl_relationship_signals p))),
      (lit ''relationship_version'', JInt version)]"

definition store_planned_memory ::
    "('s, 'e) memory_repository \<Rightarrow> (uuid \<Rightarrow> ustr \<Rightarrow> uuid) \<Rightarrow> text_encoder \<Rightarrow> uuid \<Rightarrow> reflection_input \<Rightarrow>
       reflection_plan \<Rightarrow> uuid \<Rightarrow> instant \<Rightarrow> 's \<Rightarrow> ('e task_failure + uuid option) \<times> 's" where
  "store_planned_memory repo uuid5 enc tenant_id i p episode_id now =
     (case planned_memory p (ri_minimum_importance i) of
        None \<Rightarrow> yields id (Inr None)
      | Some (kind, sensitivity, content) \<Rightarrow>
          (let memory_id = uuid5 (gr_id (pu_run (ri_source i))) (lit ''reflection:memory'') in
           then_do (memory_call (create_memory repo uuid5 enc
               (reflected_memory tenant_id i p episode_id kind sensitivity content) memory_id now))
             (\<lambda>_. yields id (Inr (Some memory_id)))))"

definition apply_plan ::
    "('s, 'e) memory_repository \<Rightarrow> (uuid \<Rightarrow> ustr \<Rightarrow> uuid) \<Rightarrow> text_encoder \<Rightarrow> (nat \<Rightarrow> instant) \<Rightarrow> uuid \<Rightarrow>
       reflection_input \<Rightarrow> relationship_context \<Rightarrow> reflection_plan \<Rightarrow> 's \<Rightarrow> ('e task_failure + json_dict) \<times> 's" where
  "apply_plan repo uuid5 enc clock tenant_id i c p =
     (let run_id = gr_id (pu_run (ri_source i)) in
      then_do (memory_call (create_episode repo (reflected_episode tenant_id i p (clock 0))
          (uuid5 run_id (lit ''reflection:episode'')) (clock 1))) (\<lambda>episode.
      then_do (store_planned_memory repo uuid5 enc tenant_id i p (ep_id episode) (clock 2)) (\<lambda>memory_id.
      then_do (memory_call (record_relationship_event repo uuid5 (reflected_relationship tenant_id i c p memory_id)
          (uuid5 run_id (lit ''reflection:relationship-event'')) (clock 3))) (\<lambda>detail.
      then_do (memory_call (close_episode repo (ep_id episode) tenant_id (ri_agent_id i) True (ri_actor_id i) (clock 4)))
        (\<lambda>_. yields id (Inr (reflection_result p (ep_id episode) memory_id (rl_version (rd_relationship detail)))))))))"

definition handle_reflection ::
    "('s, 'e) memory_repository \<Rightarrow> (uuid \<Rightarrow> ustr \<Rightarrow> uuid) \<Rightarrow> text_encoder \<Rightarrow> registry \<Rightarrow> config_store \<Rightarrow>
       (nat \<Rightarrow> bool) \<Rightarrow> (nat \<Rightarrow> nat option) \<Rightarrow> reflection_sources \<Rightarrow> (nat \<Rightarrow> instant) \<Rightarrow> background_job \<Rightarrow>
       's \<Rightarrow> ('e task_failure + json_dict) \<times> 's" where
  "handle_reflection repo uuid5 enc reg config alnum decimal sources clock job =
     then_do (yields id (reflection_input_of reg config decimal sources job)) (\<lambda>i.
     then_do (memory_read (get_relationship repo (bj_tenant_id job) (ri_agent_id i) (ri_user_id i))) (\<lambda>detail.
     then_do (yields ReflectionFailure (relationship_context_of (context_of detail))) (\<lambda>c.
     then_do (yields ReflectionFailure
         (reflect alnum (cg_content (pu_trigger_message (ri_source i))) c (ri_policy i))) (\<lambda>p.
       apply_plan repo uuid5 enc clock (bj_tenant_id job) i c p))))"

section \<open>Maintenance of the memory\<close>

definition handle_consolidation ::
    "('s, 'e) memory_repository \<Rightarrow> (nat \<Rightarrow> nat option) \<Rightarrow> instant \<Rightarrow> background_job \<Rightarrow> 's \<Rightarrow>
       ('e task_failure + json_dict) \<times> 's" where
  "handle_consolidation repo decimal now job =
     (let d = bj_payload job in
      then_do (payload_part (field_uuid decimal d (lit ''episode_id''))) (\<lambda>episode_id.
      then_do (payload_part (field_uuid decimal d (lit ''agent_id''))) (\<lambda>agent_id.
      then_do (payload_part (field_uuid decimal d (lit ''actor_id''))) (\<lambda>actor_id.
      then_do (memory_call (close_episode repo episode_id (bj_tenant_id job) agent_id True actor_id now)) (\<lambda>episode.
        yields id (Inr [(lit ''episode_id'', juuid (ep_id episode)),
          (lit ''status'', JStr (episode_status_value (ep_status episode)))]))))))"

definition extraction_args ::
    "(nat \<Rightarrow> nat option) \<Rightarrow> (ustr \<Rightarrow> py_datetime option) \<Rightarrow> background_job \<Rightarrow> 's \<Rightarrow>
       ('e task_failure + memory_args) \<times> 's" where
  "extraction_args decimal fromiso job =
     (let d = bj_payload job in
      then_do (payload_part (field_time fromiso d (lit ''occurred_at''))) (\<lambda>occurred_at.
      then_do (payload_part (field_string d (lit ''source_id''))) (\<lambda>source_id.
      then_do (payload_part (field_uuid decimal d (lit ''agent_id''))) (\<lambda>agent_id.
      then_do (payload_part (optional_uuid decimal d (lit ''user_id''))) (\<lambda>user_id.
      then_do (payload_part (optional_uuid decimal d (lit ''conversation_id''))) (\<lambda>conversation_id.
      then_do (payload_part (optional_uuid decimal d (lit ''episode_id''))) (\<lambda>episode_id.
      then_do (enum_part parse_memory_kind (field_string d (lit ''memory_kind''))) (\<lambda>kind.
      then_do (enum_part parse_memory_visibility (field_string d (lit ''visibility''))) (\<lambda>visibility.
      then_do (payload_part (field_string d (lit ''content''))) (\<lambda>content.
      then_do (payload_part (field_number d (lit ''confidence''))) (\<lambda>confidence.
      then_do (payload_part (field_number d (lit ''importance''))) (\<lambda>importance.
      then_do (payload_part (field_number d (lit ''emotional_weight''))) (\<lambda>emotional_weight.
      then_do (enum_part parse_memory_sensitivity (field_string d (lit ''sensitivity''))) (\<lambda>sensitivity.
      then_do (payload_part (field_uuid decimal d (lit ''actor_id''))) (\<lambda>actor_id.
        yields id (Inr \<lparr>cm_tenant_id = bj_tenant_id job, cm_agent_id = agent_id, cm_user_id = user_id,
          cm_conversation_id = conversation_id, cm_episode_id = episode_id, cm_kind = kind,
          cm_visibility = visibility, cm_content = content, cm_event_at = Aware occurred_at,
          cm_confidence = confidence, cm_importance = importance, cm_emotional_weight = emotional_weight,
          cm_sensitivity = sensitivity, cm_confirmation = UNCONFIRMED,
          cm_sources = [\<lparr>sd_kind = SOURCE_REFLECTION, sd_source_id = source_id, sd_excerpt = None,
            sd_is_verbatim = False, sd_occurred_at = Aware occurred_at\<rparr>],
          cm_actor_id = actor_id\<rparr>))))))))))))))))"

definition handle_extraction ::
    "('s, 'e) memory_repository \<Rightarrow> (uuid \<Rightarrow> ustr \<Rightarrow> uuid) \<Rightarrow> text_encoder \<Rightarrow> (nat \<Rightarrow> nat option) \<Rightarrow>
       (ustr \<Rightarrow> py_datetime option) \<Rightarrow> instant \<Rightarrow> background_job \<Rightarrow> 's \<Rightarrow> ('e task_failure + json_dict) \<times> 's" where
  "handle_extraction repo uuid5 enc decimal fromiso now job =
     then_do (extraction_args decimal fromiso job) (\<lambda>args.
     then_do (memory_call (create_memory repo uuid5 enc args (uuid5 (bj_id job) (lit ''memory-extraction'')) now))
       (\<lambda>detail. yields id (Inr [(lit ''memory_id'', juuid (mm_id (md_memory detail)))])))"

text \<open>A rebuild of the index commits on its way, so its state survives a failure.\<close>

definition handle_rebuild ::
    "('s, 'e) memory_repository \<Rightarrow> (uuid \<Rightarrow> ustr \<Rightarrow> uuid) \<Rightarrow> text_encoder \<Rightarrow> ('e memory_error \<Rightarrow> ustr) \<Rightarrow>
       (nat \<Rightarrow> nat option) \<Rightarrow> instant \<Rightarrow> (nat \<Rightarrow> instant) \<Rightarrow> instant \<Rightarrow> background_job \<Rightarrow> 's \<Rightarrow>
       ('e task_failure + json_dict) \<times> 's" where
  "handle_rebuild repo uuid5 enc error_name decimal started clock ended job =
     (let d = bj_payload job in
      then_do (payload_part (field_uuid decimal d (lit ''agent_id''))) (\<lambda>agent_id.
      then_do (payload_part (field_uuid decimal d (lit ''index_job_id''))) (\<lambda>job_id.
      then_do (\<lambda>s. apfst (map_sum MemoryFailure id)
          (run_embedding_rebuild repo uuid5 enc error_name (bj_tenant_id job) agent_id job_id started clock ended s)) (\<lambda>j.
        yields id (Inr [(lit ''index_job_id'', juuid (ix_id j)), (lit ''processed_items'', JInt (ix_processed_items j)),
          (lit ''status'', JStr (index_status_value (ix_status j)))])))))"

definition handle_relationship ::
    "('s, 'e) memory_repository \<Rightarrow> (uuid \<Rightarrow> ustr \<Rightarrow> uuid) \<Rightarrow> (nat \<Rightarrow> nat option) \<Rightarrow> instant \<Rightarrow> background_job \<Rightarrow>
       's \<Rightarrow> ('e task_failure + json_dict) \<times> 's" where
  "handle_relationship repo uuid5 decimal now job =
     (let d = bj_payload job in
      then_do (payload_part (field_uuid decimal d (lit ''agent_id''))) (\<lambda>agent_id.
      then_do (payload_part (field_uuid decimal d (lit ''user_id''))) (\<lambda>user_id.
      then_do (payload_part (field_string d (lit ''event_type''))) (\<lambda>event_type.
      then_do (payload_part (field_number d (lit ''affinity_delta''))) (\<lambda>affinity_delta.
      then_do (payload_part (field_number d (lit ''trust_delta''))) (\<lambda>trust_delta.
      then_do (payload_part (field_number d (lit ''familiarity_delta''))) (\<lambda>familiarity_delta.
      then_do (payload_part (field_string d (lit ''summary''))) (\<lambda>summary.
      then_do (payload_part (optional_uuid decimal d (lit ''evidence_memory_id''))) (\<lambda>evidence.
      then_do (payload_part (field_uuid decimal d (lit ''actor_id''))) (\<lambda>actor_id.
      then_do (memory_call (record_relationship_event repo uuid5
          \<lparr>ra_tenant_id = bj_tenant_id job, ra_agent_id = agent_id, ra_user_id = user_id, ra_event_type = event_type,
           ra_affinity_delta = affinity_delta, ra_trust_delta = trust_delta, ra_familiarity_delta = familiarity_delta,
           ra_summary = summary, ra_boundaries = None, ra_evidence_memory_id = evidence, ra_actor_id = actor_id\<rparr>
          (uuid5 (bj_id job) (lit ''relationship-update'')) now)) (\<lambda>detail.
        yields id (Inr [(lit ''relationship_id'', juuid (rl_id (rd_relationship detail))),
          (lit ''relationship_version'', JInt (rl_version (rd_relationship detail)))]))))))))))))"

section \<open>Scheduled actions\<close>

datatype event_status =
    EVENT_ACCEPTED | EVENT_DELIVERED | EVENT_DEGRADED | EVENT_REJECTED | EVENT_FAILED | EVENT_RATE_LIMITED

fun event_status_value :: "event_status \<Rightarrow> ustr" where
  "event_status_value EVENT_ACCEPTED = lit ''accepted''"
| "event_status_value EVENT_DELIVERED = lit ''delivered''"
| "event_status_value EVENT_DEGRADED = lit ''degraded''"
| "event_status_value EVENT_REJECTED = lit ''rejected''"
| "event_status_value EVENT_FAILED = lit ''failed''"
| "event_status_value EVENT_RATE_LIMITED = lit ''rate_limited''"

record delivery_receipt =
  dr_status :: event_status
  dr_external_message_id :: ustr
  dr_degradations :: "ustr list"
  dr_delivered_at :: instant
  dr_idempotent_replay :: bool

record delivery_command =
  dc_tenant_id :: uuid
  dc_agent_id :: uuid
  dc_channel_id :: uuid
  dc_recipient_id :: ustr
  dc_blocks :: "content_block list"
  dc_idempotency_key :: ustr
  dc_request_streaming :: bool
  dc_thread_id :: "ustr option"
  dc_edit_message_id :: "ustr option"
  dc_proactive :: bool

text \<open>The channel service, if one is configured: its \<open>deliver\<close> over a state of its own.\<close>

type_synonym ('d, 'c) channel_port = "(delivery_command \<Rightarrow> 'c \<Rightarrow> ('d + delivery_receipt) \<times> 'c) option"

datatype ('e, 'd) dispatch_error =
    HandlerFailure "'e task_failure"
  | EvaluationFailure evaluate_error
  | ZoneFailure
  | DeliveryFailure 'd

text \<open>
  \<open>ZoneInfo(name)\<close>: not found, another exception, or a zone that gives the local hour and date.
\<close>

datatype zone_lookup = ZoneMissing | ZoneUnreadable | Zone "instant \<Rightarrow> int \<times> date"

abbreviation permanent_part :: "payload_error + 'a \<Rightarrow> 's \<Rightarrow> (('e, 'd) dispatch_error + 'a) \<times> 's" where
  "permanent_part \<equiv> yields (\<lambda>e. HandlerFailure (PayloadFailure e))"

record proactive_message =
  pm_channel_id :: uuid
  pm_recipient_id :: ustr
  pm_message :: ustr
  pm_thread_id :: "ustr option"
  pm_edit_message_id :: "ustr option"
  pm_request_streaming :: bool

definition proactive_payload :: "(nat \<Rightarrow> nat option) \<Rightarrow> json_dict \<Rightarrow> payload_error + proactive_message" where
  "proactive_payload decimal d =
     bind_result (action_uuid decimal d (lit ''channel_id'')) (\<lambda>channel_id.
     bind_result (action_text d (lit ''recipient_id'') 255) (\<lambda>recipient_id.
     bind_result (action_text d (lit ''message'') 20000) (\<lambda>message.
     bind_result (action_optional_text d (lit ''thread_id'') 255) (\<lambda>thread_id.
     bind_result (action_optional_text d (lit ''edit_message_id'') 255) (\<lambda>edit_message_id.
       case json_get d (lit ''request_streaming'') of
         None \<Rightarrow> Inr \<lparr>pm_channel_id = channel_id, pm_recipient_id = recipient_id, pm_message = message,
           pm_thread_id = thread_id, pm_edit_message_id = edit_message_id, pm_request_streaming = False\<rparr>
       | Some (JBool b) \<Rightarrow> Inr \<lparr>pm_channel_id = channel_id, pm_recipient_id = recipient_id, pm_message = message,
           pm_thread_id = thread_id, pm_edit_message_id = edit_message_id, pm_request_streaming = b\<rparr>
       | Some _ \<Rightarrow> permanent InvalidStreaming)))))"

definition text_block :: "ustr \<Rightarrow> content_block" where
  "text_block s = \<lparr>kb_kind = BLOCK_TEXT, kb_text = Some s, kb_attachment_id = None, kb_content_type = None,
     kb_file_name = None, kb_size_bytes = None, kb_sha256 = None, kb_alt_text = None\<rparr>"

definition proactive_delivery :: "scheduled_action \<Rightarrow> proactive_message \<Rightarrow> delivery_command" where
  "proactive_delivery a m =
     \<lparr>dc_tenant_id = sa_tenant_id a, dc_agent_id = sa_agent_id a, dc_channel_id = pm_channel_id m,
      dc_recipient_id = pm_recipient_id m, dc_blocks = [text_block (pm_message m)],
      dc_idempotency_key = lit ''proactive:'' @ uuid_str (sa_id a), dc_request_streaming = pm_request_streaming m,
      dc_thread_id = pm_thread_id m, dc_edit_message_id = pm_edit_message_id m, dc_proactive = True\<rparr>"

definition delivery_result :: "scheduled_action \<Rightarrow> delivery_receipt \<Rightarrow> json_dict" where
  "delivery_result a r =
     [(lit ''scheduled_action_id'', juuid (sa_id a)), (lit ''status'', JStr (action_status_value (sa_status a))),
      (lit ''delivery_status'', JStr (event_status_value (dr_status r))),
      (lit ''external_message_id'', JStr (dr_external_message_id r)),
      (lit ''delivery_degradations'', JList (map JStr (dr_degradations r))),
      (lit ''delivery_idempotent_replay'', JBool (dr_idempotent_replay r))]"

text \<open>The state is the store of tasks and that of the channel service.\<close>

definition dispatch_proactive ::
    "(nat \<Rightarrow> nat option) \<Rightarrow> ('d, 'c) channel_port \<Rightarrow> scheduled_action \<Rightarrow> task_store \<times> 'c \<Rightarrow>
       (('e, 'd) dispatch_error + delivery_receipt) \<times> (task_store \<times> 'c)" where
  "dispatch_proactive decimal channel a =
     (case channel of
        None \<Rightarrow> permanent_part (permanent ChannelMissing)
      | Some deliver \<Rightarrow>
          then_do (permanent_part (proactive_payload decimal (sa_payload a))) (\<lambda>m (s, c).
            case deliver (proactive_delivery a m) c of (r, c') \<Rightarrow> (map_sum DeliveryFailure id r, (s, c'))))"

definition boundary_markers_of_action :: "ustr list" where
  "boundary_markers_of_action = [lit ''do_not_contact'', no_contact, [31105, 27490, 20027, 21160]]"

definition boundary_block :: "relationship option \<Rightarrow> bool" where
  "boundary_block relation =
     (case relation of None \<Rightarrow> False
      | Some r \<Rightarrow> list_ex (\<lambda>b. has_marker (casefold b) boundary_markers_of_action) (rl_boundaries r))"

definition proactive_settings :: "json_dict \<Rightarrow> payload_error + proactive_policy" where
  "proactive_settings vals =
     bind_result (setting_bool vals (lit ''proactive.enabled'')) (\<lambda>enabled.
     bind_result (setting_number vals (lit ''proactive.minimum_score'')) (\<lambda>minimum.
     bind_result (setting_int vals (lit ''proactive.daily_message_budget'')) (\<lambda>budget.
     bind_result (setting_int vals (lit ''proactive.quiet_hours_start'')) (\<lambda>quiet_start.
     bind_result (setting_int vals (lit ''proactive.quiet_hours_end'')) (\<lambda>quiet_end.
     bind_result (setting_int vals (lit ''proactive.require_recent_user_days'')) (\<lambda>days.
       Inr \<lparr>pp_enabled = enabled, pp_minimum_score = minimum, pp_daily_budget = budget,
         pp_quiet_hours_start = quiet_start, pp_quiet_hours_end = quiet_end,
         pp_require_recent_user_days = days\<rparr>))))))"

text \<open>\<open>(now - last).total_seconds() / 86400\<close>, not below zero.\<close>

definition inactive_days :: "instant \<Rightarrow> instant \<Rightarrow> rat" where
  "inactive_days now last_activity = max 0 (fdiv (fdiv (of_int (now - last_activity)) 1000000) 86400)"

definition action_context ::
    "scheduled_action \<Rightarrow> relationship option \<Rightarrow> int \<Rightarrow> instant \<Rightarrow> instant \<Rightarrow> payload_error + proactive_context" where
  "action_context a relation local_hour now last_activity =
     bind_result (action_number (sa_payload a) (lit ''importance'') (1 / 2)) (\<lambda>importance.
     bind_result (action_number (sa_payload a) (lit ''confidence'') (1 / 2)) (\<lambda>confidence.
       Inr \<lparr>pc_local_hour = local_hour, pc_days_since_user_activity = inactive_days now last_activity,
         pc_importance = importance, pc_confidence = confidence,
         pc_affinity = (case relation of None \<Rightarrow> 0 | Some r \<Rightarrow> rl_affinity r),
         pc_trust = (case relation of None \<Rightarrow> 0 | Some r \<Rightarrow> rl_trust r),
         pc_familiarity = (case relation of None \<Rightarrow> 0 | Some r \<Rightarrow> rl_familiarity r),
         pc_used_budget = 0, pc_social_cost = sa_social_cost a, pc_has_boundary_block = boundary_block relation\<rparr>))"

definition decision_result :: "scheduled_action \<Rightarrow> json_dict" where
  "decision_result a =
     [(lit ''scheduled_action_id'', juuid (sa_id a)), (lit ''status'', JStr (action_status_value (sa_status a))),
      (lit ''score'', (case sa_score a of None \<Rightarrow> JNull | Some q \<Rightarrow> JFloat q)),
      (lit ''decision_reasons'', JList (map JStr (sa_decision_reasons a)))]"

text \<open>A pending action: everything that is read before it is evaluated.\<close>

definition evaluation_input ::
    "registry \<Rightarrow> config_store \<Rightarrow> (ustr \<Rightarrow> zone_lookup) \<Rightarrow> (nat \<Rightarrow> nat option) \<Rightarrow> (ustr \<Rightarrow> py_datetime option) \<Rightarrow>
       ('m, 'e) memory_repository \<Rightarrow> 'm \<Rightarrow> instant \<Rightarrow> uuid \<Rightarrow> scheduled_action \<Rightarrow>
       ('e, 'd) dispatch_error + (proactive_policy \<times> proactive_context \<times> date)" where
  "evaluation_input reg config zones decimal fromiso repo ms now tenant_id a =
     (let payload = (\<lambda>e. HandlerFailure (PayloadFailure e)) in
      bind_result (map_sum (\<lambda>e. HandlerFailure (ConfigurationFailure e)) id (resolve_effective reg
          \<lparr>tg_tenant_id = tenant_id, tg_agent_id = Some (sa_agent_id a), tg_channel_id = None,
           tg_user_id = Some (sa_user_id a)\<rparr> None config)) (\<lambda>snapshot.
      bind_result (map_sum payload id (setting_string (ef_values snapshot) (lit ''system.default_timezone''))) (\<lambda>name.
      bind_result (case zones name of
          ZoneMissing \<Rightarrow> map_sum payload id (permanent InvalidTimezone) | ZoneUnreadable \<Rightarrow> Inl ZoneFailure
        | Zone z \<Rightarrow> Inr z) (\<lambda>zone.
      bind_result (map_sum (\<lambda>e. HandlerFailure (MemoryFailure e)) id
          (get_relationship repo tenant_id (sa_agent_id a) (sa_user_id a) ms)) (\<lambda>detail.
      let relation = map_option rd_relationship detail in
      bind_result (map_sum payload id (action_time fromiso (sa_payload a) (lit ''last_user_activity_at''))) (\<lambda>activity.
      bind_result (if sa_kind a = PROACTIVE_MESSAGE
          then map_sum payload (\<lambda>_. ()) (proactive_payload decimal (sa_payload a)) else Inr ()) (\<lambda>_.
      bind_result (map_sum payload id (proactive_settings (ef_values snapshot))) (\<lambda>policy.
      bind_result (map_sum payload id (action_context a relation (fst (zone now)) now
          (case activity of None \<Rightarrow> sa_created_at a | Some t \<Rightarrow> t))) (\<lambda>context.
        Inr (policy, context, snd (zone now)))))))))))"

definition handle_scheduled_action ::
    "registry \<Rightarrow> config_store \<Rightarrow> (ustr \<Rightarrow> zone_lookup) \<Rightarrow> (nat \<Rightarrow> nat option) \<Rightarrow> (ustr \<Rightarrow> py_datetime option) \<Rightarrow>
       ('m, 'e) memory_repository \<Rightarrow> 'm \<Rightarrow> ('d, 'c) channel_port \<Rightarrow> (nat \<Rightarrow> instant) \<Rightarrow> uuid \<Rightarrow> background_job \<Rightarrow>
       task_store \<times> 'c \<Rightarrow> (('e, 'd) dispatch_error + json_dict) \<times> (task_store \<times> 'c)" where
  "handle_scheduled_action reg config zones decimal fromiso repo ms channel clock usage_id job =
     then_do (permanent_part (field_uuid decimal (bj_payload job) (lit ''scheduled_action_id''))) (\<lambda>action_id.
     then_do (\<lambda>sc. permanent_part (demand (ActionMissing action_id)
         (mem_get_scheduled_action (bj_tenant_id job) action_id (fst sc))) sc) (\<lambda>a.
     if sa_status a \<noteq> ACTION_PENDING then
       (if sa_status a = ACTION_DISPATCHED \<and> sa_kind a = PROACTIVE_MESSAGE
        then then_do (dispatch_proactive decimal channel a) (\<lambda>r. yields id (Inr (delivery_result a r)))
        else yields id (Inr [(lit ''scheduled_action_id'', juuid (sa_id a)),
          (lit ''status'', JStr (action_status_value (sa_status a)))]))
     else
       then_do (yields id (evaluation_input reg config zones decimal fromiso repo ms (clock 0) (bj_tenant_id job) a))
         (\<lambda>(policy, context, budget_date).
       then_do (\<lambda>(s, c). case action_evaluate (bj_tenant_id job) (sa_id a) policy context budget_date (clock 1) usage_id s
           of (r, s') \<Rightarrow> (map_sum EvaluationFailure id r, (s', c))) (\<lambda>decided.
       if sa_status decided = ACTION_DISPATCHED \<and> sa_kind decided = PROACTIVE_MESSAGE
       then then_do (dispatch_proactive decimal channel decided)
         (\<lambda>r. yields id (Inr (dict_merge (decision_result decided) (delivery_result decided r))))
       else yields id (Inr (decision_result decided))))))"

end
