(* ===== verification/Handler_Settings.thy ===== *)
theory Handler_Settings
  imports Handler_Payload Task_Handlers Config_Defaults
begin

text \<open>
  The settings the handlers read from the effective configuration: the validation of published values
  makes every one of them readable, so a handler never fails on a bad number or mode.
\<close>

lemma default_definition_mem:
  "d \<in> set settings_1 \<union> set settings_2 \<union> set settings_10 \<Longrightarrow> d \<in> set default_definitions"
  by (auto simp: default_definitions_def)

text \<open>The effective value of a key of the built-in registry exists and is valid.\<close>

lemma default_value_valid:
  assumes "reachable (\<lambda>s. s = initial_store) (config_step lib default_registry) config"
    and "registry_consistent lib default_registry"
    and "resolve_effective default_registry tg version config = Inr snap"
    and "d \<in> set settings_1 \<union> set settings_2 \<union> set settings_10" and "\<not> cd_secret d"
  shows "\<exists>v. json_get (ef_values snap) (cd_key d) = Some v \<and> validate_value lib d v = Inr ()"
proof -
  have reg: "registry_get default_registry (cd_key d) = Some d"
    using default_registry_get default_definition_mem[OF assms(4)] by blast
  obtain stored where stored: "stored_version config version = Inr stored"
    using assms(3) by (auto simp: resolve_effective_Inr)
  have "\<exists>v. dict_get (ef_values snap) (cd_key d) = Some v"
    using resolved_value[OF default_registry_ok stored assms(3), of "cd_key d"] reg assms(5)
    by (auto split: option.splits)
  then obtain v where v: "dict_get (ef_values snap) (cd_key d) = Some v" ..
  then have "validate_value lib d v = Inr ()"
    using resolved_values_valid[OF assms(2,1,3) v] reg by auto
  then show ?thesis using v by (auto simp: json_get_def)
qed

section \<open>Reading a valid value\<close>

lemma valid_range:
  assumes "validate_value lib d v = Inr ()" and "cd_minimum d = Some lo" and "cd_maximum d = Some hi"
    and "plain_number v = Some q"
  shows "lo \<le> q \<and> q \<le> hi"
  using assms by (auto simp: validate_value_def check_range_def result_laws split: if_splits)

lemma valid_kind: "validate_value lib d v = Inr () \<Longrightarrow> kind_matches (cd_value_kind d) v"
  by (simp add: validate_value_def split: if_splits)

lemma small_int_fits: "\<bar>n\<bar> < 2 ^ 53 \<Longrightarrow> float_of_int n = Inr (rnd (of_int n))"
  by (simp add: float_of_int_def)

lemma valid_number:
  assumes "validate_value lib d v = Inr ()" and "cd_value_kind d = NUMBER"
    and "cd_minimum d = Some 0" and "cd_maximum d = Some hi" and "hi \<le> 1" and "rnd hi = hi"
  shows "\<exists>q. number_or e v = Inr q \<and> 0 \<le> q \<and> q \<le> hi"
proof (cases v)
  case (JInt n)
  then have n: "0 \<le> (of_int n :: rat)" "of_int n \<le> hi"
    using valid_range[OF assms(1,3,4)] by (simp_all add: plain_number_def)
  then have "n \<le> 1" using assms(5) by (metis of_int_le_1_iff order_trans)
  moreover have "0 \<le> rnd (of_int n)" "rnd (of_int n) \<le> hi"
    using rnd_nonneg[OF n(1)] rnd_mono[OF n(2)] assms(6) by simp_all
  ultimately show ?thesis using JInt n(1) by (simp add: number_or_def small_int_fits)
next
  case (JFloat q)
  then show ?thesis
    using valid_range[OF assms(1,3,4)] by (simp add: number_or_def plain_number_def)
qed (use valid_kind[OF assms(1)] assms(2) in \<open>auto simp: kind_matches_def\<close>)

lemma valid_integer:
  assumes "validate_value lib d v = Inr ()" and "cd_value_kind d = INTEGER"
    and "cd_minimum d = Some lo" and "cd_maximum d = Some hi"
  shows "\<exists>n. v = JInt n \<and> lo \<le> of_int n \<and> of_int n \<le> hi"
  using valid_kind[OF assms(1)] assms(2) valid_range[OF assms(1,3,4)]
  by (cases v) (auto simp: kind_matches_def plain_number_def)

lemma step_limit: "(3602879701896397 / 18014398509481984 :: rat) = rnd (2 / 10)"
  by code_simp

lemma rnd_step_limit: "rnd (3602879701896397 / 18014398509481984) = 3602879701896397 / 18014398509481984"
  by code_simp

section \<open>The settings of the handlers\<close>

definition ranged :: "config_value_kind \<Rightarrow> ustr \<Rightarrow> rat \<Rightarrow> rat \<Rightarrow> config_definition \<Rightarrow> bool" where
  "ranged kind k lo hi d \<longleftrightarrow> cd_key d = k \<and> \<not> cd_secret d \<and> cd_value_kind d = kind \<and>
     cd_minimum d = Some lo \<and> cd_maximum d = Some hi"

definition handler_definitions :: "config_definition list" where
  "handler_definitions = settings_1 @ settings_2 @ settings_10"

lemmas look_up = handler_definitions_def list_ex_iff[symmetric] settings_1_def settings_2_def settings_10_def setting_def ranged_def

lemma step_definitions:
  "list_ex (ranged NUMBER (lit ''cognition.reflection.relationship_positive_step'') 0 (3602879701896397 / 18014398509481984))
     handler_definitions"
  "list_ex (ranged NUMBER (lit ''cognition.reflection.relationship_negative_step'') 0 (3602879701896397 / 18014398509481984))
     handler_definitions"
  "list_ex (ranged NUMBER (lit ''cognition.reflection.familiarity_step'') 0 (3602879701896397 / 18014398509481984))
     handler_definitions"
  "list_ex (ranged NUMBER (lit ''cognition.reflection.minimum_importance'') 0 1) handler_definitions"
  "list_ex (ranged NUMBER (lit ''proactive.minimum_score'') 0 1) handler_definitions"
  by (simp_all add: look_up)

lemma whole_definitions:
  "list_ex (ranged INTEGER (lit ''proactive.daily_message_budget'') 0 20) handler_definitions"
  "list_ex (ranged INTEGER (lit ''proactive.quiet_hours_start'') 0 23) handler_definitions"
  "list_ex (ranged INTEGER (lit ''proactive.quiet_hours_end'') 0 23) handler_definitions"
  "list_ex (ranged INTEGER (lit ''proactive.require_recent_user_days'') 1 365) handler_definitions"
  by (simp_all add: look_up)

lemma choice_definitions:
  "list_ex (\<lambda>d. cd_key d = lit ''proactive.enabled'' \<and> \<not> cd_secret d \<and> cd_value_kind d = BOOLEAN) handler_definitions"
  "list_ex (\<lambda>d. cd_key d = lit ''cognition.reflection.memory_write_mode'' \<and> \<not> cd_secret d \<and> cd_value_kind d = STRING \<and>
     cd_options d = [lit ''high_precision'', lit ''balanced'']) handler_definitions"
  by (simp_all add: look_up)

definition sound_settings :: "library \<Rightarrow> json_dict \<Rightarrow> bool" where
  "sound_settings lib vals \<longleftrightarrow> (\<forall>d \<in> set handler_definitions. \<not> cd_secret d \<longrightarrow>
     (\<exists>v. json_get vals (cd_key d) = Some v \<and> validate_value lib d v = Inr ()))"

lemma effective_settings_sound:
  assumes "reachable (\<lambda>s. s = initial_store) (config_step lib default_registry) config"
    and "resolve_effective default_registry tg version config = Inr snap"
  shows "sound_settings lib (ef_values snap)"
  using default_value_valid[OF assms(1) default_registry_consistent assms(2)]
  by (simp add: sound_settings_def handler_definitions_def)

lemma number_read:
  assumes "sound_settings lib vals" and "list_ex (ranged NUMBER k 0 hi) handler_definitions"
    and "hi \<le> 1" and "rnd hi = hi"
  shows "\<exists>q. setting_number vals k = Inr q \<and> 0 \<le> q \<and> q \<le> hi"
proof -
  obtain d v where d: "cd_value_kind d = NUMBER" "cd_minimum d = Some 0" "cd_maximum d = Some hi"
    and v: "json_get vals k = Some v" "validate_value lib d v = Inr ()"
    using assms(1,2) by (auto simp: sound_settings_def list_ex_iff ranged_def)
  show ?thesis
    using valid_number[OF v(2) d assms(3,4)] by (simp add: setting_number_def v(1))
qed

lemma whole_read:
  assumes "sound_settings lib vals" and "list_ex (ranged INTEGER k lo hi) handler_definitions"
  shows "\<exists>n. setting_int vals k = Inr n \<and> lo \<le> of_int n \<and> of_int n \<le> hi"
proof -
  obtain d v where d: "cd_value_kind d = INTEGER" "cd_minimum d = Some lo" "cd_maximum d = Some hi"
    and v: "json_get vals k = Some v" "validate_value lib d v = Inr ()"
    using assms(1,2) by (auto simp: sound_settings_def list_ex_iff ranged_def)
  show ?thesis using valid_integer[OF v(2) d] v(1) by (auto simp: setting_int_def)
qed

lemma enabled_read: "sound_settings lib vals \<Longrightarrow> \<exists>b. setting_bool vals (lit ''proactive.enabled'') = Inr b"
  using choice_definitions(1)
  by (fastforce simp: sound_settings_def list_ex_iff setting_bool_def kind_matches_def
      dest!: valid_kind split: json.splits)

lemma mode_read:
  assumes "sound_settings lib vals"
  shows "\<exists>m w. setting_string vals (lit ''cognition.reflection.memory_write_mode'') = Inr m \<and> write_mode_of m = Some w"
proof -
  obtain d v where d: "cd_value_kind d = STRING" "cd_options d = [lit ''high_precision'', lit ''balanced'']"
    and v: "json_get vals (lit ''cognition.reflection.memory_write_mode'') = Some v" "validate_value lib d v = Inr ()"
    using assms choice_definitions(2) by (auto simp: sound_settings_def list_ex_iff)
  from valid_kind[OF v(2)] d(1) obtain m where m: "v = JStr m" by (auto simp: kind_matches_def split: json.splits)
  have "\<exists>opt \<in> set (cd_options d). py_eq v (JStr opt)"
    using v(2) d(2) by (auto simp: validate_value_def result_laws split: if_splits)
  then have "m = lit ''high_precision'' \<or> m = lit ''balanced''" using m d(2) by auto
  then show ?thesis
    using v(1) m by (auto simp: setting_string_def write_mode_of_def strip_def lit_def is_space_def)
qed

lemma settings_readable:
  assumes sound: "sound_settings lib vals"
  shows "\<exists>policy minimum pp. configured_policy vals = Inr policy \<and>
    setting_number vals (lit ''cognition.reflection.minimum_importance'') = Inr minimum \<and>
    0 \<le> minimum \<and> minimum \<le> 1 \<and> proactive_settings vals = Inr pp \<and>
    in_quiet_hours 0 (pp_quiet_hours_start pp) (pp_quiet_hours_end pp) \<noteq> Inl BadQuietHours"
proof -
  obtain m w where mode: "setting_string vals (lit ''cognition.reflection.memory_write_mode'') = Inr m"
    "write_mode_of m = Some w" using mode_read[OF sound] by blast
  have "(3602879701896397 / 18014398509481984 :: rat) \<le> 1" by simp
  note step = number_read[OF sound _ this rnd_step_limit]
  obtain p n f where steps:
    "setting_number vals (lit ''cognition.reflection.relationship_positive_step'') = Inr p"
    "setting_number vals (lit ''cognition.reflection.relationship_negative_step'') = Inr n"
    "setting_number vals (lit ''cognition.reflection.familiarity_step'') = Inr f"
    "0 \<le> p" "p \<le> rnd (2 / 10)" "0 \<le> n" "n \<le> rnd (2 / 10)" "0 \<le> f" "f \<le> rnd (2 / 10)"
    using step[OF step_definitions(1)] step[OF step_definitions(2)] step[OF step_definitions(3)]
    by (auto simp: step_limit)
  have policy: "\<exists>policy. configured_policy vals = Inr policy"
    using mode steps by (simp add: configured_policy_def reflection_policy_of_def demand_def)
  have minimum: "\<exists>q. setting_number vals (lit ''cognition.reflection.minimum_importance'') = Inr q \<and> 0 \<le> q \<and> q \<le> 1"
    using number_read[OF sound step_definitions(4)] by simp
  obtain e q b s t d where pro:
    "setting_bool vals (lit ''proactive.enabled'') = Inr e"
    "setting_number vals (lit ''proactive.minimum_score'') = Inr q"
    "setting_int vals (lit ''proactive.daily_message_budget'') = Inr b"
    "setting_int vals (lit ''proactive.quiet_hours_start'') = Inr s" "0 \<le> s" "s \<le> 23"
    "setting_int vals (lit ''proactive.quiet_hours_end'') = Inr t" "0 \<le> t" "t \<le> 23"
    "setting_int vals (lit ''proactive.require_recent_user_days'') = Inr d"
    using enabled_read[OF sound] number_read[OF sound step_definitions(5)] whole_read[OF sound whole_definitions(1)]
      whole_read[OF sound whole_definitions(2)] whole_read[OF sound whole_definitions(3)]
      whole_read[OF sound whole_definitions(4)]
    by auto
  have "\<exists>pp. proactive_settings vals = Inr pp \<and>
      in_quiet_hours 0 (pp_quiet_hours_start pp) (pp_quiet_hours_end pp) \<noteq> Inl BadQuietHours"
    using pro by (simp add: proactive_settings_def in_quiet_hours_def)
  with policy minimum show ?thesis by blast
qed

text \<open>C34: whatever versions of the configuration have been drafted, published and rolled back, the handlers can
  read their settings: the effective values always make a reflection policy, an importance limit in
  [0, 1] and a proactive policy whose quiet hours are hours of a day, whatever tenant, agent and user
  they are resolved for. So a task never fails because of a published number, mode or switch.\<close>

theorem published_settings_are_readable:
  assumes "reachable (\<lambda>s. s = initial_store) (config_step lib default_registry) config"
    and "resolve_effective default_registry tg version config = Inr snap"
  shows "\<exists>policy minimum pp. configured_policy (ef_values snap) = Inr policy \<and>
    setting_number (ef_values snap) (lit ''cognition.reflection.minimum_importance'') = Inr minimum \<and>
    0 \<le> minimum \<and> minimum \<le> 1 \<and> proactive_settings (ef_values snap) = Inr pp \<and>
    in_quiet_hours 0 (pp_quiet_hours_start pp) (pp_quiet_hours_end pp) \<noteq> Inl BadQuietHours"
  using effective_settings_sound[OF assms] by (rule settings_readable)

theorem published_settings_are_readable_witness:
  "\<exists>snap policy. resolve_effective default_registry \<lparr>tg_tenant_id = 1, tg_agent_id = Some 2, tg_channel_id = None,
      tg_user_id = Some 3\<rparr> None initial_store = Inr snap \<and> configured_policy (ef_values snap) = Inr policy"
proof -
  have "\<exists>snap. resolve_effective default_registry \<lparr>tg_tenant_id = 1, tg_agent_id = Some 2, tg_channel_id = None,
      tg_user_id = Some 3\<rparr> None initial_store = Inr snap"
    by (simp add: resolve_effective_def stored_version_def store_get_published_def initial_store_def dict_values_def Let_def)
  then obtain snap where snap: "resolve_effective default_registry \<lparr>tg_tenant_id = 1, tg_agent_id = Some 2,
      tg_channel_id = None, tg_user_id = Some 3\<rparr> None initial_store = Inr snap" ..
  have "reachable (\<lambda>s. s = initial_store) (config_step plain_zones default_registry) initial_store" for plain_zones
    by (rule reachable.start) simp
  from published_settings_are_readable[OF this snap] snap show ?thesis by blast
qed

end
