(* ===== verification/Handler_Properties.thy ===== *)
theory Handler_Properties
  imports Handler_Settings Memory_Properties
begin

text \<open>
  What the handlers of background tasks promise. A handler changes the long-term memory only by
  operations of the memory service, so the service's invariants survive it; a message that carries a
  credential leaves no trace of its wording; a user who asks not to be contacted is not contacted.
\<close>

section \<open>An interaction for the witnesses\<close>

text \<open>
  An interaction for the witnesses of the handlers' properties: a message with a completed run, its
  reflection job under the built-in configuration, and a pending proactive message to the same user.
\<close>

section \<open>Fields that hold identifiers\<close>

lemma strip_uuid_str: "strip (uuid_str u) = uuid_str u"
proof -
  have ne: "uuid_str u \<noteq> []" using length_uuid_str[of u] by auto
  have chars: "\<not> is_space c" if "c \<in> set (uuid_str u)" for c
  proof -
    have "c = 45 \<or> c \<in> set (hex_digits 32 u)"
      using that arg_cong[OF filter_uuid_str[of u], of set] by auto
    then show ?thesis using hex_digits_range[of c 32 u] by (auto simp: is_space_def)
  qed
  show ?thesis using ne chars by (intro strip_id) simp_all
qed

text \<open>A field written as \<open>str(uuid)\<close> is read back as that UUID.\<close>

lemma field_uuid_str:
  "json_get d k = Some (JStr (uuid_str u)) \<Longrightarrow> u < 2 ^ 128 \<Longrightarrow> field_uuid decimal d k = Inr u"
  using length_uuid_str[of u]
  by (auto simp: field_uuid_def field_string_def field_value_def demand_def strip_uuid_str parse_uuid_str)

section \<open>The interaction\<close>

definition sample_trigger :: "ustr \<Rightarrow> chat_message" where
  "sample_trigger s = \<lparr>cg_id = 5, cg_tenant_id = 1, cg_conversation_id = 4, cg_sender_type = SENDER_USER,
     cg_sender_id = Some 3, cg_content = s, cg_status = MESSAGE_RECEIVED, cg_client_message_id = Some 8,
     cg_created_at = 0, cg_updated_at = 0, cg_edited_from_id = None, cg_parts = []\<rparr>"

definition sample_response :: chat_message where
  "sample_response = \<lparr>cg_id = 6, cg_tenant_id = 1, cg_conversation_id = 4, cg_sender_type = SENDER_AGENT,
     cg_sender_id = Some 2, cg_content = lit ''ok'', cg_status = MESSAGE_COMPLETED, cg_client_message_id = None,
     cg_created_at = 1, cg_updated_at = 1, cg_edited_from_id = None, cg_parts = []\<rparr>"

definition sample_conversation :: conversation where
  "sample_conversation = \<lparr>co_id = 4, co_tenant_id = 1, co_agent_id = 2, co_title = lit ''chat'',
     co_status = CONVERSATION_ACTIVE, co_created_by = 3, co_event_sequence = 1, co_created_at = 0, co_updated_at = 0,
     co_pinned_at = None, co_archived_at = None, co_deleted_at = None, co_branched_from_conversation_id = None,
     co_branched_from_message_id = None\<rparr>"

definition sample_run :: agent_run where
  "sample_run = \<lparr>gr_id = 7, gr_tenant_id = 1, gr_conversation_id = 4, gr_agent_id = 2, gr_trigger_message_id = 5,
     gr_response_message_id = 6, gr_status = RUN_COMPLETED, gr_configuration_version = 0, gr_persona_version = 1,
     gr_prompt_version = 1, gr_policy_version = 1, gr_model_route_version = 0, gr_model_profile = lit ''m'',
     gr_input_tokens = None, gr_output_tokens = None, gr_error_code = None, gr_created_at = 0,
     gr_started_at = Some 0, gr_completed_at = Some 1\<rparr>"

definition sample_source :: "ustr \<Rightarrow> pending_run" where
  "sample_source s = \<lparr>pu_conversation = sample_conversation, pu_trigger_message = sample_trigger s,
     pu_response_message = sample_response, pu_run = sample_run, pu_created = False\<rparr>"

definition sample_sources :: "ustr \<Rightarrow> reflection_sources" where
  "sample_sources s = (\<lambda>t a u c m r i. if (t, a, u, c, m, r) = (1, 2, 3, 4, 5, 6) then Some (sample_source s) else None)"

definition sample_handler_job :: "job_kind \<Rightarrow> json_dict \<Rightarrow> background_job" where
  "sample_handler_job kind payload = \<lparr>bj_id = 10, bj_tenant_id = 1, bj_kind = kind, bj_queue = queue_by_kind kind,
     bj_status = JOB_RUNNING, bj_payload = payload, bj_deduplication_key = lit ''k'', bj_source_inbox_id = None,
     bj_correlation_id = None, bj_attempt_count = 1, bj_max_attempts = 3, bj_lease_seconds = 60,
     bj_retry_base_seconds = 5, bj_available_at = 0, bj_lease_owner = Some (lit ''w''),
     bj_lease_expires_at = Some 60000000, bj_cancel_requested_at = None, bj_last_error_code = None,
     bj_last_error_summary = None, bj_result_summary = [], bj_replayed_from_id = None, bj_created_by = Some 3,
     bj_created_at = 0, bj_started_at = Some 0, bj_completed_at = None, bj_updated_at = 0, bj_agent_id = Some 2\<rparr>"

definition sample_reflection_job :: background_job where
  "sample_reflection_job = sample_handler_job REFLECTION
     [(lit ''agent_id'', juuid 2), (lit ''user_id'', juuid 3), (lit ''conversation_id'', juuid 4),
      (lit ''trigger_message_id'', juuid 5), (lit ''response_message_id'', juuid 6)]"

definition sample_action_task :: background_job where
  "sample_action_task = sample_handler_job SCHEDULED_ACTION [(lit ''scheduled_action_id'', juuid 9)]"

definition sample_proactive :: scheduled_action where
  "sample_proactive = \<lparr>sa_id = 9, sa_tenant_id = 1, sa_agent_id = 2, sa_user_id = 3, sa_conversation_id = Some 4,
     sa_kind = PROACTIVE_MESSAGE, sa_status = ACTION_PENDING, sa_scheduled_for = 0, sa_expires_at = None,
     sa_idempotency_key = lit ''hello'', sa_reason = lit ''hello'', sa_payload =
       [(lit ''channel_id'', juuid 11), (lit ''recipient_id'', JStr (lit ''r'')), (lit ''message'', JStr (lit ''hi''))],
     sa_score = None, sa_social_cost = 1, sa_decision_reasons = [], sa_job_id = Some 10, sa_created_by = 3,
     sa_created_at = 0, sa_updated_at = 0, sa_completed_at = None\<rparr>"

definition sample_tasks :: task_store where
  "sample_tasks = empty_store\<lparr>scheduled_actions := [(9, sample_proactive)]\<rparr>"

lemma sample_reflection_source:
  "reflection_source decimal (sample_sources s) sample_reflection_job = Inr (2, 3, 4, 5, sample_source s, 3)"
proof -
  let ?d = "bj_payload sample_reflection_job"
  have g: "json_get ?d (lit ''agent_id'') = Some (juuid 2)" "json_get ?d (lit ''user_id'') = Some (juuid 3)"
    "json_get ?d (lit ''conversation_id'') = Some (juuid 4)" "json_get ?d (lit ''trigger_message_id'') = Some (juuid 5)"
    "json_get ?d (lit ''response_message_id'') = Some (juuid 6)" "json_get ?d (lit ''run_id'') = None"
    by (simp_all add: sample_reflection_job_def sample_handler_job_def json_get_def dict_get_def)
  have t: "bj_tenant_id sample_reflection_job = 1" by (simp add: sample_reflection_job_def sample_handler_job_def)
  show ?thesis
    using g(1-5)[THEN field_uuid_str, of decimal]
    by (simp add: reflection_source_def Let_def optional_uuid_def g(6) t sample_sources_def sample_source_def sample_trigger_def)
qed

lemma sample_input:
  obtains i where
    "(reflection_input_of default_registry initial_store decimal (sample_sources s) sample_reflection_job :: 'e task_failure + _) = Inr i"
    "ri_source i = sample_source s" "ri_agent_id i = 2" "ri_user_id i = 3"
proof -
  let ?tg = "\<lparr>tg_tenant_id = 1, tg_agent_id = Some 2, tg_channel_id = None, tg_user_id = Some 3\<rparr>"
  have "\<exists>snap. resolve_effective default_registry ?tg (Some 0) initial_store = Inr snap"
    by (simp add: resolve_effective_def stored_version_def Let_def)
  then obtain snap where snap: "resolve_effective default_registry ?tg (Some 0) initial_store = Inr snap" ..
  have "reachable (\<lambda>s. s = initial_store) (config_step lib default_registry) initial_store" for lib
    by (rule reachable.start) simp
  from settings_readable[OF effective_settings_sound[OF this snap]] obtain policy minimum where
    "configured_policy (ef_values snap) = Inr policy"
    "setting_number (ef_values snap) (lit ''cognition.reflection.minimum_importance'') = Inr minimum" by blast
  moreover have "bj_tenant_id sample_reflection_job = 1" "gr_configuration_version (pu_run (sample_source s)) = 0"
    by (simp_all add: sample_reflection_job_def sample_handler_job_def sample_source_def sample_run_def)
  ultimately have "(reflection_input_of default_registry initial_store decimal (sample_sources s) sample_reflection_job
      :: 'e task_failure + _) = Inr \<lparr>ri_agent_id = 2, ri_user_id = 3, ri_conversation_id = 4,
        ri_trigger_message_id = 5, ri_source = sample_source s, ri_actor_id = 3, ri_policy = policy,
        ri_minimum_importance = minimum\<rparr>"
    using snap by (simp add: reflection_input_of_def sample_reflection_source del: One_nat_def)
  from that[OF this] show thesis by simp
qed

lemma sample_action_found:
  "field_uuid decimal (bj_payload sample_action_task) (lit ''scheduled_action_id'') = Inr 9"
  "mem_get_scheduled_action 1 9 sample_tasks = Some sample_proactive"
  by (auto intro!: field_uuid_str simp: sample_action_task_def sample_handler_job_def json_get_def dict_get_def
      mem_get_scheduled_action_def sample_tasks_def empty_store_def sample_proactive_def)

section \<open>Sequencing\<close>

named_theorems moving \<open>handlers that change the state only by steps\<close>

lemma then_do_yields [simp]: "then_do (yields w r) g s = (case r of Inl e \<Rightarrow> (Inl (w e), s) | Inr x \<Rightarrow> g x s)"
  by (simp add: then_do_def yields_def split: sum.splits)

lemma then_do_memory_call:
  "then_do (memory_call f) g s = (case f s of Inl e \<Rightarrow> (Inl (MemoryFailure e), s) | Inr (x, t) \<Rightarrow> g x t)"
  by (simp add: then_do_def memory_call_def split: sum.splits prod.splits)

lemma then_do_memory_read:
  "then_do (memory_read f) g s = (case f s of Inl e \<Rightarrow> (Inl (MemoryFailure e), s) | Inr x \<Rightarrow> g x s)"
  by (simp add: then_do_def memory_read_def split: sum.splits)

definition moves :: "('s \<Rightarrow> 's \<Rightarrow> bool) \<Rightarrow> ('s \<Rightarrow> 'r \<times> 's) \<Rightarrow> bool" where
  "moves step f \<longleftrightarrow> (\<forall>s. step\<^sup>*\<^sup>* s (snd (f s)))"

lemma moves_run: "moves step f \<Longrightarrow> f s = (r, t) \<Longrightarrow> step\<^sup>*\<^sup>* s t"
  by (metis moves_def snd_conv)

lemma moves_yields [moving]: "moves step (yields w r)"
  by (simp add: moves_def yields_def)

lemma moves_then_do [moving]: "moves step f \<Longrightarrow> (\<And>x. moves step (g x)) \<Longrightarrow> moves step (then_do f g)"
  unfolding moves_def
proof (intro allI)
  fix s
  assume f: "\<forall>s. step\<^sup>*\<^sup>* s (snd (f s))" and g: "\<And>x. \<forall>s. step\<^sup>*\<^sup>* s (snd (g x s))"
  obtain r t where r: "f s = (r, t)" by (cases "f s")
  then have "step\<^sup>*\<^sup>* s t" using f by (metis snd_conv)
  then show "step\<^sup>*\<^sup>* s (snd (then_do f g s))"
    using r g by (cases r) (auto simp: then_do_def intro: rtranclp_trans)
qed

lemma moves_read [moving]: "moves step (memory_read f)"
  by (simp add: moves_def memory_read_def)

lemma moves_call: "(\<And>s x t. f s = Inr (x, t) \<Longrightarrow> step s t) \<Longrightarrow> moves step (memory_call f)"
  by (auto simp: moves_def memory_call_def split: sum.split prod.split)

lemma moves_enum [moving]: "moves step (enum_part parse r)"
  unfolding enum_part_def by (intro moving)

lemma moves_case_prod [moving]: "(\<And>x y. moves step (f x y)) \<Longrightarrow> moves step (case p of (x, y) \<Rightarrow> f x y)"
  by (cases p) simp

section \<open>The handlers move the memory by steps\<close>

context memory_port
begin

lemma service_calls_move [moving]:
  "moves (memory_step repo uuid5 enc) (memory_call (create_episode repo args i now))"
  "moves (memory_step repo uuid5 enc) (memory_call (close_episode repo i t a consolidate actor now))"
  "moves (memory_step repo uuid5 enc) (memory_call (create_memory repo uuid5 enc margs i now))"
  "moves (memory_step repo uuid5 enc) (memory_call (record_relationship_event repo uuid5 rargs i now))"
  by (rule moves_call, erule memory_step.intros)+

lemma planned_memory_moves [moving]:
  "moves (memory_step repo uuid5 enc) (store_planned_memory repo uuid5 enc t i p e now)"
  by (auto simp: store_planned_memory_def Let_def split: option.split intro!: moving)

lemma reflection_moves:
  "moves (memory_step repo uuid5 enc)
     (handle_reflection repo uuid5 enc reg config alnum decimal sources clock job)"
  unfolding handle_reflection_def apply_plan_def Let_def by (intro moving)

lemma consolidation_moves: "moves (memory_step repo uuid5 enc) (handle_consolidation repo decimal now job)"
  unfolding handle_consolidation_def Let_def by (intro moving)

lemma extraction_moves:
  "moves (memory_step repo uuid5 enc) (handle_extraction repo uuid5 enc decimal fromiso now job)"
  unfolding handle_extraction_def extraction_args_def Let_def by (intro moving)

lemma rebuild_moves:
  "moves (memory_step repo uuid5 enc) (handle_rebuild repo uuid5 enc error_name decimal started clock ended job)"
proof -
  have "moves (memory_step repo uuid5 enc) (\<lambda>s. apfst (map_sum MemoryFailure id)
      (run_embedding_rebuild repo uuid5 enc error_name t a i started clock ended s))" for t a i
    using rebuild_steps by (auto simp: moves_def)
  then show ?thesis unfolding handle_rebuild_def Let_def by (intro moving)
qed

lemma relationship_moves: "moves (memory_step repo uuid5 enc) (handle_relationship repo uuid5 decimal now job)"
  unfolding handle_relationship_def Let_def by (intro moving)

end

section \<open>Credentials\<close>

text \<open>The engine's test for a credential, on the text it is given.\<close>

definition carries_credential :: "(nat \<Rightarrow> bool) \<Rightarrow> ustr \<Rightarrow> bool" where
  "carries_credential alnum s \<longleftrightarrow>
     has_marker (casefold (normalized_text s)) credential_markers \<or> looks_like_credential alnum (normalized_text s)"

text \<open>The same interaction with other words in the user's message.\<close>

definition reworded :: "ustr \<Rightarrow> pending_run \<Rightarrow> pending_run" where
  "reworded s src = src\<lparr>pu_trigger_message := (pu_trigger_message src)\<lparr>cg_content := s\<rparr>\<rparr>"

definition reworded_sources :: "ustr \<Rightarrow> reflection_sources \<Rightarrow> reflection_sources" where
  "reworded_sources s sources = (\<lambda>t a u c m r i. map_option (reworded s) (sources t a u c m r i))"

lemma reworded_fields [simp]:
  "pu_run (reworded s src) = pu_run src"
  "cg_sender_id (pu_trigger_message (reworded s src)) = cg_sender_id (pu_trigger_message src)"
  "cg_created_at (pu_trigger_message (reworded s src)) = cg_created_at (pu_trigger_message src)"
  "cg_content (pu_trigger_message (reworded s src)) = s"
  by (simp_all add: reworded_def)

lemma credential_markers_nonempty: "[] \<notin> set credential_markers"
  by (simp add: credential_markers_def lit_def)

lemma credential_text_nonempty: "carries_credential alnum s \<Longrightarrow> normalized_text s \<noteq> []"
  using credential_markers_nonempty
  by (auto simp: carries_credential_def has_marker_def casefold_def list_ex_iff looks_like_credential_def
      secret_key_at_def access_key_at_def private_key_headers_def starts_with_def lit_def)

definition discreet_plan ::
    "relationship_context \<Rightarrow> reflection_policy \<Rightarrow> relationship_signal list \<Rightarrow> ustr list \<Rightarrow> reflection_plan" where
  "discreet_plan c policy signals boundaries =
     (let codes = [lit ''credential_content''];
          (affinity, trust, familiarity) = relationship_deltas c signals policy SKIP_CREDENTIAL
      in \<lparr>fl_title = episode_title codes signals, fl_episode_summary = episode_summary_text,
          fl_memory_content = None, fl_memory_kind = None, fl_memory_sensitivity = None,
          fl_memory_decision = SKIP_CREDENTIAL, fl_memory_reason_codes = codes, fl_importance = 0,
          fl_confidence = confidence_of codes SKIP_CREDENTIAL, fl_emotional_weight = emotional_weight_of signals,
          fl_relationship_signals = signals, fl_affinity_delta = affinity, fl_trust_delta = trust,
          fl_familiarity_delta = familiarity, fl_relationship_summary = relationship_summary signals,
          fl_boundaries = boundaries\<rparr>)"

lemma credential_plan:
  assumes "carries_credential alnum s"
  shows "\<exists>x. reflect alnum s c policy = Inr (discreet_plan c policy (relationship_signals (casefold (normalized_text s)))
    (boundaries_of (casefold (normalized_text s)))\<lparr>fl_importance := x\<rparr>)"
proof -
  have d: "memory_decision alnum (normalized_text s) (casefold (normalized_text s)) mode =
      (SKIP_CREDENTIAL, None, [lit ''credential_content''])" for mode
    using assms by (simp add: memory_decision_def carries_credential_def)
  obtain a t f where
    "relationship_deltas c (relationship_signals (casefold (normalized_text s))) policy SKIP_CREDENTIAL = (a, t, f)"
    by (rule prod_cases3)
  then show ?thesis
    using credential_text_nonempty[OF assms] by (simp add: reflect_def d discreet_plan_def Let_def)
qed

lemma discreet_decision [simp]: "fl_memory_decision (discreet_plan c policy signals boundaries) = SKIP_CREDENTIAL"
  by (simp add: discreet_plan_def Let_def split: prod.split)

lemma reworded_input:
  "reflection_input_of reg config decimal (reworded_sources s sources) job =
     map_sum id (\<lambda>i. i\<lparr>ri_source := reworded s (ri_source i)\<rparr>) (reflection_input_of reg config decimal sources job)"
proof -
  have source: "reflection_source decimal (reworded_sources s sources) job =
      map_sum id (\<lambda>(a, u, c, t, src, sender). (a, u, c, t, reworded s src, sender)) (reflection_source decimal sources job)"
    by (auto simp: reflection_source_def reworded_sources_def Let_def permanent_def bind_result_def split: sum.split option.split)
  show ?thesis
    unfolding reflection_input_of_def source
    by (auto simp: bind_result_def split: sum.split prod.split)
qed

text \<open>What is written of a plan without a memory depends on nothing but the plan's other fields.\<close>

lemma apply_without_memory:
  assumes "fl_memory_decision p \<noteq> WRITE"
  shows "apply_plan repo uuid5 enc clock t (i\<lparr>ri_source := reworded s (ri_source i)\<rparr>) c (p\<lparr>fl_importance := x\<rparr>) =
    apply_plan repo uuid5 enc clock t i c p"
proof -
  have "planned_memory (p\<lparr>fl_importance := x\<rparr>) y = None" "planned_memory p y = None" for y
    using assms by (auto simp: planned_memory_def split: option.split)
  then show ?thesis
    by (simp add: apply_plan_def Let_def store_planned_memory_def reflected_episode_def reflected_relationship_def
        reflection_result_def)
qed


lemma reflection_with_credential:
  assumes "carries_credential alnum s"
  shows "handle_reflection repo uuid5 enc reg config alnum decimal (reworded_sources s sources) clock job st =
    then_do (yields id (reflection_input_of reg config decimal sources job)) (\<lambda>i.
    then_do (memory_read (get_relationship repo (bj_tenant_id job) (ri_agent_id i) (ri_user_id i))) (\<lambda>detail.
    then_do (yields ReflectionFailure (relationship_context_of (context_of detail))) (\<lambda>c.
      apply_plan repo uuid5 enc clock (bj_tenant_id job) i c (discreet_plan c (ri_policy i)
        (relationship_signals (casefold (normalized_text s))) (boundaries_of (casefold (normalized_text s))))))) st"
    (is "_ = ?rhs")
  unfolding handle_reflection_def reworded_input
proof -
  have plan: "(case reflect alnum s c (ri_policy i) of Inl e \<Rightarrow> (Inl (ReflectionFailure e), st)
      | Inr p \<Rightarrow> apply_plan repo uuid5 enc clock (bj_tenant_id job) (i\<lparr>ri_source := reworded s (ri_source i)\<rparr>) c p st) =
    apply_plan repo uuid5 enc clock (bj_tenant_id job) i c (discreet_plan c (ri_policy i)
      (relationship_signals (casefold (normalized_text s))) (boundaries_of (casefold (normalized_text s)))) st"
    for i :: reflection_input and c
  proof -
    obtain x where "reflect alnum s c (ri_policy i) = Inr (discreet_plan c (ri_policy i)
        (relationship_signals (casefold (normalized_text s))) (boundaries_of (casefold (normalized_text s)))\<lparr>fl_importance := x\<rparr>)"
      using credential_plan[OF assms] by blast
    then show ?thesis by (simp add: apply_without_memory)
  qed
  show "then_do (yields id (map_sum id (\<lambda>i. i\<lparr>ri_source := reworded s (ri_source i)\<rparr>)
      (reflection_input_of reg config decimal sources job))) (\<lambda>i.
    then_do (memory_read (get_relationship repo (bj_tenant_id job) (ri_agent_id i) (ri_user_id i))) (\<lambda>detail.
    then_do (yields ReflectionFailure (relationship_context_of (context_of detail))) (\<lambda>c.
    then_do (yields ReflectionFailure (reflect alnum (cg_content (pu_trigger_message (ri_source i))) c (ri_policy i)))
      (apply_plan repo uuid5 enc clock (bj_tenant_id job) i c)))) st = ?rhs"
    by (simp add: then_do_memory_read plan split: sum.split)
qed

text \<open>The seven questions the engine asks about the words besides: which lists of markers have one in them.\<close>

definition marker_answers :: "ustr \<Rightarrow> bool list" where
  "marker_answers s = map (has_marker (casefold (normalized_text s))) [hostility_markers, boundary_markers,
     correction_markers, disclosure_markers, warmth_markers, contact_markers, topic_markers]"

lemma answers_decide:
  assumes "marker_answers s = marker_answers s'"
  shows "relationship_signals (casefold (normalized_text s)) = relationship_signals (casefold (normalized_text s'))"
    "boundaries_of (casefold (normalized_text s)) = boundaries_of (casefold (normalized_text s'))"
  using assms by (simp_all add: marker_answers_def relationship_signals_def boundaries_of_def)

text \<open>C31: a message in which the engine finds a credential leaves no trace of its wording but seven bits: which of
  seven fixed lists of markers (hostility, boundary, correction, disclosure, warmth, no contact, no topic) have a
  marker in it. Two interactions that differ only in the words of such a message, with the same seven answers, give
  the handler of reflection the same result and the same state, whatever the repository: nothing it stores (episode,
  memory, relationship, boundaries) or returns has any other part of the text.\<close>

theorem credentials_leave_no_trace:
  assumes "carries_credential alnum s" and "carries_credential alnum s'"
    and "marker_answers s = marker_answers s'"
  shows "handle_reflection repo uuid5 enc reg config alnum decimal (reworded_sources s sources) clock job st =
    handle_reflection repo uuid5 enc reg config alnum decimal (reworded_sources s' sources) clock job st"
  unfolding reflection_with_credential[OF assms(1)] reflection_with_credential[OF assms(2)] answers_decide[OF assms(3)] ..

lemmas spell_out = lit_def strip_def is_space_def normalized_text_def casefold_def fold_char_def

text \<open>The words \<open>cvv1\<close> and \<open>cvv2\<close>.\<close>

lemma sample_folded:
  "casefold (normalized_text [99, 118, 118, 49]) = [99, 118, 118, 49]"
  "casefold (normalized_text [99, 118, 118, 50]) = [99, 118, 118, 50]"
  by (simp_all add: spell_out split_words.simps)

lemma sample_credentials: "carries_credential alnum [99, 118, 118, 49]" "carries_credential alnum [99, 118, 118, 50]"
  by (simp_all add: carries_credential_def sample_folded has_marker_def credential_markers_def lit_def)

lemmas marker_lists = hostility_markers_def boundary_markers_def correction_markers_def disclosure_markers_def
  warmth_markers_def contact_markers_def topic_markers_def

lemma sample_unmarked:
  assumes "s = [99, 118, 118, 49] \<or> s = [99, 118, 118, 50]"
    and "markers \<in> {hostility_markers, boundary_markers, correction_markers, disclosure_markers, warmth_markers,
      contact_markers, topic_markers}"
  shows "\<not> has_marker s markers"
  using assms by (auto simp: has_marker_def marker_lists lit_def)

lemma sample_answers: "marker_answers [99, 118, 118, 49] = marker_answers [99, 118, 118, 50]"
  using sample_unmarked by (simp add: marker_answers_def sample_folded)

theorem credentials_leave_no_trace_witness:
  "carries_credential (\<lambda>_. True) [99, 118, 118, 49] \<and>
   handle_reflection sample_repository sample_uuid5 sample_encoder default_registry initial_store (\<lambda>_. True) (\<lambda>_. None)
     (reworded_sources [99, 118, 118, 49] (sample_sources [])) int sample_reflection_job empty_memory_db =
   handle_reflection sample_repository sample_uuid5 sample_encoder default_registry initial_store (\<lambda>_. True) (\<lambda>_. None)
     (reworded_sources [99, 118, 118, 50] (sample_sources [])) int sample_reflection_job empty_memory_db"
  by (rule conjI[OF sample_credentials(1)])
    (rule credentials_leave_no_trace[OF sample_credentials sample_answers])

section \<open>Forgetting\<close>

text \<open>One run of a handler of memory tasks.\<close>

inductive handled ::
    "('s, 'e) memory_repository \<Rightarrow> (uuid \<Rightarrow> ustr \<Rightarrow> uuid) \<Rightarrow> text_encoder \<Rightarrow> 's \<Rightarrow> 's \<Rightarrow> bool"
  for repo uuid5 enc where
  reflected: "handle_reflection repo uuid5 enc reg config alnum decimal sources clock job s = (r, t) \<Longrightarrow> handled repo uuid5 enc s t"
| consolidated: "handle_consolidation repo decimal now job s = (r, t) \<Longrightarrow> handled repo uuid5 enc s t"
| extracted: "handle_extraction repo uuid5 enc decimal fromiso now job s = (r, t) \<Longrightarrow> handled repo uuid5 enc s t"
| rebuilt: "handle_rebuild repo uuid5 enc error_name decimal started ticks ended job s = (r, t) \<Longrightarrow> handled repo uuid5 enc s t"
| adjusted: "handle_relationship repo uuid5 decimal now job s = (r, t) \<Longrightarrow> handled repo uuid5 enc s t"

context memory_port
begin

lemma handled_steps: "handled repo uuid5 enc s t \<Longrightarrow> (memory_step repo uuid5 enc)\<^sup>*\<^sup>* s t"
  by (induction rule: handled.induct)
    (fact moves_run[OF reflection_moves] moves_run[OF consolidation_moves] moves_run[OF extraction_moves]
      moves_run[OF rebuild_moves] moves_run[OF relationship_moves])+

lemma work_steps:
  "(\<lambda>s t. memory_step repo uuid5 enc s t \<or> handled repo uuid5 enc s t)\<^sup>*\<^sup>* s t \<Longrightarrow> (memory_step repo uuid5 enc)\<^sup>*\<^sup>* s t"
  by (induction rule: rtranclp_induct) (auto dest: handled_steps)

end

text \<open>C19: once \<open>forget_memory\<close> has succeeded, neither a later operation of the memory service nor any run of a
  background handler, first delivery or redelivery, completed or failed on its way, brings the memory
  back: its row stays forgotten without content, no source of it has an excerpt and it has no
  embedding.\<close>

theorem forgetting_is_final:
  assumes "reachable (\<lambda>db. db = empty_memory_db)
      (memory_step (sql_repository trigram text_rank vector_score scan known) uuid5 enc) db"
    and "forget_memory (sql_repository trigram text_rank vector_score scan known) i t a actor now db = Inr (m, db1)"
    and "(\<lambda>s s'. memory_step (sql_repository trigram text_rank vector_score scan known) uuid5 enc s s' \<or>
      handled (sql_repository trigram text_rank vector_score scan known) uuid5 enc s s')\<^sup>*\<^sup>* db1 db2"
  shows "erased i db2"
  by (rule forgotten_for_good[OF assms(1,2) sql_memory.work_steps[OF assms(3)]])

theorem forgetting_is_final_witness:
  "\<exists>m db1 db2. forget_memory sample_repository 7 1 2 3 5 sample_memory_db = Inr (m, db1) \<and>
     db2 = snd (handle_extraction sample_repository sample_uuid5 sample_encoder (\<lambda>_. None) (\<lambda>_. Some (Aware 0)) 9
       (sample_handler_job MEMORY_EXTRACTION []) db1) \<and> erased 7 db2"
proof -
  obtain m db1 where f: "forget_memory sample_repository 7 1 2 3 5 sample_memory_db = Inr (m, db1)"
    using sample_forgotten by blast
  let ?run = "handle_extraction sample_repository sample_uuid5 sample_encoder (\<lambda>_. None) (\<lambda>_. Some (Aware 0)) 9
    (sample_handler_job MEMORY_EXTRACTION []) db1"
  have "handled sample_repository sample_uuid5 sample_encoder db1 (snd ?run)"
    by (rule handled.extracted[of _ _ _ _ _ _ _ _ "fst ?run"]) simp
  then have "erased 7 (snd ?run)"
    by (intro forgetting_is_final[OF sample_memory_reachable f]) auto
  with f show ?thesis by blast
qed

end
