(* ===== verification/Reflection_Plan.thy ===== *)
theory Reflection_Plan
  imports Reflection Memory_Machine
begin

text \<open>
  What the plans of the reflection engine satisfy: texts of the lengths the memory service accepts,
  scores and relationship changes in their ranges, content exactly for what is to be remembered.
\<close>

section \<open>Scores and changes\<close>

definition largest_change :: rat where
  "largest_change = rnd (2 / 10)"

lemma largest_change_small: "0 \<le> largest_change \<and> largest_change \<le> 1"
  by (simp add: largest_change_def rnd_nonneg rnd_le_1)

lemma largest_change_rounds:
  "round_digits 6 largest_change = largest_change" "round_digits 6 (- largest_change) = - largest_change"
  unfolding largest_change_def by code_simp+

lemma bounded_delta_range: "- largest_change \<le> bounded_delta x \<and> bounded_delta x \<le> largest_change"
proof -
  let ?y = "max (- largest_change) (min largest_change x)"
  have "- largest_change \<le> ?y" "?y \<le> largest_change" using largest_change_small by auto
  then show ?thesis
    using round_digits_mono[of "- largest_change" ?y 6] round_digits_mono[of ?y largest_change 6]
    unfolding bounded_delta_def largest_change_def[symmetric] largest_change_rounds by blast
qed

lemma deltas_range:
  "relationship_deltas c signals p decision = (a, t, f) \<Longrightarrow>
     - largest_change \<le> a \<and> a \<le> largest_change \<and> - largest_change \<le> t \<and> t \<le> largest_change \<and>
     - largest_change \<le> f \<and> f \<le> largest_change"
  using bounded_delta_range by (auto simp: relationship_deltas_def)

lemma fold_max_ge: "(w :: rat) \<le> fold max ws w"
  by (induction ws arbitrary: w) (auto intro: order_trans max.cobounded2)

lemma reason_weight_nonneg: "0 \<le> reason_weight code"
  by (simp add: reason_weight_def rnd_nonneg)

lemma importance_range: "0 \<le> importance_of codes s \<and> importance_of codes s \<le> 1"
proof -
  let ?signal = "case map reason_weight codes of [] \<Rightarrow> 0 | w # ws \<Rightarrow> fold max ws w"
  let ?x = "min (rnd (98 / 100)) (fadd (fadd (rnd (2 / 10)) ?signal)
    (fmul (fdiv (of_nat (min (length s) 240)) 240) (rnd (1 / 10))))"
  have "0 \<le> ?signal"
    using reason_weight_nonneg order_trans[OF _ fold_max_ge] by (cases codes) auto
  then have "0 \<le> ?x"
    by (intro min.boundedI fadd_nonneg) (simp_all add: rnd_nonneg fmul_def fdiv_def)
  moreover have "?x \<le> 1" using rnd_le_1[of "98 / 100"] by linarith
  ultimately show ?thesis unfolding importance_of_def Let_def by (rule round_digits_unit)
qed

lemma confidence_range: "0 \<le> confidence_of codes d \<and> confidence_of codes d \<le> 1"
  by (simp add: confidence_of_def rnd_nonneg rnd_le_1)

lemma emotion_range: "- 1 \<le> emotional_weight_of signals \<and> emotional_weight_of signals \<le> 1"
  using rnd_nonneg[of "35 / 100"] rnd_le_1[of "35 / 100"] by (simp add: emotional_weight_of_def)

section \<open>Texts\<close>

definition text_ok :: "nat \<Rightarrow> ustr \<Rightarrow> bool" where
  "text_ok n s \<longleftrightarrow> strip s \<noteq> [] \<and> length (strip s) \<le> n"

lemma text_ok_required: "text_ok n s \<Longrightarrow> required_memory_text s label n = Inr (strip s)"
  by (simp add: text_ok_def required_memory_text_def)

lemma strip_nonempty: "c \<in> set s \<Longrightarrow> \<not> is_space c \<Longrightarrow> strip s \<noteq> []"
  by (metis (no_types, lifting) dropWhile_eq_Nil_conv rev_is_Nil_conv set_rev strip_def dropWhile_append3
      rev_rev_ident set_dropWhileD append_Nil2 takeWhile_dropWhile_id in_set_conv_decomp dropWhile_append1)

lemma text_okI: "s \<noteq> [] \<Longrightarrow> \<not> is_space (hd s) \<Longrightarrow> length s \<le> n \<Longrightarrow> text_ok n s"
  using length_strip_le[of s] strip_nonempty[of "hd s" s] by (auto simp: text_ok_def)

lemmas fixed_texts = title_boundary_def title_preference_def title_fact_def title_plan_def title_event_def
  title_request_def title_correction_def title_hostility_def title_plain_def episode_summary_text_def
  relational_prefix_def semantic_prefix_def episodic_prefix_def other_prefix_def label_neutral_def
  label_warmth_def label_disclosure_def label_correction_def label_boundary_def label_hostility_def
  label_end_def no_contact_def respect_topic_def

lemma episode_title_cases: "episode_title codes signals \<in> set [title_boundary, title_preference, title_fact, title_plan,
    title_event, title_request, title_correction, title_hostility, title_plain]"
  by (auto simp: episode_title_def episode_titles_def split: option.split dest!: find_Some_iff_mem)

lemma title_ok: "text_ok 200 (episode_title codes signals)"
proof -
  have "text_ok 200 s" if "s \<in> set [title_boundary, title_preference, title_fact, title_plan, title_event,
      title_request, title_correction, title_hostility, title_plain]" for s
    using that by (intro text_okI) (auto simp: fixed_texts is_space_def)
  then show ?thesis using episode_title_cases by blast
qed

lemma summary_ok: "text_ok 4000 episode_summary_text"
  by (intro text_okI) (simp_all add: fixed_texts is_space_def)

lemma content_ok: "length kept \<le> 360 \<Longrightarrow> text_ok 8000 (memory_content_of kept kind)"
  by (cases kind; intro text_okI) (simp_all add: memory_content_of_def fixed_texts is_space_def)

lemma boundaries_ok: "b \<in> set (boundaries_of folded) \<Longrightarrow> text_ok 300 b"
  by (intro text_okI) (auto simp: boundaries_of_def fixed_texts is_space_def split: if_splits)

lemma signals_nonempty: "relationship_signals folded \<noteq> []"
  by (simp add: relationship_signals_def Let_def)

lemma signals_few: "length (relationship_signals folded) \<le> 5"
proof -
  have "length (selected xs) \<le> length xs" for xs :: "(bool \<times> relationship_signal) list"
    by (simp add: selected_def)
  from this[of "[(has_marker folded hostility_markers, HOSTILITY), (has_marker folded boundary_markers, BOUNDARY),
      (has_marker folded correction_markers, CORRECTION), (has_marker folded disclosure_markers, SELF_DISCLOSURE),
      (has_marker folded warmth_markers, WARMTH)]"]
  show ?thesis by (simp add: relationship_signals_def Let_def)
qed

lemma length_join: "(\<And>x. x \<in> set xs \<Longrightarrow> length x \<le> n) \<Longrightarrow> length (join sep xs) \<le> length xs * (n + length sep)"
  by (induction sep xs rule: join.induct) (fastforce simp: algebra_simps intro: add_mono)+

lemma join_hd: "x \<noteq> [] \<Longrightarrow> join sep (x # xs) \<noteq> [] \<and> hd (join sep (x # xs)) = hd x"
  by (cases xs) auto

lemma label_shape: "signal_label s \<noteq> [] \<and> \<not> is_space (hd (signal_label s)) \<and> length (signal_label s) \<le> 30"
  by (cases s) (simp_all add: fixed_texts is_space_def)

lemma relationship_summary_ok:
  assumes "signals \<noteq> []" and "length signals \<le> 5"
  shows "text_ok 1000 (relationship_summary signals)"
proof (rule text_okI)
  obtain s ss where s: "signals = s # ss" using assms(1) by (cases signals) auto
  have j: "join [65307] (map signal_label signals) \<noteq> [] \<and>
      hd (join [65307] (map signal_label signals)) = hd (signal_label s)"
    using join_hd[of "signal_label s"] label_shape[of s] by (simp add: s)
  then show "relationship_summary signals \<noteq> []" by (simp add: relationship_summary_def)
  show "\<not> is_space (hd (relationship_summary signals))"
    using j label_shape[of s] by (simp add: relationship_summary_def)
  have "length (join [65307] (map signal_label signals)) \<le> length (map signal_label signals) * (30 + length [65307 :: nat])"
    by (rule length_join) (use label_shape in auto)
  also have "\<dots> \<le> 155" using assms(2) by simp
  finally show "length (relationship_summary signals) \<le> 1000"
    by (simp add: relationship_summary_def label_end_def)
qed

section \<open>Decisions\<close>

lemma decision_cases:
  assumes "memory_decision alnum n folded mode = (d, kind, codes)"
  shows "d = WRITE \<longleftrightarrow> kind \<noteq> None"
  using assms by (auto simp: memory_decision_def Let_def split: if_splits)

text \<open>What the memory service demands of what it is given.\<close>

definition plan_fits :: "reflection_plan \<Rightarrow> bool" where
  "plan_fits p \<longleftrightarrow> text_ok 200 (fl_title p) \<and> text_ok 4000 (fl_episode_summary p) \<and>
     text_ok 1000 (fl_relationship_summary p) \<and> (\<forall>b \<in> set (fl_boundaries p). text_ok 300 b) \<and>
     (\<forall>c. fl_memory_content p = Some c \<longrightarrow> text_ok 8000 c) \<and> fl_relationship_signals p \<noteq> [] \<and>
     0 \<le> fl_importance p \<and> fl_importance p \<le> 1 \<and> 0 \<le> fl_confidence p \<and> fl_confidence p \<le> 1 \<and>
     - 1 \<le> fl_emotional_weight p \<and> fl_emotional_weight p \<le> 1"

definition changes_bounded :: "reflection_plan \<Rightarrow> bool" where
  "changes_bounded p \<longleftrightarrow> (\<forall>x \<in> {fl_affinity_delta p, fl_trust_delta p, fl_familiarity_delta p}.
     - largest_change \<le> x \<and> x \<le> largest_change)"

lemma reflect_Inr:
  assumes "reflect alnum s c policy = Inr p"
  shows "plan_fits p \<and> changes_bounded p \<and>
    (fl_memory_decision p = WRITE \<longleftrightarrow> fl_memory_kind p \<noteq> None \<and> fl_memory_sensitivity p \<noteq> None \<and> fl_memory_content p \<noteq> None)"
proof -
  let ?n = "normalized_text s"
  let ?signals = "relationship_signals (casefold ?n)"
  obtain d kind codes where d: "memory_decision alnum ?n (casefold ?n) (fp_memory_write_mode policy) = (d, kind, codes)"
    by (rule prod_cases3)
  obtain a t f where r: "relationship_deltas c ?signals policy d = (a, t, f)" by (rule prod_cases3)
  have p: "p = \<lparr>fl_title = episode_title codes ?signals, fl_episode_summary = episode_summary_text,
      fl_memory_content = (case kind of Some k \<Rightarrow> if d = WRITE then Some (memory_content_of (take 360 ?n) k) else None
        | None \<Rightarrow> None),
      fl_memory_kind = kind, fl_memory_sensitivity = (if d = WRITE then Some (memory_sensitivity_of codes) else None),
      fl_memory_decision = d, fl_memory_reason_codes = codes, fl_importance = importance_of codes ?n,
      fl_confidence = confidence_of codes d, fl_emotional_weight = emotional_weight_of ?signals,
      fl_relationship_signals = ?signals, fl_affinity_delta = a, fl_trust_delta = t, fl_familiarity_delta = f,
      fl_relationship_summary = relationship_summary ?signals, fl_boundaries = boundaries_of (casefold ?n)\<rparr>"
    using assms by (simp add: reflect_def d r Let_def split: if_splits)
  have "plan_fits p"
    using title_ok summary_ok content_ok boundaries_ok signals_nonempty importance_range confidence_range emotion_range
      relationship_summary_ok[OF signals_nonempty signals_few]
    by (auto simp: plan_fits_def p split: option.splits if_splits)
  moreover have "changes_bounded p" using deltas_range[OF r] by (simp add: changes_bounded_def p)
  moreover have "d = WRITE \<longleftrightarrow> kind \<noteq> None" by (rule decision_cases[OF d])
  ultimately show ?thesis by (auto simp: p split: option.split)
qed

end
