(* ===== verification/Handler_Reflection.thy ===== *)
theory Handler_Reflection
  imports Handler_Properties Reflection_Plan Handler_Settings
begin

text \<open>
  The handler of reflection against the in-memory repository: whatever plan the engine makes is accepted
  by the memory service, so the handler completes.
\<close>

section \<open>Stored relationships\<close>

definition relation_sound :: "relationship \<Rightarrow> bool" where
  "relation_sound r \<longleftrightarrow> 0 \<le> rl_affinity r \<and> rl_affinity r \<le> 1 \<and> 0 \<le> rl_trust r \<and> rl_trust r \<le> 1 \<and>
     0 \<le> rl_familiarity r \<and> rl_familiarity r \<le> 1 \<and> 0 \<le> rl_interaction_count r \<and> (\<forall>b \<in> set (rl_boundaries r). text_ok 300 b)"

text \<open>Every relationship is stored under its own scope and is sound.\<close>

definition relations_sound :: "memory_store \<Rightarrow> bool" where
  "relations_sound s \<longleftrightarrow> (\<forall>k r. dict_get (relationship_map s) k = Some r \<longrightarrow> scope_of r = k \<and> relation_sound r)"

lemma relations_soundD: "relations_sound s \<Longrightarrow> dict_get (relationship_map s) k = Some r \<Longrightarrow> scope_of r = k \<and> relation_sound r"
  unfolding relations_sound_def by blast

lemma first_of_each_set [simp]: "set (first_of_each xs) = set xs"
  by (induction xs) auto

lemma relations_sound_same: "relations_sound s \<Longrightarrow> relationship_map t = relationship_map s \<Longrightarrow> relations_sound t"
  by (simp add: relations_sound_def)

lemma required_texts_Inr:
  "(required_texts xs label n :: 'e memory_error + _) = Inr ys \<longleftrightarrow> ys = map strip xs \<and> (\<forall>x \<in> set xs. text_ok n x)"
  by (induction xs arbitrary: ys) (auto simp: result_laws text_ok_def)

lemma text_ok_strip [simp]: "text_ok n (strip s) = text_ok n s"
  by (simp add: text_ok_def)

text \<open>What an event makes of the relationship it finds.\<close>

definition current_relationship :: "(uuid \<Rightarrow> ustr \<Rightarrow> uuid) \<Rightarrow> relationship_args \<Rightarrow> instant \<Rightarrow> memory_store \<Rightarrow> relationship" where
  "current_relationship uuid5 a now s =
     (case dict_get (relationship_map s) (ra_tenant_id a, ra_agent_id a, ra_user_id a) of
        Some r \<Rightarrow> r | None \<Rightarrow> first_relationship uuid5 a now)"

lemma current_sound:
  assumes "relations_sound s"
  shows "scope_of (current_relationship uuid5 a now s) = (ra_tenant_id a, ra_agent_id a, ra_user_id a) \<and>
    relation_sound (current_relationship uuid5 a now s)"
  using assms
  by (auto simp: current_relationship_def relations_sound_def scope_of_def first_relationship_def relation_sound_def
      split: option.split)

lemma detail_current:
  "mr_get_relationship_detail (mem_repository fold_case fsqrt) (ra_tenant_id a) (ra_agent_id a) (ra_user_id a) s = Inr ex \<Longrightarrow>
     (case ex of Some d \<Rightarrow> rd_relationship d | None \<Rightarrow> first_relationship uuid5 a now) = current_relationship uuid5 a now s"
  by (auto simp: mem_repository_def mem_get_relationship_detail_def current_relationship_def split: option.split)

lemma recorded_event:
  assumes "record_relationship_event (mem_repository fold_case fsqrt :: (memory_store, 'e) memory_repository) uuid5 a i now s = Inr (d, t)"
  obtains summary event_type boundaries where
    "(d, t) = mem_apply_relationship_event
       (updated_relationship a summary boundaries now (current_relationship uuid5 a now s))
       (relationship_event_of a i (rl_id (updated_relationship a summary boundaries now (current_relationship uuid5 a now s)))
         event_type summary now) s"
    "(case ra_boundaries a of None \<Rightarrow> Inr (rl_boundaries (current_relationship uuid5 a now s))
      | Some bs \<Rightarrow> (required_texts bs BoundaryText 300 :: 'e memory_error + _)) = Inr boundaries"
proof -
  let ?repo = "mem_repository fold_case fsqrt :: (memory_store, 'e) memory_repository"
  obtain ex summary event_type boundaries where
    ex: "mr_get_relationship_detail ?repo (ra_tenant_id a) (ra_agent_id a) (ra_user_id a) s = Inr ex"
    and b: "(case ra_boundaries a of None \<Rightarrow> Inr (rl_boundaries (case ex of Some d \<Rightarrow> rd_relationship d | None \<Rightarrow> first_relationship uuid5 a now))
      | Some bs \<Rightarrow> (required_texts bs BoundaryText 300 :: 'e memory_error + _)) = Inr boundaries"
    and run: "mr_apply_relationship_event ?repo
       (updated_relationship a summary boundaries now (case ex of Some d \<Rightarrow> rd_relationship d | None \<Rightarrow> first_relationship uuid5 a now))
       (relationship_event_of a i (rl_id (updated_relationship a summary boundaries now
          (case ex of Some d \<Rightarrow> rd_relationship d | None \<Rightarrow> first_relationship uuid5 a now)))
         event_type summary now) s = Inr (d, t)"
    using assms by (auto simp: record_relationship_event_def get_relationship_def result_laws Let_def)
  have "mem_apply_relationship_event
      (updated_relationship a summary boundaries now (current_relationship uuid5 a now s))
      (relationship_event_of a i (rl_id (updated_relationship a summary boundaries now (current_relationship uuid5 a now s)))
        event_type summary now) s = (d, t)"
    using run by (simp add: detail_current[OF ex] mem_repository_def)
  from that[OF this[symmetric] b[unfolded detail_current[OF ex]]] show thesis .
qed

lemma updated_sound:
  assumes "relation_sound r" and "\<forall>b \<in> set bs. text_ok 300 b"
  shows "relation_sound (updated_relationship a summary bs now r) \<and>
    scope_of (updated_relationship a summary bs now r) = scope_of r"
  using assms by (simp add: relation_sound_def updated_relationship_def scope_of_def Let_def unit_bounds)

lemma recorded_relations_sound:
  assumes "record_relationship_event (mem_repository fold_case fsqrt :: (memory_store, 'e) memory_repository) uuid5 a i now s = Inr (d, t)"
    and "relations_sound s"
  shows "relations_sound t"
  using assms(1)
proof (rule recorded_event)
  fix summary event_type boundaries
  let ?r = "current_relationship uuid5 a now s" and ?u = "updated_relationship a summary boundaries now (current_relationship uuid5 a now s)"
  assume run: "(d, t) = mem_apply_relationship_event ?u (relationship_event_of a i (rl_id ?u) event_type summary now) s"
    and b: "(case ra_boundaries a of None \<Rightarrow> Inr (rl_boundaries ?r) | Some bs \<Rightarrow> (required_texts bs BoundaryText 300 :: 'e memory_error + _)) = Inr boundaries"
  have r: "relation_sound ?r" using current_sound[OF assms(2)] by blast
  have "\<forall>x \<in> set boundaries. text_ok 300 x"
    using b r by (auto simp: required_texts_Inr relation_sound_def split: option.splits)
  then have "relation_sound ?u" using updated_sound[OF r] by blast
  then show ?thesis
    using run assms(2)
    by (auto simp: mem_apply_relationship_event_def store_relationship_event_def relations_sound_def Let_def
        split: option.splits if_splits)
qed

lemma mem_frames:
  "relationship_map (snd (mem_set_episode_status i t a st en s)) = relationship_map s"
  "relationship_map (snd (mem_set_confirmation i t a c q now s)) = relationship_map s"
  "relationship_map (snd (mem_correct_memory i r x b l s)) = relationship_map s"
  "relationship_map (snd (mem_forget_memory i t a now s)) = relationship_map s"
  "relationship_map (mem_replace_embedding i t b now s) = relationship_map s"
  by (simp_all add: mem_set_episode_status_def mem_set_confirmation_def mem_correct_memory_def mem_forget_memory_def
      mem_replace_embedding_def Let_def split: option.split)

lemma mem_frames_pair:
  "mem_set_episode_status i t a st en s = (e, s') \<Longrightarrow> relationship_map s' = relationship_map s"
  "mem_set_confirmation i t a c q now s = (m, s') \<Longrightarrow> relationship_map s' = relationship_map s"
  "mem_forget_memory i t a now s = (m, s') \<Longrightarrow> relationship_map s' = relationship_map s"
  using mem_frames by (metis snd_conv)+

abbreviation same_relations :: "memory_store \<Rightarrow> memory_store \<Rightarrow> bool" where
  "same_relations s t \<equiv> relationship_map t = relationship_map s"

lemma service_frames:
  fixes repo :: "(memory_store, 'e) memory_repository"
  assumes repo_def: "repo = mem_repository fold_case fsqrt"
  shows "create_episode repo args i now s = Inr (e, s') \<Longrightarrow> same_relations s s'"
    and "close_episode repo i t a consolidate actor now s = Inr (e, s') \<Longrightarrow> same_relations s s'"
    and "create_memory repo uuid5 enc margs i now s = Inr (d, s') \<Longrightarrow> same_relations s s'"
    and "set_confirmation repo i t a c actor now s = Inr (m, s') \<Longrightarrow> same_relations s s'"
    and "correct_memory repo uuid5 enc i t a content event_at actor note_text rid sid lid now s = Inr (d, s') \<Longrightarrow> same_relations s s'"
    and "forget_memory repo i t a actor now s = Inr (m, s') \<Longrightarrow> same_relations s s'"
    and "link_conflict repo i j t a actor note_text lid now s = Inr (l, s') \<Longrightarrow> same_relations s s'"
    and "request_embedding_rebuild repo enc t a u actor i now s = Inr (job, s') \<Longrightarrow> same_relations s s'"
    and "mr_replace_embedding repo i t b now s = Inr ((), s') \<Longrightarrow> same_relations s s'"
    and "mr_update_index_job repo job s = Inr (job', s') \<Longrightarrow> same_relations s s'"
  unfolding repo_def
  by (auto simp: create_episode_def mem_create_episode_def result_laws mem_repository_def)
    (auto simp: close_episode_def create_memory_def mem_create_memory_def set_confirmation_def correct_memory_def
      forget_memory_def link_conflict_def mem_create_memory_link_def request_embedding_rebuild_def mem_put_index_job_def
      result_laws mem_repository_def Let_def mem_frames dest!: mem_frames_pair split: option.splits)

lemma memory_step_relations_sound:
  "memory_step (mem_repository fold_case fsqrt :: (memory_store, 'e) memory_repository) uuid5 enc s s' \<Longrightarrow> relations_sound s \<Longrightarrow>
     relations_sound s'"
proof (induction rule: memory_step.induct)
  case (related a i now s d s')
  then show ?case by (blast intro: recorded_relations_sound)
qed (blast intro: relations_sound_same dest: service_frames[OF refl])+

lemma reachable_relations_sound:
  "reachable (\<lambda>s. s = empty_memory_store)
     (memory_step (mem_repository fold_case fsqrt :: (memory_store, 'e) memory_repository) uuid5 enc) s \<Longrightarrow> relations_sound s"
proof (induction rule: reachable.induct)
  case (start s)
  then show ?case by (simp add: relations_sound_def empty_memory_store_def dict_get_def)
qed (rule memory_step_relations_sound)

section \<open>The service accepts a plan\<close>

lemma uuid_str_ok: "strip (uuid_str u) \<noteq> [] \<and> length (strip (uuid_str u)) \<le> 255"
proof -
  have ne: "uuid_str u \<noteq> []" using length_uuid_str[of u] by auto
  then have hd: "hd (uuid_str u) \<in> set (uuid_str u)" by simp
  have "hd (uuid_str u) = 45 \<or> hd (uuid_str u) \<in> set (hex_digits 32 u)"
    using hd arg_cong[OF filter_uuid_str[of u], of set] by auto
  then have "\<not> is_space (hd (uuid_str u))"
    using hex_digits_range[of "hd (uuid_str u)" 32 u] by (auto simp: is_space_def)
  then show ?thesis
    using text_okI[OF ne, of 255] length_uuid_str[of u] by (simp add: text_ok_def)
qed

lemma episode_accepted:
  assumes "plan_fits p" and "cg_created_at (pu_trigger_message (ri_source i)) \<le> clock_end"
  shows "\<exists>e. create_episode (mem_repository fold_case fsqrt :: (memory_store, 'e) memory_repository)
      (reflected_episode t i p clock_end) k now s = Inr (e, s\<lparr>episode_map := dict_set k e (episode_map s)\<rparr>) \<and>
    ep_id e = k \<and> ep_tenant_id e = t \<and> ep_agent_id e = ri_agent_id i"
  using assms
  by (auto simp: create_episode_def reflected_episode_def plan_fits_def text_ok_def required_memory_text_def aware_def
      aware_option_def ensure_def mem_repository_def mem_create_episode_def lift_repo_def)

lemma memory_accepted:
  assumes "plan_fits p" and "fl_memory_content p = Some content" and "strip (take 2000 (cg_content (pu_trigger_message (ri_source i)))) \<noteq> []"
    and "\<And>c. te_encode enc c \<noteq> None"
  shows "\<exists>d m. create_memory (mem_repository fold_case fsqrt :: (memory_store, 'e) memory_repository) uuid5 enc
      (reflected_memory t i p episode_id kind sensitivity content) k now s = Inr (d, m) \<and>
    mem_get_memory_detail k t (ri_agent_id i) m \<noteq> None \<and> episode_map m = episode_map s \<and>
    relationship_map m = relationship_map s"
proof -
  let ?text = "take 2000 (cg_content (pu_trigger_message (ri_source i)))"
  have x: "length (strip ?text) \<le> 2000" using length_strip_le[of ?text] by simp
  obtain v where v: "te_encode enc (strip content) = Some v" using assms(4)[of "strip content"] by auto
  have c: "strip content \<noteq> []" "length (strip content) \<le> 8000"
    using assms(1,2) by (simp_all add: plan_fits_def text_ok_def)
  show ?thesis
    using assms(1) x v c assms(3) uuid_str_ok[of "ri_trigger_message_id i"]
    by (simp add: create_memory_def reflected_memory_def Let_def required_memory_text_def validate_memory_values_def
        ensure_def aware_def plan_fits_def source_record_def optional_memory_text_def memory_embedding_of_def
        encoded_def mem_repository_def mem_create_memory_def mem_get_memory_detail_def in_scope_def fresh_memory_def)
qed

lemma event_accepted:
  assumes "relations_sound s" and "delta_ok (ra_affinity_delta a)" and "delta_ok (ra_trust_delta a)"
    and "delta_ok (ra_familiarity_delta a)" and "text_ok 80 (ra_event_type a)" and "text_ok 1000 (ra_summary a)"
    and "\<And>i. ra_evidence_memory_id a = Some i \<Longrightarrow> mem_get_memory_detail i (ra_tenant_id a) (ra_agent_id a) s \<noteq> None"
    and "\<And>bs b. ra_boundaries a = Some bs \<Longrightarrow> b \<in> set bs \<Longrightarrow> text_ok 300 b"
  shows "\<exists>d s'. record_relationship_event (mem_repository fold_case fsqrt :: (memory_store, 'e) memory_repository) uuid5 a k now s
      = Inr (d, s') \<and> episode_map s' = episode_map s"
proof -
  let ?repo = "mem_repository fold_case fsqrt :: (memory_store, 'e) memory_repository"
  have e: "\<exists>x. (case ra_evidence_memory_id a of None \<Rightarrow> Inr None
      | Some i \<Rightarrow> map_sum id Some (get_memory_detail ?repo i (ra_tenant_id a) (ra_agent_id a) s)) = Inr x"
    using assms(7) by (auto simp: get_memory_detail_def mem_repository_def lift_repo_def split: option.split)
  have b: "\<exists>ys. (case ra_boundaries a of None \<Rightarrow> Inr (rl_boundaries r)
      | Some bs \<Rightarrow> (required_texts bs BoundaryText 300 :: 'e memory_error + _)) = Inr ys" for r
    using assms(8) by (auto simp: required_texts_Inr split: option.split)
  have m: "episode_map (snd (mem_apply_relationship_event x y s)) = episode_map s" for x y
    by (simp add: mem_apply_relationship_event_def store_relationship_event_def Let_def split: option.split)
  obtain x where x: "(case ra_evidence_memory_id a of None \<Rightarrow> Inr None
      | Some i \<Rightarrow> map_sum id Some (get_memory_detail ?repo i (ra_tenant_id a) (ra_agent_id a) s)) = Inr x"
    using e by blast
  let ?ex = "mem_get_relationship_detail (ra_tenant_id a) (ra_agent_id a) (ra_user_id a) s"
  let ?cur = "case ?ex of Some d \<Rightarrow> rd_relationship d | None \<Rightarrow> first_relationship uuid5 a now"
  obtain ys where y: "(case ra_boundaries a of None \<Rightarrow> Inr (rl_boundaries ?cur)
      | Some bs \<Rightarrow> (required_texts bs BoundaryText 300 :: 'e memory_error + _)) = Inr ys"
    using b by blast
  let ?u = "updated_relationship a (strip (ra_summary a)) ys now ?cur"
  let ?r = "mem_apply_relationship_event ?u
      (relationship_event_of a k (rl_id ?u) (strip (ra_event_type a)) (strip (ra_summary a)) now) s"
  have rel: "(get_relationship ?repo (ra_tenant_id a) (ra_agent_id a) (ra_user_id a) s :: 'e memory_error + _) = Inr ?ex"
    "mr_apply_relationship_event ?repo ?u
      (relationship_event_of a k (rl_id ?u) (strip (ra_event_type a)) (strip (ra_summary a)) now) s = Inr ?r"
    by (simp_all add: get_relationship_def mem_repository_def)
  have "record_relationship_event ?repo uuid5 a k now s = Inr ?r"
    unfolding record_relationship_event_def Let_def rel(1) x bind_result_simps
    by (simp add: assms(2-6) ensure_def text_ok_required x rel y Let_def)
  then show ?thesis using m by (metis prod.collapse)
qed

lemma closing_accepted:
  assumes "dict_get (episode_map s) k = Some e" and "ep_tenant_id e = t" and "ep_agent_id e = a"
  shows "\<exists>x s'. close_episode (mem_repository fold_case fsqrt :: (memory_store, 'e) memory_repository) k t a b actor now s = Inr (x, s')"
  using assms by (simp add: close_episode_def mem_repository_def mem_set_episode_status_def Let_def found_def)

lemma planned_memory_content: "planned_memory p x = Some (kind, sensitivity, content) \<Longrightarrow> fl_memory_content p = Some content"
  by (auto simp: planned_memory_def split: option.splits if_splits)

lemma signal_value_length: "length (signal_value s) \<le> 20"
  by (cases s) (simp_all add: lit_def)

lemma reflected_event_type_ok: "text_ok 80 (lit ''conversation.reflected.'' @ signal_value s)"
  using signal_value_length[of s] by (intro text_okI) (simp_all add: lit_def is_space_def)

lemma changes_accepted: "changes_bounded p \<Longrightarrow> delta_ok (fl_affinity_delta p) \<and> delta_ok (fl_trust_delta p) \<and> delta_ok (fl_familiarity_delta p)"
  using largest_change_small by (auto simp: changes_bounded_def delta_ok_def)

text \<open>What a plan is applied to: the state, the texts and the clock.\<close>

lemma plan_applies:
  assumes "plan_fits p" "changes_bounded p" and "relations_sound s"
    and "\<And>b. b \<in> set (rc_boundaries c) \<Longrightarrow> text_ok 300 b"
    and "cg_created_at (pu_trigger_message (ri_source i)) \<le> clock 0"
    and "strip (take 2000 (cg_content (pu_trigger_message (ri_source i)))) \<noteq> []"
    and "\<And>c. te_encode enc c \<noteq> None"
  shows "\<exists>res s'. apply_plan (mem_repository fold_case fsqrt :: (memory_store, 'e) memory_repository) uuid5 enc clock t i c p s = (Inr res, s')"
proof -
  let ?repo = "mem_repository fold_case fsqrt :: (memory_store, 'e) memory_repository"
  let ?run = "gr_id (pu_run (ri_source i))"
  let ?k = "uuid5 ?run (lit ''reflection:episode'')"
  obtain e s1 where e: "create_episode ?repo (reflected_episode t i p (clock 0)) ?k (clock 1) s = Inr (e, s1)"
      "ep_id e = ?k" "ep_tenant_id e = t" "ep_agent_id e = ri_agent_id i"
    and s1: "s1 = s\<lparr>episode_map := dict_set ?k e (episode_map s)\<rparr>"
    using episode_accepted[OF assms(1,5)] by blast
  have "\<exists>m s2. store_planned_memory ?repo uuid5 enc t i p (ep_id e) (clock 2) s1 = (Inr m, s2) \<and>
      (\<forall>j. m = Some j \<longrightarrow> mem_get_memory_detail j t (ri_agent_id i) s2 \<noteq> None) \<and>
      episode_map s2 = episode_map s1 \<and> relationship_map s2 = relationship_map s1"
  proof (cases "planned_memory p (ri_minimum_importance i)")
    case (Some x)
    obtain kind sensitivity content where x: "x = (kind, sensitivity, content)" by (rule prod_cases3)
    have "fl_memory_content p = Some content" using Some x by (auto dest: planned_memory_content)
    from memory_accepted[OF assms(1) this assms(6,7)] obtain dd m where
      "create_memory ?repo uuid5 enc (reflected_memory t i p (ep_id e) kind sensitivity content)
        (uuid5 ?run (lit ''reflection:memory'')) (clock 2) s1 = Inr (dd, m)"
      "mem_get_memory_detail (uuid5 ?run (lit ''reflection:memory'')) t (ri_agent_id i) m \<noteq> None"
      "episode_map m = episode_map s1" "relationship_map m = relationship_map s1" by blast
    then show ?thesis
      using Some x by (simp add: store_planned_memory_def Let_def then_do_memory_call yields_def)
  qed (simp add: store_planned_memory_def yields_def)
  then obtain m s2 where m: "store_planned_memory ?repo uuid5 enc t i p (ep_id e) (clock 2) s1 = (Inr m, s2)"
    and detail: "\<And>j. m = Some j \<Longrightarrow> mem_get_memory_detail j t (ri_agent_id i) s2 \<noteq> None"
    and s2: "episode_map s2 = episode_map s1" "relationship_map s2 = relationship_map s1" by blast
  have "relations_sound s2" using assms(3) s1 s2(2) by (auto intro: relations_sound_same)
  then have "\<exists>d s3. record_relationship_event ?repo uuid5 (reflected_relationship t i c p m)
      (uuid5 ?run (lit ''reflection:relationship-event'')) (clock 3) s2 = Inr (d, s3) \<and> episode_map s3 = episode_map s2"
    using assms(1,4) changes_accepted[OF assms(2)] reflected_event_type_ok detail
    by (intro event_accepted) (auto simp: reflected_relationship_def plan_fits_def split: if_splits)
  then obtain d s3 where d: "record_relationship_event ?repo uuid5 (reflected_relationship t i c p m)
      (uuid5 ?run (lit ''reflection:relationship-event'')) (clock 3) s2 = Inr (d, s3)" "episode_map s3 = episode_map s2"
    by blast
  have "dict_get (episode_map s3) ?k = Some e" using s1 s2(1) d(2) by simp
  then obtain x s4 where "close_episode ?repo (ep_id e) t (ri_agent_id i) True (ri_actor_id i) (clock 4) s3 = Inr (x, s4)"
    using closing_accepted e(2-4) by metis
  with e(1) m d(1) show ?thesis
    unfolding apply_plan_def Let_def by (simp add: then_do_memory_call then_do_def[of "store_planned_memory _ _ _ _ _ _ _ _"] yields_def)
qed

section \<open>Reflection completes\<close>

lemma nonblank_normalized: "strip s \<noteq> [] \<Longrightarrow> normalized_text s \<noteq> []"
  using strip_ends[of s]
  by (cases "strip s") (auto simp: normalized_text_def split_words.simps[of "_ # _"] join_hd)

lemma reflect_total:
  assumes "normalized_text s \<noteq> []"
  shows "\<exists>p. reflect alnum s c policy = Inr p"
proof -
  let ?n = "normalized_text s"
  obtain d kind codes where d: "memory_decision alnum ?n (casefold ?n) (fp_memory_write_mode policy) = (d, kind, codes)"
    by (rule prod_cases3)
  obtain a t f where "relationship_deltas c (relationship_signals (casefold ?n)) policy d = (a, t, f)"
    by (rule prod_cases3)
  with assms d show ?thesis by (simp add: reflect_def Let_def)
qed

lemma strip_take: "strip (take n s) \<noteq> [] \<Longrightarrow> strip s \<noteq> []"
proof -
  assume "strip (take n s) \<noteq> []"
  then have "\<exists>c \<in> set (take n s). \<not> is_space c"
    by (metis (no_types, lifting) dropWhile_eq_Nil_conv dropWhile.simps(1) rev.simps(1) strip_def)
  then obtain c where "c \<in> set s" "\<not> is_space c" by (auto dest: in_set_takeD)
  then show ?thesis by (rule strip_nonempty)
qed

lemma reflection_ends:
  fixes repo :: "(memory_store, 'e) memory_repository"
  assumes "repo = mem_repository fold_case fsqrt"
    and "reachable (\<lambda>s. s = empty_memory_store) (memory_step repo uuid5 enc) st"
    and "(reflection_input_of reg config decimal sources job :: 'e task_failure + _) = Inr i"
    and "strip (take 2000 (cg_content (pu_trigger_message (ri_source i)))) \<noteq> []"
    and "cg_created_at (pu_trigger_message (ri_source i)) \<le> clock 0"
    and "\<And>c. te_encode enc c \<noteq> None"
  shows "\<exists>res st'. handle_reflection repo uuid5 enc reg config alnum decimal sources clock job st = (Inr res, st')"
proof -
  have sound: "relations_sound st" using assms(2) unfolding assms(1) by (rule reachable_relations_sound)
  let ?detail = "mem_get_relationship_detail (bj_tenant_id job) (ri_agent_id i) (ri_user_id i) st"
  let ?c = "context_of ?detail"
  have rel: "(get_relationship repo (bj_tenant_id job) (ri_agent_id i) (ri_user_id i) st :: 'e memory_error + _) = Inr ?detail"
    by (simp add: assms(1) get_relationship_def mem_repository_def)
  have c: "relationship_context_of ?c = Inr ?c" "b \<in> set (rc_boundaries ?c) \<Longrightarrow> text_ok 300 b" for b
    using relations_soundD[OF sound, of "(bj_tenant_id job, ri_agent_id i, ri_user_id i)"]
    by (cases "dict_get (relationship_map st) (bj_tenant_id job, ri_agent_id i, ri_user_id i)";
      simp add: relationship_context_of_def context_of_def mem_get_relationship_detail_def relation_sound_def Let_def)+
  have "normalized_text (cg_content (pu_trigger_message (ri_source i))) \<noteq> []"
    by (rule nonblank_normalized[OF strip_take[OF assms(4)]])
  then obtain p where p: "reflect alnum (cg_content (pu_trigger_message (ri_source i))) ?c (ri_policy i) = Inr p"
    using reflect_total by blast
  have "\<exists>res s'. apply_plan repo uuid5 enc clock (bj_tenant_id job) i ?c p st = (Inr res, s')"
    unfolding assms(1) using reflect_Inr[OF p] by (intro plan_applies sound c(2) assms(4-6)) auto
  then show ?thesis
    by (simp add: handle_reflection_def assms(3) then_do_memory_read rel c(1) p)
qed

text \<open>the memory service accepts every plan of the reflection engine: in a state the memory service can reach
  in memory, the reflection of a job whose source and settings can be read ends with a result, if the message has a
  visible character among its first 2000 (without one it fails, after it has stored the episode), the clock is
  not behind the message and the encoder accepts every text.\<close>

lemma reflection_completes:
  fixes repo :: "(memory_store, 'e) memory_repository"
  assumes "repo = mem_repository fold_case fsqrt"
    and "reachable (\<lambda>s. s = empty_memory_store) (memory_step repo uuid5 enc) st"
    and "(reflection_input_of reg config decimal sources job :: 'e task_failure + _) = Inr i"
    and "strip (take 2000 (cg_content (pu_trigger_message (ri_source i)))) \<noteq> []"
    and "cg_created_at (pu_trigger_message (ri_source i)) \<le> clock 0"
    and "\<And>c. te_encode enc c \<noteq> None"
  shows "\<exists>res st'. handle_reflection repo uuid5 enc reg config alnum decimal sources clock job st = (Inr res, st')"
  using assms by (rule reflection_ends)

lemma reflection_completes_instance:
  "\<exists>res st'. handle_reflection (mem_repository id id :: (memory_store, sql_error) memory_repository) sample_uuid5 sample_encoder
     default_registry initial_store (\<lambda>_. True) (\<lambda>_. None) (sample_sources [99, 118, 118, 49]) int sample_reflection_job
     empty_memory_store = (Inr res, st')"
proof -
  let ?repo = "mem_repository id id :: (memory_store, sql_error) memory_repository"
  obtain i where i: "(reflection_input_of default_registry initial_store (\<lambda>_. None) (sample_sources [99, 118, 118, 49])
      sample_reflection_job :: sql_error task_failure + _) = Inr i" "ri_source i = sample_source [99, 118, 118, 49]"
    by (rule sample_input)
  show ?thesis
    by (rule reflection_completes[OF refl _ i(1)])
      (auto intro: reachable.start simp: i(2) sample_source_def sample_trigger_def strip_def is_space_def sample_encoder_def)
qed

end
