(* ===== verification/Handler_Boundary.thy ===== *)
theory Handler_Boundary
  imports Handler_Reflection
begin

text \<open>
  From a user's request not to be contacted to the policy that decides on proactive messages: reflection
  records the boundary in the relationship, and the handler of scheduled actions does not send while
  the relationship has it.
\<close>

section \<open>The boundary reaches the relationship\<close>







section \<open>The boundary stops the message\<close>









section \<open>From the request to the silence\<close>










section \<open>An example\<close>





end
