(* ===== verification/Secret_Store.thy ===== *)
theory Secret_Store
  imports Config_Registry
begin

text \<open>
  Secrets: \<open>MemorySecretStore\<close> and its envelope (\<open>packages/infrastructure/.../secret_store.py\<close>) and
  \<open>SecretManagementService\<close> (\<open>packages/application/.../configuration_service.py\<close>). AES-GCM is a
  third-party package: \<open>seal nonce text ad\<close> is the cipher text of the UTF-8 bytes of a text under
  associated data, \<open>unseal\<close> its partial inverse (\<open>None\<close> is \<open>InvalidTag\<close>). Fresh identifiers, nonces and
  the clock are arguments.
\<close>

section \<open>Data\<close>

datatype integrity_status = UNTESTED | VALID | INVALID

record secret_metadata =
  sm_id :: uuid
  sm_key :: ustr
  sm_scope_type :: config_scope
  sm_scope_id :: "uuid option"
  sm_provider :: ustr
  sm_masked_hint :: ustr
  sm_integrity_status :: integrity_status
  sm_created_at :: instant
  sm_updated_at :: instant
  sm_last_tested_at :: "instant option"

type_synonym bytes = "nat list"

record secret_record =
  sr_metadata :: secret_metadata
  sr_encrypted_value :: bytes
  sr_nonce :: bytes
  sr_key_version :: int

record cipher =
  seal :: "bytes \<Rightarrow> ustr \<Rightarrow> ustr \<Rightarrow> bytes"
  unseal :: "bytes \<Rightarrow> bytes \<Rightarrow> ustr \<Rightarrow> ustr option"

type_synonym secret_store = "(uuid, secret_record) dict"

section \<open>The envelope\<close>

definition secret_provider :: ustr where
  "secret_provider = lit ''aes_gcm''"

definition associated_data :: "uuid \<Rightarrow> ustr \<Rightarrow> config_scope \<Rightarrow> uuid option \<Rightarrow> int \<Rightarrow> ustr" where
  "associated_data sid k scope scope_id version =
     lit ''cnb-secret-v1|'' @ uuid_str sid @ lit ''|'' @ k @ lit ''|'' @ scope_value scope @ lit ''|'' @
     (case scope_id of None \<Rightarrow> lit ''-'' | Some u \<Rightarrow> uuid_str u) @ lit ''|'' @ dec_int version"

definition decrypt_record :: "cipher \<Rightarrow> secret_record \<Rightarrow> config_error + ustr" where
  "decrypt_record c r =
     (let m = sr_metadata r in
      case unseal c (sr_nonce r) (sr_encrypted_value r)
             (associated_data (sm_id m) (sm_key m) (sm_scope_type m) (sm_scope_id m) (sr_key_version r)) of
        None \<Rightarrow> Inl Secret_Unreadable
      | Some t \<Rightarrow> Inr t)"

text \<open>\<open>_mask_secret\<close>: four bullets and, for a longer secret, its last four characters.\<close>

definition mask_secret :: "ustr \<Rightarrow> ustr" where
  "mask_secret t = replicate 4 8226 @ (if 4 < length t then drop (length t - 4) t else [])"

section \<open>The in-memory store\<close>

definition dict_delete :: "'k \<Rightarrow> ('k, 'v) dict \<Rightarrow> ('k, 'v) dict" where
  "dict_delete k d = filter (\<lambda>(l, _). l \<noteq> k) d"

definition list_metadata :: "secret_store \<Rightarrow> secret_metadata list" where
  "list_metadata s = map sr_metadata
     (sorted_by (\<lambda>r. (sm_key (sr_metadata r), scope_value (sm_scope_type (sr_metadata r)),
        case sm_scope_id (sr_metadata r) of None \<Rightarrow> [] | Some u \<Rightarrow> uuid_str u)) (dict_values s))"

definition same_place :: "ustr \<Rightarrow> config_scope \<Rightarrow> uuid option \<Rightarrow> secret_record \<Rightarrow> bool" where
  "same_place k scope scope_id r \<longleftrightarrow> sm_key (sr_metadata r) = k \<and>
     sm_scope_type (sr_metadata r) = scope \<and> sm_scope_id (sr_metadata r) = scope_id"

definition write_secret ::
    "cipher \<Rightarrow> uuid \<Rightarrow> bytes \<Rightarrow> instant \<Rightarrow> secret_record option \<Rightarrow> ustr \<Rightarrow> config_scope \<Rightarrow> uuid option \<Rightarrow>
     ustr \<Rightarrow> secret_store \<Rightarrow> secret_metadata \<times> secret_store" where
  "write_secret c fresh nonce now existing k scope scope_id plaintext s =
     (let sid = (case existing of None \<Rightarrow> fresh | Some r \<Rightarrow> sm_id (sr_metadata r));
          version = (case existing of None \<Rightarrow> 1 | Some r \<Rightarrow> sr_key_version r + 1);
          m = \<lparr>sm_id = sid, sm_key = k, sm_scope_type = scope, sm_scope_id = scope_id,
               sm_provider = secret_provider, sm_masked_hint = mask_secret plaintext,
               sm_integrity_status = UNTESTED,
               sm_created_at = (case existing of None \<Rightarrow> now | Some r \<Rightarrow> sm_created_at (sr_metadata r)),
               sm_updated_at = now, sm_last_tested_at = None\<rparr>;
          r = \<lparr>sr_metadata = m,
               sr_encrypted_value = seal c nonce plaintext (associated_data sid k scope scope_id version),
               sr_nonce = nonce, sr_key_version = version\<rparr>
      in (m, dict_set sid r s))"

definition set_secret ::
    "cipher \<Rightarrow> uuid \<Rightarrow> bytes \<Rightarrow> instant \<Rightarrow> ustr \<Rightarrow> config_scope \<Rightarrow> uuid option \<Rightarrow> ustr \<Rightarrow> secret_store \<Rightarrow>
     secret_metadata \<times> secret_store" where
  "set_secret c fresh nonce now k scope scope_id plaintext s =
     write_secret c fresh nonce now (find (same_place k scope scope_id) (dict_values s))
       k scope scope_id plaintext s"

definition rotate_secret ::
    "cipher \<Rightarrow> bytes \<Rightarrow> instant \<Rightarrow> uuid \<Rightarrow> ustr \<Rightarrow> secret_store \<Rightarrow>
     config_error + secret_metadata \<times> secret_store" where
  "rotate_secret c nonce now sid plaintext s =
     (case dict_get s sid of
        None \<Rightarrow> Inl Secret_Not_Found
      | Some r \<Rightarrow> Inr (write_secret c sid nonce now (Some r) (sm_key (sr_metadata r))
          (sm_scope_type (sr_metadata r)) (sm_scope_id (sr_metadata r)) plaintext s))"

definition test_secret ::
    "cipher \<Rightarrow> instant \<Rightarrow> uuid \<Rightarrow> secret_store \<Rightarrow> config_error + secret_metadata \<times> secret_store" where
  "test_secret c now sid s =
     (case dict_get s sid of
        None \<Rightarrow> Inl Secret_Not_Found
      | Some r \<Rightarrow>
          let status = (case decrypt_record c r of Inl _ \<Rightarrow> INVALID | Inr _ \<Rightarrow> VALID);
              m = (sr_metadata r)\<lparr>sm_integrity_status := status, sm_updated_at := now,
                    sm_last_tested_at := Some now\<rparr>
          in Inr (m, dict_set sid (r\<lparr>sr_metadata := m\<rparr>) s))"

definition clear_secret :: "uuid \<Rightarrow> secret_store \<Rightarrow> config_error + secret_store" where
  "clear_secret sid s =
     (case dict_get s sid of None \<Rightarrow> Inl Secret_Not_Found | Some _ \<Rightarrow> Inr (dict_delete sid s))"

text \<open>\<open>_select_effective_record\<close>: the records of the key by scope, then the narrowest target wins.\<close>

definition records_by_scope ::
    "ustr \<Rightarrow> secret_record list \<Rightarrow> (config_scope \<times> uuid option, secret_record) dict" where
  "records_by_scope k rs =
     fold (\<lambda>r d. dict_set (sm_scope_type (sr_metadata r), sm_scope_id (sr_metadata r)) r d)
       (filter (\<lambda>r. sm_key (sr_metadata r) = k) rs) []"

definition select_effective_record ::
    "ustr \<Rightarrow> uuid option \<Rightarrow> uuid option \<Rightarrow> uuid option \<Rightarrow> uuid option \<Rightarrow> secret_record list \<Rightarrow>
     secret_record option" where
  "select_effective_record k tenant agent channel user rs =
     (let by_scope = records_by_scope k rs in
      fold (\<lambda>(scope, scope_id) selected.
          if scope_id \<noteq> None \<and> dict_get by_scope (scope, scope_id) \<noteq> None
          then dict_get by_scope (scope, scope_id) else selected)
        [(TENANT, tenant), (AGENT, agent), (CHANNEL, channel), (USER, user)]
        (dict_get by_scope (SYSTEM, None)))"

definition resolve_secret ::
    "cipher \<Rightarrow> ustr \<Rightarrow> uuid \<Rightarrow> uuid option \<Rightarrow> uuid option \<Rightarrow> uuid option \<Rightarrow> secret_store \<Rightarrow>
     config_error + ustr option" where
  "resolve_secret c k tenant agent channel user s =
     (case select_effective_record k (Some tenant) agent channel user (dict_values s) of
        None \<Rightarrow> Inr None
      | Some r \<Rightarrow> bind_result (decrypt_record c r) (\<lambda>t. Inr (Some t)))"

section \<open>\<open>SecretManagementService\<close>\<close>

definition validate_target :: "registry \<Rightarrow> ustr \<Rightarrow> config_scope \<Rightarrow> uuid option \<Rightarrow> config_error + unit" where
  "validate_target reg k scope scope_id =
     (case registry_get reg k of
        None \<Rightarrow> Inl (Invalid_Value (Unknown_Key k))
      | Some d \<Rightarrow>
          if \<not> cd_secret d then Inl (Invalid_Value (Not_A_Secret k)) else check_scope d scope scope_id)"

definition service_set_secret ::
    "cipher \<Rightarrow> registry \<Rightarrow> uuid \<Rightarrow> bytes \<Rightarrow> instant \<Rightarrow> ustr \<Rightarrow> config_scope \<Rightarrow> uuid option \<Rightarrow> ustr \<Rightarrow>
     secret_store \<Rightarrow> config_error + secret_metadata \<times> secret_store" where
  "service_set_secret c reg fresh nonce now k scope scope_id plaintext s =
     bind_result (validate_target reg k scope scope_id) (\<lambda>_.
     bind_result (validate_secret reg k plaintext) (\<lambda>_.
       Inr (set_secret c fresh nonce now k scope scope_id plaintext s)))"

definition service_rotate_secret ::
    "cipher \<Rightarrow> registry \<Rightarrow> bytes \<Rightarrow> instant \<Rightarrow> uuid \<Rightarrow> ustr \<Rightarrow> secret_store \<Rightarrow>
     config_error + secret_metadata \<times> secret_store" where
  "service_rotate_secret c reg nonce now sid plaintext s =
     bind_result
       (case find (\<lambda>m. sm_id m = sid) (list_metadata s) of
          None \<Rightarrow> Inr ()
        | Some m \<Rightarrow> validate_secret reg (sm_key m) plaintext)
       (\<lambda>_. rotate_secret c nonce now sid plaintext s)"

end
