(* ===== verification/Secret_Properties.thy ===== *)
theory Secret_Properties
  imports Secret_Store
begin

text \<open>
  The secret store implements a map from places (key, scope, target) to texts: every operation acts
  on the map as its name says, and resolving a key is a lookup of the narrowest place. The cipher is
  any whose \<open>unseal\<close> inverts its \<open>seal\<close>.
\<close>

type_synonym secret_place = "ustr \<times> config_scope \<times> uuid option"

definition place_of :: "secret_record \<Rightarrow> secret_place" where
  "place_of r = (sm_key (sr_metadata r), sm_scope_type (sr_metadata r), sm_scope_id (sr_metadata r))"

text \<open>The abstraction: the decrypted text of the record at a place.\<close>

definition texts :: "cipher \<Rightarrow> secret_store \<Rightarrow> secret_place \<Rightarrow> ustr option" where
  "texts c s p =
     (case find (\<lambda>r. place_of r = p) (dict_values s) of
        None \<Rightarrow> None
      | Some r \<Rightarrow> (case decrypt_record c r of Inl _ \<Rightarrow> None | Inr t \<Rightarrow> Some t))"

definition cipher_ok :: "cipher \<Rightarrow> bool" where
  "cipher_ok c \<longleftrightarrow> (\<forall>n t ad. unseal c n (seal c n t ad) ad = Some t)"

definition record_ok :: "cipher \<Rightarrow> uuid \<Rightarrow> secret_record \<Rightarrow> bool" where
  "record_ok c sid r \<longleftrightarrow> sm_id (sr_metadata r) = sid \<and>
     (\<exists>t. decrypt_record c r = Inr t \<and> sm_masked_hint (sr_metadata r) = mask_secret t)"

definition secrets_ok :: "cipher \<Rightarrow> secret_store \<Rightarrow> bool" where
  "secrets_ok c s \<longleftrightarrow> dict_ok s \<and> (\<forall>k r. dict_get s k = Some r \<longrightarrow> record_ok c k r) \<and>
     (\<forall>k r l q. dict_get s k = Some r \<longrightarrow> dict_get s l = Some q \<longrightarrow> place_of r = place_of q \<longrightarrow> k = l)"

lemma same_place_of: "same_place k scope scope_id = (\<lambda>r. place_of r = (k, scope, scope_id))"
  by (intro ext) (simp add: same_place_def place_of_def)

lemma secrets_ok_unique:
  "secrets_ok c s \<Longrightarrow> dict_get s k = Some r \<Longrightarrow> dict_get s l = Some q \<Longrightarrow> place_of r = place_of q \<Longrightarrow>
     k = l \<and> r = q"
  unfolding secrets_ok_def by (metis option.inject)

lemma secrets_ok_record: "secrets_ok c s \<Longrightarrow> dict_get s k = Some r \<Longrightarrow> record_ok c k r"
  unfolding secrets_ok_def by blast

section \<open>Finding a record\<close>

lemma secrets_mem: "secrets_ok c s \<Longrightarrow> r \<in> set (dict_values s) \<longleftrightarrow> (\<exists>k. dict_get s k = Some r)"
  by (simp add: secrets_ok_def dict_values_iff)

lemma find_place_iff:
  assumes "secrets_ok c s"
  shows "find (\<lambda>r. place_of r = p) (dict_values s) = Some r \<longleftrightarrow> (\<exists>k. dict_get s k = Some r \<and> place_of r = p)"
proof
  assume "find (\<lambda>r. place_of r = p) (dict_values s) = Some r"
  then show "\<exists>k. dict_get s k = Some r \<and> place_of r = p"
    using secrets_mem[OF assms] by (auto dest!: find_Some_iff_mem)
next
  assume r: "\<exists>k. dict_get s k = Some r \<and> place_of r = p"
  show "find (\<lambda>r. place_of r = p) (dict_values s) = Some r"
  proof (cases "find (\<lambda>r. place_of r = p) (dict_values s)")
    case None
    with r secrets_mem[OF assms] show ?thesis by (auto simp: find_None_all)
  next
    case (Some q)
    then have "(\<exists>k. dict_get s k = Some q) \<and> place_of q = p"
      using secrets_mem[OF assms] by (auto dest!: find_Some_iff_mem)
    with r secrets_ok_unique[OF assms] have "q = r" by blast
    with Some show ?thesis by simp
  qed
qed

lemma texts_iff:
  assumes "secrets_ok c s"
  shows "texts c s p = Some t \<longleftrightarrow> (\<exists>k r. dict_get s k = Some r \<and> place_of r = p \<and> decrypt_record c r = Inr t)"
proof (cases "find (\<lambda>r. place_of r = p) (dict_values s)")
  case None
  then have "\<not> (dict_get s k = Some r \<and> place_of r = p)" for k r
    using find_place_iff[OF assms, of p r] by auto
  then show ?thesis by (auto simp: texts_def None)
next
  case (Some q)
  then have q: "\<exists>k. dict_get s k = Some q \<and> place_of q = p" using find_place_iff[OF assms] by blast
  then have only: "r = q" if "dict_get s k = Some r" "place_of r = p" for k r
    using that secrets_ok_unique[OF assms] by blast
  have "texts c s p = Some t \<longleftrightarrow> decrypt_record c q = Inr t"
    by (simp add: texts_def Some split: sum.split)
  with q only show ?thesis by metis
qed

lemma texts_None_iff:
  assumes "secrets_ok c s"
  shows "texts c s p = None \<longleftrightarrow> find (\<lambda>r. place_of r = p) (dict_values s) = None"
proof (cases "find (\<lambda>r. place_of r = p) (dict_values s)")
  case (Some q)
  then obtain k where "dict_get s k = Some q" using find_place_iff[OF assms] by blast
  then have "record_ok c k q" by (rule secrets_ok_record[OF assms])
  with Some show ?thesis by (auto simp: texts_def record_ok_def)
qed (simp add: texts_def)

section \<open>Storing and deleting a record\<close>

lemma map_eqI:
  assumes "\<And>p u. m p = Some u \<longleftrightarrow> n p = Some u"
  shows "m = n"
proof
  fix p
  show "m p = n p"
  proof (cases "m p")
    case None
    with assms have "n p \<noteq> Some u" for u by (metis option.distinct(1))
    with None show ?thesis by (metis option.exhaust)
  next
    case (Some u)
    with assms have "n p = Some u" by metis
    with Some show ?thesis by simp
  qed
qed

lemma store_record:
  assumes "secrets_ok c s" and "record_ok c sid r"
    and "\<And>k q. dict_get s k = Some q \<Longrightarrow> place_of q = place_of r \<longleftrightarrow> k = sid"
    and "decrypt_record c r = Inr t"
  shows "secrets_ok c (dict_set sid r s) \<and> texts c (dict_set sid r s) = (texts c s)(place_of r \<mapsto> t)"
proof -
  have ok: "secrets_ok c (dict_set sid r s)"
    unfolding secrets_ok_def
  proof (intro conjI allI impI)
    show "dict_ok (dict_set sid r s)" using assms(1) by (simp add: secrets_ok_def)
    show "record_ok c k q" if "dict_get (dict_set sid r s) k = Some q" for k q
      using that assms(2) secrets_ok_record[OF assms(1), of k q] by (auto split: if_splits)
    show "k = l" if "dict_get (dict_set sid r s) k = Some q" "dict_get (dict_set sid r s) l = Some q'"
        "place_of q = place_of q'" for k q l q'
      using that assms(3)[of k q] assms(3)[of l q'] secrets_ok_unique[OF assms(1), of k q l q']
      by (auto split: if_splits)
  qed
  have "texts c (dict_set sid r s) p = Some u \<longleftrightarrow> ((texts c s)(place_of r \<mapsto> t)) p = Some u" for p u
  proof (cases "p = place_of r")
    case True
    have "dict_get (dict_set sid r s) k = Some q \<and> place_of q = place_of r \<longleftrightarrow> k = sid \<and> q = r" for k q
      using assms(3)[of k q] by (auto split: if_splits)
    then show ?thesis
      unfolding texts_iff[OF ok] True using assms(4) by simp (metis sum.inject(2))
  next
    case False
    have "dict_get (dict_set sid r s) k = Some q \<and> place_of q = p \<longleftrightarrow>
        dict_get s k = Some q \<and> place_of q = p" for k q
      using False assms(3)[of k q] by (auto split: if_splits)
    then show ?thesis
      unfolding texts_iff[OF ok] fun_upd_other[OF False] texts_iff[OF assms(1)] by metis
  qed
  then have "texts c (dict_set sid r s) = (texts c s)(place_of r \<mapsto> t)" by (rule map_eqI)
  with ok show ?thesis by simp
qed

lemma dict_get_delete: "dict_get (dict_delete k d) l = (if l = k then None else dict_get d l)"
  by (induction d) (auto simp: dict_get_def dict_delete_def)

lemma dict_ok_delete: "dict_ok d \<Longrightarrow> dict_ok (dict_delete k d)"
  by (induction d) (auto simp: dict_ok_def dict_delete_def)

lemma clear_record:
  assumes "secrets_ok c s" and "dict_get s sid = Some r"
  shows "secrets_ok c (dict_delete sid s) \<and> texts c (dict_delete sid s) = (texts c s)(place_of r := None)"
proof -
  have ok: "secrets_ok c (dict_delete sid s)"
    unfolding secrets_ok_def dict_get_delete
  proof (intro conjI allI impI)
    show "dict_ok (dict_delete sid s)" using assms(1) by (simp add: secrets_ok_def dict_ok_delete)
    show "record_ok c k q" if "(if k = sid then None else dict_get s k) = Some q" for k q
      using that secrets_ok_record[OF assms(1), of k q] by (simp split: if_splits)
    show "k = l" if "(if k = sid then None else dict_get s k) = Some q"
        "(if l = sid then None else dict_get s l) = Some q'" "place_of q = place_of q'" for k q l q'
      using that secrets_ok_unique[OF assms(1), of k q l q'] by (simp split: if_splits)
  qed
  have gone: "dict_get (dict_delete sid s) k = Some q \<and> place_of q = p \<longleftrightarrow>
      p \<noteq> place_of r \<and> dict_get s k = Some q \<and> place_of q = p" for k q p
    using secrets_ok_unique[OF assms(1), of k q sid r] assms(2) by (auto simp: dict_get_delete)
  have "texts c (dict_delete sid s) p = Some u \<longleftrightarrow> ((texts c s)(place_of r := None)) p = Some u" for p u
    unfolding texts_iff[OF ok] fun_upd_apply using gone texts_iff[OF assms(1)]
    by (cases "p = place_of r") (simp, blast)+
  then have "texts c (dict_delete sid s) = (texts c s)(place_of r := None)" by (rule map_eqI)
  with ok show ?thesis by simp
qed

section \<open>The operations\<close>

lemma write_secret_texts:
  assumes "cipher_ok c" and "secrets_ok c s"
    and "case existing of None \<Rightarrow> dict_get s fresh = None \<and> texts c s (k, scope, scope_id) = None
         | Some r \<Rightarrow> dict_get s (sm_id (sr_metadata r)) = Some r \<and> place_of r = (k, scope, scope_id)"
    and "write_secret c fresh nonce now existing k scope scope_id plaintext s = (m, s')"
  shows "secrets_ok c s' \<and> texts c s' = (texts c s)((k, scope, scope_id) \<mapsto> plaintext) \<and>
     sm_masked_hint m = mask_secret plaintext"
proof -
  define sid where "sid = (case existing of None \<Rightarrow> fresh | Some r \<Rightarrow> sm_id (sr_metadata r))"
  define r where "r = \<lparr>sr_metadata = m,
     sr_encrypted_value = seal c nonce plaintext (associated_data sid k scope scope_id
       (case existing of None \<Rightarrow> 1 | Some r \<Rightarrow> sr_key_version r + 1)),
     sr_nonce = nonce, sr_key_version = (case existing of None \<Rightarrow> 1 | Some r \<Rightarrow> sr_key_version r + 1)\<rparr>"
  have m: "sm_id m = sid" "sm_key m = k" "sm_scope_type m = scope" "sm_scope_id m = scope_id"
      "sm_masked_hint m = mask_secret plaintext" and s': "s' = dict_set sid r s"
    using assms(4) by (auto simp: write_secret_def Let_def sid_def r_def)
  have place: "place_of r = (k, scope, scope_id)" by (simp add: place_of_def r_def m)
  have dec: "decrypt_record c r = Inr plaintext"
    using assms(1) by (simp add: decrypt_record_def r_def m cipher_ok_def Let_def)
  have rec: "record_ok c sid r" using dec m by (simp add: record_ok_def r_def)
  have only: "place_of q = place_of r \<longleftrightarrow> l = sid" if q: "dict_get s l = Some q" for l q
  proof (cases existing)
    case None
    then have "texts c s (k, scope, scope_id) = None" "dict_get s sid = None"
      using assms(3) by (simp_all add: sid_def)
    then have "place_of q \<noteq> place_of r" "l \<noteq> sid"
      using q find_place_iff[OF assms(2), of "place_of r" q] place
      unfolding texts_None_iff[OF assms(2)] by auto
    then show ?thesis by simp
  next
    case (Some r0)
    then have "dict_get s sid = Some r0" "place_of r0 = place_of r"
      using assms(3) place by (simp_all add: sid_def)
    then show ?thesis using q secrets_ok_unique[OF assms(2)] by (metis option.inject)
  qed
  show ?thesis using store_record[OF assms(2) rec only dec] m(5) by (simp add: s' place)
qed

lemma set_secret_texts:
  assumes "cipher_ok c" and "secrets_ok c s" and "dict_get s fresh = None"
    and "set_secret c fresh nonce now k scope scope_id plaintext s = (m, s')"
  shows "secrets_ok c s' \<and> texts c s' = (texts c s)((k, scope, scope_id) \<mapsto> plaintext) \<and>
     sm_masked_hint m = mask_secret plaintext"
proof (rule write_secret_texts[OF assms(1,2) _ assms(4)[unfolded set_secret_def same_place_of]])
  let ?found = "find (\<lambda>r. place_of r = (k, scope, scope_id)) (dict_values s)"
  show "case ?found of None \<Rightarrow> dict_get s fresh = None \<and> texts c s (k, scope, scope_id) = None
         | Some r \<Rightarrow> dict_get s (sm_id (sr_metadata r)) = Some r \<and> place_of r = (k, scope, scope_id)"
  proof (cases ?found)
    case None
    then show ?thesis using assms(3) by (simp add: texts_def)
  next
    case (Some r)
    then obtain l where l: "dict_get s l = Some r" "place_of r = (k, scope, scope_id)"
      using find_place_iff[OF assms(2)] by blast
    then have "sm_id (sr_metadata r) = l" using secrets_ok_record[OF assms(2)] by (auto simp: record_ok_def)
    with Some l show ?thesis by simp
  qed
qed

lemma rotate_secret_texts:
  assumes "cipher_ok c" and "secrets_ok c s" and "rotate_secret c nonce now sid plaintext s = Inr (m, s')"
  shows "\<exists>r. dict_get s sid = Some r \<and> secrets_ok c s' \<and>
     texts c s' = (texts c s)(place_of r \<mapsto> plaintext) \<and> sm_masked_hint m = mask_secret plaintext"
proof -
  from assms(3) obtain r where r: "dict_get s sid = Some r"
    and w: "write_secret c sid nonce now (Some r) (sm_key (sr_metadata r))
          (sm_scope_type (sr_metadata r)) (sm_scope_id (sr_metadata r)) plaintext s = (m, s')"
    by (auto simp: rotate_secret_def split: option.splits)
  have "sm_id (sr_metadata r) = sid" using secrets_ok_record[OF assms(2) r] by (simp add: record_ok_def)
  with r have "case Some r of None \<Rightarrow> dict_get s sid = None \<and>
        texts c s (sm_key (sr_metadata r), sm_scope_type (sr_metadata r), sm_scope_id (sr_metadata r)) = None
      | Some r' \<Rightarrow> dict_get s (sm_id (sr_metadata r')) = Some r' \<and> place_of r' =
          (sm_key (sr_metadata r), sm_scope_type (sr_metadata r), sm_scope_id (sr_metadata r))"
    by (simp add: place_of_def)
  from write_secret_texts[OF assms(1,2) this w] r show ?thesis by (simp add: place_of_def)
qed

lemma test_secret_texts:
  assumes "secrets_ok c s" and "test_secret c now sid s = Inr (m, s')"
  shows "secrets_ok c s' \<and> texts c s' = texts c s \<and> sm_integrity_status m = VALID"
proof -
  from assms(2) obtain r where r: "dict_get s sid = Some r"
    by (auto simp: test_secret_def split: option.splits)
  from secrets_ok_record[OF assms(1) r] obtain t where t: "decrypt_record c r = Inr t"
      "sm_masked_hint (sr_metadata r) = mask_secret t" "sm_id (sr_metadata r) = sid"
    by (auto simp: record_ok_def)
  define q where "q = r\<lparr>sr_metadata := m\<rparr>"
  from assms(2) r t have m: "m = (sr_metadata r)\<lparr>sm_integrity_status := VALID, sm_updated_at := now,
      sm_last_tested_at := Some now\<rparr>" and s': "s' = dict_set sid q s"
    by (auto simp: test_secret_def Let_def q_def)
  have place: "place_of q = place_of r" by (simp add: place_of_def q_def m)
  have dec: "decrypt_record c q = Inr t" using t(1) by (simp add: decrypt_record_def q_def m Let_def)
  have rec: "record_ok c sid q" using dec t by (simp add: record_ok_def) (simp add: q_def m)
  have "place_of x = place_of q \<longleftrightarrow> l = sid" if "dict_get s l = Some x" for l x
    unfolding place using that r secrets_ok_unique[OF assms(1)] by (metis option.inject)
  from store_record[OF assms(1) rec this dec]
  have "secrets_ok c s'" "texts c s' = (texts c s)(place_of r \<mapsto> t)" by (simp_all add: s' place)
  moreover have "texts c s (place_of r) = Some t" using texts_iff[OF assms(1)] r t(1) by blast
  ultimately show ?thesis by (simp add: m fun_upd_idem)
qed

section \<open>Resolution\<close>

text \<open>The narrowest place with a text: user, channel, agent, tenant, then system.\<close>

definition narrowest_text ::
    "(secret_place \<Rightarrow> ustr option) \<Rightarrow> ustr \<Rightarrow> uuid option \<Rightarrow> uuid option \<Rightarrow> uuid option \<Rightarrow> uuid option \<Rightarrow>
     ustr option" where
  "narrowest_text m k tenant agent channel user =
     (case find (\<lambda>(scope, sid). sid \<noteq> None \<and> m (k, scope, sid) \<noteq> None)
             [(USER, user), (CHANNEL, channel), (AGENT, agent), (TENANT, tenant)] of
        Some (scope, sid) \<Rightarrow> m (k, scope, sid)
      | None \<Rightarrow> m (k, SYSTEM, None))"

lemma find_last_same:
  assumes "\<And>x y. x \<in> set xs \<Longrightarrow> y \<in> set xs \<Longrightarrow> p x \<Longrightarrow> p y \<Longrightarrow> x = y"
  shows "(case filter p xs of [] \<Rightarrow> None | ys \<Rightarrow> Some (last ys)) = find p xs"
proof (cases "find p xs")
  case None
  then have "filter p xs = []" by (simp add: find_None_all filter_empty_conv)
  with None show ?thesis by simp
next
  case (Some x)
  then have x: "x \<in> set xs" "p x" by (auto dest: find_Some_iff_mem)
  then obtain y ys where ys: "filter p xs = y # ys" by (cases "filter p xs") (auto simp: filter_empty_conv)
  then have "last (y # ys) \<in> set (filter p xs)" by (metis last_in_set list.distinct(1))
  then have "last (y # ys) = x" using x assms by auto
  with ys Some show ?thesis by simp
qed

lemma records_by_scope_get:
  assumes "secrets_ok c s"
  shows "dict_get (records_by_scope k (dict_values s)) (scope, sid) =
     find (\<lambda>r. place_of r = (k, scope, sid)) (dict_values s)"
proof -
  let ?place = "\<lambda>r. place_of r = (k, scope, sid)"
  have "filter (\<lambda>r. (sm_scope_type (sr_metadata r), sm_scope_id (sr_metadata r)) = (scope, sid))
        (filter (\<lambda>r. sm_key (sr_metadata r) = k) (dict_values s)) = filter ?place (dict_values s)"
    by (auto simp: place_of_def intro!: filter_cong)
  then have "dict_get (records_by_scope k (dict_values s)) (scope, sid) =
      (case filter ?place (dict_values s) of [] \<Rightarrow> None | ys \<Rightarrow> Some (last ys))"
    unfolding records_by_scope_def dict_get_fold_set by (simp add: dict_get_def split: list.split)
  also have "\<dots> = find ?place (dict_values s)"
    by (rule find_last_same) (use secrets_mem[OF assms] secrets_ok_unique[OF assms] in metis)
  finally show ?thesis .
qed

lemma resolve_secret_texts:
  assumes "secrets_ok c s"
  shows "resolve_secret c k tenant agent channel user s =
     Inr (narrowest_text (texts c s) k (Some tenant) agent channel user)"
proof -
  define f where "f scope sid = find (\<lambda>r. place_of r = (k, scope, sid)) (dict_values s)" for scope sid
  have none: "texts c s (k, scope, sid) = None \<longleftrightarrow> f scope sid = None" for scope sid
    using texts_None_iff[OF assms] by (simp add: f_def)
  have some: "bind_result (decrypt_record c r) (\<lambda>t. Inr (Some t)) = Inr (texts c s (k, scope, sid))"
    if "f scope sid = Some r" for scope sid r
  proof -
    from that obtain l where "dict_get s l = Some r" using find_place_iff[OF assms] by (auto simp: f_def)
    then have "record_ok c l r" by (rule secrets_ok_record[OF assms])
    with that show ?thesis by (auto simp: record_ok_def texts_def f_def)
  qed
  show ?thesis
    unfolding resolve_secret_def select_effective_record_def Let_def
      records_by_scope_get[OF assms] f_def[symmetric] narrowest_text_def none
    using none[of SYSTEM None]
    by (auto simp: some split: option.split)
qed

lemma no_secrets_ok: "secrets_ok c []"
  by (simp add: secrets_ok_def dict_get_def)

text \<open>
  C40: the secret store, empty at first, implements a map from places to texts: setting and rotating
  a secret replace exactly its text, testing changes none and finds every record intact, clearing
  removes it, unknown identifiers are reported and change nothing, and resolving a key returns the
  text of the narrowest place; what a write returns for display reveals at most the last four
  characters.
\<close>
theorem secret_store_implements_text_map:
  assumes "cipher_ok c" and "secrets_ok c s" and "dict_get s fresh = None"
  shows "secrets_ok c [] \<and> texts c [] = Map.empty \<and>
    (case set_secret c fresh nonce now k scope scope_id t s of (m, s') \<Rightarrow>
       secrets_ok c s' \<and> texts c s' = (texts c s)((k, scope, scope_id) \<mapsto> t) \<and>
       sm_masked_hint m = replicate 4 8226 @ (if 4 < length t then drop (length t - 4) t else [])) \<and>
    (case rotate_secret c nonce now sid t s of
       Inl e \<Rightarrow> e = Secret_Not_Found \<and> dict_get s sid = None
     | Inr (m, s') \<Rightarrow> (\<exists>r. dict_get s sid = Some r \<and> secrets_ok c s' \<and>
          texts c s' = (texts c s)(place_of r \<mapsto> t))) \<and>
    (case test_secret c now sid s of
       Inl e \<Rightarrow> e = Secret_Not_Found \<and> dict_get s sid = None
     | Inr (m, s') \<Rightarrow> secrets_ok c s' \<and> texts c s' = texts c s \<and> sm_integrity_status m = VALID) \<and>
    (case clear_secret sid s of
       Inl e \<Rightarrow> e = Secret_Not_Found \<and> dict_get s sid = None
     | Inr s' \<Rightarrow> (\<exists>r. dict_get s sid = Some r \<and> secrets_ok c s' \<and>
          texts c s' = (texts c s)(place_of r := None))) \<and>
    resolve_secret c k tenant agent channel user s =
      Inr (narrowest_text (texts c s) k (Some tenant) agent channel user)"
proof (intro conjI)
  show "secrets_ok c []" by (rule no_secrets_ok)
  show "texts c [] = Map.empty" by (intro ext) (simp add: texts_def dict_values_def)
  show "case set_secret c fresh nonce now k scope scope_id t s of (m, s') \<Rightarrow>
       secrets_ok c s' \<and> texts c s' = (texts c s)((k, scope, scope_id) \<mapsto> t) \<and>
       sm_masked_hint m = replicate 4 8226 @ (if 4 < length t then drop (length t - 4) t else [])"
    using set_secret_texts[OF assms] by (auto simp: mask_secret_def split: prod.splits)
  show "case rotate_secret c nonce now sid t s of
       Inl e \<Rightarrow> e = Secret_Not_Found \<and> dict_get s sid = None
     | Inr (m, s') \<Rightarrow> (\<exists>r. dict_get s sid = Some r \<and> secrets_ok c s' \<and>
          texts c s' = (texts c s)(place_of r \<mapsto> t))"
    using rotate_secret_texts[OF assms(1,2)]
    by (cases "rotate_secret c nonce now sid t s")
      (fastforce simp: rotate_secret_def split: option.splits prod.splits)+
  show "case test_secret c now sid s of
       Inl e \<Rightarrow> e = Secret_Not_Found \<and> dict_get s sid = None
     | Inr (m, s') \<Rightarrow> secrets_ok c s' \<and> texts c s' = texts c s \<and> sm_integrity_status m = VALID"
  proof (cases "test_secret c now sid s")
    case (Inl e)
    then show ?thesis by (auto simp: test_secret_def Let_def split: option.splits)
  next
    case (Inr p)
    then show ?thesis using test_secret_texts[OF assms(2), of now sid "fst p" "snd p"] by (cases p) simp
  qed
  show "case clear_secret sid s of
       Inl e \<Rightarrow> e = Secret_Not_Found \<and> dict_get s sid = None
     | Inr s' \<Rightarrow> (\<exists>r. dict_get s sid = Some r \<and> secrets_ok c s' \<and>
          texts c s' = (texts c s)(place_of r := None))"
    using clear_record[OF assms(2)] by (simp add: clear_secret_def split: option.splits)
  show "resolve_secret c k tenant agent channel user s =
      Inr (narrowest_text (texts c s) k (Some tenant) agent channel user)"
    by (rule resolve_secret_texts[OF assms(2)])
qed

text \<open>A cipher that prefixes the associated data, and a tenant's secret set in an empty store.\<close>

definition tagging_cipher :: cipher where
  "tagging_cipher = \<lparr>seal = \<lambda>n t ad. ad @ t,
     unseal = \<lambda>n c ad. if take (length ad) c = ad then Some (drop (length ad) c) else None\<rparr>"

theorem secret_store_implements_text_map_witness:
  "snd (set_secret tagging_cipher 5 [] 0 (lit ''k'') TENANT (Some 7) (lit ''sesame'') []) \<noteq> [] \<and>
   texts tagging_cipher (snd (set_secret tagging_cipher 5 [] 0 (lit ''k'') TENANT (Some 7) (lit ''sesame'') []))
     (lit ''k'', TENANT, Some 7) = Some (lit ''sesame'')"
proof -
  have "cipher_ok tagging_cipher" by (simp add: cipher_ok_def tagging_cipher_def)
  have fresh: "dict_get ([] :: secret_store) 5 = None" by (simp add: dict_get_def)
  obtain m s' where set: "set_secret tagging_cipher 5 [] 0 (lit ''k'') TENANT (Some 7) (lit ''sesame'') [] = (m, s')"
    by (cases "set_secret tagging_cipher 5 [] 0 (lit ''k'') TENANT (Some 7) (lit ''sesame'') []")
  from secret_store_implements_text_map[OF \<open>cipher_ok tagging_cipher\<close> no_secrets_ok fresh,
      where nonce = "[]" and now = 0 and k = "lit ''k''" and scope = TENANT and scope_id = "Some 7"
        and t = "lit ''sesame''"]
  have "texts tagging_cipher s' (lit ''k'', TENANT, Some 7) = Some (lit ''sesame'')"
    by (simp add: set)
  then show ?thesis by (auto simp: set texts_def dict_values_def)
qed

end
