(* ===== verification/Conversation_Store.thy ===== *)
theory Conversation_Store
  imports Conversation_Domain Memory_Store
begin

text \<open>
  \<open>MemoryConversationRepository\<close> (\<open>packages/infrastructure/.../conversation_repository.py\<close>): its dictionaries
  as a record and every method as a function of the state; a method holds the repository's lock, so
  it is one step. A call gives \<open>Inl\<close> the exception, raised before the first write, or \<open>Inr\<close> the
  result with the new state. A lookup \<open>d[key]\<close> that fails is the error \<open>MissingKey\<close>; the invariant shows
  that it never happens. \<open>fold_case\<close> is \<open>str.casefold\<close>, \<open>isof\<close> is \<open>datetime.isoformat\<close>; what a call draws from
  \<open>uuid4()\<close> and the clock is its \<open>draws\<close>.
\<close>

section \<open>State\<close>

record conversation_store =
  identity_map :: "(uuid, development_identity) dict"
  conversation_map :: "(uuid, conversation) dict"
  member_set :: "(uuid \<times> uuid) set"
  message_map :: "(uuid, chat_message) dict"
  conversation_messages :: "(uuid, uuid list) dict"
  run_map :: "(uuid, agent_run) dict"
  client_runs :: "(uuid \<times> uuid \<times> uuid, uuid) dict"
  edited_branches :: "(uuid \<times> uuid \<times> uuid, uuid) dict"
  feedback_map :: "(uuid \<times> uuid, message_feedback) dict"
  event_map :: "(uuid, conversation_event list) dict"

definition empty_conversation_store :: conversation_store where
  "empty_conversation_store = \<lparr>identity_map = [], conversation_map = [], member_set = {}, message_map = [],
     conversation_messages = [], run_map = [], client_runs = [], edited_branches = [], feedback_map = [],
     event_map = []\<rparr>"

datatype conversation_error =
    NotAMember | ConversationMissing | ConversationDeleted | ForeignAttachment
  | BlocksMismatch | InvalidTextBlock | MissingAttachmentBlock | BlockKindMismatch
  | ReplyMissing | NotAnAgentReply | ReplyWithoutRun | EditedMessageMissing | NotAUserMessage
  | FeedbackMessageMissing | RunNotQueued | RunNotRunning | RunMissing uuid | MissingKey

record draws =
  su_conversation_id :: uuid
  su_trigger_id :: uuid
  su_response_id :: uuid
  su_run_id :: uuid
  su_feedback_id :: uuid
  su_copy_id :: "nat \<Rightarrow> uuid"
  su_part_id :: "uuid \<Rightarrow> nat \<Rightarrow> uuid"
  su_event_id :: "nat \<Rightarrow> uuid"
  su_now :: instant
  su_event_time :: "nat \<Rightarrow> instant"

record entity_cursor =
  ec_occurred_at :: instant
  ec_entity_id :: uuid

record run_versions =
  rv_configuration_version :: int
  rv_persona_version :: int
  rv_prompt_version :: int
  rv_policy_version :: int
  rv_model_route_version :: int
  rv_model_profile :: ustr

record model_usage =
  us_input_tokens :: int
  us_output_tokens :: int

record message_search_result =
  sx_conversation :: conversation
  sx_message :: chat_message

section \<open>Message parts\<close>

definition text_part :: "draws \<Rightarrow> uuid \<Rightarrow> uuid \<Rightarrow> nat \<Rightarrow> block_kind \<Rightarrow> ustr \<Rightarrow> instant \<Rightarrow> message_part" where
  "text_part dw tenant_id message_id position kind content occurred_at =
     \<lparr>mp_id = su_part_id dw message_id position, mp_tenant_id = tenant_id, mp_message_id = message_id,
      mp_position = int position, mp_kind = kind, mp_text = Some content, mp_attachment_id = None,
      mp_content_type = None, mp_file_name = None, mp_size_bytes = None, mp_sha256 = None, mp_alt_text = None,
      mp_created_at = occurred_at, mp_updated_at = occurred_at\<rparr>"

definition is_image :: "attachment \<Rightarrow> bool" where
  "is_image a \<longleftrightarrow> starts_with (lit ''image/'') (an_content_type a)"

definition attachment_part ::
    "draws \<Rightarrow> uuid \<Rightarrow> uuid \<Rightarrow> nat \<Rightarrow> attachment \<Rightarrow> ustr option \<Rightarrow> instant \<Rightarrow> message_part" where
  "attachment_part dw tenant_id message_id position a alt_text occurred_at =
     \<lparr>mp_id = su_part_id dw message_id position, mp_tenant_id = tenant_id, mp_message_id = message_id,
      mp_position = int position, mp_kind = (if is_image a then BLOCK_IMAGE else BLOCK_FILE), mp_text = None,
      mp_attachment_id = Some (an_id a), mp_content_type = Some (an_content_type a),
      mp_file_name = Some (an_original_name a), mp_size_bytes = Some (an_size_bytes a),
      mp_sha256 = Some (an_sha256 a), mp_alt_text = (if is_image a then alt_text else None),
      mp_created_at = occurred_at, mp_updated_at = occurred_at\<rparr>"

definition block_part ::
    "draws \<Rightarrow> uuid \<Rightarrow> uuid \<Rightarrow> (uuid, attachment) dict \<Rightarrow> instant \<Rightarrow> nat \<times> content_block \<Rightarrow>
       conversation_error + message_part" where
  "block_part dw tenant_id message_id by_id occurred_at = (\<lambda>(position, b).
     (let found = (case kb_attachment_id b of None \<Rightarrow> None | Some i \<Rightarrow> dict_get by_id i) in
      if kb_kind b = BLOCK_TEXT \<or> kb_kind b = BLOCK_MARKDOWN then
        (if found \<noteq> None \<or> kb_text b = None \<or> kb_text b = Some [] then Inl InvalidTextBlock
         else Inr (text_part dw tenant_id message_id position (kb_kind b) (the (kb_text b)) occurred_at))
      else (case found of
        None \<Rightarrow> Inl MissingAttachmentBlock
      | Some a \<Rightarrow>
          if kb_kind b \<noteq> (if is_image a then BLOCK_IMAGE else BLOCK_FILE) then Inl BlockKindMismatch
          else Inr (attachment_part dw tenant_id message_id position a (kb_alt_text b) occurred_at))))"

fun collect_results :: "('e + 'a) list \<Rightarrow> 'e + 'a list" where
  "collect_results [] = Inr []"
| "collect_results (r # rs) = bind_result r (\<lambda>x. bind_result (collect_results rs) (\<lambda>xs. Inr (x # xs)))"

definition new_message_parts ::
    "draws \<Rightarrow> uuid \<Rightarrow> uuid \<Rightarrow> ustr \<Rightarrow> attachment list \<Rightarrow> instant \<Rightarrow> content_block list \<Rightarrow>
       conversation_error + message_part list" where
  "new_message_parts dw tenant_id message_id content attachments occurred_at blocks =
     (if blocks \<noteq> [] then
        (let by_id = fold (\<lambda>a d. dict_set (an_id a) a d) attachments [];
             referenced = concat (map (\<lambda>b. case kb_attachment_id b of None \<Rightarrow> [] | Some i \<Rightarrow> [i]) blocks)
         in if \<not> distinct referenced \<or> set referenced \<noteq> set (map fst by_id) then Inl BlocksMismatch
            else collect_results (map (block_part dw tenant_id message_id by_id occurred_at) (enumerate 0 blocks)))
      else Inr (text_part dw tenant_id message_id 0 BLOCK_MARKDOWN content occurred_at #
        map (\<lambda>(position, a). attachment_part dw tenant_id message_id position a (Some (an_original_name a)) occurred_at)
          (enumerate 1 attachments)))"

definition copied_message_parts ::
    "draws \<Rightarrow> uuid \<Rightarrow> instant \<Rightarrow> message_part list \<Rightarrow> message_part list" where
  "copied_message_parts dw message_id occurred_at parts =
     map (\<lambda>(k, p). p\<lparr>mp_id := su_part_id dw message_id k, mp_message_id := message_id,
       mp_created_at := occurred_at, mp_updated_at := occurred_at\<rparr>) (enumerate 0 parts)"

section \<open>Lookups and events\<close>

definition at_key :: "'a option \<Rightarrow> conversation_error + 'a" where
  "at_key v = (case v of None \<Rightarrow> Inl MissingKey | Some x \<Rightarrow> Inr x)"

definition require_conversation :: "uuid \<Rightarrow> uuid \<Rightarrow> conversation_store \<Rightarrow> conversation_error + conversation" where
  "require_conversation conversation_id user_id s =
     (if (conversation_id, user_id) \<notin> member_set s then Inl NotAMember
      else (case dict_get (conversation_map s) conversation_id of
        None \<Rightarrow> Inl ConversationMissing
      | Some c \<Rightarrow> if co_deleted_at c \<noteq> None then Inl ConversationDeleted else Inr c))"

definition require_run :: "uuid \<Rightarrow> conversation_store \<Rightarrow> conversation_error + agent_run" where
  "require_run run_id s = (case dict_get (run_map s) run_id of None \<Rightarrow> Inl (RunMissing run_id) | Some r \<Rightarrow> Inr r)"

definition require_running_run :: "uuid \<Rightarrow> conversation_store \<Rightarrow> conversation_error + agent_run" where
  "require_running_run run_id s =
     bind_result (require_run run_id s) (\<lambda>r. if gr_status r \<noteq> RUN_RUNNING then Inl RunNotRunning else Inr r)"

definition pending_of :: "agent_run \<Rightarrow> bool \<Rightarrow> conversation_store \<Rightarrow> conversation_error + pending_run" where
  "pending_of r created s =
     bind_result (at_key (dict_get (conversation_map s) (gr_conversation_id r))) (\<lambda>c.
     bind_result (at_key (dict_get (message_map s) (gr_trigger_message_id r))) (\<lambda>trigger.
     bind_result (at_key (dict_get (message_map s) (gr_response_message_id r))) (\<lambda>response.
       Inr \<lparr>pu_conversation = c, pu_trigger_message = trigger, pu_response_message = response, pu_run = r,
         pu_created = created\<rparr>)))"

definition messages_at :: "uuid list \<Rightarrow> conversation_store \<Rightarrow> conversation_error + chat_message list" where
  "messages_at ids s = collect_results (map (\<lambda>i. at_key (dict_get (message_map s) i)) ids)"

definition next_message_time :: "instant \<Rightarrow> uuid \<Rightarrow> conversation_store \<Rightarrow> conversation_error + instant" where
  "next_message_time now conversation_id s =
     bind_result (messages_at (get_list (conversation_messages s) conversation_id) s) (\<lambda>ms. Inr
       (case map cg_created_at ms of [] \<Rightarrow> now | t # ts \<Rightarrow> max now (fold max ts t + 1)))"

definition emit ::
    "draws \<Rightarrow> nat \<Rightarrow> uuid \<Rightarrow> ustr \<Rightarrow> json_dict \<Rightarrow> uuid option \<Rightarrow> uuid option \<Rightarrow> conversation_store \<Rightarrow>
       conversation_error + conversation_store" where
  "emit dw k conversation_id event_type payload run_id message_id s =
     bind_result (at_key (dict_get (conversation_map s) conversation_id)) (\<lambda>c.
     bind_result (at_key (dict_get (event_map s) conversation_id)) (\<lambda>events.
       (let sequence = co_event_sequence c + 1;
            event = \<lparr>vn_id = su_event_id dw k, vn_tenant_id = co_tenant_id c, vn_conversation_id = conversation_id,
              vn_sequence = sequence, vn_event_type = event_type, vn_payload = payload, vn_run_id = run_id,
              vn_message_id = message_id, vn_created_at = su_event_time dw k\<rparr>
        in Inr (s\<lparr>conversation_map := dict_set conversation_id (c\<lparr>co_event_sequence := sequence\<rparr>) (conversation_map s),
             event_map := dict_set conversation_id (events @ [event]) (event_map s)\<rparr>))))"

definition new_conversation :: "draws \<Rightarrow> uuid \<Rightarrow> uuid \<Rightarrow> ustr \<Rightarrow> uuid \<Rightarrow> conversation" where
  "new_conversation dw tenant_id agent_id title user_id =
     \<lparr>co_id = su_conversation_id dw, co_tenant_id = tenant_id, co_agent_id = agent_id, co_title = title,
      co_status = CONVERSATION_ACTIVE, co_created_by = user_id, co_event_sequence = 0, co_created_at = su_now dw,
      co_updated_at = su_now dw, co_pinned_at = None, co_archived_at = None, co_deleted_at = None,
      co_branched_from_conversation_id = None, co_branched_from_message_id = None\<rparr>"

text \<open>A conversation enters the four dictionaries that know it.\<close>

definition add_conversation :: "conversation \<Rightarrow> uuid \<Rightarrow> conversation_store \<Rightarrow> conversation_store" where
  "add_conversation c user_id s =
     s\<lparr>conversation_map := dict_set (co_id c) c (conversation_map s),
       member_set := insert (co_id c, user_id) (member_set s),
       conversation_messages := dict_set (co_id c) [] (conversation_messages s),
       event_map := dict_set (co_id c) [] (event_map s)\<rparr>"

definition put_message :: "chat_message \<Rightarrow> conversation_store \<Rightarrow> conversation_store" where
  "put_message m s = s\<lparr>message_map := dict_set (cg_id m) m (message_map s)\<rparr>"

text \<open>\<open>self._conversation_messages[conversation_id].extend(...)\<close>\<close>

definition list_message :: "uuid \<Rightarrow> uuid list \<Rightarrow> conversation_store \<Rightarrow> conversation_error + conversation_store" where
  "list_message conversation_id new_ids s =
     bind_result (at_key (dict_get (conversation_messages s) conversation_id)) (\<lambda>ids.
       Inr (s\<lparr>conversation_messages := dict_set conversation_id (ids @ new_ids) (conversation_messages s)\<rparr>))"

definition put_run :: "agent_run \<Rightarrow> conversation_store \<Rightarrow> conversation_store" where
  "put_run r s = s\<lparr>run_map := dict_set (gr_id r) r (run_map s)\<rparr>"

section \<open>Conversations\<close>

definition conv_ensure_development_identity ::
    "development_identity \<Rightarrow> conversation_store \<Rightarrow> development_identity \<times> conversation_store" where
  "conv_ensure_development_identity i s = (i, s\<lparr>identity_map := dict_set (di_user_id i) i (identity_map s)\<rparr>)"

definition before_cursor :: "entity_cursor option \<Rightarrow> instant \<Rightarrow> uuid \<Rightarrow> bool" where
  "before_cursor cursor t i = (case cursor of None \<Rightarrow> True | Some c \<Rightarrow> (t, i) < (ec_occurred_at c, ec_entity_id c))"

definition conv_list_conversations ::
    "(ustr \<Rightarrow> ustr) \<Rightarrow> uuid \<Rightarrow> uuid \<Rightarrow> int \<Rightarrow> entity_cursor option \<Rightarrow> ustr option \<Rightarrow> conversation_status option \<Rightarrow>
       conversation_store \<Rightarrow> conversation list" where
  "conv_list_conversations fold_case user_id agent_id limit cursor search status s =
     py_take limit (sorted_by_desc (\<lambda>c. (co_updated_at c, co_id c))
       (filter (\<lambda>c. (co_id c, user_id) \<in> member_set s \<and> co_agent_id c = agent_id \<and> co_deleted_at c = None \<and>
           (case search of None \<Rightarrow> True | Some q \<Rightarrow> contains (fold_case q) (fold_case (co_title c))) \<and>
           (status = None \<or> status = Some (co_status c)) \<and> before_cursor cursor (co_updated_at c) (co_id c))
         (dict_values (conversation_map s))))"

definition conv_create_conversation ::
    "draws \<Rightarrow> development_identity \<Rightarrow> ustr \<Rightarrow> conversation_store \<Rightarrow>
       conversation_error + (conversation \<times> conversation_store)" where
  "conv_create_conversation dw identity title s =
     (let c = new_conversation dw (di_tenant_id identity) (di_agent_id identity) title (di_user_id identity) in
      bind_result (emit dw 0 (co_id c) (lit ''conversation.created'')
          [(lit ''conversation_id'', juuid (co_id c)), (lit ''title'', JStr (co_title c))] None None
          (add_conversation c (di_user_id identity) s)) (\<lambda>s1.
      bind_result (at_key (dict_get (conversation_map s1) (co_id c))) (\<lambda>c1. Inr (c1, s1))))"

definition visible_conversation :: "uuid \<Rightarrow> uuid \<Rightarrow> conversation_store \<Rightarrow> uuid \<Rightarrow> conversation option" where
  "visible_conversation user_id agent_id s conversation_id =
     (case dict_get (conversation_map s) conversation_id of
        None \<Rightarrow> None
      | Some c \<Rightarrow> if (conversation_id, user_id) \<in> member_set s \<and> co_agent_id c = agent_id \<and> co_deleted_at c = None
          then Some c else None)"

definition conv_get_conversation_for_user ::
    "uuid \<Rightarrow> uuid \<Rightarrow> uuid \<Rightarrow> conversation_store \<Rightarrow> conversation option" where
  "conv_get_conversation_for_user conversation_id user_id agent_id s =
     visible_conversation user_id agent_id s conversation_id"

definition conv_get_conversation_for_message ::
    "uuid \<Rightarrow> uuid \<Rightarrow> uuid \<Rightarrow> conversation_store \<Rightarrow> conversation option" where
  "conv_get_conversation_for_message message_id user_id agent_id s =
     (case dict_get (message_map s) message_id of
        None \<Rightarrow> None | Some m \<Rightarrow> visible_conversation user_id agent_id s (cg_conversation_id m))"

definition conv_get_conversation_for_run ::
    "uuid \<Rightarrow> uuid \<Rightarrow> uuid \<Rightarrow> conversation_store \<Rightarrow> conversation option" where
  "conv_get_conversation_for_run run_id user_id agent_id s =
     (case dict_get (run_map s) run_id of
        None \<Rightarrow> None | Some r \<Rightarrow> visible_conversation user_id agent_id s (gr_conversation_id r))"

definition conv_get_response_message_for_run ::
    "uuid \<Rightarrow> uuid \<Rightarrow> uuid \<Rightarrow> conversation_store \<Rightarrow> chat_message option" where
  "conv_get_response_message_for_run run_id user_id agent_id s =
     (case dict_get (run_map s) run_id of
        None \<Rightarrow> None
      | Some r \<Rightarrow> (case (dict_get (conversation_map s) (gr_conversation_id r),
            dict_get (message_map s) (gr_response_message_id r)) of
          (Some c, Some m) \<Rightarrow>
            if co_tenant_id c \<noteq> gr_tenant_id r \<or> gr_agent_id r \<noteq> agent_id \<or> co_agent_id c \<noteq> agent_id \<or>
              co_deleted_at c \<noteq> None \<or> (co_id c, user_id) \<notin> member_set s \<or> cg_tenant_id m \<noteq> gr_tenant_id r \<or>
              cg_conversation_id m \<noteq> co_id c \<or> cg_sender_type m \<noteq> SENDER_AGENT then None else Some m
        | _ \<Rightarrow> None))"

definition reflection_run ::
    "uuid \<Rightarrow> uuid \<Rightarrow> uuid \<Rightarrow> uuid \<Rightarrow> uuid \<Rightarrow> uuid option \<Rightarrow> conversation_store \<Rightarrow> agent_run option" where
  "reflection_run tenant_id agent_id conversation_id trigger_id response_id run_id s =
     (case run_id of
        Some i \<Rightarrow> dict_get (run_map s) i
      | None \<Rightarrow> find (\<lambda>r. gr_tenant_id r = tenant_id \<and> gr_agent_id r = agent_id \<and>
          gr_conversation_id r = conversation_id \<and> gr_trigger_message_id r = trigger_id \<and>
          gr_response_message_id r = response_id) (dict_values (run_map s)))"

definition conv_get_reflection_source ::
    "uuid \<Rightarrow> uuid \<Rightarrow> uuid \<Rightarrow> uuid \<Rightarrow> uuid \<Rightarrow> uuid \<Rightarrow> uuid option \<Rightarrow> conversation_store \<Rightarrow> pending_run option" where
  "conv_get_reflection_source tenant_id agent_id user_id conversation_id trigger_id response_id run_id s =
     (case (reflection_run tenant_id agent_id conversation_id trigger_id response_id run_id s,
         dict_get (conversation_map s) conversation_id, dict_get (message_map s) trigger_id,
         dict_get (message_map s) response_id) of
        (Some r, Some c, Some trigger, Some response) \<Rightarrow>
          if gr_status r \<noteq> RUN_COMPLETED \<or> gr_tenant_id r \<noteq> tenant_id \<or> gr_agent_id r \<noteq> agent_id \<or>
            gr_conversation_id r \<noteq> conversation_id \<or> gr_trigger_message_id r \<noteq> trigger_id \<or>
            gr_response_message_id r \<noteq> response_id \<or> co_tenant_id c \<noteq> tenant_id \<or> co_agent_id c \<noteq> agent_id \<or>
            co_deleted_at c \<noteq> None \<or> (conversation_id, user_id) \<notin> member_set s \<or>
            cg_tenant_id trigger \<noteq> tenant_id \<or> cg_conversation_id trigger \<noteq> conversation_id \<or>
            cg_sender_type trigger \<noteq> SENDER_USER \<or> cg_sender_id trigger \<noteq> Some user_id \<or>
            cg_tenant_id response \<noteq> tenant_id \<or> cg_conversation_id response \<noteq> conversation_id \<or>
            cg_sender_type response \<noteq> SENDER_AGENT then None
          else Some \<lparr>pu_conversation = c, pu_trigger_message = trigger, pu_response_message = response,
            pu_run = r, pu_created = False\<rparr>
      | _ \<Rightarrow> None)"

definition updated_conversation ::
    "ustr option \<Rightarrow> conversation_status option \<Rightarrow> bool option \<Rightarrow> instant \<Rightarrow> conversation \<Rightarrow> conversation" where
  "updated_conversation title status pinned now c =
     c\<lparr>co_title := (case title of None \<Rightarrow> co_title c | Some t \<Rightarrow> t),
       co_status := (case status of None \<Rightarrow> co_status c | Some st \<Rightarrow> st),
       co_pinned_at := (case pinned of None \<Rightarrow> co_pinned_at c | Some p \<Rightarrow> if p then Some now else None),
       co_archived_at := (case status of Some CONVERSATION_ARCHIVED \<Rightarrow> Some now | Some CONVERSATION_ACTIVE \<Rightarrow> None
         | None \<Rightarrow> co_archived_at c),
       co_updated_at := now\<rparr>"

text \<open>Storing a changed conversation and the event that says so.\<close>

definition replace_conversation ::
    "(instant \<Rightarrow> ustr) \<Rightarrow> draws \<Rightarrow> ustr \<Rightarrow> uuid \<Rightarrow> conversation \<Rightarrow> conversation_store \<Rightarrow>
       conversation_error + (conversation \<times> conversation_store)" where
  "replace_conversation isof dw event_type conversation_id c s =
     bind_result (emit dw 0 conversation_id event_type (conversation_payload isof c) None None
       (s\<lparr>conversation_map := dict_set conversation_id c (conversation_map s)\<rparr>)) (\<lambda>s1.
     bind_result (at_key (dict_get (conversation_map s1) conversation_id)) (\<lambda>c1. Inr (c1, s1)))"

definition conv_update_conversation ::
    "(instant \<Rightarrow> ustr) \<Rightarrow> draws \<Rightarrow> uuid \<Rightarrow> uuid \<Rightarrow> ustr option \<Rightarrow> conversation_status option \<Rightarrow> bool option \<Rightarrow>
       conversation_store \<Rightarrow> conversation_error + (conversation \<times> conversation_store)" where
  "conv_update_conversation isof dw conversation_id user_id title status pinned s =
     bind_result (require_conversation conversation_id user_id s) (\<lambda>c.
       replace_conversation isof dw (lit ''conversation.updated'') conversation_id
         (updated_conversation title status pinned (su_now dw) c) s)"

definition conv_soft_delete_conversation ::
    "(instant \<Rightarrow> ustr) \<Rightarrow> draws \<Rightarrow> uuid \<Rightarrow> uuid \<Rightarrow> conversation_store \<Rightarrow>
       conversation_error + (conversation \<times> conversation_store)" where
  "conv_soft_delete_conversation isof dw conversation_id user_id s =
     (if (conversation_id, user_id) \<notin> member_set s then Inl NotAMember
      else (case dict_get (conversation_map s) conversation_id of
        None \<Rightarrow> Inl ConversationMissing
      | Some c \<Rightarrow>
          if co_deleted_at c \<noteq> None then Inr (c, s)
          else replace_conversation isof dw (lit ''conversation.deleted'') conversation_id
            (c\<lparr>co_deleted_at := Some (su_now dw), co_pinned_at := None, co_updated_at := su_now dw\<rparr>) s))"

section \<open>Messages\<close>

definition conv_list_messages ::
    "uuid \<Rightarrow> uuid \<Rightarrow> int \<Rightarrow> entity_cursor option \<Rightarrow> conversation_store \<Rightarrow> conversation_error + chat_message list" where
  "conv_list_messages conversation_id user_id limit cursor s =
     (if (conversation_id, user_id) \<notin> member_set s then Inr []
      else bind_result (messages_at (get_list (conversation_messages s) conversation_id) s) (\<lambda>ms.
        Inr (py_take limit (sorted_by_desc (\<lambda>m. (cg_created_at m, cg_id m))
          (filter (\<lambda>m. before_cursor cursor (cg_created_at m) (cg_id m)) ms)))))"

definition conv_list_context_messages ::
    "uuid \<Rightarrow> uuid \<Rightarrow> int \<Rightarrow> conversation_store \<Rightarrow> conversation_error + chat_message list" where
  "conv_list_context_messages conversation_id user_id limit s =
     bind_result (conv_list_messages conversation_id user_id limit None s) (\<lambda>ms. Inr (rev ms))"

definition user_message ::
    "development_identity \<Rightarrow> uuid \<Rightarrow> uuid \<Rightarrow> uuid \<Rightarrow> ustr \<Rightarrow> instant \<Rightarrow> message_part list \<Rightarrow> chat_message" where
  "user_message identity message_id conversation_id client_message_id content t parts =
     \<lparr>cg_id = message_id, cg_tenant_id = di_tenant_id identity, cg_conversation_id = conversation_id,
      cg_sender_type = SENDER_USER, cg_sender_id = Some (di_user_id identity), cg_content = content,
      cg_status = MESSAGE_RECEIVED, cg_client_message_id = Some client_message_id, cg_created_at = t,
      cg_updated_at = t, cg_edited_from_id = None, cg_parts = parts\<rparr>"

definition empty_reply ::
    "draws \<Rightarrow> development_identity \<Rightarrow> uuid \<Rightarrow> uuid option \<Rightarrow> instant \<Rightarrow> chat_message" where
  "empty_reply dw identity conversation_id client_message_id t =
     \<lparr>cg_id = su_response_id dw, cg_tenant_id = di_tenant_id identity, cg_conversation_id = conversation_id,
      cg_sender_type = SENDER_AGENT, cg_sender_id = Some (di_agent_id identity), cg_content = [],
      cg_status = MESSAGE_PROCESSING, cg_client_message_id = client_message_id, cg_created_at = t, cg_updated_at = t,
      cg_edited_from_id = None,
      cg_parts = [text_part dw (di_tenant_id identity) (su_response_id dw) 0 BLOCK_MARKDOWN [] t]\<rparr>"

definition queued_run ::
    "draws \<Rightarrow> development_identity \<Rightarrow> run_versions \<Rightarrow> uuid \<Rightarrow> uuid \<Rightarrow> instant \<Rightarrow> agent_run" where
  "queued_run dw identity v conversation_id trigger_id t =
     \<lparr>gr_id = su_run_id dw, gr_tenant_id = di_tenant_id identity, gr_conversation_id = conversation_id,
      gr_agent_id = di_agent_id identity, gr_trigger_message_id = trigger_id,
      gr_response_message_id = su_response_id dw, gr_status = RUN_QUEUED,
      gr_configuration_version = rv_configuration_version v, gr_persona_version = rv_persona_version v,
      gr_prompt_version = rv_prompt_version v, gr_policy_version = rv_policy_version v,
      gr_model_route_version = rv_model_route_version v, gr_model_profile = rv_model_profile v,
      gr_input_tokens = None, gr_output_tokens = None, gr_error_code = None, gr_created_at = t,
      gr_started_at = None, gr_completed_at = None\<rparr>"

definition emit_created ::
    "(instant \<Rightarrow> ustr) \<Rightarrow> draws \<Rightarrow> nat \<Rightarrow> uuid \<Rightarrow> uuid option \<Rightarrow> chat_message \<Rightarrow> conversation_store \<Rightarrow>
       conversation_error + conversation_store" where
  "emit_created isof dw k conversation_id run_id m =
     emit dw k conversation_id (lit ''message.created'') (message_payload isof m) run_id (Some (cg_id m))"

definition emit_run :: "draws \<Rightarrow> nat \<Rightarrow> ustr \<Rightarrow> agent_run \<Rightarrow> conversation_store \<Rightarrow> conversation_error + conversation_store" where
  "emit_run dw k event_type r =
     emit dw k (gr_conversation_id r) event_type (run_payload r) (Some (gr_id r)) (Some (gr_response_message_id r))"

text \<open>
  What the three methods that begin a run do last: they store the new messages and the run, index the run
  by what the client sent, and emit an event for each. Writes to different dictionaries commute, so the
  change of the conversation's time that two of them make comes before.
\<close>

fun emit_all_created ::
    "(instant \<Rightarrow> ustr) \<Rightarrow> draws \<Rightarrow> nat \<Rightarrow> uuid \<Rightarrow> uuid option \<Rightarrow> chat_message list \<Rightarrow> conversation_store \<Rightarrow>
       conversation_error + conversation_store" where
  "emit_all_created isof dw k conversation_id run_id [] s = Inr s"
| "emit_all_created isof dw k conversation_id run_id (m # ms) s =
     bind_result (emit_created isof dw k conversation_id run_id m s)
       (emit_all_created isof dw (Suc k) conversation_id run_id ms)"

definition indexed_run ::
    "uuid \<times> uuid \<times> uuid \<Rightarrow> (uuid \<times> uuid \<times> uuid) option \<Rightarrow> agent_run \<Rightarrow> conversation_store \<Rightarrow> conversation_store" where
  "indexed_run client_key branch_key r s =
     s\<lparr>client_runs := dict_set client_key (gr_id r) (client_runs s),
       edited_branches := (case branch_key of None \<Rightarrow> edited_branches s
         | Some b \<Rightarrow> dict_set b (gr_id r) (edited_branches s))\<rparr>"

definition start_run ::
    "(instant \<Rightarrow> ustr) \<Rightarrow> draws \<Rightarrow> nat \<Rightarrow> chat_message list \<Rightarrow> agent_run \<Rightarrow> uuid \<times> uuid \<times> uuid \<Rightarrow>
       (uuid \<times> uuid \<times> uuid) option \<Rightarrow> conversation_store \<Rightarrow> conversation_error + (pending_run \<times> conversation_store)" where
  "start_run isof dw k ms r client_key branch_key s =
     bind_result (list_message (gr_conversation_id r) (map cg_id ms) (fold put_message ms s)) (\<lambda>s1.
     bind_result (emit_all_created isof dw k (gr_conversation_id r) (Some (gr_id r)) ms
         (indexed_run client_key branch_key r (put_run r s1))) (\<lambda>s2.
     bind_result (emit_run dw (k + length ms) (lit ''run.queued'') r s2) (\<lambda>s3.
     bind_result (pending_of r True s3) (\<lambda>p. Inr (p, s3)))))"

definition touch_conversation :: "uuid \<Rightarrow> conversation \<Rightarrow> instant \<Rightarrow> conversation_store \<Rightarrow> conversation_store" where
  "touch_conversation conversation_id c now s =
     s\<lparr>conversation_map := dict_set conversation_id (c\<lparr>co_updated_at := now\<rparr>) (conversation_map s)\<rparr>"

definition foreign_attachment :: "development_identity \<Rightarrow> uuid \<Rightarrow> uuid \<Rightarrow> attachment \<Rightarrow> bool" where
  "foreign_attachment identity conversation_id client_message_id a \<longleftrightarrow>
     an_tenant_id a \<noteq> di_tenant_id identity \<or> an_owner_id a \<noteq> di_user_id identity \<or>
     an_conversation_id a \<noteq> conversation_id \<or> an_client_message_id a \<noteq> client_message_id \<or>
     an_status a \<notin> {ATTACHMENT_READY, ATTACHMENT_ATTACHED}"

definition conv_begin_agent_run ::
    "(instant \<Rightarrow> ustr) \<Rightarrow> draws \<Rightarrow> development_identity \<Rightarrow> uuid \<Rightarrow> uuid \<Rightarrow> ustr \<Rightarrow> attachment list \<Rightarrow>
       run_versions \<Rightarrow> content_block list \<Rightarrow> conversation_store \<Rightarrow>
       conversation_error + (pending_run \<times> conversation_store)" where
  "conv_begin_agent_run isof dw identity conversation_id client_message_id content attachments v blocks s =
     (let client_key = (conversation_id, di_user_id identity, client_message_id) in
      case dict_get (client_runs s) client_key of
        Some run_id \<Rightarrow>
          bind_result (at_key (dict_get (run_map s) run_id)) (\<lambda>r.
          bind_result (pending_of r False s) (\<lambda>p. Inr (p, s)))
      | None \<Rightarrow>
          bind_result (require_conversation conversation_id (di_user_id identity) s) (\<lambda>c.
          if list_ex (foreign_attachment identity conversation_id client_message_id) attachments
          then Inl ForeignAttachment
          else
            bind_result (next_message_time (su_now dw) (co_id c) s) (\<lambda>now.
            bind_result (new_message_parts dw (di_tenant_id identity) (su_trigger_id dw) content attachments now
                blocks) (\<lambda>parts.
              (let trigger = user_message identity (su_trigger_id dw) conversation_id client_message_id content now parts;
                   response = empty_reply dw identity conversation_id None (now + 1);
                   r = queued_run dw identity v conversation_id (cg_id trigger) now
               in
               start_run isof dw 0 [trigger, response] r client_key None (touch_conversation conversation_id c now s))))))"

definition conv_begin_regeneration ::
    "(instant \<Rightarrow> ustr) \<Rightarrow> draws \<Rightarrow> development_identity \<Rightarrow> uuid \<Rightarrow> uuid \<Rightarrow> run_versions \<Rightarrow> conversation_store \<Rightarrow>
       conversation_error + (pending_run \<times> conversation_store)" where
  "conv_begin_regeneration isof dw identity response_message_id client_request_id v s =
     (case dict_get (message_map s) response_message_id of
        None \<Rightarrow> Inl ReplyMissing
      | Some original \<Rightarrow>
          bind_result (require_conversation (cg_conversation_id original) (di_user_id identity) s) (\<lambda>c.
          if cg_sender_type original \<noteq> SENDER_AGENT then Inl NotAnAgentReply
          else
            (let client_key = (co_id c, di_agent_id identity, client_request_id) in
             case dict_get (client_runs s) client_key of
               Some run_id \<Rightarrow>
                 bind_result (at_key (dict_get (run_map s) run_id)) (\<lambda>r.
                 bind_result (pending_of r False s) (\<lambda>p. Inr (p, s)))
             | None \<Rightarrow>
                 (case find (\<lambda>r. gr_response_message_id r = response_message_id) (dict_values (run_map s)) of
                    None \<Rightarrow> Inl ReplyWithoutRun
                  | Some original_run \<Rightarrow>
                      bind_result (next_message_time (su_now dw) (co_id c) s) (\<lambda>now.
                      let response = empty_reply dw identity (co_id c) (Some client_request_id) now;
                          r = queued_run dw identity v (co_id c) (gr_trigger_message_id original_run) now
                      in
                      start_run isof dw 0 [response] r client_key None (touch_conversation (co_id c) c now s))))))"

section \<open>Branches\<close>

definition branch_suffix :: ustr where
  "branch_suffix = [65288, 20998, 25903, 65289]"

definition branch_of :: "draws \<Rightarrow> development_identity \<Rightarrow> conversation \<Rightarrow> uuid \<Rightarrow> conversation" where
  "branch_of dw identity original source_id =
     (new_conversation dw (co_tenant_id original) (co_agent_id original)
        (take 200 (co_title original @ branch_suffix)) (di_user_id identity))
       \<lparr>co_branched_from_conversation_id := Some (co_id original), co_branched_from_message_id := Some source_id\<rparr>"

text \<open>The \<open>k\<close>-th copied message, counted from one.\<close>

definition copied_message :: "draws \<Rightarrow> uuid \<Rightarrow> nat \<Rightarrow> chat_message \<Rightarrow> chat_message" where
  "copied_message dw branch_id k m =
     m\<lparr>cg_id := su_copy_id dw k, cg_conversation_id := branch_id, cg_client_message_id := None,
       cg_created_at := su_now dw + int k, cg_updated_at := su_now dw + int k,
       cg_parts := copied_message_parts dw (su_copy_id dw k) (su_now dw + int k) (cg_parts m)\<rparr>"

fun copy_messages ::
    "(instant \<Rightarrow> ustr) \<Rightarrow> draws \<Rightarrow> uuid \<Rightarrow> nat \<Rightarrow> chat_message list \<Rightarrow> conversation_store \<Rightarrow>
       conversation_error + conversation_store" where
  "copy_messages isof dw branch_id k [] s = Inr s"
| "copy_messages isof dw branch_id k (m # ms) s =
     (let copied = copied_message dw branch_id k m in
      bind_result (list_message branch_id [cg_id copied] (put_message copied s)) (\<lambda>s1.
      bind_result (emit_created isof dw k branch_id None copied s1) (\<lambda>s2.
        copy_messages isof dw branch_id (Suc k) ms s2)))"

definition conv_begin_edited_branch ::
    "(instant \<Rightarrow> ustr) \<Rightarrow> draws \<Rightarrow> development_identity \<Rightarrow> uuid \<Rightarrow> uuid \<Rightarrow> ustr \<Rightarrow> run_versions \<Rightarrow>
       conversation_store \<Rightarrow> conversation_error + (pending_run \<times> conversation_store)" where
  "conv_begin_edited_branch isof dw identity source_message_id client_message_id content v s =
     (let branch_key = (source_message_id, di_user_id identity, client_message_id) in
      case dict_get (edited_branches s) branch_key of
        Some run_id \<Rightarrow>
          bind_result (at_key (dict_get (run_map s) run_id)) (\<lambda>r.
          bind_result (pending_of r False s) (\<lambda>p. Inr (p, s)))
      | None \<Rightarrow>
          (case dict_get (message_map s) source_message_id of
             None \<Rightarrow> Inl EditedMessageMissing
           | Some src \<Rightarrow>
               bind_result (require_conversation (cg_conversation_id src) (di_user_id identity) s) (\<lambda>original.
               if cg_sender_type src \<noteq> SENDER_USER then Inl NotAUserMessage
               else
                 (let branch = branch_of dw identity original (cg_id src); b = co_id branch in
                  bind_result (emit dw 0 b (lit ''conversation.created'') (conversation_payload isof branch) None None
                      (add_conversation branch (di_user_id identity) s)) (\<lambda>s1.
                  bind_result (at_key (dict_get (conversation_messages s1) (co_id original))) (\<lambda>ids.
                  bind_result (messages_at ids s1) (\<lambda>ms.
                  let copies = filter (\<lambda>m. (cg_created_at m, cg_id m) < (cg_created_at src, cg_id src)) ms in
                  bind_result (copy_messages isof dw b 1 copies s1) (\<lambda>s2.
                  let n = length copies;
                      t = su_now dw + int n + 1;
                      trigger = (user_message identity (su_trigger_id dw) b client_message_id content t
                        [text_part dw (di_tenant_id identity) (su_trigger_id dw) 0 BLOCK_MARKDOWN content t])
                        \<lparr>cg_edited_from_id := Some (cg_id src)\<rparr>;
                      response = empty_reply dw identity b None (t + 1);
                      r = queued_run dw identity v b (cg_id trigger) t
                  in
                  start_run isof dw (n + 1) [trigger, response] r (b, di_user_id identity, client_message_id)
                    (Some branch_key) s2))))))))"

section \<open>Runs\<close>

definition conv_mark_run_started ::
    "draws \<Rightarrow> uuid \<Rightarrow> conversation_store \<Rightarrow> conversation_error + (agent_run \<times> conversation_store)" where
  "conv_mark_run_started dw run_id s =
     bind_result (require_run run_id s) (\<lambda>r.
     if gr_status r \<noteq> RUN_QUEUED then Inl RunNotQueued
     else
       (let started = r\<lparr>gr_status := RUN_RUNNING, gr_started_at := Some (su_now dw)\<rparr> in
        bind_result (at_key (dict_get (message_map s) (gr_response_message_id r))) (\<lambda>m.
        bind_result (emit_run dw 0 (lit ''run.started'') started
          (put_message (m\<lparr>cg_status := MESSAGE_STREAMING, cg_updated_at := su_now dw\<rparr>) (put_run started s))) (\<lambda>s1.
        Inr (started, s1)))))"

definition extended_part :: "ustr \<Rightarrow> instant \<Rightarrow> message_part \<Rightarrow> message_part" where
  "extended_part delta now p =
     (if mp_position p = 0 \<and> mp_kind p \<in> {BLOCK_TEXT, BLOCK_MARKDOWN}
      then p\<lparr>mp_text := Some ((case mp_text p of None \<Rightarrow> [] | Some t \<Rightarrow> t) @ delta), mp_updated_at := now\<rparr> else p)"

definition extended_reply :: "ustr \<Rightarrow> instant \<Rightarrow> chat_message \<Rightarrow> chat_message" where
  "extended_reply delta now m =
     m\<lparr>cg_content := cg_content m @ delta, cg_status := MESSAGE_STREAMING, cg_updated_at := now,
       cg_parts := map (extended_part delta now) (cg_parts m)\<rparr>"

definition delta_payload :: "chat_message \<Rightarrow> ustr \<Rightarrow> json_dict" where
  "delta_payload m delta = [(lit ''message_id'', juuid (cg_id m)), (lit ''delta'', JStr delta),
     (lit ''status'', JStr (message_status_value (cg_status m)))]"

definition conv_append_run_delta ::
    "draws \<Rightarrow> uuid \<Rightarrow> ustr \<Rightarrow> conversation_store \<Rightarrow> conversation_error + (chat_message \<times> conversation_store)" where
  "conv_append_run_delta dw run_id delta s =
     bind_result (require_running_run run_id s) (\<lambda>r.
     bind_result (at_key (dict_get (message_map s) (gr_response_message_id r))) (\<lambda>m.
     let updated = extended_reply delta (su_now dw) m in
     bind_result (emit dw 0 (gr_conversation_id r) (lit ''message.delta'') (delta_payload updated delta)
       (Some (gr_id r)) (Some (cg_id updated)) (put_message updated s)) (\<lambda>s1.
     Inr (updated, s1))))"

definition completed_run :: "model_usage option \<Rightarrow> instant \<Rightarrow> agent_run \<Rightarrow> agent_run" where
  "completed_run usage now r =
     r\<lparr>gr_status := RUN_COMPLETED, gr_input_tokens := map_option us_input_tokens usage,
       gr_output_tokens := map_option us_output_tokens usage, gr_completed_at := Some now\<rparr>"

definition conv_complete_run ::
    "(instant \<Rightarrow> ustr) \<Rightarrow> draws \<Rightarrow> uuid \<Rightarrow> model_usage option \<Rightarrow> bool \<Rightarrow> conversation_store \<Rightarrow>
       conversation_error + (agent_run \<times> conversation_store)" where
  "conv_complete_run isof dw run_id usage suppress_response s =
     bind_result (require_running_run run_id s) (\<lambda>r.
     let completed = completed_run usage (su_now dw) r in
     bind_result (at_key (dict_get (message_map s) (gr_response_message_id r))) (\<lambda>m.
     let response = m\<lparr>cg_status := (if suppress_response then MESSAGE_SUPPRESSED else MESSAGE_COMPLETED),
           cg_updated_at := su_now dw\<rparr>
     in
     bind_result (emit dw 0 (gr_conversation_id r)
       (if suppress_response then lit ''message.suppressed'' else lit ''message.completed'')
       (message_payload isof response) (Some (gr_id r)) (Some (cg_id response))
       (put_message response (put_run completed s))) (\<lambda>s1.
     bind_result (emit_run dw 1 (lit ''run.completed'') completed s1) (\<lambda>s2.
     Inr (completed, s2)))))"

text \<open>A run and its reply get their final status.\<close>

definition end_run ::
    "draws \<Rightarrow> ustr \<Rightarrow> agent_run \<Rightarrow> message_status \<Rightarrow> conversation_store \<Rightarrow>
       conversation_error + (agent_run \<times> conversation_store)" where
  "end_run dw event_type r status s =
     bind_result (at_key (dict_get (message_map s) (gr_response_message_id r))) (\<lambda>m.
     bind_result (emit_run dw 0 event_type r
       (put_message (m\<lparr>cg_status := status, cg_updated_at := su_now dw\<rparr>) (put_run r s))) (\<lambda>s1.
     Inr (r, s1)))"

definition conv_fail_run ::
    "draws \<Rightarrow> uuid \<Rightarrow> ustr \<Rightarrow> conversation_store \<Rightarrow> conversation_error + (agent_run \<times> conversation_store)" where
  "conv_fail_run dw run_id error_code s =
     bind_result (require_run run_id s) (\<lambda>r.
     if gr_status r = RUN_CANCELLED then Inr (r, s)
     else end_run dw (lit ''run.failed'') (r\<lparr>gr_status := RUN_FAILED, gr_error_code := Some error_code,
       gr_completed_at := Some (su_now dw)\<rparr>) MESSAGE_FAILED s)"

definition conv_cancel_run ::
    "draws \<Rightarrow> uuid \<Rightarrow> uuid \<Rightarrow> conversation_store \<Rightarrow> conversation_error + (agent_run \<times> conversation_store)" where
  "conv_cancel_run dw run_id user_id s =
     bind_result (require_run run_id s) (\<lambda>r.
     bind_result (require_conversation (gr_conversation_id r) user_id s) (\<lambda>_.
     if gr_status r \<in> {RUN_COMPLETED, RUN_CANCELLED, RUN_FAILED} then Inr (r, s)
     else end_run dw (lit ''run.cancelled'') (r\<lparr>gr_status := RUN_CANCELLED, gr_completed_at := Some (su_now dw)\<rparr>)
       MESSAGE_CANCELLED s))"

definition conv_list_events ::
    "uuid \<Rightarrow> uuid \<Rightarrow> int \<Rightarrow> int \<Rightarrow> conversation_store \<Rightarrow> conversation_error + conversation_event list" where
  "conv_list_events conversation_id user_id after_sequence limit s =
     bind_result (require_conversation conversation_id user_id s) (\<lambda>_.
       Inr (py_take limit (filter (\<lambda>e. after_sequence < vn_sequence e) (get_list (event_map s) conversation_id))))"

section \<open>Feedback and search\<close>

definition conv_set_message_feedback ::
    "(instant \<Rightarrow> ustr) \<Rightarrow> draws \<Rightarrow> uuid \<Rightarrow> uuid \<Rightarrow> feedback_rating \<Rightarrow> ustr option \<Rightarrow> conversation_store \<Rightarrow>
       conversation_error + (message_feedback \<times> conversation_store)" where
  "conv_set_message_feedback isof dw message_id user_id rating remark s =
     (case dict_get (message_map s) message_id of
        None \<Rightarrow> Inl FeedbackMessageMissing
      | Some m \<Rightarrow>
          bind_result (require_conversation (cg_conversation_id m) user_id s) (\<lambda>_.
          if cg_sender_type m \<noteq> SENDER_AGENT then Inl NotAnAgentReply
          else
            (let f = (case dict_get (feedback_map s) (message_id, user_id) of
                 Some old \<Rightarrow> old\<lparr>mf_rating := rating, mf_comment := remark, mf_updated_at := su_now dw\<rparr>
               | None \<Rightarrow> \<lparr>mf_id = su_feedback_id dw, mf_tenant_id = cg_tenant_id m,
                   mf_conversation_id = cg_conversation_id m, mf_message_id = cg_id m, mf_user_id = user_id,
                   mf_rating = rating, mf_comment = remark, mf_created_at = su_now dw, mf_updated_at = su_now dw\<rparr>)
             in
             bind_result (emit dw 0 (cg_conversation_id m) (lit ''message.feedback.updated'') (feedback_payload isof f)
               None (Some (cg_id m)) (s\<lparr>feedback_map := dict_set (message_id, user_id) f (feedback_map s)\<rparr>)) (\<lambda>s1.
             Inr (f, s1)))))"

definition conv_delete_message_feedback ::
    "draws \<Rightarrow> uuid \<Rightarrow> uuid \<Rightarrow> conversation_store \<Rightarrow> conversation_error + (unit \<times> conversation_store)" where
  "conv_delete_message_feedback dw message_id user_id s =
     (case dict_get (message_map s) message_id of
        None \<Rightarrow> Inl FeedbackMessageMissing
      | Some m \<Rightarrow>
          bind_result (require_conversation (cg_conversation_id m) user_id s) (\<lambda>_.
          if dict_get (feedback_map s) (message_id, user_id) = None then Inr ((), s)
          else
            bind_result (emit dw 0 (cg_conversation_id m) (lit ''message.feedback.deleted'')
              [(lit ''message_id'', juuid (cg_id m)), (lit ''user_id'', juuid user_id)] None (Some (cg_id m))
              (s\<lparr>feedback_map := dict_pop (message_id, user_id) (feedback_map s)\<rparr>)) (\<lambda>s1. Inr ((), s1))))"

definition conv_list_message_feedback ::
    "uuid \<Rightarrow> uuid \<Rightarrow> conversation_store \<Rightarrow> conversation_error + message_feedback list" where
  "conv_list_message_feedback conversation_id user_id s =
     bind_result (require_conversation conversation_id user_id s) (\<lambda>_.
       Inr (sorted_by (\<lambda>f. (mf_created_at f, mf_id f))
         (filter (\<lambda>f. mf_conversation_id f = conversation_id \<and> mf_user_id f = user_id) (dict_values (feedback_map s)))))"

definition search_hit ::
    "(ustr \<Rightarrow> ustr) \<Rightarrow> uuid \<Rightarrow> uuid \<Rightarrow> ustr \<Rightarrow> uuid option \<Rightarrow> conversation_store \<Rightarrow> chat_message \<Rightarrow>
       conversation_error + message_search_result list" where
  "search_hit fold_case user_id agent_id needle conversation_id s m =
     (if contains needle (fold_case (cg_content m)) \<and> (cg_conversation_id m, user_id) \<in> member_set s
      then bind_result (at_key (dict_get (conversation_map s) (cg_conversation_id m))) (\<lambda>c.
        Inr (if co_agent_id c = agent_id \<and> co_deleted_at c = None \<and>
            (conversation_id = None \<or> conversation_id = Some (cg_conversation_id m))
          then [\<lparr>sx_conversation = c, sx_message = m\<rparr>] else []))
      else Inr [])"

definition conv_search_messages ::
    "(ustr \<Rightarrow> ustr) \<Rightarrow> uuid \<Rightarrow> uuid \<Rightarrow> ustr \<Rightarrow> uuid option \<Rightarrow> int \<Rightarrow> conversation_store \<Rightarrow>
       conversation_error + message_search_result list" where
  "conv_search_messages fold_case user_id agent_id query conversation_id limit s =
     bind_result (collect_results (map (search_hit fold_case user_id agent_id (fold_case query) conversation_id s)
         (dict_values (message_map s)))) (\<lambda>hits.
       Inr (py_take limit (sorted_by_desc (\<lambda>h. (cg_created_at (sx_message h), cg_id (sx_message h))) (concat hits))))"

end
