(* ===== verification/Conversation_Invariant.thy ===== *)
theory Conversation_Invariant
  imports Conversation_Store
begin

text \<open>
  A normal form for the writes of \<open>Conversation_Store\<close>: \<open>grown\<close> adds messages, runs and events to one
  conversation, and every \<open>emit\<close> of a method is one more event of it. The second half is what a reader
  of the events makes of them: \<open>replay_text\<close> rebuilds the text of a message, \<open>replay_status\<close> the status of a
  run.
\<close>

named_theorems conv_laws

section \<open>Growing a conversation\<close>

abbreviation convs :: "conversation_store \<Rightarrow> uuid \<Rightarrow> conversation option" where
  "convs s \<equiv> dict_get (conversation_map s)"

abbreviation msgs :: "conversation_store \<Rightarrow> uuid \<Rightarrow> chat_message option" where
  "msgs s \<equiv> dict_get (message_map s)"

abbreviation runs :: "conversation_store \<Rightarrow> uuid \<Rightarrow> agent_run option" where
  "runs s \<equiv> dict_get (run_map s)"

abbreviation thread_ids :: "conversation_store \<Rightarrow> uuid \<Rightarrow> uuid list" where
  "thread_ids s \<equiv> get_list (conversation_messages s)"

abbreviation events_of :: "conversation_store \<Rightarrow> uuid \<Rightarrow> conversation_event list" where
  "events_of s \<equiv> get_list (event_map s)"

definition grown ::
    "uuid \<Rightarrow> conversation \<Rightarrow> chat_message list \<Rightarrow> agent_run list \<Rightarrow> conversation_event list \<Rightarrow>
       conversation_store \<Rightarrow> conversation_store" where
  "grown c v ms rs evs s =
     s\<lparr>conversation_map := dict_set c v (conversation_map s),
       conversation_messages := dict_set c (thread_ids s c @ map cg_id ms) (conversation_messages s),
       message_map := fold (\<lambda>m. dict_set (cg_id m) m) ms (message_map s),
       run_map := fold (\<lambda>r. dict_set (gr_id r) r) rs (run_map s),
       event_map := dict_set c (events_of s c @ evs) (event_map s)\<rparr>"

definition event_at ::
    "draws \<Rightarrow> nat \<Rightarrow> conversation \<Rightarrow> uuid \<Rightarrow> ustr \<Rightarrow> json_dict \<Rightarrow> uuid option \<Rightarrow> uuid option \<Rightarrow> conversation_event" where
  "event_at dw k v c event_type payload run_id message_id =
     \<lparr>vn_id = su_event_id dw k, vn_tenant_id = co_tenant_id v, vn_conversation_id = c,
      vn_sequence = co_event_sequence v + 1, vn_event_type = event_type, vn_payload = payload, vn_run_id = run_id,
      vn_message_id = message_id, vn_created_at = su_event_time dw k\<rparr>"

definition counted :: "conversation \<Rightarrow> conversation" where
  "counted v = v\<lparr>co_event_sequence := co_event_sequence v + 1\<rparr>"

lemma counted_simps [simp]:
  "co_id (counted v) = co_id v" "co_event_sequence (counted v) = co_event_sequence v + 1"
  "co_tenant_id (counted v) = co_tenant_id v" "co_deleted_at (counted v) = co_deleted_at v"
  "co_agent_id (counted v) = co_agent_id v" "co_title (counted v) = co_title v"
  by (simp_all add: counted_def)

lemma event_at_simps [simp]:
  "vn_sequence (event_at dw k v c ty p r m) = co_event_sequence v + 1"
  "vn_event_type (event_at dw k v c ty p r m) = ty" "vn_payload (event_at dw k v c ty p r m) = p"
  "vn_run_id (event_at dw k v c ty p r m) = r" "vn_message_id (event_at dw k v c ty p r m) = m"
  by (simp_all add: event_at_def)

lemma dict_set_set [simp]: "dict_set k v (dict_set k w d) = dict_set k v d"
  by (simp add: dict_set_def)

lemma get_list_Some: "dict_get d k = Some vs \<Longrightarrow> get_list d k = vs"
  by (simp add: get_list_def)

lemma grown_unchanged:
  assumes "convs s c = Some v" and "dict_get (conversation_messages s) c \<noteq> None" and "dict_get (event_map s) c \<noteq> None"
  shows "grown c v [] [] [] s = s"
  using assms by (auto simp: grown_def dict_set_get_same get_list_Some)

lemma grown_emit [conv_laws]:
  "emit dw k c ty p r m (grown c v ms rs evs s) =
     Inr (grown c (counted v) ms rs (evs @ [event_at dw k v c ty p r m]) s)"
  by (simp add: emit_def grown_def at_key_def event_at_def counted_def Let_def)

lemma grown_put_run [conv_laws]: "put_run r (grown c v ms rs evs s) = grown c v ms (rs @ [r]) evs s"
  by (simp add: put_run_def grown_def)

lemma grown_list_message [conv_laws]:
  "list_message c [cg_id m] (put_message m (grown c v ms rs evs s)) = Inr (grown c v (ms @ [m]) rs evs s)"
  "list_message c [cg_id m, cg_id n] (put_message n (put_message m (grown c v ms rs evs s))) =
     Inr (grown c v (ms @ [m, n]) rs evs s)"
  by (simp_all add: list_message_def put_message_def grown_def at_key_def)

lemma grown_conversation [conv_laws]:
  "convs (grown c v ms rs evs s) c = Some v"
  "(grown c v ms rs evs s)\<lparr>client_runs := cr, conversation_map := dict_set c w (conversation_map (grown c v ms rs evs s))\<rparr> =
     grown c w ms rs evs (s\<lparr>client_runs := cr\<rparr>)"
  "(grown c v ms rs evs s)\<lparr>client_runs := cr, edited_branches := eb\<rparr> =
     grown c v ms rs evs (s\<lparr>client_runs := cr, edited_branches := eb\<rparr>)"
  "client_runs (grown c v ms rs evs s) = client_runs s" "edited_branches (grown c v ms rs evs s) = edited_branches s"
  by (simp_all add: grown_def)

lemma grown_get:
  "convs (grown c v ms rs evs s) d = (if d = c then Some v else convs s d)"
  "thread_ids (grown c v ms rs evs s) d = (if d = c then thread_ids s c @ map cg_id ms else thread_ids s d)"
  "events_of (grown c v ms rs evs s) d = (if d = c then events_of s c @ evs else events_of s d)"
  "(dict_get (conversation_messages (grown c v ms rs evs s)) d = None) =
     (d \<noteq> c \<and> dict_get (conversation_messages s) d = None)"
  "(dict_get (event_map (grown c v ms rs evs s)) d = None) = (d \<noteq> c \<and> dict_get (event_map s) d = None)"
  "member_set (grown c v ms rs evs s) = member_set s" "feedback_map (grown c v ms rs evs s) = feedback_map s"
  by (simp_all add: grown_def)

lemma fold_set_get:
  "distinct (map f xs) \<Longrightarrow>
     dict_get (fold (\<lambda>x. dict_set (f x) x) xs d) k = (case find (\<lambda>x. f x = k) xs of None \<Rightarrow> dict_get d k | Some x \<Rightarrow> Some x)"
proof (induction xs arbitrary: d)
  case (Cons x xs)
  have "find (\<lambda>y. f y = f x) xs = None" using Cons.prems by (simp add: find_None_iff image_iff) metis
  then show ?case using Cons by (auto split: option.split)
qed simp

lemma find_key:
  assumes "distinct (map f xs)" and "x \<in> set xs"
  shows "find (\<lambda>y. f y = f x) xs = Some x"
  using assms by (induction xs) (auto simp: image_iff)

lemma grown_msgs_new: "distinct (map cg_id ms) \<Longrightarrow> m \<in> set ms \<Longrightarrow> msgs (grown c v ms rs evs s) (cg_id m) = Some m"
  by (simp add: grown_def fold_set_get find_key)

lemma grown_msgs_old:
  "distinct (map cg_id ms) \<Longrightarrow> i \<notin> cg_id ` set ms \<Longrightarrow> msgs (grown c v ms rs evs s) i = msgs s i"
  by (auto simp: grown_def fold_set_get find_None_iff image_iff split: option.split dest!: find_Some_iff_mem)

lemma grown_runs_new: "distinct (map gr_id rs) \<Longrightarrow> r \<in> set rs \<Longrightarrow> runs (grown c v ms rs evs s) (gr_id r) = Some r"
  by (simp add: grown_def fold_set_get find_key)

lemma grown_runs_old:
  "distinct (map gr_id rs) \<Longrightarrow> i \<notin> gr_id ` set rs \<Longrightarrow> runs (grown c v ms rs evs s) i = runs s i"
  by (auto simp: grown_def fold_set_get find_None_iff image_iff split: option.split dest!: find_Some_iff_mem)

section \<open>Replaying events\<close>

definition created_types :: "ustr list" where
  "created_types = [lit ''message.created'', lit ''message.completed'', lit ''message.suppressed'']"

definition textual :: "conversation_event \<Rightarrow> bool" where
  "textual e \<longleftrightarrow> vn_event_type e = lit ''message.delta'' \<or> vn_event_type e \<in> set created_types"

text \<open>A message as a whole replaces its text, a delta extends it.\<close>

definition text_after :: "conversation_event \<Rightarrow> ustr option \<Rightarrow> ustr option" where
  "text_after e t =
     (if vn_event_type e \<in> set created_types then as_str (json_get (vn_payload e) (lit ''content''))
      else if vn_event_type e = lit ''message.delta'' then
        (case (t, as_str (json_get (vn_payload e) (lit ''delta''))) of (Some u, Some d) \<Rightarrow> Some (u @ d) | _ \<Rightarrow> None)
      else t)"

definition replay_text :: "uuid \<Rightarrow> conversation_event list \<Rightarrow> ustr option" where
  "replay_text i es = fold (\<lambda>e t. if vn_message_id e = Some i then text_after e t else t) es None"

definition status_event :: "conversation_event \<Rightarrow> bool" where
  "status_event e \<longleftrightarrow> vn_event_type e \<in> lit ` {''run.queued'', ''run.started'', ''run.completed'', ''run.failed'', ''run.cancelled''}"

definition replay_status :: "uuid \<Rightarrow> conversation_event list \<Rightarrow> ustr option" where
  "replay_status r es =
     fold (\<lambda>e t. if vn_run_id e = Some r \<and> status_event e then as_str (json_get (vn_payload e) (lit ''status'')) else t) es None"

lemma text_after_plain: "\<not> textual e \<Longrightarrow> text_after e t = t"
  by (simp add: textual_def text_after_def)

lemma replay_text_append:
  "replay_text i (es @ evs) = fold (\<lambda>e t. if vn_message_id e = Some i then text_after e t else t) evs (replay_text i es)"
  by (simp add: replay_text_def)

lemma fold_unchanged: "(\<And>e t. e \<in> set es \<Longrightarrow> f e t = t) \<Longrightarrow> fold f es t = t"
  by (induction es arbitrary: t) auto

lemma replay_text_other:
  assumes "\<And>e. e \<in> set evs \<Longrightarrow> textual e \<Longrightarrow> vn_message_id e \<noteq> Some i"
  shows "replay_text i (es @ evs) = replay_text i es"
  unfolding replay_text_append using assms by (intro fold_unchanged) (auto intro: text_after_plain)

lemma replay_text_fresh:
  assumes "\<And>e. e \<in> set es \<Longrightarrow> vn_message_id e \<noteq> Some i"
  shows "replay_text i (es @ evs) = replay_text i evs"
proof -
  have "replay_text i es = None" unfolding replay_text_def using assms by (intro fold_unchanged) auto
  then show ?thesis by (simp add: replay_text_append replay_text_def)
qed

lemma replay_status_append:
  "replay_status r (es @ evs) =
     fold (\<lambda>e t. if vn_run_id e = Some r \<and> status_event e then as_str (json_get (vn_payload e) (lit ''status'')) else t) evs
       (replay_status r es)"
  by (simp add: replay_status_def)

lemma replay_status_other:
  assumes "\<And>e. e \<in> set evs \<Longrightarrow> status_event e \<Longrightarrow> vn_run_id e \<noteq> Some r"
  shows "replay_status r (es @ evs) = replay_status r es"
  unfolding replay_status_append using assms by (intro fold_unchanged) auto

lemma replay_status_fresh:
  assumes "\<And>e. e \<in> set es \<Longrightarrow> vn_run_id e \<noteq> Some r"
  shows "replay_status r (es @ evs) = replay_status r evs"
proof -
  have "replay_status r es = None" unfolding replay_status_def using assms by (intro fold_unchanged) auto
  then show ?thesis by (simp add: replay_status_append replay_status_def)
qed

lemma payload_reads [simp]:
  "json_get (message_payload isof m) (lit ''content'') = Some (JStr (cg_content m))"
  "json_get (run_payload r) (lit ''status'') = Some (JStr (run_status_value (gr_status r)))"
  "json_get (delta_payload m delta) (lit ''delta'') = Some (JStr delta)"
  by (simp_all add: message_payload_def run_payload_def delta_payload_def json_get_def dict_get_def)

text \<open>
  The invariant \<open>conversations_ok\<close> of the store of conversations: identifiers are keys, every message stands in
  the thread of its conversation in the order of time, every run has its messages and its reply has a
  status that fits, the events of a conversation are numbered without gaps, and replaying them gives
  the texts of the messages and the statuses of the runs. Two lemmas carry the proofs of all methods:
  \<open>grown_ok\<close> for new messages, runs and events, \<open>touched_ok\<close> for a run that goes on.
\<close>

section \<open>Invariant\<close>

definition dictionaries_ok :: "conversation_store \<Rightarrow> bool" where
  "dictionaries_ok s \<longleftrightarrow> dict_ok (message_map s) \<and> dict_ok (run_map s) \<and>
     (\<forall>c v. convs s c = Some v \<longrightarrow> co_id v = c) \<and> (\<forall>i m. msgs s i = Some m \<longrightarrow> cg_id m = i) \<and>
     (\<forall>i r. runs s i = Some r \<longrightarrow> gr_id r = i) \<and>
     (\<forall>c. (dict_get (conversation_messages s) c = None) = (convs s c = None)) \<and>
     (\<forall>c. (dict_get (event_map s) c = None) = (convs s c = None))"

definition created_at :: "conversation_store \<Rightarrow> uuid \<Rightarrow> instant" where
  "created_at s i = (case msgs s i of None \<Rightarrow> 0 | Some m \<Rightarrow> cg_created_at m)"

definition threads_ok :: "conversation_store \<Rightarrow> bool" where
  "threads_ok s \<longleftrightarrow>
     (\<forall>c. \<forall>i \<in> set (thread_ids s c). \<exists>m. msgs s i = Some m \<and> cg_conversation_id m = c) \<and>
     (\<forall>i m. msgs s i = Some m \<longrightarrow> i \<in> set (thread_ids s (cg_conversation_id m))) \<and>
     (\<forall>c. sorted_wrt (<) (map (created_at s) (thread_ids s c)))"

fun reply_states :: "run_status \<Rightarrow> message_status set" where
  "reply_states RUN_QUEUED = {MESSAGE_PROCESSING}"
| "reply_states RUN_RUNNING = {MESSAGE_STREAMING}"
| "reply_states RUN_COMPLETED = {MESSAGE_COMPLETED, MESSAGE_SUPPRESSED}"
| "reply_states RUN_CANCELLED = {MESSAGE_CANCELLED}"
| "reply_states RUN_FAILED = {MESSAGE_FAILED}"

definition trigger_ok :: "conversation_store \<Rightarrow> agent_run \<Rightarrow> bool" where
  "trigger_ok s r \<longleftrightarrow> (\<exists>t. msgs s (gr_trigger_message_id r) = Some t \<and>
     cg_conversation_id t = gr_conversation_id r \<and> cg_sender_type t = SENDER_USER)"

definition reply_ok :: "conversation_store \<Rightarrow> agent_run \<Rightarrow> bool" where
  "reply_ok s r \<longleftrightarrow> (\<exists>a. msgs s (gr_response_message_id r) = Some a \<and> cg_conversation_id a = gr_conversation_id r \<and>
     cg_sender_type a = SENDER_AGENT \<and> cg_status a \<in> reply_states (gr_status r))"

text \<open>What the client sent is indexed under its conversation, by the run that it began.\<close>

definition run_in :: "conversation_store \<Rightarrow> uuid \<Rightarrow> uuid \<Rightarrow> bool" where
  "run_in s i c \<longleftrightarrow> (\<exists>r. runs s i = Some r \<and> gr_conversation_id r = c)"

definition runs_ok :: "conversation_store \<Rightarrow> bool" where
  "runs_ok s \<longleftrightarrow> (\<forall>i r. runs s i = Some r \<longrightarrow> trigger_ok s r \<and> reply_ok s r) \<and>
     (\<forall>i j r q. runs s i = Some r \<longrightarrow> runs s j = Some q \<longrightarrow> gr_response_message_id r = gr_response_message_id q \<longrightarrow> i = j) \<and>
     (\<forall>k i. dict_get (client_runs s) k = Some i \<longrightarrow> run_in s i (fst k)) \<and>
     (\<forall>k i. dict_get (edited_branches s) k = Some i \<longrightarrow> runs s i \<noteq> None)"

definition numbered :: "conversation_event list \<Rightarrow> bool" where
  "numbered es \<longleftrightarrow> map vn_sequence es = map int [1..<Suc (length es)]"

definition refers :: "conversation_store \<Rightarrow> conversation_event \<Rightarrow> bool" where
  "refers s e \<longleftrightarrow> (\<forall>i. vn_message_id e = Some i \<longrightarrow> msgs s i \<noteq> None) \<and> (\<forall>r. vn_run_id e = Some r \<longrightarrow> runs s r \<noteq> None)"

definition logs_ok :: "conversation_store \<Rightarrow> bool" where
  "logs_ok s \<longleftrightarrow> (\<forall>c v. convs s c = Some v \<longrightarrow> co_event_sequence v = int (length (events_of s c))) \<and>
     (\<forall>c. numbered (events_of s c)) \<and> (\<forall>c. \<forall>e \<in> set (events_of s c). refers s e)"

definition replays_ok :: "conversation_store \<Rightarrow> bool" where
  "replays_ok s \<longleftrightarrow>
     (\<forall>i m. msgs s i = Some m \<longrightarrow> replay_text i (events_of s (cg_conversation_id m)) = Some (cg_content m)) \<and>
     (\<forall>i r. runs s i = Some r \<longrightarrow>
        replay_status i (events_of s (gr_conversation_id r)) = Some (run_status_value (gr_status r)))"

definition conversations_ok :: "conversation_store \<Rightarrow> bool" where
  "conversations_ok s \<longleftrightarrow> dictionaries_ok s \<and> threads_ok s \<and> runs_ok s \<and> logs_ok s \<and> replays_ok s"

lemma empty_store_ok: "conversations_ok empty_conversation_store"
  by (simp add: conversations_ok_def dictionaries_ok_def threads_ok_def runs_ok_def logs_ok_def replays_ok_def
      empty_conversation_store_def numbered_def pydict.get_empty)

lemma ok_known:
  assumes "conversations_ok s"
  shows "convs s c = Some v \<Longrightarrow> co_id v = c" "msgs s i = Some m \<Longrightarrow> cg_id m = i" "runs s i = Some r \<Longrightarrow> gr_id r = i"
  using assms by (simp_all add: conversations_ok_def dictionaries_ok_def)

lemma ok_thread:
  assumes "conversations_ok s"
  shows "i \<in> set (thread_ids s c) \<Longrightarrow> \<exists>m. msgs s i = Some m \<and> cg_conversation_id m = c"
    "msgs s i = Some m \<Longrightarrow> i \<in> set (thread_ids s (cg_conversation_id m))"
    "sorted_wrt (<) (map (created_at s) (thread_ids s c))"
  using assms by (simp_all add: conversations_ok_def threads_ok_def)

lemma ok_run:
  assumes "conversations_ok s" and "runs s i = Some r"
  shows "trigger_ok s r" "reply_ok s r"
    "replay_status i (events_of s (gr_conversation_id r)) = Some (run_status_value (gr_status r))"
  using assms by (auto simp: conversations_ok_def runs_ok_def replays_ok_def)

lemma ok_index:
  assumes "conversations_ok s"
  shows "dict_get (client_runs s) k = Some i \<Longrightarrow> run_in s i (fst k)" "dict_get (edited_branches s) k = Some i \<Longrightarrow> runs s i \<noteq> None"
  using assms unfolding conversations_ok_def runs_ok_def by blast+

lemma ok_text:
  "conversations_ok s \<Longrightarrow> msgs s i = Some m \<Longrightarrow> replay_text i (events_of s (cg_conversation_id m)) = Some (cg_content m)"
  by (simp add: conversations_ok_def replays_ok_def)

lemma ok_log:
  assumes "conversations_ok s"
  shows "convs s c = Some v \<Longrightarrow> co_event_sequence v = int (length (events_of s c))" "numbered (events_of s c)"
    "e \<in> set (events_of s c) \<Longrightarrow> refers s e"
  using assms by (simp_all add: conversations_ok_def logs_ok_def)

lemma ok_conversation:
  assumes "conversations_ok s"
  shows "(dict_get (conversation_messages s) c = None) = (convs s c = None)"
    "(dict_get (event_map s) c = None) = (convs s c = None)"
  using assms by (simp_all add: conversations_ok_def dictionaries_ok_def)

lemma ok_message_conversation:
  assumes "conversations_ok s" and "msgs s i = Some m"
  shows "convs s (cg_conversation_id m) \<noteq> None"
  using ok_thread(2)[OF assms] ok_conversation(1)[OF assms(1), of "cg_conversation_id m"]
  by (auto simp: get_list_def split: option.splits)

lemma ok_run_conversation:
  assumes "conversations_ok s" and "runs s i = Some r"
  shows "convs s (gr_conversation_id r) \<noteq> None"
  using ok_run(1)[OF assms] ok_message_conversation[OF assms(1)] by (force simp: trigger_ok_def)

lemma ok_grown:
  assumes "conversations_ok s" and "convs s c = Some v"
  shows "grown c v [] [] [] s = s"
  using assms ok_conversation[OF assms(1), of c] by (intro grown_unchanged) auto

section \<open>Numbering\<close>

lemma numbered_snoc [simp]: "numbered (es @ [e]) \<longleftrightarrow> numbered es \<and> vn_sequence e = int (length es) + 1"
  by (simp add: numbered_def) auto

lemma numbered_Nil [simp]: "numbered []"
  by (simp add: numbered_def)

section \<open>New messages, runs and events\<close>

text \<open>What a method may add to the conversation \<open>c\<close>, which then is the record \<open>v\<close>.\<close>

definition grows ::
    "conversation_store \<Rightarrow> uuid \<Rightarrow> conversation \<Rightarrow> chat_message list \<Rightarrow> agent_run list \<Rightarrow> conversation_event list \<Rightarrow> bool" where
  "grows s c v ms rs evs \<longleftrightarrow>
     conversations_ok s \<and> convs s c \<noteq> None \<and> co_id v = c \<and>
     co_event_sequence v = int (length (events_of s c @ evs)) \<and> numbered (events_of s c @ evs) \<and>
     distinct (map cg_id ms) \<and> distinct (map gr_id rs) \<and> distinct (map gr_response_message_id rs) \<and>
     (\<forall>m \<in> set ms. msgs s (cg_id m) = None \<and> cg_conversation_id m = c \<and> replay_text (cg_id m) evs = Some (cg_content m)) \<and>
     sorted_wrt (<) (map (created_at s) (thread_ids s c) @ map cg_created_at ms) \<and>
     (\<forall>r \<in> set rs. runs s (gr_id r) = None \<and> gr_conversation_id r = c \<and>
        replay_status (gr_id r) evs = Some (run_status_value (gr_status r)) \<and>
        gr_response_message_id r \<in> cg_id ` set ms) \<and>
     (\<forall>e \<in> set evs. (textual e \<longrightarrow> vn_message_id e \<in> Some ` cg_id ` set ms) \<and>
        (status_event e \<longrightarrow> vn_run_id e \<in> Some ` gr_id ` set rs) \<and>
        (\<forall>i. vn_message_id e = Some i \<longrightarrow> msgs s i \<noteq> None \<or> i \<in> cg_id ` set ms) \<and>
        (\<forall>r. vn_run_id e = Some r \<longrightarrow> runs s r \<noteq> None \<or> r \<in> gr_id ` set rs))"

lemma grows_parts:
  assumes "grows s c v ms rs evs"
  shows "conversations_ok s" "convs s c \<noteq> None" "co_id v = c"
    "co_event_sequence v = int (length (events_of s c @ evs))" "numbered (events_of s c @ evs)"
    "distinct (map cg_id ms)" "distinct (map gr_id rs)" "distinct (map gr_response_message_id rs)"
    "sorted_wrt (<) (map (created_at s) (thread_ids s c) @ map cg_created_at ms)"
  using assms by (simp_all add: grows_def)

lemma grows_message:
  assumes "grows s c v ms rs evs" and "m \<in> set ms"
  shows "msgs s (cg_id m) = None" "cg_conversation_id m = c" "replay_text (cg_id m) evs = Some (cg_content m)"
  using assms by (simp_all add: grows_def)

lemma grows_run:
  assumes "grows s c v ms rs evs" and "r \<in> set rs"
  shows "runs s (gr_id r) = None" "gr_conversation_id r = c"
    "replay_status (gr_id r) evs = Some (run_status_value (gr_status r))" "gr_response_message_id r \<in> cg_id ` set ms"
  using assms by (simp_all add: grows_def)

lemma grows_event:
  assumes "grows s c v ms rs evs" and "e \<in> set evs"
  shows "textual e \<Longrightarrow> vn_message_id e \<in> Some ` cg_id ` set ms"
    "status_event e \<Longrightarrow> vn_run_id e \<in> Some ` gr_id ` set rs"
    "vn_message_id e = Some i \<Longrightarrow> msgs s i \<noteq> None \<or> i \<in> cg_id ` set ms"
    "vn_run_id e = Some j \<Longrightarrow> runs s j \<noteq> None \<or> j \<in> gr_id ` set rs"
  using assms by (simp_all add: grows_def)

lemma grown_msgs:
  assumes "grows s c v ms rs evs"
  shows "msgs (grown c v ms rs evs s) i = Some m \<longleftrightarrow> (m \<in> set ms \<and> cg_id m = i) \<or> msgs s i = Some m"
proof (cases "i \<in> cg_id ` set ms")
  case True
  then obtain n where n: "n \<in> set ms" "i = cg_id n" by auto
  then have "m \<in> set ms \<and> cg_id m = i \<longleftrightarrow> m = n"
    using grows_parts(6)[OF assms] by (auto simp: distinct_map inj_on_def)
  then show ?thesis using n grows_message(1)[OF assms n(1)] grown_msgs_new[OF grows_parts(6)[OF assms] n(1)] by auto
next
  case False
  then show ?thesis using grown_msgs_old[OF grows_parts(6)[OF assms] False] by auto
qed

lemma grown_runs:
  assumes "grows s c v ms rs evs"
  shows "runs (grown c v ms rs evs s) i = Some r \<longleftrightarrow> (r \<in> set rs \<and> gr_id r = i) \<or> runs s i = Some r"
proof (cases "i \<in> gr_id ` set rs")
  case True
  then obtain q where q: "q \<in> set rs" "i = gr_id q" by auto
  then have "r \<in> set rs \<and> gr_id r = i \<longleftrightarrow> r = q"
    using grows_parts(7)[OF assms] by (auto simp: distinct_map inj_on_def)
  then show ?thesis using q grows_run(1)[OF assms q(1)] grown_runs_new[OF grows_parts(7)[OF assms] q(1)] by auto
next
  case False
  then show ?thesis using grown_runs_old[OF grows_parts(7)[OF assms] False] by auto
qed

lemma grown_keys:
  assumes "grows s c v ms rs evs"
  shows "dictionaries_ok (grown c v ms rs evs s)"
proof -
  note ok = grows_parts(1)[OF assms]
  have "dict_ok (message_map (grown c v ms rs evs s))" "dict_ok (run_map (grown c v ms rs evs s))"
    using ok by (auto simp: grown_def conversations_ok_def dictionaries_ok_def intro!: dict_ok_fold_set)
  moreover have "cg_id m = i" if "msgs (grown c v ms rs evs s) i = Some m" for i m
    using that ok_known(2)[OF ok] unfolding grown_msgs[OF assms] by blast
  moreover have "gr_id r = i" if "runs (grown c v ms rs evs s) i = Some r" for i r
    using that ok_known(3)[OF ok] unfolding grown_runs[OF assms] by blast
  moreover have "co_id w = d" if "convs (grown c v ms rs evs s) d = Some w" for d w
    using that ok_known(1)[OF ok] grows_parts(3)[OF assms] by (simp add: grown_get split: if_splits)
  moreover have "(dict_get (conversation_messages (grown c v ms rs evs s)) d = None) = (convs (grown c v ms rs evs s) d = None)"
    "(dict_get (event_map (grown c v ms rs evs s)) d = None) = (convs (grown c v ms rs evs s) d = None)" for d
    using ok_conversation[OF ok, of d] by (simp_all add: grown_get)
  ultimately show ?thesis unfolding dictionaries_ok_def by blast
qed

lemma grown_created:
  assumes "grows s c v ms rs evs"
  shows "i \<in> set (thread_ids s d) \<Longrightarrow> created_at (grown c v ms rs evs s) i = created_at s i"
    "m \<in> set ms \<Longrightarrow> created_at (grown c v ms rs evs s) (cg_id m) = cg_created_at m"
proof -
  assume i: "i \<in> set (thread_ids s d)"
  then obtain m where m: "msgs s i = Some m" using ok_thread(1)[OF grows_parts(1)[OF assms]] by blast
  then have "i \<notin> cg_id ` set ms" using grows_message(1)[OF assms] by fastforce
  then show "created_at (grown c v ms rs evs s) i = created_at s i"
    by (simp add: created_at_def grown_msgs_old[OF grows_parts(6)[OF assms]])
next
  assume "m \<in> set ms"
  then show "created_at (grown c v ms rs evs s) (cg_id m) = cg_created_at m"
    by (simp add: created_at_def grown_msgs_new[OF grows_parts(6)[OF assms]])
qed

lemma grown_threads:
  assumes "grows s c v ms rs evs"
  shows "threads_ok (grown c v ms rs evs s)"
proof -
  let ?t = "grown c v ms rs evs s"
  note ok = grows_parts(1)[OF assms]
  have "\<exists>m. msgs ?t i = Some m \<and> cg_conversation_id m = d" if i: "i \<in> set (thread_ids ?t d)" for i d
  proof (cases "i \<in> set (thread_ids s d)")
    case True
    then show ?thesis using ok_thread(1)[OF ok True] unfolding grown_msgs[OF assms] by blast
  next
    case False
    then obtain m where "m \<in> set ms" "cg_id m = i" "d = c" using i by (auto simp: grown_get split: if_splits)
    then show ?thesis using grows_message(2)[OF assms] unfolding grown_msgs[OF assms] by blast
  qed
  moreover have "i \<in> set (thread_ids ?t (cg_conversation_id m))" if "msgs ?t i = Some m" for i m
    using that ok_thread(2)[OF ok] grows_message(2)[OF assms] unfolding grown_msgs[OF assms] by (auto simp: grown_get)
  moreover have "map (created_at ?t) (thread_ids ?t d) =
      map (created_at s) (thread_ids s d) @ (if d = c then map cg_created_at ms else [])" for d
    using grown_created(1)[OF assms, of _ d] grown_created(2)[OF assms] by (simp add: grown_get)
  then have "sorted_wrt (<) (map (created_at ?t) (thread_ids ?t d))" for d
    using ok_thread(3)[OF ok, of d] grows_parts(9)[OF assms] by simp
  ultimately show ?thesis by (simp add: threads_ok_def)
qed

lemma grown_logs:
  assumes "grows s c v ms rs evs"
  shows "logs_ok (grown c v ms rs evs s)"
proof -
  let ?t = "grown c v ms rs evs s"
  note ok = grows_parts(1)[OF assms]
  have m: "msgs ?t i \<noteq> None \<longleftrightarrow> i \<in> cg_id ` set ms \<or> msgs s i \<noteq> None" for i
    using grown_msgs[OF assms] by (auto simp: image_iff)
  have r: "runs ?t i \<noteq> None \<longleftrightarrow> i \<in> gr_id ` set rs \<or> runs s i \<noteq> None" for i
    using grown_runs[OF assms] by (auto simp: image_iff)
  have "refers ?t e" if "e \<in> set (events_of ?t d)" for e d
  proof (cases "e \<in> set (events_of s d)")
    case True
    then show ?thesis using ok_log(3)[OF ok True] unfolding refers_def m r by blast
  next
    case False
    then have "e \<in> set evs" using that by (auto simp: grown_get split: if_splits)
    then show ?thesis using grows_event(3,4)[OF assms] unfolding refers_def m r by blast
  qed
  then show ?thesis
    using ok_log(1,2)[OF ok] grows_parts(4,5)[OF assms] by (simp add: logs_ok_def grown_get)
qed

lemma grown_texts:
  assumes "grows s c v ms rs evs" and "msgs (grown c v ms rs evs s) i = Some m"
  shows "replay_text i (events_of (grown c v ms rs evs s) (cg_conversation_id m)) = Some (cg_content m)"
proof (cases "m \<in> set ms \<and> cg_id m = i")
  case True
  have "vn_message_id e \<noteq> Some i" if "e \<in> set (events_of s c)" for e
    using ok_log(3)[OF grows_parts(1)[OF assms(1)] that] True grows_message(1)[OF assms(1)] by (auto simp: refers_def)
  then have "replay_text i (events_of s c @ evs) = replay_text i evs" by (rule replay_text_fresh)
  then show ?thesis using True grows_message(2,3)[OF assms(1)] by (auto simp: grown_get)
next
  case False
  then have old: "msgs s i = Some m" using assms(2) grown_msgs[OF assms(1)] by blast
  then have "i \<notin> cg_id ` set ms" using grows_message(1)[OF assms(1)] by fastforce
  then have "replay_text i (events_of s c @ evs) = replay_text i (events_of s c)"
    using grows_event(1)[OF assms(1)] by (intro replay_text_other) force
  then show ?thesis using ok_text[OF grows_parts(1)[OF assms(1)] old] by (auto simp: grown_get)
qed

lemma grown_statuses:
  assumes "grows s c v ms rs evs" and "runs (grown c v ms rs evs s) i = Some r"
  shows "replay_status i (events_of (grown c v ms rs evs s) (gr_conversation_id r)) = Some (run_status_value (gr_status r))"
proof (cases "r \<in> set rs \<and> gr_id r = i")
  case True
  have "vn_run_id e \<noteq> Some i" if "e \<in> set (events_of s c)" for e
    using ok_log(3)[OF grows_parts(1)[OF assms(1)] that] True grows_run(1)[OF assms(1)] by (auto simp: refers_def)
  then have "replay_status i (events_of s c @ evs) = replay_status i evs" by (rule replay_status_fresh)
  then show ?thesis using True grows_run(2,3)[OF assms(1)] by (auto simp: grown_get)
next
  case False
  then have old: "runs s i = Some r" using assms(2) grown_runs[OF assms(1)] by blast
  then have "i \<notin> gr_id ` set rs" using grows_run(1)[OF assms(1)] by fastforce
  then have "replay_status i (events_of s c @ evs) = replay_status i (events_of s c)"
    using grows_event(2)[OF assms(1)] by (intro replay_status_other) force
  then show ?thesis using ok_run(3)[OF grows_parts(1)[OF assms(1)] old] by (auto simp: grown_get)
qed

lemma grown_reply_unique:
  assumes "grows s c v ms rs evs" and "runs (grown c v ms rs evs s) i = Some r" "runs (grown c v ms rs evs s) j = Some q"
    and "gr_response_message_id r = gr_response_message_id q"
  shows "i = j"
proof -
  note ok = grows_parts(1)[OF assms(1)]
  have fresh: "gr_response_message_id a \<noteq> gr_response_message_id b" if "a \<in> set rs" "runs s k = Some b" for a b k
    using grows_run(4)[OF assms(1) that(1)] grows_message(1)[OF assms(1)] ok_run(2)[OF ok that(2)]
    by (auto simp: reply_ok_def)
  have new: "a = b" if "a \<in> set rs" "b \<in> set rs" "gr_response_message_id a = gr_response_message_id b" for a b
    using that grows_parts(8)[OF assms(1)] by (auto simp: distinct_map inj_on_def)
  have old: "k = l" if "runs s k = Some a" "runs s l = Some b" "gr_response_message_id a = gr_response_message_id b" for k l a b
    using that ok by (simp add: conversations_ok_def runs_ok_def)
  show ?thesis
    using assms(2-4) fresh new old unfolding grown_runs[OF assms(1)] by metis
qed

lemma grown_runs_ok:
  assumes "grows s c v ms rs evs" and "\<And>r. r \<in> set rs \<Longrightarrow> trigger_ok (grown c v ms rs evs s) r"
    and "\<And>r. r \<in> set rs \<Longrightarrow> reply_ok (grown c v ms rs evs s) r"
  shows "runs_ok (grown c v ms rs evs s)"
proof -
  let ?t = "grown c v ms rs evs s"
  note ok = grows_parts(1)[OF assms(1)]
  have old: "trigger_ok ?t r \<and> reply_ok ?t r" if "runs s i = Some r" for i r
    using ok_run(1,2)[OF ok that] unfolding trigger_ok_def reply_ok_def grown_msgs[OF assms(1)] by blast
  have "trigger_ok ?t r \<and> reply_ok ?t r" if "runs ?t i = Some r" for i r
    using that assms(2,3) old unfolding grown_runs[OF assms(1)] by blast
  moreover have keep: "runs ?t i \<noteq> None" if "runs s i \<noteq> None" for i
    using that grown_runs[OF assms(1)] by auto
  have "run_in ?t i (fst k)" if "dict_get (client_runs ?t) k = Some i" for i k
    using ok_index(1)[OF ok, of k i] that grown_runs[OF assms(1)] unfolding run_in_def conv_laws by blast
  moreover have "runs ?t i \<noteq> None" if "dict_get (edited_branches ?t) k = Some i" for i k
    using that ok_index(2)[OF ok] by (intro keep) (simp add: conv_laws)
  ultimately show ?thesis unfolding runs_ok_def using grown_reply_unique[OF assms(1)] by blast
qed

lemma grown_ok:
  assumes "grows s c v ms rs evs" and "\<And>r. r \<in> set rs \<Longrightarrow> trigger_ok (grown c v ms rs evs s) r"
    and "\<And>r. r \<in> set rs \<Longrightarrow> reply_ok (grown c v ms rs evs s) r"
  shows "conversations_ok (grown c v ms rs evs s)"
  using grown_keys[OF assms(1)] grown_threads[OF assms(1)] grown_logs[OF assms(1)] grown_runs_ok[OF assms]
    grown_texts[OF assms(1)] grown_statuses[OF assms(1)]
  by (simp add: conversations_ok_def replays_ok_def)

section \<open>What a step leaves in place\<close>

text \<open>
  How a run may go on. Only \<open>fail_run\<close> leaves a completed run; nothing leaves a cancelled one.
\<close>

definition later_status :: "run_status \<Rightarrow> run_status \<Rightarrow> bool" where
  "later_status a b \<longleftrightarrow> a = b \<or> a = RUN_QUEUED \<or> a = RUN_RUNNING \<and> b \<noteq> RUN_QUEUED \<or> a = RUN_COMPLETED \<and> b = RUN_FAILED"

definition ended :: "run_status \<Rightarrow> bool" where
  "ended st \<longleftrightarrow> st \<in> {RUN_COMPLETED, RUN_CANCELLED, RUN_FAILED}"

text \<open>The reply of the message \<open>i\<close>, if it is one, is not being written any more.\<close>

definition settled :: "conversation_store \<Rightarrow> uuid \<Rightarrow> bool" where
  "settled s i \<longleftrightarrow> (\<forall>j r. runs s j = Some r \<longrightarrow> gr_response_message_id r = i \<longrightarrow> ended (gr_status r))"

definition follows :: "conversation_store \<Rightarrow> conversation_store \<Rightarrow> bool" where
  "follows s t \<longleftrightarrow> member_set s \<subseteq> member_set t \<and>
     (\<forall>k i. dict_get (client_runs s) k = Some i \<longrightarrow> dict_get (client_runs t) k = Some i) \<and>
     (\<forall>c. \<exists>es. events_of t c = events_of s c @ es) \<and>
     (\<forall>i r. runs s i = Some r \<longrightarrow> (\<exists>q. runs t i = Some q \<and> gr_response_message_id q = gr_response_message_id r \<and>
        gr_conversation_id q = gr_conversation_id r \<and> later_status (gr_status r) (gr_status q))) \<and>
     (\<forall>i q. runs t i = Some q \<longrightarrow> runs s i = None \<longrightarrow> msgs s (gr_response_message_id q) = None) \<and>
     (\<forall>i m. msgs s i = Some m \<longrightarrow> (\<exists>n. msgs t i = Some n \<and> cg_conversation_id n = cg_conversation_id m \<and>
        (settled s i \<longrightarrow> cg_content n = cg_content m)))"

lemma followsD:
  assumes "follows s t"
  shows "member_set s \<subseteq> member_set t" "\<exists>es. events_of t c = events_of s c @ es"
    "runs s i = Some r \<Longrightarrow> \<exists>q. runs t i = Some q \<and> gr_response_message_id q = gr_response_message_id r \<and>
        gr_conversation_id q = gr_conversation_id r \<and> later_status (gr_status r) (gr_status q)"
    "runs t i = Some r \<Longrightarrow> runs s i = None \<Longrightarrow> msgs s (gr_response_message_id r) = None"
    "msgs s i = Some m \<Longrightarrow> \<exists>n. msgs t i = Some n \<and> cg_conversation_id n = cg_conversation_id m \<and>
        (settled s i \<longrightarrow> cg_content n = cg_content m)"
    "dict_get (client_runs s) k = Some j \<Longrightarrow> dict_get (client_runs t) k = Some j"
  using assms unfolding follows_def by blast+

lemma follows_views:
  assumes "member_set s \<subseteq> member_set t" "\<And>k i. dict_get (client_runs s) k = Some i \<Longrightarrow> dict_get (client_runs t) k = Some i"
    "\<And>c. \<exists>es. events_of t c = events_of s c @ es" "run_map t = run_map s"
    "message_map t = message_map s"
  shows "follows s t"
  using assms by (simp add: follows_def later_status_def)

lemma follows_refl [simp]: "follows s s"
  by (rule follows_views) simp_all

lemma ended_later: "ended a \<Longrightarrow> later_status a b \<Longrightarrow> ended b"
  by (cases a; cases b) (simp_all add: ended_def later_status_def)

lemma settled_follows:
  assumes "follows s t" and "settled s i" and "msgs s i \<noteq> None"
  shows "settled t i"
  unfolding settled_def
proof (intro allI impI)
  fix j q
  assume q: "runs t j = Some q" "gr_response_message_id q = i"
  obtain r where r: "runs s j = Some r" using followsD(4)[OF assms(1) q(1)] q(2) assms(3) by (cases "runs s j") auto
  then have "gr_response_message_id r = i" "later_status (gr_status r) (gr_status q)"
    using followsD(3)[OF assms(1) r] q by auto
  then show "ended (gr_status q)" using assms(2) r ended_later unfolding settled_def by blast
qed

lemma follows_trans:
  assumes "follows s t" and "follows t u"
  shows "follows s u"
proof -
  have "\<exists>es. events_of u c = events_of s c @ es" for c
    using followsD(2)[OF assms(1), of c] followsD(2)[OF assms(2), of c] by force
  moreover have "\<exists>q. runs u i = Some q \<and> gr_response_message_id q = gr_response_message_id r \<and>
      gr_conversation_id q = gr_conversation_id r \<and> later_status (gr_status r) (gr_status q)" if "runs s i = Some r" for i r
  proof -
    obtain q where q: "runs t i = Some q" "gr_response_message_id q = gr_response_message_id r"
      "gr_conversation_id q = gr_conversation_id r" "later_status (gr_status r) (gr_status q)"
      using followsD(3)[OF assms(1) \<open>runs s i = Some r\<close>] by auto
    then show ?thesis using followsD(3)[OF assms(2) q(1)] by (auto simp: later_status_def)
  qed
  moreover have "msgs s (gr_response_message_id q) = None" if q: "runs u i = Some q" "runs s i = None" for i q
  proof (cases "runs t i")
    case None
    then have "msgs t (gr_response_message_id q) = None" using followsD(4)[OF assms(2) q(1)] by simp
    then show ?thesis using followsD(5)[OF assms(1), of "gr_response_message_id q"]
      by (cases "msgs s (gr_response_message_id q)") auto
  next
    case (Some r)
    then show ?thesis using followsD(4)[OF assms(1) Some q(2)] followsD(3)[OF assms(2) Some] q(1) by auto
  qed
  moreover have "\<exists>n. msgs u i = Some n \<and> cg_conversation_id n = cg_conversation_id m \<and>
      (settled s i \<longrightarrow> cg_content n = cg_content m)" if m: "msgs s i = Some m" for i m
  proof -
    obtain n where n: "msgs t i = Some n" "cg_conversation_id n = cg_conversation_id m"
      "settled s i \<Longrightarrow> cg_content n = cg_content m"
      using followsD(5)[OF assms(1) m] by auto
    then show ?thesis using followsD(5)[OF assms(2) n(1)] settled_follows[OF assms(1)] m by auto
  qed
  ultimately show ?thesis
    using followsD(1,6)[OF assms(1)] followsD(1,6)[OF assms(2)] unfolding follows_def by blast
qed

lemma grown_follows:
  assumes "grows s c v ms rs evs"
  shows "follows s (grown c v ms rs evs s)"
proof -
  have "msgs s (gr_response_message_id q) = None" if "runs (grown c v ms rs evs s) i = Some q" "runs s i = None" for i q
  proof -
    have "q \<in> set rs" using that unfolding grown_runs[OF assms] by auto
    from grows_run(4)[OF assms this] obtain m where "m \<in> set ms" "gr_response_message_id q = cg_id m" by auto
    then show ?thesis using grows_message(1)[OF assms] by simp
  qed
  then show ?thesis
    by (auto simp: follows_def grown_msgs[OF assms] grown_runs[OF assms] grown_get grown_conversation later_status_def)
qed

end
