(* ===== verification/Conversation_Runs.thy ===== *)
theory Conversation_Runs
  imports Conversation_Invariant
begin

text \<open>
  A run that goes on: its record and its reply are replaced and events about both are appended. \<open>touched_ok\<close>
  shows that the invariant of the store survives, and with it the methods that start, extend, complete,
  fail and cancel a run.
\<close>

definition touched ::
    "conversation \<Rightarrow> agent_run \<Rightarrow> chat_message \<Rightarrow> conversation_event list \<Rightarrow> conversation_store \<Rightarrow> conversation_store" where
  "touched v r m evs s = grown (gr_conversation_id r) v [] [] evs (put_message m (put_run r s))"

definition touches ::
    "conversation_store \<Rightarrow> agent_run \<Rightarrow> chat_message \<Rightarrow> conversation \<Rightarrow> agent_run \<Rightarrow> chat_message \<Rightarrow> conversation_event list \<Rightarrow> bool" where
  "touches s r m v r' m' evs \<longleftrightarrow>
     conversations_ok s \<and> runs s (gr_id r) = Some r \<and> msgs s (gr_response_message_id r) = Some m \<and>
     gr_id r' = gr_id r \<and> gr_conversation_id r' = gr_conversation_id r \<and>
     gr_trigger_message_id r' = gr_trigger_message_id r \<and> gr_response_message_id r' = gr_response_message_id r \<and>
     cg_id m' = cg_id m \<and> cg_conversation_id m' = cg_conversation_id m \<and> cg_sender_type m' = cg_sender_type m \<and>
     cg_created_at m' = cg_created_at m \<and> cg_status m' \<in> reply_states (gr_status r') \<and>
     co_id v = gr_conversation_id r \<and>
     co_event_sequence v = int (length (events_of s (gr_conversation_id r) @ evs)) \<and>
     numbered (events_of s (gr_conversation_id r) @ evs) \<and>
     (\<forall>e \<in> set evs. vn_message_id e = Some (cg_id m) \<and> vn_run_id e = Some (gr_id r)) \<and>
     fold text_after evs (Some (cg_content m)) = Some (cg_content m') \<and>
     fold (\<lambda>e t. if status_event e then as_str (json_get (vn_payload e) (lit ''status'')) else t) evs
       (Some (run_status_value (gr_status r))) = Some (run_status_value (gr_status r'))"

lemma touches_parts:
  assumes "touches s r m v r' m' evs"
  shows "conversations_ok s" "runs s (gr_id r) = Some r" "msgs s (gr_response_message_id r) = Some m"
    "gr_id r' = gr_id r" "gr_conversation_id r' = gr_conversation_id r"
    "gr_trigger_message_id r' = gr_trigger_message_id r" "gr_response_message_id r' = gr_response_message_id r"
    "cg_id m' = cg_id m" "cg_conversation_id m' = cg_conversation_id m" "cg_sender_type m' = cg_sender_type m"
    "cg_created_at m' = cg_created_at m" "cg_status m' \<in> reply_states (gr_status r')"
    "co_id v = gr_conversation_id r" "co_event_sequence v = int (length (events_of s (gr_conversation_id r) @ evs))"
    "numbered (events_of s (gr_conversation_id r) @ evs)"
  using assms by (simp_all add: touches_def)

lemma touches_events:
  assumes "touches s r m v r' m' evs"
  shows "e \<in> set evs \<Longrightarrow> vn_message_id e = Some (cg_id m)" "e \<in> set evs \<Longrightarrow> vn_run_id e = Some (gr_id r)"
    "fold text_after evs (Some (cg_content m)) = Some (cg_content m')"
    "fold (\<lambda>e t. if status_event e then as_str (json_get (vn_payload e) (lit ''status'')) else t) evs
       (Some (run_status_value (gr_status r))) = Some (run_status_value (gr_status r'))"
  using assms by (simp_all add: touches_def)

lemma touches_reply:
  assumes "touches s r m v r' m' evs"
  shows "cg_id m = gr_response_message_id r" "cg_conversation_id m = gr_conversation_id r" "cg_sender_type m = SENDER_AGENT"
proof -
  note ok = touches_parts(1)[OF assms]
  show "cg_id m = gr_response_message_id r" using ok_known(2)[OF ok touches_parts(3)[OF assms]] .
  show "cg_conversation_id m = gr_conversation_id r" "cg_sender_type m = SENDER_AGENT"
    using ok_run(2)[OF ok touches_parts(2)[OF assms]] touches_parts(3)[OF assms] by (auto simp: reply_ok_def)
qed

lemma touched_get:
  assumes "touches s r m v r' m' evs"
  shows "msgs (touched v r' m' evs s) j = (if j = cg_id m then Some m' else msgs s j)"
    "runs (touched v r' m' evs s) j = (if j = gr_id r then Some r' else runs s j)"
    "convs (touched v r' m' evs s) d = (if d = gr_conversation_id r then Some v else convs s d)"
    "thread_ids (touched v r' m' evs s) d = thread_ids s d"
    "events_of (touched v r' m' evs s) d =
       (if d = gr_conversation_id r then events_of s d @ evs else events_of s d)"
    "client_runs (touched v r' m' evs s) = client_runs s" "edited_branches (touched v r' m' evs s) = edited_branches s"
  using touches_parts[OF assms] touches_reply[OF assms]
  by (auto simp: touched_def grown_def put_message_def put_run_def)

lemma touched_keys:
  assumes "touches s r m v r' m' evs"
  shows "dictionaries_ok (touched v r' m' evs s)"
proof -
  let ?t = "touched v r' m' evs s"
  note p = touches_parts[OF assms]
  have "dict_ok (message_map ?t)" "dict_ok (run_map ?t)"
    using p(1) by (auto simp: touched_def grown_def put_message_def put_run_def conversations_ok_def dictionaries_ok_def)
  moreover have "convs s (gr_conversation_id r) \<noteq> None" using ok_run_conversation[OF p(1,2)] .
  then have "(dict_get (conversation_messages ?t) d = None) = (convs ?t d = None)"
    "(dict_get (event_map ?t) d = None) = (convs ?t d = None)" for d
    using ok_conversation[OF p(1), of d] p(5)
    by (auto simp: touched_def grown_def put_message_def put_run_def)
  ultimately show ?thesis
    using ok_known[OF p(1)] p(4,8,13) by (auto simp: dictionaries_ok_def touched_get[OF assms])
qed

lemma touched_threads:
  assumes "touches s r m v r' m' evs"
  shows "threads_ok (touched v r' m' evs s)"
proof -
  let ?t = "touched v r' m' evs s"
  note p = touches_parts[OF assms] and q = touches_reply[OF assms]
  have old: "msgs s (cg_id m) = Some m" using p(3) q(1) by simp
  have "created_at ?t = created_at s"
    using old p(11) by (auto simp: created_at_def touched_get[OF assms])
  moreover have "\<exists>n. msgs ?t j = Some n \<and> cg_conversation_id n = d" if "j \<in> set (thread_ids s d)" for j d
    using ok_thread(1)[OF p(1) that] old p(9) by (auto simp: touched_get[OF assms])
  moreover have "j \<in> set (thread_ids s (cg_conversation_id n))" if "msgs ?t j = Some n" for j n
    using that ok_thread(2)[OF p(1)] old p(9) by (auto simp: touched_get[OF assms] split: if_splits)
  ultimately show ?thesis
    using ok_thread(3)[OF p(1)] by (simp add: threads_ok_def touched_get(4)[OF assms])
qed

lemma touched_runs:
  assumes "touches s r m v r' m' evs"
  shows "runs_ok (touched v r' m' evs s)"
proof -
  let ?t = "touched v r' m' evs s"
  note p = touches_parts[OF assms] and q = touches_reply[OF assms]
  have old: "msgs s (cg_id m) = Some m" using p(3) q(1) by simp
  have unique: "i = j" if "runs s i = Some a" "runs s j = Some b" "gr_response_message_id a = gr_response_message_id b" for i j a b
    using that p(1) by (simp add: conversations_ok_def runs_ok_def)
  have trigger: "trigger_ok ?t a" if "trigger_ok s a" for a
    using that old p(9,10) by (auto simp: trigger_ok_def touched_get[OF assms])
  have "trigger_ok ?t a \<and> reply_ok ?t a" if a: "runs ?t j = Some a" for j a
  proof (cases "j = gr_id r")
    case True
    then have "a = r'" using a by (simp add: touched_get[OF assms])
    moreover have "trigger_ok s r'" using ok_run(1)[OF p(1,2)] p(5,6) by (simp add: trigger_ok_def)
    ultimately show ?thesis using trigger p(5,7,9,10,12) q by (auto simp: reply_ok_def touched_get[OF assms])
  next
    case False
    then have s: "runs s j = Some a" using a by (simp add: touched_get[OF assms])
    then have "gr_response_message_id a \<noteq> cg_id m" using unique[OF s p(2)] False q(1) by auto
    then show ?thesis
      using ok_run(1,2)[OF p(1) s] trigger by (auto simp: reply_ok_def touched_get[OF assms])
  qed
  moreover have "i = j" if "runs ?t i = Some a" "runs ?t j = Some b" "gr_response_message_id a = gr_response_message_id b" for i j a b
  proof -
    have "\<exists>c. runs s k = Some c \<and> gr_response_message_id c = gr_response_message_id d" if "runs ?t k = Some d" for k d
      using that p(2,7) by (auto simp: touched_get[OF assms] split: if_splits)
    then show ?thesis using that unique by metis
  qed
  moreover have keep: "runs ?t i \<noteq> None" if "runs s i \<noteq> None" for i
    using that by (simp add: touched_get[OF assms])
  have "run_in ?t i (fst k)" if "dict_get (client_runs ?t) k = Some i" for k i
    using ok_index(1)[OF p(1) that[unfolded touched_get(6)[OF assms]]] p(2,5)
    by (auto simp: run_in_def touched_get(2)[OF assms])
  moreover have "runs ?t i \<noteq> None" if "dict_get (edited_branches ?t) k = Some i" for k i
    by (rule keep[OF ok_index(2)[OF p(1) that[unfolded touched_get(7)[OF assms]]]])
  ultimately show ?thesis unfolding runs_ok_def by meson
qed

lemma touched_logs:
  assumes "touches s r m v r' m' evs"
  shows "logs_ok (touched v r' m' evs s)"
proof -
  let ?t = "touched v r' m' evs s"
  note p = touches_parts[OF assms]
  have known: "refers ?t e" if "refers s e" for e using that by (auto simp: refers_def touched_get[OF assms])
  have "refers ?t e" if "e \<in> set evs" for e
    using touches_events(1,2)[OF assms that] by (simp add: refers_def touched_get[OF assms])
  then have "refers ?t e" if "e \<in> set (events_of ?t d)" for e d
    using that known ok_log(3)[OF p(1)] by (auto simp: touched_get[OF assms] split: if_splits)
  then show ?thesis using ok_log(1,2)[OF p(1)] p(14,15) by (simp add: logs_ok_def touched_get[OF assms])
qed

lemma fold_cong_all:
  assumes "\<And>e. e \<in> set es \<Longrightarrow> f e = g e"
  shows "fold f es t = fold g es t"
  using assms by (induction es arbitrary: t) auto

lemma touched_replays:
  assumes "touches s r m v r' m' evs"
  shows "replays_ok (touched v r' m' evs s)"
proof -
  let ?t = "touched v r' m' evs s" and ?c = "gr_conversation_id r"
  note p = touches_parts[OF assms] and q = touches_reply[OF assms] and e = touches_events[OF assms]
  have old: "msgs s (cg_id m) = Some m" using p(3) q(1) by simp
  have "replay_text (cg_id m) (events_of s ?c @ evs) = fold text_after evs (replay_text (cg_id m) (events_of s ?c))"
    unfolding replay_text_append using e(1) by (intro fold_cong_all) auto
  then have content: "replay_text (cg_id m) (events_of s ?c @ evs) = Some (cg_content m')"
    using ok_text[OF p(1) old] q(2) e(3) by simp
  have status: "replay_status (gr_id r) (events_of s ?c @ evs) = Some (run_status_value (gr_status r'))"
    unfolding replay_status_append ok_run(3)[OF p(1,2)] e(4)[symmetric] using e(2) by (intro fold_cong_all) auto
  have "replay_text j (events_of ?t (cg_conversation_id n)) = Some (cg_content n)" if n: "msgs ?t j = Some n" for j n
  proof (cases "j = cg_id m")
    case True
    then have "n = m'" using n by (simp add: touched_get[OF assms])
    then show ?thesis using True content p(9) q(2) by (simp add: touched_get[OF assms])
  next
    case False
    then have "replay_text j (events_of s ?c @ evs) = replay_text j (events_of s ?c)"
      using e(1) by (intro replay_text_other) auto
    moreover have "msgs s j = Some n" using n False by (simp add: touched_get[OF assms])
    from ok_text[OF p(1) this] have "replay_text j (events_of s (cg_conversation_id n)) = Some (cg_content n)" .
    ultimately show ?thesis by (auto simp: touched_get[OF assms])
  qed
  moreover have "replay_status j (events_of ?t (gr_conversation_id a)) = Some (run_status_value (gr_status a))"
    if a: "runs ?t j = Some a" for j a
  proof (cases "j = gr_id r")
    case True
    then have "a = r'" using a by (simp add: touched_get[OF assms])
    then show ?thesis using True status p(5) by (simp add: touched_get[OF assms])
  next
    case False
    then have "replay_status j (events_of s ?c @ evs) = replay_status j (events_of s ?c)"
      using e(2) by (intro replay_status_other) auto
    moreover have "runs s j = Some a" using a False by (simp add: touched_get[OF assms])
    from ok_run(3)[OF p(1) this]
    have "replay_status j (events_of s (gr_conversation_id a)) = Some (run_status_value (gr_status a))" .
    ultimately show ?thesis by (auto simp: touched_get[OF assms])
  qed
  ultimately show ?thesis by (simp add: replays_ok_def)
qed

lemma touched_ok: "touches s r m v r' m' evs \<Longrightarrow> conversations_ok (touched v r' m' evs s)"
  by (simp add: conversations_ok_def touched_keys touched_threads touched_runs touched_logs touched_replays)

lemma touched_follows:
  assumes "touches s r m v r' m' evs" and "later_status (gr_status r) (gr_status r')"
    and "cg_content m' = cg_content m \<or> \<not> ended (gr_status r)"
  shows "follows s (touched v r' m' evs s)"
proof -
  note p = touches_parts[OF assms(1)] and q = touches_reply[OF assms(1)]
  have "cg_content m' = cg_content m" if "settled s (cg_id m)"
    using that p(2) q(1) assms(3) by (auto simp: settled_def)
  moreover have "msgs s (cg_id m) = Some m" using p(3) q(1) by simp
  moreover have "member_set (touched v r' m' evs s) = member_set s"
    by (simp add: touched_def put_message_def put_run_def grown_def)
  ultimately show ?thesis
    using p assms(2) by (auto simp: follows_def touched_get[OF assms(1)] later_status_def)
qed

section \<open>The methods of a run\<close>

lemma reply_of:
  assumes "conversations_ok s" and "runs s i = Some r"
  obtains m where "msgs s (gr_response_message_id r) = Some m" "cg_conversation_id m = gr_conversation_id r"
    "cg_sender_type m = SENDER_AGENT" "cg_status m \<in> reply_states (gr_status r)" "cg_id m = gr_response_message_id r"
  using ok_run(2)[OF assms] ok_known(2)[OF assms(1)] by (auto simp: reply_ok_def)

text \<open>In a store that is in order the lookups of a run's methods succeed, and their events go to one conversation.\<close>

lemma touched_emit:
  assumes "conversations_ok s" and "convs s (gr_conversation_id r) = Some w" and "gr_conversation_id r' = gr_conversation_id r"
  shows "emit dw k (gr_conversation_id r) ty p j i (put_message m (put_run r' s)) =
      Inr (touched (counted w) r' m [event_at dw k w (gr_conversation_id r) ty p j i] s)"
proof -
  have "grown (gr_conversation_id r) w [] [] [] (put_message m (put_run r' s)) = put_message m (put_run r' s)"
    using assms(2) ok_conversation[OF assms(1), of "gr_conversation_id r"]
    by (intro grown_unchanged) (auto simp: put_message_def put_run_def)
  then show ?thesis using grown_emit[of dw k "gr_conversation_id r" ty p j i w "[]" "[]" "[]" "put_message m (put_run r' s)"] assms(3)
    by (simp add: touched_def)
qed

lemma touched_emit_again:
  "emit dw k (gr_conversation_id r) ty p j i (touched v r m evs s) =
     Inr (touched (counted v) r m (evs @ [event_at dw k v (gr_conversation_id r) ty p j i]) s)"
  by (simp add: touched_def grown_emit)

lemmas type_facts = textual_def status_event_def created_types_def text_after_def

lemma touchesI:
  assumes "conversations_ok s" "runs s (gr_id r) = Some r" "msgs s (gr_response_message_id r) = Some m"
    and "convs s (gr_conversation_id r) = Some w"
    and "gr_id r' = gr_id r" "gr_conversation_id r' = gr_conversation_id r"
      "gr_trigger_message_id r' = gr_trigger_message_id r" "gr_response_message_id r' = gr_response_message_id r"
      "cg_id m' = cg_id m" "cg_conversation_id m' = cg_conversation_id m" "cg_sender_type m' = cg_sender_type m"
      "cg_created_at m' = cg_created_at m" "cg_status m' \<in> reply_states (gr_status r')"
    and "co_id v = co_id w" "co_event_sequence v = co_event_sequence w + int (length evs)"
    and "numbered (events_of s (gr_conversation_id r) @ evs)"
    and "\<And>e. e \<in> set evs \<Longrightarrow> vn_message_id e = Some (gr_response_message_id r) \<and> vn_run_id e = Some (gr_id r)"
    and "fold text_after evs (Some (cg_content m)) = Some (cg_content m')"
    and "fold (\<lambda>e t. if status_event e then as_str (json_get (vn_payload e) (lit ''status'')) else t) evs
       (Some (run_status_value (gr_status r))) = Some (run_status_value (gr_status r'))"
  shows "touches s r m v r' m' evs"
  using assms ok_known(1)[OF assms(1,4)] ok_known(2)[OF assms(1,3)] ok_log(1)[OF assms(1,4)]
  by (simp add: touches_def)

lemma started_run_ok:
  assumes "conversations_ok s" and "runs s run_id = Some r" and "gr_status r = RUN_QUEUED"
  obtains t where "conv_mark_run_started dw run_id s = Inr (r\<lparr>gr_status := RUN_RUNNING, gr_started_at := Some (su_now dw)\<rparr>, t)"
    "conversations_ok t" "follows s t"
proof -
  let ?c = "gr_conversation_id r"
  let ?r = "r\<lparr>gr_status := RUN_RUNNING, gr_started_at := Some (su_now dw)\<rparr>"
  obtain w where w: "convs s ?c = Some w" using ok_run_conversation[OF assms(1,2)] by auto
  obtain m where m: "msgs s (gr_response_message_id r) = Some m" "cg_id m = gr_response_message_id r"
    using reply_of[OF assms(1,2)] by metis
  let ?m = "m\<lparr>cg_status := MESSAGE_STREAMING, cg_updated_at := su_now dw\<rparr>"
  let ?e = "event_at dw 0 w ?c (lit ''run.started'') (run_payload ?r) (Some (gr_id r)) (Some (gr_response_message_id r))"
  have id: "gr_id r = run_id" using ok_known(3)[OF assms(1,2)] .
  have "touches s r m (counted w) ?r ?m [?e]"
    using assms id m w ok_log[OF assms(1)] by (intro touchesI[where w = w]) (auto simp: type_facts)
  moreover have "conv_mark_run_started dw run_id s = Inr (?r, touched (counted w) ?r ?m [?e] s)"
    using assms id m w touched_emit[OF assms(1) w, of ?r]
    by (simp add: conv_mark_run_started_def require_run_def at_key_def emit_run_def Let_def)
  ultimately show ?thesis
    using that touched_ok touched_follows[of s r m "counted w" ?r ?m "[?e]"] assms(3) by (simp add: later_status_def)
qed

lemma extended_run_ok:
  assumes "conversations_ok s" and "runs s run_id = Some r" and "gr_status r = RUN_RUNNING"
  obtains m t where "msgs s (gr_response_message_id r) = Some m"
    "conv_append_run_delta dw run_id delta s = Inr (extended_reply delta (su_now dw) m, t)" "conversations_ok t" "follows s t"
proof -
  let ?c = "gr_conversation_id r"
  obtain w where w: "convs s ?c = Some w" using ok_run_conversation[OF assms(1,2)] by auto
  obtain m where m: "msgs s (gr_response_message_id r) = Some m" "cg_id m = gr_response_message_id r"
    using reply_of[OF assms(1,2)] by metis
  let ?m = "extended_reply delta (su_now dw) m"
  let ?e = "event_at dw 0 w ?c (lit ''message.delta'') (delta_payload ?m delta) (Some (gr_id r)) (Some (gr_response_message_id r))"
  have id: "gr_id r = run_id" using ok_known(3)[OF assms(1,2)] .
  have put: "put_run r s = s" using assms(2) id by (simp add: put_run_def dict_set_get_same)
  have "touches s r m (counted w) r ?m [?e]"
    using assms id m w ok_log[OF assms(1)]
    by (intro touchesI[where w = w]) (auto simp: type_facts extended_reply_def as_str_def)
  moreover have "conv_append_run_delta dw run_id delta s = Inr (?m, touched (counted w) r ?m [?e] s)"
    using assms id m w touched_emit[OF assms(1) w refl, of dw 0 "lit ''message.delta''" "delta_payload ?m delta"] put
    by (simp add: conv_append_run_delta_def require_running_run_def require_run_def at_key_def Let_def extended_reply_def)
  ultimately show ?thesis
    using that[OF m(1)] touched_ok touched_follows[of s r m "counted w" r ?m "[?e]"] assms(3)
    by (simp add: later_status_def ended_def)
qed

lemma completed_run_ok:
  assumes "conversations_ok s" and "runs s run_id = Some r" and "gr_status r = RUN_RUNNING"
  obtains t where "conv_complete_run isof dw run_id usage suppress s = Inr (completed_run usage (su_now dw) r, t)" "conversations_ok t" "follows s t"
proof -
  let ?c = "gr_conversation_id r" and ?r = "completed_run usage (su_now dw) r"
  obtain w where w: "convs s ?c = Some w" using ok_run_conversation[OF assms(1,2)] by auto
  obtain m where m: "msgs s (gr_response_message_id r) = Some m" "cg_id m = gr_response_message_id r"
    using reply_of[OF assms(1,2)] by metis
  let ?m = "m\<lparr>cg_status := (if suppress then MESSAGE_SUPPRESSED else MESSAGE_COMPLETED), cg_updated_at := su_now dw\<rparr>"
  let ?ty = "if suppress then lit ''message.suppressed'' else lit ''message.completed''"
  let ?e = "event_at dw 0 w ?c ?ty (message_payload isof ?m) (Some (gr_id r)) (Some (gr_response_message_id r))"
  let ?f = "event_at dw 1 (counted w) ?c (lit ''run.completed'') (run_payload ?r) (Some (gr_id r)) (Some (gr_response_message_id r))"
  have id: "gr_id r = run_id" using ok_known(3)[OF assms(1,2)] .
  have "touches s r m (counted (counted w)) ?r ?m [?e, ?f]"
    using assms id m w ok_log[OF assms(1)] numbered_snoc[of "events_of s ?c @ [?e]" ?f]
    by (intro touchesI[where w = w]) (auto simp: type_facts completed_run_def)
  moreover have "conv_complete_run isof dw run_id usage suppress s = Inr (?r, touched (counted (counted w)) ?r ?m [?e, ?f] s)"
    using assms id m w touched_emit[OF assms(1) w, of ?r dw 0 ?ty] touched_emit_again[of dw 1 ?r]
    by (simp add: conv_complete_run_def require_running_run_def require_run_def at_key_def emit_run_def Let_def completed_run_def)
  ultimately show ?thesis
    using that touched_ok touched_follows[of s r m "counted (counted w)" ?r ?m "[?e, ?f]"] assms(3)
    by (simp add: later_status_def completed_run_def)
qed

lemma ended_run_ok:
  assumes "conversations_ok s" and "runs s (gr_id r) = Some r"
    and "r' = r\<lparr>gr_status := st, gr_error_code := code, gr_completed_at := finish\<rparr>" and "status \<in> reply_states st"
    and "event_type = lit ''run.'' @ run_status_value st" and "st \<in> {RUN_FAILED, RUN_CANCELLED}"
    and "later_status (gr_status r) st"
  obtains t where "end_run dw event_type r' status s = Inr (r', t)" "conversations_ok t" "follows s t"
proof -
  let ?c = "gr_conversation_id r"
  obtain w where w: "convs s ?c = Some w" using ok_run_conversation[OF assms(1,2)] by auto
  obtain m where m: "msgs s (gr_response_message_id r) = Some m" "cg_id m = gr_response_message_id r"
    using reply_of[OF assms(1,2)] by metis
  let ?m = "m\<lparr>cg_status := status, cg_updated_at := su_now dw\<rparr>"
  let ?e = "event_at dw 0 w ?c event_type (run_payload r') (Some (gr_id r)) (Some (gr_response_message_id r))"
  have "touches s r m (counted w) r' ?m [?e]"
    using assms m w ok_log[OF assms(1)] by (intro touchesI[where w = w]) (auto simp: type_facts simp flip: lit_append)
  moreover have "end_run dw event_type r' status s = Inr (r', touched (counted w) r' ?m [?e] s)"
    using assms m w touched_emit[OF assms(1) w, of r']
    by (simp add: end_run_def at_key_def emit_run_def)
  ultimately show ?thesis
    using that touched_ok touched_follows[of s r m "counted w" r' ?m "[?e]"] assms(3,7) by simp
qed

end
