(* ===== verification/Conversation_Growth.thy ===== *)
theory Conversation_Growth
  imports Conversation_Runs
begin

text \<open>
  The methods that create conversations, messages and runs keep the invariant and what \<open>follows\<close> says of
  a step, and no lookup of theirs fails: \<open>sound\<close> says this of the outcome of a method. What a call draws from \<open>uuid4()\<close> is new (\<open>fresh_draws\<close>).
\<close>

definition sound :: "conversation_store \<Rightarrow> conversation_error + ('a \<times> conversation_store) \<Rightarrow> bool" where
  "sound s res \<longleftrightarrow> (case res of Inl e \<Rightarrow> e \<noteq> MissingKey | Inr (_, t) \<Rightarrow> conversations_ok t \<and> follows s t)"

definition fresh_draws :: "draws \<Rightarrow> conversation_store \<Rightarrow> bool" where
  "fresh_draws dw s \<longleftrightarrow> convs s (su_conversation_id dw) = None \<and> runs s (su_run_id dw) = None \<and>
     msgs s (su_trigger_id dw) = None \<and> msgs s (su_response_id dw) = None \<and>
     su_trigger_id dw \<noteq> su_response_id dw \<and> inj (su_copy_id dw) \<and>
     (\<forall>k. msgs s (su_copy_id dw k) = None \<and> su_copy_id dw k \<noteq> su_trigger_id dw \<and> su_copy_id dw k \<noteq> su_response_id dw)"

lemma sound_simps [simp]: "sound s (Inl e) \<longleftrightarrow> e \<noteq> MissingKey" "sound s (Inr (x, t)) \<longleftrightarrow> conversations_ok t \<and> follows s t"
  by (simp_all add: sound_def)

lemma sound_after: "follows s t \<Longrightarrow> sound t res \<Longrightarrow> sound s res"
  by (auto simp: sound_def intro: follows_trans split: sum.splits)

lemma sound_bind:
  assumes "r \<noteq> Inl MissingKey" and "\<And>x. r = Inr x \<Longrightarrow> sound s (f x)"
  shows "sound s (bind_result r f)"
  using assms by (cases r) auto

lemma require_conversation_sound [simp]: "require_conversation c u s \<noteq> Inl MissingKey"
  by (auto simp: require_conversation_def split: option.split)

lemma require_conversation_known:
  "require_conversation c u s = Inr v \<Longrightarrow> convs s c = Some v \<and> co_deleted_at v = None \<and> (c, u) \<in> member_set s"
  by (auto simp: require_conversation_def split: if_splits option.splits)

lemma require_run_known: "require_run i s = Inr r \<Longrightarrow> runs s i = Some r"
  by (auto simp: require_run_def split: option.splits)

lemma require_run_sound [simp]: "require_run i s \<noteq> Inl MissingKey" "require_running_run i s \<noteq> Inl MissingKey"
  by (auto simp: require_run_def require_running_run_def split: option.split)

section \<open>Indexes\<close>

lemma created_at_updates [simp]:
  "created_at (s\<lparr>feedback_map := f\<rparr>) = created_at s" "created_at (s\<lparr>identity_map := g\<rparr>) = created_at s"
  "created_at (s\<lparr>client_runs := x, edited_branches := y\<rparr>) = created_at s"
  "created_at (s\<lparr>conversation_map := cm\<rparr>) = created_at s"
  by (simp_all add: created_at_def fun_eq_iff)

lemma ok_feedback: "conversations_ok (s\<lparr>feedback_map := f\<rparr>) = conversations_ok s"
  by (simp add: conversations_ok_def dictionaries_ok_def threads_ok_def runs_ok_def logs_ok_def replays_ok_def trigger_ok_def
      reply_ok_def refers_def run_in_def)

lemma ok_identity: "conversations_ok (s\<lparr>identity_map := f\<rparr>) = conversations_ok s"
  by (simp add: conversations_ok_def dictionaries_ok_def threads_ok_def runs_ok_def logs_ok_def replays_ok_def trigger_ok_def
      reply_ok_def refers_def run_in_def)

lemma ok_indexed:
  assumes "conversations_ok s" and "run_in s i (fst k)"
  shows "conversations_ok (s\<lparr>client_runs := dict_set k i (client_runs s)\<rparr>)"
    "conversations_ok (s\<lparr>client_runs := dict_set k i (client_runs s), edited_branches := dict_set j i (edited_branches s)\<rparr>)"
proof -
  have parts: "dictionaries_ok s" "threads_ok s" "runs_ok s" "logs_ok s" "replays_ok s" using assms(1) by (simp_all add: conversations_ok_def)
  have views: "dictionaries_ok (s\<lparr>client_runs := x, edited_branches := y\<rparr>) = dictionaries_ok s"
    "threads_ok (s\<lparr>client_runs := x, edited_branches := y\<rparr>) = threads_ok s"
    "logs_ok (s\<lparr>client_runs := x, edited_branches := y\<rparr>) = logs_ok s"
    "replays_ok (s\<lparr>client_runs := x, edited_branches := y\<rparr>) = replays_ok s" for x y
    by (simp_all add: dictionaries_ok_def threads_ok_def logs_ok_def replays_ok_def refers_def)
  have "runs_ok (s\<lparr>client_runs := x, edited_branches := y\<rparr>)"
    if "\<And>k i. dict_get x k = Some i \<Longrightarrow> run_in s i (fst k)" "\<And>k i. dict_get y k = Some i \<Longrightarrow> runs s i \<noteq> None" for x y
    using parts(3) that unfolding runs_ok_def trigger_ok_def reply_ok_def run_in_def by simp
  then have *: "conversations_ok (s\<lparr>client_runs := x, edited_branches := y\<rparr>)"
    if "\<And>k i. dict_get x k = Some i \<Longrightarrow> run_in s i (fst k)" "\<And>k i. dict_get y k = Some i \<Longrightarrow> runs s i \<noteq> None" for x y
    using that parts views by (simp add: conversations_ok_def)
  have first: "run_in s l (fst n)" if "dict_get (dict_set k i (client_runs s)) n = Some l" for n l
    using that assms(2) ok_index(1)[OF assms(1)] by (auto split: if_splits)
  have second: "runs s l \<noteq> None" if "dict_get (dict_set j i (edited_branches s)) n = Some l" for n l
    using that assms(2) ok_index(2)[OF assms(1)] by (auto simp: run_in_def split: if_splits)
  show "conversations_ok (s\<lparr>client_runs := dict_set k i (client_runs s)\<rparr>)"
    using *[of "dict_set k i (client_runs s)" "edited_branches s", OF first ok_index(2)[OF assms(1)]] by simp
  show "conversations_ok (s\<lparr>client_runs := dict_set k i (client_runs s), edited_branches := dict_set j i (edited_branches s)\<rparr>)"
    by (rule *[OF first second])
qed

lemma pending_sound:
  assumes "conversations_ok s" and "runs s i = Some r"
  obtains p where "pending_of r created s = Inr p" "pu_run p = r" "pu_created p = created"
proof -
  obtain v t m where "convs s (gr_conversation_id r) = Some v" "msgs s (gr_trigger_message_id r) = Some t"
    "msgs s (gr_response_message_id r) = Some m"
    using ok_run_conversation[OF assms] ok_run(1,2)[OF assms] by (auto simp: trigger_ok_def reply_ok_def)
  then show ?thesis using that by (simp add: pending_of_def at_key_def)
qed

section \<open>Threads in time\<close>

lemma collect_results_map:
  assumes "\<And>x. x \<in> set xs \<Longrightarrow> f x = Inr (g x)"
  shows "collect_results (map f xs) = Inr (map g xs)"
  using assms by (induction xs) auto

definition thread_of :: "conversation_store \<Rightarrow> uuid \<Rightarrow> chat_message list" where
  "thread_of s c = map (\<lambda>i. the (msgs s i)) (thread_ids s c)"

lemma messages_at_thread:
  assumes "conversations_ok s"
  shows "messages_at (thread_ids s c) s = Inr (thread_of s c)"
  unfolding messages_at_def thread_of_def
  using ok_thread(1)[OF assms, of _ c] by (intro collect_results_map) (force simp: at_key_def)

lemma thread_of_times:
  assumes "conversations_ok s"
  shows "map cg_created_at (thread_of s c) = map (created_at s) (thread_ids s c)"
  using ok_thread(1)[OF assms, of _ c] by (force simp: thread_of_def created_at_def)

lemma thread_of_ids:
  assumes "conversations_ok s"
  shows "map cg_id (thread_of s c) = thread_ids s c"
proof -
  have "cg_id (the (msgs s i)) = i" if "i \<in> set (thread_ids s c)" for i
    using ok_thread(1)[OF assms that] ok_known(2)[OF assms] by auto
  then show ?thesis by (simp add: thread_of_def map_idI)
qed

lemma thread_of_mem:
  assumes "conversations_ok s"
  shows "m \<in> set (thread_of s c) \<longleftrightarrow> msgs s (cg_id m) = Some m \<and> cg_conversation_id m = c"
proof
  assume "m \<in> set (thread_of s c)"
  then obtain i where "i \<in> set (thread_ids s c)" "m = the (msgs s i)" by (auto simp: thread_of_def)
  then show "msgs s (cg_id m) = Some m \<and> cg_conversation_id m = c"
    using ok_thread(1)[OF assms] ok_known(2)[OF assms] by fastforce
next
  assume "msgs s (cg_id m) = Some m \<and> cg_conversation_id m = c"
  then have "cg_id m \<in> set (thread_ids s c)" "the (msgs s (cg_id m)) = m" using ok_thread(2)[OF assms] by auto
  then show "m \<in> set (thread_of s c)" unfolding thread_of_def by force
qed

text \<open>Only the thread of \<open>c\<close> grows, by the messages \<open>ms\<close>.\<close>

definition thread_grows :: "conversation_store \<Rightarrow> conversation_store \<Rightarrow> uuid \<Rightarrow> chat_message list \<Rightarrow> bool" where
  "thread_grows s t c ms \<longleftrightarrow> thread_of t c = thread_of s c @ ms \<and> (\<forall>d. d \<noteq> c \<longrightarrow> thread_of t d = thread_of s d)"

lemma thread_grows_trans: "thread_grows s t c ms \<Longrightarrow> thread_grows t u c ns \<Longrightarrow> thread_grows s u c (ms @ ns)"
  by (simp add: thread_grows_def)

lemma grown_thread:
  assumes "conversations_ok s" and "distinct (map cg_id ms)" and "\<And>m. m \<in> set ms \<Longrightarrow> msgs s (cg_id m) = None"
  shows "thread_grows s (grown c v ms rs evs s) c ms"
proof -
  have "msgs (grown c v ms rs evs s) i = msgs s i" if "i \<in> set (thread_ids s d)" for i d
    using that ok_thread(1)[OF assms(1)] assms(3) by (intro grown_msgs_old[OF assms(2)]) fastforce
  then show ?thesis
    by (auto simp: thread_grows_def thread_of_def grown_get grown_msgs_new[OF assms(2)] intro!: map_idI)
qed

lemma fold_max_start: "(u :: 'a :: linorder) \<le> fold max ts u"
proof (induction ts arbitrary: u)
  case (Cons x ts)
  have "u \<le> max x u" by simp
  also have "\<dots> \<le> fold max ts (max x u)" by (rule Cons.IH)
  finally show ?case by simp
qed simp

lemma fold_max_upper: "t \<in> set ts \<Longrightarrow> (t :: 'a :: linorder) \<le> fold max ts u"
  by (induction ts arbitrary: u) (auto intro: order_trans[OF max.cobounded1 fold_max_start])

lemma next_message_time_after:
  assumes "conversations_ok s"
  obtains now where "next_message_time t c s = Inr now" "t \<le> now" "\<And>i. i \<in> set (thread_ids s c) \<Longrightarrow> created_at s i < now"
proof -
  let ?ts = "map (created_at s) (thread_ids s c)"
  let ?now = "case ?ts of [] \<Rightarrow> t | u # us \<Rightarrow> max t (fold max us u + 1)"
  have "next_message_time t c s = Inr ?now"
    by (simp add: next_message_time_def messages_at_thread[OF assms] thread_of_times[OF assms])
  moreover have "t \<le> ?now" by (simp split: list.split)
  moreover have "created_at s i < ?now" if "i \<in> set (thread_ids s c)" for i
  proof (cases ?ts)
    case Nil
    then show ?thesis using that by simp
  next
    case (Cons u us)
    then have "created_at s i \<in> set (u # us)" using that by (metis image_eqI list.set_map)
    then have "created_at s i \<le> fold max us u" using fold_max_upper[of _ us u] fold_max_start[of u us] by auto
    then show ?thesis using Cons by simp
  qed
  ultimately show ?thesis using that by blast
qed

lemma sorted_times:
  assumes "conversations_ok s" and "\<And>i. i \<in> set (thread_ids s c) \<Longrightarrow> created_at s i < now" and "sorted_wrt (<) ts"
    and "\<And>t. t \<in> set ts \<Longrightarrow> now \<le> t"
  shows "sorted_wrt (<) (map (created_at s) (thread_ids s c) @ ts)"
  using ok_thread(3)[OF assms(1), of c] assms(2-4) by (fastforce simp: sorted_wrt_append)

section \<open>Conversations\<close>

lemma add_conversation_ok:
  assumes "conversations_ok s" and "convs s (co_id v) = None" and "co_event_sequence v = 0"
  shows "conversations_ok (add_conversation v u s)" "follows s (add_conversation v u s)"
proof -
  let ?t = "add_conversation v u s" and ?c = "co_id v"
  have none: "dict_get (conversation_messages s) ?c = None" "dict_get (event_map s) ?c = None"
    using ok_conversation[OF assms(1), of ?c] assms(2) by simp_all
  then have "thread_ids s ?c = []" "events_of s ?c = []" by (simp_all add: get_list_def)
  then have views: "thread_ids ?t d = thread_ids s d" "events_of ?t d = events_of s d" "msgs ?t = msgs s" "runs ?t = runs s"
    "convs ?t d = (if d = ?c then Some v else convs s d)" "client_runs ?t = client_runs s"
    "edited_branches ?t = edited_branches s" "created_at ?t = created_at s" for d
    by (auto simp: add_conversation_def created_at_def)
  have "dictionaries_ok ?t"
    using assms(1) ok_known[OF assms(1)] ok_conversation[OF assms(1)]
    by (auto simp: dictionaries_ok_def conversations_ok_def add_conversation_def)
  moreover have "threads_ok ?t" using ok_thread[OF assms(1)] by (simp add: threads_ok_def views)
  moreover have "runs_ok ?t"
    using assms(1) by (simp add: runs_ok_def views trigger_ok_def reply_ok_def run_in_def conversations_ok_def)
  moreover have "logs_ok ?t"
    using ok_log[OF assms(1)] assms(3) \<open>events_of s ?c = []\<close> by (auto simp: logs_ok_def views refers_def)
  moreover have "replays_ok ?t" using ok_text[OF assms(1)] ok_run(3)[OF assms(1)] by (simp add: replays_ok_def views)
  ultimately show "conversations_ok ?t" by (simp add: conversations_ok_def)
  show "follows s ?t" by (rule follows_views) (auto simp: views, simp_all add: add_conversation_def)
qed

text \<open>One more event that is neither about a message's text nor about a run's status.\<close>

lemma plain_event_ok:
  assumes "conversations_ok s" and "convs s c = Some w" and "co_id v = c" and "co_event_sequence v = co_event_sequence w"
    and "\<not> textual e" "\<not> status_event e" and "vn_sequence e = co_event_sequence w + 1" "refers s e"
  shows "conversations_ok (grown c (counted v) [] [] [e] s)" "follows s (grown c (counted v) [] [] [e] s)"
proof -
  have g: "grows s c (counted v) [] [] [e]"
    using assms ok_log[OF assms(1)] ok_thread(3)[OF assms(1)]
    by (auto simp: grows_def refers_def)
  show "conversations_ok (grown c (counted v) [] [] [e] s)" by (rule grown_ok[OF g]) simp_all
  show "follows s (grown c (counted v) [] [] [e] s)" by (rule grown_follows[OF g])
qed

lemma replaced_conversation:
  assumes "conversations_ok s" and "convs s c = Some w" and "co_id v = c" "co_event_sequence v = co_event_sequence w"
    and "event_type \<in> {lit ''conversation.updated'', lit ''conversation.deleted''}"
  shows "\<exists>e. replace_conversation isof dw event_type c v s = Inr (counted v, grown c (counted v) [] [] [e] s) \<and>
    conversations_ok (grown c (counted v) [] [] [e] s) \<and> follows s (grown c (counted v) [] [] [e] s)"
proof -
  let ?e = "event_at dw 0 v c event_type (conversation_payload isof v) None None"
  have "s\<lparr>conversation_map := dict_set c v (conversation_map s)\<rparr> = grown c v [] [] [] s"
    using ok_conversation[OF assms(1), of c] assms(2) by (auto simp: grown_def dict_set_get_same get_list_Some)
  then have "replace_conversation isof dw event_type c v s = Inr (counted v, grown c (counted v) [] [] [?e] s)"
    by (simp add: replace_conversation_def grown_emit grown_conversation at_key_def)
  moreover have "conversations_ok (grown c (counted v) [] [] [?e] s)" "follows s (grown c (counted v) [] [] [?e] s)"
    using assms by (auto intro!: plain_event_ok simp: textual_def status_event_def created_types_def refers_def)
  ultimately show ?thesis by blast
qed

lemma replace_sound:
  assumes "conversations_ok s" and "convs s c = Some w" and "co_id v = c" "co_event_sequence v = co_event_sequence w"
    and "event_type \<in> {lit ''conversation.updated'', lit ''conversation.deleted''}"
  shows "sound s (replace_conversation isof dw event_type c v s)"
  using replaced_conversation[OF assms, of isof dw] by (auto simp del: split_paired_Ex)

lemma updated_simps [simp]:
  "co_id (updated_conversation title status pinned now c) = co_id c"
  "co_event_sequence (updated_conversation title status pinned now c) = co_event_sequence c"
  by (simp_all add: updated_conversation_def)

lemma update_sound:
  assumes "conversations_ok s"
  shows "sound s (conv_update_conversation isof dw c u title status pinned s)"
  unfolding conv_update_conversation_def
proof (rule sound_bind)
  fix v
  assume "require_conversation c u s = Inr v"
  then have v: "convs s c = Some v" using require_conversation_known by blast
  show "sound s (replace_conversation isof dw (lit ''conversation.updated'') c
      (updated_conversation title status pinned (su_now dw) v) s)"
    using ok_known(1)[OF assms v] by (intro replace_sound[OF assms v]) simp_all
qed simp

lemma delete_sound:
  assumes "conversations_ok s"
  shows "sound s (conv_soft_delete_conversation isof dw c u s)"
proof -
  let ?d = "\<lambda>v. v\<lparr>co_deleted_at := Some (su_now dw), co_pinned_at := None, co_updated_at := su_now dw\<rparr>"
  have "sound s (replace_conversation isof dw (lit ''conversation.deleted'') c (?d v) s)" if v: "convs s c = Some v" for v
    using ok_known(1)[OF assms v] by (intro replace_sound[OF assms v]) simp_all
  then show ?thesis
    using assms by (auto simp: conv_soft_delete_conversation_def split: option.split)
qed

lemma create_sound:
  assumes "conversations_ok s" and "fresh_draws dw s"
  shows "sound s (conv_create_conversation dw identity title s)"
proof -
  let ?v = "new_conversation dw (di_tenant_id identity) (di_agent_id identity) title (di_user_id identity)"
  let ?s = "add_conversation ?v (di_user_id identity) s"
  have "co_id ?v = su_conversation_id dw" "co_event_sequence ?v = 0" by (simp_all add: new_conversation_def)
  then have ok: "conversations_ok ?s" "follows s ?s" using assms by (auto intro!: add_conversation_ok simp: fresh_draws_def)
  have v: "convs ?s (co_id ?v) = Some ?v" by (simp add: add_conversation_def)
  let ?e = "event_at dw 0 ?v (co_id ?v) (lit ''conversation.created'')
    [(lit ''conversation_id'', juuid (co_id ?v)), (lit ''title'', JStr (co_title ?v))] None None"
  have "conversations_ok (grown (co_id ?v) (counted ?v) [] [] [?e] ?s)" "follows ?s (grown (co_id ?v) (counted ?v) [] [] [?e] ?s)"
    using ok(1) v by (auto intro!: plain_event_ok simp: textual_def status_event_def created_types_def refers_def)
  then show ?thesis
    using grown_emit[of dw 0 "co_id ?v" _ _ None None ?v "[]" "[]" "[]" ?s] ok_grown[OF ok(1) v] follows_trans[OF ok(2)]
    by (simp add: conv_create_conversation_def Let_def grown_conversation at_key_def)
qed

section \<open>Feedback\<close>

lemma feedback_event_sound:
  assumes "conversations_ok s" and "msgs s i = Some m" and "ty \<in> {lit ''message.feedback.updated'', lit ''message.feedback.deleted''}"
  shows "sound s (bind_result (emit dw 0 (cg_conversation_id m) ty p None (Some (cg_id m)) (s\<lparr>feedback_map := f\<rparr>)) (\<lambda>t. Inr (x, t)))"
proof -
  let ?c = "cg_conversation_id m" and ?s = "s\<lparr>feedback_map := f\<rparr>"
  have ok: "conversations_ok ?s" using assms(1) by (simp add: ok_feedback)
  obtain w where w: "convs s ?c = Some w" using ok_message_conversation[OF assms(1,2)] by auto
  let ?e = "event_at dw 0 w ?c ty p None (Some (cg_id m))"
  have "emit dw 0 ?c ty p None (Some (cg_id m)) ?s = Inr (grown ?c (counted w) [] [] [?e] ?s)"
    using grown_emit[of dw 0 ?c ty p None "Some (cg_id m)" w "[]" "[]" "[]" ?s] ok_grown[OF ok, of ?c w] w by simp
  moreover have "conversations_ok (grown ?c (counted w) [] [] [?e] ?s)" "follows ?s (grown ?c (counted w) [] [] [?e] ?s)"
    using ok w assms(2,3) ok_known(1)[OF assms(1) w] ok_known(2)[OF assms(1,2)]
    by (auto intro!: plain_event_ok simp: textual_def status_event_def created_types_def refers_def)
  moreover have "follows s ?s" by (rule follows_views) simp_all
  ultimately show ?thesis using follows_trans by auto
qed

lemma set_feedback_sound:
  assumes "conversations_ok s"
  shows "sound s (conv_set_message_feedback isof dw i u rating remark s)"
proof (cases "msgs s i")
  case None
  then show ?thesis by (simp add: conv_set_message_feedback_def)
next
  case (Some m)
  show ?thesis
    unfolding conv_set_message_feedback_def Some option.case Let_def
  proof (rule sound_bind)
    fix v
    show "sound s (if cg_sender_type m \<noteq> SENDER_AGENT then Inl NotAnAgentReply
      else bind_result (emit dw 0 (cg_conversation_id m) (lit ''message.feedback.updated'') (feedback_payload isof (g :: message_feedback))
        None (Some (cg_id m)) (s\<lparr>feedback_map := f\<rparr>)) (\<lambda>s1. Inr (g, s1)))" for f g
      by (simp add: feedback_event_sound[OF assms Some])
  qed simp
qed

lemma delete_feedback_sound:
  assumes "conversations_ok s"
  shows "sound s (conv_delete_message_feedback dw i u s)"
proof (cases "msgs s i")
  case None
  then show ?thesis by (simp add: conv_delete_message_feedback_def)
next
  case (Some m)
  show ?thesis
    unfolding conv_delete_message_feedback_def Some option.case
    using assms feedback_event_sound[OF assms Some, of "lit ''message.feedback.deleted''"] by (intro sound_bind) auto
qed

text \<open>
  The methods that begin a run: a new message and its reply, another reply to the same message, and a
  message edited in a branch. Each is sound for fresh draws.
\<close>

lemmas draws_facts = user_message_def empty_reply_def queued_run_def

definition created_event :: "(instant \<Rightarrow> ustr) \<Rightarrow> draws \<Rightarrow> nat \<Rightarrow> conversation \<Rightarrow> uuid \<Rightarrow> uuid option \<Rightarrow> chat_message \<Rightarrow> conversation_event" where
  "created_event isof dw k v c run_id m =
     event_at dw k v c (lit ''message.created'') (message_payload isof m) run_id (Some (cg_id m))"

definition queued_event :: "draws \<Rightarrow> nat \<Rightarrow> conversation \<Rightarrow> agent_run \<Rightarrow> conversation_event" where
  "queued_event dw k v r =
     event_at dw k v (gr_conversation_id r) (lit ''run.queued'') (run_payload r) (Some (gr_id r)) (Some (gr_response_message_id r))"

lemma begin_event_simps [simp]:
  "vn_sequence (created_event isof dw k v c i m) = co_event_sequence v + 1" "vn_message_id (created_event isof dw k v c i m) = Some (cg_id m)"
  "vn_run_id (created_event isof dw k v c i m) = i" "textual (created_event isof dw k v c i m)"
  "\<not> status_event (created_event isof dw k v c i m)" "text_after (created_event isof dw k v c i m) t = Some (cg_content m)"
  "vn_sequence (queued_event dw k v r) = co_event_sequence v + 1" "vn_run_id (queued_event dw k v r) = Some (gr_id r)"
  "vn_message_id (queued_event dw k v r) = Some (gr_response_message_id r)" "\<not> textual (queued_event dw k v r)"
  "status_event (queued_event dw k v r)" "text_after (queued_event dw k v r) t = t"
  "json_get (vn_payload (queued_event dw k v r)) (lit ''status'') = Some (JStr (run_status_value (gr_status r)))"
  by (auto simp: created_event_def queued_event_def textual_def status_event_def created_types_def text_after_def as_str_def)

fun created_events ::
    "(instant \<Rightarrow> ustr) \<Rightarrow> draws \<Rightarrow> nat \<Rightarrow> conversation \<Rightarrow> uuid \<Rightarrow> uuid option \<Rightarrow> chat_message list \<Rightarrow> conversation_event list" where
  "created_events isof dw k v c i [] = []"
| "created_events isof dw k v c i (m # ms) = created_event isof dw k v c i m # created_events isof dw (Suc k) (counted v) c i ms"

abbreviation counted_by :: "nat \<Rightarrow> conversation \<Rightarrow> conversation" where
  "counted_by n v \<equiv> (counted ^^ n) v"

lemma counted_by_simps [simp]:
  "co_id (counted_by n v) = co_id v" "co_event_sequence (counted_by n v) = co_event_sequence v + int n"
  by (induction n) simp_all

lemma length_created_events [simp]: "length (created_events isof dw k v c i ms) = length ms"
  by (induction ms arbitrary: k v) simp_all

lemma emit_all_grown:
  "emit_all_created isof dw k c i ms (grown c v ns rs evs s) =
     Inr (grown c (counted_by (length ms) v) ns rs (evs @ created_events isof dw k v c i ms) s)"
proof (induction ms arbitrary: k v evs)
  case (Cons m ms)
  have "emit_created isof dw k c i m (grown c v ns rs evs s) =
      Inr (grown c (counted v) ns rs (evs @ [created_event isof dw k v c i m]) s)"
    by (simp add: emit_created_def grown_emit created_event_def)
  then show ?case using Cons.IH[of "Suc k" "counted v" "evs @ [created_event isof dw k v c i m]"]
    by (simp add: funpow_swap1)
qed simp

lemma created_events_facts:
  "e \<in> set (created_events isof dw k v c i ms) \<Longrightarrow> vn_run_id e = i \<and> \<not> status_event e \<and> textual e \<and> (\<exists>m \<in> set ms. vn_message_id e = Some (cg_id m))"
  by (induction ms arbitrary: k v) fastforce+

lemma created_events_numbered:
  "co_event_sequence v = int (length es) \<Longrightarrow> numbered es \<Longrightarrow> numbered (es @ created_events isof dw k v c i ms)"
proof (induction ms arbitrary: k v es)
  case (Cons m ms)
  then show ?case using Cons.IH[of "counted v" "es @ [created_event isof dw k v c i m]"] by simp
qed simp

lemma created_events_text:
  "distinct (map cg_id ms) \<Longrightarrow> m \<in> set ms \<Longrightarrow> replay_text (cg_id m) (created_events isof dw k v c i ms) = Some (cg_content m)"
proof (induction ms arbitrary: k v)
  case (Cons a ms)
  let ?rest = "created_events isof dw (Suc k) (counted v) c i ms"
  show ?case
  proof (cases "m = a")
    case True
    have "vn_message_id e \<noteq> Some (cg_id a)" if "e \<in> set ?rest" for e
      using Cons.prems(1) created_events_facts[OF that] by auto
    then have "replay_text (cg_id a) ([created_event isof dw k v c i a] @ ?rest) = replay_text (cg_id a) [created_event isof dw k v c i a]"
      by (intro replay_text_other) auto
    then show ?thesis using True by (simp add: replay_text_def)
  next
    case False
    then have "cg_id m \<noteq> cg_id a"
      using Cons.prems unfolding distinct_map inj_on_def by (meson list.set_intros(1))
    then have "replay_text (cg_id m) ([created_event isof dw k v c i a] @ ?rest) = replay_text (cg_id m) ?rest"
      by (intro replay_text_fresh) auto
    then show ?thesis using False Cons by simp
  qed
qed simp

lemma list_all:
  assumes "conversations_ok s" and "convs s c = Some w"
  shows "list_message c (map cg_id ms) (fold put_message ms s) = Inr (grown c w ms [] [] s)"
proof -
  have "fold put_message ms t = t\<lparr>message_map := fold (\<lambda>m. dict_set (cg_id m) m) ms (message_map t)\<rparr>" for t
    by (induction ms arbitrary: t) (simp_all add: put_message_def)
  then show ?thesis
    using ok_conversation[OF assms(1), of c] assms(2)
    by (auto simp: list_message_def grown_def at_key_def dict_set_get_same get_list_Some)
qed

text \<open>A new run with its reply, after the messages \<open>ms\<close> (none or the message that triggers it).\<close>

definition begins :: "conversation_store \<Rightarrow> uuid \<Rightarrow> chat_message list \<Rightarrow> chat_message \<Rightarrow> agent_run \<Rightarrow> bool" where
  "begins s c ms b r \<longleftrightarrow>
     distinct (map cg_id (ms @ [b])) \<and> (\<forall>m \<in> set (ms @ [b]). msgs s (cg_id m) = None \<and> cg_conversation_id m = c) \<and>
     sorted_wrt (<) (map (created_at s) (thread_ids s c) @ map cg_created_at (ms @ [b])) \<and>
     cg_sender_type b = SENDER_AGENT \<and> cg_status b = MESSAGE_PROCESSING \<and> gr_status r = RUN_QUEUED \<and>
     gr_conversation_id r = c \<and> gr_response_message_id r = cg_id b \<and> runs s (gr_id r) = None \<and>
     (trigger_ok s r \<or> (\<exists>a. a \<in> set ms \<and> cg_id a = gr_trigger_message_id r \<and> cg_sender_type a = SENDER_USER))"

lemma begins_ok:
  assumes "conversations_ok s" and "convs s c = Some w" and "begins s c ms b r" and "co_id v = c"
    and "co_event_sequence v = co_event_sequence w + int (length evs)" and "numbered (events_of s c @ evs)"
    and "\<And>m. m \<in> set (ms @ [b]) \<Longrightarrow> replay_text (cg_id m) evs = Some (cg_content m)"
    and "replay_status (gr_id r) evs = Some (run_status_value (gr_status r))"
    and "\<And>e. e \<in> set evs \<Longrightarrow> vn_run_id e = Some (gr_id r)"
    and "\<And>e. e \<in> set evs \<Longrightarrow> \<exists>m \<in> set (ms @ [b]). vn_message_id e = Some (cg_id m)"
  shows "conversations_ok (grown c v (ms @ [b]) [r] evs s)" "follows s (grown c v (ms @ [b]) [r] evs s)"
proof -
  let ?t = "grown c v (ms @ [b]) [r] evs s"
  have g: "grows s c v (ms @ [b]) [r] evs"
    unfolding grows_def
  proof (intro conjI ballI allI impI)
    fix e j
    assume e: "e \<in> set evs"
    obtain m where m: "m \<in> set (ms @ [b])" "vn_message_id e = Some (cg_id m)" using assms(10)[OF e] by auto
    then show "vn_message_id e \<in> Some ` cg_id ` set (ms @ [b])" by blast
    show "vn_run_id e \<in> Some ` gr_id ` set [r]" using assms(9)[OF e] by simp
    show "msgs s j \<noteq> None \<or> j \<in> cg_id ` set (ms @ [b])" if "vn_message_id e = Some j" using that m by auto
    show "runs s j \<noteq> None \<or> j \<in> gr_id ` set [r]" if "vn_run_id e = Some j" using that assms(9)[OF e] by simp
  qed (use assms(1-8) ok_log(1)[OF assms(1,2)] in \<open>auto simp: begins_def\<close>)
  have "reply_ok ?t q" if "q \<in> set [r]" for q
    using that assms(3) unfolding reply_ok_def grown_msgs[OF g] by (auto simp: begins_def)
  moreover have "trigger_ok ?t q" if "q \<in> set [r]" for q
    using that assms(3) unfolding trigger_ok_def grown_msgs[OF g] by (auto simp: begins_def trigger_ok_def)
  ultimately show "conversations_ok ?t" by (intro grown_ok[OF g])
  show "follows s ?t" by (rule grown_follows[OF g])
qed

text \<open>The events of a run that begins.\<close>

definition begin_events ::
    "(instant \<Rightarrow> ustr) \<Rightarrow> draws \<Rightarrow> nat \<Rightarrow> conversation \<Rightarrow> chat_message list \<Rightarrow> agent_run \<Rightarrow> conversation_event list" where
  "begin_events isof dw k v ms r =
     created_events isof dw k v (gr_conversation_id r) (Some (gr_id r)) ms @ [queued_event dw (k + length ms) (counted_by (length ms) v) r]"

definition begun ::
    "(instant \<Rightarrow> ustr) \<Rightarrow> draws \<Rightarrow> nat \<Rightarrow> conversation \<Rightarrow> chat_message list \<Rightarrow> agent_run \<Rightarrow> conversation_store \<Rightarrow> conversation_store" where
  "begun isof dw k v ms r s =
     grown (gr_conversation_id r) (counted_by (Suc (length ms)) v) ms [r] (begin_events isof dw k v ms r) s"

lemma begun_ok:
  assumes "conversations_ok s" and "convs s c = Some w" and "begins s c ms b r"
  shows "conversations_ok (begun isof dw k w (ms @ [b]) r s)" "follows s (begun isof dw k w (ms @ [b]) r s)"
proof -
  let ?evs = "begin_events isof dw k w (ms @ [b]) r" and ?created = "created_events isof dw k w c (Some (gr_id r)) (ms @ [b])"
  have c: "gr_conversation_id r = c" "gr_response_message_id r = cg_id b" "distinct (map cg_id (ms @ [b]))"
    using assms(3) by (auto simp: begins_def)
  have content: "replay_text (cg_id m) ?evs = Some (cg_content m)" if "m \<in> set (ms @ [b])" for m
  proof -
    have "replay_text (cg_id m) (?created @ [queued_event dw (k + length (ms @ [b])) (counted_by (length (ms @ [b])) w) r]) =
        replay_text (cg_id m) ?created"
      by (intro replay_text_other) auto
    then show ?thesis using created_events_text[OF c(3) that] by (simp add: begin_events_def c(1))
  qed
  have "replay_status (gr_id r) ?evs = Some (run_status_value (gr_status r))"
    by (simp add: begin_events_def replay_status_append)
  moreover have "numbered ((events_of s c @ ?created) @ [queued_event dw (k + length (ms @ [b])) (counted_by (length (ms @ [b])) w) r])"
    unfolding numbered_snoc
    using created_events_numbered[OF ok_log(1)[OF assms(1,2)] ok_log(2)[OF assms(1)], of isof dw k c "Some (gr_id r)" "ms @ [b]"]
      ok_log(1)[OF assms(1,2)] by simp
  then have "numbered (events_of s c @ ?evs)" by (simp add: begin_events_def c(1))
  moreover have "vn_run_id e = Some (gr_id r) \<and> (\<exists>m \<in> set (ms @ [b]). vn_message_id e = Some (cg_id m))" if "e \<in> set ?evs" for e
    using that created_events_facts[of e isof dw k w c "Some (gr_id r)" "ms @ [b]"] c(1,2)
    by (auto simp: begin_events_def)
  ultimately show "conversations_ok (begun isof dw k w (ms @ [b]) r s)" "follows s (begun isof dw k w (ms @ [b]) r s)"
    unfolding begun_def c(1)
    using content ok_known(1)[OF assms(1,2)]
    by (intro begins_ok[OF assms]; auto simp: begin_events_def)+
qed

lemma indexed_run_ok:
  assumes "conversations_ok s" and "run_in s (gr_id r) (fst ck)"
  shows "conversations_ok (indexed_run ck bk r s)"
    and "dict_get (client_runs s) ck = None \<Longrightarrow> follows s (indexed_run ck bk r s)"
proof -
  show "conversations_ok (indexed_run ck bk r s)"
    using ok_indexed[OF assms] by (auto simp: indexed_run_def split: option.split)
  show "follows s (indexed_run ck bk r s)" if "dict_get (client_runs s) ck = None"
    using that by (intro follows_views) (auto simp: indexed_run_def)
qed

lemma indexed_grown: "indexed_run ck bk r (grown c v ms rs evs s) = grown c v ms rs evs (indexed_run ck bk r s)"
  by (cases bk) (simp_all add: indexed_run_def grown_def)

text \<open>A run begins in a store that is in order: the outcome.\<close>

lemma start_run_outcome:
  assumes "conversations_ok s" and "convs s c = Some w" and "begins s c ms b r" and "fst ck = c" "dict_get (client_runs s) ck = None"
  shows "\<exists>p. start_run isof dw k (ms @ [b]) r ck bk s = Inr (p, begun isof dw k w (ms @ [b]) r (indexed_run ck bk r s)) \<and>
    pu_run p = r \<and> pu_created p"
    and "conversations_ok (begun isof dw k w (ms @ [b]) r (indexed_run ck bk r s))"
    and "follows s (begun isof dw k w (ms @ [b]) r (indexed_run ck bk r s))"
proof -
  let ?t = "begun isof dw k w (ms @ [b]) r (indexed_run ck bk r s)"
  have c: "gr_conversation_id r = c" using assms(3) by (simp add: begins_def)
  have t: "?t = indexed_run ck bk r (begun isof dw k w (ms @ [b]) r s)" by (simp add: begun_def indexed_grown)
  have run: "run_in (begun isof dw k w (ms @ [b]) r s) (gr_id r) (fst ck)" "dict_get (client_runs (begun isof dw k w (ms @ [b]) r s)) ck = None"
    using c assms(4,5) by (simp_all add: begun_def grown_def run_in_def)
  show ok: "conversations_ok ?t" unfolding t by (rule indexed_run_ok(1)[OF begun_ok(1)[OF assms(1-3)] run(1)])
  show "follows s ?t"
    unfolding t by (rule follows_trans[OF begun_ok(2)[OF assms(1-3)] indexed_run_ok(2)[OF begun_ok(1)[OF assms(1-3)] run]])
  have "runs ?t (gr_id r) = Some r" by (simp add: begun_def grown_def)
  then obtain p where p: "pending_of r True ?t = Inr p" "pu_run p = r" "pu_created p" using pending_sound[OF ok] by metis
  have "start_run isof dw k (ms @ [b]) r ck bk s = bind_result (pending_of r True ?t) (\<lambda>p. Inr (p, ?t))"
    unfolding start_run_def c list_all[OF assms(1,2)] bind_result_simps grown_put_run append_Nil indexed_grown emit_all_grown
    by (simp add: emit_run_def c grown_emit queued_event_def begun_def begin_events_def)
  then show "\<exists>p. start_run isof dw k (ms @ [b]) r ck bk s = Inr (p, ?t) \<and> pu_run p = r \<and> pu_created p" using p by auto
qed

lemma begun_thread:
  assumes "conversations_ok s" and "begins s c ms b r"
  shows "thread_grows s (begun isof dw k w (ms @ [b]) r (indexed_run ck bk r s)) c (ms @ [b])"
proof -
  have "thread_of (indexed_run ck bk r t) = thread_of t" for t by (simp add: thread_of_def indexed_run_def fun_eq_iff)
  moreover have "thread_grows s (grown c v (ms @ [b]) rs evs s) c (ms @ [b])" for v rs evs
    using assms(2) by (intro grown_thread[OF assms(1)]) (auto simp: begins_def)
  ultimately show ?thesis
    using assms(2) by (simp add: begun_def begins_def thread_grows_def flip: indexed_grown)
qed

lemma start_run_sound:
  assumes "conversations_ok s" and "convs s c = Some w" and "begins s c ms b r" and "fst ck = c" "dict_get (client_runs s) ck = None"
  shows "sound s (start_run isof dw k (ms @ [b]) r ck bk s)"
proof -
  obtain p where "start_run isof dw k (ms @ [b]) r ck bk s = Inr (p, begun isof dw k w (ms @ [b]) r (indexed_run ck bk r s))"
    using start_run_outcome(1)[OF assms] by blast
  then show ?thesis using start_run_outcome(2,3)[OF assms] by simp
qed

lemma touch_conversation_ok:
  assumes "conversations_ok s" and "convs s c = Some w"
  shows "conversations_ok (touch_conversation c w now s)" "convs (touch_conversation c w now s) c = Some (w\<lparr>co_updated_at := now\<rparr>)"
    "begins (touch_conversation c w now s) c ms b r = begins s c ms b r" "follows s (touch_conversation c w now s)"
proof -
  have eq: "touch_conversation c w now s = grown c (w\<lparr>co_updated_at := now\<rparr>) [] [] [] s"
    using ok_conversation[OF assms(1), of c] assms(2)
    by (auto simp: touch_conversation_def grown_def dict_set_get_same get_list_Some)
  have g: "grows s c (w\<lparr>co_updated_at := now\<rparr>) [] [] []"
    using assms ok_known(1)[OF assms] ok_log(1)[OF assms] ok_log(2)[OF assms(1)] ok_thread(3)[OF assms(1)]
    by (simp add: grows_def)
  show "conversations_ok (touch_conversation c w now s)" unfolding eq by (rule grown_ok[OF g]) simp_all
  show "follows s (touch_conversation c w now s)" unfolding eq by (rule grown_follows[OF g])
  show "convs (touch_conversation c w now s) c = Some (w\<lparr>co_updated_at := now\<rparr>)" by (simp add: touch_conversation_def)
  show "begins (touch_conversation c w now s) c ms b r = begins s c ms b r"
    by (simp add: begins_def trigger_ok_def touch_conversation_def)
qed

lemma touch_conversation_runs [simp]: "client_runs (touch_conversation c w now s) = client_runs s"
  by (simp add: touch_conversation_def)

lemma run_in_known: "run_in s i c \<Longrightarrow> runs s i \<noteq> None"
  by (auto simp: run_in_def)

lemma known_pending:
  assumes "conversations_ok s" and "runs s i \<noteq> None"
  shows "sound s (bind_result (at_key (runs s i)) (\<lambda>r. bind_result (pending_of r False s) (\<lambda>p. Inr (p, s))))"
proof -
  obtain r where r: "runs s i = Some r" using assms(2) by auto
  then obtain p where "pending_of r False s = Inr p" using pending_sound[OF assms(1)] by metis
  then show ?thesis using r assms(1) by (simp add: at_key_def)
qed

section \<open>A message and its reply\<close>

lemma collect_results_no_missing:
  assumes "\<And>r. r \<in> set rs \<Longrightarrow> r \<noteq> Inl e"
  shows "collect_results rs \<noteq> Inl e"
  using assms by (induction rs) (auto simp: bind_result_Inl)

lemma new_message_parts_sound [simp]: "new_message_parts dw tenant i content as t blocks \<noteq> Inl MissingKey"
proof -
  have block: "block_part dw tenant i d t kb \<noteq> Inl MissingKey" for d kb
    by (cases kb) (auto simp: block_part_def Let_def split: option.split)
  have "collect_results (map (block_part dw tenant i d t) xs) \<noteq> Inl MissingKey" for d xs
    by (rule collect_results_no_missing) (metis block imageE list.set_map)
  then show ?thesis by (simp add: new_message_parts_def Let_def)
qed

lemma begin_agent_run_sound:
  assumes "conversations_ok s" and "fresh_draws dw s"
  shows "sound s (conv_begin_agent_run isof dw identity c client content as vs blocks s)"
proof (cases "dict_get (client_runs s) (c, di_user_id identity, client)")
  case (Some i)
  then show ?thesis
    using known_pending[OF assms(1) run_in_known[OF ok_index(1)[OF assms(1) Some]]] by (simp add: conv_begin_agent_run_def)
next
  case None
  show ?thesis
    unfolding conv_begin_agent_run_def Let_def None option.case
  proof (rule sound_bind, simp, goal_cases)
    case (1 w)
    then have w: "convs s c = Some w" using require_conversation_known by blast
    have id: "co_id w = c" using ok_known(1)[OF assms(1) w] .
    obtain now where now: "next_message_time (su_now dw) c s = Inr now" "\<And>i. i \<in> set (thread_ids s c) \<Longrightarrow> created_at s i < now"
      using next_message_time_after[OF assms(1), of "su_now dw" c] by metis
    show ?case
    proof (cases "list_ex (foreign_attachment identity c client) as")
      case False
      show ?thesis
        unfolding id now(1) if_not_P[OF False] bind_result_simps
      proof (rule sound_bind, simp, goal_cases)
        case (1 parts)
        let ?a = "user_message identity (su_trigger_id dw) c client content now parts"
        let ?b = "empty_reply dw identity c None (now + 1)"
        let ?r = "queued_run dw identity vs c (cg_id ?a) now"
        have "sorted_wrt (<) (map (created_at s) (thread_ids s c) @ [now, now + 1])"
          using now(2) by (intro sorted_times[OF assms(1)]) auto
        then have "begins (touch_conversation c w now s) c [?a] ?b ?r"
          unfolding touch_conversation_ok(3)[OF assms(1) w]
          using assms(2) by (simp add: begins_def fresh_draws_def draws_facts)
        from sound_after[OF touch_conversation_ok(4)[OF assms(1) w] start_run_sound[OF touch_conversation_ok(1,2)[OF assms(1) w] this]]
        show ?case using None by simp
      qed
    qed simp
  qed
qed

lemma begin_regeneration_sound:
  assumes "conversations_ok s" and "fresh_draws dw s"
  shows "sound s (conv_begin_regeneration isof dw identity i client vs s)"
proof (cases "msgs s i")
  case None
  then show ?thesis by (simp add: conv_begin_regeneration_def)
next
  case (Some original)
  let ?c = "cg_conversation_id original"
  show ?thesis
    unfolding conv_begin_regeneration_def Let_def Some option.case
  proof (rule sound_bind, simp, goal_cases)
    case (1 w)
    have w: "convs s ?c = Some w" using 1 require_conversation_known by blast
    have id: "co_id w = ?c" using ok_known(1)[OF assms(1) w] .
    obtain now where now: "next_message_time (su_now dw) ?c s = Inr now" "\<And>j. j \<in> set (thread_ids s ?c) \<Longrightarrow> created_at s j < now"
      using next_message_time_after[OF assms(1), of "su_now dw" ?c] by metis
    have new: "sound s (start_run isof dw 0 [empty_reply dw identity ?c (Some client) now]
        (queued_run dw identity vs ?c (gr_trigger_message_id q) now) ck None (touch_conversation ?c w now s))"
      if q: "find (\<lambda>r. gr_response_message_id r = i) (dict_values (run_map s)) = Some q"
        and ck: "fst ck = ?c" "dict_get (client_runs s) ck = None" for q ck
    proof -
      let ?b = "empty_reply dw identity ?c (Some client) now" and ?r = "queued_run dw identity vs ?c (gr_trigger_message_id q) now"
      have "dict_ok (run_map s)" using assms(1) by (simp add: conversations_ok_def dictionaries_ok_def)
      moreover have "q \<in> set (dict_values (run_map s))" "gr_response_message_id q = i"
        using find_Some_iff_mem[OF q] by simp_all
      ultimately obtain j where j: "runs s j = Some q" "gr_response_message_id q = i"
        using dict_values_iff[of "run_map s" q] by auto
      have "gr_conversation_id q = ?c" using ok_run(2)[OF assms(1) j(1)] j(2) Some by (auto simp: reply_ok_def)
      then have "trigger_ok s ?r" using ok_run(1)[OF assms(1) j(1)] by (simp add: trigger_ok_def draws_facts)
      moreover have "sorted_wrt (<) (map (created_at s) (thread_ids s ?c) @ [now])"
        using now(2) by (intro sorted_times[OF assms(1)]) auto
      ultimately have "begins (touch_conversation ?c w now s) ?c [] ?b ?r"
        unfolding touch_conversation_ok(3)[OF assms(1) w]
        using assms(2) by (simp add: begins_def fresh_draws_def draws_facts)
      from sound_after[OF touch_conversation_ok(4)[OF assms(1) w] start_run_sound[OF touch_conversation_ok(1,2)[OF assms(1) w] this]]
      show ?thesis using ck by simp
    qed
    show ?case
    proof (cases "cg_sender_type original = SENDER_AGENT")
      case True
      show ?thesis
      proof (cases "dict_get (client_runs s) (?c, di_agent_id identity, client)")
        case None
        then show ?thesis
          using new True unfolding id now(1) bind_result_simps
          by (cases "find (\<lambda>r. gr_response_message_id r = i) (dict_values (run_map s))") simp_all
      next
        case (Some k)
        then show ?thesis
          using known_pending[OF assms(1) run_in_known[OF ok_index(1)[OF assms(1) Some]]] True id by simp
      qed
    qed simp
  qed
qed

section \<open>Branches\<close>

lemma copied_simps [simp]:
  "cg_id (copied_message dw b k m) = su_copy_id dw k" "cg_conversation_id (copied_message dw b k m) = b"
  "cg_created_at (copied_message dw b k m) = su_now dw + int k" "cg_content (copied_message dw b k m) = cg_content m"
  by (simp_all add: copied_message_def)

text \<open>The messages in a branch so far, and what is free for the next ones.\<close>

definition branch_ok :: "draws \<Rightarrow> uuid \<Rightarrow> nat \<Rightarrow> conversation_store \<Rightarrow> bool" where
  "branch_ok dw b k s \<longleftrightarrow> conversations_ok s \<and> convs s b \<noteq> None \<and> runs s (su_run_id dw) = None \<and>
     msgs s (su_trigger_id dw) = None \<and> msgs s (su_response_id dw) = None \<and>
     (\<forall>u m. dict_get (client_runs s) (b, u, m) = None) \<and>
     su_trigger_id dw \<noteq> su_response_id dw \<and> inj (su_copy_id dw) \<and>
     (\<forall>j. su_copy_id dw j \<noteq> su_trigger_id dw \<and> su_copy_id dw j \<noteq> su_response_id dw) \<and>
     (\<forall>j \<ge> k. msgs s (su_copy_id dw j) = None) \<and> (\<forall>i \<in> set (thread_ids s b). created_at s i < su_now dw + int k)"

lemma copy_messages_ok:
  "branch_ok dw b k s \<Longrightarrow> \<exists>t. copy_messages isof dw b k ms s = Inr t \<and> branch_ok dw b (k + length ms) t \<and> follows s t \<and>
     (\<exists>cs. thread_grows s t b cs \<and> map cg_content cs = map cg_content ms)"
proof (induction ms arbitrary: k s)
  case (Cons m ms)
  note ok = Cons.prems[unfolded branch_ok_def]
  then obtain w where s: "conversations_ok s" and w: "convs s b = Some w" by auto
  let ?m = "copied_message dw b k m" and ?e = "created_event isof dw k w b None (copied_message dw b k m)"
  let ?t = "grown b (counted w) [?m] [] [?e] s"
  have step: "list_message b [cg_id ?m] (put_message ?m s) = Inr (grown b w [?m] [] [] s)"
    using list_all[OF s w, of "[?m]"] by simp
  have emit: "emit_created isof dw k b None ?m (grown b w [?m] [] [] s) = Inr ?t"
    by (simp add: emit_created_def grown_emit created_event_def)
  have "sorted_wrt (<) (map (created_at s) (thread_ids s b) @ [su_now dw + int k])"
    using ok by (intro sorted_times[OF s]) auto
  then have g: "grows s b (counted w) [?m] [] [?e]"
    using ok ok_known(1)[OF s w] ok_log(1)[OF s w] ok_log(2)[OF s, of b] w
    by (simp add: grows_def replay_text_def)
  have t: "conversations_ok ?t" by (rule grown_ok[OF g]) simp_all
  have ms': "msgs ?t i = (if i = su_copy_id dw k then Some ?m else msgs s i)" for i
    by (simp add: grown_def)
  have later: "created_at ?t i < su_now dw + int (Suc k)" if "i \<in> set (thread_ids ?t b)" for i
  proof (cases "i = su_copy_id dw k")
    case True
    then show ?thesis by (simp add: created_at_def ms')
  next
    case False
    then have "i \<in> set (thread_ids s b)" using that by (simp add: grown_get)
    moreover have "created_at ?t i = created_at s i" using False by (simp add: created_at_def ms')
    ultimately show ?thesis using ok by force
  qed
  have "branch_ok dw b (Suc k) ?t"
    using ok t later by (auto simp: branch_ok_def ms' grown_get grown_conversation grown_runs_old inj_eq)
  from Cons.IH[OF this] obtain u cs where u: "copy_messages isof dw b (Suc k) ms ?t = Inr u"
    "branch_ok dw b (Suc k + length ms) u" "follows ?t u" "thread_grows ?t u b cs" "map cg_content cs = map cg_content ms"
    by blast
  have "thread_grows s ?t b [?m]" using ok by (intro grown_thread[OF s]) auto
  then have "thread_grows s u b (?m # cs)" using thread_grows_trans[OF _ u(4)] by fastforce
  moreover have "map cg_content (?m # cs) = map cg_content (m # ms)" using u(5) by simp
  moreover have "copy_messages isof dw b k (m # ms) s = Inr u" using step emit u(1) by (simp add: Let_def)
  moreover have "branch_ok dw b (k + length (m # ms)) u" using u(2) by simp
  ultimately show ?case using follows_trans[OF grown_follows[OF g] u(3)] by blast
qed (auto simp: thread_grows_def)

text \<open>A branch begins: its thread has copies of the earlier messages, the new text and an empty reply.\<close>

definition earlier :: "chat_message \<Rightarrow> chat_message list \<Rightarrow> chat_message list" where
  "earlier src ms = filter (\<lambda>m. (cg_created_at m, cg_id m) < (cg_created_at src, cg_id src)) ms"

lemma begin_edited_branch_outcome:
  assumes "conversations_ok s" and "fresh_draws dw s"
    and "dict_get (edited_branches s) (i, di_user_id identity, client) = None" and "msgs s i = Some src"
    and "require_conversation (cg_conversation_id src) (di_user_id identity) s = Inr original" and "cg_sender_type src = SENDER_USER"
  shows "\<exists>p t ms. conv_begin_edited_branch isof dw identity i client content vs s = Inr (p, t) \<and>
    conversations_ok t \<and> follows s t \<and> gr_conversation_id (pu_run p) = su_conversation_id dw \<and>
    thread_grows s t (su_conversation_id dw) ms \<and>
    map cg_content ms = map cg_content (earlier src (thread_of s (cg_conversation_id src))) @ [content, []]"
proof -
  let ?branch = "branch_of dw identity original (cg_id src)"
  let ?b = "co_id ?branch" and ?s0 = "add_conversation (branch_of dw identity original (cg_id src)) (di_user_id identity) s"
  have orig: "convs s (cg_conversation_id src) = Some original" using assms(5) require_conversation_known by blast
  have oid: "co_id original = cg_conversation_id src" using ok_known(1)[OF assms(1) orig] .
  have b: "?b = su_conversation_id dw" "co_event_sequence ?branch = 0"
    by (simp_all add: branch_of_def new_conversation_def)
  have new: "convs s ?b = None" using assms(2) b by (simp add: fresh_draws_def)
  have s0: "conversations_ok ?s0" "follows s ?s0"
    using assms(1) new b by (auto intro!: add_conversation_ok)
  have v: "convs ?s0 ?b = Some ?branch" by (simp add: add_conversation_def)
  let ?e = "event_at dw 0 ?branch ?b (lit ''conversation.created'') (conversation_payload isof ?branch) None None"
  let ?s1 = "grown ?b (counted ?branch) [] [] [?e] ?s0"
  have emit: "emit dw 0 ?b (lit ''conversation.created'') (conversation_payload isof ?branch) None None ?s0 = Inr ?s1"
    using grown_emit[of dw 0 ?b _ _ None None ?branch "[]" "[]" "[]" ?s0] ok_grown[OF s0(1) v] by simp
  have s1: "conversations_ok ?s1" "follows ?s0 ?s1"
    using s0(1) v by (auto intro!: plain_event_ok simp: textual_def status_event_def created_types_def refers_def)
  have views: "msgs ?s1 = msgs s" "runs ?s1 = runs s" "thread_ids ?s0 ?b = []" "client_runs ?s1 = client_runs s" "convs ?s1 (co_id original) \<noteq> None"
    using orig oid by (simp_all add: grown_def add_conversation_def fun_eq_iff)
  have "thread_ids s ?b = []" using ok_conversation(1)[OF assms(1), of ?b] new by (simp add: get_list_def)
  then have thread0: "thread_of ?s1 d = thread_of s d" for d
    by (simp add: thread_of_def views(1) grown_get views(3)) (simp add: add_conversation_def)
  have index: "dict_get (client_runs s) (?b, u, m) = None" for u m
    using ok_index(1)[OF assms(1), of "(?b, u, m)"] ok_run_conversation[OF assms(1)] new
    by (cases "dict_get (client_runs s) (?b, u, m)") (force simp: run_in_def)+
  then have start: "branch_ok dw ?b 1 ?s1"
    using s1(1) assms(2) by (simp add: branch_ok_def views fresh_draws_def grown_get)
  obtain ids where ids: "dict_get (conversation_messages ?s1) (co_id original) = Some ids"
    using ok_conversation(1)[OF s1(1), of "co_id original"] views(5) by auto
  then have thread: "messages_at ids ?s1 = Inr (thread_of s (co_id original))"
    using messages_at_thread[OF s1(1), of "co_id original"] thread0 by (simp add: get_list_Some)
  let ?copies = "earlier src (thread_of s (co_id original))"
  obtain s2 cs where s2: "copy_messages isof dw ?b 1 ?copies ?s1 = Inr s2" "branch_ok dw ?b (1 + length ?copies) s2" "follows ?s1 s2"
    and cs: "thread_grows ?s1 s2 ?b cs" "map cg_content cs = map cg_content ?copies"
    using copy_messages_ok[OF start] by blast
  let ?t = "su_now dw + int (length ?copies) + 1"
  let ?a = "(user_message identity (su_trigger_id dw) ?b client content ?t
      [text_part dw (di_tenant_id identity) (su_trigger_id dw) 0 BLOCK_MARKDOWN content ?t])\<lparr>cg_edited_from_id := Some (cg_id src)\<rparr>"
  let ?reply = "empty_reply dw identity ?b None (?t + 1)" and ?r = "queued_run dw identity vs ?b (cg_id ?a) ?t"
  obtain w where w: "convs s2 ?b = Some w" and ok2: "conversations_ok s2" using s2(2) by (auto simp: branch_ok_def)
  have "sorted_wrt (<) (map (created_at s2) (thread_ids s2 ?b) @ [?t, ?t + 1])"
    using s2(2) by (intro sorted_times[OF ok2]) (auto simp: branch_ok_def)
  then have starts: "begins s2 ?b [?a] ?reply ?r"
    using s2(2) by (simp add: begins_def branch_ok_def draws_facts)
  have free: "dict_get (client_runs s2) (?b, di_user_id identity, client) = None" using s2(2) by (simp add: branch_ok_def)
  note start_run = start_run_outcome[OF ok2 w starts _ free]
  obtain p where p: "start_run isof dw (length ?copies + 1) ([?a] @ [?reply]) ?r (?b, di_user_id identity, client)
      (Some (i, di_user_id identity, client)) s2 = Inr (p, begun isof dw (length ?copies + 1) w ([?a] @ [?reply]) ?r
        (indexed_run (?b, di_user_id identity, client) (Some (i, di_user_id identity, client)) ?r s2))" "pu_run p = ?r"
    using start_run(1) by fastforce
  let ?t = "begun isof dw (length ?copies + 1) w ([?a] @ [?reply]) ?r
    (indexed_run (?b, di_user_id identity, client) (Some (i, di_user_id identity, client)) ?r s2)"
  have "conv_begin_edited_branch isof dw identity i client content vs s = Inr (p, ?t)"
    using assms(3-6) emit ids thread s2(1) p(1) by (simp add: conv_begin_edited_branch_def Let_def at_key_def earlier_def)
  moreover have "conversations_ok ?t" "follows s2 ?t" by (rule start_run(2,3), simp)+
  moreover have "follows s s2" by (rule follows_trans[OF s0(2) follows_trans[OF s1(2) s2(3)]])
  moreover have "thread_grows s ?t ?b (cs @ [?a] @ [?reply])"
    using thread_grows_trans[OF cs(1) begun_thread[OF ok2 starts]] thread0 by (simp add: thread_grows_def)
  moreover have "map cg_content (cs @ [?a] @ [?reply]) = map cg_content ?copies @ [content, []]"
    using cs(2) by (simp add: draws_facts)
  moreover have "gr_conversation_id (pu_run p) = ?b" using p(2) by (simp add: draws_facts)
  ultimately show ?thesis unfolding b(1) oid using follows_trans by blast
qed

lemma begin_edited_branch_sound:
  assumes "conversations_ok s" and "fresh_draws dw s"
  shows "sound s (conv_begin_edited_branch isof dw identity i client content vs s)"
proof (cases "dict_get (edited_branches s) (i, di_user_id identity, client)")
  case (Some k)
  then show ?thesis
    using known_pending[OF assms(1) ok_index(2)[OF assms(1) Some]] by (simp add: conv_begin_edited_branch_def)
next
  case None
  show ?thesis
  proof (cases "msgs s i")
    case None': None
    then show ?thesis using None by (simp add: conv_begin_edited_branch_def)
  next
    case (Some src)
    show ?thesis
    proof (cases "require_conversation (cg_conversation_id src) (di_user_id identity) s")
      case (Inl e)
      then show ?thesis
        using None Some require_conversation_sound[of "cg_conversation_id src" "di_user_id identity" s]
        by (simp add: conv_begin_edited_branch_def)
    next
      case (Inr original)
      show ?thesis
      proof (cases "cg_sender_type src = SENDER_USER")
        case True
        obtain p t where "conv_begin_edited_branch isof dw identity i client content vs s = Inr (p, t)" "conversations_ok t" "follows s t"
          using begin_edited_branch_outcome[OF assms None Some Inr True, of isof content vs] by blast
        then show ?thesis by simp
      next
        case False
        then show ?thesis using None Some Inr by (simp add: conv_begin_edited_branch_def)
      qed
    qed
  qed
qed

end
