(* ===== verification/Conversation_Machine.thy ===== *)
theory Conversation_Machine
  imports Conversation_Growth
begin

text \<open>
  The repository of conversations as a state machine. \<open>perform\<close> gives the effect of one call of any method
  that writes, \<open>conversation_step\<close> is a call that returns; as every method holds the lock, the calls of all
  clients interleave as such steps. The invariant \<open>conversations_ok\<close> and the relation \<open>follows\<close> are shown
  for every step, and no call ends in a failed lookup.
\<close>

section \<open>The methods of a run\<close>

lemma mark_run_started_sound:
  assumes "conversations_ok s"
  shows "sound s (conv_mark_run_started dw i s)"
proof (cases "runs s i")
  case None
  then show ?thesis by (simp add: conv_mark_run_started_def require_run_def)
next
  case (Some r)
  show ?thesis
  proof (cases "gr_status r = RUN_QUEUED")
    case True
    obtain t where "conv_mark_run_started dw i s = Inr (r\<lparr>gr_status := RUN_RUNNING, gr_started_at := Some (su_now dw)\<rparr>, t)"
      "conversations_ok t" "follows s t"
      by (rule started_run_ok[OF assms Some True])
    then show ?thesis by simp
  next
    case False
    then show ?thesis by (simp add: conv_mark_run_started_def require_run_def Some)
  qed
qed

lemma require_running_run_known:
  "require_running_run i s = Inr r \<longleftrightarrow> runs s i = Some r \<and> gr_status r = RUN_RUNNING"
  by (cases "runs s i") (auto simp: require_running_run_def require_run_def)

lemma append_run_delta_sound:
  assumes "conversations_ok s"
  shows "sound s (conv_append_run_delta dw i delta s)"
proof (cases "require_running_run i s")
  case (Inl e)
  then show ?thesis using require_run_sound(2)[of i s] by (simp add: conv_append_run_delta_def)
next
  case (Inr r)
  then have r: "runs s i = Some r" "gr_status r = RUN_RUNNING" by (simp_all add: require_running_run_known)
  obtain m t where "conv_append_run_delta dw i delta s = Inr (extended_reply delta (su_now dw) m, t)"
    "conversations_ok t" "follows s t"
    using extended_run_ok[OF assms r] by metis
  then show ?thesis by simp
qed

lemma complete_run_sound:
  assumes "conversations_ok s"
  shows "sound s (conv_complete_run isof dw i usage suppress s)"
proof (cases "require_running_run i s")
  case (Inl e)
  then show ?thesis using require_run_sound(2)[of i s] by (simp add: conv_complete_run_def)
next
  case (Inr r)
  then have r: "runs s i = Some r" "gr_status r = RUN_RUNNING" by (simp_all add: require_running_run_known)
  obtain t where "conv_complete_run isof dw i usage suppress s = Inr (completed_run usage (su_now dw) r, t)"
    "conversations_ok t" "follows s t"
    by (rule completed_run_ok[OF assms r])
  then show ?thesis by simp
qed

lemma failed_run_ok:
  assumes "conversations_ok s" and "runs s i = Some r" and "gr_status r \<noteq> RUN_CANCELLED"
  obtains t where "conv_fail_run dw i code s =
      Inr (r\<lparr>gr_status := RUN_FAILED, gr_error_code := Some code, gr_completed_at := Some (su_now dw)\<rparr>, t)"
    "conversations_ok t" "follows s t"
proof -
  let ?r = "r\<lparr>gr_status := RUN_FAILED, gr_error_code := Some code, gr_completed_at := Some (su_now dw)\<rparr>"
  have id: "gr_id r = i" using ok_known(3)[OF assms(1,2)] .
  obtain t where "end_run dw (lit ''run.failed'') ?r MESSAGE_FAILED s = Inr (?r, t)" "conversations_ok t" "follows s t"
    by (rule ended_run_ok[OF assms(1), where r = r and r' = ?r and st = RUN_FAILED and code = "Some code" and
          finish = "Some (su_now dw)" and status = MESSAGE_FAILED and event_type = "lit ''run.failed''" and dw = dw])
      (use assms(2,3) id in \<open>auto simp: later_status_def simp flip: lit_append intro: run_status.exhaust[of "gr_status r"]\<close>)
  then show ?thesis using that assms(2,3) by (simp add: conv_fail_run_def require_run_def)
qed

lemma fail_run_sound:
  assumes "conversations_ok s"
  shows "sound s (conv_fail_run dw i code s)"
proof (cases "runs s i")
  case None
  then show ?thesis by (simp add: conv_fail_run_def require_run_def)
next
  case (Some r)
  show ?thesis
  proof (cases "gr_status r = RUN_CANCELLED")
    case True
    then show ?thesis using assms by (simp add: conv_fail_run_def require_run_def Some)
  next
    case False
    then show ?thesis using failed_run_ok[OF assms Some False, of dw code] by fastforce
  qed
qed

lemma cancelled_run_ok:
  assumes "conversations_ok s" and "runs s i = Some r" and "\<not> ended (gr_status r)"
  obtains t where "end_run dw (lit ''run.cancelled'')
      (r\<lparr>gr_status := RUN_CANCELLED, gr_completed_at := Some (su_now dw)\<rparr>) MESSAGE_CANCELLED s =
      Inr (r\<lparr>gr_status := RUN_CANCELLED, gr_completed_at := Some (su_now dw)\<rparr>, t)"
    "conversations_ok t" "follows s t"
proof -
  let ?r = "r\<lparr>gr_status := RUN_CANCELLED, gr_completed_at := Some (su_now dw)\<rparr>"
  have id: "gr_id r = i" using ok_known(3)[OF assms(1,2)] .
  show ?thesis
    by (rule ended_run_ok[OF assms(1), where r = r and r' = ?r and st = RUN_CANCELLED and code = "gr_error_code r" and
          finish = "Some (su_now dw)" and status = MESSAGE_CANCELLED and event_type = "lit ''run.cancelled''" and dw = dw])
      (use that assms(2,3) id in \<open>auto simp: later_status_def ended_def simp flip: lit_append intro: run_status.exhaust[of "gr_status r"]\<close>)
qed

lemma cancel_run_sound:
  assumes "conversations_ok s"
  shows "sound s (conv_cancel_run dw i u s)"
  unfolding conv_cancel_run_def
proof (rule sound_bind, simp, rule sound_bind, simp)
  fix r v
  assume "require_run i s = Inr r"
  then have r: "runs s i = Some r" by (rule require_run_known)
  show "sound s (if gr_status r \<in> {RUN_COMPLETED, RUN_CANCELLED, RUN_FAILED} then Inr (r, s)
      else end_run dw (lit ''run.cancelled'') (r\<lparr>gr_status := RUN_CANCELLED, gr_completed_at := Some (su_now dw)\<rparr>)
        MESSAGE_CANCELLED s)"
    using assms cancelled_run_ok[OF assms r, of dw] by (fastforce simp: ended_def)
qed

section \<open>Calls\<close>

datatype conversation_call =
    EnsureIdentity development_identity
  | CreateConversation development_identity ustr
  | UpdateConversation uuid uuid "ustr option" "conversation_status option" "bool option"
  | DeleteConversation uuid uuid
  | BeginRun development_identity uuid uuid ustr "attachment list" run_versions "content_block list"
  | BeginRegeneration development_identity uuid uuid run_versions
  | BeginBranch development_identity uuid uuid ustr run_versions
  | StartRun uuid
  | AppendDelta uuid ustr
  | CompleteRun uuid "model_usage option" bool
  | FailRun uuid ustr
  | CancelRun uuid uuid
  | SetFeedback uuid uuid feedback_rating "ustr option"
  | DeleteFeedback uuid uuid

definition effect :: "conversation_error + ('a \<times> conversation_store) \<Rightarrow> conversation_error + conversation_store" where
  "effect res = map_sum id snd res"

fun perform :: "(instant \<Rightarrow> ustr) \<Rightarrow> draws \<Rightarrow> conversation_call \<Rightarrow> conversation_store \<Rightarrow> conversation_error + conversation_store" where
  "perform isof dw (EnsureIdentity i) s = Inr (snd (conv_ensure_development_identity i s))"
| "perform isof dw (CreateConversation i title) s = effect (conv_create_conversation dw i title s)"
| "perform isof dw (UpdateConversation c u title status pinned) s = effect (conv_update_conversation isof dw c u title status pinned s)"
| "perform isof dw (DeleteConversation c u) s = effect (conv_soft_delete_conversation isof dw c u s)"
| "perform isof dw (BeginRun i c client content as v blocks) s = effect (conv_begin_agent_run isof dw i c client content as v blocks s)"
| "perform isof dw (BeginRegeneration i m client v) s = effect (conv_begin_regeneration isof dw i m client v s)"
| "perform isof dw (BeginBranch i m client content v) s = effect (conv_begin_edited_branch isof dw i m client content v s)"
| "perform isof dw (StartRun r) s = effect (conv_mark_run_started dw r s)"
| "perform isof dw (AppendDelta r delta) s = effect (conv_append_run_delta dw r delta s)"
| "perform isof dw (CompleteRun r usage suppress) s = effect (conv_complete_run isof dw r usage suppress s)"
| "perform isof dw (FailRun r code) s = effect (conv_fail_run dw r code s)"
| "perform isof dw (CancelRun r u) s = effect (conv_cancel_run dw r u s)"
| "perform isof dw (SetFeedback m u rating remark) s = effect (conv_set_message_feedback isof dw m u rating remark s)"
| "perform isof dw (DeleteFeedback m u) s = effect (conv_delete_message_feedback dw m u s)"

lemma effect_simps [simp]: "effect (Inl e) = Inl e" "effect (Inr (x, t)) = Inr t"
  by (simp_all add: effect_def)

definition sound_effect :: "conversation_store \<Rightarrow> conversation_error + conversation_store \<Rightarrow> bool" where
  "sound_effect s res \<longleftrightarrow> res \<noteq> Inl MissingKey \<and> (\<forall>t. res = Inr t \<longrightarrow> conversations_ok t \<and> follows s t)"

lemma effect_sound: "sound s res \<Longrightarrow> sound_effect s (effect res)"
  by (auto simp: sound_def sound_effect_def effect_def split: sum.splits)

lemmas method_sound = create_sound update_sound delete_sound begin_agent_run_sound begin_regeneration_sound
  begin_edited_branch_sound mark_run_started_sound append_run_delta_sound complete_run_sound fail_run_sound
  cancel_run_sound set_feedback_sound delete_feedback_sound

lemma perform_sound: "conversations_ok s \<Longrightarrow> fresh_draws dw s \<Longrightarrow> sound_effect s (perform isof dw call s)"
proof (cases call)
  case (EnsureIdentity i)
  assume "conversations_ok s"
  then show ?thesis
    using EnsureIdentity by (auto simp: sound_effect_def conv_ensure_development_identity_def ok_identity intro: follows_views)
qed (simp_all add: effect_sound method_sound)

lemma performed_ok:
  "conversations_ok s \<Longrightarrow> fresh_draws dw s \<Longrightarrow> perform isof dw call s = Inr t \<Longrightarrow> conversations_ok t \<and> follows s t"
  using perform_sound unfolding sound_effect_def by blast

section \<open>Steps\<close>

inductive conversation_step :: "(instant \<Rightarrow> ustr) \<Rightarrow> conversation_store \<Rightarrow> conversation_store \<Rightarrow> bool" for isof where
  performed: "perform isof dw call s = Inr t \<Longrightarrow> fresh_draws dw s \<Longrightarrow> conversation_step isof s t"

interpretation conversations: state_machine "\<lambda>s. s = empty_conversation_store" "conversation_step isof" conversations_ok
  for isof
  by unfold_locales (auto simp: empty_store_ok elim!: conversation_step.cases dest: performed_ok)

lemma step_follows: "conversations_ok s \<Longrightarrow> conversation_step isof s t \<Longrightarrow> follows s t"
  by (auto elim!: conversation_step.cases dest: performed_ok)

lemma steps_follow:
  assumes "(conversation_step isof)\<^sup>*\<^sup>* s t" and "conversations_ok s"
  shows "conversations_ok t \<and> follows s t"
  using assms
proof (induction rule: rtranclp_induct)
  case (step t u)
  then show ?case using conversations.inv_step step_follows follows_trans by blast
qed simp

text \<open>
  The WebSocket of a conversation (\<open>apps/api/.../routes/conversation.py\<close>, \<open>conversation_events\<close>) over the list of
  events that \<open>ConversationService.list_events\<close> gives. The locale \<open>event_source\<close> states what the loop needs
  of a repository: a log that only grows, numbered from one, and a poll that returns the next batch of
  it. Its lemmas hold for every interleaving of polls with writes of other clients.
\<close>

section \<open>The service\<close>

definition service_get_conversation :: "development_identity \<Rightarrow> uuid \<Rightarrow> conversation_store \<Rightarrow> conversation_error + conversation" where
  "service_get_conversation identity conversation_id s =
     (case conv_get_conversation_for_user conversation_id (di_user_id identity) (di_agent_id identity) s of
        None \<Rightarrow> Inl ConversationMissing | Some c \<Rightarrow> Inr c)"

definition service_list_events ::
    "development_identity \<Rightarrow> uuid \<Rightarrow> int \<Rightarrow> int \<Rightarrow> conversation_store \<Rightarrow> conversation_error + conversation_event list" where
  "service_list_events identity conversation_id after_sequence limit s =
     bind_result (service_get_conversation identity conversation_id s) (\<lambda>_.
       conv_list_events conversation_id (di_user_id identity) after_sequence limit s)"

section \<open>The loop\<close>

text \<open>The variable \<open>sequence\<close> of the loop and what it has sent.\<close>

record event_stream =
  es_sequence :: int
  es_sent :: "conversation_event list"

definition opened_stream :: "int \<Rightarrow> event_stream" where
  "opened_stream after_sequence = \<lparr>es_sequence = after_sequence, es_sent = []\<rparr>"

definition send_event :: "conversation_event \<Rightarrow> event_stream \<Rightarrow> event_stream" where
  "send_event e w = \<lparr>es_sequence = vn_sequence e, es_sent = es_sent w @ [e]\<rparr>"

text \<open>One round: an exception ends the loop and sends nothing.\<close>

definition stream_round :: "(int \<Rightarrow> 's \<Rightarrow> 'e + conversation_event list) \<Rightarrow> 's \<Rightarrow> event_stream \<Rightarrow> event_stream" where
  "stream_round poll s w = (case poll (es_sequence w) s of Inl _ \<Rightarrow> w | Inr es \<Rightarrow> fold send_event es w)"

inductive streaming ::
    "('s \<Rightarrow> 's \<Rightarrow> bool) \<Rightarrow> (int \<Rightarrow> 's \<Rightarrow> 'e + conversation_event list) \<Rightarrow> 's \<times> event_stream \<Rightarrow> 's \<times> event_stream \<Rightarrow> bool"
  for step poll where
  written: "step s t \<Longrightarrow> streaming step poll (s, w) (t, w)"
| polled: "streaming step poll (s, w) (s, stream_round poll s w)"

lemma fold_send_sent [simp]: "es_sent (fold send_event es w) = es_sent w @ es"
  by (induction es arbitrary: w) (simp_all add: send_event_def)

lemma fold_send_sequence: "es \<noteq> [] \<Longrightarrow> es_sequence (fold send_event es w) = vn_sequence (last es)"
  by (induction es arbitrary: w) (auto simp: send_event_def)

section \<open>Numbered logs\<close>

lemma numbered_nth:
  assumes "numbered es" and "i < length es"
  shows "vn_sequence (es ! i) = int i + 1"
proof -
  have "map vn_sequence es ! i = map int [1..<Suc (length es)] ! i" using assms(1) by (simp add: numbered_def)
  then show ?thesis using assms(2) by (simp del: upt_Suc)
qed

lemma numbered_after:
  assumes "numbered es" and "0 \<le> n"
  shows "filter (\<lambda>e. n < vn_sequence e) es = drop (nat n) es"
  using assms(1)
proof (induction es rule: rev_induct)
  case (snoc e es)
  then have "vn_sequence e = int (length es) + 1" "numbered es" by simp_all
  then show ?case using snoc.IH assms(2) by (auto simp: nat_le_iff)
qed simp

section \<open>Sources of events\<close>

locale event_source =
  fixes ok :: "'s \<Rightarrow> bool" and step :: "'s \<Rightarrow> 's \<Rightarrow> bool" and log :: "'s \<Rightarrow> conversation_event list"
    and poll :: "int \<Rightarrow> 's \<Rightarrow> 'e + conversation_event list" and ready :: "'s \<Rightarrow> bool" and batch :: nat
  assumes ok_step: "ok s \<Longrightarrow> step s t \<Longrightarrow> ok t"
    and log_numbered: "ok s \<Longrightarrow> numbered (log s)"
    and log_grows: "ok s \<Longrightarrow> step s t \<Longrightarrow> \<exists>es. log t = log s @ es"
    and poll_next: "ok s \<Longrightarrow> poll n s = Inr es \<Longrightarrow> es = take batch (filter (\<lambda>e. n < vn_sequence e) (log s))"
    and poll_ready: "ok s \<Longrightarrow> ready s \<Longrightarrow> poll n s \<noteq> Inl e"
    and batch_positive: "0 < batch"
begin

definition faithful :: "int \<Rightarrow> 's \<Rightarrow> event_stream \<Rightarrow> bool" where
  "faithful a s w \<longleftrightarrow> es_sequence w = a + int (length (es_sent w)) \<and> (\<exists>es. drop (nat a) (log s) = es_sent w @ es)"

lemma opened_faithful: "faithful a s (opened_stream a)"
  by (simp add: faithful_def opened_stream_def)

lemma log_drop_grows: "ok s \<Longrightarrow> step s t \<Longrightarrow> \<exists>es. drop k (log t) = drop k (log s) @ es"
  using log_grows[of s t] by auto

lemma written_faithful: "ok s \<Longrightarrow> step s t \<Longrightarrow> faithful a s w \<Longrightarrow> faithful a t w"
  using log_drop_grows[of s t "nat a"] by (auto simp: faithful_def)

text \<open>A poll sends the next events of the log, up to the size of a batch.\<close>

lemma round_sends:
  assumes "ok s" and "0 \<le> a" and "faithful a s w" and "poll (es_sequence w) s = Inr es"
  shows "es_sent (stream_round poll s w) = take (length (es_sent w) + batch) (drop (nat a) (log s))"
proof -
  obtain rest where rest: "drop (nat a) (log s) = es_sent w @ rest" using assms(3) by (auto simp: faithful_def)
  have "nat (es_sequence w) = length (es_sent w) + nat a" using assms(2,3) by (simp add: faithful_def nat_add_distrib)
  then have "drop (nat (es_sequence w)) (log s) = rest" using rest by (metis append_eq_conv_conj drop_drop)
  then have "es = take batch rest"
    using poll_next[OF assms(1,4)] numbered_after[OF log_numbered[OF assms(1)], of "es_sequence w"] assms(2,3)
    by (simp add: faithful_def)
  then show ?thesis using rest assms(4) by (simp add: stream_round_def)
qed

lemma round_faithful:
  assumes "ok s" and "0 \<le> a" and "faithful a s w"
  shows "faithful a s (stream_round poll s w)"
proof (cases "poll (es_sequence w) s")
  case (Inl e)
  then show ?thesis using assms(3) by (simp add: stream_round_def)
next
  case (Inr es)
  let ?w = "stream_round poll s w" and ?rest = "drop (nat a) (log s)"
  have sent: "es_sent ?w = take (length (es_sent w) + batch) ?rest" by (rule round_sends[OF assms Inr])
  have w: "?w = fold send_event es w" using Inr by (simp add: stream_round_def)
  have "es_sequence ?w = a + int (length (es_sent ?w))"
  proof (cases "es = []")
    case True
    then show ?thesis using w assms(3) by (simp add: faithful_def)
  next
    case False
    let ?n = "length (es_sent ?w)"
    have n: "0 < ?n" "last (es_sent ?w) = last es" using w False by simp_all
    moreover have "?n \<le> length ?rest" unfolding sent by simp
    ultimately have n: "0 < ?n" "last (es_sent ?w) = last es" "?n \<le> length ?rest" by blast+
    have fits: "nat a + ?n \<le> length (log s)" using n(1,3) unfolding length_drop by linarith
    obtain tail where tail: "?rest = es_sent ?w @ tail" unfolding sent by (metis append_take_drop_id)
    obtain k where k: "?n = Suc k" using n(1) gr0_implies_Suc by blast
    have "last es = es_sent ?w ! k" using n(2) k by (metis diff_Suc_1 last_conv_nth length_0_conv nat.distinct(1))
    also have "\<dots> = ?rest ! k" unfolding tail nth_append using k by simp
    also have "\<dots> = log s ! (nat a + k)" using fits k by (intro nth_drop) simp
    finally have "vn_sequence (last es) = int (nat a + k) + 1"
      using numbered_nth[OF log_numbered[OF assms(1)], of "nat a + k"] k fits by simp
    then show ?thesis using w False fold_send_sequence[of es w] k assms(2) by simp
  qed
  moreover have "\<exists>es. ?rest = es_sent ?w @ es" unfolding sent by (metis append_take_drop_id)
  ultimately show ?thesis by (simp add: faithful_def)
qed

lemma streaming_faithful:
  assumes "(streaming step poll)\<^sup>*\<^sup>* (s, w) (t, x)" and "ok s" and "0 \<le> a" and "faithful a s w"
  shows "ok t \<and> faithful a t x"
  using assms(1)
proof (induction "(t, x)" arbitrary: t x rule: rtranclp_induct)
  case base
  then show ?case using assms(2,4) by simp
next
  case (step y)
  obtain u v where y: "y = (u, v)" by (cases y)
  then have "ok u \<and> faithful a u v" using step.hyps(3) by simp
  with step.hyps(2) show ?case
    unfolding y by cases (auto intro: ok_step written_faithful round_faithful[OF _ assms(3)])
qed

text \<open>While nobody writes, rounds catch up.\<close>

lemma rounds_catch_up:
  assumes "ok s" and "ready s" and "0 \<le> a" and "faithful a s w"
  shows "faithful a s ((stream_round poll s ^^ k) w) \<and>
    take (length (es_sent w) + k * batch) (drop (nat a) (log s)) = es_sent ((stream_round poll s ^^ k) w)"
proof (induction k)
  case 0
  then show ?case using assms(4) by (auto simp: faithful_def)
next
  case (Suc k)
  let ?v = "(stream_round poll s ^^ k) w" and ?rest = "drop (nat a) (log s)"
  have v: "faithful a s ?v" "es_sent ?v = take (length (es_sent w) + k * batch) ?rest" using Suc.IH by simp_all
  obtain es where "poll (es_sequence ?v) s = Inr es"
    using poll_ready[OF assms(1,2), of "es_sequence ?v"] by (cases "poll (es_sequence ?v) s") auto
  from round_sends[OF assms(1,3) v(1) this]
  have "es_sent (stream_round poll s ?v) = take (length (es_sent ?v) + batch) ?rest" .
  moreover have "take (length (es_sent ?v) + batch) ?rest = take (length (es_sent w) + Suc k * batch) ?rest"
  proof (cases "length (es_sent w) + k * batch \<le> length ?rest")
    case True
    then show ?thesis using v(2) by (simp add: add.commute add.left_commute)
  next
    case False
    then show ?thesis using v(2) by simp
  qed
  ultimately show ?case using round_faithful[OF assms(1,3) v(1)] by simp
qed

lemma all_sent:
  assumes "ok s" and "ready s" and "0 \<le> a" and "faithful a s w" and "length (log s) \<le> k * batch"
  shows "es_sent ((stream_round poll s ^^ k) w) = drop (nat a) (log s)"
  using rounds_catch_up[OF assms(1-4), of k] assms(5) by (simp add: take_all)

end

section \<open>The repository as a source of events\<close>

definition conversation_visible :: "development_identity \<Rightarrow> uuid \<Rightarrow> conversation_store \<Rightarrow> bool" where
  "conversation_visible identity c s \<longleftrightarrow> visible_conversation (di_user_id identity) (di_agent_id identity) s c \<noteq> None"

lemma service_list_events_known:
  assumes "service_list_events identity c n 200 s = Inr es"
  shows "es = take 200 (filter (\<lambda>e. n < vn_sequence e) (events_of s c))"
  using assms
  by (auto simp: service_list_events_def service_get_conversation_def conv_list_events_def require_conversation_def
      py_take_def result_laws split: option.splits if_splits)

lemma service_list_events_ready:
  assumes "conversation_visible identity c s"
  shows "service_list_events identity c n limit s \<noteq> Inl e"
  using assms
  by (auto simp: conversation_visible_def visible_conversation_def service_list_events_def service_get_conversation_def
      conv_get_conversation_for_user_def conv_list_events_def require_conversation_def split: option.splits if_splits)

interpretation socket: event_source conversations_ok "conversation_step isof" "\<lambda>s. events_of s c"
    "\<lambda>n. service_list_events identity c n 200" "conversation_visible identity c" 200
  for isof c identity
proof unfold_locales
  show "conversations_ok t" if "conversations_ok s" "conversation_step isof s t" for s t
    using that by (rule conversations.inv_step)
  show "numbered (events_of s c)" if "conversations_ok s" for s using ok_log(2)[OF that] .
  show "\<exists>es. events_of t c = events_of s c @ es" if "conversations_ok s" "conversation_step isof s t" for s t
    using followsD(2)[OF step_follows[OF that]] .
  show "es = take 200 (filter (\<lambda>e. n < vn_sequence e) (events_of s c))"
    if "service_list_events identity c n 200 s = Inr es" for s n es
    using that by (rule service_list_events_known)
  show "service_list_events identity c n 200 s \<noteq> Inl e" if "conversation_visible identity c s" for s n e
    using that by (rule service_list_events_ready)
qed simp

end
