(* ===== verification/Conversation_Example.thy ===== *)
theory Conversation_Example
  imports Conversation_Machine
begin

text \<open>
  A small example for the witnesses: calls with draws that are new because every identifier in use is
  smaller, run by evaluation from the empty store.
\<close>

definition sample_conv_draws :: "nat \<Rightarrow> draws" where
  "sample_conv_draws b = \<lparr>su_conversation_id = b, su_trigger_id = b, su_response_id = b + 1, su_run_id = b,
     su_feedback_id = b, su_copy_id = (\<lambda>k. b + 2 + k), su_part_id = (\<lambda>i k. i + k), su_event_id = (\<lambda>k. b + k),
     su_now = int b, su_event_time = (\<lambda>k. int b)\<rparr>"

definition ids_below :: "nat \<Rightarrow> conversation_store \<Rightarrow> bool" where
  "ids_below b s \<longleftrightarrow> list_all (\<lambda>(i, _). i < b) (conversation_map s) \<and> list_all (\<lambda>(i, _). i < b) (message_map s) \<and>
     list_all (\<lambda>(i, _). i < b) (run_map s)"

lemma all_below_None: "list_all (\<lambda>(i, _). i < b) d \<Longrightarrow> b \<le> i \<Longrightarrow> dict_get d i = None" for b i :: nat
proof (cases "dict_get d i")
  case (Some v)
  assume "list_all (\<lambda>(i, _). i < b) d" "b \<le> i"
  moreover have "(i, v) \<in> set d" using Some by (simp add: dict_get_def map_of_SomeD)
  ultimately show ?thesis by (auto simp: list_all_iff)
qed

lemma below_fresh: "ids_below b s \<Longrightarrow> fresh_draws (sample_conv_draws b) s"
  by (auto simp: fresh_draws_def ids_below_def sample_conv_draws_def all_below_None inj_def)

definition sample_isof :: "instant \<Rightarrow> ustr" where
  "sample_isof t = lit ''t''"

fun sample_run_calls :: "(nat \<times> conversation_call) list \<Rightarrow> conversation_store \<Rightarrow> conversation_store option" where
  "sample_run_calls [] s = Some s"
| "sample_run_calls ((b, call) # calls) s =
     (if \<not> ids_below b s then None
      else case perform sample_isof (sample_conv_draws b) call s of Inl _ \<Rightarrow> None | Inr t \<Rightarrow> sample_run_calls calls t)"

lemma sample_run_steps: "sample_run_calls calls s = Some t \<Longrightarrow> (conversation_step sample_isof)\<^sup>*\<^sup>* s t"
proof (induction calls arbitrary: s)
  case (Cons c calls)
  obtain b call where c: "c = (b, call)" by (cases c)
  obtain u where u: "ids_below b s" "perform sample_isof (sample_conv_draws b) call s = Inr u" "sample_run_calls calls u = Some t"
    using Cons.prems unfolding c by (auto split: if_splits sum.splits)
  have "conversation_step sample_isof s u" using u(2) below_fresh[OF u(1)] by (rule performed)
  then show ?case using Cons.IH[OF u(3)] by (rule converse_rtranclp_into_rtranclp)
qed simp

definition sample_conv_identity :: development_identity where
  "sample_conv_identity = \<lparr>di_tenant_id = 1, di_user_id = 2, di_agent_id = 3, di_user_name = lit ''u'', di_agent_name = lit ''a''\<rparr>"

definition sample_run_versions :: run_versions where
  "sample_run_versions = \<lparr>rv_configuration_version = 1, rv_persona_version = 1, rv_prompt_version = 1,
     rv_policy_version = 1, rv_model_route_version = 1, rv_model_profile = lit ''p''\<rparr>"

text \<open>The store after some calls; it is reachable whatever the calls are.\<close>

definition sample_conversations :: "(nat \<times> conversation_call) list \<Rightarrow> conversation_store" where
  "sample_conversations calls = (case sample_run_calls calls empty_conversation_store of
     None \<Rightarrow> empty_conversation_store | Some s \<Rightarrow> s)"

abbreviation conversations_reachable :: "(instant \<Rightarrow> ustr) \<Rightarrow> conversation_store \<Rightarrow> bool" where
  "conversations_reachable isof \<equiv> reachable (\<lambda>s. s = empty_conversation_store) (conversation_step isof)"

lemma reachable_steps: "conversations_reachable isof s \<Longrightarrow> (conversation_step isof)\<^sup>*\<^sup>* s t \<Longrightarrow> conversations_reachable isof t"
  by (erule rtranclp_induct) (auto intro: reachable.next_state)

lemma sample_conversations_reachable: "conversations_reachable sample_isof (sample_conversations calls)"
proof (cases "sample_run_calls calls empty_conversation_store")
  case (Some s)
  then show ?thesis
    using reachable_steps[OF reachable.start sample_run_steps[OF Some]] by (simp add: sample_conversations_def)
qed (simp add: sample_conversations_def reachable.start)

lemma sample_run_append:
  "sample_run_calls (calls @ rest) s = (case sample_run_calls calls s of None \<Rightarrow> None | Some t \<Rightarrow> sample_run_calls rest t)"
  by (induction calls arbitrary: s) (auto split: sum.split)

lemma sample_conversations_steps:
  assumes "sample_run_calls (calls @ rest) empty_conversation_store \<noteq> None"
  shows "(conversation_step sample_isof)\<^sup>*\<^sup>* (sample_conversations calls) (sample_conversations (calls @ rest))"
  using assms sample_run_steps
  by (auto simp: sample_conversations_def sample_run_append split: option.splits)

text \<open>A conversation with a message, and a run of it that streams and completes its reply.\<close>

definition sample_begin_calls :: "(nat \<times> conversation_call) list" where
  "sample_begin_calls = [(100, CreateConversation sample_conv_identity (lit ''c'')),
     (200, BeginRun sample_conv_identity 100 7 (lit ''hi'') [] sample_run_versions [])]"

definition sample_reply_calls :: "(nat \<times> conversation_call) list" where
  "sample_reply_calls = [(300, StartRun 200), (400, AppendDelta 200 (lit ''yo'')), (500, CompleteRun 200 None False)]"

definition sample_cancel_calls :: "(nat \<times> conversation_call) list" where
  "sample_cancel_calls = [(300, StartRun 200), (400, CancelRun 200 2)]"

definition sample_fail_calls :: "(nat \<times> conversation_call) list" where
  "sample_fail_calls = [(600, FailRun 200 (lit ''e''))]"

lemmas perform_defs = conv_create_conversation_def new_conversation_def add_conversation_def emit_def at_key_def
  conv_begin_agent_run_def require_conversation_def next_message_time_def messages_at_def new_message_parts_def
  user_message_def empty_reply_def queued_run_def start_run_def list_message_def put_message_def put_run_def
  indexed_run_def emit_created_def emit_run_def pending_of_def touch_conversation_def text_part_def
  conv_mark_run_started_def conv_append_run_delta_def conv_complete_run_def require_run_def require_running_run_def
  extended_reply_def extended_part_def completed_run_def conv_fail_run_def conv_cancel_run_def end_run_def

lemmas sample_conv_defs = sample_conv_draws_def ids_below_def sample_isof_def sample_conv_identity_def sample_run_versions_def
  empty_conversation_store_def sample_begin_calls_def sample_reply_calls_def sample_cancel_calls_def sample_fail_calls_def
  perform_defs dict_get_def dict_set_def get_list_def Let_def

lemmas sample_view = sample_conversations_def sample_conv_defs

abbreviation sample_begun :: conversation_store where
  "sample_begun \<equiv> sample_conversations sample_begin_calls"

abbreviation sample_replied :: conversation_store where
  "sample_replied \<equiv> sample_conversations (sample_begin_calls @ sample_reply_calls)"

abbreviation sample_cancelled :: conversation_store where
  "sample_cancelled \<equiv> sample_conversations (sample_begin_calls @ sample_cancel_calls)"

lemma sample_replies: "(conversation_step sample_isof)\<^sup>*\<^sup>* sample_begun sample_replied"
  by (rule sample_conversations_steps) (simp add: sample_conv_defs)

lemma sample_fails:
  "(conversation_step sample_isof)\<^sup>*\<^sup>* sample_replied (sample_conversations ((sample_begin_calls @ sample_reply_calls) @ sample_fail_calls))"
  "(conversation_step sample_isof)\<^sup>*\<^sup>* sample_cancelled (sample_conversations ((sample_begin_calls @ sample_cancel_calls) @ sample_fail_calls))"
  by (rule sample_conversations_steps; simp add: sample_conv_defs)+

lemma sample_begun_views:
  "\<exists>m. msgs sample_begun 200 = Some m \<and> cg_content m = lit ''hi'' \<and> cg_id m = 200 \<and> cg_sender_type m = SENDER_USER"
  "\<exists>m. msgs sample_begun 201 = Some m \<and> cg_content m = [] \<and> cg_id m = 201"
  "thread_ids sample_begun 100 = [200, 201]" "(100, 2) \<in> member_set sample_begun" "(100, 9) \<notin> member_set sample_begun"
  "\<exists>v. require_conversation 100 2 sample_begun = Inr v" "edited_branches sample_begun = []"
  "conversation_visible sample_conv_identity 100 sample_begun" "length (events_of sample_begun 100) = 4" "ids_below 700 sample_begun"
  by (simp_all add: sample_view conversation_visible_def visible_conversation_def)

lemma sample_replied_views:
  "\<exists>m. msgs sample_replied 201 = Some m \<and> cg_content m = lit ''yo''"
  "\<exists>r. runs sample_replied 200 = Some r \<and> gr_status r = RUN_COMPLETED \<and> gr_response_message_id r = 201"
  by (simp_all add: sample_view)

lemma sample_cancelled_view: "\<exists>r. runs sample_cancelled 200 = Some r \<and> gr_status r = RUN_CANCELLED"
  by (simp add: sample_view)

end
