(* ===== verification/Conversation_Properties.thy ===== *)
theory Conversation_Properties
  imports Conversation_Example "HOL-Library.Multiset"
begin

text \<open>What the repository of conversations and its WebSocket promise to clients, for every interleaving of calls.\<close>

lemmas reachable_conversations_ok = conversations.reachable_inv

section \<open>Events\<close>

text \<open>C23: In every reachable store the events of a conversation rebuild it: applied in order, they give the exact
  text of each of its messages and the status of each of its runs.\<close>

theorem events_rebuild_conversation:
  assumes "conversations_reachable isof s"
  shows "(\<forall>i m. dict_get (message_map s) i = Some m \<longrightarrow>
      replay_text i (get_list (event_map s) (cg_conversation_id m)) = Some (cg_content m)) \<and>
    (\<forall>i r. dict_get (run_map s) i = Some r \<longrightarrow>
      replay_status i (get_list (event_map s) (gr_conversation_id r)) = Some (run_status_value (gr_status r)))"
  using reachable_conversations_ok[OF assms] unfolding conversations_ok_def replays_ok_def by blast

theorem events_rebuild_conversation_witness:
  "\<exists>m. dict_get (message_map sample_replied) 201 = Some m \<and> cg_content m = lit ''yo'' \<and>
    replay_text 201 (get_list (event_map sample_replied) (cg_conversation_id m)) = Some (lit ''yo'')"
  using events_rebuild_conversation[OF sample_conversations_reachable, of "sample_begin_calls @ sample_reply_calls"]
    sample_replied_views(1) by auto

text \<open>C24: Whatever other clients write between the polls of the WebSocket, what it has sent is the part of the
  conversation's log that follows the client's last sequence number: no event twice, none left out, in order.\<close>

theorem socket_sends_each_event_once:
  assumes "conversations_reachable isof s" and "0 \<le> after"
    and "(streaming (conversation_step isof) (\<lambda>n. service_list_events identity c n 200))\<^sup>*\<^sup>* (s, opened_stream after) (t, w)"
  shows "es_sequence w = after + int (length (es_sent w)) \<and>
    (\<exists>rest. drop (nat after) (get_list (event_map t) c) = es_sent w @ rest)"
  using socket.streaming_faithful[OF assms(3) reachable_conversations_ok[OF assms(1)] assms(2) socket.opened_faithful]
  by (simp add: socket.faithful_def)

abbreviation sample_poll :: "int \<Rightarrow> conversation_store \<Rightarrow> conversation_error + conversation_event list" where
  "sample_poll n s \<equiv> service_list_events sample_conv_identity 100 n 200 s"

text \<open>One poll before the reply is written and one after it.\<close>

theorem socket_sends_each_event_once_witness:
  "\<exists>w. es_sequence w = 0 + int (length (es_sent w)) \<and> (\<exists>rest. drop (nat 0) (get_list (event_map sample_replied) 100) = es_sent w @ rest) \<and>
    w = stream_round sample_poll sample_replied (stream_round sample_poll sample_begun (opened_stream 0))"
proof -
  let ?stream = "streaming (conversation_step sample_isof) sample_poll"
  have written: "?stream\<^sup>*\<^sup>* (s, w) (t, w)" if "(conversation_step sample_isof)\<^sup>*\<^sup>* s t" for s t w
    using that by (induction rule: rtranclp_induct) (auto intro: rtranclp.rtrancl_into_rtrancl streaming.written)
  have "?stream\<^sup>*\<^sup>* (sample_begun, opened_stream 0) (sample_replied, stream_round sample_poll sample_replied
      (stream_round sample_poll sample_begun (opened_stream 0)))"
    using converse_rtranclp_into_rtranclp[OF streaming.polled rtranclp.rtrancl_into_rtrancl[OF written[OF sample_replies] streaming.polled]] .
  from socket_sends_each_event_once[OF sample_conversations_reachable _ this] show ?thesis by auto
qed

text \<open>While nobody writes, enough polls send the whole rest of the log to a member who can see the conversation.\<close>

lemma socket_catches_up:
  assumes "conversations_reachable isof s" and "conversation_visible identity c s" and "0 \<le> after"
    and "length (get_list (event_map s) c) \<le> k * 200"
  shows "es_sent ((stream_round (\<lambda>n. service_list_events identity c n 200) s ^^ k) (opened_stream after)) =
    drop (nat after) (get_list (event_map s) c)"
  by (rule socket.all_sent[OF reachable_conversations_ok[OF assms(1)] assms(2,3) socket.opened_faithful assms(4)])

lemma socket_catches_up_instance:
  "es_sent (stream_round sample_poll sample_begun (opened_stream 1)) = drop 1 (get_list (event_map sample_begun) 100)"
  using socket_catches_up[OF sample_conversations_reachable sample_begun_views(8), of 1 1] sample_begun_views(9) by simp

section \<open>Runs\<close>

lemma reachable_follows:
  "conversations_reachable isof s \<Longrightarrow> (conversation_step isof)\<^sup>*\<^sup>* s t \<Longrightarrow> conversations_ok s \<and> conversations_ok t \<and> follows s t"
  using steps_follow reachable_conversations_ok by blast

lemma ended_settled:
  assumes "conversations_ok s" and "runs s j = Some r" and "ended (gr_status r)"
  shows "settled s (gr_response_message_id r)"
  using assms unfolding settled_def conversations_ok_def runs_ok_def by (metis option.inject)

text \<open>C25: Once a run has completed, failed or been cancelled, no later call changes the text of its reply.\<close>

theorem ended_reply_is_final:
  assumes "conversations_reachable isof s" and "dict_get (run_map s) j = Some r"
    and "gr_status r \<in> {RUN_COMPLETED, RUN_CANCELLED, RUN_FAILED}"
    and "dict_get (message_map s) (gr_response_message_id r) = Some m"
    and "(conversation_step isof)\<^sup>*\<^sup>* s t"
  shows "\<exists>n. dict_get (message_map t) (gr_response_message_id r) = Some n \<and> cg_content n = cg_content m"
proof -
  have st: "conversations_ok s" "follows s t" using reachable_follows[OF assms(1,5)] by simp_all
  have "settled s (gr_response_message_id r)" using ended_settled[OF st(1) assms(2)] assms(3) by (simp add: ended_def)
  then show ?thesis using followsD(5)[OF st(2) assms(4)] by blast
qed

theorem ended_reply_is_final_witness:
  "\<exists>n. dict_get (message_map (sample_conversations ((sample_begin_calls @ sample_reply_calls) @ sample_fail_calls))) 201 = Some n \<and>
    cg_content n = lit ''yo''"
proof -
  obtain r where r: "runs sample_replied 200 = Some r" "gr_status r \<in> {RUN_COMPLETED, RUN_CANCELLED, RUN_FAILED}" "gr_response_message_id r = 201"
    using sample_replied_views(2) by auto
  obtain m where "msgs sample_replied (gr_response_message_id r) = Some m" "cg_content m = lit ''yo''"
    using sample_replied_views(1) r(3) by auto
  then show ?thesis using ended_reply_is_final[OF sample_conversations_reachable r(1,2) _ sample_fails(1)] r(3) by simp
qed

text \<open>C26: A cancelled run stays cancelled: its executor, still running, can neither extend, complete nor fail it.\<close>

theorem cancelled_run_stays_cancelled:
  assumes "conversations_reachable isof s" and "dict_get (run_map s) j = Some r" and "gr_status r = RUN_CANCELLED"
    and "(conversation_step isof)\<^sup>*\<^sup>* s t"
  shows "\<exists>q. dict_get (run_map t) j = Some q \<and> gr_status q = RUN_CANCELLED"
proof -
  have "follows s t" using reachable_follows[OF assms(1,4)] by simp
  from followsD(3)[OF this assms(2)] show ?thesis using assms(3) by (auto simp: later_status_def)
qed

theorem cancelled_run_stays_cancelled_witness:
  "\<exists>q. dict_get (run_map (sample_conversations ((sample_begin_calls @ sample_cancel_calls) @ sample_fail_calls))) 200 = Some q \<and>
    gr_status q = RUN_CANCELLED"
  using sample_cancelled_view cancelled_run_stays_cancelled[OF sample_conversations_reachable _ _ sample_fails(2)] by blast

text \<open>The methods that read and look something up.\<close>

lemma reads_never_miss_a_key:
  assumes ok: "conversations_ok s"
  shows "conv_list_messages c u n cursor s \<noteq> Inl MissingKey" "conv_list_context_messages c u n s \<noteq> Inl MissingKey"
    "conv_search_messages fold_case u agent query co n s \<noteq> Inl MissingKey"
    "conv_list_events c u after n s \<noteq> Inl MissingKey" "conv_list_message_feedback c u s \<noteq> Inl MissingKey"
proof -
  show "conv_list_messages c u n cursor s \<noteq> Inl MissingKey" "conv_list_context_messages c u n s \<noteq> Inl MissingKey"
    by (simp_all add: conv_list_context_messages_def conv_list_messages_def messages_at_thread[OF ok])
  have "search_hit fold_case u agent (fold_case query) co s m \<noteq> Inl MissingKey" if m: "m \<in> set (dict_values (message_map s))" for m
  proof -
    obtain i where "msgs s i = Some m" using m dict_values_iff ok unfolding conversations_ok_def dictionaries_ok_def by metis
    then obtain v where "convs s (cg_conversation_id m) = Some v" using ok_message_conversation[OF ok] by blast
    then show ?thesis by (simp add: search_hit_def at_key_def)
  qed
  then have "collect_results (map (search_hit fold_case u agent (fold_case query) co s) (dict_values (message_map s))) \<noteq> Inl MissingKey"
    by (intro collect_results_no_missing) auto
  then show "conv_search_messages fold_case u agent query co n s \<noteq> Inl MissingKey"
    by (simp add: conv_search_messages_def bind_result_Inl)
  show "conv_list_events c u after n s \<noteq> Inl MissingKey" "conv_list_message_feedback c u s \<noteq> Inl MissingKey"
    by (simp_all add: conv_list_events_def conv_list_message_feedback_def bind_result_Inl)
qed

text \<open>No call ends in a failed lookup, whether it writes (\<open>perform\<close>, with new identifiers) or reads:
  whatever a call that is not refused finds in one dictionary, it finds in the others.\<close>

lemma calls_never_miss_a_key:
  assumes "conversations_reachable isof s" and "fresh_draws dw s"
  shows "perform isof dw call s \<noteq> Inl MissingKey \<and> conv_list_messages c u n cursor s \<noteq> Inl MissingKey \<and>
    conv_list_context_messages c u n s \<noteq> Inl MissingKey \<and>
    conv_search_messages fold_case u agent query co n s \<noteq> Inl MissingKey \<and>
    conv_list_events c u after n s \<noteq> Inl MissingKey \<and> conv_list_message_feedback c u s \<noteq> Inl MissingKey"
  using perform_sound[OF reachable_conversations_ok[OF assms(1)] assms(2)]
    reads_never_miss_a_key[OF reachable_conversations_ok[OF assms(1)]] by (simp add: sound_effect_def)

lemma calls_never_miss_a_key_instance:
  "perform sample_isof (sample_conv_draws 700) (BeginRegeneration sample_conv_identity 201 8 sample_run_versions) sample_begun \<noteq> Inl MissingKey \<and>
   conv_list_messages 100 2 50 None sample_begun \<noteq> Inl MissingKey"
  using calls_never_miss_a_key[OF sample_conversations_reachable below_fresh[OF sample_begun_views(10)]] by blast

section \<open>Sending a message again\<close>

lemma emit_client_runs: "emit dw k c ty p r m s = Inr t \<Longrightarrow> client_runs t = client_runs s"
  by (auto simp: emit_def result_laws Let_def)

lemma emit_all_client_runs: "emit_all_created isof dw k c r ms s = Inr t \<Longrightarrow> client_runs t = client_runs s"
  by (induction ms arbitrary: k s) (auto simp: emit_created_def result_laws dest!: emit_client_runs)

lemma start_run_indexes:
  assumes "start_run isof dw k ms r ck bk s = Inr (p, t)"
  shows "dict_get (client_runs t) ck = Some (gr_id (pu_run p))"
proof -
  obtain s1 s2 where "emit_all_created isof dw k (gr_conversation_id r) (Some (gr_id r)) ms (indexed_run ck bk r (put_run r s1)) = Inr s2"
    "emit_run dw (k + length ms) (lit ''run.queued'') r s2 = Inr t" "pending_of r True t = Inr p"
    using assms by (auto simp: start_run_def result_laws)
  then show ?thesis
    using emit_all_client_runs emit_client_runs
    by (fastforce simp: emit_run_def pending_of_def result_laws indexed_run_def)
qed

lemma begin_agent_run_indexes:
  assumes "conversations_ok s" and "conv_begin_agent_run isof dw identity c client content as v blocks s = Inr (p, t)"
  shows "dict_get (client_runs t) (c, di_user_id identity, client) = Some (gr_id (pu_run p))"
proof (cases "dict_get (client_runs s) (c, di_user_id identity, client)")
  case None
  then show ?thesis
    using assms(2) by (auto simp: conv_begin_agent_run_def result_laws Let_def intro: start_run_indexes split: if_splits)
next
  case (Some i)
  then show ?thesis
    using assms ok_known(3)[OF assms(1)]
    by (auto simp: conv_begin_agent_run_def at_key_def pending_of_def result_laws Let_def split: option.splits)
qed

text \<open>C28: Sending a message again with the identifier the client chose for it, with any content and after any
  other calls, begins nothing: the answer is the run of the first time, and the store stays as it is.\<close>

theorem repeated_send_is_idempotent:
  assumes "conversations_reachable isof s" and "fresh_draws dw s"
    and "conv_begin_agent_run isof dw identity c client content as v blocks s = Inr (p, s')"
    and "(conversation_step isof)\<^sup>*\<^sup>* s' t"
  shows "\<exists>q. conv_begin_agent_run isof dw' identity c client content' as' v' blocks' t = Inr (q, t) \<and>
    pu_created q = False \<and> gr_id (pu_run q) = gr_id (pu_run p)"
proof -
  let ?k = "(c, di_user_id identity, client)" and ?i = "gr_id (pu_run p)"
  note ok = reachable_conversations_ok[OF assms(1)]
  have s': "conversations_ok s'" using begin_agent_run_sound[OF ok assms(2)] assms(3) by (metis sound_simps(2))
  have t: "conversations_ok t" "follows s' t" using steps_follow[OF assms(4) s'] by simp_all
  have index: "dict_get (client_runs t) ?k = Some ?i"
    using followsD(6)[OF t(2)] begin_agent_run_indexes[OF ok assms(3)] by blast
  then obtain r where r: "runs t ?i = Some r" using run_in_known[OF ok_index(1)[OF t(1)]] by blast
  obtain q where "pending_of r False t = Inr q" "pu_run q = r" "pu_created q = False" using pending_sound[OF t(1) r] by metis
  then show ?thesis using index r ok_known(3)[OF t(1) r] by (simp add: conv_begin_agent_run_def at_key_def)
qed

theorem repeated_send_is_idempotent_witness:
  "\<exists>p s' q. conv_begin_agent_run sample_isof (sample_conv_draws 700) sample_conv_identity 100 8 (lit ''a'') [] sample_run_versions []
      sample_begun = Inr (p, s') \<and>
    conv_begin_agent_run sample_isof (sample_conv_draws 800) sample_conv_identity 100 8 (lit ''b'') [] sample_run_versions []
      s' = Inr (q, s') \<and> gr_id (pu_run q) = gr_id (pu_run p)"
proof -
  have "\<exists>p s'. conv_begin_agent_run sample_isof (sample_conv_draws 700) sample_conv_identity 100 8 (lit ''a'') [] sample_run_versions []
      sample_begun = Inr (p, s')"
    by (simp add: sample_view)
  then obtain p s' where p: "conv_begin_agent_run sample_isof (sample_conv_draws 700) sample_conv_identity 100 8 (lit ''a'') []
      sample_run_versions [] sample_begun = Inr (p, s')" by blast
  show ?thesis
    using p repeated_send_is_idempotent[OF sample_conversations_reachable below_fresh[OF sample_begun_views(10)] p rtranclp.rtrancl_refl,
        of "sample_conv_draws 800" "lit ''b''" "[]" sample_run_versions "[]"] by blast
qed

section \<open>The context of a run\<close>

lemma sorted_by_desc_rev:
  assumes "sorted_wrt (<) (map f xs)"
  shows "sorted_by_desc f xs = rev xs"
proof -
  have "sorted (map f xs)" "distinct (map f xs)" using assms by (simp_all add: strict_sorted_iff)
  then have "sort_key f (rev xs) = xs" by (intro sort_key_inj_key_eq) (simp_all add: distinct_map)
  then show ?thesis by (simp add: sorted_by_desc_def)
qed

text \<open>The messages that a run sees are the last ones of the conversation's thread, oldest first, as many as
  the limit allows; the thread is in the order of strictly growing times.\<close>

lemma context_is_end_of_thread:
  assumes "conversations_reachable isof s" and "(c, u) \<in> member_set s" and "0 \<le> limit"
  shows "\<exists>thread. map cg_id thread = get_list (conversation_messages s) c \<and> sorted_wrt (<) (map cg_created_at thread) \<and>
    conv_list_context_messages c u limit s = Inr (drop (length thread - nat limit) thread)"
proof (intro exI conjI)
  note ok = reachable_conversations_ok[OF assms(1)]
  let ?thread = "thread_of s c" and ?key = "\<lambda>m :: chat_message. (cg_created_at m, cg_id m)"
  show "map cg_id ?thread = get_list (conversation_messages s) c" by (rule thread_of_ids[OF ok])
  show times: "sorted_wrt (<) (map cg_created_at ?thread)" using ok_thread(3)[OF ok, of c] thread_of_times[OF ok] by simp
  have sorted: "sorted_wrt (<) (map ?key ?thread)"
    using times by (auto simp: sorted_wrt_map less_prod_def elim!: sorted_wrt_mono_rel[rotated])
  then have "sorted_by_desc ?key ?thread = rev ?thread" by (rule sorted_by_desc_rev)
  then show "conv_list_context_messages c u limit s = Inr (drop (length ?thread - nat limit) ?thread)"
    using assms(2,3)
    by (simp add: conv_list_context_messages_def conv_list_messages_def messages_at_thread[OF ok] before_cursor_def py_take_def
        take_rev)
qed

lemma context_is_end_of_thread_instance:
  "\<exists>m. conv_list_context_messages 100 2 1 sample_begun = Inr [m] \<and> cg_id m = 201"
proof -
  obtain thread where "map cg_id thread = [200, 201]"
    "conv_list_context_messages 100 2 1 sample_begun = Inr (drop (length thread - nat 1) thread)"
    using context_is_end_of_thread[OF sample_conversations_reachable sample_begun_views(4), of 1] sample_begun_views(3) by fastforce
  then show ?thesis by (auto simp: map_eq_Cons_conv)
qed

section \<open>Branches\<close>

lemma earlier_prefix:
  assumes "sorted_wrt (<) (map cg_created_at (before @ src # later_ones))"
  shows "earlier src (before @ src # later_ones) = before"
proof -
  have "\<forall>m \<in> set before. cg_created_at m < cg_created_at src" "\<forall>m \<in> set later_ones. cg_created_at src < cg_created_at m"
    using assms by (auto simp: sorted_wrt_append)
  then show ?thesis by (auto simp: earlier_def less_prod_def filter_id_conv filter_empty_conv)
qed

text \<open>C29: Editing a message begins a branch: a new conversation whose thread has the texts of the messages before
  the edited one, the new text and an empty reply; no other thread changes.\<close>

theorem branch_copies_prefix:
  assumes "conversations_reachable isof s" and "fresh_draws dw s"
    and "thread_of s c = before @ src # later_ones" and "cg_sender_type src = SENDER_USER"
    and "require_conversation c (di_user_id identity) s = Inr original"
    and "dict_get (edited_branches s) (cg_id src, di_user_id identity, client) = None"
  shows "\<exists>p t. conv_begin_edited_branch isof dw identity (cg_id src) client content v s = Inr (p, t) \<and>
    map cg_content (thread_of t (gr_conversation_id (pu_run p))) = map cg_content before @ [content, []] \<and>
    (\<forall>d. d \<noteq> gr_conversation_id (pu_run p) \<longrightarrow> thread_of t d = thread_of s d)"
proof -
  note ok = reachable_conversations_ok[OF assms(1)]
  have src: "msgs s (cg_id src) = Some src" "cg_conversation_id src = c" using thread_of_mem[OF ok, of src c] assms(3) by simp_all
  have "sorted_wrt (<) (map cg_created_at (thread_of s c))" using ok_thread(3)[OF ok, of c] thread_of_times[OF ok] by simp
  then have before: "earlier src (thread_of s c) = before" unfolding assms(3) by (rule earlier_prefix)
  have "require_conversation (cg_conversation_id src) (di_user_id identity) s = Inr original" using assms(5) src(2) by simp
  from begin_edited_branch_outcome[OF ok assms(2,6) src(1) this assms(4), of isof content v]
  obtain p t ms where *: "conv_begin_edited_branch isof dw identity (cg_id src) client content v s = Inr (p, t)"
    "gr_conversation_id (pu_run p) = su_conversation_id dw" "thread_grows s t (su_conversation_id dw) ms"
    "map cg_content ms = map cg_content before @ [content, []]"
    unfolding src(2) before by blast
  have "thread_ids s (su_conversation_id dw) = []"
    using ok_conversation(1)[OF ok, of "su_conversation_id dw"] assms(2) by (simp add: get_list_def fresh_draws_def)
  then have "thread_of s (su_conversation_id dw) = []" by (simp add: thread_of_def)
  then show ?thesis using * by (auto simp: thread_grows_def)
qed

theorem branch_copies_prefix_witness:
  "\<exists>p t. conv_begin_edited_branch sample_isof (sample_conv_draws 700) sample_conv_identity 200 8 (lit ''x'') sample_run_versions sample_begun = Inr (p, t) \<and>
    map cg_content (thread_of t (gr_conversation_id (pu_run p))) = [lit ''x'', []]"
proof -
  obtain m n where m: "msgs sample_begun 200 = Some m" "cg_id m = 200" "cg_sender_type m = SENDER_USER" and n: "msgs sample_begun 201 = Some n"
    using sample_begun_views(1,2) by blast
  have thread: "thread_of sample_begun 100 = [] @ m # [n]" by (simp add: thread_of_def sample_begun_views(3) m n)
  obtain v where v: "require_conversation 100 (di_user_id sample_conv_identity) sample_begun = Inr v"
    using sample_begun_views(6) by (auto simp: sample_conv_identity_def)
  have "dict_get (edited_branches sample_begun) (cg_id m, di_user_id sample_conv_identity, 8) = None"
    by (simp add: sample_begun_views(7) dict_get_def)
  from branch_copies_prefix[OF sample_conversations_reachable below_fresh[OF sample_begun_views(10)] thread m(3) v this,
      of "lit ''x''" sample_run_versions]
  show ?thesis unfolding m(2) by auto
qed

section \<open>Isolation\<close>

text \<open>On whose behalf a call is made; the calls of a run's executor have no user.\<close>

fun call_user :: "conversation_call \<Rightarrow> uuid option" where
  "call_user (EnsureIdentity i) = Some (di_user_id i)"
| "call_user (CreateConversation i _) = Some (di_user_id i)"
| "call_user (UpdateConversation _ u _ _ _) = Some u"
| "call_user (DeleteConversation _ u) = Some u"
| "call_user (BeginRun i _ _ _ _ _ _) = Some (di_user_id i)"
| "call_user (BeginRegeneration i _ _ _) = Some (di_user_id i)"
| "call_user (BeginBranch i _ _ _ _) = Some (di_user_id i)"
| "call_user (CancelRun _ u) = Some u"
| "call_user (SetFeedback _ u _ _) = Some u"
| "call_user (DeleteFeedback _ u) = Some u"
| "call_user _ = None"

definition same_log :: "uuid \<Rightarrow> conversation_store \<Rightarrow> conversation_store \<Rightarrow> bool" where
  "same_log c s t \<longleftrightarrow> events_of t c = events_of s c \<and> thread_ids t c = thread_ids s c"

lemma same_log_refl [simp]: "same_log c s s"
  by (simp add: same_log_def)

lemma same_log_trans: "same_log c s t \<Longrightarrow> same_log c t u \<Longrightarrow> same_log c s u"
  by (simp add: same_log_def)

lemma emit_same: "emit dw k d ty p r m s = Inr t \<Longrightarrow> d \<noteq> c \<Longrightarrow> same_log c s t"
  by (auto simp: emit_def same_log_def result_laws Let_def)

lemma emit_all_same: "emit_all_created isof dw k d r ms s = Inr t \<Longrightarrow> d \<noteq> c \<Longrightarrow> same_log c s t"
proof (induction ms arbitrary: k s)
  case (Cons m ms)
  then obtain u where "emit_created isof dw k d r m s = Inr u" "emit_all_created isof dw (Suc k) d r ms u = Inr t"
    by (auto simp: result_laws)
  then show ?case using Cons emit_same same_log_trans unfolding emit_created_def by blast
qed simp

lemma fold_put_messages_same: "same_log c s (fold put_message ms s)"
  by (induction ms arbitrary: s) (auto simp: put_message_def same_log_def)

lemma list_message_same: "list_message d ids s = Inr t \<Longrightarrow> d \<noteq> c \<Longrightarrow> same_log c s t"
  by (auto simp: list_message_def same_log_def result_laws)

lemma start_run_same:
  assumes "start_run isof dw k ms r ck bk s = Inr (p, t)" and "gr_conversation_id r \<noteq> c"
  shows "same_log c s t"
proof -
  obtain s1 s2 where s: "list_message (gr_conversation_id r) (map cg_id ms) (fold put_message ms s) = Inr s1"
    "emit_all_created isof dw k (gr_conversation_id r) (Some (gr_id r)) ms (indexed_run ck bk r (put_run r s1)) = Inr s2"
    "emit_run dw (k + length ms) (lit ''run.queued'') r s2 = Inr t"
    using assms(1) by (auto simp: start_run_def result_laws)
  have "same_log c s s1" using same_log_trans[OF fold_put_messages_same list_message_same[OF s(1) assms(2)]] .
  moreover have "same_log c s1 (indexed_run ck bk r (put_run r s1))" by (simp add: same_log_def indexed_run_def put_run_def)
  moreover have "same_log c (indexed_run ck bk r (put_run r s1)) s2" using emit_all_same[OF s(2) assms(2)] .
  moreover have "same_log c s2 t" using emit_same[OF s(3)[unfolded emit_run_def] assms(2)] .
  ultimately show ?thesis using same_log_trans by blast
qed

lemma copy_messages_same: "copy_messages isof dw d k ms s = Inr t \<Longrightarrow> d \<noteq> c \<Longrightarrow> same_log c s t"
proof (induction ms arbitrary: k s)
  case (Cons m ms)
  let ?m = "copied_message dw d k m"
  obtain s1 s2 where s: "list_message d [cg_id ?m] (put_message ?m s) = Inr s1" "emit_created isof dw k d None ?m s1 = Inr s2"
    "copy_messages isof dw d (Suc k) ms s2 = Inr t"
    using Cons.prems(1) by (auto simp: result_laws Let_def)
  have "same_log c s (put_message ?m s)" using fold_put_messages_same[of c s "[?m]"] by simp
  then have "same_log c s s1" using list_message_same[OF s(1) Cons.prems(2)] same_log_trans by blast
  moreover have "same_log c s1 s2" using emit_same[OF s(2)[unfolded emit_created_def] Cons.prems(2)] .
  ultimately show ?case using Cons.IH[OF s(3) Cons.prems(2)] same_log_trans by blast
qed simp

lemma member_other: "require_conversation d u s = Inr v \<Longrightarrow> (c, u) \<notin> member_set s \<Longrightarrow> d \<noteq> c"
  using require_conversation_known by blast

lemma same_log_updates [simp]:
  "same_log c (s\<lparr>conversation_map := f\<rparr>) t = same_log c s t" "same_log c (s\<lparr>feedback_map := g\<rparr>) t = same_log c s t"
  "same_log c (touch_conversation d v now s) t = same_log c s t" "same_log c (put_run r s) t = same_log c s t"
  "same_log c (put_message m s) t = same_log c s t"
  by (simp_all add: same_log_def touch_conversation_def put_run_def put_message_def)

lemma add_conversation_same: "co_id v \<noteq> c \<Longrightarrow> same_log c s (add_conversation v u s)"
  by (simp add: same_log_def add_conversation_def)

lemma replace_conversation_same:
  assumes "replace_conversation isof dw ty d v s = Inr (x, t)" and "d \<noteq> c"
  shows "same_log c s t"
proof -
  have "emit dw 0 d ty (conversation_payload isof v) None None (s\<lparr>conversation_map := dict_set d v (conversation_map s)\<rparr>) = Inr t"
    using assms(1) by (auto simp: replace_conversation_def result_laws)
  from emit_same[OF this assms(2)] show ?thesis by simp
qed

lemma end_run_same: "end_run dw ty r st s = Inr (x, t) \<Longrightarrow> gr_conversation_id r \<noteq> c \<Longrightarrow> same_log c s t"
  by (auto simp: end_run_def emit_run_def result_laws dest!: emit_same)

lemma update_same:
  "conv_update_conversation isof dw d u title st pinned s = Inr (x, t) \<Longrightarrow> (c, u) \<notin> member_set s \<Longrightarrow> same_log c s t"
  by (auto simp: conv_update_conversation_def result_laws dest: member_other intro: replace_conversation_same)

lemma delete_same:
  "conv_soft_delete_conversation isof dw d u s = Inr (x, t) \<Longrightarrow> (c, u) \<notin> member_set s \<Longrightarrow> same_log c s t"
  by (auto simp: conv_soft_delete_conversation_def split: if_splits option.splits intro: replace_conversation_same)

lemma create_same:
  assumes "conv_create_conversation dw identity title s = Inr (x, t)" and "su_conversation_id dw \<noteq> c"
  shows "same_log c s t"
proof -
  let ?v = "new_conversation dw (di_tenant_id identity) (di_agent_id identity) title (di_user_id identity)"
  have d: "co_id ?v \<noteq> c" using assms(2) by (simp add: new_conversation_def)
  have "emit dw 0 (co_id ?v) (lit ''conversation.created'') [(lit ''conversation_id'', juuid (co_id ?v)), (lit ''title'', JStr (co_title ?v))]
      None None (add_conversation ?v (di_user_id identity) s) = Inr t"
    using assms(1) by (auto simp: conv_create_conversation_def result_laws Let_def)
  from same_log_trans[OF add_conversation_same[OF d] emit_same[OF this d]] show ?thesis .
qed

lemma begin_agent_run_same:
  assumes "conv_begin_agent_run isof dw identity d client content as v blocks s = Inr (p, t)" and "(c, di_user_id identity) \<notin> member_set s"
  shows "same_log c s t"
proof (cases "dict_get (client_runs s) (d, di_user_id identity, client)")
  case None
  obtain w where w: "require_conversation d (di_user_id identity) s = Inr w"
    using assms(1) None by (auto simp: conv_begin_agent_run_def result_laws Let_def)
  then have "d \<noteq> c" using member_other assms(2) by blast
  then show ?thesis
    using assms(1) None
    by (auto simp: conv_begin_agent_run_def result_laws Let_def draws_facts dest!: start_run_same[where c = c] split: if_splits)
qed (use assms(1) in \<open>auto simp: conv_begin_agent_run_def result_laws Let_def\<close>)

lemma begin_regeneration_same:
  assumes "conversations_ok s" and "conv_begin_regeneration isof dw identity i client v s = Inr (p, t)"
    and "(c, di_user_id identity) \<notin> member_set s"
  shows "same_log c s t"
proof -
  obtain m w where m: "msgs s i = Some m" "require_conversation (cg_conversation_id m) (di_user_id identity) s = Inr w"
    using assms(2) by (auto simp: conv_begin_regeneration_def result_laws split: option.splits)
  have "co_id w = cg_conversation_id m" using require_conversation_known[OF m(2)] ok_known(1)[OF assms(1)] by blast
  moreover have "cg_conversation_id m \<noteq> c" using member_other[OF m(2) assms(3)] .
  ultimately show ?thesis
    using assms(2) m
    by (auto simp: conv_begin_regeneration_def result_laws Let_def draws_facts split: if_splits option.splits
        dest!: start_run_same[where c = c])
qed

lemma begin_edited_branch_same:
  assumes "conv_begin_edited_branch isof dw identity i client content v s = Inr (p, t)" and "su_conversation_id dw \<noteq> c"
  shows "same_log c s t"
proof (cases "dict_get (edited_branches s) (i, di_user_id identity, client)")
  case None
  obtain src original where src: "msgs s i = Some src"
    and "require_conversation (cg_conversation_id src) (di_user_id identity) s = Inr original"
    using assms(1) None by (auto simp: conv_begin_edited_branch_def result_laws Let_def split: option.splits)
  let ?branch = "branch_of dw identity original (cg_id src)"
  have d: "co_id ?branch \<noteq> c" using assms(2) by (simp add: branch_of_def new_conversation_def)
  obtain s1 s2 n ms r where s: "emit dw 0 (co_id ?branch) (lit ''conversation.created'') (conversation_payload isof ?branch) None None
      (add_conversation ?branch (di_user_id identity) s) = Inr s1"
    "copy_messages isof dw (co_id ?branch) 1 ms s1 = Inr s2"
    "start_run isof dw n r (queued_run dw identity v (co_id ?branch) (su_trigger_id dw) (su_now dw + int (length ms) + 1))
       (co_id ?branch, di_user_id identity, client) (Some (i, di_user_id identity, client)) s2 = Inr (p, t)"
    using assms(1) None src \<open>require_conversation _ _ s = Inr original\<close>
    by (auto simp: conv_begin_edited_branch_def result_laws Let_def user_message_def split: if_splits)
  have "same_log c s s1" using same_log_trans[OF add_conversation_same[OF d] emit_same[OF s(1) d]] .
  moreover have "same_log c s1 s2" using copy_messages_same[OF s(2) d] .
  moreover have "same_log c s2 t" using start_run_same[OF s(3)] d by (simp add: queued_run_def)
  ultimately show ?thesis using same_log_trans by blast
qed (use assms(1) in \<open>auto simp: conv_begin_edited_branch_def result_laws Let_def\<close>)

lemma cancel_same:
  "conv_cancel_run dw i u s = Inr (r, t) \<Longrightarrow> (c, u) \<notin> member_set s \<Longrightarrow> same_log c s t"
  by (auto simp: conv_cancel_run_def result_laws split: if_splits dest: member_other intro: end_run_same)

lemma set_feedback_same:
  "conv_set_message_feedback isof dw i u rating remark s = Inr (f, t) \<Longrightarrow> (c, u) \<notin> member_set s \<Longrightarrow> same_log c s t"
  by (auto simp: conv_set_message_feedback_def result_laws Let_def split: option.splits if_splits dest: member_other
      dest!: emit_same[where c = c])

lemma delete_feedback_same:
  "conv_delete_message_feedback dw i u s = Inr (f, t) \<Longrightarrow> (c, u) \<notin> member_set s \<Longrightarrow> same_log c s t"
  by (auto simp: conv_delete_message_feedback_def result_laws split: option.splits if_splits dest: member_other
      dest!: emit_same[where c = c])

lemma effect_result: "effect res = Inr t \<Longrightarrow> \<exists>x. res = Inr (x, t)"
  by (cases res) (auto simp: effect_def)

text \<open>C30: A user who is not a member of a conversation cannot change it: no call on that user's behalf
  adds an event or a message to it.\<close>

theorem strangers_change_nothing:
  assumes "conversations_reachable isof s" and "fresh_draws dw s" and "dict_get (conversation_map s) c \<noteq> None"
    and "call_user call = Some u" and "(c, u) \<notin> member_set s" and "perform isof dw call s = Inr t"
  shows "get_list (event_map t) c = get_list (event_map s) c \<and>
    get_list (conversation_messages t) c = get_list (conversation_messages s) c"
proof -
  note ok = reachable_conversations_ok[OF assms(1)]
  have new: "su_conversation_id dw \<noteq> c" using assms(2,3) by (auto simp: fresh_draws_def)
  have "same_log c s t"
    using assms(4-6) new
    by (cases call) (auto dest!: effect_result simp: conv_ensure_development_identity_def same_log_def[of c s "s\<lparr>identity_map := _\<rparr>"]
        intro: update_same delete_same create_same begin_agent_run_same begin_regeneration_same[OF ok] begin_edited_branch_same
          cancel_same set_feedback_same delete_feedback_same)
  then show ?thesis by (simp add: same_log_def)
qed

theorem strangers_change_nothing_witness:
  "\<exists>t. perform sample_isof (sample_conv_draws 700) (CreateConversation (sample_conv_identity\<lparr>di_user_id := 9\<rparr>) (lit ''d'')) sample_begun = Inr t \<and>
    get_list (event_map t) 100 = get_list (event_map sample_begun) 100"
proof -
  have "\<exists>t. perform sample_isof (sample_conv_draws 700) (CreateConversation (sample_conv_identity\<lparr>di_user_id := 9\<rparr>) (lit ''d'')) sample_begun = Inr t"
    by (simp add: sample_view)
  then obtain t where t: "perform sample_isof (sample_conv_draws 700) (CreateConversation (sample_conv_identity\<lparr>di_user_id := 9\<rparr>) (lit ''d''))
      sample_begun = Inr t" by blast
  have "dict_get (conversation_map sample_begun) 100 \<noteq> None"
    using sample_begun_views(6) by (auto simp: require_conversation_def split: if_splits option.splits)
  from strangers_change_nothing[OF sample_conversations_reachable below_fresh[OF sample_begun_views(10)] this _ sample_begun_views(5) t]
  show ?thesis using t by simp
qed

end
