(* ===== verification/Model_Input.thy ===== *)
theory Model_Input
  imports Conversation_Store Prompt_Envelope
begin

text \<open>
  What the language model is sent (\<open>cognition model.py\<close>) and how attachments get there
  (\<open>application multimodal_service.py\<close>): every method of \<open>MultimodalInputService\<close>. The repository of attachments,
  the object store and the parsers of PDF and DOCX files are the record \<open>attachment_port\<close>; \<open>fold_case\<close> is
  \<open>str.casefold\<close>. The reads of different messages only read, so their order does not matter.
\<close>

section \<open>Requests\<close>

datatype model_role = MODEL_USER | MODEL_ASSISTANT

record image_input =
  ii_content_type :: ustr
  ii_data :: "nat list"
  ii_file_name :: ustr
  ii_alt_text :: "ustr option"

record document_input =
  dm_content_type :: ustr
  dm_data :: "nat list"
  dm_file_name :: ustr
  dm_extracted_text :: ustr
  dm_page_count :: "int option"

datatype model_input_part = ModelTextInput ustr | ModelImageInput image_input | ModelDocumentInput document_input

record model_message =
  mg_role :: model_role
  mg_content :: "model_input_part list"

record model_request =
  mq_messages :: "model_message list"
  mq_instructions :: ustr
  mq_max_output_tokens :: int

record model_stream_event =
  me_delta :: ustr
  me_usage :: "model_usage option"

record model_capabilities =
  mk_streaming :: bool
  mk_structured_output :: bool
  mk_tool_calling :: bool
  mk_image_input :: bool
  mk_document_input :: bool

record multimodal_limits =
  ml_max_image_bytes :: int
  ml_max_document_bytes :: int
  ml_max_total_bytes :: int
  ml_max_document_characters :: int
  ml_max_pdf_pages :: int

record loaded_model_input =
  lm_parts :: "model_input_part list"
  lm_bytes_loaded :: int

section \<open>Reading documents\<close>

text \<open>\<open>bytes.decode("utf-8")\<close>: \<open>None\<close> is the \<open>UnicodeDecodeError\<close>.\<close>

definition continuation :: "nat \<Rightarrow> nat \<Rightarrow> nat \<Rightarrow> bool" where
  "continuation lo hi b \<longleftrightarrow> lo \<le> b \<and> b \<le> hi"

fun utf8_decode :: "nat list \<Rightarrow> ustr option" where
  "utf8_decode [] = Some []"
| "utf8_decode (a # bs) =
     (if a < 128 then map_option ((#) a) (utf8_decode bs)
      else case bs of
        [] \<Rightarrow> None
      | b # cs \<Rightarrow>
          if 194 \<le> a \<and> a \<le> 223 \<and> continuation 128 191 b
          then map_option ((#) ((a - 192) * 64 + (b - 128))) (utf8_decode cs)
          else case cs of
            [] \<Rightarrow> None
          | c # ds \<Rightarrow>
              if 224 \<le> a \<and> a \<le> 239 \<and> continuation (if a = 224 then 160 else 128) (if a = 237 then 159 else 191) b \<and>
                continuation 128 191 c
              then map_option ((#) ((a - 224) * 4096 + (b - 128) * 64 + (c - 128))) (utf8_decode ds)
              else case ds of
                [] \<Rightarrow> None
              | d # es \<Rightarrow>
                  if 240 \<le> a \<and> a \<le> 244 \<and> continuation (if a = 240 then 144 else 128) (if a = 244 then 143 else 191) b \<and>
                    continuation 128 191 c \<and> continuation 128 191 d
                  then map_option ((#) ((a - 240) * 262144 + (b - 128) * 4096 + (c - 128) * 64 + (d - 128))) (utf8_decode es)
                  else None)"

text \<open>\<open>str.splitlines\<close>; a carriage return and the line feed after it are one break.\<close>

definition line_break :: "nat \<Rightarrow> bool" where
  "line_break c \<longleftrightarrow> 10 \<le> c \<and> c \<le> 13 \<or> 28 \<le> c \<and> c \<le> 30 \<or> c = 133 \<or> c = 8232 \<or> c = 8233"

fun split_lines :: "bool \<Rightarrow> ustr \<Rightarrow> ustr \<Rightarrow> ustr list" where
  "split_lines after_cr line [] = (if line = [] then [] else [rev line])"
| "split_lines after_cr line (c # s) =
     (if after_cr \<and> c = 10 then split_lines False line s
      else if line_break c then rev line # split_lines (c = 13) [] s
      else split_lines False (c # line) s)"

definition rstrip :: "ustr \<Rightarrow> ustr" where
  "rstrip s = rev (dropWhile is_space (rev s))"

definition truncation_note :: ustr where
  "truncation_note = [10, 91, 8230, 25991, 26723, 27491, 25991, 22240, 27169, 22411, 36755, 20837, 23383, 31526, 19978,
     38480, 25130, 26029, 8230, 93]"

definition truncate_text :: "ustr \<Rightarrow> int \<Rightarrow> ustr" where
  "truncate_text s max_characters =
     (if int (length s) \<le> max_characters then s
      else rstrip (py_take (max 0 (max_characters - int (length truncation_note))) s) @ truncation_note)"

definition page_limit_note :: ustr where
  "page_limit_note = [10, 10, 91, 8230, 20854, 20313, 32, 80, 68, 70, 32, 39029, 38754, 22240, 27169, 22411, 36755, 20837,
     39029, 25968, 38480, 21046, 26410, 25552, 21462, 8230, 93]"

text \<open>What lies outside: attachments by their identifier and owner, the objects of the store, the texts of the
  pages of a PDF file (\<open>None\<close> where \<open>pypdf\<close> raises) and of the paragraphs of a DOCX file.\<close>

record stored_object =
  sj_content_type :: ustr
  sj_data :: "nat list"
  sj_sha256 :: ustr

record attachment_port =
  apt_find :: "uuid \<Rightarrow> uuid \<Rightarrow> attachment option"
  apt_read :: "ustr \<Rightarrow> int \<Rightarrow> stored_object option"
  apt_pdf_pages :: "nat list \<Rightarrow> ustr option list option"
  apt_docx_paragraphs :: "nat list \<Rightarrow> ustr list option"

datatype input_error =
    ReferenceIncomplete | AttachmentUnknown | ForeignTenantAttachment | AttachmentNotBound | WrongBinding | WrongBlockKind
  | WrongMetadata | ObjectUnreadable | IntegrityViolated | NotExtractable | UnsupportedDocument

definition plain_types :: "ustr list" where
  "plain_types = [lit ''text/plain'', lit ''text/markdown'', lit ''text/csv'', lit ''application/json'']"

definition docx_type :: ustr where
  "docx_type = lit ''application/vnd.openxmlformats-officedocument.wordprocessingml.document''"

definition docx_text :: "ustr list \<Rightarrow> ustr" where
  "docx_text paragraphs = join [10] (filter (\<lambda>t. t \<noteq> []) (map strip paragraphs))"

fun all_some :: "'a option list \<Rightarrow> 'a list option" where
  "all_some [] = Some []"
| "all_some (x # xs) = (case (x, all_some xs) of (Some y, Some ys) \<Rightarrow> Some (y # ys) | _ \<Rightarrow> None)"

definition pdf_text :: "ustr option list \<Rightarrow> int \<Rightarrow> (ustr \<times> int option) option" where
  "pdf_text pages max_pdf_pages =
     map_option (\<lambda>texts. (join [10, 10] texts @ (if max_pdf_pages < int (length pages) then page_limit_note else []),
         Some (int (length pages))))
       (all_some (py_take max_pdf_pages pages))"

definition extracted_text ::
    "attachment_port \<Rightarrow> nat list \<Rightarrow> ustr \<Rightarrow> int \<Rightarrow> input_error + (ustr \<times> int option)" where
  "extracted_text port content content_type max_pdf_pages =
     (let raw = (\<lambda>t. case t of None \<Rightarrow> Inl NotExtractable | Some r \<Rightarrow> Inr r) in
      if content_type \<in> set plain_types then raw (map_option (\<lambda>t. (t, None)) (utf8_decode content))
      else if content_type = lit ''application/pdf'' then
        raw (case apt_pdf_pages port content of None \<Rightarrow> None | Some pages \<Rightarrow> pdf_text pages max_pdf_pages)
      else if content_type = docx_type then raw (map_option (\<lambda>ps. (docx_text ps, None)) (apt_docx_paragraphs port content))
      else Inl UnsupportedDocument)"

definition extract_document_text ::
    "attachment_port \<Rightarrow> nat list \<Rightarrow> ustr \<Rightarrow> int \<Rightarrow> int \<Rightarrow> input_error + (ustr \<times> int option)" where
  "extract_document_text port content content_type max_characters max_pdf_pages =
     bind_result (extracted_text port content content_type max_pdf_pages) (\<lambda>(text_read, page_count).
       Inr (truncate_text (strip (join [10] (map rstrip (split_lines False [] text_read)))) max_characters, page_count))"

section \<open>Loading attachments\<close>

definition verify_attachment_reference ::
    "uuid \<Rightarrow> chat_message \<Rightarrow> attachment option \<Rightarrow> message_part \<Rightarrow> input_error + attachment" where
  "verify_attachment_reference tenant_id m found p =
     (case found of
        None \<Rightarrow> Inl AttachmentUnknown
      | Some a \<Rightarrow>
          if an_tenant_id a \<noteq> tenant_id \<or> cg_tenant_id m \<noteq> tenant_id then Inl ForeignTenantAttachment
          else if an_status a \<noteq> ATTACHMENT_ATTACHED then Inl AttachmentNotBound
          else if an_conversation_id a \<noteq> cg_conversation_id m \<or> an_message_id a \<noteq> Some (cg_id m) then Inl WrongBinding
          else if (mp_kind p = BLOCK_IMAGE) \<noteq> is_image a then Inl WrongBlockKind
          else if mp_content_type p \<noteq> Some (an_content_type a) \<or> mp_file_name p \<noteq> Some (an_original_name a) \<or>
            mp_size_bytes p \<noteq> Some (an_size_bytes a) \<or> mp_sha256 p \<noteq> Some (an_sha256 a) then Inl WrongMetadata
          else Inr a)"

definition limit_fallback :: "attachment \<Rightarrow> ustr \<Rightarrow> model_input_part" where
  "limit_fallback a reason = ModelTextInput (serialize_untrusted_content
     ([38468, 20214, 8220] @ an_original_name a @ [8221, 26410, 36733, 20837, 65306] @ reason @ [12290]) ATTACHMENT)"

definition single_limit_reason :: ustr where
  "single_limit_reason = [36229, 36807, 21333, 20010, 27169, 22411, 36755, 20837, 19978, 38480]"

definition total_limit_reason :: ustr where
  "total_limit_reason = [36229, 36807, 26412, 27425, 27169, 22411, 36755, 20837, 24635, 37327, 19978, 38480]"

definition item_limit :: "multimodal_limits \<Rightarrow> block_kind \<Rightarrow> int" where
  "item_limit limits kind = (if kind = BLOCK_IMAGE then ml_max_image_bytes limits else ml_max_document_bytes limits)"

definition is_media :: "message_part \<Rightarrow> bool" where
  "is_media p \<longleftrightarrow> mp_kind p = BLOCK_IMAGE \<or> mp_kind p = BLOCK_FILE"

definition normalized_type :: "(ustr \<Rightarrow> ustr) \<Rightarrow> ustr \<Rightarrow> ustr" where
  "normalized_type fold_case content_type = takeWhile (\<lambda>c. c \<noteq> 59) (fold_case content_type)"

text \<open>One attachment that fits is read, checked again and turned into a part.\<close>

definition read_attachment ::
    "(ustr \<Rightarrow> ustr) \<Rightarrow> attachment_port \<Rightarrow> multimodal_limits \<Rightarrow> message_part \<Rightarrow> attachment \<Rightarrow> input_error + (model_input_part \<times> int)" where
  "read_attachment fold_case port limits p a =
     (case apt_read port (an_object_key a) (item_limit limits (mp_kind p)) of
        None \<Rightarrow> Inl ObjectUnreadable
      | Some content \<Rightarrow>
          if int (length (sj_data content)) \<noteq> an_size_bytes a \<or>
            normalized_type fold_case (sj_content_type content) \<noteq> an_content_type a \<or> sj_sha256 content \<noteq> an_sha256 a
          then Inl IntegrityViolated
          else if mp_kind p = BLOCK_IMAGE then
            Inr (ModelImageInput \<lparr>ii_content_type = an_content_type a, ii_data = sj_data content,
              ii_file_name = an_original_name a, ii_alt_text = mp_alt_text p\<rparr>, int (length (sj_data content)))
          else bind_result (extract_document_text port (sj_data content) (an_content_type a)
              (ml_max_document_characters limits) (ml_max_pdf_pages limits)) (\<lambda>(body, page_count).
            Inr (ModelDocumentInput \<lparr>dm_content_type = an_content_type a, dm_data = sj_data content,
              dm_file_name = an_original_name a, dm_extracted_text = body, dm_page_count = page_count\<rparr>,
              int (length (sj_data content)))))"

fun load_parts ::
    "(ustr \<Rightarrow> ustr) \<Rightarrow> attachment_port \<Rightarrow> uuid \<Rightarrow> uuid \<Rightarrow> multimodal_limits \<Rightarrow> chat_message \<Rightarrow> int \<Rightarrow> message_part list \<Rightarrow> int \<Rightarrow>
       input_error + (model_input_part list \<times> int)" where
  "load_parts fold_case port tenant_id user_id limits m remaining [] bytes_loaded = Inr ([], bytes_loaded)"
| "load_parts fold_case port tenant_id user_id limits m remaining (p # ps) bytes_loaded =
     (if \<not> is_media p then load_parts fold_case port tenant_id user_id limits m remaining ps bytes_loaded
      else case mp_attachment_id p of
        None \<Rightarrow> Inl ReferenceIncomplete
      | Some i \<Rightarrow>
          bind_result (verify_attachment_reference tenant_id m (apt_find port i user_id) p) (\<lambda>a.
          if item_limit limits (mp_kind p) < an_size_bytes a then
            bind_result (load_parts fold_case port tenant_id user_id limits m remaining ps bytes_loaded) (\<lambda>(xs, n).
              Inr (limit_fallback a single_limit_reason # xs, n))
          else if remaining - bytes_loaded < an_size_bytes a then
            bind_result (load_parts fold_case port tenant_id user_id limits m remaining ps bytes_loaded) (\<lambda>(xs, n).
              Inr (limit_fallback a total_limit_reason # xs, n))
          else
            bind_result (read_attachment fold_case port limits p a) (\<lambda>(x, bytes).
            bind_result (load_parts fold_case port tenant_id user_id limits m remaining ps (bytes_loaded + bytes)) (\<lambda>(xs, n).
              Inr (x # xs, n)))))"

definition load_message_attachments ::
    "(ustr \<Rightarrow> ustr) \<Rightarrow> attachment_port \<Rightarrow> uuid \<Rightarrow> uuid \<Rightarrow> multimodal_limits \<Rightarrow> chat_message \<times> int \<Rightarrow> input_error + loaded_model_input" where
  "load_message_attachments fold_case port tenant_id user_id limits = (\<lambda>(m, remaining).
     bind_result (load_parts fold_case port tenant_id user_id limits m remaining (sorted_by mp_position (cg_parts m)) 0) (\<lambda>(xs, n).
       Inr \<lparr>lm_parts = xs, lm_bytes_loaded = n\<rparr>))"

text \<open>Bytes are reserved from the newest message to the oldest.\<close>

fun reserve_parts :: "multimodal_limits \<Rightarrow> message_part list \<Rightarrow> int \<Rightarrow> int \<Rightarrow> int \<times> int" where
  "reserve_parts limits [] reserved remaining = (reserved, remaining)"
| "reserve_parts limits (p # ps) reserved remaining =
     (case mp_size_bytes p of
        Some bytes \<Rightarrow>
          if is_media p \<and> bytes \<le> item_limit limits (mp_kind p) \<and> bytes \<le> remaining
          then reserve_parts limits ps (reserved + bytes) (remaining - bytes)
          else reserve_parts limits ps reserved remaining
      | None \<Rightarrow> reserve_parts limits ps reserved remaining)"

fun select_messages :: "multimodal_limits \<Rightarrow> chat_message list \<Rightarrow> int \<Rightarrow> (chat_message \<times> int) list" where
  "select_messages limits [] remaining = []"
| "select_messages limits (m # ms) remaining =
     (let (reserved, rest) = reserve_parts limits (cg_parts m) 0 remaining in (m, reserved) # select_messages limits ms rest)"

definition load_messages ::
    "(ustr \<Rightarrow> ustr) \<Rightarrow> attachment_port \<Rightarrow> uuid \<Rightarrow> uuid \<Rightarrow> multimodal_limits \<Rightarrow> chat_message list \<Rightarrow>
       input_error + (uuid, loaded_model_input) dict" where
  "load_messages fold_case port tenant_id user_id limits ms =
     (let selected = select_messages limits (rev ms) (ml_max_total_bytes limits) in
      bind_result (collect_results (map (load_message_attachments fold_case port tenant_id user_id limits) selected)) (\<lambda>loaded.
        Inr (fold (\<lambda>(m, x). dict_set (cg_id m) x) (zip (map fst selected) loaded) [])))"

end
