(* ===== verification/Conversation_Request.thy ===== *)
theory Conversation_Request
  imports Model_Input Cognitive_Runtime Memory_Service Memory_Rows Handler_Payload
begin

text \<open>
  How \<open>ConversationService\<close> (\<open>application conversation_service.py\<close>) turns a conversation into a request to the
  language model: the settings it reads, the fragments of the context, long-term memory as background,
  the messages after the decision of the runtime, and the request that one provider gets.
\<close>

section \<open>Errors and settings\<close>

text \<open>The exceptions by class; \<open>Raised\<close> is any other, by the name of its class.\<close>

datatype run_error = ServiceConflict | ProviderConfiguration | InputFailure | TimeoutFailure | Raised ustr

fun run_error_name :: "run_error \<Rightarrow> ustr" where
  "run_error_name ServiceConflict = lit ''ConversationConflictError''"
| "run_error_name ProviderConfiguration = lit ''ModelProviderConfigurationError''"
| "run_error_name InputFailure = lit ''MultimodalInputError''"
| "run_error_name TimeoutFailure = lit ''TimeoutError''"
| "run_error_name (Raised name) = name"

definition lift_failure :: "('e \<Rightarrow> run_error) \<Rightarrow> 'e + 'a \<Rightarrow> run_error + 'a" where
  "lift_failure f r = (case r of Inl e \<Rightarrow> Inl (f e) | Inr a \<Rightarrow> Inr a)"

definition integer_setting :: "json_dict \<Rightarrow> ustr \<Rightarrow> run_error + int" where
  "integer_setting values name = (case dict_get values name of Some (JInt n) \<Rightarrow> Inr n | _ \<Rightarrow> Inl ServiceConflict)"

definition boolean_setting :: "json_dict \<Rightarrow> ustr \<Rightarrow> run_error + bool" where
  "boolean_setting values name = (case dict_get values name of Some (JBool b) \<Rightarrow> Inr b | _ \<Rightarrow> Inl ServiceConflict)"

definition number_setting :: "json_dict \<Rightarrow> ustr \<Rightarrow> run_error + rat" where
  "number_setting values name = (case dict_get values name of
     Some (JInt n) \<Rightarrow> lift_failure (\<lambda>_. Raised (lit ''OverflowError'')) (float_of_int n)
   | Some (JFloat q) \<Rightarrow> Inr q | _ \<Rightarrow> Inl ServiceConflict)"

definition string_setting :: "json_dict \<Rightarrow> ustr \<Rightarrow> run_error + ustr" where
  "string_setting values name = (case dict_get values name of
     Some (JStr s) \<Rightarrow> if strip s = [] then Inl ServiceConflict else Inr s | _ \<Rightarrow> Inl ServiceConflict)"

definition provider_selection :: "ustr \<Rightarrow> json_dict \<Rightarrow> run_error + (ustr \<times> ustr)" where
  "provider_selection name values = (case dict_get values name of
     Some (JStr provider) \<Rightarrow>
       if provider = lit ''development'' then Inr (provider, lit ''friendly-echo-v1'')
       else if provider = lit ''openai'' then
         (case dict_get values (lit ''model.openai.model'') of
            Some (JStr m) \<Rightarrow> if strip m = [] then Inl ProviderConfiguration else Inr (provider, m)
          | _ \<Rightarrow> Inl ProviderConfiguration)
       else Inl ProviderConfiguration
   | _ \<Rightarrow> Inl ProviderConfiguration)"

definition model_selection :: "json_dict \<Rightarrow> run_error + (ustr \<times> ustr)" where
  "model_selection = provider_selection (lit ''model.chat.provider'')"

definition fallback_selection :: "json_dict \<Rightarrow> run_error + (ustr \<times> ustr)" where
  "fallback_selection = provider_selection (lit ''model.chat.fallback_provider'')"

definition multimodal_limits_of :: "json_dict \<Rightarrow> run_error + multimodal_limits" where
  "multimodal_limits_of values =
     bind_result (integer_setting values (lit ''model.multimodal.max_image_bytes'')) (\<lambda>image.
     bind_result (integer_setting values (lit ''model.multimodal.max_document_bytes'')) (\<lambda>document.
     bind_result (integer_setting values (lit ''model.multimodal.max_total_bytes'')) (\<lambda>total.
     bind_result (integer_setting values (lit ''model.multimodal.max_document_characters'')) (\<lambda>characters.
     bind_result (integer_setting values (lit ''model.multimodal.max_pdf_pages'')) (\<lambda>pages.
       Inr \<lparr>ml_max_image_bytes = image, ml_max_document_bytes = document, ml_max_total_bytes = total,
         ml_max_document_characters = characters, ml_max_pdf_pages = pages\<rparr>)))))"

section \<open>Fragments of the context\<close>

definition new_fragment :: "context_fragment \<Rightarrow> run_error + context_fragment" where
  "new_fragment f = lift_failure (\<lambda>_. Raised (lit ''ValueError'')) (check_fragment f)"

text \<open>Messages that count: no system messages, no blank ones, of the agent's only the completed ones.\<close>

definition speaks :: "chat_message \<Rightarrow> bool" where
  "speaks m \<longleftrightarrow> strip (cg_content m) \<noteq> [] \<and> cg_sender_type m \<noteq> SENDER_SYSTEM \<and>
     (cg_sender_type m = SENDER_AGENT \<longrightarrow> cg_status m = MESSAGE_COMPLETED)"

definition message_fragment :: "nat \<Rightarrow> uuid \<Rightarrow> nat \<times> chat_message \<Rightarrow> context_fragment" where
  "message_fragment count trigger_id = (\<lambda>(index, m).
     \<lparr>cf_fragment_id = lit ''message-'' @ uuid_str (cg_id m), cf_kind = RECENT_MESSAGE,
      cf_role = (if cg_sender_type m = SENDER_USER then USER_ROLE else ASSISTANT_ROLE), cf_content = cg_content m,
      cf_priority = min 99 (55 + int (index * 44 div max 1 (count - 1))), cf_required = (cg_id m = trigger_id),
      cf_ordinal = int index, cf_source_id = Some (uuid_str (cg_id m)), cf_token_estimate = None,
      cf_summary_level = 0, cf_source_count = 1\<rparr>)"

definition context_fragments :: "chat_message list \<Rightarrow> uuid \<Rightarrow> run_error + context_fragment list" where
  "context_fragments ms trigger_id =
     collect_results (map (\<lambda>x. new_fragment (message_fragment (length ms) trigger_id x)) (filter (speaks \<circ> snd) (enumerate 0 ms)))"

section \<open>Memory as background\<close>

text \<open>The injected memory service, bound to the identity of the conversation and to the time of the call.\<close>

record memory_port =
  mn_embedding_version :: ustr
  mn_recall :: "ustr \<Rightarrow> int \<Rightarrow> int \<Rightarrow> memory_sensitivity \<Rightarrow> rat \<Rightarrow> recall_weights \<Rightarrow> run_error + memory_recall list"
  mn_relationship :: "run_error + relationship_detail option"

definition memory_port_of ::
    "('s, 'e) memory_repository \<Rightarrow> text_encoder \<Rightarrow> (rat \<Rightarrow> rat) \<Rightarrow> ('e memory_error \<Rightarrow> run_error) \<Rightarrow> development_identity \<Rightarrow>
       instant \<Rightarrow> 's \<Rightarrow> memory_port" where
  "memory_port_of repo enc fexp err identity now s =
     \<lparr>mn_embedding_version = te_version enc,
      mn_recall = (\<lambda>query limit pool sensitivity half_life weights. lift_failure err
        (recall repo enc fexp (di_tenant_id identity) (di_agent_id identity) (di_user_id identity) query limit pool
          sensitivity half_life weights now s)),
      mn_relationship = lift_failure err
        (get_relationship repo (di_tenant_id identity) (di_agent_id identity) (di_user_id identity) s)\<rparr>"

definition no_extra_boundary :: ustr where
  "no_extra_boundary = [26080, 39069, 22806, 36793, 30028]"

definition relationship_content :: "relationship \<Rightarrow> ustr" where
  "relationship_content r =
     [20851, 31995, 36830, 32493, 24615, 32972, 26223, 65288, 20165, 20379, 29702, 35299, 20132, 27969, 36317, 31163, 65292,
      19981, 33021, 35206, 30422, 20154, 26684, 12289, 31574, 30053, 25110, 26412, 36718, 29992, 25143, 24847, 22270, 65289,
      65306] @ [38454, 27573, 61] @ relationship_stage_value (rl_stage r) @ [65307, 25688, 35201, 61] @ rl_summary r @
     [65307, 36793, 30028, 61] @
     (if rl_boundaries r = [] then no_extra_boundary else join [65307] (rl_boundaries r)) @ [12290]"

definition relationship_fragment :: "relationship \<Rightarrow> context_fragment" where
  "relationship_fragment r =
     \<lparr>cf_fragment_id = lit ''relationship-'' @ uuid_str (rl_id r) @ lit ''-v'' @ dec_int (rl_version r),
      cf_kind = LONG_TERM_MEMORY, cf_role = USER_ROLE, cf_content = relationship_content r, cf_priority = 82,
      cf_required = False, cf_ordinal = - 100, cf_source_id = Some (uuid_str (rl_id r)), cf_token_estimate = None,
      cf_summary_level = 0, cf_source_count = 1\<rparr>"

fun confirmation_label :: "memory_confirmation \<Rightarrow> ustr" where
  "confirmation_label UNCONFIRMED = [26410, 30830, 35748, 25512, 26029, 65292, 19981, 24471, 24403, 20316, 29992, 25143, 21407,
     35805, 25110, 30830, 23450, 20107, 23454]"
| "confirmation_label CONFIRMED = [24050, 30830, 35748, 20107, 23454]"
| "confirmation_label DISPUTED = [23384, 22312, 20105, 35758, 65292, 19981, 24471, 20316, 20026, 30830, 23450, 20107, 23454]"

definition recalled_content :: "(instant \<Rightarrow> ustr) \<Rightarrow> memory \<Rightarrow> ustr \<Rightarrow> ustr" where
  "recalled_content isof m body =
     [38271, 26399, 35760, 24518, 32972, 26223, 65288, 19981, 26159, 26412, 36718, 25351, 20196, 65292, 31105, 27490, 25454,
      27492, 27844, 38706, 20854, 20182, 29992, 25143, 20449, 24687, 65289, 65306] @ [31867, 22411, 61] @
     memory_kind_value (mm_kind m) @ [65307, 35777, 25454, 29366, 24577, 61] @ confirmation_label (mm_confirmation m) @
     [65307, 20107, 20214, 26102, 38388, 61] @ isof (mm_event_at m) @ [65307, 20869, 23481, 61] @ body"

definition recalled_fragment :: "(instant \<Rightarrow> ustr) \<Rightarrow> nat \<Rightarrow> memory_recall \<Rightarrow> ustr \<Rightarrow> context_fragment" where
  "recalled_fragment isof index r body = (let m = rk_memory r in
     \<lparr>cf_fragment_id = lit ''memory-'' @ uuid_str (mm_id m) @ lit ''-v'' @ dec_int (mm_version m),
      cf_kind = LONG_TERM_MEMORY, cf_role = USER_ROLE, cf_content = recalled_content isof m body,
      cf_priority = min 95 (60 + round_even (fmul (rk_score r) 30)), cf_required = False,
      cf_ordinal = - 90 + int index, cf_source_id = Some (uuid_str (mm_id m)), cf_token_estimate = None,
      cf_summary_level = 0, cf_source_count = 1\<rparr>)"

fun recalled_fragments ::
    "(instant \<Rightarrow> ustr) \<Rightarrow> nat \<Rightarrow> memory_recall list \<Rightarrow> run_error + (context_fragment list \<times> memory_trace_item list)" where
  "recalled_fragments isof index [] = Inr ([], [])"
| "recalled_fragments isof index (r # rs) =
     (case mm_content (rk_memory r) of
        None \<Rightarrow> recalled_fragments isof (Suc index) rs
      | Some body \<Rightarrow>
          bind_result (new_fragment (recalled_fragment isof index r body)) (\<lambda>f.
          bind_result (recalled_fragments isof (Suc index) rs) (\<lambda>(fs, ts).
            Inr (f # fs, \<lparr>mt_memory_id = mm_id (rk_memory r), mt_score = rk_score r, mt_version = mm_version (rk_memory r)\<rparr> # ts))))"

definition recall_setting :: "string \<Rightarrow> ustr" where
  "recall_setting name = lit ''memory.recall.'' @ lit name"

definition recall_weights_of :: "json_dict \<Rightarrow> run_error + recall_weights" where
  "recall_weights_of values =
     bind_result (number_setting values (recall_setting ''full_text_weight'')) (\<lambda>full_text.
     bind_result (number_setting values (recall_setting ''semantic_weight'')) (\<lambda>semantic.
     bind_result (number_setting values (recall_setting ''recency_weight'')) (\<lambda>recency.
     bind_result (number_setting values (recall_setting ''importance_weight'')) (\<lambda>importance.
     bind_result (number_setting values (recall_setting ''relationship_weight'')) (\<lambda>relation.
     bind_result (lift_failure (\<lambda>_. Raised (lit ''ValueError''))
       (check_weights \<lparr>rw_full_text = full_text, rw_semantic = semantic, rw_recency = recency, rw_importance = importance,
         rw_relationship = relation\<rparr>)) (\<lambda>w. Inr w))))))"

definition memory_context ::
    "(instant \<Rightarrow> ustr) \<Rightarrow> memory_port option \<Rightarrow> ustr \<Rightarrow> json_dict \<Rightarrow>
       run_error + (context_fragment list \<times> memory_trace_item list \<times> int option)" where
  "memory_context isof port query values =
     (case port of
        None \<Rightarrow> Inr ([], [], None)
      | Some p \<Rightarrow>
          bind_result (string_setting values (lit ''memory.embedding.version'')) (\<lambda>configured.
          if configured \<noteq> mn_embedding_version p then Inl ServiceConflict
          else
            bind_result (integer_setting values (recall_setting ''limit'')) (\<lambda>limit.
            bind_result (integer_setting values (recall_setting ''candidate_pool'')) (\<lambda>pool.
            bind_result (string_setting values (recall_setting ''maximum_sensitivity'')) (\<lambda>level.
            bind_result (case parse_memory_sensitivity level of None \<Rightarrow> Inl (Raised (lit ''ValueError'')) | Some x \<Rightarrow> Inr x) (\<lambda>sensitivity.
            bind_result (number_setting values (recall_setting ''recency_half_life_days'')) (\<lambda>half_life.
            bind_result (recall_weights_of values) (\<lambda>weights.
            bind_result (mn_recall p query limit pool sensitivity half_life weights) (\<lambda>recalls.
            bind_result (mn_relationship p) (\<lambda>found.
            bind_result (case found of None \<Rightarrow> Inr []
              | Some d \<Rightarrow> bind_result (new_fragment (relationship_fragment (rd_relationship d))) (\<lambda>f. Inr [f])) (\<lambda>rel.
            bind_result (recalled_fragments isof 0 recalls) (\<lambda>(fs, ts).
              Inr (rel @ fs, ts, map_option (\<lambda>d. rl_version (rd_relationship d)) found)))))))))))))"

section \<open>The messages of a request\<close>

text \<open>The injected multimodal service, if there is one.\<close>

type_synonym multimodal_port =
  "(chat_message list \<Rightarrow> multimodal_limits \<Rightarrow> run_error + (uuid, loaded_model_input) dict) option"

definition multimodal_port_of :: "(ustr \<Rightarrow> ustr) \<Rightarrow> attachment_port \<Rightarrow> development_identity \<Rightarrow> multimodal_port" where
  "multimodal_port_of fold_case port identity = Some (\<lambda>ms limits. lift_failure (\<lambda>_. InputFailure)
     (load_messages fold_case port (di_tenant_id identity) (di_user_id identity) limits ms))"

definition has_attachment :: "chat_message \<Rightarrow> bool" where
  "has_attachment m \<longleftrightarrow> list_ex (\<lambda>p. mp_attachment_id p \<noteq> None) (cg_parts m)"

definition load_multimodal ::
    "multimodal_port \<Rightarrow> chat_message list \<Rightarrow> multimodal_limits \<Rightarrow> run_error + (uuid, loaded_model_input) dict" where
  "load_multimodal port ms limits =
     (if ms = [] then Inr [] else case port of None \<Rightarrow> Inl ServiceConflict | Some load \<Rightarrow> load ms limits)"

definition model_parts ::
    "chat_message option \<Rightarrow> ustr \<Rightarrow> model_role \<Rightarrow> loaded_model_input option \<Rightarrow> run_error + model_input_part list" where
  "model_parts m body role loaded =
     (if m = None \<or> role \<noteq> MODEL_USER \<or> \<not> has_attachment (the m) then Inr [ModelTextInput body]
      else case loaded of None \<Rightarrow> Inl ServiceConflict | Some x \<Rightarrow> Inr (ModelTextInput body # lm_parts x))"

definition message_role :: "chat_message \<Rightarrow> model_role" where
  "message_role m = (if cg_sender_type m = SENDER_USER then MODEL_USER else MODEL_ASSISTANT)"

definition model_message_of :: "(uuid, loaded_model_input) dict \<Rightarrow> chat_message \<Rightarrow> run_error + model_message" where
  "model_message_of loaded m =
     (let role = message_role m;
          body = (if role = MODEL_USER then serialize_untrusted_content (cg_content m) USER_MESSAGE else cg_content m) in
      bind_result (model_parts (Some m) body role (dict_get loaded (cg_id m))) (\<lambda>parts.
        Inr \<lparr>mg_role = role, mg_content = parts\<rparr>))"

definition model_messages ::
    "multimodal_port \<Rightarrow> chat_message list \<Rightarrow> uuid \<Rightarrow> multimodal_limits \<Rightarrow> run_error + model_message list" where
  "model_messages port ms response_id limits =
     bind_result (load_multimodal port
       (filter (\<lambda>m. cg_id m \<noteq> response_id \<and> cg_sender_type m = SENDER_USER \<and> has_attachment m) ms) limits) (\<lambda>loaded.
     collect_results (map (model_message_of loaded) (filter (\<lambda>m. cg_id m \<noteq> response_id \<and> speaks m) ms)))"

definition fragment_source :: "context_fragment \<Rightarrow> untrusted_source" where
  "fragment_source f = (if cf_kind f = LONG_TERM_MEMORY \<or> cf_kind f = CONVERSATION_SUMMARY then RETRIEVED_CONTEXT else USER_MESSAGE)"

definition fragment_message :: "chat_message list \<Rightarrow> context_fragment \<Rightarrow> chat_message option" where
  "fragment_message ms f =
     (case cf_source_id f of
        Some i \<Rightarrow> if cf_kind f = RECENT_MESSAGE then dict_get (fold (\<lambda>m. dict_set (uuid_str (cg_id m)) m) ms []) i else None
      | None \<Rightarrow> None)"

definition fragment_model_message ::
    "chat_message list \<Rightarrow> (uuid, loaded_model_input) dict \<Rightarrow> context_fragment \<Rightarrow> run_error + model_message" where
  "fragment_model_message ms loaded f =
     (let role = (if cf_role f = USER_ROLE then MODEL_USER else MODEL_ASSISTANT);
          body = (if role = MODEL_USER then serialize_untrusted_content (cf_content f) (fragment_source f) else cf_content f);
          origin = fragment_message ms f in
      bind_result (model_parts origin body role (case origin of None \<Rightarrow> None | Some m \<Rightarrow> dict_get loaded (cg_id m))) (\<lambda>parts.
        Inr \<lparr>mg_role = role, mg_content = parts\<rparr>))"

definition attached_sources :: "chat_message list \<Rightarrow> context_fragment list \<Rightarrow> chat_message list" where
  "attached_sources ms fs = filter (\<lambda>m. cg_sender_type m = SENDER_USER \<and> has_attachment m)
     (concat (map (\<lambda>f. case fragment_message ms f of None \<Rightarrow> [] | Some m \<Rightarrow> [m]) fs))"

definition decision_messages ::
    "multimodal_port \<Rightarrow> agent_decision \<Rightarrow> chat_message list \<Rightarrow> uuid \<Rightarrow> multimodal_limits \<Rightarrow> run_error + model_message list" where
  "decision_messages port decision fallback response_id limits =
     (case ad_context decision of
        None \<Rightarrow> model_messages port fallback response_id limits
      | Some c \<Rightarrow>
          bind_result (load_multimodal port (attached_sources fallback (as_fragments c)) limits) (\<lambda>loaded.
          collect_results (map (fragment_model_message fallback loaded)
            (filter (\<lambda>f. cf_role f \<noteq> SYSTEM_ROLE) (as_fragments c)))))"

text \<open>Only background of the system goes to the instructions.\<close>

definition context_instructions :: "agent_decision \<Rightarrow> ustr" where
  "context_instructions decision =
     (case ad_context decision of
        None \<Rightarrow> []
      | Some c \<Rightarrow>
          (let fs = map cf_content (filter (\<lambda>f. cf_role f = SYSTEM_ROLE) (as_fragments c)) in
           if fs = [] then []
           else [38271, 26399, 19978, 19979, 25991, 24320, 22987, 10] @ join [10] fs @
             [10, 38271, 26399, 19978, 19979, 25991, 32467, 26463]))"

section \<open>Budget and capabilities\<close>

definition part_estimate :: "model_input_part \<Rightarrow> int" where
  "part_estimate p = (case p of
     ModelTextInput _ \<Rightarrow> 0
   | ModelImageInput _ \<Rightarrow> 1024
   | ModelDocumentInput d \<Rightarrow> estimate_tokens (dm_extracted_text d) +
       (if dm_content_type d = lit ''application/pdf''
        then min (case dm_page_count d of None \<Rightarrow> 1 | Some n \<Rightarrow> if n = 0 then 1 else n) 100 * 800 else 0))"

definition multimodal_token_estimate :: "model_message list \<Rightarrow> int" where
  "multimodal_token_estimate ms = sum_list (map part_estimate (concat (map mg_content ms)))"

definition supported_part :: "model_capabilities \<Rightarrow> model_input_part \<Rightarrow> model_input_part" where
  "supported_part cap p = (case p of
     ModelImageInput i \<Rightarrow>
       if mk_image_input cap then p
       else ModelTextInput (serialize_untrusted_content
         ([22270, 29255, 38468, 20214, 8220] @ ii_file_name i @
          [8221, 26410, 36733, 20837, 65306, 24403, 21069, 27169, 22411, 19981, 25903, 25345, 22270, 29255, 36755, 20837, 12290])
         ATTACHMENT)
   | ModelDocumentInput d \<Rightarrow>
       if mk_document_input cap then p
       else ModelTextInput (serialize_untrusted_content
         ([25991, 26723, 38468, 20214, 8220] @ dm_file_name d @ [8221, 27491, 25991, 65306, 10] @
          (if dm_extracted_text d = [] then [91, 26410, 25552, 21462, 21040, 21487, 35835, 27491, 25991, 93] else dm_extracted_text d))
         ATTACHMENT)
   | ModelTextInput _ \<Rightarrow> p)"

definition request_for_capabilities :: "model_request \<Rightarrow> model_capabilities \<Rightarrow> model_request" where
  "request_for_capabilities q cap =
     q\<lparr>mq_messages := map (\<lambda>m. m\<lparr>mg_content := map (supported_part cap) (mg_content m)\<rparr>) (mq_messages q)\<rparr>"

end
