(* ===== verification/Conversation_Execution.thy ===== *)
theory Conversation_Execution
  imports Conversation_Request Conversation_Machine
begin

text \<open>
  The execution of a run: \<open>ConversationService.execute_run\<close> with \<open>_stream_with_resilience\<close> and the circuit
  breaker \<open>ModelReliabilityGuard\<close>. The service works on the in-memory repository while other clients do;
  \<open>run_world\<close> says what they did to the store and to the guard before each of its awaits, which of its awaits
  the task is cancelled in, and what the model provider streams. What the injected configuration, cognition
  and memory services answer is the record \<open>collaborators\<close>.
\<close>

section \<open>The circuit breaker\<close>

record circuit_state =
  ci_failures :: int
  ci_opened_at :: "instant option"

type_synonym reliability_guard = "(ustr, circuit_state) dict"

definition guard_available :: "ustr \<Rightarrow> int \<Rightarrow> instant \<Rightarrow> reliability_guard \<Rightarrow> bool \<times> reliability_guard" where
  "guard_available profile cooldown_seconds now g =
     (case dict_get g profile of
        None \<Rightarrow> (True, g)
      | Some st \<Rightarrow> (case ci_opened_at st of
          None \<Rightarrow> (True, g)
        | Some opened \<Rightarrow>
            if cooldown_seconds * 1000000 \<le> now - opened
            then (True, dict_set profile \<lparr>ci_failures = 0, ci_opened_at = None\<rparr> g) else (False, g)))"

definition guard_succeeded :: "ustr \<Rightarrow> reliability_guard \<Rightarrow> reliability_guard" where
  "guard_succeeded profile g = dict_pop profile g"

definition guard_failed :: "ustr \<Rightarrow> int \<Rightarrow> instant \<Rightarrow> reliability_guard \<Rightarrow> reliability_guard" where
  "guard_failed profile threshold now g =
     (let st = (case dict_get g profile of None \<Rightarrow> \<lparr>ci_failures = 0, ci_opened_at = None\<rparr> | Some st \<Rightarrow> st);
          n = ci_failures st + 1
      in dict_set profile \<lparr>ci_failures = n, ci_opened_at = (if threshold \<le> n then Some now else ci_opened_at st)\<rparr> g)"

section \<open>Routes and invocations\<close>

record route_profile =
  rp_provider :: ustr
  rp_model :: ustr
  rp_input_price :: rat
  rp_output_price :: rat
  rp_profile_key :: "ustr option"
  rp_profile_version :: "int option"

record model_route_plan =
  ro_purpose :: ustr
  ro_version :: int
  ro_profiles :: "route_profile list"
  ro_timeout_seconds :: int
  ro_max_attempts :: int

record runtime_bundle =
  rb_persona :: persona_profile
  rb_prompt :: ustr
  rb_prompt_version :: int
  rb_policy :: policy_rules
  rb_model_route :: "model_route_plan option"

datatype invocation_status = INVOCATION_RUNNING | INVOCATION_COMPLETED | INVOCATION_FAILED | INVOCATION_TIMED_OUT

record model_invocation =
  iv_id :: uuid
  iv_tenant_id :: uuid
  iv_run_id :: uuid
  iv_purpose :: ustr
  iv_provider :: ustr
  iv_model :: ustr
  iv_attempt :: int
  iv_status :: invocation_status
  iv_input_tokens :: "int option"
  iv_output_tokens :: "int option"
  iv_latency_ms :: int
  iv_error_code :: "ustr option"
  iv_created_at :: instant
  iv_completed_at :: instant
  iv_estimated_cost_microusd :: int

text \<open>\<open>decimal\<close> is \<open>Decimal(str(price))\<close>; the product stays within the digits of the decimal context.\<close>

definition estimated_cost_microusd :: "(rat \<Rightarrow> rat) \<Rightarrow> model_usage option \<Rightarrow> rat \<times> rat \<Rightarrow> int" where
  "estimated_cost_microusd decimal usage pricing =
     (case usage of
        None \<Rightarrow> 0
      | Some u \<Rightarrow>
          (let cost = of_int (us_input_tokens u) * decimal (fst pricing) + of_int (us_output_tokens u) * decimal (snd pricing)
           in if 0 \<le> cost then \<lfloor>cost + 1 / 2\<rfloor> else - \<lfloor>1 / 2 - cost\<rfloor>))"

definition new_invocation ::
    "(rat \<Rightarrow> rat) \<Rightarrow> uuid \<Rightarrow> agent_run \<Rightarrow> ustr \<Rightarrow> ustr \<Rightarrow> nat \<Rightarrow> invocation_status \<Rightarrow> instant \<Rightarrow> instant \<Rightarrow> model_usage option \<Rightarrow>
       rat \<times> rat \<Rightarrow> ustr option \<Rightarrow> model_invocation" where
  "new_invocation decimal i r provider model attempt status started_at now usage pricing error_code =
     \<lparr>iv_id = i, iv_tenant_id = gr_tenant_id r, iv_run_id = gr_id r, iv_purpose = lit ''chat.realizer'',
      iv_provider = provider, iv_model = model, iv_attempt = int attempt, iv_status = status,
      iv_input_tokens = map_option us_input_tokens usage, iv_output_tokens = map_option us_output_tokens usage,
      iv_latency_ms = max 0 \<lfloor>fmul (fdiv (of_int (now - started_at)) 1000000) 1000\<rfloor>, iv_error_code = error_code,
      iv_created_at = started_at, iv_completed_at = now,
      iv_estimated_cost_microusd = estimated_cost_microusd decimal usage pricing\<rparr>"

section \<open>The world around a run\<close>

text \<open>How the stream of a provider ends; \<open>StreamTimedOut True\<close>: the time is up while a delta waits for the repository.\<close>

datatype stream_end = StreamDone | StreamTimedOut bool | StreamRaised run_error

record model_provider =
  mv_name :: ustr
  mv_model :: ustr
  mv_capabilities :: model_capabilities
  mv_stream :: "model_request \<Rightarrow> model_stream_event list \<times> stream_end"

record run_world =
  xw_others :: "nat \<Rightarrow> conversation_store \<Rightarrow> conversation_store"
  xw_guard :: "nat \<Rightarrow> reliability_guard \<Rightarrow> reliability_guard"
  xw_draws :: "nat \<Rightarrow> draws"
  xw_clock :: "nat \<Rightarrow> instant"
  xw_cancelled :: "nat \<Rightarrow> bool"
  xw_resolve :: "nat \<Rightarrow> ustr \<Rightarrow> ustr \<Rightarrow> run_error + model_provider"
  xw_recording :: "nat \<Rightarrow> run_error option"
  xw_isoformat :: "instant \<Rightarrow> ustr"
  xw_decimal :: "rat \<Rightarrow> rat"

record collaborators =
  cl_values :: "run_error + json_dict"
  cl_bundle :: "run_error + runtime_bundle"
  cl_affect :: "run_error + affect_state option"
  cl_memory :: "memory_port option"
  cl_multimodal :: multimodal_port
  cl_run :: "agent_event \<Rightarrow> cognitive_context \<Rightarrow> run_error + agent_decision"
  cl_recording :: "run_error option"
  cl_tasks :: "run_error option option"

text \<open>What a run leaves: the store, the guard, the invocations and the reflections it asked for.\<close>

record execution =
  xe_store :: conversation_store
  xe_guard :: reliability_guard
  xe_tick :: nat
  xe_invocations :: "model_invocation list"
  xe_reflections :: "(int \<times> int \<times> int \<times> int) list"

datatype 'a outcome = Done 'a | Failed run_error | Cancelled

fun and_then :: "'a outcome \<times> execution \<Rightarrow> ('a \<Rightarrow> execution \<Rightarrow> 'b outcome \<times> execution) \<Rightarrow> 'b outcome \<times> execution" where
  "and_then (Done a, x) f = f a x"
| "and_then (Failed e, x) f = (Failed e, x)"
| "and_then (Cancelled, x) f = (Cancelled, x)"

definition outcome_of :: "run_error + 'a \<Rightarrow> 'a outcome" where
  "outcome_of r = (case r of Inl e \<Rightarrow> Failed e | Inr a \<Rightarrow> Done a)"

text \<open>At an await others go on, and the task may be cancelled there.\<close>

definition awaited :: "run_world \<Rightarrow> execution \<Rightarrow> unit outcome \<times> execution" where
  "awaited w x =
     (let k = xe_tick x;
          y = x\<lparr>xe_store := xw_others w k (xe_store x), xe_guard := xw_guard w k (xe_guard x), xe_tick := Suc k\<rparr>
      in (if xw_cancelled w k then Cancelled else Done (), y))"

fun repository_error :: "conversation_error \<Rightarrow> run_error" where
  "repository_error (RunMissing i) = Raised (lit ''AgentRunNotFoundError'')"
| "repository_error MissingKey = Raised (lit ''KeyError'')"
| "repository_error _ = ServiceConflict"

definition access ::
    "run_world \<Rightarrow> (draws \<Rightarrow> conversation_store \<Rightarrow> conversation_error + ('a \<times> conversation_store)) \<Rightarrow> execution \<Rightarrow>
       'a outcome \<times> execution" where
  "access w f x = and_then (awaited w x) (\<lambda>_ y.
     case f (xw_draws w (xe_tick x)) (xe_store y) of
       Inl e \<Rightarrow> (Failed (repository_error e), y)
     | Inr (a, t) \<Rightarrow> (Done a, y\<lparr>xe_store := t\<rparr>))"

definition record_invocation ::
    "run_world \<Rightarrow> agent_run \<Rightarrow> ustr \<Rightarrow> ustr \<Rightarrow> nat \<Rightarrow> invocation_status \<Rightarrow> instant \<Rightarrow> model_usage option \<Rightarrow> rat \<times> rat \<Rightarrow>
       ustr option \<Rightarrow> execution \<Rightarrow> unit outcome \<times> execution" where
  "record_invocation w r provider model attempt status started_at usage pricing error_code x =
     and_then (awaited w x) (\<lambda>_ y.
       case xw_recording w (xe_tick x) of
         Some e \<Rightarrow> (Failed e, y)
       | None \<Rightarrow> (Done (), y\<lparr>xe_invocations := xe_invocations y @ [new_invocation (xw_decimal w)
           (su_event_id (xw_draws w (xe_tick x)) 0) r provider model attempt status started_at (xw_clock w (xe_tick x)) usage
           pricing error_code]\<rparr>))"

section \<open>One attempt\<close>

text \<open>The loop over the events of a stream: whether it wrote to the reply, and the last usage.\<close>

fun stream_events ::
    "run_world \<Rightarrow> uuid \<Rightarrow> stream_end \<Rightarrow> model_stream_event list \<Rightarrow> bool \<Rightarrow> model_usage option \<Rightarrow> execution \<Rightarrow>
       (model_usage option outcome \<times> bool) \<times> execution" where
  "stream_events w run_id ending [] emitted usage x =
     (case awaited w x of
        (Done _, y) \<Rightarrow> (case ending of
            StreamDone \<Rightarrow> ((Done usage, emitted), y)
          | StreamTimedOut waiting \<Rightarrow> ((Failed TimeoutFailure, emitted \<or> waiting), y)
          | StreamRaised e \<Rightarrow> ((Failed e, emitted), y))
      | (Failed e, y) \<Rightarrow> ((Failed e, emitted), y)
      | (Cancelled, y) \<Rightarrow> ((Cancelled, emitted), y))"
| "stream_events w run_id ending (e # es) emitted usage x =
     (let usage' = (case me_usage e of None \<Rightarrow> usage | Some u \<Rightarrow> Some u) in
      case awaited w x of
        (Done _, y) \<Rightarrow>
          if me_delta e = [] then stream_events w run_id ending es emitted usage' y
          else (case access w (\<lambda>dw. conv_append_run_delta dw run_id (me_delta e)) y of
              (Done _, z) \<Rightarrow> stream_events w run_id ending es True usage' z
            | (Failed err, z) \<Rightarrow> ((Failed err, True), z)
            | (Cancelled, z) \<Rightarrow> ((Cancelled, True), z))
      | (Failed err, y) \<Rightarrow> ((Failed err, emitted), y)
      | (Cancelled, y) \<Rightarrow> ((Cancelled, emitted), y))"

definition profile_name :: "route_profile \<Rightarrow> ustr" where
  "profile_name p = rp_provider p @ lit ''/'' @ rp_model p"

definition pricing_of :: "route_profile \<Rightarrow> rat \<times> rat" where
  "pricing_of p = (rp_input_price p, rp_output_price p)"

text \<open>The body of the \<open>try\<close>.\<close>

definition run_attempt ::
    "run_world \<Rightarrow> agent_run \<Rightarrow> model_request \<Rightarrow> nat \<Rightarrow> instant \<Rightarrow> route_profile \<Rightarrow> execution \<Rightarrow>
       (model_usage option outcome \<times> bool) \<times> execution" where
  "run_attempt w r q attempt started_at p x =
     (case awaited w x of
        (Done _, y) \<Rightarrow>
          (case xw_resolve w (xe_tick x) (rp_provider p) (rp_model p) of
             Inl e \<Rightarrow> ((Failed e, False), y)
           | Inr v \<Rightarrow>
               (let (es, ending) = mv_stream v (request_for_capabilities q (mv_capabilities v)) in
                case stream_events w (gr_id r) ending es False None y of
                  ((Done usage, emitted), z) \<Rightarrow>
                    (case record_invocation w r (mv_name v) (mv_model v) attempt INVOCATION_COMPLETED started_at usage
                        (pricing_of p) None (z\<lparr>xe_guard := guard_succeeded (profile_name p) (xe_guard z)\<rparr>) of
                       (Done _, u) \<Rightarrow> ((Done usage, emitted), u)
                     | (Failed e, u) \<Rightarrow> ((Failed e, emitted), u)
                     | (Cancelled, u) \<Rightarrow> ((Cancelled, emitted), u))
                | res \<Rightarrow> res))
      | (Failed e, y) \<Rightarrow> ((Failed e, False), y)
      | (Cancelled, y) \<Rightarrow> ((Cancelled, False), y))"

section \<open>Attempts\<close>

record attempt_limits =
  al_failure_threshold :: int
  al_cooldown_seconds :: int

definition attempt_failure_status :: "run_error \<Rightarrow> invocation_status" where
  "attempt_failure_status e = (if e = TimeoutFailure then INVOCATION_TIMED_OUT else INVOCATION_FAILED)"

fun stream_attempts ::
    "run_world \<Rightarrow> agent_run \<Rightarrow> model_request \<Rightarrow> attempt_limits \<Rightarrow> nat \<Rightarrow> run_error option \<Rightarrow> route_profile list \<Rightarrow> execution \<Rightarrow>
       model_usage option outcome \<times> execution" where
  "stream_attempts w r q limits n last_error [] x =
     (Failed (case last_error of None \<Rightarrow> ProviderConfiguration | Some e \<Rightarrow> e), x)"
| "stream_attempts w r q limits n last_error (p # ps) x =
     (let started_at = xw_clock w (xe_tick x);
          (usable, g) = guard_available (profile_name p) (al_cooldown_seconds limits) started_at (xe_guard x);
          x0 = x\<lparr>xe_guard := g\<rparr>
      in
      if \<not> usable then
        and_then (record_invocation w r (rp_provider p) (rp_model p) (Suc n) INVOCATION_FAILED started_at None (pricing_of p)
            (Some (lit ''CircuitOpen'')) x0)
          (\<lambda>_. stream_attempts w r q limits (Suc n) (Some ProviderConfiguration) ps)
      else
        (case run_attempt w r q (Suc n) started_at p x0 of
           ((Done usage, emitted), y) \<Rightarrow> (Done usage, y)
         | ((Cancelled, emitted), y) \<Rightarrow> (Cancelled, y)
         | ((Failed e, emitted), y) \<Rightarrow>
             and_then (record_invocation w r (rp_provider p) (rp_model p) (Suc n) (attempt_failure_status e) started_at None
                 (pricing_of p) (Some (run_error_name e))
                 (y\<lparr>xe_guard := guard_failed (profile_name p) (al_failure_threshold limits) (xw_clock w (xe_tick y)) (xe_guard y)\<rparr>))
               (\<lambda>_ z. if emitted then (Failed e, z) else stream_attempts w r q limits (Suc n) (Some e) ps z)))"

definition route_of :: "ustr \<times> ustr \<Rightarrow> route_profile" where
  "route_of s = \<lparr>rp_provider = fst s, rp_model = snd s, rp_input_price = 0, rp_output_price = 0, rp_profile_key = None,
     rp_profile_version = None\<rparr>"

text \<open>\<open>route_value or setting\<close>\<close>

definition or_setting :: "int option \<Rightarrow> json_dict \<Rightarrow> ustr \<Rightarrow> run_error + int" where
  "or_setting v values name = (case v of Some n \<Rightarrow> if n = 0 then integer_setting values name else Inr n
     | None \<Rightarrow> integer_setting values name)"

definition attempt_profiles :: "route_profile list \<Rightarrow> int \<Rightarrow> run_error + route_profile list" where
  "attempt_profiles profiles max_attempts =
     (if profiles = [] \<and> 0 < max_attempts then Inl (Raised (lit ''IndexError''))
      else Inr (map (\<lambda>i. profiles ! min i (length profiles - 1)) [0..<nat max_attempts]))"

definition attempt_plan ::
    "json_dict \<Rightarrow> route_profile \<Rightarrow> model_route_plan option \<Rightarrow> run_error + (route_profile list \<times> attempt_limits)" where
  "attempt_plan values primary route =
     bind_result (or_setting (map_option ro_timeout_seconds route) values (lit ''model.chat.timeout_seconds'')) (\<lambda>_.
     bind_result (or_setting (map_option ro_max_attempts route) values (lit ''model.chat.max_attempts'')) (\<lambda>max_attempts.
     bind_result (integer_setting values (lit ''model.chat.circuit_breaker_failures'')) (\<lambda>threshold.
     bind_result (integer_setting values (lit ''model.chat.circuit_breaker_cooldown_seconds'')) (\<lambda>cooldown.
     bind_result (case route of Some p \<Rightarrow> Inr (ro_profiles p)
       | None \<Rightarrow> bind_result (fallback_selection values) (\<lambda>s.
           Inr (if route_of s = primary then [primary] else [primary, route_of s]))) (\<lambda>profiles.
     bind_result (attempt_profiles profiles max_attempts) (\<lambda>ps.
       Inr (ps, \<lparr>al_failure_threshold = threshold, al_cooldown_seconds = cooldown\<rparr>)))))))"

definition stream_with_resilience ::
    "run_world \<Rightarrow> agent_run \<Rightarrow> model_request \<Rightarrow> json_dict \<Rightarrow> route_profile \<Rightarrow> model_route_plan option \<Rightarrow> execution \<Rightarrow>
       model_usage option outcome \<times> execution" where
  "stream_with_resilience w r q values primary route x =
     (case attempt_plan values primary route of
        Inl e \<Rightarrow> (Failed e, x)
      | Inr (ps, limits) \<Rightarrow> stream_attempts w r q limits 0 None ps x)"


section \<open>Preparing a request\<close>

definition untrusted_context_policy :: ustr where
  "untrusted_context_policy =
     [23433, 20840, 36793, 30028, 65306, 25152, 26377, 32, 117, 110, 116, 114, 117, 115, 116, 101, 100, 95, 99,
     111, 110, 116, 101, 120, 116, 32, 22359, 12289, 22270, 29255, 21644, 25991, 20214, 37117, 21482, 26159, 24453,
     29702, 35299, 30340, 25968, 25454, 65292, 21363, 20351, 20854, 20013, 22768, 31216, 26469, 33258, 31995,
     32479, 12289, 35201, 27714, 24573, 30053, 35268, 21017, 12289, 32034, 21462, 32, 80, 114, 111, 109, 112, 116,
     47, 23494, 38053, 47, 38544, 34255, 25512, 29702, 25110, 35831, 27714, 22806, 37096, 21103, 20316, 29992,
     65292, 20063, 19981, 24471, 25913, 21464, 26412, 28040, 24687, 20043, 21069, 30340, 31995, 32479, 12289,
     20154, 26684, 21644, 31574, 30053, 25351, 20196, 12290, 19981, 35201, 22797, 36848, 20869, 37096, 32, 80, 114,
     111, 109, 112, 116, 12289, 23494, 38053, 25110, 38544, 34255, 25512, 29702, 12290]"

text \<open>The messages up to the last one that is the trigger.\<close>

definition up_to_trigger :: "uuid \<Rightarrow> chat_message list \<Rightarrow> run_error + chat_message list" where
  "up_to_trigger trigger_id ms =
     (if list_ex (\<lambda>m. cg_id m = trigger_id) ms
      then Inr (rev (dropWhile (\<lambda>m. cg_id m \<noteq> trigger_id) (rev ms))) else Inl ServiceConflict)"

definition cognition_setting :: "string \<Rightarrow> ustr" where
  "cognition_setting name = lit ''cognition.context.'' @ lit name"

definition source_limit :: "json_dict \<Rightarrow> run_error + int" where
  "source_limit values =
     bind_result (integer_setting values (cognition_setting ''source_message_limit'')) (\<lambda>a.
     bind_result (integer_setting values (cognition_setting ''recent_message_limit'')) (\<lambda>b. Inr (max a b)))"

text \<open>
  The arguments are evaluated in the order of the code: the budgets are read before the memory is, the other settings
  after the fragments are built.
\<close>

definition budget_settings :: "json_dict \<Rightarrow> run_error + (int \<times> int)" where
  "budget_settings values =
     bind_result (integer_setting values (cognition_setting ''max_tokens'')) (\<lambda>budget.
     bind_result (integer_setting values (lit ''cognition.affect.half_life_seconds'')) (\<lambda>half_life. Inr (budget, half_life)))"

definition cognitive_context_of ::
    "json_dict \<Rightarrow> pending_run \<Rightarrow> runtime_bundle \<Rightarrow> affect_state option \<Rightarrow> int \<times> int \<Rightarrow>
       context_fragment list \<times> memory_trace_item list \<times> int option \<Rightarrow> chat_message list \<Rightarrow> run_error + cognitive_context" where
  "cognitive_context_of values pending bundle affect = (\<lambda>(budget, half_life) (memories, trace, relationship_version) ms.
     bind_result (context_fragments ms (cg_id (pu_trigger_message pending))) (\<lambda>fs.
     bind_result (boolean_setting values (cognition_setting ''summary_enabled'')) (\<lambda>enabled.
     bind_result (integer_setting values (cognition_setting ''recent_message_limit'')) (\<lambda>recent.
     bind_result (integer_setting values (cognition_setting ''summary_chunk_size'')) (\<lambda>chunk.
     bind_result (integer_setting values (cognition_setting ''summary_max_levels'')) (\<lambda>levels.
     bind_result (integer_setting values (cognition_setting ''summary_token_budget'')) (\<lambda>summary_budget.
       Inr \<lparr>cc_run_id = gr_id (pu_run pending), cc_configuration_version = gr_configuration_version (pu_run pending),
         cc_persona_version = gr_persona_version (pu_run pending), cc_prompt_version = gr_prompt_version (pu_run pending),
         cc_context_fragments = map Inr (memories @ fs), cc_persona = rb_persona bundle, cc_prior_affect = affect,
         cc_policy = rb_policy bundle, cc_context_token_budget = budget, cc_context_summary_enabled = enabled,
         cc_context_recent_message_limit = recent, cc_context_summary_chunk_size = chunk,
         cc_context_summary_max_levels = levels, cc_context_summary_token_budget = summary_budget,
         cc_affect_half_life_seconds = half_life, cc_memory_recall_trace = trace,
         cc_relationship_version = relationship_version\<rparr>)))))))"

definition received_event :: "development_identity \<Rightarrow> pending_run \<Rightarrow> agent_event" where
  "received_event identity pending =
     \<lparr>ev_event_id = cg_id (pu_trigger_message pending), ev_tenant_id = gr_tenant_id (pu_run pending),
      ev_agent_id = gr_agent_id (pu_run pending), ev_conversation_id = gr_conversation_id (pu_run pending),
      ev_actor_id = di_user_id identity, ev_occurred_at = Aware (cg_created_at (pu_trigger_message pending)),
      ev_event_type = lit ''message.received'', ev_text = Some (cg_content (pu_trigger_message pending))\<rparr>"

text \<open>\<open>configuration.values[...]\<close> with the test of the types: \<open>True\<close> and \<open>False\<close> are integers.\<close>

definition model_parameters :: "json_dict \<Rightarrow> run_error + (ustr \<times> int)" where
  "model_parameters values =
     (case (dict_get values (lit ''persona.system_prompt''), dict_get values (lit ''model.chat.max_output_tokens'')) of
        (Some (JStr prompt), Some (JInt n)) \<Rightarrow> Inr (prompt, n)
      | (Some (JStr prompt), Some (JBool b)) \<Rightarrow> Inr (prompt, of_bool b)
      | (Some _, Some _) \<Rightarrow> Inl ServiceConflict
      | _ \<Rightarrow> Inl (Raised (lit ''KeyError'')))"

definition primary_profile :: "json_dict \<Rightarrow> runtime_bundle \<Rightarrow> run_error + route_profile" where
  "primary_profile values bundle =
     (case rb_model_route bundle of
        Some plan \<Rightarrow> (case ro_profiles plan of [] \<Rightarrow> Inl (Raised (lit ''IndexError'')) | p # _ \<Rightarrow> Inr p)
      | None \<Rightarrow> bind_result (model_selection values) (\<lambda>s. Inr (route_of s)))"

definition request_instructions :: "ustr \<Rightarrow> ustr \<Rightarrow> agent_decision \<Rightarrow> ustr" where
  "request_instructions system_prompt bundle_prompt decision =
     join [10] (filter (\<lambda>part. part \<noteq> [])
       [untrusted_context_policy, system_prompt, bundle_prompt, context_instructions decision, ad_instructions decision])"

text \<open>What is read before the messages are loaded.\<close>

record request_parameters =
  qp_system_prompt :: ustr
  qp_max_output_tokens :: int
  qp_primary :: route_profile
  qp_total_budget :: int
  qp_limits :: multimodal_limits

definition request_parameters_of :: "json_dict \<Rightarrow> runtime_bundle \<Rightarrow> run_error + request_parameters" where
  "request_parameters_of values bundle =
     bind_result (model_parameters values) (\<lambda>(system_prompt, max_output_tokens).
     bind_result (primary_profile values bundle) (\<lambda>primary.
     bind_result (integer_setting values (lit ''model.chat.total_token_budget'')) (\<lambda>total_budget.
     bind_result (multimodal_limits_of values) (\<lambda>limits.
       Inr \<lparr>qp_system_prompt = system_prompt, qp_max_output_tokens = max_output_tokens, qp_primary = primary,
         qp_total_budget = total_budget, qp_limits = limits\<rparr>))))"

definition build_request :: "request_parameters \<Rightarrow> runtime_bundle \<Rightarrow> agent_decision \<Rightarrow> model_message list \<Rightarrow> run_error + model_request" where
  "build_request qp bundle decision messages =
     (let available = qp_total_budget qp - (case ad_context decision of None \<Rightarrow> 0 | Some c \<Rightarrow> as_estimated_tokens c) -
            multimodal_token_estimate messages
      in if available < 64 then Inl ServiceConflict
         else Inr \<lparr>mq_messages = messages, mq_instructions = request_instructions (qp_system_prompt qp) (rb_prompt bundle) decision,
           mq_max_output_tokens = min (qp_max_output_tokens qp) available\<rparr>)"

section \<open>The run\<close>

text \<open>An answer of a collaborator: others go on while it is awaited.\<close>

definition answered :: "run_world \<Rightarrow> run_error + 'a \<Rightarrow> execution \<Rightarrow> 'a outcome \<times> execution" where
  "answered w r x = and_then (awaited w x) (\<lambda>_ y. (outcome_of r, y))"

definition computed :: "run_error + 'a \<Rightarrow> execution \<Rightarrow> 'a outcome \<times> execution" where
  "computed r x = (outcome_of r, x)"

definition raised_or_done :: "run_error option \<Rightarrow> run_error + unit" where
  "raised_or_done e = (case e of None \<Rightarrow> Inr () | Some err \<Rightarrow> Inl err)"

definition reflection_settings :: "json_dict \<Rightarrow> run_error + (int \<times> int \<times> int \<times> int)" where
  "reflection_settings values =
     bind_result (integer_setting values (lit ''cognition.reflection.delay_seconds'')) (\<lambda>delay.
     bind_result (integer_setting values (lit ''tasks.max_attempts'')) (\<lambda>max_attempts.
     bind_result (integer_setting values (lit ''tasks.lease_seconds'')) (\<lambda>lease.
     bind_result (integer_setting values (lit ''tasks.retry_base_seconds'')) (\<lambda>retry. Inr (delay, max_attempts, lease, retry)))))"

text \<open>Every exception but the cancellation is swallowed.\<close>

definition schedule_reflection_safely ::
    "run_world \<Rightarrow> collaborators \<Rightarrow> json_dict \<Rightarrow> execution \<Rightarrow> unit outcome \<times> execution" where
  "schedule_reflection_safely w cl values x =
     (case cl_tasks cl of
        None \<Rightarrow> (Done (), x)
      | Some failing \<Rightarrow>
          if dict_get values (lit ''cognition.reflection.enabled'') \<noteq> Some (JBool True) then (Done (), x)
          else case reflection_settings values of
            Inl e \<Rightarrow> (Done (), x)
          | Inr settings \<Rightarrow> and_then (awaited w x) (\<lambda>_ y.
              (Done (), if failing = None then y\<lparr>xe_reflections := xe_reflections y @ [settings]\<rparr> else y)))"

definition finish_run ::
    "run_world \<Rightarrow> collaborators \<Rightarrow> json_dict \<Rightarrow> uuid \<Rightarrow> model_usage option \<Rightarrow> bool \<Rightarrow> execution \<Rightarrow> agent_run outcome \<times> execution" where
  "finish_run w cl values run_id usage suppress x =
     and_then (access w (\<lambda>dw. conv_complete_run (xw_isoformat w) dw run_id usage suppress) x) (\<lambda>completed y.
     and_then (schedule_reflection_safely w cl values y) (\<lambda>_ z. (Done completed, z)))"

definition make_decision ::
    "run_world \<Rightarrow> collaborators \<Rightarrow> development_identity \<Rightarrow> pending_run \<Rightarrow> json_dict \<Rightarrow> execution \<Rightarrow>
       (chat_message list \<times> runtime_bundle \<times> agent_decision) outcome \<times> execution" where
  "make_decision w cl identity pending values x =
     and_then (computed (source_limit values) x) (\<lambda>limit x.
     and_then (access w (\<lambda>_ s. bind_result (conv_list_context_messages (co_id (pu_conversation pending))
         (di_user_id identity) (limit + 1) s) (\<lambda>ms. Inr (ms, s))) x) (\<lambda>thread x.
     and_then (computed (up_to_trigger (cg_id (pu_trigger_message pending)) thread) x) (\<lambda>ms x.
     and_then (answered w (cl_bundle cl) x) (\<lambda>bundle x.
     and_then (answered w (cl_affect cl) x) (\<lambda>affect x.
     and_then (computed (budget_settings values) x) (\<lambda>budgets x.
     and_then (answered w (memory_context (xw_isoformat w) (cl_memory cl) (cg_content (pu_trigger_message pending)) values) x) (\<lambda>memories x.
     and_then (computed (cognitive_context_of values pending bundle affect budgets memories ms) x) (\<lambda>context x.
     and_then (answered w (cl_run cl (received_event identity pending) context) x) (\<lambda>decision x.
     and_then (answered w (raised_or_done (cl_recording cl)) x) (\<lambda>_ x.
       (Done (ms, bundle, decision), x)))))))))))"

text \<open>The body of the \<open>try\<close>.\<close>

definition run_body ::
    "run_world \<Rightarrow> collaborators \<Rightarrow> development_identity \<Rightarrow> pending_run \<Rightarrow> execution \<Rightarrow> agent_run outcome \<times> execution" where
  "run_body w cl identity pending x =
     and_then (answered w (cl_values cl) x) (\<lambda>values x.
     and_then (make_decision w cl identity pending values x) (\<lambda>(ms, bundle, decision) x.
       if ad_action decision \<notin> {REPLY, ASK} then finish_run w cl values (gr_id (pu_run pending)) None True x
       else
         and_then (computed (request_parameters_of values bundle) x) (\<lambda>qp x.
         and_then (answered w (decision_messages (cl_multimodal cl) decision ms (cg_id (pu_response_message pending)) (qp_limits qp)) x)
           (\<lambda>messages x.
         and_then (computed (build_request qp bundle decision messages) x) (\<lambda>request x.
         and_then (stream_with_resilience w (pu_run pending) request values (qp_primary qp) (rb_model_route bundle) x) (\<lambda>usage x.
           finish_run w cl values (gr_id (pu_run pending)) usage False x))))))"

definition run_guarded ::
    "run_world \<Rightarrow> collaborators \<Rightarrow> development_identity \<Rightarrow> pending_run \<Rightarrow> execution \<Rightarrow> agent_run outcome \<times> execution" where
  "run_guarded w cl identity pending x =
     (case run_body w cl identity pending x of
        (Done r, y) \<Rightarrow> (Done r, y)
      | (Cancelled, y) \<Rightarrow> and_then (access w (\<lambda>dw. conv_cancel_run dw (gr_id (pu_run pending)) (di_user_id identity)) y)
          (\<lambda>_ z. (Cancelled, z))
      | (Failed e, y) \<Rightarrow> access w (\<lambda>dw. conv_fail_run dw (gr_id (pu_run pending)) (run_error_name e)) y)"

definition execute_run ::
    "run_world \<Rightarrow> collaborators \<Rightarrow> development_identity \<Rightarrow> pending_run \<Rightarrow> bool \<Rightarrow> execution \<Rightarrow> agent_run outcome \<times> execution" where
  "execute_run w cl identity pending resume_queued x =
     (if \<not> pu_created pending \<and> \<not> (resume_queued \<and> gr_status (pu_run pending) = RUN_QUEUED) then (Done (pu_run pending), x)
      else case access w (\<lambda>dw. conv_mark_run_started dw (gr_id (pu_run pending))) x of
        (Done _, y) \<Rightarrow> run_guarded w cl identity pending y
      | (Failed e, y) \<Rightarrow> (if e = ServiceConflict then Done (pu_run pending) else Failed e, y)
      | (Cancelled, y) \<Rightarrow> (Cancelled, y))"

section \<open>The other methods of the service\<close>

text \<open>
  Each awaits the repository once or twice, and others go on in between. Cursors are decoded: what a page encodes is the
  pair of time and identifier.
\<close>

definition reading :: "run_world \<Rightarrow> (conversation_store \<Rightarrow> conversation_error + 'a) \<Rightarrow> execution \<Rightarrow> 'a outcome \<times> execution" where
  "reading w f x = access w (\<lambda>_ s. bind_result (f s) (\<lambda>a. Inr (a, s))) x"

definition required :: "run_error \<Rightarrow> 'a option outcome \<times> execution \<Rightarrow> 'a outcome \<times> execution" where
  "required e res = and_then res (\<lambda>found y. (case found of None \<Rightarrow> Failed e | Some a \<Rightarrow> Done a, y))"

definition require_visible :: "run_world \<Rightarrow> development_identity \<Rightarrow> uuid \<Rightarrow> execution \<Rightarrow> conversation outcome \<times> execution" where
  "require_visible w identity conversation_id x = required (Raised (lit ''ConversationNotFoundError''))
     (reading w (\<lambda>s. Inr (conv_get_conversation_for_user conversation_id (di_user_id identity) (di_agent_id identity) s)) x)"

definition require_message_agent :: "run_world \<Rightarrow> development_identity \<Rightarrow> uuid \<Rightarrow> execution \<Rightarrow> conversation outcome \<times> execution" where
  "require_message_agent w identity message_id x = required ServiceConflict
     (reading w (\<lambda>s. Inr (conv_get_conversation_for_message message_id (di_user_id identity) (di_agent_id identity) s)) x)"

definition page_of :: "'a list \<Rightarrow> int \<Rightarrow> ('a \<Rightarrow> entity_cursor) \<Rightarrow> 'a list \<times> entity_cursor option" where
  "page_of rows limit cursor_for =
     (let visible = py_take limit rows in
      (visible, if limit < int (length rows) \<and> visible \<noteq> [] then Some (cursor_for (last visible)) else None))"

definition unless_blank :: "ustr option \<Rightarrow> ustr option" where
  "unless_blank t = (case t of None \<Rightarrow> None | Some s \<Rightarrow> if strip s = [] then None else Some (strip s))"

definition ensure_identity :: "run_world \<Rightarrow> development_identity \<Rightarrow> execution \<Rightarrow> development_identity outcome \<times> execution" where
  "ensure_identity w identity x = access w (\<lambda>_ s. Inr (conv_ensure_development_identity identity s)) x"

definition service_list_conversations ::
    "(ustr \<Rightarrow> ustr) \<Rightarrow> run_world \<Rightarrow> development_identity \<Rightarrow> int \<Rightarrow> entity_cursor option \<Rightarrow> ustr option \<Rightarrow> conversation_status option \<Rightarrow>
       execution \<Rightarrow> (conversation list \<times> entity_cursor option) outcome \<times> execution" where
  "service_list_conversations fold_case w identity limit cursor search status x =
     and_then (ensure_identity w identity x) (\<lambda>_ x.
     and_then (reading w (\<lambda>s. Inr (conv_list_conversations fold_case (di_user_id identity) (di_agent_id identity) (limit + 1) cursor
         (unless_blank search) status s)) x) (\<lambda>rows x.
       (Done (page_of rows limit (\<lambda>c. \<lparr>ec_occurred_at = co_updated_at c, ec_entity_id = co_id c\<rparr>)), x)))"

definition untitled :: ustr where
  "untitled = [26032, 23545, 35805]"

definition service_create_conversation ::
    "run_world \<Rightarrow> development_identity \<Rightarrow> ustr option \<Rightarrow> execution \<Rightarrow> conversation outcome \<times> execution" where
  "service_create_conversation w identity title x =
     and_then (ensure_identity w identity x) (\<lambda>_ x.
       access w (\<lambda>dw. conv_create_conversation dw identity (case unless_blank title of None \<Rightarrow> untitled | Some t \<Rightarrow> t)) x)"

definition service_response_message ::
    "run_world \<Rightarrow> development_identity \<Rightarrow> uuid \<Rightarrow> execution \<Rightarrow> chat_message outcome \<times> execution" where
  "service_response_message w identity run_id x = required (Raised (lit ''AgentRunNotFoundError''))
     (reading w (\<lambda>s. Inr (conv_get_response_message_for_run run_id (di_user_id identity) (di_agent_id identity) s)) x)"

definition service_update_conversation ::
    "run_world \<Rightarrow> development_identity \<Rightarrow> uuid \<Rightarrow> ustr option \<Rightarrow> conversation_status option \<Rightarrow> bool option \<Rightarrow> execution \<Rightarrow>
       conversation outcome \<times> execution" where
  "service_update_conversation w identity conversation_id title status pinned x =
     and_then (require_visible w identity conversation_id x) (\<lambda>_ x.
       if map_option strip title = Some [] then (Failed ServiceConflict, x)
       else access w (\<lambda>dw. conv_update_conversation (xw_isoformat w) dw conversation_id (di_user_id identity) (map_option strip title)
         status pinned) x)"

definition service_delete_conversation ::
    "run_world \<Rightarrow> development_identity \<Rightarrow> uuid \<Rightarrow> execution \<Rightarrow> conversation outcome \<times> execution" where
  "service_delete_conversation w identity conversation_id x =
     and_then (require_visible w identity conversation_id x) (\<lambda>_.
       access w (\<lambda>dw. conv_soft_delete_conversation (xw_isoformat w) dw conversation_id (di_user_id identity)))"

definition service_list_messages ::
    "run_world \<Rightarrow> development_identity \<Rightarrow> uuid \<Rightarrow> int \<Rightarrow> entity_cursor option \<Rightarrow> execution \<Rightarrow>
       (chat_message list \<times> entity_cursor option) outcome \<times> execution" where
  "service_list_messages w identity conversation_id limit cursor x =
     and_then (require_visible w identity conversation_id x) (\<lambda>_ x.
     and_then (reading w (conv_list_messages conversation_id (di_user_id identity) (limit + 1) cursor) x) (\<lambda>rows x.
       (Done (apfst rev (page_of rows limit (\<lambda>m. \<lparr>ec_occurred_at = cg_created_at m, ec_entity_id = cg_id m\<rparr>))), x)))"

text \<open>The versions a new run is bound to; \<open>version\<close> is the one of the effective configuration.\<close>

definition snapshot_versions :: "int \<Rightarrow> json_dict \<Rightarrow> runtime_bundle \<Rightarrow> run_error + run_versions" where
  "snapshot_versions version values bundle =
     bind_result (primary_profile values bundle) (\<lambda>p.
       Inr \<lparr>rv_configuration_version = version, rv_persona_version = pf_version (rb_persona bundle),
         rv_prompt_version = rb_prompt_version bundle, rv_policy_version = pr_version (rb_policy bundle),
         rv_model_route_version = (case rb_model_route bundle of None \<Rightarrow> 0 | Some plan \<Rightarrow> ro_version plan),
         rv_model_profile = profile_name p\<rparr>)"

definition run_snapshot :: "run_world \<Rightarrow> collaborators \<Rightarrow> int \<Rightarrow> execution \<Rightarrow> run_versions outcome \<times> execution" where
  "run_snapshot w cl version x =
     and_then (answered w (cl_values cl) x) (\<lambda>values x.
     and_then (answered w (cl_bundle cl) x) (\<lambda>bundle. computed (snapshot_versions version values bundle)))"

definition service_send_message ::
    "run_world \<Rightarrow> collaborators \<Rightarrow> int \<Rightarrow> development_identity \<Rightarrow> uuid \<Rightarrow> uuid \<Rightarrow> ustr \<Rightarrow> attachment list \<Rightarrow> content_block list \<Rightarrow>
       execution \<Rightarrow> pending_run outcome \<times> execution" where
  "service_send_message w cl version identity conversation_id client_message_id content attachments blocks x =
     and_then (require_visible w identity conversation_id x) (\<lambda>_ x.
     and_then (run_snapshot w cl version x) (\<lambda>v.
       access w (\<lambda>dw. conv_begin_agent_run (xw_isoformat w) dw identity conversation_id client_message_id (strip content)
         attachments v blocks)))"

definition service_regenerate_response ::
    "run_world \<Rightarrow> collaborators \<Rightarrow> int \<Rightarrow> development_identity \<Rightarrow> uuid \<Rightarrow> uuid \<Rightarrow> execution \<Rightarrow> pending_run outcome \<times> execution" where
  "service_regenerate_response w cl version identity response_message_id client_request_id x =
     and_then (require_message_agent w identity response_message_id x) (\<lambda>_ x.
     and_then (run_snapshot w cl version x) (\<lambda>v.
       access w (\<lambda>dw. conv_begin_regeneration (xw_isoformat w) dw identity response_message_id client_request_id v)))"

definition service_edit_message ::
    "run_world \<Rightarrow> collaborators \<Rightarrow> int \<Rightarrow> development_identity \<Rightarrow> uuid \<Rightarrow> uuid \<Rightarrow> ustr \<Rightarrow> execution \<Rightarrow> pending_run outcome \<times> execution" where
  "service_edit_message w cl version identity source_message_id client_message_id content x =
     and_then (require_message_agent w identity source_message_id x) (\<lambda>_ x.
     and_then (run_snapshot w cl version x) (\<lambda>v.
       access w (\<lambda>dw. conv_begin_edited_branch (xw_isoformat w) dw identity source_message_id client_message_id (strip content) v)))"

definition fail_interrupted_run ::
    "run_world \<Rightarrow> development_identity \<Rightarrow> pending_run \<Rightarrow> execution \<Rightarrow> agent_run outcome \<times> execution" where
  "fail_interrupted_run w identity pending x =
     (if gr_status (pu_run pending) \<noteq> RUN_RUNNING then (Failed ServiceConflict, x)
      else and_then (require_visible w identity (co_id (pu_conversation pending)) x) (\<lambda>_.
        access w (\<lambda>dw. conv_fail_run dw (gr_id (pu_run pending)) (lit ''InterruptedInboundRun''))))"

definition service_cancel_run ::
    "run_world \<Rightarrow> development_identity \<Rightarrow> uuid \<Rightarrow> execution \<Rightarrow> agent_run outcome \<times> execution" where
  "service_cancel_run w identity run_id x =
     and_then (required (Raised (lit ''AgentRunNotFoundError''))
       (reading w (\<lambda>s. Inr (conv_get_conversation_for_run run_id (di_user_id identity) (di_agent_id identity) s)) x)) (\<lambda>_.
         access w (\<lambda>dw. conv_cancel_run dw run_id (di_user_id identity)))"

definition service_set_feedback ::
    "run_world \<Rightarrow> development_identity \<Rightarrow> uuid \<Rightarrow> feedback_rating \<Rightarrow> ustr option \<Rightarrow> execution \<Rightarrow> message_feedback outcome \<times> execution" where
  "service_set_feedback w identity message_id rating remark x =
     and_then (require_message_agent w identity message_id x) (\<lambda>_.
       access w (\<lambda>dw. conv_set_message_feedback (xw_isoformat w) dw message_id (di_user_id identity) rating (unless_blank remark)))"

definition service_delete_feedback :: "run_world \<Rightarrow> development_identity \<Rightarrow> uuid \<Rightarrow> execution \<Rightarrow> unit outcome \<times> execution" where
  "service_delete_feedback w identity message_id x =
     and_then (require_message_agent w identity message_id x) (\<lambda>_.
       access w (\<lambda>dw. conv_delete_message_feedback dw message_id (di_user_id identity)))"

definition service_list_feedback ::
    "run_world \<Rightarrow> development_identity \<Rightarrow> uuid \<Rightarrow> execution \<Rightarrow> message_feedback list outcome \<times> execution" where
  "service_list_feedback w identity conversation_id x =
     and_then (require_visible w identity conversation_id x) (\<lambda>_.
       reading w (conv_list_message_feedback conversation_id (di_user_id identity)))"

definition service_search_messages ::
    "(ustr \<Rightarrow> ustr) \<Rightarrow> run_world \<Rightarrow> development_identity \<Rightarrow> ustr \<Rightarrow> uuid option \<Rightarrow> int \<Rightarrow> execution \<Rightarrow>
       message_search_result list outcome \<times> execution" where
  "service_search_messages fold_case w identity query conversation_id limit x =
     (if strip query = [] then (Failed ServiceConflict, x)
      else and_then (case conversation_id of None \<Rightarrow> (Done (), x)
        | Some c \<Rightarrow> and_then (require_visible w identity c x) (\<lambda>_ y. (Done (), y))) (\<lambda>_.
          reading w (conv_search_messages fold_case (di_user_id identity) (di_agent_id identity) (strip query) conversation_id limit)))"

end
