(* ===== verification/Execution_Safety.thy ===== *)
theory Execution_Safety
  imports Conversation_Execution Conversation_Example
begin

text \<open>
  What holds while a run is executed, whatever other clients of the repository do at each of its awaits: the invariant
  of the repository, its growth, and how the execution ends.
\<close>

named_theorems advance_intros \<open>the parts of an execution advance\<close>

section \<open>Progress\<close>

text \<open>Other clients only call methods of the repository.\<close>

definition fair_world :: "run_world \<Rightarrow> bool" where
  "fair_world w \<longleftrightarrow> (\<forall>k s. (conversation_step (xw_isoformat w))\<^sup>*\<^sup>* s (xw_others w k s))"

definition advances :: "run_world \<Rightarrow> execution \<Rightarrow> 'a outcome \<times> execution \<Rightarrow> bool" where
  "advances w x res \<longleftrightarrow> (conversations_ok (xe_store x) \<longrightarrow>
     conversations_ok (xe_store (snd res)) \<and> follows (xe_store x) (xe_store (snd res))) \<and>
     xe_tick x \<le> xe_tick (snd res) \<and>
     (fst res = Cancelled \<longrightarrow> xe_tick x < xe_tick (snd res) \<and> xw_cancelled w (xe_tick (snd res) - 1))"

lemma and_then_simps:
  "and_then res f = (case fst res of Done a \<Rightarrow> f a (snd res) | Failed e \<Rightarrow> (Failed e, snd res) | Cancelled \<Rightarrow> (Cancelled, snd res))"
  by (cases "(res, f)" rule: and_then.cases) simp_all

lemma and_then_Done: "and_then res f = (Done b, z) \<longleftrightarrow> (\<exists>a y. res = (Done a, y) \<and> f a y = (Done b, z))"
  by (cases "(res, f)" rule: and_then.cases) auto

lemma advances_trans:
  assumes "advances w x (Done a, y)" and "advances w y res"
  shows "advances w x res"
  using assms follows_trans unfolding advances_def by auto

lemma advances_and_then [advance_intros]:
  assumes "advances w x res" and "\<And>a y. res = (Done a, y) \<Longrightarrow> advances w y (f a y)"
  shows "advances w x (and_then res f)"
proof (cases res)
  case (Pair out y)
  show ?thesis
  proof (cases out)
    case (Done a)
    then show ?thesis using advances_trans[of w x a y] assms Pair by simp
  qed (use assms(1) Pair in \<open>simp_all add: advances_def\<close>)
qed

lemma advances_here [advance_intros]: "out \<noteq> Cancelled \<Longrightarrow> advances w x (out, x)"
  by (simp add: advances_def)

lemma advances_same_store:
  "advances w x (out, y) \<Longrightarrow> xe_store z = xe_store y \<Longrightarrow> xe_tick z = xe_tick y \<Longrightarrow> advances w x (out, z)"
  by (simp add: advances_def)

lemma advances_from: "xe_store z = xe_store x \<Longrightarrow> xe_tick z = xe_tick x \<Longrightarrow> advances w z res \<Longrightarrow> advances w x res"
  by (simp add: advances_def)

lemma outcome_of_not_Cancelled [simp]: "outcome_of r \<noteq> Cancelled"
  by (simp add: outcome_of_def split: sum.split)

lemma awaited_advances [advance_intros]:
  assumes "fair_world w"
  shows "advances w x (awaited w x)"
  using assms steps_follow[of "xw_isoformat w" "xe_store x"]
  by (auto simp: advances_def awaited_def Let_def fair_world_def)

lemma answered_advances [advance_intros]: "fair_world w \<Longrightarrow> advances w x (answered w r x)"
  unfolding answered_def by (intro advance_intros) simp_all

lemma computed_advances [advance_intros]: "advances w x (computed r x)"
  unfolding computed_def by (intro advance_intros) simp

lemma access_advances:
  assumes "fair_world w" and "\<And>dw s. conversations_ok s \<Longrightarrow> sound s (f dw s)"
  shows "advances w x (access w f x)"
  unfolding access_def
proof (intro advance_intros assms(1))
  fix a y
  assume "awaited w x = (Done a, y)"
  show "advances w y (case f (xw_draws w (xe_tick x)) (xe_store y) of Inl e \<Rightarrow> (Failed (repository_error e), y)
      | Inr (a, t) \<Rightarrow> (Done a, y\<lparr>xe_store := t\<rparr>))"
    using assms(2)[of "xe_store y" "xw_draws w (xe_tick x)"]
    by (auto simp: advances_def sound_def split: sum.split)
qed

lemma context_read_sound:
  "conversations_ok s \<Longrightarrow> sound s (bind_result (conv_list_context_messages c u n s) (\<lambda>ms. Inr (ms, s)))"
  by (simp add: conv_list_context_messages_def conv_list_messages_def messages_at_thread)

lemma run_access_advances [advance_intros]:
  assumes "fair_world w"
  shows "advances w x (access w (\<lambda>dw. conv_mark_run_started dw i) x)"
    "advances w x (access w (\<lambda>dw. conv_append_run_delta dw i delta) x)"
    "advances w x (access w (\<lambda>dw. conv_complete_run isof dw i usage suppress) x)"
    "advances w x (access w (\<lambda>dw. conv_fail_run dw i code) x)"
    "advances w x (access w (\<lambda>dw. conv_cancel_run dw i u) x)"
    "advances w x (access w (\<lambda>_ s. bind_result (conv_list_context_messages c u n s) (\<lambda>ms. Inr (ms, s))) x)"
  by (rule access_advances[OF assms]; simp add: mark_run_started_sound append_run_delta_sound complete_run_sound fail_run_sound
      cancel_run_sound context_read_sound)+

lemma record_invocation_advances [advance_intros]:
  "fair_world w \<Longrightarrow> advances w x (record_invocation w r provider model n st t usage pricing code x)"
  unfolding record_invocation_def by (intro advance_intros) (auto simp: advances_def split: option.split)

section \<open>Attempts\<close>

definition outcome_part :: "('a outcome \<times> bool) \<times> execution \<Rightarrow> 'a outcome \<times> execution" where
  "outcome_part res = (fst (fst res), snd res)"

lemma outcome_part_simp [simp]: "outcome_part ((out, b), y) = (out, y)"
  by (simp add: outcome_part_def)

lemma advances_Failed: "advances w x (Failed e, y) \<Longrightarrow> advances w y res \<Longrightarrow> advances w x res"
  using follows_trans unfolding advances_def by auto

lemma stream_events_advances:
  assumes "fair_world w"
  shows "advances w x (outcome_part (stream_events w i ending es emitted usage x))"
proof (induction es arbitrary: emitted usage x)
  case Nil
  obtain out y where step: "awaited w x = (out, y)" by fastforce
  have "advances w x (out, y)" using awaited_advances[OF assms, of x] step by simp
  then show ?case by (auto simp: step advances_def split: outcome.split stream_end.split)
next
  case (Cons e es)
  obtain out y where step: "awaited w x = (out, y)" by fastforce
  have first: "advances w x (out, y)" using awaited_advances[OF assms, of x] step by simp
  show ?case
  proof (cases out)
    case (Done u)
    show ?thesis
    proof (cases "me_delta e = []")
      case True
      then show ?thesis using advances_trans[OF first[unfolded Done] Cons.IH] by (simp add: step Done Let_def)
    next
      case False
      obtain res z where app: "access w (\<lambda>dw. conv_append_run_delta dw i (me_delta e)) y = (res, z)" by fastforce
      have "advances w y (res, z)" using run_access_advances(2)[OF assms, of y i "me_delta e"] app by simp
      then have second: "advances w x (res, z)" using advances_trans[OF first[unfolded Done]] by blast
      show ?thesis
      proof (cases res)
        case (Done m)
        then show ?thesis using advances_trans[OF second[unfolded Done] Cons.IH] False
          by (simp add: step \<open>out = _\<close> Let_def app)
      qed (use second False in \<open>simp_all add: step Done Let_def app advances_def\<close>)
    qed
  qed (use first in \<open>simp_all add: step advances_def Let_def\<close>)
qed

lemma run_attempt_advances:
  assumes "fair_world w"
  shows "advances w x (outcome_part (run_attempt w r q n t p x))"
proof -
  obtain out y where start: "awaited w x = (out, y)" by fastforce
  have first: "advances w x (out, y)" using awaited_advances[OF assms, of x] start by simp
  show ?thesis
  proof (cases out)
    case (Done u)
    show ?thesis
    proof (cases "xw_resolve w (xe_tick x) (rp_provider p) (rp_model p)")
      case (Inl e)
      then show ?thesis using advances_trans[OF first[unfolded Done] advances_here, of "Failed e"] by (simp add: run_attempt_def start Done)
    next
      case (Inr v)
      obtain es ending where es: "mv_stream v (request_for_capabilities q (mv_capabilities v)) = (es, ending)" by fastforce
      obtain res b z where stream: "stream_events w (gr_id r) ending es False None y = ((res, b), z)" by (metis prod.collapse)
      have second: "advances w x (res, z)"
        using advances_trans[OF first[unfolded Done] stream_events_advances[OF assms]] stream by (metis outcome_part_simp)
      show ?thesis
      proof (cases res)
        case (Done usage)
        let ?z = "z\<lparr>xe_guard := guard_succeeded (profile_name p) (xe_guard z)\<rparr>"
        let ?rec = "record_invocation w r (mv_name v) (mv_model v) n INVOCATION_COMPLETED t usage (pricing_of p) None ?z"
        obtain rout u where rec: "?rec = (rout, u)" by fastforce
        have "advances w x (Done usage, ?z)" by (rule advances_same_store[OF second[unfolded Done]]) simp_all
        moreover have "advances w ?z (rout, u)" using record_invocation_advances[OF assms] rec by metis
        ultimately have third: "advances w x (rout, u)" by (rule advances_trans)
        then have "advances w x (map_outcome (\<lambda>_. usage) rout, u)" by (cases rout) (simp_all add: advances_def)
        then show ?thesis by (cases rout) (simp_all add: run_attempt_def start \<open>out = _\<close> Inr es stream Done rec)
      qed (use second in \<open>simp_all add: run_attempt_def start Done Inr es stream advances_def\<close>)
    qed
  qed (use first in \<open>simp_all add: run_attempt_def start advances_def\<close>)
qed

lemma stream_attempts_advances:
  assumes "fair_world w"
  shows "advances w x (stream_attempts w r q limits n last_error ps x)"
proof (induction ps arbitrary: n last_error x)
  case Nil
  show ?case by (auto intro: advances_here)
next
  case (Cons p ps)
  let ?t = "xw_clock w (xe_tick x)"
  obtain usable g where guard: "guard_available (profile_name p) (al_cooldown_seconds limits) ?t (xe_guard x) = (usable, g)"
    by fastforce
  let ?x = "x\<lparr>xe_guard := g\<rparr>"
  show ?case
  proof (cases usable)
    case False
    have "advances w ?x (stream_attempts w r q limits n last_error (p # ps) x)"
      using False guard by (auto simp: Let_def intro!: advance_intros Cons.IH assms)
    then show ?thesis by (rule advances_from[rotated 2]) simp_all
  next
    case True
    obtain res b y where att: "run_attempt w r q (Suc n) ?t p ?x = ((res, b), y)" by (metis prod.collapse)
    have "advances w ?x (res, y)" using run_attempt_advances[OF assms] att by (metis outcome_part_simp)
    then have first: "advances w x (res, y)" by (rule advances_from[rotated 2]) simp_all
    show ?thesis
    proof (cases res)
      case (Failed e)
      let ?y = "y\<lparr>xe_guard := guard_failed (profile_name p) (al_failure_threshold limits) (xw_clock w (xe_tick y)) (xe_guard y)\<rparr>"
      have "advances w x (Failed e :: model_usage option outcome, ?y)" by (rule advances_same_store[OF first[unfolded Failed]]) simp_all
      moreover have "advances w ?y (stream_attempts w r q limits n last_error (p # ps) x)"
        using True guard att Failed by (auto simp: Let_def intro!: advance_intros Cons.IH assms)
      ultimately show ?thesis by (rule advances_Failed)
    qed (use first True guard att in \<open>simp_all add: Let_def\<close>)
  qed
qed

lemma stream_with_resilience_advances [advance_intros]:
  "fair_world w \<Longrightarrow> advances w x (stream_with_resilience w r q values primary route x)"
  unfolding stream_with_resilience_def
  by (auto simp: stream_attempts_advances split: sum.split intro: advances_here)

section \<open>The run\<close>

lemma schedule_reflection_advances [advance_intros]:
  assumes "fair_world w"
  shows "advances w x (schedule_reflection_safely w cl values x)"
proof -
  have "advances w x (and_then (awaited w x) (\<lambda>_ y.
      (Done (), if failing = None then y\<lparr>xe_reflections := xe_reflections y @ [settings]\<rparr> else y)))"
    for failing :: "run_error option" and settings
    by (intro advances_and_then awaited_advances assms) (simp add: advances_def)
  then show ?thesis
    by (simp add: schedule_reflection_safely_def advances_here split: option.split sum.split)
qed

lemma finish_run_advances [advance_intros]:
  "fair_world w \<Longrightarrow> advances w x (finish_run w cl values i usage suppress x)"
  unfolding finish_run_def by (intro advance_intros) simp_all

lemma make_decision_advances [advance_intros]:
  "fair_world w \<Longrightarrow> advances w x (make_decision w cl identity pending values x)"
  unfolding make_decision_def by (intro advance_intros) simp_all

lemma run_body_advances:
  assumes "fair_world w"
  shows "advances w x (run_body w cl identity pending x)"
  unfolding run_body_def split_def using assms by (auto intro!: advance_intros)

section \<open>How a run ends\<close>

lemma emit_runs: "emit dw k c ty p r m s = Inr t \<Longrightarrow> run_map t = run_map s"
  by (auto simp: emit_def Let_def bind_result_Inr)

lemma end_run_ends: "end_run dw ty r st s = Inr (q, t) \<Longrightarrow> q = r \<and> runs t (gr_id r) = Some r"
  by (auto simp: end_run_def emit_run_def bind_result_Inr put_message_def put_run_def dest!: emit_runs)

lemma complete_run_ends:
  "conversations_ok s \<Longrightarrow> conv_complete_run isof dw i usage suppress s = Inr (r, t) \<Longrightarrow> \<exists>q. runs t i = Some q \<and> ended (gr_status q)"
  by (auto simp: conv_complete_run_def emit_run_def bind_result_Inr put_message_def put_run_def Let_def require_running_run_known
      ok_known(3) completed_run_def ended_def dest!: emit_runs)

lemma fail_run_ends:
  assumes "conversations_ok s" and "runs s i = Some r"
  obtains q t where "conv_fail_run dw i code s = Inr (q, t)" "runs t i = Some q" "ended (gr_status q)"
proof (cases "gr_status r = RUN_CANCELLED")
  case True
  then show ?thesis using that assms(2) by (simp add: conv_fail_run_def require_run_def ended_def)
next
  case False
  let ?q = "r\<lparr>gr_status := RUN_FAILED, gr_error_code := Some code, gr_completed_at := Some (su_now dw)\<rparr>"
  obtain t where t: "conv_fail_run dw i code s = Inr (?q, t)" using failed_run_ok[OF assms False, of dw code] by metis
  then have "end_run dw (lit ''run.failed'') ?q MESSAGE_FAILED s = Inr (?q, t)"
    using assms(2) False by (simp add: conv_fail_run_def require_run_def)
  from end_run_ends[OF this] show ?thesis using that[OF t] ok_known(3)[OF assms] by (simp add: ended_def)
qed

lemma cancel_run_ends:
  assumes "conversations_ok s" and "runs s i = Some r" and "require_conversation (gr_conversation_id r) u s = Inr v"
  obtains q t where "conv_cancel_run dw i u s = Inr (q, t)" "runs t i = Some q" "ended (gr_status q)"
proof (cases "ended (gr_status r)")
  case True
  then show ?thesis using that assms(2,3) by (simp add: conv_cancel_run_def require_run_def ended_def)
next
  case False
  let ?q = "r\<lparr>gr_status := RUN_CANCELLED, gr_completed_at := Some (su_now dw)\<rparr>"
  obtain t where t: "end_run dw (lit ''run.cancelled'') ?q MESSAGE_CANCELLED s = Inr (?q, t)"
    using cancelled_run_ok[OF assms(1,2) False, of dw] by metis
  then have "conv_cancel_run dw i u s = Inr (?q, t)"
    using assms(2,3) False by (simp add: conv_cancel_run_def require_run_def ended_def)
  then show ?thesis using that end_run_ends[OF t] ok_known(3)[OF assms(1,2)] by (simp add: ended_def)
qed

definition run_ended :: "uuid \<Rightarrow> conversation_store \<Rightarrow> bool" where
  "run_ended i s \<longleftrightarrow> (\<exists>q. runs s i = Some q \<and> ended (gr_status q))"

lemma run_ended_follows: "run_ended i s \<Longrightarrow> follows s t \<Longrightarrow> run_ended i t"
  using followsD(3) ended_later unfolding run_ended_def by metis

lemma run_ended_advances: "advances w x res \<Longrightarrow> conversations_ok (xe_store x) \<Longrightarrow> run_ended i (xe_store x) \<Longrightarrow> run_ended i (xe_store (snd res))"
  using run_ended_follows unfolding advances_def by blast

text \<open>If the part of the execution returns, the run has ended.\<close>

definition returns_ended :: "uuid \<Rightarrow> execution \<Rightarrow> 'a outcome \<times> execution \<Rightarrow> bool" where
  "returns_ended i x res \<longleftrightarrow> (conversations_ok (xe_store x) \<longrightarrow> (\<exists>a. fst res = Done a) \<longrightarrow> run_ended i (xe_store (snd res)))"

lemma returns_ended_after [advance_intros]:
  "advances w x res \<Longrightarrow> (\<And>a y. res = (Done a, y) \<Longrightarrow> returns_ended i y (f a y)) \<Longrightarrow> returns_ended i x (and_then res f)"
  by (cases "(res, f)" rule: and_then.cases) (auto simp: returns_ended_def advances_def)

lemma returns_ended_before:
  assumes "returns_ended i x res" and "advances w x res" and "\<And>a y. advances w y (f a y)"
  shows "returns_ended i x (and_then res f)"
proof (cases res)
  case (Pair out y)
  show ?thesis
  proof (cases out)
    case (Done a)
    then show ?thesis using assms(1,2) run_ended_advances[OF assms(3), of y i a] Pair by (auto simp: returns_ended_def advances_def)
  qed (simp_all add: Pair returns_ended_def)
qed

lemma complete_returns_ended:
  assumes "fair_world w"
  shows "returns_ended i x (access w (\<lambda>dw. conv_complete_run isof dw i usage suppress) x)"
  unfolding access_def
proof (rule returns_ended_after[OF awaited_advances[OF assms]])
  fix a y
  show "returns_ended i y (case conv_complete_run isof (xw_draws w (xe_tick x)) i usage suppress (xe_store y) of
      Inl e \<Rightarrow> (Failed (repository_error e), y) | Inr (r, t) \<Rightarrow> (Done r, y\<lparr>xe_store := t\<rparr>))"
    using complete_run_ends[of "xe_store y" isof "xw_draws w (xe_tick x)" i usage suppress]
    by (simp add: returns_ended_def run_ended_def split: sum.split)
qed

lemma finish_run_ends [advance_intros]:
  assumes "fair_world w"
  shows "returns_ended i x (finish_run w cl values i usage suppress x)"
  unfolding finish_run_def
  by (intro returns_ended_before[where w = w] complete_returns_ended advance_intros assms) simp_all

lemma run_body_ends:
  assumes "fair_world w"
  shows "returns_ended (gr_id (pu_run pending)) x (run_body w cl identity pending x)"
  unfolding run_body_def split_def using assms by (auto intro!: advance_intros)

lemma run_exists_advances:
  "advances w x res \<Longrightarrow> conversations_ok (xe_store x) \<Longrightarrow> runs (xe_store x) i \<noteq> None \<Longrightarrow>
    conversations_ok (xe_store (snd res)) \<and> runs (xe_store (snd res)) i \<noteq> None"
  unfolding advances_def using followsD(3) by fastforce

text \<open>The two writes that end a run when its body does not return.\<close>

lemma fail_access_ends:
  assumes "fair_world w" and "conversations_ok (xe_store x)" and "runs (xe_store x) i \<noteq> None" and "\<not> xw_cancelled w (xe_tick x)"
  obtains q y where "access w (\<lambda>dw. conv_fail_run dw i code) x = (Done q, y)" "run_ended i (xe_store y)"
proof -
  obtain v where v: "awaited w x = (Done (), v)" using assms(4) by (simp add: awaited_def Let_def)
  then have "conversations_ok (xe_store v) \<and> runs (xe_store v) i \<noteq> None"
    using run_exists_advances[OF awaited_advances[OF assms(1)] assms(2,3)] by (metis snd_conv)
  then obtain q t where "conv_fail_run (xw_draws w (xe_tick x)) i code (xe_store v) = Inr (q, t)" "runs t i = Some q" "ended (gr_status q)"
    using fail_run_ends by blast
  then show ?thesis using that v by (simp add: access_def run_ended_def)
qed

lemma cancel_access_ends:
  assumes "fair_world w" and "conversations_ok (xe_store x)" and "runs (xe_store x) i \<noteq> None" and "\<not> xw_cancelled w (xe_tick x)"
    and "access w (\<lambda>dw. conv_cancel_run dw i u) x = (out, y)"
  shows "run_ended i (xe_store y) \<or> (\<exists>r e. runs (xe_store y) i = Some r \<and> require_conversation (gr_conversation_id r) u (xe_store y) = Inl e)"
proof -
  obtain v where v: "awaited w x = (Done (), v)" using assms(4) by (simp add: awaited_def Let_def)
  then have ok: "conversations_ok (xe_store v) \<and> runs (xe_store v) i \<noteq> None"
    using run_exists_advances[OF awaited_advances[OF assms(1)] assms(2,3)] by (metis snd_conv)
  then obtain r where r: "runs (xe_store v) i = Some r" by blast
  show ?thesis
  proof (cases "require_conversation (gr_conversation_id r) u (xe_store v)")
    case (Inl e)
    then show ?thesis using assms(5) v r by (auto simp: access_def conv_cancel_run_def require_run_def)
  next
    case (Inr c)
    obtain q t where "conv_cancel_run (xw_draws w (xe_tick x)) i u (xe_store v) = Inr (q, t)" "runs t i = Some q" "ended (gr_status q)"
      using cancel_run_ends[OF conjunct1[OF ok] r Inr] by blast
    then show ?thesis using assms(5) v by (auto simp: access_def run_ended_def)
  qed
qed

lemma run_guarded_ends:
  assumes "fair_world w" and "conversations_ok (xe_store x)" and "runs (xe_store x) (gr_id (pu_run pending)) \<noteq> None"
    and "run_guarded w cl identity pending x = (out, y)" and "\<not> xw_cancelled w (xe_tick y - 1)"
  shows "run_ended (gr_id (pu_run pending)) (xe_store y) \<or> (\<exists>k. xw_cancelled w k) \<and>
    (\<exists>r e. runs (xe_store y) (gr_id (pu_run pending)) = Some r \<and>
      require_conversation (gr_conversation_id r) (di_user_id identity) (xe_store y) = Inl e)"
proof -
  let ?i = "gr_id (pu_run pending)"
  obtain res z where body: "run_body w cl identity pending x = (res, z)" by fastforce
  have adv: "advances w x (res, z)" using run_body_advances[OF assms(1)] body by metis
  have z: "conversations_ok (xe_store z)" "runs (xe_store z) ?i \<noteq> None" using run_exists_advances[OF adv assms(2,3)] by simp_all
  have tick: "xe_tick y = Suc (xe_tick z)" if "access w f z = (b, y)" for f :: "draws \<Rightarrow> conversation_store \<Rightarrow> _ + agent_run \<times> _" and b
    using that by (auto simp: access_def awaited_def Let_def split: if_splits sum.splits)
  show ?thesis
  proof (cases res)
    case (Done q)
    then show ?thesis
      using run_body_ends[OF assms(1), of pending x cl identity] body assms(2,4) by (auto simp: returns_ended_def run_guarded_def)
  next
    case (Failed e)
    then have acc: "access w (\<lambda>dw. conv_fail_run dw ?i (run_error_name e)) z = (out, y)" using assms(4) body by (simp add: run_guarded_def)
    then have "\<not> xw_cancelled w (xe_tick z)" using tick[OF acc] assms(5) by simp
    then show ?thesis using fail_access_ends[OF assms(1) z] acc by (metis prod.inject)
  next
    case Cancelled
    obtain b z' where acc': "access w (\<lambda>dw. conv_cancel_run dw ?i (di_user_id identity)) z = (b, z')" by fastforce
    have "z' = y" using Cancelled assms(4) body acc' by (cases b) (simp_all add: run_guarded_def)
    with acc' have acc: "access w (\<lambda>dw. conv_cancel_run dw ?i (di_user_id identity)) z = (b, y)" by simp
    have "\<not> xw_cancelled w (xe_tick z)" using tick[OF acc] assms(5) by simp
    moreover have "\<exists>k. xw_cancelled w k" using adv Cancelled by (auto simp: advances_def)
    ultimately show ?thesis using cancel_access_ends[OF assms(1) z _ acc] by blast
  qed
qed

lemma run_guarded_returns:
  assumes "fair_world w" and "conversations_ok (xe_store x)" and "runs (xe_store x) (gr_id (pu_run pending)) \<noteq> None"
    and "\<And>k. \<not> xw_cancelled w k"
  shows "\<exists>q y. run_guarded w cl identity pending x = (Done q, y)"
proof -
  obtain res z where body: "run_body w cl identity pending x = (res, z)" by fastforce
  have adv: "advances w x (res, z)" using run_body_advances[OF assms(1)] body by metis
  have z: "conversations_ok (xe_store z)" "runs (xe_store z) (gr_id (pu_run pending)) \<noteq> None"
    using run_exists_advances[OF adv assms(2,3)] by simp_all
  show ?thesis
  proof (cases res)
    case (Failed e)
    obtain q u where "access w (\<lambda>dw. conv_fail_run dw (gr_id (pu_run pending)) (run_error_name e)) z = (Done q, u)"
      using fail_access_ends[OF assms(1) z assms(4)] by blast
    then show ?thesis using Failed body by (simp add: run_guarded_def)
  qed (use adv assms(4) body in \<open>auto simp: run_guarded_def advances_def\<close>)
qed

section \<open>The other methods\<close>

lemma reading_advances [advance_intros]:
  assumes "fair_world w" and "\<And>s. conversations_ok s \<Longrightarrow> f s \<noteq> Inl MissingKey"
  shows "advances w x (reading w f x)"
  unfolding reading_def
  by (rule access_advances[OF assms(1)]) (use assms(2) in \<open>auto simp: sound_def bind_result_def split: sum.splits\<close>)

lemma required_advances [advance_intros]: "advances w x res \<Longrightarrow> advances w x (required e res)"
  unfolding required_def by (rule advances_and_then) (auto simp: advances_def split: option.split)

lemma require_visible_advances [advance_intros]:
  assumes "fair_world w"
  shows "advances w x (require_visible w identity c x)" "advances w x (require_message_agent w identity i x)"
  unfolding require_visible_def require_message_agent_def by (intro required_advances reading_advances assms; simp)+

lemma service_calls_advance:
  assumes "fair_world w"
  shows "advances w x (fail_interrupted_run w identity pending x)" "advances w x (service_cancel_run w identity i x)"
    "advances w x (service_update_conversation w identity c title status pinned x)"
    "advances w x (service_delete_conversation w identity c x)"
    "advances w x (service_set_feedback w identity i rating remark x)" "advances w x (service_delete_feedback w identity i x)"
  unfolding fail_interrupted_run_def service_cancel_run_def service_update_conversation_def service_delete_conversation_def
    service_set_feedback_def service_delete_feedback_def
  using assms
  by (auto intro!: advance_intros access_advances simp: update_sound delete_sound set_feedback_sound delete_feedback_sound)

section \<open>Every run ends\<close>

lemma mark_access:
  assumes "fair_world w" and "conversations_ok (xe_store x)" and "runs (xw_others w (xe_tick x) (xe_store x)) i = Some r"
    and "access w (\<lambda>dw. conv_mark_run_started dw i) x = (out, y)" and "\<not> xw_cancelled w (xe_tick x)"
  shows "if gr_status r = RUN_QUEUED then \<exists>q. out = Done q \<and> conversations_ok (xe_store y) \<and> runs (xe_store y) i \<noteq> None
    else out = Failed ServiceConflict \<and> xe_store y = xw_others w (xe_tick x) (xe_store x) \<and> xe_invocations y = xe_invocations x"
proof -
  let ?s = "xw_others w (xe_tick x) (xe_store x)"
  have ok: "conversations_ok ?s" using steps_follow[OF _ assms(2)] assms(1) unfolding fair_world_def by blast
  show ?thesis
  proof (cases "gr_status r = RUN_QUEUED")
    case True
    obtain t where t: "conv_mark_run_started (xw_draws w (xe_tick x)) i ?s =
        Inr (r\<lparr>gr_status := RUN_RUNNING, gr_started_at := Some (su_now (xw_draws w (xe_tick x)))\<rparr>, t)"
      "conversations_ok t" "follows ?s t"
      by (rule started_run_ok[OF ok assms(3) True])
    have "runs t i \<noteq> None" using followsD(3)[OF t(3) assms(3)] by auto
    then show ?thesis using True t assms(4,5) by (auto simp: access_def awaited_def Let_def)
  next
    case False
    then have "conv_mark_run_started dw i ?s = Inl RunNotQueued" for dw
      using assms(3) by (simp add: conv_mark_run_started_def require_run_def)
    then show ?thesis using False assms(4,5) by (auto simp: access_def awaited_def Let_def)
  qed
qed

section \<open>A concrete execution\<close>

text \<open>Another client cancels the run as soon as it is running; the configuration cannot be read.\<close>

definition canceling_client :: "nat \<Rightarrow> conversation_store \<Rightarrow> conversation_store" where
  "canceling_client k s =
     (if k = 1 \<and> ids_below 700 s then case perform sample_isof (sample_conv_draws 700) (CancelRun 200 2) s of Inl _ \<Rightarrow> s | Inr t \<Rightarrow> t
      else s)"

definition sample_world :: run_world where
  "sample_world = \<lparr>xw_others = canceling_client, xw_guard = (\<lambda>_ g. g), xw_draws = (\<lambda>k. sample_conv_draws (800 + k)),
     xw_clock = int, xw_cancelled = (\<lambda>_. False), xw_resolve = (\<lambda>_ _ _. Inl ProviderConfiguration), xw_recording = (\<lambda>_. None),
     xw_isoformat = sample_isof, xw_decimal = (\<lambda>x. x)\<rparr>"

definition silent_services :: collaborators where
  "silent_services = \<lparr>cl_values = Inl ServiceConflict, cl_bundle = Inl ServiceConflict, cl_affect = Inr None, cl_memory = None,
     cl_multimodal = None, cl_run = (\<lambda>_ _. Inl ServiceConflict), cl_recording = None, cl_tasks = None\<rparr>"

definition sample_pending :: pending_run where
  "sample_pending = \<lparr>pu_conversation = the (convs sample_begun 100), pu_trigger_message = the (msgs sample_begun 200),
     pu_response_message = the (msgs sample_begun 201), pu_run = the (runs sample_begun 200), pu_created = True\<rparr>"

definition sample_start :: execution where
  "sample_start = \<lparr>xe_store = sample_begun, xe_guard = [], xe_tick = 0, xe_invocations = [], xe_reflections = []\<rparr>"

lemma sample_world_fair: "fair_world sample_world"
proof -
  have "(conversation_step sample_isof)\<^sup>*\<^sup>* s (canceling_client k s)" for k s
    using performed[of sample_isof "sample_conv_draws 700" "CancelRun 200 2" s] below_fresh[of 700 s]
    by (auto simp: canceling_client_def split: sum.split)
  then show ?thesis by (simp add: fair_world_def sample_world_def)
qed

lemma sample_queued: "\<exists>r. runs sample_begun 200 = Some r \<and> gr_status r = RUN_QUEUED \<and> gr_id r = 200"
  by (simp add: sample_view)

section \<open>What a consumer relies on\<close>

text \<open>C27: A consumer that executes a run which is still queued leaves it completed, cancelled or failed, whatever the
  configuration, the cognition, the memory, the model provider and the recording of its attempts answer or raise,
  wherever the task is cancelled, and whatever methods of the repository other clients call in between. The one
  exception is a task that is cancelled when the user may not access the conversation any more (it has been deleted):
  then cancelling the run is refused and it stays running. The last await of the execution must not be cancelled
  itself: a task cancelled while it waits to start the run leaves it queued, one cancelled again while it waits to end
  it leaves it running. Without a cancellation the consumer gets a run back. A run that is not queued any more is
  given back as it was, and no model is asked.\<close>

theorem execution_ends_run:
  assumes "fair_world w" and "conversations_reachable (xw_isoformat w) (xe_store x)"
    and "pu_created pending \<or> resume_queued \<and> gr_status (pu_run pending) = RUN_QUEUED"
    and "dict_get (run_map (xw_others w (xe_tick x) (xe_store x))) (gr_id (pu_run pending)) = Some r"
    and "execute_run w cl identity pending resume_queued x = (out, y)" and "\<not> xw_cancelled w (xe_tick y - 1)"
  shows "if gr_status r = RUN_QUEUED
    then ((\<exists>q. dict_get (run_map (xe_store y)) (gr_id (pu_run pending)) = Some q \<and>
          gr_status q \<in> {RUN_COMPLETED, RUN_CANCELLED, RUN_FAILED}) \<or>
        (\<exists>k. xw_cancelled w k) \<and> (\<exists>q e. dict_get (run_map (xe_store y)) (gr_id (pu_run pending)) = Some q \<and>
          require_conversation (gr_conversation_id q) (di_user_id identity) (xe_store y) = Inl e)) \<and>
      ((\<forall>k. \<not> xw_cancelled w k) \<longrightarrow> (\<exists>q. out = Done q))
    else out = Done (pu_run pending) \<and> xe_store y = xw_others w (xe_tick x) (xe_store x) \<and>
      xe_invocations y = xe_invocations x"
proof -
  let ?i = "gr_id (pu_run pending)"
  have ok: "conversations_ok (xe_store x)" by (rule conversations.reachable_inv[OF assms(2)])
  obtain res v where mark: "access w (\<lambda>dw. conv_mark_run_started dw ?i) x = (res, v)" by fastforce
  have run: "(case (res, v) of (Done _, y) \<Rightarrow> run_guarded w cl identity pending y
      | (Failed e, y) \<Rightarrow> (if e = ServiceConflict then Done (pu_run pending) else Failed e, y)
      | (Cancelled, y) \<Rightarrow> (Cancelled, y)) = (out, y)"
    using assms(3,5) mark by (auto simp: execute_run_def)
  have first: "\<not> xw_cancelled w (xe_tick x)"
  proof
    assume c: "xw_cancelled w (xe_tick x)"
    then have "res = Cancelled" "xe_tick v = Suc (xe_tick x)" using mark by (auto simp: access_def awaited_def Let_def)
    then show False using run assms(6) c by simp
  qed
  note m = mark_access[OF assms(1) ok assms(4) mark first]
  show ?thesis
  proof (cases "gr_status r = RUN_QUEUED")
    case False
    then show ?thesis using m run by simp
  next
    case True
    then obtain q where q: "res = Done q" "conversations_ok (xe_store v)" "runs (xe_store v) ?i \<noteq> None" using m by auto
    then have g: "run_guarded w cl identity pending v = (out, y)" using run by simp
    have "\<exists>q. out = Done q" if "\<forall>k. \<not> xw_cancelled w k"
      using run_guarded_returns[OF assms(1) q(2,3), of cl identity] that g by auto
    then show ?thesis
      using True run_guarded_ends[OF assms(1) q(2,3) g assms(6)] unfolding run_ended_def ended_def by auto
  qed
qed

theorem execution_ends_run_witness:
  "\<exists>q u. fst (execute_run sample_world silent_services sample_conv_identity sample_pending False sample_start) = Done u \<and>
    dict_get (run_map (xe_store (snd (execute_run sample_world silent_services sample_conv_identity sample_pending False sample_start)))) 200 =
      Some q \<and> gr_status q \<in> {RUN_COMPLETED, RUN_CANCELLED, RUN_FAILED}"
proof -
  obtain out y where run: "execute_run sample_world silent_services sample_conv_identity sample_pending False sample_start = (out, y)"
    by fastforce
  obtain r where r: "runs sample_begun 200 = Some r" "gr_status r = RUN_QUEUED" "gr_id r = 200" using sample_queued by blast
  have calm: "\<not> xw_cancelled sample_world k" for k by (simp add: sample_world_def)
  have reach: "conversations_reachable (xw_isoformat sample_world) (xe_store sample_start)"
    using sample_conversations_reachable by (simp add: sample_world_def sample_start_def)
  have given: "dict_get (run_map (xw_others sample_world (xe_tick sample_start) (xe_store sample_start))) (gr_id (pu_run sample_pending)) = Some r"
    using r by (simp add: sample_world_def canceling_client_def sample_start_def sample_pending_def)
  have new: "pu_created sample_pending \<or> False \<and> gr_status (pu_run sample_pending) = RUN_QUEUED" by (simp add: sample_pending_def)
  show ?thesis
    using execution_ends_run[OF sample_world_fair reach new given run calm] r run calm by (auto simp: sample_pending_def)
qed

end
