(* ===== verification/Request_Safety.thy ===== *)
theory Request_Safety
  imports Execution_Safety Cognitive_Context
begin

text \<open>
  What of a conversation, of long-term memory and of attachments can get into a request: only the messages of the
  request, and there, in the role of the user, only inside envelopes; never the instructions.
\<close>

section \<open>No fragment speaks for the system\<close>

definition spoken :: "context_fragment \<Rightarrow> bool" where
  "spoken f \<longleftrightarrow> cf_role f \<noteq> SYSTEM_ROLE"

lemma checked_fragment: "new_fragment f = Inr g \<Longrightarrow> g = f"
  by (auto simp: new_fragment_def lift_failure_def check_fragment_def split: sum.splits if_splits)

lemma collected: "collect_results (map f xs) = Inr ys \<Longrightarrow> y \<in> set ys \<Longrightarrow> \<exists>x \<in> set xs. f x = Inr y"
  by (induction xs arbitrary: ys) (auto simp: bind_result_Inr)

lemma context_fragments_spoken: "context_fragments ms i = Inr fs \<Longrightarrow> f \<in> set fs \<Longrightarrow> spoken f"
  unfolding context_fragments_def by (drule collected, assumption) (auto simp: message_fragment_def spoken_def split: if_splits dest!: checked_fragment)

lemma recalled_spoken: "recalled_fragments isof n rs = Inr (fs, ts) \<Longrightarrow> f \<in> set fs \<Longrightarrow> spoken f"
  by (induction rs arbitrary: n fs ts)
    (auto simp: bind_result_Inr recalled_fragment_def spoken_def Let_def split: option.splits dest!: checked_fragment)

lemma memory_spoken:
  assumes "memory_context isof port query values = Inr (fs, ts, v)" and "f \<in> set fs"
  shows "spoken f"
proof (cases port)
  case (Some p)
  then show ?thesis
    using assms recalled_spoken
    by (auto simp: memory_context_def bind_result_Inr relationship_fragment_def spoken_def split: if_splits option.splits
        dest!: checked_fragment)
qed (use assms in \<open>simp add: memory_context_def\<close>)

lemma event_spoken:
  assumes "normalize_fragments e c = Inr fs" and "\<And>f. Inr f \<in> set (cc_context_fragments c) \<Longrightarrow> spoken f" and "f \<in> set fs"
  shows "spoken f"
proof -
  have "f \<in> set (normal_form 0 (cc_context_fragments c)) \<or> (\<exists>t n. f = event_fragment e t n)"
    using assms(1,3) by (auto simp: normalize_fragments_eq Let_def split: if_splits)
  then show ?thesis
    using assms(2) normal_form_mem[of f 0 "cc_context_fragments c"]
    by (auto simp: spoken_def event_fragment_def legacy_fragment_def)
qed

lemma nodes_spoken:
  "\<forall>n \<in> set (leaf_nodes digest redact k fs). spoken (sn_fragment n)"
  "\<forall>n \<in> set (parent_nodes digest level k nodes). spoken (sn_fragment n)"
  by (auto simp: leaf_nodes_def parent_nodes_def make_node_def Let_def spoken_def)

lemma climbed_spoken:
  "\<forall>n \<in> set nodes. spoken (sn_fragment n) \<Longrightarrow> \<forall>n \<in> set (snd (climb_levels digest k budget room level nodes)). spoken (sn_fragment n)"
proof (induction room arbitrary: level nodes)
  case (Suc room)
  then show ?case using Suc.IH[OF nodes_spoken(2)] by simp
qed simp

lemma fitted_spoken:
  assumes "\<forall>n \<in> set nodes. spoken (sn_fragment n)"
  shows "\<forall>n \<in> set (fst (fit_nodes nodes budget)). spoken (sn_fragment n)"
  using assms select_nodes_subset[of budget 0 "rev nodes"]
  by (auto simp: fit_nodes_def Let_def spoken_def)

lemma compressed_spoken:
  assumes "compress digest redact fs en recent chunk levels budget = Inr (kept, report)" and "\<forall>f \<in> set fs. spoken f"
  shows "\<forall>f \<in> set kept. spoken f"
proof (cases "en \<and> recent < int (length (filter is_message fs))")
  case False
  then show ?thesis using assms by (auto simp: compress_def Let_def split: if_splits)
next
  case True
  then have c: "compress digest redact fs True recent chunk levels budget = Inr (kept, report)" using assms(1) by simp
  show ?thesis
  proof (rule compress_shape[OF c conjunct2[OF True]])
    fix level nodes sel omitted
    let ?old = "take (length (filter is_message fs) - nat recent) (filter is_message fs)"
    assume climb: "climb_levels digest (nat chunk) budget (nat (levels - 1)) 1 (leaf_nodes digest redact (nat chunk) ?old) = (level, nodes)"
      and fit: "fit_nodes nodes budget = (sel, omitted)"
      and kept: "kept = sorted_by (\<lambda>f. (cf_ordinal f, cf_fragment_id f)) (filter (\<lambda>f. \<not> is_message f \<or> cf_fragment_id f \<in>
        set (map cf_fragment_id (drop (length (filter is_message fs) - nat recent) (filter is_message fs)))) fs @ map sn_fragment sel)"
    have "\<forall>n \<in> set nodes. spoken (sn_fragment n)" using climbed_spoken[OF nodes_spoken(1)] climb by (metis snd_conv)
    then have "\<forall>n \<in> set sel. spoken (sn_fragment n)" using fitted_spoken[of nodes budget] fit by simp
    then show ?thesis using assms(2) by (auto simp: kept)
  qed
qed

lemma loop_spoken:
  "assemble_loop budget fs sel om tr c = (sel', om', tr', c') \<Longrightarrow> \<forall>f \<in> set fs. spoken f \<Longrightarrow> \<forall>f \<in> set sel. spoken f \<Longrightarrow>
    \<forall>f \<in> set sel'. spoken f"
proof (induction fs arbitrary: sel om tr c)
  case (Cons f fs)
  let ?content = "if cf_required f \<and> c < budget then truncate_to_token_budget (cf_content f) (budget - c) else []"
  define g where "g = f\<lparr>cf_content := ?content, cf_token_estimate := Some (estimate_tokens ?content)\<rparr>"
  have spoken: "spoken g" "spoken f" using Cons.prems(2) by (simp_all add: g_def spoken_def)
  consider (fit) "c + tokens f \<le> budget"
    | (cut) "\<not> c + tokens f \<le> budget" "?content \<noteq> []"
    | (skip) "\<not> c + tokens f \<le> budget" "?content = []" by blast
  then show ?case
  proof cases
    case fit
    have "assemble_loop budget fs (sel @ [f]) om tr (c + tokens f) = (sel', om', tr', c')" using Cons.prems(1) fit by simp
    from Cons.IH[OF this] show ?thesis using Cons.prems(2,3) by simp
  next
    case cut
    have "assemble_loop budget fs (sel @ [g]) om (tr @ [cf_fragment_id f]) (c + tokens g) = (sel', om', tr', c')"
      using Cons.prems(1) cut unfolding g_def
      by (simp only: assemble_loop.simps Let_def if_False if_True not_False_eq_True)
    from Cons.IH[OF this] show ?thesis using Cons.prems(2,3) spoken by simp
  next
    case skip
    have "assemble_loop budget fs sel (om @ [cf_fragment_id f]) tr c = (sel', om', tr', c')"
      using Cons.prems(1) skip by (simp only: assemble_loop.simps Let_def if_False not_not simp_thms)
    from Cons.IH[OF this] show ?thesis using Cons.prems(2,3) by simp
  qed
qed simp

lemma assembled_spoken:
  assumes "assemble_context digest redact c fs = Inr a" and "\<forall>f \<in> set fs. spoken f"
  shows "\<forall>f \<in> set (as_fragments a). spoken f"
proof -
  obtain kept report where k: "compress digest redact fs (cc_context_summary_enabled c) (cc_context_recent_message_limit c)
      (cc_context_summary_chunk_size c) (cc_context_summary_max_levels c) (cc_context_summary_token_budget c) = Inr (kept, report)"
    and a: "assemble kept (cc_context_token_budget c) (Some report) = Inr a"
    using assms(1) by (auto simp: assemble_context_def bind_result_Inr)
  have "\<forall>f \<in> set kept. spoken f" by (rule compressed_spoken[OF k assms(2)])
  then show ?thesis
    using a loop_spoken[of _ "sorted_by_desc (\<lambda>f. (cf_required f, cf_priority f, cf_ordinal f)) kept" "[]" "[]" "[]" 0]
    by (auto simp: assemble_def split: if_splits prod.splits)
qed

section \<open>The instructions of a persona\<close>

text \<open>
  All the instructions that the runtime can make for a persona: a tone, an action and whether there is the note about
  injections. What the message, the history and the affect say only selects among them.
\<close>

definition standing_social :: "persona_profile \<Rightarrow> ustr \<Rightarrow> social_mind_state" where
  "standing_social persona tone =
     \<lparr>so_tone = tone,
      so_conversational_distance =
        (if tr_warmth (pf_traits persona) \<ge> rnd (6 / 10) then [23562, 37325, 36793, 30028, 30340, 29087, 24713, 32593, 21451]
         else [21451, 21892, 30340, 26222, 36890, 32593, 21451]),
      so_response_energy = [], so_boundary_reminder = False\<rparr>"

definition standing_evaluation :: "cognitive_action \<Rightarrow> policy_evaluation" where
  "standing_evaluation action = \<lparr>pe_selected = candidate action 0 [], pe_rejected_reasons = [], pe_policy_version = 0\<rparr>"

definition standing_perception :: "bool \<Rightarrow> perception" where
  "standing_perception injection =
     \<lparr>px_intent = [], px_confidence = 0, px_sentiment = 0, px_urgency = 0, px_asks_for_silence = False,
      px_requests_external_action = False, px_prompt_injection_signal = injection\<rparr>"

definition standing_instructions :: "persona_profile \<Rightarrow> ustr list" where
  "standing_instructions persona =
     [realize_instructions persona (standing_social persona tone) (standing_evaluation action) (standing_perception injection).
      tone \<leftarrow> [tone_calm, tone_light, tone_concise, tone_natural], action \<leftarrow> [REPLY, ASK, WAIT, NO_REPLY, TOOL],
      injection \<leftarrow> [False, True]]"

lemma in_comprehension: "t \<in> set ts \<Longrightarrow> a \<in> set as \<Longrightarrow> b \<in> set bs \<Longrightarrow> f t a b \<in> set [f t a b. t \<leftarrow> ts, a \<leftarrow> as, b \<leftarrow> bs]"
  by auto

lemma standing_mem:
  assumes "tone \<in> set [tone_calm, tone_light, tone_concise, tone_natural]"
  shows "realize_instructions persona (standing_social persona tone) (standing_evaluation action) (standing_perception injection) \<in>
    set (standing_instructions persona)"
proof -
  have "action \<in> set [REPLY, ASK, WAIT, NO_REPLY, TOOL]" by (cases action) simp_all
  moreover have "injection \<in> set [False, True]" by (cases injection) simp_all
  ultimately show ?thesis unfolding standing_instructions_def
    by (rule in_comprehension[OF assms, where f = "\<lambda>tone action injection. realize_instructions persona
      (standing_social persona tone) (standing_evaluation action) (standing_perception injection)"])
qed

lemma realized_standing:
  "realize_instructions persona (social_mind persona affect p) ev p \<in> set (standing_instructions persona)"
proof -
  have "realize_instructions persona (social_mind persona affect p) ev p =
      realize_instructions persona (standing_social persona (so_tone (social_mind persona affect p)))
        (standing_evaluation (ac_action (pe_selected ev))) (standing_perception (px_prompt_injection_signal p))"
    by (simp add: realize_instructions_def instruction_lines_def social_mind_def standing_social_def standing_evaluation_def
        standing_perception_def candidate_def)
  moreover have "so_tone (social_mind persona affect p) \<in> set [tone_calm, tone_light, tone_concise, tone_natural]"
    by (simp add: social_mind_def)
  ultimately show ?thesis using standing_mem by metis
qed

lemma run_context_spoken:
  assumes "run fexp digest redact e c = Inr d" and "\<And>f. Inr f \<in> set (cc_context_fragments c) \<Longrightarrow> spoken f"
  shows "\<exists>a. ad_context d = Some a \<and> (\<forall>f \<in> set (as_fragments a). spoken f) \<and>
    ad_instructions d \<in> set (standing_instructions (cc_persona c))"
proof -
  obtain affect fs a ev where n: "normalize_fragments e c = Inr fs" and a: "assemble_context digest redact c fs = Inr a"
    and d: "d = decide c (perceive e) affect a (deliberate e (perceive e)) ev"
    using assms(1) unfolding run_Inr by blast
  have "\<forall>f \<in> set fs. spoken f" using event_spoken[OF n assms(2)] by blast
  then show ?thesis using assembled_spoken[OF a] realized_standing by (auto simp: d decide_def Let_def)
qed

section \<open>Text of the user is in envelopes\<close>

definition shielded :: "model_input_part \<Rightarrow> bool" where
  "shielded p \<longleftrightarrow> (case p of ModelTextInput t \<Rightarrow> \<exists>c src. t = serialize_untrusted_content c src | _ \<Rightarrow> True)"

lemma shielded_simps [simp]:
  "shielded (ModelTextInput (serialize_untrusted_content c src))" "shielded (ModelImageInput i)" "shielded (ModelDocumentInput d)"
  "shielded (limit_fallback a reason)"
  by (auto simp: shielded_def limit_fallback_def)

lemma read_shielded: "read_attachment fold_case port limits p a = Inr (x, n) \<Longrightarrow> shielded x"
  by (auto simp: read_attachment_def bind_result_Inr split: option.splits if_splits)

lemma load_parts_shielded:
  "load_parts fold_case port tn u limits m remaining ps n = Inr (xs, k) \<Longrightarrow> \<forall>x \<in> set xs. shielded x"
proof (induction ps arbitrary: n xs)
  case (Cons p ps)
  show ?case
    using Cons.prems
    by (auto simp: bind_result_Inr split: if_splits option.splits dest!: Cons.IH read_shielded)
qed simp

lemma loaded_shielded:
  assumes "load_messages fold_case port tn u limits ms = Inr d" and "dict_get d i = Some x"
  shows "\<forall>y \<in> set (lm_parts x). shielded y"
proof -
  let ?sel = "select_messages limits (rev ms) (ml_max_total_bytes limits)"
  obtain xs where xs: "collect_results (map (load_message_attachments fold_case port tn u limits) ?sel) = Inr xs"
    and d: "d = fold (\<lambda>(m, x). dict_set (cg_id m) x) (zip (map fst ?sel) xs) []"
    using assms(1) by (auto simp: load_messages_def Let_def bind_result_Inr)
  have all: "\<forall>y \<in> set (lm_parts z). shielded y" if "z \<in> set xs" for z
    using collected[OF xs that] load_parts_shielded by (auto simp: load_message_attachments_def bind_result_Inr)
  have "dict_get (fold (\<lambda>(m, x). dict_set (cg_id m) x) zs e) i = Some x \<Longrightarrow> x \<in> snd ` set zs \<or> dict_get e i = Some x" for zs e
    by (induction zs arbitrary: e) (force simp: dict_laws split: if_splits)+
  from this[of "zip (map fst ?sel) xs" "[]"] have "x \<in> set xs"
    using assms(2) unfolding d by (auto simp: dict_get_def dest: set_zip_rightD)
  then show ?thesis by (rule all)
qed

definition shielding :: "multimodal_port \<Rightarrow> bool" where
  "shielding port \<longleftrightarrow> (\<forall>load ms limits d i x. port = Some load \<longrightarrow> load ms limits = Inr d \<longrightarrow> dict_get d i = Some x \<longrightarrow>
     (\<forall>y \<in> set (lm_parts x). shielded y))"

lemma service_shielding: "shielding (multimodal_port_of fold_case port identity)" "shielding None"
  using loaded_shielded
  by (auto simp: shielding_def multimodal_port_of_def lift_failure_def split: sum.splits)

lemma load_multimodal_shielded:
  "shielding port \<Longrightarrow> load_multimodal port ms limits = Inr d \<Longrightarrow> dict_get d i = Some x \<Longrightarrow> \<forall>y \<in> set (lm_parts x). shielded y"
  unfolding load_multimodal_def shielding_def by (auto simp: dict_get_def split: if_splits option.splits)

definition message_shielded :: "model_message \<Rightarrow> bool" where
  "message_shielded m \<longleftrightarrow> (mg_role m = MODEL_USER \<longrightarrow> (\<forall>p \<in> set (mg_content m). shielded p))"

lemma fragment_message_shielded:
  assumes "fragment_model_message ms loaded f = Inr m" and "\<And>i x. dict_get loaded i = Some x \<Longrightarrow> \<forall>y \<in> set (lm_parts x). shielded y"
  shows "message_shielded m"
  using assms
  by (auto simp: fragment_model_message_def Let_def bind_result_Inr model_parts_def message_shielded_def
      split: if_splits option.splits)

lemma model_message_shielded:
  assumes "model_message_of loaded c = Inr m" and "\<And>i x. dict_get loaded i = Some x \<Longrightarrow> \<forall>y \<in> set (lm_parts x). shielded y"
  shows "message_shielded m"
  using assms
  by (auto simp: model_message_of_def Let_def bind_result_Inr model_parts_def message_shielded_def
      split: if_splits option.splits)

lemma decision_messages_shielded:
  assumes "shielding port" and "decision_messages port d ms i limits = Inr rs" and "m \<in> set rs"
  shows "message_shielded m"
proof (cases "ad_context d")
  case None
  then obtain loaded where l: "load_multimodal port
      (filter (\<lambda>m. cg_id m \<noteq> i \<and> cg_sender_type m = SENDER_USER \<and> has_attachment m) ms) limits = Inr loaded"
    and c: "collect_results (map (model_message_of loaded) (filter (\<lambda>m. cg_id m \<noteq> i \<and> speaks m) ms)) = Inr rs"
    using assms(2) by (auto simp: decision_messages_def model_messages_def bind_result_Inr)
  show ?thesis using collected[OF c assms(3)] model_message_shielded load_multimodal_shielded[OF assms(1) l] by blast
next
  case (Some a)
  then obtain loaded where l: "load_multimodal port (attached_sources ms (as_fragments a)) limits = Inr loaded"
    and c: "collect_results (map (fragment_model_message ms loaded) (filter (\<lambda>f. cf_role f \<noteq> SYSTEM_ROLE) (as_fragments a))) = Inr rs"
    using assms(2) by (auto simp: decision_messages_def bind_result_Inr)
  show ?thesis using collected[OF c assms(3)] fragment_message_shielded load_multimodal_shielded[OF assms(1) l] by blast
qed

lemma supported_shielded: "shielded p \<Longrightarrow> shielded (supported_part cap p)"
  by (auto simp: supported_part_def split: model_input_part.splits)

section \<open>Requests\<close>

lemma context_given:
  assumes "cognitive_context_of values pending bundle affect budgets memories ms = Inr c" and "\<forall>f \<in> set (fst memories). spoken f"
  shows "cc_persona c = rb_persona bundle" "Inr f \<in> set (cc_context_fragments c) \<Longrightarrow> spoken f"
  using assms context_fragments_spoken
  by (auto simp: cognitive_context_of_def bind_result_Inr split: prod.splits)

section \<open>A concrete request\<close>

text \<open>The first message of the sample conversation, asked by a persona without memory.\<close>

definition sample_settings :: json_dict where
  "sample_settings = [(cognition_setting ''summary_enabled'', JBool True), (cognition_setting ''recent_message_limit'', JInt 24),
     (cognition_setting ''summary_chunk_size'', JInt 8), (cognition_setting ''summary_max_levels'', JInt 4),
     (cognition_setting ''summary_token_budget'', JInt 4096)]"

definition sample_bundle :: runtime_bundle where
  "sample_bundle = \<lparr>rb_persona = sample_persona, rb_prompt = [], rb_prompt_version = 1, rb_policy = sample_rules, rb_model_route = None\<rparr>"

definition sample_parameters :: "int \<Rightarrow> request_parameters" where
  "sample_parameters budget = \<lparr>qp_system_prompt = lit ''p'', qp_max_output_tokens = 100, qp_primary = route_of (lit ''a'', lit ''b''),
     qp_total_budget = budget,
     qp_limits = \<lparr>ml_max_image_bytes = 1, ml_max_document_bytes = 1, ml_max_total_bytes = 1, ml_max_document_characters = 1,
       ml_max_pdf_pages = 1\<rparr>\<rparr>"

definition blind_model :: model_capabilities where
  "blind_model = \<lparr>mk_streaming = True, mk_structured_output = False, mk_tool_calling = False, mk_image_input = False,
     mk_document_input = False\<rparr>"

lemma sample_trigger:
  "cg_content (pu_trigger_message sample_pending) = lit ''hi''" "cg_sender_type (pu_trigger_message sample_pending) = SENDER_USER"
  "\<not> has_attachment (pu_trigger_message sample_pending)"
  by (simp_all add: sample_pending_def sample_view has_attachment_def)

lemma sample_context_exists:
  obtains c where "cognitive_context_of sample_settings sample_pending sample_bundle None (24000, 21600) ([], [], None)
      [pu_trigger_message sample_pending] = Inr c"
    "limits_ok c" "cc_prior_affect c = None" "cc_affect_half_life_seconds c = 21600"
proof -
  have "strip (lit ''message-'' @ s) \<noteq> []" for s by (simp add: lit_def strip_nonblank is_space_def)
  then have "\<exists>fs. context_fragments [pu_trigger_message sample_pending] i = Inr fs" for i
    using strip_hi by (auto simp: context_fragments_def speaks_def sample_trigger new_fragment_def lift_failure_def check_fragment_def
        message_fragment_def)
  then obtain fs where fs: "context_fragments [pu_trigger_message sample_pending] (cg_id (pu_trigger_message sample_pending)) = Inr fs" by blast
  show thesis
    by (rule that, simp add: cognitive_context_of_def fs sample_settings_def integer_setting_def boolean_setting_def dict_get_def
        cognition_setting_def lit_def, simp_all add: limits_ok_def)
qed

lemma runs_on:
  assumes "limits_ok c" "cc_prior_affect c = None" "1 \<le> cc_affect_half_life_seconds c"
    and "ev_occurred_at e = Aware t" "ev_text e = Some s" "strip s \<noteq> []"
  obtains d where "run (\<lambda>_. 1 / 2) digest redact e c = Inr d"
proof -
  obtain affect where "update_affect (\<lambda>_. 1 / 2) e c (perceive e) = Inr affect"
    using update_affect_succeeds(1)[OF sample_decays, of c e "perceive e"] assms by auto
  moreover obtain fs where "normalize_fragments e c = Inr fs"
    using assms(5,6) by (cases "new_message e c = []") (auto simp: normalize_fragments_eq Let_def new_message_def split: if_splits)
  ultimately show thesis
    using that assemble_context_succeeds assms(1) gate_succeeds unfolding run_Inr by metis
qed

lemma collect_results_exists: "\<forall>x \<in> set xs. \<exists>y. f x = Inr y \<Longrightarrow> \<exists>ys. collect_results (map f xs) = Inr ys"
  by (induction xs) auto

lemma plain_messages:
  assumes "\<forall>m \<in> set ms. \<not> has_attachment m"
  obtains messages where "decision_messages port d ms i limits = Inr messages"
proof -
  have part: "\<not> has_attachment m" if "fragment_message ms f = Some m" for f m
  proof -
    have "dict_get (fold (\<lambda>m. dict_set (uuid_str (cg_id m)) m) xs e) k = Some m \<Longrightarrow> m \<in> set xs \<or> dict_get e k = Some m" for xs e k
      by (induction xs arbitrary: e) (force simp: dict_laws split: if_splits)+
    from this[of ms "[]"] have "m \<in> set ms" using that by (auto simp: fragment_message_def dict_get_def split: option.splits if_splits)
    then show ?thesis using assms by blast
  qed
  have "attached_sources ms fs = []" for fs by (auto simp: attached_sources_def filter_empty_conv dest: part[OF sym] split: option.splits)
  moreover have "\<exists>rs. collect_results (map (fragment_model_message ms loaded) fs) = Inr rs" for loaded fs
    using part by (intro collect_results_exists) (auto simp: fragment_model_message_def Let_def model_parts_def)
  moreover have "\<exists>rs. collect_results (map (model_message_of loaded) (filter P ms)) = Inr rs" for loaded P
    using assms by (intro collect_results_exists) (auto simp: model_message_of_def Let_def model_parts_def)
  moreover have "filter (\<lambda>m. cg_id m \<noteq> i \<and> cg_sender_type m = SENDER_USER \<and> has_attachment m) ms = []"
    using assms by (auto simp: filter_empty_conv)
  ultimately have "\<exists>messages. decision_messages port d ms i limits = Inr messages"
    by (cases "ad_context d") (simp_all add: decision_messages_def model_messages_def load_multimodal_def)
  then show thesis using that by blast
qed

section \<open>What stays apart\<close>

text \<open>C32: What one provider is sent for a run keeps everything that users, memory and attachments say apart from the
  instructions. The instructions are the fixed policy, the two configured prompts and one of the forty texts that the
  persona alone determines: nothing of the message, the history, the recalled memories or the attachments is in them.
  And every text in a message of the user is a sealed envelope, also the notes that replace attachments the provider
  cannot take; images and documents are parts of their own.\<close>

theorem untrusted_text_stays_apart:
  assumes "memory_context isof memory query values = Inr memories"
    and "cognitive_context_of values pending bundle affect budgets memories ms = Inr c"
    and "run fexp digest redact e c = Inr decision"
    and "port = None \<or> port = multimodal_port_of fold_case attachments identity"
    and "decision_messages port decision ms response_id limits = Inr messages"
    and "build_request qp bundle decision messages = Inr q"
  shows "(\<exists>standing \<in> set (standing_instructions (rb_persona bundle)).
      mq_instructions (request_for_capabilities q cap) =
        join [10] (filter (\<lambda>part. part \<noteq> []) [untrusted_context_policy, qp_system_prompt qp, rb_prompt bundle, standing])) \<and>
    (\<forall>m \<in> set (mq_messages (request_for_capabilities q cap)). \<forall>t. mg_role m = MODEL_USER \<longrightarrow> ModelTextInput t \<in> set (mg_content m) \<longrightarrow>
      (\<exists>body src. t = serialize_untrusted_content body src))"
proof -
  obtain fs ts v where mem: "memories = (fs, ts, v)" by (rule prod_cases3)
  have given: "\<forall>f \<in> set (fst memories). spoken f" using memory_spoken assms(1) unfolding mem by auto
  note ctx = context_given[OF assms(2) given]
  obtain a where a: "ad_context decision = Some a" "\<forall>f \<in> set (as_fragments a). spoken f"
      "ad_instructions decision \<in> set (standing_instructions (cc_persona c))"
    using run_context_spoken[OF assms(3) ctx(2)] by blast
  then have "context_instructions decision = []" by (auto simp: context_instructions_def spoken_def filter_empty_conv)
  then have "mq_instructions q = join [10] (filter (\<lambda>part. part \<noteq> [])
      [untrusted_context_policy, qp_system_prompt qp, rb_prompt bundle, ad_instructions decision])" and msgs: "mq_messages q = messages"
    using assms(6) by (auto simp: build_request_def request_instructions_def Let_def split: if_splits)
  moreover have "shielding port" using assms(4) service_shielding by blast
  then have "message_shielded m" if "m \<in> set messages" for m using decision_messages_shielded assms(5) that by blast
  then have "\<exists>body src. t = serialize_untrusted_content body src"
    if msg: "m \<in> set (mq_messages (request_for_capabilities q cap))" "mg_role m = MODEL_USER" "ModelTextInput t \<in> set (mg_content m)" for m t
  proof -
    obtain n where m: "n \<in> set messages" "m = n\<lparr>mg_content := map (supported_part cap) (mg_content n)\<rparr>"
      using msg(1) by (auto simp: request_for_capabilities_def msgs)
    then obtain p where "p \<in> set (mg_content n)" "ModelTextInput t = supported_part cap p" using msg(3) by auto
    then have n: "n \<in> set messages" "mg_role n = MODEL_USER" "p \<in> set (mg_content n)" "ModelTextInput t = supported_part cap p"
      using m msg(2) by simp_all
    then have "shielded p" using \<open>\<And>m. m \<in> set messages \<Longrightarrow> message_shielded m\<close> by (auto simp: message_shielded_def)
    then have "shielded (ModelTextInput t)" using supported_shielded n(4) by metis
    then show ?thesis by (simp add: shielded_def)
  qed
  ultimately show ?thesis using a(3) by (auto simp: request_for_capabilities_def ctx(1))
qed

theorem untrusted_text_stays_apart_witness:
  "\<exists>c decision messages budget q. run (\<lambda>_. 1 / 2) (\<lambda>s. s) (\<lambda>s. s) (received_event sample_conv_identity sample_pending) c = Inr decision \<and>
    build_request (sample_parameters budget) sample_bundle decision messages = Inr q \<and>
    (\<exists>standing \<in> set (standing_instructions sample_persona). mq_instructions (request_for_capabilities q blind_model) =
      join [10] (filter (\<lambda>part. part \<noteq> []) [untrusted_context_policy, lit ''p'', [], standing]))"
proof -
  let ?ms = "[pu_trigger_message sample_pending]" and ?e = "received_event sample_conv_identity sample_pending"
  obtain c where c: "cognitive_context_of sample_settings sample_pending sample_bundle None (24000, 21600) ([], [], None) ?ms = Inr c"
    "limits_ok c" "cc_prior_affect c = None" "cc_affect_half_life_seconds c = 21600" by (rule sample_context_exists)
  have e: "1 \<le> cc_affect_half_life_seconds c" "ev_occurred_at ?e = Aware (cg_created_at (pu_trigger_message sample_pending))"
    "ev_text ?e = Some (lit ''hi'')"
    by (simp_all add: c(4) received_event_def sample_trigger)
  obtain d where d: "run (\<lambda>_. 1 / 2) (\<lambda>s. s) (\<lambda>s. s) ?e c = Inr d" by (rule runs_on[OF c(2,3) e strip_hi])
  obtain messages where m: "decision_messages None d ?ms 201 (qp_limits (sample_parameters 0)) = Inr messages"
    by (rule plain_messages[of ?ms]) (simp_all add: sample_trigger)
  define budget where "budget = 64 + (case ad_context d of None \<Rightarrow> 0 | Some a \<Rightarrow> as_estimated_tokens a) + multimodal_token_estimate messages"
  obtain q where q: "build_request (sample_parameters budget) sample_bundle d messages = Inr q"
    by (simp add: build_request_def sample_parameters_def budget_def Let_def)
  have "memory_context sample_isof None (lit ''hi'') sample_settings = Inr ([], [], None)" by (simp add: memory_context_def)
  from untrusted_text_stays_apart[OF this c(1) d disjI1[OF refl] m q, of blind_model]
  have "\<exists>standing \<in> set (standing_instructions sample_persona). mq_instructions (request_for_capabilities q blind_model) =
      join [10] (filter (\<lambda>part. part \<noteq> []) [untrusted_context_policy, lit ''p'', [], standing])"
    by (simp add: sample_bundle_def sample_parameters_def)
  with d q show ?thesis by blast
qed

end
