(* ===== verification/Spec2Isabelle.thy ===== *)
theory Spec2Isabelle
  imports Task_Contracts Task_Calls Task_Execution Policy_Gate Cognitive_Context Prompt_Properties Memory_Properties Config_Properties Handler_Boundary
    Secret_Properties Conversation_Properties Request_Safety
begin

text \<open>
  A verification library of the Cyber Netizen Bot, an anthropomorphic chat agent: a Python monorepo
  with the packages \<open>cnb_domain\<close> (data), \<open>cnb_cognition\<close> (deterministic reasoning around the language
  model), \<open>cnb_application\<close> (use cases), \<open>cnb_infrastructure\<close> (PostgreSQL and in-memory repositories)
  and \<open>cnb_adapters\<close> (channels). The library models the logic that must be right whatever the model
  answers: conversations and their events, reliable background tasks, long-term memory and reflection,
  runtime configuration with its secrets, and the deterministic kernel of the agent. Paths below are relative to \<open>packages/\<close>.

  \<^bold>\<open>Conventions.\<close> A string is its list of code points, a UUID a number, a \<open>datetime\<close> the microseconds
  since the epoch, a Python dictionary an association list in insertion order, a raised exception
  the \<open>Inl\<close> of a sum type or an error constructor (\<open>Prelude\<close>, \<open>Json\<close>). Floats are the rationals that
  binary64 can hold, each operation rounded to nearest even (\<open>Binary64\<close>); infinities and NaN are
  outside the model. \<open>uuid4()\<close> and the clock are arguments. A coroutine that holds the repository's lock,
  or one database transaction, is one function of the state, so interleavings are sequences of calls.

  \<^bold>\<open>Conversations\<close> (\<open>domain conversation.py\<close>, \<open>infrastructure conversation_repository.py\<close>, the WebSocket of
  \<open>apps/api routes/conversation.py\<close>). \<open>Conversation_Domain\<close> has the records, \<open>Conversation_Store\<close> every method
  of \<open>MemoryConversationRepository\<close> as a function of the record \<open>conversation_store\<close>. \<open>Conversation_Invariant\<close>
  has a normal form of its writes, what a reader makes of the events (\<open>replay_text\<close>, \<open>replay_status\<close>), the
  invariant \<open>conversations_ok\<close> and the relation \<open>follows\<close> between a store and a later one;
  \<open>Conversation_Runs\<close> and \<open>Conversation_Growth\<close> show both for the methods that continue and that begin a
  run. \<open>Conversation_Machine\<close> makes the methods a step relation and proves the contract \<open>event_source\<close>,
  on which the loop of the WebSocket rests. \<open>Conversation_Properties\<close> states what clients rely on: events
  rebuild a conversation, the socket sends each once, ended replies are final, repeated sends begin
  nothing, branches copy a prefix, strangers change nothing (\<open>Conversation_Example\<close> has the store of its
  witnesses).

  \<^bold>\<open>Running the agent\<close> (\<open>application conversation_service.py, multimodal_service.py\<close>, \<open>cognition model.py\<close>).
  \<open>Model_Input\<close> loads and checks attachments, \<open>Conversation_Request\<close> turns a thread, recalled memory and the
  runtime's decision into a request, \<open>Conversation_Execution\<close> executes a run (\<open>execute_run\<close>: attempts with the
  circuit breaker, streaming into the reply, reflection afterwards) and has the other methods of the service.
  The service is a function of a \<open>run_world\<close>: what other clients did to the store before each await, where
  the task is cancelled, and what providers stream; what the configuration, cognition and memory services
  answer is the record \<open>collaborators\<close>. \<open>Execution_Safety\<close> shows that the invariant of the store survives
  every interference and that every execution ends its run; \<open>Request_Safety\<close> that text of users, memory
  and attachments reaches the model only inside envelopes and never among the instructions.

  \<^bold>\<open>Tasks\<close> (\<open>domain tasks.py\<close>, \<open>application task_service.py\<close>, \<open>infrastructure task_repository.py\<close> and
  the task tables of \<open>models.py\<close>). \<open>Task_Domain\<close> has the records and enumerations, \<open>Task_Store\<close>,
  \<open>Task_Lease\<close> the methods of \<open>InMemoryTaskRepository\<close> as state transformers over the
  record \<open>task_store\<close>. \<open>Task_Invariant\<close>, \<open>Task_Preserve\<close>, \<open>Task_Recovery\<close> show that every
  method keeps the invariant \<open>store_ok\<close>; \<open>Task_Machine\<close> makes the methods a step relation and
  \<open>Task_Guarantees\<close> proves the contract \<open>leased_queue\<close> of a queue worked on under leases.
  \<open>Task_Properties\<close> and \<open>Task_Contracts\<close> state what clients rely on: exclusive leases, fenced attempts,
  recovery, numbered attempts, idempotent enqueueing, publishers that never collide, tenant
  isolation, the daily budget. \<open>Task_Service\<close>, \<open>Task_Service_Properties\<close>, \<open>Task_Scheduling\<close> and
  \<open>Task_Execution\<close> model \<open>BackgroundTaskService\<close> and \<open>ScheduledActionService\<close> on top of it, the outcome of
  one execution included. \<open>Task_Rows\<close>, \<open>Task_Sql\<close> model
  \<open>SqlAlchemyTaskRepository\<close>: rows, column widths, check, unique and foreign key constraints, commit and
  rollback; \<open>Task_Tables\<close>, \<open>Task_Refinement\<close>, \<open>Task_Refinement_Commands\<close> and
  \<open>Task_Calls\<close> prove that a committed call refines the in-memory method, for the callers that
  \<open>call_ok\<close> describes and while no other transaction holds row locks. Parameters there: \<open>known\<close>
  (rows of tables outside the subsystem), the order in which a query visits rows, rows locked by others,
  and \<open>isoformat\<close>.

  \<^bold>\<open>Memory\<close> (\<open>domain memory.py\<close>, \<open>application memory_service.py\<close>, \<open>infrastructure memory_repository.py\<close>).
  \<open>Memory_Domain\<close> has the records, \<open>Memory_Ranker\<close> the hash embedding and the hybrid ranking,
  \<open>Memory_Store\<close> the in-memory repository, \<open>Memory_Service\<close> the service over any repository (a record of
  operations), \<open>Memory_Rows\<close> and \<open>Memory_Sql\<close> the SQL repository with the constraints of its tables
  (\<open>Sql_Base\<close>). \<open>Memory_Machine\<close> states the contracts of a repository as locales; \<open>Memory_Integrity\<close>,
  \<open>Memory_Preserve\<close> and \<open>Memory_Guarantees\<close> interpret them on both repositories, \<open>Memory_Properties\<close> has
  the results: recall is isolated, a forgotten memory stays forgotten, one active version per lineage.

  \<^bold>\<open>Reflection and handlers\<close> (\<open>cognition reflection.py\<close>, \<open>application task_handlers.py\<close>). \<open>Reflection\<close> is
  the deterministic engine, \<open>Reflection_Plan\<close> what its plans look like; \<open>Handler_Payload\<close>,
  \<open>Handler_Settings\<close> and \<open>Task_Handlers\<close> model the handlers that workers run, with the memory service
  underneath. \<open>Handler_Properties\<close>, \<open>Handler_Reflection\<close>, \<open>Handler_Boundary\<close> compose them: what a
  message with credentials leaves behind beyond its markers is nothing, the reflection of a message
  with a visible character ends with a result, asking not to be contacted stops pending contact.

  \<^bold>\<open>Configuration and secrets\<close> (\<open>domain configuration.py\<close>, \<open>application configuration_registry.py,
  configuration_service.py, alert_policy.py\<close>, \<open>infrastructure configuration_repository.py,
  secret_store.py\<close>). \<open>Config_Domain\<close> has the data, \<open>Config_Registry\<close> the validation of values and webhook
  addresses, \<open>Config_Defaults\<close> the 130 built-in definitions, \<open>Config_Store\<close> the in-memory repository and
  \<open>Config_Service\<close> every method of \<open>ConfigurationService\<close>. \<open>Config_Effective\<close> (history of versions,
  precedence and validity of effective values), \<open>Config_Diff\<close> (exact differences) hold
  the lemmas behind \<open>Config_Properties\<close>. \<open>Alert_Policy\<close> and \<open>Alert_Properties\<close> are the escalation and
  on-call policy, \<open>Secret_Store\<close> and \<open>Secret_Properties\<close> the secret store over any authenticated cipher.
  Parameters: \<open>urlsplit\<close>, IP address classes and time zones of the standard library, AES-GCM.

  \<^bold>\<open>Cognition\<close> (\<open>cognition policy.py, proactive.py, context.py, persona.py, runtime.py, prompt_security.py\<close>).
  \<open>Persona\<close> is the affect of the agent, \<open>Cognitive_Runtime\<close> the pipeline from an event to a decision with
  \<open>Cognitive_Properties\<close> and \<open>Cognitive_Context\<close> about it, \<open>Prompt_Envelope\<close> and \<open>Prompt_Properties\<close> the
  envelope that keeps untrusted text apart from instructions. \<open>Policy_Gate\<close> is the deterministic gate
  over action candidates, \<open>Proactive\<close> the scoring and hard limits of proactive messages,
  \<open>Context_Assembly\<close>, \<open>Context_Compression\<close> and \<open>Context_Properties\<close> the token budget, truncation and
  hierarchical summaries. SHA-256 and the credential patterns are the parameters \<open>digest\<close> and \<open>redact\<close>.

  \<^bold>\<open>Termination and fuel.\<close> Loops over collections are structural; the binary search of the truncation, the
  climbing of summary levels and the replay chain have measures. Only the scanner of JSON that reads a
  prompt envelope back has fuel, linear in the length of its input, shown to be enough for every envelope. The loop of the
  WebSocket never ends by itself, so its rounds are steps of a relation.

  \<^bold>\<open>Not modelled.\<close> Network and process boundaries (HTTP routes, model providers, SMTP, MinIO, OIDC,
  Dramatiq), presentation, the SQL repositories of conversations and configuration, SQL aggregation
  queries of observability, evaluation and administration, channels, and the third-party packages named
  above. The manifest lists every part.
\<close>

end
